(* ===== verification/Prelude.thy ===== *)
theory Prelude
  imports Main "HOL-Library.Word" "HOL-Library.Monad_Syntax"
begin

text \<open>
  Shared vocabulary of the development.

  The C++ code keeps its state in \<open>std::map\<close> members keyed by \<open>uint32_t\<close>, hands out
  raw pointers into them and iterates over them in key order.  This theory models such a map
  as a key-sorted association list (\<open>om_put\<close>, \<open>om_erase\<close>, \<open>om_find\<close>), states the
  contract as the locale \<open>ordered_map\<close>, and interprets it.  It also holds the
  fixed-width integer types, the clock type, \<open>std::to_string\<close> on unsigned integers,
  the vector idioms of the code, the locale \<open>registry\<close> (an add/get/remove interface
  with caller-chosen or automatic ids) and the locale \<open>step_system\<close> that lifts an
  invariant of single operations to every sequence of operations.
\<close>

section \<open>Machine types\<close>

type_synonym u8 = "8 word"
type_synonym u32 = "32 word"
type_synonym u64 = "64 word"

text \<open>
  \<open>std::chrono::high_resolution_clock::time_point\<close>: a count of nanoseconds.  An operation
  that reads the clock takes the reading as its argument \<open>now\<close>.
\<close>

type_synonym time_point = int

named_theorems map_laws \<open>lookup after an update of an ordered map\<close>
named_theorems om_ok \<open>operations that keep an ordered map key-sorted\<close>

section \<open>std::map as a key-sorted association list\<close>

type_synonym ('k, 'v) omap = "('k \<times> 'v) list"

definition om_find :: "('k, 'v) omap \<Rightarrow> 'k \<Rightarrow> 'v option" where
  "om_find m k = map_of m k"

fun om_put :: "'k::linorder \<Rightarrow> 'v \<Rightarrow> ('k, 'v) omap \<Rightarrow> ('k, 'v) omap" where
  "om_put k v [] = [(k, v)]"
| "om_put k v ((a, b) # m) =
     (if k < a then (k, v) # (a, b) # m
      else if k = a then (k, v) # m
      else (a, b) # om_put k v m)"

definition om_erase :: "'k \<Rightarrow> ('k, 'v) omap \<Rightarrow> ('k, 'v) omap" where
  "om_erase k m = filter (\<lambda>p. fst p \<noteq> k) m"

text \<open>\<open>m[k]\<close> read with a value-initialised default, without the insertion.\<close>

definition om_get :: "'v \<Rightarrow> ('k, 'v) omap \<Rightarrow> 'k \<Rightarrow> 'v" where
  "om_get d m k = (case om_find m k of None \<Rightarrow> d | Some v \<Rightarrow> v)"

text \<open>A write through a pointer returned by \<open>find\<close>: nothing happens on a null pointer.\<close>

definition om_upd :: "'k::linorder \<Rightarrow> ('v \<Rightarrow> 'v) \<Rightarrow> ('k, 'v) omap \<Rightarrow> ('k, 'v) omap" where
  "om_upd k f m = (case om_find m k of None \<Rightarrow> m | Some v \<Rightarrow> om_put k (f v) m)"

text \<open>The keys in iteration order, and the loop \<open>for (auto& pair : m) pair.second = f(pair)\<close>.\<close>

definition om_keys :: "('k, 'v) omap \<Rightarrow> 'k list" where
  "om_keys m = map fst m"

definition om_values :: "('k, 'v) omap \<Rightarrow> 'v list" where
  "om_values m = map snd m"

definition om_map :: "('k \<Rightarrow> 'v \<Rightarrow> 'w) \<Rightarrow> ('k, 'v) omap \<Rightarrow> ('k, 'w) omap" where
  "om_map f m = map (\<lambda>(k, v). (k, f k v)) m"

definition om_sorted :: "('k::linorder, 'v) omap \<Rightarrow> bool" where
  "om_sorted m \<longleftrightarrow> sorted_wrt (<) (map fst m)"

lemma om_find_Nil [simp]: "om_find [] k = None"
  by (simp add: om_find_def)

lemma om_find_put [simp, map_laws]:
  "om_find (om_put k v m) j = (if j = k then Some v else om_find m j)"
  by (induction k v m rule: om_put.induct) (auto simp: om_find_def)

lemma om_find_erase [simp, map_laws]:
  "om_find (om_erase k m) j = (if j = k then None else om_find m j)"
  by (induction m) (auto simp: om_find_def om_erase_def)

lemma om_find_upd [map_laws]:
  "om_find (om_upd k f m) j = (if j = k then map_option f (om_find m k) else om_find m j)"
  by (auto simp: om_upd_def split: option.splits)

lemma om_find_map [simp, map_laws]:
  "om_find (om_map f m) k = map_option (f k) (om_find m k)"
  by (induction m) (auto simp: om_find_def om_map_def)

lemma om_sorted_Nil [simp, om_ok]: "om_sorted []"
  by (simp add: om_sorted_def)

lemma set_keys_put: "set (map fst (om_put k v m)) = insert k (set (map fst m))"
  by (induction k v m rule: om_put.induct) auto

lemma set_om_put: "set (om_put k v m) \<subseteq> insert (k, v) (set m)"
  by (induction k v m rule: om_put.induct) auto

lemma om_sorted_put [simp, om_ok]: "om_sorted m \<Longrightarrow> om_sorted (om_put k v m)"
proof (induction k v m rule: om_put.induct)
  case (1 k v)
  show ?case by (simp add: om_sorted_def)
next
  case (2 k v a b m)
  then show ?case
    using set_keys_put [of k v m] by (auto simp: om_sorted_def)
qed

lemma om_sorted_erase [simp, om_ok]: "om_sorted m \<Longrightarrow> om_sorted (om_erase k m)"
  by (induction m) (auto simp: om_sorted_def om_erase_def)

lemma om_sorted_upd [simp, om_ok]: "om_sorted m \<Longrightarrow> om_sorted (om_upd k f m)"
  by (simp add: om_upd_def split: option.splits)

lemma om_keys_map [simp]: "om_keys (om_map f m) = om_keys m"
  by (auto simp: om_keys_def om_map_def)

lemma om_sorted_map [simp, om_ok]: "om_sorted (om_map f m) = om_sorted m"
proof -
  have "map fst (om_map f m) = map fst m" by (auto simp: om_map_def)
  then show ?thesis by (simp add: om_sorted_def)
qed

lemma om_sorted_distinct: "om_sorted m \<Longrightarrow> distinct (map fst m)"
  by (auto simp: om_sorted_def strict_sorted_iff)

lemma om_find_Some_iff: "om_sorted m \<Longrightarrow> om_find m k = Some v \<longleftrightarrow> (k, v) \<in> set m"
  by (simp add: om_find_def om_sorted_distinct)

lemma om_find_filter: "om_sorted m \<Longrightarrow> om_find (filter Q m) k = Some v \<Longrightarrow> om_find m k = Some v"
  by (induction m) (auto simp: om_find_def om_sorted_def split: if_splits dest!: map_of_SomeD)

lemma om_sorted_filter [om_ok]: "om_sorted m \<Longrightarrow> om_sorted (filter Q m)"
  by (induction m) (auto simp: om_sorted_def)

lemma om_find_None_iff: "om_find m k = None \<longleftrightarrow> k \<notin> fst ` set m"
  by (simp add: om_find_def map_of_eq_None_iff)

text \<open>Two key-sorted lists with the same lookups are the same list.\<close>

lemma om_ext:
  assumes "om_sorted m" "om_sorted n" and eq: "\<And>k. om_find m k = om_find n k"
  shows "m = n"
proof (rule map_sorted_distinct_set_unique [where f = fst])
  show "set m = set n"
    using assms by (auto simp: om_find_Some_iff [symmetric])
  show "inj_on fst (set m \<union> set n)"
    using \<open>set m = set n\<close> om_sorted_distinct [OF assms(1)]
    by (auto simp: distinct_map)
qed (use assms om_sorted_distinct in \<open>auto simp: om_sorted_def strict_sorted_iff distinct_map\<close>)

subsection \<open>Sums over a map\<close>

definition om_wsum :: "('k \<Rightarrow> 'v \<Rightarrow> 'a::comm_monoid_add) \<Rightarrow> ('k, 'v) omap \<Rightarrow> 'a" where
  "om_wsum f m = sum_list (map (\<lambda>p. f (fst p) (snd p)) m)"

definition om_sum :: "('v \<Rightarrow> 'a::comm_monoid_add) \<Rightarrow> ('k, 'v) omap \<Rightarrow> 'a" where
  "om_sum f m = om_wsum (\<lambda>_. f) m"

lemma om_wsum_Nil [simp]: "om_wsum f [] = 0"
  by (simp add: om_wsum_def)

lemma om_wsum_put:
  fixes f :: "'k::linorder \<Rightarrow> 'v \<Rightarrow> 'a::comm_ring"
  assumes "om_sorted m"
  shows "om_wsum f (om_put k v m)
           = om_wsum f m + f k v - (case om_find m k of None \<Rightarrow> 0 | Some u \<Rightarrow> f k u)"
  using assms
proof (induction k v m rule: om_put.induct)
  case (1 k v)
  show ?case by (simp add: om_wsum_def)
next
  case (2 k v a b m)
  have fresh: "om_find m k = None" if "k < a"
    using that "2.prems" by (auto simp: om_find_None_iff om_sorted_def)
  consider "k < a" | "k = a" | "a < k" by force
  then show ?case
  proof cases
    case 1
    then show ?thesis using fresh by (auto simp: om_wsum_def om_find_def)
  next
    case 2
    then show ?thesis by (simp add: om_wsum_def om_find_def)
  next
    case 3
    then have "om_wsum f (om_put k v m)
        = om_wsum f m + f k v - (case om_find m k of None \<Rightarrow> 0 | Some u \<Rightarrow> f k u)"
      using 2 by (auto simp: om_sorted_def)
    with 3 show ?thesis by (auto simp: om_wsum_def om_find_def algebra_simps)
  qed
qed

lemma om_wsum_erase:
  fixes f :: "'k::linorder \<Rightarrow> 'v \<Rightarrow> 'a::comm_ring"
  assumes "om_sorted m"
  shows "om_wsum f (om_erase k m)
           = om_wsum f m - (case om_find m k of None \<Rightarrow> 0 | Some u \<Rightarrow> f k u)"
  using assms
proof (induction m)
  case (Cons p m)
  have "om_erase k m = m \<and> om_find m k = None" if "fst p = k"
    using Cons.prems that by (auto simp: om_sorted_def om_erase_def om_find_None_iff filter_id_conv)
  then show ?case
    using Cons by (cases "fst p = k") (auto simp: om_sorted_def om_wsum_def om_find_def om_erase_def)
qed (simp add: om_erase_def)

lemma om_sum_put:
  fixes f :: "'v \<Rightarrow> 'a::comm_ring"
  shows "om_sorted m \<Longrightarrow> om_sum f (om_put k v m)
           = om_sum f m + f v - (case om_find m k of None \<Rightarrow> 0 | Some u \<Rightarrow> f u)"
  by (simp add: om_sum_def om_wsum_put)

lemma om_sum_upd:
  fixes f :: "'v \<Rightarrow> 'a::comm_ring"
  assumes "om_sorted m"
  shows "om_sum f (om_upd k g m)
           = om_sum f m + (case om_find m k of None \<Rightarrow> 0 | Some v \<Rightarrow> f (g v) - f v)"
  using om_sum_put [OF assms, of f k] by (simp add: om_upd_def split: option.splits)

lemma om_sum_Nil [simp]: "om_sum f [] = 0"
  by (simp add: om_sum_def)

lemma om_get_put [simp]: "om_get d (om_put k v m) j = (if j = k then v else om_get d m j)"
  by (simp add: om_get_def)

lemma om_get_Some: "om_find m k = Some v \<Longrightarrow> om_get d m k = v"
  by (simp add: om_get_def)

lemma length_om_put:
  assumes "om_sorted m"
  shows "length (om_put k v m) = (if om_find m k = None then Suc (length m) else length m)"
  using assms
proof (induction k v m rule: om_put.induct)
  case (1 k v)
  show ?case by simp
next
  case (2 k v a b m)
  have "om_find m k = None" if "k < a"
    using that "2.prems" by (auto simp: om_find_None_iff om_sorted_def)
  with 2 show ?case by (auto simp: om_find_def om_sorted_def)
qed

lemma length_om_erase:
  assumes "om_sorted m"
  shows "length (om_erase k m) = (if om_find m k = None then length m else length m - 1)"
proof -
  have "length (om_erase k m) = length (filter (\<lambda>a. a \<noteq> k) (map fst m))"
    by (simp add: om_erase_def filter_map comp_def)
  also have "\<dots> = length (removeAll k (map fst m))"
    by (simp add: removeAll_filter_not_eq neq_commute)
  also have "\<dots> = length (remove1 k (map fst m))"
    by (simp add: distinct_remove1_removeAll om_sorted_distinct assms)
  also have "\<dots> = (if k \<in> fst ` set m then length m - 1 else length m)"
    by (simp add: length_remove1)
  finally show ?thesis by (simp add: om_find_None_iff)
qed

section \<open>The contract of an ordered map\<close>

locale ordered_map =
  fixes find :: "'m \<Rightarrow> 'k::linorder \<Rightarrow> 'v option"
    and put :: "'k \<Rightarrow> 'v \<Rightarrow> 'm \<Rightarrow> 'm"
    and erase :: "'k \<Rightarrow> 'm \<Rightarrow> 'm"
    and entries :: "'m \<Rightarrow> ('k \<times> 'v) list"
    and ok :: "'m \<Rightarrow> bool"
  assumes find_put: "find (put k v m) j = (if j = k then Some v else find m j)"
    and find_erase: "find (erase k m) j = (if j = k then None else find m j)"
    and ok_put: "ok m \<Longrightarrow> ok (put k v m)"
    and ok_erase: "ok m \<Longrightarrow> ok (erase k m)"
    and entries_find: "ok m \<Longrightarrow> (k, v) \<in> set (entries m) \<longleftrightarrow> find m k = Some v"
    and entries_sorted: "ok m \<Longrightarrow> sorted_wrt (<) (map fst (entries m))"
    and find_ext: "ok m \<Longrightarrow> ok n \<Longrightarrow> (\<And>k. find m k = find n k) \<Longrightarrow> m = n"
begin

lemma put_put: "ok m \<Longrightarrow> put k v (put k w m) = put k v m"
  by (rule find_ext) (auto simp: find_put ok_put)

lemma put_commute: "ok m \<Longrightarrow> k \<noteq> j \<Longrightarrow> put k v (put j w m) = put j w (put k v m)"
  by (rule find_ext) (auto simp: find_put ok_put)

lemma erase_put_fresh: "ok m \<Longrightarrow> find m k = None \<Longrightarrow> erase k (put k v m) = m"
  by (rule find_ext) (auto simp: find_put find_erase ok_put ok_erase)

lemma put_find_id: "ok m \<Longrightarrow> find m k = Some v \<Longrightarrow> put k v m = m"
  by (rule find_ext) (auto simp: find_put ok_put)

lemma erase_absent: "ok m \<Longrightarrow> find m k = None \<Longrightarrow> erase k m = m"
  by (rule find_ext) (auto simp: find_erase ok_erase)

end

interpretation om: ordered_map om_find om_put om_erase "\<lambda>m. m" om_sorted
  by unfold_locales (auto simp: om_find_Some_iff om_sorted_def [symmetric] intro: om_ext)


section \<open>Registries: add, get and remove by id\<close>

text \<open>
  Items, merchants, quests, skills and achievements all live in a map with the same
  interface.  \<open>add\<close> does nothing until the owning system is initialised
  (\<open>ready\<close>); an entry whose id is 0 receives the next automatic id, any other entry is
  stored under the id it carries, replacing what is there.
\<close>

locale registry =
  fixes get :: "'s \<Rightarrow> u32 \<Rightarrow> 'v option"
    and add :: "'v \<Rightarrow> 's \<Rightarrow> 's"
    and remove :: "u32 \<Rightarrow> 's \<Rightarrow> 's"
    and ready :: "'s \<Rightarrow> bool"
    and next_id :: "'s \<Rightarrow> u32"
    and id_of :: "'v \<Rightarrow> u32"
    and stored :: "u32 \<Rightarrow> 'v \<Rightarrow> 'v"
  assumes add_not_ready: "\<not> ready s \<Longrightarrow> add v s = s"
    and ready_add: "ready (add v s) = ready s"
    and next_add: "ready s \<Longrightarrow>
          next_id (add v s) = (if id_of v = 0 then next_id s + 1 else next_id s)"
    and get_add: "ready s \<Longrightarrow>
          get (add v s) j =
            (let k = (if id_of v = 0 then next_id s else id_of v)
             in if j = k then Some (stored k v) else get s j)"
    and get_remove: "get (remove k s) j = (if j = k then None else get s j)"
    and next_remove: "next_id (remove k s) = next_id s"
begin

lemma get_add_explicit:
  "ready s \<Longrightarrow> id_of v \<noteq> 0 \<Longrightarrow> get (add v s) (id_of v) = Some (stored (id_of v) v)"
  by (simp add: get_add)

lemma get_add_auto:
  "ready s \<Longrightarrow> id_of v = 0 \<Longrightarrow> get (add v s) (next_id s) = Some (stored (next_id s) v)"
  by (simp add: get_add)

lemma remove_add:
  "ready s \<Longrightarrow> get s k = None \<Longrightarrow> k = (if id_of v = 0 then next_id s else id_of v) \<Longrightarrow>
     get (remove k (add v s)) j = get s j"
  by (auto simp: get_remove get_add Let_def)

text \<open>
  Automatic ids do not look at the map: an entry stored under the id the counter is about
  to hand out is replaced by the next automatic entry.
\<close>

lemma auto_id_overwrites:
  assumes "ready s" "id_of v = next_id s" "next_id s \<noteq> 0" "id_of w = 0"
  shows "get (add w (add v s)) (id_of v) = Some (stored (id_of v) w)"
  using assms by (simp add: get_add ready_add next_add)

text \<open>As long as no explicit id is used, the automatic ids of a run are fresh.\<close>

lemma get_adds_auto:
  assumes "ready s" "\<forall>v \<in> set vs. id_of v = 0" "length vs < 2 ^ 32"
  shows "ready (fold add vs s)
     \<and> next_id (fold add vs s) = next_id s + of_nat (length vs)
     \<and> (\<forall>i < length vs. get (fold add vs s) (next_id s + of_nat i)
            = Some (stored (next_id s + of_nat i) (vs ! i)))"
  using assms
proof (induction vs rule: rev_induct)
  case Nil
  then show ?case by simp
next
  case (snoc v vs)
  let ?s = "fold add vs s"
  have IH: "ready ?s" "next_id ?s = next_id s + of_nat (length vs)"
    "\<forall>i < length vs. get ?s (next_id s + of_nat i)
       = Some (stored (next_id s + of_nat i) (vs ! i))"
    using snoc by auto
  have ne: "(of_nat i :: u32) \<noteq> of_nat (length vs)" if "i < length vs" for i
    using that snoc.prems(3) by (auto simp: word_of_nat_eq_iff take_bit_nat_eq_self)
  show ?case
    using IH snoc.prems ne by (auto simp: get_add ready_add next_add nth_append less_Suc_eq)
qed

end

section \<open>Operation sequences\<close>

text \<open>
  \<open>step op s = None\<close> is an execution with undefined behaviour (a float-to-integer cast out
  of range, a division by zero, a read outside a buffer).
\<close>

fun run :: "('op \<Rightarrow> 's \<Rightarrow> 's option) \<Rightarrow> 'op list \<Rightarrow> 's \<Rightarrow> 's option" where
  "run f [] s = Some s"
| "run f (x # xs) s = (case f x s of None \<Rightarrow> None | Some t \<Rightarrow> run f xs t)"

text \<open>\<open>run\<close> is also the loop of the code whose body may have undefined behaviour.\<close>

lemma run_invariant:
  "P s \<Longrightarrow> (\<And>x s t. x \<in> set xs \<Longrightarrow> P s \<Longrightarrow> f x s = Some t \<Longrightarrow> P t) \<Longrightarrow>
     run f xs s = Some t \<Longrightarrow> P t"
proof (induction xs arbitrary: s)
  case Nil
  then show ?case by simp
next
  case (Cons x xs)
  then obtain u where u: "f x s = Some u" "run f xs u = Some t" by (auto split: option.splits)
  have "P u" using Cons.prems(1,2) u(1) by (meson list.set_intros(1))
  then show ?case using Cons.prems(2) u(2) by (intro Cons.IH [of u]) auto
qed

lemma run_progress:
  "P s \<Longrightarrow> (\<And>x s. x \<in> set xs \<Longrightarrow> P s \<Longrightarrow> \<exists>t. f x s = Some t \<and> P t) \<Longrightarrow>
     \<exists>t. run f xs s = Some t \<and> P t"
proof (induction xs arbitrary: s)
  case Nil
  then show ?case by simp
next
  case (Cons x xs)
  then obtain u where "f x s = Some u" "P u" by (meson list.set_intros(1))
  with Cons show ?case by simp
qed

lemma run_append: "run f (xs @ ys) s = Option.bind (run f xs s) (run f ys)"
  by (induction xs arbitrary: s) (auto split: option.splits)

locale step_system =
  fixes step :: "'op \<Rightarrow> 's \<Rightarrow> 's option"
    and inv :: "'s \<Rightarrow> bool"
    and allowed :: "'op \<Rightarrow> bool"
  assumes step_inv: "inv s \<Longrightarrow> allowed x \<Longrightarrow> step x s = Some t \<Longrightarrow> inv t"
begin

lemma run_inv: "inv s \<Longrightarrow> list_all allowed xs \<Longrightarrow> run step xs s = Some t \<Longrightarrow> inv t"
  by (rule run_invariant [of inv]) (auto simp: list_all_iff dest: step_inv)

end

text \<open>A system in which the allowed operations are also free of undefined behaviour.\<close>

locale safe_system = step_system step inv allowed
  for step :: "'op \<Rightarrow> 's \<Rightarrow> 's option" and inv :: "'s \<Rightarrow> bool" and allowed :: "'op \<Rightarrow> bool" +
  assumes step_safe: "inv s \<Longrightarrow> allowed x \<Longrightarrow> step x s \<noteq> None"
begin

lemma run_safe: "inv s \<Longrightarrow> list_all allowed xs \<Longrightarrow> \<exists>t. run step xs s = Some t \<and> inv t"
  using run_progress [of inv s xs step] step_safe step_inv
  by (metis list_all_iff not_None_eq)

end

text \<open>
  A system with a counter (the next id to hand out) that every step raises by at most one; the
  invariant survives as long as the counter cannot reach its bound.
\<close>

locale counted_system =
  fixes step :: "'op \<Rightarrow> 's \<Rightarrow> 's option"
    and inv :: "'s \<Rightarrow> bool"
    and allowed :: "'op \<Rightarrow> bool"
    and count :: "'s \<Rightarrow> nat"
    and bound :: nat
  assumes step_count: "inv s \<Longrightarrow> allowed x \<Longrightarrow> count s + 1 < bound \<Longrightarrow> step x s = Some t \<Longrightarrow>
            inv t \<and> count t \<le> count s + 1"
begin

lemma run_count:
  "inv s \<Longrightarrow> list_all allowed xs \<Longrightarrow> count s + length xs < bound \<Longrightarrow> run step xs s = Some t \<Longrightarrow>
     inv t \<and> count t \<le> count s + length xs"
proof (induction xs arbitrary: s)
  case Nil
  then show ?case by simp
next
  case (Cons x xs)
  then obtain u where u: "step x s = Some u" "run step xs u = Some t" by (auto split: option.splits)
  have "inv u \<and> count u \<le> count s + 1" using Cons.prems u(1) by (intro step_count [of s x]) auto
  with Cons.IH [of u] Cons.prems u(2) show ?case by fastforce
qed

end

section \<open>Codecs\<close>

text \<open>Encoders whose decoder gives back every valid value.\<close>

locale codec =
  fixes enc :: "'a \<Rightarrow> 'b" and dec :: "'b \<Rightarrow> 'a option" and valid :: "'a \<Rightarrow> bool"
  assumes dec_enc: "valid x \<Longrightarrow> dec (enc x) = Some x"
begin

lemma enc_inj: "valid x \<Longrightarrow> valid y \<Longrightarrow> enc x = enc y \<Longrightarrow> x = y"
  using dec_enc by (metis option.inject)

end

text \<open>
  A self-delimiting encoding into a list: the parser takes one value off the front and
  returns the rest, so that a concatenation of encodings parses back.
\<close>

fun parse_all :: "nat \<Rightarrow> ('b list \<Rightarrow> ('a \<times> 'b list) option) \<Rightarrow> 'b list \<Rightarrow> 'a list" where
  "parse_all 0 p bs = []"
| "parse_all (Suc n) p bs =
     (if bs = [] then []
      else case p bs of None \<Rightarrow> [] | Some (x, rest) \<Rightarrow> x # parse_all n p rest)"

locale stream_codec =
  fixes enc1 :: "'a \<Rightarrow> 'b list" and parse1 :: "'b list \<Rightarrow> ('a \<times> 'b list) option"
    and valid :: "'a \<Rightarrow> bool"
  assumes parse_enc: "valid x \<Longrightarrow> parse1 (enc1 x @ rest) = Some (x, rest)"
    and enc_nonempty: "valid x \<Longrightarrow> enc1 x \<noteq> []"
begin

lemma parse_all_enc:
  "\<forall>x \<in> set xs. valid x \<Longrightarrow> length xs \<le> n \<Longrightarrow>
     parse_all n parse1 (concat (map enc1 xs)) = xs"
proof (induction xs arbitrary: n)
  case Nil
  then show ?case by (cases n) auto
next
  case (Cons x xs)
  then obtain m where "n = Suc m" "length xs \<le> m" by (cases n) auto
  with Cons show ?case by (simp add: parse_enc enc_nonempty)
qed

end

section \<open>Text\<close>

fun dec_string :: "nat \<Rightarrow> string" where
  "dec_string n = (if n < 10 then [char_of (48 + n)]
                   else dec_string (n div 10) @ [char_of (48 + n mod 10)])"

declare dec_string.simps [simp del]

text \<open>\<open>std::to_string\<close> on \<open>uint32_t\<close>.\<close>

definition to_string_u32 :: "u32 \<Rightarrow> string" where
  "to_string_u32 n = dec_string (unat n)"

definition dec_value :: "string \<Rightarrow> nat" where
  "dec_value cs = fold (\<lambda>c a. 10 * a + (of_char c - 48)) cs 0"

lemma dec_value_string: "dec_value (dec_string n) = n"
proof (induction n rule: dec_string.induct)
  case (1 n)
  have d: "of_char (char_of (48 + m) :: char) = (48 + m :: nat)" if "m < 10" for m :: nat
    using that by (simp add: of_char_of)
  show ?case
  proof (cases "n < 10")
    case True
    then show ?thesis using d by (simp add: dec_string.simps [of n] dec_value_def)
  next
    case False
    then have "dec_value (dec_string n) = 10 * dec_value (dec_string (n div 10)) + n mod 10"
      using d [of "n mod 10"] by (simp add: dec_string.simps [of n] dec_value_def)
    with 1 False show ?thesis by simp
  qed
qed

lemma to_string_u32_inject [simp]: "to_string_u32 m = to_string_u32 n \<longleftrightarrow> m = n"
proof
  assume "to_string_u32 m = to_string_u32 n"
  then have "dec_value (to_string_u32 m) = dec_value (to_string_u32 n)" by simp
  then show "m = n" by (simp add: to_string_u32_def dec_value_string word_unat_eq_iff)
qed simp

section \<open>Words\<close>

lemma unat_add_no_wrap:
  fixes a b :: "'a::len word"
  shows "unat a + unat b < 2 ^ LENGTH('a) \<Longrightarrow> unat (a + b) = unat a + unat b"
  by (rule unat_add_lem [THEN iffD1])

lemma unat_sub_le: "(b :: 'a::len word) \<le> a \<Longrightarrow> unat (a - b) = unat a - unat b"
  by (rule unat_sub)

lemma unat_plus_one:
  fixes a b :: "'a::len word"
  assumes "a < b"
  shows "unat (a + 1) = unat a + 1"
proof (rule unatSuc [of a, simplified add.commute [of 1] Suc_eq_plus1])
  show "a + 1 \<noteq> 0"
    using assms max_word_wrap [of a] word_order.extremum [of b] by (auto simp: not_le [symmetric])
qed

end
