(* ===== verification/Floats.thy ===== *)
theory Floats
  imports Prelude Complex_Main
begin

text \<open>
  IEEE 754 binary floating point, as the C++ code uses it: \<open>float\<close> (24 significant bits)
  and \<open>double\<close> (53), round to nearest, ties to even.  A finite number is a rational;
  the two zeros are one value, which only a division by zero could tell apart (no modelled
  operation divides by a computed zero of unknown sign).  Every arithmetic operation
  computes the exact result and rounds it once.  A cast to an unsigned integer truncates
  and has undefined behaviour (\<open>None\<close>) outside the range of the target.
\<close>

section \<open>Rounding\<close>

fun nlog2 :: "nat \<Rightarrow> nat" where
  "nlog2 n = (if n \<le> 1 then 0 else Suc (nlog2 (n div 2)))"

declare nlog2.simps [simp del]

text \<open>Position of the leading bit of a positive rational: \<open>2 ^ e \<le> q < 2 ^ (e + 1)\<close>.\<close>

definition ilog2 :: "rat \<Rightarrow> int" where
  "ilog2 q =
     (if 1 \<le> q then int (nlog2 (nat \<lfloor>q\<rfloor>))
      else (let p = inverse q; n = nlog2 (nat \<lfloor>p\<rfloor>)
            in if 2 ^ n = p then - int n else - int n - 1))"

text \<open>The same on \<open>int\<close>, for evaluation.\<close>

function zlog2 :: "int \<Rightarrow> int" where
  "zlog2 n = (if n \<le> 1 then 0 else 1 + zlog2 (n div 2))"
  by auto
termination by (relation "measure nat") auto

declare zlog2.simps [simp del]

lemma int_nlog2: "int (nlog2 n) = zlog2 (int n)"
proof (induction n rule: nlog2.induct)
  case (1 n)
  then show ?case
    by (subst nlog2.simps, subst zlog2.simps) (auto simp: zdiv_int)
qed

lemma int_nlog2_nat: "int (nlog2 (nat k)) = zlog2 k"
proof (cases "0 \<le> k")
  case True
  then show ?thesis by (simp add: int_nlog2)
next
  case False
  then show ?thesis by (simp add: nlog2.simps [of 0] zlog2.simps [of k])
qed

lemma ilog2_code [code]:
  "ilog2 q =
     (if 1 \<le> q then zlog2 \<lfloor>q\<rfloor>
      else (let p = inverse q; n = zlog2 \<lfloor>p\<rfloor>
            in if p = of_int (2 ^ nat n) then - n else - n - 1))"
  by (auto simp add: ilog2_def Let_def int_nlog2_nat [symmetric])

definition pow2 :: "int \<Rightarrow> rat" where
  "pow2 e = (if 0 \<le> e then 2 ^ nat e else inverse (2 ^ nat (- e)))"

definition round_even :: "rat \<Rightarrow> int" where
  "round_even x =
     (let f = \<lfloor>x\<rfloor>; d = x - of_int f
      in if d < 1 / 2 then f else if 1 / 2 < d then f + 1 else if even f then f else f + 1)"

datatype flt = Fin rat | PInf | NInf | NaN

text \<open>Rounding to \<open>p\<close> significant bits with least and greatest exponent \<open>emin\<close>, \<open>emax\<close>.\<close>

definition quantum :: "nat \<Rightarrow> int \<Rightarrow> rat \<Rightarrow> rat" where
  "quantum p emin q = pow2 (max (ilog2 \<bar>q\<bar>) emin - int p + 1)"

definition round_fin :: "nat \<Rightarrow> int \<Rightarrow> rat \<Rightarrow> rat" where
  "round_fin p emin q =
     (if q = 0 then 0
      else of_int (round_even (q / quantum p emin q)) * quantum p emin q)"

definition round_flt :: "nat \<Rightarrow> int \<Rightarrow> nat \<Rightarrow> rat \<Rightarrow> flt" where
  "round_flt p emin emax q =
     (let r = round_fin p emin q
      in if 2 ^ (emax + 1) \<le> r then PInf else if r \<le> - (2 ^ (emax + 1)) then NInf else Fin r)"

definition rnd32 :: "rat \<Rightarrow> flt" where
  "rnd32 q = round_flt 24 (-126) 127 q"

definition rnd64 :: "rat \<Rightarrow> flt" where
  "rnd64 q = round_flt 53 (-1022) 1023 q"

subsection \<open>Evaluation on integers\<close>

text \<open>Code equations that round with integer division instead of rational arithmetic.\<close>

definition rdiv :: "int \<Rightarrow> int \<Rightarrow> int" where
  "rdiv a b =
     (let f = a div b; r = 2 * (a mod b)
      in if r < b then f else if b < r then f + 1 else if even f then f else f + 1)"

lemma round_even_div: "0 < b \<Longrightarrow> round_even (of_int a / of_int b) = rdiv a b"
proof -
  assume b: "0 < b"
  have fl: "\<lfloor>of_int a / of_int b :: rat\<rfloor> = a div b"
    by (rule floor_divide_of_int_eq)
  have "(of_int a :: rat) = of_int (a div b) * of_int b + of_int (a mod b)"
    by (metis mult_div_mod_eq mult.commute of_int_add of_int_mult)
  then have d: "of_int a / of_int b - of_int (a div b) = (of_int (a mod b) / of_int b :: rat)"
    using b by (simp add: field_simps)
  have "(of_int (a mod b) / of_int b :: rat) < 1 / 2 \<longleftrightarrow> of_int (2 * (a mod b)) < (of_int b :: rat)"
    "(1 / 2 :: rat) < of_int (a mod b) / of_int b \<longleftrightarrow> (of_int b :: rat) < of_int (2 * (a mod b))"
    using b by (simp_all add: field_simps)
  then show ?thesis
    unfolding round_even_def rdiv_def Let_def fl d of_int_less_iff by simp
qed

lemma pow2_code [code]:
  "pow2 e = (if 0 \<le> e then of_int (2 ^ nat e) else inverse (of_int (2 ^ nat (- e))))"
  by (simp add: pow2_def)

lemma round_fin_code [code]:
  "round_fin p emin q =
     (if q = 0 then 0
      else case quotient_of q of (a, b) \<Rightarrow>
        (let e = max (ilog2 \<bar>q\<bar>) emin - int p + 1
         in if 0 \<le> e then of_int (rdiv a (b * 2 ^ nat e) * 2 ^ nat e)
            else Fract (rdiv (a * 2 ^ nat (- e)) b) (2 ^ nat (- e))))"
proof -
  obtain a b where ab: "quotient_of q = (a, b)" by force
  define e where "e = max (ilog2 \<bar>q\<bar>) emin - int p + 1"
  have b: "0 < b" and q: "q = of_int a / of_int b"
    using quotient_of_denom_pos [OF ab] quotient_of_div [OF ab] by simp_all
  show ?thesis
  proof (cases "0 \<le> e")
    case True
    have "q / pow2 e = of_int a / of_int (b * 2 ^ nat e)" using True q by (simp add: pow2_def)
    moreover have "0 < b * 2 ^ nat e" using b by simp
    ultimately have "round_even (q / pow2 e) = rdiv a (b * 2 ^ nat e)" using round_even_div by metis
    with True show ?thesis
      by (simp add: round_fin_def quantum_def ab e_def [symmetric] pow2_def)
  next
    case False
    have "q / pow2 e = of_int (a * 2 ^ nat (- e)) / of_int b"
      using False q b by (simp add: pow2_def field_simps)
    then have "round_even (q / pow2 e) = rdiv (a * 2 ^ nat (- e)) b" using round_even_div b by metis
    with False show ?thesis
      by (simp add: round_fin_def quantum_def ab e_def [symmetric] pow2_def Fract_of_int_quotient
          divide_inverse)
  qed
qed

section \<open>Operations\<close>

fun f_lt :: "flt \<Rightarrow> flt \<Rightarrow> bool" where
  "f_lt NaN _ = False"
| "f_lt _ NaN = False"
| "f_lt _ NInf = False"
| "f_lt NInf _ = True"
| "f_lt PInf _ = False"
| "f_lt _ PInf = True"
| "f_lt (Fin a) (Fin b) = (a < b)"

fun f_le :: "flt \<Rightarrow> flt \<Rightarrow> bool" where
  "f_le NaN _ = False"
| "f_le _ NaN = False"
| "f_le NInf _ = True"
| "f_le _ NInf = False"
| "f_le _ PInf = True"
| "f_le PInf _ = False"
| "f_le (Fin a) (Fin b) = (a \<le> b)"

text \<open>\<open>std::max(a, b)\<close> is \<open>(a < b) ? b : a\<close>; \<open>std::min(a, b)\<close> is \<open>(b < a) ? b : a\<close>.\<close>

definition f_max :: "flt \<Rightarrow> flt \<Rightarrow> flt" where
  "f_max a b = (if f_lt a b then b else a)"

definition f_min :: "flt \<Rightarrow> flt \<Rightarrow> flt" where
  "f_min a b = (if f_lt b a then b else a)"

definition add32 :: "flt \<Rightarrow> flt \<Rightarrow> flt" where
  "add32 a b = (case (a, b) of
      (Fin x, Fin y) \<Rightarrow> rnd32 (x + y)
    | (NaN, _) \<Rightarrow> NaN | (_, NaN) \<Rightarrow> NaN
    | (PInf, NInf) \<Rightarrow> NaN | (NInf, PInf) \<Rightarrow> NaN
    | (PInf, _) \<Rightarrow> PInf | (_, PInf) \<Rightarrow> PInf
    | (NInf, _) \<Rightarrow> NInf | (_, NInf) \<Rightarrow> NInf)"

definition f_neg :: "flt \<Rightarrow> flt" where
  "f_neg a = (case a of Fin x \<Rightarrow> Fin (- x) | PInf \<Rightarrow> NInf | NInf \<Rightarrow> PInf | NaN \<Rightarrow> NaN)"

definition sub32 :: "flt \<Rightarrow> flt \<Rightarrow> flt" where
  "sub32 a b = add32 a (f_neg b)"

definition f_abs :: "flt \<Rightarrow> flt" where
  "f_abs a = (case a of Fin x \<Rightarrow> Fin \<bar>x\<bar> | PInf \<Rightarrow> PInf | NInf \<Rightarrow> PInf | NaN \<Rightarrow> NaN)"

definition inf_of :: "bool \<Rightarrow> flt" where
  "inf_of positive = (if positive then PInf else NInf)"

definition mul_gen :: "(rat \<Rightarrow> flt) \<Rightarrow> flt \<Rightarrow> flt \<Rightarrow> flt" where
  "mul_gen rnd a b = (case (a, b) of
      (Fin x, Fin y) \<Rightarrow> rnd (x * y)
    | (NaN, _) \<Rightarrow> NaN | (_, NaN) \<Rightarrow> NaN
    | (Fin x, _) \<Rightarrow> (if x = 0 then NaN else inf_of ((0 < x) = (b = PInf)))
    | (_, Fin y) \<Rightarrow> (if y = 0 then NaN else inf_of ((0 < y) = (a = PInf)))
    | _ \<Rightarrow> inf_of (a = b))"

definition mul32 :: "flt \<Rightarrow> flt \<Rightarrow> flt" where
  "mul32 = mul_gen rnd32"

definition mul64 :: "flt \<Rightarrow> flt \<Rightarrow> flt" where
  "mul64 = mul_gen rnd64"

text \<open>Division; a zero divisor is the positive zero that an integer cast produces.\<close>

definition div32 :: "flt \<Rightarrow> flt \<Rightarrow> flt" where
  "div32 a b = (case (a, b) of
      (Fin x, Fin y) \<Rightarrow>
        (if y = 0 then (if x = 0 then NaN else inf_of (0 < x)) else rnd32 (x / y))
    | (NaN, _) \<Rightarrow> NaN | (_, NaN) \<Rightarrow> NaN
    | (Fin x, _) \<Rightarrow> Fin 0
    | (_, Fin y) \<Rightarrow> inf_of ((0 \<le> y) = (a = PInf))
    | _ \<Rightarrow> NaN)"

text \<open>
  \<open>std::sqrt\<close> on \<open>float\<close> is correctly rounded: the root is computed to at least 27 bits, and half a
  unit is added when it is not exact, which rounds like the exact root.
\<close>

function isqrt :: "int \<Rightarrow> int" where
  "isqrt n =
     (if n \<le> 0 then 0
      else let r = 2 * isqrt (n div 4) in if (r + 1) * (r + 1) \<le> n then r + 1 else r)"
  by auto
termination by (relation "measure nat") auto

declare isqrt.simps [simp del]

definition sqrt_near :: "rat \<Rightarrow> rat" where
  "sqrt_near q =
     (let k = (53 - ilog2 q) div 2; p = q * pow2 (2 * k); r = isqrt \<lfloor>p\<rfloor>
      in (if of_int (r * r) = p then of_int r else of_int r + 1 / 2) / pow2 k)"

definition sqrt32 :: "flt \<Rightarrow> flt" where
  "sqrt32 a = (case a of
      Fin q \<Rightarrow> if q < 0 then NaN else if q = 0 then Fin 0 else rnd32 (sqrt_near q)
    | PInf \<Rightarrow> PInf | NInf \<Rightarrow> NaN | NaN \<Rightarrow> NaN)"

definition f32_of_nat :: "nat \<Rightarrow> flt" where
  "f32_of_nat n = rnd32 (of_nat n)"

definition f32_of_u32 :: "u32 \<Rightarrow> flt" where
  "f32_of_u32 w = f32_of_nat (unat w)"

text \<open>Evaluation goes through \<open>int\<close>, not through unary natural numbers.\<close>

lemma f32_of_u32_code [code]: "f32_of_u32 w = rnd32 (of_int (uint w))"
  by (simp add: f32_of_u32_def f32_of_nat_def)

text \<open>\<open>static_cast<uint32_t>(x)\<close>: truncation toward zero, defined iff the result fits.\<close>

definition to_u32 :: "flt \<Rightarrow> u32 option" where
  "to_u32 x = (case x of
      Fin q \<Rightarrow> (if -1 < q \<and> q < 2 ^ 32 then Some (of_int (if 0 \<le> q then \<lfloor>q\<rfloor> else 0)) else None)
    | _ \<Rightarrow> None)"

text \<open>
  \<open>std::chrono::duration<float>(d).count()\<close> for a nanosecond difference \<open>d\<close>: the count
  is cast to \<open>float\<close> and divided by \<open>1e9f\<close>.
\<close>

definition seconds32 :: "int \<Rightarrow> flt" where
  "seconds32 d = div32 (rnd32 (of_int d)) (Fin 1000000000)"


section \<open>Powers of two and the leading bit\<close>

lemma pow2_pos [simp]: "0 < pow2 e"
  by (simp add: pow2_def)

lemma pow2_nonzero [simp]: "pow2 e \<noteq> 0"
  using pow2_pos [of e] by linarith

lemma pow2_nat: "pow2 (int n) = 2 ^ n"
  by (simp add: pow2_def)

lemma pow2_Suc: "pow2 (e + 1) = 2 * pow2 e"
proof (cases "0 \<le> e")
  case True
  then show ?thesis by (simp add: pow2_def nat_add_distrib)
next
  case False
  define n where "n = nat (- e - 1)"
  have e: "e = - int (Suc n)" using False by (simp add: n_def)
  have "nat (- e) = Suc n" "nat (- (e + 1)) = n" by (simp_all add: e)
  then show ?thesis using False by (cases n) (auto simp: pow2_def e)
qed

lemma pow2_add_nat: "pow2 (e + int n) = pow2 e * 2 ^ n"
proof (induction n)
  case 0
  then show ?case by simp
next
  case (Suc n)
  have "pow2 (e + int (Suc n)) = pow2 ((e + int n) + 1)" by (simp add: algebra_simps)
  then show ?case using Suc by (simp only: pow2_Suc) simp
qed

lemma pow2_diff: "d \<le> e \<Longrightarrow> pow2 e = pow2 d * 2 ^ nat (e - d)"
  using pow2_add_nat [of d "nat (e - d)"] by simp

lemma pow2_mono: "d \<le> e \<Longrightarrow> pow2 d \<le> pow2 e"
  by (simp add: pow2_diff)

lemma pow2_less_cancel: "pow2 d < pow2 e \<Longrightarrow> d < e"
  using pow2_mono [of e d] by force

lemma pow2_neg: "pow2 (- e) = inverse (pow2 e)"
  by (auto simp: pow2_def)

lemma nlog2_bounds: "1 \<le> n \<Longrightarrow> 2 ^ nlog2 n \<le> n \<and> n < 2 ^ (nlog2 n + 1)"
proof (induction n rule: nlog2.induct)
  case (1 n)
  show ?case
  proof (cases "n = 1")
    case True
    then show ?thesis by (simp add: nlog2.simps)
  next
    case False
    with 1 have n: "1 \<le> n div 2" by simp
    with 1 False have "2 ^ nlog2 (n div 2) \<le> n div 2 \<and> n div 2 < 2 ^ (nlog2 (n div 2) + 1)"
      by simp
    with n show ?thesis by (simp add: nlog2.simps [of n]) linarith
  qed
qed

lemma nlog2_floor:
  fixes q :: rat
  assumes "1 \<le> q"
  shows "2 ^ nlog2 (nat \<lfloor>q\<rfloor>) \<le> q" "q < 2 ^ (nlog2 (nat \<lfloor>q\<rfloor>) + 1)"
proof -
  let ?n = "nat \<lfloor>q\<rfloor>"
  have n1: "1 \<le> ?n" using assms by (simp add: le_nat_iff)
  have fl: "of_nat ?n \<le> q" "q < of_nat ?n + 1"
    using assms floor_correct [of q] by (simp_all add: of_nat_nat)
  have "(2::rat) ^ nlog2 ?n = of_nat (2 ^ nlog2 ?n)" by simp
  also have "\<dots> \<le> of_nat ?n" using nlog2_bounds [OF n1] by (simp only: of_nat_le_iff)
  finally show "2 ^ nlog2 ?n \<le> q" using fl by linarith
  have "?n + 1 \<le> 2 ^ (nlog2 ?n + 1)" using nlog2_bounds [OF n1] by simp
  then have "(of_nat (?n + 1) :: rat) \<le> of_nat (2 ^ (nlog2 ?n + 1))"
    by (simp only: of_nat_le_iff)
  then show "q < 2 ^ (nlog2 ?n + 1)" using fl by simp
qed

lemma ilog2_bounds:
  assumes "0 < q"
  shows "pow2 (ilog2 q) \<le> q \<and> q < pow2 (ilog2 q + 1)"
proof (cases "1 \<le> q")
  case True
  then show ?thesis
    using nlog2_floor [OF True] by (simp add: ilog2_def pow2_Suc pow2_nat)
next
  case False
  define p where "p = inverse q"
  define n where "n = nlog2 (nat \<lfloor>p\<rfloor>)"
  have p: "1 \<le> p" "q = inverse p"
    using False assms by (auto simp: p_def one_le_inverse_iff)
  have b: "2 ^ n \<le> p" "p < 2 * 2 ^ n" using nlog2_floor [OF p(1)] by (auto simp: n_def)
  have e: "ilog2 q = (if 2 ^ n = p then - int n else - int n - 1)"
    using False by (simp add: ilog2_def p_def n_def Let_def)
  have inv_n: "pow2 (- int n) = inverse (2 ^ n)" by (simp add: pow2_neg pow2_nat)
  have half: "pow2 (- int n - 1) = inverse (2 * 2 ^ n)"
    using pow2_Suc [of "- int n - 1"] inv_n by (simp add: field_simps)
  show ?thesis
  proof (cases "2 ^ n = p")
    case True
    then have "ilog2 q = - int n" "q = pow2 (- int n)" using e inv_n p by simp_all
    then show ?thesis by (simp only: pow2_Suc) simp
  next
    case False
    then have lt: "2 ^ n < p" using b by simp
    have "inverse p < inverse (2 ^ n)" using lt by (simp add: less_imp_inverse_less)
    moreover have "inverse (2 * 2 ^ n) < inverse p"
      using b(2) p(1) by (intro less_imp_inverse_less) auto
    ultimately show ?thesis using e False half inv_n p(2) by simp
  qed
qed

lemma ilog2_unique: "pow2 e \<le> q \<Longrightarrow> q < pow2 (e + 1) \<Longrightarrow> ilog2 q = e"
proof -
  assume a: "pow2 e \<le> q" "q < pow2 (e + 1)"
  then have "0 < q" using pow2_pos [of e] by linarith
  from ilog2_bounds [OF this] a
  have "pow2 e < pow2 (ilog2 q + 1)" "pow2 (ilog2 q) < pow2 (e + 1)" by linarith+
  then have "e < ilog2 q + 1" "ilog2 q < e + 1" by (auto dest: pow2_less_cancel)
  then show ?thesis by simp
qed

lemma ilog2_mono: "0 < q \<Longrightarrow> q \<le> r \<Longrightarrow> ilog2 q \<le> ilog2 r"
proof -
  assume a: "0 < q" "q \<le> r"
  then have "pow2 (ilog2 q) < pow2 (ilog2 r + 1)"
    using ilog2_bounds [of q] ilog2_bounds [of r] by linarith
  then show ?thesis using pow2_less_cancel by fastforce
qed

section \<open>Rounding laws\<close>

lemma less_pow2_iff: "0 < q \<Longrightarrow> q < 2 ^ (n + 1) \<longleftrightarrow> ilog2 q \<le> int n"
proof -
  assume q: "0 < q"
  have p: "pow2 (int n + 1) = 2 ^ (n + 1)" using pow2_nat [of "n + 1"] by (simp add: add.commute)
  have b: "pow2 (ilog2 q) \<le> q \<and> q < pow2 (ilog2 q + 1)" using ilog2_bounds [OF q] .
  show ?thesis
  proof
    assume "q < 2 ^ (n + 1)"
    then have "pow2 (ilog2 q) < pow2 (int n + 1)" using b p by linarith
    then show "ilog2 q \<le> int n" by (auto dest: pow2_less_cancel)
  next
    assume "ilog2 q \<le> int n"
    then have "pow2 (ilog2 q + 1) \<le> pow2 (int n + 1)" by (intro pow2_mono) simp
    then show "q < 2 ^ (n + 1)" using b p by linarith
  qed
qed

lemma round_flt_code [code]:
  "round_flt p emin emax q =
     (let r = round_fin p emin q
      in if r = 0 then Fin 0 else if ilog2 \<bar>r\<bar> \<le> int emax then Fin r
         else if 0 < r then PInf else NInf)"
proof -
  define r where "r = round_fin p emin q"
  obtain c :: rat where c: "c = 2 ^ (emax + 1)" "0 < c" by simp
  have "r = 0 \<or> ilog2 \<bar>r\<bar> \<le> int emax \<longleftrightarrow> \<bar>r\<bar> < c"
    using less_pow2_iff [of "\<bar>r\<bar>" emax] c by (cases "r = 0") auto
  then show ?thesis
    using c(2) unfolding round_flt_def Let_def r_def [symmetric] c(1) [symmetric]
    by (cases "r = 0"; cases "0 < r") (auto simp: abs_if not_less split: if_splits)
qed

lemma round_even_of_int [simp]: "round_even (of_int k) = k"
  by (simp add: round_even_def)

lemma round_even_bounds: "of_int (round_even x) \<le> x + 1 / 2 \<and> x - 1 / 2 \<le> of_int (round_even x)"
proof -
  have "of_int \<lfloor>x\<rfloor> \<le> x" "x < of_int \<lfloor>x\<rfloor> + 1" using floor_correct [of x] by auto
  then show ?thesis unfolding round_even_def Let_def by (auto simp: algebra_simps) linarith+
qed

lemma round_even_mono:
  assumes "x \<le> y"
  shows "round_even x \<le> round_even y"
proof (cases "\<lfloor>x\<rfloor> = \<lfloor>y\<rfloor>")
  case True
  with assms show ?thesis by (auto simp: round_even_def Let_def)
next
  case False
  then have "\<lfloor>x\<rfloor> + 1 \<le> \<lfloor>y\<rfloor>" using floor_mono [OF assms] by simp
  then show ?thesis by (auto simp: round_even_def Let_def)
qed

lemma round_even_ge: "of_int k \<le> x \<Longrightarrow> k \<le> round_even x"
  using round_even_mono [of "of_int k" x] by simp

lemma round_even_le: "x \<le> of_int k \<Longrightarrow> round_even x \<le> k"
  using round_even_mono [of x "of_int k"] by simp

lemma round_even_minus: "round_even (- x) = - round_even x"
proof (cases "x = of_int \<lfloor>x\<rfloor>")
  case True
  then show ?thesis by (metis of_int_minus round_even_of_int)
next
  case False
  then have f: "\<lfloor>- x\<rfloor> = - \<lfloor>x\<rfloor> - 1"
  proof (intro floor_unique)
    have "of_int \<lfloor>x\<rfloor> < x" using False of_int_floor_le [of x] by linarith
    then show "of_int (- \<lfloor>x\<rfloor> - 1) \<le> - x" "- x < of_int (- \<lfloor>x\<rfloor> - 1) + 1"
      using floor_correct [of x] by auto
  qed
  have "even (- \<lfloor>x\<rfloor> - 1) \<longleftrightarrow> odd \<lfloor>x\<rfloor>" by simp
  then show ?thesis unfolding round_even_def Let_def f by (auto simp: algebra_simps)
qed

lemma quantum_pos [simp]: "0 < quantum p emin q" and quantum_nonzero [simp]: "quantum p emin q \<noteq> 0"
  by (simp_all add: quantum_def)

lemma quantum_minus [simp]: "quantum p emin (- q) = quantum p emin q"
  by (simp add: quantum_def)

lemma round_fin_0 [simp]: "round_fin p emin 0 = 0"
  by (simp add: round_fin_def)

lemma round_fin_minus: "round_fin p emin (- q) = - round_fin p emin q"
  by (simp add: round_fin_def round_even_minus)

text \<open>Every number with at most \<open>p\<close> significant bits is its own rounding.\<close>

lemma round_fin_exact:
  assumes q: "q = of_int m * pow2 e" and m: "\<bar>m\<bar> < 2 ^ p" and e: "emin - int p + 1 \<le> e"
  shows "round_fin p emin q = q"
proof (cases "q = 0")
  case True
  then show ?thesis by simp
next
  case False
  let ?u = "max (ilog2 \<bar>q\<bar>) emin - int p + 1"
  have "of_int \<bar>m\<bar> < (of_int (2 ^ p) :: rat)" using m by (simp only: of_int_less_iff)
  then have "\<bar>of_int m\<bar> * pow2 e < 2 ^ p * pow2 e" by simp
  then have "\<bar>q\<bar> < pow2 (e + int p)"
    by (simp add: q abs_mult pow2_add_nat mult.commute abs_of_pos)
  moreover have "pow2 (ilog2 \<bar>q\<bar>) \<le> \<bar>q\<bar>" using ilog2_bounds [of "\<bar>q\<bar>"] False by simp
  ultimately have "ilog2 \<bar>q\<bar> < e + int p" by (intro pow2_less_cancel) linarith
  with e have "?u \<le> e" by simp
  define u where "u = ?u"
  have u: "u \<le> e" unfolding u_def by fact
  have "quantum p emin q = pow2 u" by (simp add: quantum_def u_def)
  moreover have "q = of_int (m * 2 ^ nat (e - u)) * pow2 u"
    using pow2_diff [OF u] by (simp add: q)
  ultimately have "q / quantum p emin q = of_int (m * 2 ^ nat (e - u))"
    and "q = of_int (m * 2 ^ nat (e - u)) * quantum p emin q"
    by (simp_all only: nonzero_mult_div_cancel_right [OF pow2_nonzero])
  then show ?thesis unfolding round_fin_def by (metis round_even_of_int)
qed

lemma round_fin_of_int:
  assumes m: "\<bar>m\<bar> \<le> 2 ^ p" and p: "1 \<le> p" and e: "emin - int p + 1 \<le> 0"
  shows "round_fin p emin (of_int m) = of_int m"
proof (cases "\<bar>m\<bar> < 2 ^ p")
  case True
  then show ?thesis using e by (intro round_fin_exact [where m = m and e = 0]) (auto simp: pow2_def)
next
  case False
  then have "\<bar>m\<bar> = 2 ^ p" using m by simp
  then consider "m = 2 ^ p" | "m = - (2 ^ p)" by (auto simp: abs_if split: if_splits)
  then show ?thesis
  proof cases
    case 1
    have "\<bar>1::int\<bar> < 2 ^ p" using p by (simp add: one_less_power)
    with 1 e show ?thesis
      by (intro round_fin_exact [where m = 1 and e = "int p"]) (auto simp: pow2_nat)
  next
    case 2
    have "\<bar>-1::int\<bar> < 2 ^ p" using p by (simp add: one_less_power)
    with 2 e show ?thesis
      by (intro round_fin_exact [where m = "-1" and e = "int p"]) (auto simp: pow2_nat)
  qed
qed

text \<open>Rounding is monotone.\<close>

lemma round_fin_nonneg: "0 \<le> q \<Longrightarrow> 0 \<le> round_fin p emin q"
  using round_even_ge [of 0 "q / quantum p emin q"] by (simp add: round_fin_def less_imp_le)

lemma round_fin_mono_pos:
  assumes q: "0 < q" and le: "q \<le> r" and p: "1 \<le> p"
  shows "round_fin p emin q \<le> round_fin p emin r"
proof -
  let ?eq = "max (ilog2 q) emin" and ?er = "max (ilog2 r) emin"
  have r: "0 < r" using q le by simp
  have lee: "?eq \<le> ?er" using ilog2_mono [OF q le] by simp
  have rf: "round_fin p emin x = of_int (round_even (x / pow2 (max (ilog2 x) emin - int p + 1)))
      * pow2 (max (ilog2 x) emin - int p + 1)" if "0 < x" for x
    using that by (simp add: round_fin_def quantum_def)
  show ?thesis
  proof (cases "?eq = ?er")
    case True
    have "q / pow2 (?er - int p + 1) \<le> r / pow2 (?er - int p + 1)"
      using le by (simp add: divide_right_mono less_imp_le)
    then have "round_even (q / pow2 (?er - int p + 1)) \<le> round_even (r / pow2 (?er - int p + 1))"
      by (rule round_even_mono)
    then show ?thesis using True by (simp add: rf q r)
  next
    case False
    then have lt: "?eq + 1 \<le> ?er" and er: "?er = ilog2 r" using lee by auto
    have "q < pow2 (?eq + 1)"
      using ilog2_bounds [OF q] pow2_mono [of "ilog2 q + 1" "?eq + 1"] by force
    also have eq1: "pow2 (?eq + 1) = of_int (2 ^ p) * pow2 (?eq - int p + 1)"
      using pow2_add_nat [of "?eq - int p + 1" p] by (simp add: algebra_simps)
    finally have "q / pow2 (?eq - int p + 1) \<le> of_int (2 ^ p)"
      by (simp add: divide_le_eq)
    then have "round_even (q / pow2 (?eq - int p + 1)) \<le> 2 ^ p" by (rule round_even_le)
    then have "of_int (round_even (q / pow2 (?eq - int p + 1))) \<le> (of_int (2 ^ p) :: rat)"
      by (simp only: of_int_le_iff)
    then have "round_fin p emin q \<le> of_int (2 ^ p) * pow2 (?eq - int p + 1)"
      by (simp only: rf [OF q] mult_right_mono pow2_pos [THEN less_imp_le])
    also have "\<dots> = pow2 (?eq + 1)" by (rule eq1 [symmetric])
    also have "\<dots> \<le> pow2 ?er" using lt by (rule pow2_mono)
    also have er1: "pow2 ?er = of_int (2 ^ (p - 1)) * pow2 (?er - int p + 1)"
      using pow2_add_nat [of "?er - int p + 1" "p - 1"] p by (simp add: of_nat_diff)
    finally have "round_fin p emin q \<le> of_int (2 ^ (p - 1)) * pow2 (?er - int p + 1)" .
    moreover have "of_int (2 ^ (p - 1)) \<le> r / pow2 (?er - int p + 1)"
      using ilog2_bounds [OF r] er er1 by (simp add: le_divide_eq)
    then have "2 ^ (p - 1) \<le> round_even (r / pow2 (?er - int p + 1))" by (rule round_even_ge)
    then have "of_int (2 ^ (p - 1)) \<le> (of_int (round_even (r / pow2 (?er - int p + 1))) :: rat)"
      by (simp only: of_int_le_iff)
    then have "of_int (2 ^ (p - 1)) * pow2 (?er - int p + 1) \<le> round_fin p emin r"
      by (simp only: rf [OF r] mult_right_mono pow2_pos [THEN less_imp_le])
    ultimately show ?thesis by (rule order_trans)
  qed
qed

lemma round_fin_mono:
  assumes "q \<le> r" and p: "1 \<le> p"
  shows "round_fin p emin q \<le> round_fin p emin r"
proof -
  consider "0 < q" | "q \<le> 0" "0 \<le> r" | "r < 0" by linarith
  then show ?thesis
  proof cases
    case 1
    then show ?thesis using assms by (rule round_fin_mono_pos)
  next
    case 2
    have "0 \<le> round_fin p emin (- q)" using 2 by (intro round_fin_nonneg) simp
    moreover have "0 \<le> round_fin p emin r" using 2 by (intro round_fin_nonneg)
    ultimately show ?thesis by (simp add: round_fin_minus)
  next
    case 3
    then have "round_fin p emin (- r) \<le> round_fin p emin (- q)"
      using assms by (intro round_fin_mono_pos) auto
    then show ?thesis by (simp add: round_fin_minus)
  qed
qed


section \<open>Single precision\<close>

lemma rnd32_Fin:
  assumes "\<bar>round_fin 24 (-126) q\<bar> < 2 ^ 128"
  shows "rnd32 q = Fin (round_fin 24 (-126) q)"
  using assms by (auto simp: rnd32_def round_flt_def Let_def abs_less_iff)

lemma rnd32_of_int: "\<bar>m\<bar> \<le> 2 ^ 24 \<Longrightarrow> rnd32 (of_int m) = Fin (of_int m)"
proof -
  assume m: "\<bar>m\<bar> \<le> 2 ^ 24"
  then have r: "round_fin 24 (-126) (of_int m) = of_int m" by (intro round_fin_of_int) auto
  have "\<bar>of_int m :: rat\<bar> = of_int \<bar>m\<bar>" by simp
  also have "\<dots> \<le> of_int (2 ^ 24)" using m by (simp only: of_int_le_iff)
  finally show ?thesis using rnd32_Fin [of "of_int m"] by (simp add: r)
qed

lemma f32_of_nat_exact: "n \<le> 2 ^ 24 \<Longrightarrow> f32_of_nat n = Fin (of_nat n)"
  using rnd32_of_int [of "int n"] by (simp add: f32_of_nat_def)

lemma round_fin_u32_bounds:
  fixes w :: u32
  shows "0 \<le> round_fin 24 (-126) (of_nat (unat w))"
    and "round_fin 24 (-126) (of_nat (unat w)) \<le> 2 ^ 32"
proof -
  show "0 \<le> round_fin 24 (-126) (of_nat (unat w))"
    by (intro round_fin_nonneg of_nat_0_le_iff)
  have "unat w < 2 ^ LENGTH(32)" by (rule unsigned_less)
  then have "unat w \<le> 2 ^ 32" by simp
  then have "(of_nat (unat w) :: rat) \<le> of_nat (2 ^ 32)" by (simp only: of_nat_le_iff)
  then have "round_fin 24 (-126) (of_nat (unat w)) \<le> round_fin 24 (-126) (2 ^ 32)"
    by (intro round_fin_mono) auto
  also have "round_fin 24 (-126) (2 ^ 32) = 2 ^ 32"
    by (rule round_fin_exact [where m = 1 and e = 32]) (auto simp: pow2_def)
  finally show "round_fin 24 (-126) (of_nat (unat w)) \<le> 2 ^ 32" .
qed

lemma f32_of_u32_Fin: "f32_of_u32 w = Fin (round_fin 24 (-126) (of_nat (unat w)))"
  using round_fin_u32_bounds [of w] unfolding f32_of_u32_def f32_of_nat_def
  by (intro rnd32_Fin) auto

text \<open>Multiplying a converted integer by \<open>1.0f\<close> or \<open>0.5f\<close> rounds nothing further.\<close>

lemma round_fin_idem:
  assumes p: "1 \<le> p" and q: "q = of_int m * pow2 e" and e: "emin - int p + 1 \<le> e"
    and m: "\<bar>m\<bar> \<le> 2 ^ p"
  shows "round_fin p emin q = q"
proof (cases "\<bar>m\<bar> < 2 ^ p")
  case True
  then show ?thesis using q e by (intro round_fin_exact) auto
next
  case False
  then have "\<bar>m\<bar> = 2 ^ p" using m by simp
  then have "m = sgn m * 2 ^ p" "\<bar>sgn m\<bar> = 1" by (auto simp: abs_if split: if_splits)
  then have "q = of_int (sgn m) * pow2 (e + int p)" "\<bar>sgn m\<bar> < 2 ^ p"
    using p by (auto simp: q pow2_add_nat one_less_power) (metis of_int_mult of_int_numeral of_int_power)
  then show ?thesis using e by (intro round_fin_exact [where m = "sgn m" and e = "e + int p"]) auto
qed

lemma round_fin_shape:
  assumes p: "1 \<le> p"
  shows "\<exists>m e. round_fin p emin q = of_int m * pow2 e \<and> \<bar>m\<bar> \<le> 2 ^ p \<and> emin - int p + 1 \<le> e"
proof (cases "q = 0")
  case True
  then show ?thesis by (intro exI [of _ 0] exI [of _ "emin - int p + 1"]) auto
next
  case False
  define u where "u = max (ilog2 \<bar>q\<bar>) emin - int p + 1"
  have "\<bar>q\<bar> < pow2 (ilog2 \<bar>q\<bar> + 1)" using ilog2_bounds [of "\<bar>q\<bar>"] False by simp
  also have "\<dots> \<le> pow2 (u + int p)" by (intro pow2_mono) (simp add: u_def)
  finally have b: "\<bar>q\<bar> \<le> of_int (2 ^ p) * pow2 u"
    by (simp add: pow2_add_nat mult.commute less_imp_le)
  have "q / pow2 u \<le> of_int (2 ^ p)" "of_int (- (2 ^ p)) \<le> q / pow2 u"
    using b by (simp_all add: divide_le_eq le_divide_eq)
  then have "round_even (q / pow2 u) \<le> 2 ^ p" "- (2 ^ p) \<le> round_even (q / pow2 u)"
    using round_even_le [of "q / pow2 u" "2 ^ p"] round_even_ge [of "- (2 ^ p)" "q / pow2 u"]
    by blast+
  then have "\<bar>round_even (q / pow2 u)\<bar> \<le> 2 ^ p" by (simp add: abs_le_iff)
  then show ?thesis
    using False by (intro exI [of _ "round_even (q / pow2 u)"] exI [of _ u])
      (auto simp: round_fin_def quantum_def u_def)
qed

lemma round_fin_round_fin:
  "1 \<le> p \<Longrightarrow> round_fin p emin (round_fin p emin q) = round_fin p emin q"
  using round_fin_shape [of p emin q] by (metis round_fin_idem)


lemma mul32_one: "mul32 (f32_of_u32 w) (Fin 1) = f32_of_u32 w"
proof -
  have "mul32 (f32_of_u32 w) (Fin 1) = rnd32 (round_fin 24 (-126) (of_nat (unat w)))"
    by (simp add: mul32_def mul_gen_def f32_of_u32_Fin)
  also have "\<dots> = f32_of_u32 w"
    using round_fin_u32_bounds [of w]
    by (subst rnd32_Fin) (auto simp: round_fin_round_fin f32_of_u32_Fin)
  finally show ?thesis .
qed

lemma mul32_half:
  assumes "unat w \<le> 2 ^ 24"
  shows "mul32 (f32_of_u32 w) (Fin (1 / 2)) = Fin (of_nat (unat w) / 2)"
proof -
  let ?q = "of_nat (unat w) / 2 :: rat"
  have "int (unat w) \<le> int (2 ^ 24)" using assms by (simp only: of_nat_le_iff)
  then have "uint w \<le> 2 ^ 24" by simp
  then have r: "round_fin 24 (-126) ?q = ?q"
    by (intro round_fin_idem [where m = "uint w" and e = "-1"]) (auto simp: pow2_def)
  have "(of_nat (unat w) :: rat) \<le> of_nat (2 ^ 24)" using assms by (simp only: of_nat_le_iff)
  then have "?q < 2 ^ 128" by simp
  moreover have "0 \<le> ?q" by (intro divide_nonneg_pos of_nat_0_le_iff) simp
  ultimately have "\<bar>round_fin 24 (-126) ?q\<bar> < 2 ^ 128" by (simp only: r abs_of_nonneg)
  then have "rnd32 ?q = Fin ?q" using rnd32_Fin [of ?q] by (simp only: r)
  then show ?thesis
    using f32_of_nat_exact [OF assms] by (simp add: mul32_def mul_gen_def f32_of_u32_def)
qed

subsection \<open>Casts\<close>

lemma to_u32_nat: "n < 2 ^ 32 \<Longrightarrow> to_u32 (Fin (of_nat n)) = Some (of_nat n)"
proof -
  assume n: "n < 2 ^ 32"
  then have "(of_nat n :: rat) < of_nat (2 ^ 32)" by (simp only: of_nat_less_iff)
  moreover have "-1 < (of_nat n :: rat)" by (rule less_le_trans [of _ 0]) auto
  ultimately show ?thesis by (simp add: to_u32_def)
qed

lemma to_u32_defined: "-1 < q \<Longrightarrow> q < 2 ^ 32 \<Longrightarrow> to_u32 (Fin q) \<noteq> None"
  by (simp add: to_u32_def)

lemma to_u32_Some_bound: "to_u32 (Fin q) = Some w \<Longrightarrow> 0 \<le> q \<Longrightarrow> of_nat (unat w) \<le> q"
proof -
  assume a: "to_u32 (Fin q) = Some w" "0 \<le> q"
  then have w: "w = of_int \<lfloor>q\<rfloor>" and q: "q < 2 ^ 32" by (auto simp: to_u32_def split: if_splits)
  have "\<lfloor>q\<rfloor> < 2 ^ 32" using q by (simp add: floor_less_iff)
  then have "int (unat w) = \<lfloor>q\<rfloor>"
    using a(2) by (simp add: w uint_word_of_int_eq take_bit_int_eq_self flip: uint_nat)
  then have "(of_nat (unat w) :: rat) = of_int \<lfloor>q\<rfloor>" by (metis of_int_of_nat_eq)
  then show ?thesis by simp
qed

subsection \<open>Comparisons, clamping and durations\<close>

lemma f_lt_Fin [simp]: "f_lt (Fin a) (Fin b) \<longleftrightarrow> a < b" and f_le_Fin [simp]: "f_le (Fin a) (Fin b) \<longleftrightarrow> a \<le> b"
  by simp_all

text \<open>\<open>std::max(lo, std::min(hi, x))\<close>: the result lies in the range for every \<open>x\<close>, NaN included.\<close>

lemma f_clamp:
  assumes "lo \<le> hi"
  shows "\<exists>v. f_max (Fin lo) (f_min (Fin hi) x) = Fin v \<and> lo \<le> v \<and> v \<le> hi"
  using assms by (cases x) (auto simp: f_max_def f_min_def)

lemma f_clamp_id:
  "lo \<le> v \<Longrightarrow> v \<le> hi \<Longrightarrow> f_max (Fin lo) (f_min (Fin hi) (Fin v)) = Fin v"
  by (auto simp: f_max_def f_min_def)

lemma rnd32_mono: "q \<le> r \<Longrightarrow> f_le (rnd32 q) (rnd32 r)"
  using round_fin_mono [of q r 24 "-126"] by (auto simp: rnd32_def round_flt_def Let_def)

lemma rnd32_not_NaN [simp]: "rnd32 q \<noteq> NaN"
  by (simp add: rnd32_def round_flt_def Let_def)

lemma f_le_NInf: "x \<noteq> NaN \<Longrightarrow> f_le NInf x"
  by (cases x) auto

lemma div32_mono:
  assumes "f_le a b" "0 < c"
  shows "f_le (div32 a (Fin c)) (div32 b (Fin c))"
proof (cases a)
  case (Fin x)
  show ?thesis
  proof (cases b)
    case (Fin y)
    have "f_le (rnd32 (x / c)) (rnd32 (y / c))"
      using assms Fin \<open>a = Fin x\<close> by (intro rnd32_mono) (simp add: divide_right_mono)
    then show ?thesis using assms Fin \<open>a = Fin x\<close> by (simp add: div32_def)
  next
    case PInf
    then show ?thesis using assms \<open>a = Fin x\<close> rnd32_not_NaN [of "x / c"]
      by (cases "rnd32 (x / c)") (auto simp: div32_def inf_of_def)
  qed (use assms Fin in auto)
next
  case NInf
  then show ?thesis
    using assms f_le_NInf by (cases b) (auto simp: div32_def inf_of_def)
qed (use assms in \<open>cases b; auto simp: div32_def inf_of_def\<close>)+

lemma seconds32_mono: "a \<le> b \<Longrightarrow> f_le (seconds32 a) (seconds32 b)"
  unfolding seconds32_def by (intro div32_mono rnd32_mono) auto

lemma f_le_trans: "f_le a b \<Longrightarrow> f_le b c \<Longrightarrow> f_le a c"
  by (cases a; cases b; cases c) auto

lemma f_lt_not_le: "f_lt a b \<Longrightarrow> \<not> f_le b a"
  by (cases a; cases b) auto

section \<open>Products within bounds\<close>

text \<open>Rounding to \<open>double\<close>: exact integers and monotonicity.\<close>

lemma rnd64_of_int:
  assumes "\<bar>m\<bar> \<le> 2 ^ 53"
  shows "rnd64 (of_int m) = Fin (of_int m)"
proof -
  have r: "round_fin 53 (-1022) (of_int m) = of_int m"
    using assms by (intro round_fin_of_int) auto
  have "\<bar>of_int m :: rat\<bar> = of_int \<bar>m\<bar>" by simp
  also have "\<dots> \<le> of_int (2 ^ 53)" using assms by (simp only: of_int_le_iff)
  also have "(of_int (2 ^ 53) :: rat) = 2 ^ 53" by simp
  finally have b: "\<bar>of_int m :: rat\<bar> \<le> 2 ^ 53" .
  have "(2 ^ 53 :: rat) < 2 ^ (1023 + 1)" by (rule power_strict_increasing) simp_all
  then have "\<bar>of_int m :: rat\<bar> < 2 ^ (1023 + 1)" using b by linarith
  then show ?thesis
    unfolding rnd64_def round_flt_def Let_def r by (auto simp: abs_less_iff simp del: power_Suc)
qed

lemma rnd64_mono: "q \<le> r \<Longrightarrow> f_le (rnd64 q) (rnd64 r)"
  using round_fin_mono [of q r 53 "-1022"]
  unfolding rnd64_def round_flt_def Let_def by auto

lemma rnd64_between:
  assumes "of_int a \<le> q" "q \<le> of_int b" "\<bar>a\<bar> \<le> 2 ^ 53" "\<bar>b\<bar> \<le> 2 ^ 53"
  shows "\<exists>v. rnd64 q = Fin v \<and> of_int a \<le> v \<and> v \<le> of_int b"
proof -
  have "f_le (Fin (of_int a)) (rnd64 q)" "f_le (rnd64 q) (Fin (of_int b))"
    using rnd64_mono [OF assms(1)] rnd64_mono [OF assms(2)] rnd64_of_int [OF assms(3)]
      rnd64_of_int [OF assms(4)] by simp_all
  then show ?thesis by (cases "rnd64 q") auto
qed

lemma rnd64_at_least:
  assumes "of_int a \<le> q" "\<bar>a\<bar> \<le> 2 ^ 53"
  shows "rnd64 q = PInf \<or> (\<exists>v. rnd64 q = Fin v \<and> of_int a \<le> v)"
proof -
  have "f_le (Fin (of_int a)) (rnd64 q)" using rnd64_mono [OF assms(1)] rnd64_of_int [OF assms(2)] by simp
  then show ?thesis by (cases "rnd64 q") auto
qed

lemma rnd32_pow2: "n \<le> 127 \<Longrightarrow> rnd32 (2 ^ n) = Fin (2 ^ n)"
proof -
  assume n: "n \<le> 127"
  have r: "round_fin 24 (-126) (2 ^ n) = (2 ^ n :: rat)"
    by (rule round_fin_exact [where m = 1 and e = "int n"]) (auto simp: pow2_def)
  have "(2 :: rat) ^ n < 2 ^ 128" using n by (intro power_strict_increasing) simp_all
  moreover have "(0 :: rat) < 2 ^ n" by simp
  ultimately have "\<bar>round_fin 24 (-126) (2 ^ n)\<bar> < (2 :: rat) ^ 128" unfolding r by linarith
  from rnd32_Fin [OF this] show ?thesis unfolding r .
qed

lemma mul32_bound:
  assumes "0 \<le> a" "0 \<le> b" "a * b \<le> 2 ^ n" "n \<le> 127"
  shows "\<exists>v. mul32 (Fin a) (Fin b) = Fin v \<and> 0 \<le> v \<and> v \<le> 2 ^ n"
proof -
  have "f_le (rnd32 0) (rnd32 (a * b))" "f_le (rnd32 (a * b)) (rnd32 (2 ^ n))"
    using assms by (auto intro!: rnd32_mono)
  then have "f_le (Fin 0) (rnd32 (a * b))" "f_le (rnd32 (a * b)) (Fin (2 ^ n))"
    using rnd32_pow2 [OF assms(4)] rnd32_of_int [of 0] by simp_all
  then show ?thesis by (cases "rnd32 (a * b)") (auto simp: mul32_def mul_gen_def)
qed

section \<open>Square roots and differences\<close>

lemma isqrt_bounds: "0 \<le> n \<Longrightarrow> isqrt n * isqrt n \<le> n \<and> n < (isqrt n + 1) * (isqrt n + 1)"
proof (induction n rule: isqrt.induct)
  case (1 n)
  show ?case
  proof (cases "n = 0")
    case True
    then show ?thesis by (simp add: isqrt.simps)
  next
    case False
    define r where "r = isqrt (n div 4)"
    have IH: "r * r \<le> n div 4" "n div 4 < (r + 1) * (r + 1)" using 1 False by (simp_all add: r_def)
    have "4 * (r * r) \<le> n" using IH(1) by linarith
    moreover have "n < 4 * ((r + 1) * (r + 1))" using IH(2) by linarith
    moreover have "isqrt n = (if (2 * r + 1) * (2 * r + 1) \<le> n then 2 * r + 1 else 2 * r)"
      using False 1(2) by (subst isqrt.simps) (simp add: r_def Let_def)
    ultimately show ?thesis by (auto simp: algebra_simps)
  qed
qed

lemma f_neg_rnd32: "rnd32 (- q) = f_neg (rnd32 q)"
  by (auto simp: rnd32_def round_flt_def round_fin_minus Let_def f_neg_def)

lemma sub32_swap: "sub32 b a = f_neg (sub32 a b)"
proof (cases a; cases b)
  fix x y assume "a = Fin x" "b = Fin y"
  then show ?thesis using f_neg_rnd32 [of "x - y"] by (simp add: sub32_def add32_def f_neg_def)
qed (simp_all add: sub32_def add32_def f_neg_def)

lemma mul32_neg_neg: "mul32 (f_neg a) (f_neg b) = mul32 a b"
  by (cases a; cases b) (auto simp: mul32_def mul_gen_def f_neg_def inf_of_def)

end
