(* ===== verification/Economy.thy ===== *)
theory Economy
  imports Floats
begin

text \<open>
  The economy of \<open>src/game/GlobalEconomy.cpp\<close> and \<open>include/game/GlobalEconomy.h\<close>:
  items, player purses and inventories, merchants, trading, prices and statistics.

  The members of the class are the fields of the record \<open>GlobalEconomy\<close>.  A raw pointer
  returned by a \<open>Get\<close> method is an optional value; a write through it stores the changed
  record back under the same key.  A callback is a flag (is one set?) and each call of it is
  appended to \<open>ge_calls\<close>.  \<open>rand()\<close> is the argument \<open>rnd\<close>, the sequence of values it
  returns, with the number of calls made so far in \<open>ge_randPos\<close>.  Log output is left out.
  Operations that cast a \<open>float\<close> to \<open>uint32_t\<close> return \<open>None\<close> where the cast has
  undefined behaviour.
\<close>

section \<open>Data\<close>

datatype CurrencyType = Gold | Silver | Copper | Crowns

datatype ItemRarity = Common | Uncommon | Rare | Epic | Legendary | Artifact

datatype ItemType = Weapon | Armor | Consumable | Material | QuestItem | Misc

datatype TransactionType = Buy | Sell | Trade | Gift | Loot

text \<open>The order of the enumeration values, by which \<open>std::map<CurrencyType, ...>\<close> is sorted.\<close>

primrec currency_code :: "CurrencyType \<Rightarrow> nat" where
  "currency_code Gold = 0"
| "currency_code Silver = 1"
| "currency_code Copper = 2"
| "currency_code Crowns = 3"

instantiation CurrencyType :: linorder
begin

definition less_eq_CurrencyType :: "CurrencyType \<Rightarrow> CurrencyType \<Rightarrow> bool" where
  "less_eq_CurrencyType a b \<longleftrightarrow> currency_code a \<le> currency_code b"

definition less_CurrencyType :: "CurrencyType \<Rightarrow> CurrencyType \<Rightarrow> bool" where
  "less_CurrencyType a b \<longleftrightarrow> currency_code a < currency_code b"

instance
proof
  fix x y :: CurrencyType
  show "x \<le> y \<Longrightarrow> y \<le> x \<Longrightarrow> x = y"
    by (cases x; cases y) (simp_all add: less_eq_CurrencyType_def)
qed (auto simp: less_eq_CurrencyType_def less_CurrencyType_def)

end

record ItemData =
  i_itemId :: u32
  i_name :: string
  i_description :: string
  i_type :: ItemType
  i_rarity :: ItemRarity
  i_value :: u32
  i_weight :: u32
  i_stackSize :: u32
  i_isTradeable :: bool
  i_isSellable :: bool
  i_prices :: "(CurrencyType, u32) omap"

definition ItemData_new :: ItemData where
  "ItemData_new = \<lparr>i_itemId = 0, i_name = [], i_description = [], i_type = Misc,
     i_rarity = Common, i_value = 0, i_weight = 0, i_stackSize = 1, i_isTradeable = True,
     i_isSellable = True, i_prices = []\<rparr>"

record PlayerEconomyData =
  p_playerId :: u32
  p_currencies :: "(CurrencyType, u32) omap"
  p_inventory :: "(u32, u32) omap"
  p_totalWeight :: u32
  p_maxWeight :: u32
  p_transactionHistory :: "u32 list"
  p_lastUpdate :: time_point

definition PlayerEconomyData_new :: PlayerEconomyData where
  "PlayerEconomyData_new = \<lparr>p_playerId = 0, p_currencies = [], p_inventory = [],
     p_totalWeight = 0, p_maxWeight = 1000, p_transactionHistory = [], p_lastUpdate = 0\<rparr>"

record MerchantData =
  mr_merchantId :: u32
  mr_name :: string
  mr_location :: string
  mr_inventory :: "(u32, u32) omap"
  mr_buyPrices :: "(u32, u32) omap"
  mr_sellPrices :: "(u32, u32) omap"
  mr_goldAmount :: u32
  mr_maxGold :: u32
  mr_isActive :: bool
  mr_lastRestock :: time_point

definition MerchantData_new :: MerchantData where
  "MerchantData_new = \<lparr>mr_merchantId = 0, mr_name = [], mr_location = [], mr_inventory = [],
     mr_buyPrices = [], mr_sellPrices = [], mr_goldAmount = 1000, mr_maxGold = 10000,
     mr_isActive = True, mr_lastRestock = 0\<rparr>"

record TransactionData =
  t_transactionId :: u32
  t_playerId :: u32
  t_merchantId :: u32
  t_type :: TransactionType
  t_itemId :: u32
  t_quantity :: u32
  t_price :: u32
  t_currency :: CurrencyType
  t_timestamp :: time_point
  t_isCompleted :: bool

record EconomyStats =
  es_totalTransactions :: u32
  es_totalGoldCirculation :: u32
  es_activeMerchants :: u32
  es_totalItems :: u32
  es_averageTransactionValue :: flt
  es_inflationRate :: flt
  es_mostTradedItem :: u32
  es_richestPlayer :: u32

definition EconomyStats_Reset :: EconomyStats where
  "EconomyStats_Reset = \<lparr>es_totalTransactions = 0, es_totalGoldCirculation = 0,
     es_activeMerchants = 0, es_totalItems = 0, es_averageTransactionValue = Fin 0,
     es_inflationRate = Fin 0, es_mostTradedItem = 0, es_richestPlayer = 0\<rparr>"

datatype EconomyCall =
    TransactionCompleted TransactionData
  | PlayerWealthChanged u32 u32
  | MerchantRestocked u32
  | EconomyCrashed

record GlobalEconomy =
  ge_initialized :: bool
  ge_items :: "(u32, ItemData) omap"
  ge_playerEconomies :: "(u32, PlayerEconomyData) omap"
  ge_merchants :: "(u32, MerchantData) omap"
  ge_transactions :: "TransactionData list"
  ge_inflationRate :: flt
  ge_maxPlayerWeight :: u32
  ge_merchantRestockInterval :: flt
  ge_tradingEnabled :: bool
  ge_giftingEnabled :: bool
  ge_stats :: EconomyStats
  ge_transactionCompletedCallback :: bool
  ge_playerWealthChangedCallback :: bool
  ge_merchantRestockedCallback :: bool
  ge_economyCrashedCallback :: bool
  ge_lastUpdateTime :: time_point
  ge_lastRestockTime :: time_point
  ge_nextItemId :: u32
  ge_nextMerchantId :: u32
  ge_nextTransactionId :: u32
  ge_calls :: "EconomyCall list"
  ge_randPos :: nat

definition GlobalEconomy_new :: "time_point \<Rightarrow> GlobalEconomy" where
  "GlobalEconomy_new now = \<lparr>ge_initialized = False, ge_items = [], ge_playerEconomies = [],
     ge_merchants = [], ge_transactions = [], ge_inflationRate = rnd32 (1 / 100),
     ge_maxPlayerWeight = 1000, ge_merchantRestockInterval = Fin 3600,
     ge_tradingEnabled = True, ge_giftingEnabled = True, ge_stats = EconomyStats_Reset,
     ge_transactionCompletedCallback = False, ge_playerWealthChangedCallback = False,
     ge_merchantRestockedCallback = False, ge_economyCrashedCallback = False,
     ge_lastUpdateTime = now, ge_lastRestockTime = now, ge_nextItemId = 1,
     ge_nextMerchantId = 1, ge_nextTransactionId = 1, ge_calls = [], ge_randPos = 0\<rparr>"

text \<open>Calling a callback: nothing happens when none is set.\<close>

definition call_if :: "bool \<Rightarrow> EconomyCall \<Rightarrow> GlobalEconomy \<Rightarrow> GlobalEconomy" where
  "call_if registered c s = (if registered then s\<lparr>ge_calls := ge_calls s @ [c]\<rparr> else s)"

section \<open>Utilities that build items and merchants\<close>

definition CreateWeapon :: "string \<Rightarrow> ItemRarity \<Rightarrow> u32 \<Rightarrow> u32 \<Rightarrow> ItemData" where
  "CreateWeapon name rarity value weight = ItemData_new\<lparr>i_name := name, i_type := Weapon,
     i_rarity := rarity, i_value := value, i_weight := weight, i_isTradeable := True,
     i_isSellable := True\<rparr>"

definition CreateArmor :: "string \<Rightarrow> ItemRarity \<Rightarrow> u32 \<Rightarrow> u32 \<Rightarrow> ItemData" where
  "CreateArmor name rarity value weight = ItemData_new\<lparr>i_name := name, i_type := Armor,
     i_rarity := rarity, i_value := value, i_weight := weight, i_isTradeable := True,
     i_isSellable := True\<rparr>"

definition CreateConsumable :: "string \<Rightarrow> ItemRarity \<Rightarrow> u32 \<Rightarrow> u32 \<Rightarrow> ItemData" where
  "CreateConsumable name rarity value weight = ItemData_new\<lparr>i_name := name,
     i_type := Consumable, i_rarity := rarity, i_value := value, i_weight := weight,
     i_stackSize := 10, i_isTradeable := True, i_isSellable := True\<rparr>"

definition CreateMaterial :: "string \<Rightarrow> ItemRarity \<Rightarrow> u32 \<Rightarrow> u32 \<Rightarrow> ItemData" where
  "CreateMaterial name rarity value weight = ItemData_new\<lparr>i_name := name,
     i_type := Material, i_rarity := rarity, i_value := value, i_weight := weight,
     i_stackSize := 100, i_isTradeable := True, i_isSellable := True\<rparr>"

definition CreateMerchant :: "string \<Rightarrow> string \<Rightarrow> u32 \<Rightarrow> MerchantData" where
  "CreateMerchant name location goldAmount = MerchantData_new\<lparr>mr_name := name,
     mr_location := location, mr_goldAmount := goldAmount, mr_maxGold := goldAmount * 10,
     mr_isActive := True\<rparr>"

definition CreateWeaponMerchant :: "string \<Rightarrow> string \<Rightarrow> MerchantData" where
  "CreateWeaponMerchant name location = CreateMerchant name location 2000"

definition CreateArmorMerchant :: "string \<Rightarrow> string \<Rightarrow> MerchantData" where
  "CreateArmorMerchant name location = CreateMerchant name location 1500"

definition CreateGeneralMerchant :: "string \<Rightarrow> string \<Rightarrow> MerchantData" where
  "CreateGeneralMerchant name location = CreateMerchant name location 1000"

fun GetRarityMultiplier :: "ItemRarity \<Rightarrow> flt" where
  "GetRarityMultiplier Common = Fin 1"
| "GetRarityMultiplier Uncommon = Fin (3 / 2)"
| "GetRarityMultiplier Rare = Fin 2"
| "GetRarityMultiplier Epic = Fin 3"
| "GetRarityMultiplier Legendary = Fin 5"
| "GetRarityMultiplier Artifact = Fin 10"

fun GetTypeMultiplier :: "ItemType \<Rightarrow> flt" where
  "GetTypeMultiplier Weapon = rnd32 (12 / 10)"
| "GetTypeMultiplier Armor = rnd32 (11 / 10)"
| "GetTypeMultiplier Consumable = rnd32 (8 / 10)"
| "GetTypeMultiplier Material = rnd32 (9 / 10)"
| "GetTypeMultiplier QuestItem = Fin (1 / 2)"
| "GetTypeMultiplier Misc = Fin 1"

definition Utils_CalculateItemValue :: "ItemData \<Rightarrow> u32 option" where
  "Utils_CalculateItemValue item =
     (let rarityMultiplier = GetRarityMultiplier (i_rarity item);
          typeMultiplier = GetTypeMultiplier (i_type item)
      in to_u32 (mul32 (mul32 (f32_of_u32 (i_value item)) rarityMultiplier) typeMultiplier))"

definition CalculatePlayerWealth :: "PlayerEconomyData \<Rightarrow> flt" where
  "CalculatePlayerWealth player =
     foldl (\<lambda>wealth p. add32 wealth (f32_of_u32 (snd p))) (Fin 0) (p_currencies player)"

definition CalculateMerchantValue :: "MerchantData \<Rightarrow> flt" where
  "CalculateMerchantValue merchant =
     foldl (\<lambda>value p. add32 value (f32_of_u32 (snd p * 10)))
       (f32_of_u32 (mr_goldAmount merchant)) (mr_inventory merchant)"

definition ValidateItemData :: "ItemData \<Rightarrow> bool" where
  "ValidateItemData item \<longleftrightarrow> i_name item \<noteq> [] \<and> 0 < i_value item \<and> 0 \<le> i_weight item"

definition ValidatePlayerEconomy :: "PlayerEconomyData \<Rightarrow> bool" where
  "ValidatePlayerEconomy player \<longleftrightarrow> p_playerId player \<noteq> 0 \<and> 0 < p_maxWeight player"

definition ValidateMerchantData :: "MerchantData \<Rightarrow> bool" where
  "ValidateMerchantData merchant \<longleftrightarrow>
     mr_name merchant \<noteq> [] \<and> mr_location merchant \<noteq> [] \<and> 0 < mr_maxGold merchant"

section \<open>Items\<close>

definition GetItem :: "GlobalEconomy \<Rightarrow> u32 \<Rightarrow> ItemData option" where
  "GetItem s itemId = om_find (ge_items s) itemId"

text \<open>The copy that \<open>AddItem\<close> stores: its id, and default prices when it has none.\<close>

definition stored_item :: "u32 \<Rightarrow> ItemData \<Rightarrow> ItemData" where
  "stored_item k item =
     (let item' = item\<lparr>i_itemId := k\<rparr>
      in if i_prices item' = []
         then item'\<lparr>i_prices := om_put Copper (i_value item' * 100)
                (om_put Silver (i_value item' * 10) (om_put Gold (i_value item') []))\<rparr>
         else item')"

definition AddItem :: "ItemData \<Rightarrow> GlobalEconomy \<Rightarrow> GlobalEconomy" where
  "AddItem item s =
     (if \<not> ge_initialized s then s
      else
        let k = (if i_itemId item = 0 then ge_nextItemId s else i_itemId item);
            s1 = (if i_itemId item = 0 then s\<lparr>ge_nextItemId := ge_nextItemId s + 1\<rparr> else s)
        in s1\<lparr>ge_items := om_put k (stored_item k item) (ge_items s1),
              ge_stats := (ge_stats s1)\<lparr>es_totalItems := es_totalItems (ge_stats s1) + 1\<rparr>\<rparr>)"

definition RemoveItem :: "u32 \<Rightarrow> GlobalEconomy \<Rightarrow> GlobalEconomy" where
  "RemoveItem itemId s =
     (case om_find (ge_items s) itemId of
        None \<Rightarrow> s
      | Some _ \<Rightarrow> s\<lparr>ge_items := om_erase itemId (ge_items s),
          ge_stats := (ge_stats s)\<lparr>es_totalItems := es_totalItems (ge_stats s) - 1\<rparr>\<rparr>)"

definition GetAllItems :: "GlobalEconomy \<Rightarrow> ItemData list" where
  "GetAllItems s = om_values (ge_items s)"

definition GetItemsByType :: "GlobalEconomy \<Rightarrow> ItemType \<Rightarrow> ItemData list" where
  "GetItemsByType s ty = filter (\<lambda>i. i_type i = ty) (om_values (ge_items s))"

definition GetItemsByRarity :: "GlobalEconomy \<Rightarrow> ItemRarity \<Rightarrow> ItemData list" where
  "GetItemsByRarity s rarity = filter (\<lambda>i. i_rarity i = rarity) (om_values (ge_items s))"

section \<open>Players\<close>

definition AddPlayer :: "time_point \<Rightarrow> u32 \<Rightarrow> GlobalEconomy \<Rightarrow> GlobalEconomy" where
  "AddPlayer now playerId s =
     (if \<not> ge_initialized s then s
      else
        let player = PlayerEconomyData_new\<lparr>p_playerId := playerId,
              p_currencies := om_put Gold 100 [], p_lastUpdate := now\<rparr>
        in s\<lparr>ge_playerEconomies := om_put playerId player (ge_playerEconomies s)\<rparr>)"

definition RemovePlayer :: "u32 \<Rightarrow> GlobalEconomy \<Rightarrow> GlobalEconomy" where
  "RemovePlayer playerId s = s\<lparr>ge_playerEconomies := om_erase playerId (ge_playerEconomies s)\<rparr>"

definition GetPlayerEconomy :: "GlobalEconomy \<Rightarrow> u32 \<Rightarrow> PlayerEconomyData option" where
  "GetPlayerEconomy s playerId = om_find (ge_playerEconomies s) playerId"

definition set_player :: "u32 \<Rightarrow> PlayerEconomyData \<Rightarrow> GlobalEconomy \<Rightarrow> GlobalEconomy" where
  "set_player playerId player s =
     s\<lparr>ge_playerEconomies := om_put playerId player (ge_playerEconomies s)\<rparr>"

definition GetCurrency :: "GlobalEconomy \<Rightarrow> u32 \<Rightarrow> CurrencyType \<Rightarrow> u32" where
  "GetCurrency s playerId currency =
     (case GetPlayerEconomy s playerId of
        None \<Rightarrow> 0
      | Some player \<Rightarrow> om_get 0 (p_currencies player) currency)"

text \<open>The wealth reported to the callback; the computation has no other effect.\<close>

definition player_wealth :: "GlobalEconomy \<Rightarrow> PlayerEconomyData \<Rightarrow> u32" where
  "player_wealth s player =
     (\<Sum>p \<leftarrow> p_currencies player. snd p)
     + (\<Sum>p \<leftarrow> p_inventory player.
          case GetItem s (fst p) of None \<Rightarrow> 0 | Some item \<Rightarrow> i_value item * snd p)"

definition UpdatePlayerWealth :: "u32 \<Rightarrow> GlobalEconomy \<Rightarrow> GlobalEconomy" where
  "UpdatePlayerWealth playerId s =
     (case GetPlayerEconomy s playerId of
        None \<Rightarrow> s
      | Some player \<Rightarrow>
          call_if (ge_playerWealthChangedCallback s)
            (PlayerWealthChanged playerId (player_wealth s player)) s)"

definition CanPlayerAfford :: "GlobalEconomy \<Rightarrow> u32 \<Rightarrow> CurrencyType \<Rightarrow> u32 \<Rightarrow> bool" where
  "CanPlayerAfford s playerId currency amount \<longleftrightarrow> amount \<le> GetCurrency s playerId currency"

definition CanPlayerCarry :: "GlobalEconomy \<Rightarrow> u32 \<Rightarrow> u32 \<Rightarrow> u32 \<Rightarrow> bool" where
  "CanPlayerCarry s playerId itemId quantity =
     (case (GetPlayerEconomy s playerId, GetItem s itemId) of
        (Some player, Some item) \<Rightarrow>
          p_totalWeight player + i_weight item * quantity \<le> p_maxWeight player
      | _ \<Rightarrow> False)"

definition AddCurrency ::
    "time_point \<Rightarrow> u32 \<Rightarrow> CurrencyType \<Rightarrow> u32 \<Rightarrow> GlobalEconomy \<Rightarrow> bool \<times> GlobalEconomy" where
  "AddCurrency now playerId currency amount s =
     (case GetPlayerEconomy s playerId of
        None \<Rightarrow> (False, s)
      | Some player \<Rightarrow>
          let old = om_get 0 (p_currencies player) currency;
              player' = player\<lparr>p_currencies := om_put currency (old + amount) (p_currencies player),
                               p_lastUpdate := now\<rparr>
          in (True, UpdatePlayerWealth playerId (set_player playerId player' s)))"

definition RemoveCurrency ::
    "time_point \<Rightarrow> u32 \<Rightarrow> CurrencyType \<Rightarrow> u32 \<Rightarrow> GlobalEconomy \<Rightarrow> bool \<times> GlobalEconomy" where
  "RemoveCurrency now playerId currency amount s =
     (case GetPlayerEconomy s playerId of
        None \<Rightarrow> (False, s)
      | Some player \<Rightarrow>
          if \<not> CanPlayerAfford s playerId currency amount then (False, s)
          else
            let old = om_get 0 (p_currencies player) currency;
                player' = player\<lparr>p_currencies := om_put currency (old - amount) (p_currencies player),
                                 p_lastUpdate := now\<rparr>
            in (True, UpdatePlayerWealth playerId (set_player playerId player' s)))"

definition AddItemToInventory ::
    "time_point \<Rightarrow> u32 \<Rightarrow> u32 \<Rightarrow> u32 \<Rightarrow> GlobalEconomy \<Rightarrow> bool \<times> GlobalEconomy" where
  "AddItemToInventory now playerId itemId quantity s =
     (case (GetPlayerEconomy s playerId, GetItem s itemId) of
        (Some player, Some item) \<Rightarrow>
          let additionalWeight = i_weight item * quantity
          in if p_maxWeight player < p_totalWeight player + additionalWeight then (False, s)
             else
               let player' = player\<lparr>
                     p_inventory := om_put itemId (om_get 0 (p_inventory player) itemId + quantity)
                                      (p_inventory player),
                     p_totalWeight := p_totalWeight player + additionalWeight,
                     p_lastUpdate := now\<rparr>
               in (True, set_player playerId player' s)
      | _ \<Rightarrow> (False, s))"

text \<open>\<open>it->second -= quantity; if (it->second == 0) erase(it)\<close> on an entry holding \<open>have\<close>.\<close>

definition take_out :: "u32 \<Rightarrow> u32 \<Rightarrow> u32 \<Rightarrow> (u32, u32) omap \<Rightarrow> (u32, u32) omap" where
  "take_out itemId have quantity inventory =
     (if have - quantity = 0 then om_erase itemId inventory
      else om_put itemId (have - quantity) inventory)"

definition RemoveItemFromInventory ::
    "time_point \<Rightarrow> u32 \<Rightarrow> u32 \<Rightarrow> u32 \<Rightarrow> GlobalEconomy \<Rightarrow> bool \<times> GlobalEconomy" where
  "RemoveItemFromInventory now playerId itemId quantity s =
     (case (GetPlayerEconomy s playerId, GetItem s itemId) of
        (Some player, Some item) \<Rightarrow>
          (case om_find (p_inventory player) itemId of
             None \<Rightarrow> (False, s)
           | Some have \<Rightarrow>
               if have < quantity then (False, s)
               else
                 let player' = player\<lparr>
                       p_inventory := take_out itemId have quantity (p_inventory player),
                       p_totalWeight := p_totalWeight player - i_weight item * quantity,
                       p_lastUpdate := now\<rparr>
                 in (True, set_player playerId player' s))
      | _ \<Rightarrow> (False, s))"

definition GetItemQuantity :: "GlobalEconomy \<Rightarrow> u32 \<Rightarrow> u32 \<Rightarrow> u32" where
  "GetItemQuantity s playerId itemId =
     (case GetPlayerEconomy s playerId of
        None \<Rightarrow> 0
      | Some player \<Rightarrow> om_get 0 (p_inventory player) itemId)"

end
