(* ===== verification/Trading.thy ===== *)
theory Trading
  imports Economy
begin

text \<open>
  Merchants, prices, trading and the periodic update of \<open>src/game/GlobalEconomy.cpp\<close>,
  and the whole class as a list of operations (\<open>EconomyOp\<close>, \<open>economy_step\<close>).
\<close>

section \<open>Merchants and prices\<close>

definition GetMerchant :: "GlobalEconomy \<Rightarrow> u32 \<Rightarrow> MerchantData option" where
  "GetMerchant s merchantId = om_find (ge_merchants s) merchantId"

definition set_merchant :: "u32 \<Rightarrow> MerchantData \<Rightarrow> GlobalEconomy \<Rightarrow> GlobalEconomy" where
  "set_merchant merchantId merchant s =
     s\<lparr>ge_merchants := om_put merchantId merchant (ge_merchants s)\<rparr>"

definition AddMerchant :: "MerchantData \<Rightarrow> GlobalEconomy \<Rightarrow> GlobalEconomy" where
  "AddMerchant merchant s =
     (if \<not> ge_initialized s then s
      else
        let k = (if mr_merchantId merchant = 0 then ge_nextMerchantId s else mr_merchantId merchant);
            s1 = (if mr_merchantId merchant = 0
                  then s\<lparr>ge_nextMerchantId := ge_nextMerchantId s + 1\<rparr> else s)
        in s1\<lparr>ge_merchants := om_put k (merchant\<lparr>mr_merchantId := k\<rparr>) (ge_merchants s1),
              ge_stats := (ge_stats s1)\<lparr>es_activeMerchants := es_activeMerchants (ge_stats s1) + 1\<rparr>\<rparr>)"

definition RemoveMerchant :: "u32 \<Rightarrow> GlobalEconomy \<Rightarrow> GlobalEconomy" where
  "RemoveMerchant merchantId s =
     (case om_find (ge_merchants s) merchantId of
        None \<Rightarrow> s
      | Some _ \<Rightarrow> s\<lparr>ge_merchants := om_erase merchantId (ge_merchants s),
          ge_stats := (ge_stats s)\<lparr>es_activeMerchants := es_activeMerchants (ge_stats s) - 1\<rparr>\<rparr>)"

definition GetAllMerchants :: "GlobalEconomy \<Rightarrow> MerchantData list" where
  "GetAllMerchants s = om_values (ge_merchants s)"

definition GetMerchantsInLocation :: "GlobalEconomy \<Rightarrow> string \<Rightarrow> MerchantData list" where
  "GetMerchantsInLocation s location =
     filter (\<lambda>m. mr_location m = location) (om_values (ge_merchants s))"

text \<open>
  One item of the restocking loop; the accumulator is the merchant's inventory and the
  number of \<open>rand()\<close> calls made.
\<close>

definition restock_item ::
    "(nat \<Rightarrow> nat) \<Rightarrow> ItemData \<Rightarrow> (u32, u32) omap \<times> nat \<Rightarrow> (u32, u32) omap \<times> nat" where
  "restock_item rnd item acc =
     (case acc of (inventory, pos) \<Rightarrow>
        if i_isTradeable item \<and> om_find inventory (i_itemId item) = None then
          if rnd pos mod 100 < 30
          then (om_put (i_itemId item) (of_nat (rnd (pos + 1) mod 5 + 1)) inventory, pos + 2)
          else (inventory, pos + 1)
        else (inventory, pos))"

definition RestockMerchant ::
    "(nat \<Rightarrow> nat) \<Rightarrow> time_point \<Rightarrow> u32 \<Rightarrow> GlobalEconomy \<Rightarrow> GlobalEconomy" where
  "RestockMerchant rnd now merchantId s =
     (case GetMerchant s merchantId of
        None \<Rightarrow> s
      | Some merchant \<Rightarrow>
          if \<not> mr_isActive merchant then s
          else
            let (inventory, pos) = fold (restock_item rnd) (om_values (ge_items s))
                                     (mr_inventory merchant, ge_randPos s);
                s1 = set_merchant merchantId
                       (merchant\<lparr>mr_inventory := inventory, mr_lastRestock := now\<rparr>)
                       (s\<lparr>ge_randPos := pos\<rparr>)
            in call_if (ge_merchantRestockedCallback s1) (MerchantRestocked merchantId) s1)"

definition CalculateBasePrice :: "GlobalEconomy \<Rightarrow> u32 \<Rightarrow> u32" where
  "CalculateBasePrice s itemId =
     (case GetItem s itemId of None \<Rightarrow> 0 | Some item \<Rightarrow> i_value item)"

definition GetMerchantMultiplier :: "GlobalEconomy \<Rightarrow> u32 \<Rightarrow> flt" where
  "GetMerchantMultiplier s merchantId = Fin 1"

definition CalculateItemValue :: "GlobalEconomy \<Rightarrow> u32 \<Rightarrow> u32" where
  "CalculateItemValue s itemId =
     (case GetItem s itemId of None \<Rightarrow> 0 | Some item \<Rightarrow> i_value item)"

definition CalculateBuyPrice :: "GlobalEconomy \<Rightarrow> u32 \<Rightarrow> u32 \<Rightarrow> u32 option" where
  "CalculateBuyPrice s itemId merchantId =
     (case (GetItem s itemId, GetMerchant s merchantId) of
        (Some item, Some merchant) \<Rightarrow>
          (case om_find (mr_buyPrices merchant) itemId of
             Some price \<Rightarrow> Some price
           | None \<Rightarrow>
               let basePrice = CalculateBasePrice s itemId;
                   merchantMultiplier = GetMerchantMultiplier s merchantId
               in to_u32 (mul32 (f32_of_u32 basePrice) merchantMultiplier))
      | _ \<Rightarrow> Some 0)"

definition CalculateSellPrice :: "GlobalEconomy \<Rightarrow> u32 \<Rightarrow> u32 \<Rightarrow> u32 option" where
  "CalculateSellPrice s itemId merchantId =
     (case (GetItem s itemId, GetMerchant s merchantId) of
        (Some item, Some merchant) \<Rightarrow>
          (case om_find (mr_sellPrices merchant) itemId of
             Some price \<Rightarrow> Some price
           | None \<Rightarrow>
               let basePrice = CalculateBasePrice s itemId;
                   merchantMultiplier = GetMerchantMultiplier s merchantId;
                   sellDiscount = Fin (1 / 2)
               in to_u32 (mul32 (mul32 (f32_of_u32 basePrice) merchantMultiplier) sellDiscount))
      | _ \<Rightarrow> Some 0)"

text \<open>One inventory entry of the price update; \<open>None\<close> is an undefined cast.\<close>

definition update_price_of :: "u32 \<Rightarrow> u32 \<Rightarrow> GlobalEconomy \<Rightarrow> GlobalEconomy option" where
  "update_price_of merchantId itemId s =
     (case GetItem s itemId of
        None \<Rightarrow> Some s
      | Some item \<Rightarrow> do {
          buyPrice \<leftarrow> CalculateBuyPrice s itemId merchantId;
          sellPrice \<leftarrow> CalculateSellPrice s itemId merchantId;
          Some (s\<lparr>ge_merchants := om_upd merchantId
                 (\<lambda>m. m\<lparr>mr_buyPrices := om_put itemId buyPrice (mr_buyPrices m),
                         mr_sellPrices := om_put itemId sellPrice (mr_sellPrices m)\<rparr>)
                 (ge_merchants s)\<rparr>)
        })"

definition UpdateMerchantPrices :: "u32 \<Rightarrow> GlobalEconomy \<Rightarrow> GlobalEconomy option" where
  "UpdateMerchantPrices merchantId s =
     (case GetMerchant s merchantId of
        None \<Rightarrow> Some s
      | Some merchant \<Rightarrow> run (update_price_of merchantId) (om_keys (mr_inventory merchant)) s)"

definition update_all_merchant_prices :: "GlobalEconomy \<Rightarrow> GlobalEconomy option" where
  "update_all_merchant_prices s = run UpdateMerchantPrices (om_keys (ge_merchants s)) s"

text \<open>\<open>static_cast<uint32_t>(v * (1.0f + m_inflationRate))\<close>.\<close>

definition inflate :: "flt \<Rightarrow> u32 \<Rightarrow> u32 option" where
  "inflate rate v = to_u32 (mul32 (f32_of_u32 v) (add32 (Fin 1) rate))"

fun inflate_prices :: "flt \<Rightarrow> (CurrencyType, u32) omap \<Rightarrow> (CurrencyType, u32) omap option" where
  "inflate_prices rate [] = Some []"
| "inflate_prices rate ((c, v) # ps) =
     do { w \<leftarrow> inflate rate v; qs \<leftarrow> inflate_prices rate ps; Some ((c, w) # qs) }"

fun inflate_items :: "flt \<Rightarrow> (u32, ItemData) omap \<Rightarrow> (u32, ItemData) omap option" where
  "inflate_items rate [] = Some []"
| "inflate_items rate ((k, item) # m) =
     do { v \<leftarrow> inflate rate (i_value item);
          ps \<leftarrow> inflate_prices rate (i_prices item);
          m' \<leftarrow> inflate_items rate m;
          Some ((k, item\<lparr>i_value := v, i_prices := ps\<rparr>) # m') }"

definition UpdateItemPrices :: "GlobalEconomy \<Rightarrow> GlobalEconomy option" where
  "UpdateItemPrices s = do {
     items \<leftarrow> inflate_items (ge_inflationRate s) (ge_items s);
     update_all_merchant_prices (s\<lparr>ge_items := items\<rparr>)
   }"

definition ApplyInflation :: "flt \<Rightarrow> GlobalEconomy \<Rightarrow> GlobalEconomy option" where
  "ApplyInflation rate s = UpdateItemPrices (s\<lparr>ge_inflationRate := rate\<rparr>)"

section \<open>Trading\<close>

definition ValidateTransaction :: "TransactionData \<Rightarrow> bool" where
  "ValidateTransaction t \<longleftrightarrow>
     t_playerId t \<noteq> 0 \<and> t_merchantId t \<noteq> 0 \<and> t_itemId t \<noteq> 0 \<and> 0 < t_quantity t"

definition ProcessTransaction :: "TransactionData \<Rightarrow> bool" where
  "ProcessTransaction t = (if \<not> ValidateTransaction t then False else True)"

text \<open>The end of both trades: complete the transaction, record it and report it.\<close>

definition finish_transaction :: "TransactionData \<Rightarrow> GlobalEconomy \<Rightarrow> GlobalEconomy" where
  "finish_transaction t s =
     (let t' = t\<lparr>t_isCompleted := True\<rparr>;
          s1 = s\<lparr>ge_transactions := ge_transactions s @ [t'],
                 ge_stats := (ge_stats s)\<lparr>es_totalTransactions := es_totalTransactions (ge_stats s) + 1\<rparr>\<rparr>
      in call_if (ge_transactionCompletedCallback s1) (TransactionCompleted t') s1)"

text \<open>The part of \<open>BuyItem\<close> after the checks: the transaction and its effects.\<close>

definition commit_buy ::
    "time_point \<Rightarrow> u32 \<Rightarrow> u32 \<Rightarrow> u32 \<Rightarrow> u32 \<Rightarrow> u32 \<Rightarrow> GlobalEconomy \<Rightarrow> bool \<times> GlobalEconomy" where
  "commit_buy now playerId merchantId itemId quantity totalPrice s =
     (let transaction = \<lparr>t_transactionId = ge_nextTransactionId s, t_playerId = playerId,
            t_merchantId = merchantId, t_type = Buy, t_itemId = itemId, t_quantity = quantity,
            t_price = totalPrice, t_currency = Gold, t_timestamp = now, t_isCompleted = False\<rparr>;
          s1 = s\<lparr>ge_nextTransactionId := ge_nextTransactionId s + 1\<rparr>
      in if ProcessTransaction transaction then
           let s2 = snd (RemoveCurrency now playerId Gold totalPrice s1);
               s3 = snd (AddItemToInventory now playerId itemId quantity s2);
               s4 = s3\<lparr>ge_merchants := om_upd merchantId
                      (\<lambda>m. m\<lparr>mr_inventory := take_out itemId (om_get 0 (mr_inventory m) itemId)
                                               quantity (mr_inventory m),
                              mr_goldAmount := mr_goldAmount m + totalPrice\<rparr>)
                      (ge_merchants s3)\<rparr>
           in (True, finish_transaction transaction s4)
         else (False, s1))"

definition BuyItem ::
    "time_point \<Rightarrow> u32 \<Rightarrow> u32 \<Rightarrow> u32 \<Rightarrow> u32 \<Rightarrow> GlobalEconomy \<Rightarrow> (bool \<times> GlobalEconomy) option" where
  "BuyItem now playerId merchantId itemId quantity s =
     (if \<not> ge_tradingEnabled s then Some (False, s)
      else case (GetPlayerEconomy s playerId, GetMerchant s merchantId, GetItem s itemId) of
        (Some player, Some merchant, Some item) \<Rightarrow>
          if \<not> mr_isActive merchant then Some (False, s)
          else (case om_find (mr_inventory merchant) itemId of
              None \<Rightarrow> Some (False, s)
            | Some stock \<Rightarrow>
                if stock < quantity then Some (False, s)
                else do {
                  price \<leftarrow> CalculateBuyPrice s itemId merchantId;
                  let totalPrice = price * quantity;
                  if \<not> CanPlayerAfford s playerId Gold totalPrice then Some (False, s)
                  else if \<not> CanPlayerCarry s playerId itemId quantity then Some (False, s)
                  else Some (commit_buy now playerId merchantId itemId quantity totalPrice s)
                })
      | _ \<Rightarrow> Some (False, s))"

text \<open>The part of \<open>SellItem\<close> after the checks.\<close>

definition commit_sell ::
    "time_point \<Rightarrow> u32 \<Rightarrow> u32 \<Rightarrow> u32 \<Rightarrow> u32 \<Rightarrow> u32 \<Rightarrow> GlobalEconomy \<Rightarrow> bool \<times> GlobalEconomy" where
  "commit_sell now playerId merchantId itemId quantity totalPrice s =
     (let transaction = \<lparr>t_transactionId = ge_nextTransactionId s, t_playerId = playerId,
            t_merchantId = merchantId, t_type = Sell, t_itemId = itemId, t_quantity = quantity,
            t_price = totalPrice, t_currency = Gold, t_timestamp = now, t_isCompleted = False\<rparr>;
          s1 = s\<lparr>ge_nextTransactionId := ge_nextTransactionId s + 1\<rparr>
      in if ProcessTransaction transaction then
           let s2 = snd (RemoveItemFromInventory now playerId itemId quantity s1);
               s3 = snd (AddCurrency now playerId Gold totalPrice s2);
               s4 = s3\<lparr>ge_merchants := om_upd merchantId
                      (\<lambda>m. m\<lparr>mr_inventory := om_put itemId (om_get 0 (mr_inventory m) itemId + quantity)
                                               (mr_inventory m),
                              mr_goldAmount := mr_goldAmount m - totalPrice\<rparr>)
                      (ge_merchants s3)\<rparr>
           in (True, finish_transaction transaction s4)
         else (False, s1))"

definition SellItem ::
    "time_point \<Rightarrow> u32 \<Rightarrow> u32 \<Rightarrow> u32 \<Rightarrow> u32 \<Rightarrow> GlobalEconomy \<Rightarrow> (bool \<times> GlobalEconomy) option" where
  "SellItem now playerId merchantId itemId quantity s =
     (if \<not> ge_tradingEnabled s then Some (False, s)
      else case (GetPlayerEconomy s playerId, GetMerchant s merchantId, GetItem s itemId) of
        (Some player, Some merchant, Some item) \<Rightarrow>
          if \<not> mr_isActive merchant then Some (False, s)
          else if GetItemQuantity s playerId itemId < quantity then Some (False, s)
          else if \<not> i_isSellable item then Some (False, s)
          else do {
            price \<leftarrow> CalculateSellPrice s itemId merchantId;
            let totalPrice = price * quantity;
            if mr_goldAmount merchant < totalPrice then Some (False, s)
            else Some (commit_sell now playerId merchantId itemId quantity totalPrice s)
          }
      | _ \<Rightarrow> Some (False, s))"

text \<open>Handing one stack of an offer over: both results are ignored by the code.\<close>

definition hand_over ::
    "time_point \<Rightarrow> u32 \<Rightarrow> u32 \<Rightarrow> u32 \<times> u32 \<Rightarrow> GlobalEconomy \<Rightarrow> GlobalEconomy" where
  "hand_over now giver taker offer s =
     snd (AddItemToInventory now taker (fst offer) (snd offer)
       (snd (RemoveItemFromInventory now giver (fst offer) (snd offer) s)))"

definition owns_all :: "GlobalEconomy \<Rightarrow> u32 \<Rightarrow> (u32, u32) omap \<Rightarrow> bool" where
  "owns_all s playerId offers \<longleftrightarrow>
     list_all (\<lambda>offer. \<not> GetItemQuantity s playerId (fst offer) < snd offer) offers"

definition TradeItems ::
    "time_point \<Rightarrow> u32 \<Rightarrow> u32 \<Rightarrow> (u32, u32) omap \<Rightarrow> (u32, u32) omap \<Rightarrow> GlobalEconomy
       \<Rightarrow> bool \<times> GlobalEconomy" where
  "TradeItems now player1Id player2Id items1 items2 s =
     (if \<not> ge_tradingEnabled s then (False, s)
      else case (GetPlayerEconomy s player1Id, GetPlayerEconomy s player2Id) of
        (Some player1, Some player2) \<Rightarrow>
          if \<not> owns_all s player1Id items1 then (False, s)
          else if \<not> owns_all s player2Id items2 then (False, s)
          else (True, fold (hand_over now player2Id player1Id) items2
                        (fold (hand_over now player1Id player2Id) items1 s))
      | _ \<Rightarrow> (False, s))"

definition GiftItem ::
    "time_point \<Rightarrow> u32 \<Rightarrow> u32 \<Rightarrow> u32 \<Rightarrow> u32 \<Rightarrow> GlobalEconomy \<Rightarrow> bool \<times> GlobalEconomy" where
  "GiftItem now fromPlayerId toPlayerId itemId quantity s =
     (if \<not> ge_giftingEnabled s then (False, s)
      else case (GetPlayerEconomy s fromPlayerId, GetPlayerEconomy s toPlayerId) of
        (Some fromPlayer, Some toPlayer) \<Rightarrow>
          if GetItemQuantity s fromPlayerId itemId < quantity then (False, s)
          else if \<not> CanPlayerCarry s toPlayerId itemId quantity then (False, s)
          else (True, hand_over now fromPlayerId toPlayerId (itemId, quantity) s)
      | _ \<Rightarrow> (False, s))"

definition IsItemTradeable :: "GlobalEconomy \<Rightarrow> u32 \<Rightarrow> bool" where
  "IsItemTradeable s itemId =
     (case GetItem s itemId of None \<Rightarrow> False | Some item \<Rightarrow> i_isTradeable item)"

definition IsMerchantActive :: "GlobalEconomy \<Rightarrow> u32 \<Rightarrow> bool" where
  "IsMerchantActive s merchantId =
     (case GetMerchant s merchantId of None \<Rightarrow> False | Some merchant \<Rightarrow> mr_isActive merchant)"

section \<open>Periodic update\<close>

definition UpdateEconomyStats :: "GlobalEconomy \<Rightarrow> GlobalEconomy" where
  "UpdateEconomyStats s =
     (let total = (\<Sum>k \<leftarrow> om_keys (ge_playerEconomies s). GetCurrency s k Gold)
                + (\<Sum>m \<leftarrow> om_values (ge_merchants s). mr_goldAmount m)
      in s\<lparr>ge_stats := (ge_stats s)\<lparr>es_totalGoldCirculation := total\<rparr>\<rparr>)"

definition CheckEconomyHealth :: "GlobalEconomy \<Rightarrow> GlobalEconomy" where
  "CheckEconomyHealth s =
     (if es_totalGoldCirculation (ge_stats s) = 0
      then call_if (ge_economyCrashedCallback s) EconomyCrashed s else s)"

definition CleanupOldTransactions :: "time_point \<Rightarrow> GlobalEconomy \<Rightarrow> GlobalEconomy" where
  "CleanupOldTransactions now s =
     s\<lparr>ge_transactions := filter (\<lambda>t. \<not> f_lt (Fin 86400) (seconds32 (now - t_timestamp t)))
                            (ge_transactions s)\<rparr>"

definition ProcessEconomyUpdate :: "(nat \<Rightarrow> nat) \<Rightarrow> time_point \<Rightarrow> GlobalEconomy \<Rightarrow> GlobalEconomy" where
  "ProcessEconomyUpdate rnd now s =
     (if \<not> ge_initialized s then s
      else
        let timeSinceLastRestock = seconds32 (now - ge_lastRestockTime s);
            s1 = (if f_le (ge_merchantRestockInterval s) timeSinceLastRestock
                  then (fold (RestockMerchant rnd now) (om_keys (ge_merchants s)) s)
                         \<lparr>ge_lastRestockTime := now\<rparr>
                  else s);
            s2 = CleanupOldTransactions now (CheckEconomyHealth (UpdateEconomyStats s1))
        in s2\<lparr>ge_lastUpdateTime := now\<rparr>)"

definition rebalance_item :: "u32 \<Rightarrow> GlobalEconomy \<Rightarrow> GlobalEconomy" where
  "rebalance_item k s =
     s\<lparr>ge_items := om_upd k (\<lambda>item. item\<lparr>i_value := CalculateItemValue s (i_itemId item)\<rparr>)
                     (ge_items s)\<rparr>"

definition RebalanceEconomy :: "GlobalEconomy \<Rightarrow> GlobalEconomy option" where
  "RebalanceEconomy s =
     update_all_merchant_prices (fold rebalance_item (om_keys (ge_items s)) s)"

definition reset_player :: "PlayerEconomyData \<Rightarrow> PlayerEconomyData" where
  "reset_player player = player\<lparr>
     p_currencies := om_put Copper 0 (om_put Silver 0 (om_put Gold 100 (p_currencies player))),
     p_inventory := [], p_totalWeight := 0\<rparr>"

definition reset_merchant :: "MerchantData \<Rightarrow> MerchantData" where
  "reset_merchant merchant = merchant\<lparr>mr_inventory := [], mr_goldAmount := 1000\<rparr>"

definition ResetEconomy :: "GlobalEconomy \<Rightarrow> GlobalEconomy" where
  "ResetEconomy s = s\<lparr>
     ge_playerEconomies := om_map (\<lambda>_. reset_player) (ge_playerEconomies s),
     ge_merchants := om_map (\<lambda>_. reset_merchant) (ge_merchants s),
     ge_transactions := []\<rparr>"

section \<open>Life cycle and configuration\<close>

definition InitializeDefaultItems :: "GlobalEconomy \<Rightarrow> GlobalEconomy" where
  "InitializeDefaultItems s = fold AddItem
     [CreateWeapon ''Iron Sword'' Common 50 10, CreateArmor ''Leather Armor'' Common 30 15,
      CreateConsumable ''Health Potion'' Common 10 1, CreateMaterial ''Iron Ore'' Common 5 2] s"

definition InitializeDefaultMerchants :: "GlobalEconomy \<Rightarrow> GlobalEconomy" where
  "InitializeDefaultMerchants s = fold AddMerchant
     [CreateWeaponMerchant ''Blacksmith'' ''Novigrad'', CreateArmorMerchant ''Armorer'' ''Oxenfurt'',
      CreateGeneralMerchant ''Trader'' ''Velen''] s"

definition Initialize :: "GlobalEconomy \<Rightarrow> bool \<times> GlobalEconomy" where
  "Initialize s =
     (if ge_initialized s then (True, s)
      else (True, (InitializeDefaultMerchants (InitializeDefaultItems s))\<lparr>ge_initialized := True\<rparr>))"

definition Shutdown :: "GlobalEconomy \<Rightarrow> GlobalEconomy" where
  "Shutdown s =
     (if \<not> ge_initialized s then s
      else s\<lparr>ge_items := [], ge_playerEconomies := [], ge_merchants := [], ge_transactions := [],
             ge_initialized := False\<rparr>)"

definition SetInflationRate :: "flt \<Rightarrow> GlobalEconomy \<Rightarrow> GlobalEconomy" where
  "SetInflationRate rate s = s\<lparr>ge_inflationRate := f_max (Fin 0) (f_min (Fin 1) rate)\<rparr>"

definition SetMaxPlayerWeight :: "u32 \<Rightarrow> GlobalEconomy \<Rightarrow> GlobalEconomy" where
  "SetMaxPlayerWeight maxWeight s = s\<lparr>ge_maxPlayerWeight := maxWeight\<rparr>"

definition SetMerchantRestockInterval :: "flt \<Rightarrow> GlobalEconomy \<Rightarrow> GlobalEconomy" where
  "SetMerchantRestockInterval interval s =
     s\<lparr>ge_merchantRestockInterval := f_max (Fin 60) interval\<rparr>"

definition EnableTrading :: "bool \<Rightarrow> GlobalEconomy \<Rightarrow> GlobalEconomy" where
  "EnableTrading enable s = s\<lparr>ge_tradingEnabled := enable\<rparr>"

definition EnableGifting :: "bool \<Rightarrow> GlobalEconomy \<Rightarrow> GlobalEconomy" where
  "EnableGifting enable s = s\<lparr>ge_giftingEnabled := enable\<rparr>"

definition GetStats :: "GlobalEconomy \<Rightarrow> EconomyStats" where
  "GetStats s = ge_stats s"

definition ResetStats :: "GlobalEconomy \<Rightarrow> GlobalEconomy" where
  "ResetStats s = s\<lparr>ge_stats := EconomyStats_Reset\<rparr>"

definition SetTransactionCompletedCallback :: "bool \<Rightarrow> GlobalEconomy \<Rightarrow> GlobalEconomy" where
  "SetTransactionCompletedCallback registered s = s\<lparr>ge_transactionCompletedCallback := registered\<rparr>"

definition SetPlayerWealthChangedCallback :: "bool \<Rightarrow> GlobalEconomy \<Rightarrow> GlobalEconomy" where
  "SetPlayerWealthChangedCallback registered s = s\<lparr>ge_playerWealthChangedCallback := registered\<rparr>"

definition SetMerchantRestockedCallback :: "bool \<Rightarrow> GlobalEconomy \<Rightarrow> GlobalEconomy" where
  "SetMerchantRestockedCallback registered s = s\<lparr>ge_merchantRestockedCallback := registered\<rparr>"

definition SetEconomyCrashedCallback :: "bool \<Rightarrow> GlobalEconomy \<Rightarrow> GlobalEconomy" where
  "SetEconomyCrashedCallback registered s = s\<lparr>ge_economyCrashedCallback := registered\<rparr>"


section \<open>The public interface as operations\<close>

datatype EconomyOp =
    OpInitialize
  | OpShutdown
  | OpAddItem ItemData
  | OpRemoveItem u32
  | OpAddPlayer time_point u32
  | OpRemovePlayer u32
  | OpAddCurrency time_point u32 CurrencyType u32
  | OpRemoveCurrency time_point u32 CurrencyType u32
  | OpAddItemToInventory time_point u32 u32 u32
  | OpRemoveItemFromInventory time_point u32 u32 u32
  | OpAddMerchant MerchantData
  | OpRemoveMerchant u32
  | OpRestockMerchant "nat \<Rightarrow> nat" time_point u32
  | OpUpdateMerchantPrices u32
  | OpBuyItem time_point u32 u32 u32 u32
  | OpSellItem time_point u32 u32 u32 u32
  | OpTradeItems time_point u32 u32 "(u32, u32) omap" "(u32, u32) omap"
  | OpGiftItem time_point u32 u32 u32 u32
  | OpUpdateItemPrices
  | OpApplyInflation flt
  | OpProcessEconomyUpdate "nat \<Rightarrow> nat" time_point
  | OpRebalanceEconomy
  | OpResetEconomy
  | OpSetInflationRate flt
  | OpSetMaxPlayerWeight u32
  | OpSetMerchantRestockInterval flt
  | OpEnableTrading bool
  | OpEnableGifting bool
  | OpResetStats

fun economy_step :: "EconomyOp \<Rightarrow> GlobalEconomy \<Rightarrow> GlobalEconomy option" where
  "economy_step OpInitialize s = Some (snd (Initialize s))"
| "economy_step OpShutdown s = Some (Shutdown s)"
| "economy_step (OpAddItem item) s = Some (AddItem item s)"
| "economy_step (OpRemoveItem i) s = Some (RemoveItem i s)"
| "economy_step (OpAddPlayer now p) s = Some (AddPlayer now p s)"
| "economy_step (OpRemovePlayer p) s = Some (RemovePlayer p s)"
| "economy_step (OpAddCurrency now p c n) s = Some (snd (AddCurrency now p c n s))"
| "economy_step (OpRemoveCurrency now p c n) s = Some (snd (RemoveCurrency now p c n s))"
| "economy_step (OpAddItemToInventory now p i n) s = Some (snd (AddItemToInventory now p i n s))"
| "economy_step (OpRemoveItemFromInventory now p i n) s =
     Some (snd (RemoveItemFromInventory now p i n s))"
| "economy_step (OpAddMerchant m) s = Some (AddMerchant m s)"
| "economy_step (OpRemoveMerchant m) s = Some (RemoveMerchant m s)"
| "economy_step (OpRestockMerchant rnd now m) s = Some (RestockMerchant rnd now m s)"
| "economy_step (OpUpdateMerchantPrices m) s = UpdateMerchantPrices m s"
| "economy_step (OpBuyItem now p m i n) s = map_option snd (BuyItem now p m i n s)"
| "economy_step (OpSellItem now p m i n) s = map_option snd (SellItem now p m i n s)"
| "economy_step (OpTradeItems now p q xs ys) s = Some (snd (TradeItems now p q xs ys s))"
| "economy_step (OpGiftItem now p q i n) s = Some (snd (GiftItem now p q i n s))"
| "economy_step OpUpdateItemPrices s = UpdateItemPrices s"
| "economy_step (OpApplyInflation rate) s = ApplyInflation rate s"
| "economy_step (OpProcessEconomyUpdate rnd now) s = Some (ProcessEconomyUpdate rnd now s)"
| "economy_step OpRebalanceEconomy s = RebalanceEconomy s"
| "economy_step OpResetEconomy s = Some (ResetEconomy s)"
| "economy_step (OpSetInflationRate rate) s = Some (SetInflationRate rate s)"
| "economy_step (OpSetMaxPlayerWeight w) s = Some (SetMaxPlayerWeight w s)"
| "economy_step (OpSetMerchantRestockInterval x) s = Some (SetMerchantRestockInterval x s)"
| "economy_step (OpEnableTrading b) s = Some (EnableTrading b s)"
| "economy_step (OpEnableGifting b) s = Some (EnableGifting b s)"
| "economy_step OpResetStats s = Some (ResetStats s)"

end
