(* ===== verification/EconomyLib.thy ===== *)
theory EconomyLib
  imports Trading
begin

text \<open>
  The lemma library of the economy: which fields each operation leaves alone, the registry
  contract of items and merchants, the well-formedness invariant \<open>economy_ok\<close> with its
  preservation by every operation, and the total amount of gold.
\<close>

named_theorems econ_frame \<open>fields an operation does not change\<close>

section \<open>Frames\<close>

lemma call_if_frame [simp]:
  "ge_items (call_if b c s) = ge_items s"
  "ge_playerEconomies (call_if b c s) = ge_playerEconomies s"
  "ge_merchants (call_if b c s) = ge_merchants s"
  "ge_transactions (call_if b c s) = ge_transactions s"
  "ge_initialized (call_if b c s) = ge_initialized s"
  "ge_tradingEnabled (call_if b c s) = ge_tradingEnabled s"
  "ge_giftingEnabled (call_if b c s) = ge_giftingEnabled s"
  "ge_stats (call_if b c s) = ge_stats s"
  "ge_nextItemId (call_if b c s) = ge_nextItemId s"
  "ge_nextMerchantId (call_if b c s) = ge_nextMerchantId s"
  "ge_nextTransactionId (call_if b c s) = ge_nextTransactionId s"
  "ge_lastRestockTime (call_if b c s) = ge_lastRestockTime s"
  by (simp_all add: call_if_def)

lemma UpdatePlayerWealth_frame [simp]:
  "ge_items (UpdatePlayerWealth p s) = ge_items s"
  "ge_playerEconomies (UpdatePlayerWealth p s) = ge_playerEconomies s"
  "ge_merchants (UpdatePlayerWealth p s) = ge_merchants s"
  "ge_transactions (UpdatePlayerWealth p s) = ge_transactions s"
  "ge_initialized (UpdatePlayerWealth p s) = ge_initialized s"
  "ge_tradingEnabled (UpdatePlayerWealth p s) = ge_tradingEnabled s"
  "ge_giftingEnabled (UpdatePlayerWealth p s) = ge_giftingEnabled s"
  "ge_stats (UpdatePlayerWealth p s) = ge_stats s"
  "ge_nextTransactionId (UpdatePlayerWealth p s) = ge_nextTransactionId s"
  by (simp_all add: UpdatePlayerWealth_def split: option.splits)

lemma set_player_frame [simp]:
  "ge_items (set_player k p s) = ge_items s"
  "ge_merchants (set_player k p s) = ge_merchants s"
  "ge_transactions (set_player k p s) = ge_transactions s"
  "ge_initialized (set_player k p s) = ge_initialized s"
  "ge_stats (set_player k p s) = ge_stats s"
  "ge_nextTransactionId (set_player k p s) = ge_nextTransactionId s"
  "ge_playerEconomies (set_player k p s) = om_put k p (ge_playerEconomies s)"
  by (simp_all add: set_player_def)

lemma set_merchant_frame [simp]:
  "ge_items (set_merchant k m s) = ge_items s"
  "ge_playerEconomies (set_merchant k m s) = ge_playerEconomies s"
  "ge_merchants (set_merchant k m s) = om_put k m (ge_merchants s)"
  by (simp_all add: set_merchant_def)

text \<open>What the four purse and inventory operations do to the players' map.\<close>

lemma AddCurrency_players:
  "ge_playerEconomies (snd (AddCurrency now p c n s)) =
     om_upd p (\<lambda>pl. pl\<lparr>p_currencies := om_put c (om_get 0 (p_currencies pl) c + n) (p_currencies pl),
                        p_lastUpdate := now\<rparr>) (ge_playerEconomies s)"
  by (simp add: AddCurrency_def om_upd_def GetPlayerEconomy_def Let_def split: option.splits)

lemma RemoveCurrency_players:
  "ge_playerEconomies (snd (RemoveCurrency now p c n s)) =
     (if CanPlayerAfford s p c n then
        om_upd p (\<lambda>pl. pl\<lparr>p_currencies := om_put c (om_get 0 (p_currencies pl) c - n) (p_currencies pl),
                           p_lastUpdate := now\<rparr>) (ge_playerEconomies s)
      else ge_playerEconomies s)"
  by (simp add: RemoveCurrency_def om_upd_def GetPlayerEconomy_def Let_def split: option.splits)

lemma currency_frame [econ_frame]:
  "ge_items (snd (AddCurrency now p c n s)) = ge_items s"
  "ge_merchants (snd (AddCurrency now p c n s)) = ge_merchants s"
  "ge_stats (snd (AddCurrency now p c n s)) = ge_stats s"
  "ge_transactions (snd (AddCurrency now p c n s)) = ge_transactions s"
  "ge_items (snd (RemoveCurrency now p c n s)) = ge_items s"
  "ge_merchants (snd (RemoveCurrency now p c n s)) = ge_merchants s"
  "ge_stats (snd (RemoveCurrency now p c n s)) = ge_stats s"
  "ge_transactions (snd (RemoveCurrency now p c n s)) = ge_transactions s"
  by (simp_all add: AddCurrency_def RemoveCurrency_def Let_def split: option.splits)

lemma inventory_frame [econ_frame]:
  "ge_items (snd (AddItemToInventory now p i n s)) = ge_items s"
  "ge_merchants (snd (AddItemToInventory now p i n s)) = ge_merchants s"
  "ge_stats (snd (AddItemToInventory now p i n s)) = ge_stats s"
  "ge_transactions (snd (AddItemToInventory now p i n s)) = ge_transactions s"
  "ge_items (snd (RemoveItemFromInventory now p i n s)) = ge_items s"
  "ge_merchants (snd (RemoveItemFromInventory now p i n s)) = ge_merchants s"
  "ge_stats (snd (RemoveItemFromInventory now p i n s)) = ge_stats s"
  "ge_transactions (snd (RemoveItemFromInventory now p i n s)) = ge_transactions s"
  by (simp_all add: AddItemToInventory_def RemoveItemFromInventory_def Let_def split: option.splits)

lemma finish_transaction_frame [econ_frame]:
  "ge_items (finish_transaction t s) = ge_items s"
  "ge_playerEconomies (finish_transaction t s) = ge_playerEconomies s"
  "ge_merchants (finish_transaction t s) = ge_merchants s"
  by (simp_all add: finish_transaction_def Let_def)

lemma hand_over_frame [econ_frame]:
  "ge_items (hand_over now g t offer s) = ge_items s"
  "ge_merchants (hand_over now g t offer s) = ge_merchants s"
  by (simp_all add: hand_over_def econ_frame)

lemma fold_hand_over_frame [econ_frame]:
  "ge_items (fold (hand_over now g t) offers s) = ge_items s"
  "ge_merchants (fold (hand_over now g t) offers s) = ge_merchants s"
  by (induction offers arbitrary: s) (simp_all add: econ_frame)

section \<open>Registries\<close>

interpretation items: registry GetItem AddItem RemoveItem ge_initialized ge_nextItemId i_itemId stored_item
  by unfold_locales
    (auto simp: GetItem_def AddItem_def RemoveItem_def Let_def split: option.splits)

interpretation merchants: registry GetMerchant AddMerchant RemoveMerchant ge_initialized
    ge_nextMerchantId mr_merchantId "\<lambda>k m. m\<lparr>mr_merchantId := k\<rparr>"
  by unfold_locales
    (auto simp: GetMerchant_def AddMerchant_def RemoveMerchant_def Let_def split: option.splits)

section \<open>Well-formedness\<close>

definition player_ok :: "u32 \<Rightarrow> PlayerEconomyData \<Rightarrow> bool" where
  "player_ok k p \<longleftrightarrow> p_playerId p = k \<and> om_sorted (p_currencies p) \<and> om_sorted (p_inventory p)"

definition economy_ok :: "GlobalEconomy \<Rightarrow> bool" where
  "economy_ok s \<longleftrightarrow>
     om_sorted (ge_items s) \<and> om_sorted (ge_playerEconomies s) \<and> om_sorted (ge_merchants s) \<and>
     (\<forall>k i. GetItem s k = Some i \<longrightarrow> i_itemId i = k) \<and>
     (\<forall>k p. GetPlayerEconomy s k = Some p \<longrightarrow> player_ok k p) \<and>
     (\<forall>k m. GetMerchant s k = Some m \<longrightarrow> mr_merchantId m = k)"

text \<open>An update of one player (or merchant) that keeps it well-formed keeps the whole.\<close>

definition players_ok :: "(u32, PlayerEconomyData) omap \<Rightarrow> bool" where
  "players_ok m \<longleftrightarrow> om_sorted m \<and> (\<forall>k p. om_find m k = Some p \<longrightarrow> player_ok k p)"

definition items_ok :: "(u32, ItemData) omap \<Rightarrow> bool" where
  "items_ok m \<longleftrightarrow> om_sorted m \<and> (\<forall>k i. om_find m k = Some i \<longrightarrow> i_itemId i = k)"

definition merchants_ok :: "(u32, MerchantData) omap \<Rightarrow> bool" where
  "merchants_ok m \<longleftrightarrow> om_sorted m \<and> (\<forall>k x. om_find m k = Some x \<longrightarrow> mr_merchantId x = k)"

lemma economy_ok_iff:
  "economy_ok s \<longleftrightarrow>
     items_ok (ge_items s) \<and> players_ok (ge_playerEconomies s) \<and> merchants_ok (ge_merchants s)"
  by (auto simp: economy_ok_def items_ok_def players_ok_def merchants_ok_def GetItem_def
      GetPlayerEconomy_def GetMerchant_def)

lemma players_ok_put: "players_ok m \<Longrightarrow> player_ok k p \<Longrightarrow> players_ok (om_put k p m)"
  by (auto simp: players_ok_def)

lemma players_ok_upd:
  "players_ok m \<Longrightarrow> (\<And>p. player_ok k p \<Longrightarrow> player_ok k (f p)) \<Longrightarrow> players_ok (om_upd k f m)"
  by (auto simp: players_ok_def om_find_upd split: if_splits)

lemma players_ok_erase: "players_ok m \<Longrightarrow> players_ok (om_erase k m)"
  by (auto simp: players_ok_def)

lemma items_ok_put: "items_ok m \<Longrightarrow> i_itemId i = k \<Longrightarrow> items_ok (om_put k i m)"
  by (auto simp: items_ok_def)

lemma items_ok_erase: "items_ok m \<Longrightarrow> items_ok (om_erase k m)"
  by (auto simp: items_ok_def)

lemma merchants_ok_put: "merchants_ok m \<Longrightarrow> mr_merchantId x = k \<Longrightarrow> merchants_ok (om_put k x m)"
  by (auto simp: merchants_ok_def)

lemma merchants_ok_upd:
  "merchants_ok m \<Longrightarrow> (\<And>x. mr_merchantId (f x) = mr_merchantId x) \<Longrightarrow> merchants_ok (om_upd k f m)"
  by (auto simp: merchants_ok_def om_find_upd split: if_splits)

lemma merchants_ok_erase: "merchants_ok m \<Longrightarrow> merchants_ok (om_erase k m)"
  by (auto simp: merchants_ok_def)

lemma oks_Nil [simp]: "players_ok []" "items_ok []" "merchants_ok []"
  by (simp_all add: players_ok_def items_ok_def merchants_ok_def)

lemma oks_map:
  "players_ok m \<Longrightarrow> (\<And>k p. player_ok k p \<Longrightarrow> player_ok k (f k p)) \<Longrightarrow> players_ok (om_map f m)"
  "merchants_ok n \<Longrightarrow> (\<And>k x. mr_merchantId (g k x) = mr_merchantId x) \<Longrightarrow> merchants_ok (om_map g n)"
  by (auto simp: players_ok_def merchants_ok_def)

lemma om_sorted_take_out [simp, om_ok]: "om_sorted m \<Longrightarrow> om_sorted (take_out i h q m)"
  by (simp add: take_out_def)

lemma players_ok_AddCurrency:
  "players_ok (ge_playerEconomies s) \<Longrightarrow> players_ok (ge_playerEconomies (snd (AddCurrency now p c n s)))"
  by (auto simp: AddCurrency_players player_ok_def intro!: players_ok_upd)

lemma players_ok_RemoveCurrency:
  "players_ok (ge_playerEconomies s) \<Longrightarrow>
     players_ok (ge_playerEconomies (snd (RemoveCurrency now p c n s)))"
  by (auto simp: RemoveCurrency_players player_ok_def intro!: players_ok_upd)

lemma players_ok_AddItemToInventory:
  "players_ok (ge_playerEconomies s) \<Longrightarrow>
     players_ok (ge_playerEconomies (snd (AddItemToInventory now p i n s)))"
  by (auto simp: AddItemToInventory_def Let_def players_ok_def player_ok_def GetPlayerEconomy_def
      split: option.splits)

lemma players_ok_RemoveItemFromInventory:
  "players_ok (ge_playerEconomies s) \<Longrightarrow>
     players_ok (ge_playerEconomies (snd (RemoveItemFromInventory now p i n s)))"
  by (auto simp: RemoveItemFromInventory_def Let_def players_ok_def player_ok_def
      GetPlayerEconomy_def split: option.splits)

lemma players_ok_hand_over:
  "players_ok (ge_playerEconomies s) \<Longrightarrow>
     players_ok (ge_playerEconomies (fold (hand_over now g t) offers s))"
  by (induction offers arbitrary: s)
    (simp_all add: hand_over_def players_ok_AddItemToInventory players_ok_RemoveItemFromInventory)

lemmas players_ok_intros = players_ok_AddCurrency players_ok_RemoveCurrency
  players_ok_AddItemToInventory players_ok_RemoveItemFromInventory players_ok_hand_over
  players_ok_put players_ok_erase


section \<open>Every operation keeps the economy well-formed\<close>

lemma economy_ok_AddItem: "economy_ok s \<Longrightarrow> economy_ok (AddItem item s)"
  by (auto simp: economy_ok_iff AddItem_def Let_def stored_item_def intro!: items_ok_put)

lemma economy_ok_AddMerchant: "economy_ok s \<Longrightarrow> economy_ok (AddMerchant m s)"
  by (auto simp: economy_ok_iff AddMerchant_def Let_def intro!: merchants_ok_put)

lemma om_sorted_single [simp]: "om_sorted [(k, v)]"
  by (simp add: om_sorted_def)

lemma economy_ok_simple:
  "economy_ok s \<Longrightarrow> economy_ok (RemoveItem i s)"
  "economy_ok s \<Longrightarrow> economy_ok (RemoveMerchant i s)"
  "economy_ok s \<Longrightarrow> economy_ok (AddPlayer now p s)"
  "economy_ok s \<Longrightarrow> economy_ok (RemovePlayer p s)"
  "economy_ok s \<Longrightarrow> economy_ok (ResetEconomy s)"
  "economy_ok s \<Longrightarrow> economy_ok (Shutdown s)"
  by (auto simp: economy_ok_iff RemoveItem_def RemoveMerchant_def AddPlayer_def RemovePlayer_def
      ResetEconomy_def Shutdown_def Let_def player_ok_def reset_player_def reset_merchant_def
      PlayerEconomyData_new_def split: option.splits
      intro!: items_ok_erase merchants_ok_erase players_ok_put players_ok_erase oks_map)

lemma economy_ok_fold:
  "(\<And>x s. economy_ok s \<Longrightarrow> economy_ok (f x s)) \<Longrightarrow> economy_ok s \<Longrightarrow> economy_ok (fold f xs s)"
  by (induction xs arbitrary: s) simp_all

lemma economy_ok_initialized [simp]: "economy_ok (s\<lparr>ge_initialized := b\<rparr>) = economy_ok s"
  by (simp add: economy_ok_iff)

lemma economy_ok_Initialize: "economy_ok s \<Longrightarrow> economy_ok (snd (Initialize s))"
  by (auto simp: Initialize_def InitializeDefaultItems_def InitializeDefaultMerchants_def
      simp del: fold.simps intro!: economy_ok_fold economy_ok_AddItem economy_ok_AddMerchant)

lemma economy_ok_currency:
  "economy_ok s \<Longrightarrow> economy_ok (snd (AddCurrency now p c n s))"
  "economy_ok s \<Longrightarrow> economy_ok (snd (RemoveCurrency now p c n s))"
  "economy_ok s \<Longrightarrow> economy_ok (snd (AddItemToInventory now p i n s))"
  "economy_ok s \<Longrightarrow> economy_ok (snd (RemoveItemFromInventory now p i n s))"
  by (simp_all add: economy_ok_iff econ_frame players_ok_intros)

lemma economy_ok_RestockMerchant: "economy_ok s \<Longrightarrow> economy_ok (RestockMerchant rnd now m s)"
  by (auto simp: RestockMerchant_def economy_ok_iff merchants_ok_def GetMerchant_def Let_def
      split: option.splits prod.splits)

lemma economy_ok_commit:
  "economy_ok s \<Longrightarrow> economy_ok (snd (commit_buy now p m i n price s))"
  "economy_ok s \<Longrightarrow> economy_ok (snd (commit_sell now p m i n price s))"
  by (auto simp: commit_buy_def commit_sell_def economy_ok_iff Let_def econ_frame
      intro!: merchants_ok_upd players_ok_intros)

lemma economy_ok_BuyItem:
  "economy_ok s \<Longrightarrow> BuyItem now p m i n s = Some (r, t) \<Longrightarrow> economy_ok t"
  using economy_ok_commit(1) [of s now p m i n]
  by (auto simp: BuyItem_def Let_def bind_eq_Some_conv split: if_splits option.splits)
    (metis snd_conv)

lemma economy_ok_SellItem:
  "economy_ok s \<Longrightarrow> SellItem now p m i n s = Some (r, t) \<Longrightarrow> economy_ok t"
  using economy_ok_commit(2) [of s now p m i n]
  by (auto simp: SellItem_def Let_def bind_eq_Some_conv split: if_splits option.splits)
    (metis snd_conv)

lemma economy_ok_hand_over: "economy_ok s \<Longrightarrow> economy_ok (hand_over now g t offer s)"
  by (simp add: hand_over_def economy_ok_currency)

lemma economy_ok_TradeItems: "economy_ok s \<Longrightarrow> economy_ok (snd (TradeItems now p q xs ys s))"
  by (auto simp: TradeItems_def split: option.splits
      intro!: economy_ok_fold economy_ok_hand_over)

lemma economy_ok_GiftItem: "economy_ok s \<Longrightarrow> economy_ok (snd (GiftItem now p q i n s))"
  by (auto simp: GiftItem_def split: option.splits intro!: economy_ok_hand_over)

lemma economy_ok_update_price_of:
  "economy_ok s \<Longrightarrow> update_price_of m i s = Some t \<Longrightarrow> economy_ok t"
  by (auto simp: update_price_of_def economy_ok_iff bind_eq_Some_conv
      intro!: merchants_ok_upd split: option.splits)

lemma economy_ok_UpdateMerchantPrices:
  "economy_ok s \<Longrightarrow> UpdateMerchantPrices m s = Some t \<Longrightarrow> economy_ok t"
  by (auto simp: UpdateMerchantPrices_def split: option.splits
      intro: run_invariant [of economy_ok s _ "update_price_of m" t] economy_ok_update_price_of)

lemma economy_ok_update_all:
  "economy_ok s \<Longrightarrow> update_all_merchant_prices s = Some t \<Longrightarrow> economy_ok t"
  unfolding update_all_merchant_prices_def
  by (rule run_invariant [of economy_ok]) (auto intro: economy_ok_UpdateMerchantPrices)

lemma inflate_items_keys:
  "inflate_items rate m = Some n \<Longrightarrow>
     map fst n = map fst m \<and>
     (\<forall>k. map_option i_itemId (om_find n k) = map_option i_itemId (om_find m k))"
proof (induction rate m arbitrary: n rule: inflate_items.induct)
  case (2 rate k item m)
  then obtain v ps n' where n: "inflate_items rate m = Some n'"
    "n = (k, item\<lparr>i_value := v, i_prices := ps\<rparr>) # n'"
    by (auto simp: bind_eq_Some_conv)
  with 2 show ?case by (auto simp: bind_eq_Some_conv om_find_def)
qed simp

lemma items_ok_inflate: "items_ok m \<Longrightarrow> inflate_items rate m = Some n \<Longrightarrow> items_ok n"
  using inflate_items_keys [of rate m n]
  by (auto simp: items_ok_def om_sorted_def) (metis (mono_tags) option.map_sel option.sel option.simps(8,9) not_None_eq)

lemma economy_ok_UpdateItemPrices:
  "economy_ok s \<Longrightarrow> UpdateItemPrices s = Some t \<Longrightarrow> economy_ok t"
  by (auto simp: UpdateItemPrices_def bind_eq_Some_conv economy_ok_iff
      intro: items_ok_inflate elim!: economy_ok_update_all [unfolded economy_ok_iff, rotated])

lemma economy_ok_rebalance_item: "economy_ok s \<Longrightarrow> economy_ok (rebalance_item k s)"
  by (auto simp: rebalance_item_def economy_ok_iff items_ok_def om_find_upd split: if_splits)

lemma economy_ok_RebalanceEconomy:
  "economy_ok s \<Longrightarrow> RebalanceEconomy s = Some t \<Longrightarrow> economy_ok t"
  unfolding RebalanceEconomy_def
  by (rule economy_ok_update_all, rule economy_ok_fold) (rule economy_ok_rebalance_item)

lemma economy_ok_ProcessEconomyUpdate:
  "economy_ok s \<Longrightarrow> economy_ok (ProcessEconomyUpdate rnd now s)"
proof -
  assume ok: "economy_ok s"
  have "economy_ok (fold (RestockMerchant rnd now) (om_keys (ge_merchants s)) s)"
    using ok by (intro economy_ok_fold economy_ok_RestockMerchant)
  with ok show ?thesis
    by (simp add: ProcessEconomyUpdate_def Let_def economy_ok_iff CleanupOldTransactions_def
        CheckEconomyHealth_def UpdateEconomyStats_def)
qed

lemma economy_ok_step: "economy_ok s \<Longrightarrow> economy_step x s = Some t \<Longrightarrow> economy_ok t"
proof (cases x)
  case OpUpdateItemPrices
  then show "economy_ok s \<Longrightarrow> economy_step x s = Some t \<Longrightarrow> economy_ok t"
    by (auto intro: economy_ok_UpdateItemPrices)
next
  case (OpApplyInflation rate)
  then show "economy_ok s \<Longrightarrow> economy_step x s = Some t \<Longrightarrow> economy_ok t"
    by (auto simp: ApplyInflation_def economy_ok_iff
        elim!: economy_ok_UpdateItemPrices [unfolded economy_ok_iff, rotated])
qed (auto simp: economy_ok_AddItem economy_ok_AddMerchant economy_ok_simple economy_ok_Initialize
      economy_ok_currency economy_ok_RestockMerchant economy_ok_TradeItems economy_ok_GiftItem
      economy_ok_ProcessEconomyUpdate
      intro: economy_ok_BuyItem economy_ok_SellItem economy_ok_UpdateMerchantPrices
        economy_ok_RebalanceEconomy,
      auto simp: economy_ok_iff SetInflationRate_def SetMaxPlayerWeight_def EnableTrading_def
        SetMerchantRestockInterval_def EnableGifting_def ResetStats_def)

interpretation economy: step_system economy_step economy_ok "\<lambda>_. True"
  by unfold_locales (rule economy_ok_step)

end
