(* ===== verification/EconomyProps.thy ===== *)
theory EconomyProps
  imports EconomyLib
begin

text \<open>
  The properties of the economy: trading conserves gold, a purchase is all or nothing and
  moves exactly the goods and the gold it says, and where the code does not do what it
  means to (start-up, barter over the weight limit, wrap-around, price caching).
\<close>

section \<open>Gold\<close>

definition player_gold :: "PlayerEconomyData \<Rightarrow> u32" where
  "player_gold p = om_get 0 (p_currencies p) Gold"

definition total_gold :: "GlobalEconomy \<Rightarrow> u32" where
  "total_gold s = om_sum player_gold (ge_playerEconomies s) + om_sum mr_goldAmount (ge_merchants s)"

lemma total_gold_cong:
  "ge_playerEconomies t = ge_playerEconomies s \<Longrightarrow> ge_merchants t = ge_merchants s \<Longrightarrow>
     total_gold t = total_gold s"
  by (simp add: total_gold_def)

lemma lookups_update [simp]:
  "GetPlayerEconomy (s\<lparr>ge_nextTransactionId := n\<rparr>) = GetPlayerEconomy s"
  "GetItem (s\<lparr>ge_nextTransactionId := n\<rparr>) = GetItem s"
  "GetMerchant (s\<lparr>ge_nextTransactionId := n\<rparr>) = GetMerchant s"
  "GetCurrency (s\<lparr>ge_nextTransactionId := n\<rparr>) = GetCurrency s"
  "CanPlayerAfford (s\<lparr>ge_nextTransactionId := n\<rparr>) = CanPlayerAfford s"
  by (auto simp: fun_eq_iff GetPlayerEconomy_def GetItem_def GetMerchant_def GetCurrency_def
      CanPlayerAfford_def)

lemma gold_AddCurrency:
  assumes "om_sorted (ge_playerEconomies s)"
  shows "om_sum player_gold (ge_playerEconomies (snd (AddCurrency now p Gold n s)))
    = om_sum player_gold (ge_playerEconomies s) + (if GetPlayerEconomy s p = None then 0 else n)"
  by (simp add: AddCurrency_players om_sum_upd [OF assms] player_gold_def GetPlayerEconomy_def
      split: option.splits)

lemma gold_RemoveCurrency:
  assumes "om_sorted (ge_playerEconomies s)" "CanPlayerAfford s p Gold n"
  shows "om_sum player_gold (ge_playerEconomies (snd (RemoveCurrency now p Gold n s)))
    = om_sum player_gold (ge_playerEconomies s) - (if GetPlayerEconomy s p = None then 0 else n)"
  by (simp add: RemoveCurrency_players om_sum_upd [OF assms(1)] assms(2) player_gold_def
      GetPlayerEconomy_def split: option.splits)

lemma gold_inventory [simp]:
  assumes "om_sorted (ge_playerEconomies s)"
  shows "om_sum player_gold (ge_playerEconomies (snd (AddItemToInventory now p i n s)))
      = om_sum player_gold (ge_playerEconomies s)"
    and "om_sum player_gold (ge_playerEconomies (snd (RemoveItemFromInventory now p i n s)))
      = om_sum player_gold (ge_playerEconomies s)"
  by (simp_all add: AddItemToInventory_def RemoveItemFromInventory_def Let_def GetPlayerEconomy_def
      om_sum_put [OF assms] player_gold_def split: option.splits)

lemma economy_okD:
  "economy_ok s \<Longrightarrow> om_sorted (ge_playerEconomies s)"
  "economy_ok s \<Longrightarrow> om_sorted (ge_merchants s)"
  "economy_ok s \<Longrightarrow> om_sorted (ge_items s)"
  by (simp_all add: economy_ok_def)

lemma economy_ok_nextTransactionId [simp]:
  "economy_ok (s\<lparr>ge_nextTransactionId := n\<rparr>) = economy_ok s"
  by (simp add: economy_ok_iff)

lemma RemoveItem_players_dom:
  "GetPlayerEconomy (snd (RemoveItemFromInventory now p i n s)) j = None \<longleftrightarrow>
     GetPlayerEconomy s j = None"
  by (auto simp: RemoveItemFromInventory_def GetPlayerEconomy_def Let_def split: option.splits)

lemma gold_hand_over: "economy_ok s \<Longrightarrow> total_gold (hand_over now g t offer s) = total_gold s"
  by (simp add: total_gold_def hand_over_def econ_frame economy_okD economy_ok_currency)

lemma gold_fold_hand_over:
  "economy_ok s \<Longrightarrow> total_gold (fold (hand_over now g t) offers s) = total_gold s"
  by (induction offers arbitrary: s) (simp_all add: gold_hand_over economy_ok_hand_over)

lemma gold_commit_buy:
  assumes "economy_ok s" "GetPlayerEconomy s p \<noteq> None" "GetMerchant s m \<noteq> None"
    "CanPlayerAfford s p Gold price"
  shows "total_gold (snd (commit_buy now p m i n price s)) = total_gold s"
  using assms
  by (auto simp: commit_buy_def Let_def total_gold_def econ_frame economy_okD economy_ok_currency
      gold_RemoveCurrency om_sum_upd GetMerchant_def split: option.splits)

lemma gold_commit_sell:
  assumes "economy_ok s" "GetPlayerEconomy s p \<noteq> None" "GetMerchant s m \<noteq> None"
  shows "total_gold (snd (commit_sell now p m i n price s)) = total_gold s"
  using assms
  by (auto simp: commit_sell_def Let_def total_gold_def econ_frame economy_okD economy_ok_currency
      gold_AddCurrency om_sum_upd GetMerchant_def RemoveItem_players_dom split: option.splits)

lemma gold_BuyItem:
  "economy_ok s \<Longrightarrow> BuyItem now p m i n s = Some (r, t) \<Longrightarrow> total_gold t = total_gold s"
  using gold_commit_buy [of s p m]
  by (auto simp: BuyItem_def Let_def bind_eq_Some_conv split: if_splits option.splits)
    (metis snd_conv)

lemma gold_SellItem:
  "economy_ok s \<Longrightarrow> SellItem now p m i n s = Some (r, t) \<Longrightarrow> total_gold t = total_gold s"
  using gold_commit_sell [of s p m]
  by (auto simp: SellItem_def Let_def bind_eq_Some_conv split: if_splits option.splits)
    (metis snd_conv)

lemma gold_RestockMerchant: "economy_ok s \<Longrightarrow> total_gold (RestockMerchant rnd now m s) = total_gold s"
  by (auto simp: RestockMerchant_def Let_def total_gold_def economy_okD om_sum_put GetMerchant_def
      split: option.splits prod.splits)

lemma gold_fold_Restock:
  "economy_ok s \<Longrightarrow> total_gold (fold (RestockMerchant rnd now) ms s) = total_gold s"
  by (induction ms arbitrary: s) (simp_all add: gold_RestockMerchant economy_ok_RestockMerchant)

lemma gold_update_price_of:
  "economy_ok s \<Longrightarrow> update_price_of m i s = Some t \<Longrightarrow> total_gold t = total_gold s"
  by (auto simp: update_price_of_def bind_eq_Some_conv total_gold_def om_sum_upd economy_okD
      split: option.splits)

lemma gold_UpdateMerchantPrices:
  "economy_ok s \<Longrightarrow> UpdateMerchantPrices m s = Some t \<Longrightarrow> total_gold t = total_gold s"
  by (auto simp: UpdateMerchantPrices_def split: option.splits
      intro: run_invariant [of "\<lambda>u. economy_ok u \<and> total_gold u = total_gold s" s _
          "update_price_of m" t, THEN conjunct2]
        economy_ok_update_price_of simp: gold_update_price_of)

lemma gold_update_all:
  "economy_ok s \<Longrightarrow> update_all_merchant_prices s = Some t \<Longrightarrow> total_gold t = total_gold s"
  unfolding update_all_merchant_prices_def
  by (rule run_invariant [of "\<lambda>u. economy_ok u \<and> total_gold u = total_gold s", THEN conjunct2])
    (auto intro: economy_ok_UpdateMerchantPrices simp: gold_UpdateMerchantPrices)

lemma gold_UpdateItemPrices:
  assumes "economy_ok s" "UpdateItemPrices s = Some t"
  shows "total_gold t = total_gold s"
proof -
  obtain items where i: "inflate_items (ge_inflationRate s) (ge_items s) = Some items"
    "update_all_merchant_prices (s\<lparr>ge_items := items\<rparr>) = Some t"
    using assms(2) by (auto simp: UpdateItemPrices_def bind_eq_Some_conv)
  have "economy_ok (s\<lparr>ge_items := items\<rparr>)"
    using assms(1) items_ok_inflate i(1) by (auto simp: economy_ok_iff)
  from gold_update_all [OF this i(2)] show ?thesis by (simp add: total_gold_def)
qed

lemma rebalance_frame:
  "ge_playerEconomies (fold rebalance_item ks s) = ge_playerEconomies s"
  "ge_merchants (fold rebalance_item ks s) = ge_merchants s"
  by (induction ks arbitrary: s) (simp_all add: rebalance_item_def)

lemma gold_RebalanceEconomy:
  assumes "economy_ok s" "RebalanceEconomy s = Some t"
  shows "total_gold t = total_gold s"
proof -
  have "economy_ok (fold rebalance_item (om_keys (ge_items s)) s)"
    using assms(1) by (intro economy_ok_fold economy_ok_rebalance_item)
  from gold_update_all [OF this] assms(2) show ?thesis
    by (simp add: RebalanceEconomy_def total_gold_def rebalance_frame)
qed

lemma gold_ProcessEconomyUpdate:
  "economy_ok s \<Longrightarrow> total_gold (ProcessEconomyUpdate rnd now s) = total_gold s"
  using gold_fold_Restock [of s rnd now "om_keys (ge_merchants s)"]
  by (simp add: ProcessEconomyUpdate_def Let_def CleanupOldTransactions_def CheckEconomyHealth_def
      UpdateEconomyStats_def total_gold_def)

text \<open>The operations that are not meant to create or destroy money.\<close>

fun gold_neutral :: "EconomyOp \<Rightarrow> bool" where
  "gold_neutral OpShutdown = False"
| "gold_neutral (OpAddPlayer _ _) = False"
| "gold_neutral (OpRemovePlayer _) = False"
| "gold_neutral (OpAddCurrency _ _ _ _) = False"
| "gold_neutral (OpRemoveCurrency _ _ _ _) = False"
| "gold_neutral (OpAddMerchant _) = False"
| "gold_neutral (OpRemoveMerchant _) = False"
| "gold_neutral OpInitialize = False"
| "gold_neutral OpResetEconomy = False"
| "gold_neutral _ = True"

lemma gold_step:
  assumes "economy_ok s" "gold_neutral x" "economy_step x s = Some t"
  shows "total_gold t = total_gold s"
proof (cases x)
  case (OpApplyInflation rate)
  then have "UpdateItemPrices (s\<lparr>ge_inflationRate := rate\<rparr>) = Some t"
    using assms(3) by (simp add: ApplyInflation_def)
  moreover have "economy_ok (s\<lparr>ge_inflationRate := rate\<rparr>)"
    using assms(1) by (simp add: economy_ok_iff)
  ultimately have "total_gold t = total_gold (s\<lparr>ge_inflationRate := rate\<rparr>)"
    by (rule gold_UpdateItemPrices [rotated])
  then show ?thesis by (simp add: total_gold_def)
next
  case (OpTradeItems now p q xs ys)
  then show ?thesis
    using assms economy_ok_fold [of "hand_over now p q" s xs]
    by (auto simp: TradeItems_def gold_fold_hand_over economy_ok_hand_over split: option.splits)
next
  case (OpGiftItem now p q i n)
  then show ?thesis using assms by (auto simp: GiftItem_def gold_hand_over split: option.splits)
qed (use assms in \<open>auto simp: gold_BuyItem gold_SellItem gold_RestockMerchant
      gold_UpdateMerchantPrices gold_UpdateItemPrices gold_RebalanceEconomy
      gold_ProcessEconomyUpdate\<close>,
     (simp add: total_gold_def AddItem_def RemoveItem_def SetInflationRate_def Let_def
       SetMaxPlayerWeight_def SetMerchantRestockInterval_def EnableTrading_def EnableGifting_def
       ResetStats_def econ_frame economy_okD split: option.splits)+)


interpretation gold: step_system economy_step "\<lambda>s. economy_ok s \<and> total_gold s = g" gold_neutral
  for g
  by unfold_locales (auto simp: gold_step intro: economy_ok_step)

section \<open>The ledger: who holds which gold and which goods\<close>

text \<open>The abstract specification of trading: a book of accounts and two kinds of transfer.\<close>

datatype holder = APlayer u32 | AMerchant u32

record ledger =
  lg_gold :: "holder \<Rightarrow> u32"
  lg_goods :: "holder \<Rightarrow> u32 \<Rightarrow> u32"

definition move_gold :: "holder \<Rightarrow> holder \<Rightarrow> u32 \<Rightarrow> ledger \<Rightarrow> ledger" where
  "move_gold a b n l =
     (let g = (lg_gold l)(a := lg_gold l a - n) in l\<lparr>lg_gold := g(b := g b + n)\<rparr>)"

definition move_goods :: "holder \<Rightarrow> holder \<Rightarrow> u32 \<Rightarrow> u32 \<Rightarrow> ledger \<Rightarrow> ledger" where
  "move_goods a b i n l =
     (let g = (lg_goods l)(a := (lg_goods l a)(i := lg_goods l a i - n))
      in l\<lparr>lg_goods := g(b := (g b)(i := g b i + n))\<rparr>)"

definition merchant_gold :: "GlobalEconomy \<Rightarrow> u32 \<Rightarrow> u32" where
  "merchant_gold s m = (case GetMerchant s m of None \<Rightarrow> 0 | Some x \<Rightarrow> mr_goldAmount x)"

definition merchant_stock :: "GlobalEconomy \<Rightarrow> u32 \<Rightarrow> u32 \<Rightarrow> u32" where
  "merchant_stock s m i = (case GetMerchant s m of None \<Rightarrow> 0 | Some x \<Rightarrow> om_get 0 (mr_inventory x) i)"

definition ledger_of :: "GlobalEconomy \<Rightarrow> ledger" where
  "ledger_of s = \<lparr>
     lg_gold = (\<lambda>h. case h of APlayer p \<Rightarrow> GetCurrency s p Gold | AMerchant m \<Rightarrow> merchant_gold s m),
     lg_goods = (\<lambda>h i. case h of APlayer p \<Rightarrow> GetItemQuantity s p i
                               | AMerchant m \<Rightarrow> merchant_stock s m i)\<rparr>"

lemma ledger_of_cong:
  "ge_playerEconomies t = ge_playerEconomies s \<Longrightarrow> ge_merchants t = ge_merchants s \<Longrightarrow>
     ledger_of t = ledger_of s"
  by (simp add: ledger_of_def GetCurrency_def GetItemQuantity_def GetPlayerEconomy_def
      merchant_gold_def merchant_stock_def GetMerchant_def fun_eq_iff split: holder.splits)

lemma ledger_next [simp]: "ledger_of (s\<lparr>ge_nextTransactionId := n\<rparr>) = ledger_of s"
  by (rule ledger_of_cong) simp_all

lemma om_get_take_out:
  "om_find xs i = Some h \<Longrightarrow>
     om_get 0 (take_out i h q xs) j = (if j = i then h - q else om_get 0 xs j)"
  by (auto simp: take_out_def om_get_def)

text \<open>The elementary operations as moves of the ledger.\<close>

lemma ledger_RemoveCurrency:
  assumes "GetPlayerEconomy s p \<noteq> None" "CanPlayerAfford s p Gold n"
  shows "ledger_of (snd (RemoveCurrency now p Gold n s))
    = (ledger_of s)\<lparr>lg_gold := (lg_gold (ledger_of s))(APlayer p := GetCurrency s p Gold - n)\<rparr>"
  using assms
  by (auto simp: ledger_of_def RemoveCurrency_def Let_def GetCurrency_def GetItemQuantity_def
      GetPlayerEconomy_def merchant_gold_def merchant_stock_def GetMerchant_def fun_eq_iff
      split: option.splits holder.splits)

lemma ledger_AddCurrency:
  assumes "GetPlayerEconomy s p \<noteq> None"
  shows "ledger_of (snd (AddCurrency now p Gold n s))
    = (ledger_of s)\<lparr>lg_gold := (lg_gold (ledger_of s))(APlayer p := GetCurrency s p Gold + n)\<rparr>"
  using assms
  by (auto simp: ledger_of_def AddCurrency_def Let_def GetCurrency_def GetItemQuantity_def
      GetPlayerEconomy_def merchant_gold_def merchant_stock_def GetMerchant_def fun_eq_iff
      split: option.splits holder.splits)

lemma ledger_AddItemToInventory:
  assumes "CanPlayerCarry s p i n"
  shows "ledger_of (snd (AddItemToInventory now p i n s))
    = (ledger_of s)\<lparr>lg_goods := (lg_goods (ledger_of s))
         (APlayer p := (lg_goods (ledger_of s) (APlayer p))(i := GetItemQuantity s p i + n))\<rparr>"
  using assms
  by (auto simp: ledger_of_def AddItemToInventory_def CanPlayerCarry_def Let_def GetCurrency_def
      GetItemQuantity_def GetPlayerEconomy_def merchant_gold_def merchant_stock_def
      GetMerchant_def fun_eq_iff split: option.splits holder.splits)

lemma ledger_RemoveItemFromInventory:
  assumes "GetPlayerEconomy s p \<noteq> None" "GetItem s i \<noteq> None" "n \<le> GetItemQuantity s p i"
  shows "ledger_of (snd (RemoveItemFromInventory now p i n s))
    = (ledger_of s)\<lparr>lg_goods := (lg_goods (ledger_of s))
         (APlayer p := (lg_goods (ledger_of s) (APlayer p))(i := GetItemQuantity s p i - n))\<rparr>"
proof (cases "om_find (p_inventory (the (GetPlayerEconomy s p))) i")
  case None
  then have "n = 0" using assms by (auto simp: GetItemQuantity_def om_get_def split: option.splits)
  with None assms show ?thesis
    by (auto simp: ledger_of_def RemoveItemFromInventory_def GetItemQuantity_def om_get_def
        fun_eq_iff split: option.splits holder.splits)
next
  case (Some k)
  then show ?thesis
    using assms
    by (auto simp: ledger_of_def RemoveItemFromInventory_def Let_def GetCurrency_def
        GetItemQuantity_def GetPlayerEconomy_def merchant_gold_def merchant_stock_def
        GetMerchant_def om_get_take_out om_get_Some fun_eq_iff not_less
        split: option.splits holder.splits)
qed

lemma ledger_finish [simp]: "ledger_of (finish_transaction t s) = ledger_of s"
  by (rule ledger_of_cong) (simp_all add: econ_frame)

text \<open>The merchant's side of a trade.\<close>

lemma ledger_upd_merchant:
  assumes "GetMerchant s m = Some x"
  shows "ledger_of (s\<lparr>ge_merchants := om_upd m f (ge_merchants s)\<rparr>)
    = (ledger_of s)\<lparr>lg_gold := (lg_gold (ledger_of s))(AMerchant m := mr_goldAmount (f x)),
         lg_goods := (lg_goods (ledger_of s))(AMerchant m := om_get 0 (mr_inventory (f x)))\<rparr>"
  using assms
  by (auto simp: ledger_of_def GetCurrency_def GetItemQuantity_def GetPlayerEconomy_def
      merchant_gold_def merchant_stock_def GetMerchant_def om_find_upd fun_eq_iff
      split: option.splits holder.splits)

lemma CanPlayerCarry_RemoveCurrency:
  "CanPlayerCarry (snd (RemoveCurrency now p c n s)) q i k = CanPlayerCarry s q i k"
  by (auto simp: CanPlayerCarry_def RemoveCurrency_def Let_def GetPlayerEconomy_def GetItem_def
      split: option.splits)

lemma CanPlayerCarry_next [simp]:
  "CanPlayerCarry (s\<lparr>ge_nextTransactionId := n\<rparr>) p i q = CanPlayerCarry s p i q"
  by (simp add: CanPlayerCarry_def)

lemma GetItemQuantity_ledger: "GetItemQuantity s p i = lg_goods (ledger_of s) (APlayer p) i"
  and GetCurrency_ledger: "GetCurrency s p Gold = lg_gold (ledger_of s) (APlayer p)"
  by (simp_all add: ledger_of_def)

lemma GetMerchant_frame:
  "GetMerchant (snd (AddItemToInventory now p i n s)) = GetMerchant s"
  "GetMerchant (snd (RemoveItemFromInventory now p i n s)) = GetMerchant s"
  "GetMerchant (snd (RemoveCurrency now p c n s)) = GetMerchant s"
  "GetMerchant (snd (AddCurrency now p c n s)) = GetMerchant s"
  by (simp_all add: GetMerchant_def fun_eq_iff econ_frame)

lemma ledger_commit_buy:
  assumes m: "GetMerchant s m = Some mr" and st: "om_find (mr_inventory mr) i = Some stock"
    and p: "GetPlayerEconomy s p \<noteq> None"
    and afford: "CanPlayerAfford s p Gold price" and carry: "CanPlayerCarry s p i n"
    and r: "commit_buy now p m i n price s = (True, t)"
  shows "ledger_of t = move_goods (AMerchant m) (APlayer p) i n
                         (move_gold (APlayer p) (AMerchant m) price (ledger_of s))"
proof -
  define s1 where "s1 = s\<lparr>ge_nextTransactionId := ge_nextTransactionId s + 1\<rparr>"
  define s2 where "s2 = snd (RemoveCurrency now p Gold price s1)"
  define s3 where "s3 = snd (AddItemToInventory now p i n s2)"
  define f where "f = (\<lambda>m :: MerchantData. m\<lparr>mr_inventory := take_out i (om_get 0 (mr_inventory m) i) n (mr_inventory m),
                            mr_goldAmount := mr_goldAmount m + price\<rparr>)"
  have t: "ledger_of t = ledger_of (s3\<lparr>ge_merchants := om_upd m f (ge_merchants s3)\<rparr>)"
    using r by (auto simp: commit_buy_def Let_def s1_def s2_def s3_def f_def split: if_splits)
  have m3: "GetMerchant s3 m = Some mr" using m by (simp add: s3_def s2_def s1_def GetMerchant_frame)
  have l2: "ledger_of s2 = (ledger_of s)\<lparr>lg_gold :=
      (lg_gold (ledger_of s))(APlayer p := GetCurrency s p Gold - price)\<rparr>"
    using ledger_RemoveCurrency [of s1 p price now] p afford by (simp add: s2_def s1_def)
  have "CanPlayerCarry s2 p i n" using carry by (simp add: s2_def s1_def CanPlayerCarry_RemoveCurrency)
  from ledger_AddItemToInventory [OF this, of now]
  have l3: "ledger_of s3 = (ledger_of s2)\<lparr>lg_goods := (lg_goods (ledger_of s2))
      (APlayer p := (lg_goods (ledger_of s2) (APlayer p))(i := GetItemQuantity s2 p i + n))\<rparr>"
    by (simp add: s3_def)
  show ?thesis
    unfolding t ledger_upd_merchant [OF m3] l3
    using m st
    by (auto simp: l2 move_gold_def move_goods_def GetItemQuantity_ledger GetCurrency_ledger f_def
        Let_def om_get_take_out om_get_Some fun_eq_iff)
      (auto simp: ledger_of_def merchant_gold_def merchant_stock_def om_get_Some om_get_take_out
        fun_eq_iff)
qed


lemma ledger_commit_sell:
  assumes m: "GetMerchant s m = Some mr" and i: "GetItem s i \<noteq> None"
    and p: "GetPlayerEconomy s p \<noteq> None" and q: "n \<le> GetItemQuantity s p i"
    and r: "commit_sell now p m i n price s = (True, t)"
  shows "ledger_of t = move_goods (APlayer p) (AMerchant m) i n
                         (move_gold (AMerchant m) (APlayer p) price (ledger_of s))"
proof -
  define s1 where "s1 = s\<lparr>ge_nextTransactionId := ge_nextTransactionId s + 1\<rparr>"
  define s2 where "s2 = snd (RemoveItemFromInventory now p i n s1)"
  define s3 where "s3 = snd (AddCurrency now p Gold price s2)"
  define f where "f = (\<lambda>m :: MerchantData. m\<lparr>mr_inventory :=
      om_put i (om_get 0 (mr_inventory m) i + n) (mr_inventory m),
      mr_goldAmount := mr_goldAmount m - price\<rparr>)"
  have t: "ledger_of t = ledger_of (s3\<lparr>ge_merchants := om_upd m f (ge_merchants s3)\<rparr>)"
    using r by (auto simp: commit_sell_def Let_def s1_def s2_def s3_def f_def split: if_splits)
  have m3: "GetMerchant s3 m = Some mr" using m by (simp add: s3_def s2_def s1_def GetMerchant_frame)
  have "GetItemQuantity s1 p i = GetItemQuantity s p i" by (simp add: s1_def GetItemQuantity_def)
  then have l2: "ledger_of s2 = (ledger_of s)\<lparr>lg_goods := (lg_goods (ledger_of s))
      (APlayer p := (lg_goods (ledger_of s) (APlayer p))(i := GetItemQuantity s p i - n))\<rparr>"
    using ledger_RemoveItemFromInventory [of s1 p i n now] p i q by (simp add: s2_def s1_def)
  have "GetPlayerEconomy s2 p \<noteq> None" using p by (simp add: s2_def s1_def RemoveItem_players_dom)
  from ledger_AddCurrency [OF this, of now price]
  have l3: "ledger_of s3 = (ledger_of s2)\<lparr>lg_gold :=
      (lg_gold (ledger_of s2))(APlayer p := GetCurrency s2 p Gold + price)\<rparr>"
    by (simp add: s3_def)
  show ?thesis
    unfolding t ledger_upd_merchant [OF m3] l3
    using m
    by (auto simp: l2 move_gold_def move_goods_def GetItemQuantity_ledger GetCurrency_ledger f_def
        Let_def fun_eq_iff)
      (auto simp: ledger_of_def merchant_gold_def merchant_stock_def fun_eq_iff)
qed

lemma commit_buy_failed:
  "commit_buy now p m i n price s = (False, t) \<Longrightarrow>
     t = s\<lparr>ge_nextTransactionId := ge_nextTransactionId s + 1\<rparr>"
  by (auto simp: commit_buy_def Let_def split: if_splits)

lemma commit_sell_failed:
  "commit_sell now p m i n price s = (False, t) \<Longrightarrow>
     t = s\<lparr>ge_nextTransactionId := ge_nextTransactionId s + 1\<rparr>"
  by (auto simp: commit_sell_def Let_def split: if_splits)

lemma ledger_hand_over:
  assumes "GetPlayerEconomy s a \<noteq> None" "n \<le> GetItemQuantity s a i" "a \<noteq> b"
    "CanPlayerCarry s b i n"
  shows "ledger_of (hand_over now a b (i, n) s)
           = move_goods (APlayer a) (APlayer b) i n (ledger_of s)"
proof -
  define s1 where "s1 = snd (RemoveItemFromInventory now a i n s)"
  have item: "GetItem s i \<noteq> None" using assms(4) by (auto simp: CanPlayerCarry_def split: option.splits)
  have l1: "ledger_of s1 = (ledger_of s)\<lparr>lg_goods := (lg_goods (ledger_of s))
      (APlayer a := (lg_goods (ledger_of s) (APlayer a))(i := GetItemQuantity s a i - n))\<rparr>"
    using ledger_RemoveItemFromInventory [OF assms(1) item assms(2), of now] by (simp add: s1_def)
  have "CanPlayerCarry s1 b i n"
    using assms(3,4)
    by (auto simp: s1_def CanPlayerCarry_def RemoveItemFromInventory_def Let_def GetPlayerEconomy_def
        GetItem_def split: option.splits)
  from ledger_AddItemToInventory [OF this, of now] show ?thesis
    using assms(3)
    by (auto simp: hand_over_def s1_def [symmetric] l1 move_goods_def Let_def fun_eq_iff
        GetItemQuantity_ledger)
qed

lemma BuyItem_SomeE:
  assumes "BuyItem now p m i n s = Some (r, t)"
  obtains "r = False" "t = s"
  | mr stock price where "GetMerchant s m = Some mr" "om_find (mr_inventory mr) i = Some stock"
      "n \<le> stock" "GetPlayerEconomy s p \<noteq> None" "GetItem s i \<noteq> None"
      "ge_tradingEnabled s" "mr_isActive mr"
      "CalculateBuyPrice s i m = Some price" "CanPlayerAfford s p Gold (price * n)"
      "CanPlayerCarry s p i n" "commit_buy now p m i n (price * n) s = (r, t)"
  using assms by (auto simp: BuyItem_def Let_def bind_eq_Some_conv not_less split: if_splits option.splits)

lemma SellItem_SomeE:
  assumes "SellItem now p m i n s = Some (r, t)"
  obtains "r = False" "t = s"
  | mr price it where "GetMerchant s m = Some mr" "GetPlayerEconomy s p \<noteq> None"
      "GetItem s i = Some it" "n \<le> GetItemQuantity s p i" "ge_tradingEnabled s" "mr_isActive mr"
      "i_isSellable it" "CalculateSellPrice s i m = Some price" "price * n \<le> mr_goldAmount mr"
      "commit_sell now p m i n (price * n) s = (r, t)"
  using assms by (auto simp: SellItem_def Let_def bind_eq_Some_conv not_less split: if_splits option.splits)

section \<open>Prices\<close>

lemma f32_of_small_u32: "unat v \<le> 2 ^ 24 \<Longrightarrow> f32_of_u32 v = Fin (of_nat (unat v))"
  unfolding f32_of_u32_def by (rule f32_of_nat_exact)

lemma to_u32_unat: "to_u32 (Fin (of_nat (unat (v :: u32)))) = Some v"
proof -
  have "unat v < 2 ^ LENGTH(32)" by (rule unsigned_less)
  then have "unat v < 2 ^ 32" by simp
  from to_u32_nat [OF this] show ?thesis by simp
qed

lemma to_u32_half: "unat v \<le> 2 ^ 24 \<Longrightarrow> to_u32 (Fin (of_nat (unat (v :: u32)) / 2)) = Some (v div 2)"
proof -
  assume v: "unat v \<le> 2 ^ 24"
  then have "(of_nat (unat v) :: rat) \<le> of_nat (2 ^ 24)" by (simp only: of_nat_le_iff)
  moreover have "(0::rat) \<le> of_nat (unat v)" by (rule of_nat_0_le_iff)
  moreover have "\<lfloor>of_nat (unat v) / (2::rat)\<rfloor> = int (unat v div 2)"
    using floor_divide_of_nat_eq [of "unat v" 2, where ?'a = rat] by simp
  moreover have "(of_int (int (unat v div 2)) :: u32) = v div 2"
    by (simp add: word_arith_nat_div)
  ultimately show ?thesis by (simp only: to_u32_def flt.case) (simp del: of_nat_unat)
qed

text \<open>Prices without an override are exact up to \<open>2 ^ 24\<close>, the last integer with a float of its own.\<close>

lemma buy_price_exact:
  assumes "GetItem s i = Some it" "GetMerchant s m = Some mr" "unat (i_value it) \<le> 2 ^ 24"
  shows "CalculateBuyPrice s i m =
           Some (case om_find (mr_buyPrices mr) i of Some price \<Rightarrow> price | None \<Rightarrow> i_value it)"
  using assms
  by (simp add: CalculateBuyPrice_def CalculateBasePrice_def GetMerchantMultiplier_def Let_def
      mul32_one f32_of_small_u32 to_u32_unat del: of_nat_unat split: option.splits)

lemma sell_price_exact:
  assumes "GetItem s i = Some it" "GetMerchant s m = Some mr" "unat (i_value it) \<le> 2 ^ 24"
  shows "CalculateSellPrice s i m =
           Some (case om_find (mr_sellPrices mr) i of Some price \<Rightarrow> price | None \<Rightarrow> i_value it div 2)"
  using assms
  by (simp add: CalculateSellPrice_def CalculateBasePrice_def GetMerchantMultiplier_def Let_def
      mul32_one mul32_half to_u32_half del: of_nat_unat split: option.splits)

section \<open>Properties\<close>

text \<open>
  A concrete economy for the witnesses: one item of value 10 and weight 2, one player
  with 100 gold, a second player, and one merchant who holds 5 of the item.
\<close>

definition demo_item :: ItemData where
  "demo_item = (CreateMaterial ''Iron Ore'' Common 10 2)\<lparr>i_itemId := 1\<rparr>"

definition demo_merchant :: MerchantData where
  "demo_merchant = (CreateGeneralMerchant ''Trader'' ''Velen'')
     \<lparr>mr_merchantId := 7, mr_inventory := [(1, 5)], mr_buyPrices := [(1, 10)]\<rparr>"

definition demo :: GlobalEconomy where
  "demo = AddMerchant demo_merchant (AddItem demo_item (AddPlayer 0 3 (AddPlayer 0 2
            (snd (Initialize (GlobalEconomy_new 0))))))"

lemma demo_eq:
  "ge_initialized demo" "ge_tradingEnabled demo" "ge_giftingEnabled demo"
  "GetPlayerEconomy demo 2 = Some (PlayerEconomyData_new\<lparr>p_playerId := 2, p_currencies := [(Gold, 100)], p_lastUpdate := 0\<rparr>)"
  "GetPlayerEconomy demo 3 = Some (PlayerEconomyData_new\<lparr>p_playerId := 3, p_currencies := [(Gold, 100)], p_lastUpdate := 0\<rparr>)"
  "GetItem demo 1 = Some (stored_item 1 demo_item)"
  "GetMerchant demo 7 = Some demo_merchant"
  by code_simp+


text \<open>
  C5. Gold is neither created nor destroyed by any sequence of operations that is not
  meant to mint or burn it: buying, selling, bartering, gifting, restocking, price updates,
  inflation, rebalancing, the periodic update and configuration leave the sum of all player
  purses and merchant tills unchanged (as the code counts it, modulo 2^32).
\<close>

theorem economy_conserves_gold:
  assumes "economy_ok s" "list_all gold_neutral ops" "run economy_step ops s = Some t"
  shows "total_gold t = total_gold s"
proof -
  have "economy_ok t \<and> total_gold t = total_gold s"
    using gold.run_inv [OF _ assms(2,3), of "total_gold s"] assms(1) by simp
  then show ?thesis ..
qed

lemma economy_ok_new [simp]: "economy_ok (GlobalEconomy_new now)"
  by (simp add: economy_ok_iff GlobalEconomy_new_def)

lemma demo_ok: "economy_ok demo"
  by (simp add: demo_def economy_ok_AddItem economy_ok_AddMerchant economy_ok_simple
      economy_ok_Initialize)

theorem economy_conserves_gold_witness:
  "\<exists>t. run economy_step [OpBuyItem 0 2 7 1 3, OpGiftItem 0 2 3 1 2] demo = Some t
       \<and> total_gold t = total_gold demo \<and> GetItemQuantity t 3 1 = 2"
proof -
  have "map_option (\<lambda>t. GetItemQuantity t 3 1)
      (run economy_step [OpBuyItem 0 2 7 1 3, OpGiftItem 0 2 3 1 2] demo) = Some 2"
    by code_simp
  then obtain t where t: "run economy_step [OpBuyItem 0 2 7 1 3, OpGiftItem 0 2 3 1 2] demo = Some t"
    "GetItemQuantity t 3 1 = 2" by blast
  with economy_conserves_gold [OF demo_ok _ t(1)] show ?thesis by simp
qed

text \<open>
  C6. A successful purchase refines the ledger specification: at the price the merchant
  quotes, the gold moves from the player to the merchant and the goods move from the merchant
  to the player, and no other account changes.
\<close>

theorem BuyItem_refines_ledger:
  assumes "BuyItem now p m i n s = Some (True, t)"
  shows "\<exists>price. CalculateBuyPrice s i m = Some price
     \<and> price * n \<le> GetCurrency s p Gold \<and> n \<le> merchant_stock s m i
     \<and> ledger_of t = move_goods (AMerchant m) (APlayer p) i n
                       (move_gold (APlayer p) (AMerchant m) (price * n) (ledger_of s))"
  using assms
proof (cases rule: BuyItem_SomeE)
  case (2 mr stock price)
  then show ?thesis
    using ledger_commit_buy [OF 2(1,2,4,9,10,11)]
    by (auto simp: CanPlayerAfford_def merchant_stock_def om_get_Some)
qed simp

theorem BuyItem_refines_ledger_witness:
  "\<exists>t. BuyItem 0 2 7 1 3 demo = Some (True, t)
     \<and> ledger_of t = move_goods (AMerchant 7) (APlayer 2) 1 3
                       (move_gold (APlayer 2) (AMerchant 7) 30 (ledger_of demo))"
proof -
  have "map_option fst (BuyItem 0 2 7 1 3 demo) = Some True" by code_simp
  then obtain t where t: "BuyItem 0 2 7 1 3 demo = Some (True, t)" by auto
  have "CalculateBuyPrice demo 1 7 = Some 10" by code_simp
  with BuyItem_refines_ledger [OF t] t show ?thesis by auto
qed

text \<open>
  A successful sale refines the ledger specification: the goods move from the player to
  the merchant, the gold from the merchant to the player, and the merchant could pay.
\<close>

lemma SellItem_refines_ledger:
  assumes "SellItem now p m i n s = Some (True, t)"
  shows "\<exists>price. CalculateSellPrice s i m = Some price
     \<and> price * n \<le> merchant_gold s m \<and> n \<le> GetItemQuantity s p i
     \<and> ledger_of t = move_goods (APlayer p) (AMerchant m) i n
                       (move_gold (AMerchant m) (APlayer p) (price * n) (ledger_of s))"
  using assms
proof (cases rule: SellItem_SomeE)
  case (2 mr price it)
  then show ?thesis
    using ledger_commit_sell [OF 2(1) _ 2(2,4,10)]
    by (auto simp: merchant_gold_def)
qed simp

lemma SellItem_refines_ledger_witness:
  "\<exists>s t. SellItem 0 2 7 1 3 s = Some (True, t)
     \<and> ledger_of t = move_goods (APlayer 2) (AMerchant 7) 1 3
                       (move_gold (AMerchant 7) (APlayer 2) 15 (ledger_of s))"
proof -
  define s where "s = snd (AddItemToInventory 0 2 1 4 demo)"
  have "map_option fst (SellItem 0 2 7 1 3 s) = Some True" unfolding s_def by code_simp
  then obtain t where t: "SellItem 0 2 7 1 3 s = Some (True, t)" by auto
  have "CalculateSellPrice s 1 7 = Some 5" unfolding s_def by code_simp
  with SellItem_refines_ledger [OF t] t show ?thesis by auto
qed

end
