(* ===== verification/EconomyCases.thy ===== *)
theory EconomyCases
  imports EconomyProps
begin

text \<open>
  More properties of the economy: refused trades, gifts, freedom from undefined behaviour,
  the weight book-keeping, and the cases in which the code does not do what its comments and
  log messages say (start-up, barter, cached prices).
\<close>

section \<open>Refused trades and gifts\<close>

text \<open>
  A purchase or a sale that is refused leaves the whole economy as it was; only the
  transaction counter may have moved, and only for a request that names the id 0 or the
  quantity 0.
\<close>

lemma refused_trade_changes_nothing:
  assumes "trade \<in> {BuyItem, SellItem}" "trade now p m i n s = Some (False, t)"
  shows "t = s \<or> (t = s\<lparr>ge_nextTransactionId := ge_nextTransactionId s + 1\<rparr>
                    \<and> (p = 0 \<or> m = 0 \<or> i = 0 \<or> n = 0))"
proof -
  have "t = s\<lparr>ge_nextTransactionId := ge_nextTransactionId s + 1\<rparr> \<and> (p = 0 \<or> m = 0 \<or> i = 0 \<or> n = 0)"
    if "(False, t) \<in> {commit_buy now p m i n c s, commit_sell now p m i n c s}" for c
    using that by (auto simp: commit_buy_def commit_sell_def Let_def ProcessTransaction_def
        ValidateTransaction_def word_neq_0_conv [symmetric] split: if_splits)
  then show ?thesis
    using assms by (auto elim!: BuyItem_SomeE SellItem_SomeE) (metis insertCI)+
qed

lemma refused_trade_changes_nothing_witness:
  "BuyItem 0 2 7 1 6 demo = Some (False, demo)"
proof -
  have "map_option fst (BuyItem 0 2 7 1 6 demo) = Some False" by code_simp
  then obtain t where t: "BuyItem 0 2 7 1 6 demo = Some (False, t)" by auto
  have "\<not> ((2::u32) = 0 \<or> (7::u32) = 0 \<or> (1::u32) = 0 \<or> (6::u32) = 0)" by simp
  with refused_trade_changes_nothing [of BuyItem, OF _ t] t show ?thesis by auto
qed

text \<open>
  A gift between two different players that is accepted moves exactly the goods from the
  giver to the taker, who can carry them.
\<close>

lemma GiftItem_refines_ledger:
  assumes "GiftItem now a b i n s = (True, t)" "a \<noteq> b"
  shows "n \<le> GetItemQuantity s a i \<and> CanPlayerCarry s b i n
     \<and> ledger_of t = move_goods (APlayer a) (APlayer b) i n (ledger_of s)"
  using assms ledger_hand_over [of s a n i b now]
  by (auto simp: GiftItem_def not_less split: if_splits option.splits)

lemma GiftItem_refines_ledger_witness:
  "\<exists>s t. GiftItem 0 2 3 1 2 s = (True, t)
     \<and> ledger_of t = move_goods (APlayer 2) (APlayer 3) 1 2 (ledger_of s)"
proof -
  define s where "s = snd (AddItemToInventory 0 2 1 4 demo)"
  have "fst (GiftItem 0 2 3 1 2 s)" unfolding s_def by code_simp
  then obtain t where t: "GiftItem 0 2 3 1 2 s = (True, t)" by (cases "GiftItem 0 2 3 1 2 s") auto
  with GiftItem_refines_ledger [OF t] show ?thesis by auto
qed

section \<open>Prices\<close>

text \<open>
  A merchant without quotes of his own sells at the value of the item and buys at half of
  it, rounded down, as long as the value is at most 2^24 (where \<open>float\<close> is exact).
\<close>

lemma quoted_prices:
  assumes "GetItem s i = Some it" "unat (i_value it) \<le> 2 ^ 24" "GetMerchant s m = Some mr"
    "om_find (mr_buyPrices mr) i = None" "om_find (mr_sellPrices mr) i = None"
  shows "CalculateBuyPrice s i m = Some (i_value it)
       \<and> CalculateSellPrice s i m = Some (i_value it div 2)"
  using assms buy_price_exact [of s i it m mr] sell_price_exact [of s i it m mr] by simp

lemma quoted_prices_witness:
  "\<exists>s. CalculateBuyPrice s 1 7 = Some 15 \<and> CalculateSellPrice s 1 7 = Some 7"
proof -
  define it where "it = demo_item\<lparr>i_value := 15\<rparr>"
  define mr where "mr = demo_merchant\<lparr>mr_buyPrices := []\<rparr>"
  define s where "s = AddMerchant mr (AddItem it demo)"
  have "GetItem s 1 = Some (stored_item 1 it)" "GetMerchant s 7 = Some mr"
    unfolding s_def it_def mr_def by code_simp+
  moreover have "i_value (stored_item 1 it) = 15" "mr_buyPrices mr = []" "mr_sellPrices mr = []"
    unfolding it_def mr_def by code_simp+
  ultimately show ?thesis using quoted_prices [of s 1 "stored_item 1 it" 7 mr] by auto
qed

lemma update_price_of_quote:
  assumes "update_price_of m i s = Some t" "GetMerchant s k = Some x" "om_find (mr_buyPrices x) j = Some c"
    "GetItem s j \<noteq> None"
  shows "\<exists>y. GetMerchant t k = Some y \<and> om_find (mr_buyPrices y) j = Some c \<and> ge_items t = ge_items s"
  using assms
  by (auto simp: update_price_of_def bind_eq_Some_conv GetMerchant_def om_find_upd GetItem_def
      CalculateBuyPrice_def split: option.splits if_splits)

definition quoted :: "u32 \<Rightarrow> u32 \<Rightarrow> u32 \<Rightarrow> GlobalEconomy \<Rightarrow> bool" where
  "quoted k j c s \<longleftrightarrow> (\<exists>x. GetMerchant s k = Some x \<and> om_find (mr_buyPrices x) j = Some c)
                       \<and> GetItem s j \<noteq> None"

lemma quoted_update_price_of: "quoted k j c s \<Longrightarrow> update_price_of m i s = Some t \<Longrightarrow> quoted k j c t"
  using update_price_of_quote [of m i s t k _ j c] by (fastforce simp: quoted_def GetItem_def)

lemma quoted_UpdateMerchantPrices:
  "quoted k j c s \<Longrightarrow> UpdateMerchantPrices m s = Some t \<Longrightarrow> quoted k j c t"
  by (auto simp: UpdateMerchantPrices_def split: option.splits
      intro: run_invariant [of "quoted k j c" s _ "update_price_of m" t] quoted_update_price_of)

lemma quoted_price: "quoted k j c s \<Longrightarrow> CalculateBuyPrice s j k = Some c"
  by (auto simp: quoted_def CalculateBuyPrice_def)

text \<open>
  A quote that a merchant has stored is final: inflation rewrites the items' values, and
  then stores the old quote again, so the merchants never pass inflation on.  The comment of
  the code says that merchant prices are updated.
\<close>

lemma inflation_keeps_stored_quotes:
  assumes "ApplyInflation rate s = Some t" "GetMerchant s k = Some x"
    "om_find (mr_buyPrices x) j = Some c" "GetItem s j \<noteq> None"
  shows "CalculateBuyPrice t j k = Some c"
proof -
  obtain items where items: "inflate_items rate (ge_items s) = Some items"
    and run: "update_all_merchant_prices (s\<lparr>ge_inflationRate := rate, ge_items := items\<rparr>) = Some t"
    using assms(1) by (auto simp: ApplyInflation_def UpdateItemPrices_def bind_eq_Some_conv)
  have "om_find items j \<noteq> None"
    using inflate_items_keys [OF items] assms(4) by (metis GetItem_def option.map_disc_iff)
  then have "quoted k j c (s\<lparr>ge_inflationRate := rate, ge_items := items\<rparr>)"
    using assms by (simp add: quoted_def GetMerchant_def GetItem_def)
  then have "quoted k j c t"
    by (rule run_invariant [OF _ _ run [unfolded update_all_merchant_prices_def]])
      (rule quoted_UpdateMerchantPrices)
  then show ?thesis by (rule quoted_price)
qed

lemma inflation_keeps_stored_quotes_witness:
  "\<exists>s t. CalculateItemValue s 1 = 10 \<and> CalculateBuyPrice s 1 7 = Some 10
       \<and> ApplyInflation (Fin 1) s = Some t
       \<and> CalculateItemValue t 1 = 20 \<and> CalculateBuyPrice t 1 7 = Some 10"
proof -
  define s where "s = AddItem (demo_item\<lparr>i_prices := [(Gold, 10)]\<rparr>) demo"
  have s: "GetMerchant s 7 = Some demo_merchant" "om_find (mr_buyPrices demo_merchant) 1 = Some 10"
    "GetItem s 1 \<noteq> None" "CalculateItemValue s 1 = 10" "CalculateBuyPrice s 1 7 = Some 10"
    unfolding s_def by code_simp+
  have "map_option (\<lambda>t. CalculateItemValue t 1) (ApplyInflation (Fin 1) s) = Some 20"
    unfolding s_def by code_simp
  then obtain t where t: "ApplyInflation (Fin 1) s = Some t" "CalculateItemValue t 1 = 20" by auto
  with inflation_keeps_stored_quotes [OF t(1) s(1-3)] s show ?thesis by blast
qed

section \<open>Start-up\<close>

text \<open>
  The default catalogue is never loaded: \<open>Initialize\<close> adds the default items and
  merchants before it sets \<open>m_initialized\<close>, and the two add operations do nothing until
  then, so a new economy starts without items and without merchants and no purchase can
  succeed in it.
\<close>

lemma Initialize_loads_nothing:
  "(case Initialize (GlobalEconomy_new now) of (ok, s) \<Rightarrow>
      ok \<and> ge_initialized s \<and> GetAllItems s = [] \<and> GetAllMerchants s = []
      \<and> BuyItem t p m i n s = Some (False, s))"
  by (simp add: Initialize_def InitializeDefaultItems_def InitializeDefaultMerchants_def
      AddItem_def AddMerchant_def GlobalEconomy_new_def GetAllItems_def GetAllMerchants_def
      om_values_def BuyItem_def GetPlayerEconomy_def)

section \<open>Barter\<close>

text \<open>
  Barter can destroy goods: \<open>TradeItems\<close> checks that both sides own what they offer but
  not that they can carry what they receive.  When player \<open>b\<close> cannot carry the stack that
  \<open>a\<close> offers, the trade succeeds, \<open>a\<close> loses the stack and \<open>b\<close> receives nothing.
\<close>

lemma TradeItems_destroys_goods:
  assumes "ge_tradingEnabled s" "GetPlayerEconomy s a \<noteq> None" "GetPlayerEconomy s b \<noteq> None"
    "GetItem s i \<noteq> None" "a \<noteq> b" "n \<le> GetItemQuantity s a i" "\<not> CanPlayerCarry s b i n"
  shows "\<exists>t. TradeItems now a b [(i, n)] [] s = (True, t)
     \<and> GetItemQuantity t a i = GetItemQuantity s a i - n
     \<and> GetItemQuantity t b i = GetItemQuantity s b i"
proof -
  define s1 where "s1 = snd (RemoveItemFromInventory now a i n s)"
  have l1: "ledger_of s1 = (ledger_of s)\<lparr>lg_goods := (lg_goods (ledger_of s))
      (APlayer a := (lg_goods (ledger_of s) (APlayer a))(i := GetItemQuantity s a i - n))\<rparr>"
    using ledger_RemoveItemFromInventory [OF assms(2,4,6), of now] by (simp add: s1_def)
  have "\<not> CanPlayerCarry s1 b i n"
    using assms(5,7)
    by (auto simp: s1_def CanPlayerCarry_def RemoveItemFromInventory_def Let_def GetPlayerEconomy_def
        GetItem_def split: option.splits)
  then have "snd (AddItemToInventory now b i n s1) = s1"
    by (auto simp: AddItemToInventory_def CanPlayerCarry_def Let_def not_le split: option.splits)
  moreover have "TradeItems now a b [(i, n)] [] s = (True, snd (AddItemToInventory now b i n s1))"
    using assms by (auto simp: TradeItems_def owns_all_def hand_over_def s1_def split: option.splits)
  ultimately show ?thesis using assms(5) by (simp add: GetItemQuantity_ledger l1)
qed

lemma TradeItems_destroys_goods_witness:
  "\<exists>s t. GetItemQuantity s 2 1 = 100 \<and> TradeItems 0 2 3 [(1, 100)] [] s = (True, t)
     \<and> GetItemQuantity t 2 1 = 0 \<and> GetItemQuantity t 3 1 = 0"
proof -
  define s where "s = AddItem (demo_item\<lparr>i_weight := 20\<rparr>) (snd (AddItemToInventory 0 2 1 100 demo))"
  have "ge_tradingEnabled s" "GetPlayerEconomy s 2 \<noteq> None" "GetPlayerEconomy s 3 \<noteq> None"
    "GetItem s 1 \<noteq> None" "GetItemQuantity s 2 1 = 100" "\<not> CanPlayerCarry s 3 1 100"
    "GetItemQuantity s 3 1 = 0"
    unfolding s_def by code_simp+
  with TradeItems_destroys_goods [of s 2 3 1 100 0] show ?thesis by auto
qed

section \<open>Freedom from undefined behaviour\<close>

definition modest :: "GlobalEconomy \<Rightarrow> bool" where
  "modest s \<longleftrightarrow> (\<forall>k it. GetItem s k = Some it \<longrightarrow> unat (i_value it) \<le> 2 ^ 24)"

fun no_revaluation :: "EconomyOp \<Rightarrow> bool" where
  "no_revaluation (OpAddItem item) = (unat (i_value item) \<le> 2 ^ 24)"
| "no_revaluation OpUpdateItemPrices = False"
| "no_revaluation (OpApplyInflation _) = False"
| "no_revaluation _ = True"

lemma modest_cong: "ge_items t = ge_items s \<Longrightarrow> modest t = modest s"
  by (simp add: modest_def GetItem_def)

lemma modest_merchants [simp]: "modest (s\<lparr>ge_merchants := m\<rparr>) = modest s"
  by (rule modest_cong) simp

lemma prices_defined:
  assumes "modest s"
  shows "CalculateBuyPrice s i m \<noteq> None" and "CalculateSellPrice s i m \<noteq> None"
proof -
  have "unat (i_value it) \<le> 2 ^ 24" if "GetItem s i = Some it" for it
    using assms that by (simp add: modest_def)
  then show "CalculateBuyPrice s i m \<noteq> None" "CalculateSellPrice s i m \<noteq> None"
    using buy_price_exact [of s i _ m] sell_price_exact [of s i _ m]
    by (cases "GetItem s i"; cases "GetMerchant s m";
        simp add: CalculateBuyPrice_def CalculateSellPrice_def)+
qed

lemma update_price_of_defined:
  "modest s \<Longrightarrow> \<exists>t. update_price_of m i s = Some t \<and> modest t"
  using prices_defined [of s i m]
  by (auto simp: update_price_of_def split: option.splits)

lemma UpdateMerchantPrices_defined:
  "modest s \<Longrightarrow> \<exists>t. UpdateMerchantPrices m s = Some t \<and> modest t"
  by (auto simp: UpdateMerchantPrices_def split: option.splits
      intro!: run_progress [of modest] update_price_of_defined)

lemma update_all_defined:
  "modest s \<Longrightarrow> \<exists>t. update_all_merchant_prices s = Some t \<and> modest t"
  unfolding update_all_merchant_prices_def
  by (rule run_progress) (auto intro: UpdateMerchantPrices_defined)

lemma modest_rebalance_item: "modest s \<Longrightarrow> modest (rebalance_item k s)"
  by (auto simp: rebalance_item_def modest_def GetItem_def om_find_upd CalculateItemValue_def
      split: if_splits option.splits)

lemma modest_fold: "(\<And>x s. modest s \<Longrightarrow> modest (f x s)) \<Longrightarrow> modest s \<Longrightarrow> modest (fold f xs s)"
  by (induction xs arbitrary: s) simp_all

lemma stored_item_value [simp]: "i_value (stored_item k it) = i_value it"
  by (simp add: stored_item_def Let_def)

lemma modest_AddItem: "modest s \<Longrightarrow> unat (i_value item) \<le> 2 ^ 24 \<Longrightarrow> modest (AddItem item s)"
  by (auto simp: modest_def AddItem_def GetItem_def Let_def)

lemma AddMerchant_items [simp]: "ge_items (AddMerchant m s) = ge_items s"
  by (simp add: AddMerchant_def Let_def)

lemma fold_items_frame:
  "(\<And>x s. ge_items (f x s) = ge_items s) \<Longrightarrow> ge_items (fold f xs s) = ge_items s"
  by (induction xs arbitrary: s) simp_all

lemma Restock_items [simp]: "ge_items (RestockMerchant rnd now m s) = ge_items s"
  by (simp add: RestockMerchant_def Let_def split: option.splits prod.splits)

lemma modest_Initialize: "modest s \<Longrightarrow> modest (snd (Initialize s))"
proof -
  assume s: "modest s"
  have "modest (InitializeDefaultItems s)"
    by (simp add: InitializeDefaultItems_def modest_AddItem s CreateWeapon_def CreateArmor_def
        CreateConsumable_def CreateMaterial_def)
  moreover have "ge_items (InitializeDefaultMerchants u) = ge_items u" for u
    by (simp add: InitializeDefaultMerchants_def)
  ultimately show ?thesis
    using s by (auto simp: Initialize_def intro: modest_cong [THEN iffD1, rotated])
qed

lemma trade_items_frame:
  "ge_items (snd (commit_buy now p m i n c s)) = ge_items s"
  "ge_items (snd (commit_sell now p m i n c s)) = ge_items s"
  "ge_items (snd (TradeItems now p q xs ys s)) = ge_items s"
  "ge_items (snd (GiftItem now p q i n s)) = ge_items s"
  "ge_items (ProcessEconomyUpdate rnd now s) = ge_items s"
  by (simp_all add: commit_buy_def commit_sell_def TradeItems_def GiftItem_def Let_def econ_frame
      ProcessEconomyUpdate_def CleanupOldTransactions_def CheckEconomyHealth_def
      UpdateEconomyStats_def fold_items_frame split: option.splits)

lemma modest_commit:
  "modest (snd (commit_buy now p m i n c s)) = modest s"
  "modest (snd (commit_sell now p m i n c s)) = modest s"
  by (simp_all add: modest_def GetItem_def trade_items_frame)

lemma BuyItem_defined:
  assumes "modest s"
  shows "\<exists>r t. BuyItem now p m i n s = Some (r, t) \<and> modest t"
proof (cases "BuyItem now p m i n s")
  case None
  then show ?thesis using prices_defined [OF assms, of i m]
    by (auto simp: BuyItem_def Let_def bind_eq_None_conv split: if_splits option.splits)
next
  case (Some x)
  then show ?thesis using assms modest_commit(1) [of now p m i n _ s]
    by (cases x) (auto elim!: BuyItem_SomeE, metis snd_conv)
qed

lemma SellItem_defined:
  assumes "modest s"
  shows "\<exists>r t. SellItem now p m i n s = Some (r, t) \<and> modest t"
proof (cases "SellItem now p m i n s")
  case None
  then show ?thesis using prices_defined [OF assms, of i m]
    by (auto simp: SellItem_def Let_def bind_eq_None_conv split: if_splits option.splits)
next
  case (Some x)
  then show ?thesis using assms modest_commit(2) [of now p m i n _ s]
    by (cases x) (auto elim!: SellItem_SomeE, metis snd_conv)
qed

lemma modest_step:
  assumes "modest s" "no_revaluation x"
  shows "\<exists>t. economy_step x s = Some t \<and> modest t"
proof (cases x)
  case (OpBuyItem now p m i n)
  then show ?thesis using BuyItem_defined [OF assms(1), of now p m i n] by auto
next
  case (OpSellItem now p m i n)
  then show ?thesis using SellItem_defined [OF assms(1), of now p m i n] by auto
next
  case OpRebalanceEconomy
  have "modest (fold rebalance_item (om_keys (ge_items s)) s)"
    using assms(1) by (intro modest_fold modest_rebalance_item)
  then show ?thesis using OpRebalanceEconomy update_all_defined by (simp add: RebalanceEconomy_def)
next
  case (OpUpdateMerchantPrices m)
  then show ?thesis using UpdateMerchantPrices_defined assms(1) by simp
next
  case (OpAddItem it)
  then show ?thesis using modest_AddItem assms by simp
next
  case OpInitialize
  then show ?thesis using modest_Initialize assms by simp
next
  case (OpRemoveItem i)
  then show ?thesis using assms by (auto simp: modest_def items.get_remove)
next
  case OpShutdown
  then show ?thesis using assms by (auto simp: modest_def Shutdown_def GetItem_def)
qed (use assms in \<open>simp_all add: modest_def GetItem_def trade_items_frame econ_frame
      AddPlayer_def RemovePlayer_def RemoveMerchant_def ResetEconomy_def Let_def
      SetInflationRate_def SetMaxPlayerWeight_def SetMerchantRestockInterval_def
      EnableTrading_def EnableGifting_def ResetStats_def split: option.splits\<close>)

interpretation modest: safe_system economy_step modest no_revaluation
  using modest_step by unfold_locales fastforce+

text \<open>
  No undefined behaviour: as long as every item is worth at most 2^24 and no operation
  revalues the catalogue, every sequence of operations runs to its end without an undefined
  float-to-integer cast, and items stay within the bound.
\<close>

lemma economy_no_undefined_cast:
  assumes "modest s" "list_all no_revaluation ops"
  shows "\<exists>t. run economy_step ops s = Some t \<and> modest t"
  using assms by (rule modest.run_safe)

lemma economy_no_undefined_cast_witness:
  "\<exists>t. run economy_step [OpInitialize, OpAddItem demo_item, OpAddPlayer 0 2,
       OpAddMerchant demo_merchant, OpBuyItem 0 2 7 1 3, OpRebalanceEconomy] (GlobalEconomy_new 0) = Some t
     \<and> modest t"
proof (rule economy_no_undefined_cast)
  show "modest (GlobalEconomy_new 0)" by (simp add: modest_def GetItem_def GlobalEconomy_new_def)
qed (simp add: demo_item_def CreateMaterial_def)

section \<open>Weight book-keeping\<close>

definition item_weight :: "GlobalEconomy \<Rightarrow> u32 \<Rightarrow> u32" where
  "item_weight s i = (case GetItem s i of None \<Rightarrow> 0 | Some it \<Rightarrow> i_weight it)"

definition carried :: "(u32 \<Rightarrow> u32) \<Rightarrow> PlayerEconomyData \<Rightarrow> u32" where
  "carried w p = om_wsum (\<lambda>i q. w i * q) (p_inventory p)"

definition weights_ok :: "GlobalEconomy \<Rightarrow> bool" where
  "weights_ok s \<longleftrightarrow> (\<forall>k p. GetPlayerEconomy s k = Some p \<longrightarrow> p_totalWeight p = carried (item_weight s) p)"

fun keeps_catalogue :: "EconomyOp \<Rightarrow> bool" where
  "keeps_catalogue (OpAddItem _) = False"
| "keeps_catalogue (OpRemoveItem _) = False"
| "keeps_catalogue _ = True"

lemma weights_ok_cong:
  "ge_playerEconomies t = ge_playerEconomies s \<Longrightarrow> item_weight t = item_weight s \<Longrightarrow>
     weights_ok t = weights_ok s"
  by (simp add: weights_ok_def GetPlayerEconomy_def)

lemma item_weight_cong: "ge_items t = ge_items s \<Longrightarrow> item_weight t = item_weight s"
  by (simp add: item_weight_def GetItem_def fun_eq_iff)

lemma weights_ok_frame:
  "ge_playerEconomies t = ge_playerEconomies s \<Longrightarrow> ge_items t = ge_items s \<Longrightarrow>
     weights_ok t = weights_ok s"
  by (rule weights_ok_cong) (simp, rule item_weight_cong)

text \<open>Storing one player whose weight is right keeps the whole.\<close>

lemma weights_ok_put:
  "weights_ok s \<Longrightarrow> item_weight t = item_weight s \<Longrightarrow>
     ge_playerEconomies t = om_put k p (ge_playerEconomies s) \<Longrightarrow>
     p_totalWeight p = carried (item_weight s) p \<Longrightarrow> weights_ok t"
  by (auto simp: weights_ok_def GetPlayerEconomy_def)

lemma weights_okD:
  "weights_ok s \<Longrightarrow> GetPlayerEconomy s k = Some p \<Longrightarrow> p_totalWeight p = carried (item_weight s) p"
  by (simp add: weights_ok_def)

lemma weights_ok_currency:
  assumes "weights_ok s"
  shows "weights_ok (snd (AddCurrency now p c n s))" "weights_ok (snd (RemoveCurrency now p c n s))"
proof -
  show "weights_ok (snd (AddCurrency now p c n s))"
  proof (cases "GetPlayerEconomy s p")
    case None
    then show ?thesis using assms by (simp add: AddCurrency_def)
  next
    case (Some pl)
    then show ?thesis
      by (intro weights_ok_put [OF assms item_weight_cong])
        (auto simp: econ_frame AddCurrency_players om_upd_def GetPlayerEconomy_def carried_def
          weights_okD [OF assms])
  qed
  show "weights_ok (snd (RemoveCurrency now p c n s))"
  proof (cases "GetPlayerEconomy s p")
    case None
    then show ?thesis using assms by (simp add: RemoveCurrency_def)
  next
    case (Some pl)
    then show ?thesis
      by (cases "CanPlayerAfford s p c n", intro weights_ok_put [OF assms item_weight_cong])
        (auto simp: econ_frame RemoveCurrency_players om_upd_def GetPlayerEconomy_def carried_def
          weights_okD [OF assms] RemoveCurrency_def assms)
  qed
qed

lemma carried_put:
  assumes "om_sorted (p_inventory p)"
  shows "carried w (p\<lparr>p_inventory := om_put i q (p_inventory p)\<rparr>)
           = carried w p + w i * (q - om_get 0 (p_inventory p) i)"
  by (simp add: carried_def om_wsum_put [OF assms] om_get_def algebra_simps split: option.splits)

lemma carried_take_out:
  assumes "om_sorted (p_inventory p)" "om_find (p_inventory p) i = Some h"
  shows "carried w (p\<lparr>p_inventory := take_out i h n (p_inventory p)\<rparr>) = carried w p - w i * n"
  using assms(2)
  by (auto simp: carried_def take_out_def om_wsum_put [OF assms(1)] om_wsum_erase [OF assms(1)]
      algebra_simps)

lemma carried_frame [simp]:
  "carried w (p\<lparr>p_totalWeight := a\<rparr>) = carried w p" "carried w (p\<lparr>p_lastUpdate := b\<rparr>) = carried w p"
  by (simp_all add: carried_def)

lemma weights_ok_inventory:
  assumes "economy_ok s" "weights_ok s"
  shows "weights_ok (snd (AddItemToInventory now p i n s))"
    and "weights_ok (snd (RemoveItemFromInventory now p i n s))"
proof -
  have srt: "om_sorted (p_inventory pl)" if "GetPlayerEconomy s p = Some pl" for pl
    using assms(1) that by (simp add: economy_ok_def player_ok_def)
  show "weights_ok (snd (AddItemToInventory now p i n s))"
    unfolding AddItemToInventory_def Let_def
    using assms(2) srt weights_okD [OF assms(2)]
    by (auto split: option.splits simp del: om_get_put
        intro!: weights_ok_put [OF assms(2) item_weight_cong, OF _ set_player_frame(7)]
        simp: carried_put item_weight_def)
  show "weights_ok (snd (RemoveItemFromInventory now p i n s))"
    unfolding RemoveItemFromInventory_def Let_def
    using assms(2) srt weights_okD [OF assms(2)]
    by (auto split: option.splits
        intro!: weights_ok_put [OF assms(2) item_weight_cong, OF _ set_player_frame(7)]
        simp: carried_take_out item_weight_def)
qed

lemma weights_ok_put_merchant [simp]:
  "weights_ok (s\<lparr>ge_merchants := m\<rparr>) = weights_ok s"
  "weights_ok (s\<lparr>ge_nextTransactionId := n\<rparr>) = weights_ok s"
  "weights_ok (finish_transaction t s) = weights_ok s"
  by (rule weights_ok_frame; simp add: econ_frame)+

lemma weights_ok_commit:
  assumes "economy_ok s" "weights_ok s"
  shows "weights_ok (snd (commit_buy now p m i n c s))" "weights_ok (snd (commit_sell now p m i n c s))"
  using assms
  by (simp_all add: commit_buy_def commit_sell_def Let_def weights_ok_currency weights_ok_inventory
      economy_ok_currency)

lemma weights_ok_hand_over:
  "economy_ok s \<Longrightarrow> weights_ok s \<Longrightarrow> weights_ok (hand_over now g t offer s)"
  by (simp add: hand_over_def weights_ok_inventory economy_ok_currency)

lemma weights_ok_fold_hand_over:
  "economy_ok s \<Longrightarrow> weights_ok s \<Longrightarrow> weights_ok (fold (hand_over now g t) offers s)"
  by (induction offers arbitrary: s) (simp_all add: weights_ok_hand_over economy_ok_hand_over)

lemma update_all_frame:
  assumes "update_all_merchant_prices s = Some t"
  shows "ge_playerEconomies t = ge_playerEconomies s \<and> ge_items t = ge_items s"
proof -
  let ?P = "\<lambda>u. ge_playerEconomies u = ge_playerEconomies s \<and> ge_items u = ge_items s"
  have one: "?P t" if "?P u" "update_price_of m i u = Some t" for m i u t
    using that by (auto simp: update_price_of_def bind_eq_Some_conv split: option.splits)
  have "?P t" if "?P u" "UpdateMerchantPrices m u = Some t" for m u t
  proof (cases "GetMerchant u m")
    case (Some mr)
    then have r: "run (update_price_of m) (om_keys (mr_inventory mr)) u = Some t"
      using that(2) by (simp add: UpdateMerchantPrices_def)
    show ?thesis by (rule run_invariant [of ?P, OF that(1) one r])
  qed (use that in \<open>auto simp: UpdateMerchantPrices_def\<close>)
  then show ?thesis
    using run_invariant [of ?P s _ UpdateMerchantPrices t] assms
    unfolding update_all_merchant_prices_def by blast
qed

lemma inflate_items_weight:
  "inflate_items rate m = Some n \<Longrightarrow>
     map_option i_weight (om_find n k) = map_option i_weight (om_find m k)"
proof (induction rate m arbitrary: n rule: inflate_items.induct)
  case (2 rate k item m)
  then show ?case by (auto simp: bind_eq_Some_conv om_find_def)
qed simp

lemma item_weight_eqI:
  "(\<And>k. map_option i_weight (GetItem t k) = map_option i_weight (GetItem s k)) \<Longrightarrow>
     item_weight t = item_weight s"
proof
  fix k
  assume "\<And>k. map_option i_weight (GetItem t k) = map_option i_weight (GetItem s k)"
  from this [of k] show "item_weight t k = item_weight s k"
    by (auto simp: item_weight_def split: option.splits)
qed

lemma weights_ok_UpdateItemPrices:
  assumes "weights_ok s" "UpdateItemPrices s = Some t"
  shows "weights_ok t"
proof -
  obtain items where i: "inflate_items (ge_inflationRate s) (ge_items s) = Some items"
    "update_all_merchant_prices (s\<lparr>ge_items := items\<rparr>) = Some t"
    using assms(2) by (auto simp: UpdateItemPrices_def bind_eq_Some_conv)
  have "item_weight t = item_weight s"
    using inflate_items_weight [OF i(1)] update_all_frame [OF i(2)]
    by (intro item_weight_eqI) (simp add: GetItem_def)
  with update_all_frame [OF i(2)] assms(1) show ?thesis using weights_ok_cong [of t s] by simp
qed

lemma rebalance_weight: "item_weight (fold rebalance_item ks s) = item_weight s"
proof (induction ks arbitrary: s)
  case (Cons k ks)
  have "item_weight (rebalance_item k s) = item_weight s"
    by (rule item_weight_eqI)
      (auto simp: rebalance_item_def GetItem_def om_find_upd option.map_comp comp_def)
  with Cons show ?case by simp
qed simp

lemma weights_ok_RebalanceEconomy:
  assumes "weights_ok s" "RebalanceEconomy s = Some t"
  shows "weights_ok t"
  using assms weights_ok_cong [of t s] rebalance_weight [of "om_keys (ge_items s)" s]
    update_all_frame [of "fold rebalance_item (om_keys (ge_items s)) s" t]
    item_weight_cong [of t "fold rebalance_item (om_keys (ge_items s)) s"]
  by (simp add: RebalanceEconomy_def rebalance_frame)

lemma weights_ok_UpdateMerchantPrices:
  assumes "weights_ok s" "UpdateMerchantPrices m s = Some t"
  shows "weights_ok t"
proof -
  have one: "weights_ok v" if "weights_ok u" "update_price_of m i u = Some v" for i u v
    using that by (auto simp: update_price_of_def bind_eq_Some_conv split: option.splits)
  show ?thesis
  proof (cases "GetMerchant s m")
    case (Some mr)
    then have r: "run (update_price_of m) (om_keys (mr_inventory mr)) s = Some t"
      using assms(2) by (simp add: UpdateMerchantPrices_def)
    show ?thesis by (rule run_invariant [of weights_ok, OF assms(1) one r])
  qed (use assms in \<open>auto simp: UpdateMerchantPrices_def\<close>)
qed

lemma weights_ok_BuyItem:
  "economy_ok s \<Longrightarrow> weights_ok s \<Longrightarrow> BuyItem now p m i n s = Some (r, t) \<Longrightarrow> weights_ok t"
  by (elim BuyItem_SomeE) (simp, metis weights_ok_commit(1) snd_conv)

lemma weights_ok_SellItem:
  "economy_ok s \<Longrightarrow> weights_ok s \<Longrightarrow> SellItem now p m i n s = Some (r, t) \<Longrightarrow> weights_ok t"
  by (elim SellItem_SomeE) (simp, metis weights_ok_commit(2) snd_conv)

lemma weights_ok_Trade:
  assumes "economy_ok s" "weights_ok s"
  shows "weights_ok (snd (TradeItems now p q xs ys s))" "weights_ok (snd (GiftItem now p q i n s))"
  using assms economy_ok_fold [of "hand_over now p q" s xs]
  by (auto simp: TradeItems_def GiftItem_def weights_ok_fold_hand_over weights_ok_hand_over
      economy_ok_hand_over split: option.splits)

lemma weights_ok_players:
  assumes "weights_ok s"
  shows "weights_ok (AddPlayer now p s)" "weights_ok (RemovePlayer p s)" "weights_ok (ResetEconomy s)"
    "weights_ok (Shutdown s)"
  using assms
  by (auto simp: weights_ok_def AddPlayer_def RemovePlayer_def ResetEconomy_def Shutdown_def
      GetPlayerEconomy_def item_weight_def GetItem_def reset_player_def carried_def Let_def
      PlayerEconomyData_new_def)

lemma Initialize_frame:
  "ge_playerEconomies (snd (Initialize s)) = ge_playerEconomies s"
  "ge_items (snd (Initialize s)) = ge_items s"
  by (simp_all add: Initialize_def InitializeDefaultItems_def InitializeDefaultMerchants_def
      AddItem_def AddMerchant_def)

lemma Restock_players [simp]: "ge_playerEconomies (RestockMerchant rnd now m s) = ge_playerEconomies s"
  by (simp add: RestockMerchant_def Let_def split: option.splits prod.splits)

lemma fold_Restock_players [simp]:
  "ge_playerEconomies (fold (RestockMerchant rnd now) ms s) = ge_playerEconomies s"
  by (induction ms arbitrary: s) simp_all

lemma weights_ok_step:
  assumes "economy_ok s" "weights_ok s" "keeps_catalogue x" "economy_step x s = Some t"
  shows "weights_ok t"
proof (cases x)
  case (OpApplyInflation rate)
  then have "UpdateItemPrices (s\<lparr>ge_inflationRate := rate\<rparr>) = Some t"
    using assms(4) by (simp add: ApplyInflation_def)
  moreover have "weights_ok (s\<lparr>ge_inflationRate := rate\<rparr>)"
    using assms(2) weights_ok_frame [of "s\<lparr>ge_inflationRate := rate\<rparr>" s] by simp
  ultimately show ?thesis by (rule weights_ok_UpdateItemPrices [rotated])
next
  case (OpBuyItem now p m i n)
  then show ?thesis using assms weights_ok_BuyItem by auto
next
  case (OpSellItem now p m i n)
  then show ?thesis using assms weights_ok_SellItem by auto
next
  case OpUpdateItemPrices
  then show ?thesis using assms weights_ok_UpdateItemPrices by simp
next
  case OpRebalanceEconomy
  then show ?thesis using assms weights_ok_RebalanceEconomy by simp
next
  case (OpUpdateMerchantPrices m)
  then show ?thesis using assms weights_ok_UpdateMerchantPrices by simp
next
  case (OpProcessEconomyUpdate rnd now)
  then show ?thesis
    using assms(2,4) weights_ok_frame [of t s] trade_items_frame(5) [of rnd now s]
    by (auto simp: ProcessEconomyUpdate_def CleanupOldTransactions_def CheckEconomyHealth_def
        UpdateEconomyStats_def Let_def split: if_splits)
qed (use assms weights_ok_frame [of t s] in \<open>auto simp: weights_ok_currency weights_ok_inventory
      weights_ok_Trade weights_ok_players Initialize_frame AddMerchant_def RemoveMerchant_def
      SetInflationRate_def SetMaxPlayerWeight_def SetMerchantRestockInterval_def
      EnableTrading_def EnableGifting_def ResetStats_def Let_def split: option.splits\<close>)

interpretation weights: step_system economy_step "\<lambda>s. economy_ok s \<and> weights_ok s" keeps_catalogue
  by unfold_locales (auto intro: economy_ok_step weights_ok_step)

text \<open>
  C7. The weight the code keeps for a player is the weight of what the player carries, the
  sum of weight times quantity over the inventory (modulo 2^32), after every sequence of
  operations that does not change the catalogue of items.
\<close>

theorem weight_is_what_is_carried:
  assumes "economy_ok s" "weights_ok s" "list_all keeps_catalogue ops"
    "run economy_step ops s = Some t" "GetPlayerEconomy t k = Some p"
  shows "p_totalWeight p = om_wsum (\<lambda>i q. item_weight t i * q) (p_inventory p)"
  using weights.run_inv [OF _ assms(3,4)] assms(1,2,5) weights_okD [of t k p]
  by (simp add: carried_def)

theorem weight_is_what_is_carried_witness:
  "\<exists>t p. run economy_step [OpBuyItem 0 2 7 1 4, OpGiftItem 0 2 3 1 1] demo = Some t
     \<and> GetPlayerEconomy t 2 = Some p
     \<and> p_totalWeight p = om_wsum (\<lambda>i q. item_weight t i * q) (p_inventory p) \<and> p_totalWeight p = 6"
proof -
  have "map_option (\<lambda>t. map_option p_totalWeight (GetPlayerEconomy t 2))
      (run economy_step [OpBuyItem 0 2 7 1 4, OpGiftItem 0 2 3 1 1] demo) = Some (Some 6)"
    by code_simp
  then obtain t p where t: "run economy_step [OpBuyItem 0 2 7 1 4, OpGiftItem 0 2 3 1 1] demo = Some t"
    "GetPlayerEconomy t 2 = Some p" "p_totalWeight p = 6" by auto
  have "ge_playerEconomies demo =
      map (\<lambda>k. (k, PlayerEconomyData_new\<lparr>p_playerId := k, p_currencies := [(Gold, 100)]\<rparr>)) [2, 3]"
    by code_simp
  then have "weights_ok demo"
    by (auto simp: weights_ok_def GetPlayerEconomy_def om_find_def carried_def
        PlayerEconomyData_new_def split: if_splits)
  with weight_is_what_is_carried [OF demo_ok _ _ t(1,2)] t show ?thesis by auto
qed

end
