(* ===== verification/Bytes.thy ===== *)
theory Bytes
  imports Prelude
begin

text \<open>
  The byte layout of integers, shared by the compression service and the network layer: both
  copy the object representation of \<open>uint32_t\<close> values into byte vectors and back.
\<close>

unbundle bit_operations_syntax

text \<open>The object representation of a \<open>uint32_t\<close> on the little-endian target.\<close>

definition le32 :: "u32 \<Rightarrow> u8 list" where
  "le32 w = [ucast w, ucast (drop_bit 8 w), ucast (drop_bit 16 w), ucast (drop_bit 24 w)]"

definition read_le32 :: "u8 list \<Rightarrow> u32" where
  "read_le32 bs = ucast (bs ! 0) OR push_bit 8 (ucast (bs ! 1)) OR push_bit 16 (ucast (bs ! 2))
     OR push_bit 24 (ucast (bs ! 3))"

lemma length_le32 [simp]: "length (le32 w) = 4"
  by (simp add: le32_def)

lemma read_le32_append [simp]: "read_le32 (le32 w @ rest) = w"
proof (rule bit_word_eqI)
  fix n assume "n < LENGTH(32)"
  then show "bit (read_le32 (le32 w @ rest)) n = bit w n"
    by (cases "24 \<le> n"; cases "16 \<le> n") (auto simp: read_le32_def le32_def bit_simps)
qed

lemma drop_le32 [simp]: "drop 4 (le32 w @ rest) = rest"
  by (simp add: le32_def)

lemma read_le32_le32 [simp]: "read_le32 (le32 w) = w"
  using read_le32_append [of w "[]"] by simp

interpretation le32: codec le32 "\<lambda>bs. Some (read_le32 bs)" "\<lambda>w. True"
  by unfold_locales simp

text \<open>The same for 64-bit values.\<close>

definition le64 :: "u64 \<Rightarrow> u8 list" where
  "le64 w = le32 (ucast w) @ le32 (ucast (drop_bit 32 w))"

definition read_le64 :: "u8 list \<Rightarrow> u64" where
  "read_le64 bs = ucast (read_le32 bs) OR push_bit 32 (ucast (read_le32 (drop 4 bs)))"

lemma length_le64 [simp]: "length (le64 w) = 8"
  by (simp add: le64_def)

lemma read_le64_append [simp]: "read_le64 (le64 w @ rest) = w"
proof (rule bit_word_eqI)
  fix n assume "n < LENGTH(64)"
  then show "bit (read_le64 (le64 w @ rest)) n = bit w n"
    by (cases "32 \<le> n") (auto simp: read_le64_def le64_def bit_simps)
qed

end
