(* ===== verification/Compression.thy ===== *)
theory Compression
  imports Floats Bytes
begin

text \<open>
  The data compression service: \<open>src/optimization/DataCompression.cpp\<close> and
  \<open>include/optimization/DataCompression.h\<close>.

  A \<open>std::vector<uint8_t>\<close> is a list of bytes.  The encoders and decoders of the file (its
  own run-length and dictionary schemes, named after zlib and LZ4) are recursive functions over
  positions and lists.  A read behind the end of the buffer and a remainder by zero are
  undefined behaviour: the result is \<open>None\<close>.  The two readings of the clock of one call are
  the arguments \<open>t0\<close> and \<open>t1\<close>; a float inside a byte buffer is its 32-bit pattern.
\<close>

unbundle bit_operations_syntax

section \<open>Data\<close>

text \<open>
  A byte cast to the enumeration may name none of its constants: \<open>Unnamed\<close>.
\<close>

datatype CompressionAlgorithm = AlgNone | Zlib | LZ4 | LZ4HC | Gzip | Unnamed u8

datatype CompressionLevel = Fast | Balanced | High | Maximum

fun algorithm_byte :: "CompressionAlgorithm \<Rightarrow> u8" where
  "algorithm_byte AlgNone = 0"
| "algorithm_byte Zlib = 1"
| "algorithm_byte LZ4 = 2"
| "algorithm_byte LZ4HC = 3"
| "algorithm_byte Gzip = 4"
| "algorithm_byte (Unnamed b) = b"

definition cast_algorithm :: "u8 \<Rightarrow> CompressionAlgorithm" where
  "cast_algorithm b = (if b = 0 then AlgNone else if b = 1 then Zlib else if b = 2 then LZ4
     else if b = 3 then LZ4HC else if b = 4 then Gzip else Unnamed b)"

fun level_byte :: "CompressionLevel \<Rightarrow> u8" where
  "level_byte Fast = 1"
| "level_byte Balanced = 2"
| "level_byte High = 3"
| "level_byte Maximum = 4"

record CompressionStats =
  cs_originalSize :: u64
  cs_compressedSize :: u64
  cs_compressionRatio :: flt
  cs_compressionTime :: flt
  cs_totalCompressions :: u64
  cs_totalDecompressions :: u64

definition CompressionStats_new :: CompressionStats where
  "CompressionStats_new = \<lparr>cs_originalSize = 0, cs_compressedSize = 0, cs_compressionRatio = Fin 0,
     cs_compressionTime = Fin 0, cs_totalCompressions = 0, cs_totalDecompressions = 0\<rparr>"

definition UpdateStats :: "nat \<Rightarrow> nat \<Rightarrow> flt \<Rightarrow> CompressionStats \<Rightarrow> CompressionStats" where
  "UpdateStats orig compr time st =
     (let originalSize = cs_originalSize st + of_nat orig;
          compressedSize = cs_compressedSize st + of_nat compr
      in st\<lparr>cs_originalSize := originalSize, cs_compressedSize := compressedSize,
            cs_compressionRatio := div32 (f32_of_nat (unat compressedSize)) (f32_of_nat (unat originalSize)),
            cs_compressionTime := add32 (cs_compressionTime st) time\<rparr>)"

record DataCompression =
  dc_initialized :: bool
  dc_defaultAlgorithm :: CompressionAlgorithm
  dc_defaultLevel :: CompressionLevel
  dc_minCompressionSize :: u64
  dc_maxCompressionTime :: flt
  dc_stats :: CompressionStats

definition DataCompression_new :: DataCompression where
  "DataCompression_new = \<lparr>dc_initialized = False, dc_defaultAlgorithm = LZ4,
     dc_defaultLevel = Balanced, dc_minCompressionSize = 64,
     dc_maxCompressionTime = rnd32 (1 / 100), dc_stats = CompressionStats_new\<rparr>"

section \<open>The run-length scheme\<close>

text \<open>\<open>count\<close> of \<open>CompressZlib\<close>: the bytes equal to \<open>current\<close> that follow, up to a limit.\<close>

fun run_length :: "u8 \<Rightarrow> u8 list \<Rightarrow> nat \<Rightarrow> nat" where
  "run_length current [] count = count"
| "run_length current (b # bs) count =
     (if b = current \<and> count < 255 then run_length current bs (count + 1) else count)"

lemma run_length_ge [termination_simp]: "count \<le> run_length current bs count"
  by (induction current bs count rule: run_length.induct) auto

function CompressZlib :: "u8 list \<Rightarrow> u8 list" where
  "CompressZlib [] = []"
| "CompressZlib (current # bs) =
     (let count = run_length current bs 1
      in (if 3 < count then [0xFF, of_nat count, current] else replicate count current)
           @ CompressZlib (drop count (current # bs)))"
  by pat_completeness auto
termination
proof (relation "measure length")
  fix current :: u8 and bs count
  assume "count = run_length current bs 1"
  moreover have "1 \<le> run_length current bs 1" by (rule run_length_ge)
  ultimately show "(drop count (current # bs), current # bs) \<in> measure length" by simp
qed simp

fun DecompressZlib :: "u8 list \<Rightarrow> u8 list" where
  "DecompressZlib (b # count # value # rest) =
     (if b = 0xFF then replicate (unat count) value @ DecompressZlib rest
      else b # DecompressZlib (count # value # rest))"
| "DecompressZlib (b # rest) = b # DecompressZlib rest"
| "DecompressZlib [] = []"

section \<open>The dictionary scheme\<close>

text \<open>The inner loop: how long the bytes at \<open>i\<close> and at \<open>j\<close> agree, without reaching \<open>i\<close>.\<close>

function match_length :: "u8 list \<Rightarrow> nat \<Rightarrow> nat \<Rightarrow> nat \<Rightarrow> nat" where
  "match_length data i j len =
     (if i + len < length data \<and> j + len < i \<and> data ! (i + len) = data ! (j + len) \<and> len < 15
      then match_length data i j (len + 1) else len)"
  by pat_completeness auto
termination by (relation "measure (\<lambda>(data, i, j, len). 15 - len)") auto

declare match_length.simps [simp del]

text \<open>The search in the previous 255 bytes: length and distance of the first longest match.\<close>

definition better_match :: "u8 list \<Rightarrow> nat \<Rightarrow> nat \<Rightarrow> nat \<times> nat \<Rightarrow> nat \<times> nat" where
  "better_match data i j best =
     (let len = match_length data i j 0
      in if fst best < len then (len, i - j) else best)"

definition best_match :: "u8 list \<Rightarrow> nat \<Rightarrow> nat \<times> nat" where
  "best_match data i = fold (better_match data i) [(if 255 < i then i - 255 else 0) ..< i] (0, 0)"

function lz_encode :: "u8 list \<Rightarrow> nat \<Rightarrow> u8 list" where
  "lz_encode data i =
     (if i < length data then
        (let (len, distance) = best_match data i
         in if 3 \<le> len then (0x80 OR of_nat (len - 3)) # of_nat distance # lz_encode data (i + len)
            else data ! i # lz_encode data (i + 1))
      else [])"
  by pat_completeness auto
termination by (relation "measure (\<lambda>(data, i). length data - i)") auto

declare lz_encode.simps [simp del]

definition CompressLZ4 :: "u8 list \<Rightarrow> u8 list" where
  "CompressLZ4 data = lz_encode data 0"

definition copy_match :: "u8 list \<Rightarrow> nat \<Rightarrow> nat \<Rightarrow> u8 list" where
  "copy_match out len distance = map (\<lambda>j. out ! (length out - distance + j mod distance)) [0 ..< len]"

fun lz_decode :: "u8 list \<Rightarrow> u8 list \<Rightarrow> u8 list option" where
  "lz_decode out [] = Some out"
| "lz_decode out [b] = Some (out @ [b])"
| "lz_decode out (b # d # rest) =
     (if bit b 7 then
        (if unat d \<le> length out then
           (if d = 0 then None
            else lz_decode (out @ copy_match out (unat ((b AND 0x7F) + 3)) (unat d)) rest)
         else lz_decode (out @ [b]) rest)
      else lz_decode (out @ [b]) (d # rest))"

definition DecompressLZ4 :: "u8 list \<Rightarrow> u8 list option" where
  "DecompressLZ4 compressedData = lz_decode [] compressedData"

definition CompressLZ4HC :: "u8 list \<Rightarrow> u8 list" where
  "CompressLZ4HC data = CompressLZ4 data"

definition DecompressLZ4HC :: "u8 list \<Rightarrow> u8 list option" where
  "DecompressLZ4HC compressedData = DecompressLZ4 compressedData"

fun GetCompressionLevel :: "CompressionLevel \<Rightarrow> int" where
  "GetCompressionLevel Fast = 1"
| "GetCompressionLevel Balanced = 3"
| "GetCompressionLevel High = 6"
| "GetCompressionLevel Maximum = 9"

section \<open>Compression with a header\<close>

definition DC_Initialize :: "DataCompression \<Rightarrow> bool \<times> DataCompression" where
  "DC_Initialize s = (True, s\<lparr>dc_initialized := True\<rparr>)"

definition DC_Shutdown :: "DataCompression \<Rightarrow> DataCompression" where
  "DC_Shutdown s = s\<lparr>dc_initialized := False\<rparr>"

definition IsCompressible :: "u8 list \<Rightarrow> u64 \<Rightarrow> bool" where
  "IsCompressible data minSize \<longleftrightarrow> unat minSize \<le> length data"

definition GetBestAlgorithm :: "u8 list \<Rightarrow> CompressionAlgorithm" where
  "GetBestAlgorithm data =
     (if length data < 1024 then LZ4 else if length data < 10240 then LZ4 else LZ4HC)"

definition GetCompressionRatio :: "u8 list \<Rightarrow> u8 list \<Rightarrow> flt" where
  "GetCompressionRatio original compressed =
     (if original = [] then Fin 1
      else div32 (f32_of_nat (length compressed)) (f32_of_nat (length original)))"

text \<open>The \<open>switch\<close>; the level is handed to the encoders, which ignore it.\<close>

fun encode_with :: "CompressionAlgorithm \<Rightarrow> int \<Rightarrow> u8 list \<Rightarrow> u8 list" where
  "encode_with Zlib level data = CompressZlib data"
| "encode_with LZ4 level data = CompressLZ4 data"
| "encode_with LZ4HC level data = CompressLZ4HC data"
| "encode_with AlgNone level data = data"
| "encode_with Gzip level data = data"
| "encode_with (Unnamed b) level data = data"

definition header :: "CompressionAlgorithm \<Rightarrow> CompressionLevel \<Rightarrow> nat \<Rightarrow> nat \<Rightarrow> u8 list" where
  "header algorithm level originalSize compressedSize =
     [algorithm_byte algorithm, level_byte level] @ le32 (of_nat originalSize) @ le32 (of_nat compressedSize)"

definition Compress ::
    "int \<Rightarrow> int \<Rightarrow> u8 list \<Rightarrow> CompressionAlgorithm \<Rightarrow> CompressionLevel \<Rightarrow> DataCompression
      \<Rightarrow> u8 list \<times> DataCompression" where
  "Compress t0 t1 data algorithm level s =
     (if \<not> dc_initialized s \<or> data = [] then (data, s)
      else if \<not> IsCompressible data (dc_minCompressionSize s) then (data, s)
      else
        let compressedData = encode_with algorithm (GetCompressionLevel level) data;
            st = UpdateStats (length data) (length compressedData) (seconds32 (t1 - t0)) (dc_stats s);
            s1 = s\<lparr>dc_stats := st\<lparr>cs_totalCompressions := cs_totalCompressions st + 1\<rparr>\<rparr>
        in if length data \<le> length compressedData then (data, s1)
           else (header algorithm level (length data) (length compressedData) @ compressedData, s1))"

text \<open>The \<open>switch\<close> on the algorithm read from the header.\<close>

fun decode_with :: "CompressionAlgorithm \<Rightarrow> u8 list \<Rightarrow> u8 list \<Rightarrow> u8 list option" where
  "decode_with Zlib dataToDecompress compressedData = Some (DecompressZlib dataToDecompress)"
| "decode_with LZ4 dataToDecompress compressedData = DecompressLZ4 dataToDecompress"
| "decode_with LZ4HC dataToDecompress compressedData = DecompressLZ4HC dataToDecompress"
| "decode_with AlgNone dataToDecompress compressedData = Some compressedData"
| "decode_with Gzip dataToDecompress compressedData = Some compressedData"
| "decode_with (Unnamed b) dataToDecompress compressedData = Some compressedData"

text \<open>
  The size field is read from the bytes 6 to 9 although only 8 bytes are checked for: with 8
  or 9 bytes the read is undefined.  The parameter \<open>algorithm\<close> is not used.
\<close>

definition Decompress ::
    "int \<Rightarrow> int \<Rightarrow> u8 list \<Rightarrow> CompressionAlgorithm \<Rightarrow> DataCompression
      \<Rightarrow> (u8 list \<times> DataCompression) option" where
  "Decompress t0 t1 compressedData algorithm s =
     (if \<not> dc_initialized s \<or> compressedData = [] then Some (compressedData, s)
      else if length compressedData < 8 then Some (compressedData, s)
      else if length compressedData < 10 then None
      else case decode_with (cast_algorithm (compressedData ! 0)) (drop 8 compressedData) compressedData of
        None \<Rightarrow> None
      | Some decompressedData \<Rightarrow>
          Some (decompressedData, s\<lparr>dc_stats := (dc_stats s)\<lparr>
            cs_compressionTime := add32 (cs_compressionTime (dc_stats s)) (seconds32 (t1 - t0)),
            cs_totalDecompressions := cs_totalDecompressions (dc_stats s) + 1\<rparr>\<rparr>))"

text \<open>A \<open>std::string\<close> is its bytes here.\<close>

definition CompressString ::
    "int \<Rightarrow> int \<Rightarrow> u8 list \<Rightarrow> CompressionAlgorithm \<Rightarrow> CompressionLevel \<Rightarrow> DataCompression
      \<Rightarrow> u8 list \<times> DataCompression" where
  "CompressString t0 t1 data algorithm level s = Compress t0 t1 data algorithm level s"

definition DecompressString ::
    "int \<Rightarrow> int \<Rightarrow> u8 list \<Rightarrow> CompressionAlgorithm \<Rightarrow> DataCompression
      \<Rightarrow> (u8 list \<times> DataCompression) option" where
  "DecompressString t0 t1 compressedData algorithm s = Decompress t0 t1 compressedData algorithm s"

definition DetectAlgorithm :: "u8 list \<Rightarrow> CompressionAlgorithm" where
  "DetectAlgorithm data = (if length data < 8 then AlgNone else cast_algorithm (data ! 0))"

definition IsDataCompressed :: "u8 list \<Rightarrow> bool" where
  "IsDataCompressed data \<longleftrightarrow> 8 \<le> length data \<and> data ! 0 < 10"

definition SmartCompress :: "int \<Rightarrow> int \<Rightarrow> u8 list \<Rightarrow> DataCompression \<Rightarrow> u8 list \<times> DataCompression" where
  "SmartCompress t0 t1 data s =
     (if \<not> dc_initialized s \<or> data = [] then (data, s)
      else Compress t0 t1 data (GetBestAlgorithm data) (dc_defaultLevel s) s)"

definition SmartDecompress ::
    "int \<Rightarrow> int \<Rightarrow> u8 list \<Rightarrow> DataCompression \<Rightarrow> (u8 list \<times> DataCompression) option" where
  "SmartDecompress t0 t1 compressedData s =
     (if \<not> dc_initialized s \<or> compressedData = [] then Some (compressedData, s)
      else Decompress t0 t1 compressedData (DetectAlgorithm compressedData) s)"

definition CompressPlayerData :: "int \<Rightarrow> int \<Rightarrow> u8 list \<Rightarrow> DataCompression \<Rightarrow> u8 list \<times> DataCompression" where
  "CompressPlayerData t0 t1 playerData s = Compress t0 t1 playerData LZ4 Fast s"

definition CompressWorldData :: "int \<Rightarrow> int \<Rightarrow> u8 list \<Rightarrow> DataCompression \<Rightarrow> u8 list \<times> DataCompression" where
  "CompressWorldData t0 t1 worldData s = Compress t0 t1 worldData LZ4HC High s"

definition CompressInventoryData :: "int \<Rightarrow> int \<Rightarrow> u8 list \<Rightarrow> DataCompression \<Rightarrow> u8 list \<times> DataCompression" where
  "CompressInventoryData t0 t1 inventoryData s = Compress t0 t1 inventoryData LZ4 Balanced s"

definition CompressCombatData :: "int \<Rightarrow> int \<Rightarrow> u8 list \<Rightarrow> DataCompression \<Rightarrow> u8 list \<times> DataCompression" where
  "CompressCombatData t0 t1 combatData s = Compress t0 t1 combatData LZ4 Fast s"

section \<open>Batches\<close>

definition frame :: "u8 list \<Rightarrow> u8 list" where
  "frame packet = le32 (of_nat (length packet)) @ packet"

definition CompressBatch ::
    "int \<Rightarrow> int \<Rightarrow> u8 list list \<Rightarrow> DataCompression \<Rightarrow> u8 list \<times> DataCompression" where
  "CompressBatch t0 t1 packets s =
     (if packets = [] then ([], s) else Compress t0 t1 (concat (map frame packets)) LZ4HC High s)"

text \<open>The loop of \<open>DecompressBatch\<close> from an offset on, on the bytes that are left.\<close>

function unframe :: "u8 list \<Rightarrow> u8 list list" where
  "unframe bs =
     (if bs = [] \<or> length bs < 4 then []
      else let packetSize = unat (read_le32 bs); rest = drop 4 bs
        in if length rest < packetSize then []
           else take packetSize rest # unframe (drop packetSize rest))"
  by pat_completeness auto
termination by (relation "measure length") auto

declare unframe.simps [simp del]

definition DecompressBatch ::
    "int \<Rightarrow> int \<Rightarrow> u8 list \<Rightarrow> DataCompression \<Rightarrow> (u8 list list \<times> DataCompression) option" where
  "DecompressBatch t0 t1 compressedBatch s =
     (case Decompress t0 t1 compressedBatch LZ4 s of
        None \<Rightarrow> None
      | Some (decompressedData, s') \<Rightarrow> Some (unframe decompressedData, s'))"

section \<open>Configuration\<close>

definition DC_GetStats :: "DataCompression \<Rightarrow> CompressionStats" where
  "DC_GetStats s = dc_stats s"

definition DC_ResetStats :: "DataCompression \<Rightarrow> DataCompression" where
  "DC_ResetStats s = s\<lparr>dc_stats := CompressionStats_new\<rparr>"

definition SetDefaultAlgorithm :: "CompressionAlgorithm \<Rightarrow> DataCompression \<Rightarrow> DataCompression" where
  "SetDefaultAlgorithm algorithm s = s\<lparr>dc_defaultAlgorithm := algorithm\<rparr>"

definition SetDefaultLevel :: "CompressionLevel \<Rightarrow> DataCompression \<Rightarrow> DataCompression" where
  "SetDefaultLevel level s = s\<lparr>dc_defaultLevel := level\<rparr>"

definition SetMinCompressionSize :: "u64 \<Rightarrow> DataCompression \<Rightarrow> DataCompression" where
  "SetMinCompressionSize minSize s = s\<lparr>dc_minCompressionSize := minSize\<rparr>"

definition SetMaxCompressionTime :: "flt \<Rightarrow> DataCompression \<Rightarrow> DataCompression" where
  "SetMaxCompressionTime maxTime s = s\<lparr>dc_maxCompressionTime := maxTime\<rparr>"

section \<open>Helpers for game data\<close>

definition QuickCompress :: "int \<Rightarrow> int \<Rightarrow> u8 list \<Rightarrow> DataCompression \<Rightarrow> u8 list \<times> DataCompression" where
  "QuickCompress t0 t1 data s = Compress t0 t1 data LZ4 Fast s"

definition QuickDecompress ::
    "int \<Rightarrow> int \<Rightarrow> u8 list \<Rightarrow> DataCompression \<Rightarrow> (u8 list \<times> DataCompression) option" where
  "QuickDecompress t0 t1 compressedData s = Decompress t0 t1 compressedData LZ4 s"

definition HighCompress :: "int \<Rightarrow> int \<Rightarrow> u8 list \<Rightarrow> DataCompression \<Rightarrow> u8 list \<times> DataCompression" where
  "HighCompress t0 t1 data s = Compress t0 t1 data LZ4HC Maximum s"

definition HighDecompress ::
    "int \<Rightarrow> int \<Rightarrow> u8 list \<Rightarrow> DataCompression \<Rightarrow> (u8 list \<times> DataCompression) option" where
  "HighDecompress t0 t1 compressedData s = Decompress t0 t1 compressedData LZ4HC s"

text \<open>Floats as bit patterns, laid out one after the other.\<close>

definition CompressHealthData :: "int \<Rightarrow> int \<Rightarrow> u32 list \<Rightarrow> DataCompression \<Rightarrow> u8 list \<times> DataCompression" where
  "CompressHealthData t0 t1 healthValues s = QuickCompress t0 t1 (concat (map le32 healthValues)) s"

definition floats_of :: "u8 list \<Rightarrow> u32 list" where
  "floats_of bs = map (\<lambda>i. read_le32 (drop (4 * i) bs)) [0 ..< length bs div 4]"

definition DecompressHealthData ::
    "int \<Rightarrow> int \<Rightarrow> u8 list \<Rightarrow> DataCompression \<Rightarrow> (u32 list \<times> DataCompression) option" where
  "DecompressHealthData t0 t1 compressedData s =
     map_option (\<lambda>(bs, s'). (floats_of bs, s')) (QuickDecompress t0 t1 compressedData s)"

record Vector4F =
  v_x :: u32
  v_y :: u32
  v_z :: u32
  v_w :: u32

definition vector_bytes :: "Vector4F \<Rightarrow> u8 list" where
  "vector_bytes v = le32 (v_x v) @ le32 (v_y v) @ le32 (v_z v) @ le32 (v_w v)"

definition CompressPositionData :: "int \<Rightarrow> int \<Rightarrow> Vector4F list \<Rightarrow> DataCompression \<Rightarrow> u8 list \<times> DataCompression" where
  "CompressPositionData t0 t1 positions s = QuickCompress t0 t1 (concat (map vector_bytes positions)) s"

definition vectors_of :: "u8 list \<Rightarrow> Vector4F list" where
  "vectors_of bs = map (\<lambda>i. let b = drop (16 * i) bs
     in \<lparr>v_x = read_le32 b, v_y = read_le32 (drop 4 b), v_z = read_le32 (drop 8 b), v_w = read_le32 (drop 12 b)\<rparr>)
     [0 ..< length bs div 16]"

definition DecompressPositionData ::
    "int \<Rightarrow> int \<Rightarrow> u8 list \<Rightarrow> DataCompression \<Rightarrow> (Vector4F list \<times> DataCompression) option" where
  "DecompressPositionData t0 t1 compressedData s =
     map_option (\<lambda>(bs, s'). (vectors_of bs, s')) (QuickDecompress t0 t1 compressedData s)"

definition xor_bytes :: "u8 list \<Rightarrow> u8 list \<Rightarrow> u8 list" where
  "xor_bytes a b = map2 (XOR) a b"

definition CompressDelta :: "int \<Rightarrow> int \<Rightarrow> u8 list \<Rightarrow> u8 list \<Rightarrow> DataCompression \<Rightarrow> u8 list \<times> DataCompression" where
  "CompressDelta t0 t1 current previous s =
     (if length current \<noteq> length previous then (current, s)
      else QuickCompress t0 t1 (xor_bytes current previous) s)"

definition DecompressDelta ::
    "int \<Rightarrow> int \<Rightarrow> u8 list \<Rightarrow> u8 list \<Rightarrow> DataCompression \<Rightarrow> (u8 list \<times> DataCompression) option" where
  "DecompressDelta t0 t1 delta previous s =
     (case QuickDecompress t0 t1 delta s of
        None \<Rightarrow> None
      | Some (decompressedDelta, s') \<Rightarrow>
          if length decompressedDelta \<noteq> length previous then Some (previous, s')
          else Some (xor_bytes decompressedDelta previous, s'))"

end
