(* ===== verification/Wire.thy ===== *)
theory Wire
  imports Compression
begin

text \<open>
  Values inside messages and action data: a \<open>Vector4F\<close> read back from its bytes, and the 32-bit
  pattern of a computed \<open>float\<close>.
\<close>

section \<open>Vectors\<close>

definition read_vector :: "u8 list \<Rightarrow> Vector4F" where
  "read_vector b =
     \<lparr>v_x = read_le32 b, v_y = read_le32 (drop 4 b), v_z = read_le32 (drop 8 b), v_w = read_le32 (drop 12 b)\<rparr>"

lemma length_vector_bytes [simp]: "length (vector_bytes v) = 16"
  by (simp add: vector_bytes_def)

lemma read_vector_bytes [simp]: "read_vector (vector_bytes v @ rest) = v"
  by (simp add: read_vector_def vector_bytes_def)

lemma read_vector_bytes_alone [simp]: "read_vector (vector_bytes v) = v"
  using read_vector_bytes [of v "[]"] by simp

definition zero_vector :: Vector4F where
  "zero_vector = \<lparr>v_x = 0, v_y = 0, v_z = 0, v_w = 0\<rparr>"

text \<open>\<open>== 0\<close> on the pattern of a float: plus or minus zero.\<close>

definition is_zero :: "u32 \<Rightarrow> bool" where
  "is_zero b \<longleftrightarrow> b = 0 \<or> b = 0x80000000"

definition vector_null :: "Vector4F \<Rightarrow> bool" where
  "vector_null v \<longleftrightarrow> is_zero (v_x v) \<and> is_zero (v_y v) \<and> is_zero (v_z v) \<and> is_zero (v_w v)"

section \<open>Patterns of floats\<close>

text \<open>The exponent of a positive normal number, searched upwards.\<close>

definition exponent_of :: "rat \<Rightarrow> nat" where
  "exponent_of q = (case find (\<lambda>e. q * 2 ^ 126 < 2 ^ (e + 1)) [0 ..< 254] of Some e \<Rightarrow> e | None \<Rightarrow> 253)"

definition positive_bits :: "rat \<Rightarrow> int" where
  "positive_bits q =
     (if q < 1 / 2 ^ 126 then \<lfloor>q * 2 ^ 149\<rfloor>
      else let e = exponent_of q in int e * 2 ^ 23 + \<lfloor>q * 2 ^ 149 / 2 ^ e\<rfloor>)"

fun bits32 :: "flt \<Rightarrow> u32" where
  "bits32 (Fin q) =
     (if q < 0 then 0x80000000 + of_int (positive_bits (- q)) else of_int (positive_bits q))"
| "bits32 PInf = 0x7F800000"
| "bits32 NInf = 0xFF800000"
| "bits32 NaN = 0x7FC00000"

definition bool_byte :: "bool \<Rightarrow> u8" where
  "bool_byte b = (if b then 1 else 0)"

end
