(* ===== verification/Combat.thy ===== *)
theory Combat
  imports Wire
begin

text \<open>
  \<open>optimization/CombatOptimizer.cpp\<close>: four queues of combat actions by priority, filled by the
  players' actions and emptied in batches towards the game (\<open>REDkitBridge\<close>, a log of calls here).

  \<open>m_queueMutex\<close> is a \<open>std::mutex\<close>, which its owner must not lock again: whether it is held is part
  of the state, and locking it twice is \<open>None\<close>.  \<open>ClearAllQueues\<close> is declared without a body and a
  parameter.  A \<open>Vector4F\<close> is its four bit patterns, as in the compression service.
\<close>

section \<open>Data\<close>

datatype CombatActionType = Attack | Defense | Sign | Movement | Animation

datatype CombatPriority = Critical | High | Medium | Low

record CombatAction =
  ca_id :: u32
  ca_playerId :: u32
  ca_type :: CombatActionType
  ca_priority :: CombatPriority
  ca_timestamp :: time_point
  ca_data :: "u8 list"
  ca_processed :: bool

definition CombatAction_new :: CombatAction where
  "CombatAction_new = \<lparr>ca_id = 0, ca_playerId = 0, ca_type = Attack, ca_priority = Medium,
     ca_timestamp = 0, ca_data = [], ca_processed = False\<rparr>"

record CombatStats =
  ct_totalActions :: u64
  ct_processedActions :: u64
  ct_droppedActions :: u64
  ct_averageProcessingTime :: u64
  ct_peakProcessingTime :: u64

definition CombatStats_new :: CombatStats where
  "CombatStats_new = \<lparr>ct_totalActions = 0, ct_processedActions = 0, ct_droppedActions = 0,
     ct_averageProcessingTime = 0, ct_peakProcessingTime = 0\<rparr>"

datatype BridgeCall =
    ExecuteAttack u32 u32 u32 Vector4F
  | ExecuteDefense u32 u32 u32
  | CastSign u32 u32 Vector4F
  | PlayAttackAnimation u32 u32
  | PlayDefenseAnimation u32 u32

record CombatOptimizer =
  cb_criticalQueue :: "CombatAction list"
  cb_highQueue :: "CombatAction list"
  cb_mediumQueue :: "CombatAction list"
  cb_lowQueue :: "CombatAction list"
  cb_processing :: bool
  cb_initialized :: bool
  cb_queueLocked :: bool
  cb_stats :: CombatStats
  cb_maxQueueSize :: u32
  cb_batchSize :: u32
  cb_maxProcessingTime :: u32
  cb_actionIdCounter :: u32
  cb_lastProcessTime :: time_point
  cb_processingTimes :: "u64 list"
  cb_calls :: "BridgeCall list"

definition CombatOptimizer_new :: "time_point \<Rightarrow> CombatOptimizer" where
  "CombatOptimizer_new now =
     \<lparr>cb_criticalQueue = [], cb_highQueue = [], cb_mediumQueue = [], cb_lowQueue = [], cb_processing = False,
      cb_initialized = False, cb_queueLocked = False, cb_stats = CombatStats_new, cb_maxQueueSize = 1000,
      cb_batchSize = 50, cb_maxProcessingTime = 16, cb_actionIdCounter = 1, cb_lastProcessTime = now,
      cb_processingTimes = [], cb_calls = []\<rparr>"

definition Combat_Initialize :: "u32 \<Rightarrow> u32 \<Rightarrow> u32 \<Rightarrow> CombatOptimizer \<Rightarrow> bool \<times> CombatOptimizer" where
  "Combat_Initialize maxQueueSize batchSize maxProcessingTime s =
     (if cb_initialized s then (True, s)
      else (True, s\<lparr>cb_maxQueueSize := maxQueueSize, cb_batchSize := batchSize,
                    cb_maxProcessingTime := maxProcessingTime, cb_initialized := True\<rparr>))"

definition Combat_Shutdown ::
    "(CombatOptimizer \<Rightarrow> CombatOptimizer) \<Rightarrow> CombatOptimizer \<Rightarrow> bool \<times> CombatOptimizer" where
  "Combat_Shutdown clearAll s =
     (if \<not> cb_initialized s then (True, s)
      else (True, (clearAll (s\<lparr>cb_processing := False\<rparr>))\<lparr>cb_initialized := False\<rparr>))"

section \<open>Adding actions\<close>

text \<open>A \<open>lock_guard\<close> on \<open>m_queueMutex\<close> around a block.\<close>

definition with_queue_lock ::
    "(CombatOptimizer \<Rightarrow> ('a \<times> CombatOptimizer) option) \<Rightarrow> CombatOptimizer \<Rightarrow> ('a \<times> CombatOptimizer) option" where
  "with_queue_lock f s =
     (if cb_queueLocked s then None
      else map_option (\<lambda>(r, t). (r, t\<lparr>cb_queueLocked := False\<rparr>)) (f (s\<lparr>cb_queueLocked := True\<rparr>)))"

definition queue_of :: "CombatPriority \<Rightarrow> CombatOptimizer \<Rightarrow> CombatAction list" where
  "queue_of p s =
     (case p of Critical \<Rightarrow> cb_criticalQueue s | High \<Rightarrow> cb_highQueue s
      | Medium \<Rightarrow> cb_mediumQueue s | Low \<Rightarrow> cb_lowQueue s)"

definition set_queue :: "CombatPriority \<Rightarrow> CombatAction list \<Rightarrow> CombatOptimizer \<Rightarrow> CombatOptimizer" where
  "set_queue p q s =
     (case p of Critical \<Rightarrow> s\<lparr>cb_criticalQueue := q\<rparr> | High \<Rightarrow> s\<lparr>cb_highQueue := q\<rparr>
      | Medium \<Rightarrow> s\<lparr>cb_mediumQueue := q\<rparr> | Low \<Rightarrow> s\<lparr>cb_lowQueue := q\<rparr>)"

definition total_size :: "CombatOptimizer \<Rightarrow> nat" where
  "total_size s = length (cb_criticalQueue s) + length (cb_highQueue s) + length (cb_mediumQueue s) + length (cb_lowQueue s)"

definition GetQueueSize :: "CombatPriority \<Rightarrow> CombatOptimizer \<Rightarrow> (nat \<times> CombatOptimizer) option" where
  "GetQueueSize p = with_queue_lock (\<lambda>s. Some (length (queue_of p s), s))"

definition GetTotalQueueSize :: "CombatOptimizer \<Rightarrow> (nat \<times> CombatOptimizer) option" where
  "GetTotalQueueSize = with_queue_lock (\<lambda>s. Some (total_size s, s))"

text \<open>\<open>totalSize > m_maxQueueSize * f\<close> in \<open>double\<close>.\<close>

definition fuller_than :: "rat \<Rightarrow> CombatOptimizer \<Rightarrow> nat \<Rightarrow> bool" where
  "fuller_than f s totalSize \<longleftrightarrow>
     f_lt (mul64 (Fin (of_nat (unat (cb_maxQueueSize s)))) (rnd64 f)) (rnd64 (of_nat totalSize))"

definition ShouldDropAction :: "CombatPriority \<Rightarrow> CombatOptimizer \<Rightarrow> (bool \<times> CombatOptimizer) option" where
  "ShouldDropAction p s =
     map_option (\<lambda>(totalSize, s1).
        (p = Low \<and> fuller_than (4 / 5) s totalSize \<or> p = Medium \<and> fuller_than (9 / 10) s totalSize, s1))
       (GetTotalQueueSize s)"

definition queue_limit :: "CombatPriority \<Rightarrow> CombatOptimizer \<Rightarrow> nat" where
  "queue_limit p s = unat (if p = Medium then cb_maxQueueSize s div 2 else cb_maxQueueSize s div 4)"

definition count_dropped :: "CombatOptimizer \<Rightarrow> CombatOptimizer" where
  "count_dropped s = s\<lparr>cb_stats := (cb_stats s)\<lparr>ct_droppedActions := ct_droppedActions (cb_stats s) + 1\<rparr>\<rparr>"

text \<open>The \<open>switch\<close> of \<open>AddAction\<close> and the counter behind it.\<close>

definition enqueue :: "CombatAction \<Rightarrow> CombatOptimizer \<Rightarrow> bool \<times> CombatOptimizer" where
  "enqueue action s =
     (let p = ca_priority action
      in if length (queue_of p s) < queue_limit p s then
           (True, (set_queue p (queue_of p s @ [action]) s)
              \<lparr>cb_stats := (cb_stats s)\<lparr>ct_totalActions := ct_totalActions (cb_stats s) + 1\<rparr>\<rparr>)
         else (False, count_dropped s))"

definition AddAction :: "CombatAction \<Rightarrow> CombatOptimizer \<Rightarrow> (bool \<times> CombatOptimizer) option" where
  "AddAction action s =
     (if \<not> cb_initialized s then Some (False, s)
      else with_queue_lock (\<lambda>s1.
        case ShouldDropAction (ca_priority action) s1 of
          None \<Rightarrow> None
        | Some (drops, s2) \<Rightarrow> Some (if drops then (False, count_dropped s2) else enqueue action s2)) s)"

definition DeterminePriority :: "CombatActionType \<Rightarrow> u32 \<Rightarrow> CombatPriority" where
  "DeterminePriority type playerId =
     (case type of Attack \<Rightarrow> High | Defense \<Rightarrow> Critical | Sign \<Rightarrow> High | Movement \<Rightarrow> Low | Animation \<Rightarrow> Medium)"

definition GenerateActionId :: "CombatOptimizer \<Rightarrow> u32 \<times> CombatOptimizer" where
  "GenerateActionId s = (cb_actionIdCounter s, s\<lparr>cb_actionIdCounter := cb_actionIdCounter s + 1\<rparr>)"

text \<open>What the five overloads share: a new action of a type with its data.\<close>

definition add_typed ::
    "CombatActionType \<Rightarrow> time_point \<Rightarrow> u32 \<Rightarrow> u8 list \<Rightarrow> CombatOptimizer \<Rightarrow> (bool \<times> CombatOptimizer) option" where
  "add_typed type now playerId data s =
     (let (ident, s1) = GenerateActionId s
      in AddAction (CombatAction_new\<lparr>ca_id := ident, ca_playerId := playerId, ca_type := type,
           ca_priority := DeterminePriority type playerId, ca_timestamp := now, ca_processed := False,
           ca_data := data\<rparr>) s1)"

definition attack_data :: "u32 \<Rightarrow> u32 \<Rightarrow> Vector4F \<Rightarrow> u8 list" where
  "attack_data attackType weaponType target = le32 attackType @ le32 weaponType @ vector_bytes target @ le32 0"

definition AddAttackAction ::
    "time_point \<Rightarrow> u32 \<Rightarrow> u32 \<Rightarrow> u32 \<Rightarrow> Vector4F \<Rightarrow> CombatOptimizer \<Rightarrow> (bool \<times> CombatOptimizer) option" where
  "AddAttackAction now playerId attackType weaponType target =
     add_typed Attack now playerId (attack_data attackType weaponType target)"

definition defense_data :: "u32 \<Rightarrow> u32 \<Rightarrow> u8 list" where
  "defense_data defenseType incomingAttackId = le32 defenseType @ le32 incomingAttackId"

definition AddDefenseAction ::
    "time_point \<Rightarrow> u32 \<Rightarrow> u32 \<Rightarrow> u32 \<Rightarrow> CombatOptimizer \<Rightarrow> (bool \<times> CombatOptimizer) option" where
  "AddDefenseAction now playerId defenseType incomingAttackId =
     add_typed Defense now playerId (defense_data defenseType incomingAttackId)"

definition sign_data :: "u32 \<Rightarrow> Vector4F \<Rightarrow> u8 list" where
  "sign_data signType target = le32 signType @ vector_bytes target"

definition AddSignAction ::
    "time_point \<Rightarrow> u32 \<Rightarrow> u32 \<Rightarrow> Vector4F \<Rightarrow> CombatOptimizer \<Rightarrow> (bool \<times> CombatOptimizer) option" where
  "AddSignAction now playerId signType target = add_typed Sign now playerId (sign_data signType target)"

definition AddMovementAction ::
    "time_point \<Rightarrow> u32 \<Rightarrow> Vector4F \<Rightarrow> Vector4F \<Rightarrow> CombatOptimizer \<Rightarrow> (bool \<times> CombatOptimizer) option" where
  "AddMovementAction now playerId position velocity =
     add_typed Movement now playerId (vector_bytes position @ vector_bytes velocity)"

definition animation_data :: "u32 \<Rightarrow> bool \<Rightarrow> u8 list" where
  "animation_data animationType isAttack = le32 animationType @ [if isAttack then 1 else 0]"

definition AddAnimationAction ::
    "time_point \<Rightarrow> u32 \<Rightarrow> u32 \<Rightarrow> bool \<Rightarrow> CombatOptimizer \<Rightarrow> (bool \<times> CombatOptimizer) option" where
  "AddAnimationAction now playerId animationType isAttack =
     add_typed Animation now playerId (animation_data animationType isAttack)"

section \<open>Processing actions\<close>

text \<open>
  The calls of \<open>ProcessAction\<close>: none for data that are too short, and none for a movement.  Reading
  a \<open>bool\<close> that is neither 0 nor 1 is undefined.
\<close>

definition action_calls :: "CombatAction \<Rightarrow> BridgeCall list option" where
  "action_calls action =
     (let d = ca_data action; p = ca_playerId action
      in case ca_type action of
        Attack \<Rightarrow> Some (if 28 \<le> length d
          then [ExecuteAttack p (read_le32 d) (read_le32 (drop 4 d)) (read_vector (drop 8 d))] else [])
      | Defense \<Rightarrow> Some (if 8 \<le> length d then [ExecuteDefense p (read_le32 d) (read_le32 (drop 4 d))] else [])
      | Sign \<Rightarrow> Some (if 20 \<le> length d then [CastSign p (read_le32 d) (read_vector (drop 4 d))] else [])
      | Movement \<Rightarrow> Some []
      | Animation \<Rightarrow>
          if 5 \<le> length d then
            (if d ! 4 = 1 then Some [PlayAttackAnimation p (read_le32 d)]
             else if d ! 4 = 0 then Some [PlayDefenseAnimation p (read_le32 d)] else None)
          else Some [])"

definition Combat_ProcessAction :: "CombatAction \<Rightarrow> CombatOptimizer \<Rightarrow> CombatOptimizer option" where
  "Combat_ProcessAction action s =
     map_option (\<lambda>calls. s\<lparr>cb_calls := cb_calls s @ calls,
        cb_stats := (cb_stats s)\<lparr>ct_processedActions := ct_processedActions (cb_stats s) + 1\<rparr>\<rparr>) (action_calls action)"

definition process_unless_done :: "CombatAction \<Rightarrow> CombatOptimizer \<Rightarrow> CombatOptimizer option" where
  "process_unless_done action s = (if ca_processed action then Some s else Combat_ProcessAction action s)"

definition ProcessActionQueue :: "CombatPriority \<Rightarrow> CombatOptimizer \<Rightarrow> CombatOptimizer option" where
  "ProcessActionQueue p s =
     (let q = queue_of p s; batchSize = min (unat (cb_batchSize s)) (length q)
      in if q = [] then Some s
         else map_option (set_queue p (drop batchSize q)) (run process_unless_done (take batchSize q) s))"

definition CleanupOldActions :: "time_point \<Rightarrow> CombatOptimizer \<Rightarrow> (unit \<times> CombatOptimizer) option" where
  "CleanupOldActions now =
     with_queue_lock (\<lambda>s.
       let keep = filter (\<lambda>a. \<not> 5000000000 < now - ca_timestamp a)
       in Some ((), s\<lparr>cb_criticalQueue := keep (cb_criticalQueue s), cb_highQueue := keep (cb_highQueue s),
                      cb_mediumQueue := keep (cb_mediumQueue s), cb_lowQueue := keep (cb_lowQueue s)\<rparr>))"

text \<open>The last 100 processing times; their sum wraps.\<close>

definition UpdateStatistics :: "u64 \<Rightarrow> CombatOptimizer \<Rightarrow> CombatOptimizer" where
  "UpdateStatistics processingTime s =
     (let times = cb_processingTimes s @ [processingTime];
          times' = (if 100 < length times then tl times else times);
          st = cb_stats s
      in s\<lparr>cb_processingTimes := times',
           cb_stats := st\<lparr>ct_averageProcessingTime := sum_list times' div of_nat (length times'),
                          ct_peakProcessingTime := max (ct_peakProcessingTime st) processingTime\<rparr>\<rparr>)"

text \<open>The three readings of the clock: at the start, for the cleanup, at the end.\<close>

definition ProcessActions ::
    "time_point \<Rightarrow> time_point \<Rightarrow> time_point \<Rightarrow> CombatOptimizer \<Rightarrow> (bool \<times> CombatOptimizer) option" where
  "ProcessActions startTime now endTime s =
     (if \<not> cb_initialized s \<or> cb_processing s then Some (False, s)
      else
        case run ProcessActionQueue [Critical, High, Medium, Low] (s\<lparr>cb_processing := True\<rparr>) of
          None \<Rightarrow> None
        | Some s1 \<Rightarrow>
            map_option (\<lambda>(u, s2).
              (True, (UpdateStatistics (of_int ((endTime - startTime) div 1000000)) s2)\<lparr>cb_processing := False\<rparr>))
              (CleanupOldActions now s1))"

section \<open>Queries\<close>

definition Combat_GetStatistics :: "CombatOptimizer \<Rightarrow> CombatStats" where
  "Combat_GetStatistics s = cb_stats s"

definition Combat_ResetStatistics :: "CombatOptimizer \<Rightarrow> CombatOptimizer" where
  "Combat_ResetStatistics s = s\<lparr>cb_stats := CombatStats_new, cb_processingTimes := []\<rparr>"

definition IsOverloaded :: "CombatOptimizer \<Rightarrow> (bool \<times> CombatOptimizer) option" where
  "IsOverloaded s = map_option (\<lambda>(n, t). (fuller_than (4 / 5) s n, t)) (GetTotalQueueSize s)"

definition GetProcessingLoad :: "CombatOptimizer \<Rightarrow> (flt \<times> CombatOptimizer) option" where
  "GetProcessingLoad s =
     map_option (\<lambda>(n, t). (div32 (f32_of_nat n) (f32_of_u32 (cb_maxQueueSize s)), t)) (GetTotalQueueSize s)"

definition GetAverageProcessingTime :: "CombatOptimizer \<Rightarrow> u64" where
  "GetAverageProcessingTime s = ct_averageProcessingTime (cb_stats s)"

definition GetPeakProcessingTime :: "CombatOptimizer \<Rightarrow> u64" where
  "GetPeakProcessingTime s = ct_peakProcessingTime (cb_stats s)"

definition Combat_IsInitialized :: "CombatOptimizer \<Rightarrow> bool" where
  "Combat_IsInitialized s = cb_initialized s"

section \<open>CombatActionBuilder\<close>

definition CombatActionBuilder_new :: "time_point \<Rightarrow> CombatAction" where
  "CombatActionBuilder_new now = CombatAction_new\<lparr>ca_timestamp := now\<rparr>"

definition SetPlayerId :: "u32 \<Rightarrow> CombatAction \<Rightarrow> CombatAction" where "SetPlayerId k b = b\<lparr>ca_playerId := k\<rparr>"
definition SetType :: "CombatActionType \<Rightarrow> CombatAction \<Rightarrow> CombatAction" where "SetType t b = b\<lparr>ca_type := t\<rparr>"
definition SetPriority :: "CombatPriority \<Rightarrow> CombatAction \<Rightarrow> CombatAction" where "SetPriority p b = b\<lparr>ca_priority := p\<rparr>"
definition SetData :: "u8 list \<Rightarrow> CombatAction \<Rightarrow> CombatAction" where "SetData d b = b\<lparr>ca_data := d\<rparr>"
definition SetTimestamp :: "time_point \<Rightarrow> CombatAction \<Rightarrow> CombatAction" where "SetTimestamp t b = b\<lparr>ca_timestamp := t\<rparr>"

definition Build :: "CombatAction \<Rightarrow> CombatOptimizer \<Rightarrow> CombatAction \<times> CombatOptimizer" where
  "Build b s = (let (ident, s1) = GenerateActionId s in (b\<lparr>ca_id := ident\<rparr>, s1))"

definition Submit :: "CombatAction \<Rightarrow> CombatOptimizer \<Rightarrow> (bool \<times> CombatOptimizer) option" where
  "Submit b s = (let (action, s1) = Build b s in AddAction action s1)"

section \<open>Operations\<close>

datatype CombatOp =
    CbInitialize u32 u32 u32
  | CbShutdown
  | CbAdd CombatAction
  | CbAttack time_point u32 u32 u32 Vector4F
  | CbDefense time_point u32 u32 u32
  | CbSign time_point u32 u32 Vector4F
  | CbMovement time_point u32 Vector4F Vector4F
  | CbAnimation time_point u32 u32 bool
  | CbSubmit CombatAction
  | CbProcess time_point time_point time_point
  | CbResetStatistics

fun combat_step ::
    "(CombatOptimizer \<Rightarrow> CombatOptimizer) \<Rightarrow> CombatOp \<Rightarrow> CombatOptimizer \<Rightarrow> CombatOptimizer option" where
  "combat_step clearAll (CbInitialize a b c) s = Some (snd (Combat_Initialize a b c s))"
| "combat_step clearAll CbShutdown s = Some (snd (Combat_Shutdown clearAll s))"
| "combat_step clearAll (CbAdd a) s = map_option snd (AddAction a s)"
| "combat_step clearAll (CbAttack t p a w v) s = map_option snd (AddAttackAction t p a w v s)"
| "combat_step clearAll (CbDefense t p d i) s = map_option snd (AddDefenseAction t p d i s)"
| "combat_step clearAll (CbSign t p g v) s = map_option snd (AddSignAction t p g v s)"
| "combat_step clearAll (CbMovement t p v w) s = map_option snd (AddMovementAction t p v w s)"
| "combat_step clearAll (CbAnimation t p a b) s = map_option snd (AddAnimationAction t p a b s)"
| "combat_step clearAll (CbSubmit b) s = map_option snd (Submit b s)"
| "combat_step clearAll (CbProcess t0 t1 t2) s = map_option snd (ProcessActions t0 t1 t2 s)"
| "combat_step clearAll CbResetStatistics s = Some (Combat_ResetStatistics s)"

end
