(* ===== verification/CombatProps.thy ===== *)
theory CombatProps
  imports Combat
begin

text \<open>
  What the combat optimiser guarantees: a queued action is executed with the values it was built
  from, in the order of the priorities; and no action is ever queued.
\<close>

section \<open>The lock\<close>

definition clears_queues :: "(CombatOptimizer \<Rightarrow> CombatOptimizer) \<Rightarrow> bool" where
  "clears_queues clearAll \<longleftrightarrow>
     (\<forall>s. clearAll s = s\<lparr>cb_criticalQueue := [], cb_highQueue := [], cb_mediumQueue := [], cb_lowQueue := []\<rparr>)"

definition idle :: "CombatOptimizer \<Rightarrow> bool" where
  "idle s \<longleftrightarrow> (\<forall>p. queue_of p s = []) \<and> cb_calls s = [] \<and> \<not> cb_queueLocked s \<and>
     ct_totalActions (cb_stats s) = 0 \<and> ct_processedActions (cb_stats s) = 0"

lemmas combat_adders =
  AddAttackAction_def AddDefenseAction_def AddSignAction_def AddMovementAction_def AddAnimationAction_def
  add_typed_def GenerateActionId_def Submit_def Build_def

lemma all_priorities: "(\<forall>p. P p) \<longleftrightarrow> P Critical \<and> P High \<and> P Medium \<and> P Low"
  by (metis CombatPriority.exhaust)

lemma AddAction_cases: "AddAction a s = (if cb_initialized s then None else Some (False, s))"
  by (simp add: AddAction_def with_queue_lock_def ShouldDropAction_def GetTotalQueueSize_def)

lemma ProcessActionQueue_empty: "queue_of p s = [] \<Longrightarrow> ProcessActionQueue p s = Some s"
  by (simp add: ProcessActionQueue_def)

lemma idle_ProcessActions:
  assumes "idle s" "ProcessActions t0 t1 t2 s = Some (r, t)"
  shows "idle t"
proof -
  have q: "\<And>p. queue_of p (s\<lparr>cb_processing := True\<rparr>) = []"
    using assms(1) by (simp add: idle_def queue_of_def split: CombatPriority.splits)
  have "run ProcessActionQueue [Critical, High, Medium, Low] (s\<lparr>cb_processing := True\<rparr>) = Some (s\<lparr>cb_processing := True\<rparr>)"
    by (simp add: ProcessActionQueue_empty q)
  then show ?thesis using assms
    by (auto simp: ProcessActions_def CleanupOldActions_def with_queue_lock_def idle_def
        all_priorities queue_of_def UpdateStatistics_def Let_def split: if_splits simp del: run.simps)
qed

lemma idle_step: "clears_queues clearAll \<Longrightarrow> idle s \<Longrightarrow> combat_step clearAll op s = Some t \<Longrightarrow> idle t"
proof (cases op)
  case (CbProcess t0 t1 t2)
  then show "idle s \<Longrightarrow> combat_step clearAll op s = Some t \<Longrightarrow> idle t" by (auto dest: idle_ProcessActions)
qed (auto simp: combat_adders AddAction_cases Combat_Initialize_def Combat_Shutdown_def Combat_ResetStatistics_def
       CombatStats_new_def clears_queues_def idle_def all_priorities queue_of_def Let_def split: if_splits)

interpretation unused: step_system "combat_step clearAll" idle "\<lambda>op. clears_queues clearAll" for clearAll
  by unfold_locales (blast intro: idle_step)

lemma idle_new: "idle (CombatOptimizer_new now)"
  by (simp add: idle_def all_priorities queue_of_def CombatOptimizer_new_def CombatStats_new_def)

text \<open>
  \<open>AddAction\<close> of an initialised optimiser locks the mutex of the queues a second time, which is
  undefined (a deadlock); before the initialisation it refuses.  So after any operations that return,
  with a \<open>ClearAllQueues\<close> that clears the queues, no action was ever queued and the game was never
  called.
\<close>

lemma adding_an_action_deadlocks:
  assumes "clears_queues clearAll" "run (combat_step clearAll) ops (CombatOptimizer_new now) = Some t"
  shows "AddAction a s = (if cb_initialized s then None else Some (False, s)) \<and>
     queue_of p t = [] \<and> cb_calls t = [] \<and> ct_totalActions (cb_stats t) = 0"
proof -
  have "idle t" using assms by (intro unused.run_inv [OF idle_new, where clearAll = clearAll]) (simp_all add: list_all_iff)
  then show ?thesis by (simp add: idle_def AddAction_cases)
qed

lemma adding_an_action_deadlocks_witness:
  "let s = snd (Combat_Initialize 1000 50 16 (CombatOptimizer_new 0))
   in AddAction CombatAction_new s = None \<and> queue_of High s = []"
proof -
  let ?clear = "\<lambda>s. s\<lparr>cb_criticalQueue := [], cb_highQueue := [], cb_mediumQueue := [], cb_lowQueue := []\<rparr>"
  let ?s = "snd (Combat_Initialize 1000 50 16 (CombatOptimizer_new 0))"
  have c: "clears_queues ?clear" by (simp add: clears_queues_def)
  have r: "run (combat_step ?clear) [CbInitialize 1000 50 16] (CombatOptimizer_new 0) = Some ?s" by simp
  have "cb_initialized ?s" by (simp add: Combat_Initialize_def CombatOptimizer_new_def)
  then show ?thesis
    using adding_an_action_deadlocks [OF c r, of CombatAction_new ?s High] by (simp add: Let_def)
qed

section \<open>Data of actions\<close>

text \<open>The data of the typed actions hold what the game is called with.\<close>

lemma typed_action_calls:
  "action_calls a =
     (case ca_type a of
        Attack \<Rightarrow> Some [ExecuteAttack (ca_playerId a) attackType weaponType target]
      | Defense \<Rightarrow> Some [ExecuteDefense (ca_playerId a) defenseType attackId]
      | Sign \<Rightarrow> Some [CastSign (ca_playerId a) signType target]
      | Movement \<Rightarrow> Some []
      | Animation \<Rightarrow> Some [if isAttack then PlayAttackAnimation (ca_playerId a) animationType
                           else PlayDefenseAnimation (ca_playerId a) animationType])"
  if "ca_data a =
     (case ca_type a of
        Attack \<Rightarrow> attack_data attackType weaponType target
      | Defense \<Rightarrow> defense_data defenseType attackId
      | Sign \<Rightarrow> sign_data signType target
      | Movement \<Rightarrow> vector_bytes position @ vector_bytes velocity
      | Animation \<Rightarrow> animation_data animationType isAttack)"
  using that
  by (cases "ca_type a")
    (simp_all add: action_calls_def attack_data_def defense_data_def sign_data_def animation_data_def nth_append Let_def)

section \<open>Batches\<close>

lemma queue_of_set_queue [simp]: "queue_of p (set_queue r q s) = (if p = r then q else queue_of p s)"
  by (simp add: queue_of_def set_queue_def split: CombatPriority.splits)

lemma set_queue_simps [simp]:
  "cb_calls (set_queue p q s) = cb_calls s" "cb_stats (set_queue p q s) = cb_stats s"
  "cb_batchSize (set_queue p q s) = cb_batchSize s" "cb_queueLocked (set_queue p q s) = cb_queueLocked s"
  by (simp_all add: set_queue_def split: CombatPriority.splits)

text \<open>Executing some actions appends their calls and counts them.\<close>

definition executed :: "BridgeCall list \<Rightarrow> nat \<Rightarrow> CombatOptimizer \<Rightarrow> CombatOptimizer" where
  "executed calls n s = s\<lparr>cb_calls := cb_calls s @ calls,
     cb_stats := (cb_stats s)\<lparr>ct_processedActions := ct_processedActions (cb_stats s) + of_nat n\<rparr>\<rparr>"

lemma executed_simps [simp]:
  "cb_calls (executed c n s) = cb_calls s @ c" "queue_of p (executed c n s) = queue_of p s"
  "ct_processedActions (cb_stats (executed c n s)) = ct_processedActions (cb_stats s) + of_nat n"
  "cb_batchSize (executed c n s) = cb_batchSize s" "cb_queueLocked (executed c n s) = cb_queueLocked s"
  by (simp_all add: executed_def queue_of_def split: CombatPriority.splits)

lemma executed_0 [simp]: "executed [] 0 s = s"
  by (simp add: executed_def)

lemma executed_executed: "executed d m (executed c n s) = executed (c @ d) (n + m) s"
  by (simp add: executed_def add.assoc)

lemma run_batch:
  "(\<And>a. a \<in> set as \<Longrightarrow> \<not> ca_processed a \<and> action_calls a = Some (calls a)) \<Longrightarrow>
     run process_unless_done as s = Some (executed (concat (map calls as)) (length as) s)"
proof (induction as arbitrary: s)
  case (Cons a as)
  have "process_unless_done a s = Some (executed (calls a) 1 s)"
    using Cons.prems [of a] by (simp add: process_unless_done_def Combat_ProcessAction_def executed_def)
  then show ?case using Cons by (simp add: executed_executed)
qed simp

lemma ProcessActionQueue_batch:
  assumes "\<And>a. a \<in> set (queue_of p s) \<Longrightarrow> \<not> ca_processed a \<and> action_calls a = Some (calls a)"
  defines "batch \<equiv> take (unat (cb_batchSize s)) (queue_of p s)"
  shows "ProcessActionQueue p s = Some (set_queue p (drop (unat (cb_batchSize s)) (queue_of p s))
           (executed (concat (map calls batch)) (length batch) s))"
proof (cases "queue_of p s = []")
  case True
  then have "set_queue p [] s = s" by (simp add: set_queue_def queue_of_def split: CombatPriority.splits)
  with True show ?thesis by (simp add: ProcessActionQueue_def batch_def)
next
  case False
  have m: "take (min n (length xs)) xs = take n xs" "drop (min n (length xs)) xs = drop n xs" for n and xs :: "'a list"
    by (simp_all add: min_def)
  have "run process_unless_done batch s = Some (executed (concat (map calls batch)) (length batch) s)"
    using assms(1) by (intro run_batch) (auto simp: batch_def dest: in_set_takeD)
  with False show ?thesis by (simp add: ProcessActionQueue_def m Let_def batch_def [symmetric])
qed

lemma queue_of_updates [simp]:
  "queue_of p (s\<lparr>cb_processing := b\<rparr>) = queue_of p s" "queue_of p (s\<lparr>cb_queueLocked := b\<rparr>) = queue_of p s"
  "queue_of p (UpdateStatistics n s) = queue_of p s"
  by (simp_all add: queue_of_def UpdateStatistics_def Let_def split: CombatPriority.splits)

lemma UpdateStatistics_simps [simp]:
  "cb_calls (UpdateStatistics n s) = cb_calls s"
  "ct_processedActions (cb_stats (UpdateStatistics n s)) = ct_processedActions (cb_stats s)"
  by (simp_all add: UpdateStatistics_def Let_def)

lemma CleanupOldActions_spec:
  "\<not> cb_queueLocked s \<Longrightarrow> \<exists>t. CleanupOldActions now s = Some ((), t) \<and> cb_calls t = cb_calls s \<and>
     cb_stats t = cb_stats s \<and> (\<forall>p. queue_of p t = filter (\<lambda>a. now - ca_timestamp a \<le> 5000000000) (queue_of p s))"
  by (simp add: CleanupOldActions_def with_queue_lock_def queue_of_def all_priorities not_less Let_def)

lemma run_queues:
  assumes "distinct ps" "\<And>p a. p \<in> set ps \<Longrightarrow> a \<in> set (queue_of p s) \<Longrightarrow> \<not> ca_processed a \<and> action_calls a = Some (calls a)"
  shows "\<exists>u. run ProcessActionQueue ps s = Some u \<and>
     (let n = unat (cb_batchSize s); batch = concat (map (\<lambda>p. take n (queue_of p s)) ps)
      in cb_calls u = cb_calls s @ concat (map calls batch) \<and>
         ct_processedActions (cb_stats u) = ct_processedActions (cb_stats s) + of_nat (length batch) \<and>
         (\<forall>p. queue_of p u = (if p \<in> set ps then drop n (queue_of p s) else queue_of p s)) \<and>
         cb_queueLocked u = cb_queueLocked s)"
  using assms
proof (induction ps arbitrary: s)
  case (Cons p ps)
  let ?n = "unat (cb_batchSize s)" and ?b = "take (unat (cb_batchSize s)) (queue_of p s)"
  obtain v where p: "ProcessActionQueue p s = Some v"
    and v: "cb_calls v = cb_calls s @ concat (map calls ?b)" "cb_batchSize v = cb_batchSize s"
      "ct_processedActions (cb_stats v) = ct_processedActions (cb_stats s) + of_nat (length ?b)"
      "\<And>r. queue_of r v = (if r = p then drop ?n (queue_of p s) else queue_of r s)" "cb_queueLocked v = cb_queueLocked s"
  proof -
    have "\<And>a. a \<in> set (queue_of p s) \<Longrightarrow> \<not> ca_processed a \<and> action_calls a = Some (calls a)"
      using Cons.prems(2) [of p] by simp
    from that [OF ProcessActionQueue_batch [OF this]] show thesis by simp
  qed
  have other: "map (\<lambda>r. take ?n (queue_of r v)) ps = map (\<lambda>r. take ?n (queue_of r s)) ps"
    using Cons.prems(1) v(4) by auto
  have "\<And>r a. r \<in> set ps \<Longrightarrow> a \<in> set (queue_of r v) \<Longrightarrow> \<not> ca_processed a \<and> action_calls a = Some (calls a)"
    using Cons.prems v(4) by (metis distinct.simps(2) list.set_intros(2))
  then obtain u where "run ProcessActionQueue ps v = Some u"
    and u: "cb_calls u = cb_calls v @ concat (map calls (concat (map (\<lambda>r. take ?n (queue_of r s)) ps)))"
      "ct_processedActions (cb_stats u) = ct_processedActions (cb_stats v)
         + of_nat (length (concat (map (\<lambda>r. take ?n (queue_of r s)) ps)))"
      "\<And>r. queue_of r u = (if r \<in> set ps then drop ?n (queue_of r v) else queue_of r v)" "cb_queueLocked u = cb_queueLocked v"
    using Cons.IH [of v] Cons.prems(1) unfolding Let_def v(2) other by auto
  then have "run ProcessActionQueue (p # ps) s = Some u" using p by simp
  moreover have "queue_of r u = (if r \<in> set (p # ps) then drop ?n (queue_of r s) else queue_of r s)" for r
    using u(3) [of r] v(4) [of r] Cons.prems(1) by auto
  ultimately show ?case using u v by (intro exI [of _ u]) (simp add: Let_def add.assoc)
qed simp

text \<open>
  C34. One round of processing executes, in the order of the priorities and within a priority in the
  order of arrival, the first \<open>batchSize\<close> actions of every queue, each with its calls, counts them,
  and keeps the rest without the actions older than five seconds.
\<close>

theorem actions_run_in_priority_order:
  assumes "cb_initialized s" "\<not> cb_processing s" "\<not> cb_queueLocked s"
    and "\<forall>p. \<forall>a \<in> set (queue_of p s). \<not> ca_processed a \<and> action_calls a = Some (calls a)"
  defines "n \<equiv> unat (cb_batchSize s)"
  defines "batch \<equiv> concat (map (\<lambda>p. take n (queue_of p s)) [Critical, High, Medium, Low])"
  shows "\<exists>t. ProcessActions t0 t1 t2 s = Some (True, t) \<and> cb_calls t = cb_calls s @ concat (map calls batch) \<and>
     ct_processedActions (cb_stats t) = ct_processedActions (cb_stats s) + of_nat (length batch) \<and>
     (\<forall>p. queue_of p t = filter (\<lambda>a. t1 - ca_timestamp a \<le> 5000000000) (drop n (queue_of p s))) \<and> \<not> cb_processing t"
proof -
  let ?s = "s\<lparr>cb_processing := True\<rparr>"
  have all: "p \<in> set [Critical, High, Medium, Low]" for p by (cases p) simp_all
  obtain u where r: "run ProcessActionQueue [Critical, High, Medium, Low] ?s = Some u"
    and u: "cb_calls u = cb_calls s @ concat (map calls batch)"
      "ct_processedActions (cb_stats u) = ct_processedActions (cb_stats s) + of_nat (length batch)"
      "\<And>p. queue_of p u = drop n (queue_of p s)" "\<not> cb_queueLocked u"
    using run_queues [of "[Critical, High, Medium, Low]" ?s calls] assms(3,4)
    unfolding n_def batch_def Let_def by (auto simp only: all queue_of_updates if_True) auto
  obtain t where t: "CleanupOldActions t1 u = Some ((), t)" "cb_calls t = cb_calls u" "cb_stats t = cb_stats u"
    "\<And>p. queue_of p t = filter (\<lambda>a. t1 - ca_timestamp a \<le> 5000000000) (queue_of p u)"
    using CleanupOldActions_spec [OF u(4), of t1] by blast
  show ?thesis
    using assms(1,2) r u t by (simp add: ProcessActions_def del: run.simps)
qed

theorem actions_run_in_priority_order_witness:
  "let v = \<lparr>v_x = 1, v_y = 2, v_z = 3, v_w = 4\<rparr>;
       attack = CombatAction_new\<lparr>ca_playerId := 7, ca_data := attack_data 1 2 v, ca_timestamp := 5\<rparr>;
       parade = CombatAction_new\<lparr>ca_playerId := 8, ca_type := Defense, ca_data := defense_data 3 9\<rparr>;
       s = (CombatOptimizer_new 0)\<lparr>cb_initialized := True, cb_batchSize := 1, cb_highQueue := [attack, attack],
              cb_criticalQueue := [parade]\<rparr>
   in \<exists>t. ProcessActions 0 9 9 s = Some (True, t) \<and> queue_of High t = [attack] \<and>
        cb_calls t = [ExecuteDefense 8 3 9, ExecuteAttack 7 1 2 v]"
proof -
  define v a p where d: "v = \<lparr>v_x = 1, v_y = 2, v_z = 3, v_w = (4 :: u32)\<rparr>"
    "a = CombatAction_new\<lparr>ca_playerId := 7, ca_data := attack_data 1 2 v, ca_timestamp := 5\<rparr>"
    "p = CombatAction_new\<lparr>ca_playerId := 8, ca_type := Defense, ca_data := defense_data 3 9\<rparr>"
  define s where s: "s = (CombatOptimizer_new 0)\<lparr>cb_initialized := True, cb_batchSize := 1, cb_highQueue := [a, a],
     cb_criticalQueue := [p]\<rparr>"
  define c where "c x = the (action_calls x)" for x
  have calls: "action_calls a = Some [ExecuteAttack 7 1 2 v]" "action_calls p = Some [ExecuteDefense 8 3 9]"
    by (subst typed_action_calls; simp add: d CombatAction_new_def)+
  then have c: "c a = [ExecuteAttack 7 1 2 v]" "c p = [ExecuteDefense 8 3 9]" by (simp_all add: c_def)
  have q: "queue_of Critical s = [p]" "queue_of High s = [a, a]" "queue_of Medium s = []" "queue_of Low s = []"
    and f: "cb_initialized s" "\<not> cb_processing s" "\<not> cb_queueLocked s" "cb_batchSize s = 1" "cb_calls s = []"
    by (simp_all add: s CombatOptimizer_new_def queue_of_def)
  have "x = a \<or> x = p" if "x \<in> set (queue_of r s)" for r x using that q by (cases r) auto
  moreover have "\<not> ca_processed a" "\<not> ca_processed p" by (simp_all add: d CombatAction_new_def)
  ultimately have "\<forall>r. \<forall>x \<in> set (queue_of r s). \<not> ca_processed x \<and> action_calls x = Some (c x)"
    using calls c by metis
  from actions_run_in_priority_order [where ?t0.0 = 0 and ?t1.0 = 9 and ?t2.0 = 9, OF f(1-3) this]
  obtain t where "ProcessActions 0 9 9 s = Some (True, t)" "cb_calls t = [ExecuteDefense 8 3 9, ExecuteAttack 7 1 2 v]"
    and "queue_of High t = filter (\<lambda>x. 9 - ca_timestamp x \<le> 5000000000) [a]"
    by (auto simp: q f c)
  moreover have "ca_timestamp a = 5" by (simp add: d CombatAction_new_def)
  ultimately show ?thesis
    unfolding Let_def d [symmetric] s [symmetric] by (intro exI [of _ t]) simp
qed

end
