(* ===== verification/Text.thy ===== *)
theory Text
  imports Prelude "HOL-Library.List_Lexorder" "HOL-Library.Char_ord"
begin

text \<open>
  The text functions of the standard library that the configuration and the discovery use:
  \<open>std::getline\<close> until the end of the input, trimming with \<open>find_first_not_of\<close> and
  \<open>find_last_not_of\<close>, \<open>tolower\<close> and \<open>std::stoi\<close>.
\<close>

section \<open>Lines and tokens\<close>

text \<open>\<open>while (std::getline(in, line, c))\<close>: no line after a delimiter at the very end.\<close>

function getlines :: "char \<Rightarrow> string \<Rightarrow> string list" where
  "getlines c cs =
     (if cs = [] then []
      else takeWhile (\<lambda>a. a \<noteq> c) cs # getlines c (tl (dropWhile (\<lambda>a. a \<noteq> c) cs)))"
  by pat_completeness auto
termination
proof (relation "measure (\<lambda>(c, cs). length cs)", simp)
  fix c :: char and cs :: string
  assume "cs \<noteq> []"
  then have "0 < length cs" by simp
  moreover have "length (dropWhile (\<lambda>a. a \<noteq> c) cs) \<le> length cs" by (rule length_dropWhile_le)
  ultimately have "length (dropWhile (\<lambda>a. a \<noteq> c) cs) - 1 < length cs" by linarith
  then have "length (tl (dropWhile (\<lambda>a. a \<noteq> c) cs)) < length cs" unfolding length_tl .
  then show "((c, tl (dropWhile (\<lambda>a. a \<noteq> c) cs)), c, cs) \<in> measure (\<lambda>(c, cs). length cs)" by simp
qed

declare getlines.simps [simp del]

lemma getlines_Nil [simp]: "getlines c [] = []"
  by (simp add: getlines.simps)

lemma takeWhile_until: "c \<notin> set l \<Longrightarrow> takeWhile (\<lambda>a. a \<noteq> c) (l @ c # rest) = l"
  by (induction l) auto

lemma dropWhile_until: "c \<notin> set l \<Longrightarrow> dropWhile (\<lambda>a. a \<noteq> c) (l @ c # rest) = c # rest"
  by (induction l) auto

lemma getlines_line [simp]: "c \<notin> set l \<Longrightarrow> getlines c (l @ c # rest) = l # getlines c rest"
  by (subst getlines.simps) (simp add: takeWhile_until dropWhile_until)

lemma getlines_last: "c \<notin> set l \<Longrightarrow> l \<noteq> [] \<Longrightarrow> getlines c l = [l]"
proof -
  assume a: "c \<notin> set l" "l \<noteq> []"
  then have t: "takeWhile (\<lambda>a. a \<noteq> c) l = l" "dropWhile (\<lambda>a. a \<noteq> c) l = []" by (auto simp: takeWhile_eq_all_conv)
  have g: "getlines c l = takeWhile (\<lambda>a. a \<noteq> c) l # getlines c (tl (dropWhile (\<lambda>a. a \<noteq> c) l))"
    using a(2) by (subst getlines.simps) simp
  show ?thesis unfolding g t by simp
qed

lemma getlines_concat: "\<forall>l \<in> set ls. c \<notin> set l \<Longrightarrow> getlines c (concat (map (\<lambda>l. l @ [c]) ls)) = ls"
  by (induction ls) auto

section \<open>Trimming\<close>

definition blank :: "char \<Rightarrow> bool" where
  "blank c \<longleftrightarrow> c = CHR '' '' \<or> c = CHR 0x09"

definition trim :: "string \<Rightarrow> string" where
  "trim cs = rev (dropWhile blank (rev (dropWhile blank cs)))"

definition trimmed :: "string \<Rightarrow> bool" where
  "trimmed cs \<longleftrightarrow> cs = [] \<or> (\<not> blank (hd cs) \<and> \<not> blank (last cs))"

lemma dropWhile_hd: "xs = [] \<or> \<not> P (hd xs) \<Longrightarrow> dropWhile P xs = xs"
  by (cases xs) auto

lemma trim_id: "trimmed cs \<Longrightarrow> trim cs = cs"
  using dropWhile_hd [of cs blank] dropWhile_hd [of "rev cs" blank] by (auto simp: trim_def trimmed_def hd_rev)

lemma trimmed_trim: "trimmed (trim cs)"
proof -
  let ?a = "dropWhile blank cs"
  let ?b = "rev (dropWhile blank (rev ?a))"
  have a: "?a = ?b @ rev (takeWhile blank (rev ?a))"
    by (metis rev_append rev_rev_ident takeWhile_dropWhile_id)
  show ?thesis
  proof (cases "?b = []")
    case False
    have "?a \<noteq> []"
    proof
      assume "?a = []"
      with False show "False" by (metis dropWhile.simps(1) rev.simps(1))
    qed
    moreover have "hd ?b = hd ?a" using a False by (metis hd_append2)
    ultimately have "\<not> blank (hd ?b)" by (metis hd_dropWhile)
    moreover have "\<not> blank (last ?b)" using False hd_dropWhile [of blank "rev ?a"] by (simp add: last_rev)
    ultimately show ?thesis by (simp add: trim_def trimmed_def)
  qed (simp add: trim_def trimmed_def)
qed

section \<open>Numbers\<close>

definition char_code :: "char \<Rightarrow> nat" where
  "char_code c = of_char c"

definition tolower :: "char \<Rightarrow> char" where
  "tolower c = (if 65 \<le> char_code c \<and> char_code c \<le> 90 then char_of (char_code c + 32) else c)"

definition white_space :: "char \<Rightarrow> bool" where
  "white_space c \<longleftrightarrow> char_code c = 32 \<or> (9 \<le> char_code c \<and> char_code c \<le> 13)"

definition is_digit :: "char \<Rightarrow> bool" where
  "is_digit c \<longleftrightarrow> 48 \<le> char_code c \<and> char_code c \<le> 57"

definition digits_value :: "string \<Rightarrow> int" where
  "digits_value cs = fold (\<lambda>c a. 10 * a + int (char_code c - 48)) cs 0"

text \<open>\<open>std::stoi\<close>; \<open>None\<close> is an exception: no digits, or a value out of the range of \<open>int\<close>.\<close>

definition stoi :: "string \<Rightarrow> int option" where
  "stoi cs =
     (let body = dropWhile white_space cs;
          negative = (body \<noteq> [] \<and> hd body = CHR ''-'');
          signed = (body \<noteq> [] \<and> (hd body = CHR ''-'' \<or> hd body = CHR ''+''));
          ds = takeWhile is_digit (if signed then tl body else body);
          v = (if negative then - digits_value ds else digits_value ds)
      in if ds = [] \<or> v < - (2 ^ 31) \<or> 2 ^ 31 \<le> v then None else Some v)"

lemma char_code_digit: "n < 10 \<Longrightarrow> char_code (char_of (48 + n)) = 48 + n"
  by (simp add: char_code_def of_char_of)

lemma dec_string_digits: "\<forall>c \<in> set (dec_string n). is_digit c"
proof (induction n rule: dec_string.induct)
  case (1 n)
  then show ?case
    by (cases "n < 10") (auto simp: dec_string.simps [of n] is_digit_def char_code_digit)
qed

lemma dec_string_not_Nil [simp]: "dec_string n \<noteq> []"
  by (subst dec_string.simps) simp

lemma digits_value_dec_string: "digits_value (dec_string n) = int n"
proof -
  have "\<forall>c \<in> set cs. is_digit c \<Longrightarrow> fold (\<lambda>c a. 10 * a + int (char_code c - 48)) cs (int m) =
          int (fold (\<lambda>c a. 10 * a + (of_char c - 48)) cs m)" for cs m
  proof (induction cs arbitrary: m)
    case (Cons c cs)
    have e: "10 * int m + int (char_code c - 48) = int (10 * m + (of_char c - 48))" by (simp add: char_code_def)
    show ?case unfolding fold_Cons comp_def e by (rule Cons.IH) (use Cons.prems in simp)
  qed simp
  from this [of "dec_string n" 0] dec_string_digits dec_value_string [of n] show ?thesis
    by (simp add: digits_value_def dec_value_def)
qed

text \<open>Reading back a printed number.\<close>

lemma stoi_dec_string:
  assumes "n < 2 ^ 31"
  shows "stoi (dec_string n) = Some (int n)"
proof -
  obtain c cs where s: "dec_string n = c # cs" by (cases "dec_string n") auto
  have d: "is_digit c" using dec_string_digits [of n] s by simp
  then have "\<not> white_space c" "c \<noteq> CHR ''-''" "c \<noteq> CHR ''+''"
    by (auto simp: is_digit_def white_space_def char_code_def)
  then have "stoi (dec_string n) = (if (2::int) ^ 31 \<le> int n then None else Some (int n))"
    using s dec_string_digits [of n] digits_value_dec_string [of n]
    by (auto simp: stoi_def Let_def takeWhile_eq_all_conv [THEN iffD2])
  with assms show ?thesis by simp
qed

end
