(* ===== verification/ScriptBridge.thy ===== *)
theory ScriptBridge
  imports Text
begin

text \<open>
  \<open>integration/WitcherScriptBridge.cpp\<close>: the bridge to the game scripts.  Scripts are loaded by path
  into a table of handles, functions of the scripts are called by name, and events of the scripts
  are handed to callbacks.  The engine behind it is simulated in the code: loading always gives the
  same handle and every call of a loaded script succeeds.  Whether the Lua library can make an
  engine (\<open>lua\<close>), whether a script file exists (\<open>exists\<close>) and the time in seconds (\<open>now\<close>) are
  arguments.  The tables are unordered maps; no result of the model depends on their order except
  the listing of the loaded scripts, which takes the order as an argument.
\<close>

section \<open>State\<close>

record WitcherScriptResult =
  wr_success :: bool
  wr_data :: string
  wr_error :: string
  wr_timestamp :: u32

record WitcherScriptBridge =
  wb_initialized :: bool
  wb_engineReady :: bool
  wb_lastError :: string
  wb_witcherScriptVersion :: string
  wb_engine :: bool
  wb_loadedScripts :: "(string, u64) omap"
  wb_eventCallbacks :: "(string, unit) omap"
  wb_events :: "(string \<times> string) list"

definition WitcherScriptBridge_new :: WitcherScriptBridge where
  "WitcherScriptBridge_new = \<lparr>wb_initialized = False, wb_engineReady = False, wb_lastError = [],
     wb_witcherScriptVersion = [], wb_engine = False, wb_loadedScripts = [], wb_eventCallbacks = [],
     wb_events = []\<rparr>"

definition DEFAULT_SCRIPT_PATH :: string where
  "DEFAULT_SCRIPT_PATH = ''mod/scripts/''"

definition MAX_EVENT_CALLBACKS :: nat where
  "MAX_EVENT_CALLBACKS = 100"

definition WB_SetError :: "string \<Rightarrow> WitcherScriptBridge \<Rightarrow> WitcherScriptBridge" where
  "WB_SetError error s = s\<lparr>wb_lastError := error\<rparr>"

definition WB_ready :: "WitcherScriptBridge \<Rightarrow> bool" where
  "WB_ready s \<longleftrightarrow> wb_initialized s \<and> wb_engineReady s"

definition not_ready :: string where
  "not_ready = ''WitcherScriptBridge not initialized or engine not ready''"

section \<open>The engine and its scripts\<close>

definition CreateWitcherScriptEngine :: "bool \<Rightarrow> WitcherScriptBridge \<Rightarrow> bool \<times> WitcherScriptBridge" where
  "CreateWitcherScriptEngine lua s =
     (if \<not> lua then (False, WB_SetError ''Failed to create LuaJIT state for WitcherScript proxy'' (s\<lparr>wb_engine := False\<rparr>))
      else (True, s\<lparr>wb_engine := True\<rparr>))"

definition InitializeWitcherScriptEngine :: "bool \<Rightarrow> WitcherScriptBridge \<Rightarrow> bool \<times> WitcherScriptBridge" where
  "InitializeWitcherScriptEngine lua s =
     (if wb_engineReady s then (True, s)
      else let (created, s) = CreateWitcherScriptEngine lua s
           in if \<not> created then (False, WB_SetError ''Failed to create WitcherScript engine'' s)
              else (True, s\<lparr>wb_engineReady := True\<rparr>))"

definition LoadScriptFromFile :: "string \<Rightarrow> u64" where
  "LoadScriptFromFile filePath = 0x12345678"

definition LoadWitcherScriptInternal :: "string \<Rightarrow> bool \<times> u64" where
  "LoadWitcherScriptInternal scriptPath =
     (let scriptInstance = LoadScriptFromFile scriptPath in (scriptInstance \<noteq> 0, scriptInstance))"

definition LoadWitcherScript ::
    "(string \<Rightarrow> bool) \<Rightarrow> string \<Rightarrow> WitcherScriptBridge \<Rightarrow> bool \<times> WitcherScriptBridge" where
  "LoadWitcherScript exists scriptPath s =
     (if \<not> WB_ready s then (False, WB_SetError not_ready s)
      else let fullPath = DEFAULT_SCRIPT_PATH @ scriptPath
           in if \<not> exists fullPath then (False, WB_SetError (''Script file not found: '' @ fullPath) s)
              else let (loaded, scriptInstance) = LoadWitcherScriptInternal fullPath
                   in if \<not> loaded then (False, WB_SetError (''Failed to load script: '' @ scriptPath) s)
                      else (True, s\<lparr>wb_loadedScripts := om_put scriptPath scriptInstance (wb_loadedScripts s)\<rparr>))"

definition default_scripts :: "string list" where
  "default_scripts = [''MP_BridgeSupport.ws'', ''MP_REDkitIntegration.ws'', ''MP_AssetManager.ws'',
     ''MP_CombatSystem.ws'', ''MP_SignsSystem.ws'', ''MP_AlchemySystem.ws'', ''MP_InventorySystem.ws'']"

definition WB_Initialize ::
    "bool \<Rightarrow> (string \<Rightarrow> bool) \<Rightarrow> WitcherScriptBridge \<Rightarrow> bool \<times> WitcherScriptBridge" where
  "WB_Initialize lua exists s =
     (if wb_initialized s then (True, s)
      else let (ready, s) = InitializeWitcherScriptEngine lua s
           in if \<not> ready then (False, WB_SetError ''Failed to initialize WitcherScript engine'' s)
              else let s = fold (\<lambda>script s. snd (LoadWitcherScript exists script s)) default_scripts s
                   in (True, s\<lparr>wb_initialized := True\<rparr>))"

definition WB_Shutdown :: "WitcherScriptBridge \<Rightarrow> WitcherScriptBridge" where
  "WB_Shutdown s =
     (if \<not> wb_initialized s then s
      else s\<lparr>wb_loadedScripts := [], wb_eventCallbacks := [], wb_engine := False,
             wb_initialized := False, wb_engineReady := False\<rparr>)"

definition UnloadWitcherScript :: "string \<Rightarrow> WitcherScriptBridge \<Rightarrow> bool \<times> WitcherScriptBridge" where
  "UnloadWitcherScript scriptName s =
     (if \<not> wb_initialized s then (False, WB_SetError ''WitcherScriptBridge not initialized'' s)
      else case om_find (wb_loadedScripts s) scriptName of
        None \<Rightarrow> (False, WB_SetError (''Script not found: '' @ scriptName) s)
      | Some scriptInstance \<Rightarrow> (True, s\<lparr>wb_loadedScripts := om_erase scriptName (wb_loadedScripts s)\<rparr>))"

definition IsWitcherScriptLoaded :: "string \<Rightarrow> WitcherScriptBridge \<Rightarrow> bool" where
  "IsWitcherScriptLoaded scriptName s \<longleftrightarrow> om_find (wb_loadedScripts s) scriptName \<noteq> None"

section \<open>Calling script functions\<close>

definition CallScriptFunction :: "int \<Rightarrow> u64 \<Rightarrow> string \<Rightarrow> string \<Rightarrow> WitcherScriptResult" where
  "CallScriptFunction now scriptInstance functionName parameters =
     \<lparr>wr_success = True, wr_data = ''mock_result'', wr_error = [], wr_timestamp = word_of_int now\<rparr>"

definition failed_call :: "string \<Rightarrow> WitcherScriptResult" where
  "failed_call error = \<lparr>wr_success = False, wr_data = [], wr_error = error, wr_timestamp = 0\<rparr>"

text \<open>The loop over the loaded scripts that returns the first result that is a success.\<close>

primrec first_success :: "('a \<Rightarrow> WitcherScriptResult) \<Rightarrow> WitcherScriptResult \<Rightarrow> 'a list \<Rightarrow> WitcherScriptResult" where
  "first_success call otherwise [] = otherwise"
| "first_success call otherwise (p # ps) =
     (let result = call p in if wr_success result then result else first_success call otherwise ps)"

definition ExecuteWitcherScriptFunctionInternal ::
    "int \<Rightarrow> string \<Rightarrow> string \<Rightarrow> WitcherScriptBridge \<Rightarrow> WitcherScriptResult" where
  "ExecuteWitcherScriptFunctionInternal now functionName parameters s =
     first_success (\<lambda>pair. CallScriptFunction now (snd pair) functionName parameters)
       (failed_call (''Function not found: '' @ functionName)) (wb_loadedScripts s)"

definition CallWitcherScriptFunction ::
    "int \<Rightarrow> string \<Rightarrow> string \<Rightarrow> WitcherScriptBridge \<Rightarrow> WitcherScriptResult" where
  "CallWitcherScriptFunction now functionName parameters s =
     (if \<not> WB_ready s then failed_call not_ready
      else first_success (\<lambda>pair. ExecuteWitcherScriptFunctionInternal now functionName parameters s)
             (failed_call (''Function not found: '' @ functionName)) (wb_loadedScripts s))"

definition CallWitcherScriptMethod ::
    "int \<Rightarrow> string \<Rightarrow> string \<Rightarrow> string \<Rightarrow> WitcherScriptBridge \<Rightarrow> WitcherScriptResult" where
  "CallWitcherScriptMethod now className functionName parameters s =
     (if \<not> WB_ready s then failed_call not_ready
      else CallWitcherScriptFunction now (className @ ''.'' @ functionName) parameters s)"

definition GetWitcherScriptResult :: "int \<Rightarrow> string \<Rightarrow> string \<Rightarrow> WitcherScriptBridge \<Rightarrow> string" where
  "GetWitcherScriptResult now functionName parameters s =
     (let result = CallWitcherScriptFunction now functionName parameters s
      in if wr_success result then wr_data result else [])"

definition ExecuteWitcherScriptCode :: "string \<Rightarrow> WitcherScriptBridge \<Rightarrow> bool \<times> WitcherScriptBridge" where
  "ExecuteWitcherScriptCode code s =
     (if \<not> WB_ready s then (False, WB_SetError not_ready s)
      else if wb_loadedScripts s = [] then (False, WB_SetError ''No scripts loaded'' s)
      else (True, s))"

section \<open>Events\<close>

definition RegisterCppCallback :: "string \<Rightarrow> WitcherScriptBridge \<Rightarrow> WitcherScriptBridge" where
  "RegisterCppCallback eventName s =
     (if MAX_EVENT_CALLBACKS \<le> length (wb_eventCallbacks s)
      then WB_SetError ''Maximum number of event callbacks reached'' s
      else s\<lparr>wb_eventCallbacks := om_put eventName () (wb_eventCallbacks s)\<rparr>)"

definition UnregisterCppCallback :: "string \<Rightarrow> WitcherScriptBridge \<Rightarrow> WitcherScriptBridge" where
  "UnregisterCppCallback eventName s = s\<lparr>wb_eventCallbacks := om_erase eventName (wb_eventCallbacks s)\<rparr>"

definition ProcessWitcherScriptEvent :: "string \<Rightarrow> string \<Rightarrow> WitcherScriptBridge \<Rightarrow> WitcherScriptBridge" where
  "ProcessWitcherScriptEvent eventName eventData s =
     (case om_find (wb_eventCallbacks s) eventName of
        None \<Rightarrow> s
      | Some callback \<Rightarrow> s\<lparr>wb_events := wb_events s @ [(eventName, eventData)]\<rparr>)"

text \<open>The engine does not react to an event.\<close>

definition NotifyWitcherScriptEvent :: "string \<Rightarrow> string \<Rightarrow> WitcherScriptBridge \<Rightarrow> WitcherScriptBridge" where
  "NotifyWitcherScriptEvent eventName eventData s = s"

text \<open>The functions that the engine calls: their arguments become the data of an event.\<close>

definition flag_text :: "bool \<Rightarrow> string" where
  "flag_text b = (if b then ''true'' else ''false'')"

definition LuaOnCombatAction :: "u32 \<Rightarrow> string \<Rightarrow> bool \<Rightarrow> WitcherScriptBridge \<Rightarrow> WitcherScriptBridge" where
  "LuaOnCombatAction playerId action success =
     ProcessWitcherScriptEvent ''CombatAction'' (to_string_u32 playerId @ ''|'' @ action @ ''|'' @ flag_text success)"

definition LuaOnInventoryChanged :: "u32 \<Rightarrow> u32 \<Rightarrow> bool \<Rightarrow> WitcherScriptBridge \<Rightarrow> WitcherScriptBridge" where
  "LuaOnInventoryChanged playerId itemId added =
     ProcessWitcherScriptEvent ''InventoryChanged''
       (to_string_u32 playerId @ ''|'' @ to_string_u32 itemId @ ''|'' @ flag_text added)"

definition LuaOnQuestStateChanged :: "u32 \<Rightarrow> u32 \<Rightarrow> WitcherScriptBridge \<Rightarrow> WitcherScriptBridge" where
  "LuaOnQuestStateChanged questId newState =
     ProcessWitcherScriptEvent ''QuestStateChanged'' (to_string_u32 questId @ ''|'' @ to_string_u32 newState)"

section \<open>Assets, game systems, quests, monsters and the world\<close>

text \<open>A call whose failure is reported with a message of its own.\<close>

definition perform ::
    "string \<Rightarrow> string \<Rightarrow> string \<Rightarrow> int \<Rightarrow> WitcherScriptBridge \<Rightarrow> bool \<times> WitcherScriptBridge" where
  "perform functionName parameters failure now s =
     (let result = CallWitcherScriptFunction now functionName parameters s
      in if \<not> wr_success result then (False, WB_SetError failure s) else (True, s))"

definition bytes_of_string :: "string \<Rightarrow> u8 list" where
  "bytes_of_string cs = map (\<lambda>c. of_nat (char_code c)) cs"

definition string_of_bytes :: "u8 list \<Rightarrow> string" where
  "string_of_bytes bs = map (\<lambda>b. char_of (unat b)) bs"

definition LoadAssetFromWitcherScript ::
    "int \<Rightarrow> string \<Rightarrow> WitcherScriptBridge \<Rightarrow> u8 list option \<times> WitcherScriptBridge" where
  "LoadAssetFromWitcherScript now assetName s =
     (let result = CallWitcherScriptFunction now ''MP_AssetManager.LoadAsset'' assetName s
      in if \<not> wr_success result
         then (None, WB_SetError (''Failed to load asset from WitcherScript: '' @ assetName) s)
         else (Some (bytes_of_string (wr_data result)), s))"

definition SaveAssetToWitcherScript ::
    "string \<Rightarrow> u8 list \<Rightarrow> int \<Rightarrow> WitcherScriptBridge \<Rightarrow> bool \<times> WitcherScriptBridge" where
  "SaveAssetToWitcherScript assetName data =
     perform ''MP_AssetManager.SaveAsset'' (assetName @ ''|'' @ string_of_bytes data)
       (''Failed to save asset to WitcherScript: '' @ assetName)"

definition AssetExistsInWitcherScript :: "int \<Rightarrow> string \<Rightarrow> WitcherScriptBridge \<Rightarrow> bool" where
  "AssetExistsInWitcherScript now assetName s =
     (let result = CallWitcherScriptFunction now ''MP_AssetManager.AssetExists'' assetName s
      in wr_success result \<and> wr_data result = ''true'')"

definition ListAssetsInWitcherScript :: "int \<Rightarrow> string \<Rightarrow> WitcherScriptBridge \<Rightarrow> string list" where
  "ListAssetsInWitcherScript now category s =
     (let result = CallWitcherScriptFunction now ''MP_AssetManager.ListAssets'' category s
      in if wr_success result then getlines CHR '','' (wr_data result) else [])"

definition ExecuteCombatAction ::
    "u32 \<Rightarrow> string \<Rightarrow> string \<Rightarrow> int \<Rightarrow> WitcherScriptBridge \<Rightarrow> bool \<times> WitcherScriptBridge" where
  "ExecuteCombatAction playerId action parameters =
     perform ''MP_CombatSystem.ExecuteAction'' (to_string_u32 playerId @ ''|'' @ action @ ''|'' @ parameters)
       (''Failed to execute combat action: '' @ action)"

definition CastSign ::
    "u32 \<Rightarrow> string \<Rightarrow> string \<Rightarrow> int \<Rightarrow> WitcherScriptBridge \<Rightarrow> bool \<times> WitcherScriptBridge" where
  "CastSign playerId signType parameters =
     perform ''MP_SignsSystem.CastSign'' (to_string_u32 playerId @ ''|'' @ signType @ ''|'' @ parameters)
       (''Failed to cast sign: '' @ signType)"

definition UseAlchemyItem ::
    "u32 \<Rightarrow> string \<Rightarrow> string \<Rightarrow> int \<Rightarrow> WitcherScriptBridge \<Rightarrow> bool \<times> WitcherScriptBridge" where
  "UseAlchemyItem playerId itemType parameters =
     perform ''MP_AlchemySystem.UseItem'' (to_string_u32 playerId @ ''|'' @ itemType @ ''|'' @ parameters)
       (''Failed to use alchemy item: '' @ itemType)"

definition ManageInventory ::
    "u32 \<Rightarrow> string \<Rightarrow> string \<Rightarrow> int \<Rightarrow> WitcherScriptBridge \<Rightarrow> bool \<times> WitcherScriptBridge" where
  "ManageInventory playerId action parameters =
     perform ''MP_InventorySystem.ManageInventory'' (to_string_u32 playerId @ ''|'' @ action @ ''|'' @ parameters)
       (''Failed to manage inventory: '' @ action)"

definition WB_CreateQuest :: "string \<Rightarrow> string \<Rightarrow> int \<Rightarrow> WitcherScriptBridge \<Rightarrow> bool \<times> WitcherScriptBridge" where
  "WB_CreateQuest questName questData =
     perform ''MP_REDkitIntegration.CreateQuest'' (questName @ ''|'' @ questData) (''Failed to create quest: '' @ questName)"

definition WB_UpdateQuest :: "string \<Rightarrow> string \<Rightarrow> int \<Rightarrow> WitcherScriptBridge \<Rightarrow> bool \<times> WitcherScriptBridge" where
  "WB_UpdateQuest questName questData =
     perform ''MP_REDkitIntegration.UpdateQuest'' (questName @ ''|'' @ questData) (''Failed to update quest: '' @ questName)"

definition WB_CompleteQuest :: "string \<Rightarrow> int \<Rightarrow> WitcherScriptBridge \<Rightarrow> bool \<times> WitcherScriptBridge" where
  "WB_CompleteQuest questName =
     perform ''MP_REDkitIntegration.CompleteQuest'' questName (''Failed to complete quest: '' @ questName)"

definition GetQuestStatus :: "int \<Rightarrow> string \<Rightarrow> WitcherScriptBridge \<Rightarrow> string" where
  "GetQuestStatus now questName = GetWitcherScriptResult now ''MP_REDkitIntegration.GetQuestStatus'' questName"

definition CreateNPC :: "string \<Rightarrow> string \<Rightarrow> int \<Rightarrow> WitcherScriptBridge \<Rightarrow> bool \<times> WitcherScriptBridge" where
  "CreateNPC npcName npcData =
     perform ''MP_REDkitIntegration.CreateNPC'' (npcName @ ''|'' @ npcData) (''Failed to create NPC: '' @ npcName)"

definition UpdateNPC :: "string \<Rightarrow> string \<Rightarrow> int \<Rightarrow> WitcherScriptBridge \<Rightarrow> bool \<times> WitcherScriptBridge" where
  "UpdateNPC npcName npcData =
     perform ''MP_REDkitIntegration.UpdateNPC'' (npcName @ ''|'' @ npcData) (''Failed to update NPC: '' @ npcName)"

definition RemoveNPC :: "string \<Rightarrow> int \<Rightarrow> WitcherScriptBridge \<Rightarrow> bool \<times> WitcherScriptBridge" where
  "RemoveNPC npcName =
     perform ''MP_REDkitIntegration.RemoveNPC'' npcName (''Failed to remove NPC: '' @ npcName)"

definition GetNPCData :: "int \<Rightarrow> string \<Rightarrow> WitcherScriptBridge \<Rightarrow> string" where
  "GetNPCData now npcName = GetWitcherScriptResult now ''MP_REDkitIntegration.GetNPCData'' npcName"

definition WB_UpdateWorldState :: "string \<Rightarrow> int \<Rightarrow> WitcherScriptBridge \<Rightarrow> bool \<times> WitcherScriptBridge" where
  "WB_UpdateWorldState worldData =
     perform ''MP_REDkitIntegration.UpdateWorldState'' worldData ''Failed to update world state''"

definition SetWeather :: "string \<Rightarrow> int \<Rightarrow> WitcherScriptBridge \<Rightarrow> bool \<times> WitcherScriptBridge" where
  "SetWeather weatherType =
     perform ''MP_REDkitIntegration.SetWeather'' weatherType (''Failed to set weather: '' @ weatherType)"

definition WB_GetWorldState :: "int \<Rightarrow> WitcherScriptBridge \<Rightarrow> string" where
  "WB_GetWorldState now = GetWitcherScriptResult now ''MP_REDkitIntegration.GetWorldState'' []"

section \<open>Errors and statistics\<close>

definition WB_ClearError :: "WitcherScriptBridge \<Rightarrow> WitcherScriptBridge" where
  "WB_ClearError s = s\<lparr>wb_lastError := []\<rparr>"

definition WB_HasError :: "WitcherScriptBridge \<Rightarrow> bool" where
  "WB_HasError s \<longleftrightarrow> wb_lastError s \<noteq> []"

definition GetLoadedScriptsCount :: "WitcherScriptBridge \<Rightarrow> nat" where
  "GetLoadedScriptsCount s = length (wb_loadedScripts s)"

definition GetRegisteredCallbacksCount :: "WitcherScriptBridge \<Rightarrow> nat" where
  "GetRegisteredCallbacksCount s = length (wb_eventCallbacks s)"

text \<open>\<open>order\<close> is the order in which the library iterates over the table.\<close>

definition GetLoadedScripts :: "(string \<times> u64) list \<Rightarrow> string list" where
  "GetLoadedScripts order = map fst order"

definition line_end :: string where
  "line_end = [CHR 0x0A]"

definition GetBridgeStatistics :: "WitcherScriptBridge \<Rightarrow> string" where
  "GetBridgeStatistics s =
     ''WitcherScriptBridge Statistics:'' @ line_end
     @ ''  Version: '' @ wb_witcherScriptVersion s @ line_end
     @ ''  Initialized: '' @ (if wb_initialized s then ''Yes'' else ''No'') @ line_end
     @ ''  Engine Ready: '' @ (if wb_engineReady s then ''Yes'' else ''No'') @ line_end
     @ ''  Loaded Scripts: '' @ dec_string (GetLoadedScriptsCount s) @ line_end
     @ ''  Registered Callbacks: '' @ dec_string (GetRegisteredCallbacksCount s) @ line_end"

section \<open>Parameters in text\<close>

fun quoted_pairs :: "(string \<times> string) list \<Rightarrow> string" where
  "quoted_pairs [] = []"
| "quoted_pairs [(k, v)] = CHR 0x22 # k @ [CHR 0x22, CHR '':'', CHR 0x22] @ v @ [CHR 0x22]"
| "quoted_pairs ((k, v) # p # ps) =
     CHR 0x22 # k @ [CHR 0x22, CHR '':'', CHR 0x22] @ v @ [CHR 0x22] @ '','' @ quoted_pairs (p # ps)"

definition CreateWitcherScriptParameters :: "(string \<times> string) list \<Rightarrow> string" where
  "CreateWitcherScriptParameters params = ''{'' @ quoted_pairs params @ ''}''"

definition ParseWitcherScriptResponse :: "string \<Rightarrow> string" where
  "ParseWitcherScriptResponse response = response"

definition ValidateWitcherScriptJSON :: "string \<Rightarrow> bool" where
  "ValidateWitcherScriptJSON json \<longleftrightarrow> json \<noteq> [] \<and> CHR ''{'' \<in> set json"

definition ParseEventData :: "string \<Rightarrow> string \<times> string" where
  "ParseEventData eventData = (''unknown'', eventData)"

section \<open>Operations\<close>

datatype script_op =
    OpInitialize bool "string \<Rightarrow> bool"
  | OpShutdown
  | OpEngine bool
  | OpLoad "string \<Rightarrow> bool" string
  | OpUnload string
  | OpPerform string string string int
  | OpLoadAsset int string
  | OpCode string
  | OpRegister string
  | OpUnregister string
  | OpEvent string string
  | OpNotify string string
  | OpClearError

fun script_step :: "script_op \<Rightarrow> WitcherScriptBridge \<Rightarrow> WitcherScriptBridge option" where
  "script_step (OpInitialize lua exists) s = Some (snd (WB_Initialize lua exists s))"
| "script_step OpShutdown s = Some (WB_Shutdown s)"
| "script_step (OpEngine lua) s = Some (snd (InitializeWitcherScriptEngine lua s))"
| "script_step (OpLoad exists path) s = Some (snd (LoadWitcherScript exists path s))"
| "script_step (OpUnload name) s = Some (snd (UnloadWitcherScript name s))"
| "script_step (OpPerform f p failure now) s = Some (snd (perform f p failure now s))"
| "script_step (OpLoadAsset now name) s = Some (snd (LoadAssetFromWitcherScript now name s))"
| "script_step (OpCode code) s = Some (snd (ExecuteWitcherScriptCode code s))"
| "script_step (OpRegister e) s = Some (RegisterCppCallback e s)"
| "script_step (OpUnregister e) s = Some (UnregisterCppCallback e s)"
| "script_step (OpEvent e d) s = Some (ProcessWitcherScriptEvent e d s)"
| "script_step (OpNotify e d) s = Some (NotifyWitcherScriptEvent e d s)"
| "script_step OpClearError s = Some (WB_ClearError s)"

end
