(* ===== verification/Redkit.thy ===== *)
theory Redkit
  imports ScriptBridge Floats
begin

text \<open>
  \<open>integration/REDkitBridge.cpp\<close>: the bridge to the modding tool.  It starts the bridge to the game
  scripts, opens a named pipe that it does without when the tool is not there (\<open>piped\<close>), and
  sends its requests as text; the answer is simulated in the code and always the same.  The
  callbacks are flags and a log.  The requests that need the JSON library, among them the attack,
  and those that format a position are left out, and so is the search for a running tool, which
  nothing calls.
\<close>

section \<open>State\<close>

datatype redkit_event =
    QuestEvent u32 u32
  | AttackEvent u32 u32 flt
  | InventoryEvent u32 u32 bool

record REDkitBridge =
  rk_initialized :: bool
  rk_redkitAvailable :: bool
  rk_lastError :: string
  rk_redkitPipe :: bool
  rk_questCallback :: bool
  rk_playerAttackCallback :: bool
  rk_inventoryCallback :: bool
  rk_events :: "redkit_event list"

definition REDkitBridge_new :: REDkitBridge where
  "REDkitBridge_new = \<lparr>rk_initialized = False, rk_redkitAvailable = False, rk_lastError = [],
     rk_redkitPipe = False, rk_questCallback = False, rk_playerAttackCallback = False,
     rk_inventoryCallback = False, rk_events = []\<rparr>"

definition RK_SetError :: "string \<Rightarrow> REDkitBridge \<Rightarrow> REDkitBridge" where
  "RK_SetError error r = r\<lparr>rk_lastError := error\<rparr>"

definition InitializeREDkitCommunication :: "bool \<Rightarrow> REDkitBridge \<Rightarrow> bool \<times> REDkitBridge" where
  "InitializeREDkitCommunication piped r = (True, r\<lparr>rk_redkitPipe := piped\<rparr>)"

definition RK_Initialize ::
    "bool \<Rightarrow> (string \<Rightarrow> bool) \<Rightarrow> bool \<Rightarrow> REDkitBridge \<Rightarrow> WitcherScriptBridge
      \<Rightarrow> bool \<times> REDkitBridge \<times> WitcherScriptBridge" where
  "RK_Initialize lua exists piped r w =
     (if rk_initialized r then (True, r, w)
      else let (ok, w) = WB_Initialize lua exists w
           in if \<not> ok then (False, RK_SetError ''Failed to initialize WitcherScript bridge'' r, w)
              else let r = r\<lparr>rk_redkitAvailable := wb_engineReady w\<rparr>
                   in if \<not> rk_redkitAvailable r
                      then (False, RK_SetError ''REDkit not available through WitcherScript'' r, w)
                      else let (ok, r) = InitializeREDkitCommunication piped r
                           in if \<not> ok then (False, RK_SetError ''Failed to initialize REDkit communication'' r, w)
                              else (True, r\<lparr>rk_initialized := True\<rparr>, w))"

definition RK_Shutdown :: "REDkitBridge \<Rightarrow> REDkitBridge" where
  "RK_Shutdown r =
     (if \<not> rk_initialized r then r
      else r\<lparr>rk_questCallback := False, rk_playerAttackCallback := False, rk_inventoryCallback := False,
             rk_initialized := False, rk_redkitAvailable := False\<rparr>)"

section \<open>Requests\<close>

fun contains :: "string \<Rightarrow> string \<Rightarrow> bool" where
  "contains pattern [] \<longleftrightarrow> pattern = []"
| "contains pattern (c # cs) \<longleftrightarrow> take (length pattern) (c # cs) = pattern \<or> contains pattern cs"

definition GetREDkitFunctionResult :: "string \<Rightarrow> string \<Rightarrow> string" where
  \<open>GetREDkitFunctionResult functionName parameters = ''{"success": true, "result": "mock_result"}''\<close>

definition ValidateREDkitResponse :: "string \<Rightarrow> bool" where
  "ValidateREDkitResponse response \<longleftrightarrow> response \<noteq> [] \<and> contains ''success'' response"

definition CreateREDkitParameters :: "(string \<times> string) list \<Rightarrow> string" where
  "CreateREDkitParameters params = ''{'' @ quoted_pairs params @ ''}''"

definition ParseREDkitResponse :: "string \<Rightarrow> string" where
  "ParseREDkitResponse response = response"

definition ValidateREDkitJSON :: "string \<Rightarrow> bool" where
  "ValidateREDkitJSON json \<longleftrightarrow> json \<noteq> [] \<and> CHR ''{'' \<in> set json"

text \<open>The first lines of every request, and a request that is sent and whose answer is checked.\<close>

definition available :: "REDkitBridge \<Rightarrow> bool" where
  "available r \<longleftrightarrow> rk_initialized r \<and> rk_redkitAvailable r"

definition unavailable :: "REDkitBridge \<Rightarrow> REDkitBridge" where
  "unavailable r = RK_SetError ''REDkitBridge not initialized or REDkit not available'' r"

definition request :: "string \<Rightarrow> string \<Rightarrow> string \<Rightarrow> REDkitBridge \<Rightarrow> string option \<times> REDkitBridge" where
  "request functionName parameters failure r =
     (if \<not> available r then (None, unavailable r)
      else let result = GetREDkitFunctionResult functionName parameters
           in if result = [] \<or> \<not> ValidateREDkitResponse result then (None, RK_SetError failure r)
              else (Some result, r))"

definition succeeded :: "'a option \<times> REDkitBridge \<Rightarrow> bool \<times> REDkitBridge" where
  "succeeded x = (fst x \<noteq> None, snd x)"

definition CreateMultiplayerQuest :: "string \<Rightarrow> string \<Rightarrow> REDkitBridge \<Rightarrow> bool \<times> REDkitBridge" where
  "CreateMultiplayerQuest questName description r =
     succeeded (request ''MP_REDkitIntegration.CreateMultiplayerQuest''
       (CreateREDkitParameters [(''questName'', questName), (''description'', description)])
       ''Failed to create multiplayer quest'' r)"

definition CreateMultiplayerUI :: "REDkitBridge \<Rightarrow> bool \<times> REDkitBridge" where
  "CreateMultiplayerUI r =
     succeeded (request ''MP_REDkitIntegration.CreateMultiplayerUI'' ''{}'' ''Failed to create multiplayer UI'' r)"

definition ExportGameData :: "REDkitBridge \<Rightarrow> string \<times> REDkitBridge" where
  "ExportGameData r =
     (case request ''MP_REDkitIntegration.ExportGameData'' ''{}'' ''Failed to export game data'' r of
        (None, r) \<Rightarrow> ([], r)
      | (Some result, r) \<Rightarrow> (result, r))"

definition ImportGameData :: "string \<Rightarrow> REDkitBridge \<Rightarrow> bool \<times> REDkitBridge" where
  "ImportGameData jsonData r =
     (if \<not> available r then (False, unavailable r)
      else if \<not> ValidateREDkitJSON jsonData then (False, RK_SetError ''Invalid JSON data for import'' r)
      else succeeded (request ''MP_REDkitIntegration.ImportGameData''
             (CreateREDkitParameters [(''jsonData'', jsonData)]) ''Failed to import game data'' r))"

text \<open>The data of an asset are the characters of the answer.\<close>

definition request_data :: "string \<Rightarrow> string \<Rightarrow> string \<Rightarrow> REDkitBridge \<Rightarrow> u8 list option \<times> REDkitBridge" where
  "request_data functionName parameters failure r =
     (let (result, r) = request functionName parameters failure r in (map_option bytes_of_string result, r))"

definition RK_LoadWeaponData ::
    "int \<Rightarrow> string \<Rightarrow> REDkitBridge \<Rightarrow> WitcherScriptBridge \<Rightarrow> u8 list option \<times> REDkitBridge \<times> WitcherScriptBridge" where
  "RK_LoadWeaponData now weaponType r w =
     (if \<not> available r then (None, unavailable r, w)
      else case LoadAssetFromWitcherScript now (''weapons/'' @ weaponType) w of
        (None, w) \<Rightarrow> (None, RK_SetError (''Failed to load weapon data via WitcherScript: '' @ weaponType) r, w)
      | (Some data, w) \<Rightarrow> (Some data, r, w))"

definition RK_LoadArmorData :: "string \<Rightarrow> REDkitBridge \<Rightarrow> u8 list option \<times> REDkitBridge" where
  "RK_LoadArmorData armorType =
     request_data ''MP_AssetManager.GetArmorData'' (CreateREDkitParameters [(''armorType'', armorType)])
       ''Failed to load armor data''"

definition RK_LoadItemData :: "string \<Rightarrow> REDkitBridge \<Rightarrow> u8 list option \<times> REDkitBridge" where
  "RK_LoadItemData itemType =
     request_data ''MP_AssetManager.GetItemData'' (CreateREDkitParameters [(''itemType'', itemType)])
       ''Failed to load item data''"

definition RK_LoadNPCData :: "string \<Rightarrow> REDkitBridge \<Rightarrow> u8 list option \<times> REDkitBridge" where
  "RK_LoadNPCData npcType =
     request_data ''MP_AssetManager.GetNPCData'' (CreateREDkitParameters [(''npcType'', npcType)])
       ''Failed to load NPC data''"

definition RK_LoadQuestData :: "string \<Rightarrow> REDkitBridge \<Rightarrow> u8 list option \<times> REDkitBridge" where
  "RK_LoadQuestData questType =
     request_data ''MP_AssetManager.GetQuestData'' (CreateREDkitParameters [(''questType'', questType)])
       ''Failed to load quest data''"

definition ExecuteDefense :: "u32 \<Rightarrow> u32 \<Rightarrow> u32 \<Rightarrow> REDkitBridge \<Rightarrow> bool \<times> REDkitBridge" where
  "ExecuteDefense playerId defenseType incomingAttackId r =
     succeeded (request ''MP_CombatSystem.ExecuteDefense''
       (CreateREDkitParameters [(''playerId'', to_string_u32 playerId), (''defenseType'', to_string_u32 defenseType),
         (''incomingAttackId'', to_string_u32 incomingAttackId)]) ''Failed to execute defense'' r)"

definition CreatePotion :: "u32 \<Rightarrow> string \<Rightarrow> u32 \<Rightarrow> REDkitBridge \<Rightarrow> bool \<times> REDkitBridge" where
  "CreatePotion playerId potionType quantity r =
     succeeded (request ''MP_AlchemySystem.CreatePotion''
       (CreateREDkitParameters [(''playerId'', to_string_u32 playerId), (''potionType'', potionType),
         (''quantity'', to_string_u32 quantity)]) ''Failed to create potion'' r)"

definition AddItemToInventory :: "u32 \<Rightarrow> u32 \<Rightarrow> u32 \<Rightarrow> REDkitBridge \<Rightarrow> bool \<times> REDkitBridge" where
  "AddItemToInventory playerId itemId quantity r =
     succeeded (request ''MP_InventorySystem.AddItem''
       (CreateREDkitParameters [(''playerId'', to_string_u32 playerId), (''itemId'', to_string_u32 itemId),
         (''quantity'', to_string_u32 quantity)]) ''Failed to add item to inventory'' r)"

definition RemoveItemFromInventory :: "u32 \<Rightarrow> u32 \<Rightarrow> u32 \<Rightarrow> REDkitBridge \<Rightarrow> bool \<times> REDkitBridge" where
  "RemoveItemFromInventory playerId itemId quantity r =
     succeeded (request ''MP_InventorySystem.RemoveItem''
       (CreateREDkitParameters [(''playerId'', to_string_u32 playerId), (''itemId'', to_string_u32 itemId),
         (''quantity'', to_string_u32 quantity)]) ''Failed to remove item from inventory'' r)"

text \<open>Requests that are not sent: they only check that the tool is there.\<close>

definition acknowledge :: "'a \<Rightarrow> 'a \<Rightarrow> REDkitBridge \<Rightarrow> 'a \<times> REDkitBridge" where
  "acknowledge refused granted r = (if \<not> available r then (refused, unavailable r) else (granted, r))"

definition PlayAttackAnimation :: "u32 \<Rightarrow> u32 \<Rightarrow> REDkitBridge \<Rightarrow> bool \<times> REDkitBridge" where
  "PlayAttackAnimation playerId attackType = acknowledge False True"

definition PlayDefenseAnimation :: "u32 \<Rightarrow> u32 \<Rightarrow> REDkitBridge \<Rightarrow> bool \<times> REDkitBridge" where
  "PlayDefenseAnimation playerId defenseType = acknowledge False True"

definition CanCastSign :: "u32 \<Rightarrow> u32 \<Rightarrow> u32 \<Rightarrow> REDkitBridge \<Rightarrow> bool \<times> REDkitBridge" where
  "CanCastSign playerId signType intensity = acknowledge False True"

definition GetSignCooldown :: "u32 \<Rightarrow> u32 \<Rightarrow> REDkitBridge \<Rightarrow> flt \<times> REDkitBridge" where
  "GetSignCooldown playerId signType = acknowledge (Fin 0) (Fin 0)"

definition CreateBomb :: "u32 \<Rightarrow> string \<Rightarrow> u32 \<Rightarrow> REDkitBridge \<Rightarrow> bool \<times> REDkitBridge" where
  "CreateBomb playerId bombType quantity = acknowledge False True"

definition CreateOil :: "u32 \<Rightarrow> string \<Rightarrow> u32 \<Rightarrow> REDkitBridge \<Rightarrow> bool \<times> REDkitBridge" where
  "CreateOil playerId oilType quantity = acknowledge False True"

definition RK_UseAlchemyItem :: "u32 \<Rightarrow> u32 \<Rightarrow> REDkitBridge \<Rightarrow> bool \<times> REDkitBridge" where
  "RK_UseAlchemyItem playerId itemId = acknowledge False True"

definition HasItemInInventory :: "u32 \<Rightarrow> u32 \<Rightarrow> REDkitBridge \<Rightarrow> bool \<times> REDkitBridge" where
  "HasItemInInventory playerId itemId = acknowledge False True"

definition GetItemQuantity :: "u32 \<Rightarrow> u32 \<Rightarrow> REDkitBridge \<Rightarrow> u32 \<times> REDkitBridge" where
  "GetItemQuantity playerId itemId = acknowledge 0 0"

definition GetInventoryWeight :: "u32 \<Rightarrow> REDkitBridge \<Rightarrow> flt \<times> REDkitBridge" where
  "GetInventoryWeight playerId = acknowledge (Fin 0) (Fin 0)"

definition SendToREDkit :: "string \<Rightarrow> REDkitBridge \<Rightarrow> bool \<times> REDkitBridge" where
  "SendToREDkit message = acknowledge False True"

definition ProcessFromREDkit :: "string \<Rightarrow> REDkitBridge \<Rightarrow> bool \<times> REDkitBridge" where
  "ProcessFromREDkit message = acknowledge False True"

section \<open>Events of the tool\<close>

definition OnQuestStateChanged :: "u32 \<Rightarrow> u32 \<Rightarrow> REDkitBridge \<Rightarrow> REDkitBridge" where
  "OnQuestStateChanged questId newState r =
     (if rk_questCallback r then r\<lparr>rk_events := rk_events r @ [QuestEvent questId newState]\<rparr> else r)"

definition OnPlayerAttacked :: "u32 \<Rightarrow> u32 \<Rightarrow> flt \<Rightarrow> REDkitBridge \<Rightarrow> REDkitBridge" where
  "OnPlayerAttacked playerId targetId damage r =
     (if rk_playerAttackCallback r then r\<lparr>rk_events := rk_events r @ [AttackEvent playerId targetId damage]\<rparr> else r)"

definition OnInventoryChanged :: "u32 \<Rightarrow> u32 \<Rightarrow> bool \<Rightarrow> REDkitBridge \<Rightarrow> REDkitBridge" where
  "OnInventoryChanged playerId itemId added r =
     (if rk_inventoryCallback r then r\<lparr>rk_events := rk_events r @ [InventoryEvent playerId itemId added]\<rparr> else r)"

definition SetQuestCallback :: "bool \<Rightarrow> REDkitBridge \<Rightarrow> REDkitBridge" where
  "SetQuestCallback callback r = r\<lparr>rk_questCallback := callback\<rparr>"

definition SetPlayerAttackCallback :: "bool \<Rightarrow> REDkitBridge \<Rightarrow> REDkitBridge" where
  "SetPlayerAttackCallback callback r = r\<lparr>rk_playerAttackCallback := callback\<rparr>"

definition SetInventoryCallback :: "bool \<Rightarrow> REDkitBridge \<Rightarrow> REDkitBridge" where
  "SetInventoryCallback callback r = r\<lparr>rk_inventoryCallback := callback\<rparr>"

section \<open>Damage\<close>

definition GetDamageTypeFromAttackType :: "u32 \<Rightarrow> string" where
  "GetDamageTypeFromAttackType attackType =
     (if attackType = 0 then ''DAMAGE_NAME_PHYSICAL'' else if attackType = 1 then ''DAMAGE_NAME_SLASHING''
      else if attackType = 2 then ''DAMAGE_NAME_PIERCING'' else if attackType = 3 then ''DAMAGE_NAME_BLUNT''
      else if attackType = 4 then ''DAMAGE_NAME_FIRE'' else if attackType = 5 then ''DAMAGE_NAME_FROST''
      else if attackType = 6 then ''DAMAGE_NAME_LIGHTNING'' else if attackType = 7 then ''DAMAGE_NAME_POISON''
      else ''DAMAGE_NAME_PHYSICAL'')"

definition base_damage :: "u32 \<Rightarrow> flt" where
  "base_damage weaponType =
     Fin (if weaponType = 0 then 20 else if weaponType = 1 then 60 else if weaponType = 2 then 70
          else if weaponType = 3 then 80 else if weaponType = 4 then 75 else if weaponType = 5 then 65
          else if weaponType = 6 then 90 else if weaponType = 7 then 85 else 50)"

definition attack_multiplier :: "u32 \<Rightarrow> flt" where
  "attack_multiplier attackType =
     rnd32 (if attackType = 0 then 8 / 10 else if attackType = 1 then 15 / 10 else if attackType = 2 then 2
            else if attackType = 3 then 12 / 10 else if attackType = 4 then 18 / 10
            else if attackType = 5 then 25 / 10 else 1)"

text \<open>\<open>random\<close> is the result of \<open>rand\<close>, between 0 and \<open>RAND_MAX\<close>.\<close>

definition CalculateDamage :: "nat \<Rightarrow> nat \<Rightarrow> u32 \<Rightarrow> u32 \<Rightarrow> flt" where
  "CalculateDamage random RAND_MAX attackType weaponType =
     (let randomFactor = add32 (rnd32 (9 / 10))
            (mul32 (div32 (f32_of_nat random) (f32_of_nat RAND_MAX)) (rnd32 (2 / 10)))
      in mul32 (mul32 (base_damage weaponType) (attack_multiplier attackType)) randomFactor)"

end
