(* ===== verification/CombatSystem.thy ===== *)
theory CombatSystem
  imports CombatProps Redkit
begin

text \<open>
  \<open>integration/CombatSystemIntegration.cpp\<close>: the combat system.  It starts the two bridges and the
  combat optimiser, turns the players' inputs, calls or bytes, into actions of the optimiser, and
  empties the queues from a thread of its own, whose rounds are operations here.  The singletons it
  points to are part of its state, with a flag for each pointer.  \<open>ClearAllQueues\<close> of the optimiser
  has no body and is an argument.
\<close>

section \<open>State\<close>

record CombatSystem =
  cy_redkitSet :: bool
  cy_scriptsSet :: bool
  cy_optimizerSet :: bool
  cy_redkit :: REDkitBridge
  cy_scripts :: WitcherScriptBridge
  cy_optimizer :: CombatOptimizer
  cy_initialized :: bool
  cy_processing :: bool
  cy_running :: bool
  cy_shouldStop :: bool
  cy_lastProcessTime :: time_point
  cy_processedActions :: u64
  cy_droppedActions :: u64
  cy_processingInterval :: u32
  cy_maxProcessingTime :: u32
  cy_maxQueueSize :: u32

definition CombatSystem_new ::
    "time_point \<Rightarrow> REDkitBridge \<Rightarrow> WitcherScriptBridge \<Rightarrow> CombatOptimizer \<Rightarrow> CombatSystem" where
  "CombatSystem_new now r w optimizer =
     \<lparr>cy_redkitSet = False, cy_scriptsSet = False, cy_optimizerSet = False, cy_redkit = r, cy_scripts = w,
      cy_optimizer = optimizer, cy_initialized = False, cy_processing = False, cy_running = False,
      cy_shouldStop = False, cy_lastProcessTime = now, cy_processedActions = 0, cy_droppedActions = 0,
      cy_processingInterval = 16, cy_maxProcessingTime = 10, cy_maxQueueSize = 1000\<rparr>"

definition InitializeSystems :: "bool \<Rightarrow> (string \<Rightarrow> bool) \<Rightarrow> bool \<Rightarrow> CombatSystem \<Rightarrow> bool \<times> CombatSystem" where
  "InitializeSystems lua exists piped s =
     (let (ok, r, w) = RK_Initialize lua exists piped (cy_redkit s) (cy_scripts s);
          s = s\<lparr>cy_redkitSet := True, cy_redkit := r, cy_scripts := w\<rparr>
      in if \<not> ok then (False, s)
         else let (ok, w) = WB_Initialize lua exists (cy_scripts s);
                  s = s\<lparr>cy_scriptsSet := True, cy_scripts := w\<rparr>
              in if \<not> ok then (False, s)
                 else let (ok, optimizer) = Combat_Initialize (cy_maxQueueSize s) 50 (cy_maxProcessingTime s) (cy_optimizer s)
                      in (ok, s\<lparr>cy_optimizerSet := True, cy_optimizer := optimizer\<rparr>))"

definition CS_Initialize ::
    "bool \<Rightarrow> (string \<Rightarrow> bool) \<Rightarrow> bool \<Rightarrow> u32 \<Rightarrow> u32 \<Rightarrow> u32 \<Rightarrow> CombatSystem \<Rightarrow> bool \<times> CombatSystem" where
  "CS_Initialize lua exists piped processingInterval maxProcessingTime maxQueueSize s =
     (if cy_initialized s then (True, s)
      else let s = s\<lparr>cy_processingInterval := processingInterval, cy_maxProcessingTime := maxProcessingTime,
                 cy_maxQueueSize := maxQueueSize\<rparr>;
               (ok, s) = InitializeSystems lua exists piped s
           in if \<not> ok then (False, s) else (True, s\<lparr>cy_initialized := True\<rparr>))"

text \<open>\<open>StopProcessing\<close> joins the thread, which ends as \<open>m_shouldStop\<close> is set.\<close>

definition StartProcessing :: "CombatSystem \<Rightarrow> bool \<times> CombatSystem" where
  "StartProcessing s =
     (if \<not> cy_initialized s then (False, s)
      else if cy_running s then (True, s)
      else (True, s\<lparr>cy_shouldStop := False, cy_running := True\<rparr>))"

definition StopProcessing :: "CombatSystem \<Rightarrow> bool \<times> CombatSystem" where
  "StopProcessing s =
     (if \<not> cy_running s then (True, s) else (True, s\<lparr>cy_shouldStop := True, cy_running := False\<rparr>))"

definition PauseProcessing :: "CombatSystem \<Rightarrow> bool \<times> CombatSystem" where
  "PauseProcessing s = (if \<not> cy_running s then (False, s) else (True, s\<lparr>cy_processing := False\<rparr>))"

definition ResumeProcessing :: "CombatSystem \<Rightarrow> bool \<times> CombatSystem" where
  "ResumeProcessing s = (if \<not> cy_running s then (False, s) else (True, s\<lparr>cy_processing := True\<rparr>))"

definition ShutdownSystems :: "(CombatOptimizer \<Rightarrow> CombatOptimizer) \<Rightarrow> CombatSystem \<Rightarrow> CombatSystem" where
  "ShutdownSystems clearAll s =
     (let s = (if cy_optimizerSet s then s\<lparr>cy_optimizer := snd (Combat_Shutdown clearAll (cy_optimizer s))\<rparr> else s);
          s = (if cy_scriptsSet s then s\<lparr>cy_scripts := WB_Shutdown (cy_scripts s)\<rparr> else s)
      in if cy_redkitSet s then s\<lparr>cy_redkit := RK_Shutdown (cy_redkit s)\<rparr> else s)"

definition CS_Shutdown :: "(CombatOptimizer \<Rightarrow> CombatOptimizer) \<Rightarrow> CombatSystem \<Rightarrow> bool \<times> CombatSystem" where
  "CS_Shutdown clearAll s =
     (if \<not> cy_initialized s then (True, s)
      else (True, (ShutdownSystems clearAll (snd (StopProcessing s)))\<lparr>cy_initialized := False\<rparr>))"

section \<open>Actions\<close>

text \<open>An action is handed to the optimiser; a refused one is counted as dropped.\<close>

definition submit ::
    "(CombatOptimizer \<Rightarrow> (bool \<times> CombatOptimizer) option) \<Rightarrow> CombatSystem \<Rightarrow> (bool \<times> CombatSystem) option" where
  "submit add s =
     (if \<not> cy_initialized s then Some (False, s)
      else map_option (\<lambda>(result, optimizer).
             let s = s\<lparr>cy_optimizer := optimizer\<rparr>
             in (result, if result then s else s\<lparr>cy_droppedActions := cy_droppedActions s + 1\<rparr>))
           (add (cy_optimizer s)))"

definition CS_ExecuteAttack ::
    "time_point \<Rightarrow> u32 \<Rightarrow> u32 \<Rightarrow> u32 \<Rightarrow> Vector4F \<Rightarrow> CombatSystem \<Rightarrow> (bool \<times> CombatSystem) option" where
  "CS_ExecuteAttack now playerId attackType weaponType targetPosition =
     submit (AddAttackAction now playerId attackType weaponType targetPosition)"

definition CS_ExecuteDefense ::
    "time_point \<Rightarrow> u32 \<Rightarrow> u32 \<Rightarrow> u32 \<Rightarrow> CombatSystem \<Rightarrow> (bool \<times> CombatSystem) option" where
  "CS_ExecuteDefense now playerId defenseType incomingAttackId =
     submit (AddDefenseAction now playerId defenseType incomingAttackId)"

definition CS_CastSign ::
    "time_point \<Rightarrow> u32 \<Rightarrow> u32 \<Rightarrow> Vector4F \<Rightarrow> CombatSystem \<Rightarrow> (bool \<times> CombatSystem) option" where
  "CS_CastSign now playerId signType targetPosition = submit (AddSignAction now playerId signType targetPosition)"

definition CS_PlayAnimation ::
    "time_point \<Rightarrow> u32 \<Rightarrow> u32 \<Rightarrow> bool \<Rightarrow> CombatSystem \<Rightarrow> (bool \<times> CombatSystem) option" where
  "CS_PlayAnimation now playerId animationType isAttack =
     submit (AddAnimationAction now playerId animationType isAttack)"

definition CS_UpdatePlayerPosition ::
    "time_point \<Rightarrow> u32 \<Rightarrow> Vector4F \<Rightarrow> Vector4F \<Rightarrow> CombatSystem \<Rightarrow> (bool \<times> CombatSystem) option" where
  "CS_UpdatePlayerPosition now playerId newPosition velocity =
     submit (AddMovementAction now playerId newPosition velocity)"

record SequenceAction =
  sq_type :: CombatActionType
  sq_playerId :: u32
  sq_data :: "u8 list"
  sq_priority :: u32
  sq_timestamp :: time_point

definition SequenceAction_new :: "time_point \<Rightarrow> SequenceAction" where
  "SequenceAction_new now = \<lparr>sq_type = Attack, sq_playerId = 0, sq_data = [], sq_priority = 0, sq_timestamp = now\<rparr>"

text \<open>Data that are too short are no success; a \<open>bool\<close> other than 0 and 1 is undefined.\<close>

definition sequence_action ::
    "time_point \<Rightarrow> u32 \<Rightarrow> SequenceAction \<Rightarrow> CombatSystem \<Rightarrow> (bool \<times> CombatSystem) option" where
  "sequence_action now playerId action s =
     (let d = sq_data action
      in case sq_type action of
        Attack \<Rightarrow> if 28 \<le> length d
          then CS_ExecuteAttack now playerId (read_le32 d) (read_le32 (drop 4 d)) (read_vector (drop 8 d)) s
          else Some (False, s)
      | Defense \<Rightarrow> if 8 \<le> length d
          then CS_ExecuteDefense now playerId (read_le32 d) (read_le32 (drop 4 d)) s else Some (False, s)
      | Sign \<Rightarrow> if 20 \<le> length d
          then CS_CastSign now playerId (read_le32 d) (read_vector (drop 4 d)) s else Some (False, s)
      | Animation \<Rightarrow> if 5 \<le> length d
          then (if d ! 4 = 1 then CS_PlayAnimation now playerId (read_le32 d) True s
                else if d ! 4 = 0 then CS_PlayAnimation now playerId (read_le32 d) False s else None)
          else Some (False, s)
      | Movement \<Rightarrow> if 32 \<le> length d
          then CS_UpdatePlayerPosition now playerId (read_vector d) (read_vector (drop 16 d)) s else Some (False, s))"

fun sequence_actions ::
    "time_point \<Rightarrow> u32 \<Rightarrow> SequenceAction list \<Rightarrow> bool \<Rightarrow> CombatSystem \<Rightarrow> (bool \<times> CombatSystem) option" where
  "sequence_actions now playerId [] allSuccess s = Some (allSuccess, s)"
| "sequence_actions now playerId (a # as) allSuccess s =
     (case sequence_action now playerId a s of
        None \<Rightarrow> None
      | Some (result, t) \<Rightarrow> sequence_actions now playerId as (allSuccess \<and> result) t)"

definition ExecuteCombatSequence ::
    "time_point \<Rightarrow> u32 \<Rightarrow> SequenceAction list \<Rightarrow> CombatSystem \<Rightarrow> (bool \<times> CombatSystem) option" where
  "ExecuteCombatSequence now playerId actions s =
     (if \<not> cy_initialized s then Some (False, s) else sequence_actions now playerId actions True s)"

definition ProcessPlayerInput ::
    "time_point \<Rightarrow> u32 \<Rightarrow> u8 list \<Rightarrow> CombatSystem \<Rightarrow> (bool \<times> CombatSystem) option" where
  "ProcessPlayerInput now playerId inputData s =
     (if \<not> cy_initialized s then Some (False, s)
      else if length inputData < 4 then Some (False, s)
      else let actionType = read_le32 inputData; d = drop 4 inputData
           in if actionType = 0 \<and> 28 \<le> length inputData
              then CS_ExecuteAttack now playerId (read_le32 d) (read_le32 (drop 4 d)) (read_vector (drop 8 d)) s
              else if actionType = 1 \<and> 12 \<le> length inputData
              then CS_ExecuteDefense now playerId (read_le32 d) (read_le32 (drop 4 d)) s
              else if actionType = 2 \<and> 24 \<le> length inputData
              then CS_CastSign now playerId (read_le32 d) (read_vector (drop 4 d)) s
              else Some (False, s))"

section \<open>Processing\<close>

definition UpdatePerformanceMetrics :: "time_point \<Rightarrow> CombatSystem \<Rightarrow> CombatSystem" where
  "UpdatePerformanceMetrics now s =
     (let s = s\<lparr>cy_lastProcessTime := now\<rparr>
      in if cy_optimizerSet s
         then s\<lparr>cy_droppedActions := ct_droppedActions (Combat_GetStatistics (cy_optimizer s))\<rparr> else s)"

definition ProcessCombatActions ::
    "time_point \<Rightarrow> time_point \<Rightarrow> time_point \<Rightarrow> CombatSystem \<Rightarrow> (bool \<times> CombatSystem) option" where
  "ProcessCombatActions t0 t1 t2 s =
     (if \<not> cy_optimizerSet s then Some (False, s)
      else map_option (\<lambda>(result, optimizer).
             let s = UpdatePerformanceMetrics t2 (s\<lparr>cy_optimizer := optimizer\<rparr>)
             in (result, if result then s\<lparr>cy_processedActions := cy_processedActions s + 1\<rparr> else s))
           (ProcessActions t0 t1 t2 (cy_optimizer s)))"

text \<open>One round of the thread, which runs between \<open>StartProcessing\<close> and \<open>StopProcessing\<close>.\<close>

definition processing_round ::
    "time_point \<Rightarrow> time_point \<Rightarrow> time_point \<Rightarrow> CombatSystem \<Rightarrow> CombatSystem option" where
  "processing_round t0 t1 t2 s =
     (if cy_running s \<and> \<not> cy_shouldStop s \<and> cy_processing s then map_option snd (ProcessCombatActions t0 t1 t2 s)
      else Some s)"

definition ForceProcessActions ::
    "time_point \<Rightarrow> time_point \<Rightarrow> time_point \<Rightarrow> CombatSystem \<Rightarrow> CombatSystem option" where
  "ForceProcessActions t0 t1 t2 s =
     (if \<not> cy_optimizerSet s then Some s
      else map_option (\<lambda>(result, optimizer). s\<lparr>cy_optimizer := optimizer\<rparr>) (ProcessActions t0 t1 t2 (cy_optimizer s)))"

section \<open>Queries and settings\<close>

definition CS_GetProcessingLoad :: "CombatSystem \<Rightarrow> flt option" where
  "CS_GetProcessingLoad s =
     (if \<not> cy_optimizerSet s then Some (Fin 0) else map_option fst (GetProcessingLoad (cy_optimizer s)))"

definition CS_IsOverloaded :: "CombatSystem \<Rightarrow> bool option" where
  "CS_IsOverloaded s =
     (if \<not> cy_optimizerSet s then Some False else map_option fst (IsOverloaded (cy_optimizer s)))"

definition CS_GetAverageProcessingTime :: "CombatSystem \<Rightarrow> u64" where
  "CS_GetAverageProcessingTime s =
     (if \<not> cy_optimizerSet s then 0 else GetAverageProcessingTime (cy_optimizer s))"

definition CS_ResetStatistics :: "CombatSystem \<Rightarrow> CombatSystem" where
  "CS_ResetStatistics s =
     (let s = s\<lparr>cy_processedActions := 0, cy_droppedActions := 0\<rparr>
      in if cy_optimizerSet s then s\<lparr>cy_optimizer := Combat_ResetStatistics (cy_optimizer s)\<rparr> else s)"

definition IsHealthy :: "CombatSystem \<Rightarrow> bool option" where
  "IsHealthy s = (if \<not> cy_initialized s then Some False else map_option Not (CS_IsOverloaded s))"

definition SetProcessingInterval :: "u32 \<Rightarrow> CombatSystem \<Rightarrow> CombatSystem" where
  "SetProcessingInterval interval s = s\<lparr>cy_processingInterval := interval\<rparr>"

definition SetMaxProcessingTime :: "u32 \<Rightarrow> CombatSystem \<Rightarrow> CombatSystem" where
  "SetMaxProcessingTime maxTime s = s\<lparr>cy_maxProcessingTime := maxTime\<rparr>"

definition CS_SetMaxQueueSize :: "u32 \<Rightarrow> CombatSystem \<Rightarrow> CombatSystem" where
  "CS_SetMaxQueueSize maxSize s = s\<lparr>cy_maxQueueSize := maxSize\<rparr>"

record CombatSystemConfig =
  cc_processingInterval :: u32
  cc_maxProcessingTime :: u32
  cc_maxQueueSize :: u32
  cc_batchSize :: u32
  cc_enablePerformanceMonitoring :: bool
  cc_enableStatistics :: bool
  cc_enableDebugLogging :: bool

definition CombatSystemConfig_new :: CombatSystemConfig where
  "CombatSystemConfig_new = \<lparr>cc_processingInterval = 16, cc_maxProcessingTime = 10, cc_maxQueueSize = 1000,
     cc_batchSize = 50, cc_enablePerformanceMonitoring = True, cc_enableStatistics = True,
     cc_enableDebugLogging = False\<rparr>"

definition GetHighPerformanceConfig :: CombatSystemConfig where
  "GetHighPerformanceConfig = CombatSystemConfig_new\<lparr>cc_processingInterval := 8, cc_maxProcessingTime := 5,
     cc_maxQueueSize := 2000, cc_batchSize := 100\<rparr>"

definition GetLowLatencyConfig :: CombatSystemConfig where
  "GetLowLatencyConfig = CombatSystemConfig_new\<lparr>cc_processingInterval := 4, cc_maxProcessingTime := 2,
     cc_maxQueueSize := 500, cc_batchSize := 25\<rparr>"

definition CreateCombatSystem ::
    "bool \<Rightarrow> (string \<Rightarrow> bool) \<Rightarrow> bool \<Rightarrow> CombatSystemConfig \<Rightarrow> CombatSystem \<Rightarrow> CombatSystem option" where
  "CreateCombatSystem lua exists piped config s =
     (let (ok, s) = CS_Initialize lua exists piped (cc_processingInterval config) (cc_maxProcessingTime config)
            (cc_maxQueueSize config) s
      in if \<not> ok then None else Some s)"

definition CS_ValidateConfiguration :: "CombatSystemConfig \<Rightarrow> bool" where
  "CS_ValidateConfiguration config \<longleftrightarrow> 0 < cc_processingInterval config \<and> 0 < cc_maxProcessingTime config
     \<and> 0 < cc_maxQueueSize config \<and> 0 < cc_batchSize config"

definition GetValidationErrors :: "CombatSystemConfig \<Rightarrow> string list" where
  "GetValidationErrors config =
     (if cc_processingInterval config = 0 then [''Processing interval must be greater than 0''] else [])
     @ (if cc_maxProcessingTime config = 0 then [''Max processing time must be greater than 0''] else [])
     @ (if cc_maxQueueSize config = 0 then [''Max queue size must be greater than 0''] else [])
     @ (if cc_batchSize config = 0 then [''Batch size must be greater than 0''] else [])"

definition CS_ValidateSystemHealth :: "CombatSystem \<Rightarrow> bool option" where
  "CS_ValidateSystemHealth s =
     (case IsHealthy s of
        None \<Rightarrow> None
      | Some False \<Rightarrow> Some False
      | Some True \<Rightarrow> if cy_initialized s then map_option Not (CS_IsOverloaded s) else Some False)"

section \<open>Operations\<close>

datatype SystemOp =
    CsInitialize bool "string \<Rightarrow> bool" bool u32 u32 u32
  | CsShutdown
  | CsAttack time_point u32 u32 u32 Vector4F
  | CsDefense time_point u32 u32 u32
  | CsSign time_point u32 u32 Vector4F
  | CsAnimation time_point u32 u32 bool
  | CsMove time_point u32 Vector4F Vector4F
  | CsSequence time_point u32 "SequenceAction list"
  | CsInput time_point u32 "u8 list"
  | CsStart
  | CsStop
  | CsPause
  | CsResume
  | CsRound time_point time_point time_point
  | CsForce time_point time_point time_point
  | CsReset
  | CsSettings u32 u32 u32

fun system_step ::
    "(CombatOptimizer \<Rightarrow> CombatOptimizer) \<Rightarrow> SystemOp \<Rightarrow> CombatSystem \<Rightarrow> CombatSystem option" where
  "system_step clearAll (CsInitialize lua e p a b c) s = Some (snd (CS_Initialize lua e p a b c s))"
| "system_step clearAll CsShutdown s = Some (snd (CS_Shutdown clearAll s))"
| "system_step clearAll (CsAttack t p a w v) s = map_option snd (CS_ExecuteAttack t p a w v s)"
| "system_step clearAll (CsDefense t p d i) s = map_option snd (CS_ExecuteDefense t p d i s)"
| "system_step clearAll (CsSign t p g v) s = map_option snd (CS_CastSign t p g v s)"
| "system_step clearAll (CsAnimation t p a b) s = map_option snd (CS_PlayAnimation t p a b s)"
| "system_step clearAll (CsMove t p v w) s = map_option snd (CS_UpdatePlayerPosition t p v w s)"
| "system_step clearAll (CsSequence t p as) s = map_option snd (ExecuteCombatSequence t p as s)"
| "system_step clearAll (CsInput t p d) s = map_option snd (ProcessPlayerInput t p d s)"
| "system_step clearAll CsStart s = Some (snd (StartProcessing s))"
| "system_step clearAll CsStop s = Some (snd (StopProcessing s))"
| "system_step clearAll CsPause s = Some (snd (PauseProcessing s))"
| "system_step clearAll CsResume s = Some (snd (ResumeProcessing s))"
| "system_step clearAll (CsRound t0 t1 t2) s = processing_round t0 t1 t2 s"
| "system_step clearAll (CsForce t0 t1 t2) s = ForceProcessActions t0 t1 t2 s"
| "system_step clearAll CsReset s = Some (CS_ResetStatistics s)"
| "system_step clearAll (CsSettings a b c) s =
     Some (CS_SetMaxQueueSize c (SetMaxProcessingTime b (SetProcessingInterval a s)))"

end
