(* ===== verification/CombatSystemProps.thy ===== *)
theory CombatSystemProps
  imports CombatSystem
begin

text \<open>
  The combat system over the optimiser: what an input is decoded to, what its thread does before
  processing is resumed, and that no input gets through.
\<close>

section \<open>Decoding\<close>

text \<open>An input in the format that the code reads, and an action with the data of the optimiser.\<close>

lemma input_decoded:
  assumes "cy_initialized s"
  shows "ProcessPlayerInput now p (le32 0 @ le32 attackType @ le32 weaponType @ vector_bytes v) s
      = CS_ExecuteAttack now p attackType weaponType v s"
    and "ProcessPlayerInput now p (le32 1 @ le32 defenseType @ le32 attackId) s
      = CS_ExecuteDefense now p defenseType attackId s"
    and "ProcessPlayerInput now p (le32 2 @ le32 signType @ vector_bytes v) s = CS_CastSign now p signType v s"
  using assms by (simp_all add: ProcessPlayerInput_def Let_def)

lemma sequence_decoded:
  "sequence_action now p a s =
     (case sq_type a of
        Attack \<Rightarrow> CS_ExecuteAttack now p attackType weaponType target s
      | Defense \<Rightarrow> CS_ExecuteDefense now p defenseType attackId s
      | Sign \<Rightarrow> CS_CastSign now p signType target s
      | Movement \<Rightarrow> CS_UpdatePlayerPosition now p position velocity s
      | Animation \<Rightarrow> CS_PlayAnimation now p animationType isAttack s)"
  if "sq_data a =
     (case sq_type a of
        Attack \<Rightarrow> attack_data attackType weaponType target
      | Defense \<Rightarrow> defense_data defenseType attackId
      | Sign \<Rightarrow> sign_data signType target
      | Movement \<Rightarrow> vector_bytes position @ vector_bytes velocity
      | Animation \<Rightarrow> animation_data animationType isAttack)"
  using that
  by (cases "sq_type a")
    (simp_all add: sequence_action_def attack_data_def defense_data_def sign_data_def animation_data_def nth_append Let_def)

section \<open>Nothing gets through\<close>

text \<open>The optimiser has never been used, and it is initialised when the system is.\<close>

definition unused_system :: "CombatSystem \<Rightarrow> bool" where
  "unused_system s \<longleftrightarrow> idle (cy_optimizer s) \<and> (cy_initialized s \<longrightarrow> cb_initialized (cy_optimizer s))"

lemma submit_typed:
  assumes "unused_system s"
  shows "submit (add_typed type now p data) s = (if cy_initialized s then None else Some (False, s))"
  using assms by (simp add: submit_def unused_system_def add_typed_def GenerateActionId_def AddAction_cases)

lemmas system_actions =
  CS_ExecuteAttack_def CS_ExecuteDefense_def CS_CastSign_def CS_PlayAnimation_def CS_UpdatePlayerPosition_def
  AddAttackAction_def AddDefenseAction_def AddSignAction_def AddAnimationAction_def AddMovementAction_def

lemma input_refused:
  assumes "unused_system s" "ProcessPlayerInput now p d s = Some (ok, t)"
  shows "\<not> ok \<and> t = s"
  using assms submit_typed [OF assms(1)]
  by (auto simp: ProcessPlayerInput_def system_actions Let_def split: if_splits)

lemma action_refused:
  assumes "unused_system s" "sequence_action now p a s = Some (ok, t)"
  shows "\<not> ok \<and> t = s"
  using assms submit_typed [OF assms(1)]
  by (auto simp: sequence_action_def system_actions Let_def split: if_splits CombatActionType.splits)

lemma actions_refused:
  "unused_system s \<Longrightarrow> sequence_actions now p as b s = Some (ok, t) \<Longrightarrow> t = s"
proof (induction now p as b s rule: sequence_actions.induct)
  case (2 now p a as b s)
  then obtain r u where a: "sequence_action now p a s = Some (r, u)" by (auto split: option.splits)
  have "u = s" using action_refused [OF 2(2) a] by simp
  then show ?case using 2 a by simp
qed simp

lemma unused_initialize:
  assumes "unused_system s"
  shows "unused_system (snd (CS_Initialize lua e piped a b c s))"
  using assms
  by (auto simp: CS_Initialize_def InitializeSystems_def Combat_Initialize_def unused_system_def idle_def all_priorities
      queue_of_def Let_def split_def)

lemma unused_shutdown:
  assumes "clears_queues clearAll" "unused_system s"
  shows "unused_system (snd (CS_Shutdown clearAll s))"
  using assms
  by (auto simp: CS_Shutdown_def ShutdownSystems_def StopProcessing_def Combat_Shutdown_def unused_system_def idle_def
      clears_queues_def all_priorities queue_of_def Let_def)

lemma ProcessActions_initialized:
  "ProcessActions t0 t1 t2 s = Some (r, t) \<Longrightarrow> idle s \<Longrightarrow> cb_initialized t = cb_initialized s"
proof -
  assume p: "ProcessActions t0 t1 t2 s = Some (r, t)" and i: "idle s"
  have q: "\<And>p. queue_of p s = []" using i by (simp add: idle_def)
  have "run ProcessActionQueue [Critical, High, Medium, Low] (s\<lparr>cb_processing := True\<rparr>) = Some (s\<lparr>cb_processing := True\<rparr>)"
    by (simp add: ProcessActionQueue_empty q)
  then show ?thesis using p
    by (auto simp: ProcessActions_def CleanupOldActions_def with_queue_lock_def UpdateStatistics_def Let_def
        split: if_splits simp del: run.simps)
qed

lemma unused_update:
  assumes "unused_system s" "ProcessActions t0 t1 t2 (cy_optimizer s) = Some (r, optimizer)"
  shows "idle optimizer" "cy_initialized s \<longrightarrow> cb_initialized optimizer"
  using assms idle_ProcessActions ProcessActions_initialized unfolding unused_system_def by blast+

lemma unused_round:
  assumes "unused_system s" "processing_round t0 t1 t2 s = Some t"
  shows "unused_system t"
  using assms unused_update [OF assms(1)]
  by (auto simp: processing_round_def ProcessCombatActions_def UpdatePerformanceMetrics_def unused_system_def Let_def
      split: if_splits)

lemma unused_force:
  assumes "unused_system s" "ForceProcessActions t0 t1 t2 s = Some t"
  shows "unused_system t"
  using assms unused_update [OF assms(1)]
  by (auto simp: ForceProcessActions_def unused_system_def split: if_splits)

lemma unused_step:
  assumes "unused_system s" "clears_queues clearAll" "system_step clearAll x s = Some t"
  shows "unused_system t"
proof (cases x)
  case (CsInitialize lua e p a b c)
  then show ?thesis using assms unused_initialize by auto
next
  case CsShutdown
  then show ?thesis using assms unused_shutdown by auto
next
  case (CsSequence now p as)
  then show ?thesis using assms
    by (auto simp: ExecuteCombatSequence_def split: if_splits dest: actions_refused)
next
  case (CsInput now p d)
  then show ?thesis using assms by (auto dest: input_refused)
next
  case (CsRound t0 t1 t2)
  then show ?thesis using assms unused_round by auto
next
  case (CsForce t0 t1 t2)
  then show ?thesis using assms unused_force by auto
qed (use assms submit_typed [OF assms(1)] in
    \<open>auto simp: system_actions StartProcessing_def StopProcessing_def PauseProcessing_def ResumeProcessing_def
      CS_ResetStatistics_def Combat_ResetStatistics_def CombatStats_new_def unused_system_def idle_def all_priorities
      SetProcessingInterval_def SetMaxProcessingTime_def CS_SetMaxQueueSize_def queue_of_def Let_def split: if_splits\<close>)

interpretation combat: step_system "system_step clearAll" unused_system "\<lambda>x. clears_queues clearAll" for clearAll
  by unfold_locales (rule unused_step)

text \<open>
  C40.  In every run of the combat system no input gets through: no input of a player is ever
  accepted and the game is never called.  An attack, a defence or a sign that reaches an
  initialised system never returns: the optimiser locks the mutex of its queues twice.
\<close>

theorem no_combat_input_gets_through:
  assumes "clears_queues clearAll"
    and "run (system_step clearAll) ops (CombatSystem_new now r w (CombatOptimizer_new now')) = Some s"
  shows "\<not> (\<exists>t. ProcessPlayerInput time p d s = Some (True, t)) \<and> cb_calls (cy_optimizer s) = []
    \<and> (cy_initialized s \<longrightarrow> CS_ExecuteAttack time p attackType weaponType v s = None
        \<and> CS_ExecuteDefense time p defenseType attackId s = None \<and> CS_CastSign time p signType v s = None)"
proof -
  have "unused_system (CombatSystem_new now r w (CombatOptimizer_new now'))"
    by (simp add: unused_system_def CombatSystem_new_def idle_new)
  then have u: "unused_system s"
    using combat.run_inv [OF _ _ assms(2)] assms(1) by (simp add: list_all_iff)
  then have "cb_calls (cy_optimizer s) = []" by (simp add: unused_system_def idle_def)
  then show ?thesis
    using input_refused [OF u, of time p d True] submit_typed [OF u] by (auto simp: system_actions)
qed

theorem no_combat_input_gets_through_witness:
  "let s = snd (CS_Initialize True (\<lambda>_. True) True 16 10 1000
       (CombatSystem_new 0 REDkitBridge_new WitcherScriptBridge_new (CombatOptimizer_new 0)))
   in cy_initialized s \<and> CS_ExecuteDefense 0 7 1 2 s = None"
proof -
  let ?n = "CombatSystem_new 0 REDkitBridge_new WitcherScriptBridge_new (CombatOptimizer_new 0)"
  let ?s = "snd (CS_Initialize True (\<lambda>_. True) True 16 10 1000 ?n)"
  let ?clear = "\<lambda>s. s\<lparr>cb_criticalQueue := [], cb_highQueue := [], cb_mediumQueue := [], cb_lowQueue := []\<rparr>"
  have c: "clears_queues ?clear" by (simp add: clears_queues_def)
  have r: "run (system_step ?clear) [CsInitialize True (\<lambda>_. True) True 16 10 1000] ?n = Some ?s" by simp
  have "cy_initialized ?s"
    by (simp add: CS_Initialize_def InitializeSystems_def RK_Initialize_def WB_Initialize_def Combat_Initialize_def
        InitializeWitcherScriptEngine_def CreateWitcherScriptEngine_def InitializeREDkitCommunication_def
        CombatSystem_new_def REDkitBridge_new_def WitcherScriptBridge_new_def Let_def split_def default_scripts_def
        LoadWitcherScript_def WB_ready_def WB_SetError_def)
  then show ?thesis
    using no_combat_input_gets_through [OF c r, of 0 7 "[]" 0 0 "\<lparr>v_x = 0, v_y = 0, v_z = 0, v_w = 0\<rparr>" 1 2 0]
    by (simp add: Let_def)
qed

section \<open>The thread\<close>

text \<open>
  \<open>StartProcessing\<close> does not set \<open>m_processing\<close>: without \<open>ResumeProcessing\<close> the rounds of the thread do
  nothing, however often it is started.
\<close>

definition paused :: "CombatSystem \<Rightarrow> bool" where
  "paused s \<longleftrightarrow> \<not> cy_processing s"

lemma submit_paused: "submit add s = Some (r, t) \<Longrightarrow> cy_processing t = cy_processing s"
  by (cases "add (cy_optimizer s)") (auto simp: submit_def Let_def split: if_splits)

lemma sequence_paused: "sequence_action now p a s = Some (r, t) \<Longrightarrow> cy_processing t = cy_processing s"
  by (auto simp: sequence_action_def system_actions Let_def split: if_splits CombatActionType.splits dest: submit_paused)

lemma sequences_paused: "sequence_actions now p as b s = Some (r, t) \<Longrightarrow> cy_processing t = cy_processing s"
proof (induction now p as b s rule: sequence_actions.induct)
  case (2 now p a as b s)
  then obtain q u where a: "sequence_action now p a s = Some (q, u)" by (auto split: option.splits)
  show ?case using 2 a sequence_paused [OF a] by simp
qed simp

lemma input_paused: "ProcessPlayerInput now p d s = Some (r, t) \<Longrightarrow> cy_processing t = cy_processing s"
  by (auto simp: ProcessPlayerInput_def system_actions Let_def split: if_splits dest: submit_paused)

lemma initialize_paused: "cy_processing (snd (CS_Initialize lua e piped a b c s)) = cy_processing s"
  by (simp add: CS_Initialize_def InitializeSystems_def Let_def split_def)

lemma shutdown_paused: "cy_processing (snd (CS_Shutdown clearAll s)) = cy_processing s"
  by (simp add: CS_Shutdown_def ShutdownSystems_def StopProcessing_def Let_def)

lemma force_paused: "ForceProcessActions t0 t1 t2 s = Some t \<Longrightarrow> cy_processing t = cy_processing s"
  by (auto simp: ForceProcessActions_def split: if_splits)

lemma paused_step:
  assumes "paused s" "x \<noteq> CsResume" "system_step clearAll x s = Some t"
  shows "paused t"
proof (cases x)
  case (CsSequence now p as)
  then show ?thesis using assms
    by (auto simp: paused_def ExecuteCombatSequence_def split: if_splits dest: sequences_paused)
next
  case (CsInitialize lua e piped a b c)
  then show ?thesis using assms initialize_paused [of lua e piped a b c s] by (auto simp: paused_def)
next
  case CsShutdown
  then show ?thesis using assms shutdown_paused [of clearAll s] by (auto simp: paused_def)
qed (use assms in \<open>auto simp: paused_def system_actions StartProcessing_def StopProcessing_def PauseProcessing_def
      processing_round_def CS_ResetStatistics_def SetProcessingInterval_def SetMaxProcessingTime_def
      CS_SetMaxQueueSize_def Let_def split: if_splits
      dest: submit_paused input_paused force_paused\<close>)

interpretation thread: step_system "system_step clearAll" paused "\<lambda>x. x \<noteq> CsResume" for clearAll
  by unfold_locales (rule paused_step)

lemma rounds_wait_for_resume:
  assumes "run (system_step clearAll) ops (CombatSystem_new now r w optimizer) = Some s" "CsResume \<notin> set ops"
  shows "processing_round t0 t1 t2 s = Some s"
proof -
  have "paused s"
    using thread.run_inv [OF _ _ assms(1)] assms(2) by (auto simp: paused_def CombatSystem_new_def list_all_iff)
  then show ?thesis by (simp add: processing_round_def paused_def)
qed

section \<open>Configurations\<close>

text \<open>The list of errors is empty exactly for the configurations that pass the check.\<close>

lemma validation_errors: "GetValidationErrors config = [] \<longleftrightarrow> CS_ValidateConfiguration config"
  by (auto simp: GetValidationErrors_def CS_ValidateConfiguration_def word_neq_0_conv)

lemma configurations_valid:
  "CS_ValidateConfiguration CombatSystemConfig_new \<and> CS_ValidateConfiguration GetHighPerformanceConfig
    \<and> CS_ValidateConfiguration GetLowLatencyConfig"
  by (simp add: CS_ValidateConfiguration_def CombatSystemConfig_new_def GetHighPerformanceConfig_def GetLowLatencyConfig_def)

end
