(* ===== verification/Crc.thy ===== *)
theory Crc
  imports Prelude
begin

text \<open>
  The checksum of \<open>integration/AssetLoader.cpp\<close>: the bitwise CRC-32.  The step over one bit is a
  linear injection of the register, and running the bytes one by one is running the register of
  the bytes read as one little-endian number; so no change of at most four neighbouring bytes
  goes unnoticed.
\<close>

unbundle bit_operations_syntax

section \<open>The checksum\<close>

definition crc_bit :: "u32 \<Rightarrow> u32" where
  "crc_bit crc = (if crc AND 1 \<noteq> 0 then drop_bit 1 crc XOR 0xEDB88320 else drop_bit 1 crc)"

definition crc_byte :: "u8 \<Rightarrow> u32 \<Rightarrow> u32" where
  "crc_byte byte crc = (crc_bit ^^ 8) (crc XOR ucast byte)"

definition CalculateChecksum :: "u8 list \<Rightarrow> u32" where
  "CalculateChecksum data = NOT (fold crc_byte data 0xFFFFFFFF)"

section \<open>One bit\<close>

lemma xor_cancel_iff: "(a :: 'a::len word) XOR c = b XOR c \<longleftrightarrow> a = b"
  by (metis xor.assoc xor.right_neutral xor_self_eq)

lemma xor_zero_iff: "(a :: 'a::len word) XOR b = 0 \<longleftrightarrow> a = b"
  using xor_cancel_iff [of a b b] by simp

lemma crc_bit_odd: "crc_bit c = (if odd c then drop_bit 1 c XOR 0xEDB88320 else drop_bit 1 c)"
  by (simp add: crc_bit_def and_one_eq odd_iff_mod_2_eq_one)

lemma crc_bit_xor: "crc_bit (a XOR b) = crc_bit a XOR crc_bit b"
proof -
  have o: "odd (a XOR b) \<longleftrightarrow> odd a \<noteq> odd b" for a b :: u32
    by (simp add: bit_0 [symmetric] bit_xor_iff)
  show ?thesis
    by (simp add: crc_bit_odd o drop_bit_xor xor.assoc xor.commute xor.left_commute)
qed

lemma crc_bits_xor: "(crc_bit ^^ n) (a XOR b) = (crc_bit ^^ n) a XOR (crc_bit ^^ n) b"
  by (induction n) (simp_all add: crc_bit_xor)

lemma crc_bit_eq_0: "crc_bit c = 0 \<Longrightarrow> c = 0"
proof -
  assume z: "crc_bit c = 0"
  have top: "\<not> bit (drop_bit 1 c) 31" using bit_imp_le_length [of c 32] by (auto simp: bit_drop_bit_eq)
  show "c = 0"
  proof (cases "odd c")
    case True
    then have "drop_bit 1 c = 0xEDB88320" using z by (simp add: crc_bit_odd xor_zero_iff)
    moreover have "bit (0xEDB88320 :: u32) 31" by code_simp
    ultimately show ?thesis using top by simp
  next
    case False
    then have "drop_bit 1 c = 0" using z by (simp add: crc_bit_odd)
    moreover have "2 * (c div 2) = c" using div_mult_mod_eq [of c 2] False by (simp add: even_iff_mod_2_eq_zero mult.commute)
    ultimately have "c = 0" by (simp add: drop_bit_eq_div)
    then show ?thesis .
  qed
qed

lemma crc_bits_eq_0: "(crc_bit ^^ n) c = 0 \<Longrightarrow> c = 0"
  by (induction n) (auto dest: crc_bit_eq_0)

lemma crc_bits_inject: "(crc_bit ^^ n) a = (crc_bit ^^ n) b \<longleftrightarrow> a = b"
  using crc_bits_eq_0 [of n "a XOR b"] by (auto simp: crc_bits_xor xor_zero_iff)

lemma crc_byte_inject: "crc_byte b s = crc_byte b t \<longleftrightarrow> s = t"
  by (simp add: crc_byte_def crc_bits_inject xor_cancel_iff)

lemma crc_bytes_inject: "fold crc_byte data s = fold crc_byte data t \<longleftrightarrow> s = t"
  by (induction data arbitrary: s t) (simp_all add: crc_byte_inject)

section \<open>Bytes as one number\<close>

primrec pack :: "u8 list \<Rightarrow> u32" where
  "pack [] = 0"
| "pack (b # bs) = ucast b XOR push_bit 8 (pack bs)"

lemma bit_pack: "bit (pack bs) n \<Longrightarrow> n < 8 * length bs"
proof (induction bs arbitrary: n)
  case (Cons b bs)
  show ?case
  proof (cases "n < 8")
    case False
    then have "\<not> bit b n" using bit_imp_le_length [of b n] by auto
    then have "bit (pack bs) (n - 8)"
      using Cons.prems by (simp add: bit_xor_iff bit_push_bit_iff bit_ucast_iff)
    then show ?thesis using Cons.IH by force
  qed simp
qed simp

lemma crc_bits_push: "(\<And>k. bit x k \<Longrightarrow> k + n < 32) \<Longrightarrow> (crc_bit ^^ n) (push_bit n x) = x"
proof (induction n)
  case (Suc n)
  have "crc_bit (push_bit (Suc n) x) = drop_bit 1 (push_bit (Suc n) x)"
    by (simp add: crc_bit_odd)
  also have "\<dots> = push_bit n x"
  proof (rule bit_eqI)
    fix k
    assume "possible_bit TYPE(32 word) k"
    then have "bit x (k - n) \<Longrightarrow> n \<le> k \<Longrightarrow> Suc k < 32" using Suc.prems [of "k - n"] by simp
    then show "bit (drop_bit 1 (push_bit (Suc n) x)) k = bit (push_bit n x) k"
      by (auto simp: bit_drop_bit_eq bit_push_bit_iff simp del: push_bit_Suc drop_bit_Suc dest: bit_imp_le_length)
  qed
  finally have "crc_bit (push_bit (Suc n) x) = push_bit n x" .
  moreover have "(crc_bit ^^ n) (push_bit n x) = x" using Suc by fastforce
  ultimately show ?case by (simp add: funpow_swap1 [of crc_bit n "push_bit (Suc n) x"] del: funpow.simps) (simp add: funpow_swap1)
qed simp

text \<open>Up to four bytes one by one, and all their bits at once.\<close>

lemma crc_bytes_pack:
  "length bs \<le> 4 \<Longrightarrow> fold crc_byte bs s = (crc_bit ^^ (8 * length bs)) (s XOR pack bs)"
proof (induction bs arbitrary: s)
  case (Cons b bs)
  have "bit (pack bs) k \<Longrightarrow> k + 8 < 32" for k
    using bit_pack [of bs k] Cons.prems by simp
  then have p: "(crc_bit ^^ 8) (push_bit 8 (pack bs)) = pack bs" by (rule crc_bits_push)
  have "fold crc_byte (b # bs) s = (crc_bit ^^ (8 * length bs)) (crc_byte b s XOR pack bs)"
    using Cons by simp
  also have "\<dots> = (crc_bit ^^ (8 * length bs)) ((crc_bit ^^ 8) ((s XOR ucast b) XOR push_bit 8 (pack bs)))"
    unfolding crc_bits_xor [of 8 "s XOR ucast b"] p crc_byte_def ..
  also have "\<dots> = (crc_bit ^^ (8 * length (b # bs))) (s XOR pack (b # bs))"
  proof -
    have l: "8 * length (b # bs) = 8 * length bs + 8" by simp
    show ?thesis unfolding l funpow_add by (simp add: xor.assoc)
  qed
  finally show ?case .
qed simp

lemma pack_inject: "length bs = length cs \<Longrightarrow> length bs \<le> 4 \<Longrightarrow> pack bs = pack cs \<longleftrightarrow> bs = cs"
proof (induction bs cs rule: list_induct2)
  case (Cons b bs c cs)
  have "b = c \<and> pack bs = pack cs" if eq: "pack (b # bs) = pack (c # cs)"
  proof
    have e: "bit (pack (b # bs)) n = bit (pack (c # cs)) n" for n using eq by simp
    show "b = c"
    proof (rule bit_eqI)
      fix n
      assume "possible_bit TYPE(8 word) n"
      then have "n < 8" by simp
      then show "bit b n = bit c n"
        using e [of n] by (simp add: bit_xor_iff bit_push_bit_iff bit_ucast_iff)
    qed
    show "pack bs = pack cs"
    proof (rule bit_eqI)
      fix n
      have o: "\<not> bit b (n + 8)" "\<not> bit c (n + 8)"
        using bit_imp_le_length [of b "n + 8"] bit_imp_le_length [of c "n + 8"] by auto
      show "bit (pack bs) n = bit (pack cs) n"
      proof (cases "n < 24")
        case True
        then show ?thesis
          using e [of "n + 8"] o by (simp add: bit_xor_iff bit_push_bit_iff bit_ucast_iff)
      next
        case False
        then have "\<not> bit (pack bs) n" "\<not> bit (pack cs) n"
          using bit_pack [of bs n] bit_pack [of cs n] Cons.prems Cons.hyps by auto
        then show ?thesis by simp
      qed
    qed
  qed
  with Cons show ?case by auto
qed simp

section \<open>What the checksum notices\<close>

lemma checksum_inject:
  "length bs = length cs \<Longrightarrow> length bs \<le> 4 \<Longrightarrow>
    CalculateChecksum (before @ bs @ after) = CalculateChecksum (before @ cs @ after) \<longleftrightarrow> bs = cs"
  by (simp add: CalculateChecksum_def crc_bytes_inject crc_bytes_pack crc_bits_inject pack_inject
      xor_cancel_iff xor.commute [of _ "pack _"])

lemma checksum_prefix:
  "CalculateChecksum (before @ data) = CalculateChecksum (before' @ data)
    \<longleftrightarrow> fold crc_byte before 0xFFFFFFFF = fold crc_byte before' 0xFFFFFFFF"
  by (simp add: CalculateChecksum_def crc_bytes_inject)

lemma two_zero_bytes_change_the_checksum: "CalculateChecksum (0 # 0 # data) \<noteq> CalculateChecksum data"
proof -
  have "fold crc_byte [0, 0] 0xFFFFFFFF \<noteq> 0xFFFFFFFF" by code_simp
  then show ?thesis using checksum_prefix [of "[0, 0]" data "[]"] by simp
qed

end
