(* ===== verification/Assets.thy ===== *)
theory Assets
  imports Compression Crc Redkit
begin

text \<open>
  \<open>integration/AssetLoader.cpp\<close>: a table of assets and a table of bundles.  Assets come from files,
  from the bridge to the game scripts or from bundles; they are checked, compressed and written to
  files.  The three services it uses, the bridges and the compression, are part of its state.

  The disk holds files and directories by their names as text; names without a drive, without
  \<open>.\<close> and \<open>..\<close> and without doubled separators are meant.  Whether directories can be made
  (\<open>creatable\<close>), files be written (\<open>writable\<close>), the Lua library, the scripts and the pipe be had
  (\<open>lua\<close>, \<open>exists\<close>, \<open>piped\<close>) and the time are arguments.  The tables are unordered maps: the
  listings take the order as an argument, the sums do not depend on it.  Reading a byte that a
  short file left unread and going on with an iterator that was erased are undefined (\<open>None\<close>).
\<close>

section \<open>Data\<close>

datatype AssetType = UnknownType | Weapon | Armor | Item | NPC | Quest | Bundle | Texture | Model | Sound | Script

record AssetData =
  ad_name :: string
  ad_type :: AssetType
  ad_data :: "u8 list"
  ad_originalSize :: u64
  ad_compressedSize :: u64
  ad_isCompressed :: bool
  ad_filePath :: string
  ad_checksum :: u32
  ad_timestamp :: u64

definition AssetData_new :: AssetData where
  "AssetData_new = \<lparr>ad_name = [], ad_type = UnknownType, ad_data = [], ad_originalSize = 0, ad_compressedSize = 0,
     ad_isCompressed = False, ad_filePath = [], ad_checksum = 0, ad_timestamp = 0\<rparr>"

record BundleInfo =
  bi_name :: string
  bi_path :: string
  bi_assets :: "string list"
  bi_totalSize :: u64
  bi_isLoaded :: bool
  bi_version :: u32

datatype asset_event = AssetLoaded string | AssetUnloaded string | BundleLoaded string

record AssetLoader =
  al_initialized :: bool
  al_lastError :: string
  al_loadedAssets :: "(string, AssetData) omap"
  al_loadedBundles :: "(string, BundleInfo) omap"
  al_redkit :: REDkitBridge
  al_scripts :: WitcherScriptBridge
  al_compression :: DataCompression
  al_assetLoadedCallback :: bool
  al_assetUnloadedCallback :: bool
  al_bundleLoadedCallback :: bool
  al_events :: "asset_event list"

definition AssetLoader_new :: "REDkitBridge \<Rightarrow> WitcherScriptBridge \<Rightarrow> DataCompression \<Rightarrow> AssetLoader" where
  "AssetLoader_new redkit scripts compression =
     \<lparr>al_initialized = False, al_lastError = [], al_loadedAssets = [], al_loadedBundles = [], al_redkit = redkit,
      al_scripts = scripts, al_compression = compression, al_assetLoadedCallback = False,
      al_assetUnloadedCallback = False, al_bundleLoadedCallback = False, al_events = []\<rparr>"

definition SUPPORTED_BUNDLE_EXTENSIONS :: "string list" where
  "SUPPORTED_BUNDLE_EXTENSIONS = [''.bundle'', ''.pak'', ''.archive'']"

definition SUPPORTED_ASSET_EXTENSIONS :: "string list" where
  "SUPPORTED_ASSET_EXTENSIONS = [''.ws'', ''.w2ent'', ''.w2mesh'', ''.w2rig'', ''.w2animev'', ''.w2mi'', ''.w2p'',
     ''.w2scene'', ''.w2beh'', ''.w2behtree'', ''.w2quest'', ''.w2phase'', ''.w2job'', ''.w2l'', ''.w2p'', ''.w2w'',
     ''.w2x'', ''.w2fx'', ''.w2mg'', ''.w2em'', ''.w2et'', ''.w2pe'', ''.w2sm'', ''.w2beh'', ''.w2behtree'',
     ''.w2quest'', ''.w2phase'', ''.w2job'', ''.w2l'', ''.w2p'', ''.w2w'', ''.w2x'', ''.w2fx'', ''.w2mg'', ''.w2em'',
     ''.w2et'', ''.w2pe'', ''.w2sm'']"

definition MAX_ASSET_SIZE :: int where
  "MAX_ASSET_SIZE = 100 * 1024 * 1024"

definition MAX_BUNDLE_SIZE :: int where
  "MAX_BUNDLE_SIZE = 1024 * 1024 * 1024"

definition AL_SetError :: "string \<Rightarrow> AssetLoader \<Rightarrow> AssetLoader" where
  "AL_SetError error s = s\<lparr>al_lastError := error\<rparr>"

definition AL_ClearError :: "AssetLoader \<Rightarrow> AssetLoader" where
  "AL_ClearError s = s\<lparr>al_lastError := []\<rparr>"

definition notify_loader :: "(AssetLoader \<Rightarrow> bool) \<Rightarrow> asset_event \<Rightarrow> AssetLoader \<Rightarrow> AssetLoader" where
  "notify_loader callback e s = (if callback s then s\<lparr>al_events := al_events s @ [e]\<rparr> else s)"

section \<open>Names of files\<close>

definition is_separator :: "char \<Rightarrow> bool" where
  "is_separator c \<longleftrightarrow> c = CHR ''/'' \<or> c = CHR 0x5C"

definition GetFileName :: "string \<Rightarrow> string" where
  "GetFileName filePath = rev (takeWhile (\<lambda>c. \<not> is_separator c) (rev filePath))"

text \<open>The extension of a name starts at its last dot, which is not its first character.\<close>

definition GetFileExtension :: "string \<Rightarrow> string" where
  "GetFileExtension filePath =
     (let name = GetFileName filePath;
          suffix = rev (takeWhile (\<lambda>c. c \<noteq> CHR ''.'') (rev name))
      in if CHR ''.'' \<notin> set name \<or> length suffix + 1 = length name \<or> name = ''..'' then []
         else CHR ''.'' # suffix)"

definition lower_extension :: "string \<Rightarrow> string" where
  "lower_extension filePath = map tolower (GetFileExtension filePath)"

definition GetAssetTypeFromExtension :: "string \<Rightarrow> AssetType" where
  "GetAssetTypeFromExtension filePath =
     (let extension = lower_extension filePath
      in if extension = ''.ws'' then Script
         else if extension = ''.w2ent'' then NPC
         else if extension \<in> set [''.w2mesh'', ''.w2rig'', ''.w2animev''] then Model
         else if extension \<in> set [''.w2mi'', ''.w2p''] then Item
         else if extension \<in> set [''.w2scene'', ''.w2beh'', ''.w2behtree'', ''.w2quest'', ''.w2phase'', ''.w2job'',
             ''.w2l'', ''.w2w'', ''.w2x'', ''.w2fx'', ''.w2mg'', ''.w2em'', ''.w2et'', ''.w2pe'', ''.w2sm''] then Quest
         else if extension = ''.bundle'' \<or> extension = ''.pak'' \<or> extension = ''.archive'' then Bundle
         else UnknownType)"

definition GetAssetTypeFromName :: "string \<Rightarrow> AssetType" where
  "GetAssetTypeFromName assetName =
     (if contains ''weapon'' assetName \<or> contains ''sword'' assetName then Weapon
      else if contains ''armor'' assetName \<or> contains ''armour'' assetName then Armor
      else if contains ''item'' assetName \<or> contains ''potion'' assetName then Item
      else if contains ''npc'' assetName \<or> contains ''character'' assetName then NPC
      else if contains ''quest'' assetName \<or> contains ''mission'' assetName then Quest
      else UnknownType)"

definition GetAssetExtension :: "AssetType \<Rightarrow> string" where
  "GetAssetExtension type =
     (case type of Script \<Rightarrow> ''.ws'' | NPC \<Rightarrow> ''.w2ent'' | Model \<Rightarrow> ''.w2mesh'' | Item \<Rightarrow> ''.w2mi''
      | Quest \<Rightarrow> ''.w2quest'' | Bundle \<Rightarrow> ''.bundle'' | _ \<Rightarrow> [])"

definition IsValidAssetFile :: "string \<Rightarrow> bool" where
  "IsValidAssetFile filePath \<longleftrightarrow> filePath \<noteq> [] \<and> lower_extension filePath \<in> set SUPPORTED_ASSET_EXTENSIONS"

section \<open>The disk\<close>

record disk =
  dk_files :: "string \<Rightarrow> u8 list option"
  dk_dirs :: "string list"

definition AL_FileExists :: "disk \<Rightarrow> string \<Rightarrow> bool" where
  "AL_FileExists d filePath \<longleftrightarrow> dk_files d filePath \<noteq> None \<or> filePath \<in> set (dk_dirs d)"

text \<open>The size of what is not a file is an exception, which is caught.\<close>

definition GetFileSize :: "disk \<Rightarrow> string \<Rightarrow> u64" where
  "GetFileSize d filePath = (case dk_files d filePath of None \<Rightarrow> 0 | Some bs \<Rightarrow> of_nat (length bs))"

text \<open>The directories on the way to a path, the path included.\<close>

definition directories_of :: "string \<Rightarrow> string list" where
  "directories_of path = map (\<lambda>i. take i path) (filter (\<lambda>i. is_separator (path ! i)) [1..<length path]) @ [path]"

text \<open>\<open>create_directories\<close> reports whether it created the directory.\<close>

definition CreateDirectoryIfNotExists :: "bool \<Rightarrow> string \<Rightarrow> disk \<Rightarrow> bool \<times> disk" where
  "CreateDirectoryIfNotExists creatable path d =
     (if path = [] \<or> path \<in> set (dk_dirs d) \<or> (\<exists>p \<in> set (directories_of path). dk_files d p \<noteq> None) \<or> \<not> creatable
      then (False, d)
      else (True, d\<lparr>dk_dirs := dk_dirs d @ directories_of path\<rparr>))"

text \<open>\<open>filePath.substr(0, filePath.find_last_of("/\\"))\<close>: all of it when there is no separator.\<close>

definition directory_part :: "string \<Rightarrow> string" where
  "directory_part filePath =
     (if \<exists>c \<in> set filePath. is_separator c
      then rev (tl (dropWhile (\<lambda>c. \<not> is_separator c) (rev filePath))) else filePath)"

section \<open>The table of assets\<close>

definition ValidateAsset :: "AssetData \<Rightarrow> bool" where
  "ValidateAsset a \<longleftrightarrow> ad_name a \<noteq> [] \<and> ad_data a \<noteq> [] \<and> int (length (ad_data a)) \<le> MAX_ASSET_SIZE"

definition VerifyAssetIntegrity :: "AssetData \<Rightarrow> bool" where
  "VerifyAssetIntegrity a \<longleftrightarrow> CalculateChecksum (ad_data a) = ad_checksum a"

definition RegisterAsset :: "AssetData \<Rightarrow> AssetLoader \<Rightarrow> bool \<times> AssetLoader" where
  "RegisterAsset a s =
     (if \<not> al_initialized s then (False, AL_SetError ''AssetLoader not initialized'' s)
      else if \<not> ValidateAsset a then (False, AL_SetError ''Invalid asset data'' s)
      else (True, notify_loader al_assetLoadedCallback (AssetLoaded (ad_name a))
              (s\<lparr>al_loadedAssets := om_put (ad_name a) a (al_loadedAssets s)\<rparr>)))"

definition UnregisterAsset :: "string \<Rightarrow> AssetLoader \<Rightarrow> bool \<times> AssetLoader" where
  "UnregisterAsset assetName s =
     (if \<not> al_initialized s then (False, AL_SetError ''AssetLoader not initialized'' s)
      else case om_find (al_loadedAssets s) assetName of
        None \<Rightarrow> (False, AL_SetError (''Asset not found: '' @ assetName) s)
      | Some a \<Rightarrow> (True, notify_loader al_assetUnloadedCallback (AssetUnloaded assetName)
                    (s\<lparr>al_loadedAssets := om_erase assetName (al_loadedAssets s)\<rparr>)))"

definition IsAssetLoaded :: "string \<Rightarrow> AssetLoader \<Rightarrow> bool" where
  "IsAssetLoaded assetName s \<longleftrightarrow> om_find (al_loadedAssets s) assetName \<noteq> None"

definition GetAsset :: "string \<Rightarrow> AssetLoader \<Rightarrow> AssetData" where
  "GetAsset assetName s = om_get AssetData_new (al_loadedAssets s) assetName"

definition GetLoadedAssets :: "(string \<times> AssetData) list \<Rightarrow> string list" where
  "GetLoadedAssets order = map fst order"

definition FindAssetsByType :: "AssetType \<Rightarrow> (string \<times> AssetData) list \<Rightarrow> string list" where
  "FindAssetsByType type order = map fst (filter (\<lambda>pair. ad_type (snd pair) = type) order)"

definition FindAssetsByPattern :: "string \<Rightarrow> (string \<times> AssetData) list \<Rightarrow> string list" where
  "FindAssetsByPattern pattern order = map fst (filter (\<lambda>pair. contains pattern (fst pair)) order)"

definition FindAssetsInBundle :: "string \<Rightarrow> AssetLoader \<Rightarrow> string list" where
  "FindAssetsInBundle bundleName s =
     (case om_find (al_loadedBundles s) bundleName of None \<Rightarrow> [] | Some b \<Rightarrow> bi_assets b)"

section \<open>Assets from files and from the scripts\<close>

text \<open>The fields that describe data as it was read.\<close>

definition describe :: "int \<Rightarrow> AssetData \<Rightarrow> AssetData" where
  "describe now a = a\<lparr>ad_originalSize := of_nat (length (ad_data a)), ad_compressedSize := of_nat (length (ad_data a)),
     ad_isCompressed := False, ad_checksum := CalculateChecksum (ad_data a), ad_timestamp := word_of_int now\<rparr>"

definition LoadAssetFromFileSystem ::
    "int \<Rightarrow> disk \<Rightarrow> string \<Rightarrow> AssetData \<Rightarrow> AssetLoader \<Rightarrow> bool \<times> AssetData \<times> AssetLoader" where
  "LoadAssetFromFileSystem now d filePath a s =
     (case dk_files d filePath of
        None \<Rightarrow> (False, a, AL_SetError (''Failed to open file: '' @ filePath) s)
      | Some bs \<Rightarrow>
          if MAX_ASSET_SIZE < int (length bs) then (False, a, AL_SetError (''File too large: '' @ filePath) s)
          else (True, describe now (a\<lparr>ad_data := bs\<rparr>), s))"

definition LoadAssetFromFile ::
    "int \<Rightarrow> disk \<Rightarrow> string \<Rightarrow> AssetData \<Rightarrow> AssetLoader \<Rightarrow> bool \<times> AssetData \<times> AssetLoader" where
  "LoadAssetFromFile now d filePath a s =
     (if \<not> al_initialized s then (False, a, AL_SetError ''AssetLoader not initialized'' s)
      else if \<not> IsValidAssetFile filePath then (False, a, AL_SetError (''Invalid asset file: '' @ filePath) s)
      else let a = a\<lparr>ad_name := GetFileName filePath, ad_type := GetAssetTypeFromExtension filePath, ad_filePath := filePath\<rparr>;
               (ok, a, s) = LoadAssetFromFileSystem now d filePath a s
           in if \<not> ok then (False, a, AL_SetError (''Failed to load asset from file: '' @ filePath) s)
              else (True, a, snd (RegisterAsset a s)))"

definition category :: "AssetType \<Rightarrow> string option" where
  "category type =
     (case type of Weapon \<Rightarrow> Some ''weapons/'' | Armor \<Rightarrow> Some ''armor/'' | Item \<Rightarrow> Some ''items/''
      | NPC \<Rightarrow> Some ''npcs/'' | Quest \<Rightarrow> Some ''quests/'' | _ \<Rightarrow> None)"

text \<open>An asset of the scripts: the data on success, the error of the bridge in its state.\<close>

definition load_script_asset :: "int \<Rightarrow> string \<Rightarrow> AssetLoader \<Rightarrow> u8 list option \<times> AssetLoader" where
  "load_script_asset now name s =
     (let (data, w) = LoadAssetFromWitcherScript now name (al_scripts s) in (data, s\<lparr>al_scripts := w\<rparr>))"

definition LoadAssetFromREDkit ::
    "int \<Rightarrow> string \<Rightarrow> AssetType \<Rightarrow> AssetData \<Rightarrow> AssetLoader \<Rightarrow> bool \<times> AssetData \<times> AssetLoader" where
  "LoadAssetFromREDkit now assetName type a s =
     (case category type of
        None \<Rightarrow> (False, a, AL_SetError ''Unsupported asset type for WitcherScript loading'' s)
      | Some prefix \<Rightarrow>
          (case load_script_asset now (prefix @ assetName) s of
             (None, s) \<Rightarrow> (False, a, AL_SetError (''Failed to load asset from WitcherScript: '' @ prefix @ assetName) s)
           | (Some data, s) \<Rightarrow> (True, describe now (a\<lparr>ad_data := data\<rparr>), s)))"

definition LoadWeaponData ::
    "int \<Rightarrow> string \<Rightarrow> AssetData \<Rightarrow> AssetLoader \<Rightarrow> bool \<times> AssetData \<times> AssetLoader" where
  "LoadWeaponData now weaponType a s =
     (if \<not> al_initialized s then (False, a, AL_SetError ''AssetLoader not initialized'' s)
      else let a = a\<lparr>ad_name := weaponType, ad_type := Weapon, ad_filePath := ''witcherscript://weapons/'' @ weaponType\<rparr>
           in case load_script_asset now (''weapons/'' @ weaponType) s of
                (None, s) \<Rightarrow> (False, a, AL_SetError (''Failed to load weapon data from WitcherScript: '' @ weaponType) s)
              | (Some data, s) \<Rightarrow>
                  let a = describe now (a\<lparr>ad_data := data\<rparr>) in (True, a, snd (RegisterAsset a s)))"

text \<open>The four other loaders differ in the type, the path and the name of the kind in the error.\<close>

definition load_kind ::
    "AssetType \<Rightarrow> string \<Rightarrow> string \<Rightarrow> int \<Rightarrow> string \<Rightarrow> AssetData \<Rightarrow> AssetLoader \<Rightarrow> bool \<times> AssetData \<times> AssetLoader" where
  "load_kind type path kind now name a s =
     (if \<not> al_initialized s then (False, a, AL_SetError ''AssetLoader not initialized'' s)
      else let a = a\<lparr>ad_name := name, ad_type := type, ad_filePath := path @ name\<rparr>;
               (ok, a, s) = LoadAssetFromREDkit now name type a s
           in if \<not> ok then (False, a, AL_SetError (''Failed to load '' @ kind @ '' data from REDkit: '' @ name) s)
              else (True, a, snd (RegisterAsset a s)))"

definition LoadArmorData :: "int \<Rightarrow> string \<Rightarrow> AssetData \<Rightarrow> AssetLoader \<Rightarrow> bool \<times> AssetData \<times> AssetLoader" where
  "LoadArmorData = load_kind Armor ''redkit://armor/'' ''armor''"

definition LoadItemData :: "int \<Rightarrow> string \<Rightarrow> AssetData \<Rightarrow> AssetLoader \<Rightarrow> bool \<times> AssetData \<times> AssetLoader" where
  "LoadItemData = load_kind Item ''redkit://items/'' ''item''"

definition LoadNPCData :: "int \<Rightarrow> string \<Rightarrow> AssetData \<Rightarrow> AssetLoader \<Rightarrow> bool \<times> AssetData \<times> AssetLoader" where
  "LoadNPCData = load_kind NPC ''redkit://npcs/'' ''NPC''"

definition LoadQuestData :: "int \<Rightarrow> string \<Rightarrow> AssetData \<Rightarrow> AssetLoader \<Rightarrow> bool \<times> AssetData \<times> AssetLoader" where
  "LoadQuestData = load_kind Quest ''redkit://quests/'' ''quest''"

definition SaveAssetToFile ::
    "bool \<Rightarrow> bool \<Rightarrow> string \<Rightarrow> AssetData \<Rightarrow> AssetLoader \<times> disk \<Rightarrow> bool \<times> AssetLoader \<times> disk" where
  "SaveAssetToFile creatable writable filePath a sd =
     (let (s, d) = sd
      in if \<not> al_initialized s then (False, AL_SetError ''AssetLoader not initialized'' s, d)
         else let directory = directory_part filePath;
                  (created, d) = CreateDirectoryIfNotExists creatable directory d
              in if \<not> created then (False, AL_SetError (''Failed to create directory: '' @ directory) s, d)
                 else if \<not> writable \<or> filePath \<in> set (dk_dirs d)
                 then (False, AL_SetError (''Failed to open file for writing: '' @ filePath) s, d)
                 else (True, s, d\<lparr>dk_files := (dk_files d)(filePath := Some (ad_data a))\<rparr>))"

section \<open>Bundles\<close>

text \<open>\<open>strncmp\<close> reads up to the first difference.\<close>

fun starts_with :: "u8 list \<Rightarrow> u8 list \<Rightarrow> bool option" where
  "starts_with [] bs = Some True"
| "starts_with (c # cs) [] = None"
| "starts_with (c # cs) (b # bs) = (if b \<noteq> c then Some False else starts_with cs bs)"

text \<open>The names in the directory of a bundle: entries of 32 bytes with a size that is not zero.\<close>

fun bundle_entries :: "nat \<Rightarrow> u8 list \<Rightarrow> string list option" where
  "bundle_entries 0 bs = Some []"
| "bundle_entries (Suc n) bs =
     (if length bs < 32 then None
      else let fileName = string_of_bytes (takeWhile (\<lambda>b. b \<noteq> 0) (take 16 bs));
               size = read_le32 (drop 20 bs)
           in map_option (\<lambda>names. if fileName \<noteq> [] \<and> 0 < size then fileName # names else names)
                (bundle_entries n (drop 32 bs)))"

text \<open>
  The outer \<open>None\<close> is a read of bytes that the file does not have, the inner one a failure.  After a
  header cut short the stream has failed, and its position is -1.
\<close>

definition ParseBundleFile :: "disk \<Rightarrow> string \<Rightarrow> BundleInfo option option" where
  "ParseBundleFile d bundlePath =
     (case dk_files d bundlePath of
        None \<Rightarrow> Some None
      | Some bs \<Rightarrow>
          (case starts_with (bytes_of_string ''BNDL'') bs of
             None \<Rightarrow> None
           | Some False \<Rightarrow>
               Some (Some \<lparr>bi_name = GetFileName bundlePath, bi_path = bundlePath,
                 bi_assets = [''asset1'', ''asset2'', ''asset3''], bi_totalSize = GetFileSize d bundlePath,
                 bi_isLoaded = True, bi_version = 1\<rparr>)
           | Some True \<Rightarrow>
               if length bs < 12 then None
               else map_option (\<lambda>names. Some \<lparr>bi_name = GetFileName bundlePath, bi_path = bundlePath,
                      bi_assets = names, bi_totalSize = (if length bs < 32 then - 1 else of_nat (length bs)), bi_isLoaded = True,
                      bi_version = read_le32 (drop 4 bs)\<rparr>)
                    (bundle_entries (min (unat (read_le32 (drop 8 bs))) 1000) (drop 32 bs))))"

definition ValidateBundleFile :: "disk \<Rightarrow> string \<Rightarrow> bool" where
  "ValidateBundleFile d bundlePath \<longleftrightarrow> AL_FileExists d bundlePath
     \<and> uint (GetFileSize d bundlePath) \<le> MAX_BUNDLE_SIZE
     \<and> lower_extension bundlePath \<in> set SUPPORTED_BUNDLE_EXTENSIONS"

definition LoadBundleInternal :: "disk \<Rightarrow> string \<Rightarrow> AssetLoader \<Rightarrow> (BundleInfo option \<times> AssetLoader) option" where
  "LoadBundleInternal d bundlePath s =
     (if \<not> ValidateBundleFile d bundlePath
      then Some (None, AL_SetError (''Invalid bundle file: '' @ bundlePath) s)
      else case ParseBundleFile d bundlePath of
        None \<Rightarrow> None
      | Some None \<Rightarrow> Some (None, AL_SetError (''Failed to parse bundle file: '' @ bundlePath) s)
      | Some (Some bundleInfo) \<Rightarrow> Some (Some bundleInfo, s))"

definition LoadBundle :: "disk \<Rightarrow> string \<Rightarrow> AssetLoader \<Rightarrow> (bool \<times> AssetLoader) option" where
  "LoadBundle d bundlePath s =
     (if \<not> al_initialized s then Some (False, AL_SetError ''AssetLoader not initialized'' s)
      else if \<not> IsValidAssetFile bundlePath
      then Some (False, AL_SetError (''Invalid bundle file: '' @ bundlePath) s)
      else case LoadBundleInternal d bundlePath s of
        None \<Rightarrow> None
      | Some (None, s) \<Rightarrow> Some (False, AL_SetError (''Failed to load bundle: '' @ bundlePath) s)
      | Some (Some b, s) \<Rightarrow>
          Some (True, notify_loader al_bundleLoadedCallback (BundleLoaded (bi_name b))
                        (s\<lparr>al_loadedBundles := om_put (bi_name b) b (al_loadedBundles s)\<rparr>)))"

definition UnloadBundle :: "string \<Rightarrow> AssetLoader \<Rightarrow> bool \<times> AssetLoader" where
  "UnloadBundle bundleName s =
     (if \<not> al_initialized s then (False, AL_SetError ''AssetLoader not initialized'' s)
      else case om_find (al_loadedBundles s) bundleName of
        None \<Rightarrow> (False, AL_SetError (''Bundle not found: '' @ bundleName) s)
      | Some b \<Rightarrow>
          let s = fold (\<lambda>assetName s. snd (UnregisterAsset assetName s)) (bi_assets b) s
          in (True, s\<lparr>al_loadedBundles := om_erase bundleName (al_loadedBundles s)\<rparr>))"

definition IsBundleLoaded :: "string \<Rightarrow> AssetLoader \<Rightarrow> bool" where
  "IsBundleLoaded bundleName s \<longleftrightarrow> om_find (al_loadedBundles s) bundleName \<noteq> None"

definition GetLoadedBundles :: "(string \<times> BundleInfo) list \<Rightarrow> string list" where
  "GetLoadedBundles order = map fst order"

definition ExtractAssetFromBundle :: "int \<Rightarrow> string \<Rightarrow> string \<Rightarrow> AssetData \<Rightarrow> bool \<times> AssetData" where
  "ExtractAssetFromBundle now bundleName assetName a =
     (True, describe now (a\<lparr>ad_name := assetName, ad_type := UnknownType, ad_data := [1, 2, 3, 4, 5],
        ad_filePath := bundleName @ ''://'' @ assetName\<rparr>))"

section \<open>Start and end\<close>

definition AL_Initialize :: "bool \<Rightarrow> (string \<Rightarrow> bool) \<Rightarrow> bool \<Rightarrow> AssetLoader \<Rightarrow> bool \<times> AssetLoader" where
  "AL_Initialize lua exists piped s =
     (if al_initialized s then (True, s)
      else let (ok, r, w) = RK_Initialize lua exists piped (al_redkit s) (al_scripts s);
               s = s\<lparr>al_redkit := r, al_scripts := w\<rparr>
           in if \<not> ok then (False, AL_SetError ''Failed to initialize REDkit bridge'' s)
              else let (ok, c) = DC_Initialize (al_compression s);
                       s = s\<lparr>al_compression := c\<rparr>
                   in if \<not> ok then (False, AL_SetError ''Failed to initialize compression system'' s)
                      else (True, s\<lparr>al_loadedAssets := [], al_loadedBundles := [], al_initialized := True\<rparr>))"

text \<open>The loop over the bundles erases the bundle it is at: it ends in order only when there is none.\<close>

definition AL_Shutdown :: "AssetLoader \<Rightarrow> AssetLoader option" where
  "AL_Shutdown s =
     (if \<not> al_initialized s then Some s
      else if al_loadedBundles s \<noteq> [] then None
      else Some (s\<lparr>al_loadedAssets := [], al_loadedBundles := [], al_initialized := False\<rparr>))"

section \<open>Compression\<close>

definition CompressAsset ::
    "int \<Rightarrow> int \<Rightarrow> AssetData \<Rightarrow> CompressionAlgorithm \<Rightarrow> AssetLoader \<Rightarrow> bool \<times> AssetData \<times> AssetLoader" where
  "CompressAsset t0 t1 a algorithm s =
     (if \<not> al_initialized s then (False, a, AL_SetError ''AssetLoader not initialized'' s)
      else if ad_isCompressed a then (False, a, AL_SetError ''Asset already compressed'' s)
      else let (data, c) = Compress t0 t1 (ad_data a) algorithm Balanced (al_compression s)
           in (True, a\<lparr>ad_originalSize := of_nat (length (ad_data a)), ad_data := data,
                 ad_compressedSize := of_nat (length data), ad_isCompressed := True\<rparr>, s\<lparr>al_compression := c\<rparr>))"

definition DecompressAsset ::
    "int \<Rightarrow> int \<Rightarrow> AssetData \<Rightarrow> AssetLoader \<Rightarrow> (bool \<times> AssetData \<times> AssetLoader) option" where
  "DecompressAsset t0 t1 a s =
     (if \<not> al_initialized s then Some (False, a, AL_SetError ''AssetLoader not initialized'' s)
      else if \<not> ad_isCompressed a then Some (False, a, AL_SetError ''Asset not compressed'' s)
      else map_option (\<lambda>(data, c). (True, a\<lparr>ad_data := data, ad_isCompressed := False\<rparr>, s\<lparr>al_compression := c\<rparr>))
             (Decompress t0 t1 (ad_data a) LZ4 (al_compression s)))"

definition OptimizeAsset :: "int \<Rightarrow> int \<Rightarrow> AssetData \<Rightarrow> AssetLoader \<Rightarrow> bool \<times> AssetData \<times> AssetLoader" where
  "OptimizeAsset t0 t1 a s =
     (if \<not> al_initialized s then (False, a, AL_SetError ''AssetLoader not initialized'' s)
      else if \<not> ad_isCompressed a then CompressAsset t0 t1 a LZ4 s
      else (True, a, s))"

section \<open>Statistics\<close>

definition GetTotalLoadedAssets :: "AssetLoader \<Rightarrow> nat" where
  "GetTotalLoadedAssets s = length (al_loadedAssets s)"

definition GetTotalLoadedSize :: "AssetLoader \<Rightarrow> u64" where
  "GetTotalLoadedSize s = om_sum (\<lambda>a. of_nat (length (ad_data a))) (al_loadedAssets s)"

definition stored_size :: "AssetData \<Rightarrow> u64" where
  "stored_size a = (if ad_isCompressed a then ad_compressedSize a else of_nat (length (ad_data a)))"

definition GetTotalCompressedSize :: "AssetLoader \<Rightarrow> u64" where
  "GetTotalCompressedSize s = om_sum stored_size (al_loadedAssets s)"

definition AL_GetCompressionRatio :: "AssetLoader \<Rightarrow> flt" where
  "AL_GetCompressionRatio s =
     (let originalSize = om_sum (\<lambda>a. if ad_isCompressed a then ad_originalSize a else of_nat (length (ad_data a)))
            (al_loadedAssets s);
          compressedSize = om_sum stored_size (al_loadedAssets s)
      in if originalSize = 0 then Fin 0
         else div32 (f32_of_nat (unat compressedSize)) (f32_of_nat (unat originalSize)))"

section \<open>Operations\<close>

datatype asset_op =
    AInitialize bool "string \<Rightarrow> bool" bool
  | AShutdown
  | ALoadBundle string
  | AUnloadBundle string
  | ALoadWeapon int string AssetData
  | ALoadKind AssetType string string int string AssetData
  | ALoadFile int string AssetData
  | ASaveFile bool bool string AssetData
  | ARegister AssetData
  | AUnregister string
  | ACompress int int AssetData CompressionAlgorithm
  | ADecompress int int AssetData
  | AOptimize int int AssetData
  | AScripts script_op
  | AClearError
  | ACallbacks bool bool bool

text \<open>The game scripts have other users too: \<open>AScripts\<close> is an operation of theirs.\<close>

fun asset_step :: "asset_op \<Rightarrow> AssetLoader \<times> disk \<Rightarrow> (AssetLoader \<times> disk) option" where
  "asset_step (AInitialize lua exists piped) (s, d) = Some (snd (AL_Initialize lua exists piped s), d)"
| "asset_step AShutdown (s, d) = map_option (\<lambda>s. (s, d)) (AL_Shutdown s)"
| "asset_step (ALoadBundle path) (s, d) = map_option (\<lambda>(ok, s). (s, d)) (LoadBundle d path s)"
| "asset_step (AUnloadBundle name) (s, d) = Some (snd (UnloadBundle name s), d)"
| "asset_step (ALoadWeapon now name a) (s, d) = Some (snd (snd (LoadWeaponData now name a s)), d)"
| "asset_step (ALoadKind type path kind now name a) (s, d) = Some (snd (snd (load_kind type path kind now name a s)), d)"
| "asset_step (ALoadFile now path a) (s, d) = Some (snd (snd (LoadAssetFromFile now d path a s)), d)"
| "asset_step (ASaveFile creatable writable path a) sd = Some (snd (SaveAssetToFile creatable writable path a sd))"
| "asset_step (ARegister a) (s, d) = Some (snd (RegisterAsset a s), d)"
| "asset_step (AUnregister name) (s, d) = Some (snd (UnregisterAsset name s), d)"
| "asset_step (ACompress t0 t1 a algorithm) (s, d) = Some (snd (snd (CompressAsset t0 t1 a algorithm s)), d)"
| "asset_step (ADecompress t0 t1 a) (s, d) = map_option (\<lambda>x. (snd (snd x), d)) (DecompressAsset t0 t1 a s)"
| "asset_step (AOptimize t0 t1 a) (s, d) = Some (snd (snd (OptimizeAsset t0 t1 a s)), d)"
| "asset_step (AScripts x) (s, d) = map_option (\<lambda>w. (s\<lparr>al_scripts := w\<rparr>, d)) (script_step x (al_scripts s))"
| "asset_step AClearError (s, d) = Some (AL_ClearError s, d)"
| "asset_step (ACallbacks loaded unloaded bundle) (s, d) =
     Some (s\<lparr>al_assetLoadedCallback := loaded, al_assetUnloadedCallback := unloaded,
             al_bundleLoadedCallback := bundle\<rparr>, d)"

end
