(* ===== verification/CompressionLib.thy ===== *)
theory CompressionLib
  imports Compression
begin

text \<open>
  The lemma library of the compression service: the run-length
  and the dictionary scheme as codecs, and the framing of batches as a stream codec.
\<close>

section \<open>Run lengths\<close>

lemma run_length_spec:
  "run_length c bs n \<le> n + length bs
     \<and> take (run_length c bs n - n) bs = replicate (run_length c bs n - n) c
     \<and> (n \<le> 255 \<longrightarrow> run_length c bs n \<le> 255)"
proof (induction c bs n rule: run_length.induct)
  case (2 c b bs n)
  show ?case
  proof (cases "b = c \<and> n < 255")
    case True
    let ?m = "run_length c bs (n + 1)"
    have "n + 1 \<le> ?m" by (rule run_length_ge)
    then have "?m - n = Suc (?m - (n + 1))" by simp
    with 2 True show ?thesis by simp
  next
    case False
    then show ?thesis by auto
  qed
qed simp

lemma run_length_split:
  "c # bs = replicate (run_length c bs 1) c @ drop (run_length c bs 1) (c # bs)"
proof -
  let ?m = "run_length c bs 1"
  have ge: "1 \<le> ?m" by (rule run_length_ge)
  then have "take ?m (c # bs) = c # take (?m - 1) bs" by (cases ?m) simp_all
  also have "\<dots> = replicate ?m c" using run_length_spec [of c bs 1] ge by (cases ?m) simp_all
  finally show ?thesis by (metis append_take_drop_id)
qed

lemma DecompressZlib_literal: "b \<noteq> 0xFF \<Longrightarrow> DecompressZlib (b # rest) = b # DecompressZlib rest"
  by (cases rest; cases "tl rest") auto

lemma DecompressZlib_literals:
  "b \<noteq> 0xFF \<Longrightarrow> DecompressZlib (replicate n b @ rest) = replicate n b @ DecompressZlib rest"
  by (induction n) (simp_all add: DecompressZlib_literal)

lemma DecompressZlib_CompressZlib: "0xFF \<notin> set d \<Longrightarrow> DecompressZlib (CompressZlib d) = d"
proof (induction d rule: CompressZlib.induct)
  case (2 c bs)
  let ?m = "run_length c bs 1"
  have c: "c \<noteq> 0xFF" and "0xFF \<notin> set (drop ?m (c # bs))"
    using "2.prems" by (auto dest: in_set_dropD)
  then have IH: "DecompressZlib (CompressZlib (drop ?m (c # bs))) = drop ?m (c # bs)"
    by (intro "2.IH") simp_all
  have "?m \<le> 255" using run_length_spec [of c bs 1] by simp
  then have "unat (of_nat ?m :: u8) = ?m" by (simp add: unat_of_nat)
  then have "DecompressZlib (CompressZlib (c # bs)) = replicate ?m c @ drop ?m (c # bs)"
    using IH c by (simp add: Let_def DecompressZlib_literals)
  then show ?case using run_length_split [of c bs] by simp
qed simp

interpretation rle: codec CompressZlib "\<lambda>bs. Some (DecompressZlib bs)" "\<lambda>d. 0xFF \<notin> set d"
  by unfold_locales (simp add: DecompressZlib_CompressZlib)

lemma length_CompressZlib: "length (CompressZlib d) \<le> length d"
proof (induction d rule: CompressZlib.induct)
  case (2 c bs)
  let ?m = "run_length c bs 1"
  have "length (CompressZlib (drop ?m (c # bs))) \<le> length (drop ?m (c # bs))" by (rule "2.IH") simp
  moreover have "1 \<le> ?m" "?m \<le> Suc (length bs)"
    using run_length_ge [of 1 c bs] run_length_spec [of c bs 1] by simp_all
  ultimately show ?case by (auto simp: Let_def)
qed simp

section \<open>Matches\<close>

definition match_at :: "u8 list \<Rightarrow> nat \<Rightarrow> nat \<times> nat \<Rightarrow> bool" where
  "match_at data i m \<longleftrightarrow> (case m of (len, d) \<Rightarrow> len = 0 \<or>
     1 \<le> d \<and> d \<le> i \<and> d \<le> 255 \<and> len \<le> d \<and> len \<le> 15 \<and> i + len \<le> length data
       \<and> (\<forall>k < len. data ! (i + k) = data ! (i - d + k)))"

lemma match_length_spec:
  assumes "j + len \<le> i" "i + len \<le> length data" "len \<le> 15"
    "\<forall>k < len. data ! (i + k) = data ! (j + k)"
  shows "let m = match_length data i j len
     in j + m \<le> i \<and> i + m \<le> length data \<and> m \<le> 15 \<and> (\<forall>k < m. data ! (i + k) = data ! (j + k))"
  using assms
proof (induction data i j len rule: match_length.induct)
  case (1 data i j len)
  show ?case
  proof (cases "i + len < length data \<and> j + len < i \<and> data ! (i + len) = data ! (j + len) \<and> len < 15")
    case True
    then have "match_length data i j len = match_length data i j (len + 1)"
      by (subst match_length.simps) simp
    moreover have "\<forall>k < len + 1. data ! (i + k) = data ! (j + k)"
      using True "1.prems"(4) by (auto simp: less_Suc_eq)
    ultimately show ?thesis using "1.IH" [OF True] True "1.prems" by simp
  next
    case False
    then have "match_length data i j len = len" by (subst match_length.simps) auto
    then show ?thesis using "1.prems" by simp
  qed
qed

lemma best_match_spec:
  assumes "i \<le> length data"
  shows "match_at data i (best_match data i)"
proof -
  have step: "match_at data i (better_match data i j m)"
    if "j < i" "i - j \<le> 255" "match_at data i m" for j m
    using match_length_spec [of j 0 i data] that assms
    by (auto simp: better_match_def match_at_def Let_def)
  have "\<forall>j \<in> set js. j < i \<and> i - j \<le> 255 \<Longrightarrow> match_at data i m \<Longrightarrow>
      match_at data i (fold (better_match data i) js m)" for js m
    by (induction js arbitrary: m) (simp_all add: step)
  moreover have "\<forall>j \<in> set [(if 255 < i then i - 255 else 0) ..< i]. j < i \<and> i - j \<le> 255" by auto
  moreover have "match_at data i (0, 0)" by (simp add: match_at_def)
  ultimately show ?thesis unfolding best_match_def by blast
qed

lemma match_token:
  assumes "3 \<le> len" "len \<le> 15"
  shows "bit (0x80 OR of_nat (len - 3) :: u8) 7"
    "unat (((0x80 OR of_nat (len - 3)) AND 0x7F) + 3 :: u8) = len"
proof -
  have "len \<in> set [3 ..< 16]" using assms by (subst set_upt) simp
  also have "[3 ..< 16] = [3, 4, 5, 6, 7, 8, 9, 10, 11, 12, 13, 14, 15 :: nat]" by (simp add: upt_rec)
  finally show "bit (0x80 OR of_nat (len - 3) :: u8) 7"
    "unat (((0x80 OR of_nat (len - 3)) AND 0x7F) + 3 :: u8) = len" by auto
qed

lemma lz_decode_literal: "\<not> bit b 7 \<Longrightarrow> lz_decode out (b # rest) = lz_decode (out @ [b]) rest"
  by (cases rest) simp_all

lemma copy_match_spec:
  assumes "match_at data i (len, d)" "0 < len"
  shows "copy_match (pre @ take i data) len d = take len (drop i data)"
proof -
  have b: "1 \<le> d" "d \<le> i" "len \<le> d" "i + len \<le> length data"
    "\<And>k. k < len \<Longrightarrow> data ! (i + k) = data ! (i - d + k)"
    using assms by (auto simp: match_at_def)
  have "(pre @ take i data) ! (length (pre @ take i data) - d + k mod d) = data ! (i + k)"
    if "k < len" for k
  proof -
    have "length (pre @ take i data) - d + k mod d = length pre + (i - d + k)" using b that by simp
    then have "(pre @ take i data) ! (length (pre @ take i data) - d + k mod d)
        = (pre @ take i data) ! (length pre + (i - d + k))" by (rule arg_cong)
    also have "\<dots> = data ! (i - d + k)" using b that by (simp only: nth_append_length_plus) simp
    finally show ?thesis using b(5) that by simp
  qed
  then show ?thesis
    using b by (intro nth_equalityI) (auto simp: copy_match_def)
qed

lemma lz_round_trip:
  assumes "\<forall>b \<in> set data. \<not> bit b 7" "i \<le> length data"
  shows "lz_decode (pre @ take i data) (lz_encode data i) = Some (pre @ data)"
  using assms
proof (induction data i rule: lz_encode.induct)
  case (1 data i)
  show ?case
  proof (cases "i < length data")
    case False
    then show ?thesis using "1.prems" by (subst lz_encode.simps) simp
  next
    case True
    obtain len d where m: "best_match data i = (len, d)" by force
    then have match: "match_at data i (len, d)" using best_match_spec [OF "1.prems"(2)] by simp
    show ?thesis
    proof (cases "3 \<le> len")
      case long: True
      have b: "1 \<le> d" "d \<le> i" "d \<le> 255" "len \<le> 15" "i + len \<le> length data"
        using match long by (auto simp: match_at_def)
      have d: "unat (of_nat d :: u8) = d" "(of_nat d :: u8) \<noteq> 0"
        using b by (simp_all add: unat_of_nat word_unat_eq_iff)
      have enc: "lz_encode data i = (0x80 OR of_nat (len - 3)) # of_nat d # lz_encode data (i + len)"
        using True m long by (subst lz_encode.simps) simp
      have "lz_decode (pre @ take i data) (lz_encode data i)
          = lz_decode (pre @ take i data @ take len (drop i data)) (lz_encode data (i + len))"
        using match_token [OF long b(4)] copy_match_spec [OF match, of pre] d b long True
        by (simp add: enc)
      then show ?thesis
        using "1.IH"(1) [OF True refl m [symmetric] long] "1.prems"(1) b(5) by (simp add: take_add)
    next
      case short: False
      have enc: "lz_encode data i = data ! i # lz_encode data (i + 1)"
        using True m short by (subst lz_encode.simps) simp
      have "\<not> bit (data ! i) 7" using True "1.prems"(1) by simp
      then show ?thesis
        using "1.IH"(2) [OF True refl m [symmetric] short] "1.prems"(1) True
        by (simp add: enc lz_decode_literal take_Suc_conv_app_nth)
    qed
  qed
qed

interpretation lz4: codec CompressLZ4 DecompressLZ4 "\<lambda>d. \<forall>b \<in> set d. \<not> bit b 7"
  by unfold_locales (use lz_round_trip [where pre = "[]" and i = 0] in
      \<open>simp add: CompressLZ4_def DecompressLZ4_def\<close>)

lemma length_lz_encode: "i \<le> length data \<Longrightarrow> length (lz_encode data i) \<le> length data - i"
proof (induction data i rule: lz_encode.induct)
  case (1 data i)
  obtain len d where m: "best_match data i = (len, d)" by force
  then have "match_at data i (len, d)" using best_match_spec [OF "1.prems"] by simp
  then have "3 \<le> len \<Longrightarrow> i + len \<le> length data" by (auto simp: match_at_def)
  with 1 m show ?case by (subst lz_encode.simps) (fastforce split: if_splits)
qed

section \<open>Framing\<close>

definition parse_frame :: "u8 list \<Rightarrow> (u8 list \<times> u8 list) option" where
  "parse_frame bs =
     (if length bs < 4 then None
      else let n = unat (read_le32 bs); rest = drop 4 bs
        in if length rest < n then None else Some (take n rest, drop n rest))"

interpretation frames: stream_codec frame parse_frame "\<lambda>p. length p < 2 ^ 32"
  by unfold_locales (simp_all add: frame_def parse_frame_def Let_def unat_of_nat, simp add: le32_def)

lemma parse_frame_shorter: "parse_frame bs = Some (x, rest) \<Longrightarrow> length rest < length bs"
  by (auto simp: parse_frame_def Let_def split: if_splits)

text \<open>The offset loop is the reference parser with enough fuel.\<close>

lemma unframe_parse_all: "length bs \<le> n \<Longrightarrow> unframe bs = parse_all n parse_frame bs"
proof (induction n arbitrary: bs)
  case 0
  then show ?case by (simp add: unframe.simps)
next
  case (Suc n)
  show ?case
  proof (cases "parse_frame bs")
    case None
    then show ?thesis
      by (auto simp: unframe.simps [of bs] parse_frame_def Let_def split: if_splits)
  next
    case (Some p)
    obtain x rest where p: "p = (x, rest)" by force
    have "length rest \<le> n" using parse_frame_shorter [of bs x rest] Some p Suc.prems by simp
    then have "unframe rest = parse_all n parse_frame rest" by (rule Suc.IH)
    moreover have "unframe bs = x # unframe rest" "bs \<noteq> []"
      using Some p by (auto simp: unframe.simps [of bs] parse_frame_def Let_def split: if_splits)
    ultimately show ?thesis using Some p by simp
  qed
qed

lemma unframe_frames:
  "\<forall>p \<in> set ps. length p < 2 ^ 32 \<Longrightarrow> unframe (concat (map frame ps)) = ps"
proof -
  assume v: "\<forall>p \<in> set ps. length p < 2 ^ 32"
  let ?bs = "concat (map frame ps)"
  have "length ps \<le> length ?bs" by (induction ps) (simp_all add: frame_def)
  moreover have "unframe ?bs = parse_all (length ?bs) parse_frame ?bs" by (rule unframe_parse_all) simp
  ultimately show ?thesis using frames.parse_all_enc [OF v] by simp
qed

end
