(* ===== verification/CompressionProps.thy ===== *)
theory CompressionProps
  imports CompressionLib
begin

text \<open>
  What the compression service guarantees: its schemes are lossless on plain bytes and never
  expand, but the header it writes is two bytes longer than the header it skips, and raw data
  are read as if they had a header.
\<close>

section \<open>The schemes\<close>

lemma plain_byte: "(b :: u8) < 128 \<Longrightarrow> \<not> bit b 7"
proof -
  assume "b < 128"
  then have "unat b < 128" by (simp add: word_less_nat_alt)
  then have "b div 128 = 0" by (simp add: word_unat_eq_iff unat_div)
  then show ?thesis by (simp add: bit_iff_odd)
qed

definition plain :: "u8 list \<Rightarrow> bool" where
  "plain data \<longleftrightarrow> (\<forall>b \<in> set data. b < 128)"

lemma plain_literals: "plain data \<Longrightarrow> b \<in> set data \<Longrightarrow> \<not> bit b 7"
  by (auto simp: plain_def plain_byte)

lemma plain_not_escape: "(b :: u8) < 128 \<Longrightarrow> b \<noteq> 0xFF"
  by auto

lemma plain_no_escape: "plain data \<Longrightarrow> 0xFF \<notin> set data"
  by (fastforce simp: plain_def)

lemma plain_LZ4: "plain data \<Longrightarrow> lz_decode pre (CompressLZ4 data) = Some (pre @ data)"
  using lz_round_trip [of data 0 pre] plain_literals by (simp add: CompressLZ4_def)

text \<open>
  C15. The dictionary scheme and the run-length scheme are lossless where their markers cannot
  be mistaken: data whose bytes are below 128 come back unchanged from \<open>DecompressLZ4\<close> (and
  decoding them has no undefined behaviour), data without the byte 255 from
  \<open>DecompressZlib\<close>.  Neither scheme ever makes the data longer.
\<close>

theorem schemes_lossless:
  "(plain data \<longrightarrow> DecompressLZ4 (CompressLZ4 data) = Some data
        \<and> DecompressLZ4HC (CompressLZ4HC data) = Some data)
     \<and> (0xFF \<notin> set data \<longrightarrow> DecompressZlib (CompressZlib data) = data)
     \<and> length (CompressLZ4 data) \<le> length data \<and> length (CompressLZ4HC data) \<le> length data
     \<and> length (CompressZlib data) \<le> length data"
  using lz4.dec_enc [of data] length_lz_encode [of 0 data] length_CompressZlib [of data] plain_literals
  by (auto simp: CompressLZ4HC_def DecompressLZ4HC_def CompressLZ4_def DecompressZlib_CompressZlib)

theorem schemes_lossless_witness:
  "CompressLZ4 [7, 1, 2, 3, 7, 1, 2, 3] = [7, 1, 2, 3, 0x81, 4]
     \<and> DecompressLZ4 (CompressLZ4 [7, 1, 2, 3, 7, 1, 2, 3]) = Some [7, 1, 2, 3, 7, 1, 2, 3]
     \<and> CompressZlib [7, 5, 5, 5, 5, 5] = [7, 0xFF, 5, 5]
     \<and> DecompressZlib (CompressZlib [7, 5, 5, 5, 5, 5]) = [7, 5, 5, 5, 5, 5]"
proof -
  have "CompressLZ4 [7, 1, 2, 3, 7, 1, 2, 3] = [7, 1, 2, 3, 0x81, 4]" by code_simp
  moreover have "CompressZlib [7, 5, 5, 5, 5, 5] = [7, 0xFF, 5, 5]" by code_simp
  moreover have "plain [7, 1, 2, 3, 7, 1, 2, 3]" by code_simp
  ultimately show ?thesis
    using schemes_lossless [of "[7, 1, 2, 3, 7, 1, 2, 3]"] schemes_lossless [of "[7, 5, 5, 5, 5, 5]"]
    by auto
qed

section \<open>The header\<close>

definition compresses :: "CompressionAlgorithm \<Rightarrow> CompressionLevel \<Rightarrow> u8 list \<Rightarrow> DataCompression \<Rightarrow> bool" where
  "compresses algorithm level data s \<longleftrightarrow> dc_initialized s
     \<and> IsCompressible data (dc_minCompressionSize s)
     \<and> length (encode_with algorithm (GetCompressionLevel level) data) < length data"

lemma Compress_compresses:
  "compresses algorithm level data s \<Longrightarrow>
     fst (Compress t0 t1 data algorithm level s)
       = header algorithm level (length data) (length (encode_with algorithm (GetCompressionLevel level) data))
           @ encode_with algorithm (GetCompressionLevel level) data"
  by (auto simp: compresses_def Compress_def Let_def)

lemma Compress_raw:
  "\<not> compresses algorithm level data s \<Longrightarrow> fst (Compress t0 t1 data algorithm level s) = data"
  by (auto simp: compresses_def Compress_def Let_def)

lemma Compress_initialized:
  "dc_initialized (snd (Compress t0 t1 data algorithm level s)) = dc_initialized s"
  by (simp add: Compress_def Let_def)

lemma drop_header:
  assumes "n < 65536"
  shows "drop 8 (header algorithm level m n @ rest) = 0 # 0 # rest"
proof -
  have "drop_bit 16 (of_nat n :: u32) = 0" "drop_bit 24 (of_nat n :: u32) = 0"
    using assms by (auto simp: drop_bit_eq_div word_unat_eq_iff unat_div unat_of_nat)
  then show ?thesis by (simp add: header_def le32_def)
qed

lemma cast_algorithm_byte: "algorithm \<in> {Zlib, LZ4, LZ4HC} \<Longrightarrow> cast_algorithm (algorithm_byte algorithm) = algorithm"
  by (auto simp: cast_algorithm_def)

lemma decode_shifted:
  assumes "algorithm \<in> {Zlib, LZ4, LZ4HC}" "plain data"
  shows "decode_with algorithm (0 # 0 # encode_with algorithm l data) c = Some (0 # 0 # data)"
  using assms plain_LZ4 [of data "[0, 0]"]
  by (auto simp: DecompressZlib_literal DecompressZlib_CompressZlib plain_no_escape
      DecompressLZ4_def DecompressLZ4HC_def CompressLZ4HC_def lz_decode_literal)

lemma Decompress_compressed:
  assumes "compresses algorithm level data s" "algorithm \<in> {Zlib, LZ4, LZ4HC}" "plain data"
    "length data < 65536" "dc_initialized r"
  shows "map_option fst (Decompress t2 t3 (fst (Compress t0 t1 data algorithm level s)) a r)
     = Some (0 # 0 # data)"
proof -
  let ?c = "encode_with algorithm (GetCompressionLevel level) data"
  let ?h = "header algorithm level (length data) (length ?c)"
  have "length ?c < 65536" using assms(1,4) by (simp add: compresses_def)
  then have "decode_with (cast_algorithm ((?h @ ?c) ! 0)) (drop 8 (?h @ ?c)) (?h @ ?c) = Some (0 # 0 # data)"
    using assms(2,3) by (simp only: drop_header) (simp add: header_def cast_algorithm_byte decode_shifted)
  moreover have "\<not> length (?h @ ?c) < 10" "?h @ ?c \<noteq> []" by (simp_all add: header_def)
  ultimately show ?thesis
    unfolding Compress_compresses [OF assms(1), of t0 t1] Decompress_def
    using assms(5) by (simp del: append_is_Nil_conv length_append drop_append)
qed

text \<open>
  The header does not round trip: \<open>Compress\<close> writes a header of ten bytes and
  \<open>Decompress\<close> skips eight.  Whenever plain data of less than 64 KB are really compressed,
  with any of the three algorithms and at any level, decompressing the result returns the data
  with two zero bytes in front, never the data.
\<close>

lemma compressed_data_come_back_shifted:
  assumes "dc_initialized s" "IsCompressible data (dc_minCompressionSize s)"
    "algorithm \<in> {Zlib, LZ4, LZ4HC}"
    "length (encode_with algorithm (GetCompressionLevel level) data) < length data"
    "plain data" "length data < 65536"
  shows "map_option fst (Decompress t2 t3 (fst (Compress t0 t1 data algorithm level s)) a
           (snd (Compress t0 t1 data algorithm level s))) = Some (0 # 0 # data)
     \<and> 0 # 0 # data \<noteq> data"
  using Decompress_compressed [of algorithm level data s] assms
  by (auto simp: compresses_def Compress_initialized)

definition service :: DataCompression where
  "service = snd (DC_Initialize DataCompression_new)"

lemma compressed_data_come_back_shifted_witness:
  "let data = replicate 64 5 in
     map_option fst (Decompress 0 0 (fst (Compress 0 0 data Zlib Fast service)) Zlib
       (snd (Compress 0 0 data Zlib Fast service))) = Some (0 # 0 # data)"
proof -
  have "dc_initialized service" "IsCompressible (replicate 64 5) (dc_minCompressionSize service)"
    "length (encode_with Zlib (GetCompressionLevel Fast) (replicate 64 5)) < 64"
    "plain (replicate 64 5)" by code_simp+
  then show ?thesis
    using compressed_data_come_back_shifted [of service "replicate 64 5" Zlib Fast 0 0 0 0 Zlib]
    by (simp add: Let_def)
qed

text \<open>
  Data that are not compressed are sent without a header and read as if they had one.
  For plain data below the size limit, decompressing what \<open>Compress\<close> returned is correct for
  fewer than 8 bytes, reads behind the buffer for 8 and 9 bytes, and loses the first 8 bytes
  when there are 10 or more and the first is 1, 2 or 3.
\<close>

lemma short_data_read_as_header:
  assumes "dc_initialized s" "length data < unat (dc_minCompressionSize s)" "plain data"
  shows "map_option fst (Decompress t2 t3 (fst (Compress t0 t1 data algorithm level s)) a s)
     = (if length data < 8 then Some data
        else if length data < 10 then None
        else if data ! 0 \<in> {1, 2, 3} then Some (drop 8 data) else Some data)"
proof -
  have raw: "fst (Compress t0 t1 data algorithm level s) = data"
    using assms(2) by (intro Compress_raw) (simp add: compresses_def IsCompressible_def)
  have tail: "plain (drop 8 data)" using assms(3) by (auto simp: plain_def dest: in_set_dropD)
  have lz: "plain d \<Longrightarrow> lz_decode out d = Some (out @ d)" for d out
    by (induction d arbitrary: out) (simp_all add: plain_def lz_decode_literal plain_byte)
  have z: "plain d \<Longrightarrow> DecompressZlib d = d" for d
    by (induction d) (simp_all add: plain_def DecompressZlib_literal plain_not_escape)
  show ?thesis
    using assms(1) lz [OF tail, of "[]"] z [OF tail]
    by (auto simp: raw Decompress_def cast_algorithm_def DecompressLZ4_def DecompressLZ4HC_def)
qed

lemma short_data_read_as_header_witness:
  "map_option fst (Decompress 0 0 (fst (Compress 0 0 [1, 10, 20, 30, 40, 50, 60, 70, 80, 90] LZ4 Fast service)) LZ4 service)
       = Some [80, 90]"
proof -
  have "dc_initialized service" "unat (dc_minCompressionSize service) = 64" by code_simp+
  then show ?thesis
    using short_data_read_as_header [of service "[1, 10, 20, 30, 40, 50, 60, 70, 80, 90]" 0 0 0 0 LZ4 Fast LZ4]
    by (simp add: plain_def)
qed

section \<open>Deltas\<close>

lemma length_xor_bytes [simp]: "length (xor_bytes a b) = min (length a) (length b)"
  by (simp add: xor_bytes_def)

lemma xor_bytes_twice: "length a = length b \<Longrightarrow> xor_bytes (xor_bytes a b) b = a"
  by (induction a b rule: list_induct2) (simp_all add: xor_bytes_def xor.assoc)

interpretation delta: codec "\<lambda>a. xor_bytes a b" "\<lambda>d. Some (xor_bytes d b)" "\<lambda>a. length a = length b" for b
  by unfold_locales (simp add: xor_bytes_twice)

text \<open>
  Delta updates: an update of fewer than 8 bytes is reconstructed exactly.  An update whose
  difference (plain bytes, less than 64 KB) is really compressed is lost: the decompressed
  difference is two bytes too long for \<open>DecompressDelta\<close>, which returns the previous data
  unchanged, whatever the update was.
\<close>

lemma compressed_delta_is_lost:
  assumes "dc_initialized s" "length current = length previous"
  defines "delta \<equiv> xor_bytes current previous"
  shows "(length current < 8 \<and> unat (dc_minCompressionSize s) = 64 \<longrightarrow>
        map_option fst (DecompressDelta t2 t3 (fst (CompressDelta t0 t1 current previous s)) previous s)
          = Some current)
     \<and> (IsCompressible delta (dc_minCompressionSize s) \<and> length (CompressLZ4 delta) < length delta
          \<and> plain delta \<and> length delta < 65536 \<longrightarrow>
        map_option fst (DecompressDelta t2 t3 (fst (CompressDelta t0 t1 current previous s)) previous s)
          = Some previous)"
proof (intro conjI impI)
  assume short: "length current < 8 \<and> unat (dc_minCompressionSize s) = 64"
  then have "fst (Compress t0 t1 delta LZ4 Fast s) = delta"
    using assms(2) by (intro Compress_raw) (simp add: compresses_def IsCompressible_def delta_def)
  moreover have "map_option fst (Decompress t2 t3 delta LZ4 s) = Some delta"
    using short assms(2) by (simp add: Decompress_def delta_def)
  ultimately show "map_option fst (DecompressDelta t2 t3 (fst (CompressDelta t0 t1 current previous s)) previous s)
      = Some current"
    using assms(2) xor_bytes_twice [OF assms(2)]
    by (auto simp: CompressDelta_def QuickCompress_def DecompressDelta_def QuickDecompress_def delta_def)
next
  assume c: "IsCompressible delta (dc_minCompressionSize s) \<and> length (CompressLZ4 delta) < length delta
      \<and> plain delta \<and> length delta < 65536"
  then have "map_option fst (Decompress t2 t3 (fst (Compress t0 t1 delta LZ4 Fast s)) LZ4 s) = Some (0 # 0 # delta)"
    using assms(1) by (intro Decompress_compressed) (auto simp: compresses_def)
  then show "map_option fst (DecompressDelta t2 t3 (fst (CompressDelta t0 t1 current previous s)) previous s)
      = Some previous"
    using assms(2)
    by (auto simp: CompressDelta_def QuickCompress_def DecompressDelta_def QuickDecompress_def delta_def)
qed

lemma compressed_delta_is_lost_witness:
  "let current = replicate 64 3; previous = replicate 64 0 in
     map_option fst (DecompressDelta 0 0 (fst (CompressDelta 0 0 current previous service)) previous service)
       = Some previous"
proof -
  have "dc_initialized service" by code_simp
  moreover have "xor_bytes (replicate 64 3) (replicate 64 0) = replicate 64 3" by code_simp
  moreover have "IsCompressible (replicate 64 3) (dc_minCompressionSize service)"
    "length (CompressLZ4 (replicate 64 3)) < 64" "plain (replicate 64 3)" by code_simp+
  ultimately show ?thesis
    using compressed_delta_is_lost [of service "replicate 64 3" "replicate 64 0" 0 0 0 0]
    by (simp add: Let_def)
qed

section \<open>Batches\<close>

text \<open>
  C16. Batches: the offset loop of \<open>DecompressBatch\<close> is the reference parser of
  length-prefixed frames, it gives back every list of packets from their frames, and a batch
  that stays below the compression limit, has at least ten bytes and does not start with 1, 2
  or 3 comes back whole.
\<close>

theorem batch_framing:
  assumes "\<forall>p \<in> set packets. length p < 2 ^ 32"
  shows "unframe bs = parse_all (length bs) parse_frame bs
     \<and> unframe (concat (map frame packets)) = packets
     \<and> (dc_initialized s \<and> packets \<noteq> []
          \<and> length (concat (map frame packets)) < unat (dc_minCompressionSize s)
          \<and> 10 \<le> length (concat (map frame packets))
          \<and> concat (map frame packets) ! 0 \<notin> {1, 2, 3}
        \<longrightarrow> map_option fst (DecompressBatch t2 t3 (fst (CompressBatch t0 t1 packets s)) s) = Some packets)"
proof (intro conjI impI)
  show "unframe bs = parse_all (length bs) parse_frame bs" by (rule unframe_parse_all) simp
  show f: "unframe (concat (map frame packets)) = packets" using assms by (rule unframe_frames)
  let ?c = "concat (map frame packets)"
  assume h: "dc_initialized s \<and> packets \<noteq> [] \<and> length ?c < unat (dc_minCompressionSize s)
      \<and> 10 \<le> length ?c \<and> ?c ! 0 \<notin> {1, 2, 3}"
  then have "fst (Compress t0 t1 ?c LZ4HC High s) = ?c"
    by (intro Compress_raw) (simp add: compresses_def IsCompressible_def)
  moreover have "map_option fst (Decompress t2 t3 ?c LZ4 s) = Some ?c"
    using h by (auto simp: Decompress_def cast_algorithm_def)
  ultimately show "map_option fst (DecompressBatch t2 t3 (fst (CompressBatch t0 t1 packets s)) s) = Some packets"
    using h f by (auto simp: DecompressBatch_def CompressBatch_def)
qed

theorem batch_framing_witness:
  "map_option fst (DecompressBatch 0 0 (fst (CompressBatch 0 0 [[1, 2, 3, 4, 5], [200]] service)) service)
     = Some [[1, 2, 3, 4, 5], [200]]"
proof -
  have "dc_initialized service" "unat (dc_minCompressionSize service) = 64"
    "concat (map frame [[1, 2, 3, 4, 5], [200]]) ! 0 = 5" by code_simp+
  then show ?thesis
    using batch_framing [of "[[1, 2, 3, 4, 5], [200]]" "[]" service 0 0 0 0] by (simp add: frame_def)
qed

end
