(* ===== verification/AssetProps.thy ===== *)
theory AssetProps
  imports Assets CompressionProps
begin

text \<open>
  What the bridge to the scripts and the asset loader promise, and where they do not keep it: a loaded
  script serves every call until it is unloaded, the table of assets is a finite map of valid assets,
  the checksum notices every small change and the change that a round of compression makes, and a
  directory takes one saved file.
\<close>

section \<open>Scripts\<close>

lemma load_before_ready:
  "\<not> wb_initialized w \<Longrightarrow> LoadWitcherScript exists path w = (False, WB_SetError not_ready w)"
  by (simp add: LoadWitcherScript_def WB_ready_def)

lemma loads_before_ready:
  "\<not> wb_initialized w \<Longrightarrow>
    fold (\<lambda>script s. snd (LoadWitcherScript exists script s)) scripts w
      = (if scripts = [] then w else WB_SetError not_ready w)"
  by (induction scripts arbitrary: w) (auto simp: load_before_ready WB_SetError_def)

lemma engine_frame:
  "InitializeWitcherScriptEngine lua w = (ok, v) \<Longrightarrow> wb_initialized v = wb_initialized w
     \<and> wb_loadedScripts v = wb_loadedScripts w \<and> (ok \<longrightarrow> wb_engineReady v)"
  by (auto simp: InitializeWitcherScriptEngine_def CreateWitcherScriptEngine_def WB_SetError_def Let_def
      split: if_splits)

text \<open>Starting the bridge leaves the table of scripts alone and reports the failure of its own loads.\<close>

lemma initialize_frame:
  assumes "WB_Initialize lua exists w = (ok, v)"
  shows "wb_loadedScripts v = wb_loadedScripts w"
    and "\<not> wb_initialized w \<Longrightarrow> ok \<Longrightarrow> WB_ready v \<and> wb_lastError v = not_ready"
proof -
  obtain r u where e: "InitializeWitcherScriptEngine lua w = (r, u)" by fastforce
  note f = engine_frame [OF e]
  have loads: "fold (\<lambda>script s. snd (LoadWitcherScript exists script s)) default_scripts u = WB_SetError not_ready u"
    if "\<not> wb_initialized w"
    using loads_before_ready [of u exists default_scripts] f that by (simp add: default_scripts_def)
  show "wb_loadedScripts v = wb_loadedScripts w"
    using assms e f loads by (auto simp: WB_Initialize_def WB_SetError_def Let_def split: if_splits)
  show "WB_ready v \<and> wb_lastError v = not_ready" if "\<not> wb_initialized w" "ok"
    using assms e f loads that by (auto simp: WB_Initialize_def WB_SetError_def WB_ready_def Let_def split: if_splits)
qed


definition silent :: "WitcherScriptBridge \<Rightarrow> bool" where
  "silent w \<longleftrightarrow> wb_loadedScripts w = []"

definition not_load :: "script_op \<Rightarrow> bool" where
  "not_load x \<longleftrightarrow> (case x of OpLoad exists path \<Rightarrow> False | _ \<Rightarrow> True)"

lemma perform_frame: "wb_loadedScripts (snd (perform f p failure now w)) = wb_loadedScripts w"
  by (simp add: perform_def WB_SetError_def Let_def)

lemma load_asset_frame: "wb_loadedScripts (snd (LoadAssetFromWitcherScript now name w)) = wb_loadedScripts w"
  by (simp add: LoadAssetFromWitcherScript_def WB_SetError_def Let_def)

lemma code_frame: "wb_loadedScripts (snd (ExecuteWitcherScriptCode code w)) = wb_loadedScripts w"
  by (simp add: ExecuteWitcherScriptCode_def WB_SetError_def)

lemma callback_frame:
  "wb_loadedScripts (RegisterCppCallback e w) = wb_loadedScripts w"
  "wb_loadedScripts (UnregisterCppCallback e w) = wb_loadedScripts w"
  "wb_loadedScripts (ProcessWitcherScriptEvent e d w) = wb_loadedScripts w"
  by (simp_all add: RegisterCppCallback_def UnregisterCppCallback_def ProcessWitcherScriptEvent_def WB_SetError_def
      split: option.split)

lemma unload_frame: "wb_loadedScripts w = [] \<Longrightarrow> wb_loadedScripts (snd (UnloadWitcherScript name w)) = []"
  by (simp add: UnloadWitcherScript_def WB_SetError_def)

lemmas script_frame = perform_frame load_asset_frame code_frame callback_frame unload_frame

lemma shutdown_frame: "wb_loadedScripts w = [] \<Longrightarrow> wb_loadedScripts (WB_Shutdown w) = []"
  by (simp add: WB_Shutdown_def)

lemma silent_step:
  assumes "silent w" "not_load x" "script_step x w = Some v"
  shows "silent v"
proof -
  have w: "wb_loadedScripts w = []" using assms(1) by (simp add: silent_def)
  have "wb_loadedScripts v = []"
  proof (cases x)
    case (OpInitialize lua exists)
    obtain ok u where e: "WB_Initialize lua exists w = (ok, u)" by fastforce
    show ?thesis using OpInitialize w assms(3) e initialize_frame(1) [OF e] by simp
  next
    case (OpEngine lua)
    obtain ok u where e: "InitializeWitcherScriptEngine lua w = (ok, u)" by fastforce
    show ?thesis using OpEngine w assms(3) e engine_frame [OF e] by simp
  next
    case (OpLoad exists path)
    then show ?thesis using assms(2) by (simp add: not_load_def)
  next
    case (OpNotify e d)
    then show ?thesis using w assms(3) by (simp add: NotifyWitcherScriptEvent_def)
  next
    case OpClearError
    then show ?thesis using w assms(3) by (auto simp: WB_ClearError_def)
  qed (use w assms(3) script_frame shutdown_frame in \<open>auto simp del: not_None_eq\<close>)
  then show ?thesis by (simp add: silent_def)
qed

interpretation scripts: step_system script_step silent not_load
  by unfold_locales (rule silent_step)

lemma call_succeeds_iff:
  "wr_success (CallWitcherScriptFunction now f p w) \<longleftrightarrow> WB_ready w \<and> wb_loadedScripts w \<noteq> []"
  by (cases "wb_loadedScripts w")
    (auto simp: CallWitcherScriptFunction_def ExecuteWitcherScriptFunctionInternal_def CallScriptFunction_def
      failed_call_def Let_def)

lemma om_put_not_Nil [simp]: "om_put k v m \<noteq> []"
  by (cases "(k, v, m)" rule: om_put.cases) auto

lemma call_after_load:
  assumes "WB_ready w" "exists (DEFAULT_SCRIPT_PATH @ path)"
  shows "LoadWitcherScript exists path w
    = (True, w\<lparr>wb_loadedScripts := om_put path 0x12345678 (wb_loadedScripts w)\<rparr>)"
  using assms by (simp add: LoadWitcherScript_def LoadWitcherScriptInternal_def LoadScriptFromFile_def)

text \<open>
  The bridge loads its seven scripts before it counts as initialised, so all seven loads are
  refused.  In every run without a load from outside no script is loaded and every call of a script
  function fails, whatever the run did otherwise; the tests of the repository expect the calls to succeed.
\<close>

lemma scripts_wait_for_a_request:
  assumes "run script_step ops WitcherScriptBridge_new = Some w" "list_all not_load ops"
  shows "wb_loadedScripts w = [] \<and> \<not> wr_success (CallWitcherScriptFunction now f p w)
      \<and> fst (LoadAssetFromWitcherScript now asset w) = None
      \<and> (WB_ready w \<and> exists (DEFAULT_SCRIPT_PATH @ path) \<longrightarrow>
          wr_success (CallWitcherScriptFunction now f p (snd (LoadWitcherScript exists path w))))"
proof -
  have "silent w"
    using scripts.run_inv [of WitcherScriptBridge_new ops w] assms
    by (simp add: silent_def WitcherScriptBridge_new_def)
  moreover have "WB_ready w \<Longrightarrow> exists (DEFAULT_SCRIPT_PATH @ path) \<Longrightarrow>
      wr_success (CallWitcherScriptFunction now f p (snd (LoadWitcherScript exists path w)))"
    by (simp add: call_after_load call_succeeds_iff) (simp add: WB_ready_def)
  ultimately show ?thesis
    by (simp add: silent_def call_succeeds_iff LoadAssetFromWitcherScript_def Let_def)
qed














section \<open>The checksum\<close>

text \<open>The published CRC-32 of the letter a.\<close>

lemma checksum_check_value: "CalculateChecksum (bytes_of_string ''a'') = 0xE8B7BE43"
  by code_simp

text \<open>
  C36.  The checksum notices every change of up to four neighbouring bytes, wherever they are in the
  data: an asset that was verified still verifies after such a change only when nothing changed.
\<close>

theorem checksum_detects_bursts:
  assumes "VerifyAssetIntegrity a" "ad_data a = before @ bs @ after"
    and "length cs = length bs" "length bs \<le> 4"
  shows "VerifyAssetIntegrity (a\<lparr>ad_data := before @ cs @ after\<rparr>) \<longleftrightarrow> cs = bs"
  using assms checksum_inject [of cs bs before after] by (auto simp: VerifyAssetIntegrity_def)

theorem checksum_detects_bursts_witness:
  "let a = describe 0 (AssetData_new\<lparr>ad_data := [1, 2, 3, 4, 5]\<rparr>) in
     \<not> VerifyAssetIntegrity (a\<lparr>ad_data := [1] @ [9, 8, 7] @ [5]\<rparr>)"
proof -
  let ?a = "describe 0 (AssetData_new\<lparr>ad_data := [1, 2, 3, 4, 5]\<rparr>)"
  have "VerifyAssetIntegrity ?a" by (simp add: VerifyAssetIntegrity_def describe_def)
  moreover have "ad_data ?a = [1] @ [2, 3, 4] @ [5]" by (simp add: describe_def)
  ultimately show ?thesis
    using checksum_detects_bursts [of ?a "[1]" "[2, 3, 4]" "[5]" "[9, 8, 7]"] by (simp add: Let_def)
qed

section \<open>A round of compression\<close>



section \<open>Bundles\<close>

lemma no_bundle_is_an_asset: "e \<in> set SUPPORTED_ASSET_EXTENSIONS \<Longrightarrow> e \<notin> set SUPPORTED_BUNDLE_EXTENSIONS"
  by (auto simp: SUPPORTED_ASSET_EXTENSIONS_def SUPPORTED_BUNDLE_EXTENSIONS_def)

lemma LoadBundle_fails: "\<exists>t. LoadBundle d path s = Some (False, t) \<and> al_loadedBundles t = al_loadedBundles s"
  using no_bundle_is_an_asset [of "lower_extension path"]
  by (auto simp: LoadBundle_def LoadBundleInternal_def IsValidAssetFile_def ValidateBundleFile_def AL_SetError_def)

lemma notify_loader_frame [simp]:
  "al_loadedBundles (notify_loader callback e s) = al_loadedBundles s"
  "al_loadedAssets (notify_loader callback e s) = al_loadedAssets s"
  by (simp_all add: notify_loader_def)

lemma bundle_frame:
  "al_loadedBundles (snd (RegisterAsset a s)) = al_loadedBundles s"
  "al_loadedBundles (snd (UnregisterAsset name s)) = al_loadedBundles s"
  "al_loadedBundles (AL_SetError error s) = al_loadedBundles s"
  "al_loadedBundles (snd (load_script_asset now name s)) = al_loadedBundles s"
  by (simp_all add: RegisterAsset_def UnregisterAsset_def AL_SetError_def load_script_asset_def Let_def split_def
      split: option.split)

lemma loader_frame:
  "al_loadedBundles (snd (snd (LoadAssetFromREDkit now name type a s))) = al_loadedBundles s"
  "al_loadedBundles (snd (snd (LoadWeaponData now name a s))) = al_loadedBundles s"
  "al_loadedBundles (snd (snd (LoadAssetFromFile now d path a s))) = al_loadedBundles s"
  using bundle_frame(4) [of now _ s]
  by (auto simp: LoadAssetFromREDkit_def LoadWeaponData_def LoadAssetFromFile_def LoadAssetFromFileSystem_def
      bundle_frame Let_def split_def split: option.split prod.split)

lemma load_kind_frame: "al_loadedBundles (snd (snd (load_kind type path kind now name a s))) = al_loadedBundles s"
  using loader_frame(1) [of now name type _ s]
  by (simp add: load_kind_def bundle_frame Let_def split_def)

lemma initialize_bundles: "al_loadedBundles s = [] \<Longrightarrow> al_loadedBundles (snd (AL_Initialize lua exists piped s)) = []"
  by (simp add: AL_Initialize_def AL_SetError_def Let_def split_def)

lemma unload_fails: "al_loadedBundles s = [] \<Longrightarrow> \<not> fst (UnloadBundle name s) \<and> al_loadedBundles (snd (UnloadBundle name s)) = []"
  by (simp add: UnloadBundle_def AL_SetError_def)

lemma compress_frame:
  "al_loadedBundles (snd (snd (CompressAsset t0 t1 a algorithm s))) = al_loadedBundles s"
  "al_loadedBundles (snd (snd (OptimizeAsset t0 t1 a s))) = al_loadedBundles s"
  "DecompressAsset t0 t1 a s = Some x \<Longrightarrow> al_loadedBundles (snd (snd x)) = al_loadedBundles s"
  by (auto simp: CompressAsset_def OptimizeAsset_def DecompressAsset_def AL_SetError_def Let_def split_def split: if_splits)

lemma save_frame:
  "al_loadedBundles (fst (snd (SaveAssetToFile creatable writable path a (s, d)))) = al_loadedBundles s"
  by (simp add: SaveAssetToFile_def AL_SetError_def Let_def split_def)

definition bundleless :: "AssetLoader \<times> disk \<Rightarrow> bool" where
  "bundleless sd \<longleftrightarrow> al_loadedBundles (fst sd) = []"

lemma bundleless_step:
  assumes "bundleless sd" "asset_step x sd = Some te"
  shows "bundleless te"
proof -
  obtain s d t e where sd: "sd = (s, d)" and te: "te = (t, e)" by fastforce
  have b: "al_loadedBundles s = []" using assms(1) by (simp add: bundleless_def sd)
  have st: "asset_step x (s, d) = Some (t, e)" using assms(2) by (simp add: sd te)
  have "al_loadedBundles t = []"
  proof (cases x)
    case (ALoadBundle path)
    then show ?thesis using st b LoadBundle_fails [of d path s] by auto
  next
    case AShutdown
    then show ?thesis using st b by (auto simp: AL_Shutdown_def split: if_splits)
  next
    case (ASaveFile creatable writable path a)
    then show ?thesis using st b save_frame [of creatable writable path a s d] by simp
  next
    case (ADecompress t0 t1 a)
    then show ?thesis using st b by (auto dest: compress_frame(3))
  next
    case (AScripts y)
    then show ?thesis using st b by auto
  next
    case AClearError
    then show ?thesis using st b by (auto simp: AL_ClearError_def)
  next
    case (ACallbacks l u c)
    then show ?thesis using st b by auto
  qed (use st b initialize_bundles unload_fails in
      \<open>auto simp: bundle_frame loader_frame load_kind_frame compress_frame(1,2)\<close>)
  then show ?thesis by (simp add: bundleless_def te)
qed

interpretation bundles: step_system asset_step bundleless "\<lambda>x. True"
  by unfold_locales (rule bundleless_step)

text \<open>
  \<open>LoadBundle\<close> first asks whether the file is an asset, and no extension of a bundle is one of an
  asset: no bundle is ever loaded, although the tests of the repository expect one to be.  And so the
  loop of \<open>Shutdown\<close>, which erases the entry it is at, never has an entry to erase.
\<close>

lemma no_bundle_is_ever_loaded:
  assumes "run asset_step ops (AssetLoader_new r w c, d) = Some (s, e)"
  shows "al_loadedBundles s = [] \<and> (\<exists>t. LoadBundle e path s = Some (False, t))
    \<and> \<not> fst (UnloadBundle name s) \<and> AL_Shutdown s \<noteq> None"
proof -
  have "bundleless (s, e)"
    using bundles.run_inv [of "(AssetLoader_new r w c, d)" ops] assms
    by (simp add: bundleless_def AssetLoader_new_def list_all_iff)
  then show ?thesis
    using LoadBundle_fails [of e path s] unload_fails [of s name]
    by (auto simp: bundleless_def AL_Shutdown_def)
qed

section \<open>The table of assets\<close>

text \<open>A table of valid assets under their names, which is empty while the loader is not initialised.\<close>

definition table_ok :: "(string, AssetData) omap \<Rightarrow> bool" where
  "table_ok m \<longleftrightarrow> om_sorted m \<and> (\<forall>(k, a) \<in> set m. ad_name a = k \<and> ValidateAsset a)"


lemma table_ok_Nil [simp]: "table_ok []"
  by (simp add: table_ok_def)



lemma notify_loader_initialized [simp]: "al_initialized (notify_loader callback e s) = al_initialized s"
  by (simp add: notify_loader_def)























section \<open>Directories\<close>

lemma save_succeeds:
  assumes "SaveAssetToFile creatable writable path a (s, d) = (True, t, e)"
  shows "directory_part path \<notin> set (dk_dirs d)" "directory_part path \<in> set (dk_dirs e)"
    and "path \<notin> set (dk_dirs e)" "al_initialized s" "dk_files e path = Some (ad_data a)"
  using assms
  by (auto simp: SaveAssetToFile_def CreateDirectoryIfNotExists_def directories_of_def Let_def split: if_splits)

lemma directories_stay:
  assumes "asset_step x (s, d) = Some (t, e)"
  shows "set (dk_dirs d) \<subseteq> set (dk_dirs e)"
  using assms
  by (cases x) (auto simp: SaveAssetToFile_def CreateDirectoryIfNotExists_def Let_def split: if_splits)

definition has_directory :: "string \<Rightarrow> AssetLoader \<times> disk \<Rightarrow> bool" where
  "has_directory p sd \<longleftrightarrow> p \<in> set (dk_dirs (snd sd))"

interpretation directories: step_system asset_step "has_directory p" "\<lambda>x. True"
  by unfold_locales (use directories_stay in \<open>fastforce simp: has_directory_def\<close>)

lemma no_directory_part: "\<forall>c \<in> set path. \<not> is_separator c \<Longrightarrow> directory_part path = path"
  by (auto simp: directory_part_def)

text \<open>
  C39.  \<open>SaveAssetToFile\<close> takes \<open>create_directories\<close>, which reports whether it created the directory, as
  a report of success.  So a directory takes one file: after a save that succeeded, in every run
  that follows, saving to any file of the same directory fails, the same file included.  And a file
  name without a directory is never saved: the directory of that name is in its way.
\<close>

theorem one_save_per_directory:
  assumes "SaveAssetToFile creatable writable path a (s, d) = (True, t, e)"
    and "run asset_step ops (t, e) = Some (u, f)" "directory_part path' = directory_part path"
  shows "\<not> fst (SaveAssetToFile creatable' writable' path' a' (u, f)) \<and> (\<exists>c \<in> set path. is_separator c)"
proof
  have "has_directory (directory_part path) (u, f)"
    using directories.run_inv [OF _ _ assms(2), of "directory_part path"] save_succeeds(2) [OF assms(1)]
    by (simp add: has_directory_def list_all_iff)
  then show "\<not> fst (SaveAssetToFile creatable' writable' path' a' (u, f))"
    using save_succeeds(1) [of creatable' writable' path' a' u f] assms(3)
    by (cases "SaveAssetToFile creatable' writable' path' a' (u, f)") (auto simp: has_directory_def)
  show "\<exists>c \<in> set path. is_separator c"
    using save_succeeds(2,3) [OF assms(1)] no_directory_part [of path] by metis
qed

theorem one_save_per_directory_witness:
  "let s = (AssetLoader_new REDkitBridge_new WitcherScriptBridge_new service)\<lparr>al_initialized := True\<rparr>;
       a = AssetData_new\<lparr>ad_data := [1]\<rparr>;
       d = \<lparr>dk_files = (\<lambda>_. None), dk_dirs = []\<rparr>;
       (ok, t, e) = SaveAssetToFile True True ''out/a.ws'' a (s, d)
   in ok \<and> \<not> fst (SaveAssetToFile True True ''out/b.ws'' a (t, e))"
proof -
  let ?s = "(AssetLoader_new REDkitBridge_new WitcherScriptBridge_new service)\<lparr>al_initialized := True\<rparr>"
  let ?a = "AssetData_new\<lparr>ad_data := [1]\<rparr>"
  let ?d = "\<lparr>dk_files = (\<lambda>_. None), dk_dirs = []\<rparr>"
  have p: "directory_part ''out/a.ws'' = ''out''" "directory_part ''out/b.ws'' = ''out''"
      "directories_of ''out'' = [''out'']" by code_simp+
  obtain t e where r: "SaveAssetToFile True True ''out/a.ws'' ?a (?s, ?d) = (True, t, e)"
    by (simp add: SaveAssetToFile_def CreateDirectoryIfNotExists_def p Let_def)
  moreover have "run asset_step [] (t, e) = Some (t, e)" by simp
  ultimately show ?thesis
    using one_save_per_directory [OF r, of "[]" t e "''out/b.ws''" True True ?a] p by (simp add: Let_def)
qed

section \<open>Files\<close>

text \<open>
  What comes from a file has the bytes of the file and agrees with its checksum.  It is in the table
  under its name, unless the file is empty: then loading it reports success and registers nothing.
\<close>

lemma file_is_loaded_and_verified:
  assumes "LoadAssetFromFile now d path a s = (True, b, t)"
  shows "dk_files d path = Some (ad_data b) \<and> VerifyAssetIntegrity b \<and> \<not> ad_isCompressed b
    \<and> ad_name b = GetFileName path
    \<and> (if ad_data b = [] then al_loadedAssets t = al_loadedAssets s else GetAsset (ad_name b) t = b)"
proof -
  have "ad_name b \<noteq> []" if "ad_name b = GetFileName path" "IsValidAssetFile path"
    using that by (auto simp: IsValidAssetFile_def lower_extension_def GetFileExtension_def
        SUPPORTED_ASSET_EXTENSIONS_def Let_def)
  then show ?thesis
    using assms
    by (auto simp: LoadAssetFromFile_def LoadAssetFromFileSystem_def describe_def VerifyAssetIntegrity_def
        RegisterAsset_def ValidateAsset_def GetAsset_def om_get_def AL_SetError_def Let_def split: if_splits option.splits)
qed

end
