(* ===== verification/ModInterface.thy ===== *)
theory ModInterface
  imports Redkit
begin

text \<open>
  \<open>integration/TW3ModInterface.cpp\<close>: the interface to the mod.  It keeps what is known of players,
  monsters, items, quests and the world in tables by id, tells callbacks of updates, and passes
  messages, the game state and assets on to the bridge to the modding tool.  Callbacks are flags and
  a log.  The tables are unordered maps: a listing takes the order as an argument.  The text format
  of the state, which prints floating point numbers, the discovery of servers and the connection
  (whose class has no source) are left out; the tables' own text is an argument of
  \<open>SerializeGameState\<close>.
\<close>

section \<open>Data\<close>

record PlayerData =
  pd_id :: u32
  pd_x :: flt
  pd_y :: flt
  pd_z :: flt
  pd_w :: flt
  pd_health :: flt
  pd_maxHealth :: flt
  pd_characterId :: u32
  pd_name :: string
  pd_isConnected :: bool

definition PlayerData_new :: PlayerData where
  "PlayerData_new = \<lparr>pd_id = 0, pd_x = Fin 0, pd_y = Fin 0, pd_z = Fin 0, pd_w = Fin 0, pd_health = Fin 100,
     pd_maxHealth = Fin 100, pd_characterId = 0, pd_name = [], pd_isConnected = False\<rparr>"

record NPCData =
  nd_id :: u32
  nd_resourceId :: u32
  nd_x :: flt
  nd_y :: flt
  nd_z :: flt
  nd_w :: flt
  nd_health :: flt
  nd_maxHealth :: flt
  nd_name :: string
  nd_isAlive :: bool

definition NPCData_new :: NPCData where
  "NPCData_new = \<lparr>nd_id = 0, nd_resourceId = 0, nd_x = Fin 0, nd_y = Fin 0, nd_z = Fin 0, nd_w = Fin 0,
     nd_health = Fin 100, nd_maxHealth = Fin 100, nd_name = [], nd_isAlive = True\<rparr>"

record ModItemData =
  md_id :: u32
  md_itemType :: u32
  md_x :: flt
  md_y :: flt
  md_z :: flt
  md_w :: flt
  md_name :: string
  md_value :: flt
  md_weight :: flt
  md_isActive :: bool

definition ModItemData_new :: ModItemData where
  "ModItemData_new = \<lparr>md_id = 0, md_itemType = 0, md_x = Fin 0, md_y = Fin 0, md_z = Fin 0, md_w = Fin 0,
     md_name = [], md_value = Fin 0, md_weight = Fin 0, md_isActive = True\<rparr>"

record ModQuestData =
  mq_id :: u32
  mq_name :: string
  mq_description :: string
  mq_state :: u32
  mq_isActive :: bool

definition ModQuestData_new :: ModQuestData where
  "ModQuestData_new = \<lparr>mq_id = 0, mq_name = [], mq_description = [], mq_state = 0, mq_isActive = False\<rparr>"

record ModWorldData =
  mw_weatherType :: u32
  mw_weatherIntensity :: flt
  mw_timeHours :: u32
  mw_timeMinutes :: u32
  mw_isDay :: bool

definition ModWorldData_new :: ModWorldData where
  "ModWorldData_new = \<lparr>mw_weatherType = 0, mw_weatherIntensity = Fin 0, mw_timeHours = 12, mw_timeMinutes = 0,
     mw_isDay = True\<rparr>"

datatype mod_event =
    PlayerMoved u32 flt flt flt flt
  | PlayerHealth u32 flt
  | QuestState u32 u32
  | WeatherChanged u32 flt
  | TimeChanged u32 u32

record ModInterface =
  mi_players :: "(u32, PlayerData) omap"
  mi_npcs :: "(u32, NPCData) omap"
  mi_items :: "(u32, ModItemData) omap"
  mi_quests :: "(u32, ModQuestData) omap"
  mi_worldData :: ModWorldData
  mi_playerMoveCallback :: bool
  mi_playerHealthCallback :: bool
  mi_questStateCallback :: bool
  mi_weatherChangeCallback :: bool
  mi_timeChangeCallback :: bool
  mi_initialized :: bool
  mi_modConnected :: bool
  mi_redkit :: REDkitBridge
  mi_scripts :: WitcherScriptBridge
  mi_events :: "mod_event list"

definition ModInterface_new :: "REDkitBridge \<Rightarrow> WitcherScriptBridge \<Rightarrow> ModInterface" where
  "ModInterface_new r w = \<lparr>mi_players = [], mi_npcs = [], mi_items = [], mi_quests = [], mi_worldData = ModWorldData_new,
     mi_playerMoveCallback = False, mi_playerHealthCallback = False, mi_questStateCallback = False,
     mi_weatherChangeCallback = False, mi_timeChangeCallback = False, mi_initialized = False,
     mi_modConnected = False, mi_redkit = r, mi_scripts = w, mi_events = []\<rparr>"

definition notify_mod :: "(ModInterface \<Rightarrow> bool) \<Rightarrow> mod_event \<Rightarrow> ModInterface \<Rightarrow> ModInterface" where
  "notify_mod callback e s = (if callback s then s\<lparr>mi_events := mi_events s @ [e]\<rparr> else s)"

section \<open>Start and end\<close>

definition MI_Initialize :: "bool \<Rightarrow> (string \<Rightarrow> bool) \<Rightarrow> bool \<Rightarrow> ModInterface \<Rightarrow> bool \<times> ModInterface" where
  "MI_Initialize lua exists piped s =
     (if mi_initialized s then (True, s)
      else let (ok, r, w) = RK_Initialize lua exists piped (mi_redkit s) (mi_scripts s);
               s = s\<lparr>mi_redkit := r, mi_scripts := w\<rparr>
           in if \<not> ok then (False, s)
              else let r = SetInventoryCallback True (SetPlayerAttackCallback True (SetQuestCallback True r))
                   in (True, s\<lparr>mi_redkit := r, mi_players := [], mi_npcs := [], mi_items := [], mi_quests := [],
                               mi_worldData := ModWorldData_new, mi_initialized := True\<rparr>))"

definition MI_Shutdown :: "ModInterface \<Rightarrow> ModInterface" where
  "MI_Shutdown s =
     (if \<not> mi_initialized s then s
      else s\<lparr>mi_players := [], mi_npcs := [], mi_items := [], mi_quests := [], mi_playerMoveCallback := False,
             mi_playerHealthCallback := False, mi_questStateCallback := False, mi_weatherChangeCallback := False,
             mi_timeChangeCallback := False, mi_initialized := False, mi_modConnected := False\<rparr>)"

section \<open>The tables\<close>

definition RegisterPlayer :: "u32 \<Rightarrow> PlayerData \<Rightarrow> ModInterface \<Rightarrow> ModInterface" where
  "RegisterPlayer playerId data s = s\<lparr>mi_players := om_put playerId data (mi_players s)\<rparr>"

definition UnregisterPlayer :: "u32 \<Rightarrow> ModInterface \<Rightarrow> ModInterface" where
  "UnregisterPlayer playerId s = s\<lparr>mi_players := om_erase playerId (mi_players s)\<rparr>"

definition UpdatePlayerData :: "u32 \<Rightarrow> PlayerData \<Rightarrow> ModInterface \<Rightarrow> ModInterface" where
  "UpdatePlayerData playerId data s =
     (if om_find (mi_players s) playerId = None then s
      else notify_mod mi_playerHealthCallback (PlayerHealth playerId (pd_health data))
             (notify_mod mi_playerMoveCallback (PlayerMoved playerId (pd_x data) (pd_y data) (pd_z data) (pd_w data))
               (s\<lparr>mi_players := om_put playerId data (mi_players s)\<rparr>)))"

definition GetPlayerData :: "u32 \<Rightarrow> ModInterface \<Rightarrow> PlayerData" where
  "GetPlayerData playerId s = om_get PlayerData_new (mi_players s) playerId"

definition RegisterNPC :: "u32 \<Rightarrow> NPCData \<Rightarrow> ModInterface \<Rightarrow> ModInterface" where
  "RegisterNPC npcId data s = s\<lparr>mi_npcs := om_put npcId data (mi_npcs s)\<rparr>"

definition UnregisterNPC :: "u32 \<Rightarrow> ModInterface \<Rightarrow> ModInterface" where
  "UnregisterNPC npcId s = s\<lparr>mi_npcs := om_erase npcId (mi_npcs s)\<rparr>"

definition UpdateNPCData :: "u32 \<Rightarrow> NPCData \<Rightarrow> ModInterface \<Rightarrow> ModInterface" where
  "UpdateNPCData npcId data s = s\<lparr>mi_npcs := om_upd npcId (\<lambda>_. data) (mi_npcs s)\<rparr>"

definition MI_GetNPCData :: "u32 \<Rightarrow> ModInterface \<Rightarrow> NPCData" where
  "MI_GetNPCData npcId s = om_get NPCData_new (mi_npcs s) npcId"

definition MI_RegisterItem :: "u32 \<Rightarrow> ModItemData \<Rightarrow> ModInterface \<Rightarrow> ModInterface" where
  "MI_RegisterItem itemId data s = s\<lparr>mi_items := om_put itemId data (mi_items s)\<rparr>"

definition UnregisterItem :: "u32 \<Rightarrow> ModInterface \<Rightarrow> ModInterface" where
  "UnregisterItem itemId s = s\<lparr>mi_items := om_erase itemId (mi_items s)\<rparr>"

definition UpdateItemData :: "u32 \<Rightarrow> ModItemData \<Rightarrow> ModInterface \<Rightarrow> ModInterface" where
  "UpdateItemData itemId data s = s\<lparr>mi_items := om_upd itemId (\<lambda>_. data) (mi_items s)\<rparr>"

definition GetItemData :: "u32 \<Rightarrow> ModInterface \<Rightarrow> ModItemData" where
  "GetItemData itemId s = om_get ModItemData_new (mi_items s) itemId"

definition RegisterQuest :: "u32 \<Rightarrow> ModQuestData \<Rightarrow> ModInterface \<Rightarrow> ModInterface" where
  "RegisterQuest questId data s = s\<lparr>mi_quests := om_put questId data (mi_quests s)\<rparr>"

definition UnregisterQuest :: "u32 \<Rightarrow> ModInterface \<Rightarrow> ModInterface" where
  "UnregisterQuest questId s = s\<lparr>mi_quests := om_erase questId (mi_quests s)\<rparr>"

definition UpdateQuestData :: "u32 \<Rightarrow> ModQuestData \<Rightarrow> ModInterface \<Rightarrow> ModInterface" where
  "UpdateQuestData questId data s =
     (if om_find (mi_quests s) questId = None then s
      else notify_mod mi_questStateCallback (QuestState questId (mq_state data))
             (s\<lparr>mi_quests := om_put questId data (mi_quests s)\<rparr>))"

definition GetQuestData :: "u32 \<Rightarrow> ModInterface \<Rightarrow> ModQuestData" where
  "GetQuestData questId s = om_get ModQuestData_new (mi_quests s) questId"

definition UpdateWorldData :: "ModWorldData \<Rightarrow> ModInterface \<Rightarrow> ModInterface" where
  "UpdateWorldData data s =
     notify_mod mi_timeChangeCallback (TimeChanged (mw_timeHours data) (mw_timeMinutes data))
       (notify_mod mi_weatherChangeCallback (WeatherChanged (mw_weatherType data) (mw_weatherIntensity data))
         (s\<lparr>mi_worldData := data\<rparr>))"

definition GetConnectedPlayers :: "(u32 \<times> PlayerData) list \<Rightarrow> u32 list" where
  "GetConnectedPlayers order = map fst (filter (\<lambda>pair. pd_isConnected (snd pair)) order)"

definition GetPlayerCount :: "ModInterface \<Rightarrow> nat" where
  "GetPlayerCount s = length (mi_players s)"

section \<open>Messages, state and assets\<close>

definition SetModConnected :: "bool \<Rightarrow> ModInterface \<Rightarrow> ModInterface" where
  "SetModConnected c s = s\<lparr>mi_modConnected := c\<rparr>"

definition SendToMod :: "string \<Rightarrow> ModInterface \<Rightarrow> ModInterface" where
  "SendToMod message s =
     (if mi_modConnected s then s\<lparr>mi_redkit := snd (SendToREDkit message (mi_redkit s))\<rparr> else s)"

definition ProcessModMessage :: "string \<Rightarrow> ModInterface \<Rightarrow> ModInterface" where
  "ProcessModMessage message s = s\<lparr>mi_redkit := snd (ProcessFromREDkit message (mi_redkit s))\<rparr>"

definition SerializeGameState :: "string \<Rightarrow> ModInterface \<Rightarrow> string \<times> ModInterface" where
  "SerializeGameState local_text s =
     (if rk_initialized (mi_redkit s)
      then let (gameState, r) = ExportGameData (mi_redkit s); s = s\<lparr>mi_redkit := r\<rparr>
           in if gameState \<noteq> [] then (gameState, s) else (local_text, s)
      else (local_text, s))"

definition DeserializeGameState :: "string \<Rightarrow> ModInterface \<Rightarrow> ModInterface" where
  "DeserializeGameState jsonData s =
     (if rk_initialized (mi_redkit s) then s\<lparr>mi_redkit := snd (ImportGameData jsonData (mi_redkit s))\<rparr> else s)"

definition GetAssetPath :: "string \<Rightarrow> string" where
  "GetAssetPath assetName = ''mod/assets/'' @ assetName"

text \<open>The kinds of asset are tried in their order; the first success ends the \<open>||\<close>.\<close>

definition try_kinds ::
    "int \<Rightarrow> string \<Rightarrow> REDkitBridge \<Rightarrow> WitcherScriptBridge \<Rightarrow> u8 list option \<times> REDkitBridge \<times> WitcherScriptBridge" where
  "try_kinds now assetName r w =
     (case RK_LoadWeaponData now assetName r w of
        (Some data, r, w) \<Rightarrow> (Some data, r, w)
      | (None, r, w) \<Rightarrow>
          (case RK_LoadArmorData assetName r of
             (Some data, r) \<Rightarrow> (Some data, r, w)
           | (None, r) \<Rightarrow>
               (case RK_LoadItemData assetName r of
                  (Some data, r) \<Rightarrow> (Some data, r, w)
                | (None, r) \<Rightarrow>
                    (case RK_LoadNPCData assetName r of
                       (Some data, r) \<Rightarrow> (Some data, r, w)
                     | (None, r) \<Rightarrow> (case RK_LoadQuestData assetName r of (data, r) \<Rightarrow> (data, r, w))))))"

definition MI_LoadAsset ::
    "int \<Rightarrow> (string \<Rightarrow> u8 list option) \<Rightarrow> string \<Rightarrow> ModInterface \<Rightarrow> u8 list option \<times> ModInterface" where
  "MI_LoadAsset now files assetName s =
     (if rk_initialized (mi_redkit s)
      then let (data, r, w) = try_kinds now assetName (mi_redkit s) (mi_scripts s);
               s = s\<lparr>mi_redkit := r, mi_scripts := w\<rparr>
           in case data of Some d \<Rightarrow> (Some d, s) | None \<Rightarrow> (files (GetAssetPath assetName), s)
      else (files (GetAssetPath assetName), s))"

definition MI_SaveAsset ::
    "bool \<Rightarrow> string \<Rightarrow> u8 list \<Rightarrow> (string \<Rightarrow> u8 list option) \<Rightarrow> bool \<times> (string \<Rightarrow> u8 list option)" where
  "MI_SaveAsset writable assetName data files =
     (if \<not> writable then (False, files) else (True, files(GetAssetPath assetName := Some data)))"

section \<open>What the interface shows\<close>

text \<open>Between a registration and the next change of the same id the data are seen as given.\<close>

lemma player_seen: "GetPlayerData k (RegisterPlayer j d s) = (if k = j then d else GetPlayerData k s)"
  by (simp add: GetPlayerData_def RegisterPlayer_def om_get_def)

lemma player_unseen: "GetPlayerData k (UnregisterPlayer j s) = (if k = j then PlayerData_new else GetPlayerData k s)"
  by (simp add: GetPlayerData_def UnregisterPlayer_def om_get_def)

lemma player_updated:
  "GetPlayerData k (UpdatePlayerData j d s)
     = (if k = j \<and> om_find (mi_players s) j \<noteq> None then d else GetPlayerData k s)"
  by (auto simp: GetPlayerData_def UpdatePlayerData_def notify_mod_def om_get_def)

text \<open>
  Once the bridge is started no asset is read from the disk: the first request that fails only for
  want of a script is followed by one that cannot fail, and either answer is a constant of the code.
\<close>

lemma request_available:
  "available r \<Longrightarrow> request f p failure r = (Some (GetREDkitFunctionResult f p), r)"
proof -
  have "ValidateREDkitResponse (GetREDkitFunctionResult f p) \<and> GetREDkitFunctionResult f p \<noteq> []"
    by (simp add: ValidateREDkitResponse_def GetREDkitFunctionResult_def)
  then show "available r \<Longrightarrow> ?thesis" by (auto simp: request_def Let_def)
qed

lemma first_success_data:
  "(\<And>y. wr_success (call y) \<Longrightarrow> wr_data (call y) = d) \<Longrightarrow> \<not> wr_success otherwise \<Longrightarrow>
    wr_success (first_success call otherwise ps) \<Longrightarrow> wr_data (first_success call otherwise ps) = d"
  by (induction ps) (auto simp: Let_def split: if_splits)

lemma call_data:
  assumes "wr_success (CallWitcherScriptFunction now g q w)"
  shows "wr_data (CallWitcherScriptFunction now g q w) = ''mock_result''"
proof -
  have f: "\<not> wr_success (failed_call e)" for e by (simp add: failed_call_def)
  have "wr_data (ExecuteWitcherScriptFunctionInternal now g q w) = ''mock_result''"
    if "wr_success (ExecuteWitcherScriptFunctionInternal now g q w)"
    using that unfolding ExecuteWitcherScriptFunctionInternal_def
    by (rule first_success_data [rotated 2]) (simp_all add: f CallScriptFunction_def)
  moreover have "WB_ready w" using assms f by (auto simp: CallWitcherScriptFunction_def split: if_splits)
  ultimately show ?thesis
    using assms by (simp add: CallWitcherScriptFunction_def first_success_data f)
qed

lemma assets_are_simulated:
  assumes "available (mi_redkit s)"
  shows "fst (MI_LoadAsset now files assetName s) \<in>
    {Some (bytes_of_string ''mock_result''), Some (bytes_of_string (GetREDkitFunctionResult f p))}"
proof -
  let ?call = "CallWitcherScriptFunction now ''MP_AssetManager.LoadAsset'' (''weapons/'' @ assetName) (mi_scripts s)"
  have i: "rk_initialized (mi_redkit s)" using assms by (simp add: available_def)
  have a: "RK_LoadArmorData assetName (RK_SetError e (mi_redkit s))
      = (Some (bytes_of_string (GetREDkitFunctionResult f p)), RK_SetError e (mi_redkit s))" for e
    using assms request_available [of "RK_SetError e (mi_redkit s)"]
    by (simp add: RK_LoadArmorData_def request_data_def available_def RK_SetError_def GetREDkitFunctionResult_def)
  show ?thesis
  proof (cases "wr_success ?call")
    case True
    then show ?thesis using call_data [OF True] assms i
      by (simp add: MI_LoadAsset_def try_kinds_def RK_LoadWeaponData_def LoadAssetFromWitcherScript_def Let_def)
  next
    case False
    then show ?thesis using assms i a
      by (simp add: MI_LoadAsset_def try_kinds_def RK_LoadWeaponData_def LoadAssetFromWitcherScript_def Let_def)
  qed
qed

end
