(* ===== verification/Networking.thy ===== *)
theory Networking
  imports Bytes
begin

text \<open>
  The network layer of \<open>include/networking/\<close>: messages (\<open>net_message.h\<close>), the shared
  queue (\<open>net_tsqueue.h\<close>), the two directions of a connection (\<open>net_connection.h\<close>) and
  the server (\<open>net_server.h\<close> with \<open>src/networking/net_server.cpp\<close>).

  The asio library is outside the model.  What is used of it is its documented behaviour: a
  completed \<open>async_write\<close> has written all its bytes in order, a completed \<open>async_read\<close>
  has read exactly the bytes asked for, and the handlers of one context run one after the other.
  Every handler is one definition; an error code closes the socket.
\<close>

section \<open>Messages\<close>

text \<open>\<open>MessageTypes\<close> is an enumeration of \<open>uint32_t\<close>; a message holds its number.\<close>

record message =
  ms_id :: u32
  ms_size :: u32
  ms_body :: "u8 list"

definition message_new :: message where
  "message_new = \<lparr>ms_id = 0, ms_size = 0, ms_body = []\<rparr>"

text \<open>\<open>operator <<\<close> and \<open>operator >>\<close> on the object representation of the data.\<close>

definition push_data :: "u8 list \<Rightarrow> message \<Rightarrow> message" where
  "push_data data msg =
     (let body = ms_body msg @ data in msg\<lparr>ms_body := body, ms_size := of_nat (length body)\<rparr>)"

definition pull_data :: "nat \<Rightarrow> message \<Rightarrow> (u8 list \<times> message) option" where
  "pull_data n msg =
     (if length (ms_body msg) < n then None
      else let i = length (ms_body msg) - n
        in Some (drop i (ms_body msg), msg\<lparr>ms_body := take i (ms_body msg), ms_size := of_nat i\<rparr>))"

definition push_u32 :: "u32 \<Rightarrow> message \<Rightarrow> message" where
  "push_u32 w msg = push_data (le32 w) msg"

definition pull_u32 :: "message \<Rightarrow> (u32 \<times> message) option" where
  "pull_u32 msg = map_option (\<lambda>(bs, m). (read_le32 bs, m)) (pull_data 4 msg)"

text \<open>The eight bytes of a \<open>message_header\<close>.\<close>

definition header_bytes :: "message \<Rightarrow> u8 list" where
  "header_bytes msg = le32 (ms_id msg) @ le32 (ms_size msg)"

text \<open>The position messages of the client; a float is its 32-bit pattern.\<close>

definition SendPositionUpdate :: "u32 \<Rightarrow> u32 \<Rightarrow> u32 \<Rightarrow> u32 \<Rightarrow> message" where
  "SendPositionUpdate x y z w =
     push_u32 w (push_u32 z (push_u32 y (push_u32 x (message_new\<lparr>ms_id := 201\<rparr>))))"

definition ProcessPositionUpdate :: "message \<Rightarrow> (u32 \<times> u32 \<times> u32 \<times> u32) option" where
  "ProcessPositionUpdate msg =
     (case pull_u32 msg of None \<Rightarrow> None | Some (w, m1) \<Rightarrow>
      (case pull_u32 m1 of None \<Rightarrow> None | Some (z, m2) \<Rightarrow>
       (case pull_u32 m2 of None \<Rightarrow> None | Some (y, m3) \<Rightarrow>
        (case pull_u32 m3 of None \<Rightarrow> None | Some (x, m4) \<Rightarrow> Some (x, y, z, w)))))"

section \<open>The shared queue\<close>

text \<open>The operations under the lock; \<open>front\<close> and \<open>pop\<close> of an empty deque are undefined.\<close>

definition tq_push_back :: "'a \<Rightarrow> 'a list \<Rightarrow> 'a list" where
  "tq_push_back item q = q @ [item]"

definition tq_push_front :: "'a \<Rightarrow> 'a list \<Rightarrow> 'a list" where
  "tq_push_front item q = item # q"

definition tq_front :: "'a list \<Rightarrow> 'a option" where
  "tq_front q = (if q = [] then None else Some (hd q))"

definition tq_back :: "'a list \<Rightarrow> 'a option" where
  "tq_back q = (if q = [] then None else Some (last q))"

definition tq_pop_front :: "'a list \<Rightarrow> ('a \<times> 'a list) option" where
  "tq_pop_front q = (if q = [] then None else Some (hd q, tl q))"

definition tq_pop_back :: "'a list \<Rightarrow> ('a \<times> 'a list) option" where
  "tq_pop_back q = (if q = [] then None else Some (last q, butlast q))"

definition tq_empty :: "'a list \<Rightarrow> bool" where
  "tq_empty q \<longleftrightarrow> q = []"

definition tq_count :: "'a list \<Rightarrow> nat" where
  "tq_count q = length q"

definition tq_clear :: "'a list \<Rightarrow> 'a list" where
  "tq_clear q = []"

text \<open>
  \<open>wait\<close> against concurrent \<open>push_back\<close> calls: the waiting thread tests \<open>empty()\<close> under
  the queue's mutex, releases it, and only then takes the other mutex and sleeps.  A push
  notifies under that other mutex, after it has added the item.
\<close>

datatype wait_state = Testing | Committed | Sleeping | Returned

datatype wait_event = Test | Sleep | Push | Spurious

record 'a wait_queue =
  wq_items :: "'a list"
  wq_waiter :: wait_state

fun wait_step :: "'a \<Rightarrow> wait_event \<Rightarrow> 'a wait_queue \<Rightarrow> 'a wait_queue option" where
  "wait_step item Test s =
     (if wq_waiter s = Testing
      then Some (s\<lparr>wq_waiter := (if tq_empty (wq_items s) then Committed else Returned)\<rparr>) else None)"
| "wait_step item Sleep s =
     (if wq_waiter s = Committed then Some (s\<lparr>wq_waiter := Sleeping\<rparr>) else None)"
| "wait_step item Push s =
     Some (s\<lparr>wq_items := tq_push_back item (wq_items s),
             wq_waiter := (if wq_waiter s = Sleeping then Testing else wq_waiter s)\<rparr>)"
| "wait_step item Spurious s =
     (if wq_waiter s = Sleeping then Some (s\<lparr>wq_waiter := Testing\<rparr>) else None)"

section \<open>The writing direction of a connection\<close>

datatype write_op = NoWrite | WritingHeader | WritingBody

record writer =
  tx_queue :: "message list"
  tx_pending :: write_op
  tx_wire :: "u8 list"
  tx_open :: bool

definition writer_new :: "bool \<Rightarrow> writer" where
  "writer_new b = \<lparr>tx_queue = [], tx_pending = NoWrite, tx_wire = [], tx_open = b\<rparr>"

definition WriteHeader :: "writer \<Rightarrow> writer" where
  "WriteHeader s = s\<lparr>tx_pending := WritingHeader\<rparr>"

definition WriteBody :: "writer \<Rightarrow> writer" where
  "WriteBody s = s\<lparr>tx_pending := WritingBody\<rparr>"

definition Send :: "message \<Rightarrow> writer \<Rightarrow> writer" where
  "Send msg s =
     (let bWritingMessage = \<not> tq_empty (tx_queue s);
          s1 = s\<lparr>tx_queue := tq_push_back msg (tx_queue s)\<rparr>
      in if \<not> bWritingMessage then WriteHeader s1 else s1)"

text \<open>\<open>m_qMessagesOut.pop_front()\<close> and the next header, if there is one.\<close>

definition next_message :: "writer \<Rightarrow> writer" where
  "next_message s =
     (let s1 = s\<lparr>tx_queue := tl (tx_queue s), tx_pending := NoWrite\<rparr>
      in if \<not> tq_empty (tx_queue s1) then WriteHeader s1 else s1)"

definition write_failed :: "writer \<Rightarrow> writer" where
  "write_failed s = s\<lparr>tx_open := False, tx_pending := NoWrite\<rparr>"

text \<open>The two completion handlers, with the error code as \<open>ok\<close>.\<close>

definition header_written :: "bool \<Rightarrow> writer \<Rightarrow> writer" where
  "header_written ok s =
     (if ok then
        (let s1 = s\<lparr>tx_wire := tx_wire s @ header_bytes (hd (tx_queue s))\<rparr>
         in if 0 < length (ms_body (hd (tx_queue s))) then WriteBody s1 else next_message s1)
      else write_failed s)"

definition body_written :: "bool \<Rightarrow> writer \<Rightarrow> writer" where
  "body_written ok s =
     (if ok then next_message (s\<lparr>tx_wire := tx_wire s @ ms_body (hd (tx_queue s))\<rparr>)
      else write_failed s)"

definition write_done :: "bool \<Rightarrow> writer \<Rightarrow> writer" where
  "write_done ok s =
     (case tx_pending s of
        NoWrite \<Rightarrow> s | WritingHeader \<Rightarrow> header_written ok s | WritingBody \<Rightarrow> body_written ok s)"

datatype tx_op = TxSend message | TxDone bool

fun tx_step :: "tx_op \<Rightarrow> writer \<Rightarrow> writer option" where
  "tx_step (TxSend m) s = Some (Send m s)"
| "tx_step (TxDone ok) s = Some (write_done ok s)"

section \<open>The reading direction of a connection\<close>

datatype read_op = NoRead | ReadingHeader | ReadingBody

record reader =
  rx_pending :: read_op
  rx_temporary :: message
  rx_in :: "message list"

definition reader_new :: reader where
  "reader_new = \<lparr>rx_pending = NoRead, rx_temporary = message_new, rx_in = []\<rparr>"

definition ReadHeader :: "reader \<Rightarrow> reader" where
  "ReadHeader s = s\<lparr>rx_pending := ReadingHeader\<rparr>"

definition ReadBody :: "reader \<Rightarrow> reader" where
  "ReadBody s = s\<lparr>rx_pending := ReadingBody\<rparr>"

definition AddToIncomingMessageQueue :: "reader \<Rightarrow> reader" where
  "AddToIncomingMessageQueue s =
     s\<lparr>rx_in := tq_push_back (rx_temporary s) (rx_in s), rx_temporary := message_new\<rparr>"

text \<open>
  The handler of a header: the body is resized to the size field less the eight bytes of the
  header; a size below eight wraps around and \<open>resize\<close> throws \<open>std::length_error\<close> in the
  handler, which ends the program (\<open>None\<close>).
\<close>

definition header_read :: "u8 list \<Rightarrow> reader \<Rightarrow> reader option" where
  "header_read bytes s =
     (let m = (rx_temporary s)\<lparr>ms_id := read_le32 bytes, ms_size := read_le32 (drop 4 bytes)\<rparr>;
          s1 = s\<lparr>rx_temporary := m, rx_pending := NoRead\<rparr>
      in if 0 < ms_size m then
           (if unat (ms_size m) < 8 then None
            else Some (ReadBody (s1\<lparr>rx_temporary := m\<lparr>ms_body := replicate (unat (ms_size m) - 8) 0\<rparr>\<rparr>)))
         else Some (AddToIncomingMessageQueue s1))"

definition body_read :: "u8 list \<Rightarrow> reader \<Rightarrow> reader" where
  "body_read bytes s =
     AddToIncomingMessageQueue (s\<lparr>rx_temporary := (rx_temporary s)\<lparr>ms_body := bytes\<rparr>, rx_pending := NoRead\<rparr>)"

text \<open>
  One completion against the bytes that have arrived: nothing happens while the pending read
  lacks bytes.
\<close>

definition rx_step :: "reader \<times> u8 list \<Rightarrow> (reader \<times> u8 list) option" where
  "rx_step p = (case p of (s, stream) \<Rightarrow>
     (case rx_pending s of
        NoRead \<Rightarrow> Some (s, stream)
      | ReadingHeader \<Rightarrow>
          if length stream < 8 then Some (s, stream)
          else map_option (\<lambda>t. (t, drop 8 stream)) (header_read (take 8 stream) s)
      | ReadingBody \<Rightarrow>
          (let n = length (ms_body (rx_temporary s))
           in if length stream < n then Some (s, stream)
              else Some (body_read (take n stream) s, drop n stream))))"

fun rx_rounds :: "nat \<Rightarrow> reader \<times> u8 list \<Rightarrow> (reader \<times> u8 list) option" where
  "rx_rounds 0 p = Some p"
| "rx_rounds (Suc n) p = (case rx_step p of None \<Rightarrow> None | Some p' \<Rightarrow> rx_rounds n p')"

end
