(* ===== verification/Server.thy ===== *)
theory Server
  imports Networking
begin

text \<open>
  The server of \<open>include/networking/net_server.h\<close> and its game-specific subclass in
  \<open>src/networking/net_server.cpp\<close>.

  A \<open>shared_ptr<connection>\<close> is \<open>None\<close> or the key of a connection object; the objects live
  in an ordered map and are never freed here.  The virtual functions are those of
  \<open>Witcher3MPServer\<close>.  Answering a ping pushes the message body as an object
  (\<open>pongMsg << msg.body\<close> copies the representation of the vector, not its elements): that
  representation is the parameter \<open>repr\<close>.  A chat message is read by copying its last 32 bytes
  over a \<open>std::string\<close>: whether they make a string that can be read and destroyed is the parameter
  \<open>live\<close>, and anything else is undefined (\<open>None\<close>), as is a message that is too short.
\<close>

type_synonym client = "nat option"

record Connection =
  co_id :: u32
  co_open :: bool
  co_tx :: writer
  co_rx :: reader

record ServerState =
  sv_objects :: "(nat, Connection) omap"
  sv_connections :: "client list"
  sv_in :: "(client \<times> message) list"
  sv_nIDCounter :: u32
  sv_maxClients :: u64
  sv_compressionEnabled :: bool

definition ServerState_new :: ServerState where
  "ServerState_new = \<lparr>sv_objects = [], sv_connections = [], sv_in = [], sv_nIDCounter = 10000,
     sv_maxClients = 100, sv_compressionEnabled = True\<rparr>"

definition connection_new :: "bool \<Rightarrow> Connection" where
  "connection_new b = \<lparr>co_id = 0, co_open = b, co_tx = writer_new b, co_rx = reader_new\<rparr>"

definition set_object :: "nat \<Rightarrow> Connection \<Rightarrow> ServerState \<Rightarrow> ServerState" where
  "set_object k c s = s\<lparr>sv_objects := om_put k c (sv_objects s)\<rparr>"

definition client_connected :: "ServerState \<Rightarrow> client \<Rightarrow> bool" where
  "client_connected s p = (case p of None \<Rightarrow> False
     | Some k \<Rightarrow> (case om_find (sv_objects s) k of None \<Rightarrow> False | Some c \<Rightarrow> co_open c))"

text \<open>\<open>client->Send(msg)\<close>.\<close>

definition send_to :: "nat \<Rightarrow> message \<Rightarrow> ServerState \<Rightarrow> ServerState" where
  "send_to k msg s =
     (case om_find (sv_objects s) k of
        None \<Rightarrow> s | Some c \<Rightarrow> set_object k (c\<lparr>co_tx := Send msg (co_tx c)\<rparr>) s)"

definition ConnectToClient :: "u32 \<Rightarrow> Connection \<Rightarrow> Connection" where
  "ConnectToClient uid c =
     (if co_open c then c\<lparr>co_id := uid, co_rx := ReadHeader (co_rx c)\<rparr> else c)"

section \<open>Virtual functions\<close>

definition OnClientConnect :: "ServerState \<Rightarrow> bool" where
  "OnClientConnect s \<longleftrightarrow> \<not> (unat (sv_maxClients s) \<le> length (sv_connections s))"

text \<open>\<open>OnClientDisconnect\<close> only logs.\<close>

definition OnClientDisconnect :: "client \<Rightarrow> ServerState \<Rightarrow> ServerState" where
  "OnClientDisconnect p s = s"

definition ProcessClientPing :: "(u8 list \<Rightarrow> u8 list) \<Rightarrow> nat \<Rightarrow> message \<Rightarrow> ServerState \<Rightarrow> ServerState" where
  "ProcessClientPing repr k msg s =
     send_to k (push_data (repr (ms_body msg)) (message_new\<lparr>ms_id := 4\<rparr>)) s"

text \<open>\<open>ProcessPositionUpdate\<close> only logs.\<close>

definition SV_ProcessPositionUpdate :: "nat \<Rightarrow> message \<Rightarrow> ServerState \<Rightarrow> ServerState" where
  "SV_ProcessPositionUpdate k msg s = s"

definition SV_ProcessChatMessage :: "(u8 list \<Rightarrow> bool) \<Rightarrow> nat \<Rightarrow> message \<Rightarrow> ServerState \<Rightarrow> ServerState option" where
  "SV_ProcessChatMessage live k msg s =
     (case pull_data 32 msg of None \<Rightarrow> None | Some (bs, m) \<Rightarrow> if live bs then Some s else None)"

definition OnMessageReceived ::
    "(u8 list \<Rightarrow> u8 list) \<Rightarrow> (u8 list \<Rightarrow> bool) \<Rightarrow> client \<Rightarrow> message \<Rightarrow> ServerState \<Rightarrow> ServerState option" where
  "OnMessageReceived repr live p msg s =
     (case p of
        None \<Rightarrow> Some s
      | Some k \<Rightarrow>
          if ms_id msg = 3 then Some (ProcessClientPing repr k msg s)
          else if ms_id msg = 201 then Some (SV_ProcessPositionUpdate k msg s)
          else if ms_id msg = 214 then SV_ProcessChatMessage live k msg s
          else Some s)"

section \<open>Accepting and messaging clients\<close>

text \<open>
  The accept handler: \<open>None\<close> is an error code, \<open>Some b\<close> a new socket and whether it is
  still open; the new connection gets the first unused key.
\<close>

definition accept_handler :: "bool option \<Rightarrow> ServerState \<Rightarrow> ServerState" where
  "accept_handler socket s =
     (case socket of
        None \<Rightarrow> s
      | Some b \<Rightarrow>
          if OnClientConnect s then
            (let k = length (sv_objects s);
                 newconn = connection_new b
             in set_object k (ConnectToClient (sv_nIDCounter s) newconn)
                  (s\<lparr>sv_connections := sv_connections s @ [Some k], sv_nIDCounter := sv_nIDCounter s + 1\<rparr>))
          else set_object (length (sv_objects s)) (connection_new b) s)"

text \<open>
  \<open>client\<close> is a parameter by value: \<open>client.reset()\<close> makes it null before
  \<open>std::remove\<close> compares with it.
\<close>

definition MessageClient :: "client \<Rightarrow> message \<Rightarrow> ServerState \<Rightarrow> ServerState" where
  "MessageClient p msg s =
     (if client_connected s p then send_to (the p) msg s
      else let s1 = OnClientDisconnect p s; p' = None
        in s1\<lparr>sv_connections := filter (\<lambda>c. c \<noteq> p') (sv_connections s1)\<rparr>)"

text \<open>The loop of \<open>MessageAllClients\<close>: the pointers it leaves in the deque.\<close>

fun message_loop :: "message \<Rightarrow> client \<Rightarrow> client list \<Rightarrow> ServerState \<Rightarrow> client list \<times> bool \<times> ServerState" where
  "message_loop msg ignore [] s = ([], False, s)"
| "message_loop msg ignore (p # ps) s =
     (if client_connected s p then
        (let s1 = (if p \<noteq> ignore then send_to (the p) msg s else s);
             (ps', invalid, s2) = message_loop msg ignore ps s1
         in (p # ps', invalid, s2))
      else
        (let s1 = OnClientDisconnect p s;
             (ps', invalid, s2) = message_loop msg ignore ps s1
         in (None # ps', True, s2)))"

definition MessageAllClients :: "message \<Rightarrow> client \<Rightarrow> ServerState \<Rightarrow> ServerState" where
  "MessageAllClients msg pIgnoreClient s =
     (let (ps, bInvalidClientExists, s1) = message_loop msg pIgnoreClient (sv_connections s) s
      in s1\<lparr>sv_connections := (if bInvalidClientExists then filter (\<lambda>c. c \<noteq> None) ps else ps)\<rparr>)"

text \<open>
  \<open>Update\<close> with the handler of one message; the counter stops the loop after
  \<open>nMaxMessages\<close> messages.
\<close>

fun update_loop :: "(client \<Rightarrow> message \<Rightarrow> ServerState \<Rightarrow> ServerState option) \<Rightarrow> nat \<Rightarrow> ServerState \<Rightarrow> ServerState option" where
  "update_loop handler 0 s = Some s"
| "update_loop handler (Suc n) s =
     (case tq_pop_front (sv_in s) of
        None \<Rightarrow> Some s
      | Some ((remote, msg), rest) \<Rightarrow>
          (case handler remote msg (s\<lparr>sv_in := rest\<rparr>) of None \<Rightarrow> None | Some t \<Rightarrow> update_loop handler n t))"

definition Update :: "(u8 list \<Rightarrow> u8 list) \<Rightarrow> (u8 list \<Rightarrow> bool) \<Rightarrow> u64 \<Rightarrow> ServerState \<Rightarrow> ServerState option" where
  "Update repr live nMaxMessages s = update_loop (OnMessageReceived repr live) (unat nMaxMessages) s"

definition GetConnectedClients :: "ServerState \<Rightarrow> nat" where
  "GetConnectedClients s = length (sv_connections s)"

definition GetMaxClients :: "ServerState \<Rightarrow> u64" where
  "GetMaxClients s = sv_maxClients s"

definition SetCompressionEnabled :: "bool \<Rightarrow> ServerState \<Rightarrow> ServerState" where
  "SetCompressionEnabled enabled s = s\<lparr>sv_compressionEnabled := enabled\<rparr>"

definition IsCompressionEnabled :: "ServerState \<Rightarrow> bool" where
  "IsCompressionEnabled s = sv_compressionEnabled s"

section \<open>Events\<close>

text \<open>A socket that closes, and a message a connection has put on the shared queue.\<close>

definition close_socket :: "nat \<Rightarrow> ServerState \<Rightarrow> ServerState" where
  "close_socket k s =
     (case om_find (sv_objects s) k of
        None \<Rightarrow> s | Some c \<Rightarrow> set_object k (c\<lparr>co_open := False\<rparr>) s)"

definition incoming :: "nat \<Rightarrow> message \<Rightarrow> ServerState \<Rightarrow> ServerState" where
  "incoming k msg s = s\<lparr>sv_in := tq_push_back (Some k, msg) (sv_in s)\<rparr>"

datatype ServerOp =
    SvAccept "bool option"
  | SvClose nat
  | SvIncoming nat message
  | SvMessageClient client message
  | SvMessageAllClients message client
  | SvUpdate u64
  | SvSetCompressionEnabled bool

fun server_step :: "(u8 list \<Rightarrow> u8 list) \<Rightarrow> (u8 list \<Rightarrow> bool) \<Rightarrow> ServerOp \<Rightarrow> ServerState \<Rightarrow> ServerState option" where
  "server_step repr live (SvAccept b) s = Some (accept_handler b s)"
| "server_step repr live (SvClose k) s = Some (close_socket k s)"
| "server_step repr live (SvIncoming k m) s = Some (incoming k m s)"
| "server_step repr live (SvMessageClient p m) s = Some (MessageClient p m s)"
| "server_step repr live (SvMessageAllClients m p) s = Some (MessageAllClients m p s)"
| "server_step repr live (SvUpdate n) s = Update repr live n s"
| "server_step repr live (SvSetCompressionEnabled b) s = Some (SetCompressionEnabled b s)"

end
