(* ===== verification/ResourceNames.thy ===== *)
theory ResourceNames
  imports Text
begin

text \<open>
  \<open>database/ResourceNames.cpp\<close>: the names of the game's resources and their numbers, in two maps
  that are filled from a file of \<open>name=number\<close> lines or with the defaults.
\<close>

record ResourceNames =
  rn_idToName :: "(u32, string) omap"
  rn_nameToId :: "(string, u32) omap"
  rn_initialized :: bool

definition ResourceNames_new :: ResourceNames where
  "ResourceNames_new = \<lparr>rn_idToName = [], rn_nameToId = [], rn_initialized = False\<rparr>"

definition AddResource :: "u32 \<Rightarrow> string \<Rightarrow> ResourceNames \<Rightarrow> ResourceNames" where
  "AddResource k name s =
     s\<lparr>rn_idToName := om_put k name (rn_idToName s), rn_nameToId := om_put name k (rn_nameToId s)\<rparr>"

definition default_resources :: "(u32 \<times> string) list" where
  "default_resources =
     [(1, ''Geralt''), (2, ''Yennefer''), (3, ''Triss''), (4, ''Ciri''), (5, ''Dandelion''), (6, ''Zoltan''),
      (7, ''Vesemir''), (8, ''Lambert''), (9, ''Eskel''), (10, ''Keira''), (100, ''Drowner''), (101, ''Ghoul''),
      (102, ''Wraith''), (103, ''Leshen''), (104, ''Griffin''), (105, ''Wyvern''), (106, ''Basilisk''),
      (107, ''Cockatrice''), (108, ''Golem''), (109, ''Elemental''), (200, ''Silver_Sword''),
      (201, ''Steel_Sword''), (202, ''Crossbow''), (203, ''Bomb''), (204, ''Potion''), (205, ''Oil''),
      (206, ''Decoction''), (207, ''Mutagen''), (208, ''Rune''), (209, ''Glyph''), (242, ''Giant''),
      (243, ''Troll''), (244, ''Dragon'')]"

definition InitializeDefaultResources :: "ResourceNames \<Rightarrow> ResourceNames" where
  "InitializeDefaultResources s =
     (if rn_initialized s then s
      else (fold (\<lambda>(k, name). AddResource k name) default_resources s)\<lparr>rn_initialized := True\<rparr>)"

text \<open>Every query fills the maps first.\<close>

definition GetResourceName :: "u32 \<Rightarrow> ResourceNames \<Rightarrow> string \<times> ResourceNames" where
  "GetResourceName k s =
     (let s1 = InitializeDefaultResources s
      in (case om_find (rn_idToName s1) k of Some name \<Rightarrow> name | None \<Rightarrow> ''Unknown'', s1))"

definition GetResourceId :: "string \<Rightarrow> ResourceNames \<Rightarrow> u32 \<times> ResourceNames" where
  "GetResourceId name s =
     (let s1 = InitializeDefaultResources s
      in (case om_find (rn_nameToId s1) name of Some k \<Rightarrow> k | None \<Rightarrow> 0, s1))"

definition FindResID :: "string \<Rightarrow> ResourceNames \<Rightarrow> u32 \<times> ResourceNames" where
  "FindResID name s = GetResourceId name s"

definition IsValidResource :: "u32 \<Rightarrow> ResourceNames \<Rightarrow> bool \<times> ResourceNames" where
  "IsValidResource k s = (let s1 = InitializeDefaultResources s in (om_find (rn_idToName s1) k \<noteq> None, s1))"

definition IsValidResourceName :: "string \<Rightarrow> ResourceNames \<Rightarrow> bool \<times> ResourceNames" where
  "IsValidResourceName name s = (let s1 = InitializeDefaultResources s in (om_find (rn_nameToId s1) name \<noteq> None, s1))"

definition GetResourceCount :: "ResourceNames \<Rightarrow> nat \<times> ResourceNames" where
  "GetResourceCount s = (let s1 = InitializeDefaultResources s in (length (rn_idToName s1), s1))"

text \<open>
  \<open>std::stoul\<close> with an \<open>unsigned long\<close> of 32 bits; a minus sign negates the result, and
  \<open>None\<close> is an exception.
\<close>

definition stoul :: "string \<Rightarrow> u32 option" where
  "stoul cs =
     (let body = dropWhile white_space cs;
          negative = (body \<noteq> [] \<and> hd body = CHR ''-'');
          signed = (body \<noteq> [] \<and> (hd body = CHR ''-'' \<or> hd body = CHR ''+''));
          ds = takeWhile is_digit (if signed then tl body else body)
      in if ds = [] \<or> 2 ^ 32 \<le> digits_value ds then None
         else Some (word_of_int (if negative then - digits_value ds else digits_value ds)))"

definition load_resource :: "string \<Rightarrow> ResourceNames \<Rightarrow> ResourceNames" where
  "load_resource line s =
     (if line = [] \<or> hd line = CHR ''#'' \<or> CHR ''='' \<notin> set line then s
      else
        let name = trim (takeWhile (\<lambda>c. c \<noteq> CHR ''='') line); idStr = trim (tl (dropWhile (\<lambda>c. c \<noteq> CHR ''='') line))
        in (case stoul idStr of None \<Rightarrow> s | Some k \<Rightarrow> AddResource k name s))"

text \<open>The file, when it exists.\<close>

definition LoadResourceDatabase :: "string option \<Rightarrow> ResourceNames \<Rightarrow> bool \<times> ResourceNames" where
  "LoadResourceDatabase file s =
     (case file of
        Some text \<Rightarrow> (True, fold load_resource (getlines (CHR 0x0A) text) s)
      | None \<Rightarrow> (False, InitializeDefaultResources s))"

section \<open>The default names\<close>

lemma nameToId_fold:
  "om_find (rn_nameToId (fold (\<lambda>(k, name). AddResource k name) rs s)) name =
     (case map_of (rev (map prod.swap rs)) name of Some k \<Rightarrow> Some k | None \<Rightarrow> om_find (rn_nameToId s) name)"
  by (induction rs arbitrary: s) (auto simp: AddResource_def om.find_put map_add_def split: option.splits)

lemma idToName_fold:
  "om_find (rn_idToName (fold (\<lambda>(k, name). AddResource k name) rs s)) k =
     (case map_of (rev rs) k of Some name \<Rightarrow> Some name | None \<Rightarrow> om_find (rn_idToName s) k)"
  by (induction rs arbitrary: s) (auto simp: AddResource_def om.find_put map_add_def split: option.splits)

lemma default_distinct: "distinct (map fst default_resources)" "distinct (map snd default_resources)"
  by (simp_all add: default_resources_def)

text \<open>Names and numbers of the defaults belong together, whatever a file has put into the maps before.\<close>

lemma default_names:
  assumes "(k, name) \<in> set default_resources" "\<not> rn_initialized s"
  shows "fst (FindResID name s) = k" "fst (GetResourceName k s) = name"
proof -
  have "map_of (rev (map prod.swap default_resources)) name = Some k"
    using assms(1) default_distinct(2) by (intro map_of_is_SomeI) (auto simp flip: rev_map simp: comp_def image_iff intro!: bexI [of _ "(k, name)"])
  then show "fst (FindResID name s) = k"
    using assms(2) by (simp add: FindResID_def GetResourceId_def InitializeDefaultResources_def Let_def nameToId_fold)
  have "map_of (rev default_resources) k = Some name"
    using assms(1) default_distinct(1) by (intro map_of_is_SomeI) (auto simp flip: rev_map)
  then show "fst (GetResourceName k s) = name"
    using assms(2) by (simp add: GetResourceName_def InitializeDefaultResources_def Let_def idToName_fold)
qed

lemma FindResID_initialized: "rn_initialized s \<Longrightarrow> snd (FindResID name s) = s"
  by (simp add: FindResID_def GetResourceId_def InitializeDefaultResources_def Let_def)

end
