(* ===== verification/GameServer.thy ===== *)
theory GameServer
  imports Server ResourceNames Wire
begin

text \<open>
  The game server of \<open>src/core/Main.cpp\<close> on top of the server of \<open>net_server.h\<close>: the players
  and the monsters, the answers to the messages of the clients, the console command that spawns a
  monster, and one round of the main loop.  \<open>game/Entities/Player\<close> and \<open>Npc\<close> are the two records.

  An entry of \<open>PlayerList\<close> is null (\<open>None\<close>) from the moment its client is found to be disconnected
  until the next round of the main loop; using it as a pointer is undefined.  \<open>None\<close> as a result
  is undefined behaviour or a loop that never ends.
\<close>

section \<open>Data\<close>

record Player =
  pl_id :: u32
  pl_position :: Vector4F
  pl_health :: flt
  pl_maxHealth :: flt
  pl_characterId :: u8
  pl_ownerClient :: client

definition Player_new :: "u32 \<Rightarrow> Vector4F \<Rightarrow> flt \<Rightarrow> u8 \<Rightarrow> client \<Rightarrow> Player" where
  "Player_new k position health characterId ownerClient =
     \<lparr>pl_id = k, pl_position = position, pl_health = health, pl_maxHealth = health, pl_characterId = characterId,
      pl_ownerClient = ownerClient\<rparr>"

definition UpdatePosition :: "Vector4F \<Rightarrow> Player \<Rightarrow> Player" where
  "UpdatePosition newPosition pl = pl\<lparr>pl_position := newPosition\<rparr>"

record Npc =
  np_id :: u32
  np_resourceId :: u32
  np_position :: Vector4F
  np_health :: flt
  np_maxHealth :: flt

definition Npc_new :: "u32 \<Rightarrow> u32 \<Rightarrow> Vector4F \<Rightarrow> flt \<Rightarrow> Npc" where
  "Npc_new k resourceId position health =
     \<lparr>np_id = k, np_resourceId = resourceId, np_position = position, np_health = health, np_maxHealth = health\<rparr>"

record GameServer =
  gs_server :: ServerState
  gs_players :: "Player option list"
  gs_npcs :: "Npc list"
  gs_highestPlayerID :: u32
  gs_highestNpcID :: u32
  gs_commandQueue :: "string list"
  gs_resources :: ResourceNames

definition GameServer_new :: GameServer where
  "GameServer_new =
     \<lparr>gs_server = ServerState_new, gs_players = [], gs_npcs = [], gs_highestPlayerID = 1, gs_highestNpcID = 1,
      gs_commandQueue = [], gs_resources = ResourceNames_new\<rparr>"

definition set_connections :: "client list \<Rightarrow> GameServer \<Rightarrow> GameServer" where
  "set_connections cs s = s\<lparr>gs_server := (gs_server s)\<lparr>sv_connections := cs\<rparr>\<rparr>"

section \<open>Messages of the server\<close>

definition game_message :: "u32 \<Rightarrow> u8 list \<Rightarrow> message" where
  "game_message ident body = push_data body (message_new\<lparr>ms_id := ident\<rparr>)"

definition update_pos :: "u32 \<Rightarrow> Vector4F \<Rightarrow> u8 \<Rightarrow> message" where
  "update_pos k pos movetype = game_message 201 (le32 k @ vector_bytes pos @ [movetype])"

definition set_actor_health :: "u32 \<Rightarrow> bool \<Rightarrow> flt \<Rightarrow> flt \<Rightarrow> message" where
  "set_actor_health k isPlayer health maxHealth =
     game_message 207 (le32 k @ [bool_byte isPlayer] @ le32 (bits32 health) @ le32 (bits32 maxHealth))"

definition mass_create :: "Player list \<Rightarrow> message" where
  "mass_create players =
     game_message 204 (concat (map (\<lambda>pl. le32 (pl_id pl) @ vector_bytes (pl_position pl) @ [pl_characterId pl]) players))"

section \<open>Sending, and clients that are gone\<close>

text \<open>
  \<open>MessageClient\<close> with the virtual \<open>OnClientDisconnect\<close> it calls.  \<open>iterating\<close>: it runs inside the loop
  of \<open>MessageAllClients\<close> over the deque, from which it must not erase then.
\<close>

definition drop_null :: "bool \<Rightarrow> GameServer \<Rightarrow> GameServer option" where
  "drop_null iterating s =
     (let cs = sv_connections (gs_server s)
      in if iterating \<and> None \<in> set cs then None else Some (set_connections (filter (\<lambda>c. c \<noteq> None) cs) s))"

definition message_client_with ::
    "(client \<Rightarrow> GameServer \<Rightarrow> GameServer option) \<Rightarrow> bool \<Rightarrow> client \<Rightarrow> message \<Rightarrow> GameServer \<Rightarrow> GameServer option" where
  "message_client_with disconnect iterating p msg s =
     (if client_connected (gs_server s) p then Some (s\<lparr>gs_server := send_to (the p) msg (gs_server s)\<rparr>)
      else case disconnect p s of None \<Rightarrow> None | Some s1 \<Rightarrow> drop_null iterating s1)"

text \<open>The loop over the players that skips the null pointers.\<close>

definition notify_players ::
    "(client \<Rightarrow> GameServer \<Rightarrow> GameServer option) \<Rightarrow> bool \<Rightarrow> message \<Rightarrow> GameServer \<Rightarrow> GameServer option" where
  "notify_players disconnect iterating msg s =
     run (\<lambda>i s. case gs_players s ! i of
            None \<Rightarrow> Some s
          | Some pl \<Rightarrow> message_client_with disconnect iterating (pl_ownerClient pl) msg s)
       [0 ..< length (gs_players s)] s"

text \<open>One round of the loop of \<open>OnClientDisconnect\<close>.\<close>

definition kick ::
    "(client \<Rightarrow> GameServer \<Rightarrow> GameServer option) \<Rightarrow> bool \<Rightarrow> client \<Rightarrow> nat \<Rightarrow> GameServer \<Rightarrow> GameServer option" where
  "kick disconnect iterating p i s =
     (case gs_players s ! i of
        None \<Rightarrow> Some s
      | Some ply \<Rightarrow>
          if pl_ownerClient ply = p then
            notify_players disconnect iterating (update_pos (pl_id ply) zero_vector 1)
              (s\<lparr>gs_players := (gs_players s)[i := None]\<rparr>)
          else Some s)"

text \<open>
  \<open>OnClientDisconnect\<close> and \<open>MessageClient\<close> call each other.  Every further call has one player less, so
  the number of entries plus one is enough fuel.  The first line asks the client for its id, which is
  undefined for a null pointer.  The index is a \<open>uint8\<close>: with 256 entries the loop never ends.
\<close>

fun on_client_disconnect :: "nat \<Rightarrow> bool \<Rightarrow> client \<Rightarrow> GameServer \<Rightarrow> GameServer option" where
  "on_client_disconnect 0 iterating p s = None"
| "on_client_disconnect (Suc n) iterating p s =
     (if p = None \<or> 256 \<le> length (gs_players s) then None
      else run (kick (on_client_disconnect n iterating) iterating p) [0 ..< length (gs_players s)] s)"

definition Game_OnClientDisconnect :: "bool \<Rightarrow> client \<Rightarrow> GameServer \<Rightarrow> GameServer option" where
  "Game_OnClientDisconnect iterating p s = on_client_disconnect (Suc (length (gs_players s))) iterating p s"

definition Game_MessageClient :: "client \<Rightarrow> message \<Rightarrow> GameServer \<Rightarrow> GameServer option" where
  "Game_MessageClient p msg s = message_client_with (Game_OnClientDisconnect False) False p msg s"

text \<open>One round of \<open>MessageAllClients\<close>, with the flag of the loop.\<close>

definition message_each :: "message \<Rightarrow> client \<Rightarrow> nat \<Rightarrow> bool \<times> GameServer \<Rightarrow> (bool \<times> GameServer) option" where
  "message_each msg ignore i x =
     (let (invalid, s) = x; p = sv_connections (gs_server s) ! i
      in if client_connected (gs_server s) p then
           Some (invalid, if p \<noteq> ignore then s\<lparr>gs_server := send_to (the p) msg (gs_server s)\<rparr> else s)
         else map_option (\<lambda>s1. (True, set_connections ((sv_connections (gs_server s1))[i := None]) s1))
                (Game_OnClientDisconnect True p s))"

definition Game_MessageAllClients :: "message \<Rightarrow> client \<Rightarrow> GameServer \<Rightarrow> GameServer option" where
  "Game_MessageAllClients msg pIgnoreClient s =
     map_option (\<lambda>(invalid, s1). if invalid
         then set_connections (filter (\<lambda>c. c \<noteq> None) (sv_connections (gs_server s1))) s1 else s1)
       (run (message_each msg pIgnoreClient) [0 ..< length (sv_connections (gs_server s))] (False, s))"

definition Game_OnClientConnect :: "client \<Rightarrow> GameServer \<Rightarrow> (bool \<times> GameServer) option" where
  "Game_OnClientConnect p s = map_option (\<lambda>s1. (True, s1)) (Game_MessageClient p (message_new\<lparr>ms_id := 200\<rparr>) s)"

section \<open>The messages of the clients\<close>

text \<open>A loop \<open>for (auto i : PlayerList)\<close> that uses every pointer.\<close>

definition each_player :: "(Player \<Rightarrow> GameServer \<Rightarrow> GameServer option) \<Rightarrow> GameServer \<Rightarrow> GameServer option" where
  "each_player f s =
     run (\<lambda>i s. case gs_players s ! i of None \<Rightarrow> None | Some pl \<Rightarrow> f pl s) [0 ..< length (gs_players s)] s"

definition message_others :: "client \<Rightarrow> message \<Rightarrow> GameServer \<Rightarrow> GameServer option" where
  "message_others p msg s =
     each_player (\<lambda>pl s. if pl_ownerClient pl \<noteq> p then Game_MessageClient (pl_ownerClient pl) msg s else Some s) s"

definition message_everyone :: "message \<Rightarrow> GameServer \<Rightarrow> GameServer option" where
  "message_everyone msg s = each_player (\<lambda>pl s. Game_MessageClient (pl_ownerClient pl) msg s) s"

definition send_playerdata :: "client \<Rightarrow> message \<Rightarrow> GameServer \<Rightarrow> GameServer option" where
  "send_playerdata p msg s =
     do {
       (b1, m1) \<leftarrow> pull_data 1 msg;
       (b2, m2) \<leftarrow> pull_data 16 m1;
       let characterId = b1 ! 0;
       let recPosition = read_vector b2;
       let newPlyID = gs_highestPlayerID s;
       let s1 = s\<lparr>gs_highestPlayerID := gs_highestPlayerID s + 1\<rparr>;
       s2 \<leftarrow> message_others p (game_message 203 (le32 newPlyID @ vector_bytes recPosition @ [characterId])) s1;
       s3 \<leftarrow> (if gs_players s2 = [] then Some s2
              else if None \<in> set (gs_players s2) then None
              else Game_MessageClient p (mass_create (map the (gs_players s2))) s2);
       let s4 = s3\<lparr>gs_players := gs_players s3 @ [Some (Player_new newPlyID recPosition (Fin 1000) characterId p)]\<rparr>;
       Game_MessageClient p (set_actor_health 0 True (Fin 1000) (Fin 1000)) s4
     }"

text \<open>The first player of a client: undefined behind a null pointer, \<open>Some None\<close> if there is none.\<close>

fun player_of :: "client \<Rightarrow> Player option list \<Rightarrow> (nat \<times> Player) option option" where
  "player_of p [] = Some None"
| "player_of p (None # ps) = None"
| "player_of p (Some pl # ps) =
     (if pl_ownerClient pl = p then Some (Some (0, pl))
      else map_option (map_option (\<lambda>(i, q). (Suc i, q))) (player_of p ps))"

definition pos_change :: "client \<Rightarrow> message \<Rightarrow> GameServer \<Rightarrow> GameServer option" where
  "pos_change p msg s =
     (case player_of p (gs_players s) of
        None \<Rightarrow> None
      | Some None \<Rightarrow> Some s
      | Some (Some (i, affected)) \<Rightarrow>
          do {
            (b1, m1) \<leftarrow> pull_data 1 msg;
            (b2, m2) \<leftarrow> pull_data 16 m1;
            let newPos = read_vector b2;
            Game_MessageAllClients (update_pos (pl_id affected) newPos (b1 ! 0)) (pl_ownerClient affected)
              (s\<lparr>gs_players := (gs_players s)[i := Some (UpdatePosition newPos affected)]\<rparr>)
          })"

fun npc_index :: "u32 \<Rightarrow> Npc list \<Rightarrow> (nat \<times> Npc) option" where
  "npc_index k [] = None"
| "npc_index k (n # ns) = (if np_id n = k then Some (0, n) else map_option (\<lambda>(i, q). (Suc i, q)) (npc_index k ns))"

definition hit_npc :: "message \<Rightarrow> GameServer \<Rightarrow> GameServer option" where
  "hit_npc msg s =
     (case pull_u32 msg of
        None \<Rightarrow> None
      | Some (k, m1) \<Rightarrow>
          (case npc_index k (gs_npcs s) of
             None \<Rightarrow> Some s
           | Some (i, npc) \<Rightarrow>
               if f_lt (Fin 50) (np_health npc) then
                 let npc1 = npc\<lparr>np_health := sub32 (np_health npc) (Fin 50)\<rparr>
                 in message_everyone (set_actor_health k False (np_health npc1) (np_maxHealth npc1))
                      (s\<lparr>gs_npcs := (gs_npcs s)[i := npc1]\<rparr>)
               else message_everyone (game_message 211 (le32 k))
                      (s\<lparr>gs_npcs := (gs_npcs s)[i := npc\<lparr>np_health := Fin 0\<rparr>]\<rparr>)))"

definition got_hit :: "client \<Rightarrow> GameServer \<Rightarrow> GameServer option" where
  "got_hit p s =
     (case player_of p (gs_players s) of
        None \<Rightarrow> None
      | Some None \<Rightarrow> Some s
      | Some (Some (i, pl)) \<Rightarrow>
          if f_lt (Fin 100) (pl_health pl) then
            let pl1 = pl\<lparr>pl_health := sub32 (pl_health pl) (Fin 100)\<rparr>
            in Game_MessageClient p (set_actor_health 0 True (pl_health pl1) (pl_maxHealth pl1))
                 (s\<lparr>gs_players := (gs_players s)[i := Some pl1]\<rparr>)
          else
            Game_MessageClient p (message_new\<lparr>ms_id := 212\<rparr>)
              (s\<lparr>gs_players := (gs_players s)[i := Some (pl\<lparr>pl_health := pl_maxHealth pl\<rparr>)]\<rparr>))"

text \<open>The characters are pulled from the end of the message, at most 100 of them, and then reversed.\<close>

fun pull_chars :: "nat \<Rightarrow> message \<Rightarrow> u8 list" where
  "pull_chars 0 msg = []"
| "pull_chars (Suc n) msg =
     (case pull_data 1 msg of None \<Rightarrow> [] | Some (b, m1) \<Rightarrow> b ! 0 # pull_chars n m1)"

definition chat_message :: "client \<Rightarrow> message \<Rightarrow> GameServer \<Rightarrow> GameServer option" where
  "chat_message p msg s =
     (case player_of p (gs_players s) of
        None \<Rightarrow> None
      | Some None \<Rightarrow> Some s
      | Some (Some (i, pl)) \<Rightarrow>
          let text = rev (pull_chars 100 msg)
          in if text = [] then Some s
             else case message_others p (game_message 214 (le32 (pl_id pl) @ text)) s of
               None \<Rightarrow> None | Some s1 \<Rightarrow> Game_MessageClient p (game_message 214 (le32 0 @ text)) s1)"

definition Game_OnMessageReceived :: "client \<Rightarrow> message \<Rightarrow> GameServer \<Rightarrow> GameServer option" where
  "Game_OnMessageReceived p msg s =
     (if ms_id msg = 202 then send_playerdata p msg s
      else if ms_id msg = 206 then pos_change p msg s
      else if ms_id msg = 209 then hit_npc msg s
      else if ms_id msg = 210 then got_hit p s
      else if ms_id msg = 213 then chat_message p msg s
      else Some s)"

text \<open>\<open>Update(-1, false)\<close>: the messages that are waiting.\<close>

definition receive_next :: "client \<times> message \<Rightarrow> GameServer \<Rightarrow> GameServer option" where
  "receive_next m s =
     Game_OnMessageReceived (fst m) (snd m) (s\<lparr>gs_server := (gs_server s)\<lparr>sv_in := tl (sv_in (gs_server s))\<rparr>\<rparr>)"

definition Game_Update :: "GameServer \<Rightarrow> GameServer option" where
  "Game_Update s = run receive_next (sv_in (gs_server s)) s"

section \<open>The console and the main loop\<close>

text \<open>\<open>std::atoi\<close>: 0 without digits, undefined out of the range of \<open>int\<close>.\<close>

definition atoi :: "string \<Rightarrow> int option" where
  "atoi cs =
     (let body = dropWhile white_space cs;
          negative = (body \<noteq> [] \<and> hd body = CHR ''-'');
          signed = (body \<noteq> [] \<and> (hd body = CHR ''-'' \<or> hd body = CHR ''+''));
          ds = takeWhile is_digit (if signed then tl body else body);
          v = (if negative then - digits_value ds else digits_value ds)
      in if v < - (2 ^ 31) \<or> 2 ^ 31 \<le> v then None else Some v)"

text \<open>The position of the player with an id, the zero vector without one.\<close>

fun spawn_position :: "u32 \<Rightarrow> Player option list \<Rightarrow> Vector4F option" where
  "spawn_position k [] = Some zero_vector"
| "spawn_position k (None # ps) = None"
| "spawn_position k (Some pl # ps) = (if pl_id pl = k then Some (pl_position pl) else spawn_position k ps)"

definition npc_health :: "u32 \<Rightarrow> flt" where
  "npc_health ResID =
     (if ResID = 242 then Fin 10000 else if ResID = 244 then Fin 5000 else if ResID = 243 then Fin 3000 else Fin 500)"

definition spawn :: "u32 \<Rightarrow> Vector4F \<Rightarrow> GameServer \<Rightarrow> GameServer option" where
  "spawn ResID SpawnTo s =
     (let newNpcID = gs_highestNpcID s; health = npc_health ResID
      in Game_MessageAllClients
           (game_message 208 (le32 newNpcID @ le32 ResID @ vector_bytes SpawnTo @ le32 (bits32 health))) None
           (s\<lparr>gs_highestNpcID := newNpcID + 1, gs_npcs := gs_npcs s @ [Npc_new newNpcID ResID SpawnTo health]\<rparr>))"

definition handle_command :: "string \<Rightarrow> GameServer \<Rightarrow> GameServer option" where
  "handle_command command s =
     (let segments = getlines (CHR '' '') command
      in if command = [] then Some s
         else if segments ! 0 = ''spawn'' \<and> length segments = 3 then
           let (ResID, resources) = FindResID (segments ! 1) (gs_resources s); s1 = s\<lparr>gs_resources := resources\<rparr>
           in if ResID = 0 then Some s1
              else (case atoi (segments ! 2) of
                  None \<Rightarrow> None
                | Some n \<Rightarrow>
                    (case spawn_position (word_of_int n) (gs_players s1) of
                       None \<Rightarrow> None
                     | Some SpawnTo \<Rightarrow> if vector_null SpawnTo then Some s1 else spawn ResID SpawnTo s1))
         else Some s)"

text \<open>All commands, then the queue without them; the index is a \<open>uint8\<close> again.\<close>

definition handle_commands :: "GameServer \<Rightarrow> GameServer option" where
  "handle_commands s =
     (if 256 \<le> length (gs_commandQueue s) then None
      else map_option (\<lambda>s1. s1\<lparr>gs_commandQueue := []\<rparr>) (run handle_command (gs_commandQueue s) s))"

definition remove_null_players :: "GameServer \<Rightarrow> GameServer" where
  "remove_null_players s = s\<lparr>gs_players := filter (\<lambda>pl. pl \<noteq> None) (gs_players s)\<rparr>"

definition main_round :: "GameServer \<Rightarrow> GameServer option" where
  "main_round s =
     (case handle_commands s of None \<Rightarrow> None | Some s1 \<Rightarrow> Game_Update (remove_null_players s1))"

section \<open>Events\<close>

text \<open>The accept handler of \<open>net_server.h\<close> with this server's \<open>OnClientConnect\<close>.\<close>

definition game_accept :: "bool option \<Rightarrow> GameServer \<Rightarrow> GameServer option" where
  "game_accept socket s =
     (case socket of
        None \<Rightarrow> Some s
      | Some b \<Rightarrow>
          let k = length (sv_objects (gs_server s));
              s1 = s\<lparr>gs_server := set_object k (connection_new b) (gs_server s)\<rparr>
          in (case Game_OnClientConnect (Some k) s1 of
                None \<Rightarrow> None
              | Some (approved, s2) \<Rightarrow>
                  let sv = gs_server s2
                  in if \<not> approved then Some s2
                     else Some (s2\<lparr>gs_server :=
                       (case om_find (sv_objects sv) k of
                          None \<Rightarrow> sv | Some c \<Rightarrow> set_object k (ConnectToClient (sv_nIDCounter sv) c) sv)
                       \<lparr>sv_connections := sv_connections sv @ [Some k], sv_nIDCounter := sv_nIDCounter sv + 1\<rparr>\<rparr>)))"

datatype GameOp =
    GsAccept "bool option"
  | GsClose nat
  | GsIncoming nat message
  | GsCommand string
  | GsRound

fun game_step :: "GameOp \<Rightarrow> GameServer \<Rightarrow> GameServer option" where
  "game_step (GsAccept b) s = game_accept b s"
| "game_step (GsClose k) s = Some (s\<lparr>gs_server := close_socket k (gs_server s)\<rparr>)"
| "game_step (GsIncoming k m) s = Some (s\<lparr>gs_server := incoming k m (gs_server s)\<rparr>)"
| "game_step (GsCommand c) s = Some (s\<lparr>gs_commandQueue := gs_commandQueue s @ [c]\<rparr>)"
| "game_step GsRound s = main_round s"

end
