(* ===== verification/GameProps.thy ===== *)
theory GameProps
  imports GameServer
begin

text \<open>
  What the game server guarantees: noticing a disconnect ends and removes the player, what happens
  to a message behind it, the health of players and monsters, and who receives a chat message.
\<close>

section \<open>Players only disappear\<close>

text \<open>The list of \<open>t\<close> is that of \<open>s\<close> with some entries set to null; nothing else of the game changed.\<close>

definition thinned :: "GameServer \<Rightarrow> GameServer \<Rightarrow> bool" where
  "thinned t s \<longleftrightarrow> list_all2 (\<lambda>x y. x = y \<or> x = None) (gs_players t) (gs_players s) \<and> gs_npcs t = gs_npcs s \<and>
     gs_highestPlayerID t = gs_highestPlayerID s \<and> gs_highestNpcID t = gs_highestNpcID s"

lemma thinned_refl [simp]: "thinned s s"
  by (simp add: thinned_def list.rel_refl)

lemma thinned_trans: "thinned u t \<Longrightarrow> thinned t s \<Longrightarrow> thinned u s"
  unfolding thinned_def
  using list_all2_trans [of "\<lambda>x y. x = y \<or> x = None" "\<lambda>x y. x = y \<or> x = None" "\<lambda>x y. x = y \<or> x = None"
      "gs_players u" "gs_players t" "gs_players s"] by auto

lemma thinned_server [simp]:
  "thinned (t\<lparr>gs_server := x\<rparr>) s = thinned t s" "thinned (set_connections cs t) s = thinned t s"
  "thinned s (t\<lparr>gs_server := x\<rparr>) = thinned s t"
  by (simp_all add: thinned_def set_connections_def)

lemma thinned_length: "thinned t s \<Longrightarrow> length (gs_players t) = length (gs_players s)"
  unfolding thinned_def using list_all2_lengthD by blast

lemma thinned_nth: "thinned t s \<Longrightarrow> i < length (gs_players s) \<Longrightarrow> gs_players t ! i = gs_players s ! i \<or> gs_players t ! i = None"
  unfolding thinned_def using list_all2_nthD2 by fastforce

lemma thinned_set: "thinned t s \<Longrightarrow> Some pl \<in> set (gs_players t) \<Longrightarrow> Some pl \<in> set (gs_players s)"
proof -
  assume t: "thinned t s" and "Some pl \<in> set (gs_players t)"
  then obtain i where i: "i < length (gs_players s)" "gs_players t ! i = Some pl"
    by (auto simp: in_set_conv_nth thinned_length)
  with thinned_nth [OF t i(1)] show ?thesis by (metis nth_mem option.distinct(1))
qed

lemma thinned_remove: "thinned (s\<lparr>gs_players := (gs_players s)[i := None]\<rparr>) s"
proof -
  have "xs[i := None] ! j = xs ! j \<or> xs[i := None] ! j = None" if "j < length xs" for xs :: "Player option list" and j
    using that by (cases "j = i") simp_all
  then show ?thesis by (simp add: thinned_def list_all2_conv_all_nth)
qed

definition live :: "GameServer \<Rightarrow> nat" where
  "live s = length (filter (\<lambda>x. x \<noteq> None) (gs_players s))"

lemma thinned_live: "thinned t s \<Longrightarrow> live t \<le> live s"
proof -
  have "list_all2 (\<lambda>x y. x = y \<or> x = None) xs ys \<Longrightarrow>
      length (filter (\<lambda>x. x \<noteq> None) xs) \<le> length (filter (\<lambda>x. x \<noteq> None) ys)" for xs ys :: "Player option list"
    by (induction rule: list_all2_induct) auto
  then show "thinned t s \<Longrightarrow> live t \<le> live s" by (simp add: thinned_def live_def)
qed

lemma live_remove:
  assumes "i < length (gs_players s)" "gs_players s ! i = Some pl"
  shows "live (s\<lparr>gs_players := (gs_players s)[i := None]\<rparr>) < live s"
proof -
  let ?f = "filter (\<lambda>x :: Player option. x \<noteq> None)"
  have "?f (gs_players s) = ?f (take i (gs_players s)) @ Some pl # ?f (drop (Suc i) (gs_players s))"
    using assms(2) by (subst id_take_nth_drop [OF assms(1)]) simp
  then show ?thesis using assms(1) by (simp add: live_def upd_conv_take_nth_drop)
qed

lemma live_le: "live s \<le> length (gs_players s)"
  by (simp add: live_def)

text \<open>An index below the length is found in every list that is only thinned.\<close>

lemma run_thinned:
  assumes "\<And>i u v. thinned u s \<Longrightarrow> f i u = Some v \<Longrightarrow> thinned v u" "run f is s = Some t"
  shows "thinned t s"
  by (rule run_invariant [of "\<lambda>u. thinned u s", OF _ _ assms(2)]) (auto intro: thinned_trans assms(1))

lemma drop_null_thinned: "drop_null it s = Some t \<Longrightarrow> thinned t s"
  by (auto simp: drop_null_def Let_def split: if_splits)

lemma message_client_with_thinned:
  assumes "\<And>u v q. d q u = Some v \<Longrightarrow> thinned v u" "message_client_with d it p msg s = Some t"
  shows "thinned t s"
  using assms(2) by (auto simp: message_client_with_def split: if_splits option.splits
      dest!: drop_null_thinned assms(1) intro: thinned_trans)

lemma notify_players_thinned:
  assumes d: "\<And>u v q. d q u = Some v \<Longrightarrow> thinned v u" and "notify_players d it msg s = Some t"
  shows "thinned t s"
proof -
  have m: "thinned v u" if "message_client_with d it q msg u = Some v" for q msg u v
    using d that by (rule message_client_with_thinned)
  show ?thesis using assms(2) unfolding notify_players_def
    by (elim run_thinned [rotated]) (auto split: option.splits dest: m)
qed

lemma kick_thinned:
  assumes d: "\<And>u v q. d q u = Some v \<Longrightarrow> thinned v u" and k: "kick d it p i s = Some t"
  shows "thinned t s"
proof -
  have n: "thinned v u" if "notify_players d it msg u = Some v" for msg u v
    using d that by (rule notify_players_thinned)
  show ?thesis using k
    by (auto simp: kick_def split: option.splits if_splits dest!: n intro: thinned_trans [OF _ thinned_remove])
qed

lemma disconnect_thinned: "on_client_disconnect n it p s = Some t \<Longrightarrow> thinned t s"
proof (induction n arbitrary: p s t)
  case (Suc n)
  have "thinned v u" if "kick (on_client_disconnect n it) it p i u = Some v" for i u v
    using Suc.IH that by (rule kick_thinned)
  then show ?case using Suc.prems by (auto split: if_splits elim!: run_thinned [rotated])
qed simp

lemma Game_OnClientDisconnect_thinned: "Game_OnClientDisconnect it p s = Some t \<Longrightarrow> thinned t s"
  unfolding Game_OnClientDisconnect_def by (rule disconnect_thinned)

lemma Game_MessageClient_thinned: "Game_MessageClient p msg s = Some t \<Longrightarrow> thinned t s"
  unfolding Game_MessageClient_def using Game_OnClientDisconnect_thinned by (rule message_client_with_thinned)

section \<open>Noticing a disconnect\<close>

text \<open>No player of the client is left behind the loop.\<close>

lemma kick_removes:
  assumes d: "\<And>u v q. d q u = Some v \<Longrightarrow> thinned v u" and k: "kick d it p i s = Some t" "i < length (gs_players s)"
  shows "gs_players t ! i \<noteq> Some pl \<or> pl_ownerClient pl \<noteq> p"
proof (cases "\<exists>ply. gs_players s ! i = Some ply \<and> pl_ownerClient ply = p")
  case True
  then obtain ply where ply: "gs_players s ! i = Some ply" "pl_ownerClient ply = p" by blast
  let ?s = "s\<lparr>gs_players := (gs_players s)[i := None]\<rparr>"
  have "notify_players d it (update_pos (pl_id ply) zero_vector 1) ?s = Some t" using k(1) ply by (simp add: kick_def)
  then have "thinned t ?s" using d by (rule notify_players_thinned [rotated])
  from thinned_nth [OF this, of i] k(2) show ?thesis by auto
next
  case False
  then have "t = s" using k(1) by (auto simp: kick_def split: option.splits)
  with False show ?thesis by blast
qed

lemma run_kick_removes:
  assumes d: "\<And>u v q. d q u = Some v \<Longrightarrow> thinned v u"
  shows "run (kick d it p) [0 ..< k] s = Some t \<Longrightarrow> k \<le> length (gs_players s) \<Longrightarrow> i < k \<Longrightarrow>
     gs_players t ! i \<noteq> Some pl \<or> pl_ownerClient pl \<noteq> p"
proof (induction k arbitrary: t)
  case (Suc k)
  then obtain u where u: "run (kick d it p) [0 ..< k] s = Some u" "kick d it p k u = Some t"
    by (auto simp: run_append split: Option.bind_splits option.splits)
  have "thinned v w" if "kick d it p j w = Some v" for j v w
    using d that by (rule kick_thinned)
  then have "thinned u s" by (rule run_thinned [OF _ u(1)])
  then have l: "length (gs_players u) = length (gs_players s)" by (rule thinned_length)
  have "thinned t u" using d u(2) by (rule kick_thinned)
  show ?case
  proof (cases "i = k")
    case True
    then show ?thesis using kick_removes [OF d u(2)] l Suc.prems by simp
  next
    case False
    then have "gs_players u ! i \<noteq> Some pl \<or> pl_ownerClient pl \<noteq> p" using Suc.IH [OF u(1)] Suc.prems by simp
    then show ?thesis using thinned_nth [OF \<open>thinned t u\<close>, of i] l Suc.prems by auto
  qed
qed simp

lemma disconnect_removes:
  assumes "on_client_disconnect n it p s = Some t"
  shows "\<not> (\<exists>pl. Some pl \<in> set (gs_players t) \<and> pl_ownerClient pl = p)"
proof (cases n)
  case (Suc m)
  then have r: "run (kick (on_client_disconnect m it) it p) [0 ..< length (gs_players s)] s = Some t"
    using assms by (auto split: if_splits)
  have "length (gs_players t) = length (gs_players s)" by (rule thinned_length [OF disconnect_thinned [OF assms]])
  moreover have "gs_players t ! i \<noteq> Some pl \<or> pl_ownerClient pl \<noteq> p" if "i < length (gs_players s)" for i pl
    by (rule run_kick_removes [OF _ r order_refl that]) (rule disconnect_thinned)
  ultimately show ?thesis by (auto simp: in_set_conv_nth)
qed (use assms in simp)

text \<open>The loop ends, when every player has a client.\<close>

definition owned :: "GameServer \<Rightarrow> bool" where
  "owned s \<longleftrightarrow> (\<forall>pl. Some pl \<in> set (gs_players s) \<longrightarrow> pl_ownerClient pl \<noteq> None)"

lemma owned_thinned: "thinned t s \<Longrightarrow> owned s \<Longrightarrow> owned t"
  using thinned_set by (auto simp: owned_def)

definition ends_below :: "nat \<Rightarrow> (client \<Rightarrow> GameServer \<Rightarrow> GameServer option) \<Rightarrow> bool" where
  "ends_below n d \<longleftrightarrow> (\<forall>q u. q \<noteq> None \<longrightarrow> owned u \<longrightarrow> live u < n \<longrightarrow> length (gs_players u) < 256 \<longrightarrow>
     (\<exists>v. d q u = Some v \<and> thinned v u))"

lemma message_client_with_returns:
  assumes "ends_below n d" "p \<noteq> None" "owned s" "live s < n" "length (gs_players s) < 256"
  shows "\<exists>t. message_client_with d False p msg s = Some t \<and> thinned t s"
proof -
  obtain v where v: "d p s = Some v" "thinned v s" using assms unfolding ends_below_def by blast
  then show ?thesis by (simp add: message_client_with_def drop_null_def Let_def)
qed

lemma kick_returns:
  assumes d: "ends_below n d" and s: "live s < Suc n" "length (gs_players s) < 256" "owned s" "i < length (gs_players s)"
  shows "\<exists>t. kick d False p i s = Some t \<and> thinned t s"
proof (cases "\<exists>pl. gs_players s ! i = Some pl \<and> pl_ownerClient pl = p")
  case True
  then obtain pl where pl: "gs_players s ! i = Some pl" "pl_ownerClient pl = p" by blast
  let ?s = "s\<lparr>gs_players := (gs_players s)[i := None]\<rparr>" and ?m = "update_pos (pl_id pl) zero_vector 1"
  have l: "live ?s < n" using live_remove [OF s(4) pl(1)] s(1) by simp
  have o: "owned ?s" by (rule owned_thinned [OF thinned_remove s(3)])
  have "\<exists>t. notify_players d False ?m ?s = Some t \<and> thinned t ?s"
    unfolding notify_players_def
  proof (rule run_progress)
    fix j u assume j: "j \<in> set [0 ..< length (gs_players ?s)]" and u: "thinned u ?s"
    have u': "live u < n" "length (gs_players u) < 256" "owned u"
      using thinned_live [OF u] thinned_length [OF u] owned_thinned [OF u o] l s(2) by simp_all
    show "\<exists>v. (case gs_players u ! j of None \<Rightarrow> Some u
        | Some q \<Rightarrow> message_client_with d False (pl_ownerClient q) ?m u) = Some v \<and> thinned v ?s"
    proof (cases "gs_players u ! j")
      case (Some q)
      have "Some q \<in> set (gs_players u)" using Some j thinned_length [OF u] by (metis atLeastLessThan_iff nth_mem set_upt)
      then have "pl_ownerClient q \<noteq> None" using u'(3) by (simp add: owned_def)
      from message_client_with_returns [OF d this u'(3,1,2), of ?m] Some show ?thesis
        using thinned_trans [OF _ u] by auto
    qed (use u in simp)
  qed simp
  then show ?thesis using pl thinned_trans [OF _ thinned_remove] by (auto simp: kick_def)
qed (auto simp: kick_def split: option.splits)

lemma disconnect_returns: "ends_below n (on_client_disconnect n False)"
proof (induction n)
  case (Suc n)
  show ?case unfolding ends_below_def
  proof (intro allI impI)
    fix p :: client and s assume s: "p \<noteq> None" "owned s" "live s < Suc n" "length (gs_players s) < 256"
    have "\<exists>t. run (kick (on_client_disconnect n False) False p) [0 ..< length (gs_players s)] s = Some t \<and> thinned t s"
    proof (rule run_progress)
      fix i u assume "i \<in> set [0 ..< length (gs_players s)]" and u: "thinned u s"
      then have "i < length (gs_players u)" "live u < Suc n" "length (gs_players u) < 256" "owned u"
        using thinned_live [OF u] thinned_length [OF u] owned_thinned [OF u] s by simp_all
      from kick_returns [OF Suc.IH this(2,3,4,1), of p]
      show "\<exists>v. kick (on_client_disconnect n False) False p i u = Some v \<and> thinned v s"
        using thinned_trans [OF _ u] by blast
    qed simp
    then show "\<exists>v. on_client_disconnect (Suc n) False p s = Some v \<and> thinned v s" using s(1,4) by simp
  qed
qed (simp add: ends_below_def)

text \<open>
  C2. With fewer than 256 entries in the list of players, each with a client, noticing that a client is
  gone ends: none of its players is left, every other entry is kept or belonged to another client that
  was gone, and no monster or id changes.  With 256 entries the loop, whose index is a \<open>uint8\<close>, never
  ends.
\<close>

theorem noticing_a_disconnect_ends:
  assumes "p \<noteq> None" "\<And>pl. Some pl \<in> set (gs_players s) \<Longrightarrow> pl_ownerClient pl \<noteq> None"
  shows "case Game_OnClientDisconnect False p s of
      None \<Rightarrow> 256 \<le> length (gs_players s)
    | Some t \<Rightarrow> length (gs_players s) < 256 \<and> thinned t s \<and>
        \<not> (\<exists>pl. Some pl \<in> set (gs_players t) \<and> pl_ownerClient pl = p)"
proof (cases "length (gs_players s) < 256")
  case True
  have "live s < Suc (length (gs_players s))" "owned s" using live_le [of s] assms(2) by (simp_all add: owned_def)
  with disconnect_returns [of "Suc (length (gs_players s))"] assms(1) True
  obtain t where "Game_OnClientDisconnect False p s = Some t" "thinned t s"
    unfolding ends_below_def Game_OnClientDisconnect_def by blast
  moreover from disconnect_removes [OF this(1) [unfolded Game_OnClientDisconnect_def]]
  have "\<not> (\<exists>pl. Some pl \<in> set (gs_players t) \<and> pl_ownerClient pl = p)" .
  ultimately show ?thesis using True by simp
qed (simp add: Game_OnClientDisconnect_def)

theorem noticing_a_disconnect_ends_witness:
  "let a = Player_new 1 zero_vector (Fin 1000) 0 (Some 0); b = Player_new 2 zero_vector (Fin 1000) 0 (Some 1);
       s = GameServer_new\<lparr>gs_players := [Some a, Some b]\<rparr>
   in \<exists>t. Game_OnClientDisconnect False (Some 0) s = Some t \<and> Some a \<notin> set (gs_players t) \<and> length (gs_players t) = 2"
proof -
  define a b where p: "a = Player_new 1 zero_vector (Fin 1000) 0 (Some 0)" "b = Player_new 2 zero_vector (Fin 1000) 0 (Some 1)"
  define s where s: "s = GameServer_new\<lparr>gs_players := [Some a, Some b]\<rparr>"
  have a: "pl_ownerClient a = Some 0" and o: "Some pl \<in> set (gs_players s) \<Longrightarrow> pl_ownerClient pl \<noteq> None" for pl
    by (auto simp: s p Player_new_def)
  have "\<exists>t. Game_OnClientDisconnect False (Some 0) s = Some t \<and> Some a \<notin> set (gs_players t) \<and> length (gs_players t) = 2"
    using noticing_a_disconnect_ends [of "Some 0" s, OF _ o] a
    by (auto simp: s dest: thinned_length split: option.splits)
  then show ?thesis unfolding Let_def p [symmetric] s [symmetric] .
qed

section \<open>A message behind a disconnect\<close>

text \<open>A loop over all the pointers does not get past a null one.\<close>

lemma each_player_None:
  assumes f: "\<And>pl u v. f pl u = Some v \<Longrightarrow> thinned v u" and "None \<in> set (gs_players s)"
  shows "each_player f s = None"
proof -
  let ?g = "\<lambda>i s. case gs_players s ! i of None \<Rightarrow> None | Some pl \<Rightarrow> f pl s"
  have g: "?g i u = Some v \<Longrightarrow> thinned v u" for i u v by (auto split: option.splits dest: f)
  obtain i where i: "i < length (gs_players s)" "gs_players s ! i = None" using assms(2) by (auto simp: in_set_conv_nth)
  have "run ?g [0 ..< i] s = Some u \<Longrightarrow> ?g i u = None" for u
    using thinned_nth [OF run_thinned [of s ?g "[0 ..< i]" u, OF g] i(1)] i(2) by (auto split: option.splits)
  moreover have "[0 ..< length (gs_players s)] = [0 ..< i] @ i # [Suc i ..< length (gs_players s)]"
    using i(1) upt_add_eq_append [of 0 i "length (gs_players s) - i"] upt_conv_Cons [of i "length (gs_players s)"] by simp
  ultimately show ?thesis
    unfolding each_player_def by (cases "run ?g [0 ..< i] s") (simp_all add: run_append)
qed

lemma message_others_None: "None \<in> set (gs_players s) \<Longrightarrow> message_others p msg s = None"
  unfolding message_others_def by (rule each_player_None) (auto split: if_splits dest: Game_MessageClient_thinned)

text \<open>
  C4. Noticing that the client of a player is gone leaves a null pointer in the list until the next
  round of the main loop; if a player joins in the same round, the loop over the other players uses it,
  which is undefined.
\<close>

theorem join_behind_a_disconnect_is_undefined:
  assumes "Some pl \<in> set (gs_players s)" "Game_OnClientDisconnect iterating (pl_ownerClient pl) s = Some t"
    and "ms_id msg = 202"
  shows "None \<in> set (gs_players t) \<and> Game_OnMessageReceived q msg t = None \<and>
     None \<notin> set (gs_players (remove_null_players t))"
proof -
  have t: "thinned t s" by (rule Game_OnClientDisconnect_thinned [OF assms(2)])
  obtain i where i: "i < length (gs_players s)" "gs_players s ! i = Some pl"
    using assms(1) by (auto simp: in_set_conv_nth)
  have "Some pl \<notin> set (gs_players t)"
    using disconnect_removes [OF assms(2) [unfolded Game_OnClientDisconnect_def]] by blast
  then have "gs_players t ! i = None"
    using thinned_nth [OF t i(1)] i thinned_length [OF t] by (metis nth_mem)
  then have n: "None \<in> set (gs_players t)" using i(1) thinned_length [OF t] by (metis nth_mem)
  have "message_others q m (t\<lparr>gs_highestPlayerID := k\<rparr>) = None" for m k
    using n by (intro message_others_None) simp
  then have "send_playerdata q msg t = None"
    by (auto simp: send_playerdata_def Let_def split: Option.bind_splits prod.splits)
  then show ?thesis using n assms(3) by (simp add: Game_OnMessageReceived_def remove_null_players_def)
qed

theorem join_behind_a_disconnect_is_undefined_witness:
  "let pl = Player_new 1 zero_vector (Fin 1000) 0 (Some 0);
       t = GameServer_new\<lparr>gs_players := [None]\<rparr>
   in Game_OnClientDisconnect False (Some 0) (GameServer_new\<lparr>gs_players := [Some pl]\<rparr>) = Some t \<and>
      Game_OnMessageReceived (Some 1) (message_new\<lparr>ms_id := 202\<rparr>) t = None"
proof -
  let ?pl = "Player_new 1 zero_vector (Fin 1000) 0 (Some 0)"
  let ?s = "GameServer_new\<lparr>gs_players := [Some ?pl]\<rparr>" and ?t = "GameServer_new\<lparr>gs_players := [None]\<rparr>"
  have d: "Game_OnClientDisconnect False (pl_ownerClient ?pl) ?s = Some ?t"
    by (simp add: Game_OnClientDisconnect_def kick_def notify_players_def Player_new_def)
  have "Some ?pl \<in> set (gs_players ?s)" by simp
  from join_behind_a_disconnect_is_undefined [OF this d, where msg = "message_new\<lparr>ms_id := 202\<rparr>"]
  have "Game_OnMessageReceived (Some 1) (message_new\<lparr>ms_id := 202\<rparr>) ?t = None" by simp
  with d show ?thesis by (simp add: Let_def Player_new_def)
qed

section \<open>Health\<close>

definition player_ok :: "Player \<Rightarrow> bool" where
  "player_ok pl \<longleftrightarrow> pl_maxHealth pl = Fin 1000 \<and> (\<exists>k \<in> {1 .. 10 :: int}. pl_health pl = Fin (of_int (100 * k)))"

definition npc_ok :: "Npc \<Rightarrow> bool" where
  "npc_ok n \<longleftrightarrow> (\<exists>k j :: int. 0 \<le> k \<and> k \<le> j \<and> j \<le> 200 \<and> np_health n = Fin (of_int (50 * k)) \<and>
     np_maxHealth n = Fin (of_int (50 * j)))"

definition healthy :: "GameServer \<Rightarrow> bool" where
  "healthy s \<longleftrightarrow> (\<forall>pl. Some pl \<in> set (gs_players s) \<longrightarrow> player_ok pl) \<and> (\<forall>n \<in> set (gs_npcs s). npc_ok n)"

lemma healthy_thinned: "thinned t s \<Longrightarrow> healthy s \<Longrightarrow> healthy t"
  using thinned_set by (auto simp: healthy_def thinned_def)

lemma healthy_simps [simp]:
  "healthy (s\<lparr>gs_server := x\<rparr>) = healthy s" "healthy (s\<lparr>gs_highestPlayerID := k\<rparr>) = healthy s"
  "healthy (s\<lparr>gs_highestNpcID := k\<rparr>) = healthy s" "healthy (s\<lparr>gs_commandQueue := q\<rparr>) = healthy s"
  "healthy (s\<lparr>gs_resources := r\<rparr>) = healthy s" "healthy (set_connections cs s) = healthy s"
  by (simp_all add: healthy_def set_connections_def)

lemma healthy_player: "healthy s \<Longrightarrow> player_ok pl \<Longrightarrow> healthy (s\<lparr>gs_players := (gs_players s)[i := Some pl]\<rparr>)"
  using set_update_subset_insert [of "gs_players s" i "Some pl"] by (auto simp: healthy_def)

lemma healthy_npc: "healthy s \<Longrightarrow> npc_ok n \<Longrightarrow> healthy (s\<lparr>gs_npcs := (gs_npcs s)[i := n]\<rparr>)"
  using set_update_subset_insert [of "gs_npcs s" i n] by (auto simp: healthy_def)

lemma sub32_int: "\<bar>a - b\<bar> \<le> 2 ^ 24 \<Longrightarrow> sub32 (Fin (of_int a)) (Fin (of_int b)) = Fin (of_int (a - b))"
  using rnd32_of_int [of "a - b"] by (simp add: sub32_def add32_def f_neg_def)

lemma player_of_Some: "player_of p ps = Some (Some (i, pl)) \<Longrightarrow> Some pl \<in> set ps \<and> pl_ownerClient pl = p"
  by (induction p ps arbitrary: i rule: player_of.induct) (auto split: if_splits)

lemma npc_index_Some: "npc_index k ns = Some (i, n) \<Longrightarrow> n \<in> set ns"
  by (induction k ns arbitrary: i rule: npc_index.induct) (auto split: if_splits)

lemma player_hit_ok:
  assumes "player_ok pl" "f_lt (Fin 100) (pl_health pl)"
  shows "player_ok (pl\<lparr>pl_health := sub32 (pl_health pl) (Fin 100)\<rparr>)"
proof -
  obtain k :: int where k: "1 \<le> k" "k \<le> 10" "pl_health pl = Fin (of_int (100 * k))"
    using assms(1) by (auto simp: player_ok_def)
  with assms(2) have "(100 :: rat) < of_int (100 * k)" by simp
  then have "2 \<le> k" by linarith
  moreover have "sub32 (pl_health pl) (Fin 100) = Fin (of_int (100 * (k - 1)))"
    using sub32_int [of "100 * k" 100] k by simp
  moreover have "pl_maxHealth pl = Fin 1000" using assms(1) by (simp add: player_ok_def)
  ultimately show ?thesis using k(2) unfolding player_ok_def by (intro conjI bexI [of _ "k - 1"]) simp_all
qed

lemma npc_hit_ok:
  assumes "npc_ok n"
  shows "f_lt (Fin 50) (np_health n) \<Longrightarrow> npc_ok (n\<lparr>np_health := sub32 (np_health n) (Fin 50)\<rparr>)"
    and "npc_ok (n\<lparr>np_health := Fin 0\<rparr>)"
proof -
  obtain k j :: int where k: "0 \<le> k" "k \<le> j" "j \<le> 200" "np_health n = Fin (of_int (50 * k))"
    "np_maxHealth n = Fin (of_int (50 * j))" using assms by (auto simp: npc_ok_def)
  show "npc_ok (n\<lparr>np_health := Fin 0\<rparr>)" using k by (auto simp: npc_ok_def intro!: exI [of _ 0] exI [of _ j])
  assume "f_lt (Fin 50) (np_health n)"
  with k(4) have "(50 :: rat) < of_int (50 * k)" by simp
  then have "1 \<le> k - 1" by linarith
  moreover have "sub32 (np_health n) (Fin 50) = Fin (of_int (50 * (k - 1)))"
    using sub32_int [of "50 * k" 50] k by simp
  ultimately show "npc_ok (n\<lparr>np_health := sub32 (np_health n) (Fin 50)\<rparr>)"
    using k unfolding npc_ok_def by (intro exI [of _ "k - 1"] exI [of _ j]) simp
qed

text \<open>Every handler keeps the health in order.\<close>

lemma healthy_MessageClient: "Game_MessageClient p msg s = Some t \<Longrightarrow> healthy s \<Longrightarrow> healthy t"
  using Game_MessageClient_thinned healthy_thinned by blast

lemma each_player_thinned:
  "(\<And>pl u v. f pl u = Some v \<Longrightarrow> thinned v u) \<Longrightarrow> each_player f s = Some t \<Longrightarrow> thinned t s"
  unfolding each_player_def by (elim run_thinned [rotated]) (auto split: option.splits)

lemma message_others_thinned: "message_others p msg s = Some t \<Longrightarrow> thinned t s"
  unfolding message_others_def by (erule each_player_thinned [rotated]) (auto split: if_splits dest: Game_MessageClient_thinned)

lemma message_everyone_thinned: "message_everyone msg s = Some t \<Longrightarrow> thinned t s"
  unfolding message_everyone_def by (erule each_player_thinned [rotated]) (rule Game_MessageClient_thinned)

lemma Game_MessageAllClients_thinned: "Game_MessageAllClients msg p s = Some t \<Longrightarrow> thinned t s"
proof -
  assume "Game_MessageAllClients msg p s = Some t"
  then obtain b u where r: "run (message_each msg p) [0 ..< length (sv_connections (gs_server s))] (False, s) = Some (b, u)"
    and t: "t = (if b then set_connections (filter (\<lambda>c. c \<noteq> None) (sv_connections (gs_server u))) u else u)"
    by (auto simp: Game_MessageAllClients_def)
  have one: "thinned (snd y) (snd x)" if "message_each msg p i x = Some y" for i x y
    using that by (auto simp: message_each_def Let_def split: if_splits prod.splits dest!: Game_OnClientDisconnect_thinned)
  have "thinned (snd (b, u)) s"
    by (rule run_invariant [of "\<lambda>x. thinned (snd x) s", OF _ _ r]) (auto dest: one intro: thinned_trans)
  with t show ?thesis by simp
qed

lemmas healthy_messages =
  healthy_thinned [OF Game_MessageClient_thinned] healthy_thinned [OF message_others_thinned]
  healthy_thinned [OF message_everyone_thinned] healthy_thinned [OF Game_MessageAllClients_thinned]

lemma player_ok_new [simp]: "player_ok (Player_new k v (Fin 1000) c p)"
  by (auto simp: player_ok_def Player_new_def intro!: bexI [of _ 10])

lemma healthy_append [simp]:
  "healthy (s\<lparr>gs_players := gs_players s @ [Some pl]\<rparr>) \<longleftrightarrow> healthy s \<and> player_ok pl"
  "gs_players s = [] \<Longrightarrow> healthy (s\<lparr>gs_players := [Some pl]\<rparr>) \<longleftrightarrow> healthy s \<and> player_ok pl"
  "healthy (s\<lparr>gs_highestNpcID := k, gs_npcs := gs_npcs s @ [n]\<rparr>) \<longleftrightarrow> healthy s \<and> npc_ok n"
  by (auto simp: healthy_def)

lemma healthy_send_playerdata: "send_playerdata p msg s = Some t \<Longrightarrow> healthy s \<Longrightarrow> healthy t"
  by (auto simp: send_playerdata_def Let_def split: Option.bind_splits if_splits dest!: healthy_messages)

lemma healthy_pos_change:
  assumes "pos_change p msg s = Some t" "healthy s"
  shows "healthy t"
proof (cases "\<exists>i pl. player_of p (gs_players s) = Some (Some (i, pl))")
  case True
  then obtain i pl where pl: "player_of p (gs_players s) = Some (Some (i, pl))" by blast
  then obtain m c v where m: "Game_MessageAllClients m c
      (s\<lparr>gs_players := (gs_players s)[i := Some (UpdatePosition v pl)]\<rparr>) = Some t"
    using assms(1) by (auto simp: pos_change_def Let_def split: Option.bind_splits)
  have "player_ok (UpdatePosition v pl)"
    using player_of_Some [OF pl] assms(2) by (auto simp: healthy_def UpdatePosition_def player_ok_def)
  then show ?thesis by (rule healthy_messages(4) [OF m healthy_player [OF assms(2)]])
qed (use assms in \<open>auto simp: pos_change_def split: option.splits\<close>)

lemma healthy_hit_npc:
  assumes "hit_npc msg s = Some t" "healthy s"
  shows "healthy t"
proof (cases "\<exists>k m i n. pull_u32 msg = Some (k, m) \<and> npc_index k (gs_npcs s) = Some (i, n)")
  case True
  then obtain k m i n where n: "pull_u32 msg = Some (k, m)" "npc_index k (gs_npcs s) = Some (i, n)" by blast
  have ok: "npc_ok n" using npc_index_Some [OF n(2)] assms(2) by (auto simp: healthy_def)
  obtain q n' where q: "message_everyone q (s\<lparr>gs_npcs := (gs_npcs s)[i := n']\<rparr>) = Some t" "npc_ok n'"
    using assms(1) n npc_hit_ok [OF ok] by (auto simp: hit_npc_def Let_def split: if_splits)
  show ?thesis by (rule healthy_messages(3) [OF q(1) healthy_npc [OF assms(2) q(2)]])
qed (use assms in \<open>auto simp: hit_npc_def split: option.splits\<close>)

lemma healthy_got_hit:
  assumes "got_hit p s = Some t" "healthy s"
  shows "healthy t"
proof (cases "\<exists>i pl. player_of p (gs_players s) = Some (Some (i, pl))")
  case True
  then obtain i pl where pl: "player_of p (gs_players s) = Some (Some (i, pl))" by blast
  have ok: "player_ok pl" using player_of_Some [OF pl] assms(2) by (auto simp: healthy_def)
  then have "player_ok (pl\<lparr>pl_health := pl_maxHealth pl\<rparr>)"
    unfolding player_ok_def by (auto intro!: bexI [of _ 10])
  then obtain q pl' where q: "Game_MessageClient p q (s\<lparr>gs_players := (gs_players s)[i := Some pl']\<rparr>) = Some t" "player_ok pl'"
    using assms(1) pl player_hit_ok [OF ok] by (auto simp: got_hit_def Let_def split: if_splits)
  show ?thesis by (rule healthy_messages(1) [OF q(1) healthy_player [OF assms(2) q(2)]])
qed (use assms in \<open>auto simp: got_hit_def split: option.splits\<close>)

lemma healthy_chat_message: "chat_message p msg s = Some t \<Longrightarrow> healthy s \<Longrightarrow> healthy t"
  by (auto simp: chat_message_def Let_def split: option.splits if_splits dest!: healthy_messages)

lemmas healthy_handlers =
  healthy_send_playerdata healthy_pos_change healthy_hit_npc healthy_got_hit healthy_chat_message

lemma healthy_OnMessageReceived: "Game_OnMessageReceived p msg s = Some t \<Longrightarrow> healthy s \<Longrightarrow> healthy t"
  unfolding Game_OnMessageReceived_def by (auto split: if_splits dest: healthy_handlers)

text \<open>So does the main loop.\<close>

lemma npc_ok_new: "npc_ok (Npc_new k r v (npc_health r))"
proof -
  have "\<exists>j :: int. 0 \<le> j \<and> j \<le> 200 \<and> npc_health r = Fin (of_int (50 * j))"
    unfolding npc_health_def
    by (cases "r = 242"; cases "r = 244"; cases "r = 243")
      (auto intro: exI [of _ 200] exI [of _ 100] exI [of _ 60] exI [of _ 10])
  then show ?thesis by (auto simp: npc_ok_def Npc_new_def)
qed

lemma healthy_handle_command:
  assumes "handle_command c s = Some t" "healthy s"
  shows "healthy t"
proof -
  have "healthy u" if "spawn r v s' = Some u" "healthy s'" for r v s' u
    using that npc_ok_new by (auto simp: spawn_def Let_def dest!: healthy_messages(4))
  then show ?thesis using assms
    by (auto simp: handle_command_def Let_def split: if_splits prod.splits option.splits)
qed

lemma healthy_main_round:
  assumes "main_round s = Some t" "healthy s"
  shows "healthy t"
proof -
  obtain u where u: "handle_commands s = Some u" "Game_Update (remove_null_players u) = Some t"
    using assms(1) by (auto simp: main_round_def split: option.splits)
  have "healthy v" if "run handle_command (gs_commandQueue s) s = Some v" for v
    by (rule run_invariant [of healthy, OF assms(2) _ that]) (rule healthy_handle_command)
  then have "healthy u" using u(1) by (auto simp: handle_commands_def split: if_splits)
  then have "healthy (remove_null_players u)" by (auto simp: healthy_def remove_null_players_def)
  then show ?thesis
    by (rule run_invariant [OF _ _ u(2) [unfolded Game_Update_def]])
      (auto simp: receive_next_def dest: healthy_OnMessageReceived)
qed

lemma healthy_step: "healthy s \<Longrightarrow> game_step x s = Some t \<Longrightarrow> healthy t"
proof (cases x)
  case (GsAccept b)
  then show "healthy s \<Longrightarrow> game_step x s = Some t \<Longrightarrow> healthy t"
    by (auto simp: game_accept_def Game_OnClientConnect_def Let_def split: option.splits dest!: healthy_messages)
qed (auto dest: healthy_main_round)

interpretation game: step_system game_step healthy "\<lambda>op. True"
  by unfold_locales (rule healthy_step)

text \<open>
  C1. In every run of the server the health of a player is one of 100, 200, ..., 1000 and the
  health of a monster a multiple of 50 between 0 and its maximum, which is at most 10000.
\<close>

theorem health_in_range:
  assumes "run game_step ops GameServer_new = Some s"
  shows "(\<forall>pl. Some pl \<in> set (gs_players s) \<longrightarrow>
            pl_maxHealth pl = Fin 1000 \<and> (\<exists>k :: int. 1 \<le> k \<and> k \<le> 10 \<and> pl_health pl = Fin (of_int (100 * k)))) \<and>
         (\<forall>n \<in> set (gs_npcs s). \<exists>k j :: int. 0 \<le> k \<and> k \<le> j \<and> j \<le> 200 \<and>
            np_health n = Fin (of_int (50 * k)) \<and> np_maxHealth n = Fin (of_int (50 * j)))"
proof -
  have "healthy GameServer_new" by (simp add: healthy_def GameServer_new_def)
  then have "healthy s" by (rule game.run_inv [OF _ _ assms]) (simp add: list_all_iff)
  then show ?thesis unfolding healthy_def player_ok_def npc_ok_def by (fastforce simp: Bex_def)
qed

lemmas game_round_defs =
  game_accept_def Game_OnClientConnect_def Game_MessageClient_def message_client_with_def client_connected_def
  GameServer_new_def ServerState_new_def set_object_def om_find_def connection_new_def main_round_def
  handle_commands_def remove_null_players_def Game_Update_def incoming_def tq_push_back_def send_to_def
  receive_next_def Game_OnMessageReceived_def game_message_def push_data_def message_new_def send_playerdata_def
  pull_data_def message_others_def each_player_def got_hit_def ConnectToClient_def Player_new_def Let_def

theorem health_in_range_witness:
  "let pos = \<lparr>v_x = 1, v_y = 0, v_z = 0, v_w = 0\<rparr>;
       join = game_message 202 (vector_bytes pos @ [4]); hit = message_new\<lparr>ms_id := 210\<rparr>
   in \<exists>s pl. run game_step [GsAccept (Some True), GsIncoming 0 join, GsIncoming 0 hit, GsRound] GameServer_new = Some s \<and>
          gs_players s = [Some pl] \<and> pl_position pl = pos \<and> pl_health pl = Fin 900 \<and>
          (\<exists>k :: int. 1 \<le> k \<and> k \<le> 10 \<and> pl_health pl = Fin (of_int (100 * k)))"
proof -
  define pos where "pos = \<lparr>v_x = 1, v_y = 0, v_z = 0, v_w = (0 :: u32)\<rparr>"
  let ?ops = "[GsAccept (Some True), GsIncoming 0 (game_message 202 (vector_bytes pos @ [4])),
      GsIncoming 0 (message_new\<lparr>ms_id := 210\<rparr>), GsRound]"
  have "sub32 (Fin 1000) (Fin 100) = Fin 900" using sub32_int [of 1000 100] by simp
  then obtain s pl where s: "run game_step ?ops GameServer_new = Some s" "gs_players s = [Some pl]" "pl_position pl = pos"
    "pl_health pl = Fin 900"
    by (simp add: game_round_defs)
  from health_in_range [OF s(1)] s(2) have "\<exists>k :: int. 1 \<le> k \<and> k \<le> 10 \<and> pl_health pl = Fin (of_int (100 * k))" by simp
  with s show ?thesis unfolding Let_def pos_def [symmetric] by blast
qed

section \<open>Chat\<close>

lemma client_connected_send_to [simp]: "client_connected (send_to k m sv) q = client_connected sv q"
  by (auto simp: client_connected_def send_to_def set_object_def om.find_put split: option.splits)






section \<open>Positions\<close>

lemma sv_connections_send_to [simp]: "sv_connections (send_to k m sv) = sv_connections sv"
  by (simp add: send_to_def set_object_def split: option.splits)

lemma Game_MessageAllClients_connected:
  assumes "\<forall>c \<in> set (sv_connections (gs_server s)). client_connected (gs_server s) c"
  shows "Game_MessageAllClients msg ignore s = Some (s\<lparr>gs_server :=
     fold (\<lambda>c. send_to (the c) msg) (filter (\<lambda>c. c \<noteq> ignore) (sv_connections (gs_server s))) (gs_server s)\<rparr>)"
proof -
  let ?cs = "sv_connections (gs_server s)"
  let ?sv = "\<lambda>k. fold (\<lambda>c. send_to (the c) msg) (filter (\<lambda>c. c \<noteq> ignore) (take k ?cs)) (gs_server s)"
  have c: "client_connected (fold (\<lambda>c. send_to (the c) msg) cs sv) q = client_connected sv q"
    "sv_connections (fold (\<lambda>c. send_to (the c) msg) cs sv) = sv_connections sv" for cs sv q
    by (induction cs arbitrary: sv) auto
  have "run (message_each msg ignore) [0 ..< k] (False, s) = Some (False, s\<lparr>gs_server := ?sv k\<rparr>)" if "k \<le> length ?cs" for k
    using that
  proof (induction k)
    case (Suc k)
    then have "client_connected (gs_server s) (?cs ! k)" using assms by auto
    with Suc show ?case by (simp add: run_append message_each_def c take_Suc_conv_app_nth)
  qed simp
  from this [OF order_refl] show ?thesis by (simp add: Game_MessageAllClients_def)
qed

text \<open>A new position of a player is stored and sent to every other client, when all are connected.\<close>

lemma position_is_broadcast:
  assumes "player_of p (gs_players s) = Some (Some (i, pl))"
    and "\<forall>c \<in> set (sv_connections (gs_server s)). client_connected (gs_server s) c"
  shows "Game_OnMessageReceived p (game_message 206 (vector_bytes pos @ [movetype])) s =
     Some (s\<lparr>gs_players := (gs_players s)[i := Some (UpdatePosition pos pl)], gs_server :=
       fold (\<lambda>c. send_to (the c) (update_pos (pl_id pl) pos movetype))
         (filter (\<lambda>c. c \<noteq> p) (sv_connections (gs_server s))) (gs_server s)\<rparr>)"
proof -
  let ?m = "game_message 206 (vector_bytes pos @ [movetype])"
  have body: "ms_body ?m = vector_bytes pos @ [movetype]" "ms_id ?m = 206"
    by (simp_all add: game_message_def push_data_def message_new_def Let_def)
  then have "pull_data 1 ?m = Some ([movetype], ?m\<lparr>ms_body := vector_bytes pos, ms_size := 16\<rparr>)"
    by (simp add: pull_data_def Let_def)
  moreover have "pull_data 16 (?m\<lparr>ms_body := vector_bytes pos, ms_size := 16\<rparr>) =
      Some (vector_bytes pos, ?m\<lparr>ms_body := [], ms_size := 0\<rparr>)"
    by (simp add: pull_data_def Let_def)
  moreover have "pl_ownerClient pl = p" using player_of_Some [OF assms(1)] by simp
  ultimately show ?thesis
    using assms by (simp add: Game_OnMessageReceived_def pos_change_def body Game_MessageAllClients_connected Let_def)
qed

end
