(* ===== verification/Progression.thy ===== *)
theory Progression
  imports Floats
begin

text \<open>
  Experience, levels, skills, groups and achievements:
  \<open>src/game/SharedProgression.cpp\<close> and \<open>include/game/SharedProgression.h\<close>.

  The members of the class are the fields of the record \<open>SharedProgression\<close>; callbacks are
  flags, and their calls are logged in \<open>sp_calls\<close>.  An operation that computes with
  \<open>float\<close> or \<open>double\<close> and casts the result to \<open>uint32_t\<close> returns \<open>None\<close> where the
  cast is undefined.  \<open>std::pow\<close> on \<open>double\<close> is the exact power rounded to nearest.
\<close>

section \<open>Data\<close>

datatype SkillCategory = Combat | Signs | Alchemy | General

record SkillData =
  sk_skillId :: u32
  sk_name :: string
  sk_description :: string
  sk_category :: SkillCategory
  sk_maxLevel :: u32
  sk_currentLevel :: u32
  sk_experienceRequired :: u32
  sk_prerequisites :: "u32 list"
  sk_isUnlocked :: bool
  sk_isActive :: bool

definition SkillData_new :: SkillData where
  "SkillData_new = \<lparr>sk_skillId = 0, sk_name = [], sk_description = [], sk_category = General,
     sk_maxLevel = 5, sk_currentLevel = 0, sk_experienceRequired = 100, sk_prerequisites = [],
     sk_isUnlocked = False, sk_isActive = False\<rparr>"

record PlayerProgressionData =
  pp_playerId :: u32
  pp_level :: u32
  pp_experience :: u32
  pp_experienceToNextLevel :: u32
  pp_skillPoints :: u32
  pp_abilityPoints :: u32
  pp_skills :: "(u32, SkillData) omap"
  pp_unlockedAbilities :: "u32 list"
  pp_activeAbilities :: "u32 list"
  pp_lastUpdate :: time_point

definition PlayerProgressionData_new :: PlayerProgressionData where
  "PlayerProgressionData_new = \<lparr>pp_playerId = 0, pp_level = 1, pp_experience = 0,
     pp_experienceToNextLevel = 1000, pp_skillPoints = 0, pp_abilityPoints = 0, pp_skills = [],
     pp_unlockedAbilities = [], pp_activeAbilities = [], pp_lastUpdate = 0\<rparr>"

record GroupProgressionData =
  gp_groupId :: u32
  gp_groupName :: string
  gp_members :: "u32 list"
  gp_sharedExperience :: u32
  gp_groupLevel :: u32
  gp_memberContributions :: "(u32, u32) omap"
  gp_createdTime :: time_point
  gp_isActive :: bool

definition GroupProgressionData_new :: GroupProgressionData where
  "GroupProgressionData_new = \<lparr>gp_groupId = 0, gp_groupName = [], gp_members = [],
     gp_sharedExperience = 0, gp_groupLevel = 1, gp_memberContributions = [],
     gp_createdTime = 0, gp_isActive = True\<rparr>"

record AchievementData =
  ac_achievementId :: u32
  ac_name :: string
  ac_description :: string
  ac_category :: string
  ac_experienceReward :: u32
  ac_skillPointReward :: u32
  ac_requirements :: "u32 list"
  ac_isUnlocked :: bool
  ac_unlockedTime :: time_point

definition AchievementData_new :: AchievementData where
  "AchievementData_new = \<lparr>ac_achievementId = 0, ac_name = [], ac_description = [],
     ac_category = [], ac_experienceReward = 0, ac_skillPointReward = 0, ac_requirements = [],
     ac_isUnlocked = False, ac_unlockedTime = 0\<rparr>"

record ProgressionStats =
  ps_totalPlayers :: u32
  ps_totalGroups :: u32
  ps_totalExperience :: u32
  ps_totalSkillsUnlocked :: u32
  ps_totalAchievementsUnlocked :: u32
  ps_averageLevel :: flt
  ps_averageGroupSize :: flt
  ps_highestLevel :: u32
  ps_mostActiveGroup :: u32

definition ProgressionStats_Reset :: ProgressionStats where
  "ProgressionStats_Reset = \<lparr>ps_totalPlayers = 0, ps_totalGroups = 0, ps_totalExperience = 0,
     ps_totalSkillsUnlocked = 0, ps_totalAchievementsUnlocked = 0, ps_averageLevel = Fin 0,
     ps_averageGroupSize = Fin 0, ps_highestLevel = 1, ps_mostActiveGroup = 0\<rparr>"

datatype ProgressionCall =
    PlayerLeveledUp u32 u32
  | SkillUnlocked u32 u32
  | AchievementUnlocked u32 u32

record SharedProgression =
  sp_initialized :: bool
  sp_playerProgressions :: "(u32, PlayerProgressionData) omap"
  sp_groupProgressions :: "(u32, GroupProgressionData) omap"
  sp_skills :: "(u32, SkillData) omap"
  sp_achievements :: "(u32, AchievementData) omap"
  sp_playerAchievements :: "(u32, u32 list) omap"
  sp_experienceMultiplier :: flt
  sp_groupExperienceBonus :: flt
  sp_maxLevel :: u32
  sp_skillPointsPerLevel :: u32
  sp_groupProgressionEnabled :: bool
  sp_stats :: ProgressionStats
  sp_playerLeveledUpCallback :: bool
  sp_skillUnlockedCallback :: bool
  sp_achievementUnlockedCallback :: bool
  sp_groupLeveledUpCallback :: bool
  sp_lastUpdateTime :: time_point
  sp_nextPlayerId :: u32
  sp_nextGroupId :: u32
  sp_nextSkillId :: u32
  sp_nextAchievementId :: u32
  sp_calls :: "ProgressionCall list"

definition SharedProgression_new :: "time_point \<Rightarrow> SharedProgression" where
  "SharedProgression_new now = \<lparr>sp_initialized = False, sp_playerProgressions = [],
     sp_groupProgressions = [], sp_skills = [], sp_achievements = [], sp_playerAchievements = [],
     sp_experienceMultiplier = Fin 1, sp_groupExperienceBonus = rnd32 (2 / 10),
     sp_maxLevel = 100, sp_skillPointsPerLevel = 1, sp_groupProgressionEnabled = True,
     sp_stats = ProgressionStats_Reset, sp_playerLeveledUpCallback = False,
     sp_skillUnlockedCallback = False, sp_achievementUnlockedCallback = False,
     sp_groupLeveledUpCallback = False, sp_lastUpdateTime = now, sp_nextPlayerId = 1,
     sp_nextGroupId = 1, sp_nextSkillId = 1, sp_nextAchievementId = 1, sp_calls = []\<rparr>"

definition log_call :: "bool \<Rightarrow> ProgressionCall \<Rightarrow> SharedProgression \<Rightarrow> SharedProgression" where
  "log_call registered c s = (if registered then s\<lparr>sp_calls := sp_calls s @ [c]\<rparr> else s)"

section \<open>The experience curve\<close>

text \<open>\<open>1.2f\<close> and \<open>std::pow(1.2f, n)\<close>, a power of \<open>double\<close>s.\<close>

definition base12 :: rat where
  "base12 = 5033165 / 4194304"

definition pow12 :: "u32 \<Rightarrow> flt" where
  "pow12 n = rnd64 (base12 ^ unat n)"

definition CalculateExperienceRequired :: "u32 \<Rightarrow> u32 option" where
  "CalculateExperienceRequired level = to_u32 (mul64 (Fin 1000) (pow12 (level - 1)))"

definition CalculateGroupExperienceBonus :: "u32 \<Rightarrow> u32 option" where
  "CalculateGroupExperienceBonus groupSize =
     to_u32 (mul32 (mul32 (f32_of_u32 groupSize) (rnd32 (1 / 10))) (Fin 100))"

section \<open>Lookups\<close>

definition GetPlayerProgression :: "SharedProgression \<Rightarrow> u32 \<Rightarrow> PlayerProgressionData option" where
  "GetPlayerProgression s playerId = om_find (sp_playerProgressions s) playerId"

definition GetGroupProgression :: "SharedProgression \<Rightarrow> u32 \<Rightarrow> GroupProgressionData option" where
  "GetGroupProgression s groupId = om_find (sp_groupProgressions s) groupId"

definition GetSkill :: "SharedProgression \<Rightarrow> u32 \<Rightarrow> SkillData option" where
  "GetSkill s skillId = om_find (sp_skills s) skillId"

definition GetAchievement :: "SharedProgression \<Rightarrow> u32 \<Rightarrow> AchievementData option" where
  "GetAchievement s achievementId = om_find (sp_achievements s) achievementId"

definition IsPlayerValid :: "SharedProgression \<Rightarrow> u32 \<Rightarrow> bool" where
  "IsPlayerValid s playerId \<longleftrightarrow> om_find (sp_playerProgressions s) playerId \<noteq> None"

definition IsGroupValid :: "SharedProgression \<Rightarrow> u32 \<Rightarrow> bool" where
  "IsGroupValid s groupId \<longleftrightarrow> om_find (sp_groupProgressions s) groupId \<noteq> None"

definition IsSkillValid :: "SharedProgression \<Rightarrow> u32 \<Rightarrow> bool" where
  "IsSkillValid s skillId \<longleftrightarrow> om_find (sp_skills s) skillId \<noteq> None"

definition IsAchievementValid :: "SharedProgression \<Rightarrow> u32 \<Rightarrow> bool" where
  "IsAchievementValid s achievementId \<longleftrightarrow> om_find (sp_achievements s) achievementId \<noteq> None"

definition GetPlayerLevel :: "SharedProgression \<Rightarrow> u32 \<Rightarrow> u32" where
  "GetPlayerLevel s playerId =
     (case GetPlayerProgression s playerId of None \<Rightarrow> 0 | Some player \<Rightarrow> pp_level player)"

definition GetPlayerExperience :: "SharedProgression \<Rightarrow> u32 \<Rightarrow> u32" where
  "GetPlayerExperience s playerId =
     (case GetPlayerProgression s playerId of None \<Rightarrow> 0 | Some player \<Rightarrow> pp_experience player)"

definition GetPlayerSkillPoints :: "SharedProgression \<Rightarrow> u32 \<Rightarrow> u32" where
  "GetPlayerSkillPoints s playerId =
     (case GetPlayerProgression s playerId of None \<Rightarrow> 0 | Some player \<Rightarrow> pp_skillPoints player)"

definition GetGroupLevel :: "SharedProgression \<Rightarrow> u32 \<Rightarrow> u32" where
  "GetGroupLevel s groupId =
     (case GetGroupProgression s groupId of None \<Rightarrow> 0 | Some grp \<Rightarrow> gp_groupLevel grp)"

definition GetGroupExperience :: "SharedProgression \<Rightarrow> u32 \<Rightarrow> u32" where
  "GetGroupExperience s groupId =
     (case GetGroupProgression s groupId of None \<Rightarrow> 0 | Some grp \<Rightarrow> gp_sharedExperience grp)"

definition GetPlayerProgress :: "SharedProgression \<Rightarrow> u32 \<Rightarrow> flt" where
  "GetPlayerProgress s playerId =
     (case GetPlayerProgression s playerId of
        None \<Rightarrow> Fin 0
      | Some player \<Rightarrow> div32 (f32_of_u32 (pp_experience player))
                             (f32_of_u32 (pp_experienceToNextLevel player)))"

definition total_level :: "SharedProgression \<Rightarrow> u32 list \<Rightarrow> u32" where
  "total_level s members = (\<Sum>playerId \<leftarrow> members. GetPlayerLevel s playerId)"

definition GetGroupProgress :: "SharedProgression \<Rightarrow> u32 \<Rightarrow> flt" where
  "GetGroupProgress s groupId =
     (case GetGroupProgression s groupId of
        None \<Rightarrow> Fin 0
      | Some grp \<Rightarrow>
          if gp_members grp = [] then Fin 0
          else div32 (f32_of_u32 (total_level s (gp_members grp)))
                     (f32_of_nat (length (gp_members grp))))"

definition GetPlayerSkills :: "SharedProgression \<Rightarrow> u32 \<Rightarrow> SkillData list" where
  "GetPlayerSkills s playerId = filter sk_isUnlocked (om_values (sp_skills s))"

definition GetSkillsByCategory :: "SharedProgression \<Rightarrow> SkillCategory \<Rightarrow> SkillData list" where
  "GetSkillsByCategory s category = filter (\<lambda>k. sk_category k = category) (om_values (sp_skills s))"

definition GetPlayerAchievements :: "SharedProgression \<Rightarrow> u32 \<Rightarrow> AchievementData list" where
  "GetPlayerAchievements s playerId =
     (case om_find (sp_playerAchievements s) playerId of
        None \<Rightarrow> []
      | Some ids \<Rightarrow> List.map_filter (om_find (sp_achievements s)) ids)"

definition set_player :: "u32 \<Rightarrow> PlayerProgressionData \<Rightarrow> SharedProgression \<Rightarrow> SharedProgression" where
  "set_player playerId player s =
     s\<lparr>sp_playerProgressions := om_put playerId player (sp_playerProgressions s)\<rparr>"

definition set_group :: "u32 \<Rightarrow> GroupProgressionData \<Rightarrow> SharedProgression \<Rightarrow> SharedProgression" where
  "set_group groupId grp s =
     s\<lparr>sp_groupProgressions := om_put groupId grp (sp_groupProgressions s)\<rparr>"

section \<open>Players, experience and levels\<close>

definition AddPlayer :: "time_point \<Rightarrow> u32 \<Rightarrow> SharedProgression \<Rightarrow> SharedProgression option" where
  "AddPlayer now playerId s =
     (if \<not> sp_initialized s then Some s
      else do {
        required \<leftarrow> CalculateExperienceRequired 2;
        let player = PlayerProgressionData_new\<lparr>pp_playerId := playerId, pp_level := 1,
              pp_experience := 0, pp_experienceToNextLevel := required, pp_skillPoints := 0,
              pp_abilityPoints := 0, pp_lastUpdate := now\<rparr>;
        let s1 = set_player playerId player s;
        Some (s1\<lparr>sp_stats := (sp_stats s1)\<lparr>ps_totalPlayers := ps_totalPlayers (sp_stats s1) + 1\<rparr>\<rparr>)
      })"

definition RemovePlayer :: "u32 \<Rightarrow> SharedProgression \<Rightarrow> SharedProgression" where
  "RemovePlayer playerId s =
     (case om_find (sp_playerProgressions s) playerId of
        None \<Rightarrow> s
      | Some _ \<Rightarrow> s\<lparr>sp_playerProgressions := om_erase playerId (sp_playerProgressions s),
          sp_stats := (sp_stats s)\<lparr>ps_totalPlayers := ps_totalPlayers (sp_stats s) - 1\<rparr>\<rparr>)"

definition CalculateExperienceToNextLevel ::
    "PlayerProgressionData \<Rightarrow> PlayerProgressionData option" where
  "CalculateExperienceToNextLevel player = do {
     required \<leftarrow> CalculateExperienceRequired (pp_level player + 1);
     Some (player\<lparr>pp_experienceToNextLevel := required - pp_experience player\<rparr>)
   }"

definition LevelUpPlayer :: "u32 \<Rightarrow> SharedProgression \<Rightarrow> (bool \<times> SharedProgression) option" where
  "LevelUpPlayer playerId s =
     (case GetPlayerProgression s playerId of
        None \<Rightarrow> Some (False, s)
      | Some player \<Rightarrow>
          if sp_maxLevel s \<le> pp_level player then Some (False, s)
          else do {
            player' \<leftarrow> CalculateExperienceToNextLevel (player\<lparr>pp_level := pp_level player + 1,
                         pp_skillPoints := pp_skillPoints player + sp_skillPointsPerLevel s,
                         pp_abilityPoints := pp_abilityPoints player + 1\<rparr>);
            Some (True, log_call (sp_playerLeveledUpCallback s)
                          (PlayerLeveledUp playerId (pp_level player')) (set_player playerId player' s))
          })"

definition UpdatePlayerStats :: "u32 \<Rightarrow> SharedProgression \<Rightarrow> SharedProgression" where
  "UpdatePlayerStats playerId s =
     (let stats = sp_stats s;
          total = ps_totalExperience stats + GetPlayerExperience s playerId
      in s\<lparr>sp_stats := stats\<lparr>ps_totalExperience := total,
             ps_averageLevel := div32 (f32_of_u32 total) (f32_of_u32 (ps_totalPlayers stats)),
             ps_highestLevel := max (ps_highestLevel stats) (GetPlayerLevel s playerId)\<rparr>\<rparr>)"

text \<open>The amount that is credited, after the multiplier and the group bonus.\<close>

definition adjusted_amount :: "SharedProgression \<Rightarrow> u32 \<Rightarrow> bool \<Rightarrow> u32 option" where
  "adjusted_amount s amount isGroupExperience = do {
     adjusted \<leftarrow> to_u32 (mul32 (f32_of_u32 amount) (sp_experienceMultiplier s));
     if isGroupExperience \<and> sp_groupProgressionEnabled s
     then to_u32 (mul32 (f32_of_u32 adjusted) (add32 (Fin 1) (sp_groupExperienceBonus s)))
     else Some adjusted
   }"

text \<open>Does the level-up loop of \<open>AddExperience\<close> go round once more?\<close>

definition level_due :: "u32 \<Rightarrow> SharedProgression \<Rightarrow> bool" where
  "level_due playerId s =
     (case GetPlayerProgression s playerId of
        None \<Rightarrow> False
      | Some player \<Rightarrow> pp_experienceToNextLevel player \<le> pp_experience player
                        \<and> pp_level player < sp_maxLevel s)"

lemma sp_log_call [simp]:
  "sp_initialized (log_call b c s) = sp_initialized s"
  "sp_playerProgressions (log_call b c s) = sp_playerProgressions s"
  "sp_groupProgressions (log_call b c s) = sp_groupProgressions s"
  "sp_skills (log_call b c s) = sp_skills s"
  "sp_achievements (log_call b c s) = sp_achievements s"
  "sp_playerAchievements (log_call b c s) = sp_playerAchievements s"
  "sp_experienceMultiplier (log_call b c s) = sp_experienceMultiplier s"
  "sp_groupExperienceBonus (log_call b c s) = sp_groupExperienceBonus s"
  "sp_maxLevel (log_call b c s) = sp_maxLevel s"
  "sp_skillPointsPerLevel (log_call b c s) = sp_skillPointsPerLevel s"
  "sp_groupProgressionEnabled (log_call b c s) = sp_groupProgressionEnabled s"
  "sp_stats (log_call b c s) = sp_stats s"
  by (simp_all add: log_call_def)

lemma LevelUp_measure:
  assumes "level_due p s" "LevelUpPlayer p s = Some (r, t)"
  shows "unat (sp_maxLevel t) - unat (GetPlayerLevel t p) < unat (sp_maxLevel s) - unat (GetPlayerLevel s p)"
proof -
  obtain pl where pl: "GetPlayerProgression s p = Some pl" "pp_level pl < sp_maxLevel s"
    using assms(1) by (auto simp: level_due_def split: option.splits)
  then have t: "sp_maxLevel t = sp_maxLevel s" "GetPlayerLevel t p = pp_level pl + 1"
    using assms(2)
    by (auto simp: LevelUpPlayer_def CalculateExperienceToNextLevel_def GetPlayerLevel_def
        GetPlayerProgression_def set_player_def bind_eq_Some_conv split: if_splits)
  have "unat (pp_level pl + 1) = unat (pp_level pl) + 1"
    using pl(2) by (rule unat_plus_one)
  with t pl show ?thesis by (simp add: GetPlayerLevel_def word_less_nat_alt)
qed

text \<open>The loop \<open>while (experience >= experienceToNextLevel && level < m_maxLevel)\<close>.\<close>

function level_loop :: "u32 \<Rightarrow> SharedProgression \<Rightarrow> SharedProgression option" where
  "level_loop playerId s =
     (if level_due playerId s
      then Option.bind (LevelUpPlayer playerId s) (\<lambda>rs. level_loop playerId (snd rs))
      else Some s)"
  by auto
termination
  by (relation "measure (\<lambda>(p, s). unat (sp_maxLevel s) - unat (GetPlayerLevel s p))")
    (auto dest: LevelUp_measure)

declare level_loop.simps [simp del]

definition AddExperience ::
    "time_point \<Rightarrow> u32 \<Rightarrow> u32 \<Rightarrow> bool \<Rightarrow> SharedProgression \<Rightarrow> (bool \<times> SharedProgression) option" where
  "AddExperience now playerId amount isGroupExperience s =
     (case GetPlayerProgression s playerId of
        None \<Rightarrow> Some (False, s)
      | Some player \<Rightarrow> do {
          adjusted \<leftarrow> adjusted_amount s amount isGroupExperience;
          s1 \<leftarrow> level_loop playerId (set_player playerId (player\<lparr>
                  pp_experience := pp_experience player + adjusted, pp_lastUpdate := now\<rparr>) s);
          Some (True, UpdatePlayerStats playerId s1)
        })"

definition AddSkillPoint ::
    "time_point \<Rightarrow> u32 \<Rightarrow> u32 \<Rightarrow> SharedProgression \<Rightarrow> bool \<times> SharedProgression" where
  "AddSkillPoint now playerId amount s =
     (case GetPlayerProgression s playerId of
        None \<Rightarrow> (False, s)
      | Some player \<Rightarrow> (True, set_player playerId (player\<lparr>
          pp_skillPoints := pp_skillPoints player + amount, pp_lastUpdate := now\<rparr>) s))"

end
