(* ===== verification/ProgressionGroups.thy ===== *)
theory ProgressionGroups
  imports Progression
begin

text \<open>
  Skills, groups, achievements, configuration and statistics of
  \<open>src/game/SharedProgression.cpp\<close>, and the whole class as a list of operations
  (\<open>ProgressionOp\<close>, \<open>progression_step\<close>).
\<close>

section \<open>Skills\<close>

definition AddSkill :: "SkillData \<Rightarrow> SharedProgression \<Rightarrow> SharedProgression" where
  "AddSkill skill s =
     (if \<not> sp_initialized s then s
      else
        let k = (if sk_skillId skill = 0 then sp_nextSkillId s else sk_skillId skill);
            s1 = (if sk_skillId skill = 0 then s\<lparr>sp_nextSkillId := sp_nextSkillId s + 1\<rparr> else s)
        in s1\<lparr>sp_skills := om_put k (skill\<lparr>sk_skillId := k\<rparr>) (sp_skills s1)\<rparr>)"

definition RemoveSkill :: "u32 \<Rightarrow> SharedProgression \<Rightarrow> SharedProgression" where
  "RemoveSkill skillId s = s\<lparr>sp_skills := om_erase skillId (sp_skills s)\<rparr>"

definition prereq_met :: "SharedProgression \<Rightarrow> u32 \<Rightarrow> bool" where
  "prereq_met s prereqId =
     (case GetSkill s prereqId of None \<Rightarrow> False | Some prereq \<Rightarrow> sk_isUnlocked prereq)"

definition CheckSkillPrerequisites :: "SharedProgression \<Rightarrow> u32 \<Rightarrow> u32 \<Rightarrow> bool" where
  "CheckSkillPrerequisites s playerId skillId =
     (case (GetSkill s skillId, GetPlayerProgression s playerId) of
        (Some skill, Some player) \<Rightarrow>
          \<not> pp_level player < sk_experienceRequired skill
          \<and> list_all (prereq_met s) (sk_prerequisites skill)
      | _ \<Rightarrow> False)"

definition set_skill :: "u32 \<Rightarrow> SkillData \<Rightarrow> SharedProgression \<Rightarrow> SharedProgression" where
  "set_skill skillId skill s = s\<lparr>sp_skills := om_put skillId skill (sp_skills s)\<rparr>"

definition SpendSkillPoint ::
    "time_point \<Rightarrow> u32 \<Rightarrow> u32 \<Rightarrow> SharedProgression \<Rightarrow> bool \<times> SharedProgression" where
  "SpendSkillPoint now playerId skillId s =
     (case (GetPlayerProgression s playerId, GetSkill s skillId) of
        (Some player, Some skill) \<Rightarrow>
          if pp_skillPoints player < 1 then (False, s)
          else if sk_maxLevel skill \<le> sk_currentLevel skill then (False, s)
          else if \<not> CheckSkillPrerequisites s playerId skillId then (False, s)
          else
            (True, log_call (sp_skillUnlockedCallback s) (SkillUnlocked playerId skillId)
               (set_skill skillId (skill\<lparr>sk_currentLevel := sk_currentLevel skill + 1\<rparr>)
                 (set_player playerId (player\<lparr>pp_skillPoints := pp_skillPoints player - 1,
                    pp_lastUpdate := now\<rparr>) s)))
      | _ \<Rightarrow> (False, s))"

definition UpgradeSkill ::
    "time_point \<Rightarrow> u32 \<Rightarrow> u32 \<Rightarrow> SharedProgression \<Rightarrow> bool \<times> SharedProgression" where
  "UpgradeSkill = SpendSkillPoint"

definition UnlockSkill ::
    "time_point \<Rightarrow> u32 \<Rightarrow> u32 \<Rightarrow> SharedProgression \<Rightarrow> bool \<times> SharedProgression" where
  "UnlockSkill now playerId skillId s =
     (case (GetPlayerProgression s playerId, GetSkill s skillId) of
        (Some player, Some skill) \<Rightarrow>
          if sk_isUnlocked skill then (False, s)
          else if \<not> CheckSkillPrerequisites s playerId skillId then (False, s)
          else
            (True, log_call (sp_skillUnlockedCallback s) (SkillUnlocked playerId skillId)
               (set_skill skillId (skill\<lparr>sk_isUnlocked := True, sk_isActive := True\<rparr>)
                 (set_player playerId (player\<lparr>pp_lastUpdate := now\<rparr>) s)))
      | _ \<Rightarrow> (False, s))"

definition CalculateSkillExperienceCost :: "SharedProgression \<Rightarrow> u32 \<Rightarrow> u32 \<Rightarrow> u32" where
  "CalculateSkillExperienceCost s skillId currentLevel =
     (case GetSkill s skillId of None \<Rightarrow> 0 | Some skill \<Rightarrow> 100 * (currentLevel + 1))"

section \<open>Groups\<close>

definition CalculateGroupLevel :: "SharedProgression \<Rightarrow> GroupProgressionData \<Rightarrow> GroupProgressionData" where
  "CalculateGroupLevel s grp =
     (if gp_members grp = [] then grp\<lparr>gp_groupLevel := 1\<rparr>
      else grp\<lparr>gp_groupLevel :=
        of_nat (unat (total_level s (gp_members grp)) div length (gp_members grp))\<rparr>)"

definition CreateGroup :: "time_point \<Rightarrow> string \<Rightarrow> SharedProgression \<Rightarrow> u32 \<times> SharedProgression" where
  "CreateGroup now groupName s =
     (if \<not> sp_initialized s then (0, s)
      else
        let k = sp_nextGroupId s;
            grp = GroupProgressionData_new\<lparr>gp_groupId := k, gp_groupName := groupName,
              gp_groupLevel := 1, gp_sharedExperience := 0, gp_createdTime := now,
              gp_isActive := True\<rparr>;
            s1 = set_group k grp (s\<lparr>sp_nextGroupId := k + 1\<rparr>)
        in (k, s1\<lparr>sp_stats := (sp_stats s1)\<lparr>ps_totalGroups := ps_totalGroups (sp_stats s1) + 1\<rparr>\<rparr>))"

definition AddPlayerToGroup :: "u32 \<Rightarrow> u32 \<Rightarrow> SharedProgression \<Rightarrow> SharedProgression" where
  "AddPlayerToGroup groupId playerId s =
     (case (GetGroupProgression s groupId, GetPlayerProgression s playerId) of
        (Some grp, Some player) \<Rightarrow>
          set_group groupId (CalculateGroupLevel s (grp\<lparr>gp_members := gp_members grp @ [playerId],
            gp_memberContributions := om_put playerId 0 (gp_memberContributions grp)\<rparr>)) s
      | _ \<Rightarrow> s)"

definition RemovePlayerFromGroup :: "u32 \<Rightarrow> u32 \<Rightarrow> SharedProgression \<Rightarrow> SharedProgression" where
  "RemovePlayerFromGroup groupId playerId s =
     (case GetGroupProgression s groupId of
        None \<Rightarrow> s
      | Some grp \<Rightarrow>
          set_group groupId (CalculateGroupLevel s (grp\<lparr>gp_members := remove1 playerId (gp_members grp),
            gp_memberContributions := om_erase playerId (gp_memberContributions grp)\<rparr>)) s)"

text \<open>One member's turn in the loop of \<open>DistributeGroupExperience\<close>.\<close>

definition share_with ::
    "time_point \<Rightarrow> u32 \<Rightarrow> u32 \<Rightarrow> u32 \<Rightarrow> SharedProgression \<Rightarrow> SharedProgression option" where
  "share_with now groupId share playerId s = do {
     rs \<leftarrow> AddExperience now playerId share True s;
     let s1 = snd rs;
     Some (s1\<lparr>sp_groupProgressions := om_upd groupId
            (\<lambda>grp. grp\<lparr>gp_memberContributions := om_put playerId
                        (om_get 0 (gp_memberContributions grp) playerId + share)
                        (gp_memberContributions grp)\<rparr>) (sp_groupProgressions s1)\<rparr>)
   }"

definition DistributeGroupExperience ::
    "time_point \<Rightarrow> u32 \<Rightarrow> SharedProgression \<Rightarrow> (bool \<times> SharedProgression) option" where
  "DistributeGroupExperience now groupId s =
     (case GetGroupProgression s groupId of
        None \<Rightarrow> Some (False, s)
      | Some grp \<Rightarrow>
          if gp_members grp = [] then Some (False, s)
          else do {
            let share = of_nat (unat (gp_sharedExperience grp) div length (gp_members grp));
            s1 \<leftarrow> run (share_with now groupId share) (gp_members grp) s;
            Some (True, s1\<lparr>sp_groupProgressions :=
              om_upd groupId (\<lambda>grp. grp\<lparr>gp_sharedExperience := 0\<rparr>) (sp_groupProgressions s1)\<rparr>)
          })"

definition AddGroupExperience ::
    "time_point \<Rightarrow> u32 \<Rightarrow> u32 \<Rightarrow> SharedProgression \<Rightarrow> (bool \<times> SharedProgression) option" where
  "AddGroupExperience now groupId amount s =
     (case GetGroupProgression s groupId of
        None \<Rightarrow> Some (False, s)
      | Some grp \<Rightarrow>
          if \<not> gp_isActive grp then Some (False, s)
          else do {
            adjusted \<leftarrow> to_u32 (mul32 (f32_of_u32 amount) (add32 (Fin 1) (sp_groupExperienceBonus s)));
            rs \<leftarrow> DistributeGroupExperience now groupId (set_group groupId
                    (grp\<lparr>gp_sharedExperience := gp_sharedExperience grp + adjusted\<rparr>) s);
            Some (True, snd rs)
          })"

definition UpdateGroupStats :: "u32 \<Rightarrow> SharedProgression \<Rightarrow> SharedProgression" where
  "UpdateGroupStats groupId s =
     (case GetGroupProgression s groupId of
        None \<Rightarrow> s
      | Some grp \<Rightarrow> s\<lparr>sp_stats := (sp_stats s)\<lparr>
          ps_averageGroupSize := f32_of_nat (length (gp_members grp)),
          ps_mostActiveGroup := groupId\<rparr>\<rparr>)"

definition is_stale :: "GroupProgressionData \<Rightarrow> bool" where
  "is_stale grp \<longleftrightarrow> \<not> gp_isActive grp \<or> gp_members grp = []"

definition CleanupInactiveGroups :: "SharedProgression \<Rightarrow> SharedProgression" where
  "CleanupInactiveGroups s = s\<lparr>
     sp_groupProgressions := filter (\<lambda>p. \<not> is_stale (snd p)) (sp_groupProgressions s),
     sp_stats := (sp_stats s)\<lparr>ps_totalGroups := ps_totalGroups (sp_stats s)
       - of_nat (length (filter (\<lambda>p. is_stale (snd p)) (sp_groupProgressions s)))\<rparr>\<rparr>"

section \<open>Achievements\<close>

definition AddAchievement :: "AchievementData \<Rightarrow> SharedProgression \<Rightarrow> SharedProgression" where
  "AddAchievement achievement s =
     (if \<not> sp_initialized s then s
      else
        let k = (if ac_achievementId achievement = 0 then sp_nextAchievementId s
                 else ac_achievementId achievement);
            s1 = (if ac_achievementId achievement = 0
                  then s\<lparr>sp_nextAchievementId := sp_nextAchievementId s + 1\<rparr> else s)
        in s1\<lparr>sp_achievements := om_put k (achievement\<lparr>ac_achievementId := k\<rparr>) (sp_achievements s1)\<rparr>)"

definition RemoveAchievement :: "u32 \<Rightarrow> SharedProgression \<Rightarrow> SharedProgression" where
  "RemoveAchievement achievementId s =
     s\<lparr>sp_achievements := om_erase achievementId (sp_achievements s)\<rparr>"

text \<open>The loop over the requirements has an empty body in the source.\<close>

definition CheckAchievementRequirements :: "SharedProgression \<Rightarrow> u32 \<Rightarrow> u32 \<Rightarrow> bool" where
  "CheckAchievementRequirements s playerId achievementId =
     (case GetAchievement s achievementId of None \<Rightarrow> False | Some achievement \<Rightarrow> True)"

definition UnlockAchievement ::
    "time_point \<Rightarrow> u32 \<Rightarrow> u32 \<Rightarrow> SharedProgression \<Rightarrow> (bool \<times> SharedProgression) option" where
  "UnlockAchievement now playerId achievementId s =
     (case (GetPlayerProgression s playerId, GetAchievement s achievementId) of
        (Some player, Some achievement) \<Rightarrow>
          if ac_isUnlocked achievement then Some (False, s)
          else if \<not> CheckAchievementRequirements s playerId achievementId then Some (False, s)
          else do {
            let s1 = s\<lparr>sp_achievements := om_put achievementId
                         (achievement\<lparr>ac_isUnlocked := True, ac_unlockedTime := now\<rparr>) (sp_achievements s),
                       sp_playerAchievements := om_put playerId
                         (om_get [] (sp_playerAchievements s) playerId @ [achievementId])
                         (sp_playerAchievements s)\<rparr>;
            s2 \<leftarrow> (if 0 < ac_experienceReward achievement
                  then map_option snd (AddExperience now playerId (ac_experienceReward achievement) False s1)
                  else Some s1);
            let s3 = (if 0 < ac_skillPointReward achievement
                      then snd (AddSkillPoint now playerId (ac_skillPointReward achievement) s2) else s2);
            Some (True, log_call (sp_achievementUnlockedCallback s3)
                          (AchievementUnlocked playerId achievementId) s3)
          }
      | _ \<Rightarrow> Some (False, s))"

section \<open>Utilities\<close>

definition CreateCombatSkill :: "string \<Rightarrow> string \<Rightarrow> u32 \<Rightarrow> SkillData" where
  "CreateCombatSkill name description maxLevel = SkillData_new\<lparr>sk_name := name,
     sk_description := description, sk_category := Combat, sk_maxLevel := maxLevel,
     sk_experienceRequired := 1\<rparr>"

definition CreateSignsSkill :: "string \<Rightarrow> string \<Rightarrow> u32 \<Rightarrow> SkillData" where
  "CreateSignsSkill name description maxLevel = SkillData_new\<lparr>sk_name := name,
     sk_description := description, sk_category := Signs, sk_maxLevel := maxLevel,
     sk_experienceRequired := 1\<rparr>"

definition CreateAlchemySkill :: "string \<Rightarrow> string \<Rightarrow> u32 \<Rightarrow> SkillData" where
  "CreateAlchemySkill name description maxLevel = SkillData_new\<lparr>sk_name := name,
     sk_description := description, sk_category := Alchemy, sk_maxLevel := maxLevel,
     sk_experienceRequired := 1\<rparr>"

definition CreateGeneralSkill :: "string \<Rightarrow> string \<Rightarrow> u32 \<Rightarrow> SkillData" where
  "CreateGeneralSkill name description maxLevel = SkillData_new\<lparr>sk_name := name,
     sk_description := description, sk_category := General, sk_maxLevel := maxLevel,
     sk_experienceRequired := 1\<rparr>"

definition CreateCombatAchievement :: "string \<Rightarrow> string \<Rightarrow> u32 \<Rightarrow> AchievementData" where
  "CreateCombatAchievement name description expReward = AchievementData_new\<lparr>ac_name := name,
     ac_description := description, ac_category := ''Combat'', ac_experienceReward := expReward\<rparr>"

definition CreateExplorationAchievement :: "string \<Rightarrow> string \<Rightarrow> u32 \<Rightarrow> AchievementData" where
  "CreateExplorationAchievement name description expReward = AchievementData_new\<lparr>ac_name := name,
     ac_description := description, ac_category := ''Exploration'', ac_experienceReward := expReward\<rparr>"

definition CreateSocialAchievement :: "string \<Rightarrow> string \<Rightarrow> u32 \<Rightarrow> AchievementData" where
  "CreateSocialAchievement name description expReward = AchievementData_new\<lparr>ac_name := name,
     ac_description := description, ac_category := ''Social'', ac_experienceReward := expReward\<rparr>"

definition CalculateLevelExperience :: "u32 \<Rightarrow> u32 option" where
  "CalculateLevelExperience level = to_u32 (mul64 (Fin 1000) (pow12 (level - 1)))"

text \<open>\<open>for (i = 1; i < level; ++i) total += CalculateLevelExperience(i)\<close>.\<close>

definition CalculateTotalExperience :: "u32 \<Rightarrow> u32 option" where
  "CalculateTotalExperience level =
     run (\<lambda>i total. map_option (\<lambda>e. total + e) (CalculateLevelExperience (of_nat i)))
       [1 ..< unat level] 0"

definition CalculateProgressPercentage :: "u32 \<Rightarrow> u32 \<Rightarrow> flt" where
  "CalculateProgressPercentage currentExp requiredExp =
     (if requiredExp = 0 then Fin 1 else div32 (f32_of_u32 currentExp) (f32_of_u32 requiredExp))"

definition CalculateSkillPower :: "SkillData \<Rightarrow> flt" where
  "CalculateSkillPower skill =
     div32 (f32_of_u32 (sk_currentLevel skill)) (f32_of_u32 (sk_maxLevel skill))"

definition GetSkillDependencies :: "u32 \<Rightarrow> (u32, SkillData) omap \<Rightarrow> u32 list" where
  "GetSkillDependencies skillId skills =
     (case om_find skills skillId of None \<Rightarrow> [] | Some skill \<Rightarrow> sk_prerequisites skill)"

definition CanUpgradeSkill :: "SkillData \<Rightarrow> u32 \<Rightarrow> bool" where
  "CanUpgradeSkill skill playerLevel \<longleftrightarrow>
     sk_currentLevel skill < sk_maxLevel skill \<and> sk_experienceRequired skill \<le> playerLevel"

definition CalculateAchievementDifficulty :: "AchievementData \<Rightarrow> flt" where
  "CalculateAchievementDifficulty achievement =
     div32 (f32_of_u32 (ac_experienceReward achievement)) (Fin 1000)"

definition GetAchievementCategories :: "AchievementData list \<Rightarrow> string list" where
  "GetAchievementCategories achievements =
     foldl (\<lambda>categories a. if ac_category a \<in> set categories then categories
                            else categories @ [ac_category a]) [] achievements"

definition ValidatePlayerProgression :: "PlayerProgressionData \<Rightarrow> bool" where
  "ValidatePlayerProgression player \<longleftrightarrow> pp_playerId player \<noteq> 0 \<and> 0 < pp_level player"

definition ValidateGroupProgression :: "GroupProgressionData \<Rightarrow> bool" where
  "ValidateGroupProgression grp \<longleftrightarrow> gp_groupId grp \<noteq> 0 \<and> gp_groupName grp \<noteq> []"

definition ValidateSkillData :: "SkillData \<Rightarrow> bool" where
  "ValidateSkillData skill \<longleftrightarrow> sk_name skill \<noteq> [] \<and> 0 < sk_maxLevel skill"

definition ValidateAchievementData :: "AchievementData \<Rightarrow> bool" where
  "ValidateAchievementData achievement \<longleftrightarrow> ac_name achievement \<noteq> [] \<and> ac_description achievement \<noteq> []"

section \<open>Life cycle and configuration\<close>

definition InitializeDefaultSkills :: "SharedProgression \<Rightarrow> SharedProgression" where
  "InitializeDefaultSkills s = fold AddSkill
     [CreateCombatSkill ''Sword Mastery'' ''Increases sword damage'' 5,
      CreateSignsSkill ''Igni Mastery'' ''Increases Igni sign power'' 3,
      CreateAlchemySkill ''Alchemy'' ''Increases potion effectiveness'' 4,
      CreateGeneralSkill ''Vitality'' ''Increases maximum health'' 5] s"

definition InitializeDefaultAchievements :: "SharedProgression \<Rightarrow> SharedProgression" where
  "InitializeDefaultAchievements s = fold AddAchievement
     [CreateCombatAchievement ''First Blood'' ''Kill your first enemy'' 100,
      CreateExplorationAchievement ''Explorer'' ''Visit 10 different locations'' 200,
      CreateSocialAchievement ''Team Player'' ''Complete 5 group quests'' 300] s"

definition Initialize :: "SharedProgression \<Rightarrow> bool \<times> SharedProgression" where
  "Initialize s =
     (if sp_initialized s then (True, s)
      else (True, (InitializeDefaultAchievements (InitializeDefaultSkills s))\<lparr>sp_initialized := True\<rparr>))"

definition Shutdown :: "SharedProgression \<Rightarrow> SharedProgression" where
  "Shutdown s =
     (if \<not> sp_initialized s then s
      else s\<lparr>sp_playerProgressions := [], sp_groupProgressions := [], sp_skills := [],
             sp_achievements := [], sp_playerAchievements := [], sp_initialized := False\<rparr>)"

definition SetExperienceMultiplier :: "flt \<Rightarrow> SharedProgression \<Rightarrow> SharedProgression" where
  "SetExperienceMultiplier multiplier s =
     s\<lparr>sp_experienceMultiplier := f_max (rnd32 (1 / 10)) (f_min (Fin 10) multiplier)\<rparr>"

definition SetGroupExperienceBonus :: "flt \<Rightarrow> SharedProgression \<Rightarrow> SharedProgression" where
  "SetGroupExperienceBonus bonus s =
     s\<lparr>sp_groupExperienceBonus := f_max (Fin 0) (f_min (Fin 2) bonus)\<rparr>"

definition SetMaxLevel :: "u32 \<Rightarrow> SharedProgression \<Rightarrow> SharedProgression" where
  "SetMaxLevel maxLevel s = s\<lparr>sp_maxLevel := max 1 (min 1000 maxLevel)\<rparr>"

definition SetSkillPointPerLevel :: "u32 \<Rightarrow> SharedProgression \<Rightarrow> SharedProgression" where
  "SetSkillPointPerLevel skillPoints s = s\<lparr>sp_skillPointsPerLevel := max 1 (min 10 skillPoints)\<rparr>"

definition EnableGroupProgression :: "bool \<Rightarrow> SharedProgression \<Rightarrow> SharedProgression" where
  "EnableGroupProgression enable s = s\<lparr>sp_groupProgressionEnabled := enable\<rparr>"

definition GetStats :: "SharedProgression \<Rightarrow> ProgressionStats" where
  "GetStats s = sp_stats s"

definition ResetStats :: "SharedProgression \<Rightarrow> SharedProgression" where
  "ResetStats s = s\<lparr>sp_stats := ProgressionStats_Reset\<rparr>"

definition SetPlayerLeveledUpCallback :: "bool \<Rightarrow> SharedProgression \<Rightarrow> SharedProgression" where
  "SetPlayerLeveledUpCallback registered s = s\<lparr>sp_playerLeveledUpCallback := registered\<rparr>"

definition SetSkillUnlockedCallback :: "bool \<Rightarrow> SharedProgression \<Rightarrow> SharedProgression" where
  "SetSkillUnlockedCallback registered s = s\<lparr>sp_skillUnlockedCallback := registered\<rparr>"

definition SetAchievementUnlockedCallback :: "bool \<Rightarrow> SharedProgression \<Rightarrow> SharedProgression" where
  "SetAchievementUnlockedCallback registered s = s\<lparr>sp_achievementUnlockedCallback := registered\<rparr>"

definition SetGroupLeveledUpCallback :: "bool \<Rightarrow> SharedProgression \<Rightarrow> SharedProgression" where
  "SetGroupLeveledUpCallback registered s = s\<lparr>sp_groupLeveledUpCallback := registered\<rparr>"

section \<open>The public interface as operations\<close>

datatype ProgressionOp =
    POpInitialize
  | POpShutdown
  | POpAddPlayer time_point u32
  | POpRemovePlayer u32
  | POpAddExperience time_point u32 u32 bool
  | POpLevelUpPlayer u32
  | POpAddSkillPoint time_point u32 u32
  | POpSpendSkillPoint time_point u32 u32
  | POpUnlockSkill time_point u32 u32
  | POpCreateGroup time_point string
  | POpAddPlayerToGroup u32 u32
  | POpRemovePlayerFromGroup u32 u32
  | POpAddGroupExperience time_point u32 u32
  | POpDistributeGroupExperience time_point u32
  | POpAddSkill SkillData
  | POpRemoveSkill u32
  | POpAddAchievement AchievementData
  | POpRemoveAchievement u32
  | POpUnlockAchievement time_point u32 u32
  | POpSetExperienceMultiplier flt
  | POpSetGroupExperienceBonus flt
  | POpSetMaxLevel u32
  | POpSetSkillPointPerLevel u32
  | POpEnableGroupProgression bool
  | POpResetStats

fun progression_step :: "ProgressionOp \<Rightarrow> SharedProgression \<Rightarrow> SharedProgression option" where
  "progression_step POpInitialize s = Some (snd (Initialize s))"
| "progression_step POpShutdown s = Some (Shutdown s)"
| "progression_step (POpAddPlayer now p) s = AddPlayer now p s"
| "progression_step (POpRemovePlayer p) s = Some (RemovePlayer p s)"
| "progression_step (POpAddExperience now p n g) s = map_option snd (AddExperience now p n g s)"
| "progression_step (POpLevelUpPlayer p) s = map_option snd (LevelUpPlayer p s)"
| "progression_step (POpAddSkillPoint now p n) s = Some (snd (AddSkillPoint now p n s))"
| "progression_step (POpSpendSkillPoint now p k) s = Some (snd (SpendSkillPoint now p k s))"
| "progression_step (POpUnlockSkill now p k) s = Some (snd (UnlockSkill now p k s))"
| "progression_step (POpCreateGroup now name) s = Some (snd (CreateGroup now name s))"
| "progression_step (POpAddPlayerToGroup g p) s = Some (AddPlayerToGroup g p s)"
| "progression_step (POpRemovePlayerFromGroup g p) s = Some (RemovePlayerFromGroup g p s)"
| "progression_step (POpAddGroupExperience now g n) s = map_option snd (AddGroupExperience now g n s)"
| "progression_step (POpDistributeGroupExperience now g) s =
     map_option snd (DistributeGroupExperience now g s)"
| "progression_step (POpAddSkill k) s = Some (AddSkill k s)"
| "progression_step (POpRemoveSkill k) s = Some (RemoveSkill k s)"
| "progression_step (POpAddAchievement a) s = Some (AddAchievement a s)"
| "progression_step (POpRemoveAchievement a) s = Some (RemoveAchievement a s)"
| "progression_step (POpUnlockAchievement now p a) s = map_option snd (UnlockAchievement now p a s)"
| "progression_step (POpSetExperienceMultiplier x) s = Some (SetExperienceMultiplier x s)"
| "progression_step (POpSetGroupExperienceBonus x) s = Some (SetGroupExperienceBonus x s)"
| "progression_step (POpSetMaxLevel n) s = Some (SetMaxLevel n s)"
| "progression_step (POpSetSkillPointPerLevel n) s = Some (SetSkillPointPerLevel n s)"
| "progression_step (POpEnableGroupProgression b) s = Some (EnableGroupProgression b s)"
| "progression_step POpResetStats s = Some (ResetStats s)"

end
