(* ===== verification/ProgressionLib.thy ===== *)
theory ProgressionLib
  imports ProgressionGroups
begin

text \<open>
  The lemma library of the progression system: the bounds of the experience curve, what the
  level-up loop does, which fields each operation leaves alone, and the registry contract of
  skills and achievements.
\<close>

named_theorems prog_frame \<open>fields a progression operation does not change\<close>

section \<open>Registries\<close>

interpretation skills: registry GetSkill AddSkill RemoveSkill sp_initialized sp_nextSkillId
    sk_skillId "\<lambda>k v. v\<lparr>sk_skillId := k\<rparr>"
  by unfold_locales (auto simp: GetSkill_def AddSkill_def RemoveSkill_def Let_def)

interpretation achievements: registry GetAchievement AddAchievement RemoveAchievement sp_initialized
    sp_nextAchievementId ac_achievementId "\<lambda>k v. v\<lparr>ac_achievementId := k\<rparr>"
  by unfold_locales (auto simp: GetAchievement_def AddAchievement_def RemoveAchievement_def Let_def)

section \<open>The experience curve\<close>

lemma base12_pos: "1 \<le> base12"
  by (simp add: base12_def)

lemma base12_powers:
  "base12 ^ 83 \<le> 3760000" "4400000 \<le> base12 ^ 84"
proof -
  have sq: "x ^ (2 * n) \<le> c" if "0 \<le> x" "x ^ n \<le> a" "a * a \<le> c" for x a c :: rat and n
  proof -
    have "0 \<le> a" using that(1,2) zero_le_power [of x n] by linarith
    moreover have "x ^ (2 * n) = x ^ n * x ^ n" by (simp add: mult_2 power_add)
    moreover have "x ^ n * x ^ n \<le> a * a" using that calculation by (intro mult_mono) auto
    ultimately show ?thesis using that(3) by linarith
  qed
  have lo: "c \<le> x ^ (2 * n)" if "0 \<le> a" "0 \<le> x" "a \<le> x ^ n" "c \<le> a * a" for x a c :: rat and n
  proof -
    have "a * a \<le> x ^ n * x ^ n" using that by (intro mult_mono) auto
    also have "\<dots> = x ^ (2 * n)" by (simp add: mult_2 power_add)
    finally show ?thesis using that(4) by linarith
  qed
  let ?b = base12
  have b: "0 \<le> ?b" "?b ^ 1 \<le> 120001 / 100000" "12 / 10 \<le> ?b ^ 1" by (simp_all add: base12_def)
  have u2: "?b ^ 2 \<le> 144003 / 100000" using sq [OF b(1,2), of "144003 / 100000"] by simp
  have u4: "?b ^ 4 \<le> 20738 / 10000" using sq [OF b(1) u2, of "20738 / 10000"] by simp
  have u8: "?b ^ 8 \<le> 43007 / 10000" using sq [OF b(1) u4, of "43007 / 10000"] by simp
  have u16: "?b ^ 16 \<le> 18497 / 1000" using sq [OF b(1) u8, of "18497 / 1000"] by simp
  have u32: "?b ^ 32 \<le> 34215 / 100" using sq [OF b(1) u16, of "34215 / 100"] by simp
  have u64: "?b ^ 64 \<le> 117067" using sq [OF b(1) u32, of 117067] by simp
  have "?b ^ 83 = ?b ^ (64 + 16 + 2 + 1)" by simp
  also have "\<dots> = ?b ^ 64 * ?b ^ 16 * ?b ^ 2 * ?b ^ 1" by (simp only: power_add)
  also have "\<dots> \<le> 117067 * (18497 / 1000) * (144003 / 100000) * (120001 / 100000)"
    using b u2 u16 u64 by (intro mult_mono mult_nonneg_nonneg zero_le_power) auto
  also have "\<dots> \<le> 3760000" by simp
  finally show "?b ^ 83 \<le> 3760000" .
  have l2: "144 / 100 \<le> ?b ^ 2" using lo [OF _ b(1,3), of "144 / 100"] by simp
  have l4: "20736 / 10000 \<le> ?b ^ 4" using lo [OF _ b(1) l2, of "20736 / 10000"] by simp
  have l8: "42998 / 10000 \<le> ?b ^ 8" using lo [OF _ b(1) l4, of "42998 / 10000"] by simp
  have l16: "18488 / 1000 \<le> ?b ^ 16" using lo [OF _ b(1) l8, of "18488 / 1000"] by simp
  have l32: "34180 / 100 \<le> ?b ^ 32" using lo [OF _ b(1) l16, of "34180 / 100"] by simp
  have l64: "116827 \<le> ?b ^ 64" using lo [OF _ b(1) l32, of 116827] by simp
  have "(4400000 :: rat) \<le> 116827 * (18488 / 1000) * (20736 / 10000)" by simp
  also have "\<dots> \<le> ?b ^ 64 * ?b ^ 16 * ?b ^ 4"
    using b l4 l16 l64 by (intro mult_mono mult_nonneg_nonneg zero_le_power) auto
  also have "\<dots> = ?b ^ (64 + 16 + 4)" by (simp only: power_add)
  also have "\<dots> = ?b ^ 84" by simp
  finally show "4400000 \<le> ?b ^ 84" .
qed

lemma required_value:
  assumes "unat (level - 1) \<le> 83"
  shows "\<exists>w. CalculateExperienceRequired level = Some w \<and> 1000 \<le> unat w"
proof -
  define n where "n = unat (level - 1)"
  have "base12 ^ n \<le> base12 ^ 83" using assms base12_pos by (intro power_increasing) (auto simp: n_def)
  then have "base12 ^ n \<le> of_int 3760000" using base12_powers(1) by simp
  moreover have "of_int 1 \<le> base12 ^ n" using base12_pos by simp
  ultimately obtain v where v: "pow12 (level - 1) = Fin v" "1 \<le> v" "v \<le> 3760000"
    using rnd64_between [of 1 "base12 ^ n" 3760000] by (auto simp: pow12_def n_def)
  then obtain w where w: "mul64 (Fin 1000) (Fin v) = Fin w" "1000 \<le> w" "w \<le> 3760000000"
    using rnd64_between [of 1000 "1000 * v" 3760000000] by (auto simp: mul64_def mul_gen_def)
  then have fl: "1000 \<le> \<lfloor>w\<rfloor>" "\<lfloor>w\<rfloor> \<le> 3760000000"
    by (simp_all add: le_floor_iff floor_le_iff)
  moreover have "CalculateExperienceRequired level = Some (of_int \<lfloor>w\<rfloor>)"
    using w v by (simp add: CalculateExperienceRequired_def to_u32_def)
  moreover have "unat (of_int \<lfloor>w\<rfloor> :: u32) = nat \<lfloor>w\<rfloor>"
    using fl by (simp add: unat_eq_nat_uint uint_word_of_int take_bit_int_eq_self)
  moreover have "1000 \<le> nat \<lfloor>w\<rfloor>" using fl(1) by (simp add: nat_le_iff le_nat_iff del: le_floor_iff)
  ultimately show ?thesis by (metis option.inject)
qed

lemma required_undefined:
  assumes "84 \<le> unat (level - 1)"
  shows "CalculateExperienceRequired level = None"
proof -
  define n where "n = unat (level - 1)"
  have "base12 ^ 84 \<le> base12 ^ n" using assms base12_pos by (intro power_increasing) (auto simp: n_def)
  then have "of_int 4400000 \<le> base12 ^ n" using base12_powers(2) by simp
  then consider "pow12 (level - 1) = PInf" | v where "pow12 (level - 1) = Fin v" "4400000 \<le> v"
    using rnd64_at_least [of 4400000 "base12 ^ n"] by (auto simp: pow12_def n_def)
  then show ?thesis
  proof cases
    case 1
    then show ?thesis
      by (simp add: CalculateExperienceRequired_def to_u32_def mul64_def mul_gen_def inf_of_def)
  next
    case 2
    then have "rnd64 (1000 * v) = PInf \<or> (\<exists>w. rnd64 (1000 * v) = Fin w \<and> 4400000000 \<le> w)"
      using rnd64_at_least [of 4400000000 "1000 * v"] by auto
    with 2 show ?thesis
      by (auto simp: CalculateExperienceRequired_def to_u32_def mul64_def mul_gen_def)
  qed
qed

section \<open>The level-up loop\<close>

text \<open>\<open>t\<close> is \<open>s\<close> except for player \<open>p\<close> and the call log.\<close>

definition only_player :: "u32 \<Rightarrow> SharedProgression \<Rightarrow> SharedProgression \<Rightarrow> bool" where
  "only_player p s t \<longleftrightarrow>
     t = s\<lparr>sp_playerProgressions := sp_playerProgressions t, sp_calls := sp_calls t\<rparr>
     \<and> (\<forall>j. j \<noteq> p \<longrightarrow> GetPlayerProgression t j = GetPlayerProgression s j)"

lemma only_player_refl [simp]: "only_player p s s"
  by (simp add: only_player_def)

lemma only_player_frame:
  assumes "only_player p s t"
  shows "sp_initialized t = sp_initialized s" "sp_groupProgressions t = sp_groupProgressions s"
    "sp_skills t = sp_skills s" "sp_achievements t = sp_achievements s"
    "sp_playerAchievements t = sp_playerAchievements s"
    "sp_experienceMultiplier t = sp_experienceMultiplier s"
    "sp_groupExperienceBonus t = sp_groupExperienceBonus s" "sp_maxLevel t = sp_maxLevel s"
    "sp_skillPointsPerLevel t = sp_skillPointsPerLevel s"
    "sp_groupProgressionEnabled t = sp_groupProgressionEnabled s" "sp_stats t = sp_stats s"
    "j \<noteq> p \<Longrightarrow> GetPlayerProgression t j = GetPlayerProgression s j"
proof -
  have t: "t = s\<lparr>sp_playerProgressions := sp_playerProgressions t, sp_calls := sp_calls t\<rparr>"
    using assms by (simp add: only_player_def)
  show "sp_initialized t = sp_initialized s" "sp_groupProgressions t = sp_groupProgressions s"
    "sp_skills t = sp_skills s" "sp_achievements t = sp_achievements s"
    "sp_playerAchievements t = sp_playerAchievements s"
    "sp_experienceMultiplier t = sp_experienceMultiplier s"
    "sp_groupExperienceBonus t = sp_groupExperienceBonus s" "sp_maxLevel t = sp_maxLevel s"
    "sp_skillPointsPerLevel t = sp_skillPointsPerLevel s"
    "sp_groupProgressionEnabled t = sp_groupProgressionEnabled s" "sp_stats t = sp_stats s"
    by (subst t, simp)+
qed (use assms in \<open>simp add: only_player_def\<close>)

lemma only_player_set_player:
  "only_player p (set_player p pl s) t \<Longrightarrow> only_player p s t"
  by (cases s; cases t) (auto simp: only_player_def set_player_def GetPlayerProgression_def)

lemma only_player_trans: "only_player p s t \<Longrightarrow> only_player p t u \<Longrightarrow> only_player p s u"
  by (cases s; cases t; cases u) (auto simp: only_player_def GetPlayerProgression_def)

lemma GetPlayer_set [simp]:
  "GetPlayerProgression (set_player p pl s) j = (if j = p then Some pl else GetPlayerProgression s j)"
  by (simp add: GetPlayerProgression_def set_player_def)

lemma GetPlayer_log [simp]: "GetPlayerProgression (log_call b c s) = GetPlayerProgression s"
  by (simp add: fun_eq_iff GetPlayerProgression_def)

lemma sp_set_player [simp]:
  "sp_maxLevel (set_player p pl s) = sp_maxLevel s"
  "sp_skillPointsPerLevel (set_player p pl s) = sp_skillPointsPerLevel s"
  "sp_stats (set_player p pl s) = sp_stats s"
  "sp_skills (set_player p pl s) = sp_skills s"
  "sp_achievements (set_player p pl s) = sp_achievements s"
  "sp_groupProgressions (set_player p pl s) = sp_groupProgressions s"
  "sp_playerProgressions (set_player p pl s) = om_put p pl (sp_playerProgressions s)"
  by (simp_all add: set_player_def)

lemma only_player_set_log [simp]: "only_player p s (log_call b c (set_player p q s))"
  by (auto simp: only_player_def log_call_def set_player_def GetPlayerProgression_def)

lemma LevelUp_step:
  assumes "LevelUpPlayer p s = Some (r, t)" "GetPlayerProgression s p = Some pl"
    "pp_level pl < sp_maxLevel s"
  obtains req where "CalculateExperienceRequired (pp_level pl + 2) = Some req"
    "GetPlayerProgression t p = Some (pl\<lparr>pp_level := pp_level pl + 1,
       pp_skillPoints := pp_skillPoints pl + sp_skillPointsPerLevel s,
       pp_abilityPoints := pp_abilityPoints pl + 1,
       pp_experienceToNextLevel := req - pp_experience pl\<rparr>)"
    "only_player p s t"
proof -
  have e: "pp_level pl + 2 = pp_level pl + 1 + 1" by simp
  show ?thesis
    using assms that
    by (auto simp: LevelUpPlayer_def CalculateExperienceToNextLevel_def bind_eq_Some_conv e
        simp del: add_2_eq_Suc' split: if_splits)
qed

lemma level_loop_spec:
  assumes "level_loop p s = Some t" "GetPlayerProgression s p = Some pl"
  shows "\<exists>q. GetPlayerProgression t p = Some q \<and> pp_experience q = pp_experience pl
    \<and> pp_level pl \<le> pp_level q \<and> (q = pl \<or> pp_level q \<le> sp_maxLevel s)
    \<and> pp_skillPoints q = pp_skillPoints pl + sp_skillPointsPerLevel s * (pp_level q - pp_level pl)
    \<and> \<not> level_due p t \<and> only_player p s t"
  using assms
proof (induction p s arbitrary: pl rule: level_loop.induct)
  case (1 p s)
  show ?case
  proof (cases "level_due p s")
    case False
    then show ?thesis using "1.prems" by (simp add: level_loop.simps)
  next
    case True
    then have due: "pp_level pl < sp_maxLevel s"
      using "1.prems"(2) by (simp add: level_due_def)
    obtain r u where u: "LevelUpPlayer p s = Some (r, u)" "level_loop p u = Some t"
      using True "1.prems"(1) by (auto simp: level_loop.simps [of p s] bind_eq_Some_conv)
    from LevelUp_step [OF u(1) "1.prems"(2) due] obtain req where
      g: "GetPlayerProgression u p = Some (pl\<lparr>pp_level := pp_level pl + 1,
       pp_skillPoints := pp_skillPoints pl + sp_skillPointsPerLevel s,
       pp_abilityPoints := pp_abilityPoints pl + 1,
       pp_experienceToNextLevel := req - pp_experience pl\<rparr>)" and o: "only_player p s u" by blast
    have le: "pp_level pl \<le> pp_level pl + 1" "pp_level pl + 1 \<le> sp_maxLevel s"
      using due unat_plus_one [OF due] by (simp_all add: word_le_nat_alt word_less_nat_alt)
    from "1.IH" [OF True u(1), unfolded snd_conv, OF u(2) g] obtain q where
      q: "GetPlayerProgression t p = Some q" "pp_experience q = pp_experience pl"
        "pp_level pl + 1 \<le> pp_level q" "pp_level q = pp_level pl + 1 \<or> pp_level q \<le> sp_maxLevel u"
        "pp_skillPoints q = pp_skillPoints pl + sp_skillPointsPerLevel s
           + sp_skillPointsPerLevel u * (pp_level q - (pp_level pl + 1))"
        "\<not> level_due p t" "only_player p u t"
      by force
    have "pp_level pl \<le> pp_level q" using le(1) q(3) by (rule order_trans)
    moreover have "pp_level q \<le> sp_maxLevel s" using q(4) le(2) only_player_frame(8) [OF o] by auto
    moreover have "pp_skillPoints q = pp_skillPoints pl
        + sp_skillPointsPerLevel s * (pp_level q - pp_level pl)"
      using q(5) only_player_frame(9) [OF o] by (simp add: algebra_simps)
    ultimately show ?thesis using q(1,2,6) only_player_trans [OF o q(7)] by blast
  qed
qed

end
