(* ===== verification/ProgressionProps.thy ===== *)
theory ProgressionProps
  imports ProgressionLib
begin

text \<open>
  The properties of the progression system: what an award of experience does, where the
  level curve is undefined, how a group shares experience, that skill points are conserved,
  that an achievement is unlocked once, and the wrong formula for the next level.
\<close>

section \<open>Awards\<close>

lemma UpdatePlayerStats_frame [simp]:
  "GetPlayerProgression (UpdatePlayerStats p s) = GetPlayerProgression s"
  "sp_groupProgressions (UpdatePlayerStats p s) = sp_groupProgressions s"
  "sp_skills (UpdatePlayerStats p s) = sp_skills s"
  "sp_achievements (UpdatePlayerStats p s) = sp_achievements s"
  "sp_playerAchievements (UpdatePlayerStats p s) = sp_playerAchievements s"
  "sp_experienceMultiplier (UpdatePlayerStats p s) = sp_experienceMultiplier s"
  "sp_groupExperienceBonus (UpdatePlayerStats p s) = sp_groupExperienceBonus s"
  "sp_groupProgressionEnabled (UpdatePlayerStats p s) = sp_groupProgressionEnabled s"
  "sp_maxLevel (UpdatePlayerStats p s) = sp_maxLevel s"
  "sp_skillPointsPerLevel (UpdatePlayerStats p s) = sp_skillPointsPerLevel s"
  "sp_initialized (UpdatePlayerStats p s) = sp_initialized s"
  by (simp_all add: UpdatePlayerStats_def Let_def fun_eq_iff GetPlayerProgression_def)

lemma AddExperience_cases:
  assumes "AddExperience now p n g s = Some (r, t)"
  obtains "GetPlayerProgression s p = None" "r = False" "t = s"
  | pl adj u where "GetPlayerProgression s p = Some pl" "adjusted_amount s n g = Some adj" "r = True"
      "level_loop p (set_player p (pl\<lparr>pp_experience := pp_experience pl + adj, pp_lastUpdate := now\<rparr>) s)
         = Some u" "t = UpdatePlayerStats p u"
  using assms by (auto simp: AddExperience_def bind_eq_Some_conv split: option.splits)

text \<open>What an award changes outside the player: the statistics and the call log.\<close>

lemma AddExperience_frame:
  assumes "AddExperience now p n g s = Some (r, t)"
  shows "sp_groupProgressions t = sp_groupProgressions s" "sp_skills t = sp_skills s"
    "sp_achievements t = sp_achievements s" "sp_playerAchievements t = sp_playerAchievements s"
    "sp_experienceMultiplier t = sp_experienceMultiplier s"
    "sp_groupExperienceBonus t = sp_groupExperienceBonus s"
    "sp_groupProgressionEnabled t = sp_groupProgressionEnabled s"
    "sp_maxLevel t = sp_maxLevel s" "sp_skillPointsPerLevel t = sp_skillPointsPerLevel s"
    "j \<noteq> p \<Longrightarrow> GetPlayerProgression t j = GetPlayerProgression s j"
    "sp_initialized t = sp_initialized s"
  using assms
  by (cases rule: AddExperience_cases,
      auto dest!: level_loop_spec [where p = p] only_player_set_player dest: only_player_frame)+

text \<open>
  C8. An award of experience is complete: it credits exactly the adjusted amount, keeps
  levelling up until the next threshold is not reached or the level cap is, grants
  \<open>m_skillPointsPerLevel\<close> points for every level gained, never lowers a level, never passes
  the cap, and touches no other player.
\<close>

theorem AddExperience_levels_up:
  assumes "AddExperience now p n g s = Some (True, t)" "GetPlayerProgression s p = Some pl"
  shows "\<exists>adj q. adjusted_amount s n g = Some adj \<and> GetPlayerProgression t p = Some q
     \<and> pp_experience q = pp_experience pl + adj
     \<and> (pp_experience q < pp_experienceToNextLevel q \<or> sp_maxLevel s \<le> pp_level q)
     \<and> pp_level pl \<le> pp_level q \<and> (pp_level q = pp_level pl \<or> pp_level q \<le> sp_maxLevel s)
     \<and> pp_skillPoints q = pp_skillPoints pl + sp_skillPointsPerLevel s * (pp_level q - pp_level pl)
     \<and> (\<forall>j. j \<noteq> p \<longrightarrow> GetPlayerProgression t j = GetPlayerProgression s j)"
  using assms(1)
proof (cases rule: AddExperience_cases)
  case (2 pl' adj u)
  define s1 where "s1 = set_player p (pl\<lparr>pp_experience := pp_experience pl + adj, pp_lastUpdate := now\<rparr>) s"
  have pl: "pl' = pl" using 2(1) assms(2) by simp
  have "level_loop p s1 = Some u" using 2(4) by (simp add: s1_def pl)
  from level_loop_spec [OF this] obtain q where q: "GetPlayerProgression u p = Some q"
    "pp_experience q = pp_experience pl + adj" "pp_level pl \<le> pp_level q"
    "pp_level q = pp_level pl \<or> pp_level q \<le> sp_maxLevel s"
    "pp_skillPoints q = pp_skillPoints pl + sp_skillPointsPerLevel s * (pp_level q - pp_level pl)"
    "\<not> level_due p u" "only_player p s1 u"
    by (fastforce simp: s1_def)
  have "sp_maxLevel u = sp_maxLevel s" using only_player_frame(8) [OF q(7)] by (simp add: s1_def)
  then have "pp_experience q < pp_experienceToNextLevel q \<or> sp_maxLevel s \<le> pp_level q"
    using q(1,6) by (auto simp: level_due_def not_le)
  moreover have "GetPlayerProgression t j = GetPlayerProgression s j" if "j \<noteq> p" for j
    using AddExperience_frame(10) [OF assms(1) that] .
  ultimately show ?thesis using q 2(2,5) by auto
qed (use assms(2) in simp)

section \<open>A concrete world\<close>

definition world :: SharedProgression where
  "world = SetMaxLevel 83 (AddPlayerToGroup 1 8 (AddPlayerToGroup 1 7
     (snd (CreateGroup 0 ''Wolves'' (AddAchievement (CreateCombatAchievement ''First Blood'' ''Kill'' 100)
       (AddSkill (CreateCombatSkill ''Sword'' ''Damage'' 5)
         (the (AddPlayer 0 8 (the (AddPlayer 0 7 (snd (Initialize (SharedProgression_new 0)))))))))))))"

lemma award_1200: "map_option (\<lambda>(r, t). (r, GetPlayerLevel t 7)) (AddExperience 0 7 1200 False world) = Some (True, 5)"
  by code_simp

theorem AddExperience_levels_up_witness:
  "\<exists>t q. AddExperience 0 7 1200 False world = Some (True, t) \<and> GetPlayerProgression t 7 = Some q
     \<and> pp_level q = 5 \<and> pp_skillPoints q = 4 \<and> pp_experience q = 1200"
proof -
  obtain t where t: "AddExperience 0 7 1200 False world = Some (True, t)" "GetPlayerLevel t 7 = 5"
    using award_1200 by auto
  have w: "GetPlayerProgression world 7 = Some (PlayerProgressionData_new\<lparr>pp_playerId := 7,
      pp_experienceToNextLevel := 1200\<rparr>)" "sp_skillPointsPerLevel world = 1"
    "adjusted_amount world 1200 False = Some 1200"
    by code_simp+
  from AddExperience_levels_up [OF t(1) w(1)] t(2) w(2,3) show ?thesis
    using t(1) by (auto simp: GetPlayerLevel_def PlayerProgressionData_new_def)
qed

section \<open>The threshold of the next level\<close>

lemma required_2: "CalculateExperienceRequired 2 = Some 1200"
  and required_3: "CalculateExperienceRequired 3 = Some 1440"
  by code_simp+

lemma adjusted_one:
  assumes "sp_experienceMultiplier s = Fin 1" "unat n \<le> 2 ^ 24"
  shows "adjusted_amount s n False = Some n"
proof -
  have "f32_of_u32 n = Fin (of_nat (unat n))"
    unfolding f32_of_u32_def using assms(2) by (rule f32_of_nat_exact)
  moreover have "to_u32 (Fin (of_nat (unat n))) = Some (of_nat (unat n))"
    using unsigned_less [of n] by (intro to_u32_nat) simp
  ultimately show ?thesis
    using assms(1) mul32_one [of n] by (simp add: adjusted_amount_def)
qed

text \<open>
  The more, the less: \<open>experience\<close> is a running total, but the threshold that
  \<open>CalculateExperienceToNextLevel\<close> stores is the total for the next level minus the
  experience the player already has.  Once the player has more than the total, the
  subtraction wraps around to a huge threshold.  A fresh player who is awarded anything
  from 1441 to 2^24 experience at once therefore stops at level 2, although 1200 experience
  lead to level 5.
\<close>

lemma large_award_stops_at_level_2:
  assumes "GetPlayerProgression s p = Some pl" "pp_level pl = 1" "pp_experience pl = 0"
    "pp_experienceToNextLevel pl = 1200" "sp_experienceMultiplier s = Fin 1" "2 \<le> sp_maxLevel s"
    "1440 < unat n" "unat n \<le> 2 ^ 24"
  shows "\<exists>t. AddExperience now p n False s = Some (True, t) \<and> GetPlayerLevel t p = 2"
proof -
  define s1 where "s1 = set_player p (pl\<lparr>pp_experience := n, pp_lastUpdate := now\<rparr>) s"
  define q where "q = pl\<lparr>pp_experience := n, pp_lastUpdate := now, pp_level := 2,
      pp_skillPoints := pp_skillPoints pl + sp_skillPointsPerLevel s,
      pp_abilityPoints := pp_abilityPoints pl + 1, pp_experienceToNextLevel := 1440 - n\<rparr>"
  define s2 where "s2 = log_call (sp_playerLeveledUpCallback s1) (PlayerLeveledUp p 2) (set_player p q s1)"
  have m: "1 < sp_maxLevel s" using assms(6) by (simp add: word_le_nat_alt word_less_nat_alt)
  have due: "level_due p s1" using assms m by (simp add: level_due_def s1_def word_le_nat_alt)
  have up: "LevelUpPlayer p s1 = Some (True, s2)"
    using assms m required_3
    by (simp add: LevelUpPlayer_def s1_def s2_def q_def CalculateExperienceToNextLevel_def)
  have "unat (1440 - n) = 2 ^ 32 + 1440 - unat n"
    using assms(7,8) by (simp add: unat_sub_if_size word_size word_le_nat_alt)
  then have "n < 1440 - n" using assms(8) by (simp add: word_less_nat_alt)
  then have "\<not> level_due p s2" by (auto simp: level_due_def s2_def q_def dest: leD)
  then have "level_loop p s1 = Some s2" using due up by (simp add: level_loop.simps)
  then have "AddExperience now p n False s = Some (True, UpdatePlayerStats p s2)"
    using assms adjusted_one [OF assms(5,8)] by (simp add: AddExperience_def s1_def)
  then show ?thesis by (simp add: GetPlayerLevel_def s2_def q_def)
qed

lemma large_award_stops_at_level_2_witness:
  "\<exists>t u. AddExperience 0 7 1200 False world = Some (True, t) \<and> GetPlayerLevel t 7 = 5
     \<and> AddExperience 0 7 100000 False world = Some (True, u) \<and> GetPlayerLevel u 7 = 2"
proof -
  have "GetPlayerProgression world 7 = Some (PlayerProgressionData_new\<lparr>pp_playerId := 7,
      pp_experienceToNextLevel := 1200\<rparr>)" "sp_experienceMultiplier world = Fin 1"
    "sp_maxLevel world = 83"
    by code_simp+
  then have "\<exists>u. AddExperience 0 7 100000 False world = Some (True, u) \<and> GetPlayerLevel u 7 = 2"
    by (intro large_award_stops_at_level_2) (auto simp: PlayerProgressionData_new_def)
  moreover have "\<exists>t. AddExperience 0 7 1200 False world = Some (True, t) \<and> GetPlayerLevel t 7 = 5"
    using award_1200 by auto
  ultimately show ?thesis by blast
qed

text \<open>
  The level curve leaves the range of \<open>uint32_t\<close> at level 83: below the cap, the step
  from any level from 83 on casts a \<open>double\<close> above 2^32, which is undefined behaviour.  The
  default cap is 100, and \<open>SetMaxLevel\<close> accepts caps up to 1000.
\<close>

lemma level_up_undefined_from_83:
  assumes "GetPlayerProgression s p = Some pl" "83 \<le> unat (pp_level pl)" "pp_level pl < sp_maxLevel s"
  shows "LevelUpPlayer p s = None"
proof -
  have "unat (pp_level pl + 1) = unat (pp_level pl) + 1" using assms(3) by (rule unat_plus_one)
  then have "CalculateExperienceRequired (pp_level pl + 1 + 1) = None"
    using assms(2) by (intro required_undefined) (simp only: add_diff_cancel_right')
  then show ?thesis
    using assms by (simp add: LevelUpPlayer_def CalculateExperienceToNextLevel_def not_le [symmetric])
qed

lemma level_up_undefined_from_83_witness:
  "LevelUpPlayer 7 (set_player 7 (PlayerProgressionData_new\<lparr>pp_level := 83\<rparr>) (SharedProgression_new 0)) = None"
  by (rule level_up_undefined_from_83 [where pl = "PlayerProgressionData_new\<lparr>pp_level := 83\<rparr>"])
    (simp_all add: SharedProgression_new_def PlayerProgressionData_new_def)

section \<open>Sharing in a group\<close>

lemma adjusted_amount_cong:
  "sp_experienceMultiplier t = sp_experienceMultiplier s \<Longrightarrow>
   sp_groupExperienceBonus t = sp_groupExperienceBonus s \<Longrightarrow>
   sp_groupProgressionEnabled t = sp_groupProgressionEnabled s \<Longrightarrow>
     adjusted_amount t n g = adjusted_amount s n g"
  by (simp add: adjusted_amount_def cong: if_cong)

definition contribution :: "SharedProgression \<Rightarrow> u32 \<Rightarrow> u32 \<Rightarrow> u32" where
  "contribution s g p =
     (case GetGroupProgression s g of None \<Rightarrow> 0 | Some grp \<Rightarrow> om_get 0 (gp_memberContributions grp) p)"

text \<open>One member's turn.\<close>

lemma share_with_spec:
  assumes "share_with now g share p s = Some t"
  shows "\<forall>pl. GetPlayerProgression s p = Some pl \<longrightarrow> (\<exists>adj. adjusted_amount s share True = Some adj
           \<and> GetPlayerExperience t p = pp_experience pl + adj)"
    and "j \<noteq> p \<Longrightarrow> GetPlayerProgression t j = GetPlayerProgression s j"
    and "adjusted_amount t n True = adjusted_amount s n True"
    and "GetGroupProgression s g = Some grp \<Longrightarrow> \<exists>cs. GetGroupProgression t g = Some (grp\<lparr>gp_memberContributions := cs\<rparr>)
           \<and> om_get 0 cs p = om_get 0 (gp_memberContributions grp) p + share
           \<and> (\<forall>q. q \<noteq> p \<longrightarrow> om_get 0 cs q = om_get 0 (gp_memberContributions grp) q)"
proof -
  obtain r u where u: "AddExperience now p share True s = Some (r, u)"
    and t: "t = u\<lparr>sp_groupProgressions := om_upd g
            (\<lambda>grp. grp\<lparr>gp_memberContributions := om_put p
                        (om_get 0 (gp_memberContributions grp) p + share)
                        (gp_memberContributions grp)\<rparr>) (sp_groupProgressions u)\<rparr>"
    using assms by (auto simp: share_with_def bind_eq_Some_conv Let_def)
  note f = AddExperience_frame [OF u]
  have gp: "GetPlayerProgression t = GetPlayerProgression u"
    by (simp add: t GetPlayerProgression_def fun_eq_iff)
  show "\<forall>pl. GetPlayerProgression s p = Some pl \<longrightarrow> (\<exists>adj. adjusted_amount s share True = Some adj
           \<and> GetPlayerExperience t p = pp_experience pl + adj)"
    using u by (cases rule: AddExperience_cases)
      (fastforce dest!: level_loop_spec simp: GetPlayerExperience_def gp)+
  show "j \<noteq> p \<Longrightarrow> GetPlayerProgression t j = GetPlayerProgression s j"
    using f(10) by (simp add: gp)
  show "adjusted_amount t n True = adjusted_amount s n True"
    by (rule adjusted_amount_cong) (simp_all add: t f)
  show "GetGroupProgression s g = Some grp \<Longrightarrow> \<exists>cs. GetGroupProgression t g = Some (grp\<lparr>gp_memberContributions := cs\<rparr>)
           \<and> om_get 0 cs p = om_get 0 (gp_memberContributions grp) p + share
           \<and> (\<forall>q. q \<noteq> p \<longrightarrow> om_get 0 cs q = om_get 0 (gp_memberContributions grp) q)"
    by (intro exI [of _ "om_put p (om_get 0 (gp_memberContributions grp) p + share)
          (gp_memberContributions grp)"])
      (simp add: t GetGroupProgression_def om_find_upd f(1))
qed

text \<open>The loop over the members, each of whom appears once.\<close>

lemma share_loop:
  assumes "run (share_with now g share) ms s = Some t" "distinct ms" "GetGroupProgression s g = Some grp"
  shows "(\<forall>p pl. p \<in> set ms \<and> GetPlayerProgression s p = Some pl \<longrightarrow>
            (\<exists>adj. adjusted_amount s share True = Some adj
               \<and> GetPlayerExperience t p = pp_experience pl + adj))
    \<and> (\<forall>p. p \<notin> set ms \<longrightarrow> GetPlayerProgression t p = GetPlayerProgression s p)
    \<and> (\<exists>cs. GetGroupProgression t g = Some (grp\<lparr>gp_memberContributions := cs\<rparr>)
         \<and> (\<forall>p. om_get 0 cs p = om_get 0 (gp_memberContributions grp) p + (if p \<in> set ms then share else 0)))"
  using assms
proof (induction ms arbitrary: s grp)
  case Nil
  then show ?case by (auto intro!: exI [of _ "gp_memberContributions grp"])
next
  case (Cons m ms)
  then obtain u where u: "share_with now g share m s = Some u" "run (share_with now g share) ms u = Some t"
    by (auto split: option.splits)
  note S = share_with_spec [OF u(1)]
  from S(4) [OF Cons.prems(3)] obtain cs where cs:
    "GetGroupProgression u g = Some (grp\<lparr>gp_memberContributions := cs\<rparr>)"
    "om_get 0 cs m = om_get 0 (gp_memberContributions grp) m + share"
    "\<forall>q. q \<noteq> m \<longrightarrow> om_get 0 cs q = om_get 0 (gp_memberContributions grp) q" by blast
  have d: "distinct ms" "m \<notin> set ms" using Cons.prems(2) by simp_all
  note IH = Cons.IH [OF u(2) d(1) cs(1)]
  have same: "GetPlayerProgression t m = GetPlayerProgression u m" using IH d(2) by blast
  have "\<exists>adj. adjusted_amount s share True = Some adj \<and> GetPlayerExperience t p = pp_experience pl + adj"
    if "p \<in> set (m # ms)" "GetPlayerProgression s p = Some pl" for p pl
  proof (cases "p = m")
    case True
    then show ?thesis using S(1) that(2) same by (auto simp: GetPlayerExperience_def)
  next
    case False
    then have "p \<in> set ms" "GetPlayerProgression u p = Some pl" using that S(2) by auto
    then show ?thesis using IH S(3) by auto
  qed
  moreover have "GetPlayerProgression t p = GetPlayerProgression s p" if "p \<notin> set (m # ms)" for p
    using that IH S(2) by auto
  moreover have "\<exists>cs'. GetGroupProgression t g = Some (grp\<lparr>gp_memberContributions := cs'\<rparr>)
      \<and> (\<forall>p. om_get 0 cs' p = om_get 0 (gp_memberContributions grp) p + (if p \<in> set (m # ms) then share else 0))"
  proof -
    from IH obtain cs' where cs': "GetGroupProgression t g = Some (grp\<lparr>gp_memberContributions := cs'\<rparr>)"
      "\<forall>p. om_get 0 cs' p = om_get 0 cs p + (if p \<in> set ms then share else 0)" by auto
    have "om_get 0 cs' p = om_get 0 (gp_memberContributions grp) p
        + (if p \<in> set (m # ms) then share else 0)" for p
      using cs'(2) cs(2,3) d(2) by (cases "p = m") auto
    with cs'(1) show ?thesis by blast
  qed
  ultimately show ?case by blast
qed

text \<open>
  Group experience is shared equally: every member is credited the same adjusted share,
  the pool divided by the number of members and rounded down, the contributions record the
  share, the pool is emptied (a remainder is lost), and nobody outside the group is touched.
\<close>

lemma group_experience_is_shared:
  assumes "DistributeGroupExperience now g s = Some (True, t)" "GetGroupProgression s g = Some grp"
    "distinct (gp_members grp)"
  shows "let share = of_nat (unat (gp_sharedExperience grp) div length (gp_members grp))
    in (\<forall>p pl. p \<in> set (gp_members grp) \<and> GetPlayerProgression s p = Some pl \<longrightarrow>
          (\<exists>adj. adjusted_amount s share True = Some adj
             \<and> GetPlayerExperience t p = pp_experience pl + adj))
     \<and> (\<forall>p. p \<notin> set (gp_members grp) \<longrightarrow> GetPlayerProgression t p = GetPlayerProgression s p)
     \<and> GetGroupExperience t g = 0
     \<and> (\<forall>p \<in> set (gp_members grp). contribution t g p = contribution s g p + share)"
proof -
  define share where "share = (of_nat (unat (gp_sharedExperience grp) div length (gp_members grp)) :: u32)"
  obtain u where u: "run (share_with now g share) (gp_members grp) s = Some u"
    "t = u\<lparr>sp_groupProgressions := om_upd g (\<lambda>grp. grp\<lparr>gp_sharedExperience := 0\<rparr>) (sp_groupProgressions u)\<rparr>"
    using assms(1,2)
    by (auto simp: DistributeGroupExperience_def Let_def bind_eq_Some_conv share_def split: if_splits)
  have gp: "GetPlayerProgression t = GetPlayerProgression u"
    by (simp add: u(2) GetPlayerProgression_def fun_eq_iff)
  then have ge: "GetPlayerExperience t = GetPlayerExperience u"
    by (simp add: GetPlayerExperience_def fun_eq_iff)
  note L = share_loop [OF u(1) assms(3,2)]
  obtain cs where cs: "GetGroupProgression u g = Some (grp\<lparr>gp_memberContributions := cs\<rparr>)"
    "\<forall>p. om_get 0 cs p = om_get 0 (gp_memberContributions grp) p
           + (if p \<in> set (gp_members grp) then share else 0)"
    using L by blast
  then have "GetGroupProgression t g = Some (grp\<lparr>gp_memberContributions := cs, gp_sharedExperience := 0\<rparr>)"
    by (simp add: u(2) GetGroupProgression_def om_find_upd)
  then have "GetGroupExperience t g = 0"
    "\<forall>p \<in> set (gp_members grp). contribution t g p = contribution s g p + share"
    using cs(2) assms(2) by (simp_all add: GetGroupExperience_def contribution_def)
  then show ?thesis using L unfolding Let_def share_def [symmetric] gp ge by blast
qed

lemma group_experience_is_shared_witness:
  "\<exists>s t. GetGroupExperience s 1 = 101 \<and> DistributeGroupExperience 0 1 s = Some (True, t)
     \<and> GetPlayerExperience t 7 = 60 \<and> contribution t 1 8 = 50 \<and> GetGroupExperience t 1 = 0"
proof -
  define grp where "grp = (the (GetGroupProgression world 1))\<lparr>gp_sharedExperience := 101\<rparr>"
  define s where "s = set_group 1 grp world"
  have s: "GetGroupProgression s 1 = Some grp" "gp_members grp = [7, 8]" "gp_sharedExperience grp = 101"
    "contribution s 1 8 = 0"
    unfolding s_def grp_def by code_simp+
  have "map_option (\<lambda>(r, t). (r, GetPlayerExperience t 7)) (DistributeGroupExperience 0 1 s) = Some (True, 60)"
    unfolding s_def grp_def by code_simp
  then obtain t where t: "DistributeGroupExperience 0 1 s = Some (True, t)" "GetPlayerExperience t 7 = 60"
    by auto
  have "GetGroupExperience t 1 = 0 \<and> contribution t 1 8 = contribution s 1 8 + 50"
    using group_experience_is_shared [OF t(1) s(1)] s(2,3)
    by (simp add: Let_def numeral_2_eq_2 [symmetric])
  moreover have "GetGroupExperience s 1 = 101" using s by (simp add: GetGroupExperience_def)
  ultimately show ?thesis using s(4) t by auto
qed

section \<open>Skill points\<close>

definition skill_points_total :: "SharedProgression \<Rightarrow> u32" where
  "skill_points_total s =
     om_sum pp_skillPoints (sp_playerProgressions s) + om_sum sk_currentLevel (sp_skills s)"

definition skills_capped :: "SharedProgression \<Rightarrow> bool" where
  "skills_capped s \<longleftrightarrow> (\<forall>k v. GetSkill s k = Some v \<longrightarrow> sk_currentLevel v \<le> sk_maxLevel v)"

definition maps_sorted :: "SharedProgression \<Rightarrow> bool" where
  "maps_sorted s \<longleftrightarrow> om_sorted (sp_playerProgressions s) \<and> om_sorted (sp_skills s)"

text \<open>The operations that neither grant points nor add or remove players and skills.\<close>

fun spends_only :: "ProgressionOp \<Rightarrow> bool" where
  "spends_only (POpSpendSkillPoint _ _ _) = True"
| "spends_only (POpUnlockSkill _ _ _) = True"
| "spends_only (POpCreateGroup _ _) = True"
| "spends_only (POpAddPlayerToGroup _ _) = True"
| "spends_only (POpRemovePlayerFromGroup _ _) = True"
| "spends_only (POpAddAchievement _) = True"
| "spends_only (POpRemoveAchievement _) = True"
| "spends_only (POpSetExperienceMultiplier _) = True"
| "spends_only (POpSetGroupExperienceBonus _) = True"
| "spends_only (POpSetMaxLevel _) = True"
| "spends_only (POpSetSkillPointPerLevel _) = True"
| "spends_only (POpEnableGroupProgression _) = True"
| "spends_only POpResetStats = True"
| "spends_only _ = False"

definition points_inv :: "u32 \<Rightarrow> SharedProgression \<Rightarrow> bool" where
  "points_inv g s \<longleftrightarrow> maps_sorted s \<and> skills_capped s \<and> skill_points_total s = g"

lemma points_inv_cong:
  "sp_playerProgressions t = sp_playerProgressions s \<Longrightarrow> sp_skills t = sp_skills s \<Longrightarrow>
     points_inv g t = points_inv g s"
  by (simp add: points_inv_def maps_sorted_def skills_capped_def skill_points_total_def GetSkill_def)

lemma set_skill_frame [simp]:
  "sp_playerProgressions (set_skill k v s) = sp_playerProgressions s"
  "sp_skills (set_skill k v s) = om_put k v (sp_skills s)"
  by (simp_all add: set_skill_def)

lemma points_inv_spend: "points_inv g s \<Longrightarrow> points_inv g (snd (SpendSkillPoint now p k s))"
proof (cases "fst (SpendSkillPoint now p k s)")
  case True
  assume inv: "points_inv g s"
  obtain pl v where pv: "GetPlayerProgression s p = Some pl" "GetSkill s k = Some v"
    "sk_currentLevel v < sk_maxLevel v"
    using True by (auto simp: SpendSkillPoint_def not_le split: option.splits if_splits)
  have "unat (sk_currentLevel v + 1) = unat (sk_currentLevel v) + 1" using pv(3) by (rule unat_plus_one)
  then have "sk_currentLevel v + 1 \<le> sk_maxLevel v"
    using pv(3) by (simp add: word_le_nat_alt word_less_nat_alt)
  then show ?thesis
    using inv True pv
    by (auto simp: points_inv_def maps_sorted_def skills_capped_def skill_points_total_def
        SpendSkillPoint_def om_sum_put GetSkill_def GetPlayerProgression_def
        split: option.splits if_splits)
next
  case False
  assume "points_inv g s"
  moreover have "snd (SpendSkillPoint now p k s) = s"
    using False by (auto simp: SpendSkillPoint_def split: option.splits if_splits)
  ultimately show ?thesis by simp
qed

lemma points_inv_unlock: "points_inv g s \<Longrightarrow> points_inv g (snd (UnlockSkill now p k s))"
  by (auto simp: points_inv_def maps_sorted_def skills_capped_def skill_points_total_def
      UnlockSkill_def om_sum_put GetSkill_def GetPlayerProgression_def split: option.splits)

lemma points_inv_step:
  assumes "points_inv g s" "spends_only x" "progression_step x s = Some t"
  shows "points_inv g t"
  using assms points_inv_cong [of t s g]
  by (cases x) (auto simp: points_inv_spend points_inv_unlock CreateGroup_def AddPlayerToGroup_def
      RemovePlayerFromGroup_def AddAchievement_def RemoveAchievement_def SetExperienceMultiplier_def
      SetGroupExperienceBonus_def SetMaxLevel_def SetSkillPointPerLevel_def set_group_def
      EnableGroupProgression_def ResetStats_def Let_def split: option.splits)

interpretation points: step_system progression_step "points_inv g" spends_only for g
  by unfold_locales (rule points_inv_step)

text \<open>
  Skill points are conserved: spending turns a player's point into a skill level, so the
  points of all players plus the levels of all skills stay the same over every sequence of
  operations that grants nothing, and no skill is raised above its maximum.
\<close>

lemma skill_points_are_conserved:
  assumes "maps_sorted s" "skills_capped s" "list_all spends_only ops"
    "run progression_step ops s = Some t"
  shows "skill_points_total t = skill_points_total s \<and> skills_capped t"
  using points.run_inv [OF _ assms(3,4), of "skill_points_total s"] assms(1,2)
  by (simp add: points_inv_def)

lemma skill_points_are_conserved_witness:
  "\<exists>t. run progression_step [POpSpendSkillPoint 0 7 1, POpUnlockSkill 0 7 1, POpSpendSkillPoint 0 7 1,
        POpSpendSkillPoint 0 7 1] (snd (AddSkillPoint 0 7 2 world)) = Some t
     \<and> skill_points_total t = 2 \<and> GetPlayerSkillPoints t 7 = 0"
proof -
  define s where "s = snd (AddSkillPoint 0 7 2 world)"
  let ?ops = "[POpSpendSkillPoint 0 7 1, POpUnlockSkill 0 7 1, POpSpendSkillPoint 0 7 1, POpSpendSkillPoint 0 7 1]"
  have s: "om_keys (sp_playerProgressions s) = [7, 8]" "om_keys (sp_skills s) = [1]"
    "map (\<lambda>v. (sk_currentLevel v, sk_maxLevel v)) (om_values (sp_skills s)) = [(0, 5)]"
    "skill_points_total s = 2"
    unfolding s_def by code_simp+
  have srt: "maps_sorted s" using s(1,2) by (simp add: maps_sorted_def om_sorted_def om_keys_def)
  have cap: "skills_capped s"
    using s(3) by (auto simp: skills_capped_def GetSkill_def om_find_def om_values_def split: if_splits)
  have "map_option (\<lambda>t. GetPlayerSkillPoints t 7) (run progression_step ?ops s) = Some 0"
    unfolding s_def by code_simp
  then obtain t where t: "run progression_step ?ops s = Some t" "GetPlayerSkillPoints t 7 = 0" by auto
  from skill_points_are_conserved [OF srt cap _ t(1)] t s(4) show ?thesis by (simp add: s_def)
qed

section \<open>Achievements\<close>

text \<open>
  An achievement is unlocked once: after a player has unlocked it, it is on that player's
  list, and every later attempt, by any player, is refused and changes nothing.  (The flag
  is shared, so the other players can never get it.)
\<close>

lemma achievement_unlocked_once:
  assumes "UnlockAchievement now p a s = Some (True, t)"
  shows "om_get [] (sp_playerAchievements t) p = om_get [] (sp_playerAchievements s) p @ [a]
     \<and> UnlockAchievement now' q a t = Some (False, t)"
proof -
  obtain pl ac s1 s2 where p: "GetPlayerProgression s p = Some pl" "GetAchievement s a = Some ac"
    and s1: "s1 = s\<lparr>sp_achievements := om_put a (ac\<lparr>ac_isUnlocked := True, ac_unlockedTime := now\<rparr>)
                     (sp_achievements s),
        sp_playerAchievements := om_put p (om_get [] (sp_playerAchievements s) p @ [a])
                     (sp_playerAchievements s)\<rparr>"
    and s2: "(if 0 < ac_experienceReward ac
         then map_option snd (AddExperience now p (ac_experienceReward ac) False s1) else Some s1) = Some s2"
    and t: "t = log_call (sp_achievementUnlockedCallback
          (if 0 < ac_skillPointReward ac then snd (AddSkillPoint now p (ac_skillPointReward ac) s2) else s2))
        (AchievementUnlocked p a)
        (if 0 < ac_skillPointReward ac then snd (AddSkillPoint now p (ac_skillPointReward ac) s2) else s2)"
    using assms
    by (auto simp: UnlockAchievement_def Let_def bind_eq_Some_conv split: option.splits if_splits)
  have "sp_achievements s2 = sp_achievements s1" "sp_playerAchievements s2 = sp_playerAchievements s1"
    using s2 AddExperience_frame(3,4) by (auto split: if_splits)
  then have "sp_achievements t = sp_achievements s1" "sp_playerAchievements t = sp_playerAchievements s1"
    by (simp_all add: t AddSkillPoint_def set_player_def split: option.splits)
  then show ?thesis
    by (auto simp: UnlockAchievement_def GetAchievement_def s1 split: option.splits)
qed

lemma achievement_unlocked_once_witness:
  "\<exists>t. UnlockAchievement 0 7 1 world = Some (True, t) \<and> GetPlayerExperience t 7 = 100
     \<and> UnlockAchievement 0 8 1 t = Some (False, t)"
proof -
  have "map_option (\<lambda>(r, t). (r, GetPlayerExperience t 7)) (UnlockAchievement 0 7 1 world) = Some (True, 100)"
    by code_simp
  then obtain t where "UnlockAchievement 0 7 1 world = Some (True, t)" "GetPlayerExperience t 7 = 100"
    by auto
  with achievement_unlocked_once [OF this(1)] show ?thesis by blast
qed

section \<open>Freedom from undefined behaviour\<close>

definition calm :: "SharedProgression \<Rightarrow> bool" where
  "calm s \<longleftrightarrow> unat (sp_maxLevel s) \<le> 83
     \<and> (\<exists>m. sp_experienceMultiplier s = Fin m \<and> 0 \<le> m \<and> m \<le> 10)
     \<and> (\<exists>b. sp_groupExperienceBonus s = Fin b \<and> 0 \<le> b \<and> b \<le> 2)
     \<and> (\<forall>k a. GetAchievement s k = Some a \<longrightarrow> unat (ac_experienceReward a) \<le> 2 ^ 24)"

fun calm_op :: "ProgressionOp \<Rightarrow> bool" where
  "calm_op (POpAddExperience _ _ n _) = (unat n \<le> 2 ^ 24)"
| "calm_op (POpAddAchievement a) = (unat (ac_experienceReward a) \<le> 2 ^ 24)"
| "calm_op (POpSetMaxLevel n) = (unat n \<le> 83)"
| "calm_op (POpAddGroupExperience _ _ _) = False"
| "calm_op (POpDistributeGroupExperience _ _) = False"
| "calm_op _ = True"

lemma calm_cong:
  "sp_maxLevel t = sp_maxLevel s \<Longrightarrow> sp_experienceMultiplier t = sp_experienceMultiplier s \<Longrightarrow>
   sp_groupExperienceBonus t = sp_groupExperienceBonus s \<Longrightarrow> sp_achievements t = sp_achievements s \<Longrightarrow>
     calm t = calm s"
  by (simp add: calm_def GetAchievement_def)

lemma f32_of_u32_bound:
  assumes "unat w \<le> 2 ^ n" "n \<le> 31"
  shows "\<exists>v. f32_of_u32 w = Fin v \<and> 0 \<le> v \<and> v \<le> 2 ^ n"
proof -
  have "(of_nat (unat w) :: rat) \<le> of_nat (2 ^ n)" using assms(1) by (simp only: of_nat_le_iff)
  then have le: "f_le (rnd32 (of_nat (unat w))) (Fin (2 ^ n))"
    using rnd32_mono rnd32_pow2 [of n] assms(2) by fastforce
  have "f_le (Fin 0) (rnd32 (of_nat (unat w)))"
    using rnd32_mono [OF of_nat_0_le_iff [of "unat w"]] rnd32_of_int [of 0] by simp
  then show ?thesis
    using le by (cases "rnd32 (of_nat (unat w))") (auto simp: f32_of_u32_def f32_of_nat_def)
qed

lemma to_u32_bound:
  assumes "0 \<le> v" "v \<le> 2 ^ n" "n \<le> 31"
  shows "\<exists>w. to_u32 (Fin v) = Some w \<and> unat w \<le> 2 ^ n"
proof -
  have "(2 :: rat) ^ n < 2 ^ 32" using assms(3) by (intro power_strict_increasing) simp_all
  then obtain w where w: "to_u32 (Fin v) = Some w"
    using to_u32_defined [of v] assms by fastforce
  have "of_nat (unat w) \<le> v" using to_u32_Some_bound [OF w assms(1)] .
  then have "(of_nat (unat w) :: rat) \<le> of_nat (2 ^ n)" using assms(2) by simp
  then show ?thesis using w by (simp only: of_nat_le_iff) simp
qed

lemma adjusted_defined:
  assumes "calm s" "unat n \<le> 2 ^ 24"
  shows "adjusted_amount s n g \<noteq> None"
proof -
  obtain m b where m: "sp_experienceMultiplier s = Fin m" "0 \<le> m" "m \<le> 10"
    and b: "sp_groupExperienceBonus s = Fin b" "0 \<le> b" "b \<le> 2"
    using assms(1) by (auto simp: calm_def)
  obtain v where v: "f32_of_u32 n = Fin v" "0 \<le> v" "v \<le> 2 ^ 24"
    using f32_of_u32_bound [OF assms(2)] by auto
  have "v * m \<le> 2 ^ 24 * 10" using v m by (intro mult_mono) auto
  then obtain x where x: "mul32 (Fin v) (Fin m) = Fin x" "0 \<le> x" "x \<le> 2 ^ 28"
    using mul32_bound [OF v(2) m(2), of 28] by auto
  obtain w where w: "to_u32 (Fin x) = Some w" "unat w \<le> 2 ^ 28"
    using to_u32_bound [OF x(2,3)] by auto
  obtain y where y: "f32_of_u32 w = Fin y" "0 \<le> y" "y \<le> 2 ^ 28"
    using f32_of_u32_bound [OF w(2)] by auto
  have "f_le (Fin 0) (rnd32 (1 + b))" "f_le (rnd32 (1 + b)) (Fin (2 ^ 2))"
    using rnd32_mono [of 0 "1 + b"] rnd32_of_int [of 0] rnd32_mono [of "1 + b" "2 ^ 2"] rnd32_pow2 [of 2] b
    by simp_all
  then obtain c where c: "add32 (Fin 1) (Fin b) = Fin c" "0 \<le> c" "c \<le> 4"
    by (cases "rnd32 (1 + b)") (auto simp: add32_def)
  have "y * c \<le> 2 ^ 28 * 4" using y c by (intro mult_mono) auto
  then obtain z where z: "mul32 (Fin y) (Fin c) = Fin z" "0 \<le> z" "z \<le> 2 ^ 30"
    using mul32_bound [OF y(2) c(2), of 30] by auto
  obtain w' where "to_u32 (Fin z) = Some w'" using to_u32_bound [OF z(2,3)] by auto
  then show ?thesis using m b v x w y c z by (simp add: adjusted_amount_def)
qed

lemma LevelUp_defined:
  assumes "unat (sp_maxLevel s) \<le> 83"
  shows "LevelUpPlayer p s \<noteq> None"
proof (cases "GetPlayerProgression s p")
  case (Some pl)
  have "CalculateExperienceRequired (pp_level pl + 1 + 1) \<noteq> None" if "pp_level pl < sp_maxLevel s"
  proof -
    have "unat (pp_level pl + 1) = unat (pp_level pl) + 1" using that by (rule unat_plus_one)
    then have "unat (pp_level pl + 1) \<le> 83" using that assms by (simp add: word_less_nat_alt)
    then have "unat (pp_level pl + 1 + 1 - 1) \<le> 83" by (simp only: add_diff_cancel_right')
    from required_value [OF this] show ?thesis by auto
  qed
  with Some show ?thesis
    by (auto simp: LevelUpPlayer_def CalculateExperienceToNextLevel_def not_le ex_bool_eq)
qed (simp add: LevelUpPlayer_def)

lemma LevelUp_only_player: "LevelUpPlayer p s = Some (r, t) \<Longrightarrow> only_player p s t"
  by (auto simp: LevelUpPlayer_def bind_eq_Some_conv split: option.splits if_splits)

lemma level_loop_defined: "unat (sp_maxLevel s) \<le> 83 \<Longrightarrow> level_loop p s \<noteq> None"
proof (induction p s rule: level_loop.induct)
  case (1 p s)
  show ?case
  proof (cases "level_due p s")
    case True
    obtain r u where u: "LevelUpPlayer p s = Some (r, u)" using LevelUp_defined [OF "1.prems"] by fastforce
    have "sp_maxLevel u = sp_maxLevel s" using only_player_frame(8) [OF LevelUp_only_player [OF u]] .
    then show ?thesis using "1.IH" [OF True u] "1.prems" True u by (simp add: level_loop.simps [of p s])
  qed (simp add: level_loop.simps)
qed

lemma AddExperience_calm:
  assumes "calm s" "unat n \<le> 2 ^ 24"
  shows "\<exists>r t. AddExperience now p n g s = Some (r, t) \<and> calm t"
proof (cases "GetPlayerProgression s p")
  case None
  then show ?thesis using assms by (simp add: AddExperience_def ex_bool_eq)
next
  case (Some pl)
  obtain adj where "adjusted_amount s n g = Some adj" using adjusted_defined [OF assms] by auto
  moreover have "unat (sp_maxLevel s) \<le> 83" using assms(1) by (simp add: calm_def)
  ultimately obtain t where t: "AddExperience now p n g s = Some (True, t)"
    using Some level_loop_defined [of "set_player p (pl\<lparr>pp_experience := pp_experience pl + adj,
      pp_lastUpdate := now\<rparr>) s" p] by (auto simp: AddExperience_def)
  then show ?thesis using calm_cong [of t s] AddExperience_frame [OF t] assms(1) by auto
qed

lemma UnlockAchievement_calm:
  assumes "calm s"
  shows "\<exists>r t. UnlockAchievement now p a s = Some (r, t) \<and> calm t"
proof (cases "\<exists>pl ac. GetPlayerProgression s p = Some pl \<and> GetAchievement s a = Some ac \<and> \<not> ac_isUnlocked ac")
  case False
  then show ?thesis using assms by (auto simp: UnlockAchievement_def ex_bool_eq split: option.splits)
next
  case True
  then obtain pl ac where ac: "GetPlayerProgression s p = Some pl" "GetAchievement s a = Some ac"
    "\<not> ac_isUnlocked ac" by blast
  define s1 where "s1 = s\<lparr>sp_achievements := om_put a (ac\<lparr>ac_isUnlocked := True, ac_unlockedTime := now\<rparr>)
                     (sp_achievements s),
        sp_playerAchievements := om_put p (om_get [] (sp_playerAchievements s) p @ [a])
                     (sp_playerAchievements s)\<rparr>"
  have reward: "unat (ac_experienceReward ac) \<le> 2 ^ 24" using assms ac(2) by (simp add: calm_def)
  have s1: "calm s1" using assms reward by (simp add: calm_def s1_def GetAchievement_def)
  obtain s2 where s2: "(if 0 < ac_experienceReward ac
      then map_option snd (AddExperience now p (ac_experienceReward ac) False s1) else Some s1) = Some s2" "calm s2"
    using AddExperience_calm [OF s1 reward, of now p False] s1
    by (cases "0 < ac_experienceReward ac") auto
  have "calm (snd (AddSkillPoint now p n s2))" "calm (log_call b c s2)"
    "calm (log_call b c (snd (AddSkillPoint now p n s2)))" for n b c
    using s2(2) by (simp_all add: calm_def AddSkillPoint_def set_player_def GetAchievement_def split: option.splits)
  then show ?thesis
    using ac s2(1) by (simp add: UnlockAchievement_def CheckAchievementRequirements_def Let_def s1_def [symmetric]
        ex_bool_eq)
qed

lemma max_min_bound: "unat n \<le> 83 \<Longrightarrow> unat (max 1 (min 1000 n :: u32)) \<le> 83"
  by (auto simp: max_def min_def word_le_nat_alt)

lemma calm_clamps:
  assumes "calm s"
  shows "calm (SetExperienceMultiplier x s)" "calm (SetGroupExperienceBonus x s)"
proof -
  have lo: "rnd32 (1 / 10) = Fin (13421773 / 134217728)" by code_simp
  show "calm (SetExperienceMultiplier x s)"
    using assms f_clamp [of "13421773 / 134217728" 10 x]
    by (force simp: calm_def SetExperienceMultiplier_def GetAchievement_def lo)
  show "calm (SetGroupExperienceBonus x s)"
    using assms f_clamp [of 0 2 x]
    by (force simp: calm_def SetGroupExperienceBonus_def GetAchievement_def)
qed

lemma calm_step:
  assumes "calm s" "calm_op x"
  shows "\<exists>t. progression_step x s = Some t \<and> calm t"
proof (cases x)
  case (POpAddExperience now p n g)
  then show ?thesis using AddExperience_calm [of s n now p g] assms by auto
next
  case (POpUnlockAchievement now p a)
  then show ?thesis using UnlockAchievement_calm [of s now p a] assms by auto
next
  case (POpLevelUpPlayer p)
  have "unat (sp_maxLevel s) \<le> 83" using assms(1) by (simp add: calm_def)
  from LevelUp_defined [OF this, of p] obtain r t where t: "LevelUpPlayer p s = Some (r, t)" by auto
  then have "calm t"
    using calm_cong [of t s] only_player_frame [OF LevelUp_only_player [OF t]] assms(1) by simp
  with t POpLevelUpPlayer show ?thesis by simp
next
  case (POpAddPlayer now p)
  then show ?thesis
    using assms by (simp add: AddPlayer_def required_2 calm_def GetAchievement_def Let_def set_player_def)
next
  case POpInitialize
  have "sp_achievements (snd (Initialize s)) = sp_achievements s"
    by (simp add: Initialize_def InitializeDefaultSkills_def InitializeDefaultAchievements_def
        AddSkill_def AddAchievement_def)
  then show ?thesis
    using POpInitialize assms calm_cong [of "snd (Initialize s)" s]
    by (simp add: Initialize_def InitializeDefaultSkills_def InitializeDefaultAchievements_def
        AddSkill_def AddAchievement_def)
next
  case (POpSetMaxLevel n)
  then show ?thesis
    using assms max_min_bound [of n] by (simp add: SetMaxLevel_def calm_def GetAchievement_def)
next
  case (POpAddAchievement a)
  then show ?thesis
    using assms by (auto simp: AddAchievement_def calm_def GetAchievement_def Let_def)
next
  case (POpRemoveAchievement a)
  then show ?thesis using assms by (auto simp: RemoveAchievement_def calm_def GetAchievement_def)
next
  case POpShutdown
  then show ?thesis using assms by (auto simp: Shutdown_def calm_def GetAchievement_def)
qed (use assms in \<open>simp_all add: calm_clamps, simp_all add: calm_def GetAchievement_def RemovePlayer_def
      AddSkillPoint_def SpendSkillPoint_def UnlockSkill_def CreateGroup_def AddPlayerToGroup_def
      RemovePlayerFromGroup_def AddSkill_def RemoveSkill_def SetSkillPointPerLevel_def
      EnableGroupProgression_def ResetStats_def set_player_def set_group_def set_skill_def Let_def
      split: option.splits\<close>)

interpretation calm: safe_system progression_step calm calm_op
  using calm_step by unfold_locales fastforce+

text \<open>
  C9. No undefined behaviour below level 84: with the level cap at most 83, awards and
  achievement rewards of at most 2^24 and no group award, every sequence of operations (level
  ups, awards, achievements, configuration) runs to its end: no cast is out of range and every
  level-up loop terminates.
\<close>

theorem progression_no_undefined_cast:
  assumes "calm s" "list_all calm_op ops"
  shows "\<exists>t. run progression_step ops s = Some t \<and> unat (sp_maxLevel t) \<le> 83"
  using calm.run_safe [OF assms] by (auto simp: calm_def)

theorem progression_no_undefined_cast_witness:
  "\<exists>t. run progression_step [POpSetMaxLevel 80, POpSetExperienceMultiplier PInf,
      POpAddExperience 0 7 16777216 True, POpUnlockAchievement 0 8 1] world = Some t
     \<and> unat (sp_maxLevel t) \<le> 83"
proof (rule progression_no_undefined_cast)
  have "sp_maxLevel world = 83" "sp_experienceMultiplier world = Fin 1"
    "sp_groupExperienceBonus world = Fin (13421773 / 67108864)"
    "map (\<lambda>(k, a). (k, ac_experienceReward a)) (sp_achievements world) = [(1, 100)]"
    by code_simp+
  then show "calm world"
    by (auto simp: calm_def GetAchievement_def om_find_def split: if_splits
        intro!: exI [of _ "13421773 / 67108864"])
qed simp

end
