(* ===== verification/Quests.thy ===== *)
theory Quests
  imports Floats
begin

text \<open>
  Cooperative quests and quest groups: \<open>src/game/CooperativeQuests.cpp\<close> and
  \<open>include/game/CooperativeQuests.h\<close>.

  The members of \<open>CooperativeQuestSystem\<close> are the fields of the record of the same name.
  \<open>m_playerQuests[p]\<close> and \<open>m_playerGroups[p]\<close> insert an empty list when there is none, and
  so do the definitions.  \<open>std::find\<close> followed by \<open>erase\<close> is \<open>remove1\<close>.  The event
  handlers iterate over live data while they update it: the loops below re-read the quest in
  every round.
\<close>

section \<open>Data\<close>

datatype QuestState = NotStarted | Available | InProgress | Completed | Failed | Abandoned

datatype QuestType = Main | Side | Contract | Treasure | Exploration | CombatQuest | Social

record QuestObjective =
  qo_objectiveId :: u32
  qo_description :: string
  qo_type :: string
  qo_target :: string
  qo_requiredCount :: u32
  qo_currentCount :: u32
  qo_isCompleted :: bool
  qo_isOptional :: bool

definition QuestObjective_new :: QuestObjective where
  "QuestObjective_new = \<lparr>qo_objectiveId = 0, qo_description = [], qo_type = [], qo_target = [],
     qo_requiredCount = 1, qo_currentCount = 0, qo_isCompleted = False, qo_isOptional = False\<rparr>"

record QuestData =
  qd_questId :: u32
  qd_name :: string
  qd_description :: string
  qd_type :: QuestType
  qd_state :: QuestState
  qd_level :: u32
  qd_objectives :: "QuestObjective list"
  qd_requiredQuests :: "u32 list"
  qd_rewards :: "u32 list"
  qd_experienceReward :: u32
  qd_goldReward :: u32
  qd_giverNpcId :: string
  qd_location :: string
  qd_startTime :: time_point
  qd_completionTime :: time_point
  qd_isCooperative :: bool
  qd_maxParticipants :: u32
  qd_participants :: "u32 list"
  qd_syncOwner :: u32

definition QuestData_new :: QuestData where
  "QuestData_new = \<lparr>qd_questId = 0, qd_name = [], qd_description = [], qd_type = Side,
     qd_state = NotStarted, qd_level = 1, qd_objectives = [], qd_requiredQuests = [],
     qd_rewards = [], qd_experienceReward = 0, qd_goldReward = 0, qd_giverNpcId = [],
     qd_location = [], qd_startTime = 0, qd_completionTime = 0, qd_isCooperative = False,
     qd_maxParticipants = 1, qd_participants = [], qd_syncOwner = 0\<rparr>"

record QuestSyncData =
  qs_questId :: u32
  qs_state :: QuestState
  qs_objectives :: "QuestObjective list"
  qs_participants :: "u32 list"
  qs_syncOwner :: u32
  qs_timestamp :: time_point

definition QuestSyncData_new :: QuestSyncData where
  "QuestSyncData_new = \<lparr>qs_questId = 0, qs_state = NotStarted, qs_objectives = [],
     qs_participants = [], qs_syncOwner = 0, qs_timestamp = 0\<rparr>"

record QuestGroup =
  qg_groupId :: u32
  qg_name :: string
  qg_members :: "u32 list"
  qg_leader :: u32
  qg_activeQuests :: "u32 list"
  qg_questStates :: "(u32, QuestState) omap"
  qg_createdTime :: time_point
  qg_isActive :: bool

definition QuestGroup_new :: QuestGroup where
  "QuestGroup_new = \<lparr>qg_groupId = 0, qg_name = [], qg_members = [], qg_leader = 0,
     qg_activeQuests = [], qg_questStates = [], qg_createdTime = 0, qg_isActive = True\<rparr>"

record QuestStats =
  qt_totalQuests :: u32
  qt_completedQuests :: u32
  qt_failedQuests :: u32
  qt_activeGroups :: u32
  qt_totalParticipants :: u32
  qt_averageCompletionTime :: flt
  qt_questSuccessRate :: flt

definition QuestStats_Reset :: QuestStats where
  "QuestStats_Reset = \<lparr>qt_totalQuests = 0, qt_completedQuests = 0, qt_failedQuests = 0,
     qt_activeGroups = 0, qt_totalParticipants = 0, qt_averageCompletionTime = Fin 0,
     qt_questSuccessRate = Fin 0\<rparr>"

datatype QuestCall =
    QuestStarted u32 u32
  | QuestCompleted u32 u32
  | QuestFailed u32 u32
  | ObjectiveUpdated u32 u32 u32
  | GroupCreated u32 u32

record CooperativeQuestSystem =
  cq_initialized :: bool
  cq_quests :: "(u32, QuestData) omap"
  cq_groups :: "(u32, QuestGroup) omap"
  cq_playerQuests :: "(u32, u32 list) omap"
  cq_playerGroups :: "(u32, u32 list) omap"
  cq_maxGroupSize :: u32
  cq_questSyncInterval :: flt
  cq_cooperativeModeEnabled :: bool
  cq_questDifficulty :: flt
  cq_stats :: QuestStats
  cq_questStartedCallback :: bool
  cq_questCompletedCallback :: bool
  cq_questFailedCallback :: bool
  cq_objectiveUpdatedCallback :: bool
  cq_groupCreatedCallback :: bool
  cq_lastSyncTime :: time_point
  cq_nextQuestId :: u32
  cq_nextGroupId :: u32
  cq_calls :: "QuestCall list"

definition CooperativeQuestSystem_new :: "time_point \<Rightarrow> CooperativeQuestSystem" where
  "CooperativeQuestSystem_new now = \<lparr>cq_initialized = False, cq_quests = [], cq_groups = [],
     cq_playerQuests = [], cq_playerGroups = [], cq_maxGroupSize = 4,
     cq_questSyncInterval = Fin 1, cq_cooperativeModeEnabled = True, cq_questDifficulty = Fin 1,
     cq_stats = QuestStats_Reset, cq_questStartedCallback = False,
     cq_questCompletedCallback = False, cq_questFailedCallback = False,
     cq_objectiveUpdatedCallback = False, cq_groupCreatedCallback = False, cq_lastSyncTime = now,
     cq_nextQuestId = 1, cq_nextGroupId = 1, cq_calls = []\<rparr>"

definition quest_call :: "bool \<Rightarrow> QuestCall \<Rightarrow> CooperativeQuestSystem \<Rightarrow> CooperativeQuestSystem" where
  "quest_call registered c s = (if registered then s\<lparr>cq_calls := cq_calls s @ [c]\<rparr> else s)"

section \<open>Quests\<close>

definition AddQuest :: "QuestData \<Rightarrow> CooperativeQuestSystem \<Rightarrow> CooperativeQuestSystem" where
  "AddQuest quest s =
     (if \<not> cq_initialized s then s
      else
        let k = (if qd_questId quest = 0 then cq_nextQuestId s else qd_questId quest);
            s1 = (if qd_questId quest = 0 then s\<lparr>cq_nextQuestId := cq_nextQuestId s + 1\<rparr> else s)
        in s1\<lparr>cq_quests := om_put k (quest\<lparr>qd_questId := k\<rparr>) (cq_quests s1),
              cq_stats := (cq_stats s1)\<lparr>qt_totalQuests := qt_totalQuests (cq_stats s1) + 1\<rparr>\<rparr>)"

definition RemoveQuest :: "u32 \<Rightarrow> CooperativeQuestSystem \<Rightarrow> CooperativeQuestSystem" where
  "RemoveQuest questId s = s\<lparr>cq_quests := om_erase questId (cq_quests s)\<rparr>"

definition GetQuest :: "CooperativeQuestSystem \<Rightarrow> u32 \<Rightarrow> QuestData option" where
  "GetQuest s questId = om_find (cq_quests s) questId"

definition set_quest :: "u32 \<Rightarrow> QuestData \<Rightarrow> CooperativeQuestSystem \<Rightarrow> CooperativeQuestSystem" where
  "set_quest questId quest s = s\<lparr>cq_quests := om_put questId quest (cq_quests s)\<rparr>"

definition required_done :: "CooperativeQuestSystem \<Rightarrow> u32 \<Rightarrow> bool" where
  "required_done s requiredQuestId =
     (case GetQuest s requiredQuestId of None \<Rightarrow> False | Some q \<Rightarrow> qd_state q = Completed)"

definition CheckQuestPrerequisites :: "CooperativeQuestSystem \<Rightarrow> u32 \<Rightarrow> u32 \<Rightarrow> bool" where
  "CheckQuestPrerequisites s questId playerId =
     (case GetQuest s questId of
        None \<Rightarrow> False
      | Some quest \<Rightarrow> list_all (required_done s) (qd_requiredQuests quest))"

definition IsQuestAvailable :: "CooperativeQuestSystem \<Rightarrow> u32 \<Rightarrow> u32 \<Rightarrow> bool" where
  "IsQuestAvailable s questId playerId =
     (case GetQuest s questId of
        None \<Rightarrow> False
      | Some quest \<Rightarrow> qd_state quest = Available \<and> CheckQuestPrerequisites s questId playerId)"

definition CanPlayerJoinQuest :: "CooperativeQuestSystem \<Rightarrow> u32 \<Rightarrow> u32 \<Rightarrow> bool" where
  "CanPlayerJoinQuest s questId playerId =
     (case GetQuest s questId of
        None \<Rightarrow> False
      | Some quest \<Rightarrow> qd_isCooperative quest
                      \<and> length (qd_participants quest) < unat (qd_maxParticipants quest))"

definition IsQuestComplete :: "CooperativeQuestSystem \<Rightarrow> u32 \<Rightarrow> bool" where
  "IsQuestComplete s questId =
     (case GetQuest s questId of
        None \<Rightarrow> False
      | Some quest \<Rightarrow> list_all (\<lambda>x. \<not> (\<not> qo_isOptional x \<and> \<not> qo_isCompleted x)) (qd_objectives quest))"

definition ValidateQuestStart :: "CooperativeQuestSystem \<Rightarrow> u32 \<Rightarrow> u32 \<Rightarrow> bool" where
  "ValidateQuestStart s questId playerId =
     (case GetQuest s questId of
        None \<Rightarrow> False
      | Some quest \<Rightarrow>
          if qd_state quest \<noteq> Available then False
          else if \<not> CheckQuestPrerequisites s questId playerId then False
          else if qd_isCooperative quest \<and> \<not> CanPlayerJoinQuest s questId playerId then False
          else True)"

definition GetAvailableQuests :: "CooperativeQuestSystem \<Rightarrow> u32 \<Rightarrow> QuestData list" where
  "GetAvailableQuests s playerId =
     filter (\<lambda>q. IsQuestAvailable s (qd_questId q) playerId) (om_values (cq_quests s))"

definition GetPlayerQuests :: "CooperativeQuestSystem \<Rightarrow> u32 \<Rightarrow> QuestData list" where
  "GetPlayerQuests s playerId =
     (case om_find (cq_playerQuests s) playerId of
        None \<Rightarrow> [] | Some ids \<Rightarrow> List.map_filter (om_find (cq_quests s)) ids)"

definition GetGroupQuests :: "CooperativeQuestSystem \<Rightarrow> u32 \<Rightarrow> QuestData list" where
  "GetGroupQuests s groupId =
     (case om_find (cq_groups s) groupId of
        None \<Rightarrow> []
      | Some grp \<Rightarrow> List.map_filter (om_find (cq_quests s)) (qg_activeQuests grp))"

text \<open>\<open>m_playerQuests[playerId]\<close>, changed by \<open>f\<close>.\<close>

definition upd_playerQuests ::
    "u32 \<Rightarrow> (u32 list \<Rightarrow> u32 list) \<Rightarrow> CooperativeQuestSystem \<Rightarrow> CooperativeQuestSystem" where
  "upd_playerQuests playerId f s =
     s\<lparr>cq_playerQuests := om_put playerId (f (om_get [] (cq_playerQuests s) playerId)) (cq_playerQuests s)\<rparr>"

definition StartQuest ::
    "time_point \<Rightarrow> u32 \<Rightarrow> u32 \<Rightarrow> CooperativeQuestSystem \<Rightarrow> bool \<times> CooperativeQuestSystem" where
  "StartQuest now questId playerId s =
     (if \<not> cq_initialized s then (False, s)
      else case GetQuest s questId of
        None \<Rightarrow> (False, s)
      | Some quest \<Rightarrow>
          if \<not> ValidateQuestStart s questId playerId then (False, s)
          else (True, quest_call (cq_questStartedCallback s) (QuestStarted questId playerId)
            (upd_playerQuests playerId (\<lambda>ids. ids @ [questId])
              (set_quest questId (quest\<lparr>qd_state := InProgress, qd_startTime := now,
                 qd_participants := qd_participants quest @ [playerId], qd_syncOwner := playerId\<rparr>) s))))"

definition CompleteQuest ::
    "time_point \<Rightarrow> u32 \<Rightarrow> u32 \<Rightarrow> CooperativeQuestSystem \<Rightarrow> bool \<times> CooperativeQuestSystem" where
  "CompleteQuest now questId playerId s =
     (case GetQuest s questId of
        None \<Rightarrow> (False, s)
      | Some quest \<Rightarrow>
          if qd_state quest \<noteq> InProgress then (False, s)
          else if \<not> IsQuestComplete s questId then (False, s)
          else
            let completionTime = seconds32 (now - qd_startTime quest);
                stats = cq_stats s;
                completed = qt_completedQuests stats + 1;
                stats' = stats\<lparr>
                  qt_averageCompletionTime :=
                    div32 (add32 (qt_averageCompletionTime stats) completionTime) (Fin 2),
                  qt_completedQuests := completed,
                  qt_questSuccessRate :=
                    div32 (f32_of_u32 completed) (f32_of_u32 (qt_totalQuests stats))\<rparr>
            in (True, quest_call (cq_questCompletedCallback s) (QuestCompleted questId playerId)
                 ((set_quest questId (quest\<lparr>qd_state := Completed, qd_completionTime := now\<rparr>) s)
                    \<lparr>cq_stats := stats'\<rparr>)))"

definition AbandonQuest ::
    "u32 \<Rightarrow> u32 \<Rightarrow> CooperativeQuestSystem \<Rightarrow> bool \<times> CooperativeQuestSystem" where
  "AbandonQuest questId playerId s =
     (case GetQuest s questId of
        None \<Rightarrow> (False, s)
      | Some quest \<Rightarrow>
          if qd_state quest \<noteq> InProgress then (False, s)
          else (True, quest_call (cq_questFailedCallback s) (QuestFailed questId playerId)
            (upd_playerQuests playerId (remove1 questId)
              (set_quest questId (quest\<lparr>qd_state := Abandoned,
                 qd_participants := remove1 playerId (qd_participants quest)\<rparr>) s))))"

text \<open>Progress of one objective; the loop updates the first objective with the given id.\<close>

definition advance :: "u32 \<Rightarrow> QuestObjective \<Rightarrow> QuestObjective" where
  "advance progress objective =
     (let count = min (qo_currentCount objective + progress) (qo_requiredCount objective)
      in objective\<lparr>qo_currentCount := count, qo_isCompleted := qo_requiredCount objective \<le> count\<rparr>)"

fun update_first ::
    "u32 \<Rightarrow> u32 \<Rightarrow> QuestObjective list \<Rightarrow> (QuestObjective list \<times> u32) option" where
  "update_first objectiveId progress [] = None"
| "update_first objectiveId progress (objective # rest) =
     (if qo_objectiveId objective = objectiveId
      then Some (advance progress objective # rest, qo_currentCount (advance progress objective))
      else map_option (\<lambda>(os, c). (objective # os, c)) (update_first objectiveId progress rest))"

definition UpdateObjective ::
    "u32 \<Rightarrow> u32 \<Rightarrow> u32 \<Rightarrow> CooperativeQuestSystem \<Rightarrow> bool \<times> CooperativeQuestSystem" where
  "UpdateObjective questId objectiveId progress s =
     (case GetQuest s questId of
        None \<Rightarrow> (False, s)
      | Some quest \<Rightarrow>
          if qd_state quest \<noteq> InProgress then (False, s)
          else case update_first objectiveId progress (qd_objectives quest) of
            None \<Rightarrow> (False, s)
          | Some (os, count) \<Rightarrow>
              (True, quest_call (cq_objectiveUpdatedCallback s) (ObjectiveUpdated questId objectiveId count)
                       (set_quest questId (quest\<lparr>qd_objectives := os\<rparr>) s)))"

definition JoinQuest :: "u32 \<Rightarrow> u32 \<Rightarrow> CooperativeQuestSystem \<Rightarrow> bool \<times> CooperativeQuestSystem" where
  "JoinQuest questId playerId s =
     (case GetQuest s questId of
        None \<Rightarrow> (False, s)
      | Some quest \<Rightarrow>
          if \<not> qd_isCooperative quest \<or> \<not> CanPlayerJoinQuest s questId playerId then (False, s)
          else (True, upd_playerQuests playerId (\<lambda>ids. ids @ [questId])
            (set_quest questId (quest\<lparr>qd_participants := qd_participants quest @ [playerId]\<rparr>) s)))"

definition LeaveQuest :: "u32 \<Rightarrow> u32 \<Rightarrow> CooperativeQuestSystem \<Rightarrow> bool \<times> CooperativeQuestSystem" where
  "LeaveQuest questId playerId s =
     (case GetQuest s questId of
        None \<Rightarrow> (False, s)
      | Some quest \<Rightarrow> (True, upd_playerQuests playerId (remove1 questId)
          (set_quest questId (quest\<lparr>qd_participants := remove1 playerId (qd_participants quest)\<rparr>) s)))"

definition TransferQuestOwnership ::
    "u32 \<Rightarrow> u32 \<Rightarrow> u32 \<Rightarrow> CooperativeQuestSystem \<Rightarrow> bool \<times> CooperativeQuestSystem" where
  "TransferQuestOwnership questId fromPlayer toPlayer s =
     (case GetQuest s questId of
        None \<Rightarrow> (False, s)
      | Some quest \<Rightarrow>
          if qd_syncOwner quest \<noteq> fromPlayer then (False, s)
          else if toPlayer \<notin> set (qd_participants quest) then (False, s)
          else (True, set_quest questId (quest\<lparr>qd_syncOwner := toPlayer\<rparr>) s))"

section \<open>Groups\<close>

definition GetGroup :: "CooperativeQuestSystem \<Rightarrow> u32 \<Rightarrow> QuestGroup option" where
  "GetGroup s groupId = om_find (cq_groups s) groupId"

definition set_qgroup :: "u32 \<Rightarrow> QuestGroup \<Rightarrow> CooperativeQuestSystem \<Rightarrow> CooperativeQuestSystem" where
  "set_qgroup groupId grp s = s\<lparr>cq_groups := om_put groupId grp (cq_groups s)\<rparr>"

definition GetPlayerGroups :: "CooperativeQuestSystem \<Rightarrow> u32 \<Rightarrow> QuestGroup list" where
  "GetPlayerGroups s playerId =
     (case om_find (cq_playerGroups s) playerId of
        None \<Rightarrow> [] | Some ids \<Rightarrow> List.map_filter (om_find (cq_groups s)) ids)"

definition upd_playerGroups ::
    "u32 \<Rightarrow> (u32 list \<Rightarrow> u32 list) \<Rightarrow> CooperativeQuestSystem \<Rightarrow> CooperativeQuestSystem" where
  "upd_playerGroups playerId f s =
     s\<lparr>cq_playerGroups := om_put playerId (f (om_get [] (cq_playerGroups s) playerId)) (cq_playerGroups s)\<rparr>"

definition add_activeGroups :: "u32 \<Rightarrow> CooperativeQuestSystem \<Rightarrow> CooperativeQuestSystem" where
  "add_activeGroups n s = s\<lparr>cq_stats := (cq_stats s)\<lparr>qt_activeGroups := qt_activeGroups (cq_stats s) + n\<rparr>\<rparr>"

definition IsPlayerInGroup :: "CooperativeQuestSystem \<Rightarrow> u32 \<Rightarrow> u32 \<Rightarrow> bool" where
  "IsPlayerInGroup s playerId groupId =
     (case GetGroup s groupId of None \<Rightarrow> False | Some grp \<Rightarrow> playerId \<in> set (qg_members grp))"

definition CanPlayerJoinGroup :: "CooperativeQuestSystem \<Rightarrow> u32 \<Rightarrow> u32 \<Rightarrow> bool" where
  "CanPlayerJoinGroup s groupId playerId =
     (case GetGroup s groupId of
        None \<Rightarrow> False
      | Some grp \<Rightarrow>
          if \<not> qg_isActive grp then False
          else if unat (cq_maxGroupSize s) \<le> length (qg_members grp) then False
          else \<not> IsPlayerInGroup s playerId groupId)"

definition CreateGroup ::
    "time_point \<Rightarrow> string \<Rightarrow> u32 \<Rightarrow> CooperativeQuestSystem \<Rightarrow> u32 \<times> CooperativeQuestSystem" where
  "CreateGroup now name leaderId s =
     (let k = cq_nextGroupId s;
          grp = QuestGroup_new\<lparr>qg_groupId := k, qg_name := name, qg_leader := leaderId,
            qg_members := [leaderId], qg_createdTime := now, qg_isActive := True\<rparr>
      in (k, quest_call (cq_groupCreatedCallback s) (GroupCreated k leaderId)
           (add_activeGroups 1 (upd_playerGroups leaderId (\<lambda>ids. ids @ [k])
             (set_qgroup k grp (s\<lparr>cq_nextGroupId := k + 1\<rparr>))))))"

definition JoinGroup :: "u32 \<Rightarrow> u32 \<Rightarrow> CooperativeQuestSystem \<Rightarrow> bool \<times> CooperativeQuestSystem" where
  "JoinGroup groupId playerId s =
     (case GetGroup s groupId of
        None \<Rightarrow> (False, s)
      | Some grp \<Rightarrow>
          if \<not> CanPlayerJoinGroup s groupId playerId then (False, s)
          else
            let s1 = upd_playerGroups playerId (\<lambda>ids. ids @ [groupId])
                       (set_qgroup groupId (grp\<lparr>qg_members := qg_members grp @ [playerId]\<rparr>) s)
            in (True, s1\<lparr>cq_stats := (cq_stats s1)\<lparr>
                 qt_totalParticipants := qt_totalParticipants (cq_stats s1) + 1\<rparr>\<rparr>))"

text \<open>
  The last line of an operation reads the name of the group through the pointer from its start:
  undefined when the group is no longer in the table.
\<close>

definition log_group :: "u32 \<Rightarrow> bool \<times> CooperativeQuestSystem \<Rightarrow> (bool \<times> CooperativeQuestSystem) option" where
  "log_group groupId r = (case GetGroup (snd r) groupId of None \<Rightarrow> None | Some grp \<Rightarrow> Some r)"

definition DisbandGroup :: "u32 \<Rightarrow> CooperativeQuestSystem \<Rightarrow> (bool \<times> CooperativeQuestSystem) option" where
  "DisbandGroup groupId s =
     (case GetGroup s groupId of
        None \<Rightarrow> Some (False, s)
      | Some grp \<Rightarrow>
          let s1 = fold (\<lambda>memberId. upd_playerGroups memberId (remove1 groupId)) (qg_members grp) s
          in log_group groupId
               (True, add_activeGroups (- 1) (s1\<lparr>cq_groups := om_erase groupId (cq_groups s1)\<rparr>)))"

definition LeaveGroup :: "u32 \<Rightarrow> u32 \<Rightarrow> CooperativeQuestSystem \<Rightarrow> (bool \<times> CooperativeQuestSystem) option" where
  "LeaveGroup groupId playerId s =
     (case GetGroup s groupId of
        None \<Rightarrow> Some (False, s)
      | Some grp \<Rightarrow>
          let members = remove1 playerId (qg_members grp);
              s1 = upd_playerGroups playerId (remove1 groupId)
                     (set_qgroup groupId (grp\<lparr>qg_members := members\<rparr>) s)
          in if qg_leader grp = playerId then
               (if members = []
                then case DisbandGroup groupId s1 of None \<Rightarrow> None | Some r \<Rightarrow> log_group groupId (True, snd r)
                else log_group groupId
                       (True, set_qgroup groupId (grp\<lparr>qg_members := members, qg_leader := members ! 0\<rparr>) s1))
             else log_group groupId (True, s1))"

end
