(* ===== verification/QuestEvents.thy ===== *)
theory QuestEvents
  imports Quests
begin

text \<open>
  Synchronisation, game events, configuration, default content and the quest utilities of
  \<open>src/game/CooperativeQuests.cpp\<close>, and the whole class as a list of operations
  (\<open>QuestOp\<close>, \<open>quest_step\<close>).
\<close>

section \<open>Synchronisation\<close>

definition SynchronizeQuest ::
    "u32 \<Rightarrow> QuestSyncData \<Rightarrow> CooperativeQuestSystem \<Rightarrow> CooperativeQuestSystem" where
  "SynchronizeQuest questId syncData s =
     (case GetQuest s questId of
        None \<Rightarrow> s
      | Some quest \<Rightarrow> set_quest questId (quest\<lparr>qd_state := qs_state syncData,
          qd_objectives := qs_objectives syncData, qd_participants := qs_participants syncData,
          qd_syncOwner := qs_syncOwner syncData\<rparr>) s)"

definition GetQuestSyncData :: "time_point \<Rightarrow> CooperativeQuestSystem \<Rightarrow> u32 \<Rightarrow> QuestSyncData" where
  "GetQuestSyncData now s questId =
     (case om_find (cq_quests s) questId of
        None \<Rightarrow> QuestSyncData_new
      | Some quest \<Rightarrow> QuestSyncData_new\<lparr>qs_questId := qd_questId quest, qs_state := qd_state quest,
          qs_objectives := qd_objectives quest, qs_participants := qd_participants quest,
          qs_syncOwner := qd_syncOwner quest, qs_timestamp := now\<rparr>)"

definition ProcessQuestUpdate :: "QuestSyncData \<Rightarrow> CooperativeQuestSystem \<Rightarrow> CooperativeQuestSystem" where
  "ProcessQuestUpdate syncData s = SynchronizeQuest (qs_questId syncData) syncData s"

definition UpdateQuestState :: "u32 \<Rightarrow> QuestState \<Rightarrow> CooperativeQuestSystem \<Rightarrow> CooperativeQuestSystem" where
  "UpdateQuestState questId newState s =
     (case GetQuest s questId of
        None \<Rightarrow> s
      | Some quest \<Rightarrow> set_quest questId (quest\<lparr>qd_state := newState\<rparr>) s)"

definition expired :: "time_point \<Rightarrow> QuestData \<Rightarrow> bool" where
  "expired now quest \<longleftrightarrow> (qd_state quest = Completed \<or> qd_state quest = Failed)
     \<and> f_lt (Fin 3600) (seconds32 (now - qd_completionTime quest))"

definition CleanupCompletedQuests :: "time_point \<Rightarrow> CooperativeQuestSystem \<Rightarrow> CooperativeQuestSystem" where
  "CleanupCompletedQuests now s =
     s\<lparr>cq_quests := filter (\<lambda>p. \<not> expired now (snd p)) (cq_quests s)\<rparr>"

section \<open>Game events\<close>

text \<open>
  One round of the inner loop: the \<open>i\<close>-th objective of the quest stored under \<open>k\<close>; when it
  matches, \<open>UpdateObjective\<close> is called with the ids the quest and the objective carry.
\<close>

definition event_objective ::
    "(QuestObjective \<Rightarrow> bool) \<Rightarrow> u32 \<Rightarrow> u32 \<Rightarrow> nat \<Rightarrow> CooperativeQuestSystem \<Rightarrow> CooperativeQuestSystem" where
  "event_objective matches k questId i s =
     (case GetQuest s k of
        None \<Rightarrow> s
      | Some quest \<Rightarrow>
          if i < length (qd_objectives quest) \<and> matches (qd_objectives quest ! i)
          then snd (UpdateObjective questId (qo_objectiveId (qd_objectives quest ! i)) 1 s)
          else s)"

definition event_objectives ::
    "(QuestObjective \<Rightarrow> bool) \<Rightarrow> u32 \<Rightarrow> u32 \<Rightarrow> QuestData \<Rightarrow> CooperativeQuestSystem \<Rightarrow> CooperativeQuestSystem" where
  "event_objectives matches k questId quest s =
     fold (event_objective matches k questId) [0 ..< length (qd_objectives quest)] s"

text \<open>One quest of the outer loop.\<close>

definition event_quest ::
    "(QuestObjective \<Rightarrow> bool) \<Rightarrow> u32 \<Rightarrow> CooperativeQuestSystem \<Rightarrow> CooperativeQuestSystem" where
  "event_quest matches k s =
     (case GetQuest s k of
        None \<Rightarrow> s
      | Some quest \<Rightarrow>
          if qd_state quest = InProgress
          then event_objectives matches k (qd_questId quest) quest s else s)"

definition OnPlayerKillMonster :: "u32 \<Rightarrow> string \<Rightarrow> CooperativeQuestSystem \<Rightarrow> CooperativeQuestSystem" where
  "OnPlayerKillMonster playerId monsterId s =
     fold (event_quest (\<lambda>x. qo_type x = ''kill'' \<and> qo_target x = monsterId)) (om_keys (cq_quests s)) s"

definition OnPlayerCollectItem :: "u32 \<Rightarrow> u32 \<Rightarrow> CooperativeQuestSystem \<Rightarrow> CooperativeQuestSystem" where
  "OnPlayerCollectItem playerId itemId s =
     fold (event_quest (\<lambda>x. qo_type x = ''collect'' \<and> to_string_u32 itemId = qo_target x))
       (om_keys (cq_quests s)) s"

definition OnPlayerTalkToNpc :: "u32 \<Rightarrow> string \<Rightarrow> CooperativeQuestSystem \<Rightarrow> CooperativeQuestSystem" where
  "OnPlayerTalkToNpc playerId npcId s =
     fold (event_quest (\<lambda>x. qo_type x = ''talk'' \<and> qo_target x = npcId)) (om_keys (cq_quests s)) s"

definition OnPlayerUseObject :: "u32 \<Rightarrow> string \<Rightarrow> CooperativeQuestSystem \<Rightarrow> CooperativeQuestSystem" where
  "OnPlayerUseObject playerId objectId s =
     fold (event_quest (\<lambda>x. qo_type x = ''use'' \<and> qo_target x = objectId)) (om_keys (cq_quests s)) s"

definition ProcessQuestTriggers ::
    "u32 \<Rightarrow> string \<Rightarrow> u32 \<Rightarrow> CooperativeQuestSystem \<Rightarrow> CooperativeQuestSystem" where
  "ProcessQuestTriggers questId triggerType playerId s =
     (case GetQuest s questId of
        None \<Rightarrow> s
      | Some quest \<Rightarrow> event_objectives (\<lambda>x. qo_type x = triggerType) questId questId quest s)"

definition enter_area_quest :: "u32 \<Rightarrow> string \<Rightarrow> u32 \<Rightarrow> CooperativeQuestSystem \<Rightarrow> CooperativeQuestSystem" where
  "enter_area_quest playerId areaId k s =
     (case GetQuest s k of
        None \<Rightarrow> s
      | Some quest \<Rightarrow>
          if qd_state quest = InProgress \<and> qd_location quest = areaId
          then ProcessQuestTriggers (qd_questId quest) ''enter_area'' playerId s else s)"

definition OnPlayerEnterArea :: "u32 \<Rightarrow> string \<Rightarrow> CooperativeQuestSystem \<Rightarrow> CooperativeQuestSystem" where
  "OnPlayerEnterArea playerId areaId s =
     fold (enter_area_quest playerId areaId) (om_keys (cq_quests s)) s"

section \<open>Utilities\<close>

definition CreateMainQuest :: "string \<Rightarrow> string \<Rightarrow> u32 \<Rightarrow> QuestData" where
  "CreateMainQuest name description level = QuestData_new\<lparr>qd_name := name,
     qd_description := description, qd_type := Main, qd_level := level, qd_state := Available,
     qd_experienceReward := level * 100, qd_goldReward := level * 50\<rparr>"

definition CreateSideQuest :: "string \<Rightarrow> string \<Rightarrow> u32 \<Rightarrow> QuestData" where
  "CreateSideQuest name description level = QuestData_new\<lparr>qd_name := name,
     qd_description := description, qd_type := Side, qd_level := level, qd_state := Available,
     qd_experienceReward := level * 50, qd_goldReward := level * 25\<rparr>"

definition CreateContractQuest :: "string \<Rightarrow> string \<Rightarrow> u32 \<Rightarrow> QuestData" where
  "CreateContractQuest name description level = QuestData_new\<lparr>qd_name := name,
     qd_description := description, qd_type := Contract, qd_level := level, qd_state := Available,
     qd_experienceReward := level * 75, qd_goldReward := level * 100\<rparr>"

definition CreateKillObjective :: "string \<Rightarrow> string \<Rightarrow> u32 \<Rightarrow> QuestObjective" where
  "CreateKillObjective description target count = QuestObjective_new\<lparr>qo_description := description,
     qo_type := ''kill'', qo_target := target, qo_requiredCount := count\<rparr>"

definition CreateCollectObjective :: "string \<Rightarrow> string \<Rightarrow> u32 \<Rightarrow> QuestObjective" where
  "CreateCollectObjective description target count = QuestObjective_new\<lparr>qo_description := description,
     qo_type := ''collect'', qo_target := target, qo_requiredCount := count\<rparr>"

definition CreateTalkObjective :: "string \<Rightarrow> string \<Rightarrow> QuestObjective" where
  "CreateTalkObjective description target = QuestObjective_new\<lparr>qo_description := description,
     qo_type := ''talk'', qo_target := target, qo_requiredCount := 1\<rparr>"

definition CreateReachObjective :: "string \<Rightarrow> string \<Rightarrow> QuestObjective" where
  "CreateReachObjective description target = QuestObjective_new\<lparr>qo_description := description,
     qo_type := ''reach'', qo_target := target, qo_requiredCount := 1\<rparr>"

section \<open>Life cycle and configuration\<close>

definition default_mainQuest :: QuestData where
  "default_mainQuest =
     (CreateMainQuest (''The Witcher'' @ [CHR 0x27] @ ''s Call'') ''A cooperative adventure begins'' 1)
       \<lparr>qd_isCooperative := True, qd_maxParticipants := 4,
        qd_objectives := [CreateKillObjective ''Defeat the Griffin'' ''griffin'' 1,
          CreateCollectObjective ''Gather Griffin Feathers'' ''griffin_feather'' 3]\<rparr>"

definition default_sideQuest :: QuestData where
  "default_sideQuest =
     (CreateSideQuest ''Bandit Hunt'' ''Clear the bandit camp together'' 2)
       \<lparr>qd_isCooperative := True, qd_maxParticipants := 3,
        qd_objectives := [CreateKillObjective ''Eliminate Bandits'' ''bandit'' 10,
          CreateReachObjective ''Reach the Bandit Camp'' ''bandit_camp'']\<rparr>"

definition InitializeDefaultQuests :: "CooperativeQuestSystem \<Rightarrow> CooperativeQuestSystem" where
  "InitializeDefaultQuests s = AddQuest default_sideQuest (AddQuest default_mainQuest s)"

definition Initialize :: "CooperativeQuestSystem \<Rightarrow> bool \<times> CooperativeQuestSystem" where
  "Initialize s =
     (if cq_initialized s then (True, s)
      else (True, (InitializeDefaultQuests s)\<lparr>cq_initialized := True\<rparr>))"

definition Shutdown :: "CooperativeQuestSystem \<Rightarrow> CooperativeQuestSystem" where
  "Shutdown s =
     (if \<not> cq_initialized s then s
      else s\<lparr>cq_quests := [], cq_groups := [], cq_playerQuests := [], cq_playerGroups := [],
             cq_initialized := False\<rparr>)"

definition SetMaxGroupSize :: "u32 \<Rightarrow> CooperativeQuestSystem \<Rightarrow> CooperativeQuestSystem" where
  "SetMaxGroupSize maxSize s = s\<lparr>cq_maxGroupSize := maxSize\<rparr>"

definition SetQuestSyncInterval :: "flt \<Rightarrow> CooperativeQuestSystem \<Rightarrow> CooperativeQuestSystem" where
  "SetQuestSyncInterval interval s = s\<lparr>cq_questSyncInterval := interval\<rparr>"

definition EnableCooperativeMode :: "bool \<Rightarrow> CooperativeQuestSystem \<Rightarrow> CooperativeQuestSystem" where
  "EnableCooperativeMode enable s = s\<lparr>cq_cooperativeModeEnabled := enable\<rparr>"

definition SetQuestDifficulty :: "flt \<Rightarrow> CooperativeQuestSystem \<Rightarrow> CooperativeQuestSystem" where
  "SetQuestDifficulty difficulty s =
     s\<lparr>cq_questDifficulty := f_max (rnd32 (1 / 10)) (f_min (Fin 5) difficulty)\<rparr>"

definition GetStats :: "CooperativeQuestSystem \<Rightarrow> QuestStats" where
  "GetStats s = cq_stats s"

definition ResetStats :: "CooperativeQuestSystem \<Rightarrow> CooperativeQuestSystem" where
  "ResetStats s = s\<lparr>cq_stats := QuestStats_Reset\<rparr>"

definition SetQuestStartedCallback :: "bool \<Rightarrow> CooperativeQuestSystem \<Rightarrow> CooperativeQuestSystem" where
  "SetQuestStartedCallback registered s = s\<lparr>cq_questStartedCallback := registered\<rparr>"

definition SetQuestCompletedCallback :: "bool \<Rightarrow> CooperativeQuestSystem \<Rightarrow> CooperativeQuestSystem" where
  "SetQuestCompletedCallback registered s = s\<lparr>cq_questCompletedCallback := registered\<rparr>"

definition SetQuestFailedCallback :: "bool \<Rightarrow> CooperativeQuestSystem \<Rightarrow> CooperativeQuestSystem" where
  "SetQuestFailedCallback registered s = s\<lparr>cq_questFailedCallback := registered\<rparr>"

definition SetObjectiveUpdatedCallback :: "bool \<Rightarrow> CooperativeQuestSystem \<Rightarrow> CooperativeQuestSystem" where
  "SetObjectiveUpdatedCallback registered s = s\<lparr>cq_objectiveUpdatedCallback := registered\<rparr>"

definition SetGroupCreatedCallback :: "bool \<Rightarrow> CooperativeQuestSystem \<Rightarrow> CooperativeQuestSystem" where
  "SetGroupCreatedCallback registered s = s\<lparr>cq_groupCreatedCallback := registered\<rparr>"

section \<open>The public interface as operations\<close>

datatype QuestOp =
    QInitialize
  | QShutdown
  | QAddQuest QuestData
  | QRemoveQuest u32
  | QStartQuest time_point u32 u32
  | QCompleteQuest time_point u32 u32
  | QAbandonQuest u32 u32
  | QUpdateObjective u32 u32 u32
  | QJoinQuest u32 u32
  | QLeaveQuest u32 u32
  | QTransferQuestOwnership u32 u32 u32
  | QCreateGroup time_point string u32
  | QJoinGroup u32 u32
  | QLeaveGroup u32 u32
  | QDisbandGroup u32
  | QSynchronizeQuest u32 QuestSyncData
  | QProcessQuestUpdate QuestSyncData
  | QEnterArea u32 string
  | QKillMonster u32 string
  | QCollectItem u32 u32
  | QTalkToNpc u32 string
  | QUseObject u32 string
  | QSetMaxGroupSize u32
  | QSetQuestDifficulty flt
  | QSetQuestSyncInterval flt
  | QEnableCooperativeMode bool
  | QResetStats

fun quest_step :: "QuestOp \<Rightarrow> CooperativeQuestSystem \<Rightarrow> CooperativeQuestSystem option" where
  "quest_step QInitialize s = Some (snd (Initialize s))"
| "quest_step QShutdown s = Some (Shutdown s)"
| "quest_step (QAddQuest q) s = Some (AddQuest q s)"
| "quest_step (QRemoveQuest q) s = Some (RemoveQuest q s)"
| "quest_step (QStartQuest now q p) s = Some (snd (StartQuest now q p s))"
| "quest_step (QCompleteQuest now q p) s = Some (snd (CompleteQuest now q p s))"
| "quest_step (QAbandonQuest q p) s = Some (snd (AbandonQuest q p s))"
| "quest_step (QUpdateObjective q x n) s = Some (snd (UpdateObjective q x n s))"
| "quest_step (QJoinQuest q p) s = Some (snd (JoinQuest q p s))"
| "quest_step (QLeaveQuest q p) s = Some (snd (LeaveQuest q p s))"
| "quest_step (QTransferQuestOwnership q a b) s = Some (snd (TransferQuestOwnership q a b s))"
| "quest_step (QCreateGroup now name p) s = Some (snd (CreateGroup now name p s))"
| "quest_step (QJoinGroup g p) s = Some (snd (JoinGroup g p s))"
| "quest_step (QLeaveGroup g p) s = map_option snd (LeaveGroup g p s)"
| "quest_step (QDisbandGroup g) s = map_option snd (DisbandGroup g s)"
| "quest_step (QSynchronizeQuest q d) s = Some (SynchronizeQuest q d s)"
| "quest_step (QProcessQuestUpdate d) s = Some (ProcessQuestUpdate d s)"
| "quest_step (QEnterArea p a) s = Some (OnPlayerEnterArea p a s)"
| "quest_step (QKillMonster p m) s = Some (OnPlayerKillMonster p m s)"
| "quest_step (QCollectItem p i) s = Some (OnPlayerCollectItem p i s)"
| "quest_step (QTalkToNpc p n) s = Some (OnPlayerTalkToNpc p n s)"
| "quest_step (QUseObject p x) s = Some (OnPlayerUseObject p x s)"
| "quest_step (QSetMaxGroupSize n) s = Some (SetMaxGroupSize n s)"
| "quest_step (QSetQuestDifficulty x) s = Some (SetQuestDifficulty x s)"
| "quest_step (QSetQuestSyncInterval x) s = Some (SetQuestSyncInterval x s)"
| "quest_step (QEnableCooperativeMode b) s = Some (EnableCooperativeMode b s)"
| "quest_step QResetStats s = Some (ResetStats s)"

section \<open>The database manager\<close>

record QuestDatabaseManager =
  dm_databasePath :: string
  dm_initialized :: bool

definition QuestDatabaseManager_new :: QuestDatabaseManager where
  "QuestDatabaseManager_new = \<lparr>dm_databasePath = [], dm_initialized = False\<rparr>"

definition Database_Initialize :: "string \<Rightarrow> QuestDatabaseManager \<Rightarrow> bool \<times> QuestDatabaseManager" where
  "Database_Initialize databasePath d =
     (if dm_initialized d then (True, d)
      else (True, d\<lparr>dm_databasePath := databasePath, dm_initialized := True\<rparr>))"

definition Database_Shutdown :: "QuestDatabaseManager \<Rightarrow> QuestDatabaseManager" where
  "Database_Shutdown d = (if \<not> dm_initialized d then d else d\<lparr>dm_initialized := False\<rparr>)"

end
