(* ===== verification/QuestLib.thy ===== *)
theory QuestLib
  imports QuestEvents
begin

text \<open>
  The lemma library of the quest system: the registry contract of quests, which fields each
  operation leaves alone, what \<open>UpdateObjective\<close> does to a quest, and the principle by which
  a property of \<open>UpdateObjective\<close> becomes a property of every game event.
\<close>

interpretation quests: registry GetQuest AddQuest RemoveQuest cq_initialized cq_nextQuestId
    qd_questId "\<lambda>k q. q\<lparr>qd_questId := k\<rparr>"
  by unfold_locales (auto simp: GetQuest_def AddQuest_def RemoveQuest_def Let_def)

section \<open>Frames\<close>

lemma helper_frame [simp]:
  "cq_quests (quest_call b c s) = cq_quests s"
  "cq_quests (upd_playerQuests p f s) = cq_quests s"
  "cq_quests (upd_playerGroups p f s) = cq_quests s"
  "cq_quests (set_qgroup g grp s) = cq_quests s"
  "cq_quests (add_activeGroups n s) = cq_quests s"
  "cq_quests (set_quest q d s) = om_put q d (cq_quests s)"
  by (simp_all add: quest_call_def upd_playerQuests_def upd_playerGroups_def set_qgroup_def
      add_activeGroups_def set_quest_def)

lemma GetQuest_helpers [simp]:
  "GetQuest (quest_call b c s) = GetQuest s"
  "GetQuest (upd_playerQuests p f s) = GetQuest s"
  "GetQuest (upd_playerGroups p f s) = GetQuest s"
  "GetQuest (set_qgroup g grp s) = GetQuest s"
  "GetQuest (add_activeGroups n s) = GetQuest s"
  "GetQuest (set_quest q d s) j = (if j = q then Some d else GetQuest s j)"
  "GetQuest (s\<lparr>cq_stats := st\<rparr>) = GetQuest s"
  "GetQuest (s\<lparr>cq_groups := gs\<rparr>) = GetQuest s"
  "GetQuest (s\<lparr>cq_nextGroupId := n\<rparr>) = GetQuest s"
  by (simp_all add: GetQuest_def fun_eq_iff)

text \<open>The group side of the state.\<close>

record group_view =
  gv_groups :: "(u32, QuestGroup) omap"
  gv_playerGroups :: "(u32, u32 list) omap"
  gv_next :: u32
  gv_active :: u32

definition view :: "CooperativeQuestSystem \<Rightarrow> group_view" where
  "view s = \<lparr>gv_groups = cq_groups s, gv_playerGroups = cq_playerGroups s,
     gv_next = cq_nextGroupId s, gv_active = qt_activeGroups (cq_stats s)\<rparr>"

lemma view_helpers [simp]:
  "view (quest_call b c s) = view s"
  "view (upd_playerQuests p f s) = view s"
  "view (set_quest q d s) = view s"
  by (simp_all add: view_def quest_call_def upd_playerQuests_def set_quest_def)

lemma view_UpdateObjective [simp]: "view (snd (UpdateObjective q x n s)) = view s"
  by (auto simp: UpdateObjective_def split: option.splits)

section \<open>From objectives to events\<close>

locale objective_invariant =
  fixes P :: "CooperativeQuestSystem \<Rightarrow> bool"
  assumes update: "P s \<Longrightarrow> P (snd (UpdateObjective q x n s))"
begin

lemma event_objectives: "P s \<Longrightarrow> P (event_objectives matches k q quest s)"
proof -
  have "P s \<Longrightarrow> P (event_objective matches k q i s)" for i s
    by (auto simp: event_objective_def update split: option.splits)
  then have "P s \<Longrightarrow> P (fold (event_objective matches k q) is s)" for "is"
    by (induction "is" arbitrary: s) simp_all
  then show "P s \<Longrightarrow> P (event_objectives matches k q quest s)" by (simp add: event_objectives_def)
qed

lemma event_quests: "P s \<Longrightarrow> P (fold (event_quest matches) ks s)"
  by (induction ks arbitrary: s) (simp_all add: event_quest_def event_objectives split: option.splits)

lemma trigger: "P s \<Longrightarrow> P (ProcessQuestTriggers q ty p s)"
  by (simp add: ProcessQuestTriggers_def event_objectives split: option.splits)

lemma enter: "P s \<Longrightarrow> P (fold (enter_area_quest p a) ks s)"
  by (induction ks arbitrary: s) (simp_all add: enter_area_quest_def trigger split: option.splits)

lemma events:
  "P s \<Longrightarrow> P (OnPlayerEnterArea p a s)"
  "P s \<Longrightarrow> P (OnPlayerKillMonster p m s)"
  "P s \<Longrightarrow> P (OnPlayerCollectItem p i s)"
  "P s \<Longrightarrow> P (OnPlayerTalkToNpc p npc s)"
  "P s \<Longrightarrow> P (OnPlayerUseObject p obj s)"
  by (simp_all add: OnPlayerEnterArea_def OnPlayerKillMonster_def OnPlayerCollectItem_def
      OnPlayerTalkToNpc_def OnPlayerUseObject_def enter event_quests)

end

interpretation view_inv: objective_invariant "\<lambda>s. view s = v" for v
  by unfold_locales simp

lemma view_events [simp]:
  "view (OnPlayerEnterArea p a s) = view s"
  "view (OnPlayerKillMonster p m s) = view s"
  "view (OnPlayerCollectItem p i s) = view s"
  "view (OnPlayerTalkToNpc p npc s) = view s"
  "view (OnPlayerUseObject p obj s) = view s"
  by (rule view_inv.events, rule refl)+

lemma view_quest_ops [simp]:
  "view (snd (StartQuest now q p s)) = view s"
  "view (snd (CompleteQuest now q p s)) = view s"
  "view (snd (AbandonQuest q p s)) = view s"
  "view (snd (JoinQuest q p s)) = view s"
  "view (snd (LeaveQuest q p s)) = view s"
  "view (snd (TransferQuestOwnership q a b s)) = view s"
  "view (SynchronizeQuest q d s) = view s"
  "view (ProcessQuestUpdate d s) = view s"
  "view (AddQuest qd s) = view s"
  "view (RemoveQuest q s) = view s"
  "view (snd (Initialize s)) = view s"
  "view (SetMaxGroupSize k s) = view s"
  "view (SetQuestDifficulty x s) = view s"
  "view (SetQuestSyncInterval x s) = view s"
  "view (EnableCooperativeMode on s) = view s"
proof -
  have add: "view (AddQuest qd s) = view s" for qd s by (simp add: AddQuest_def view_def Let_def)
  have st: "view (s\<lparr>cq_stats := st\<rparr>) = (view s)\<lparr>gv_active := qt_activeGroups st\<rparr>" for s st
    by (simp add: view_def)
  have "view (snd (CompleteQuest now q p s)) = view s"
    by (auto simp: CompleteQuest_def Let_def st split: option.splits) (simp_all add: view_def)
  then show "view (snd (CompleteQuest now q p s)) = view s" .
  show "view (AddQuest qd s) = view s" by (rule add)
  have "view (s\<lparr>cq_initialized := b\<rparr>) = view s" for s b by (simp add: view_def)
  then show "view (snd (Initialize s)) = view s"
    by (simp add: Initialize_def InitializeDefaultQuests_def add)
  show "view (SynchronizeQuest q d s) = view s" "view (ProcessQuestUpdate d s) = view s"
    by (simp_all add: ProcessQuestUpdate_def SynchronizeQuest_def split: option.splits)
qed (simp_all add: StartQuest_def AbandonQuest_def JoinQuest_def LeaveQuest_def
      TransferQuestOwnership_def split: option.splits, simp_all add: view_def RemoveQuest_def
      SetMaxGroupSize_def SetQuestDifficulty_def SetQuestSyncInterval_def EnableCooperativeMode_def)

text \<open>The quests are untouched by the group operations.\<close>

lemma GetQuest_fold_groups [simp]:
  "GetQuest (fold (\<lambda>m. upd_playerGroups m f) ms s) = GetQuest s"
  by (induction ms arbitrary: s) simp_all

text \<open>
  Disbanding a group that exists reads the group it erased; leaving one does so exactly when the
  leader was its last member.
\<close>

lemma log_group_simps [simp]:
  "GetGroup s g = Some grp \<Longrightarrow> log_group g (r, s) = Some (r, s)"
  "GetGroup s g = None \<Longrightarrow> log_group g (r, s) = None"
  by (simp_all add: log_group_def)

lemma DisbandGroup_eq: "DisbandGroup g s = (if GetGroup s g = None then Some (False, s) else None)"
proof (cases "GetGroup s g")
  case (Some grp)
  have "GetGroup (add_activeGroups n (u\<lparr>cq_groups := om_erase g (cq_groups u)\<rparr>)) g = None" for n u
    by (simp add: GetGroup_def add_activeGroups_def)
  then show ?thesis using Some by (simp add: DisbandGroup_def Let_def)
qed (simp add: DisbandGroup_def)

lemma LeaveGroup_eq:
  "LeaveGroup g p s =
     (case GetGroup s g of
        None \<Rightarrow> Some (False, s)
      | Some grp \<Rightarrow>
          let ms = remove1 p (qg_members grp);
              s1 = upd_playerGroups p (remove1 g) (set_qgroup g (grp\<lparr>qg_members := ms\<rparr>) s)
          in if qg_leader grp \<noteq> p then Some (True, s1)
             else if ms = [] then None
             else Some (True, set_qgroup g (grp\<lparr>qg_members := ms, qg_leader := ms ! 0\<rparr>) s1))"
proof (cases "GetGroup s g")
  case (Some grp)
  have "GetGroup (upd_playerGroups p f (set_qgroup g x u)) g = Some x" "GetGroup (set_qgroup g x u) g = Some x" for f x u
    by (simp_all add: GetGroup_def upd_playerGroups_def set_qgroup_def)
  then show ?thesis using Some by (simp add: LeaveGroup_def DisbandGroup_eq Let_def)
qed (simp add: LeaveGroup_def)

lemma GetQuest_group_ops [simp]:
  "GetQuest (snd (CreateGroup now name p s)) = GetQuest s"
  "GetQuest (snd (JoinGroup g p s)) = GetQuest s"
  "GetQuest (SetMaxGroupSize k s) = GetQuest s"
  "GetQuest (SetQuestDifficulty x s) = GetQuest s"
  "GetQuest (SetQuestSyncInterval x s) = GetQuest s"
  "GetQuest (EnableCooperativeMode on s) = GetQuest s"
  "GetQuest (ResetStats s) = GetQuest s"
  by (simp_all add: CreateGroup_def JoinGroup_def Let_def split: option.splits,
    simp_all add: GetQuest_def fun_eq_iff SetMaxGroupSize_def SetQuestDifficulty_def
      SetQuestSyncInterval_def EnableCooperativeMode_def ResetStats_def)

lemma GetQuest_leave_disband:
  "DisbandGroup g s = Some (b, t) \<Longrightarrow> GetQuest t = GetQuest s"
  "LeaveGroup g p s = Some (b, t) \<Longrightarrow> GetQuest t = GetQuest s"
  by (auto simp: DisbandGroup_eq LeaveGroup_eq Let_def split: option.splits if_splits)

section \<open>Progress of one objective\<close>

text \<open>\<open>update_first\<close> changes exactly the first objective with the id.\<close>

lemma update_first_Some:
  "update_first x n os = Some (os', c) \<Longrightarrow>
     \<exists>i < length os. qo_objectiveId (os ! i) = x \<and> (\<forall>j < i. qo_objectiveId (os ! j) \<noteq> x)
       \<and> os' = os[i := advance n (os ! i)] \<and> c = qo_currentCount (advance n (os ! i))"
proof (induction os arbitrary: os')
  case (Cons ob os)
  show ?case
  proof (cases "qo_objectiveId ob = x")
    case True
    then show ?thesis using Cons.prems by (intro exI [of _ 0]) auto
  next
    case False
    then obtain ys where ys: "update_first x n os = Some (ys, c)" "os' = ob # ys"
      using Cons.prems by auto
    from Cons.IH [OF ys(1)] obtain i where i: "i < length os" "qo_objectiveId (os ! i) = x"
      "\<forall>j < i. qo_objectiveId (os ! j) \<noteq> x" "ys = os[i := advance n (os ! i)]"
      "c = qo_currentCount (advance n (os ! i))" by blast
    then show ?thesis using False ys(2)
      by (intro exI [of _ "Suc i"]) (auto simp: nth_Cons split: nat.splits)
  qed
qed simp

lemma UpdateObjective_quest:
  "GetQuest (snd (UpdateObjective q x n s)) j =
     (case GetQuest s j of
        None \<Rightarrow> None
      | Some quest \<Rightarrow>
          if j = q \<and> qd_state quest = InProgress
          then (case update_first x n (qd_objectives quest) of
                  None \<Rightarrow> Some quest
                | Some (os, c) \<Rightarrow> Some (quest\<lparr>qd_objectives := os\<rparr>))
          else Some quest)"
  by (auto simp: UpdateObjective_def split: option.splits)

lemma advance_frame [simp]:
  "qo_objectiveId (advance n x) = qo_objectiveId x" "qo_type (advance n x) = qo_type x"
  "qo_isOptional (advance n x) = qo_isOptional x" "qo_target (advance n x) = qo_target x"
  "qo_requiredCount (advance n x) = qo_requiredCount x"
  by (simp_all add: advance_def Let_def)

end
