(* ===== verification/QuestProps.thy ===== *)
theory QuestProps
  imports QuestLib
begin

text \<open>
  What the quest system guarantees: the life cycle of a quest as a relation on quests
  (\<open>quest_edit\<close>), the invariants that follow from it, the synchronisation round trip, and the
  consistency of quest groups.
\<close>

section \<open>The life of a quest\<close>

text \<open>
  The changes a quest can undergo while it is played on one machine: every rule is one
  operation with the guard under which the code performs it.
\<close>

abbreviation mandatory_done :: "QuestData \<Rightarrow> bool" where
  "mandatory_done a \<equiv> \<forall>x \<in> set (qd_objectives a). \<not> qo_isOptional x \<longrightarrow> qo_isCompleted x"

abbreviation has_room :: "QuestData \<Rightarrow> bool" where
  "has_room a \<equiv> length (qd_participants a) < unat (qd_maxParticipants a)"

inductive quest_edit :: "QuestData \<Rightarrow> QuestData \<Rightarrow> bool" where
  start: "qd_state a = Available \<Longrightarrow> (qd_isCooperative a \<longrightarrow> has_room a) \<Longrightarrow>
    quest_edit a (a\<lparr>qd_state := InProgress, qd_startTime := now,
      qd_participants := qd_participants a @ [p], qd_syncOwner := p\<rparr>)"
| progress: "qd_state a = InProgress \<Longrightarrow> update_first x n (qd_objectives a) = Some (os, c) \<Longrightarrow>
    quest_edit a (a\<lparr>qd_objectives := os\<rparr>)"
| complete: "qd_state a = InProgress \<Longrightarrow> mandatory_done a \<Longrightarrow>
    quest_edit a (a\<lparr>qd_state := Completed, qd_completionTime := now\<rparr>)"
| abandon: "qd_state a = InProgress \<Longrightarrow>
    quest_edit a (a\<lparr>qd_state := Abandoned, qd_participants := remove1 p (qd_participants a)\<rparr>)"
| join: "qd_isCooperative a \<Longrightarrow> has_room a \<Longrightarrow>
    quest_edit a (a\<lparr>qd_participants := qd_participants a @ [p]\<rparr>)"
| leave: "quest_edit a (a\<lparr>qd_participants := remove1 p (qd_participants a)\<rparr>)"
| transfer: "p \<in> set (qd_participants a) \<Longrightarrow> quest_edit a (a\<lparr>qd_syncOwner := p\<rparr>)"

text \<open>
  The operations of play: everything but the two that overwrite a quest from outside
  (\<open>AddQuest\<close> and the synchronisation messages).
\<close>

fun play_op :: "QuestOp \<Rightarrow> bool" where
  "play_op (QAddQuest q) = False"
| "play_op (QSynchronizeQuest q d) = False"
| "play_op (QProcessQuestUpdate d) = False"
| "play_op x = True"

definition played_from :: "CooperativeQuestSystem \<Rightarrow> CooperativeQuestSystem \<Rightarrow> bool" where
  "played_from s t \<longleftrightarrow>
     (\<forall>q b. GetQuest t q = Some b \<longrightarrow> (\<exists>a. GetQuest s q = Some a \<and> quest_edit\<^sup>*\<^sup>* a b))"

lemma played_from_refl [simp]: "played_from s s"
  by (auto simp: played_from_def)

lemma played_from_trans: "played_from s t \<Longrightarrow> played_from t u \<Longrightarrow> played_from s u"
  unfolding played_from_def by (meson rtranclp_trans)

lemma played_from_same: "GetQuest t = GetQuest s \<Longrightarrow> played_from s t"
  by (auto simp: played_from_def)

lemma played_from_edit:
  assumes "GetQuest s q = Some a" "quest_edit a b"
    "\<And>j. GetQuest t j = (if j = q then Some b else GetQuest s j)"
  shows "played_from s t"
  using assms by (auto simp: played_from_def)

lemma UpdateObjective_played: "played_from s (snd (UpdateObjective q x n s))"
proof (cases "\<exists>a os c. GetQuest s q = Some a \<and> qd_state a = InProgress
      \<and> update_first x n (qd_objectives a) = Some (os, c)")
  case True
  then obtain a os c where "GetQuest s q = Some a" "qd_state a = InProgress"
    "update_first x n (qd_objectives a) = Some (os, c)" by blast
  then show ?thesis
    by (intro played_from_edit [where b = "a\<lparr>qd_objectives := os\<rparr>"])
      (auto simp: UpdateObjective_def intro: quest_edit.progress)
next
  case False
  then show ?thesis by (auto simp: UpdateObjective_def split: option.splits)
qed

interpretation played: objective_invariant "played_from s" for s
  by unfold_locales (blast intro: played_from_trans UpdateObjective_played)

lemma IsQuestComplete_mandatory:
  "GetQuest s q = Some a \<Longrightarrow> IsQuestComplete s q \<longleftrightarrow> mandatory_done a"
  by (auto simp: IsQuestComplete_def list_all_iff)

text \<open>\<open>Initialize\<close> adds its quests before the flag that allows it: it adds none.\<close>

lemma GetQuest_Initialize [simp]: "GetQuest (snd (Initialize s)) = GetQuest s"
  by (cases "cq_initialized s")
    (simp_all add: Initialize_def InitializeDefaultQuests_def quests.add_not_ready, simp add: GetQuest_def fun_eq_iff)

lemma play_step: "play_op x \<Longrightarrow> quest_step x s = Some t \<Longrightarrow> played_from s t"
proof (cases x)
  case QShutdown
  moreover assume "quest_step x s = Some t"
  ultimately show ?thesis by (auto simp: Shutdown_def played_from_def GetQuest_def split: if_splits)
next
  case (QRemoveQuest q)
  moreover assume "quest_step x s = Some t"
  ultimately show ?thesis by (auto simp: played_from_def quests.get_remove split: if_splits)
next
  case QInitialize
  moreover assume "quest_step x s = Some t"
  ultimately show ?thesis
    by (auto intro: played_from_same)
next
  case (QStartQuest now q p)
  moreover assume "quest_step x s = Some t"
  ultimately show ?thesis
    by (auto simp: StartQuest_def ValidateQuestStart_def CanPlayerJoinQuest_def
        split: option.splits if_splits intro: played_from_edit [OF _ quest_edit.start])
next
  case (QCompleteQuest now q p)
  moreover assume "quest_step x s = Some t"
  ultimately show ?thesis
    by (auto simp: CompleteQuest_def Let_def IsQuestComplete_mandatory
        split: option.splits if_splits intro: played_from_edit [OF _ quest_edit.complete])
next
  case (QAbandonQuest q p)
  moreover assume "quest_step x s = Some t"
  ultimately show ?thesis
    by (auto simp: AbandonQuest_def split: option.splits if_splits
        intro: played_from_edit [OF _ quest_edit.abandon])
next
  case (QJoinQuest q p)
  moreover assume "quest_step x s = Some t"
  ultimately show ?thesis
    by (auto simp: JoinQuest_def CanPlayerJoinQuest_def split: option.splits if_splits
        intro: played_from_edit [OF _ quest_edit.join])
next
  case (QLeaveQuest q p)
  moreover assume "quest_step x s = Some t"
  ultimately show ?thesis
    by (auto simp: LeaveQuest_def split: option.splits if_splits
        intro: played_from_edit [OF _ quest_edit.leave])
next
  case (QTransferQuestOwnership q a b)
  moreover assume "quest_step x s = Some t"
  ultimately show ?thesis
    by (auto simp: TransferQuestOwnership_def split: option.splits if_splits
        intro: played_from_edit [OF _ quest_edit.transfer])
qed (auto simp: UpdateObjective_played played.events intro: played_from_same GetQuest_leave_disband)

interpretation play: step_system quest_step "played_from s" play_op for s
  by unfold_locales (blast intro: played_from_trans play_step)

lemma play_run:
  "list_all play_op ops \<Longrightarrow> run quest_step ops s = Some t \<Longrightarrow> GetQuest t q = Some b \<Longrightarrow>
     \<exists>a. GetQuest s q = Some a \<and> quest_edit\<^sup>*\<^sup>* a b"
  using play.run_inv [of s s ops t] by (auto simp: played_from_def)

text \<open>What every edit keeps, every history keeps.\<close>

lemma history_invariant:
  "quest_edit\<^sup>*\<^sup>* a b \<Longrightarrow> P a \<Longrightarrow> (\<And>a b. quest_edit a b \<Longrightarrow> P a \<Longrightarrow> P b) \<Longrightarrow> P b"
  by (induction rule: rtranclp_induct) auto

section \<open>States of a quest\<close>

inductive quest_moves :: "QuestState \<Rightarrow> QuestState \<Rightarrow> bool" where
  accepted: "quest_moves Available InProgress"
| finished: "quest_moves InProgress Completed"
| given_up: "quest_moves InProgress Abandoned"

inductive_cases from_Completed: "quest_moves Completed x"
inductive_cases from_Abandoned: "quest_moves Abandoned x"
inductive_cases from_Failed: "quest_moves Failed x"
inductive_cases from_NotStarted: "quest_moves NotStarted x"
inductive_cases to_Failed: "quest_moves x Failed"

lemmas no_moves = from_Completed from_Abandoned from_Failed from_NotStarted

text \<open>The part of a quest that no operation of play writes.\<close>

definition quest_text :: "QuestData \<Rightarrow> QuestData" where
  "quest_text q = q\<lparr>qd_state := NotStarted, qd_objectives := [], qd_startTime := 0,
     qd_completionTime := 0, qd_participants := [], qd_syncOwner := 0\<rparr>"

lemma edit_state: "quest_edit a b \<Longrightarrow> quest_moves\<^sup>*\<^sup>* (qd_state a) (qd_state b)"
  by (induction rule: quest_edit.induct) (auto intro: quest_moves.intros)

lemma edit_text: "quest_edit a b \<Longrightarrow> quest_text b = quest_text a"
  by (induction rule: quest_edit.induct) (simp_all add: quest_text_def)

lemma history_state: "quest_edit\<^sup>*\<^sup>* a b \<Longrightarrow> quest_moves\<^sup>*\<^sup>* (qd_state a) (qd_state b)"
  by (induction rule: rtranclp_induct) (auto dest: edit_state)

lemma history_text: "quest_edit\<^sup>*\<^sup>* a b \<Longrightarrow> quest_text b = quest_text a"
  by (induction rule: rtranclp_induct) (auto dest: edit_text)

lemma moves_stay:
  "quest_moves\<^sup>*\<^sup>* x y \<Longrightarrow> x \<in> {Completed, Abandoned, Failed, NotStarted} \<Longrightarrow> y = x"
  by (induction rule: rtranclp_induct) (auto elim: no_moves)

lemma moves_to_Failed: "quest_moves\<^sup>*\<^sup>* x y \<Longrightarrow> y = Failed \<Longrightarrow> x = Failed"
  by (induction rule: rtranclp_induct) (auto elim: to_Failed)

text \<open>
  C10. The life of a quest: over any sequence of operations of play (no quest added, no
  synchronisation message), a quest that exists at the end existed at the start with the same
  name, type, level, rewards and limits, and its state has only moved from available to in
  progress and from there to completed or abandoned.  A completed or abandoned quest never
  changes state again, and no operation ever makes a quest fail.
\<close>

theorem quest_life_cycle:
  assumes "list_all play_op ops" "run quest_step ops s = Some t" "GetQuest t q = Some b"
  shows "\<exists>a. GetQuest s q = Some a \<and> quest_text b = quest_text a
     \<and> quest_moves\<^sup>*\<^sup>* (qd_state a) (qd_state b)
     \<and> (qd_state a \<in> {Completed, Abandoned} \<longrightarrow> qd_state b = qd_state a)
     \<and> (qd_state b = Failed \<longrightarrow> qd_state a = Failed)"
proof -
  obtain a where "GetQuest s q = Some a" and h: "quest_edit\<^sup>*\<^sup>* a b" using play_run [OF assms] by blast
  then show ?thesis
    using history_text [OF h] history_state [OF h] moves_stay moves_to_Failed by blast
qed

section \<open>Objectives and participants\<close>

definition objective_ok :: "QuestObjective \<Rightarrow> bool" where
  "objective_ok x \<longleftrightarrow> qo_currentCount x \<le> qo_requiredCount x
     \<and> (qo_isCompleted x \<longrightarrow> qo_currentCount x = qo_requiredCount x)"

definition quest_ok :: "QuestData \<Rightarrow> bool" where
  "quest_ok a \<longleftrightarrow> (\<forall>x \<in> set (qd_objectives a). objective_ok x)
     \<and> (qd_state a = Completed \<longrightarrow> mandatory_done a)
     \<and> (qd_isCooperative a \<longrightarrow> length (qd_participants a) \<le> unat (qd_maxParticipants a))"

definition quests_ok :: "CooperativeQuestSystem \<Rightarrow> bool" where
  "quests_ok s \<longleftrightarrow> (\<forall>q a. GetQuest s q = Some a \<longrightarrow> quest_ok a)"

lemma advance_ok: "objective_ok (advance n x)"
  by (auto simp: objective_ok_def advance_def Let_def min_def)

lemma update_first_ok:
  "update_first x n os = Some (os', c) \<Longrightarrow> \<forall>y \<in> set os. objective_ok y \<Longrightarrow>
     \<forall>y \<in> set os'. objective_ok y"
  using update_first_Some [of x n os os' c] set_update_subset_insert
  by (fastforce simp: advance_ok)

lemma length_remove1_le: "length (remove1 x xs) \<le> length xs"
  by (simp add: length_remove1)

lemma edit_ok: "quest_edit a b \<Longrightarrow> quest_ok a \<Longrightarrow> quest_ok b"
proof (induction rule: quest_edit.induct)
  case (progress a x n os c)
  then show ?case using update_first_ok by (auto simp: quest_ok_def)
next
  case (abandon a p)
  then show ?case using length_remove1_le [of p "qd_participants a"] by (auto simp: quest_ok_def)
next
  case (leave a p)
  then show ?case using length_remove1_le [of p "qd_participants a"] by (auto simp: quest_ok_def)
qed (auto simp: quest_ok_def)

lemma quest_ok_id: "quest_ok (a\<lparr>qd_questId := k\<rparr>) = quest_ok a"
  by (simp add: quest_ok_def)

lemma GetQuest_AddQuest:
  "GetQuest (AddQuest v s) j =
     (if cq_initialized s \<and> j = (if qd_questId v = 0 then cq_nextQuestId s else qd_questId v)
      then Some (v\<lparr>qd_questId := j\<rparr>) else GetQuest s j)"
  by (cases "cq_initialized s") (auto simp: quests.get_add quests.add_not_ready)

fun keeps_quests_ok :: "QuestOp \<Rightarrow> bool" where
  "keeps_quests_ok (QAddQuest q) = quest_ok q"
| "keeps_quests_ok x = play_op x"

interpretation ok_runs: step_system quest_step quests_ok keeps_quests_ok
proof
  fix s x t
  assume s: "quests_ok s" and x: "keeps_quests_ok x" and t: "quest_step x s = Some t"
  show "quests_ok t"
  proof (cases "play_op x")
    case True
    with t s show ?thesis
      using play_step history_invariant [where P = quest_ok] edit_ok
      unfolding played_from_def quests_ok_def by blast
  next
    case False
    with x obtain qd where "x = QAddQuest qd" "quest_ok qd" by (cases x) auto
    with t s show ?thesis
      by (auto simp: quests_ok_def GetQuest_AddQuest quest_ok_id split: if_splits)
  qed
qed

text \<open>
  C11. Bounds that hold throughout play: after any operations among which every quest added
  respects them and no quest is overwritten by synchronisation (\<open>SynchronizeQuest\<close> and
  \<open>ProcessQuestUpdate\<close> store the counts, the states and the participants they are sent without a
  check, so they are excluded), no objective counts beyond its requirement, an objective is
  marked completed only at its requirement, a completed quest has all its mandatory objectives
  completed, and a cooperative quest has at most its maximum of participants.
\<close>

theorem quest_bounds:
  assumes "list_all keeps_quests_ok ops"
    "run quest_step ops (CooperativeQuestSystem_new now) = Some t" "GetQuest t q = Some a"
  shows "(\<forall>x \<in> set (qd_objectives a). qo_currentCount x \<le> qo_requiredCount x
            \<and> (qo_isCompleted x \<longrightarrow> qo_currentCount x = qo_requiredCount x))
     \<and> (qd_state a = Completed \<longrightarrow>
          (\<forall>x \<in> set (qd_objectives a). \<not> qo_isOptional x \<longrightarrow> qo_isCompleted x))
     \<and> (qd_isCooperative a \<longrightarrow> length (qd_participants a) \<le> unat (qd_maxParticipants a))"
proof -
  have "quests_ok (CooperativeQuestSystem_new now)"
    by (simp add: quests_ok_def GetQuest_def CooperativeQuestSystem_new_def)
  then have "quest_ok a" using ok_runs.run_inv [OF _ assms(1,2)] assms(3) by (auto simp: quests_ok_def)
  then show ?thesis by (simp add: quest_ok_def objective_ok_def)
qed

section \<open>Objectives with one id\<close>

text \<open>An objective that has another one with its id before it.\<close>

definition shadowed :: "QuestObjective list \<Rightarrow> nat \<Rightarrow> bool" where
  "shadowed os j \<longleftrightarrow> (\<exists>i < j. qo_objectiveId (os ! i) = qo_objectiveId (os ! j))"

definition blocked :: "nat \<Rightarrow> QuestObjective \<Rightarrow> QuestData \<Rightarrow> bool" where
  "blocked j x a \<longleftrightarrow> j < length (qd_objectives a) \<and> qd_objectives a ! j = x
     \<and> shadowed (qd_objectives a) j \<and> \<not> qo_isOptional x \<and> \<not> qo_isCompleted x
     \<and> qd_state a \<noteq> Completed"

lemma update_first_shadowed:
  assumes "update_first x n os = Some (os', c)" "shadowed os j" "j < length os"
  shows "os' ! j = os ! j \<and> shadowed os' j \<and> length os' = length os"
proof -
  obtain i where i: "i < length os" "qo_objectiveId (os ! i) = x"
    "\<forall>k < i. qo_objectiveId (os ! k) \<noteq> x" "os' = os[i := advance n (os ! i)]"
    using update_first_Some [OF assms(1)] by blast
  have ids: "qo_objectiveId (os' ! k) = qo_objectiveId (os ! k)" if "k < length os" for k
    using that i by (auto simp: nth_list_update)
  have "i \<noteq> j" using assms(2) i by (auto simp: shadowed_def)
  then show ?thesis using i ids assms(2,3) by (auto simp: shadowed_def)
qed

lemma edit_blocked: "quest_edit a b \<Longrightarrow> blocked j x a \<Longrightarrow> blocked j x b"
proof (induction rule: quest_edit.induct)
  case (progress a y n os c)
  then show ?case using update_first_shadowed [of y n "qd_objectives a" os c j] by (auto simp: blocked_def)
next
  case (complete a now)
  then show ?case by (auto simp: blocked_def dest: nth_mem)
qed (auto simp: blocked_def)

text \<open>
  \<open>UpdateObjective\<close> changes the first objective that carries the id it is given, and the
  functions that create objectives leave the id at 0: a mandatory objective that shares its id
  with an earlier one never makes progress, and its quest is never completed, whatever the
  players do.  Both default quests are of this kind.
\<close>

lemma shadowed_objective_blocks_quest:
  assumes "list_all play_op ops" "run quest_step ops s = Some t"
    "GetQuest s q = Some a" "GetQuest t q = Some b" "qd_state a \<noteq> Completed"
    "i < j" "j < length (qd_objectives a)"
    "qo_objectiveId (qd_objectives a ! i) = qo_objectiveId (qd_objectives a ! j)"
    "\<not> qo_isOptional (qd_objectives a ! j)" "\<not> qo_isCompleted (qd_objectives a ! j)"
  shows "qd_state b \<noteq> Completed \<and> qd_objectives b ! j = qd_objectives a ! j
     \<and> fst (CompleteQuest now q p t) = False"
proof -
  have "quest_edit\<^sup>*\<^sup>* a b" using play_run [OF assms(1,2,4)] assms(3) by auto
  moreover have "blocked j (qd_objectives a ! j) a" using assms by (auto simp: blocked_def shadowed_def)
  ultimately have b: "blocked j (qd_objectives a ! j) b"
    by (rule history_invariant) (rule edit_blocked)
  then have "qd_objectives a ! j \<in> set (qd_objectives b)" by (metis blocked_def nth_mem)
  with b have "\<not> mandatory_done b" by (auto simp: blocked_def)
  with b assms(4) show ?thesis by (auto simp: blocked_def CompleteQuest_def IsQuestComplete_mandatory)
qed

section \<open>Examples\<close>

definition quest_demo :: CooperativeQuestSystem where
  "quest_demo = InitializeDefaultQuests (snd (Initialize (CooperativeQuestSystem_new 0)))"

definition single_quest :: QuestData where
  "single_quest = (CreateSideQuest ''Hunt'' ''Kill it'' 3)
     \<lparr>qd_isCooperative := True, qd_maxParticipants := 2,
      qd_objectives := [CreateKillObjective ''Kill'' ''wolf'' 1]\<rparr>"

definition hunt_ops :: "QuestOp list" where
  "hunt_ops = [QStartQuest 5 1 7, QJoinQuest 1 8, QKillMonster 7 ''wolf'', QCompleteQuest 9 1 7]"

definition hunt_system :: CooperativeQuestSystem where
  "hunt_system = AddQuest single_quest (snd (Initialize (CooperativeQuestSystem_new 0)))"

theorem quest_life_cycle_witness:
  "\<exists>a. GetQuest hunt_system 1 = Some a \<and> qd_state a = Available
     \<and> map_option qd_state (Option.bind (run quest_step hunt_ops hunt_system) (\<lambda>t. GetQuest t 1)) = Some Completed
     \<and> quest_moves\<^sup>*\<^sup>* (qd_state a) Completed"
proof -
  obtain t where t: "run quest_step hunt_ops hunt_system = Some t"
    by (simp add: hunt_ops_def)
  have c: "map_option qd_state (Option.bind (run quest_step hunt_ops hunt_system) (\<lambda>t. GetQuest t 1)) = Some Completed"
    by code_simp
  have a: "map_option qd_state (GetQuest hunt_system 1) = Some Available" by code_simp
  from c t obtain b where b: "GetQuest t 1 = Some b" "qd_state b = Completed" by auto
  show ?thesis
    using quest_life_cycle [of hunt_ops hunt_system t 1 b] t b a c by (auto simp: hunt_ops_def)
qed

theorem quest_bounds_witness:
  "let ops = [QInitialize, QAddQuest single_quest] @ hunt_ops
   in \<exists>t a. run quest_step ops (CooperativeQuestSystem_new 0) = Some t \<and> GetQuest t 1 = Some a
        \<and> length (qd_participants a) \<le> unat (qd_maxParticipants a)
        \<and> (\<forall>x \<in> set (qd_objectives a). \<not> qo_isOptional x \<longrightarrow> qo_isCompleted x)"
proof -
  let ?ops = "[QInitialize, QAddQuest single_quest] @ hunt_ops"
  obtain t where t: "run quest_step ?ops (CooperativeQuestSystem_new 0) = Some t"
    by (simp add: hunt_ops_def)
  have c: "map_option (\<lambda>a. (qd_state a, qd_isCooperative a)) (Option.bind (run quest_step ?ops (CooperativeQuestSystem_new 0)) (\<lambda>t. GetQuest t 1)) = Some (Completed, True)"
    by code_simp
  have ok: "list_all keeps_quests_ok ?ops" by code_simp
  from c t obtain a where a: "GetQuest t 1 = Some a" "qd_state a = Completed" "qd_isCooperative a" by auto
  show ?thesis
    using quest_bounds [OF ok t a(1)] t a by auto
qed

definition griffin_ops :: "QuestOp list" where
  "griffin_ops = [QStartQuest 5 1 7, QKillMonster 7 ''griffin'', QCollectItem 7 3, QUpdateObjective 1 0 3]"

lemma shadowed_objective_blocks_quest_witness:
  "\<exists>t b. run quest_step griffin_ops quest_demo = Some t \<and> GetQuest t 1 = Some b
     \<and> qd_state b = InProgress \<and> fst (CompleteQuest 9 1 7 t) = False"
proof -
  obtain t where t: "run quest_step griffin_ops quest_demo = Some t" by (simp add: griffin_ops_def)
  have c: "map_option qd_state (Option.bind (run quest_step griffin_ops quest_demo) (\<lambda>t. GetQuest t 1)) = Some InProgress"
    by code_simp
  have "GetQuest quest_demo 1 = Some (default_mainQuest\<lparr>qd_questId := 1\<rparr>)" by code_simp
  moreover from c t obtain b where b: "GetQuest t 1 = Some b" "qd_state b = InProgress" by auto
  moreover have "let a = default_mainQuest\<lparr>qd_questId := 1\<rparr> in qd_state a \<noteq> Completed \<and> 1 < length (qd_objectives a)
    \<and> qo_objectiveId (qd_objectives a ! 0) = qo_objectiveId (qd_objectives a ! 1)
    \<and> \<not> qo_isOptional (qd_objectives a ! 1) \<and> \<not> qo_isCompleted (qd_objectives a ! 1)" by code_simp
  moreover have "list_all play_op griffin_ops" by code_simp
  ultimately show ?thesis
    using shadowed_objective_blocks_quest [of griffin_ops quest_demo t 1 "default_mainQuest\<lparr>qd_questId := 1\<rparr>" b 0 1 9 7] t
    by (auto simp: Let_def)
qed

end
