(* ===== verification/QuestSync.thy ===== *)
theory QuestSync
  imports QuestProps
begin

text \<open>
  Synchronisation of quests between machines, what a group of players can always achieve, and
  the events no objective listens to.
\<close>

section \<open>Synchronisation\<close>

lemma sync_data:
  "GetQuest s q = Some a \<Longrightarrow> GetQuestSyncData now s q =
     \<lparr>qs_questId = qd_questId a, qs_state = qd_state a, qs_objectives = qd_objectives a,
      qs_participants = qd_participants a, qs_syncOwner = qd_syncOwner a, qs_timestamp = now\<rparr>"
  by (simp add: GetQuestSyncData_def GetQuest_def QuestSyncData_new_def)

text \<open>
  C12. The synchronisation round trip: the data \<open>GetQuestSyncData\<close> reads from the sender,
  applied with \<open>ProcessQuestUpdate\<close> on a receiver that has the quest, give the receiver's
  quest the sender's state, objectives, participants and owner, leave every other quest and
  the groups alone, make the receiver report the same synchronisation data, and applying them
  twice is applying them once.  The start and completion times stay those of the receiver.
\<close>

theorem sync_round_trip:
  assumes "GetQuest s q = Some a" "qd_questId a = q" "GetQuest r q = Some b" "qd_questId b = q"
    "om_sorted (cq_quests r)"
  shows "let d = GetQuestSyncData now s q; r' = ProcessQuestUpdate d r
     in GetQuest r' q = Some (b\<lparr>qd_state := qd_state a, qd_objectives := qd_objectives a,
           qd_participants := qd_participants a, qd_syncOwner := qd_syncOwner a\<rparr>)
      \<and> (\<forall>j. j \<noteq> q \<longrightarrow> GetQuest r' j = GetQuest r j)
      \<and> cq_groups r' = cq_groups r \<and> cq_playerQuests r' = cq_playerQuests r
      \<and> GetQuestSyncData now r' q = d \<and> ProcessQuestUpdate d r' = r'"
proof -
  let ?d = "GetQuestSyncData now s q"
  let ?b = "b\<lparr>qd_state := qd_state a, qd_objectives := qd_objectives a,
           qd_participants := qd_participants a, qd_syncOwner := qd_syncOwner a\<rparr>"
  have d: "?d = \<lparr>qs_questId = q, qs_state = qd_state a, qs_objectives = qd_objectives a,
      qs_participants = qd_participants a, qs_syncOwner = qd_syncOwner a, qs_timestamp = now\<rparr>"
    using sync_data [OF assms(1)] assms(2) by simp
  have r': "ProcessQuestUpdate ?d r = set_quest q ?b r"
    using assms(3) by (simp add: ProcessQuestUpdate_def SynchronizeQuest_def d)
  have "GetQuestSyncData now (set_quest q ?b r) q = ?d"
    using assms(4) by (subst sync_data [where a = ?b]) (simp_all add: d)
  moreover have "ProcessQuestUpdate ?d (set_quest q ?b r) = set_quest q ?b r"
    using assms(5) by (simp add: ProcessQuestUpdate_def SynchronizeQuest_def d) (simp add: set_quest_def om.put_put)
  moreover have "cq_groups (set_quest q ?b r) = cq_groups r"
    "cq_playerQuests (set_quest q ?b r) = cq_playerQuests r" by (simp_all add: set_quest_def)
  ultimately show ?thesis by (simp add: Let_def r')
qed

theorem sync_round_trip_witness:
  "\<exists>a b. GetQuest (snd (StartQuest 5 1 7 hunt_system)) 1 = Some a \<and> GetQuest hunt_system 1 = Some b
     \<and> qd_state a = InProgress \<and> qd_state b = Available
     \<and> GetQuest (ProcessQuestUpdate (GetQuestSyncData 6 (snd (StartQuest 5 1 7 hunt_system)) 1) hunt_system) 1
         = Some (b\<lparr>qd_state := qd_state a, qd_objectives := qd_objectives a,
             qd_participants := qd_participants a, qd_syncOwner := qd_syncOwner a\<rparr>)"
proof -
  have "map_option (\<lambda>a. (qd_questId a, qd_state a)) (GetQuest (snd (StartQuest 5 1 7 hunt_system)) 1) = Some (1, InProgress)"
    by code_simp
  moreover have "map_option (\<lambda>a. (qd_questId a, qd_state a)) (GetQuest hunt_system 1) = Some (1, Available)"
    by code_simp
  moreover have "om_sorted (cq_quests hunt_system)" by code_simp
  ultimately show ?thesis
    using sync_round_trip [of "snd (StartQuest 5 1 7 hunt_system)" 1 _ hunt_system _ 6]
    by (auto simp: Let_def)
qed

section \<open>A quest can be finished\<close>

definition finish :: "QuestObjective \<Rightarrow> QuestObjective" where
  "finish x = advance (qo_requiredCount x - qo_currentCount x) x"

definition finishing_op :: "u32 \<Rightarrow> QuestObjective \<Rightarrow> QuestOp" where
  "finishing_op q x = QUpdateObjective q (qo_objectiveId x) (qo_requiredCount x - qo_currentCount x)"

lemma finish_completes: "qo_isCompleted (finish x)"
  by (simp add: finish_def advance_def Let_def)

lemma finish_id [simp]: "qo_objectiveId (finish x) = qo_objectiveId x"
  by (simp add: finish_def)

lemma update_first_at:
  "qo_objectiveId y \<notin> qo_objectiveId ` set xs \<Longrightarrow>
     update_first (qo_objectiveId y) n (xs @ y # ys) = Some (xs @ advance n y # ys, qo_currentCount (advance n y))"
  by (induction xs) auto

lemma finishing_run:
  assumes "GetQuest s q = Some (a\<lparr>qd_objectives := xs @ ys\<rparr>)" "qd_state a = InProgress"
    "distinct (map qo_objectiveId (xs @ ys))"
  shows "\<exists>t. run quest_step (map (finishing_op q) ys) s = Some t
     \<and> GetQuest t q = Some (a\<lparr>qd_objectives := xs @ map finish ys\<rparr>)"
  using assms
proof (induction ys arbitrary: xs s)
  case Nil
  then show ?case by simp
next
  case (Cons y ys)
  let ?s = "snd (UpdateObjective q (qo_objectiveId y) (qo_requiredCount y - qo_currentCount y) s)"
  have "GetQuest ?s q = Some (a\<lparr>qd_objectives := (xs @ [finish y]) @ ys\<rparr>)"
    using Cons.prems by (simp add: UpdateObjective_quest update_first_at finish_def)
  with Cons.IH [of ?s "xs @ [finish y]"] Cons.prems show ?case
    by (simp add: finishing_op_def)
qed

text \<open>
  C13. A quest in progress can always be finished: when its objectives have different ids,
  reporting the missing count of each with \<open>UpdateObjective\<close>, in any state of progress, makes
  \<open>CompleteQuest\<close> succeed and the quest completed.  (Compare C14 for quests whose objectives
  share an id.)
\<close>

theorem quest_can_be_completed:
  assumes "GetQuest s q = Some a" "qd_state a = InProgress"
    "distinct (map qo_objectiveId (qd_objectives a))"
  shows "\<exists>t. run quest_step (map (finishing_op q) (qd_objectives a)) s = Some t
     \<and> fst (CompleteQuest now q p t)
     \<and> map_option qd_state (GetQuest (snd (CompleteQuest now q p t)) q) = Some Completed"
proof -
  from finishing_run [where s = s and q = q and a = a and xs = "[]" and ys = "qd_objectives a"] assms obtain t where
    "run quest_step (map (finishing_op q) (qd_objectives a)) s = Some t"
    and t: "GetQuest t q = Some (a\<lparr>qd_objectives := map finish (qd_objectives a)\<rparr>)" by auto
  moreover have "IsQuestComplete t q"
    by (simp add: IsQuestComplete_mandatory [OF t] finish_completes)
  ultimately show ?thesis using assms(2) by (simp add: CompleteQuest_def Let_def)
qed

theorem quest_can_be_completed_witness:
  "\<exists>a t. GetQuest (snd (StartQuest 5 1 7 hunt_system)) 1 = Some a
     \<and> run quest_step (map (finishing_op 1) (qd_objectives a)) (snd (StartQuest 5 1 7 hunt_system)) = Some t
     \<and> fst (CompleteQuest 9 1 7 t)"
proof -
  have c: "map_option (\<lambda>a. (qd_state a, distinct (map qo_objectiveId (qd_objectives a))))
      (GetQuest (snd (StartQuest 5 1 7 hunt_system)) 1) = Some (InProgress, True)" by code_simp
  then obtain a where a: "GetQuest (snd (StartQuest 5 1 7 hunt_system)) 1 = Some a"
    "qd_state a = InProgress" "distinct (map qo_objectiveId (qd_objectives a))" by auto
  show ?thesis using quest_can_be_completed [OF a, of 9 7] a(1) by blast
qed

section \<open>Events without a listener\<close>

text \<open>The objectives the creation functions return, and the quests made of them.\<close>

definition created :: "QuestObjective \<Rightarrow> bool" where
  "created x \<longleftrightarrow> x = CreateKillObjective (qo_description x) (qo_target x) (qo_requiredCount x)
     \<or> x = CreateCollectObjective (qo_description x) (qo_target x) (qo_requiredCount x)
     \<or> x = CreateTalkObjective (qo_description x) (qo_target x)
     \<or> x = CreateReachObjective (qo_description x) (qo_target x)"

fun creates_objectives :: "QuestOp \<Rightarrow> bool" where
  "creates_objectives (QAddQuest q) = list_all created (qd_objectives q)"
| "creates_objectives x = play_op x"

definition known_types :: "QuestData \<Rightarrow> bool" where
  "known_types a \<longleftrightarrow> qo_type ` set (qd_objectives a) \<subseteq> {''kill'', ''collect'', ''talk'', ''reach''}"

lemma created_type: "created x \<Longrightarrow> qo_type x \<in> {''kill'', ''collect'', ''talk'', ''reach''}"
  unfolding created_def
  by (elim disjE; drule arg_cong [of _ _ qo_type])
    (simp_all add: CreateKillObjective_def CreateCollectObjective_def CreateTalkObjective_def
      CreateReachObjective_def)

lemma update_first_types:
  assumes "update_first x n os = Some (os', c)"
  shows "map qo_type os' = map qo_type os"
proof -
  obtain i where "i < length os" "os' = os[i := advance n (os ! i)]"
    using update_first_Some [OF assms] by blast
  then show ?thesis by (simp add: map_update list_update_same_conv)
qed

lemma edit_types: "quest_edit a b \<Longrightarrow> map qo_type (qd_objectives b) = map qo_type (qd_objectives a)"
  by (induction rule: quest_edit.induct) (simp_all add: update_first_types)

lemma known_types_list: "known_types a \<longleftrightarrow> set (map qo_type (qd_objectives a)) \<subseteq> {''kill'', ''collect'', ''talk'', ''reach''}"
  by (simp add: known_types_def)

interpretation type_runs: step_system quest_step
  "\<lambda>s. \<forall>q a. GetQuest s q = Some a \<longrightarrow> known_types a" creates_objectives
proof
  fix s x t q b
  assume s: "\<forall>q a. GetQuest s q = Some a \<longrightarrow> known_types a" and x: "creates_objectives x"
    and t: "quest_step x s = Some t"
  have edits: "quest_edit\<^sup>*\<^sup>* a b \<Longrightarrow> known_types a \<Longrightarrow> known_types b" for a b
    by (rule history_invariant) (simp_all add: known_types_list edit_types)
  show "\<forall>q a. GetQuest t q = Some a \<longrightarrow> known_types a"
  proof (cases "play_op x")
    case True
    with t s show ?thesis using play_step edits unfolding played_from_def by blast
  next
    case False
    with x obtain qd where qd: "x = QAddQuest qd" "list_all created (qd_objectives qd)"
      by (cases x) auto
    then have "known_types qd" using created_type by (auto simp: known_types_def list_all_iff)
    moreover have "known_types (qd\<lparr>qd_questId := k\<rparr>) = known_types qd" for k
      by (simp add: known_types_def)
    moreover have "t = AddQuest qd s" using t qd(1) by simp
    ultimately show ?thesis using s by (simp add: GetQuest_AddQuest)
  qed
qed

lemma event_objectives_idle:
  assumes "GetQuest s k = Some a" "\<forall>x \<in> set (qd_objectives a). \<not> f x"
  shows "event_objectives f k q a s = s"
proof -
  have "fold (event_objective f k q) is s = s" for "is"
    using assms by (induction "is") (auto simp: event_objective_def)
  then show ?thesis by (simp add: event_objectives_def)
qed

lemma fold_idle: "(\<And>k. k \<in> set ks \<Longrightarrow> f k s = s) \<Longrightarrow> fold f ks s = s"
  by (induction ks) simp_all

text \<open>
  Two events reach nobody: the functions that create objectives make objectives of the
  types \<open>kill\<close>, \<open>collect\<close>, \<open>talk\<close> and \<open>reach\<close>, while entering an area looks for the type
  \<open>enter_area\<close> and using an object for \<open>use\<close>.  In every state reached with quests made of
  created objectives the two handlers change nothing at all, so a \<open>reach\<close> objective (such as
  the one of the default side quest) makes no progress when its area is entered.
\<close>

lemma enter_area_reaches_nobody:
  assumes "list_all creates_objectives ops"
    "run quest_step ops (CooperativeQuestSystem_new now) = Some t"
  shows "OnPlayerEnterArea p area t = t \<and> OnPlayerUseObject p obj t = t"
proof -
  have "\<forall>q a. GetQuest (CooperativeQuestSystem_new now) q = Some a \<longrightarrow> known_types a"
    by (simp add: GetQuest_def CooperativeQuestSystem_new_def)
  from type_runs.run_inv [OF this assms]
  have ty: "\<And>q a x. GetQuest t q = Some a \<Longrightarrow> x \<in> set (qd_objectives a) \<Longrightarrow>
      qo_type x \<noteq> ''enter_area'' \<and> qo_type x \<noteq> ''use''"
    by (fastforce simp: known_types_def)
  have "ProcessQuestTriggers q ''enter_area'' p t = t" for q
    using ty by (auto simp: ProcessQuestTriggers_def event_objectives_idle split: option.splits)
  moreover have "event_quest (\<lambda>x. qo_type x = ''use'' \<and> qo_target x = obj) k t = t" for k
    using ty by (auto simp: event_quest_def event_objectives_idle split: option.splits)
  ultimately show ?thesis
    by (auto simp: OnPlayerEnterArea_def OnPlayerUseObject_def enter_area_quest_def
        split: option.splits intro!: fold_idle)
qed

lemma enter_area_reaches_nobody_witness:
  "let ops = [QInitialize, QAddQuest default_sideQuest, QStartQuest 5 1 7]
   in \<exists>t. run quest_step ops (CooperativeQuestSystem_new 0) = Some t
        \<and> map_option (\<lambda>a. (qd_state a, qo_target (qd_objectives a ! 1))) (GetQuest t 1)
            = Some (InProgress, ''bandit_camp'')
        \<and> OnPlayerEnterArea 7 ''bandit_camp'' t = t"
proof -
  let ?ops = "[QInitialize, QAddQuest default_sideQuest, QStartQuest 5 1 7]"
  obtain t where t: "run quest_step ?ops (CooperativeQuestSystem_new 0) = Some t" by simp
  moreover have "Option.bind (run quest_step ?ops (CooperativeQuestSystem_new 0))
      (\<lambda>t. map_option (\<lambda>a. (qd_state a, qo_target (qd_objectives a ! 1))) (GetQuest t 1))
      = Some (InProgress, ''bandit_camp'')" by code_simp
  moreover have "list_all creates_objectives ?ops" by code_simp
  ultimately show ?thesis
    using enter_area_reaches_nobody [of ?ops 0 t 7 "''bandit_camp''"] by (auto simp: Let_def)
qed

end
