(* ===== verification/QuestGroups.thy ===== *)
theory QuestGroups
  imports QuestLib
begin

text \<open>
  Quest groups: members, leaders, the per-player lists of groups and the counter of active
  groups stay consistent under every sequence of operations.
\<close>

section \<open>The group side of the state\<close>

definition groups_of :: "CooperativeQuestSystem \<Rightarrow> u32 \<Rightarrow> u32 list" where
  "groups_of s p = om_get [] (cq_playerGroups s) p"

definition groups_ok :: "CooperativeQuestSystem \<Rightarrow> bool" where
  "groups_ok s \<longleftrightarrow> om_sorted (cq_groups s)
     \<and> (\<forall>g grp. GetGroup s g = Some grp \<longrightarrow> qg_groupId grp = g \<and> g < cq_nextGroupId s
          \<and> distinct (qg_members grp) \<and> qg_leader grp \<in> set (qg_members grp))
     \<and> (\<forall>p. distinct (groups_of s p))
     \<and> (\<forall>p g. g \<in> set (groups_of s p) \<longleftrightarrow> IsPlayerInGroup s p g)
     \<and> qt_activeGroups (cq_stats s) = of_nat (length (cq_groups s))"

lemma groups_ok_view: "view s = view t \<Longrightarrow> groups_ok s = groups_ok t"
  by (simp add: view_def groups_ok_def GetGroup_def groups_of_def IsPlayerInGroup_def)

lemma group_helpers [simp]:
  "GetGroup (set_qgroup g x s) j = (if j = g then Some x else GetGroup s j)"
  "GetGroup (upd_playerGroups p f s) = GetGroup s"
  "GetGroup (add_activeGroups n s) = GetGroup s"
  "GetGroup (quest_call b c s) = GetGroup s"
  "GetGroup (s\<lparr>cq_nextGroupId := k\<rparr>) = GetGroup s"
  "GetGroup (s\<lparr>cq_stats := st\<rparr>) = GetGroup s"
  "GetGroup (s\<lparr>cq_groups := om_erase g (cq_groups s)\<rparr>) j = (if j = g then None else GetGroup s j)"
  "groups_of (set_qgroup g x s) = groups_of s"
  "groups_of (upd_playerGroups p f s) q = (if q = p then f (groups_of s p) else groups_of s q)"
  "groups_of (add_activeGroups n s) = groups_of s"
  "groups_of (quest_call b c s) = groups_of s"
  "groups_of (s\<lparr>cq_nextGroupId := k\<rparr>) = groups_of s"
  "groups_of (s\<lparr>cq_stats := st\<rparr>) = groups_of s"
  "groups_of (s\<lparr>cq_groups := gs\<rparr>) = groups_of s"
  by (auto simp: GetGroup_def groups_of_def set_qgroup_def upd_playerGroups_def add_activeGroups_def
      quest_call_def fun_eq_iff)

lemma group_counters [simp]:
  "cq_nextGroupId (set_qgroup g x s) = cq_nextGroupId s"
  "cq_nextGroupId (upd_playerGroups p f s) = cq_nextGroupId s"
  "cq_nextGroupId (add_activeGroups n s) = cq_nextGroupId s"
  "cq_nextGroupId (quest_call b c s) = cq_nextGroupId s"
  "cq_groups (set_qgroup g x s) = om_put g x (cq_groups s)"
  "cq_groups (upd_playerGroups p f s) = cq_groups s"
  "cq_groups (add_activeGroups n s) = cq_groups s"
  "cq_groups (quest_call b c s) = cq_groups s"
  "qt_activeGroups (cq_stats (set_qgroup g x s)) = qt_activeGroups (cq_stats s)"
  "qt_activeGroups (cq_stats (upd_playerGroups p f s)) = qt_activeGroups (cq_stats s)"
  "qt_activeGroups (cq_stats (add_activeGroups n s)) = qt_activeGroups (cq_stats s) + n"
  "qt_activeGroups (cq_stats (quest_call b c s)) = qt_activeGroups (cq_stats s)"
  by (simp_all add: set_qgroup_def upd_playerGroups_def add_activeGroups_def quest_call_def)

lemma GetGroup_length:
  "om_sorted (cq_groups s) \<Longrightarrow> GetGroup s g = Some x \<Longrightarrow> length (om_put g y (cq_groups s)) = length (cq_groups s)"
  by (simp add: length_om_put GetGroup_def)

section \<open>Every operation keeps the groups consistent\<close>

lemma groups_okI:
  assumes "om_sorted (cq_groups s)"
    "\<And>g grp. GetGroup s g = Some grp \<Longrightarrow> qg_groupId grp = g \<and> g < cq_nextGroupId s
          \<and> distinct (qg_members grp) \<and> qg_leader grp \<in> set (qg_members grp)"
    "\<And>p. distinct (groups_of s p)"
    "\<And>p g. g \<in> set (groups_of s p) \<longleftrightarrow> IsPlayerInGroup s p g"
    "qt_activeGroups (cq_stats s) = of_nat (length (cq_groups s))"
  shows "groups_ok s"
  using assms by (simp add: groups_ok_def)

lemma groups_okD:
  assumes "groups_ok s"
  shows "om_sorted (cq_groups s)"
    "GetGroup s g = Some grp \<Longrightarrow> qg_groupId grp = g" "GetGroup s g = Some grp \<Longrightarrow> g < cq_nextGroupId s"
    "GetGroup s g = Some grp \<Longrightarrow> distinct (qg_members grp)"
    "GetGroup s g = Some grp \<Longrightarrow> qg_leader grp \<in> set (qg_members grp)"
    "distinct (groups_of s p)" "g \<in> set (groups_of s p) \<longleftrightarrow> IsPlayerInGroup s p g"
    "qt_activeGroups (cq_stats s) = of_nat (length (cq_groups s))"
  using assms by (simp_all add: groups_ok_def)

lemma CreateGroup_ok:
  assumes ok: "groups_ok s" and room: "unat (cq_nextGroupId s) + 1 < 2 ^ 32"
  shows "groups_ok (snd (CreateGroup now name p s))"
proof -
  let ?k = "cq_nextGroupId s"
  have fresh: "GetGroup s ?k = None"
    using groups_okD(3) [OF ok, of ?k] by (cases "GetGroup s ?k") auto
  have "unat (?k + 1) = unat ?k + 1" using room unat_add_no_wrap [of ?k 1] by simp
  then have lt: "?k < ?k + 1" by (simp add: word_less_nat_alt)
  then have le: "g < ?k \<Longrightarrow> g < ?k + 1" for g by simp
  have "length (om_put ?k x (cq_groups s)) = length (cq_groups s) + 1" for x
    using fresh groups_okD(1) [OF ok] by (simp add: length_om_put GetGroup_def)
  then show ?thesis
    using groups_okD [OF ok] fresh lt le
    by (intro groups_okI)
      (auto simp: CreateGroup_def Let_def QuestGroup_new_def IsPlayerInGroup_def split: if_splits option.splits)
qed

lemma JoinGroup_ok:
  assumes ok: "groups_ok s"
  shows "groups_ok (snd (JoinGroup g p s))"
proof (cases "\<exists>grp. GetGroup s g = Some grp \<and> CanPlayerJoinGroup s g p")
  case True
  then obtain grp where grp: "GetGroup s g = Some grp" "p \<notin> set (qg_members grp)" "CanPlayerJoinGroup s g p"
    by (auto simp: CanPlayerJoinGroup_def IsPlayerInGroup_def split: if_splits)
  then show ?thesis
    using groups_okD [OF ok] GetGroup_length [OF _ grp(1)]
    by (intro groups_okI)
      (auto simp: JoinGroup_def Let_def IsPlayerInGroup_def split: if_splits option.splits)
next
  case False
  then show ?thesis using ok by (auto simp: JoinGroup_def split: option.splits)
qed

text \<open>
  The state after a player was taken off a group and before the leader is looked at: everything
  is consistent except that the leader may be missing.
\<close>

lemma leave_lists:
  fixes p q g j :: u32
  assumes ok: "groups_ok s" and grp: "GetGroup s g = Some grp"
  defines "ms \<equiv> remove1 p (qg_members grp)"
  defines "s1 \<equiv> upd_playerGroups p (remove1 g) (set_qgroup g (grp\<lparr>qg_members := ms\<rparr>) s)"
  shows "om_sorted (cq_groups s1)" "distinct (groups_of s1 q)"
    "j \<in> set (groups_of s1 q) \<longleftrightarrow> IsPlayerInGroup s1 q j"
    "qt_activeGroups (cq_stats s1) = of_nat (length (cq_groups s1))"
    "cq_nextGroupId s1 = cq_nextGroupId s"
    "GetGroup s1 j = (if j = g then Some (grp\<lparr>qg_members := ms\<rparr>) else GetGroup s j)"
  using groups_okD [OF ok] GetGroup_length [OF _ grp] grp
  by (auto simp: s1_def ms_def IsPlayerInGroup_def split: option.splits)

lemma LeaveGroup_ok:
  assumes ok: "groups_ok s" and left: "LeaveGroup g p s = Some (b, t)"
  shows "groups_ok t"
proof (cases "GetGroup s g")
  case None
  then show ?thesis using ok left by (simp add: LeaveGroup_eq)
next
  case (Some grp)
  let ?ms = "remove1 p (qg_members grp)"
  define s1 where "s1 = upd_playerGroups p (remove1 g) (set_qgroup g (grp\<lparr>qg_members := ?ms\<rparr>) s)"
  note l = leave_lists [OF ok Some, where p = p, folded s1_def]
  have ms: "distinct ?ms" "set ?ms = set (qg_members grp) - {p}"
    using groups_okD(4) [OF ok Some] by simp_all
  show ?thesis
  proof (cases "qg_leader grp = p")
    case False
    then have "t = s1" using left Some by (simp add: LeaveGroup_eq Let_def s1_def)
    moreover have "groups_ok s1"
      using groups_okD [OF ok] False ms Some by (intro groups_okI) (auto simp: l split: if_splits)
    ultimately show ?thesis by simp
  next
    case heir: True
    let ?grp = "grp\<lparr>qg_members := ?ms, qg_leader := ?ms ! 0\<rparr>"
    have some: "?ms \<noteq> []" and t: "t = set_qgroup g ?grp s1"
      using left Some heir by (auto simp: LeaveGroup_eq Let_def s1_def split: if_splits)
    have "?ms ! 0 \<in> set ?ms" using some by (intro nth_mem) simp
    then have first: "?ms ! 0 \<in> set (qg_members grp)" "?ms ! 0 \<noteq> p" using ms(2) by auto
    have "groups_ok (set_qgroup g ?grp s1)"
    proof (rule groups_okI)
      show "qt_activeGroups (cq_stats (set_qgroup g ?grp s1)) = of_nat (length (cq_groups (set_qgroup g ?grp s1)))"
        using l(1,4) GetGroup_length [OF l(1), of g] l(6) [of g] by simp
      show "j \<in> set (groups_of (set_qgroup g ?grp s1) q) \<longleftrightarrow> IsPlayerInGroup (set_qgroup g ?grp s1) q j" for q j
        using l(3) [of j q] by (auto simp: IsPlayerInGroup_def l(6) split: option.splits)
    qed (use l heir first ms groups_okD [OF ok] Some in \<open>auto split: if_splits\<close>)
    then show ?thesis by (simp add: t)
  qed
qed

text \<open>Leaving is undefined exactly for the last member of a group; such a member is its leader.\<close>

lemma LeaveGroup_undefined:
  assumes "groups_ok s"
  shows "LeaveGroup g p s = None \<longleftrightarrow> map_option qg_members (GetGroup s g) = Some [p]"
proof (cases "GetGroup s g")
  case (Some grp)
  have "qg_leader grp \<in> set (qg_members grp)" by (rule groups_okD(5) [OF assms Some])
  then show ?thesis
    using Some by (cases "qg_members grp") (auto simp: LeaveGroup_eq Let_def split: if_splits)
qed (simp add: LeaveGroup_eq)

fun keeps_groups :: "QuestOp \<Rightarrow> bool" where
  "keeps_groups QShutdown = False"
| "keeps_groups QResetStats = False"
| "keeps_groups x = True"

lemma next_frame:
  "cq_nextGroupId (snd (JoinGroup g p s)) = cq_nextGroupId s"
  "LeaveGroup g p s = Some (b, t) \<Longrightarrow> cq_nextGroupId t = cq_nextGroupId s"
  "DisbandGroup g s = Some (b, t) \<Longrightarrow> t = s"
  "cq_nextGroupId (snd (CreateGroup now name p s)) = cq_nextGroupId s + 1"
  by (auto simp: LeaveGroup_eq DisbandGroup_eq JoinGroup_def CreateGroup_def Let_def split: option.splits if_splits)

lemma view_next: "view s = view t \<Longrightarrow> cq_nextGroupId s = cq_nextGroupId t"
  by (simp add: view_def)

fun group_op :: "QuestOp \<Rightarrow> bool" where
  "group_op (QCreateGroup now name p) = True"
| "group_op (QJoinGroup g p) = True"
| "group_op (QLeaveGroup g p) = True"
| "group_op (QDisbandGroup g) = True"
| "group_op x = False"

lemma view_step:
  "keeps_groups x \<Longrightarrow> \<not> group_op x \<Longrightarrow> quest_step x s = Some t \<Longrightarrow> view t = view s"
  by (cases x) auto

interpretation group_runs: counted_system quest_step groups_ok keeps_groups
    "\<lambda>s. unat (cq_nextGroupId s)" "2 ^ 32"
proof
  fix s x t
  assume ok: "groups_ok s" and x: "keeps_groups x" and room: "unat (cq_nextGroupId s) + 1 < 2 ^ 32"
    and t: "quest_step x s = Some t"
  have one: "unat (cq_nextGroupId s + 1) = unat (cq_nextGroupId s) + 1"
    using room unat_add_no_wrap [of "cq_nextGroupId s" 1] by simp
  have same: "view t = view s \<Longrightarrow> groups_ok t \<and> unat (cq_nextGroupId t) \<le> unat (cq_nextGroupId s) + 1"
    using ok groups_ok_view [of t s] view_next [of t s] by simp
  have vs: "\<not> group_op x \<Longrightarrow> view t = view s" using view_step [OF x _ t] by simp
  show "groups_ok t \<and> unat (cq_nextGroupId t) \<le> unat (cq_nextGroupId s) + 1"
  proof (cases x)
    case (QCreateGroup now name p)
    with t CreateGroup_ok [OF ok room] one show ?thesis by (auto simp: next_frame)
  next
    case (QJoinGroup g p)
    with t JoinGroup_ok [OF ok] show ?thesis by (auto simp: next_frame)
  next
    case (QLeaveGroup g p)
    with t LeaveGroup_ok [OF ok] show ?thesis by (auto dest: next_frame(2))
  next
    case (QDisbandGroup g)
    with t ok show ?thesis by (auto dest: next_frame(3))
  qed (rule same [OF vs], simp)+
qed

text \<open>
  C14. Groups are consistent: in every run of fewer than 2^32 - 1 operations (shutdown and the
  reset of the statistics excepted) that has no undefined behaviour, the members of a group are
  distinct and include its leader, a player's list of groups holds exactly the groups the player
  is a member of, each once, and the number of active groups is the number of groups.  What is
  undefined in such a state is known exactly: to disband a group that exists, and to leave a group
  as its last member, because both erase the group and then read its name.
\<close>

theorem quest_groups_consistent:
  assumes "list_all keeps_groups ops" "length ops < 2 ^ 32 - 1"
    "run quest_step ops (CooperativeQuestSystem_new now) = Some s"
  shows "(\<forall>g grp. GetGroup s g = Some grp \<longrightarrow> qg_groupId grp = g
            \<and> distinct (qg_members grp) \<and> qg_leader grp \<in> set (qg_members grp))
     \<and> (\<forall>p. distinct (om_get [] (cq_playerGroups s) p)
            \<and> (\<forall>g. g \<in> set (om_get [] (cq_playerGroups s) p) \<longleftrightarrow> IsPlayerInGroup s p g))
     \<and> qt_activeGroups (GetStats s) = of_nat (length (cq_groups s))
     \<and> (\<forall>g. DisbandGroup g s = None \<longleftrightarrow> GetGroup s g \<noteq> None)
     \<and> (\<forall>g p. LeaveGroup g p s = None \<longleftrightarrow> map_option qg_members (GetGroup s g) = Some [p])"
proof -
  have "groups_ok (CooperativeQuestSystem_new now)"
    by (simp add: groups_ok_def CooperativeQuestSystem_new_def GetGroup_def groups_of_def
        IsPlayerInGroup_def om_get_def QuestStats_Reset_def)
  moreover have "unat (cq_nextGroupId (CooperativeQuestSystem_new now)) + length ops < 2 ^ 32"
    using assms(2) by (simp add: CooperativeQuestSystem_new_def)
  ultimately have "groups_ok s" using group_runs.run_count assms(1,3) by blast
  then show ?thesis
    using LeaveGroup_undefined [of s] by (simp add: groups_ok_def groups_of_def GetStats_def DisbandGroup_eq)
qed

theorem quest_groups_consistent_witness:
  "let ops = [QCreateGroup 0 ''a'' 7, QJoinGroup 1 8, QLeaveGroup 1 7, QCreateGroup 0 ''b'' 8]
   in \<exists>s. run quest_step ops (CooperativeQuestSystem_new 0) = Some s
        \<and> map_option qg_leader (GetGroup s 1) = Some 8
        \<and> IsPlayerInGroup s 8 1 \<and> 1 \<in> set (om_get [] (cq_playerGroups s) 8)
        \<and> DisbandGroup 1 s = None"
proof -
  let ?ops = "[QCreateGroup 0 ''a'' 7, QJoinGroup 1 8, QLeaveGroup 1 7, QCreateGroup 0 ''b'' 8]"
  have c: "map_option (\<lambda>s. (map_option qg_leader (GetGroup s 1), IsPlayerInGroup s 8 1))
      (run quest_step ?ops (CooperativeQuestSystem_new 0)) = Some (Some 8, True)" by code_simp
  then obtain s where s: "run quest_step ?ops (CooperativeQuestSystem_new 0) = Some s" by blast
  show ?thesis
    using c quest_groups_consistent [of ?ops 0 s] s by (auto simp: Let_def)
qed

end
