(* ===== verification/NetworkProps.thy ===== *)
theory NetworkProps
  imports Networking
begin

text \<open>
  What the network layer guarantees: messages are stacks of values, the writing direction of a
  connection puts all messages on the wire in order, the reading direction delivers one message,
  and the waiting protocol of the queue can miss a wake-up.
\<close>

section \<open>Messages\<close>

lemma pull_push: "pull_data (length data) (push_data data msg)
    = Some (data, msg\<lparr>ms_size := of_nat (length (ms_body msg))\<rparr>)"
  by (simp add: pull_data_def push_data_def Let_def)

lemma pull_push_u32: "pull_u32 (push_u32 w msg) = Some (w, msg\<lparr>ms_size := of_nat (length (ms_body msg))\<rparr>)"
  using pull_push [of "le32 w" msg] by (simp add: pull_u32_def push_u32_def)

section \<open>The writing direction\<close>

text \<open>The specification: the bytes of a message, and what is still to be written.\<close>

definition wire_bytes :: "message \<Rightarrow> u8 list" where
  "wire_bytes m = header_bytes m @ ms_body m"

definition unwritten :: "writer \<Rightarrow> u8 list" where
  "unwritten s = (case tx_pending s of
     WritingBody \<Rightarrow> drop 8 (concat (map wire_bytes (tx_queue s)))
   | _ \<Rightarrow> concat (map wire_bytes (tx_queue s)))"

definition writer_ok :: "u8 list \<Rightarrow> writer \<Rightarrow> bool" where
  "writer_ok sent s \<longleftrightarrow> tx_wire s @ unwritten s = sent
     \<and> (tx_pending s = NoWrite \<longleftrightarrow> tx_queue s = [])
     \<and> (tx_pending s = WritingBody \<longrightarrow> ms_body (hd (tx_queue s)) \<noteq> [])"

fun sent_by :: "tx_op \<Rightarrow> u8 list" where
  "sent_by (TxSend m) = wire_bytes m"
| "sent_by (TxDone ok) = []"

lemma length_header_bytes [simp]: "length (header_bytes m) = 8"
  by (simp add: header_bytes_def)

lemma Send_ok:
  assumes "writer_ok sent s"
  shows "writer_ok (sent @ wire_bytes m) (Send m s)"
proof (cases "tx_queue s")
  case Nil
  then show ?thesis
    using assms by (auto simp: writer_ok_def Send_def tq_empty_def tq_push_back_def WriteHeader_def unwritten_def Let_def)
next
  case (Cons h q)
  then have "length (wire_bytes h) \<ge> 8" by (simp add: wire_bytes_def)
  with Cons show ?thesis
    using assms by (auto simp: writer_ok_def Send_def tq_empty_def tq_push_back_def unwritten_def Let_def
        split: write_op.splits)
qed

lemma write_done_ok:
  assumes "writer_ok sent s"
  shows "writer_ok sent (write_done True s)"
proof (cases "tx_queue s")
  case Nil
  then show ?thesis using assms by (simp add: writer_ok_def write_done_def)
next
  case (Cons h q)
  then show ?thesis
    using assms
    by (cases "tx_pending s"; cases "ms_body h = []"; cases q)
      (auto simp: writer_ok_def write_done_def header_written_def body_written_def next_message_def
        tq_empty_def WriteHeader_def WriteBody_def unwritten_def wire_bytes_def Let_def)
qed

lemma tx_run:
  "writer_ok sent s \<Longrightarrow> TxDone False \<notin> set ops \<Longrightarrow> run tx_step ops s = Some t \<Longrightarrow>
     writer_ok (sent @ concat (map sent_by ops)) t"
proof (induction ops arbitrary: s sent)
  case (Cons x ops)
  from Cons.prems(2) have "x = TxDone True \<or> (\<exists>m. x = TxSend m)" by (cases x) auto
  then show ?case
  proof
    assume "x = TxDone True"
    with Cons.IH [OF write_done_ok [OF Cons.prems(1)]] Cons.prems show ?thesis by simp
  next
    assume "\<exists>m. x = TxSend m"
    then obtain m where "x = TxSend m" by blast
    with Cons.IH [OF Send_ok [OF Cons.prems(1), of m]] Cons.prems show ?thesis by simp
  qed
qed simp

text \<open>Completions alone drain the queue: each takes at least one of the writes left.\<close>

definition writes_left :: "writer \<Rightarrow> nat" where
  "writes_left s = 2 * length (tx_queue s) - (if tx_pending s = WritingBody then 1 else 0)"

lemma write_done_progress:
  "writer_ok sent s \<Longrightarrow> tx_queue s \<noteq> [] \<Longrightarrow> writes_left (write_done True s) < writes_left s"
  by (cases "tx_queue s"; cases "tx_pending s")
    (auto simp: writer_ok_def write_done_def header_written_def body_written_def next_message_def
      tq_empty_def WriteHeader_def WriteBody_def writes_left_def Let_def)

lemma drain:
  "writer_ok sent s \<Longrightarrow> writes_left s \<le> n \<Longrightarrow> \<exists>t. run tx_step (replicate n (TxDone True)) s = Some t
     \<and> tx_queue t = [] \<and> writer_ok sent t"
proof (induction n arbitrary: s)
  case 0
  then show ?case by (cases "tx_queue s") (auto simp: writes_left_def split: if_splits)
next
  case (Suc n)
  have "writes_left (write_done True s) \<le> n"
  proof (cases "tx_queue s = []")
    case True
    then have "tx_pending s = NoWrite" using Suc.prems(1) by (simp add: writer_ok_def)
    with True show ?thesis by (simp add: write_done_def writes_left_def)
  next
    case False
    then show ?thesis using write_done_progress [OF Suc.prems(1)] Suc.prems(2) by simp
  qed
  from Suc.IH [OF write_done_ok [OF Suc.prems(1)] this] show ?case by simp
qed

text \<open>
  C17. The writing direction implements a queue of messages: for any interleaving of \<open>Send\<close>
  calls and successful completions, the bytes on the wire followed by the bytes still to be
  written are the headers and bodies of all messages sent, in order; a write is pending exactly
  when a message is queued; and after at most two completions per queued message everything is
  on the wire.
\<close>

theorem writer_refines_queue:
  assumes "TxDone False \<notin> set ops" "run tx_step ops (writer_new True) = Some s"
  shows "tx_wire s @ unwritten s = concat (map sent_by ops)
     \<and> (tx_pending s = NoWrite \<longleftrightarrow> tx_queue s = [])
     \<and> (\<exists>t. run tx_step (replicate (2 * length (tx_queue s)) (TxDone True)) s = Some t
            \<and> tx_queue t = [] \<and> tx_wire t = concat (map sent_by ops))"
proof -
  have "writer_ok [] (writer_new True)" by (simp add: writer_ok_def writer_new_def unwritten_def)
  from tx_run [OF this assms] have s: "writer_ok (concat (map sent_by ops)) s" by simp
  moreover have "writes_left s \<le> 2 * length (tx_queue s)" by (simp add: writes_left_def)
  ultimately obtain t where "run tx_step (replicate (2 * length (tx_queue s)) (TxDone True)) s = Some t"
    and t: "tx_queue t = []" "writer_ok (concat (map sent_by ops)) t" using drain by blast
  moreover have "tx_wire t = concat (map sent_by ops)"
    using t by (auto simp: writer_ok_def unwritten_def split: write_op.splits)
  ultimately show ?thesis using s by (auto simp: writer_ok_def)
qed

theorem writer_refines_queue_witness:
  "let a = push_u32 7 (message_new\<lparr>ms_id := 3\<rparr>); b = message_new\<lparr>ms_id := 4\<rparr>
   in \<exists>s. run tx_step [TxSend a, TxDone True, TxSend b, TxDone True] (writer_new True) = Some s
        \<and> tx_wire s @ unwritten s = wire_bytes a @ wire_bytes b"
proof -
  let ?a = "push_u32 7 (message_new\<lparr>ms_id := 3\<rparr>)" and ?b = "message_new\<lparr>ms_id := 4\<rparr>"
  obtain s where "run tx_step [TxSend ?a, TxDone True, TxSend ?b, TxDone True] (writer_new True) = Some s" by simp
  then show ?thesis
    using writer_refines_queue [of "[TxSend ?a, TxDone True, TxSend ?b, TxDone True]" s] by (simp add: Let_def)
qed

section \<open>The reading direction\<close>

text \<open>
  A connection receives at most one message, and rarely the one that was sent: \<open>operator <<\<close>
  stores the size of the body in the header, the reader takes it for the size of header and
  body together, and no further read is started after a message was delivered.  For a message
  on the wire, followed by any other bytes: without a body it is delivered as it is; with a body
  of less than eight bytes the program ends; with a longer body it is delivered without the last
  eight bytes.  However many rounds follow, nothing more is read.
\<close>

lemma reader_delivers_one_message:
  assumes "ms_size m = of_nat (length (ms_body m))" "length (ms_body m) < 2 ^ 32" "2 \<le> n"
  shows "rx_rounds n (ReadHeader reader_new, wire_bytes m @ rest) =
     (let k = length (ms_body m) in
      if k = 0 then Some (reader_new\<lparr>rx_in := [m]\<rparr>, rest)
      else if k < 8 then None
      else Some (reader_new\<lparr>rx_in := [m\<lparr>ms_body := take (k - 8) (ms_body m)\<rparr>]\<rparr>, drop (k - 8) (ms_body m) @ rest))"
proof -
  have idle: "rx_rounds i (s, st) = Some (s, st)" if "rx_pending s = NoRead" for i s st
    using that by (induction i) (simp_all add: rx_step_def)
  have size: "unat (ms_size m) = length (ms_body m)" using assms(1,2) by (simp add: unat_of_nat)
  have first: "read_le32 (header_bytes m) = ms_id m" "read_le32 (drop 4 (header_bytes m)) = ms_size m"
    by (simp_all add: header_bytes_def)
  from assms(3) have "n = Suc (Suc (n - 2))" by simp
  then obtain i where n: "n = Suc (Suc i)" by blast
  show ?thesis
  proof (cases "ms_body m = []")
    case True
    then have "ms_size m = 0" using assms(1) by simp
    with True show ?thesis
      by (simp add: n rx_step_def ReadHeader_def reader_new_def wire_bytes_def header_read_def first Let_def
          AddToIncomingMessageQueue_def tq_push_back_def message_new_def idle)
  next
    case False
    then have "0 < ms_size m" using size by (simp add: word_greater_zero_iff unat_gt_0 [symmetric])
    then show ?thesis
      using False size
      by (auto simp: n rx_step_def ReadHeader_def ReadBody_def reader_new_def wire_bytes_def header_read_def first
          body_read_def Let_def AddToIncomingMessageQueue_def tq_push_back_def message_new_def idle)
  qed
qed

lemma reader_delivers_one_message_witness:
  "let a = SendPositionUpdate 1 2 3 4; b = message_new\<lparr>ms_id := 3\<rparr>
   in rx_rounds 9 (ReadHeader reader_new, wire_bytes a @ wire_bytes b)
        = Some (reader_new\<lparr>rx_in := [a\<lparr>ms_body := le32 1 @ le32 2\<rparr>]\<rparr>, le32 3 @ le32 4 @ wire_bytes b)"
proof -
  let ?a = "SendPositionUpdate 1 2 3 4"
  have "ms_body ?a = le32 1 @ le32 2 @ le32 3 @ le32 4" "ms_size ?a = 16" by code_simp+
  then show ?thesis
    using reader_delivers_one_message [of ?a 9 "wire_bytes (message_new\<lparr>ms_id := 3\<rparr>)"]
    by (simp add: Let_def)
qed

section \<open>Waiting for the queue\<close>

lemma wait_returns_nonempty:
  "(wq_waiter s = Returned \<longrightarrow> wq_items s \<noteq> []) \<Longrightarrow> run (wait_step item) es s = Some t \<Longrightarrow>
     wq_waiter t = Returned \<longrightarrow> wq_items t \<noteq> []"
proof (induction es arbitrary: s)
  case (Cons e es)
  then obtain u where u: "wait_step item e s = Some u" "run (wait_step item) es u = Some t"
    by (auto split: option.splits)
  have "wq_waiter u = Returned \<longrightarrow> wq_items u \<noteq> []"
    using u(1) Cons.prems(1) by (cases e) (auto simp: tq_empty_def tq_push_back_def split: if_splits)
  then show ?case using Cons.IH u(2) by blast
qed simp

text \<open>
  C18. \<open>wait\<close> returns only when the queue has an item, but it can miss the push it waits for:
  there is an interleaving of a waiting thread and one \<open>push_back\<close> after which the queue holds
  an item, the thread sleeps, and it has no step of its own left; only another push (or a
  spurious wake-up) lets it go on.
\<close>

theorem wait_can_miss_its_wakeup:
  "(\<forall>es t. run (wait_step item) es \<lparr>wq_items = [], wq_waiter = Testing\<rparr> = Some t \<longrightarrow>
        wq_waiter t = Returned \<longrightarrow> \<not> tq_empty (wq_items t))
     \<and> (\<exists>es t. run (wait_step item) es \<lparr>wq_items = [], wq_waiter = Testing\<rparr> = Some t
        \<and> length (filter (\<lambda>e. e = Push) es) = 1 \<and> Spurious \<notin> set es
        \<and> wq_items t = [item] \<and> wq_waiter t = Sleeping
        \<and> (\<forall>e u. wait_step item e t = Some u \<longrightarrow> e \<in> {Push, Spurious}))"
proof
  show "\<forall>es t. run (wait_step item) es \<lparr>wq_items = [], wq_waiter = Testing\<rparr> = Some t \<longrightarrow>
        wq_waiter t = Returned \<longrightarrow> \<not> tq_empty (wq_items t)"
    using wait_returns_nonempty [of "\<lparr>wq_items = [], wq_waiter = Testing\<rparr>" item] by (auto simp: tq_empty_def)
  let ?t = "\<lparr>wq_items = [item], wq_waiter = Sleeping\<rparr>"
  have "run (wait_step item) [Test, Push, Sleep] \<lparr>wq_items = [], wq_waiter = Testing\<rparr> = Some ?t"
    by (simp add: tq_empty_def tq_push_back_def)
  moreover have "e \<in> {Push, Spurious}" if "wait_step item e ?t = Some u" for e u
    using that by (cases e) auto
  ultimately show "\<exists>es t. run (wait_step item) es \<lparr>wq_items = [], wq_waiter = Testing\<rparr> = Some t
        \<and> length (filter (\<lambda>e. e = Push) es) = 1 \<and> Spurious \<notin> set es
        \<and> wq_items t = [item] \<and> wq_waiter t = Sleeping
        \<and> (\<forall>e u. wait_step item e t = Some u \<longrightarrow> e \<in> {Push, Spurious})"
    by (intro exI [of _ "[Test, Push, Sleep]"] exI [of _ ?t]) auto
qed

theorem wait_can_miss_its_wakeup_witness:
  "\<exists>es t. run (wait_step (7 :: nat)) es \<lparr>wq_items = [], wq_waiter = Testing\<rparr> = Some t
     \<and> wq_waiter t = Sleeping \<and> wq_items t = [7]"
  using wait_can_miss_its_wakeup [of "7 :: nat"] by blast

text \<open>A position message read in reverse order gives the position back.\<close>

lemma position_round_trip: "ProcessPositionUpdate (SendPositionUpdate x y z w) = Some (x, y, z, w)"
proof -
  have p: "pull_u32 (m\<lparr>ms_size := n\<rparr>) = pull_u32 m" for m n
    by (simp add: pull_u32_def pull_data_def Let_def)
  show ?thesis by (simp add: ProcessPositionUpdate_def SendPositionUpdate_def pull_push_u32 p)
qed

end
