(* ===== verification/ServerProps.thy ===== *)
theory ServerProps
  imports Server NetworkProps
begin

text \<open>
  What the server guarantees: a broadcast reaches every connected client and drops the others, a
  message to one client does not, and the numbers and ids of the clients stay within bounds.
\<close>

section \<open>Messages to clients\<close>

lemma find_send_to:
  "om_find (sv_objects (send_to k msg s)) j =
     (if j = k then map_option (\<lambda>c. c\<lparr>co_tx := Send msg (co_tx c)\<rparr>) (om_find (sv_objects s) k)
      else om_find (sv_objects s) j)"
  by (auto simp: send_to_def set_object_def split: option.splits)

lemma send_to_frame [simp]:
  "sv_connections (send_to k msg s) = sv_connections s" "sv_in (send_to k msg s) = sv_in s"
  "sv_nIDCounter (send_to k msg s) = sv_nIDCounter s" "sv_maxClients (send_to k msg s) = sv_maxClients s"
  by (simp_all add: send_to_def set_object_def split: option.splits)

lemma connected_send_to [simp]: "client_connected (send_to k msg s) = client_connected s"
  by (auto simp: client_connected_def find_send_to fun_eq_iff split: option.splits)

lemma set_object_frame [simp]:
  "sv_connections (set_object k c s) = sv_connections s" "sv_in (set_object k c s) = sv_in s"
  "sv_nIDCounter (set_object k c s) = sv_nIDCounter s" "sv_maxClients (set_object k c s) = sv_maxClients s"
  by (simp_all add: set_object_def)

lemma message_loop_Cons:
  assumes "message_loop msg ignore (p # ps) s = (ps', invalid, t)"
  obtains qs i where
    "message_loop msg ignore ps (if client_connected s p \<and> p \<noteq> ignore then send_to (the p) msg s else s) = (qs, i, t)"
    "ps' = (if client_connected s p then p else None) # qs" "invalid = (i \<or> \<not> client_connected s p)"
  using assms by (auto simp: OnClientDisconnect_def Let_def split: if_splits prod.splits)

lemma message_loop_pointers:
  "message_loop msg ignore ps s = (ps', invalid, t) \<Longrightarrow>
     ps' = map (\<lambda>p. if client_connected s p then p else None) ps
     \<and> invalid = (\<exists>p \<in> set ps. \<not> client_connected s p)"
proof (induction ps arbitrary: s ps' invalid t)
  case (Cons p ps)
  obtain qs i where
    "message_loop msg ignore ps (if client_connected s p \<and> p \<noteq> ignore then send_to (the p) msg s else s) = (qs, i, t)"
    and r: "ps' = (if client_connected s p then p else None) # qs" "invalid = (i \<or> \<not> client_connected s p)"
    using Cons.prems by (rule message_loop_Cons)
  from Cons.IH [OF this(1)] r show ?case by (auto split: if_splits)
qed simp

lemma message_loop_objects:
  "message_loop msg ignore ps s = (ps', invalid, t) \<Longrightarrow> distinct ps \<Longrightarrow>
     om_find (sv_objects t) k =
       (if Some k \<in> set ps \<and> client_connected s (Some k) \<and> Some k \<noteq> ignore
        then map_option (\<lambda>c. c\<lparr>co_tx := Send msg (co_tx c)\<rparr>) (om_find (sv_objects s) k)
        else om_find (sv_objects s) k)"
proof (induction ps arbitrary: s ps' invalid t)
  case (Cons p ps)
  obtain qs i where l:
    "message_loop msg ignore ps (if client_connected s p \<and> p \<noteq> ignore then send_to (the p) msg s else s) = (qs, i, t)"
    using Cons.prems(1) by (rule message_loop_Cons)
  have "client_connected s p \<Longrightarrow> \<exists>j. p = Some j" by (cases p) (auto simp: client_connected_def)
  then show ?case
    using Cons.IH [OF l] Cons.prems(2) by (auto simp: find_send_to split: if_splits)
qed simp

lemma broadcast_filter:
  "sv_connections (MessageAllClients msg ignore s) = filter (client_connected s) (sv_connections s)"
proof -
  obtain ps i t where l: "message_loop msg ignore (sv_connections s) s = (ps, i, t)"
    by (metis prod_cases3)
  have "filter (\<lambda>c. c \<noteq> None) (map (\<lambda>p. if client_connected s p then p else None) cs)
      = filter (client_connected s) cs" for cs
    by (induction cs) (auto simp: client_connected_def)
  moreover have "\<forall>p \<in> set cs. client_connected s p \<Longrightarrow>
      map (\<lambda>p. if client_connected s p then p else None) cs = filter (client_connected s) cs" for cs
    by (induction cs) auto
  ultimately show ?thesis
    using message_loop_pointers [OF l] by (auto simp: MessageAllClients_def l)
qed

text \<open>
  Dead clients: a broadcast queues the message for every connected client but the ignored
  one, changes no other connection, and leaves exactly the connected clients in the list.  A
  message to one client that is not connected should drop that client, but compares with the
  pointer it has just reset: it changes nothing, and the client stays in the list.
\<close>

lemma broadcast_drops_dead_clients:
  assumes "distinct (sv_connections s)" "None \<notin> set (sv_connections s)"
  shows "(let t = MessageAllClients msg ignore s in
        sv_connections t = filter (client_connected s) (sv_connections s)
        \<and> (\<forall>k. om_find (sv_objects t) k =
             (if Some k \<in> set (sv_connections s) \<and> client_connected s (Some k) \<and> Some k \<noteq> ignore
              then map_option (\<lambda>c. c\<lparr>co_tx := Send msg (co_tx c)\<rparr>) (om_find (sv_objects s) k)
              else om_find (sv_objects s) k)))
     \<and> (\<not> client_connected s p \<longrightarrow> MessageClient p msg s = s)"
proof -
  obtain ps i t where l: "message_loop msg ignore (sv_connections s) s = (ps, i, t)"
    by (metis prod_cases3)
  have "om_find (sv_objects (MessageAllClients msg ignore s)) k = om_find (sv_objects t) k" for k
    by (simp add: MessageAllClients_def l)
  moreover have "filter (\<lambda>c. c \<noteq> None) (sv_connections s) = sv_connections s"
    using assms(2) by (intro filter_True) (metis not_None_eq)
  ultimately show ?thesis
    using message_loop_objects [OF l assms(1)]
    by (auto simp: MessageClient_def OnClientDisconnect_def Let_def broadcast_filter)
qed

definition two_clients :: ServerState where
  "two_clients = the (run (server_step (\<lambda>bs. bs) (\<lambda>bs. False)) [SvAccept (Some True), SvAccept (Some True), SvClose 0] ServerState_new)"

lemma broadcast_drops_dead_clients_witness:
  "sv_connections two_clients = [Some 0, Some 1]
     \<and> sv_connections (MessageAllClients message_new None two_clients) = [Some 1]
     \<and> MessageClient (Some 0) message_new two_clients = two_clients"
proof -
  have "sv_connections two_clients = [Some 0, Some 1]"
    "client_connected two_clients (Some 0) = False" "client_connected two_clients (Some 1)" by code_simp+
  then show ?thesis
    using broadcast_drops_dead_clients [of two_clients message_new None "Some 0"] by (simp add: Let_def)
qed

section \<open>Numbers and ids\<close>

definition ids :: "ServerState \<Rightarrow> nat \<Rightarrow> u32 option" where
  "ids s k = map_option co_id (om_find (sv_objects s) k)"

definition server_ok :: "ServerState \<Rightarrow> bool" where
  "server_ok s \<longleftrightarrow> om_sorted (sv_objects s)
     \<and> (\<forall>k. ids s k \<noteq> None \<longleftrightarrow> k < length (sv_objects s))
     \<and> distinct (sv_connections s)
     \<and> (\<forall>p \<in> set (sv_connections s). \<exists>k < length (sv_objects s). p = Some k)
     \<and> length (sv_connections s) \<le> unat (sv_maxClients s)
     \<and> 10000 \<le> unat (sv_nIDCounter s)
     \<and> (\<forall>k i. ids s k = Some i \<longrightarrow> i \<noteq> 0 \<longrightarrow> unat i < unat (sv_nIDCounter s))
     \<and> (\<forall>k l i. ids s k = Some i \<longrightarrow> ids s l = Some i \<longrightarrow> i \<noteq> 0 \<longrightarrow> k = l)"

text \<open>The changes that concern neither the objects' ids nor the counters.\<close>

definition same_ids :: "ServerState \<Rightarrow> ServerState \<Rightarrow> bool" where
  "same_ids s t \<longleftrightarrow> ids t = ids s
     \<and> (om_sorted (sv_objects s) \<longrightarrow> om_sorted (sv_objects t) \<and> length (sv_objects t) = length (sv_objects s))
     \<and> sv_nIDCounter t = sv_nIDCounter s \<and> sv_maxClients t = sv_maxClients s"

lemma ids_upd [simp]: "ids (s\<lparr>sv_in := q\<rparr>) = ids s" "ids (s\<lparr>sv_connections := ps\<rparr>) = ids s"
  "ids (s\<lparr>sv_compressionEnabled := on\<rparr>) = ids s"
  by (simp_all add: ids_def fun_eq_iff)

lemma same_ids_refl [simp]: "same_ids s s"
  by (simp add: same_ids_def)

lemma same_ids_trans: "same_ids s t \<Longrightarrow> same_ids t u \<Longrightarrow> same_ids s u"
  by (simp add: same_ids_def)

lemma same_ids_set_object:
  "om_find (sv_objects s) k = Some c \<Longrightarrow> co_id d = co_id c \<Longrightarrow> same_ids s (set_object k d s)"
  by (auto simp: same_ids_def set_object_def ids_def length_om_put)

lemma same_ids_send_to: "same_ids s (send_to k msg s)"
  by (auto simp: send_to_def same_ids_set_object split: option.splits)

lemma same_ids_in: "same_ids s t \<Longrightarrow> same_ids s (t\<lparr>sv_in := q\<rparr>)" "same_ids s t \<Longrightarrow> same_ids s (t\<lparr>sv_connections := ps\<rparr>)"
  by (simp_all add: same_ids_def)

lemma message_loop_same:
  "message_loop msg ignore ps s = (ps', invalid, t) \<Longrightarrow> same_ids s t \<and> sv_connections t = sv_connections s"
proof (induction ps arbitrary: s ps' invalid t)
  case (Cons p ps)
  obtain qs i where l:
    "message_loop msg ignore ps (if client_connected s p \<and> p \<noteq> ignore then send_to (the p) msg s else s) = (qs, i, t)"
    using Cons.prems(1) by (rule message_loop_Cons)
  show ?case
    using Cons.IH [OF l] same_ids_trans [OF same_ids_send_to [of s "the p" msg], of t] by (auto split: if_splits)
qed simp

lemma received_same:
  "OnMessageReceived repr live p msg s = Some t \<Longrightarrow> same_ids s t \<and> sv_connections t = sv_connections s"
  by (auto simp: OnMessageReceived_def ProcessClientPing_def SV_ProcessPositionUpdate_def SV_ProcessChatMessage_def
      same_ids_send_to split: option.splits if_splits)

lemma update_same:
  "update_loop (OnMessageReceived repr live) n s = Some t \<Longrightarrow> same_ids s t \<and> sv_connections t = sv_connections s"
proof (induction n arbitrary: s)
  case (Suc n)
  show ?case
  proof (cases "sv_in s")
    case (Cons x q)
    obtain p m where x: "x = (p, m)" by force
    obtain u where u: "OnMessageReceived repr live p m (s\<lparr>sv_in := q\<rparr>) = Some u"
        "update_loop (OnMessageReceived repr live) n u = Some t"
      using Suc.prems by (auto simp: Cons x tq_pop_front_def split: option.splits)
    have "same_ids s (s\<lparr>sv_in := q\<rparr>)" by (rule same_ids_in) simp
    then have "same_ids s u" "sv_connections u = sv_connections s"
      using received_same [OF u(1)] same_ids_trans by auto
    then show ?thesis using Suc.IH [OF u(2)] same_ids_trans by auto
  qed (use Suc.prems in \<open>simp add: tq_pop_front_def\<close>)
qed simp

lemma server_ok_same:
  assumes "server_ok s" "same_ids s t" "set (sv_connections t) \<subseteq> set (sv_connections s)"
    "distinct (sv_connections t)"
  shows "server_ok t"
proof -
  have "length (sv_connections t) \<le> length (sv_connections s)"
    using assms(1,3,4) by (metis server_ok_def card_mono distinct_card finite_set)
  then show ?thesis using assms unfolding server_ok_def same_ids_def by auto
qed

lemma accept_ok:
  assumes ok: "server_ok s" and room: "unat (sv_nIDCounter s) + 1 < 2 ^ 32"
  shows "server_ok (accept_handler b s)
     \<and> unat (sv_nIDCounter (accept_handler b s)) \<le> unat (sv_nIDCounter s) + 1"
proof (cases b)
  case None
  then show ?thesis using ok by (simp add: accept_handler_def)
next
  case (Some socket)
  let ?k = "length (sv_objects s)"
  have fresh: "om_find (sv_objects s) ?k = None" using ok by (auto simp: server_ok_def ids_def)
  have len: "length (om_put ?k c (sv_objects s)) = Suc ?k" for c
    using ok fresh by (simp add: length_om_put server_ok_def)
  have one: "unat (sv_nIDCounter s + 1) = unat (sv_nIDCounter s) + 1"
    using room unat_add_no_wrap [of "sv_nIDCounter s" 1] by simp
  have ids: "ids (set_object ?k c u) j = (if j = ?k then Some (co_id c) else ids s j)"
    if "sv_objects u = sv_objects s" for c u j
    using that by (simp add: ids_def set_object_def)
  show ?thesis
  proof (cases "OnClientConnect s")
    case False
    have "accept_handler b s = set_object ?k (connection_new socket) s"
      using False Some by (simp add: accept_handler_def)
    moreover have "server_ok (set_object ?k (connection_new socket) s)"
      using ok unfolding server_ok_def ids [OF refl]
      by (auto simp: set_object_def len connection_new_def less_Suc_eq)
    ultimately show ?thesis by (simp add: set_object_def)
  next
    case True
    let ?c = "ConnectToClient (sv_nIDCounter s) (connection_new socket)"
    let ?u = "s\<lparr>sv_connections := sv_connections s @ [Some ?k], sv_nIDCounter := sv_nIDCounter s + 1\<rparr>"
    have a: "accept_handler b s = set_object ?k ?c ?u" using True Some by (simp add: accept_handler_def Let_def)
    have c: "co_id ?c = 0 \<or> co_id ?c = sv_nIDCounter s" by (simp add: ConnectToClient_def connection_new_def)
    have old: "ids s j = Some i \<Longrightarrow> i \<noteq> 0 \<Longrightarrow> unat i < unat (sv_nIDCounter s)" for j i
      using ok by (simp add: server_ok_def)
    have "ids s ?k = None" using fresh by (simp add: ids_def)
    have "server_ok (set_object ?k ?c ?u)"
      unfolding server_ok_def
    proof (intro conjI allI impI)
      show "om_sorted (sv_objects (set_object ?k ?c ?u))" using ok by (simp add: server_ok_def set_object_def)
      show "ids (set_object ?k ?c ?u) j \<noteq> None \<longleftrightarrow> j < length (sv_objects (set_object ?k ?c ?u))" for j
        using ok by (subst ids) (auto simp: server_ok_def set_object_def len less_Suc_eq)
      show "distinct (sv_connections (set_object ?k ?c ?u))"
        using ok by (auto simp: server_ok_def set_object_def)
      show "\<forall>p \<in> set (sv_connections (set_object ?k ?c ?u)). \<exists>j < length (sv_objects (set_object ?k ?c ?u)). p = Some j"
        using ok by (auto simp: server_ok_def set_object_def len less_Suc_eq)
      show "length (sv_connections (set_object ?k ?c ?u)) \<le> unat (sv_maxClients (set_object ?k ?c ?u))"
        using True by (simp add: set_object_def OnClientConnect_def)
      show "10000 \<le> unat (sv_nIDCounter (set_object ?k ?c ?u))"
        using ok by (simp add: server_ok_def set_object_def one)
      show "unat i < unat (sv_nIDCounter (set_object ?k ?c ?u))"
        if "ids (set_object ?k ?c ?u) j = Some i" "i \<noteq> 0" for j i
        using that c old [of j i] by (auto simp: ids one split: if_splits)
      show "j = l" if "ids (set_object ?k ?c ?u) j = Some i" "ids (set_object ?k ?c ?u) l = Some i" "i \<noteq> 0" for j l i
      proof -
        have "ids s j \<noteq> Some (sv_nIDCounter s)" if "sv_nIDCounter s \<noteq> 0" for j
          using old [of j "sv_nIDCounter s"] that by auto
        then show ?thesis using that c ok by (auto simp: ids server_ok_def split: if_splits)
      qed
    qed
    then show ?thesis by (simp add: a set_object_def one)
  qed
qed

interpretation server_runs: counted_system "server_step repr live" server_ok "\<lambda>x. True"
    "\<lambda>s. unat (sv_nIDCounter s)" "2 ^ 32" for repr live
proof
  fix s x t
  assume ok: "server_ok s" and room: "unat (sv_nIDCounter s) + 1 < 2 ^ 32" and t: "server_step repr live x s = Some t"
  have same: "server_ok t \<and> unat (sv_nIDCounter t) \<le> unat (sv_nIDCounter s) + 1"
    if "same_ids s t" "set (sv_connections t) \<subseteq> set (sv_connections s)" "distinct (sv_connections t)"
    using server_ok_same [OF ok that] that(1) by (simp add: same_ids_def)
  have d: "distinct (sv_connections s)" using ok by (simp add: server_ok_def)
  show "server_ok t \<and> unat (sv_nIDCounter t) \<le> unat (sv_nIDCounter s) + 1"
  proof (cases x)
    case (SvAccept b)
    with t accept_ok [OF ok room] show ?thesis by auto
  next
    case (SvClose k)
    with t d show ?thesis
      by (intro same) (auto simp: close_socket_def same_ids_set_object split: option.splits)
  next
    case (SvIncoming k m)
    with t d show ?thesis by (intro same) (auto simp: incoming_def same_ids_in)
  next
    case (SvMessageClient p m)
    with t d show ?thesis
      by (intro same) (auto simp: MessageClient_def OnClientDisconnect_def Let_def same_ids_send_to same_ids_in split: if_splits)
  next
    case (SvMessageAllClients m p)
    obtain ps i u where l: "message_loop m p (sv_connections s) s = (ps, i, u)" by (metis prod_cases3)
    then have u: "same_ids s u" using message_loop_same by blast
    have "sv_connections t = filter (client_connected s) (sv_connections s)"
      using broadcast_filter SvMessageAllClients t by auto
    with SvMessageAllClients t d u show ?thesis
      by (intro same) (auto simp: MessageAllClients_def l same_ids_in)
  next
    case (SvUpdate n)
    with t have "update_loop (OnMessageReceived repr live) (unat n) s = Some t" by (simp add: Update_def)
    with d update_same show ?thesis by (intro same) auto
  next
    case (SvSetCompressionEnabled b)
    with t d show ?thesis by (intro same) (auto simp: SetCompressionEnabled_def same_ids_def)
  qed
qed

lemma maxClients_step: "server_step repr live x s = Some t \<Longrightarrow> sv_maxClients t = sv_maxClients s"
proof (cases x)
  case (SvMessageAllClients m p)
  obtain ps i u where l: "message_loop m p (sv_connections s) s = (ps, i, u)" by (metis prod_cases3)
  then have "sv_maxClients u = sv_maxClients s" using message_loop_same by (auto simp: same_ids_def)
  moreover assume "server_step repr live x s = Some t"
  ultimately show ?thesis using SvMessageAllClients by (auto simp: MessageAllClients_def l)
next
  case (SvUpdate n)
  moreover assume "server_step repr live x s = Some t"
  ultimately show ?thesis using update_same by (fastforce simp: Update_def same_ids_def)
qed (auto simp: accept_handler_def close_socket_def incoming_def MessageClient_def OnClientDisconnect_def
    Let_def SetCompressionEnabled_def split: option.splits if_splits)

text \<open>
  C19. The clients of the server: in every run without undefined behaviour of fewer than 2^32 - 10001
  events (clients connecting, sockets closing, messages in both directions, updates) the list holds
  at most 100 clients, none of them null and none twice, and two connections with a non-zero id
  never have the same id (a connection whose socket closed before it was accepted keeps the id 0).
\<close>

theorem clients_bounded_and_distinct:
  assumes "length ops < 2 ^ 32 - 10001" "run (server_step repr live) ops ServerState_new = Some s"
  shows "GetConnectedClients s \<le> 100 \<and> distinct (sv_connections s) \<and> None \<notin> set (sv_connections s)
     \<and> (\<forall>k l c d. om_find (sv_objects s) k = Some c \<longrightarrow> om_find (sv_objects s) l = Some d \<longrightarrow>
          co_id c = co_id d \<longrightarrow> co_id c \<noteq> 0 \<longrightarrow> k = l)"
proof -
  have "server_ok ServerState_new" by (simp add: server_ok_def ServerState_new_def ids_def)
  moreover have "unat (sv_nIDCounter ServerState_new) + length ops < 2 ^ 32"
    using assms(1) by (simp add: ServerState_new_def)
  ultimately have ok: "server_ok s"
    using server_runs.run_count [of ServerState_new ops repr live s] assms(2) by (simp add: list_all_iff)
  have "sv_maxClients s = 100"
    using run_invariant [where P = "\<lambda>t. sv_maxClients t = 100" and f = "server_step repr live", OF _ _ assms(2)]
      maxClients_step by (metis ServerState_new_def ServerState.select_convs(5))
  with ok show ?thesis by (auto simp: server_ok_def GetConnectedClients_def ids_def)
qed

theorem clients_bounded_and_distinct_witness:
  "\<exists>s. run (server_step (\<lambda>bs. bs) (\<lambda>bs. False)) [SvAccept (Some True), SvAccept (Some True), SvIncoming 0 message_new, SvUpdate 5] ServerState_new = Some s
     \<and> map_option co_id (om_find (sv_objects s) 1) = Some 10001 \<and> GetConnectedClients s \<le> 100"
proof -
  let ?ops = "[SvAccept (Some True), SvAccept (Some True), SvIncoming 0 message_new, SvUpdate 5]"
  have c: "map_option (\<lambda>s. map_option co_id (om_find (sv_objects s) 1))
      (run (server_step (\<lambda>bs. bs) (\<lambda>bs. False)) ?ops ServerState_new) = Some (Some 10001)" by code_simp
  then obtain s where s: "run (server_step (\<lambda>bs. bs) (\<lambda>bs. False)) ?ops ServerState_new = Some s" by blast
  show ?thesis
    using c s clients_bounded_and_distinct [of ?ops "\<lambda>bs. bs" "\<lambda>bs. False" s] by simp
qed

end
