(* ===== verification/SaveSystem.thy ===== *)
theory SaveSystem
  imports Economy Quests Bytes
begin

text \<open>
  The shared save system: \<open>src/game/SharedSaveSystem.cpp\<close> and
  \<open>include/game/SharedSaveSystem.h\<close>.

  The directory of save files is part of the state: \<open>ss_files\<close> maps a path to the bytes of
  the file, and \<open>ss_writable\<close> says whether files can be opened for writing.  A file is read
  byte by byte as the code reads it; a short file leaves \<open>dataSize\<close> uninitialised, and a
  byte other than 0 and 1 is not a \<open>bool\<close>: both are undefined behaviour
  (\<open>LoadUndefined\<close>, and \<open>None\<close> for the operation).
\<close>

unbundle bit_operations_syntax

section \<open>Data\<close>

datatype SaveDataType = SavePlayer | SaveQuest | SaveEconomy | SaveProgression | SaveMonster
  | SaveGroup | SaveWorld

fun type_code :: "SaveDataType \<Rightarrow> u32" where
  "type_code SavePlayer = 0"
| "type_code SaveQuest = 1"
| "type_code SaveEconomy = 2"
| "type_code SaveProgression = 3"
| "type_code SaveMonster = 4"
| "type_code SaveGroup = 5"
| "type_code SaveWorld = 6"

record SaveData =
  sd_saveId :: u32
  sd_saveName :: string
  sd_type :: u32
  sd_data :: "u8 list"
  sd_timestamp :: time_point
  sd_version :: u32
  sd_isCompressed :: bool
  sd_isEncrypted :: bool
  sd_checksum :: u32

text \<open>A position is four floats, a float its 32-bit pattern.\<close>

record PlayerSaveData =
  ps_playerId :: u32
  ps_playerName :: string
  ps_position :: "u32 \<times> u32 \<times> u32 \<times> u32"
  ps_rotation :: u32
  ps_level :: u32
  ps_experience :: u32
  ps_inventory :: "(u32, u32) omap"
  ps_currencies :: "(CurrencyType \<times> u32) list"
  ps_activeQuests :: "u32 list"
  ps_completedQuests :: "u32 list"
  ps_unlockedSkills :: "u32 list"
  ps_achievements :: "u32 list"
  ps_lastSave :: time_point

text \<open>The monsters of a world are a parameter of the type.\<close>

record 'monster WorldSaveData =
  ws_worldId :: u32
  ws_worldName :: string
  ws_monsters :: "(u32, 'monster) omap"
  ws_merchants :: "(u32, MerchantData) omap"
  ws_quests :: "QuestData list"
  ws_worldStates :: "(string \<times> bool) list"
  ws_lastUpdate :: time_point

record SaveMetadata =
  sm_saveId :: u32
  sm_saveName :: string
  sm_description :: string
  sm_version :: u32
  sm_createdTime :: time_point
  sm_lastModified :: time_point
  sm_fileSize :: u32
  sm_checksum :: string
  sm_isCorrupted :: bool
  sm_isBackup :: bool

definition SaveMetadata_new :: SaveMetadata where
  "SaveMetadata_new = \<lparr>sm_saveId = 0, sm_saveName = [], sm_description = [], sm_version = 1,
     sm_createdTime = 0, sm_lastModified = 0, sm_fileSize = 0, sm_checksum = [],
     sm_isCorrupted = False, sm_isBackup = False\<rparr>"

record SaveStats =
  st_totalSaves :: u32
  st_corruptedSaves :: u32
  st_totalBackups :: u32
  st_totalSize :: u32
  st_averageSaveTime :: flt
  st_compressionRatio :: flt
  st_lastSaveId :: u32

definition SaveStats_Reset :: SaveStats where
  "SaveStats_Reset = \<lparr>st_totalSaves = 0, st_corruptedSaves = 0, st_totalBackups = 0,
     st_totalSize = 0, st_averageSaveTime = Fin 0, st_compressionRatio = Fin 0, st_lastSaveId = 0\<rparr>"

datatype SaveCall = SaveCompleted u32 bool | LoadCompleted u32 bool | SaveCorrupted u32 | BackupCreated u32 u32

record SharedSaveSystem =
  ss_files :: "string \<Rightarrow> u8 list option"
  ss_writable :: bool
  ss_initialized :: bool
  ss_saveDirectory :: string
  ss_saveMetadata :: "(u32, SaveMetadata) omap"
  ss_compressionEnabled :: bool
  ss_encryptionEnabled :: bool
  ss_maxBackups :: u32
  ss_autoSaveInterval :: flt
  ss_stats :: SaveStats
  ss_saveCompletedCallback :: bool
  ss_loadCompletedCallback :: bool
  ss_saveCorruptedCallback :: bool
  ss_backupCreatedCallback :: bool
  ss_nextSaveId :: u32
  ss_calls :: "SaveCall list"

text \<open>A new object over the files of the disk.\<close>

definition SharedSaveSystem_new :: "(string \<Rightarrow> u8 list option) \<Rightarrow> bool \<Rightarrow> SharedSaveSystem" where
  "SharedSaveSystem_new files writable = \<lparr>ss_files = files, ss_writable = writable,
     ss_initialized = False, ss_saveDirectory = [], ss_saveMetadata = [],
     ss_compressionEnabled = True, ss_encryptionEnabled = False, ss_maxBackups = 5,
     ss_autoSaveInterval = Fin 300, ss_stats = SaveStats_Reset, ss_saveCompletedCallback = False,
     ss_loadCompletedCallback = False, ss_saveCorruptedCallback = False,
     ss_backupCreatedCallback = False, ss_nextSaveId = 1, ss_calls = []\<rparr>"

definition save_call :: "bool \<Rightarrow> SaveCall \<Rightarrow> SharedSaveSystem \<Rightarrow> SharedSaveSystem" where
  "save_call registered c s = (if registered then s\<lparr>ss_calls := ss_calls s @ [c]\<rparr> else s)"

section \<open>Checksums and serialisation\<close>

definition CalculateChecksum :: "u8 list \<Rightarrow> u32" where
  "CalculateChecksum data = fold (\<lambda>byte checksum. push_bit 1 checksum XOR ucast byte) data 0"

definition VerifyChecksum :: "SaveData \<Rightarrow> bool" where
  "VerifyChecksum saveData \<longleftrightarrow> CalculateChecksum (sd_data saveData) = sd_checksum saveData"

definition SerializePlayerData :: "PlayerSaveData \<Rightarrow> u8 list" where
  "SerializePlayerData p =
     (case ps_position p of (x, y, z, w) \<Rightarrow>
        le32 (ps_playerId p) @ (le32 x @ le32 y @ le32 z @ le32 w)
          @ le32 (ps_level p) @ le32 (ps_experience p))"

definition DeserializePlayerData :: "u8 list \<Rightarrow> PlayerSaveData \<Rightarrow> PlayerSaveData option" where
  "DeserializePlayerData data p =
     (if length data < 4 * 3 + 16 then None
      else Some (p\<lparr>ps_playerId := read_le32 data,
        ps_position := (read_le32 (drop 4 data), read_le32 (drop 8 data), read_le32 (drop 12 data),
          read_le32 (drop 16 data)),
        ps_level := read_le32 (drop 20 data), ps_experience := read_le32 (drop 24 data)\<rparr>))"

definition SerializeWorldData :: "'m WorldSaveData \<Rightarrow> u8 list" where
  "SerializeWorldData w = le32 (ws_worldId w)"

definition DeserializeWorldData :: "u8 list \<Rightarrow> 'm WorldSaveData \<Rightarrow> 'm WorldSaveData option" where
  "DeserializeWorldData data w =
     (if length data < 4 then None else Some (w\<lparr>ws_worldId := read_le32 data\<rparr>))"

section \<open>Files\<close>

definition string_bytes :: "string \<Rightarrow> u8 list" where
  "string_bytes cs = map (\<lambda>c. of_nat (of_char c)) cs"

definition bool_byte :: "bool \<Rightarrow> u8" where
  "bool_byte b = (if b then 1 else 0)"

text \<open>The bytes \<open>SaveDataToFile\<close> writes.\<close>

definition file_bytes :: "SaveData \<Rightarrow> u8 list" where
  "file_bytes d = le32 (sd_saveId d) @ string_bytes (sd_saveName d) @ [0] @ le32 (sd_type d)
     @ le64 (word_of_int (sd_timestamp d)) @ le32 (sd_version d)
     @ [bool_byte (sd_isCompressed d), bool_byte (sd_isEncrypted d)] @ le32 (sd_checksum d)
     @ le32 (of_nat (length (sd_data d))) @ take (2 ^ 32) (sd_data d)"

definition SaveDataToFile :: "SaveData \<Rightarrow> string \<Rightarrow> SharedSaveSystem \<Rightarrow> bool \<times> SharedSaveSystem" where
  "SaveDataToFile saveData filePath s =
     (if \<not> ss_writable s then (False, s)
      else (True, s\<lparr>ss_files := (ss_files s)(filePath := Some (file_bytes saveData))\<rparr>))"

datatype LoadResult = LoadOk SaveData | LoadFailed | LoadUndefined

text \<open>The loop over the characters of the name, up to a zero byte or the end.\<close>

fun read_name :: "u8 list \<Rightarrow> string \<times> u8 list" where
  "read_name [] = ([], [])"
| "read_name (b # bs) =
     (if b = 0 then ([], bs) else (let (name, rest) = read_name bs in (char_of (unat b) # name, rest)))"

text \<open>The fields behind the name take 26 bytes up to the data.\<close>

definition parse_file :: "u8 list \<Rightarrow> LoadResult" where
  "parse_file bs =
     (let (name, rest) = read_name (drop 4 bs)
      in if length bs < 4 \<or> length rest < 26 then LoadUndefined
         else let dataSize = unat (read_le32 (drop 22 rest)); contents = drop 26 rest
         in if 1 < rest ! 16 \<or> 1 < rest ! 17 then LoadUndefined
         else if length contents < dataSize then LoadFailed
         else LoadOk \<lparr>sd_saveId = read_le32 bs, sd_saveName = name, sd_type = read_le32 rest,
           sd_data = take dataSize contents, sd_timestamp = sint (read_le64 (drop 4 rest)),
           sd_version = read_le32 (drop 12 rest), sd_isCompressed = (rest ! 16 = 1),
           sd_isEncrypted = (rest ! 17 = 1), sd_checksum = read_le32 (drop 18 rest)\<rparr>)"

definition LoadDataFromFile :: "SharedSaveSystem \<Rightarrow> string \<Rightarrow> LoadResult" where
  "LoadDataFromFile s filePath =
     (case ss_files s filePath of None \<Rightarrow> LoadFailed | Some bs \<Rightarrow> parse_file bs)"

definition GetSaveFilePath :: "SharedSaveSystem \<Rightarrow> u32 \<Rightarrow> string" where
  "GetSaveFilePath s saveId = ss_saveDirectory s @ ''/save_'' @ to_string_u32 saveId @ ''.dat''"

definition GetBackupFilePath :: "SharedSaveSystem \<Rightarrow> u32 \<Rightarrow> u32 \<Rightarrow> string" where
  "GetBackupFilePath s saveId backupId = ss_saveDirectory s @ ''/backup_'' @ to_string_u32 saveId
     @ ''_'' @ to_string_u32 backupId @ ''.dat''"

definition FileExists :: "SharedSaveSystem \<Rightarrow> string \<Rightarrow> bool" where
  "FileExists s filePath \<longleftrightarrow> ss_files s filePath \<noteq> None"

definition DeleteFile :: "string \<Rightarrow> SharedSaveSystem \<Rightarrow> bool \<times> SharedSaveSystem" where
  "DeleteFile filePath s =
     (if FileExists s filePath then (True, s\<lparr>ss_files := (ss_files s)(filePath := None)\<rparr>) else (False, s))"

section \<open>Saving\<close>

definition UpdateSaveMetadata :: "u32 \<Rightarrow> SaveMetadata \<Rightarrow> SharedSaveSystem \<Rightarrow> SharedSaveSystem" where
  "UpdateSaveMetadata saveId metadata s =
     s\<lparr>ss_saveMetadata := om_put saveId metadata (ss_saveMetadata s)\<rparr>"

definition upd_stats :: "(SaveStats \<Rightarrow> SaveStats) \<Rightarrow> SharedSaveSystem \<Rightarrow> SharedSaveSystem" where
  "upd_stats f s = s\<lparr>ss_stats := f (ss_stats s)\<rparr>"

text \<open>
  The part \<open>SavePlayerData\<close> and \<open>SaveWorldData\<close> share.  \<open>CompressSaveData\<close> is a
  placeholder that does nothing.
\<close>

definition save_data ::
    "time_point \<Rightarrow> string \<Rightarrow> SaveDataType \<Rightarrow> string \<Rightarrow> u8 list \<Rightarrow> SharedSaveSystem \<Rightarrow> bool \<times> SharedSaveSystem" where
  "save_data now name ty description data s =
     (let k = ss_nextSaveId s;
          s0 = s\<lparr>ss_nextSaveId := k + 1\<rparr>;
          saveData = \<lparr>sd_saveId = k, sd_saveName = name, sd_type = type_code ty, sd_data = data,
            sd_timestamp = now, sd_version = 1, sd_isCompressed = False, sd_isEncrypted = False,
            sd_checksum = CalculateChecksum data\<rparr>;
          (ok, s1) = SaveDataToFile saveData (GetSaveFilePath s0 k) s0
      in if \<not> ok then (False, s1)
         else
           let metadata = \<lparr>sm_saveId = k, sm_saveName = name, sm_description = description,
                 sm_version = 1, sm_createdTime = now, sm_lastModified = now,
                 sm_fileSize = of_nat (length data), sm_checksum = to_string_u32 (CalculateChecksum data),
                 sm_isCorrupted = False, sm_isBackup = False\<rparr>
           in (True, save_call (ss_saveCompletedCallback s) (SaveCompleted k True)
                (upd_stats (\<lambda>st. st\<lparr>st_totalSaves := st_totalSaves st + 1,
                   st_totalSize := st_totalSize st + of_nat (length data)\<rparr>)
                  (UpdateSaveMetadata k metadata s1))))"

definition SavePlayerData ::
    "time_point \<Rightarrow> u32 \<Rightarrow> PlayerSaveData \<Rightarrow> SharedSaveSystem \<Rightarrow> bool \<times> SharedSaveSystem" where
  "SavePlayerData now playerId playerData s =
     (if \<not> ss_initialized s then (False, s)
      else save_data now (''Player_'' @ to_string_u32 playerId) SavePlayer ''Player save data''
             (SerializePlayerData playerData) s)"

definition SaveWorldData ::
    "time_point \<Rightarrow> u32 \<Rightarrow> 'm WorldSaveData \<Rightarrow> SharedSaveSystem \<Rightarrow> bool \<times> SharedSaveSystem" where
  "SaveWorldData now worldId worldData s =
     (if \<not> ss_initialized s then (False, s)
      else save_data now (''World_'' @ to_string_u32 worldId) SaveWorld ''World save data''
             (SerializeWorldData worldData) s)"

definition CreateSave ::
    "time_point \<Rightarrow> string \<Rightarrow> string \<Rightarrow> SharedSaveSystem \<Rightarrow> bool \<times> SharedSaveSystem" where
  "CreateSave now saveName description s =
     (if \<not> ss_initialized s then (False, s)
      else
        let k = ss_nextSaveId s;
            s0 = s\<lparr>ss_nextSaveId := k + 1\<rparr>;
            saveData = \<lparr>sd_saveId = k, sd_saveName = saveName, sd_type = type_code SaveWorld,
              sd_data = [], sd_timestamp = now, sd_version = 1, sd_isCompressed = False,
              sd_isEncrypted = False, sd_checksum = 0\<rparr>;
            (ok, s1) = SaveDataToFile saveData (GetSaveFilePath s0 k) s0
        in if \<not> ok then (False, s1)
           else
             let metadata = \<lparr>sm_saveId = k, sm_saveName = saveName, sm_description = description,
                   sm_version = 1, sm_createdTime = now, sm_lastModified = now, sm_fileSize = 0,
                   sm_checksum = ''0'', sm_isCorrupted = False, sm_isBackup = False\<rparr>
             in (True, upd_stats (\<lambda>st. st\<lparr>st_totalSaves := st_totalSaves st + 1\<rparr>)
                  (UpdateSaveMetadata k metadata s1)))"

section \<open>Loading\<close>

text \<open>The first entry, in the order of the ids, whose name matches; 0 when there is none.\<close>

definition find_save :: "string \<Rightarrow> SharedSaveSystem \<Rightarrow> u32" where
  "find_save name s =
     (case find (\<lambda>p. sm_saveName (snd p) = name) (ss_saveMetadata s) of
        None \<Rightarrow> 0 | Some p \<Rightarrow> fst p)"

definition corrupted :: "u32 \<Rightarrow> SharedSaveSystem \<Rightarrow> SharedSaveSystem" where
  "corrupted saveId s =
     save_call (ss_saveCorruptedCallback s) (SaveCorrupted saveId)
       (upd_stats (\<lambda>st. st\<lparr>st_corruptedSaves := st_corruptedSaves st + 1\<rparr>) s)"

text \<open>
  Loading into the caller's variable: the result, the variable and the state; \<open>None\<close> is
  undefined behaviour.
\<close>

definition load_data ::
    "u32 \<Rightarrow> (u8 list \<Rightarrow> 'a \<Rightarrow> 'a option) \<Rightarrow> 'a \<Rightarrow> SharedSaveSystem \<Rightarrow> (bool \<times> 'a \<times> SharedSaveSystem) option" where
  "load_data saveId deserialize v s =
     (if saveId = 0 then Some (False, v, s)
      else case LoadDataFromFile s (GetSaveFilePath s saveId) of
        LoadUndefined \<Rightarrow> None
      | LoadFailed \<Rightarrow> Some (False, v, s)
      | LoadOk saveData \<Rightarrow>
          if \<not> VerifyChecksum saveData then Some (False, v, corrupted saveId s)
          else (case deserialize (sd_data saveData) v of
              None \<Rightarrow> Some (False, v, s)
            | Some v' \<Rightarrow> Some (True, v', save_call (ss_loadCompletedCallback s) (LoadCompleted saveId True) s)))"

definition LoadPlayerData ::
    "u32 \<Rightarrow> PlayerSaveData \<Rightarrow> SharedSaveSystem \<Rightarrow> (bool \<times> PlayerSaveData \<times> SharedSaveSystem) option" where
  "LoadPlayerData playerId playerData s =
     (if \<not> ss_initialized s then Some (False, playerData, s)
      else load_data (find_save (''Player_'' @ to_string_u32 playerId) s) DeserializePlayerData playerData s)"

definition LoadWorldData ::
    "u32 \<Rightarrow> 'm WorldSaveData \<Rightarrow> SharedSaveSystem \<Rightarrow> (bool \<times> 'm WorldSaveData \<times> SharedSaveSystem) option" where
  "LoadWorldData worldId worldData s =
     (if \<not> ss_initialized s then Some (False, worldData, s)
      else load_data (find_save (''World_'' @ to_string_u32 worldId) s) DeserializeWorldData worldData s)"

definition LoadSave :: "u32 \<Rightarrow> SharedSaveSystem \<Rightarrow> (bool \<times> SharedSaveSystem) option" where
  "LoadSave saveId s =
     (if \<not> ss_initialized s then Some (False, s)
      else case om_find (ss_saveMetadata s) saveId of
        None \<Rightarrow> Some (False, s)
      | Some m \<Rightarrow> (case LoadDataFromFile s (GetSaveFilePath s saveId) of
          LoadUndefined \<Rightarrow> None
        | LoadFailed \<Rightarrow> Some (False, s)
        | LoadOk saveData \<Rightarrow>
            if \<not> VerifyChecksum saveData then Some (False, corrupted saveId s)
            else Some (True, save_call (ss_loadCompletedCallback s) (LoadCompleted saveId True) s)))"

section \<open>Management\<close>

definition DeleteSave :: "u32 \<Rightarrow> SharedSaveSystem \<Rightarrow> bool \<times> SharedSaveSystem" where
  "DeleteSave saveId s =
     (if \<not> ss_initialized s then (False, s)
      else case om_find (ss_saveMetadata s) saveId of
        None \<Rightarrow> (False, s)
      | Some m \<Rightarrow>
          let (ok, s1) = DeleteFile (GetSaveFilePath s saveId) s
          in if \<not> ok then (False, s1)
             else (True, upd_stats (\<lambda>st. st\<lparr>st_totalSaves := st_totalSaves st - 1\<rparr>)
               (s1\<lparr>ss_saveMetadata := om_erase saveId (ss_saveMetadata s1)\<rparr>)))"

definition GetAvailableSaves :: "SharedSaveSystem \<Rightarrow> SaveMetadata list" where
  "GetAvailableSaves s = filter (\<lambda>m. \<not> sm_isBackup m) (om_values (ss_saveMetadata s))"

definition GetSaveMetadata :: "SharedSaveSystem \<Rightarrow> u32 \<Rightarrow> SaveMetadata" where
  "GetSaveMetadata s saveId = om_get SaveMetadata_new (ss_saveMetadata s) saveId"

text \<open>
  The copy: opening the backup creates it even when the original is missing; copying an empty
  file sets the error state of the target.
\<close>

definition CreateBackup :: "time_point \<Rightarrow> u32 \<Rightarrow> SharedSaveSystem \<Rightarrow> bool \<times> SharedSaveSystem" where
  "CreateBackup now saveId s =
     (if \<not> ss_initialized s then (False, s)
      else case om_find (ss_saveMetadata s) saveId of
        None \<Rightarrow> (False, s)
      | Some m \<Rightarrow>
          let backupId = ss_nextSaveId s;
              s0 = s\<lparr>ss_nextSaveId := backupId + 1\<rparr>;
              contents = (case ss_files s (GetSaveFilePath s saveId) of None \<Rightarrow> [] | Some bs \<Rightarrow> bs);
              s1 = (if ss_writable s
                    then s0\<lparr>ss_files := (ss_files s)(GetBackupFilePath s saveId backupId := Some contents)\<rparr>
                    else s0)
          in if contents = [] \<or> \<not> ss_writable s then (False, s1)
             else (True, save_call (ss_backupCreatedCallback s) (BackupCreated saveId backupId)
               (upd_stats (\<lambda>st. st\<lparr>st_totalBackups := st_totalBackups st + 1\<rparr>)
                 (UpdateSaveMetadata backupId (m\<lparr>sm_saveId := backupId,
                    sm_saveName := sm_saveName m @ ''_backup_'' @ to_string_u32 backupId,
                    sm_isBackup := True, sm_createdTime := now\<rparr>) s1))))"

definition ValidateSaveData :: "u32 \<Rightarrow> SharedSaveSystem \<Rightarrow> (bool \<times> SharedSaveSystem) option" where
  "ValidateSaveData saveId s =
     (if \<not> ss_initialized s then Some (False, s)
      else case om_find (ss_saveMetadata s) saveId of
        None \<Rightarrow> Some (False, s)
      | Some m \<Rightarrow> (case LoadDataFromFile s (GetSaveFilePath s saveId) of
          LoadUndefined \<Rightarrow> None
        | LoadFailed \<Rightarrow> Some (False, s)
        | LoadOk saveData \<Rightarrow>
            if VerifyChecksum saveData then Some (True, s) else Some (False, corrupted saveId s)))"

definition RepairSaveData :: "u32 \<Rightarrow> SharedSaveSystem \<Rightarrow> bool \<times> SharedSaveSystem" where
  "RepairSaveData saveId s =
     (if \<not> ss_initialized s then (False, s)
      else (True, s\<lparr>ss_saveMetadata := om_upd saveId (\<lambda>m. m\<lparr>sm_isCorrupted := False\<rparr>) (ss_saveMetadata s)\<rparr>))"

definition IsSaveCorrupted :: "SharedSaveSystem \<Rightarrow> u32 \<Rightarrow> bool" where
  "IsSaveCorrupted s saveId =
     (case om_find (ss_saveMetadata s) saveId of None \<Rightarrow> False | Some m \<Rightarrow> sm_isCorrupted m)"

definition GetCorruptedSaves :: "SharedSaveSystem \<Rightarrow> u32 list" where
  "GetCorruptedSaves s = map fst (filter (\<lambda>p. sm_isCorrupted (snd p)) (ss_saveMetadata s))"

section \<open>Life cycle and configuration\<close>

text \<open>\<open>LoadMetadata\<close> and the writing of the metadata are placeholders that change nothing.\<close>

definition Save_Initialize :: "bool \<Rightarrow> string \<Rightarrow> SharedSaveSystem \<Rightarrow> bool \<times> SharedSaveSystem" where
  "Save_Initialize created saveDirectory s =
     (if ss_initialized s then (True, s)
      else if \<not> created then (False, s\<lparr>ss_saveDirectory := saveDirectory\<rparr>)
      else (True, s\<lparr>ss_saveDirectory := saveDirectory, ss_initialized := True\<rparr>))"

definition Save_Shutdown :: "SharedSaveSystem \<Rightarrow> SharedSaveSystem" where
  "Save_Shutdown s =
     (if \<not> ss_initialized s then s else s\<lparr>ss_saveMetadata := [], ss_initialized := False\<rparr>)"

definition SetSaveDirectory :: "string \<Rightarrow> SharedSaveSystem \<Rightarrow> SharedSaveSystem" where
  "SetSaveDirectory directory s = s\<lparr>ss_saveDirectory := directory\<rparr>"

definition Save_SetCompressionEnabled :: "bool \<Rightarrow> SharedSaveSystem \<Rightarrow> SharedSaveSystem" where
  "Save_SetCompressionEnabled enabled s = s\<lparr>ss_compressionEnabled := enabled\<rparr>"

definition SetEncryptionEnabled :: "bool \<Rightarrow> SharedSaveSystem \<Rightarrow> SharedSaveSystem" where
  "SetEncryptionEnabled enabled s = s\<lparr>ss_encryptionEnabled := enabled\<rparr>"

definition SetMaxBackups :: "u32 \<Rightarrow> SharedSaveSystem \<Rightarrow> SharedSaveSystem" where
  "SetMaxBackups maxBackups s = s\<lparr>ss_maxBackups := maxBackups\<rparr>"

definition SetAutoSaveInterval :: "flt \<Rightarrow> SharedSaveSystem \<Rightarrow> SharedSaveSystem" where
  "SetAutoSaveInterval interval s = s\<lparr>ss_autoSaveInterval := interval\<rparr>"

definition Save_GetStats :: "SharedSaveSystem \<Rightarrow> SaveStats" where
  "Save_GetStats s = ss_stats s"

definition Save_ResetStats :: "SharedSaveSystem \<Rightarrow> SharedSaveSystem" where
  "Save_ResetStats s = s\<lparr>ss_stats := SaveStats_Reset\<rparr>"

definition SetSaveCompletedCallback :: "bool \<Rightarrow> SharedSaveSystem \<Rightarrow> SharedSaveSystem" where
  "SetSaveCompletedCallback registered s = s\<lparr>ss_saveCompletedCallback := registered\<rparr>"

definition SetLoadCompletedCallback :: "bool \<Rightarrow> SharedSaveSystem \<Rightarrow> SharedSaveSystem" where
  "SetLoadCompletedCallback registered s = s\<lparr>ss_loadCompletedCallback := registered\<rparr>"

definition SetSaveCorruptedCallback :: "bool \<Rightarrow> SharedSaveSystem \<Rightarrow> SharedSaveSystem" where
  "SetSaveCorruptedCallback registered s = s\<lparr>ss_saveCorruptedCallback := registered\<rparr>"

definition SetBackupCreatedCallback :: "bool \<Rightarrow> SharedSaveSystem \<Rightarrow> SharedSaveSystem" where
  "SetBackupCreatedCallback registered s = s\<lparr>ss_backupCreatedCallback := registered\<rparr>"

end
