(* ===== verification/SaveProps.thy ===== *)
theory SaveProps
  imports SaveSystem
begin

text \<open>
  What the save system guarantees: save files read back as written, what a player save keeps,
  which save a load finds, and what the checksum sees.
\<close>

unbundle bit_operations_syntax

section \<open>Files\<close>

definition saveable :: "SaveData \<Rightarrow> bool" where
  "saveable d \<longleftrightarrow> CHR 0x00 \<notin> set (sd_saveName d) \<and> length (sd_data d) < 2 ^ 32
     \<and> - (2 ^ 63) \<le> sd_timestamp d \<and> sd_timestamp d < 2 ^ 63"

lemma char_byte: "char_of (unat (of_nat (of_char c) :: u8)) = c"
proof -
  have "unat (of_nat (of_char c) :: u8) = of_char c mod 256" by (simp add: unat_of_nat)
  also have "\<dots> = of_char c" by (rule of_char_mod_256)
  finally show ?thesis by simp
qed

lemma char_byte_0: "(of_nat (of_char c) :: u8) = 0 \<longleftrightarrow> c = CHR 0x00"
proof
  assume "(of_nat (of_char c) :: u8) = 0"
  then have "char_of (unat (of_nat (of_char c) :: u8)) = (char_of (0 :: nat) :: char)" by simp
  then have "c = char_of (0 :: nat)" by (simp only: char_byte)
  also have "\<dots> = CHR 0x00" by (simp add: char_of_def)
  finally show "c = CHR 0x00" .
qed simp

lemma read_name_string: "CHR 0x00 \<notin> set cs \<Longrightarrow> read_name (string_bytes cs @ 0 # rest) = (cs, rest)"
  by (induction cs) (auto simp: string_bytes_def char_byte char_byte_0)

lemma parse_file_bytes:
  assumes "saveable d"
  shows "parse_file (file_bytes d) = LoadOk d"
proof -
  let ?rest = "le32 (sd_type d) @ le64 (word_of_int (sd_timestamp d)) @ le32 (sd_version d)
     @ [bool_byte (sd_isCompressed d), bool_byte (sd_isEncrypted d)] @ le32 (sd_checksum d)
     @ le32 (of_nat (length (sd_data d))) @ sd_data d"
  have d: "CHR 0x00 \<notin> set (sd_saveName d)" "length (sd_data d) < 2 ^ 32"
    "sint (word_of_int (sd_timestamp d) :: u64) = sd_timestamp d"
    using assms by (auto simp: saveable_def signed_of_int signed_take_bit_int_eq_self)
  have f: "file_bytes d = le32 (sd_saveId d) @ string_bytes (sd_saveName d) @ 0 # ?rest"
    using d(2) by (simp add: file_bytes_def)
  have drops: "drop 4 ?rest = le64 (word_of_int (sd_timestamp d)) @ drop 12 ?rest"
    "drop 12 ?rest = le32 (sd_version d) @ drop 16 ?rest"
    "?rest ! 16 = bool_byte (sd_isCompressed d)" "?rest ! 17 = bool_byte (sd_isEncrypted d)"
    "drop 18 ?rest = le32 (sd_checksum d) @ drop 22 ?rest"
    "drop 22 ?rest = le32 (of_nat (length (sd_data d))) @ sd_data d"
    "drop 26 ?rest = sd_data d"
    by (simp_all add: nth_append)
  have n: "unat (of_nat (length (sd_data d)) :: u32) = length (sd_data d)"
    using d(2) by (simp add: unat_of_nat)
  have b: "bool_byte x \<le> 1" "bool_byte x = 1 \<longleftrightarrow> x" for x by (simp_all add: bool_byte_def)
  show ?thesis
    unfolding parse_file_def f drop_le32 read_name_string [OF d(1)] Let_def prod.case
    unfolding drops
    using d b n by (simp add: not_less)
qed

interpretation save_file: codec file_bytes
    "\<lambda>bs. case parse_file bs of LoadOk d \<Rightarrow> Some d | _ \<Rightarrow> None" saveable
  by unfold_locales (simp add: parse_file_bytes)

section \<open>Player saves\<close>

lemma Deserialize_Serialize:
  "DeserializePlayerData (SerializePlayerData p) v =
     Some (v\<lparr>ps_playerId := ps_playerId p, ps_position := ps_position p, ps_level := ps_level p,
             ps_experience := ps_experience p\<rparr>)"
proof -
  obtain x y z w where pos: "ps_position p = (x, y, z, w)" by (cases "ps_position p") auto
  let ?bs = "SerializePlayerData p"
  have "?bs = le32 (ps_playerId p) @ drop 4 ?bs" "drop 4 ?bs = le32 x @ drop 8 ?bs"
    "drop 8 ?bs = le32 y @ drop 12 ?bs" "drop 12 ?bs = le32 z @ drop 16 ?bs"
    "drop 16 ?bs = le32 w @ drop 20 ?bs" "drop 20 ?bs = le32 (ps_level p) @ drop 24 ?bs"
    "drop 24 ?bs = le32 (ps_experience p)"
    by (simp_all add: SerializePlayerData_def pos)
  then have "read_le32 ?bs = ps_playerId p" "read_le32 (drop 4 ?bs) = x" "read_le32 (drop 8 ?bs) = y"
    "read_le32 (drop 12 ?bs) = z" "read_le32 (drop 16 ?bs) = w"
    "read_le32 (drop 20 ?bs) = ps_level p" "read_le32 (drop 24 ?bs) = ps_experience p"
    by (metis read_le32_append read_le32_le32)+
  moreover have "length ?bs = 28" by (simp add: SerializePlayerData_def pos)
  ultimately show ?thesis by (simp add: DeserializePlayerData_def pos)
qed

text \<open>The first match in a key-sorted list, after an insertion.\<close>

lemma find_om_put_new:
  "find P m = None \<Longrightarrow> P (k, v) \<Longrightarrow> find P (om_put k v m) = Some (k, v)"
  by (induction k v m rule: om_put.induct) (auto split: if_splits)

lemma find_om_put_later:
  assumes "om_sorted m" "find P m = Some (j, w)" "j < k"
  shows "find P (om_put k v m) = Some (j, w)"
  using assms
proof (induction k v m rule: om_put.induct)
  case (1 k v)
  then show ?case by simp
next
  case (2 k v a b m)
  show ?case
  proof (cases "P (a, b)")
    case True
    then show ?thesis using 2 by (auto split: if_splits)
  next
    case False
    then have m: "find P m = Some (j, w)" using "2.prems"(2) by simp
    then have "j \<in> set (map fst m)" by (metis find_Some_iff fst_conv length_map nth_map nth_mem)
    then have "a < j" using "2.prems"(1) by (auto simp: om_sorted_def)
    then have "a < k" using "2.prems"(3) by order
    moreover have "om_sorted m" using "2.prems"(1) by (simp add: om_sorted_def)
    ultimately show ?thesis using "2.IH" m "2.prems"(3) False by auto
  qed
qed

definition save_entry :: "time_point \<Rightarrow> u32 \<Rightarrow> string \<Rightarrow> u8 list \<Rightarrow> SaveData" where
  "save_entry now k name data = \<lparr>sd_saveId = k, sd_saveName = name, sd_type = type_code SavePlayer,
     sd_data = data, sd_timestamp = now, sd_version = 1, sd_isCompressed = False,
     sd_isEncrypted = False, sd_checksum = CalculateChecksum data\<rparr>"

definition player_metadata :: "time_point \<Rightarrow> u32 \<Rightarrow> string \<Rightarrow> u8 list \<Rightarrow> SaveMetadata" where
  "player_metadata now k name data = \<lparr>sm_saveId = k, sm_saveName = name,
     sm_description = ''Player save data'', sm_version = 1, sm_createdTime = now,
     sm_lastModified = now, sm_fileSize = of_nat (length data),
     sm_checksum = to_string_u32 (CalculateChecksum data), sm_isCorrupted = False, sm_isBackup = False\<rparr>"

lemma SavePlayerData_effect:
  fixes s :: SharedSaveSystem and p :: u32
  assumes "ss_initialized s" "ss_writable s"
  defines "k \<equiv> ss_nextSaveId s" and "name \<equiv> ''Player_'' @ to_string_u32 p"
  shows "ss_saveMetadata (snd (SavePlayerData now p pd s))
       = om_put k (player_metadata now k name (SerializePlayerData pd)) (ss_saveMetadata s)"
    "ss_files (snd (SavePlayerData now p pd s))
       = (ss_files s)(GetSaveFilePath s k := Some (file_bytes (save_entry now k name (SerializePlayerData pd))))"
    "ss_initialized (snd (SavePlayerData now p pd s))" "ss_writable (snd (SavePlayerData now p pd s))"
    "ss_nextSaveId (snd (SavePlayerData now p pd s)) = k + 1"
    "ss_saveDirectory (snd (SavePlayerData now p pd s)) = ss_saveDirectory s"
  using assms(1,2) unfolding k_def name_def
  by (simp_all add: SavePlayerData_def save_data_def Let_def SaveDataToFile_def save_call_def upd_stats_def
      UpdateSaveMetadata_def save_entry_def player_metadata_def GetSaveFilePath_def)

lemma save_entry_saveable:
  assumes "- (2 ^ 63) \<le> now" "now < 2 ^ 63"
  shows "saveable (save_entry now k (''Player_'' @ to_string_u32 p) (SerializePlayerData pd))"
proof -
  have digits: "CHR 0x00 \<notin> set (dec_string n)" for n
  proof (induction n rule: dec_string.induct)
    case (1 n)
    have "CHR 0x00 \<noteq> char_of (48 + m)" if "m < 10" for m :: nat
    proof
      assume "CHR 0x00 = char_of (48 + m)"
      then have "(of_char (char_of (48 + m) :: char) :: nat) = of_char CHR 0x00" by simp
      then show False using that by (simp add: of_char_of)
    qed
    from this [of n] this [of "n mod 10"] 1 show ?case by (subst dec_string.simps) auto
  qed
  obtain x y z w where "ps_position pd = (x, y, z, w)" by (cases "ps_position pd") auto
  then have "length (SerializePlayerData pd) < 2 ^ 32" by (simp add: SerializePlayerData_def)
  then show ?thesis using assms digits by (simp add: saveable_def save_entry_def to_string_u32_def)
qed

text \<open>
  C20. Saving and loading a player: on a disk that can be written, after the first save of a
  player a load finds it, its checksum holds, and it gives back the id, position, level and
  experience; all other fields of the caller's variable stay as they were.  A second save of the
  same player does not change what a load returns: it still finds the first.
\<close>

theorem load_returns_first_save:
  fixes s :: SharedSaveSystem and p :: u32 and pd newer v :: PlayerSaveData and now later :: time_point
  assumes "ss_initialized s" "ss_writable s" "om_sorted (ss_saveMetadata s)"
    "\<forall>m \<in> set (om_values (ss_saveMetadata s)). sm_saveName m \<noteq> ''Player_'' @ to_string_u32 p"
    "ss_nextSaveId s \<noteq> 0" "unat (ss_nextSaveId s) + 1 < 2 ^ 32"
    "- (2 ^ 63) \<le> now" "now < 2 ^ 63"
  defines "s1 \<equiv> snd (SavePlayerData now p pd s)"
  defines "s2 \<equiv> snd (SavePlayerData later p newer s1)"
  defines "got \<equiv> v\<lparr>ps_playerId := ps_playerId pd, ps_position := ps_position pd,
     ps_level := ps_level pd, ps_experience := ps_experience pd\<rparr>"
  shows "map_option (\<lambda>(ok, r, t). (ok, r)) (LoadPlayerData p v s1) = Some (True, got)
     \<and> map_option (\<lambda>(ok, r, t). (ok, r)) (LoadPlayerData p v s2) = Some (True, got)"
proof -
  let ?k = "ss_nextSaveId s" and ?name = "''Player_'' @ to_string_u32 p"
  let ?P = "\<lambda>q. sm_saveName (snd q) = ?name"
  let ?e = "save_entry now ?k ?name (SerializePlayerData pd)"
  let ?m = "player_metadata now ?k ?name (SerializePlayerData pd)"
  note e1 = SavePlayerData_effect [OF assms(1,2), of now p pd, folded s1_def]
  note e2 = SavePlayerData_effect [OF e1(3,4), of later p newer, folded s2_def, unfolded e1(5)]
  have "find ?P (ss_saveMetadata s) = None" using assms(4) by (auto simp: find_None_iff om_values_def)
  then have f1: "find ?P (ss_saveMetadata s1) = Some (?k, ?m)" by (simp add: e1(1) find_om_put_new player_metadata_def)
  have "unat (?k + 1) = unat ?k + 1" using unat_add_no_wrap [of ?k 1] assms(6) by simp
  then have lt: "?k < ?k + 1" by (simp add: word_less_nat_alt)
  have f2: "find ?P (ss_saveMetadata s2) = Some (?k, ?m)"
    unfolding e2(1) using f1 lt e1(1) assms(3) by (intro find_om_put_later) simp_all
  have load: "map_option (\<lambda>(ok, r, t). (ok, r)) (LoadPlayerData p v t) = Some (True, got)"
    if "ss_initialized t" "find ?P (ss_saveMetadata t) = Some (?k, ?m)"
      "ss_files t (GetSaveFilePath t ?k) = Some (file_bytes ?e)" for t
  proof -
    have "parse_file (file_bytes ?e) = LoadOk ?e"
      by (intro parse_file_bytes save_entry_saveable assms(7,8))
    then show ?thesis using that assms(5)
      by (simp add: LoadPlayerData_def find_save_def load_data_def LoadDataFromFile_def VerifyChecksum_def)
        (simp add: save_entry_def Deserialize_Serialize got_def ex_bool_eq)
  qed
  have path: "GetSaveFilePath s1 j = GetSaveFilePath s j" "GetSaveFilePath s2 j = GetSaveFilePath s j"
    "GetSaveFilePath s j = GetSaveFilePath s i \<longleftrightarrow> i = j" for i j
    using e1(6) e2(6) by (auto simp: GetSaveFilePath_def)
  have "ss_files s1 (GetSaveFilePath s1 ?k) = Some (file_bytes ?e)" by (simp add: e1(2) path)
  moreover have "ss_files s2 (GetSaveFilePath s2 ?k) = Some (file_bytes ?e)"
    using lt by (simp add: e2(2) e1(2) path)
  ultimately show ?thesis using load [OF e1(3) f1] load [OF e2(3) f2] by blast
qed

definition save_demo :: SharedSaveSystem where
  "save_demo = snd (Save_Initialize True ''saves'' (SharedSaveSystem_new (\<lambda>_. None) True))"

definition demo_player :: "u32 \<Rightarrow> PlayerSaveData" where
  "demo_player level = \<lparr>ps_playerId = 7, ps_playerName = ''Geralt'', ps_position = (1, 2, 3, 4),
     ps_rotation = 0, ps_level = level, ps_experience = 100, ps_inventory = [(1, 2)], ps_currencies = [],
     ps_activeQuests = [], ps_completedQuests = [], ps_unlockedSkills = [], ps_achievements = [],
     ps_lastSave = 0\<rparr>"

lemma player_fields:
  "ps_level (demo_player l) = l"
  by (simp add: demo_player_def)

theorem load_returns_first_save_witness:
  "map_option (\<lambda>(ok, r, t). (ok, ps_level r))
     (LoadPlayerData 7 (demo_player 1)
       (snd (SavePlayerData 9 7 (demo_player 30) (snd (SavePlayerData 5 7 (demo_player 20) save_demo)))))
     = Some (True, 20)"
proof -
  have "ss_initialized save_demo" "ss_writable save_demo" "ss_saveMetadata save_demo = []"
    "ss_nextSaveId save_demo = 1" by code_simp+
  then show ?thesis
    using load_returns_first_save [where s = save_demo and p = 7 and now = 5 and pd = "demo_player 20"
        and v = "demo_player 1" and later = 9 and newer = "demo_player 30"]
    by (auto simp: om_values_def player_fields)
qed

text \<open>
  A new process starts again at id 1 and without metadata: it lists no save, finds no player,
  and its first save overwrites the first save of its predecessor.
\<close>

lemma restart_forgets_saves:
  fixes s :: SharedSaveSystem and p :: u32
  defines "r \<equiv> snd (Save_Initialize True (ss_saveDirectory s) (SharedSaveSystem_new (ss_files s) True))"
  shows "GetAvailableSaves r = []" "map_option fst (LoadPlayerData p v r) = Some False"
    "ss_files (snd (SavePlayerData now p pd r)) (GetSaveFilePath s 1) \<noteq> None"
    "\<exists>d. ss_files (snd (SavePlayerData now p pd r)) (GetSaveFilePath s 1) = Some (file_bytes d) \<and> sd_timestamp d = now"
proof -
  have r: "ss_initialized r" "ss_writable r" "ss_saveMetadata r = []" "ss_nextSaveId r = 1"
    "ss_saveDirectory r = ss_saveDirectory s"
    by (simp_all add: r_def Save_Initialize_def SharedSaveSystem_new_def)
  show "GetAvailableSaves r = []" "map_option fst (LoadPlayerData p v r) = Some False"
    using r by (simp_all add: GetAvailableSaves_def om_values_def LoadPlayerData_def find_save_def load_data_def)
  have "GetSaveFilePath r 1 = GetSaveFilePath s 1" using r(5) by (simp add: GetSaveFilePath_def)
  then show "ss_files (snd (SavePlayerData now p pd r)) (GetSaveFilePath s 1) \<noteq> None"
    "\<exists>d. ss_files (snd (SavePlayerData now p pd r)) (GetSaveFilePath s 1) = Some (file_bytes d) \<and> sd_timestamp d = now"
    using SavePlayerData_effect(2) [OF r(1,2)] r(4) by (auto simp: save_entry_def intro!: exI)
qed

section \<open>The checksum\<close>

lemma CalculateChecksum_snoc:
  "CalculateChecksum (xs @ [b]) = push_bit 1 (CalculateChecksum xs) XOR ucast b"
  by (simp add: CalculateChecksum_def)

lemma CalculateChecksum_append:
  "CalculateChecksum (xs @ ys) = push_bit (length ys) (CalculateChecksum xs) XOR CalculateChecksum ys"
proof (induction ys rule: rev_induct)
  case Nil
  then show ?case by (simp add: CalculateChecksum_def)
next
  case (snoc b ys)
  have "CalculateChecksum (xs @ ys @ [b]) = push_bit 1 (CalculateChecksum (xs @ ys)) XOR ucast b"
    using CalculateChecksum_snoc [of "xs @ ys" b] by simp
  with snoc show ?case by (simp add: CalculateChecksum_snoc push_bit_xor xor.assoc)
qed

lemma push_bit_byte_inject:
  fixes b c :: u8
  assumes "n \<le> 24" "push_bit n (ucast b :: u32) = push_bit n (ucast c)"
  shows "b = c"
proof (rule bit_word_eqI)
  fix i assume i: "i < LENGTH(8)"
  have "bit (push_bit n (ucast b :: u32)) (n + i) = bit (push_bit n (ucast c :: u32)) (n + i)"
    using assms(2) by simp
  then show "bit b i = bit c i" using i assms(1) by (simp add: bit_simps)
qed

text \<open>
  What the checksum sees: it depends on the last 32 bytes only, so corruption before them is
  never noticed; within the last 25 bytes every change of one byte is noticed.
\<close>

lemma checksum_sees_last_bytes:
  "(32 \<le> length tail \<longrightarrow> CalculateChecksum (xs @ tail) = CalculateChecksum (ys @ tail))
     \<and> (length tail \<le> 24 \<longrightarrow> b \<noteq> c \<longrightarrow>
          CalculateChecksum (xs @ [b] @ tail) \<noteq> CalculateChecksum (xs @ [c] @ tail))"
proof (intro conjI impI notI)
  assume "32 \<le> length tail"
  then have "push_bit (length tail) w = 0" for w :: u32
    by (intro bit_word_eqI) (simp add: bit_simps)
  then show "CalculateChecksum (xs @ tail) = CalculateChecksum (ys @ tail)"
    by (simp add: CalculateChecksum_append)
next
  assume l: "length tail \<le> 24" and ne: "b \<noteq> c"
    and eq: "CalculateChecksum (xs @ [b] @ tail) = CalculateChecksum (xs @ [c] @ tail)"
  have cancel: "u XOR v = u XOR w \<longleftrightarrow> v = w" for u v w :: u32
    by (metis xor.left_commute xor_self_eq xor.right_neutral)
  have one: "CalculateChecksum [d] = ucast d" for d by (simp add: CalculateChecksum_def)
  have "push_bit (length tail) (ucast b :: u32) = push_bit (length tail) (ucast c)"
    using eq unfolding CalculateChecksum_append [of xs] CalculateChecksum_append [of _ tail] one
    by (simp add: cancel) (metis cancel xor.commute)
  then show False using push_bit_byte_inject [OF l] ne by blast
qed

lemma checksum_sees_last_bytes_witness:
  "CalculateChecksum ([1, 2] @ replicate 32 9) = CalculateChecksum ([200] @ replicate 32 9)
     \<and> CalculateChecksum ([1] @ [2] @ [3]) \<noteq> CalculateChecksum ([1] @ [4] @ [3])"
  using checksum_sees_last_bytes [of "replicate 32 9" "[1, 2]" "[200]" 2 4]
    checksum_sees_last_bytes [of "[3]" "[1]" "[]" 2 4] by simp

end
