(* ===== verification/HeapQueue.thy ===== *)
theory HeapQueue
  imports Prelude "HOL-Library.Multiset"
begin

text \<open>
  \<open>std::priority_queue\<close> over a vector, as the library implements it: \<open>push\<close> appends and sifts the
  new element up, \<open>pop\<close> moves the hole at the root down to a leaf, always towards the better
  child, and sifts the last element up from there.  \<open>worse a b\<close> is the comparator: \<open>b\<close> is better than
  \<open>a\<close>.  The comparators of the code are not strict weak orders, so the usual heap order cannot be
  expected; what survives is stated over a rank that the comparator respects: the locale
  \<open>ranked_queue\<close> is the contract, interpreted at the end on the binary heap.
\<close>

section \<open>The algorithms\<close>

abbreviation parent :: "nat \<Rightarrow> nat" where
  "parent i \<equiv> (i - 1) div 2"

function sift_up :: "('a \<Rightarrow> 'a \<Rightarrow> bool) \<Rightarrow> 'a \<Rightarrow> nat \<Rightarrow> 'a list \<Rightarrow> 'a list" where
  "sift_up worse v hole xs =
     (if 0 < hole \<and> worse (xs ! parent hole) v
      then sift_up worse v (parent hole) (xs[hole := xs ! parent hole])
      else xs[hole := v])"
  by auto
termination by (relation "measure (\<lambda>(worse, v, hole, xs). hole)") auto

declare sift_up.simps [simp del]

function sift_hole :: "('a \<Rightarrow> 'a \<Rightarrow> bool) \<Rightarrow> nat \<Rightarrow> nat \<Rightarrow> 'a list \<Rightarrow> nat \<times> 'a list" where
  "sift_hole worse len hole xs =
     (if hole < (len - 1) div 2
      then let r = 2 * (hole + 1); c = if worse (xs ! r) (xs ! (r - 1)) then r - 1 else r
           in sift_hole worse len c (xs[hole := xs ! c])
      else if 0 < len \<and> even len \<and> hole = (len - 2) div 2
      then (2 * hole + 1, xs[hole := xs ! (2 * hole + 1)])
      else (hole, xs))"
  by auto
termination by (relation "measure (\<lambda>(worse, len, hole, xs). len - hole)") (auto simp: Let_def)

declare sift_hole.simps [simp del]

definition pq_push :: "('a \<Rightarrow> 'a \<Rightarrow> bool) \<Rightarrow> 'a \<Rightarrow> 'a list \<Rightarrow> 'a list" where
  "pq_push worse v xs = sift_up worse v (length xs) (xs @ [v])"

definition pq_top :: "'a list \<Rightarrow> 'a" where
  "pq_top xs = hd xs"

definition pq_pop :: "('a \<Rightarrow> 'a \<Rightarrow> bool) \<Rightarrow> 'a list \<Rightarrow> 'a list" where
  "pq_pop worse xs =
     (if length xs \<le> 1 then butlast xs
      else let n = length xs - 1; (hole, ys) = sift_hole worse n 0 (butlast xs)
           in sift_up worse (last xs) hole ys)"

section \<open>Contents\<close>

lemma mset_move:
  assumes "i < length xs" "j < length xs" "i \<noteq> j"
  shows "mset (xs[i := xs ! j, j := v]) = mset (xs[i := v])"
  using assms by (simp add: mset_update)

lemma parent_less: "0 < i \<Longrightarrow> parent i < i"
  by auto

lemma sift_up_stop: "\<not> (0 < hole \<and> worse (xs ! parent hole) v) \<Longrightarrow> sift_up worse v hole xs = xs[hole := v]"
  by (subst sift_up.simps) auto

lemma sift_up_move:
  "0 < hole \<Longrightarrow> worse (xs ! parent hole) v \<Longrightarrow>
     sift_up worse v hole xs = sift_up worse v (parent hole) (xs[hole := xs ! parent hole])"
  by (subst sift_up.simps) simp

definition better_child :: "('a \<Rightarrow> 'a \<Rightarrow> bool) \<Rightarrow> nat \<Rightarrow> 'a list \<Rightarrow> nat" where
  "better_child worse i xs =
     (let r = 2 * (i + 1) in if worse (xs ! r) (xs ! (r - 1)) then r - 1 else r)"

lemma sift_hole_move:
  "hole < (len - 1) div 2 \<Longrightarrow>
     sift_hole worse len hole xs
       = sift_hole worse len (better_child worse hole xs) (xs[hole := xs ! better_child worse hole xs])"
  unfolding better_child_def by (subst sift_hole.simps) (auto simp: Let_def)

lemma sift_hole_last:
  "0 < len \<Longrightarrow> len = 2 * hole + 2 \<Longrightarrow>
     sift_hole worse len hole xs = (2 * hole + 1, xs[hole := xs ! (2 * hole + 1)])"
  by (subst sift_hole.simps) auto

lemma sift_hole_stop: "len \<le> 2 * hole + 1 \<Longrightarrow> sift_hole worse len hole xs = (hole, xs)"
  by (subst sift_hole.simps) (auto elim!: evenE)

lemma sift_hole_cases [case_names move last stop]:
  fixes hole len :: nat
  obtains "hole < (len - 1) div 2" | "0 < len" "len = 2 * hole + 2" | "len \<le> 2 * hole + 1"
  by linarith

lemma better_child_cases: "better_child worse i xs = 2 * i + 1 \<or> better_child worse i xs = 2 * i + 2"
  by (auto simp: better_child_def Let_def)

lemma better_child_less:
  "hole < (len - 1) div 2 \<Longrightarrow> better_child worse hole xs < len"
  "hole < (len - 1) div 2 \<Longrightarrow> better_child worse hole xs \<noteq> hole"
  using better_child_cases [of worse hole xs] by linarith+

text \<open>Induction along the path of the hole.\<close>

lemma sift_hole_induct [case_names move last stop]:
  assumes "\<And>hole xs. hole < (len - 1) div 2 \<Longrightarrow>
      P (better_child worse hole xs) (xs[hole := xs ! better_child worse hole xs]) \<Longrightarrow> P hole xs"
    and "\<And>hole xs. 0 < len \<Longrightarrow> len = 2 * hole + 2 \<Longrightarrow> P hole xs"
    and "\<And>hole xs. len \<le> 2 * hole + 1 \<Longrightarrow> P hole xs"
  shows "P hole xs"
proof (induction "len - hole" arbitrary: hole xs rule: less_induct)
  case (less hole xs)
  show ?case
  proof (cases rule: sift_hole_cases [of hole len])
    case move
    have "hole < better_child worse hole xs" using better_child_cases [of worse hole xs] by auto
    with move have "len - better_child worse hole xs < len - hole" by linarith
    then have "P (better_child worse hole xs) (xs[hole := xs ! better_child worse hole xs])" by (rule less)
    with move show ?thesis by (rule assms(1))
  next
    case last
    then show ?thesis by (rule assms(2))
  next
    case stop
    then show ?thesis by (rule assms(3))
  qed
qed

lemma sift_up_mset: "hole < length xs \<Longrightarrow> mset (sift_up worse v hole xs) = mset (xs[hole := v])"
proof (induction worse v hole xs rule: sift_up.induct)
  case (1 worse v hole xs)
  show ?case
  proof (cases "0 < hole \<and> worse (xs ! parent hole) v")
    case True
    then have p: "parent hole < hole" by (intro parent_less) simp
    have "mset (sift_up worse v hole xs) = mset (xs[hole := xs ! parent hole, parent hole := v])"
      using True 1 p by (simp add: sift_up_move)
    also have "\<dots> = mset (xs[hole := v])" using p 1(2) by (intro mset_move) auto
    finally show ?thesis .
  qed (simp add: sift_up_stop)
qed

lemma sift_up_length [simp]: "length (sift_up worse v hole xs) = length xs"
proof (induction worse v hole xs rule: sift_up.induct)
  case (1 worse v hole xs)
  then show ?case by (cases "0 < hole \<and> worse (xs ! parent hole) v") (auto simp: sift_up_move sift_up_stop)
qed

text \<open>The hole ends at a leaf.\<close>

lemma sift_hole_leaf:
  "hole < len \<Longrightarrow> length xs = len \<Longrightarrow> sift_hole worse len hole xs = (h, ys) \<Longrightarrow>
     h < len \<and> len \<le> 2 * h + 1 \<and> length ys = len \<and> (\<forall>v. mset (ys[h := v]) = mset (xs[hole := v]))"
proof (induction hole xs rule: sift_hole_induct [of len _ worse])
  case (move hole xs)
  then show ?case
    using better_child_less [of hole len worse xs] by (auto simp: sift_hole_move mset_move)
next
  case (last hole xs)
  then show ?case using mset_move [of hole xs "2 * hole + 1"] by (auto simp: sift_hole_last)
next
  case (stop hole xs)
  then show ?case by (simp add: sift_hole_stop)
qed

section \<open>Order of ranks\<close>

text \<open>
  The comparator respects the rank: a worse rank is worse, and a worse element has no better rank.
  Elements of one rank may be compared in any way, without transitivity.
\<close>

definition rank_ok :: "('a \<Rightarrow> 'r::linorder) \<Rightarrow> ('a \<Rightarrow> 'a \<Rightarrow> bool) \<Rightarrow> bool" where
  "rank_ok rank worse \<longleftrightarrow>
     (\<forall>a b. (rank b < rank a \<longrightarrow> worse a b) \<and> (worse a b \<longrightarrow> rank b \<le> rank a))"

lemma rank_okD:
  "rank_ok rank worse \<Longrightarrow> worse a b \<Longrightarrow> rank b \<le> rank a"
  "rank_ok rank worse \<Longrightarrow> \<not> worse a b \<Longrightarrow> rank a \<le> rank b"
  by (auto simp: rank_ok_def not_less [symmetric])

definition rank_heap :: "('a \<Rightarrow> 'r::linorder) \<Rightarrow> 'a list \<Rightarrow> bool" where
  "rank_heap rank xs \<longleftrightarrow> (\<forall>i<length xs. 0 < i \<longrightarrow> rank (xs ! parent i) \<le> rank (xs ! i))"

text \<open>A heap with a hole: the element at the hole does not count.\<close>

definition hole_heap :: "('a \<Rightarrow> 'r::linorder) \<Rightarrow> nat \<Rightarrow> 'a list \<Rightarrow> bool" where
  "hole_heap rank hole xs \<longleftrightarrow> hole < length xs
     \<and> (\<forall>i<length xs. 0 < i \<longrightarrow> i \<noteq> hole \<longrightarrow> parent i \<noteq> hole \<longrightarrow> rank (xs ! parent i) \<le> rank (xs ! i))
     \<and> (\<forall>i<length xs. 0 < i \<longrightarrow> parent i = hole \<longrightarrow> 0 < hole \<longrightarrow> rank (xs ! parent hole) \<le> rank (xs ! i))"

definition below_hole :: "('a \<Rightarrow> 'r::linorder) \<Rightarrow> 'a \<Rightarrow> nat \<Rightarrow> 'a list \<Rightarrow> bool" where
  "below_hole rank v hole xs \<longleftrightarrow> (\<forall>i<length xs. 0 < i \<longrightarrow> parent i = hole \<longrightarrow> rank v \<le> rank (xs ! i))"

lemma hole_heap_edge:
  "hole_heap rank hole xs \<Longrightarrow> i < length xs \<Longrightarrow> 0 < i \<Longrightarrow> i \<noteq> hole \<Longrightarrow> parent i \<noteq> hole \<Longrightarrow>
     rank (xs ! parent i) \<le> rank (xs ! i)"
  by (simp add: hole_heap_def)

lemma fill_hole:
  assumes "hole_heap rank hole xs" "below_hole rank v hole xs"
    "0 < hole \<Longrightarrow> rank (xs ! parent hole) \<le> rank v"
  shows "rank_heap rank (xs[hole := v])"
  unfolding rank_heap_def
proof (intro allI impI)
  fix i assume i: "i < length (xs[hole := v])" "0 < i"
  show "rank (xs[hole := v] ! parent i) \<le> rank (xs[hole := v] ! i)"
  proof (cases "i = hole \<or> parent i = hole")
    case True
    then show ?thesis using i assms parent_less [of i] by (auto simp: below_hole_def nth_list_update)
  next
    case False
    then show ?thesis using hole_heap_edge [OF assms(1)] i by simp
  qed
qed

lemma sift_up_heap:
  "rank_ok rank worse \<Longrightarrow> hole_heap rank hole xs \<Longrightarrow> below_hole rank v hole xs \<Longrightarrow>
     rank_heap rank (sift_up worse v hole xs)"
proof (induction worse v hole xs rule: sift_up.induct)
  case (1 worse v hole xs)
  note ok = 1(2)
  show ?case
  proof (cases "0 < hole \<and> worse (xs ! parent hole) v")
    case True
    let ?p = "parent hole" and ?xs = "xs[hole := xs ! parent hole]"
    have len: "hole < length xs" using 1(3) by (simp add: hole_heap_def)
    have p: "?p < hole" using True by (intro parent_less) simp
    have edge: "\<And>i. i < length xs \<Longrightarrow> 0 < i \<Longrightarrow> i \<noteq> hole \<Longrightarrow> parent i \<noteq> hole \<Longrightarrow>
        rank (xs ! parent i) \<le> rank (xs ! i)"
      using hole_heap_edge [OF 1(3)] .
    have up: "0 < ?p \<Longrightarrow> rank (xs ! parent ?p) \<le> rank (xs ! ?p)"
      using edge [of ?p] p len parent_less [of ?p] by simp
    have "hole_heap rank ?p ?xs"
      unfolding hole_heap_def
    proof (intro conjI allI impI)
      show "?p < length ?xs" using p len by simp
    next
      fix i assume i: "i < length ?xs" "0 < i" "i \<noteq> ?p" "parent i \<noteq> ?p"
      then have "i \<noteq> hole" by auto
      then show "rank (?xs ! parent i) \<le> rank (?xs ! i)"
        using i 1(3) True edge [of i] by (cases "parent i = hole") (auto simp: hole_heap_def)
    next
      fix i assume i: "i < length ?xs" "0 < i" "parent i = ?p" "0 < ?p"
      have "rank (xs ! parent ?p) \<le> rank (?xs ! i)"
        using up [OF i(4)] edge [of i] i p by (cases "i = hole") auto
      then show "rank (?xs ! parent ?p) \<le> rank (?xs ! i)" using i(4) p parent_less [of ?p] by simp
    qed
    moreover have "below_hole rank v ?p ?xs"
      unfolding below_hole_def
    proof (intro allI impI)
      fix i assume i: "i < length ?xs" "0 < i" "parent i = ?p"
      have "rank v \<le> rank (xs ! ?p)" using True rank_okD(1) [OF ok] by blast
      then show "rank v \<le> rank (?xs ! i)" using edge [of i] i p by (cases "i = hole") auto
    qed
    ultimately show ?thesis using 1(1) [OF True ok] True by (simp add: sift_up_move)
  next
    case False
    then have "0 < hole \<Longrightarrow> rank (xs ! parent hole) \<le> rank v"
      using rank_okD(2) [OF ok] by blast
    then have "rank_heap rank (xs[hole := v])" by (rule fill_hole [OF 1(3,4)])
    with False show ?thesis by (simp add: sift_up_stop)
  qed
qed

lemma better_child_rank:
  assumes "rank_ok rank worse" "i < len" "0 < i" "parent i = hole"
  shows "rank (xs ! better_child worse hole xs) \<le> rank (xs ! i)"
proof -
  have "i = 2 * hole + 1 \<or> i = 2 * hole + 2" using assms(3,4) by linarith
  then show ?thesis
    using rank_okD [OF assms(1)] by (auto simp: better_child_def Let_def)
qed

lemma hole_down:
  assumes "rank_ok rank worse" "hole_heap rank hole xs" "c < length xs" "0 < c" "parent c = hole"
    "\<And>i. i < length xs \<Longrightarrow> 0 < i \<Longrightarrow> parent i = hole \<Longrightarrow> rank (xs ! c) \<le> rank (xs ! i)"
  shows "hole_heap rank c (xs[hole := xs ! c])"
  unfolding hole_heap_def
proof (intro conjI allI impI)
  let ?xs = "xs[hole := xs ! c]"
  have hc: "hole < c" using assms(4,5) by auto
  show "c < length ?xs" using assms(3) by simp
  fix i assume i: "i < length ?xs" "0 < i"
  show "rank (?xs ! parent i) \<le> rank (?xs ! i)" if "i \<noteq> c" "parent i \<noteq> c"
  proof (cases "parent i = hole")
    case True
    then have "i \<noteq> hole" using i(2) by auto
    with True show ?thesis using assms(6) [of i] i hc assms(3) by simp
  next
    case False
    show ?thesis
    proof (cases "i = hole")
      case True
      with i False have "rank (xs ! parent hole) \<le> rank (xs ! c)"
        using assms(2-5) by (auto simp: hole_heap_def)
      with True False i show ?thesis by simp
    next
      case hole: False
      with False show ?thesis using hole_heap_edge [OF assms(2), of i] i by simp
    qed
  qed
  show "rank (?xs ! parent c) \<le> rank (?xs ! i)" if "parent i = c" "0 < c"
  proof -
    have "i \<noteq> hole" using that(1) i(2) parent_less [of i] hc by auto
    moreover have "rank (xs ! c) \<le> rank (xs ! i)"
      using hole_heap_edge [OF assms(2), of i] i that(1) hc \<open>i \<noteq> hole\<close> by simp
    ultimately show ?thesis using assms(3,5) hc by simp
  qed
qed

lemma sift_hole_heap:
  assumes "rank_ok rank worse"
  shows "hole_heap rank hole xs \<Longrightarrow> length xs = len \<Longrightarrow> sift_hole worse len hole xs = (h, ys) \<Longrightarrow>
     hole_heap rank h ys"
proof (induction hole xs rule: sift_hole_induct [of len _ worse])
  case (move hole xs)
  let ?c = "better_child worse hole xs"
  have c: "?c < len" "0 < ?c" "parent ?c = hole"
    using better_child_less(1) [OF move(1)] better_child_cases [of worse hole xs] by auto
  have "hole_heap rank ?c (xs[hole := xs ! ?c])"
    using c move(3,4) better_child_rank [OF assms] by (intro hole_down [OF assms]) auto
  with move show ?case by (simp add: sift_hole_move)
next
  case (last hole xs)
  have only: "i = 2 * hole + 1" if "i < length xs" "0 < i" "parent i = hole" for i
    using that last(2,4) by linarith
  have "hole_heap rank (2 * hole + 1) (xs[hole := xs ! (2 * hole + 1)])"
  proof (rule hole_down [OF assms last(3)])
    show "rank (xs ! (2 * hole + 1)) \<le> rank (xs ! i)" if "i < length xs" "0 < i" "parent i = hole" for i
      using only [OF that] by simp
  qed (use last(2,4) in simp_all)
  moreover have "h = 2 * hole + 1" "ys = xs[hole := xs ! (2 * hole + 1)]"
    using last(5) sift_hole_last [OF last(1,2), of worse xs] by auto
  ultimately show ?case by simp
next
  case (stop hole xs)
  then show ?case by (simp add: sift_hole_stop)
qed

section \<open>The contract\<close>

text \<open>Taking \<open>n\<close> elements off the queue.\<close>

fun drain :: "('q \<Rightarrow> 'a) \<Rightarrow> ('q \<Rightarrow> 'q) \<Rightarrow> nat \<Rightarrow> 'q \<Rightarrow> 'a list \<times> 'q" where
  "drain front pop 0 q = ([], q)"
| "drain front pop (Suc n) q = (case drain front pop n (pop q) of (xs, r) \<Rightarrow> (front q # xs, r))"

locale ranked_queue =
  fixes push :: "'a \<Rightarrow> 'q \<Rightarrow> 'q" and front :: "'q \<Rightarrow> 'a" and pop :: "'q \<Rightarrow> 'q"
    and contents :: "'q \<Rightarrow> 'a multiset" and ok :: "'q \<Rightarrow> bool" and rank :: "'a \<Rightarrow> 'r::linorder"
  assumes ok_push: "ok q \<Longrightarrow> ok (push x q)"
    and ok_pop: "ok q \<Longrightarrow> contents q \<noteq> {#} \<Longrightarrow> ok (pop q)"
    and contents_push: "contents (push x q) = add_mset x (contents q)"
    and contents_pop: "contents q \<noteq> {#} \<Longrightarrow> contents q = add_mset (front q) (contents (pop q))"
    and top_best: "ok q \<Longrightarrow> x \<in># contents q \<Longrightarrow> rank (front q) \<le> rank x"
begin

lemma drain_best:
  "ok q \<Longrightarrow> n \<le> size (contents q) \<Longrightarrow> drain front pop n q = (xs, r) \<Longrightarrow>
     ok r \<and> length xs = n \<and> contents q = mset xs + contents r
       \<and> sorted_wrt (\<lambda>a b. rank a \<le> rank b) xs \<and> (\<forall>x\<in>set xs. \<forall>y\<in>#contents r. rank x \<le> rank y)"
proof (induction n arbitrary: q xs)
  case 0
  then show ?case by simp
next
  case (Suc n)
  obtain ys where ys: "drain front pop n (pop q) = (ys, r)" "xs = front q # ys"
    using Suc.prems(3) by (auto split: prod.splits)
  have ne: "contents q \<noteq> {#}" using Suc.prems(2) by auto
  note c = contents_pop [OF ne]
  have "n \<le> size (contents (pop q))" using Suc.prems(2) c by (metis Suc_le_mono size_add_mset)
  note IH = Suc.IH [OF ok_pop [OF Suc.prems(1) ne] this ys(1)]
  have all: "contents q = mset xs + contents r" using IH c ys(2) by simp
  have "rank (front q) \<le> rank x" if "x \<in># mset ys + contents r" for x
    using top_best [OF Suc.prems(1)] that all ys(2) by simp
  with IH ys(2) all show ?case by auto
qed

end

lemma pq_push_mset: "mset (pq_push worse x xs) = add_mset x (mset xs)"
  by (simp add: pq_push_def sift_up_mset)

lemma pq_push_heap:
  assumes "rank_ok rank worse" "rank_heap rank xs"
  shows "rank_heap rank (pq_push worse x xs)"
  unfolding pq_push_def
proof (rule sift_up_heap [OF assms(1)])
  have edge: "rank (xs ! parent i) \<le> rank (xs ! i)" if "i < length xs" "0 < i" for i
    using assms(2) that by (simp add: rank_heap_def)
  show "hole_heap rank (length xs) (xs @ [x])"
    unfolding hole_heap_def
  proof (intro conjI allI impI)
    fix i assume "i < length (xs @ [x])" "0 < i" "i \<noteq> length xs" "parent i \<noteq> length xs"
    then show "rank ((xs @ [x]) ! parent i) \<le> rank ((xs @ [x]) ! i)"
      using edge [of i] parent_less [of i] by (simp add: nth_append)
  next
    fix i assume "i < length (xs @ [x])" "0 < i" "parent i = length xs"
    then show "rank ((xs @ [x]) ! parent (length xs)) \<le> rank ((xs @ [x]) ! i)"
      using parent_less [of i] by simp
  qed simp
  show "below_hole rank x (length xs) (xs @ [x])"
    using parent_less by (fastforce simp: below_hole_def)
qed

lemma pq_pop_sift:
  "1 < length xs \<Longrightarrow> sift_hole worse (length xs - 1) 0 (butlast xs) = (h, ys) \<Longrightarrow>
     pq_pop worse xs = sift_up worse (last xs) h ys"
  by (simp add: pq_pop_def)

lemma pq_pop_mset:
  assumes "xs \<noteq> []"
  shows "mset xs = add_mset (pq_top xs) (mset (pq_pop worse xs))"
proof (cases "length xs \<le> 1")
  case True
  then obtain x where "xs = [x]" using assms by (cases xs) auto
  then show ?thesis by (simp add: pq_pop_def pq_top_def)
next
  case False
  define n where "n = length xs - 1"
  obtain h ys where h: "sift_hole worse n 0 (butlast xs) = (h, ys)" by force
  have leaf: "h < n \<and> length ys = n \<and> mset (ys[h := last xs]) = mset ((butlast xs)[0 := last xs])"
    using sift_hole_leaf [OF _ _ h] False by (simp add: n_def)
  have "mset (pq_pop worse xs) = mset ((butlast xs)[0 := last xs])"
    using pq_pop_sift [OF _ h [unfolded n_def]] False leaf by (simp add: sift_up_mset)
  moreover have "mset xs = add_mset (last xs) (mset (butlast xs))"
    using arg_cong [OF append_butlast_last_id [OF assms], of mset] by simp
  moreover have "butlast xs ! 0 = pq_top xs" "0 < length (butlast xs)"
    using False assms by (simp_all add: nth_butlast pq_top_def hd_conv_nth)
  moreover from this have "mset (butlast xs) = add_mset (pq_top xs) (mset (butlast xs) - {#pq_top xs#})"
    by (metis insert_DiffM nth_mem_mset)
  ultimately show ?thesis
    using mset_update [of 0 "butlast xs" "last xs"] add_mset_commute by metis
qed

lemma pq_pop_heap:
  assumes "rank_ok rank worse" "rank_heap rank xs" "xs \<noteq> []"
  shows "rank_heap rank (pq_pop worse xs)"
proof (cases "length xs \<le> 1")
  case True
  then show ?thesis by (simp add: pq_pop_def rank_heap_def)
next
  case False
  define n where "n = length xs - 1"
  obtain h ys where h: "sift_hole worse n 0 (butlast xs) = (h, ys)" by force
  have leaf: "h < n" "n \<le> 2 * h + 1" "length ys = n"
    using sift_hole_leaf [OF _ _ h] False by (simp_all add: n_def)
  have "hole_heap rank 0 (butlast xs)"
    using assms(2) False parent_less by (auto simp: hole_heap_def rank_heap_def nth_butlast)
  then have "hole_heap rank h ys" using sift_hole_heap [OF assms(1) _ _ h] by (simp add: n_def)
  moreover have "below_hole rank (last xs) h ys" using leaf by (auto simp: below_hole_def)
  ultimately have "rank_heap rank (sift_up worse (last xs) h ys)" by (rule sift_up_heap [OF assms(1)])
  then show ?thesis using pq_pop_sift [OF _ h [unfolded n_def]] False by simp
qed

lemma rank_heap_top:
  assumes "rank_heap rank xs"
  shows "i < length xs \<Longrightarrow> rank (pq_top xs) \<le> rank (xs ! i)"
proof (induction i rule: less_induct)
  case (less i)
  show ?case
  proof (cases "i = 0")
    case True
    with less.prems show ?thesis by (simp add: pq_top_def hd_conv_nth)
  next
    case False
    then have "rank (pq_top xs) \<le> rank (xs ! parent i)" using less by simp
    also have "\<dots> \<le> rank (xs ! i)" using assms less.prems False by (simp add: rank_heap_def)
    finally show ?thesis .
  qed
qed

lemma heap_ranked_queue:
  assumes "rank_ok rank worse"
  shows "ranked_queue (pq_push worse) pq_top (pq_pop worse) mset (rank_heap rank) rank"
proof
  show "rank_heap rank q \<Longrightarrow> rank_heap rank (pq_push worse x q)" for q x
    by (rule pq_push_heap [OF assms])
  show "rank_heap rank q \<Longrightarrow> mset q \<noteq> {#} \<Longrightarrow> rank_heap rank (pq_pop worse q)" for q
    using pq_pop_heap [OF assms] by auto
  show "mset (pq_push worse x q) = add_mset x (mset q)" for q x by (rule pq_push_mset)
  show "mset q \<noteq> {#} \<Longrightarrow> mset q = add_mset (pq_top q) (mset (pq_pop worse q))" for q
    using pq_pop_mset by auto
  show "rank_heap rank q \<Longrightarrow> x \<in># mset q \<Longrightarrow> rank (pq_top q) \<le> rank x" for q x
    using rank_heap_top [of rank q] by (auto simp: in_set_conv_nth)
qed

lemma pq_pop_length [simp]: "length (pq_pop worse xs) = length xs - 1"
proof (cases "xs = []")
  case False
  then show ?thesis using arg_cong [OF pq_pop_mset [of xs worse], of size] by simp
qed (simp add: pq_pop_def)

lemma pq_push_length [simp]: "length (pq_push worse x xs) = Suc (length xs)"
  by (simp add: pq_push_def)

end
