(* ===== verification/Sorts.thy ===== *)
theory Sorts
  imports Prelude "HOL-Library.Multiset"
begin

text \<open>
  \<open>std::sort\<close> promises a permutation in which no element comes strictly before an earlier one;
  the order of equals is open, so the sorts are predicates on the argument and the result.
\<close>

definition sorts_to :: "('a \<Rightarrow> 'a \<Rightarrow> bool) \<Rightarrow> 'a list \<Rightarrow> 'a list \<Rightarrow> bool" where
  "sorts_to lt xs ys \<longleftrightarrow> mset ys = mset xs \<and> sorted_wrt (\<lambda>a b. \<not> lt b a) ys"

text \<open>A function that sorts, as one implementation of \<open>std::sort\<close> does.\<close>

definition sorter :: "('a \<Rightarrow> 'a \<Rightarrow> bool) \<Rightarrow> ('a list \<Rightarrow> 'a list) \<Rightarrow> bool" where
  "sorter lt srt \<longleftrightarrow> (\<forall>xs. sorts_to lt xs (srt xs))"

lemma sorter_set: "sorter lt srt \<Longrightarrow> set (srt xs) = set xs"
  by (metis sorter_def sorts_to_def set_mset_mset)

lemma sorter_sorted: "sorter lt srt \<Longrightarrow> sorted_wrt (\<lambda>a b. \<not> lt b a) (srt xs)"
  by (simp add: sorter_def sorts_to_def)

lemma sorter_sort_key: "sorter (\<lambda>a b. f a < f b) (sort_key f)" for f :: "'a \<Rightarrow> 'b::linorder"
  by (simp add: sorter_def sorts_to_def not_less)
     (metis sorted_sort_key sorted_wrt_map)

end
