(* ===== verification/MessagePriority.thy ===== *)
theory MessagePriority
  imports HeapQueue Floats Sorts
begin

text \<open>
  \<open>MessagePrioritySystem.cpp\<close>: the queue that orders outgoing messages by priority and urgency
  (\<open>MessagePriorityQueue\<close>), the traffic manager in front of it (\<open>NetworkTrafficManager\<close>) and the
  helper functions of \<open>PriorityUtils\<close>.  The file names message types (\<open>TC_PlayerAttack\<close> and others)
  that no header declares; their values are a parameter, the record \<open>PriorityTypes\<close>.  One call reads
  the clock once here, where the loops of the code read it for each message.
\<close>

section \<open>Data\<close>

datatype MessagePriority = Critical | High | Medium | Low | Background

datatype MessageUrgency = Immediate | Urgent | Normal | LowUrgency | Batch

fun priority_code :: "MessagePriority \<Rightarrow> nat" where
  "priority_code Critical = 0"
| "priority_code High = 1"
| "priority_code Medium = 2"
| "priority_code Low = 3"
| "priority_code Background = 4"

fun urgency_code :: "MessageUrgency \<Rightarrow> nat" where
  "urgency_code Immediate = 0"
| "urgency_code Urgent = 1"
| "urgency_code Normal = 2"
| "urgency_code LowUrgency = 3"
| "urgency_code Batch = 4"

record PriorityTypes =
  combatTypes :: "u32 list"
  movementTypes :: "u32 list"
  inventoryTypes :: "u32 list"
  effectTypes :: "u32 list"
  invalidType :: u32

record MessageClassification =
  mc_priority :: MessagePriority
  mc_urgency :: MessageUrgency
  mc_importance :: flt
  mc_timeToLive :: flt
  mc_requiresAck :: bool
  mc_canBeDropped :: bool
  mc_canBeCompressed :: bool
  mc_maxRetries :: u64

definition MessageClassification_new :: MessageClassification where
  "MessageClassification_new =
     \<lparr>mc_priority = Medium, mc_urgency = Normal, mc_importance = rnd32 (1 / 2), mc_timeToLive = rnd32 1,
      mc_requiresAck = False, mc_canBeDropped = True, mc_canBeCompressed = True, mc_maxRetries = 3\<rparr>"

record PrioritizedMessage =
  pm_messageId :: u32
  pm_type :: u32
  pm_data :: "u8 list"
  pm_classification :: MessageClassification
  pm_timestamp :: time_point
  pm_retryCount :: u32
  pm_age :: flt

definition PrioritizedMessage_new :: "PriorityTypes \<Rightarrow> PrioritizedMessage" where
  "PrioritizedMessage_new T =
     \<lparr>pm_messageId = 0, pm_type = invalidType T, pm_data = [],
      pm_classification = MessageClassification_new, pm_timestamp = 0, pm_retryCount = 0, pm_age = Fin 0\<rparr>"

abbreviation pm_priority :: "PrioritizedMessage \<Rightarrow> MessagePriority" where
  "pm_priority m \<equiv> mc_priority (pm_classification m)"

abbreviation pm_urgency :: "PrioritizedMessage \<Rightarrow> MessageUrgency" where
  "pm_urgency m \<equiv> mc_urgency (pm_classification m)"

abbreviation pm_importance :: "PrioritizedMessage \<Rightarrow> flt" where
  "pm_importance m \<equiv> mc_importance (pm_classification m)"

record QueueStats =
  qs_totalMessages :: u64
  qs_messagesByPriority :: "u64 list"
  qs_messagesByUrgency :: "u64 list"
  qs_expiredMessages :: u64
  qs_droppedMessages :: u64
  qs_averageQueueTime :: flt
  qs_maxQueueTime :: flt

definition QueueStats_Reset :: QueueStats where
  "QueueStats_Reset =
     \<lparr>qs_totalMessages = 0, qs_messagesByPriority = replicate 5 0, qs_messagesByUrgency = replicate 5 0,
      qs_expiredMessages = 0, qs_droppedMessages = 0, qs_averageQueueTime = Fin 0, qs_maxQueueTime = Fin 0\<rparr>"

record MessagePriorityQueue =
  pq_queue :: "PrioritizedMessage list"
  pq_classifications :: "(u32, MessageClassification) omap"
  pq_stats :: QueueStats
  pq_maxQueueSize :: u64
  pq_maxMessageAge :: flt

definition MessagePriorityQueue_new :: MessagePriorityQueue where
  "MessagePriorityQueue_new =
     \<lparr>pq_queue = [], pq_classifications = [], pq_stats = QueueStats_Reset, pq_maxQueueSize = 1000,
      pq_maxMessageAge = rnd32 5\<rparr>"

section \<open>The comparator\<close>

definition MessageComparator :: "PrioritizedMessage \<Rightarrow> PrioritizedMessage \<Rightarrow> bool" where
  "MessageComparator a b \<longleftrightarrow>
     (if pm_priority a \<noteq> pm_priority b then priority_code (pm_priority a) > priority_code (pm_priority b)
      else if pm_urgency a \<noteq> pm_urgency b then urgency_code (pm_urgency a) > urgency_code (pm_urgency b)
      else if f_lt (rnd32 (1 / 100)) (f_abs (sub32 (pm_importance a) (pm_importance b)))
      then f_lt (pm_importance a) (pm_importance b)
      else f_lt (pm_age a) (pm_age b))"

section \<open>Queue operations\<close>

definition bump :: "nat \<Rightarrow> u64 list \<Rightarrow> u64 list" where
  "bump i xs = xs[i := xs ! i + 1]"

definition PushMessage :: "time_point \<Rightarrow> PrioritizedMessage \<Rightarrow> MessagePriorityQueue \<Rightarrow> MessagePriorityQueue" where
  "PushMessage now m q =
     (if unat (pq_maxQueueSize q) \<le> length (pq_queue q)
      then q\<lparr>pq_stats := (pq_stats q)\<lparr>qs_droppedMessages := qs_droppedMessages (pq_stats q) + 1\<rparr>\<rparr>
      else
        let c = m\<lparr>pm_timestamp := now, pm_age := Fin 0\<rparr>; st = pq_stats q
        in q\<lparr>pq_queue := pq_push MessageComparator c (pq_queue q),
             pq_stats := st\<lparr>qs_totalMessages := qs_totalMessages st + 1,
               qs_messagesByPriority := bump (priority_code (pm_priority c)) (qs_messagesByPriority st),
               qs_messagesByUrgency := bump (urgency_code (pm_urgency c)) (qs_messagesByUrgency st)\<rparr>\<rparr>)"

definition UpdateMessageAge :: "time_point \<Rightarrow> PrioritizedMessage \<Rightarrow> PrioritizedMessage" where
  "UpdateMessageAge now m = m\<lparr>pm_age := seconds32 (now - pm_timestamp m)\<rparr>"

text \<open>\<open>PopMessage\<close> on a queue that is not empty.\<close>

definition pop_front :: "time_point \<Rightarrow> MessagePriorityQueue \<Rightarrow> PrioritizedMessage \<times> MessagePriorityQueue" where
  "pop_front now q =
     (let m = UpdateMessageAge now (pq_top (pq_queue q)); st = pq_stats q
      in (m, q\<lparr>pq_queue := pq_pop MessageComparator (pq_queue q),
             pq_stats := st\<lparr>qs_averageQueueTime := div32 (add32 (qs_averageQueueTime st) (pm_age m)) (Fin 2),
               qs_maxQueueTime := f_max (qs_maxQueueTime st) (pm_age m)\<rparr>\<rparr>))"

definition PopMessage ::
    "PriorityTypes \<Rightarrow> time_point \<Rightarrow> MessagePriorityQueue \<Rightarrow> PrioritizedMessage \<times> MessagePriorityQueue" where
  "PopMessage T now q = (if pq_queue q = [] then (PrioritizedMessage_new T, q) else pop_front now q)"

definition HasMessages :: "MessagePriorityQueue \<Rightarrow> bool" where
  "HasMessages q \<longleftrightarrow> pq_queue q \<noteq> []"

definition GetMessageCount :: "MessagePriorityQueue \<Rightarrow> nat" where
  "GetMessageCount q = length (pq_queue q)"

definition Clear :: "MessagePriorityQueue \<Rightarrow> MessagePriorityQueue" where
  "Clear q = q\<lparr>pq_queue := [], pq_stats := QueueStats_Reset\<rparr>"

fun PopMessages :: "time_point \<Rightarrow> nat \<Rightarrow> MessagePriorityQueue \<Rightarrow> PrioritizedMessage list \<times> MessagePriorityQueue" where
  "PopMessages now 0 q = ([], q)"
| "PopMessages now (Suc n) q =
     (if pq_queue q = [] then ([], q)
      else case pop_front now q of (m, q1) \<Rightarrow>
        (case PopMessages now n q1 of (ms, q2) \<Rightarrow> (m # ms, q2)))"

text \<open>Putting messages back, and the loop that takes messages of one priority.\<close>

definition push_back_all :: "PrioritizedMessage list \<Rightarrow> MessagePriorityQueue \<Rightarrow> MessagePriorityQueue" where
  "push_back_all ms q = q\<lparr>pq_queue := fold (pq_push MessageComparator) ms (pq_queue q)\<rparr>"

lemma pop_front_queue [simp]:
  "pq_queue (snd (pop_front now q)) = pq_pop MessageComparator (pq_queue q)"
  "fst (pop_front now q) = UpdateMessageAge now (pq_top (pq_queue q))"
  by (simp_all add: pop_front_def Let_def)

function pop_by_priority ::
    "time_point \<Rightarrow> MessagePriority \<Rightarrow> nat \<Rightarrow> PrioritizedMessage list \<Rightarrow> PrioritizedMessage list \<Rightarrow>
       MessagePriorityQueue \<Rightarrow> PrioritizedMessage list \<times> PrioritizedMessage list \<times> MessagePriorityQueue" where
  "pop_by_priority now p maxCount ms temp q =
     (if pq_queue q = [] then (ms, temp, q)
      else
        let m = fst (pop_front now q); q1 = snd (pop_front now q)
        in if pm_priority m = p
           then (if maxCount \<le> length (ms @ [m]) then (ms @ [m], temp, q1)
                 else pop_by_priority now p maxCount (ms @ [m]) temp q1)
           else pop_by_priority now p maxCount ms (temp @ [m]) q1)"
  by auto
termination
  by (relation "measure (\<lambda>(now, p, n, ms, temp, q). length (pq_queue q))") auto

definition PopMessagesByPriority ::
    "time_point \<Rightarrow> MessagePriority \<Rightarrow> nat \<Rightarrow> MessagePriorityQueue \<Rightarrow> PrioritizedMessage list \<times> MessagePriorityQueue" where
  "PopMessagesByPriority now p maxCount q =
     (case pop_by_priority now p maxCount [] [] q of (ms, temp, q1) \<Rightarrow> (ms, push_back_all temp q1))"

definition IsMessageExpired :: "PrioritizedMessage \<Rightarrow> bool" where
  "IsMessageExpired m \<longleftrightarrow> f_lt (mc_timeToLive (pm_classification m)) (pm_age m)"

function pop_expired ::
    "time_point \<Rightarrow> PrioritizedMessage list \<Rightarrow> PrioritizedMessage list \<Rightarrow>
       MessagePriorityQueue \<Rightarrow> PrioritizedMessage list \<times> PrioritizedMessage list \<times> MessagePriorityQueue" where
  "pop_expired now expired valid q =
     (if pq_queue q = [] then (expired, valid, q)
      else
        let m = fst (pop_front now q); q1 = snd (pop_front now q); st = pq_stats q1
        in if IsMessageExpired m
           then pop_expired now (expired @ [m]) valid
                  (q1\<lparr>pq_stats := st\<lparr>qs_expiredMessages := qs_expiredMessages st + 1\<rparr>\<rparr>)
           else pop_expired now expired (valid @ [m]) q1)"
  by auto
termination
  by (relation "measure (\<lambda>(now, expired, valid, q). length (pq_queue q))") auto

definition PopExpiredMessages ::
    "time_point \<Rightarrow> MessagePriorityQueue \<Rightarrow> PrioritizedMessage list \<times> MessagePriorityQueue" where
  "PopExpiredMessages now q =
     (case pop_expired now [] [] q of (expired, valid, q1) \<Rightarrow> (expired, push_back_all valid q1))"

declare pop_by_priority.simps [simp del] pop_expired.simps [simp del]

definition PQ_GetStats :: "MessagePriorityQueue \<Rightarrow> QueueStats" where
  "PQ_GetStats q = pq_stats q"

definition PQ_ResetStats :: "MessagePriorityQueue \<Rightarrow> MessagePriorityQueue" where
  "PQ_ResetStats q = q\<lparr>pq_stats := QueueStats_Reset\<rparr>"

definition CalculateMessageScore :: "MessagePriorityQueue \<Rightarrow> PrioritizedMessage \<Rightarrow> flt" where
  "CalculateMessageScore q m =
     (let priorityScore = sub32 (Fin 1) (div32 (f32_of_nat (priority_code (pm_priority m))) (Fin 4));
          urgencyScore = sub32 (Fin 1) (div32 (f32_of_nat (urgency_code (pm_urgency m))) (Fin 4));
          ageScore = f_min (div32 (pm_age m) (pq_maxMessageAge q)) (Fin 1)
      in add32 (add32 (add32 (mul32 priorityScore (rnd32 (4 / 10))) (mul32 urgencyScore (rnd32 (3 / 10))))
           (mul32 (pm_importance m) (rnd32 (2 / 10)))) (mul32 ageScore (rnd32 (1 / 10))))"

section \<open>Classifications\<close>

definition GetDefaultClassification :: "PriorityTypes \<Rightarrow> u32 \<Rightarrow> MessageClassification" where
  "GetDefaultClassification T ty =
     (let c = MessageClassification_new
      in if ty \<in> set (combatTypes T)
         then c\<lparr>mc_priority := Critical, mc_urgency := Immediate, mc_importance := rnd32 1,
                mc_timeToLive := rnd32 (1 / 10), mc_requiresAck := True, mc_canBeDropped := False\<rparr>
         else if ty \<in> set (movementTypes T)
         then c\<lparr>mc_priority := High, mc_urgency := Urgent, mc_importance := rnd32 (8 / 10),
                mc_timeToLive := rnd32 (1 / 2), mc_requiresAck := False, mc_canBeDropped := True\<rparr>
         else if ty \<in> set (inventoryTypes T)
         then c\<lparr>mc_priority := Medium, mc_urgency := Normal, mc_importance := rnd32 (6 / 10),
                mc_timeToLive := rnd32 2, mc_requiresAck := True, mc_canBeDropped := True\<rparr>
         else c\<lparr>mc_priority := Low, mc_urgency := LowUrgency, mc_importance := rnd32 (3 / 10),
                mc_timeToLive := rnd32 5, mc_requiresAck := False, mc_canBeDropped := True\<rparr>)"

definition GetDefaultPriority :: "PriorityTypes \<Rightarrow> u32 \<Rightarrow> MessagePriority" where
  "GetDefaultPriority T ty = mc_priority (GetDefaultClassification T ty)"

definition GetDefaultUrgency :: "PriorityTypes \<Rightarrow> u32 \<Rightarrow> MessageUrgency" where
  "GetDefaultUrgency T ty = mc_urgency (GetDefaultClassification T ty)"

definition SetPriority ::
    "PriorityTypes \<Rightarrow> u32 \<Rightarrow> MessagePriority \<Rightarrow> MessagePriorityQueue \<Rightarrow> MessagePriorityQueue" where
  "SetPriority T ty p q =
     (let c = (case om_find (pq_classifications q) ty of Some c \<Rightarrow> c | None \<Rightarrow> GetDefaultClassification T ty)
      in q\<lparr>pq_classifications := om_put ty (c\<lparr>mc_priority := p\<rparr>) (pq_classifications q)\<rparr>)"

definition SetUrgency ::
    "PriorityTypes \<Rightarrow> u32 \<Rightarrow> MessageUrgency \<Rightarrow> MessagePriorityQueue \<Rightarrow> MessagePriorityQueue" where
  "SetUrgency T ty u q =
     (let c = (case om_find (pq_classifications q) ty of Some c \<Rightarrow> c | None \<Rightarrow> GetDefaultClassification T ty)
      in q\<lparr>pq_classifications := om_put ty (c\<lparr>mc_urgency := u\<rparr>) (pq_classifications q)\<rparr>)"

definition SetClassification ::
    "u32 \<Rightarrow> MessageClassification \<Rightarrow> MessagePriorityQueue \<Rightarrow> MessagePriorityQueue" where
  "SetClassification ty c q = q\<lparr>pq_classifications := om_put ty c (pq_classifications q)\<rparr>"

definition combatClass :: MessageClassification where
  "combatClass = \<lparr>mc_priority = Critical, mc_urgency = Immediate, mc_importance = rnd32 1,
     mc_timeToLive = rnd32 (1 / 10), mc_requiresAck = True, mc_canBeDropped = False,
     mc_canBeCompressed = False, mc_maxRetries = 5\<rparr>"

definition movementClass :: MessageClassification where
  "movementClass = \<lparr>mc_priority = High, mc_urgency = Urgent, mc_importance = rnd32 (8 / 10),
     mc_timeToLive = rnd32 (1 / 2), mc_requiresAck = False, mc_canBeDropped = True,
     mc_canBeCompressed = True, mc_maxRetries = 2\<rparr>"

definition inventoryClass :: MessageClassification where
  "inventoryClass = \<lparr>mc_priority = Medium, mc_urgency = Normal, mc_importance = rnd32 (6 / 10),
     mc_timeToLive = rnd32 2, mc_requiresAck = True, mc_canBeDropped = True,
     mc_canBeCompressed = True, mc_maxRetries = 3\<rparr>"

definition effectsClass :: MessageClassification where
  "effectsClass = \<lparr>mc_priority = Low, mc_urgency = LowUrgency, mc_importance = rnd32 (3 / 10),
     mc_timeToLive = rnd32 5, mc_requiresAck = False, mc_canBeDropped = True,
     mc_canBeCompressed = True, mc_maxRetries = 1\<rparr>"

definition LoadDefaultConfigurations :: "PriorityTypes \<Rightarrow> MessagePriorityQueue \<Rightarrow> MessagePriorityQueue" where
  "LoadDefaultConfigurations T =
     fold (\<lambda>ty. SetClassification ty effectsClass) (effectTypes T)
       \<circ> fold (\<lambda>ty. SetClassification ty inventoryClass) (inventoryTypes T)
       \<circ> fold (\<lambda>ty. SetClassification ty movementClass) (movementTypes T)
       \<circ> fold (\<lambda>ty. SetClassification ty combatClass) (combatTypes T)"

section \<open>The traffic manager\<close>

record TrafficStats =
  ts_totalMessagesProcessed :: u64
  ts_messagesSent :: u64
  ts_messagesDropped :: u64
  ts_messagesRetried :: u64
  ts_bytesSent :: u64
  ts_bytesDropped :: u64
  ts_averageLatency :: flt
  ts_maxLatency :: flt
  ts_bandwidthUtilization :: flt
  ts_congestionLevel :: flt

definition TrafficStats_Reset :: TrafficStats where
  "TrafficStats_Reset =
     \<lparr>ts_totalMessagesProcessed = 0, ts_messagesSent = 0, ts_messagesDropped = 0, ts_messagesRetried = 0,
      ts_bytesSent = 0, ts_bytesDropped = 0, ts_averageLatency = Fin 0, ts_maxLatency = Fin 0,
      ts_bandwidthUtilization = Fin 0, ts_congestionLevel = Fin 0\<rparr>"

record NetworkTrafficManager =
  tm_initialized :: bool
  tm_priorityQueue :: MessagePriorityQueue
  tm_stats :: TrafficStats
  tm_bandwidthLimit :: u64
  tm_messageRateLimit :: u64
  tm_trafficShapingEnabled :: bool
  tm_congestionThreshold :: flt
  tm_lastUpdateTime :: time_point
  tm_lastBandwidthReset :: time_point
  tm_lastRateReset :: time_point
  tm_bytesSentThisSecond :: u64
  tm_messagesSentThisSecond :: u64

definition NetworkTrafficManager_new :: "time_point \<Rightarrow> NetworkTrafficManager" where
  "NetworkTrafficManager_new now =
     \<lparr>tm_initialized = False, tm_priorityQueue = MessagePriorityQueue_new, tm_stats = TrafficStats_Reset,
      tm_bandwidthLimit = 1024 * 1024, tm_messageRateLimit = 1000, tm_trafficShapingEnabled = True,
      tm_congestionThreshold = rnd32 (8 / 10), tm_lastUpdateTime = now, tm_lastBandwidthReset = now,
      tm_lastRateReset = now, tm_bytesSentThisSecond = 0, tm_messagesSentThisSecond = 0\<rparr>"

definition Traffic_Initialize :: "PriorityTypes \<Rightarrow> NetworkTrafficManager \<Rightarrow> bool \<times> NetworkTrafficManager" where
  "Traffic_Initialize T t =
     (if tm_initialized t then (True, t)
      else (True, t\<lparr>tm_priorityQueue := LoadDefaultConfigurations T (tm_priorityQueue t),
                    tm_initialized := True\<rparr>))"

definition Traffic_Shutdown :: "NetworkTrafficManager \<Rightarrow> NetworkTrafficManager" where
  "Traffic_Shutdown t =
     (if \<not> tm_initialized t then t
      else t\<lparr>tm_priorityQueue := Clear (tm_priorityQueue t), tm_initialized := False\<rparr>)"

definition data_size :: "PrioritizedMessage \<Rightarrow> u64" where
  "data_size m = of_nat (length (pm_data m))"

definition CanSendMessage :: "NetworkTrafficManager \<Rightarrow> PrioritizedMessage \<Rightarrow> bool" where
  "CanSendMessage t m \<longleftrightarrow>
     \<not> tm_trafficShapingEnabled t
     \<or> (tm_bytesSentThisSecond t + data_size m \<le> tm_bandwidthLimit t
        \<and> tm_messagesSentThisSecond t < tm_messageRateLimit t)"

definition ProcessMessage :: "time_point \<Rightarrow> PrioritizedMessage \<Rightarrow> NetworkTrafficManager \<Rightarrow> NetworkTrafficManager" where
  "ProcessMessage now m t =
     (if \<not> tm_initialized t then t
      else
        let st = (tm_stats t)\<lparr>ts_totalMessagesProcessed := ts_totalMessagesProcessed (tm_stats t) + 1\<rparr>
        in if \<not> CanSendMessage t m
           then t\<lparr>tm_stats := st\<lparr>ts_messagesDropped := ts_messagesDropped st + 1,
                                 ts_bytesDropped := ts_bytesDropped st + data_size m\<rparr>\<rparr>
           else t\<lparr>tm_stats := st, tm_priorityQueue := PushMessage now m (tm_priorityQueue t)\<rparr>)"

definition UpdateTrafficStats :: "time_point \<Rightarrow> NetworkTrafficManager \<Rightarrow> NetworkTrafficManager" where
  "UpdateTrafficStats now t =
     (let t1 = (if f_le (Fin 1) (seconds32 (now - tm_lastBandwidthReset t))
                then t\<lparr>tm_stats := (tm_stats t)\<lparr>ts_bandwidthUtilization :=
                         div32 (f32_of_nat (unat (tm_bytesSentThisSecond t))) (f32_of_nat (unat (tm_bandwidthLimit t)))\<rparr>,
                       tm_bytesSentThisSecond := 0, tm_lastBandwidthReset := now\<rparr>
                else t);
          t2 = (if f_le (Fin 1) (seconds32 (now - tm_lastRateReset t1))
                then t1\<lparr>tm_messagesSentThisSecond := 0, tm_lastRateReset := now\<rparr> else t1)
      in t2\<lparr>tm_stats := (tm_stats t2)\<lparr>ts_congestionLevel :=
              f_min (ts_bandwidthUtilization (tm_stats t2)) (Fin 1)\<rparr>\<rparr>)"

definition count_sent :: "PrioritizedMessage \<Rightarrow> NetworkTrafficManager \<Rightarrow> NetworkTrafficManager" where
  "count_sent m t =
     t\<lparr>tm_stats := (tm_stats t)\<lparr>ts_messagesSent := ts_messagesSent (tm_stats t) + 1,
                                ts_bytesSent := ts_bytesSent (tm_stats t) + data_size m\<rparr>,
       tm_bytesSentThisSecond := tm_bytesSentThisSecond t + data_size m,
       tm_messagesSentThisSecond := tm_messagesSentThisSecond t + 1\<rparr>"

definition GetMessagesToSend ::
    "time_point \<Rightarrow> nat \<Rightarrow> NetworkTrafficManager \<Rightarrow> PrioritizedMessage list \<times> NetworkTrafficManager" where
  "GetMessagesToSend now maxCount t =
     (if \<not> tm_initialized t then ([], t)
      else case PopMessages now maxCount (tm_priorityQueue t) of (ms, q) \<Rightarrow>
        (ms, UpdateTrafficStats now (fold count_sent ms (t\<lparr>tm_priorityQueue := q\<rparr>))))"

definition MarkMessageSent :: "u32 \<Rightarrow> NetworkTrafficManager \<Rightarrow> NetworkTrafficManager" where
  "MarkMessageSent messageId t = t"

definition MarkMessageFailed :: "u32 \<Rightarrow> NetworkTrafficManager \<Rightarrow> NetworkTrafficManager" where
  "MarkMessageFailed messageId t =
     t\<lparr>tm_stats := (tm_stats t)\<lparr>ts_messagesRetried := ts_messagesRetried (tm_stats t) + 1\<rparr>\<rparr>"

definition SetBandwidthLimit :: "u64 \<Rightarrow> NetworkTrafficManager \<Rightarrow> NetworkTrafficManager" where
  "SetBandwidthLimit n t = t\<lparr>tm_bandwidthLimit := n\<rparr>"

definition SetMessageRateLimit :: "u64 \<Rightarrow> NetworkTrafficManager \<Rightarrow> NetworkTrafficManager" where
  "SetMessageRateLimit n t = t\<lparr>tm_messageRateLimit := n\<rparr>"

definition EnableTrafficShaping :: "bool \<Rightarrow> NetworkTrafficManager \<Rightarrow> NetworkTrafficManager" where
  "EnableTrafficShaping enable t = t\<lparr>tm_trafficShapingEnabled := enable\<rparr>"

definition SetCongestionThreshold :: "flt \<Rightarrow> NetworkTrafficManager \<Rightarrow> NetworkTrafficManager" where
  "SetCongestionThreshold threshold t = t\<lparr>tm_congestionThreshold := threshold\<rparr>"

definition on_queue ::
    "(MessagePriorityQueue \<Rightarrow> MessagePriorityQueue) \<Rightarrow> NetworkTrafficManager \<Rightarrow> NetworkTrafficManager" where
  "on_queue f t = t\<lparr>tm_priorityQueue := f (tm_priorityQueue t)\<rparr>"

definition SetMessagePriority ::
    "PriorityTypes \<Rightarrow> u32 \<Rightarrow> MessagePriority \<Rightarrow> NetworkTrafficManager \<Rightarrow> NetworkTrafficManager" where
  "SetMessagePriority T ty p = on_queue (SetPriority T ty p)"

definition SetMessageUrgency ::
    "PriorityTypes \<Rightarrow> u32 \<Rightarrow> MessageUrgency \<Rightarrow> NetworkTrafficManager \<Rightarrow> NetworkTrafficManager" where
  "SetMessageUrgency T ty u = on_queue (SetUrgency T ty u)"

definition SetMessageClassification ::
    "u32 \<Rightarrow> MessageClassification \<Rightarrow> NetworkTrafficManager \<Rightarrow> NetworkTrafficManager" where
  "SetMessageClassification ty c = on_queue (SetClassification ty c)"

definition Traffic_SetConfig ::
    "(u32, MessageClassification) omap \<Rightarrow> NetworkTrafficManager \<Rightarrow> NetworkTrafficManager" where
  "Traffic_SetConfig cs = on_queue (fold (\<lambda>(ty, c). SetClassification ty c) cs)"

definition Traffic_GetStats :: "NetworkTrafficManager \<Rightarrow> TrafficStats" where
  "Traffic_GetStats t = tm_stats t"

definition Traffic_ResetStats :: "NetworkTrafficManager \<Rightarrow> NetworkTrafficManager" where
  "Traffic_ResetStats t = t\<lparr>tm_stats := TrafficStats_Reset\<rparr>"

definition CleanupExpiredMessages :: "time_point \<Rightarrow> NetworkTrafficManager \<Rightarrow> NetworkTrafficManager" where
  "CleanupExpiredMessages now t =
     (case PopExpiredMessages now (tm_priorityQueue t) of (ms, q) \<Rightarrow>
        t\<lparr>tm_priorityQueue := q,
          tm_stats := fold (\<lambda>m st. st\<lparr>ts_bytesDropped := ts_bytesDropped st + data_size m\<rparr>) ms
            ((tm_stats t)\<lparr>ts_messagesDropped := ts_messagesDropped (tm_stats t) + of_nat (length ms)\<rparr>)\<rparr>)"

section \<open>Priority utilities\<close>

definition CalculateImportance :: "PrioritizedMessage \<Rightarrow> flt" where
  "CalculateImportance m = pm_importance m"

definition CalculateUrgency :: "PrioritizedMessage \<Rightarrow> flt" where
  "CalculateUrgency m =
     add32 (sub32 (Fin 1) (div32 (f32_of_nat (urgency_code (pm_urgency m))) (Fin 4)))
       (f_min (div32 (pm_age m) (mc_timeToLive (pm_classification m))) (Fin 1))"

definition IsHigherPriority :: "PrioritizedMessage \<Rightarrow> PrioritizedMessage \<Rightarrow> bool" where
  "IsHigherPriority a b \<longleftrightarrow>
     (if pm_priority a \<noteq> pm_priority b then priority_code (pm_priority a) < priority_code (pm_priority b)
      else f_lt (pm_importance b) (pm_importance a))"

definition IsMoreUrgent :: "PrioritizedMessage \<Rightarrow> PrioritizedMessage \<Rightarrow> bool" where
  "IsMoreUrgent a b \<longleftrightarrow>
     (if pm_urgency a \<noteq> pm_urgency b then urgency_code (pm_urgency a) < urgency_code (pm_urgency b)
      else f_lt (pm_age b) (pm_age a))"

definition FilterByPriority :: "MessagePriority \<Rightarrow> PrioritizedMessage list \<Rightarrow> PrioritizedMessage list" where
  "FilterByPriority p ms = filter (\<lambda>m. pm_priority m = p) ms"

definition FilterByUrgency :: "MessageUrgency \<Rightarrow> PrioritizedMessage list \<Rightarrow> PrioritizedMessage list" where
  "FilterByUrgency u ms = filter (\<lambda>m. pm_urgency m = u) ms"

definition FilterByAge :: "flt \<Rightarrow> PrioritizedMessage list \<Rightarrow> PrioritizedMessage list" where
  "FilterByAge maxAge ms = filter (\<lambda>m. f_le (pm_age m) maxAge) ms"

definition SortByPriority :: "PrioritizedMessage list \<Rightarrow> PrioritizedMessage list \<Rightarrow> bool" where
  "SortByPriority = sorts_to (\<lambda>a b. priority_code (pm_priority a) < priority_code (pm_priority b))"

definition SortByUrgency :: "PrioritizedMessage list \<Rightarrow> PrioritizedMessage list \<Rightarrow> bool" where
  "SortByUrgency = sorts_to (\<lambda>a b. urgency_code (pm_urgency a) < urgency_code (pm_urgency b))"

definition SortByImportance :: "PrioritizedMessage list \<Rightarrow> PrioritizedMessage list \<Rightarrow> bool" where
  "SortByImportance = sorts_to (\<lambda>a b. f_lt (pm_importance b) (pm_importance a))"

definition SortByAge :: "PrioritizedMessage list \<Rightarrow> PrioritizedMessage list \<Rightarrow> bool" where
  "SortByAge = sorts_to (\<lambda>a b. f_lt (pm_age b) (pm_age a))"

end
