(* ===== verification/MessagePriorityProps.thy ===== *)
theory MessagePriorityProps
  imports MessagePriority
begin

text \<open>
  Properties of the priority queue and the traffic manager: the queue is an instance of
  \<open>ranked_queue\<close> with priority and urgency as the rank, it never holds more than its maximum, and
  the traffic manager loses no message without counting it.
\<close>

section \<open>The queue as a ranked queue\<close>

definition msg_rank :: "PrioritizedMessage \<Rightarrow> nat" where
  "msg_rank m = 5 * priority_code (pm_priority m) + urgency_code (pm_urgency m)"

lemma codes_inject [simp]:
  "priority_code p = priority_code p' \<longleftrightarrow> p = p'" "urgency_code u = urgency_code u' \<longleftrightarrow> u = u'"
  by (cases p; cases p'; simp) (cases u; cases u'; simp)

lemma code_bounds: "priority_code p < 5" "urgency_code u < 5"
  by (cases p; simp) (cases u; simp)

lemma comparator_rank: "rank_ok msg_rank MessageComparator"
  unfolding rank_ok_def
proof (intro allI conjI impI)
  fix a b
  note u = code_bounds(2) [of "pm_urgency a"] code_bounds(2) [of "pm_urgency b"]
  show "MessageComparator a b" if "msg_rank b < msg_rank a"
  proof (cases "pm_priority a = pm_priority b")
    case True
    with that show ?thesis by (auto simp: MessageComparator_def msg_rank_def)
  next
    case False
    then have "priority_code (pm_priority a) \<noteq> priority_code (pm_priority b)" by simp
    with that u have "priority_code (pm_priority b) < priority_code (pm_priority a)"
      unfolding msg_rank_def by linarith
    with False show ?thesis by (simp add: MessageComparator_def)
  qed
  show "msg_rank b \<le> msg_rank a" if "MessageComparator a b"
    using that u by (auto simp: MessageComparator_def msg_rank_def split: if_splits)
qed

interpretation mq: ranked_queue "pq_push MessageComparator" pq_top "pq_pop MessageComparator" mset
  "rank_heap msg_rank" msg_rank
  by (rule heap_ranked_queue [OF comparator_rank])

text \<open>
  The comparator is no strict weak order: importances that differ by at most 0.01 count as equal,
  and this is not transitive.
\<close>

lemma comparator_not_transitive:
  fixes m :: PrioritizedMessage
  defines "with_importance x \<equiv> m\<lparr>pm_classification := (pm_classification m)\<lparr>mc_importance := Fin x\<rparr>\<rparr>"
  assumes "pm_age m = Fin 0"
  shows "\<not> MessageComparator (with_importance 0) (with_importance (1 / 128))" "\<not> MessageComparator (with_importance (1 / 128)) (with_importance (1 / 64))"
    "MessageComparator (with_importance 0) (with_importance (1 / 64))"
proof -
  have f: "sub32 (Fin 0) (Fin (1 / 128)) = Fin (- 1 / 128)" "sub32 (Fin (1 / 128)) (Fin (1 / 64)) = Fin (- 1 / 128)"
    "sub32 (Fin 0) (Fin (1 / 64)) = Fin (- 1 / 64)"
    "f_lt (rnd32 (1 / 100)) (Fin (1 / 128)) = False" "f_lt (rnd32 (1 / 100)) (Fin (1 / 64)) = True"
    by code_simp+
  show "\<not> MessageComparator (with_importance 0) (with_importance (1 / 128))" "\<not> MessageComparator (with_importance (1 / 128)) (with_importance (1 / 64))"
    "MessageComparator (with_importance 0) (with_importance (1 / 64))"
    by (simp_all add: MessageComparator_def with_importance_def f f_abs_def assms(2))
qed

lemma rank_UpdateMessageAge [simp]: "msg_rank (UpdateMessageAge now m) = msg_rank m"
  by (simp add: msg_rank_def UpdateMessageAge_def)

lemma UpdateMessageAge_idem [simp]: "UpdateMessageAge now (UpdateMessageAge past m) = UpdateMessageAge now m"
  by (simp add: UpdateMessageAge_def)

lemma pop_front_stats [simp]: "pq_maxQueueSize (snd (pop_front now q)) = pq_maxQueueSize q"
  by (simp add: pop_front_def Let_def)

lemma PopMessages_drain:
  "PopMessages now n q = (ms, r) \<Longrightarrow>
     \<exists>xs. drain pq_top (pq_pop MessageComparator) (min n (length (pq_queue q))) (pq_queue q) = (xs, pq_queue r)
       \<and> ms = map (UpdateMessageAge now) xs \<and> pq_maxQueueSize r = pq_maxQueueSize q"
proof (induction n arbitrary: q ms)
  case 0
  then show ?case by simp
next
  case (Suc n)
  show ?case
  proof (cases "pq_queue q")
    case Nil
    with Suc.prems show ?thesis by simp
  next
    case (Cons a as)
    let ?q = "snd (pop_front now q)"
    obtain ns where ns: "PopMessages now n ?q = (ns, r)" "ms = fst (pop_front now q) # ns"
      using Suc.prems Cons by (cases "pop_front now q") (auto split: prod.splits)
    obtain xs where xs: "drain pq_top (pq_pop MessageComparator) (min n (length (pq_queue ?q))) (pq_queue ?q) = (xs, pq_queue r)"
      "ns = map (UpdateMessageAge now) xs" "pq_maxQueueSize r = pq_maxQueueSize ?q"
      using Suc.IH [OF ns(1)] by blast
    have "min (Suc n) (length (pq_queue q)) = Suc (min n (length (pq_queue ?q)))" using Cons by simp
    then show ?thesis using xs ns by simp
  qed
qed

lemma PopMessages_effect:
  assumes "rank_heap msg_rank (pq_queue q)" "PopMessages now n q = (ms, r)"
  shows "rank_heap msg_rank (pq_queue r)" "length ms = min n (length (pq_queue q))"
    "length (pq_queue q) = length ms + length (pq_queue r)" "pq_maxQueueSize r = pq_maxQueueSize q"
    "image_mset (UpdateMessageAge now) (mset (pq_queue q))
       = mset ms + image_mset (UpdateMessageAge now) (mset (pq_queue r))"
    "sorted_wrt (\<lambda>a b. msg_rank a \<le> msg_rank b) ms"
    "\<forall>a\<in>set ms. \<forall>b\<in>set (pq_queue r). msg_rank a \<le> msg_rank b"
proof -
  let ?n = "min n (length (pq_queue q))"
  obtain xs where xs: "drain pq_top (pq_pop MessageComparator) ?n (pq_queue q) = (xs, pq_queue r)"
    "ms = map (UpdateMessageAge now) xs" "pq_maxQueueSize r = pq_maxQueueSize q"
    using PopMessages_drain [OF assms(2)] by blast
  have "?n \<le> size (mset (pq_queue q))" by simp
  note d = mq.drain_best [OF assms(1) this xs(1)]
  show "rank_heap msg_rank (pq_queue r)" "length ms = ?n" "pq_maxQueueSize r = pq_maxQueueSize q"
    using d xs by simp_all
  show "length (pq_queue q) = length ms + length (pq_queue r)"
  proof -
    have "size (mset (pq_queue q)) = size (mset xs + mset (pq_queue r))" using d by metis
    then show ?thesis using xs(2) by simp
  qed
  show "image_mset (UpdateMessageAge now) (mset (pq_queue q))
       = mset ms + image_mset (UpdateMessageAge now) (mset (pq_queue r))"
    using d xs by simp
  show "sorted_wrt (\<lambda>a b. msg_rank a \<le> msg_rank b) ms"
    using d xs by (simp add: sorted_wrt_map)
  show "\<forall>a\<in>set ms. \<forall>b\<in>set (pq_queue r). msg_rank a \<le> msg_rank b"
    using d xs by simp
qed

section \<open>The loops that put messages back\<close>

lemma push_back_all_queue:
  "rank_heap msg_rank (pq_queue q) \<Longrightarrow> rank_heap msg_rank (pq_queue (push_back_all ms q))"
  "length (pq_queue (push_back_all ms q)) = length (pq_queue q) + length ms"
  "mset (pq_queue (push_back_all ms q)) = mset (pq_queue q) + mset ms"
  "pq_maxQueueSize (push_back_all ms q) = pq_maxQueueSize q"
proof -
  have *: "rank_heap msg_rank xs \<Longrightarrow> rank_heap msg_rank (fold (pq_push MessageComparator) ms xs)"
    "length (fold (pq_push MessageComparator) ms xs) = length xs + length ms"
    "mset (fold (pq_push MessageComparator) ms xs) = mset xs + mset ms" for xs
    by (induction ms arbitrary: xs) (simp_all add: mq.ok_push mq.contents_push)
  show "rank_heap msg_rank (pq_queue q) \<Longrightarrow> rank_heap msg_rank (pq_queue (push_back_all ms q))"
    "length (pq_queue (push_back_all ms q)) = length (pq_queue q) + length ms"
    "mset (pq_queue (push_back_all ms q)) = mset (pq_queue q) + mset ms"
    "pq_maxQueueSize (push_back_all ms q) = pq_maxQueueSize q"
    by (simp_all add: push_back_all_def *)
qed

text \<open>Both loops only move messages from the queue to the two lists.\<close>

definition moved :: "time_point \<Rightarrow> MessagePriorityQueue \<Rightarrow> PrioritizedMessage list \<Rightarrow> PrioritizedMessage list \<Rightarrow>
    MessagePriorityQueue \<Rightarrow> bool" where
  "moved now q taken back r \<longleftrightarrow>
     image_mset (UpdateMessageAge now) (mset (pq_queue q))
       = image_mset (UpdateMessageAge now) (mset (pq_queue r) + mset taken + mset back)
     \<and> (rank_heap msg_rank (pq_queue q) \<longrightarrow> rank_heap msg_rank (pq_queue r))
     \<and> pq_maxQueueSize r = pq_maxQueueSize q"

lemma pq_queue_pop_front:
  assumes "pq_queue q \<noteq> []"
  shows "image_mset (UpdateMessageAge now) (mset (pq_queue q))
     = add_mset (fst (pop_front now q)) (image_mset (UpdateMessageAge now) (mset (pq_queue (snd (pop_front now q)))))"
    "rank_heap msg_rank (pq_queue q) \<Longrightarrow> rank_heap msg_rank (pq_queue (snd (pop_front now q)))"
  using mq.contents_pop [of "pq_queue q"] mq.ok_pop [of "pq_queue q"] assms by simp_all

lemma moved_refl: "moved now q [] [] q"
  by (simp add: moved_def)

lemma moved_size:
  "moved now q taken back r \<Longrightarrow> length (pq_queue q) = length (pq_queue r) + length taken + length back"
  by (auto simp: moved_def dest: arg_cong [of _ _ size])

lemma moved_step:
  assumes "moved now q taken back r" "pq_queue r \<noteq> []"
    "m = fst (pop_front now r)" "pq_queue r' = pq_queue (snd (pop_front now r))"
    "pq_maxQueueSize r' = pq_maxQueueSize r"
  shows "moved now q (taken @ [m]) back r' \<and> moved now q taken (back @ [m]) r'"
  using assms pq_queue_pop_front [OF assms(2), of now] by (auto simp: moved_def)

lemma moved_pop_front:
  assumes "moved now q taken back r" "pq_queue r \<noteq> []"
  shows "moved now q (taken @ [UpdateMessageAge now (pq_top (pq_queue r))]) back (snd (pop_front now r))"
    "moved now q taken (back @ [UpdateMessageAge now (pq_top (pq_queue r))]) (snd (pop_front now r))"
  using moved_step [OF assms refl refl] by simp_all

lemma moved_stats [simp]: "moved now q taken back (r\<lparr>pq_stats := s\<rparr>) = moved now q taken back r"
  by (simp add: moved_def)

lemma pop_by_priority_moved:
  "moved now q0 ms temp q \<Longrightarrow> pop_by_priority now p n ms temp q = (ms', temp', r) \<Longrightarrow> moved now q0 ms' temp' r"
proof (induction now p n ms temp q rule: pop_by_priority.induct)
  case (1 now p n ms temp q)
  show ?case
  proof (cases "pq_queue q = []")
    case True
    with 1(3,4) show ?thesis by (subst (asm) pop_by_priority.simps) simp
  next
    case False
    note step = moved_pop_front [OF 1(3) False]
    show ?thesis
      using 1(1) [OF False refl refl] 1(2) [OF False refl refl] 1(4) False step
      by (subst (asm) pop_by_priority.simps) (auto simp: Let_def split: if_splits)
  qed
qed

lemma pop_expired_moved:
  "moved now q0 ms temp q \<Longrightarrow> pop_expired now ms temp q = (ms', temp', r) \<Longrightarrow> moved now q0 ms' temp' r"
proof (induction now ms temp q rule: pop_expired.induct)
  case (1 now ms temp q)
  show ?case
  proof (cases "pq_queue q = []")
    case True
    with 1(3,4) show ?thesis by (subst (asm) pop_expired.simps) simp
  next
    case False
    note step = moved_pop_front [OF 1(3) False]
    show ?thesis
      using 1(1) [OF False refl refl refl] 1(2) [OF False refl refl refl] 1(4) False step
      by (subst (asm) pop_expired.simps) (auto simp: Let_def split: if_splits)
  qed
qed

section \<open>Every sequence of queue operations\<close>

datatype QueueOp =
    QPush time_point PrioritizedMessage
  | QPop time_point
  | QPopMessages time_point nat
  | QPopByPriority time_point MessagePriority nat
  | QPopExpired time_point
  | QClear
  | QSetPriority u32 MessagePriority
  | QSetUrgency u32 MessageUrgency
  | QSetClassification u32 MessageClassification
  | QResetStats

fun queue_step :: "PriorityTypes \<Rightarrow> QueueOp \<Rightarrow> MessagePriorityQueue \<Rightarrow> MessagePriorityQueue option" where
  "queue_step T (QPush now m) q = Some (PushMessage now m q)"
| "queue_step T (QPop now) q = Some (snd (PopMessage T now q))"
| "queue_step T (QPopMessages now n) q = Some (snd (PopMessages now n q))"
| "queue_step T (QPopByPriority now p n) q = Some (snd (PopMessagesByPriority now p n q))"
| "queue_step T (QPopExpired now) q = Some (snd (PopExpiredMessages now q))"
| "queue_step T QClear q = Some (Clear q)"
| "queue_step T (QSetPriority ty p) q = Some (SetPriority T ty p q)"
| "queue_step T (QSetUrgency ty u) q = Some (SetUrgency T ty u q)"
| "queue_step T (QSetClassification ty c) q = Some (SetClassification ty c q)"
| "queue_step T QResetStats q = Some (PQ_ResetStats q)"

definition queue_ok :: "MessagePriorityQueue \<Rightarrow> bool" where
  "queue_ok q \<longleftrightarrow> rank_heap msg_rank (pq_queue q) \<and> length (pq_queue q) \<le> 1000 \<and> pq_maxQueueSize q = 1000"

lemma queue_ok_new: "queue_ok MessagePriorityQueue_new"
  by (simp add: queue_ok_def MessagePriorityQueue_new_def rank_heap_def)

lemma queue_ok_push: "queue_ok q \<Longrightarrow> queue_ok (PushMessage now m q)"
  by (auto simp: queue_ok_def PushMessage_def Let_def mq.ok_push)

lemma queue_ok_pop_front: "queue_ok q \<Longrightarrow> pq_queue q \<noteq> [] \<Longrightarrow> queue_ok (snd (pop_front now q))"
  using mq.ok_pop by (auto simp: queue_ok_def)

lemma queue_ok_moved: "queue_ok q \<Longrightarrow> moved now q ms temp r \<Longrightarrow> queue_ok (push_back_all temp r)"
  using moved_size [of now q ms temp r] push_back_all_queue
  by (auto simp: queue_ok_def moved_def)

lemma queue_ok_Pops:
  assumes "queue_ok q"
  shows "queue_ok (snd (PopMessages now n q))" "queue_ok (snd (PopMessagesByPriority now p n q))"
    "queue_ok (snd (PopExpiredMessages now q))"
proof -
  obtain ms r where "PopMessages now n q = (ms, r)" by force
  then show "queue_ok (snd (PopMessages now n q))"
    using PopMessages_effect [of q now n ms r] assms by (simp add: queue_ok_def)
  obtain ms temp r where p: "pop_by_priority now p n [] [] q = (ms, temp, r)" by (metis prod_cases3)
  show "queue_ok (snd (PopMessagesByPriority now p n q))"
    using queue_ok_moved [OF assms pop_by_priority_moved [OF moved_refl p]]
    by (simp add: PopMessagesByPriority_def p)
  obtain ms temp r where e: "pop_expired now [] [] q = (ms, temp, r)" by (metis prod_cases3)
  show "queue_ok (snd (PopExpiredMessages now q))"
    using queue_ok_moved [OF assms pop_expired_moved [OF moved_refl e]]
    by (simp add: PopExpiredMessages_def e)
qed

lemma queue_step_ok: "queue_ok q \<Longrightarrow> queue_step T x q = Some r \<Longrightarrow> queue_ok r"
proof (cases x)
  case (QPop now)
  then show "queue_ok q \<Longrightarrow> queue_step T x q = Some r \<Longrightarrow> queue_ok r"
    using queue_ok_pop_front [of q now] by (auto simp: PopMessage_def)
qed (auto simp: queue_ok_push queue_ok_Pops, auto simp: queue_ok_def Clear_def rank_heap_def SetPriority_def
    SetUrgency_def SetClassification_def PQ_ResetStats_def Let_def)

interpretation queue_runs: step_system "queue_step T" queue_ok "\<lambda>_. True" for T
  by unfold_locales (rule queue_step_ok)

text \<open>
  C21. Urgent messages first, whatever happened to the queue before: it never holds more than 1000
  messages, and \<open>PopMessages\<close> hands out as many as asked for while there are any, in the order of
  priority and urgency, with nothing better left behind and no message lost or invented.
\<close>

theorem pops_best_first:
  assumes "run (queue_step T) ops MessagePriorityQueue_new = Some q" "PopMessages now n q = (ms, r)"
  shows "length (pq_queue q) \<le> 1000
     \<and> length ms = min n (length (pq_queue q))
     \<and> image_mset (UpdateMessageAge now) (mset (pq_queue q))
         = mset ms + image_mset (UpdateMessageAge now) (mset (pq_queue r))
     \<and> sorted_wrt (\<lambda>a b. msg_rank a \<le> msg_rank b) ms
     \<and> (\<forall>a\<in>set ms. \<forall>b\<in>set (pq_queue r). msg_rank a \<le> msg_rank b)"
proof -
  have "queue_ok q" using queue_runs.run_inv [OF queue_ok_new _ assms(1)] by (simp add: list_all_iff)
  then have "rank_heap msg_rank (pq_queue q)" "length (pq_queue q) \<le> 1000" by (simp_all add: queue_ok_def)
  note e = PopMessages_effect [OF this(1) assms(2)]
  show ?thesis using \<open>length (pq_queue q) \<le> 1000\<close> e(2,5-7) by (intro conjI)
qed

definition demo_message :: "u32 \<Rightarrow> MessagePriority \<Rightarrow> PrioritizedMessage" where
  "demo_message i p =
     \<lparr>pm_messageId = i, pm_type = 12, pm_data = [1, 2],
      pm_classification = MessageClassification_new\<lparr>mc_priority := p\<rparr>, pm_timestamp = 0,
      pm_retryCount = 0, pm_age = Fin 0\<rparr>"

definition demo_types :: PriorityTypes where
  "demo_types = \<lparr>combatTypes = [14], movementTypes = [12], inventoryTypes = [16], effectTypes = [31],
     invalidType = 101\<rparr>"

definition demo_queue :: MessagePriorityQueue where
  "demo_queue = PushMessage 3 (demo_message 3 High) (PushMessage 2 (demo_message 2 Critical)
     (PushMessage 1 (demo_message 1 Background) MessagePriorityQueue_new))"

theorem pops_best_first_witness:
  "length (pq_queue demo_queue) \<le> 1000 \<and> length (fst (PopMessages 5 2 demo_queue)) = min 2 (length (pq_queue demo_queue))"
proof -
  have "run (queue_step demo_types) [QPush 1 (demo_message 1 Background), QPush 2 (demo_message 2 Critical),
      QPush 3 (demo_message 3 High)] MessagePriorityQueue_new = Some demo_queue"
    by (simp add: demo_queue_def)
  moreover have "PopMessages 5 2 demo_queue = (fst (PopMessages 5 2 demo_queue), snd (PopMessages 5 2 demo_queue))"
    by simp
  ultimately show ?thesis
    using pops_best_first [where T = demo_types and q = demo_queue and now = 5 and n = 2] by blast
qed

section \<open>The books of the traffic manager\<close>

datatype TrafficOp =
    TProcess time_point PrioritizedMessage
  | TSend time_point nat
  | TCleanup time_point
  | TFailed u32
  | TSent u32
  | TInitialize
  | TShutdown
  | TBandwidth u64
  | TRate u64
  | TShaping bool
  | TThreshold flt
  | TPriority u32 MessagePriority
  | TUrgency u32 MessageUrgency
  | TClassification u32 MessageClassification
  | TConfig "(u32, MessageClassification) omap"
  | TResetStats

fun traffic_step :: "PriorityTypes \<Rightarrow> TrafficOp \<Rightarrow> NetworkTrafficManager \<Rightarrow> NetworkTrafficManager option" where
  "traffic_step T (TProcess now m) t = Some (ProcessMessage now m t)"
| "traffic_step T (TSend now n) t = Some (snd (GetMessagesToSend now n t))"
| "traffic_step T (TCleanup now) t = Some (CleanupExpiredMessages now t)"
| "traffic_step T (TFailed i) t = Some (MarkMessageFailed i t)"
| "traffic_step T (TSent i) t = Some (MarkMessageSent i t)"
| "traffic_step T TInitialize t = Some (snd (Traffic_Initialize T t))"
| "traffic_step T TShutdown t = Some (Traffic_Shutdown t)"
| "traffic_step T (TBandwidth n) t = Some (SetBandwidthLimit n t)"
| "traffic_step T (TRate n) t = Some (SetMessageRateLimit n t)"
| "traffic_step T (TShaping e) t = Some (EnableTrafficShaping e t)"
| "traffic_step T (TThreshold f) t = Some (SetCongestionThreshold f t)"
| "traffic_step T (TPriority ty p) t = Some (SetMessagePriority T ty p t)"
| "traffic_step T (TUrgency ty u) t = Some (SetMessageUrgency T ty u t)"
| "traffic_step T (TClassification ty c) t = Some (SetMessageClassification ty c t)"
| "traffic_step T (TConfig cs) t = Some (Traffic_SetConfig cs t)"
| "traffic_step T TResetStats t = Some (Traffic_ResetStats t)"

fun keeps_books :: "TrafficOp \<Rightarrow> bool" where
  "keeps_books TShutdown = False"
| "keeps_books TResetStats = False"
| "keeps_books _ = True"

definition dropped_by_queue :: "MessagePriorityQueue \<Rightarrow> u64" where
  "dropped_by_queue q = qs_droppedMessages (pq_stats q)"

definition balanced :: "NetworkTrafficManager \<Rightarrow> bool" where
  "balanced t \<longleftrightarrow>
     ts_totalMessagesProcessed (tm_stats t)
       = ts_messagesSent (tm_stats t) + ts_messagesDropped (tm_stats t)
         + of_nat (length (pq_queue (tm_priorityQueue t))) + dropped_by_queue (tm_priorityQueue t)"

lemma dropped_pop_front [simp]: "dropped_by_queue (snd (pop_front now q)) = dropped_by_queue q"
  by (simp add: dropped_by_queue_def pop_front_def Let_def)

lemma dropped_PopMessages:
  "PopMessages now n q = (ms, r) \<Longrightarrow>
     dropped_by_queue r = dropped_by_queue q \<and> length (pq_queue q) = length ms + length (pq_queue r)"
proof (induction n arbitrary: q ms)
  case 0
  then show ?case by simp
next
  case (Suc n)
  show ?case
  proof (cases "pq_queue q = []")
    case True
    with Suc.prems show ?thesis by simp
  next
    case False
    obtain ns where ns: "PopMessages now n (snd (pop_front now q)) = (ns, r)" "ms = fst (pop_front now q) # ns"
      using Suc.prems False by (cases "pop_front now q") (auto split: prod.splits)
    obtain a as where "pq_queue q = a # as" using False by (cases "pq_queue q") auto
    with Suc.IH [OF ns(1)] ns(2) show ?thesis by simp
  qed
qed

lemma dropped_pop_expired:
  "pop_expired now ms temp q = (ms', temp', r) \<Longrightarrow> dropped_by_queue r = dropped_by_queue q"
proof (induction now ms temp q rule: pop_expired.induct)
  case (1 now ms temp q)
  show ?case
  proof (cases "pq_queue q = []")
    case True
    with 1(3) show ?thesis by (subst (asm) pop_expired.simps) simp
  next
    case False
    have *: "dropped_by_queue (s\<lparr>pq_stats := (pq_stats s)\<lparr>qs_expiredMessages := k\<rparr>\<rparr>) = dropped_by_queue s" for s k
      by (simp add: dropped_by_queue_def)
    show ?thesis
      using 1(1) [OF False refl refl refl] 1(2) [OF False refl refl refl] 1(3) False
      by (subst (asm) pop_expired.simps) (auto simp: Let_def * split: if_splits)
  qed
qed

lemma PopExpired_books:
  assumes "PopExpiredMessages now q = (ms, r)"
  shows "dropped_by_queue r = dropped_by_queue q" "length (pq_queue q) = length ms + length (pq_queue r)"
proof -
  obtain temp s where e: "pop_expired now [] [] q = (ms, temp, s)" "r = push_back_all temp s"
    using assms by (auto simp: PopExpiredMessages_def split: prod.splits)
  have "dropped_by_queue r = dropped_by_queue s" by (simp add: e(2) push_back_all_def dropped_by_queue_def)
  then show "dropped_by_queue r = dropped_by_queue q" using dropped_pop_expired [OF e(1)] by simp
  show "length (pq_queue q) = length ms + length (pq_queue r)"
    using moved_size [OF pop_expired_moved [OF moved_refl e(1)]] push_back_all_queue(2) [of temp s] e(2) by simp
qed

lemma count_sent_books:
  "ts_messagesSent (tm_stats (fold count_sent ms t)) = ts_messagesSent (tm_stats t) + of_nat (length ms)"
  "ts_totalMessagesProcessed (tm_stats (fold count_sent ms t)) = ts_totalMessagesProcessed (tm_stats t)"
  "ts_messagesDropped (tm_stats (fold count_sent ms t)) = ts_messagesDropped (tm_stats t)"
  "tm_priorityQueue (fold count_sent ms t) = tm_priorityQueue t"
  by (induction ms arbitrary: t) (simp_all add: count_sent_def)

lemma UpdateTrafficStats_balanced [simp]: "balanced (UpdateTrafficStats now t) = balanced t"
  by (simp add: balanced_def UpdateTrafficStats_def Let_def)

lemma balanced_frame:
  "tm_stats t' = tm_stats t \<Longrightarrow> length (pq_queue (tm_priorityQueue t')) = length (pq_queue (tm_priorityQueue t)) \<Longrightarrow>
     pq_stats (tm_priorityQueue t') = pq_stats (tm_priorityQueue t) \<Longrightarrow> balanced t' = balanced t"
  by (simp add: balanced_def dropped_by_queue_def)

lemma classifications_frame:
  "pq_queue (SetPriority T ty p q) = pq_queue q" "pq_stats (SetPriority T ty p q) = pq_stats q"
  "pq_queue (SetUrgency T ty u q) = pq_queue q" "pq_stats (SetUrgency T ty u q) = pq_stats q"
  "pq_queue (SetClassification ty c q) = pq_queue q" "pq_stats (SetClassification ty c q) = pq_stats q"
  by (simp_all add: SetPriority_def SetUrgency_def SetClassification_def Let_def)

lemma fold_classifications:
  "pq_queue (fold (\<lambda>x. SetClassification (f x) (g x)) xs q) = pq_queue q"
  "pq_stats (fold (\<lambda>x. SetClassification (f x) (g x)) xs q) = pq_stats q"
  by (induction xs arbitrary: q) (simp_all add: classifications_frame)

lemma fold_ops_balanced:
  "balanced (on_queue (fold (\<lambda>(ty, c). SetClassification ty c) cs) t) = balanced t"
  "balanced (on_queue (LoadDefaultConfigurations T) t) = balanced t"
proof -
  show "balanced (on_queue (fold (\<lambda>(ty, c). SetClassification ty c) cs) t) = balanced t"
    using fold_classifications [of fst snd cs "tm_priorityQueue t"]
    by (intro balanced_frame) (simp_all add: on_queue_def case_prod_beta')
  show "balanced (on_queue (LoadDefaultConfigurations T) t) = balanced t"
    by (intro balanced_frame)
      (simp_all add: on_queue_def LoadDefaultConfigurations_def fold_classifications [of "\<lambda>x. x" "\<lambda>_. c" for c])
qed

lemma ProcessMessage_balanced: "balanced t \<Longrightarrow> balanced (ProcessMessage now m t)"
  by (auto simp: balanced_def ProcessMessage_def PushMessage_def dropped_by_queue_def Let_def)

lemma GetMessagesToSend_balanced:
  assumes "balanced t"
  shows "balanced (snd (GetMessagesToSend now n t))"
proof -
  obtain ms q where p: "PopMessages now n (tm_priorityQueue t) = (ms, q)" by force
  have "balanced (fold count_sent ms (t\<lparr>tm_priorityQueue := q\<rparr>))"
    using assms dropped_PopMessages [OF p] by (simp add: balanced_def count_sent_books)
  with assms show ?thesis by (simp add: GetMessagesToSend_def p)
qed

lemma CleanupExpired_balanced:
  assumes "balanced t"
  shows "balanced (CleanupExpiredMessages now t)"
proof -
  obtain ms q where p: "PopExpiredMessages now (tm_priorityQueue t) = (ms, q)" by force
  have *: "ts_messagesSent (fold (\<lambda>m st. st\<lparr>ts_bytesDropped := ts_bytesDropped st + data_size m\<rparr>) ms s) = ts_messagesSent s"
    "ts_messagesDropped (fold (\<lambda>m st. st\<lparr>ts_bytesDropped := ts_bytesDropped st + data_size m\<rparr>) ms s) = ts_messagesDropped s"
    "ts_totalMessagesProcessed (fold (\<lambda>m st. st\<lparr>ts_bytesDropped := ts_bytesDropped st + data_size m\<rparr>) ms s)
       = ts_totalMessagesProcessed s" for s
    by (induction ms arbitrary: s) simp_all
  show ?thesis using assms PopExpired_books [OF p] by (simp add: balanced_def CleanupExpiredMessages_def p *)
qed

lemma traffic_step_balanced:
  assumes "balanced t" "keeps_books x" "traffic_step T x t = Some t'"
  shows "balanced t'"
proof (cases x)
  case TInitialize
  have "balanced (t\<lparr>tm_priorityQueue := LoadDefaultConfigurations T (tm_priorityQueue t), tm_initialized := True\<rparr>)
      = balanced (on_queue (LoadDefaultConfigurations T) t)"
    by (rule balanced_frame) (simp_all add: on_queue_def)
  with assms TInitialize show ?thesis by (auto simp: Traffic_Initialize_def fold_ops_balanced)
next
  case (TConfig cs)
  with assms have "t' = on_queue (fold (\<lambda>(ty, c). SetClassification ty c) cs) t"
    by (simp add: Traffic_SetConfig_def)
  with assms(1) show ?thesis by (simp only: fold_ops_balanced(1))
next
  case (TProcess now m)
  with assms show ?thesis by (auto simp: ProcessMessage_balanced)
next
  case (TSend now n)
  with assms show ?thesis by (auto simp: GetMessagesToSend_balanced)
next
  case (TCleanup now)
  with assms show ?thesis by (auto simp: CleanupExpired_balanced)
qed (use assms in \<open>auto simp: MarkMessageFailed_def MarkMessageSent_def SetBandwidthLimit_def SetMessageRateLimit_def
      EnableTrafficShaping_def SetCongestionThreshold_def SetMessagePriority_def SetMessageUrgency_def
      SetMessageClassification_def on_queue_def balanced_def dropped_by_queue_def classifications_frame\<close>)

interpretation books: step_system "traffic_step T" balanced keeps_books for T
  by unfold_locales (rule traffic_step_balanced)

text \<open>
  C22. No message unaccounted for: as long as nobody shuts the traffic manager down or resets its
  statistics, every message it was given is sent, dropped at the limits, dropped by the full queue,
  expired, or still waiting.
\<close>

theorem no_message_unaccounted:
  assumes "list_all keeps_books ops" "run (traffic_step T) ops (NetworkTrafficManager_new start) = Some t"
  shows "ts_totalMessagesProcessed (tm_stats t)
     = ts_messagesSent (tm_stats t) + ts_messagesDropped (tm_stats t)
       + of_nat (length (pq_queue (tm_priorityQueue t))) + qs_droppedMessages (pq_stats (tm_priorityQueue t))"
proof -
  have "balanced (NetworkTrafficManager_new start)"
    by (simp add: balanced_def NetworkTrafficManager_new_def MessagePriorityQueue_new_def TrafficStats_Reset_def
        QueueStats_Reset_def dropped_by_queue_def)
  then show ?thesis using books.run_inv [OF _ assms] by (simp add: balanced_def dropped_by_queue_def)
qed

definition demo_traffic_ops :: "TrafficOp list" where
  "demo_traffic_ops = [TInitialize, TRate 1, TProcess 0 (demo_message 1 High), TRate 0,
     TProcess 0 (demo_message 2 Low)]"

definition demo_traffic :: NetworkTrafficManager where
  "demo_traffic = the (run (traffic_step demo_types) demo_traffic_ops (NetworkTrafficManager_new 0))"

theorem no_message_unaccounted_witness:
  "ts_totalMessagesProcessed (tm_stats demo_traffic)
     = ts_messagesSent (tm_stats demo_traffic) + ts_messagesDropped (tm_stats demo_traffic)
       + of_nat (length (pq_queue (tm_priorityQueue demo_traffic)))
       + qs_droppedMessages (pq_stats (tm_priorityQueue demo_traffic))"
  by (rule no_message_unaccounted [where ops = demo_traffic_ops and T = demo_types and t = demo_traffic and start = 0])
    (simp_all add: demo_traffic_ops_def demo_traffic_def)

text \<open>
  The limits are checked when a message enters, against what was already sent: any number of
  messages that fit one by one is queued and then sent in one go.
\<close>

lemma limits_checked_on_entry:
  fixes now :: time_point
  assumes "tm_initialized t" "tm_messagesSentThisSecond t < tm_messageRateLimit t"
    "\<forall>m \<in> set ms. tm_bytesSentThisSecond t + data_size m \<le> tm_bandwidthLimit t"
    "length (pq_queue (tm_priorityQueue t)) + length ms \<le> unat (pq_maxQueueSize (tm_priorityQueue t))"
  defines "u \<equiv> fold (ProcessMessage now) ms t"
  defines "k \<equiv> length (pq_queue (tm_priorityQueue t)) + length ms"
  shows "length (fst (GetMessagesToSend now k u)) = k"
proof -
  have "tm_initialized (fold (ProcessMessage now) ms s)
      \<and> length (pq_queue (tm_priorityQueue (fold (ProcessMessage now) ms s)))
          = length (pq_queue (tm_priorityQueue s)) + length ms"
    if "tm_initialized s" "tm_messagesSentThisSecond s < tm_messageRateLimit s"
      "\<forall>m \<in> set ms. tm_bytesSentThisSecond s + data_size m \<le> tm_bandwidthLimit s"
      "length (pq_queue (tm_priorityQueue s)) + length ms \<le> unat (pq_maxQueueSize (tm_priorityQueue s))" for s
    using that
  proof (induction ms arbitrary: s)
    case Nil
    then show ?case by simp
  next
    case (Cons m ms)
    have p: "ProcessMessage now m s = s\<lparr>tm_stats := (tm_stats s)\<lparr>ts_totalMessagesProcessed :=
        ts_totalMessagesProcessed (tm_stats s) + 1\<rparr>, tm_priorityQueue := PushMessage now m (tm_priorityQueue s)\<rparr>"
      using Cons.prems by (simp add: ProcessMessage_def CanSendMessage_def)
    show ?case using Cons.IH [of "ProcessMessage now m s"] Cons.prems
      by (simp add: p) (simp add: PushMessage_def Let_def)
  qed
  from this [OF assms(1-4)] have u: "tm_initialized u" "length (pq_queue (tm_priorityQueue u)) = k"
    by (simp_all add: u_def k_def)
  obtain xs q where x: "PopMessages now k (tm_priorityQueue u) = (xs, q)" by force
  have "drain f g n (a :: PrioritizedMessage list) = (ys, b) \<Longrightarrow> length ys = n" for f g n a and ys :: "PrioritizedMessage list" and b
    by (induction n arbitrary: a ys) (auto split: prod.splits)
  then have "length xs = k" using PopMessages_drain [OF x] u(2) by (metis length_map min.idem)
  then show ?thesis using u(1) by (simp add: GetMessagesToSend_def x)
qed

end
