(* ===== verification/SharedStory.thy ===== *)
theory SharedStory
  imports Floats "HOL-Library.List_Lexorder" "HOL-Library.Char_ord"
begin

text \<open>
  \<open>SharedStoryMode.cpp\<close>: story sessions with a host and participants, the decisions and cutscenes
  they share, and the progression kept per session.  A pointer into \<open>m_storySessions\<close> is the
  session's id; the loops over decisions and cutscenes that stop at the first match are
  \<open>find\<close> with \<open>upd_first\<close>.  Callbacks are a flag per callback and a log of calls.
\<close>

section \<open>Data\<close>

datatype StoryModeType = MainCampaign | HeartsOfStone | BloodAndWine | CustomStory

fun story_code :: "StoryModeType \<Rightarrow> string" where
  "story_code MainCampaign = ''0''"
| "story_code HeartsOfStone = ''1''"
| "story_code BloodAndWine = ''2''"
| "story_code CustomStory = ''3''"

datatype StoryRole = Host | Participant | Spectator

record StoryDecision =
  dec_decisionId :: u32
  dec_questId :: string
  dec_dialogueId :: string
  dec_decisionText :: string
  dec_options :: "string list"
  dec_selectedOption :: u32
  dec_hostPlayerId :: u32
  dec_timestamp :: time_point
  dec_isCompleted :: bool

definition StoryDecision_new :: StoryDecision where
  "StoryDecision_new =
     \<lparr>dec_decisionId = 0, dec_questId = [], dec_dialogueId = [], dec_decisionText = [], dec_options = [],
      dec_selectedOption = 0, dec_hostPlayerId = 0, dec_timestamp = 0, dec_isCompleted = False\<rparr>"

record CutsceneSyncData =
  cut_cutsceneId :: u32
  cut_cutsceneName :: string
  cut_questId :: string
  cut_hostPlayerId :: u32
  cut_participants :: "u32 list"
  cut_startTime :: time_point
  cut_endTime :: time_point
  cut_isPlaying :: bool
  cut_canSkip :: bool
  cut_isSkipped :: bool

definition CutsceneSyncData_new :: CutsceneSyncData where
  "CutsceneSyncData_new =
     \<lparr>cut_cutsceneId = 0, cut_cutsceneName = [], cut_questId = [], cut_hostPlayerId = 0,
      cut_participants = [], cut_startTime = 0, cut_endTime = 0, cut_isPlaying = False,
      cut_canSkip = False, cut_isSkipped = False\<rparr>"

record StorySessionData =
  ses_sessionId :: u32
  ses_sessionName :: string
  ses_storyType :: StoryModeType
  ses_hostPlayerId :: u32
  ses_participants :: "u32 list"
  ses_playerRoles :: "(u32, StoryRole) omap"
  ses_currentQuestId :: string
  ses_currentLocation :: string
  ses_decisions :: "StoryDecision list"
  ses_cutscenes :: "CutsceneSyncData list"
  ses_startTime :: time_point
  ses_lastUpdate :: time_point
  ses_isActive :: bool

definition StorySessionData_new :: StorySessionData where
  "StorySessionData_new =
     \<lparr>ses_sessionId = 0, ses_sessionName = [], ses_storyType = MainCampaign, ses_hostPlayerId = 0,
      ses_participants = [], ses_playerRoles = [], ses_currentQuestId = [], ses_currentLocation = [],
      ses_decisions = [], ses_cutscenes = [], ses_startTime = 0, ses_lastUpdate = 0, ses_isActive = False\<rparr>"

record StoryProgressionData =
  prog_sessionId :: u32
  prog_storyType :: string
  prog_completedQuests :: "string list"
  prog_availableQuests :: "string list"
  prog_worldStates :: "(string, string) omap"
  prog_unlockedLocations :: "(string, string list) omap"
  prog_storyDecisions :: "StoryDecision list"
  prog_lastSave :: time_point

definition StoryProgressionData_new :: StoryProgressionData where
  "StoryProgressionData_new =
     \<lparr>prog_sessionId = 0, prog_storyType = [], prog_completedQuests = [], prog_availableQuests = [],
      prog_worldStates = [], prog_unlockedLocations = [], prog_storyDecisions = [], prog_lastSave = 0\<rparr>"

record StoryStats =
  sst_totalSessions :: u32
  sst_activeSessions :: u32
  sst_totalDecisions :: u32
  sst_totalCutscenes :: u32
  sst_completedStories :: u32
  sst_averageSessionTime :: flt
  sst_averageDecisionsPerSession :: flt
  sst_mostPopularStory :: u32

definition StoryStats_Reset :: StoryStats where
  "StoryStats_Reset =
     \<lparr>sst_totalSessions = 0, sst_activeSessions = 0, sst_totalDecisions = 0, sst_totalCutscenes = 0,
      sst_completedStories = 0, sst_averageSessionTime = Fin 0, sst_averageDecisionsPerSession = Fin 0,
      sst_mostPopularStory = 0\<rparr>"

datatype StoryCall =
    SessionCreated u32 u32
  | PlayerJoined u32 u32
  | PlayerLeft u32 u32
  | DecisionMade u32 u32 u32
  | CutsceneStarted u32 u32
  | CutsceneEnded u32 u32
  | StoryQuestCompleted u32 string

record SharedStoryMode =
  ssm_initialized :: bool
  ssm_storySessions :: "(u32, StorySessionData) omap"
  ssm_storyProgressions :: "(u32, StoryProgressionData) omap"
  ssm_maxSessionSize :: u32
  ssm_decisionTimeout :: flt
  ssm_cutsceneTimeout :: flt
  ssm_autoSaveEnabled :: bool
  ssm_autoSaveInterval :: flt
  ssm_stats :: StoryStats
  ssm_sessionCreatedCallback :: bool
  ssm_playerJoinedCallback :: bool
  ssm_playerLeftCallback :: bool
  ssm_decisionMadeCallback :: bool
  ssm_cutsceneStartedCallback :: bool
  ssm_cutsceneEndedCallback :: bool
  ssm_questCompletedCallback :: bool
  ssm_lastUpdateTime :: time_point
  ssm_lastAutoSave :: time_point
  ssm_nextSessionId :: u32
  ssm_nextDecisionId :: u32
  ssm_nextCutsceneId :: u32
  ssm_calls :: "StoryCall list"

definition SharedStoryMode_new :: "time_point \<Rightarrow> SharedStoryMode" where
  "SharedStoryMode_new now =
     \<lparr>ssm_initialized = False, ssm_storySessions = [], ssm_storyProgressions = [], ssm_maxSessionSize = 4,
      ssm_decisionTimeout = rnd32 30, ssm_cutsceneTimeout = rnd32 300, ssm_autoSaveEnabled = True,
      ssm_autoSaveInterval = rnd32 60, ssm_stats = StoryStats_Reset, ssm_sessionCreatedCallback = False,
      ssm_playerJoinedCallback = False, ssm_playerLeftCallback = False, ssm_decisionMadeCallback = False,
      ssm_cutsceneStartedCallback = False, ssm_cutsceneEndedCallback = False,
      ssm_questCompletedCallback = False, ssm_lastUpdateTime = now, ssm_lastAutoSave = now,
      ssm_nextSessionId = 1, ssm_nextDecisionId = 1, ssm_nextCutsceneId = 1, ssm_calls = []\<rparr>"

section \<open>Access\<close>

definition story_call :: "bool \<Rightarrow> StoryCall \<Rightarrow> SharedStoryMode \<Rightarrow> SharedStoryMode" where
  "story_call installed c s = (if installed then s\<lparr>ssm_calls := ssm_calls s @ [c]\<rparr> else s)"

definition GetStorySession :: "SharedStoryMode \<Rightarrow> u32 \<Rightarrow> StorySessionData option" where
  "GetStorySession s sessionId = om_find (ssm_storySessions s) sessionId"

text \<open>The guard \<open>!session || !session->isActive\<close> of most operations.\<close>

definition active_session :: "SharedStoryMode \<Rightarrow> u32 \<Rightarrow> StorySessionData option" where
  "active_session s sessionId =
     (case GetStorySession s sessionId of
        None \<Rightarrow> None | Some ses \<Rightarrow> if ses_isActive ses then Some ses else None)"

definition put_session :: "u32 \<Rightarrow> StorySessionData \<Rightarrow> SharedStoryMode \<Rightarrow> SharedStoryMode" where
  "put_session sessionId ses s = s\<lparr>ssm_storySessions := om_put sessionId ses (ssm_storySessions s)\<rparr>"

text \<open>\<open>auto& progression = m_storyProgressions[sessionId]\<close>, then a change of it.\<close>

definition upd_progression ::
    "u32 \<Rightarrow> (StoryProgressionData \<Rightarrow> StoryProgressionData) \<Rightarrow> SharedStoryMode \<Rightarrow> SharedStoryMode" where
  "upd_progression sessionId f s =
     s\<lparr>ssm_storyProgressions :=
         om_put sessionId (f (om_get StoryProgressionData_new (ssm_storyProgressions s) sessionId))
           (ssm_storyProgressions s)\<rparr>"

definition upd_stats :: "(StoryStats \<Rightarrow> StoryStats) \<Rightarrow> SharedStoryMode \<Rightarrow> SharedStoryMode" where
  "upd_stats f s = s\<lparr>ssm_stats := f (ssm_stats s)\<rparr>"

fun upd_first :: "('a \<Rightarrow> bool) \<Rightarrow> ('a \<Rightarrow> 'a) \<Rightarrow> 'a list \<Rightarrow> 'a list" where
  "upd_first P f [] = []"
| "upd_first P f (x # xs) = (if P x then f x # xs else x # upd_first P f xs)"

text \<open>An operation that changes an active session and fails on any other.\<close>

definition on_active ::
    "u32 \<Rightarrow> (StorySessionData \<Rightarrow> StorySessionData) \<Rightarrow> SharedStoryMode \<Rightarrow> bool \<times> SharedStoryMode" where
  "on_active sessionId f s =
     (case active_session s sessionId of
        None \<Rightarrow> (False, s) | Some ses \<Rightarrow> (True, put_session sessionId (f ses) s))"

section \<open>Sessions\<close>

definition Story_Initialize :: "SharedStoryMode \<Rightarrow> bool \<times> SharedStoryMode" where
  "Story_Initialize s = (True, s\<lparr>ssm_initialized := True\<rparr>)"

definition SaveStoryProgression :: "time_point \<Rightarrow> u32 \<Rightarrow> SharedStoryMode \<Rightarrow> bool \<times> SharedStoryMode" where
  "SaveStoryProgression now sessionId s =
     (case active_session s sessionId of
        None \<Rightarrow> (False, s)
      | Some _ \<Rightarrow> (True, upd_progression sessionId (\<lambda>p. p\<lparr>prog_lastSave := now\<rparr>) s))"

definition Story_Shutdown :: "time_point \<Rightarrow> SharedStoryMode \<Rightarrow> SharedStoryMode" where
  "Story_Shutdown now s =
     (if \<not> ssm_initialized s then s
      else
        let s1 = fold (\<lambda>(k, ses) t. if ses_isActive ses then snd (SaveStoryProgression now k t) else t)
                   (ssm_storySessions s) s
        in s1\<lparr>ssm_storySessions := [], ssm_storyProgressions := [], ssm_initialized := False\<rparr>)"

definition CreateStorySession ::
    "time_point \<Rightarrow> string \<Rightarrow> StoryModeType \<Rightarrow> u32 \<Rightarrow> SharedStoryMode \<Rightarrow> u32 \<times> SharedStoryMode" where
  "CreateStorySession now sessionName storyType hostPlayerId s =
     (if \<not> ssm_initialized s then (0, s)
      else
        let k = ssm_nextSessionId s;
            ses = StorySessionData_new\<lparr>ses_sessionId := k, ses_sessionName := sessionName,
              ses_storyType := storyType, ses_hostPlayerId := hostPlayerId,
              ses_participants := [hostPlayerId], ses_playerRoles := om_put hostPlayerId Host [],
              ses_startTime := now, ses_lastUpdate := now, ses_isActive := True\<rparr>;
            progression = StoryProgressionData_new\<lparr>prog_sessionId := k,
              prog_storyType := story_code storyType, prog_lastSave := now\<rparr>;
            s1 = put_session k ses (s\<lparr>ssm_nextSessionId := k + 1\<rparr>);
            s2 = upd_stats (\<lambda>st. st\<lparr>sst_totalSessions := sst_totalSessions st + 1,
                   sst_activeSessions := sst_activeSessions st + 1\<rparr>) s1;
            s3 = s2\<lparr>ssm_storyProgressions := om_put k progression (ssm_storyProgressions s2)\<rparr>
        in (k, story_call (ssm_sessionCreatedCallback s) (SessionCreated k hostPlayerId) s3))"

definition JoinStorySession ::
    "time_point \<Rightarrow> u32 \<Rightarrow> u32 \<Rightarrow> StoryRole \<Rightarrow> SharedStoryMode \<Rightarrow> bool \<times> SharedStoryMode" where
  "JoinStorySession now sessionId playerId role s =
     (case active_session s sessionId of
        None \<Rightarrow> (False, s)
      | Some ses \<Rightarrow>
          if unat (ssm_maxSessionSize s) \<le> length (ses_participants ses) then (False, s)
          else if playerId \<in> set (ses_participants ses) then (False, s)
          else (True, story_call (ssm_playerJoinedCallback s) (PlayerJoined sessionId playerId)
                 (put_session sessionId (ses\<lparr>ses_participants := ses_participants ses @ [playerId],
                    ses_playerRoles := om_put playerId role (ses_playerRoles ses),
                    ses_lastUpdate := now\<rparr>) s)))"

definition EndStorySession :: "time_point \<Rightarrow> u32 \<Rightarrow> SharedStoryMode \<Rightarrow> bool \<times> SharedStoryMode" where
  "EndStorySession now sessionId s =
     (case GetStorySession s sessionId of
        None \<Rightarrow> (False, s)
      | Some ses \<Rightarrow>
          let s1 = (if ssm_autoSaveEnabled s then snd (SaveStoryProgression now sessionId s) else s)
          in (True, upd_stats (\<lambda>st. st\<lparr>sst_activeSessions := sst_activeSessions st - 1\<rparr>)
                (put_session sessionId (ses\<lparr>ses_isActive := False\<rparr>) s1)))"

definition remove_player :: "time_point \<Rightarrow> u32 \<Rightarrow> StorySessionData \<Rightarrow> StorySessionData" where
  "remove_player now playerId ses =
     (let ses1 = ses\<lparr>ses_participants := remove1 playerId (ses_participants ses),
            ses_playerRoles := om_erase playerId (ses_playerRoles ses), ses_lastUpdate := now\<rparr>
      in if ses_hostPlayerId ses1 = playerId \<and> ses_participants ses1 \<noteq> []
         then let h = hd (ses_participants ses1)
              in ses1\<lparr>ses_hostPlayerId := h, ses_playerRoles := om_put h Host (ses_playerRoles ses1)\<rparr>
         else ses1)"

definition LeaveStorySession :: "time_point \<Rightarrow> u32 \<Rightarrow> u32 \<Rightarrow> SharedStoryMode \<Rightarrow> bool \<times> SharedStoryMode" where
  "LeaveStorySession now sessionId playerId s =
     (case GetStorySession s sessionId of
        None \<Rightarrow> (False, s)
      | Some ses \<Rightarrow>
          let ses1 = remove_player now playerId ses;
              s1 = put_session sessionId ses1 s;
              s2 = (if ses_participants ses1 = [] then snd (EndStorySession now sessionId s1) else s1)
          in (True, story_call (ssm_playerLeftCallback s2) (PlayerLeft sessionId playerId) s2))"

definition GetActiveSessions :: "SharedStoryMode \<Rightarrow> StorySessionData list" where
  "GetActiveSessions s = filter ses_isActive (om_values (ssm_storySessions s))"

definition GetPlayerSessions :: "SharedStoryMode \<Rightarrow> u32 \<Rightarrow> StorySessionData list" where
  "GetPlayerSessions s playerId =
     filter (\<lambda>ses. ses_isActive ses \<and> playerId \<in> set (ses_participants ses)) (om_values (ssm_storySessions s))"

section \<open>Progression\<close>

definition touch :: "time_point \<Rightarrow> StorySessionData \<Rightarrow> StorySessionData" where
  "touch now ses = ses\<lparr>ses_lastUpdate := now\<rparr>"

definition StartStoryQuest :: "time_point \<Rightarrow> u32 \<Rightarrow> string \<Rightarrow> SharedStoryMode \<Rightarrow> bool \<times> SharedStoryMode" where
  "StartStoryQuest now sessionId questId =
     on_active sessionId (\<lambda>ses. touch now (ses\<lparr>ses_currentQuestId := questId\<rparr>))"

definition CompleteStoryQuest :: "time_point \<Rightarrow> u32 \<Rightarrow> string \<Rightarrow> SharedStoryMode \<Rightarrow> bool \<times> SharedStoryMode" where
  "CompleteStoryQuest now sessionId questId s =
     (case active_session s sessionId of
        None \<Rightarrow> (False, s)
      | Some ses \<Rightarrow>
          let s1 = upd_progression sessionId (\<lambda>p. p\<lparr>
                prog_completedQuests := (if questId \<in> set (prog_completedQuests p) then prog_completedQuests p
                  else prog_completedQuests p @ [questId]),
                prog_availableQuests := remove1 questId (prog_availableQuests p)\<rparr>) s
          in (True, story_call (ssm_questCompletedCallback s) (StoryQuestCompleted sessionId questId)
                (put_session sessionId (touch now ses) s1)))"

definition AdvanceStoryProgression ::
    "time_point \<Rightarrow> u32 \<Rightarrow> string \<Rightarrow> SharedStoryMode \<Rightarrow> bool \<times> SharedStoryMode" where
  "AdvanceStoryProgression now sessionId nextQuestId s =
     (case active_session s sessionId of
        None \<Rightarrow> (False, s)
      | Some ses \<Rightarrow>
          (True, put_session sessionId (touch now ses)
             (upd_progression sessionId (\<lambda>p. p\<lparr>prog_availableQuests :=
                (if nextQuestId \<in> set (prog_availableQuests p) then prog_availableQuests p
                 else prog_availableQuests p @ [nextQuestId])\<rparr>) s)))"

definition SetStoryLocation :: "time_point \<Rightarrow> u32 \<Rightarrow> string \<Rightarrow> SharedStoryMode \<Rightarrow> bool \<times> SharedStoryMode" where
  "SetStoryLocation now sessionId locationId =
     on_active sessionId (\<lambda>ses. touch now (ses\<lparr>ses_currentLocation := locationId\<rparr>))"

section \<open>Decisions\<close>

definition PresentStoryDecision ::
    "time_point \<Rightarrow> u32 \<Rightarrow> StoryDecision \<Rightarrow> SharedStoryMode \<Rightarrow> bool \<times> SharedStoryMode" where
  "PresentStoryDecision now sessionId decision s =
     (case active_session s sessionId of
        None \<Rightarrow> (False, s)
      | Some ses \<Rightarrow>
          let copy = decision\<lparr>dec_decisionId := ssm_nextDecisionId s,
                dec_hostPlayerId := ses_hostPlayerId ses, dec_timestamp := now\<rparr>
          in (True, put_session sessionId (touch now (ses\<lparr>ses_decisions := ses_decisions ses @ [copy]\<rparr>))
                (s\<lparr>ssm_nextDecisionId := ssm_nextDecisionId s + 1\<rparr>)))"

definition CanPlayerMakeDecision :: "SharedStoryMode \<Rightarrow> u32 \<Rightarrow> u32 \<Rightarrow> bool" where
  "CanPlayerMakeDecision s sessionId playerId \<longleftrightarrow>
     (case GetStorySession s sessionId of None \<Rightarrow> False | Some ses \<Rightarrow> ses_hostPlayerId ses = playerId)"

definition pending :: "u32 \<Rightarrow> StoryDecision \<Rightarrow> bool" where
  "pending decisionId d \<longleftrightarrow> dec_decisionId d = decisionId \<and> \<not> dec_isCompleted d"

definition decide :: "u32 \<Rightarrow> StoryDecision \<Rightarrow> StoryDecision" where
  "decide optionIndex d = d\<lparr>dec_selectedOption := optionIndex, dec_isCompleted := True\<rparr>"

definition MakeStoryDecision ::
    "time_point \<Rightarrow> u32 \<Rightarrow> u32 \<Rightarrow> u32 \<Rightarrow> SharedStoryMode \<Rightarrow> bool \<times> SharedStoryMode" where
  "MakeStoryDecision now sessionId decisionId optionIndex s =
     (case active_session s sessionId of
        None \<Rightarrow> (False, s)
      | Some ses \<Rightarrow>
          (case find (pending decisionId) (ses_decisions ses) of
             None \<Rightarrow> (False, s)
           | Some d \<Rightarrow>
               if \<not> CanPlayerMakeDecision s sessionId (dec_hostPlayerId d) then (False, s)
               else
                 let ses1 = touch now (ses\<lparr>ses_decisions :=
                       upd_first (pending decisionId) (decide optionIndex) (ses_decisions ses)\<rparr>)
                 in (True, story_call (ssm_decisionMadeCallback s) (DecisionMade sessionId decisionId optionIndex)
                      (upd_progression sessionId (\<lambda>p. p\<lparr>prog_storyDecisions :=
                         prog_storyDecisions p @ [decide optionIndex d]\<rparr>) (put_session sessionId ses1 s)))))"

definition SkipStoryDecision :: "time_point \<Rightarrow> u32 \<Rightarrow> u32 \<Rightarrow> SharedStoryMode \<Rightarrow> bool \<times> SharedStoryMode" where
  "SkipStoryDecision now sessionId decisionId s =
     (case active_session s sessionId of
        None \<Rightarrow> (False, s)
      | Some ses \<Rightarrow>
          (case find (pending decisionId) (ses_decisions ses) of
             None \<Rightarrow> (False, s)
           | Some d \<Rightarrow> (True, put_session sessionId (touch now (ses\<lparr>ses_decisions :=
                upd_first (pending decisionId) (\<lambda>d. d\<lparr>dec_isCompleted := True\<rparr>) (ses_decisions ses)\<rparr>)) s)))"

definition GetStoryDecisions :: "SharedStoryMode \<Rightarrow> u32 \<Rightarrow> StoryDecision list" where
  "GetStoryDecisions s sessionId =
     (case GetStorySession s sessionId of None \<Rightarrow> [] | Some ses \<Rightarrow> ses_decisions ses)"

section \<open>Cutscenes\<close>

definition StartCutscene ::
    "time_point \<Rightarrow> u32 \<Rightarrow> string \<Rightarrow> string \<Rightarrow> SharedStoryMode \<Rightarrow> bool \<times> SharedStoryMode" where
  "StartCutscene now sessionId cutsceneName questId s =
     (case active_session s sessionId of
        None \<Rightarrow> (False, s)
      | Some ses \<Rightarrow>
          let k = ssm_nextCutsceneId s;
              cutscene = CutsceneSyncData_new\<lparr>cut_cutsceneId := k, cut_cutsceneName := cutsceneName,
                cut_questId := questId, cut_hostPlayerId := ses_hostPlayerId ses,
                cut_participants := ses_participants ses, cut_startTime := now, cut_isPlaying := True,
                cut_canSkip := True\<rparr>
          in (True, story_call (ssm_cutsceneStartedCallback s) (CutsceneStarted sessionId k)
                (put_session sessionId (touch now (ses\<lparr>ses_cutscenes := ses_cutscenes ses @ [cutscene]\<rparr>))
                  (s\<lparr>ssm_nextCutsceneId := k + 1\<rparr>))))"

text \<open>The loop that changes the first cutscene with the id for which the guard holds.\<close>

definition change_cutscene ::
    "time_point \<Rightarrow> u32 \<Rightarrow> u32 \<Rightarrow> (CutsceneSyncData \<Rightarrow> bool) \<Rightarrow> (CutsceneSyncData \<Rightarrow> CutsceneSyncData) \<Rightarrow>
       SharedStoryMode \<Rightarrow> bool \<times> SharedStoryMode" where
  "change_cutscene now sessionId cutsceneId guard f s =
     (case active_session s sessionId of
        None \<Rightarrow> (False, s)
      | Some ses \<Rightarrow>
          (case find (\<lambda>c. cut_cutsceneId c = cutsceneId \<and> guard c) (ses_cutscenes ses) of
             None \<Rightarrow> (False, s)
           | Some _ \<Rightarrow> (True, put_session sessionId (touch now (ses\<lparr>ses_cutscenes :=
                upd_first (\<lambda>c. cut_cutsceneId c = cutsceneId \<and> guard c) f (ses_cutscenes ses)\<rparr>)) s)))"

definition EndCutscene :: "time_point \<Rightarrow> u32 \<Rightarrow> u32 \<Rightarrow> SharedStoryMode \<Rightarrow> bool \<times> SharedStoryMode" where
  "EndCutscene now sessionId cutsceneId s =
     (case change_cutscene now sessionId cutsceneId cut_isPlaying
             (\<lambda>c. c\<lparr>cut_isPlaying := False, cut_endTime := now\<rparr>) s of
        (ok, s1) \<Rightarrow> (ok, if ok then story_call (ssm_cutsceneEndedCallback s) (CutsceneEnded sessionId cutsceneId) s1
                        else s1))"

definition SkipCutscene :: "time_point \<Rightarrow> u32 \<Rightarrow> u32 \<Rightarrow> SharedStoryMode \<Rightarrow> bool \<times> SharedStoryMode" where
  "SkipCutscene now sessionId cutsceneId =
     change_cutscene now sessionId cutsceneId (\<lambda>c. cut_isPlaying c \<and> cut_canSkip c)
       (\<lambda>c. c\<lparr>cut_isSkipped := True, cut_isPlaying := False, cut_endTime := now\<rparr>)"

definition PauseCutscene :: "time_point \<Rightarrow> u32 \<Rightarrow> u32 \<Rightarrow> SharedStoryMode \<Rightarrow> bool \<times> SharedStoryMode" where
  "PauseCutscene now sessionId cutsceneId =
     change_cutscene now sessionId cutsceneId cut_isPlaying (\<lambda>c. c\<lparr>cut_isPlaying := False\<rparr>)"

definition ResumeCutscene :: "time_point \<Rightarrow> u32 \<Rightarrow> u32 \<Rightarrow> SharedStoryMode \<Rightarrow> bool \<times> SharedStoryMode" where
  "ResumeCutscene now sessionId cutsceneId =
     change_cutscene now sessionId cutsceneId (\<lambda>c. \<not> cut_isPlaying c \<and> \<not> cut_isSkipped c)
       (\<lambda>c. c\<lparr>cut_isPlaying := True\<rparr>)"

definition GetCutsceneData :: "SharedStoryMode \<Rightarrow> u32 \<Rightarrow> u32 \<Rightarrow> CutsceneSyncData option" where
  "GetCutsceneData s sessionId cutsceneId =
     (case GetStorySession s sessionId of
        None \<Rightarrow> None | Some ses \<Rightarrow> find (\<lambda>c. cut_cutsceneId c = cutsceneId) (ses_cutscenes ses))"

section \<open>Synchronisation\<close>

text \<open>The three quest synchronisations only log and note the time.\<close>

definition SynchronizeQuestState :: "time_point \<Rightarrow> u32 \<Rightarrow> string \<Rightarrow> string \<Rightarrow> SharedStoryMode \<Rightarrow> bool \<times> SharedStoryMode" where
  "SynchronizeQuestState now sessionId questId state = on_active sessionId (touch now)"

definition SynchronizeQuestObjective ::
    "time_point \<Rightarrow> u32 \<Rightarrow> string \<Rightarrow> string \<Rightarrow> u32 \<Rightarrow> SharedStoryMode \<Rightarrow> bool \<times> SharedStoryMode" where
  "SynchronizeQuestObjective now sessionId questId objectiveId progress = on_active sessionId (touch now)"

definition SynchronizeQuestReward ::
    "time_point \<Rightarrow> u32 \<Rightarrow> string \<Rightarrow> u32 list \<Rightarrow> SharedStoryMode \<Rightarrow> bool \<times> SharedStoryMode" where
  "SynchronizeQuestReward now sessionId questId rewards = on_active sessionId (touch now)"

definition SynchronizeWorldState ::
    "time_point \<Rightarrow> u32 \<Rightarrow> string \<Rightarrow> string \<Rightarrow> SharedStoryMode \<Rightarrow> bool \<times> SharedStoryMode" where
  "SynchronizeWorldState now sessionId stateId v s =
     (case active_session s sessionId of
        None \<Rightarrow> (False, s)
      | Some ses \<Rightarrow>
          (True, put_session sessionId (touch now ses)
             (upd_progression sessionId (\<lambda>p. p\<lparr>prog_worldStates := om_put stateId v (prog_worldStates p)\<rparr>) s)))"

definition SynchronizeLocationState ::
    "time_point \<Rightarrow> u32 \<Rightarrow> string \<Rightarrow> string \<Rightarrow> SharedStoryMode \<Rightarrow> bool \<times> SharedStoryMode" where
  "SynchronizeLocationState now sessionId locationId state s =
     (case active_session s sessionId of
        None \<Rightarrow> (False, s)
      | Some ses \<Rightarrow>
          (True, put_session sessionId (touch now ses)
             (upd_progression sessionId (\<lambda>p. p\<lparr>prog_unlockedLocations :=
                om_put locationId (om_get [] (prog_unlockedLocations p) locationId @ [state])
                  (prog_unlockedLocations p)\<rparr>) s)))"

definition GetWorldStates :: "SharedStoryMode \<Rightarrow> u32 \<Rightarrow> (string, string) omap" where
  "GetWorldStates s sessionId =
     (case om_find (ssm_storyProgressions s) sessionId of None \<Rightarrow> [] | Some p \<Rightarrow> prog_worldStates p)"

section \<open>Players\<close>

definition SetPlayerRole :: "time_point \<Rightarrow> u32 \<Rightarrow> u32 \<Rightarrow> StoryRole \<Rightarrow> SharedStoryMode \<Rightarrow> bool \<times> SharedStoryMode" where
  "SetPlayerRole now sessionId playerId role s =
     (case active_session s sessionId of
        None \<Rightarrow> (False, s)
      | Some ses \<Rightarrow>
          if playerId \<notin> set (ses_participants ses) then (False, s)
          else (True, put_session sessionId
                 (touch now (ses\<lparr>ses_playerRoles := om_put playerId role (ses_playerRoles ses)\<rparr>)) s))"

definition TransferHost :: "time_point \<Rightarrow> u32 \<Rightarrow> u32 \<Rightarrow> u32 \<Rightarrow> SharedStoryMode \<Rightarrow> bool \<times> SharedStoryMode" where
  "TransferHost now sessionId fromPlayerId toPlayerId s =
     (case active_session s sessionId of
        None \<Rightarrow> (False, s)
      | Some ses \<Rightarrow>
          if ses_hostPlayerId ses \<noteq> fromPlayerId then (False, s)
          else if toPlayerId \<notin> set (ses_participants ses) then (False, s)
          else (True, put_session sessionId (touch now (ses\<lparr>ses_hostPlayerId := toPlayerId,
                 ses_playerRoles := om_put toPlayerId Host (om_put fromPlayerId Participant (ses_playerRoles ses))\<rparr>)) s))"

definition KickPlayer :: "time_point \<Rightarrow> u32 \<Rightarrow> u32 \<Rightarrow> SharedStoryMode \<Rightarrow> bool \<times> SharedStoryMode" where
  "KickPlayer now sessionId playerId s =
     (case active_session s sessionId of
        None \<Rightarrow> (False, s)
      | Some ses \<Rightarrow>
          if playerId \<notin> set (ses_participants ses) then (False, s)
          else (True, snd (LeaveStorySession now sessionId playerId s)))"

definition GetSessionParticipants :: "SharedStoryMode \<Rightarrow> u32 \<Rightarrow> u32 list" where
  "GetSessionParticipants s sessionId =
     (case GetStorySession s sessionId of None \<Rightarrow> [] | Some ses \<Rightarrow> ses_participants ses)"

definition LoadStoryProgression :: "u32 \<Rightarrow> SharedStoryMode \<Rightarrow> bool \<times> SharedStoryMode" where
  "LoadStoryProgression sessionId s = (active_session s sessionId \<noteq> None, s)"

definition ExportStoryData :: "u32 \<Rightarrow> string \<Rightarrow> SharedStoryMode \<Rightarrow> bool \<times> SharedStoryMode" where
  "ExportStoryData sessionId filePath s = (GetStorySession s sessionId \<noteq> None, s)"

definition ImportStoryData :: "u32 \<Rightarrow> string \<Rightarrow> SharedStoryMode \<Rightarrow> bool \<times> SharedStoryMode" where
  "ImportStoryData sessionId filePath s = (GetStorySession s sessionId \<noteq> None, s)"

section \<open>Configuration, statistics and callbacks\<close>

definition SetMaxSessionSize :: "u32 \<Rightarrow> SharedStoryMode \<Rightarrow> SharedStoryMode" where
  "SetMaxSessionSize maxSize s = s\<lparr>ssm_maxSessionSize := max 1 (min 8 maxSize)\<rparr>"

definition SetDecisionTimeout :: "flt \<Rightarrow> SharedStoryMode \<Rightarrow> SharedStoryMode" where
  "SetDecisionTimeout timeout s = s\<lparr>ssm_decisionTimeout := f_max (Fin 5) (f_min (Fin 300) timeout)\<rparr>"

definition SetCutsceneTimeout :: "flt \<Rightarrow> SharedStoryMode \<Rightarrow> SharedStoryMode" where
  "SetCutsceneTimeout timeout s = s\<lparr>ssm_cutsceneTimeout := f_max (Fin 30) (f_min (Fin 1800) timeout)\<rparr>"

definition EnableAutoSave :: "bool \<Rightarrow> SharedStoryMode \<Rightarrow> SharedStoryMode" where
  "EnableAutoSave enable s = s\<lparr>ssm_autoSaveEnabled := enable\<rparr>"

definition Story_SetAutoSaveInterval :: "flt \<Rightarrow> SharedStoryMode \<Rightarrow> SharedStoryMode" where
  "Story_SetAutoSaveInterval interval s =
     s\<lparr>ssm_autoSaveInterval := f_max (Fin 10) (f_min (Fin 3600) interval)\<rparr>"

definition Story_GetStats :: "SharedStoryMode \<Rightarrow> StoryStats" where
  "Story_GetStats s = ssm_stats s"

definition Story_ResetStats :: "SharedStoryMode \<Rightarrow> SharedStoryMode" where
  "Story_ResetStats s = s\<lparr>ssm_stats := StoryStats_Reset\<rparr>"

definition SetStorySessionCreatedCallback :: "bool \<Rightarrow> SharedStoryMode \<Rightarrow> SharedStoryMode" where
  "SetStorySessionCreatedCallback f s = s\<lparr>ssm_sessionCreatedCallback := f\<rparr>"

definition SetPlayerJoinedCallback :: "bool \<Rightarrow> SharedStoryMode \<Rightarrow> SharedStoryMode" where
  "SetPlayerJoinedCallback f s = s\<lparr>ssm_playerJoinedCallback := f\<rparr>"

definition SetPlayerLeftCallback :: "bool \<Rightarrow> SharedStoryMode \<Rightarrow> SharedStoryMode" where
  "SetPlayerLeftCallback f s = s\<lparr>ssm_playerLeftCallback := f\<rparr>"

definition SetStoryDecisionMadeCallback :: "bool \<Rightarrow> SharedStoryMode \<Rightarrow> SharedStoryMode" where
  "SetStoryDecisionMadeCallback f s = s\<lparr>ssm_decisionMadeCallback := f\<rparr>"

definition SetCutsceneStartedCallback :: "bool \<Rightarrow> SharedStoryMode \<Rightarrow> SharedStoryMode" where
  "SetCutsceneStartedCallback f s = s\<lparr>ssm_cutsceneStartedCallback := f\<rparr>"

definition SetCutsceneEndedCallback :: "bool \<Rightarrow> SharedStoryMode \<Rightarrow> SharedStoryMode" where
  "SetCutsceneEndedCallback f s = s\<lparr>ssm_cutsceneEndedCallback := f\<rparr>"

definition SetQuestCompletedCallback :: "bool \<Rightarrow> SharedStoryMode \<Rightarrow> SharedStoryMode" where
  "SetQuestCompletedCallback f s = s\<lparr>ssm_questCompletedCallback := f\<rparr>"

section \<open>Private operations\<close>

definition IsDecisionTimeout :: "time_point \<Rightarrow> SharedStoryMode \<Rightarrow> u32 \<Rightarrow> u32 \<Rightarrow> bool" where
  "IsDecisionTimeout now s sessionId decisionId \<longleftrightarrow>
     (case GetStorySession s sessionId of
        None \<Rightarrow> False
      | Some ses \<Rightarrow>
          (case find (\<lambda>d. dec_decisionId d = decisionId) (ses_decisions ses) of
             None \<Rightarrow> False
           | Some d \<Rightarrow> f_le (ssm_decisionTimeout s) (seconds32 (now - dec_timestamp d))))"

definition ProcessPendingDecisions :: "time_point \<Rightarrow> SharedStoryMode \<Rightarrow> SharedStoryMode" where
  "ProcessPendingDecisions now s =
     s\<lparr>ssm_storySessions := om_map (\<lambda>k ses.
         if ses_isActive ses
         then ses\<lparr>ses_decisions := map (\<lambda>d.
                if \<not> dec_isCompleted d \<and> IsDecisionTimeout now s k (dec_decisionId d) then decide 0 d else d)
              (ses_decisions ses)\<rparr>
         else ses) (ssm_storySessions s)\<rparr>"

definition UpdateCutsceneStates :: "time_point \<Rightarrow> SharedStoryMode \<Rightarrow> SharedStoryMode" where
  "UpdateCutsceneStates now s =
     s\<lparr>ssm_storySessions := om_map (\<lambda>k ses.
         if ses_isActive ses
         then ses\<lparr>ses_cutscenes := map (\<lambda>c.
                if cut_isPlaying c \<and> f_le (ssm_cutsceneTimeout s) (seconds32 (now - cut_startTime c))
                then c\<lparr>cut_isPlaying := False, cut_endTime := now\<rparr> else c) (ses_cutscenes ses)\<rparr>
         else ses) (ssm_storySessions s)\<rparr>"

definition UpdateStorySession :: "time_point \<Rightarrow> u32 \<Rightarrow> SharedStoryMode \<Rightarrow> SharedStoryMode" where
  "UpdateStorySession now sessionId s =
     (case active_session s sessionId of
        None \<Rightarrow> s
      | Some ses \<Rightarrow>
          let s1 = UpdateCutsceneStates now
                (ProcessPendingDecisions now (put_session sessionId (touch now ses) s))
          in if ssm_autoSaveEnabled s1 \<and> f_le (ssm_autoSaveInterval s1) (seconds32 (now - ssm_lastAutoSave s1))
             then (snd (SaveStoryProgression now sessionId s1))\<lparr>ssm_lastAutoSave := now\<rparr>
             else s1)"

definition CleanupInactiveSessions :: "SharedStoryMode \<Rightarrow> SharedStoryMode" where
  "CleanupInactiveSessions s =
     s\<lparr>ssm_storySessions := filter (\<lambda>(k, ses). ses_isActive ses) (ssm_storySessions s)\<rparr>"

definition ValidateStorySessionId :: "SharedStoryMode \<Rightarrow> u32 \<Rightarrow> bool" where
  "ValidateStorySessionId s sessionId \<longleftrightarrow> om_find (ssm_storySessions s) sessionId \<noteq> None"

definition ValidatePlayerInSession :: "SharedStoryMode \<Rightarrow> u32 \<Rightarrow> u32 \<Rightarrow> bool" where
  "ValidatePlayerInSession s sessionId playerId \<longleftrightarrow>
     (case GetStorySession s sessionId of None \<Rightarrow> False | Some ses \<Rightarrow> playerId \<in> set (ses_participants ses))"

definition AllPlayersReadyForCutscene :: "SharedStoryMode \<Rightarrow> u32 \<Rightarrow> u32 \<Rightarrow> bool" where
  "AllPlayersReadyForCutscene s sessionId cutsceneId \<longleftrightarrow> GetStorySession s sessionId \<noteq> None"

section \<open>Story utilities\<close>

definition new_session :: "StoryModeType \<Rightarrow> string \<Rightarrow> u32 \<Rightarrow> StorySessionData" where
  "new_session ty sessionName hostPlayerId =
     StorySessionData_new\<lparr>ses_sessionName := sessionName, ses_storyType := ty,
       ses_hostPlayerId := hostPlayerId, ses_participants := [hostPlayerId],
       ses_playerRoles := om_put hostPlayerId Host [], ses_isActive := True\<rparr>"

definition CreateMainCampaignSession :: "string \<Rightarrow> u32 \<Rightarrow> StorySessionData" where
  "CreateMainCampaignSession = new_session MainCampaign"

definition CreateHeartsOfStoneSession :: "string \<Rightarrow> u32 \<Rightarrow> StorySessionData" where
  "CreateHeartsOfStoneSession = new_session HeartsOfStone"

definition CreateBloodAndWineSession :: "string \<Rightarrow> u32 \<Rightarrow> StorySessionData" where
  "CreateBloodAndWineSession = new_session BloodAndWine"

definition CreateDialogueDecision :: "string \<Rightarrow> string \<Rightarrow> string \<Rightarrow> string list \<Rightarrow> StoryDecision" where
  "CreateDialogueDecision questId dialogueId txt options =
     StoryDecision_new\<lparr>dec_questId := questId, dec_dialogueId := dialogueId, dec_decisionText := txt,
       dec_options := options\<rparr>"

definition CreateQuestDecision :: "string \<Rightarrow> string \<Rightarrow> string list \<Rightarrow> StoryDecision" where
  "CreateQuestDecision questId txt options =
     StoryDecision_new\<lparr>dec_questId := questId, dec_decisionText := txt, dec_options := options\<rparr>"

definition CreateCutscene :: "string \<Rightarrow> string \<Rightarrow> u32 \<Rightarrow> u32 list \<Rightarrow> CutsceneSyncData" where
  "CreateCutscene cutsceneName questId hostPlayerId participants =
     CutsceneSyncData_new\<lparr>cut_cutsceneName := cutsceneName, cut_questId := questId,
       cut_hostPlayerId := hostPlayerId, cut_participants := participants, cut_isPlaying := True,
       cut_canSkip := True\<rparr>"

definition CalculateStoryProgress :: "StoryProgressionData \<Rightarrow> flt" where
  "CalculateStoryProgress p =
     (if prog_availableQuests p = [] \<and> prog_completedQuests p = [] then Fin 0
      else div32 (f32_of_nat (length (prog_completedQuests p)))
             (f32_of_nat (length (prog_availableQuests p) + length (prog_completedQuests p))))"

definition GetAvailableQuests :: "StoryProgressionData \<Rightarrow> string list" where
  "GetAvailableQuests = prog_availableQuests"

definition GetCompletedQuests :: "StoryProgressionData \<Rightarrow> string list" where
  "GetCompletedQuests = prog_completedQuests"

definition ValidateStorySession :: "StorySessionData \<Rightarrow> bool" where
  "ValidateStorySession ses \<longleftrightarrow>
     ses_sessionName ses \<noteq> [] \<and> ses_hostPlayerId ses \<noteq> 0 \<and> ses_participants ses \<noteq> []"

definition ValidateStoryDecision :: "StoryDecision \<Rightarrow> bool" where
  "ValidateStoryDecision d \<longleftrightarrow> dec_questId d \<noteq> [] \<and> dec_decisionText d \<noteq> [] \<and> dec_options d \<noteq> []"

definition ValidateCutsceneData :: "CutsceneSyncData \<Rightarrow> bool" where
  "ValidateCutsceneData c \<longleftrightarrow> cut_cutsceneName c \<noteq> [] \<and> cut_questId c \<noteq> [] \<and> cut_hostPlayerId c \<noteq> 0"

end
