(* ===== verification/StoryProps.thy ===== *)
theory StoryProps
  imports SharedStory
begin

text \<open>
  Properties of story sessions: in every reachable state a session is well formed (its roles are
  those of its participants, the host is one of them), and a decision once taken is final; a
  decision presented before the host changed can no longer be taken.
\<close>

section \<open>Operations\<close>

datatype StoryOp =
    SInitialize
  | SShutdown time_point
  | SCreate time_point string StoryModeType u32
  | SJoin time_point u32 u32 StoryRole
  | SLeave time_point u32 u32
  | SEnd time_point u32
  | SStartQuest time_point u32 string
  | SCompleteQuest time_point u32 string
  | SAdvance time_point u32 string
  | SLocation time_point u32 string
  | SPresent time_point u32 StoryDecision
  | SMake time_point u32 u32 u32
  | SSkip time_point u32 u32
  | SStartCutscene time_point u32 string string
  | SEndCutscene time_point u32 u32
  | SSkipCutscene time_point u32 u32
  | SPauseCutscene time_point u32 u32
  | SResumeCutscene time_point u32 u32
  | SQuestState time_point u32 string string
  | SQuestObjective time_point u32 string string u32
  | SQuestReward time_point u32 string "u32 list"
  | SWorldState time_point u32 string string
  | SLocationState time_point u32 string string
  | SSetRole time_point u32 u32 StoryRole
  | STransfer time_point u32 u32 u32
  | SKick time_point u32 u32
  | SSave time_point u32
  | SLoad u32
  | SMaxSize u32
  | SResetStats
  | SAutoSave bool
  | SUpdate time_point u32
  | SCleanup

fun story_step :: "StoryOp \<Rightarrow> SharedStoryMode \<Rightarrow> SharedStoryMode option" where
  "story_step SInitialize s = Some (snd (Story_Initialize s))"
| "story_step (SShutdown now) s = Some (Story_Shutdown now s)"
| "story_step (SCreate now name ty h) s = Some (snd (CreateStorySession now name ty h s))"
| "story_step (SJoin now k p r) s = Some (snd (JoinStorySession now k p r s))"
| "story_step (SLeave now k p) s = Some (snd (LeaveStorySession now k p s))"
| "story_step (SEnd now k) s = Some (snd (EndStorySession now k s))"
| "story_step (SStartQuest now k q) s = Some (snd (StartStoryQuest now k q s))"
| "story_step (SCompleteQuest now k q) s = Some (snd (CompleteStoryQuest now k q s))"
| "story_step (SAdvance now k q) s = Some (snd (AdvanceStoryProgression now k q s))"
| "story_step (SLocation now k l) s = Some (snd (SetStoryLocation now k l s))"
| "story_step (SPresent now k d) s = Some (snd (PresentStoryDecision now k d s))"
| "story_step (SMake now k d i) s = Some (snd (MakeStoryDecision now k d i s))"
| "story_step (SSkip now k d) s = Some (snd (SkipStoryDecision now k d s))"
| "story_step (SStartCutscene now k n q) s = Some (snd (StartCutscene now k n q s))"
| "story_step (SEndCutscene now k c) s = Some (snd (EndCutscene now k c s))"
| "story_step (SSkipCutscene now k c) s = Some (snd (SkipCutscene now k c s))"
| "story_step (SPauseCutscene now k c) s = Some (snd (PauseCutscene now k c s))"
| "story_step (SResumeCutscene now k c) s = Some (snd (ResumeCutscene now k c s))"
| "story_step (SQuestState now k q st) s = Some (snd (SynchronizeQuestState now k q st s))"
| "story_step (SQuestObjective now k q ob p) s = Some (snd (SynchronizeQuestObjective now k q ob p s))"
| "story_step (SQuestReward now k q r) s = Some (snd (SynchronizeQuestReward now k q r s))"
| "story_step (SWorldState now k i v) s = Some (snd (SynchronizeWorldState now k i v s))"
| "story_step (SLocationState now k l v) s = Some (snd (SynchronizeLocationState now k l v s))"
| "story_step (SSetRole now k p r) s = Some (snd (SetPlayerRole now k p r s))"
| "story_step (STransfer now k f t) s = Some (snd (TransferHost now k f t s))"
| "story_step (SKick now k p) s = Some (snd (KickPlayer now k p s))"
| "story_step (SSave now k) s = Some (snd (SaveStoryProgression now k s))"
| "story_step (SLoad k) s = Some (snd (LoadStoryProgression k s))"
| "story_step (SMaxSize n) s = Some (SetMaxSessionSize n s)"
| "story_step SResetStats s = Some (Story_ResetStats s)"
| "story_step (SAutoSave e) s = Some (EnableAutoSave e s)"
| "story_step (SUpdate now k) s = Some (UpdateStorySession now k s)"
| "story_step SCleanup s = Some (CleanupInactiveSessions s)"

section \<open>Effects on the sessions\<close>

named_theorems story_frame \<open>what an operation leaves of the sessions\<close>

lemma sessions_put [story_frame]:
  "ssm_storySessions (put_session k ses s) = om_put k ses (ssm_storySessions s)"
  by (simp add: put_session_def)

lemma sessions_frame [story_frame]:
  "ssm_storySessions (upd_progression k f s) = ssm_storySessions s"
  "ssm_storySessions (upd_stats g s) = ssm_storySessions s"
  "ssm_storySessions (story_call b c s) = ssm_storySessions s"
  "ssm_storySessions (snd (SaveStoryProgression now k s)) = ssm_storySessions s"
  by (simp_all add: upd_progression_def upd_stats_def story_call_def SaveStoryProgression_def
      split: option.splits)

lemma maxSize_frame [story_frame]:
  "ssm_maxSessionSize (put_session k ses s) = ssm_maxSessionSize s"
  "ssm_maxSessionSize (upd_progression k f s) = ssm_maxSessionSize s"
  "ssm_maxSessionSize (upd_stats g s) = ssm_maxSessionSize s"
  "ssm_maxSessionSize (story_call b c s) = ssm_maxSessionSize s"
  "ssm_maxSessionSize (snd (SaveStoryProgression now k s)) = ssm_maxSessionSize s"
  by (simp_all add: put_session_def upd_progression_def upd_stats_def story_call_def
      SaveStoryProgression_def split: option.splits)

lemma active_sessionD:
  "active_session s k = Some ses \<Longrightarrow> om_find (ssm_storySessions s) k = Some ses \<and> ses_isActive ses"
  by (auto simp: active_session_def GetStorySession_def split: option.splits if_splits)

text \<open>A law that every stored session satisfies, with the bound on the session size.\<close>

definition sessions_satisfy :: "(u32 \<Rightarrow> StorySessionData \<Rightarrow> bool) \<Rightarrow> SharedStoryMode \<Rightarrow> bool" where
  "sessions_satisfy P s \<longleftrightarrow>
     om_sorted (ssm_storySessions s) \<and> unat (ssm_maxSessionSize s) \<le> 8
     \<and> (\<forall>k ses. om_find (ssm_storySessions s) k = Some ses \<longrightarrow> P k ses)"

lemma satisfy_put: "sessions_satisfy P s \<Longrightarrow> P k ses \<Longrightarrow> sessions_satisfy P (put_session k ses s)"
  by (auto simp: sessions_satisfy_def story_frame)

lemma satisfy_frame [simp]:
  "sessions_satisfy P (upd_progression k f s) = sessions_satisfy P s"
  "sessions_satisfy P (upd_stats g s) = sessions_satisfy P s"
  "sessions_satisfy P (story_call b c s) = sessions_satisfy P s"
  "sessions_satisfy P (snd (SaveStoryProgression now k s)) = sessions_satisfy P s"
  by (simp_all add: sessions_satisfy_def story_frame)

lemma satisfy_same:
  "ssm_storySessions t = ssm_storySessions s \<Longrightarrow> ssm_maxSessionSize t = ssm_maxSessionSize s \<Longrightarrow>
     sessions_satisfy P t = sessions_satisfy P s"
  by (simp add: sessions_satisfy_def)

lemma satisfy_get:
  "sessions_satisfy P s \<Longrightarrow> GetStorySession s k = Some ses \<Longrightarrow> P k ses"
  "sessions_satisfy P s \<Longrightarrow> active_session s k = Some ses \<Longrightarrow> P k ses \<and> ses_isActive ses"
  by (auto simp: sessions_satisfy_def GetStorySession_def dest: active_sessionD)

lemma satisfy_map:
  "sessions_satisfy P s \<Longrightarrow> (\<And>k ses. P k ses \<Longrightarrow> P k (f k ses)) \<Longrightarrow>
     sessions_satisfy P (s\<lparr>ssm_storySessions := om_map f (ssm_storySessions s)\<rparr>)"
  by (auto simp: sessions_satisfy_def)

section \<open>Changes of the decisions\<close>

text \<open>What may happen to a decision: nothing, or it is completed, with any option.\<close>

definition decision_step :: "StoryDecision \<Rightarrow> StoryDecision \<Rightarrow> bool" where
  "decision_step d d' \<longleftrightarrow> d' = d \<or> (\<not> dec_isCompleted d \<and> d' = decide (dec_selectedOption d') d)"

definition decisions_grow :: "StoryDecision list \<Rightarrow> StoryDecision list \<Rightarrow> bool" where
  "decisions_grow ds ds' \<longleftrightarrow> length ds \<le> length ds' \<and> list_all2 decision_step ds (take (length ds) ds')"

lemma decision_step_refl [simp]: "decision_step d d"
  by (simp add: decision_step_def)

lemma decision_step_decide [simp]: "\<not> dec_isCompleted d \<Longrightarrow> decision_step d (decide i d)"
  by (simp add: decision_step_def decide_def)

lemma decided: "dec_isCompleted (decide i d)"
  by (simp add: decide_def)

lemma decision_step_trans: "decision_step a b \<Longrightarrow> decision_step b c \<Longrightarrow> decision_step a c"
  unfolding decision_step_def using decided by metis

lemma decisions_grow_iff:
  "decisions_grow ds ds' \<longleftrightarrow> length ds \<le> length ds' \<and> (\<forall>i<length ds. decision_step (ds ! i) (ds' ! i))"
  by (auto simp: decisions_grow_def list_all2_conv_all_nth)

lemma decisions_grow_refl [simp]: "decisions_grow ds ds"
  by (simp add: decisions_grow_iff)

lemma decisions_grow_trans: "decisions_grow a b \<Longrightarrow> decisions_grow b c \<Longrightarrow> decisions_grow a c"
  using decision_step_trans by (fastforce simp: decisions_grow_iff)

lemma decisions_grow_append [simp]: "decisions_grow ds (ds @ es)"
  by (simp add: decisions_grow_iff nth_append)

lemma decisions_grow_map: "(\<And>d. decision_step d (f d)) \<Longrightarrow> decisions_grow ds (map f ds)"
  by (simp add: decisions_grow_iff)

lemma decisions_grow_first: "(\<And>d. Q d \<Longrightarrow> decision_step d (f d)) \<Longrightarrow> decisions_grow ds (upd_first Q f ds)"
  by (induction ds) (auto simp: decisions_grow_iff nth_Cons split: nat.splits)

section \<open>Well-formed sessions\<close>

definition session_ok :: "StorySessionData \<Rightarrow> bool" where
  "session_ok ses \<longleftrightarrow>
     distinct (ses_participants ses) \<and> length (ses_participants ses) \<le> 8
     \<and> om_sorted (ses_playerRoles ses) \<and> set (om_keys (ses_playerRoles ses)) = set (ses_participants ses)
     \<and> (ses_participants ses \<noteq> [] \<longrightarrow> ses_hostPlayerId ses \<in> set (ses_participants ses))
     \<and> (ses_isActive ses \<longrightarrow> ses_participants ses \<noteq> [])"

lemma keys_put [simp]: "set (om_keys (om_put k v m)) = insert k (set (om_keys m))"
  by (simp add: om_keys_def set_keys_put del: set_map)

lemma keys_erase [simp]: "set (om_keys (om_erase k m)) = set (om_keys m) - {k}"
  by (auto simp: om_keys_def om_erase_def)

lemma session_ok_touch [simp]: "session_ok (touch now ses) = session_ok ses"
  by (simp add: session_ok_def touch_def)

lemma session_ok_frame [simp]:
  "session_ok (ses\<lparr>ses_decisions := ds\<rparr>) = session_ok ses"
  "session_ok (ses\<lparr>ses_cutscenes := cs\<rparr>) = session_ok ses"
  "session_ok (ses\<lparr>ses_currentQuestId := q\<rparr>) = session_ok ses"
  "session_ok (ses\<lparr>ses_currentLocation := l\<rparr>) = session_ok ses"
  by (simp_all add: session_ok_def)

lemma session_ok_end: "session_ok ses \<Longrightarrow> session_ok (ses\<lparr>ses_isActive := False\<rparr>)"
  by (simp add: session_ok_def)

lemma session_ok_join:
  "session_ok ses \<Longrightarrow> ses_isActive ses \<Longrightarrow> length (ses_participants ses) < 8 \<Longrightarrow> p \<notin> set (ses_participants ses) \<Longrightarrow>
     session_ok (ses\<lparr>ses_participants := ses_participants ses @ [p],
       ses_playerRoles := om_put p r (ses_playerRoles ses), ses_lastUpdate := now\<rparr>)"
  by (auto simp: session_ok_def)

text \<open>After the player is removed only the activity may be wrong, and only with nobody left.\<close>

lemma session_ok_remove:
  assumes "session_ok ses"
  shows "ses_participants (remove_player now p ses) \<noteq> [] \<Longrightarrow> session_ok (remove_player now p ses)"
    "session_ok ((remove_player now p ses)\<lparr>ses_isActive := False\<rparr>)"
proof -
  define ps where "ps = remove1 p (ses_participants ses)"
  define rs where "rs = om_erase p (ses_playerRoles ses)"
  have d: "distinct (ses_participants ses)" and l: "length (ses_participants ses) \<le> 8"
    and k: "set (om_keys (ses_playerRoles ses)) = set (ses_participants ses)" "om_sorted (ses_playerRoles ses)"
    and h: "ses_participants ses \<noteq> [] \<Longrightarrow> ses_hostPlayerId ses \<in> set (ses_participants ses)"
    using assms by (simp_all add: session_ok_def)
  have ps: "distinct ps" "length ps \<le> 8" "set ps = set (ses_participants ses) - {p}"
    using d l by (auto simp: ps_def set_remove1_eq length_remove1)
  have rs: "om_sorted rs" "set (om_keys rs) = set ps" using k ps(3) by (simp_all add: rs_def)
  have host: "ses_hostPlayerId ses \<in> set ps" if "ps \<noteq> []" "ses_hostPlayerId ses \<noteq> p"
  proof -
    have "ses_participants ses \<noteq> []" using that(1) by (auto simp: ps_def)
    then show ?thesis using h that(2) unfolding ps(3) by blast
  qed
  have new: "remove_player now p ses =
     (if ses_hostPlayerId ses = p \<and> ps \<noteq> []
      then ses\<lparr>ses_participants := ps, ses_lastUpdate := now, ses_hostPlayerId := hd ps,
             ses_playerRoles := om_put (hd ps) Host rs\<rparr>
      else ses\<lparr>ses_participants := ps, ses_playerRoles := rs, ses_lastUpdate := now\<rparr>)"
    by (simp add: remove_player_def Let_def ps_def [symmetric] rs_def [symmetric])
  have "ps = [] \<or> session_ok (remove_player now p ses)"
  proof (cases "ses_hostPlayerId ses = p \<and> ps \<noteq> []")
    case True
    then have "hd ps \<in> set ps" by simp
    then have "insert (hd ps) (set ps) = set ps" by (rule insert_absorb)
    with True ps(1,2) rs show ?thesis by (simp add: new session_ok_def)
  next
    case False
    with ps(1,2) rs host show ?thesis by (cases "ps = []") (simp_all add: new session_ok_def)
  qed
  then show "ses_participants (remove_player now p ses) \<noteq> [] \<Longrightarrow> session_ok (remove_player now p ses)"
    by (auto simp: new split: if_splits)
  from \<open>ps = [] \<or> session_ok (remove_player now p ses)\<close>
  show "session_ok ((remove_player now p ses)\<lparr>ses_isActive := False\<rparr>)"
  proof
    assume "ps = []"
    with rs show ?thesis by (simp add: new session_ok_def)
  qed (rule session_ok_end)
qed

section \<open>Laws kept by every operation\<close>

text \<open>What most operations leave of a session.\<close>

definition same_core :: "StorySessionData \<Rightarrow> StorySessionData \<Rightarrow> bool" where
  "same_core ses ses' \<longleftrightarrow>
     ses_participants ses' = ses_participants ses \<and> ses_playerRoles ses' = ses_playerRoles ses
     \<and> ses_hostPlayerId ses' = ses_hostPlayerId ses \<and> ses_isActive ses' = ses_isActive ses"

text \<open>
  The interface of the operations to a law on sessions: the law has to survive a change of the data
  around a session with growing decisions, of roles and host among the participants, joining,
  leaving and ending.
\<close>

locale session_law =
  fixes P :: "u32 \<Rightarrow> StorySessionData \<Rightarrow> bool"
  assumes law_core: "P k ses \<Longrightarrow> same_core ses ses' \<Longrightarrow> decisions_grow (ses_decisions ses) (ses_decisions ses') \<Longrightarrow> P k ses'"
    and law_role: "P k ses \<Longrightarrow> p \<in> set (ses_participants ses) \<Longrightarrow>
        P k (touch now (ses\<lparr>ses_playerRoles := om_put p r (ses_playerRoles ses)\<rparr>))"
    and law_host: "P k ses \<Longrightarrow> ses_isActive ses \<Longrightarrow> p \<in> set (ses_participants ses) \<Longrightarrow>
        P k (touch now (ses\<lparr>ses_hostPlayerId := p,
          ses_playerRoles := om_put p Host (om_put (ses_hostPlayerId ses) Participant (ses_playerRoles ses))\<rparr>))"
    and law_join: "P k ses \<Longrightarrow> ses_isActive ses \<Longrightarrow> length (ses_participants ses) < 8 \<Longrightarrow>
        p \<notin> set (ses_participants ses) \<Longrightarrow>
        P k (ses\<lparr>ses_participants := ses_participants ses @ [p],
          ses_playerRoles := om_put p r (ses_playerRoles ses), ses_lastUpdate := now\<rparr>)"
    and law_leave: "P k ses \<Longrightarrow> ses_participants (remove_player now p ses) \<noteq> [] \<Longrightarrow> P k (remove_player now p ses)"
    and law_last: "P k ses \<Longrightarrow> P k ((remove_player now p ses)\<lparr>ses_isActive := False\<rparr>)"
    and law_end: "P k ses \<Longrightarrow> P k (ses\<lparr>ses_isActive := False\<rparr>)"
begin

lemma law_touch: "P k ses \<Longrightarrow> P k (touch now ses)"
  by (erule law_core; simp add: same_core_def touch_def)

lemma law_decisions: "P k ses \<Longrightarrow> decisions_grow (ses_decisions ses) ds \<Longrightarrow> P k (touch now (ses\<lparr>ses_decisions := ds\<rparr>))"
  by (erule law_core; simp add: same_core_def touch_def)

lemma satisfy_on_active:
  "sessions_satisfy P s \<Longrightarrow> (\<And>ses. P k ses \<Longrightarrow> P k (f ses)) \<Longrightarrow> sessions_satisfy P (snd (on_active k f s))"
  by (auto simp: on_active_def intro!: satisfy_put dest: satisfy_get split: option.splits)

lemma satisfy_simple:
  assumes "sessions_satisfy P s"
  shows "sessions_satisfy P (snd (StartStoryQuest now k q s))" "sessions_satisfy P (snd (SetStoryLocation now k l s))"
    "sessions_satisfy P (snd (SynchronizeQuestState now k q st s))"
    "sessions_satisfy P (snd (SynchronizeQuestObjective now k q ob n s))"
    "sessions_satisfy P (snd (SynchronizeQuestReward now k q rs s))"
proof -
  have "P k ses \<Longrightarrow> P k (touch now (ses\<lparr>ses_currentQuestId := q\<rparr>))" "P k ses \<Longrightarrow> P k (touch now (ses\<lparr>ses_currentLocation := l\<rparr>))" for ses
    by (erule law_core; simp add: same_core_def touch_def)+
  then show "sessions_satisfy P (snd (StartStoryQuest now k q s))" "sessions_satisfy P (snd (SetStoryLocation now k l s))"
    "sessions_satisfy P (snd (SynchronizeQuestState now k q st s))"
    "sessions_satisfy P (snd (SynchronizeQuestObjective now k q ob n s))"
    "sessions_satisfy P (snd (SynchronizeQuestReward now k q rs s))"
    unfolding StartStoryQuest_def SetStoryLocation_def SynchronizeQuestState_def SynchronizeQuestObjective_def
      SynchronizeQuestReward_def
    by (blast intro: satisfy_on_active [OF assms] law_touch)+
qed

lemma satisfy_progression:
  assumes "sessions_satisfy P s"
  shows "sessions_satisfy P (snd (CompleteStoryQuest now k q s))"
    "sessions_satisfy P (snd (AdvanceStoryProgression now k q s))"
    "sessions_satisfy P (snd (SynchronizeWorldState now k i v s))"
    "sessions_satisfy P (snd (SynchronizeLocationState now k i v s))"
  using assms
  by (auto simp: CompleteStoryQuest_def AdvanceStoryProgression_def SynchronizeWorldState_def
      SynchronizeLocationState_def Let_def dest: satisfy_get(2) intro!: satisfy_put law_touch split: option.splits)

lemma satisfy_decisions:
  assumes "sessions_satisfy P s"
  shows "sessions_satisfy P (snd (PresentStoryDecision now k d s))"
    "sessions_satisfy P (snd (MakeStoryDecision now k i opt s))"
    "sessions_satisfy P (snd (SkipStoryDecision now k i s))"
proof -
  have n: "sessions_satisfy P (s\<lparr>ssm_nextDecisionId := n\<rparr>)" for n
    using assms by (simp add: sessions_satisfy_def)
  show "sessions_satisfy P (snd (PresentStoryDecision now k d s))"
    using assms satisfy_get(2) [OF assms]
    by (auto simp: PresentStoryDecision_def Let_def intro!: satisfy_put n law_decisions split: option.splits)
  have "decisions_grow ds (upd_first (pending i) (decide opt) ds)" for ds
    by (rule decisions_grow_first) (simp add: pending_def)
  then show "sessions_satisfy P (snd (MakeStoryDecision now k i opt s))"
    using satisfy_get(2) [OF assms]
    by (auto simp: MakeStoryDecision_def Let_def intro!: satisfy_put assms law_decisions split: option.splits)
  have "decision_step e (e\<lparr>dec_isCompleted := True\<rparr>)" if "pending i e" for e
    using that by (simp add: decision_step_def decide_def pending_def)
  then have "decisions_grow ds (upd_first (pending i) (\<lambda>d. d\<lparr>dec_isCompleted := True\<rparr>) ds)" for ds
    by (rule decisions_grow_first)
  then show "sessions_satisfy P (snd (SkipStoryDecision now k i s))"
    using satisfy_get(2) [OF assms]
    by (auto simp: SkipStoryDecision_def intro!: satisfy_put assms law_decisions split: option.splits)
qed

lemma satisfy_cutscenes:
  assumes "sessions_satisfy P s"
  shows "sessions_satisfy P (snd (StartCutscene now k n q s))"
    "sessions_satisfy P (snd (change_cutscene now k c g f s))"
    "sessions_satisfy P (snd (EndCutscene now k c s))"
proof -
  have n: "sessions_satisfy P (s\<lparr>ssm_nextCutsceneId := n\<rparr>)" for n
    using assms by (simp add: sessions_satisfy_def)
  have law: "P k ses \<Longrightarrow> P k (touch now (ses\<lparr>ses_cutscenes := cs\<rparr>))" for k ses cs now
    by (erule law_core; simp add: same_core_def touch_def)
  show "sessions_satisfy P (snd (StartCutscene now k n q s))"
    using assms satisfy_get(2) [OF assms]
    by (auto simp: StartCutscene_def Let_def intro!: satisfy_put n law split: option.splits)
  show change: "sessions_satisfy P (snd (change_cutscene now k c g f s))" for g f
    using satisfy_get(2) [OF assms]
    by (auto simp: change_cutscene_def intro!: satisfy_put assms law split: option.splits)
  show "sessions_satisfy P (snd (EndCutscene now k c s))"
    using change by (auto simp: EndCutscene_def split: prod.splits) (metis snd_conv)+
qed

lemma satisfy_players:
  assumes "sessions_satisfy P s"
  shows "sessions_satisfy P (snd (JoinStorySession now k p r s))"
    "sessions_satisfy P (snd (SetPlayerRole now k p r s))"
    "sessions_satisfy P (snd (TransferHost now k p q s))"
proof -
  have m: "unat (ssm_maxSessionSize s) \<le> 8" using assms by (simp add: sessions_satisfy_def)
  show "sessions_satisfy P (snd (JoinStorySession now k p r s))"
    using satisfy_get(2) [OF assms] m
    by (auto simp: JoinStorySession_def assms intro!: satisfy_put law_join split: option.splits)
  show "sessions_satisfy P (snd (SetPlayerRole now k p r s))"
    using satisfy_get(2) [OF assms]
    by (auto simp: SetPlayerRole_def assms intro!: satisfy_put law_role split: option.splits)
  show "sessions_satisfy P (snd (TransferHost now k p q s))"
    using satisfy_get(2) [OF assms]
    by (auto simp: TransferHost_def assms intro!: satisfy_put law_host split: option.splits)
qed

text \<open>Ending a session repairs one that has lost its last player.\<close>

lemma satisfy_end:
  assumes "sessions_satisfy P s" "P k (ses\<lparr>ses_isActive := False\<rparr>)" "om_find (ssm_storySessions t) k = Some ses"
    "om_sorted (ssm_storySessions t)" "ssm_maxSessionSize t = ssm_maxSessionSize s"
    "\<And>j. j \<noteq> k \<Longrightarrow> om_find (ssm_storySessions t) j = om_find (ssm_storySessions s) j"
  shows "sessions_satisfy P (snd (EndStorySession now k t))"
proof -
  have "ssm_storySessions (snd (EndStorySession now k t)) = om_put k (ses\<lparr>ses_isActive := False\<rparr>) (ssm_storySessions t)"
    "ssm_maxSessionSize (snd (EndStorySession now k t)) = ssm_maxSessionSize s"
    using assms(3,5) by (auto simp: EndStorySession_def GetStorySession_def Let_def story_frame)
  then show ?thesis using assms(1,2,4,6) by (auto simp: sessions_satisfy_def)
qed

lemma satisfy_End:
  assumes "sessions_satisfy P s"
  shows "sessions_satisfy P (snd (EndStorySession now k s))"
proof (cases "GetStorySession s k")
  case None
  with assms show ?thesis by (simp add: EndStorySession_def)
next
  case (Some ses)
  then show ?thesis
    using assms law_end [OF satisfy_get(1) [OF assms Some]]
    by (intro satisfy_end [OF assms]) (auto simp: GetStorySession_def sessions_satisfy_def)
qed

lemma satisfy_Leave:
  assumes "sessions_satisfy P s"
  shows "sessions_satisfy P (snd (LeaveStorySession now k p s))"
proof (cases "GetStorySession s k")
  case None
  with assms show ?thesis by (simp add: LeaveStorySession_def)
next
  case (Some ses)
  let ?ses = "remove_player now p ses"
  note ok = satisfy_get(1) [OF assms Some]
  show ?thesis
  proof (cases "ses_participants ?ses = []")
    case True
    have "sessions_satisfy P (snd (EndStorySession now k (put_session k ?ses s)))"
      using assms law_last [OF ok]
      by (intro satisfy_end [OF assms]) (auto simp: story_frame sessions_satisfy_def)
    with True Some show ?thesis by (simp add: LeaveStorySession_def Let_def)
  next
    case False
    with Some show ?thesis using law_leave [OF ok False]
      by (simp add: LeaveStorySession_def Let_def satisfy_put [OF assms])
  qed
qed

lemma satisfy_Kick: "sessions_satisfy P s \<Longrightarrow> sessions_satisfy P (snd (KickPlayer now k p s))"
  by (auto simp: KickPlayer_def satisfy_Leave split: option.splits)

lemma satisfy_Update:
  assumes "sessions_satisfy P s"
  shows "sessions_satisfy P (UpdateStorySession now k s)"
proof -
  have d: "P j ses \<Longrightarrow> P j (if ses_isActive ses
         then ses\<lparr>ses_decisions := map (\<lambda>d.
                if \<not> dec_isCompleted d \<and> IsDecisionTimeout now t j (dec_decisionId d) then decide 0 d else d)
              (ses_decisions ses)\<rparr> else ses)" for j ses t
    by (auto intro!: decisions_grow_map elim!: law_core simp: same_core_def)
  have c: "P j ses \<Longrightarrow> P j (if ses_isActive ses
         then ses\<lparr>ses_cutscenes := map (\<lambda>c.
                if cut_isPlaying c \<and> f_le (ssm_cutsceneTimeout t) (seconds32 (now - cut_startTime c))
                then c\<lparr>cut_isPlaying := False, cut_endTime := now\<rparr> else c) (ses_cutscenes ses)\<rparr> else ses)" for j ses t
    by (auto elim!: law_core simp: same_core_def)
  have process: "sessions_satisfy P t \<Longrightarrow> sessions_satisfy P (UpdateCutsceneStates now (ProcessPendingDecisions now t))" for t
    unfolding UpdateCutsceneStates_def ProcessPendingDecisions_def by (intro satisfy_map c d)
  have save: "sessions_satisfy P t \<Longrightarrow> sessions_satisfy P ((snd (SaveStoryProgression now k t))\<lparr>ssm_lastAutoSave := now\<rparr>)" for t
    by (subst satisfy_same [of _ t]) (simp_all add: story_frame)
  show ?thesis
    using satisfy_get(2) [OF assms]
    by (auto simp: UpdateStorySession_def Let_def assms intro!: save process satisfy_put law_touch split: option.splits)
qed

lemma satisfy_Cleanup: "sessions_satisfy P s \<Longrightarrow> sessions_satisfy P (CleanupInactiveSessions s)"
  by (auto simp: sessions_satisfy_def CleanupInactiveSessions_def om_sorted_filter dest: om_find_filter)

lemma satisfy_Shutdown: "sessions_satisfy P s \<Longrightarrow> sessions_satisfy P (Story_Shutdown now s)"
proof -
  have "ssm_maxSessionSize (fold (\<lambda>(k, ses) t. if ses_isActive ses then snd (SaveStoryProgression now k t) else t) xs t)
      = ssm_maxSessionSize t" for t and xs :: "(u32, StorySessionData) omap"
    by (induction xs arbitrary: t) (auto simp: story_frame)
  then show "sessions_satisfy P s \<Longrightarrow> sessions_satisfy P (Story_Shutdown now s)"
    by (auto simp: Story_Shutdown_def Let_def sessions_satisfy_def)
qed

lemma satisfy_MaxSize: "sessions_satisfy P s \<Longrightarrow> sessions_satisfy P (SetMaxSessionSize n s)"
  by (auto simp: sessions_satisfy_def SetMaxSessionSize_def max_def min_def word_le_nat_alt)

lemma satisfy_Create:
  assumes "sessions_satisfy P s"
    "\<And>ses. ses_participants ses = [h] \<Longrightarrow> ses_playerRoles ses = [(h, Host)] \<Longrightarrow> ses_hostPlayerId ses = h \<Longrightarrow>
       P (ssm_nextSessionId s) ses"
  shows "sessions_satisfy P (snd (CreateStorySession now name ty h s))"
proof (cases "ssm_initialized s")
  case True
  let ?ses = "StorySessionData_new\<lparr>ses_sessionId := ssm_nextSessionId s, ses_sessionName := name,
              ses_storyType := ty, ses_hostPlayerId := h,
              ses_participants := [h], ses_playerRoles := om_put h Host [],
              ses_startTime := now, ses_lastUpdate := now, ses_isActive := True\<rparr>"
  have "sessions_satisfy P (put_session (ssm_nextSessionId s) ?ses s)"
    by (rule satisfy_put [OF assms(1) assms(2)]) simp_all
  with True show ?thesis
    by (auto simp: CreateStorySession_def Let_def sessions_satisfy_def story_frame)
next
  case False
  with assms(1) show ?thesis by (simp add: CreateStorySession_def)
qed

lemma step_satisfies:
  assumes "sessions_satisfy P s" "story_step x s = Some t"
    "\<And>now name ty h ses. x = SCreate now name ty h \<Longrightarrow> ses_participants ses = [h] \<Longrightarrow>
       ses_playerRoles ses = [(h, Host)] \<Longrightarrow> ses_hostPlayerId ses = h \<Longrightarrow> P (ssm_nextSessionId s) ses"
  shows "sessions_satisfy P t"
proof (cases x)
  case (SCreate now name ty h)
  with assms show ?thesis using satisfy_Create [OF assms(1), of h] by auto
next
  case SInitialize
  with assms show ?thesis by (auto simp: Story_Initialize_def sessions_satisfy_def)
next
  case SResetStats
  with assms show ?thesis by (auto simp: Story_ResetStats_def sessions_satisfy_def)
next
  case (SAutoSave e)
  with assms show ?thesis by (auto simp: EnableAutoSave_def sessions_satisfy_def)
next
  case (SLoad k)
  with assms show ?thesis by (auto simp: LoadStoryProgression_def)
qed (use assms(1,2) in \<open>auto simp: satisfy_simple satisfy_progression satisfy_decisions satisfy_cutscenes satisfy_players
      satisfy_End satisfy_Leave satisfy_Kick satisfy_Update satisfy_Cleanup satisfy_Shutdown satisfy_MaxSize
      SkipCutscene_def PauseCutscene_def ResumeCutscene_def\<close>)

end

section \<open>Well-formed sessions in every reachable state\<close>

lemma session_ok_role:
  "session_ok ses \<Longrightarrow> p \<in> set (ses_participants ses) \<Longrightarrow>
     session_ok (ses\<lparr>ses_playerRoles := om_put p r (ses_playerRoles ses)\<rparr>)"
  by (auto simp: session_ok_def)

interpretation well_formed: session_law "\<lambda>_. session_ok"
proof
  fix ses ses' :: StorySessionData and p :: u32 and now :: time_point and r :: StoryRole
  show "session_ok ses \<Longrightarrow> same_core ses ses' \<Longrightarrow> session_ok ses'"
    by (simp add: session_ok_def same_core_def)
  show "session_ok ses \<Longrightarrow> p \<in> set (ses_participants ses) \<Longrightarrow>
      session_ok (touch now (ses\<lparr>ses_playerRoles := om_put p r (ses_playerRoles ses)\<rparr>))"
    by (simp add: session_ok_role)
  show "session_ok ses \<Longrightarrow> ses_isActive ses \<Longrightarrow> p \<in> set (ses_participants ses) \<Longrightarrow>
      session_ok (touch now (ses\<lparr>ses_hostPlayerId := p,
        ses_playerRoles := om_put p Host (om_put (ses_hostPlayerId ses) Participant (ses_playerRoles ses))\<rparr>))"
    by (auto simp: session_ok_def touch_def)
  show "session_ok ses \<Longrightarrow> ses_isActive ses \<Longrightarrow> length (ses_participants ses) < 8 \<Longrightarrow> p \<notin> set (ses_participants ses) \<Longrightarrow>
      session_ok (ses\<lparr>ses_participants := ses_participants ses @ [p],
        ses_playerRoles := om_put p r (ses_playerRoles ses), ses_lastUpdate := now\<rparr>)"
    by (rule session_ok_join)
  show "session_ok ses \<Longrightarrow> ses_participants (remove_player now p ses) \<noteq> [] \<Longrightarrow> session_ok (remove_player now p ses)"
    by (rule session_ok_remove(1))
  show "session_ok ses \<Longrightarrow> session_ok ((remove_player now p ses)\<lparr>ses_isActive := False\<rparr>)"
    by (rule session_ok_remove(2))
  show "session_ok ses \<Longrightarrow> session_ok (ses\<lparr>ses_isActive := False\<rparr>)"
    by (rule session_ok_end)
qed

lemma session_ok_new:
  "ses_participants ses = [h] \<Longrightarrow> ses_playerRoles ses = [(h, Host)] \<Longrightarrow> ses_hostPlayerId ses = h \<Longrightarrow> session_ok ses"
  by (simp add: session_ok_def om_sorted_def om_keys_def)

interpretation story_runs: step_system story_step "sessions_satisfy (\<lambda>_. session_ok)" "\<lambda>_. True"
  by unfold_locales (rule well_formed.step_satisfies, assumption, assumption, rule session_ok_new)

text \<open>
  C23. Sessions are well formed in every reachable state: the participants are different, at most
  eight, and exactly the players with a role; the host is one of them as long as there is anyone,
  and an active session is never empty.
\<close>

theorem story_sessions_well_formed:
  assumes "run story_step ops (SharedStoryMode_new start) = Some s" "GetStorySession s k = Some ses"
  shows "distinct (ses_participants ses) \<and> length (ses_participants ses) \<le> 8
     \<and> set (om_keys (ses_playerRoles ses)) = set (ses_participants ses)
     \<and> (ses_participants ses \<noteq> [] \<longrightarrow> ses_hostPlayerId ses \<in> set (ses_participants ses))
     \<and> (ses_isActive ses \<longrightarrow> ses_participants ses \<noteq> [])"
proof -
  have "sessions_satisfy (\<lambda>_. session_ok) (SharedStoryMode_new start)"
    by (simp add: sessions_satisfy_def SharedStoryMode_new_def)
  then have "sessions_satisfy (\<lambda>_. session_ok) s"
    using story_runs.run_inv [OF _ _ assms(1)] by (simp add: list_all_iff)
  then show ?thesis using satisfy_get(1) assms(2) unfolding session_ok_def by blast
qed

definition story_demo_ops :: "StoryOp list" where
  "story_demo_ops = [SInitialize, SCreate 1 ''Hunt'' MainCampaign 5, SJoin 2 1 6 Participant,
     SPresent 3 1 (CreateQuestDecision ''Q'' ''Which way?'' [''left'', ''right'']), SLeave 4 1 5]"

definition story_demo :: SharedStoryMode where
  "story_demo = the (run story_step story_demo_ops (SharedStoryMode_new 0))"

lemma story_demo_session:
  "map_option (\<lambda>ses. (ses_participants ses, ses_hostPlayerId ses, ses_isActive ses)) (GetStorySession story_demo 1)
     = Some ([6], 6, True)"
  by code_simp

theorem story_sessions_well_formed_witness:
  "\<exists>ses. GetStorySession story_demo 1 = Some ses \<and> ses_participants ses = [6] \<and> ses_hostPlayerId ses \<in> {6}"
proof -
  obtain ses where g: "GetStorySession story_demo 1 = Some ses" "ses_participants ses = [6]"
    using story_demo_session by auto
  have "run story_step story_demo_ops (SharedStoryMode_new 0) = Some story_demo"
    by (simp add: story_demo_def story_demo_ops_def)
  from story_sessions_well_formed [OF this g(1)] g show ?thesis by auto
qed

section \<open>Decisions\<close>

text \<open>
  Relative to an earlier state: the decisions of a session only grow, and each is completed at
  most once.
\<close>

definition grown_from :: "SharedStoryMode \<Rightarrow> u32 \<Rightarrow> StorySessionData \<Rightarrow> bool" where
  "grown_from s k ses \<longleftrightarrow>
     (\<forall>old. om_find (ssm_storySessions s) k = Some old \<longrightarrow> decisions_grow (ses_decisions old) (ses_decisions ses))"

interpretation growth: session_law "grown_from s" for s
proof
  fix k p :: u32 and ses ses' :: StorySessionData and now :: time_point and r :: StoryRole
  show "grown_from s k ses \<Longrightarrow> decisions_grow (ses_decisions ses) (ses_decisions ses') \<Longrightarrow> grown_from s k ses'"
    using decisions_grow_trans by (auto simp: grown_from_def)
qed (auto simp: grown_from_def touch_def remove_player_def Let_def)

lemma next_id_frame [story_frame]:
  "ssm_nextSessionId (put_session k ses s) = ssm_nextSessionId s"
  "ssm_nextSessionId (upd_progression k f s) = ssm_nextSessionId s"
  "ssm_nextSessionId (upd_stats g s) = ssm_nextSessionId s"
  "ssm_nextSessionId (story_call b c s) = ssm_nextSessionId s"
  "ssm_nextSessionId (snd (SaveStoryProgression now k s)) = ssm_nextSessionId s"
  "ssm_nextSessionId (snd (on_active k h s)) = ssm_nextSessionId s"
  "ssm_nextSessionId (snd (EndStorySession now k s)) = ssm_nextSessionId s"
  "ssm_nextSessionId (snd (change_cutscene now k c' g' f' s)) = ssm_nextSessionId s"
  by (simp_all add: put_session_def upd_progression_def upd_stats_def story_call_def on_active_def
      SaveStoryProgression_def EndStorySession_def change_cutscene_def Let_def split: option.splits)

lemma next_Leave [story_frame]: "ssm_nextSessionId (snd (LeaveStorySession now k p s)) = ssm_nextSessionId s"
  by (simp add: LeaveStorySession_def Let_def story_frame split: option.splits)

lemma next_EndCutscene [story_frame]: "ssm_nextSessionId (snd (EndCutscene now k c s)) = ssm_nextSessionId s"
proof -
  obtain ok u where u: "change_cutscene now k c cut_isPlaying (\<lambda>c. c\<lparr>cut_isPlaying := False, cut_endTime := now\<rparr>) s = (ok, u)"
    by force
  then have "ssm_nextSessionId u = ssm_nextSessionId s" using next_id_frame(8) by (metis snd_conv)
  with u show ?thesis by (simp add: EndCutscene_def story_frame)
qed

lemma next_Shutdown [story_frame]: "ssm_nextSessionId (Story_Shutdown now s) = ssm_nextSessionId s"
proof -
  have "ssm_nextSessionId (fold (\<lambda>(k, ses) t. if ses_isActive ses then snd (SaveStoryProgression now k t) else t) xs t)
      = ssm_nextSessionId t" for t and xs :: "(u32, StorySessionData) omap"
    by (induction xs arbitrary: t) (auto simp: story_frame)
  then show ?thesis by (simp add: Story_Shutdown_def Let_def)
qed

lemma next_Update [story_frame]: "ssm_nextSessionId (UpdateStorySession now k s) = ssm_nextSessionId s"
  by (simp add: UpdateStorySession_def UpdateCutsceneStates_def ProcessPendingDecisions_def Let_def story_frame
      split: option.splits)

lemma next_ops [story_frame]:
  "ssm_nextSessionId (snd (JoinStorySession now k p r s)) = ssm_nextSessionId s"
  "ssm_nextSessionId (snd (CompleteStoryQuest now k q s)) = ssm_nextSessionId s"
  "ssm_nextSessionId (snd (AdvanceStoryProgression now k q s)) = ssm_nextSessionId s"
  "ssm_nextSessionId (snd (PresentStoryDecision now k d s)) = ssm_nextSessionId s"
  "ssm_nextSessionId (snd (MakeStoryDecision now k i j s)) = ssm_nextSessionId s"
  "ssm_nextSessionId (snd (SkipStoryDecision now k i s)) = ssm_nextSessionId s"
  "ssm_nextSessionId (snd (StartCutscene now k q q' s)) = ssm_nextSessionId s"
  "ssm_nextSessionId (snd (SynchronizeWorldState now k q q' s)) = ssm_nextSessionId s"
  "ssm_nextSessionId (snd (SynchronizeLocationState now k q q' s)) = ssm_nextSessionId s"
  "ssm_nextSessionId (snd (SetPlayerRole now k p r s)) = ssm_nextSessionId s"
  "ssm_nextSessionId (snd (TransferHost now k p p' s)) = ssm_nextSessionId s"
  "ssm_nextSessionId (snd (KickPlayer now k p s)) = ssm_nextSessionId s"
  by (simp_all add: story_frame JoinStorySession_def CompleteStoryQuest_def AdvanceStoryProgression_def
      PresentStoryDecision_def MakeStoryDecision_def SkipStoryDecision_def StartCutscene_def
      SynchronizeWorldState_def SynchronizeLocationState_def SetPlayerRole_def TransferHost_def KickPlayer_def
      Let_def split: option.splits)

lemma next_step:
  assumes "story_step x s = Some t" "\<nexists>now name ty h. x = SCreate now name ty h"
  shows "ssm_nextSessionId t = ssm_nextSessionId s"
proof (cases x)
  case (SCreate now name ty h)
  with assms(2) show ?thesis by blast
qed (use assms(1) in \<open>auto simp: story_frame Story_Initialize_def StartStoryQuest_def SetStoryLocation_def
    SkipCutscene_def PauseCutscene_def ResumeCutscene_def SynchronizeQuestState_def
    SynchronizeQuestObjective_def SynchronizeQuestReward_def LoadStoryProgression_def SetMaxSessionSize_def
    Story_ResetStats_def EnableAutoSave_def CleanupInactiveSessions_def\<close>)

lemma next_Create:
  "ssm_nextSessionId (snd (CreateStorySession now name ty h s)) = ssm_nextSessionId s
     \<or> ssm_nextSessionId (snd (CreateStorySession now name ty h s)) = ssm_nextSessionId s + 1"
  by (simp add: CreateStorySession_def Let_def story_frame)

definition fresh_ids :: "SharedStoryMode \<Rightarrow> SharedStoryMode \<Rightarrow> bool" where
  "fresh_ids s t \<longleftrightarrow> (\<forall>k. om_find (ssm_storySessions s) k \<noteq> None \<longrightarrow> k < ssm_nextSessionId t)"

lemma fresh_ids_step:
  assumes "fresh_ids s t" "story_step x t = Some u" "unat (ssm_nextSessionId t) + 1 < 2 ^ 32"
  shows "fresh_ids s u" "unat (ssm_nextSessionId u) \<le> unat (ssm_nextSessionId t) + 1"
proof -
  have n: "unat (ssm_nextSessionId t + 1) = unat (ssm_nextSessionId t) + 1"
    using unat_add_no_wrap [of "ssm_nextSessionId t" 1] assms(3) by simp
  have "ssm_nextSessionId u = ssm_nextSessionId t \<or> ssm_nextSessionId u = ssm_nextSessionId t + 1"
  proof (cases "\<exists>now name ty h. x = SCreate now name ty h")
    case True
    then obtain now name ty h where "x = SCreate now name ty h" by blast
    with assms(2) have "u = snd (CreateStorySession now name ty h t)" by simp
    then show ?thesis using next_Create [of now name ty h t] by blast
  next
    case False
    then show ?thesis using next_step [OF assms(2)] by blast
  qed
  then show "fresh_ids s u" "unat (ssm_nextSessionId u) \<le> unat (ssm_nextSessionId t) + 1"
    using assms(1) n by (fastforce simp: fresh_ids_def word_less_nat_alt)+
qed

interpretation grown_runs: counted_system story_step
  "\<lambda>t. sessions_satisfy (grown_from s) t \<and> fresh_ids s t" "\<lambda>_. True" "\<lambda>t. unat (ssm_nextSessionId t)" "2 ^ 32" for s
proof
  fix t u x
  assume inv: "sessions_satisfy (grown_from s) t \<and> fresh_ids s t" and n: "unat (ssm_nextSessionId t) + 1 < 2 ^ 32"
    and step: "story_step x t = Some u"
  have "grown_from s (ssm_nextSessionId t) ses" for ses
    using inv by (auto simp: grown_from_def fresh_ids_def)
  then have "sessions_satisfy (grown_from s) u"
    using growth.step_satisfies [of s t x u] inv step by blast
  with fresh_ids_step [OF _ step n] inv
  show "(sessions_satisfy (grown_from s) u \<and> fresh_ids s u) \<and> unat (ssm_nextSessionId u) \<le> unat (ssm_nextSessionId t) + 1"
    by blast
qed

lemma blocked_decision:
  assumes "active_session s k = Some ses" "find (pending i) (ses_decisions ses) = Some d"
    "dec_hostPlayerId d \<noteq> ses_hostPlayerId ses"
  shows "MakeStoryDecision now k i opt s = (False, s)"
  using assms by (auto simp: MakeStoryDecision_def CanPlayerMakeDecision_def dest!: active_sessionD split: option.splits)
    (simp add: GetStorySession_def)

text \<open>
  C24. Decisions are final, and tied to the host of the moment: over any operations, as long as the
  session ids do not wrap round, the decisions of a session keep their place and text, and one that
  was completed never changes again; a pending decision that was presented under another host is
  refused to everybody, with the state unchanged.
\<close>

theorem decisions_are_final:
  assumes "fresh_ids s s" "sessions_satisfy (\<lambda>_ _. True) s"
    "unat (ssm_nextSessionId s) + length ops < 2 ^ 32" "run story_step ops s = Some t"
    "GetStorySession s k = Some old" "active_session t k = Some ses"
  shows "decisions_grow (ses_decisions old) (ses_decisions ses)
     \<and> (\<forall>i d. find (pending i) (ses_decisions ses) = Some d \<longrightarrow> dec_hostPlayerId d \<noteq> ses_hostPlayerId ses \<longrightarrow>
          MakeStoryDecision now k i opt t = (False, t))"
proof -
  have "sessions_satisfy (grown_from s) s" using assms(2) by (simp add: sessions_satisfy_def grown_from_def)
  then have "sessions_satisfy (grown_from s) t"
    using grown_runs.run_count [OF _ _ assms(3,4)] assms(1) by (simp add: list_all_iff)
  then have "grown_from s k ses" using satisfy_get(2) assms(6) by blast
  then have "decisions_grow (ses_decisions old) (ses_decisions ses)"
    using assms(5) by (simp add: grown_from_def GetStorySession_def)
  with blocked_decision [OF assms(6)] show ?thesis by blast
qed

definition story_demo_before :: SharedStoryMode where
  "story_demo_before = the (run story_step (butlast story_demo_ops) (SharedStoryMode_new 0))"

lemma story_demo_facts:
  "map fst (ssm_storySessions story_demo_before) = [1]" "ssm_nextSessionId story_demo_before = 2"
  "ssm_maxSessionSize story_demo_before = 4"
  "map_option (\<lambda>ses. map dec_decisionId (ses_decisions ses)) (GetStorySession story_demo_before 1) = Some [1]"
  "map_option (\<lambda>ses. (map_option dec_hostPlayerId (find (pending 1) (ses_decisions ses)), ses_hostPlayerId ses))
     (active_session story_demo 1) = Some (Some 5, 6)"
  by code_simp+

theorem decisions_are_final_witness:
  "MakeStoryDecision 9 1 1 0 story_demo = (False, story_demo)"
proof -
  obtain old where old: "GetStorySession story_demo_before 1 = Some old" using story_demo_facts(4) by auto
  obtain ses d where ses: "active_session story_demo 1 = Some ses" "find (pending 1) (ses_decisions ses) = Some d"
      "dec_hostPlayerId d = 5" "ses_hostPlayerId ses = 6"
    using story_demo_facts(5) by auto
  obtain v where m: "ssm_storySessions story_demo_before = [(1, v)]"
    using story_demo_facts(1) by (auto simp: map_eq_Cons_conv)
  have f: "fresh_ids story_demo_before story_demo_before"
    by (simp add: fresh_ids_def m om_find_def story_demo_facts(2))
  have o: "sessions_satisfy (\<lambda>_ _. True) story_demo_before"
    by (simp add: sessions_satisfy_def m om_sorted_def story_demo_facts(3))
  have r: "run story_step [SLeave 4 1 5] story_demo_before = Some story_demo"
    by (simp add: story_demo_before_def story_demo_def story_demo_ops_def)
  have "unat (ssm_nextSessionId story_demo_before) + length [SLeave 4 1 5] < 2 ^ 32"
    by (simp add: story_demo_facts(2))
  from decisions_are_final [OF f o this r old ses(1), of 9 0] ses show ?thesis by simp
qed

text \<open>Ending a session twice counts twice: the counter of active sessions wraps below zero.\<close>

lemma end_counts_twice:
  assumes "GetStorySession s k = Some ses"
  shows "sst_activeSessions (ssm_stats (snd (EndStorySession now k s))) = sst_activeSessions (ssm_stats s) - 1"
  using assms by (auto simp: EndStorySession_def upd_stats_def put_session_def upd_progression_def
      SaveStoryProgression_def Let_def split: option.splits)

end
