(* ===== verification/Vectors.thy ===== *)
theory Vectors
  imports Floats
begin

text \<open>
  The position type \<open>Vector4F\<close> of \<open>include/Common.h\<close> and the arithmetic the game systems do on it:
  distance, direction of unit length, and scaling, in \<open>float\<close>.
\<close>

type_synonym vec4 = "flt \<times> flt \<times> flt \<times> flt"

definition vec4_zero :: vec4 where
  "vec4_zero = (Fin 0, Fin 0, Fin 0, Fin 0)"

text \<open>\<open>std::sqrt(x * x + y * y + z * z)\<close>\<close>

definition length3 :: "flt \<Rightarrow> flt \<Rightarrow> flt \<Rightarrow> flt" where
  "length3 x y z = sqrt32 (add32 (add32 (mul32 x x) (mul32 y y)) (mul32 z z))"

definition distance3 :: "vec4 \<Rightarrow> vec4 \<Rightarrow> flt" where
  "distance3 a b =
     (case (a, b) of ((ax, ay, az, aw), (bx, by, bz, bw)) \<Rightarrow>
        length3 (sub32 ax bx) (sub32 ay by) (sub32 az bz))"

text \<open>The difference of two positions divided by its length, unless that is zero or not a number.\<close>

definition direction3 :: "vec4 \<Rightarrow> vec4 \<Rightarrow> flt \<times> flt \<times> flt" where
  "direction3 a b =
     (case (a, b) of ((ax, ay, az, aw), (bx, by, bz, bw)) \<Rightarrow>
        let x = sub32 bx ax; y = sub32 by ay; z = sub32 bz az; len = length3 x y z
        in if f_lt (Fin 0) len then (div32 x len, div32 y len, div32 z len) else (x, y, z))"

lemma square_swap: "mul32 (sub32 x y) (sub32 x y) = mul32 (sub32 y x) (sub32 y x)"
  by (metis sub32_swap mul32_neg_neg)

lemma distance3_commute: "distance3 a b = distance3 b a"
  using square_swap by (cases a; cases b) (simp add: distance3_def length3_def)

end
