(* ===== verification/Exploration.thy ===== *)
theory Exploration
  imports Vectors
begin

text \<open>
  \<open>ExplorationMode.cpp\<close>: exploration sessions with regions, fast travel points and player positions,
  and the monster contracts and activities outside the sessions.  Conventions as for the other
  systems: a pointer into a map is its key, a callback is a flag and a log, one call reads the clock
  once.  The members marked as placeholders in the source return a constant and change nothing.
\<close>

section \<open>Data\<close>

datatype ExplorationRegion = WhiteOrchard | Velen | Novigrad | Skellige | Toussaint | KaerMorhen | AllRegions

fun region_code :: "ExplorationRegion \<Rightarrow> nat" where
  "region_code WhiteOrchard = 0"
| "region_code Velen = 1"
| "region_code Novigrad = 2"
| "region_code Skellige = 3"
| "region_code Toussaint = 4"
| "region_code KaerMorhen = 5"
| "region_code AllRegions = 6"

lemma region_code_inject [simp]: "region_code r = region_code r' \<longleftrightarrow> r = r'"
  by (cases r; cases r'; simp)

instantiation ExplorationRegion :: linorder
begin

definition less_eq_ExplorationRegion :: "ExplorationRegion \<Rightarrow> ExplorationRegion \<Rightarrow> bool" where
  "r \<le> r' \<longleftrightarrow> region_code r \<le> region_code r'"

definition less_ExplorationRegion :: "ExplorationRegion \<Rightarrow> ExplorationRegion \<Rightarrow> bool" where
  "r < r' \<longleftrightarrow> region_code r < region_code r'"

instance
  by standard (auto simp: less_eq_ExplorationRegion_def less_ExplorationRegion_def)

end

record FastTravelPoint =
  ftp_pointId :: u32
  ftp_name :: string
  ftp_location :: string
  ftp_region :: ExplorationRegion
  ftp_position :: vec4
  ftp_isUnlocked :: bool
  ftp_isActive :: bool
  ftp_unlockTime :: time_point

definition FastTravelPoint_new :: FastTravelPoint where
  "FastTravelPoint_new =
     \<lparr>ftp_pointId = 0, ftp_name = [], ftp_location = [], ftp_region = Velen, ftp_position = vec4_zero,
      ftp_isUnlocked = False, ftp_isActive = True, ftp_unlockTime = 0\<rparr>"

record ExplorationSessionData =
  es_sessionId :: u32
  es_sessionName :: string
  es_hostPlayerId :: u32
  es_participants :: "u32 list"
  es_unlockedRegions :: "(ExplorationRegion, bool) omap"
  es_fastTravelPoints :: "FastTravelPoint list"
  es_playerPositions :: "(u32, vec4) omap"
  es_playerRegions :: "(u32, ExplorationRegion) omap"
  es_startTime :: time_point
  es_lastUpdate :: time_point
  es_isActive :: bool

definition ExplorationSessionData_new :: ExplorationSessionData where
  "ExplorationSessionData_new =
     \<lparr>es_sessionId = 0, es_sessionName = [], es_hostPlayerId = 0, es_participants = [],
      es_unlockedRegions = [], es_fastTravelPoints = [], es_playerPositions = [], es_playerRegions = [],
      es_startTime = 0, es_lastUpdate = 0, es_isActive = False\<rparr>"

text \<open>
  The constructors of contracts and activities leave the region uninitialised; every creation sets
  it before the object is stored.
\<close>

record MonsterContract =
  mct_contractId :: u32
  mct_name :: string
  mct_description :: string
  mct_monsterType :: string
  mct_location :: vec4
  mct_region :: ExplorationRegion
  mct_level :: u32
  mct_reward :: u32
  mct_participants :: "u32 list"
  mct_isCompleted :: bool
  mct_isActive :: bool
  mct_createdTime :: time_point

record ExplorationActivity =
  ea_activityId :: u32
  ea_name :: string
  ea_type :: string
  ea_location :: vec4
  ea_region :: ExplorationRegion
  ea_participants :: "u32 list"
  ea_isCompleted :: bool
  ea_isActive :: bool
  ea_startTime :: time_point

record ExplorationStats =
  xst_totalSessions :: u32
  xst_activeSessions :: u32
  xst_totalContracts :: u32
  xst_completedContracts :: u32
  xst_totalActivities :: u32
  xst_completedActivities :: u32
  xst_totalDistanceTraveled :: u32
  xst_averageSessionTime :: flt
  xst_mostExploredRegion :: u32
  xst_mostActivePlayer :: u32

definition ExplorationStats_Reset :: ExplorationStats where
  "ExplorationStats_Reset =
     \<lparr>xst_totalSessions = 0, xst_activeSessions = 0, xst_totalContracts = 0, xst_completedContracts = 0,
      xst_totalActivities = 0, xst_completedActivities = 0, xst_totalDistanceTraveled = 0,
      xst_averageSessionTime = Fin 0, xst_mostExploredRegion = 0, xst_mostActivePlayer = 0\<rparr>"

datatype ExplorationCall =
    ExplorationSessionCreated u32 u32
  | ExplorerJoined u32 u32
  | ExplorerLeft u32 u32
  | RegionUnlocked u32 ExplorationRegion
  | FastTravelPointUnlocked u32 u32
  | ContractCompleted u32 u32

record ExplorationMode =
  xm_initialized :: bool
  xm_explorationSessions :: "(u32, ExplorationSessionData) omap"
  xm_monsterContracts :: "(u32, MonsterContract) omap"
  xm_explorationActivities :: "(u32, ExplorationActivity) omap"
  xm_fastTravelPoints :: "(u32, FastTravelPoint) omap"
  xm_maxSessionSize :: u32
  xm_maxContractParticipants :: u32
  xm_maxActivityParticipants :: u32
  xm_fastTravelCooldown :: flt
  xm_contractTimeout :: flt
  xm_stats :: ExplorationStats
  xm_sessionCreatedCallback :: bool
  xm_playerJoinedCallback :: bool
  xm_playerLeftCallback :: bool
  xm_regionUnlockedCallback :: bool
  xm_fastTravelPointUnlockedCallback :: bool
  xm_contractCreatedCallback :: bool
  xm_contractCompletedCallback :: bool
  xm_activityCompletedCallback :: bool
  xm_lastUpdateTime :: time_point
  xm_nextSessionId :: u32
  xm_nextContractId :: u32
  xm_nextActivityId :: u32
  xm_nextFastTravelPointId :: u32
  xm_calls :: "ExplorationCall list"

definition ExplorationMode_new :: "time_point \<Rightarrow> ExplorationMode" where
  "ExplorationMode_new now =
     \<lparr>xm_initialized = False, xm_explorationSessions = [], xm_monsterContracts = [],
      xm_explorationActivities = [], xm_fastTravelPoints = [], xm_maxSessionSize = 8,
      xm_maxContractParticipants = 4, xm_maxActivityParticipants = 6, xm_fastTravelCooldown = rnd32 5,
      xm_contractTimeout = rnd32 3600, xm_stats = ExplorationStats_Reset,
      xm_sessionCreatedCallback = False, xm_playerJoinedCallback = False, xm_playerLeftCallback = False,
      xm_regionUnlockedCallback = False, xm_fastTravelPointUnlockedCallback = False,
      xm_contractCreatedCallback = False, xm_contractCompletedCallback = False,
      xm_activityCompletedCallback = False, xm_lastUpdateTime = now, xm_nextSessionId = 1,
      xm_nextContractId = 1, xm_nextActivityId = 1, xm_nextFastTravelPointId = 1, xm_calls = []\<rparr>"

section \<open>Start-up\<close>

definition CreateFastTravelPoint :: "string \<Rightarrow> string \<Rightarrow> ExplorationRegion \<Rightarrow> vec4 \<Rightarrow> FastTravelPoint" where
  "CreateFastTravelPoint name location region position =
     FastTravelPoint_new\<lparr>ftp_name := name, ftp_location := location, ftp_region := region,
       ftp_position := position, ftp_isUnlocked := False, ftp_isActive := True\<rparr>"

definition default_points :: "FastTravelPoint list" where
  "default_points =
     [CreateFastTravelPoint ''White Orchard Inn'' ''White Orchard'' WhiteOrchard (Fin 1000, Fin 0, Fin 1000, Fin 1),
      CreateFastTravelPoint ''Crow's Perch'' ''Velen'' Velen (Fin 2000, Fin 0, Fin 2000, Fin 1),
      CreateFastTravelPoint ''Novigrad Square'' ''Novigrad'' Novigrad (Fin 3000, Fin 0, Fin 3000, Fin 1),
      CreateFastTravelPoint ''Kaer Trolde'' ''Skellige'' Skellige (Fin 4000, Fin 0, Fin 4000, Fin 1),
      CreateFastTravelPoint ''Beauclair'' ''Toussaint'' Toussaint (Fin 5000, Fin 0, Fin 5000, Fin 1)]"

definition InitializeFastTravelPoints :: "ExplorationMode \<Rightarrow> ExplorationMode" where
  "InitializeFastTravelPoints s =
     s\<lparr>xm_fastTravelPoints := fold (\<lambda>p. om_put (ftp_pointId p) p) default_points (xm_fastTravelPoints s)\<rparr>"

definition Exploration_Initialize :: "ExplorationMode \<Rightarrow> bool \<times> ExplorationMode" where
  "Exploration_Initialize s =
     (if xm_initialized s then (True, s)
      else (True, (InitializeFastTravelPoints s)\<lparr>xm_initialized := True\<rparr>))"

definition Exploration_Shutdown :: "ExplorationMode \<Rightarrow> ExplorationMode" where
  "Exploration_Shutdown s =
     (if \<not> xm_initialized s then s
      else s\<lparr>xm_explorationSessions := [], xm_monsterContracts := [], xm_explorationActivities := [],
             xm_fastTravelPoints := [], xm_initialized := False\<rparr>)"

section \<open>Access\<close>

definition exploration_call :: "bool \<Rightarrow> ExplorationCall \<Rightarrow> ExplorationMode \<Rightarrow> ExplorationMode" where
  "exploration_call installed c s = (if installed then s\<lparr>xm_calls := xm_calls s @ [c]\<rparr> else s)"

definition GetExplorationSession :: "ExplorationMode \<Rightarrow> u32 \<Rightarrow> ExplorationSessionData option" where
  "GetExplorationSession s sessionId = om_find (xm_explorationSessions s) sessionId"

definition active_exploration :: "ExplorationMode \<Rightarrow> u32 \<Rightarrow> ExplorationSessionData option" where
  "active_exploration s sessionId =
     (case GetExplorationSession s sessionId of
        None \<Rightarrow> None | Some ses \<Rightarrow> if es_isActive ses then Some ses else None)"

definition put_exploration :: "u32 \<Rightarrow> ExplorationSessionData \<Rightarrow> ExplorationMode \<Rightarrow> ExplorationMode" where
  "put_exploration sessionId ses s =
     s\<lparr>xm_explorationSessions := om_put sessionId ses (xm_explorationSessions s)\<rparr>"

definition upd_exploration_stats :: "(ExplorationStats \<Rightarrow> ExplorationStats) \<Rightarrow> ExplorationMode \<Rightarrow> ExplorationMode" where
  "upd_exploration_stats f s = s\<lparr>xm_stats := f (xm_stats s)\<rparr>"

definition stamp :: "time_point \<Rightarrow> ExplorationSessionData \<Rightarrow> ExplorationSessionData" where
  "stamp now ses = ses\<lparr>es_lastUpdate := now\<rparr>"

text \<open>Guard on an active session, one change of it, and its time stamp.\<close>

definition change_active ::
    "time_point \<Rightarrow> u32 \<Rightarrow> (ExplorationSessionData \<Rightarrow> ExplorationSessionData) \<Rightarrow> ExplorationMode \<Rightarrow> bool \<times> ExplorationMode" where
  "change_active now sessionId f s =
     (case active_exploration s sessionId of
        None \<Rightarrow> (False, s) | Some ses \<Rightarrow> (True, put_exploration sessionId (stamp now (f ses)) s))"

section \<open>Sessions\<close>

definition all_unlocked :: "(ExplorationRegion, bool) omap" where
  "all_unlocked = fold (\<lambda>r. om_put r True) [WhiteOrchard, Velen, Novigrad, Skellige, Toussaint, KaerMorhen] []"

definition CreateExplorationSession ::
    "time_point \<Rightarrow> string \<Rightarrow> u32 \<Rightarrow> ExplorationMode \<Rightarrow> u32 \<times> ExplorationMode" where
  "CreateExplorationSession now sessionName hostPlayerId s =
     (if \<not> xm_initialized s then (0, s)
      else
        let k = xm_nextSessionId s;
            ses = ExplorationSessionData_new\<lparr>es_sessionId := k, es_sessionName := sessionName,
              es_hostPlayerId := hostPlayerId, es_participants := [hostPlayerId], es_startTime := now,
              es_lastUpdate := now, es_isActive := True, es_unlockedRegions := all_unlocked\<rparr>
        in (k, exploration_call (xm_sessionCreatedCallback s) (ExplorationSessionCreated k hostPlayerId)
              (upd_exploration_stats (\<lambda>st. st\<lparr>xst_totalSessions := xst_totalSessions st + 1,
                   xst_activeSessions := xst_activeSessions st + 1\<rparr>)
                (put_exploration k ses (s\<lparr>xm_nextSessionId := k + 1\<rparr>)))))"

definition JoinExplorationSession :: "time_point \<Rightarrow> u32 \<Rightarrow> u32 \<Rightarrow> ExplorationMode \<Rightarrow> bool \<times> ExplorationMode" where
  "JoinExplorationSession now sessionId playerId s =
     (case active_exploration s sessionId of
        None \<Rightarrow> (False, s)
      | Some ses \<Rightarrow>
          if unat (xm_maxSessionSize s) \<le> length (es_participants ses) then (False, s)
          else if playerId \<in> set (es_participants ses) then (False, s)
          else (True, exploration_call (xm_playerJoinedCallback s) (ExplorerJoined sessionId playerId)
                 (put_exploration sessionId
                   (stamp now (ses\<lparr>es_participants := es_participants ses @ [playerId]\<rparr>)) s)))"

definition EndExplorationSession :: "u32 \<Rightarrow> ExplorationMode \<Rightarrow> bool \<times> ExplorationMode" where
  "EndExplorationSession sessionId s =
     (case GetExplorationSession s sessionId of
        None \<Rightarrow> (False, s)
      | Some ses \<Rightarrow> (True, upd_exploration_stats (\<lambda>st. st\<lparr>xst_activeSessions := xst_activeSessions st - 1\<rparr>)
          (put_exploration sessionId (ses\<lparr>es_isActive := False\<rparr>) s)))"

definition remove_explorer :: "time_point \<Rightarrow> u32 \<Rightarrow> ExplorationSessionData \<Rightarrow> ExplorationSessionData" where
  "remove_explorer now playerId ses =
     (let ses1 = stamp now (ses\<lparr>es_participants := remove1 playerId (es_participants ses),
            es_playerPositions := om_erase playerId (es_playerPositions ses),
            es_playerRegions := om_erase playerId (es_playerRegions ses)\<rparr>)
      in if es_hostPlayerId ses1 = playerId \<and> es_participants ses1 \<noteq> []
         then ses1\<lparr>es_hostPlayerId := hd (es_participants ses1)\<rparr> else ses1)"

definition LeaveExplorationSession :: "time_point \<Rightarrow> u32 \<Rightarrow> u32 \<Rightarrow> ExplorationMode \<Rightarrow> bool \<times> ExplorationMode" where
  "LeaveExplorationSession now sessionId playerId s =
     (case GetExplorationSession s sessionId of
        None \<Rightarrow> (False, s)
      | Some ses \<Rightarrow>
          let ses1 = remove_explorer now playerId ses;
              s1 = put_exploration sessionId ses1 s;
              s2 = (if es_participants ses1 = [] then snd (EndExplorationSession sessionId s1) else s1)
          in (True, exploration_call (xm_playerLeftCallback s2) (ExplorerLeft sessionId playerId) s2))"

definition Exploration_GetActiveSessions :: "ExplorationMode \<Rightarrow> ExplorationSessionData list" where
  "Exploration_GetActiveSessions s = filter es_isActive (om_values (xm_explorationSessions s))"

definition Exploration_GetPlayerSessions :: "ExplorationMode \<Rightarrow> u32 \<Rightarrow> ExplorationSessionData list" where
  "Exploration_GetPlayerSessions s playerId =
     filter (\<lambda>ses. es_isActive ses \<and> playerId \<in> set (es_participants ses)) (om_values (xm_explorationSessions s))"

section \<open>Regions\<close>

definition UnlockRegion :: "time_point \<Rightarrow> u32 \<Rightarrow> ExplorationRegion \<Rightarrow> ExplorationMode \<Rightarrow> bool \<times> ExplorationMode" where
  "UnlockRegion now sessionId region s =
     (case change_active now sessionId
             (\<lambda>ses. ses\<lparr>es_unlockedRegions := om_put region True (es_unlockedRegions ses)\<rparr>) s of
        (ok, s1) \<Rightarrow> (ok, if ok then exploration_call (xm_regionUnlockedCallback s) (RegionUnlocked sessionId region) s1
                        else s1))"

definition LockRegion :: "time_point \<Rightarrow> u32 \<Rightarrow> ExplorationRegion \<Rightarrow> ExplorationMode \<Rightarrow> bool \<times> ExplorationMode" where
  "LockRegion now sessionId region =
     change_active now sessionId (\<lambda>ses. ses\<lparr>es_unlockedRegions := om_put region False (es_unlockedRegions ses)\<rparr>)"

definition IsRegionUnlocked :: "ExplorationMode \<Rightarrow> u32 \<Rightarrow> ExplorationRegion \<Rightarrow> bool" where
  "IsRegionUnlocked s sessionId region \<longleftrightarrow>
     (case GetExplorationSession s sessionId of
        None \<Rightarrow> False | Some ses \<Rightarrow> om_find (es_unlockedRegions ses) region = Some True)"

definition GetUnlockedRegions :: "ExplorationMode \<Rightarrow> u32 \<Rightarrow> ExplorationRegion list" where
  "GetUnlockedRegions s sessionId =
     (case GetExplorationSession s sessionId of
        None \<Rightarrow> [] | Some ses \<Rightarrow> map fst (filter snd (es_unlockedRegions ses)))"

section \<open>Fast travel\<close>

definition UnlockFastTravelPoint :: "time_point \<Rightarrow> u32 \<Rightarrow> u32 \<Rightarrow> ExplorationMode \<Rightarrow> bool \<times> ExplorationMode" where
  "UnlockFastTravelPoint now sessionId pointId s =
     (case active_exploration s sessionId of
        None \<Rightarrow> (False, s)
      | Some ses \<Rightarrow>
          (case om_find (xm_fastTravelPoints s) pointId of
             None \<Rightarrow> (False, s)
           | Some point \<Rightarrow>
               if \<exists>p \<in> set (es_fastTravelPoints ses). ftp_pointId p = pointId \<and> ftp_isUnlocked p then (True, s)
               else (True, exploration_call (xm_fastTravelPointUnlockedCallback s) (FastTravelPointUnlocked sessionId pointId)
                      (put_exploration sessionId (stamp now (ses\<lparr>es_fastTravelPoints := es_fastTravelPoints ses
                         @ [point\<lparr>ftp_isUnlocked := True, ftp_unlockTime := now\<rparr>]\<rparr>)) s))))"

fun lock_first :: "u32 \<Rightarrow> FastTravelPoint list \<Rightarrow> FastTravelPoint list option" where
  "lock_first pointId [] = None"
| "lock_first pointId (p # ps) =
     (if ftp_pointId p = pointId then Some (p\<lparr>ftp_isUnlocked := False\<rparr> # ps)
      else map_option ((#) p) (lock_first pointId ps))"

definition LockFastTravelPoint :: "time_point \<Rightarrow> u32 \<Rightarrow> u32 \<Rightarrow> ExplorationMode \<Rightarrow> bool \<times> ExplorationMode" where
  "LockFastTravelPoint now sessionId pointId s =
     (case active_exploration s sessionId of
        None \<Rightarrow> (False, s)
      | Some ses \<Rightarrow>
          (case lock_first pointId (es_fastTravelPoints ses) of
             None \<Rightarrow> (False, s)
           | Some ps \<Rightarrow> (True, put_exploration sessionId (stamp now (ses\<lparr>es_fastTravelPoints := ps\<rparr>)) s)))"

definition usable :: "FastTravelPoint \<Rightarrow> bool" where
  "usable p \<longleftrightarrow> ftp_isUnlocked p \<and> ftp_isActive p"

definition FastTravelToPoint :: "time_point \<Rightarrow> u32 \<Rightarrow> u32 \<Rightarrow> u32 \<Rightarrow> ExplorationMode \<Rightarrow> bool \<times> ExplorationMode" where
  "FastTravelToPoint now sessionId playerId pointId s =
     (case active_exploration s sessionId of
        None \<Rightarrow> (False, s)
      | Some ses \<Rightarrow>
          if playerId \<notin> set (es_participants ses) then (False, s)
          else (case find (\<lambda>p. ftp_pointId p = pointId \<and> usable p) (es_fastTravelPoints ses) of
             None \<Rightarrow> (False, s)
           | Some p \<Rightarrow> (True, put_exploration sessionId (stamp now (ses\<lparr>es_playerPositions :=
                om_put playerId (ftp_position p) (es_playerPositions ses)\<rparr>)) s)))"

definition GetAvailableFastTravelPoints :: "ExplorationMode \<Rightarrow> u32 \<Rightarrow> FastTravelPoint list" where
  "GetAvailableFastTravelPoints s sessionId =
     (case GetExplorationSession s sessionId of
        None \<Rightarrow> [] | Some ses \<Rightarrow> filter usable (es_fastTravelPoints ses))"

definition GetFastTravelPointsInRegion :: "ExplorationMode \<Rightarrow> u32 \<Rightarrow> ExplorationRegion \<Rightarrow> FastTravelPoint list" where
  "GetFastTravelPointsInRegion s sessionId region =
     (case GetExplorationSession s sessionId of
        None \<Rightarrow> [] | Some ses \<Rightarrow> filter (\<lambda>p. ftp_region p = region \<and> usable p) (es_fastTravelPoints ses))"

section \<open>Monster contracts and activities\<close>

definition new_contract ::
    "string \<Rightarrow> string \<Rightarrow> string \<Rightarrow> vec4 \<Rightarrow> ExplorationRegion \<Rightarrow> u32 \<Rightarrow> u32 \<Rightarrow> MonsterContract" where
  "new_contract name description monsterType location region level reward =
     \<lparr>mct_contractId = 0, mct_name = name, mct_description = description, mct_monsterType = monsterType,
      mct_location = location, mct_region = region, mct_level = level, mct_reward = reward,
      mct_participants = [], mct_isCompleted = False, mct_isActive = True, mct_createdTime = 0\<rparr>"

definition CreateMonsterContract ::
    "time_point \<Rightarrow> string \<Rightarrow> string \<Rightarrow> string \<Rightarrow> vec4 \<Rightarrow> ExplorationRegion \<Rightarrow> u32 \<Rightarrow> u32 \<Rightarrow>
       ExplorationMode \<Rightarrow> u32 \<times> ExplorationMode" where
  "CreateMonsterContract now name description monsterType location region level reward s =
     (let k = xm_nextContractId s;
          c = (new_contract name description monsterType location region level reward)
                \<lparr>mct_contractId := k, mct_createdTime := now\<rparr>
      in (k, upd_exploration_stats (\<lambda>st. st\<lparr>xst_totalContracts := xst_totalContracts st + 1\<rparr>)
            (s\<lparr>xm_nextContractId := k + 1, xm_monsterContracts := om_put k c (xm_monsterContracts s)\<rparr>)))"

definition active_contract :: "ExplorationMode \<Rightarrow> u32 \<Rightarrow> MonsterContract option" where
  "active_contract s contractId =
     (case om_find (xm_monsterContracts s) contractId of
        None \<Rightarrow> None | Some c \<Rightarrow> if mct_isActive c then Some c else None)"

definition put_contract :: "u32 \<Rightarrow> MonsterContract \<Rightarrow> ExplorationMode \<Rightarrow> ExplorationMode" where
  "put_contract contractId c s = s\<lparr>xm_monsterContracts := om_put contractId c (xm_monsterContracts s)\<rparr>"

definition JoinMonsterContract :: "time_point \<Rightarrow> u32 \<Rightarrow> u32 \<Rightarrow> u32 \<Rightarrow> ExplorationMode \<Rightarrow> bool \<times> ExplorationMode" where
  "JoinMonsterContract now sessionId contractId playerId s =
     (case active_exploration s sessionId of
        None \<Rightarrow> (False, s)
      | Some ses \<Rightarrow>
          if playerId \<notin> set (es_participants ses) then (False, s)
          else (case active_contract s contractId of
             None \<Rightarrow> (False, s)
           | Some c \<Rightarrow>
               if unat (xm_maxContractParticipants s) \<le> length (mct_participants c) then (False, s)
               else if playerId \<in> set (mct_participants c) then (False, s)
               else (True, put_exploration sessionId (stamp now ses)
                      (put_contract contractId (c\<lparr>mct_participants := mct_participants c @ [playerId]\<rparr>) s))))"

definition LeaveMonsterContract :: "time_point \<Rightarrow> u32 \<Rightarrow> u32 \<Rightarrow> u32 \<Rightarrow> ExplorationMode \<Rightarrow> bool \<times> ExplorationMode" where
  "LeaveMonsterContract now sessionId contractId playerId s =
     (case active_exploration s sessionId of
        None \<Rightarrow> (False, s)
      | Some ses \<Rightarrow>
          (case om_find (xm_monsterContracts s) contractId of
             None \<Rightarrow> (False, s)
           | Some c \<Rightarrow>
               if playerId \<notin> set (mct_participants c) then (False, s)
               else (True, put_exploration sessionId (stamp now ses)
                      (put_contract contractId (c\<lparr>mct_participants := remove1 playerId (mct_participants c)\<rparr>) s))))"

definition CompleteMonsterContract :: "time_point \<Rightarrow> u32 \<Rightarrow> u32 \<Rightarrow> ExplorationMode \<Rightarrow> bool \<times> ExplorationMode" where
  "CompleteMonsterContract now sessionId contractId s =
     (case active_exploration s sessionId of
        None \<Rightarrow> (False, s)
      | Some ses \<Rightarrow>
          (case active_contract s contractId of
             None \<Rightarrow> (False, s)
           | Some c \<Rightarrow>
               (True, exploration_call (xm_contractCompletedCallback s) (ContractCompleted sessionId contractId)
                  (upd_exploration_stats (\<lambda>st. st\<lparr>xst_completedContracts := xst_completedContracts st + 1\<rparr>)
                    (put_exploration sessionId (stamp now ses)
                      (put_contract contractId (c\<lparr>mct_isCompleted := True, mct_isActive := False\<rparr>) s))))))"

definition GetAvailableContracts :: "ExplorationMode \<Rightarrow> u32 \<Rightarrow> MonsterContract list" where
  "GetAvailableContracts s sessionId =
     filter (\<lambda>c. mct_isActive c \<and> \<not> mct_isCompleted c) (om_values (xm_monsterContracts s))"

definition GetPlayerContracts :: "ExplorationMode \<Rightarrow> u32 \<Rightarrow> u32 \<Rightarrow> MonsterContract list" where
  "GetPlayerContracts s sessionId playerId =
     filter (\<lambda>c. playerId \<in> set (mct_participants c)) (om_values (xm_monsterContracts s))"

definition new_activity :: "string \<Rightarrow> string \<Rightarrow> vec4 \<Rightarrow> ExplorationRegion \<Rightarrow> ExplorationActivity" where
  "new_activity name ty location region =
     \<lparr>ea_activityId = 0, ea_name = name, ea_type = ty, ea_location = location, ea_region = region,
      ea_participants = [], ea_isCompleted = False, ea_isActive = True, ea_startTime = 0\<rparr>"

definition CreateExplorationActivity ::
    "time_point \<Rightarrow> string \<Rightarrow> string \<Rightarrow> vec4 \<Rightarrow> ExplorationRegion \<Rightarrow> ExplorationMode \<Rightarrow> u32 \<times> ExplorationMode" where
  "CreateExplorationActivity now name ty location region s =
     (let k = xm_nextActivityId s;
          a = (new_activity name ty location region)\<lparr>ea_activityId := k, ea_startTime := now\<rparr>
      in (k, upd_exploration_stats (\<lambda>st. st\<lparr>xst_totalActivities := xst_totalActivities st + 1\<rparr>)
            (s\<lparr>xm_nextActivityId := k + 1, xm_explorationActivities := om_put k a (xm_explorationActivities s)\<rparr>)))"

section \<open>Positions\<close>

definition UpdatePlayerPosition :: "time_point \<Rightarrow> u32 \<Rightarrow> u32 \<Rightarrow> vec4 \<Rightarrow> ExplorationMode \<Rightarrow> bool \<times> ExplorationMode" where
  "UpdatePlayerPosition now sessionId playerId position =
     change_active now sessionId (\<lambda>ses. ses\<lparr>es_playerPositions := om_put playerId position (es_playerPositions ses)\<rparr>)"

definition UpdatePlayerRegion ::
    "time_point \<Rightarrow> u32 \<Rightarrow> u32 \<Rightarrow> ExplorationRegion \<Rightarrow> ExplorationMode \<Rightarrow> bool \<times> ExplorationMode" where
  "UpdatePlayerRegion now sessionId playerId region =
     change_active now sessionId (\<lambda>ses. ses\<lparr>es_playerRegions := om_put playerId region (es_playerRegions ses)\<rparr>)"

definition GetPlayerPosition :: "ExplorationMode \<Rightarrow> u32 \<Rightarrow> u32 \<Rightarrow> vec4" where
  "GetPlayerPosition s sessionId playerId =
     (case GetExplorationSession s sessionId of
        None \<Rightarrow> (Fin 0, Fin 0, Fin 0, Fin 1)
      | Some ses \<Rightarrow> om_get (Fin 0, Fin 0, Fin 0, Fin 1) (es_playerPositions ses) playerId)"

definition GetPlayerRegion :: "ExplorationMode \<Rightarrow> u32 \<Rightarrow> u32 \<Rightarrow> ExplorationRegion" where
  "GetPlayerRegion s sessionId playerId =
     (case GetExplorationSession s sessionId of
        None \<Rightarrow> Velen | Some ses \<Rightarrow> om_get Velen (es_playerRegions ses) playerId)"

definition GetPlayersInRegion :: "ExplorationMode \<Rightarrow> u32 \<Rightarrow> ExplorationRegion \<Rightarrow> u32 list" where
  "GetPlayersInRegion s sessionId region =
     (case GetExplorationSession s sessionId of
        None \<Rightarrow> [] | Some ses \<Rightarrow> map fst (filter (\<lambda>p. snd p = region) (es_playerRegions ses)))"

definition CalculateDistance :: "vec4 \<Rightarrow> vec4 \<Rightarrow> flt" where
  "CalculateDistance a b = distance3 a b"

definition IsInRange :: "vec4 \<Rightarrow> vec4 \<Rightarrow> flt \<Rightarrow> bool" where
  "IsInRange position target radius \<longleftrightarrow> f_le (CalculateDistance position target) radius"

definition GetNearbyPlayers :: "ExplorationMode \<Rightarrow> u32 \<Rightarrow> u32 \<Rightarrow> flt \<Rightarrow> u32 list" where
  "GetNearbyPlayers s sessionId playerId radius =
     (case GetExplorationSession s sessionId of
        None \<Rightarrow> []
      | Some ses \<Rightarrow>
          let playerPos = GetPlayerPosition s sessionId playerId
          in map fst (filter (\<lambda>(k, pos). k \<noteq> playerId \<and> f_le (CalculateDistance playerPos pos) radius)
                (es_playerPositions ses)))"

section \<open>Configuration, statistics and callbacks\<close>

definition Exploration_SetMaxSessionSize :: "u32 \<Rightarrow> ExplorationMode \<Rightarrow> ExplorationMode" where
  "Exploration_SetMaxSessionSize maxSize s = s\<lparr>xm_maxSessionSize := max 1 (min 16 maxSize)\<rparr>"

definition SetMaxContractParticipants :: "u32 \<Rightarrow> ExplorationMode \<Rightarrow> ExplorationMode" where
  "SetMaxContractParticipants n s = s\<lparr>xm_maxContractParticipants := max 1 (min 8 n)\<rparr>"

definition SetMaxActivityParticipants :: "u32 \<Rightarrow> ExplorationMode \<Rightarrow> ExplorationMode" where
  "SetMaxActivityParticipants n s = s\<lparr>xm_maxActivityParticipants := max 1 (min 12 n)\<rparr>"

definition SetFastTravelCooldown :: "flt \<Rightarrow> ExplorationMode \<Rightarrow> ExplorationMode" where
  "SetFastTravelCooldown cooldown s = s\<lparr>xm_fastTravelCooldown := f_max (Fin 0) (f_min (Fin 60) cooldown)\<rparr>"

definition SetContractTimeout :: "flt \<Rightarrow> ExplorationMode \<Rightarrow> ExplorationMode" where
  "SetContractTimeout timeout s = s\<lparr>xm_contractTimeout := f_max (Fin 60) (f_min (Fin 7200) timeout)\<rparr>"

definition Exploration_GetStats :: "ExplorationMode \<Rightarrow> ExplorationStats" where
  "Exploration_GetStats s = xm_stats s"

definition Exploration_ResetStats :: "ExplorationMode \<Rightarrow> ExplorationMode" where
  "Exploration_ResetStats s = s\<lparr>xm_stats := ExplorationStats_Reset\<rparr>"

definition SetExplorationSessionCreatedCallback :: "bool \<Rightarrow> ExplorationMode \<Rightarrow> ExplorationMode" where
  "SetExplorationSessionCreatedCallback f s = s\<lparr>xm_sessionCreatedCallback := f\<rparr>"

definition Exploration_SetPlayerJoinedCallback :: "bool \<Rightarrow> ExplorationMode \<Rightarrow> ExplorationMode" where
  "Exploration_SetPlayerJoinedCallback f s = s\<lparr>xm_playerJoinedCallback := f\<rparr>"

definition Exploration_SetPlayerLeftCallback :: "bool \<Rightarrow> ExplorationMode \<Rightarrow> ExplorationMode" where
  "Exploration_SetPlayerLeftCallback f s = s\<lparr>xm_playerLeftCallback := f\<rparr>"

definition SetRegionUnlockedCallback :: "bool \<Rightarrow> ExplorationMode \<Rightarrow> ExplorationMode" where
  "SetRegionUnlockedCallback f s = s\<lparr>xm_regionUnlockedCallback := f\<rparr>"

definition SetFastTravelPointUnlockedCallback :: "bool \<Rightarrow> ExplorationMode \<Rightarrow> ExplorationMode" where
  "SetFastTravelPointUnlockedCallback f s = s\<lparr>xm_fastTravelPointUnlockedCallback := f\<rparr>"

definition SetMonsterContractCreatedCallback :: "bool \<Rightarrow> ExplorationMode \<Rightarrow> ExplorationMode" where
  "SetMonsterContractCreatedCallback f s = s\<lparr>xm_contractCreatedCallback := f\<rparr>"

definition SetMonsterContractCompletedCallback :: "bool \<Rightarrow> ExplorationMode \<Rightarrow> ExplorationMode" where
  "SetMonsterContractCompletedCallback f s = s\<lparr>xm_contractCompletedCallback := f\<rparr>"

definition SetExplorationActivityCompletedCallback :: "bool \<Rightarrow> ExplorationMode \<Rightarrow> ExplorationMode" where
  "SetExplorationActivityCompletedCallback f s = s\<lparr>xm_activityCompletedCallback := f\<rparr>"

section \<open>Private operations and utilities\<close>

definition UpdateExplorationSession :: "time_point \<Rightarrow> u32 \<Rightarrow> ExplorationMode \<Rightarrow> ExplorationMode" where
  "UpdateExplorationSession now sessionId s = snd (change_active now sessionId (\<lambda>ses. ses) s)"

definition Exploration_CleanupInactiveSessions :: "ExplorationMode \<Rightarrow> ExplorationMode" where
  "Exploration_CleanupInactiveSessions s =
     s\<lparr>xm_explorationSessions := filter (\<lambda>(k, ses). es_isActive ses) (xm_explorationSessions s)\<rparr>"

definition ValidateExplorationSessionId :: "ExplorationMode \<Rightarrow> u32 \<Rightarrow> bool" where
  "ValidateExplorationSessionId s sessionId \<longleftrightarrow> om_find (xm_explorationSessions s) sessionId \<noteq> None"

definition Exploration_ValidatePlayerInSession :: "ExplorationMode \<Rightarrow> u32 \<Rightarrow> u32 \<Rightarrow> bool" where
  "Exploration_ValidatePlayerInSession s sessionId playerId \<longleftrightarrow>
     (case GetExplorationSession s sessionId of None \<Rightarrow> False | Some ses \<Rightarrow> playerId \<in> set (es_participants ses))"

definition utils_CreateExplorationSession :: "string \<Rightarrow> u32 \<Rightarrow> ExplorationSessionData" where
  "utils_CreateExplorationSession sessionName hostPlayerId =
     ExplorationSessionData_new\<lparr>es_sessionName := sessionName, es_hostPlayerId := hostPlayerId,
       es_participants := [hostPlayerId], es_isActive := True\<rparr>"

definition CreateAlchemyActivity :: "string \<Rightarrow> vec4 \<Rightarrow> ExplorationRegion \<Rightarrow> ExplorationActivity" where
  "CreateAlchemyActivity name = new_activity name ''Alchemy''"

definition CreateCraftingActivity :: "string \<Rightarrow> vec4 \<Rightarrow> ExplorationRegion \<Rightarrow> ExplorationActivity" where
  "CreateCraftingActivity name = new_activity name ''Crafting''"

definition CreateGatheringActivity :: "string \<Rightarrow> vec4 \<Rightarrow> ExplorationRegion \<Rightarrow> ExplorationActivity" where
  "CreateGatheringActivity name = new_activity name ''Gathering''"

definition ValidateExplorationSession :: "ExplorationSessionData \<Rightarrow> bool" where
  "ValidateExplorationSession ses \<longleftrightarrow>
     es_sessionName ses \<noteq> [] \<and> es_hostPlayerId ses \<noteq> 0 \<and> es_participants ses \<noteq> []"

definition ValidateMonsterContract :: "MonsterContract \<Rightarrow> bool" where
  "ValidateMonsterContract c \<longleftrightarrow> mct_name c \<noteq> [] \<and> mct_description c \<noteq> [] \<and> mct_monsterType c \<noteq> []"

definition ValidateExplorationActivity :: "ExplorationActivity \<Rightarrow> bool" where
  "ValidateExplorationActivity a \<longleftrightarrow> ea_name a \<noteq> [] \<and> ea_type a \<noteq> []"

definition ValidateFastTravelPoint :: "FastTravelPoint \<Rightarrow> bool" where
  "ValidateFastTravelPoint p \<longleftrightarrow> ftp_name p \<noteq> [] \<and> ftp_location p \<noteq> []"

end
