(* ===== verification/ExplorationProps.thy ===== *)
theory ExplorationProps
  imports Exploration
begin

text \<open>
  Properties of the exploration mode: sessions and contracts are consistent in every reachable
  state, distances are symmetric, only one default fast travel point survives start-up, and locking
  a point that was unlocked twice leaves it usable.
\<close>

section \<open>Operations\<close>

datatype ExplorationOp =
    XInitialize
  | XShutdown
  | XCreate time_point string u32
  | XJoin time_point u32 u32
  | XLeave time_point u32 u32
  | XEnd u32
  | XUnlockRegion time_point u32 ExplorationRegion
  | XLockRegion time_point u32 ExplorationRegion
  | XUnlockPoint time_point u32 u32
  | XLockPoint time_point u32 u32
  | XTravel time_point u32 u32 u32
  | XContract time_point string string string vec4 ExplorationRegion u32 u32
  | XJoinContract time_point u32 u32 u32
  | XLeaveContract time_point u32 u32 u32
  | XCompleteContract time_point u32 u32
  | XActivity time_point string string vec4 ExplorationRegion
  | XPosition time_point u32 u32 vec4
  | XRegion time_point u32 u32 ExplorationRegion
  | XMaxSize u32
  | XMaxContract u32
  | XResetStats
  | XUpdate time_point u32
  | XCleanup

fun exploration_step :: "ExplorationOp \<Rightarrow> ExplorationMode \<Rightarrow> ExplorationMode option" where
  "exploration_step XInitialize s = Some (snd (Exploration_Initialize s))"
| "exploration_step XShutdown s = Some (Exploration_Shutdown s)"
| "exploration_step (XCreate now name h) s = Some (snd (CreateExplorationSession now name h s))"
| "exploration_step (XJoin now k p) s = Some (snd (JoinExplorationSession now k p s))"
| "exploration_step (XLeave now k p) s = Some (snd (LeaveExplorationSession now k p s))"
| "exploration_step (XEnd k) s = Some (snd (EndExplorationSession k s))"
| "exploration_step (XUnlockRegion now k r) s = Some (snd (UnlockRegion now k r s))"
| "exploration_step (XLockRegion now k r) s = Some (snd (LockRegion now k r s))"
| "exploration_step (XUnlockPoint now k i) s = Some (snd (UnlockFastTravelPoint now k i s))"
| "exploration_step (XLockPoint now k i) s = Some (snd (LockFastTravelPoint now k i s))"
| "exploration_step (XTravel now k p i) s = Some (snd (FastTravelToPoint now k p i s))"
| "exploration_step (XContract now n d t l r lv rw) s = Some (snd (CreateMonsterContract now n d t l r lv rw s))"
| "exploration_step (XJoinContract now k c p) s = Some (snd (JoinMonsterContract now k c p s))"
| "exploration_step (XLeaveContract now k c p) s = Some (snd (LeaveMonsterContract now k c p s))"
| "exploration_step (XCompleteContract now k c) s = Some (snd (CompleteMonsterContract now k c s))"
| "exploration_step (XActivity now n t l r) s = Some (snd (CreateExplorationActivity now n t l r s))"
| "exploration_step (XPosition now k p v) s = Some (snd (UpdatePlayerPosition now k p v s))"
| "exploration_step (XRegion now k p r) s = Some (snd (UpdatePlayerRegion now k p r s))"
| "exploration_step (XMaxSize n) s = Some (Exploration_SetMaxSessionSize n s)"
| "exploration_step (XMaxContract n) s = Some (SetMaxContractParticipants n s)"
| "exploration_step XResetStats s = Some (Exploration_ResetStats s)"
| "exploration_step (XUpdate now k) s = Some (UpdateExplorationSession now k s)"
| "exploration_step XCleanup s = Some (Exploration_CleanupInactiveSessions s)"

section \<open>The invariant\<close>

definition explorers_ok :: "ExplorationSessionData \<Rightarrow> bool" where
  "explorers_ok ses \<longleftrightarrow>
     distinct (es_participants ses) \<and> length (es_participants ses) \<le> 16
     \<and> (es_participants ses \<noteq> [] \<longrightarrow> es_hostPlayerId ses \<in> set (es_participants ses))
     \<and> (es_isActive ses \<longrightarrow> es_participants ses \<noteq> [])"

definition contract_ok :: "MonsterContract \<Rightarrow> bool" where
  "contract_ok c \<longleftrightarrow>
     distinct (mct_participants c) \<and> length (mct_participants c) \<le> 8 \<and> mct_isActive c = (\<not> mct_isCompleted c)"

definition exploration_ok :: "ExplorationMode \<Rightarrow> bool" where
  "exploration_ok s \<longleftrightarrow>
     om_sorted (xm_explorationSessions s) \<and> om_sorted (xm_monsterContracts s)
     \<and> unat (xm_maxSessionSize s) \<le> 16 \<and> unat (xm_maxContractParticipants s) \<le> 8
     \<and> (\<forall>k ses. om_find (xm_explorationSessions s) k = Some ses \<longrightarrow> explorers_ok ses)
     \<and> (\<forall>k c. om_find (xm_monsterContracts s) k = Some c \<longrightarrow> contract_ok c)"

lemma ok_frame [simp]:
  "exploration_ok (exploration_call b c s) = exploration_ok s"
  "exploration_ok (upd_exploration_stats f s) = exploration_ok s"
  "exploration_ok (s\<lparr>xm_nextSessionId := n\<rparr>) = exploration_ok s"
  by (simp_all add: exploration_ok_def exploration_call_def upd_exploration_stats_def)

lemma ok_put: "exploration_ok s \<Longrightarrow> explorers_ok ses \<Longrightarrow> exploration_ok (put_exploration k ses s)"
  by (auto simp: exploration_ok_def put_exploration_def)

lemma ok_put_contract: "exploration_ok s \<Longrightarrow> contract_ok c \<Longrightarrow> exploration_ok (put_contract k c s)"
  by (auto simp: exploration_ok_def put_contract_def)

lemma ok_get:
  "exploration_ok s \<Longrightarrow> GetExplorationSession s k = Some ses \<Longrightarrow> explorers_ok ses"
  "exploration_ok s \<Longrightarrow> active_exploration s k = Some ses \<Longrightarrow> explorers_ok ses \<and> es_isActive ses"
  "exploration_ok s \<Longrightarrow> om_find (xm_monsterContracts s) i = Some c \<Longrightarrow> contract_ok c"
  "exploration_ok s \<Longrightarrow> active_contract s i = Some c \<Longrightarrow> contract_ok c \<and> mct_isActive c"
  by (auto simp: exploration_ok_def GetExplorationSession_def active_exploration_def active_contract_def
      split: option.splits if_splits)

lemma explorers_ok_stamp [simp]:
  "explorers_ok (stamp now ses) = explorers_ok ses"
  "explorers_ok (ses\<lparr>es_unlockedRegions := u\<rparr>) = explorers_ok ses"
  "explorers_ok (ses\<lparr>es_fastTravelPoints := ps\<rparr>) = explorers_ok ses"
  "explorers_ok (ses\<lparr>es_playerPositions := pp\<rparr>) = explorers_ok ses"
  "explorers_ok (ses\<lparr>es_playerRegions := pr\<rparr>) = explorers_ok ses"
  by (simp_all add: explorers_ok_def stamp_def)

lemma ok_change_active:
  "exploration_ok s \<Longrightarrow> (\<And>ses. explorers_ok (f ses) = explorers_ok ses) \<Longrightarrow>
     exploration_ok (snd (change_active now k f s))"
  by (auto simp: change_active_def intro!: ok_put dest: ok_get split: option.splits)

lemma explorers_ok_remove:
  assumes "explorers_ok ses"
  shows "es_participants (remove_explorer now p ses) = [] \<or> explorers_ok (remove_explorer now p ses)"
proof -
  define ps where "ps = remove1 p (es_participants ses)"
  have d: "distinct (es_participants ses)" using assms by (simp add: explorers_ok_def)
  have ps: "distinct ps" "length ps \<le> 16" "set ps = set (es_participants ses) - {p}"
    using assms d by (auto simp: explorers_ok_def ps_def set_remove1_eq length_remove1)
  have host: "es_hostPlayerId ses \<in> set ps" if "ps \<noteq> []" "es_hostPlayerId ses \<noteq> p"
  proof -
    have "es_participants ses \<noteq> []" using that(1) by (auto simp: ps_def)
    then show ?thesis using assms that(2) unfolding ps(3) explorers_ok_def by blast
  qed
  show ?thesis
    using ps(1,2) host
    by (cases "ps = []") (simp_all add: remove_explorer_def Let_def explorers_ok_def stamp_def ps_def [symmetric])
qed

lemma explorers_ok_end: "es_participants ses = [] \<or> explorers_ok ses \<Longrightarrow> explorers_ok (ses\<lparr>es_isActive := False\<rparr>)"
  by (auto simp: explorers_ok_def)

lemma ok_End: "exploration_ok s \<Longrightarrow> exploration_ok (snd (EndExplorationSession k s))"
  by (auto simp: EndExplorationSession_def intro!: ok_put explorers_ok_end dest: ok_get(1) split: option.splits)

lemma ok_Leave:
  assumes "exploration_ok s"
  shows "exploration_ok (snd (LeaveExplorationSession now k p s))"
proof (cases "GetExplorationSession s k")
  case None
  with assms show ?thesis by (simp add: LeaveExplorationSession_def)
next
  case (Some ses)
  let ?ses = "remove_explorer now p ses"
  note ok = explorers_ok_remove [OF ok_get(1) [OF assms Some], of now p]
  have "put_exploration k (?ses\<lparr>es_isActive := False\<rparr>) (put_exploration k ?ses s)
      = put_exploration k (?ses\<lparr>es_isActive := False\<rparr>) s"
    using assms by (simp add: put_exploration_def exploration_ok_def om.put_put)
  then have "es_participants ?ses = [] \<Longrightarrow> exploration_ok (snd (EndExplorationSession k (put_exploration k ?ses s)))"
    using ok_put [OF assms explorers_ok_end [OF ok]]
    by (simp add: EndExplorationSession_def GetExplorationSession_def put_exploration_def)
  with ok Some assms show ?thesis by (auto simp: LeaveExplorationSession_def Let_def intro!: ok_put)
qed

lemma ok_Cleanup: "exploration_ok s \<Longrightarrow> exploration_ok (Exploration_CleanupInactiveSessions s)"
  by (auto simp: exploration_ok_def Exploration_CleanupInactiveSessions_def om_sorted_filter dest: om_find_filter)

lemma contract_ok_remove1: "contract_ok c \<Longrightarrow> contract_ok (c\<lparr>mct_participants := remove1 p (mct_participants c)\<rparr>)"
  using length_remove1 [of p "mct_participants c"] by (auto simp: contract_ok_def)

lemma ok_contracts:
  assumes "exploration_ok s"
  shows "exploration_ok (snd (CreateMonsterContract now n d t l r lv rw s))"
    "exploration_ok (snd (JoinMonsterContract now k c p s))"
    "exploration_ok (snd (LeaveMonsterContract now k c p s))"
    "exploration_ok (snd (CompleteMonsterContract now k c s))"
proof -
  show "exploration_ok (snd (CreateMonsterContract now n d t l r lv rw s))"
    using assms by (auto simp: CreateMonsterContract_def Let_def exploration_ok_def new_contract_def contract_ok_def
        upd_exploration_stats_def)
  have m: "unat (xm_maxContractParticipants s) \<le> 8" using assms by (simp add: exploration_ok_def)
  show "exploration_ok (snd (JoinMonsterContract now k c p s))"
    using assms m ok_get(2,4) [OF assms]
    by (auto simp: JoinMonsterContract_def intro!: ok_put ok_put_contract split: option.splits)
      (auto simp: contract_ok_def)
  show "exploration_ok (snd (LeaveMonsterContract now k c p s))"
    using assms ok_get(2,3) [OF assms]
    by (auto simp: LeaveMonsterContract_def intro!: ok_put ok_put_contract contract_ok_remove1 split: option.splits)
  show "exploration_ok (snd (CompleteMonsterContract now k c s))"
    using assms ok_get(2,4) [OF assms]
    by (auto simp: CompleteMonsterContract_def intro!: ok_put ok_put_contract split: option.splits)
      (auto simp: contract_ok_def)
qed

lemma ok_members:
  assumes "exploration_ok s"
  shows "exploration_ok (snd (CreateExplorationSession now name h s))"
    "exploration_ok (snd (JoinExplorationSession now k p s))"
proof -
  show "exploration_ok (snd (CreateExplorationSession now name h s))"
    using assms by (auto simp: CreateExplorationSession_def Let_def intro!: ok_put) (simp add: explorers_ok_def)
  have m: "unat (xm_maxSessionSize s) \<le> 16" using assms by (simp add: exploration_ok_def)
  show "exploration_ok (snd (JoinExplorationSession now k p s))"
    using assms m ok_get(2) [OF assms]
    by (auto simp: JoinExplorationSession_def intro!: ok_put split: option.splits) (auto simp: explorers_ok_def)
qed

lemma ok_points:
  assumes "exploration_ok s"
  shows "exploration_ok (snd (UnlockFastTravelPoint now k i s))"
    "exploration_ok (snd (LockFastTravelPoint now k i s))"
    "exploration_ok (snd (FastTravelToPoint now k p i s))"
    "exploration_ok (snd (UnlockRegion now k r s))"
proof -
  show "exploration_ok (snd (UnlockFastTravelPoint now k i s))"
    "exploration_ok (snd (LockFastTravelPoint now k i s))" "exploration_ok (snd (FastTravelToPoint now k p i s))"
    using assms ok_get(2) [OF assms]
    by (auto simp: UnlockFastTravelPoint_def LockFastTravelPoint_def FastTravelToPoint_def intro!: ok_put
        split: option.splits)
  have "exploration_ok (snd (change_active now k (\<lambda>ses. ses\<lparr>es_unlockedRegions := om_put r True (es_unlockedRegions ses)\<rparr>) s))"
    by (rule ok_change_active [OF assms]) simp
  then show "exploration_ok (snd (UnlockRegion now k r s))" by (auto simp: UnlockRegion_def split: prod.splits)
qed

lemma exploration_step_ok:
  assumes "exploration_ok s" "exploration_step x s = Some t"
  shows "exploration_ok t"
proof (cases x)
  case XInitialize
  with assms show ?thesis
    by (auto simp: Exploration_Initialize_def InitializeFastTravelPoints_def exploration_ok_def split: if_splits)
next
  case (XMaxSize n)
  with assms show ?thesis
    by (auto simp: Exploration_SetMaxSessionSize_def exploration_ok_def max_def min_def word_le_nat_alt)
next
  case (XMaxContract n)
  with assms show ?thesis
    by (auto simp: SetMaxContractParticipants_def exploration_ok_def max_def min_def word_le_nat_alt)
qed (use assms in \<open>auto simp: ok_End ok_Leave ok_Cleanup ok_contracts ok_members ok_points ok_change_active
      LockRegion_def UpdatePlayerPosition_def UpdatePlayerRegion_def UpdateExplorationSession_def\<close>,
    use assms in \<open>auto simp: Exploration_Shutdown_def CreateExplorationActivity_def Exploration_ResetStats_def
      upd_exploration_stats_def exploration_ok_def Let_def\<close>)

interpretation exploration_runs: step_system exploration_step exploration_ok "\<lambda>_. True"
  by unfold_locales (rule exploration_step_ok)

section \<open>Properties\<close>

text \<open>
  C25. In every state reached from a fresh exploration mode, the players of a session and of a
  monster contract are distinct and bounded (16 and 8, the clamps of the setters), the host of a
  session that has players is one of them, an active session has players, and a contract is active
  exactly while it is not completed.
\<close>

theorem exploration_consistent:
  assumes "run exploration_step ops (ExplorationMode_new start) = Some s"
  shows "(\<forall>k ses. GetExplorationSession s k = Some ses \<longrightarrow>
            distinct (es_participants ses) \<and> length (es_participants ses) \<le> 16
            \<and> (es_participants ses \<noteq> [] \<longrightarrow> es_hostPlayerId ses \<in> set (es_participants ses))
            \<and> (es_isActive ses \<longrightarrow> es_participants ses \<noteq> []))
         \<and> (\<forall>i c. om_find (xm_monsterContracts s) i = Some c \<longrightarrow>
              distinct (mct_participants c) \<and> length (mct_participants c) \<le> 8
              \<and> (mct_isActive c \<longleftrightarrow> \<not> mct_isCompleted c))"
proof -
  have "exploration_ok (ExplorationMode_new start)" by (simp add: exploration_ok_def ExplorationMode_new_def)
  then have "exploration_ok s"
    using exploration_runs.run_inv [OF _ _ assms] by (simp add: list_all_iff)
  then show ?thesis by (simp add: exploration_ok_def explorers_ok_def contract_ok_def GetExplorationSession_def)
qed

theorem exploration_consistent_witness:
  "let s = the (run exploration_step
        [XInitialize, XCreate 0 ''a'' 7, XJoin 1 1 8, XLeave 2 1 7, XContract 3 ''n'' ''d'' ''t'' vec4_zero Velen 5 100,
         XJoinContract 4 1 1 8, XCompleteContract 5 1 1] (ExplorationMode_new 0))
   in map_option (\<lambda>ses. (es_participants ses, es_hostPlayerId ses)) (GetExplorationSession s 1) = Some ([8], 8)
      \<and> (\<forall>i c. om_find (xm_monsterContracts s) i = Some c \<longrightarrow> (mct_isActive c \<longleftrightarrow> \<not> mct_isCompleted c))"
proof -
  let ?ops = "[XInitialize, XCreate 0 ''a'' 7, XJoin 1 1 8, XLeave 2 1 7, XContract 3 ''n'' ''d'' ''t'' vec4_zero Velen 5 100,
         XJoinContract 4 1 1 8, XCompleteContract 5 1 1]"
  have r: "run exploration_step ?ops (ExplorationMode_new 0) = Some (the (run exploration_step ?ops (ExplorationMode_new 0)))"
    by simp
  have "map_option (\<lambda>ses. (es_participants ses, es_hostPlayerId ses))
          (GetExplorationSession (the (run exploration_step ?ops (ExplorationMode_new 0))) 1) = Some ([8], 8)"
    by code_simp
  with exploration_consistent [OF r] show ?thesis by (simp add: Let_def)
qed

section \<open>Fast travel\<close>

text \<open>What unlocking and locking do to the points of the session.\<close>

definition unlock_list :: "time_point \<Rightarrow> u32 \<Rightarrow> FastTravelPoint \<Rightarrow> FastTravelPoint list \<Rightarrow> FastTravelPoint list" where
  "unlock_list now i pt ps =
     (if \<exists>p \<in> set ps. ftp_pointId p = i \<and> ftp_isUnlocked p then ps
      else ps @ [pt\<lparr>ftp_isUnlocked := True, ftp_unlockTime := now\<rparr>])"

definition lock_list :: "u32 \<Rightarrow> FastTravelPoint list \<Rightarrow> FastTravelPoint list" where
  "lock_list i ps = (case lock_first i ps of None \<Rightarrow> ps | Some qs \<Rightarrow> qs)"

lemma lock_list_simps [simp]:
  "lock_list i [] = []"
  "lock_list i (p # ps) = (if ftp_pointId p = i then p\<lparr>ftp_isUnlocked := False\<rparr> # ps else p # lock_list i ps)"
  by (auto simp: lock_list_def split: option.splits)

definition first_locked :: "u32 \<Rightarrow> FastTravelPoint list \<Rightarrow> bool" where
  "first_locked i ps \<longleftrightarrow> (case find (\<lambda>p. ftp_pointId p = i) ps of None \<Rightarrow> False | Some p \<Rightarrow> \<not> ftp_isUnlocked p)"

lemma first_locked_lock: "\<exists>p \<in> set ps. ftp_pointId p = i \<Longrightarrow> first_locked i (lock_list i ps)"
  by (induction ps) (auto simp: first_locked_def)

lemma lock_list_first_locked:
  "first_locked i ps \<Longrightarrow> \<exists>p \<in> set ps. ftp_pointId p = i \<and> usable p \<Longrightarrow>
     \<exists>p \<in> set (lock_list i ps). ftp_pointId p = i \<and> usable p"
  by (induction ps) (auto simp: first_locked_def usable_def split: if_splits)

lemma lock_list_active: "\<forall>p \<in> set ps. ftp_isActive p \<Longrightarrow> \<forall>p \<in> set (lock_list i ps). ftp_isActive p"
  by (induction ps) auto

lemma first_locked_append: "first_locked i ps \<Longrightarrow> first_locked i (ps @ qs)"
  by (induction ps) (auto simp: first_locked_def)

lemma unlock_list_usable:
  assumes "ftp_pointId pt = i" "ftp_isActive pt" "\<forall>p \<in> set ps. ftp_isActive p"
  shows "\<exists>p \<in> set (unlock_list now i pt ps). ftp_pointId p = i \<and> usable p"
    and "\<forall>p \<in> set (unlock_list now i pt ps). ftp_isActive p"
    and "first_locked i ps \<Longrightarrow> first_locked i (unlock_list now i pt ps)"
  using assms by (auto simp: unlock_list_def usable_def first_locked_append)

lemma relock_usable:
  assumes "ftp_pointId pt = i" "ftp_isActive pt" "\<forall>p \<in> set ps. ftp_isActive p"
  shows "\<exists>p \<in> set (lock_list i (unlock_list b i pt (lock_list i (unlock_list a i pt ps)))).
           ftp_pointId p = i \<and> usable p"
proof -
  let ?qs = "lock_list i (unlock_list a i pt ps)"
  note u = unlock_list_usable [OF assms, of a]
  have l: "first_locked i ?qs" using u(1) by (blast intro: first_locked_lock)
  have act: "\<forall>p \<in> set ?qs. ftp_isActive p" using u(2) by (rule lock_list_active)
  note v = unlock_list_usable [OF assms(1,2) act, of b]
  show ?thesis using v(3) [OF l] v(1) by (rule lock_list_first_locked)
qed

text \<open>The session \<open>k\<close> is active, with these players and points, in a mode with these known points.\<close>

definition travel_view ::
    "ExplorationMode \<Rightarrow> u32 \<Rightarrow> u32 list \<Rightarrow> FastTravelPoint list \<Rightarrow> (u32, FastTravelPoint) omap \<Rightarrow> bool" where
  "travel_view s k members ps known \<longleftrightarrow>
     (\<exists>ses. active_exploration s k = Some ses \<and> es_participants ses = members \<and> es_fastTravelPoints ses = ps)
     \<and> xm_fastTravelPoints s = known"

lemma travel_view_unlock:
  "travel_view s k members ps known \<Longrightarrow> om_find known i = Some pt \<Longrightarrow>
     travel_view (snd (UnlockFastTravelPoint now k i s)) k members (unlock_list now i pt ps) known"
  by (auto simp: travel_view_def UnlockFastTravelPoint_def unlock_list_def active_exploration_def
      GetExplorationSession_def exploration_call_def put_exploration_def stamp_def
      split: option.splits if_splits)

lemma travel_view_lock:
  "travel_view s k members ps known \<Longrightarrow> travel_view (snd (LockFastTravelPoint now k i s)) k members (lock_list i ps) known"
  by (auto simp: travel_view_def LockFastTravelPoint_def lock_list_def active_exploration_def
      GetExplorationSession_def put_exploration_def stamp_def split: option.splits if_splits)

lemma travel_view_travel:
  "travel_view s k members ps known \<Longrightarrow> p \<in> set members \<Longrightarrow>
     \<exists>q \<in> set ps. ftp_pointId q = i \<and> usable q \<Longrightarrow> fst (FastTravelToPoint now k p i s)"
  by (auto simp: travel_view_def FastTravelToPoint_def find_None_iff split: option.splits)

text \<open>
  Locking a fast travel point does not always lock it: locking changes only the first entry of
  the point and unlocking appends a second one, so a point that is unlocked, locked, unlocked and
  locked again still lets every player of the session travel to it.
\<close>

lemma fast_travel_survives_locking:
  assumes "active_exploration s k = Some ses" "p \<in> set (es_participants ses)"
    and "om_find (xm_fastTravelPoints s) i = Some pt" "ftp_pointId pt = i" "ftp_isActive pt"
    and "\<forall>q \<in> set (es_fastTravelPoints ses). ftp_isActive q"
    and "s1 = snd (LockFastTravelPoint t\<^sub>2 k i (snd (UnlockFastTravelPoint t\<^sub>1 k i s)))"
    and "s2 = snd (LockFastTravelPoint t\<^sub>4 k i (snd (UnlockFastTravelPoint t\<^sub>3 k i s1)))"
  shows "fst (FastTravelToPoint now k p i s2)"
proof -
  have "travel_view s k (es_participants ses) (es_fastTravelPoints ses) (xm_fastTravelPoints s)"
    using assms(1) by (simp add: travel_view_def)
  then have "travel_view s2 k (es_participants ses)
      (lock_list i (unlock_list t\<^sub>3 i pt (lock_list i (unlock_list t\<^sub>1 i pt (es_fastTravelPoints ses)))))
      (xm_fastTravelPoints s)"
    unfolding assms(7,8) by (intro travel_view_lock travel_view_unlock assms(3))
  then show ?thesis using assms(2) relock_usable [OF assms(4-6)] by (rule travel_view_travel)
qed

lemma fast_travel_survives_locking_witness:
  "let s = the (run exploration_step [XInitialize, XCreate 0 ''a'' 7] (ExplorationMode_new 0));
       s' = snd (LockFastTravelPoint 4 1 0 (snd (UnlockFastTravelPoint 3 1 0
              (snd (LockFastTravelPoint 2 1 0 (snd (UnlockFastTravelPoint 1 1 0 s)))))))
   in fst (FastTravelToPoint 5 1 7 0 s')"
proof -
  let ?s = "the (run exploration_step [XInitialize, XCreate 0 ''a'' 7] (ExplorationMode_new 0))"
  let ?ses = "the (active_exploration ?s 1)"
  let ?pt = "the (om_find (xm_fastTravelPoints ?s) 0)"
  have "active_exploration ?s 1 \<noteq> None \<and> 7 \<in> set (es_participants ?ses) \<and> om_find (xm_fastTravelPoints ?s) 0 \<noteq> None
      \<and> ftp_pointId ?pt = 0 \<and> ftp_isActive ?pt \<and> (\<forall>q \<in> set (es_fastTravelPoints ?ses). ftp_isActive q)"
    by (intro conjI; code_simp)
  then show ?thesis
    unfolding Let_def
    by (intro fast_travel_survives_locking [where s = ?s and ses = ?ses and pt = ?pt, OF _ _ _ _ _ _ refl refl]) auto
qed

text \<open>All default points have identifier 0, so the map keeps one of them: the last.\<close>

lemma only_last_point_remains:
  "\<not> xm_initialized s \<Longrightarrow> xm_fastTravelPoints s = [] \<Longrightarrow>
     xm_fastTravelPoints (snd (Exploration_Initialize s)) = [(0, last default_points)]"
  by (simp add: Exploration_Initialize_def InitializeFastTravelPoints_def default_points_def
      CreateFastTravelPoint_def FastTravelPoint_new_def)

section \<open>Distances\<close>

lemma CalculateDistance_commute: "CalculateDistance a b = CalculateDistance b a"
  by (simp add: CalculateDistance_def distance3_commute)

text \<open>Being near is symmetric: the source's \<open>GetNearbyPlayers\<close> lists \<open>p\<close> for \<open>q\<close> when it lists \<open>q\<close> for \<open>p\<close>.\<close>

lemma nearby_symmetric:
  assumes "GetExplorationSession s k = Some ses" "om_sorted (es_playerPositions ses)"
    and "om_find (es_playerPositions ses) p = Some v" "q \<in> set (GetNearbyPlayers s k p radius)"
  shows "p \<in> set (GetNearbyPlayers s k q radius)"
  using assms
  by (cases v) (auto simp: GetNearbyPlayers_def GetPlayerPosition_def Let_def om_get_Some om_find_Some_iff [symmetric]
      image_iff CalculateDistance_commute)

end
