(* ===== verification/MonsterAI.thy ===== *)
theory MonsterAI
  imports Vectors
begin

text \<open>
  \<open>SyncedMonsterAI.cpp\<close>: monsters with a behaviour state machine, their groups, the reaction to
  players and the synchronisation with remote data.  A pointer into a map is its key, a callback is a
  flag and a log, one call reads the clock once.
\<close>

section \<open>Data\<close>

datatype MonsterAIState = Idle | Patrolling | Alert | Aggressive | Attacking | Stunned | Dead | Fleeing

datatype MonsterType = Humanoid | Beast | Elemental | Undead | Dragon | Insectoid | Hybrid

text \<open>The constant \<open>Aggressive\<close> of the second enumeration is called \<open>Hostile\<close>.\<close>

datatype BehaviorPattern = Passive | Hostile | Territorial | Pack | Guardian | Predator

record MonsterAIData =
  mon_monsterId :: u32
  mon_monsterName :: string
  mon_type :: MonsterType
  mon_pattern :: BehaviorPattern
  mon_currentState :: MonsterAIState
  mon_previousState :: MonsterAIState
  mon_position :: vec4
  mon_targetPosition :: vec4
  mon_velocity :: vec4
  mon_rotation :: flt
  mon_targetRotation :: flt
  mon_health :: flt
  mon_maxHealth :: flt
  mon_stamina :: flt
  mon_maxStamina :: flt
  mon_attackPower :: flt
  mon_defense :: flt
  mon_speed :: flt
  mon_attackRange :: flt
  mon_detectionRange :: flt
  mon_aggroRange :: flt
  mon_aggressionLevel :: flt
  mon_fearLevel :: flt
  mon_intelligence :: flt
  mon_memory :: flt
  mon_targetPlayerId :: u32
  mon_threatList :: "u32 list"
  mon_lastAttackTime :: time_point
  mon_lastStateChange :: time_point
  mon_syncOwner :: u32
  mon_needsSync :: bool
  mon_lastSyncTime :: time_point

definition MonsterAIData_new :: MonsterAIData where
  "MonsterAIData_new =
     \<lparr>mon_monsterId = 0, mon_monsterName = [], mon_type = Beast, mon_pattern = Passive,
      mon_currentState = Idle, mon_previousState = Idle, mon_position = vec4_zero,
      mon_targetPosition = vec4_zero, mon_velocity = vec4_zero, mon_rotation = Fin 0,
      mon_targetRotation = Fin 0, mon_health = Fin 100, mon_maxHealth = Fin 100, mon_stamina = Fin 100,
      mon_maxStamina = Fin 100, mon_attackPower = Fin 10, mon_defense = Fin 5, mon_speed = Fin 1,
      mon_attackRange = Fin 2, mon_detectionRange = Fin 10, mon_aggroRange = Fin 5,
      mon_aggressionLevel = rnd32 (1 / 2), mon_fearLevel = Fin 0, mon_intelligence = rnd32 (1 / 2),
      mon_memory = rnd32 (7 / 10), mon_targetPlayerId = 0, mon_threatList = [], mon_lastAttackTime = 0,
      mon_lastStateChange = 0, mon_syncOwner = 0, mon_needsSync = False, mon_lastSyncTime = 0\<rparr>"

record AIDecision =
  dc_newState :: MonsterAIState
  dc_targetPosition :: vec4
  dc_targetPlayerId :: u32
  dc_action :: string
  dc_priority :: flt
  dc_timestamp :: time_point

definition AIDecision_new :: AIDecision where
  "AIDecision_new =
     \<lparr>dc_newState = Idle, dc_targetPosition = vec4_zero, dc_targetPlayerId = 0, dc_action = [],
      dc_priority = Fin 0, dc_timestamp = 0\<rparr>"

record MonsterGroup =
  mg_groupId :: u32
  mg_name :: string
  mg_members :: "u32 list"
  mg_leader :: u32
  mg_groupPattern :: BehaviorPattern
  mg_groupCenter :: vec4
  mg_groupRadius :: flt
  mg_isActive :: bool

definition MonsterGroup_new :: MonsterGroup where
  "MonsterGroup_new =
     \<lparr>mg_groupId = 0, mg_name = [], mg_members = [], mg_leader = 0, mg_groupPattern = Pack,
      mg_groupCenter = vec4_zero, mg_groupRadius = Fin 10, mg_isActive = True\<rparr>"

record AIStats =
  ais_totalMonsters :: u32
  ais_activeMonsters :: u32
  ais_aggressiveMonsters :: u32
  ais_totalGroups :: u32
  ais_totalDecisions :: u32
  ais_averageDecisionTime :: flt
  ais_averageSyncTime :: flt
  ais_syncConflicts :: u32

definition AIStats_Reset :: AIStats where
  "AIStats_Reset =
     \<lparr>ais_totalMonsters = 0, ais_activeMonsters = 0, ais_aggressiveMonsters = 0, ais_totalGroups = 0,
      ais_totalDecisions = 0, ais_averageDecisionTime = Fin 0, ais_averageSyncTime = Fin 0,
      ais_syncConflicts = 0\<rparr>"

datatype MonsterCall =
    StateChanged u32 MonsterAIState MonsterAIState
  | MonsterAttacked u32 u32 flt
  | MonsterDied u32

record SyncedMonsterAI =
  sma_initialized :: bool
  sma_monsters :: "(u32, MonsterAIData) omap"
  sma_groups :: "(u32, MonsterGroup) omap"
  sma_playerThreats :: "(u32, u32 list) omap"
  sma_aiDifficulty :: flt
  sma_syncInterval :: flt
  sma_groupBehaviorEnabled :: bool
  sma_maxMonsters :: u32
  sma_stats :: AIStats
  sma_stateChangedCallback :: bool
  sma_attackedCallback :: bool
  sma_diedCallback :: bool
  sma_groupFormedCallback :: bool
  sma_lastUpdateTime :: time_point
  sma_lastSyncTime :: time_point
  sma_nextMonsterId :: u32
  sma_nextGroupId :: u32
  sma_calls :: "MonsterCall list"

definition SyncedMonsterAI_new :: "time_point \<Rightarrow> SyncedMonsterAI" where
  "SyncedMonsterAI_new now =
     \<lparr>sma_initialized = False, sma_monsters = [], sma_groups = [], sma_playerThreats = [],
      sma_aiDifficulty = Fin 1, sma_syncInterval = rnd32 (1 / 10), sma_groupBehaviorEnabled = True,
      sma_maxMonsters = 100, sma_stats = AIStats_Reset, sma_stateChangedCallback = False,
      sma_attackedCallback = False, sma_diedCallback = False, sma_groupFormedCallback = False,
      sma_lastUpdateTime = now, sma_lastSyncTime = now, sma_nextMonsterId = 1, sma_nextGroupId = 1,
      sma_calls = []\<rparr>"

definition upd_ai_stats :: "(AIStats \<Rightarrow> AIStats) \<Rightarrow> SyncedMonsterAI \<Rightarrow> SyncedMonsterAI" where
  "upd_ai_stats f s = s\<lparr>sma_stats := f (sma_stats s)\<rparr>"

definition monster_call :: "bool \<Rightarrow> MonsterCall \<Rightarrow> SyncedMonsterAI \<Rightarrow> SyncedMonsterAI" where
  "monster_call installed c s = (if installed then s\<lparr>sma_calls := sma_calls s @ [c]\<rparr> else s)"

text \<open>A write through the pointer returned by \<open>GetMonster\<close>; nothing happens on a null pointer.\<close>

definition on_monster :: "u32 \<Rightarrow> (MonsterAIData \<Rightarrow> MonsterAIData) \<Rightarrow> SyncedMonsterAI \<Rightarrow> SyncedMonsterAI" where
  "on_monster k f s = s\<lparr>sma_monsters := om_upd k f (sma_monsters s)\<rparr>"

section \<open>Monsters\<close>

definition AI_Initialize :: "SyncedMonsterAI \<Rightarrow> bool \<times> SyncedMonsterAI" where
  "AI_Initialize s = (if sma_initialized s then (True, s) else (True, s\<lparr>sma_initialized := True\<rparr>))"

definition AI_Shutdown :: "SyncedMonsterAI \<Rightarrow> SyncedMonsterAI" where
  "AI_Shutdown s =
     (if \<not> sma_initialized s then s
      else s\<lparr>sma_monsters := [], sma_groups := [], sma_playerThreats := [], sma_initialized := False\<rparr>)"

definition AddMonster :: "time_point \<Rightarrow> MonsterAIData \<Rightarrow> SyncedMonsterAI \<Rightarrow> SyncedMonsterAI" where
  "AddMonster now monsterData s =
     (if \<not> sma_initialized s then s
      else
        let fresh = (mon_monsterId monsterData = 0);
            k = (if fresh then sma_nextMonsterId s else mon_monsterId monsterData);
            monster = monsterData\<lparr>mon_monsterId := k, mon_lastSyncTime := now\<rparr>
        in upd_ai_stats (\<lambda>st. st\<lparr>ais_totalMonsters := ais_totalMonsters st + 1,
              ais_activeMonsters := ais_activeMonsters st + 1\<rparr>)
            (s\<lparr>sma_nextMonsterId := (if fresh then sma_nextMonsterId s + 1 else sma_nextMonsterId s),
               sma_monsters := om_put k monster (sma_monsters s)\<rparr>))"

definition GetMonster :: "SyncedMonsterAI \<Rightarrow> u32 \<Rightarrow> MonsterAIData option" where
  "GetMonster s monsterId = om_find (sma_monsters s) monsterId"

definition RemoveMonster :: "u32 \<Rightarrow> SyncedMonsterAI \<Rightarrow> SyncedMonsterAI" where
  "RemoveMonster monsterId s =
     (case om_find (sma_monsters s) monsterId of
        None \<Rightarrow> s
      | Some m \<Rightarrow> upd_ai_stats (\<lambda>st. st\<lparr>ais_activeMonsters := ais_activeMonsters st - 1\<rparr>)
          (s\<lparr>sma_monsters := om_erase monsterId (sma_monsters s)\<rparr>))"

definition GetAllMonsters :: "SyncedMonsterAI \<Rightarrow> MonsterAIData list" where
  "GetAllMonsters s = om_values (sma_monsters s)"

definition AI_CalculateDistance :: "vec4 \<Rightarrow> vec4 \<Rightarrow> flt" where
  "AI_CalculateDistance a b = distance3 a b"

definition AI_IsInRange :: "vec4 \<Rightarrow> vec4 \<Rightarrow> flt \<Rightarrow> bool" where
  "AI_IsInRange position target radius \<longleftrightarrow> f_le (AI_CalculateDistance position target) radius"

definition CalculateDirection :: "vec4 \<Rightarrow> vec4 \<Rightarrow> flt \<times> flt \<times> flt" where
  "CalculateDirection from_pos to_pos = direction3 from_pos to_pos"

definition GetMonstersInRange :: "SyncedMonsterAI \<Rightarrow> vec4 \<Rightarrow> flt \<Rightarrow> MonsterAIData list" where
  "GetMonstersInRange s position radius =
     filter (\<lambda>m. f_le (AI_CalculateDistance (mon_position m) position) radius) (om_values (sma_monsters s))"

section \<open>State changes\<close>

definition ChangeMonsterState ::
    "time_point \<Rightarrow> u32 \<Rightarrow> MonsterAIState \<Rightarrow> SyncedMonsterAI \<Rightarrow> SyncedMonsterAI" where
  "ChangeMonsterState now monsterId newState s =
     (case GetMonster s monsterId of
        None \<Rightarrow> s
      | Some m \<Rightarrow>
          if mon_currentState m = newState then s
          else
            let s1 = on_monster monsterId (\<lambda>m. m\<lparr>mon_previousState := mon_currentState m, mon_currentState := newState,
                       mon_lastStateChange := now, mon_needsSync := True\<rparr>) s;
                s2 = (if newState = Aggressive \<or> newState = Attacking
                      then upd_ai_stats (\<lambda>st. st\<lparr>ais_aggressiveMonsters := ais_aggressiveMonsters st + 1\<rparr>) s1 else s1)
            in monster_call (sma_stateChangedCallback s2) (StateChanged monsterId newState (mon_currentState m)) s2)"

definition SetMonsterTarget :: "u32 \<Rightarrow> u32 \<Rightarrow> SyncedMonsterAI \<Rightarrow> SyncedMonsterAI" where
  "SetMonsterTarget monsterId playerId =
     on_monster monsterId (\<lambda>m. m\<lparr>mon_targetPlayerId := playerId, mon_needsSync := True\<rparr>)"

definition ClearMonsterTarget :: "u32 \<Rightarrow> SyncedMonsterAI \<Rightarrow> SyncedMonsterAI" where
  "ClearMonsterTarget monsterId = on_monster monsterId (\<lambda>m. m\<lparr>mon_targetPlayerId := 0, mon_needsSync := True\<rparr>)"

section \<open>Synchronisation\<close>

text \<open>\<open>ResolveSyncConflict\<close> is empty in the source: on a conflict the local data stay.\<close>

definition ResolveSyncConflict :: "u32 \<Rightarrow> MonsterAIData \<Rightarrow> MonsterAIData \<Rightarrow> SyncedMonsterAI \<Rightarrow> SyncedMonsterAI" where
  "ResolveSyncConflict monsterId localData remoteData s = s"

definition SynchronizeMonster :: "time_point \<Rightarrow> u32 \<Rightarrow> MonsterAIData \<Rightarrow> SyncedMonsterAI \<Rightarrow> SyncedMonsterAI" where
  "SynchronizeMonster now monsterId syncData s =
     (case GetMonster s monsterId of
        None \<Rightarrow> s
      | Some m \<Rightarrow>
          if mon_syncOwner m \<noteq> mon_syncOwner syncData \<and> mon_needsSync m
          then upd_ai_stats (\<lambda>st. st\<lparr>ais_syncConflicts := ais_syncConflicts st + 1\<rparr>)
                 (ResolveSyncConflict monsterId m syncData s)
          else on_monster monsterId (\<lambda>m. syncData\<lparr>mon_lastSyncTime := now\<rparr>) s)"

definition ProcessMonsterUpdate :: "time_point \<Rightarrow> MonsterAIData \<Rightarrow> SyncedMonsterAI \<Rightarrow> SyncedMonsterAI" where
  "ProcessMonsterUpdate now syncData = SynchronizeMonster now (mon_monsterId syncData) syncData"

definition AI_SetSyncOwner :: "u32 \<Rightarrow> u32 \<Rightarrow> SyncedMonsterAI \<Rightarrow> SyncedMonsterAI" where
  "AI_SetSyncOwner monsterId playerId =
     on_monster monsterId (\<lambda>m. m\<lparr>mon_syncOwner := playerId, mon_needsSync := True\<rparr>)"

definition ShouldSyncMonster :: "SyncedMonsterAI \<Rightarrow> u32 \<Rightarrow> bool" where
  "ShouldSyncMonster s monsterId \<longleftrightarrow> (case GetMonster s monsterId of None \<Rightarrow> False | Some m \<Rightarrow> mon_needsSync m)"

section \<open>Groups\<close>

definition CreateMonsterGroup :: "string \<Rightarrow> BehaviorPattern \<Rightarrow> SyncedMonsterAI \<Rightarrow> u32 \<times> SyncedMonsterAI" where
  "CreateMonsterGroup name pattern s =
     (let k = sma_nextGroupId s;
          g = MonsterGroup_new\<lparr>mg_groupId := k, mg_name := name, mg_groupPattern := pattern, mg_isActive := True\<rparr>
      in (k, upd_ai_stats (\<lambda>st. st\<lparr>ais_totalGroups := ais_totalGroups st + 1\<rparr>)
            (s\<lparr>sma_nextGroupId := k + 1, sma_groups := om_put k g (sma_groups s)\<rparr>)))"

definition GetMonsterGroup :: "SyncedMonsterAI \<Rightarrow> u32 \<Rightarrow> MonsterGroup option" where
  "GetMonsterGroup s groupId = om_find (sma_groups s) groupId"

definition on_group :: "u32 \<Rightarrow> (MonsterGroup \<Rightarrow> MonsterGroup) \<Rightarrow> SyncedMonsterAI \<Rightarrow> SyncedMonsterAI" where
  "on_group k f s = s\<lparr>sma_groups := om_upd k f (sma_groups s)\<rparr>"

definition AddMonsterToGroup :: "u32 \<Rightarrow> u32 \<Rightarrow> SyncedMonsterAI \<Rightarrow> SyncedMonsterAI" where
  "AddMonsterToGroup groupId monsterId s =
     (if GetMonsterGroup s groupId = None \<or> GetMonster s monsterId = None then s
      else on_group groupId (\<lambda>g. g\<lparr>mg_members := mg_members g @ [monsterId],
             mg_leader := (if mg_leader g = 0 then monsterId else mg_leader g)\<rparr>) s)"

definition remove_member :: "u32 \<Rightarrow> MonsterGroup \<Rightarrow> MonsterGroup" where
  "remove_member monsterId g =
     (let ms = remove1 monsterId (mg_members g)
      in g\<lparr>mg_members := ms,
           mg_leader := (if mg_leader g = monsterId \<and> ms \<noteq> [] then hd ms else mg_leader g)\<rparr>)"

definition RemoveMonsterFromGroup :: "u32 \<Rightarrow> u32 \<Rightarrow> SyncedMonsterAI \<Rightarrow> SyncedMonsterAI" where
  "RemoveMonsterFromGroup groupId monsterId = on_group groupId (remove_member monsterId)"

text \<open>The sum of the positions of the members that exist, and its division by the number of members.\<close>

fun sum_positions :: "(u32, MonsterAIData) omap \<Rightarrow> u32 list \<Rightarrow> flt \<times> flt \<times> flt \<Rightarrow> flt \<times> flt \<times> flt" where
  "sum_positions ms [] c = c"
| "sum_positions ms (k # ks) (x, y, z) =
     (case om_find ms k of
        None \<Rightarrow> sum_positions ms ks (x, y, z)
      | Some m \<Rightarrow> (case mon_position m of (px, py, pz, pw) \<Rightarrow>
          sum_positions ms ks (add32 x px, add32 y py, add32 z pz)))"

definition group_center :: "(u32, MonsterAIData) omap \<Rightarrow> u32 list \<Rightarrow> vec4" where
  "group_center ms members =
     (case sum_positions ms members (Fin 0, Fin 0, Fin 0) of (x, y, z) \<Rightarrow>
        if members = [] then (x, y, z, Fin 1)
        else let n = f32_of_nat (length members) in (div32 x n, div32 y n, div32 z n, Fin 1))"

definition UpdateGroupBehavior :: "u32 \<Rightarrow> SyncedMonsterAI \<Rightarrow> SyncedMonsterAI" where
  "UpdateGroupBehavior groupId s =
     on_group groupId (\<lambda>g. if mg_isActive g then g\<lparr>mg_groupCenter := group_center (sma_monsters s) (mg_members g)\<rparr> else g) s"

text \<open>The loop over the members of a pack has an empty body in the source.\<close>

definition ProcessGroupBehavior :: "u32 \<Rightarrow> SyncedMonsterAI \<Rightarrow> SyncedMonsterAI" where
  "ProcessGroupBehavior groupId s = UpdateGroupBehavior groupId s"

section \<open>Players\<close>

definition add_threat :: "u32 \<Rightarrow> MonsterAIData \<Rightarrow> MonsterAIData" where
  "add_threat playerId m =
     (if playerId \<in> set (mon_threatList m) then m else m\<lparr>mon_threatList := mon_threatList m @ [playerId]\<rparr>)"

definition enter_range :: "time_point \<Rightarrow> u32 \<Rightarrow> vec4 \<Rightarrow> u32 \<Rightarrow> SyncedMonsterAI \<Rightarrow> SyncedMonsterAI" where
  "enter_range now playerId position k s =
     (case GetMonster s k of
        None \<Rightarrow> s
      | Some m \<Rightarrow>
          if AI_IsInRange (mon_position m) position (mon_detectionRange m) then
            let s1 = on_monster k (add_threat playerId) s
            in if mon_currentState m = Idle \<or> mon_currentState m = Patrolling
               then ChangeMonsterState now k Alert s1 else s1
          else s)"

definition OnPlayerEnterRange :: "time_point \<Rightarrow> u32 \<Rightarrow> vec4 \<Rightarrow> SyncedMonsterAI \<Rightarrow> SyncedMonsterAI" where
  "OnPlayerEnterRange now playerId position s =
     fold (enter_range now playerId position) (om_keys (sma_monsters s)) s"

definition forget_player :: "u32 \<Rightarrow> u32 \<Rightarrow> SyncedMonsterAI \<Rightarrow> SyncedMonsterAI" where
  "forget_player playerId k s =
     (case GetMonster s k of
        None \<Rightarrow> s
      | Some m \<Rightarrow>
          let s1 = on_monster k (\<lambda>m. m\<lparr>mon_threatList := remove1 playerId (mon_threatList m)\<rparr>) s
          in if mon_targetPlayerId m = playerId then ClearMonsterTarget k s1 else s1)"

definition OnPlayerLeaveRange :: "u32 \<Rightarrow> vec4 \<Rightarrow> SyncedMonsterAI \<Rightarrow> SyncedMonsterAI" where
  "OnPlayerLeaveRange playerId position s = fold (forget_player playerId) (om_keys (sma_monsters s)) s"

definition OnPlayerDeath :: "u32 \<Rightarrow> SyncedMonsterAI \<Rightarrow> SyncedMonsterAI" where
  "OnPlayerDeath playerId s = fold (forget_player playerId) (om_keys (sma_monsters s)) s"

definition wound :: "u32 \<Rightarrow> flt \<Rightarrow> MonsterAIData \<Rightarrow> MonsterAIData" where
  "wound playerId damage m = add_threat playerId (m\<lparr>mon_health := f_max (Fin 0) (sub32 (mon_health m) damage)\<rparr>)"

definition OnPlayerAttack :: "time_point \<Rightarrow> u32 \<Rightarrow> u32 \<Rightarrow> flt \<Rightarrow> SyncedMonsterAI \<Rightarrow> SyncedMonsterAI" where
  "OnPlayerAttack now playerId monsterId damage s =
     (case GetMonster s monsterId of
        None \<Rightarrow> s
      | Some m \<Rightarrow>
          let s1 = SetMonsterTarget monsterId playerId (on_monster monsterId (wound playerId damage) s);
              s2 = (if mon_currentState m = Idle \<or> mon_currentState m = Patrolling
                    then ChangeMonsterState now monsterId Aggressive s1 else s1);
              s3 = (if f_le (mon_health (wound playerId damage m)) (Fin 0)
                    then monster_call (sma_diedCallback s) (MonsterDied monsterId)
                           (ChangeMonsterState now monsterId Dead s2)
                    else s2)
          in monster_call (sma_attackedCallback s) (MonsterAttacked monsterId playerId damage) s3)"

section \<open>One update\<close>

definition set_velocity :: "flt \<times> flt \<times> flt \<Rightarrow> MonsterAIData \<Rightarrow> MonsterAIData" where
  "set_velocity d m =
     (case d of (x, y, z) \<Rightarrow> m\<lparr>mon_velocity := (mul32 x (mon_speed m), mul32 y (mon_speed m), mul32 z (mon_speed m),
        snd (snd (snd (mon_velocity m))))\<rparr>)"

definition stand_still :: "MonsterAIData \<Rightarrow> MonsterAIData" where
  "stand_still m = m\<lparr>mon_velocity := vec4_zero\<rparr>"

definition walk_to_target :: "MonsterAIData \<Rightarrow> MonsterAIData" where
  "walk_to_target m = set_velocity (CalculateDirection (mon_position m) (mon_targetPosition m)) m"

definition ProcessAlertState :: "time_point \<Rightarrow> u32 \<Rightarrow> SyncedMonsterAI \<Rightarrow> SyncedMonsterAI" where
  "ProcessAlertState now k s =
     (case GetMonster s k of
        None \<Rightarrow> s
      | Some m \<Rightarrow> if mon_threatList m \<noteq> [] then ChangeMonsterState now k Aggressive s else s)"

definition ProcessAggressiveState :: "time_point \<Rightarrow> u32 \<Rightarrow> SyncedMonsterAI \<Rightarrow> SyncedMonsterAI" where
  "ProcessAggressiveState now k s =
     (case GetMonster s k of
        None \<Rightarrow> s
      | Some m \<Rightarrow>
          if mon_targetPlayerId m = 0 then s
          else
            let s1 = on_monster k walk_to_target s
            in if AI_IsInRange (mon_position m) (mon_targetPosition m) (mon_attackRange m)
               then ChangeMonsterState now k Attacking s1 else s1)"

text \<open>An attack of the monster only restarts its cooldown of one second.\<close>

definition strike :: "time_point \<Rightarrow> MonsterAIData \<Rightarrow> MonsterAIData" where
  "strike now m =
     (if f_le (Fin 1) (seconds32 (now - mon_lastAttackTime m)) then m\<lparr>mon_lastAttackTime := now\<rparr> else m)"

definition flee :: "MonsterAIData \<Rightarrow> MonsterAIData" where
  "flee m = (if mon_threatList m = [] then m else set_velocity (Fin 1, Fin 0, Fin 0) m)"

definition process_state :: "time_point \<Rightarrow> u32 \<Rightarrow> MonsterAIState \<Rightarrow> SyncedMonsterAI \<Rightarrow> SyncedMonsterAI" where
  "process_state now k st s =
     (case st of
        Idle \<Rightarrow> on_monster k stand_still s
      | Patrolling \<Rightarrow> on_monster k walk_to_target s
      | Alert \<Rightarrow> ProcessAlertState now k s
      | Aggressive \<Rightarrow> ProcessAggressiveState now k s
      | Attacking \<Rightarrow> on_monster k (strike now) s
      | Stunned \<Rightarrow> on_monster k stand_still s
      | Fleeing \<Rightarrow> on_monster k flee s
      | Dead \<Rightarrow> s)"

definition EvaluateIdleOptions :: "u32 list \<Rightarrow> AIDecision" where
  "EvaluateIdleOptions nearbyPlayers =
     (if nearbyPlayers = [] then AIDecision_new
      else AIDecision_new\<lparr>dc_newState := Alert, dc_priority := rnd32 (8 / 10)\<rparr>)"

definition EvaluateCombatOptions :: "u32 list \<Rightarrow> AIDecision" where
  "EvaluateCombatOptions nearbyPlayers =
     (if nearbyPlayers = [] then AIDecision_new
      else AIDecision_new\<lparr>dc_newState := Attacking, dc_targetPlayerId := hd nearbyPlayers, dc_priority := Fin 1\<rparr>)"

definition EvaluateEscapeOptions :: "u32 list \<Rightarrow> AIDecision" where
  "EvaluateEscapeOptions nearbyPlayers = AIDecision_new\<lparr>dc_newState := Fleeing, dc_priority := rnd32 (9 / 10)\<rparr>"

definition MakeDecision :: "u32 \<Rightarrow> u32 list \<Rightarrow> SyncedMonsterAI \<Rightarrow> AIDecision \<times> SyncedMonsterAI" where
  "MakeDecision monsterId nearbyPlayers s =
     (case GetMonster s monsterId of
        None \<Rightarrow> (AIDecision_new, s)
      | Some m \<Rightarrow>
          (if mon_currentState m \<in> {Idle, Patrolling} then EvaluateIdleOptions nearbyPlayers
           else if mon_currentState m \<in> {Alert, Aggressive, Attacking} then EvaluateCombatOptions nearbyPlayers
           else if mon_currentState m = Fleeing then EvaluateEscapeOptions nearbyPlayers
           else AIDecision_new,
           upd_ai_stats (\<lambda>st. st\<lparr>ais_totalDecisions := ais_totalDecisions st + 1\<rparr>) s))"

text \<open>All players with threats count as near when the monster sees the origin of the world.\<close>

definition nearby_players :: "SyncedMonsterAI \<Rightarrow> MonsterAIData \<Rightarrow> u32 list" where
  "nearby_players s m =
     (if AI_IsInRange (mon_position m) (Fin 0, Fin 0, Fin 0, Fin 1) (mon_detectionRange m)
      then om_keys (sma_playerThreats s) else [])"

definition apply_decision :: "time_point \<Rightarrow> u32 \<Rightarrow> AIDecision \<Rightarrow> SyncedMonsterAI \<Rightarrow> SyncedMonsterAI" where
  "apply_decision now k d s =
     (if f_lt (Fin 0) (dc_priority d) then
        let s1 = ChangeMonsterState now k (dc_newState d) s;
            s2 = (if dc_targetPlayerId d \<noteq> 0 then SetMonsterTarget k (dc_targetPlayerId d) s1 else s1)
        in on_monster k (\<lambda>m. m\<lparr>mon_targetPosition := dc_targetPosition d\<rparr>) s2
      else s)"

definition ProcessMonsterAI :: "time_point \<Rightarrow> u32 \<Rightarrow> SyncedMonsterAI \<Rightarrow> SyncedMonsterAI" where
  "ProcessMonsterAI now k s =
     (case GetMonster s k of
        None \<Rightarrow> s
      | Some m \<Rightarrow>
          if mon_currentState m = Dead then s
          else
            let s1 = process_state now k (mon_currentState m) s
            in if ShouldSyncMonster s1 k
               then (case MakeDecision k (nearby_players s m) s1 of (d, s2) \<Rightarrow> apply_decision now k d s2)
               else s1)"

definition bury :: "u32 \<Rightarrow> SyncedMonsterAI \<Rightarrow> SyncedMonsterAI" where
  "bury k s =
     upd_ai_stats (\<lambda>st. st\<lparr>ais_activeMonsters := ais_activeMonsters st - 1\<rparr>)
       (s\<lparr>sma_groups := om_map (\<lambda>_. remove_member k) (sma_groups s), sma_monsters := om_erase k (sma_monsters s)\<rparr>)"

definition dead_keys :: "SyncedMonsterAI \<Rightarrow> u32 list" where
  "dead_keys s = map fst (filter (\<lambda>(k, m). mon_currentState m = Dead) (sma_monsters s))"

definition CleanupDeadMonsters :: "SyncedMonsterAI \<Rightarrow> SyncedMonsterAI" where
  "CleanupDeadMonsters s = fold bury (dead_keys s) s"

definition UpdateAI :: "time_point \<Rightarrow> SyncedMonsterAI \<Rightarrow> SyncedMonsterAI" where
  "UpdateAI now s =
     (if \<not> sma_initialized s then s
      else
        let s1 = fold (ProcessMonsterAI now) (om_keys (sma_monsters s)) s;
            s2 = (if sma_groupBehaviorEnabled s1 then fold ProcessGroupBehavior (om_keys (sma_groups s1)) s1 else s1)
        in (CleanupDeadMonsters s2)\<lparr>sma_lastUpdateTime := now\<rparr>)"

definition FindNearestPlayer :: "vec4 \<Rightarrow> u32 list \<Rightarrow> u32" where
  "FindNearestPlayer position players = (case players of [] \<Rightarrow> 0 | p # _ \<Rightarrow> p)"

section \<open>Configuration and statistics\<close>

definition SetAIDifficulty :: "flt \<Rightarrow> SyncedMonsterAI \<Rightarrow> SyncedMonsterAI" where
  "SetAIDifficulty difficulty s = s\<lparr>sma_aiDifficulty := f_max (rnd32 (1 / 10)) (f_min (Fin 5) difficulty)\<rparr>"

definition AI_SetSyncInterval :: "flt \<Rightarrow> SyncedMonsterAI \<Rightarrow> SyncedMonsterAI" where
  "AI_SetSyncInterval interval s = s\<lparr>sma_syncInterval := f_max (rnd32 (1 / 100)) interval\<rparr>"

definition EnableGroupBehavior :: "bool \<Rightarrow> SyncedMonsterAI \<Rightarrow> SyncedMonsterAI" where
  "EnableGroupBehavior enable s = s\<lparr>sma_groupBehaviorEnabled := enable\<rparr>"

definition SetMaxMonsters :: "u32 \<Rightarrow> SyncedMonsterAI \<Rightarrow> SyncedMonsterAI" where
  "SetMaxMonsters maxMonsters s = s\<lparr>sma_maxMonsters := maxMonsters\<rparr>"

definition AI_GetStats :: "SyncedMonsterAI \<Rightarrow> AIStats" where
  "AI_GetStats s = sma_stats s"

definition AI_ResetStats :: "SyncedMonsterAI \<Rightarrow> SyncedMonsterAI" where
  "AI_ResetStats s = s\<lparr>sma_stats := AIStats_Reset\<rparr>"

definition SetMonsterStateChangedCallback :: "bool \<Rightarrow> SyncedMonsterAI \<Rightarrow> SyncedMonsterAI" where
  "SetMonsterStateChangedCallback f s = s\<lparr>sma_stateChangedCallback := f\<rparr>"

definition SetMonsterAttackedCallback :: "bool \<Rightarrow> SyncedMonsterAI \<Rightarrow> SyncedMonsterAI" where
  "SetMonsterAttackedCallback f s = s\<lparr>sma_attackedCallback := f\<rparr>"

definition SetMonsterDiedCallback :: "bool \<Rightarrow> SyncedMonsterAI \<Rightarrow> SyncedMonsterAI" where
  "SetMonsterDiedCallback f s = s\<lparr>sma_diedCallback := f\<rparr>"

definition SetGroupFormedCallback :: "bool \<Rightarrow> SyncedMonsterAI \<Rightarrow> SyncedMonsterAI" where
  "SetGroupFormedCallback f s = s\<lparr>sma_groupFormedCallback := f\<rparr>"

section \<open>Utilities\<close>

definition CreateMonster :: "string \<Rightarrow> MonsterType \<Rightarrow> vec4 \<Rightarrow> MonsterAIData" where
  "CreateMonster name ty position =
     MonsterAIData_new\<lparr>mon_monsterName := name, mon_type := ty, mon_position := position, mon_currentState := Idle\<rparr>"

definition with_strength :: "flt \<Rightarrow> flt \<Rightarrow> BehaviorPattern \<Rightarrow> MonsterAIData \<Rightarrow> MonsterAIData" where
  "with_strength health attack pattern m =
     m\<lparr>mon_maxHealth := health, mon_health := health, mon_attackPower := attack, mon_pattern := pattern\<rparr>"

definition CreateBeast :: "string \<Rightarrow> vec4 \<Rightarrow> flt \<Rightarrow> flt \<Rightarrow> MonsterAIData" where
  "CreateBeast name position health attack = with_strength health attack Hostile (CreateMonster name Beast position)"

definition CreateHumanoid :: "string \<Rightarrow> vec4 \<Rightarrow> flt \<Rightarrow> flt \<Rightarrow> MonsterAIData" where
  "CreateHumanoid name position health attack =
     with_strength health attack Territorial (CreateMonster name Humanoid position)"

definition CreateDragon :: "string \<Rightarrow> vec4 \<Rightarrow> flt \<Rightarrow> flt \<Rightarrow> MonsterAIData" where
  "CreateDragon name position health attack =
     (with_strength health attack Guardian (CreateMonster name Dragon position))
       \<lparr>mon_detectionRange := Fin 20, mon_aggroRange := Fin 15\<rparr>"

definition with_behavior :: "BehaviorPattern \<Rightarrow> flt \<Rightarrow> flt \<Rightarrow> MonsterAIData \<Rightarrow> MonsterAIData" where
  "with_behavior pattern aggression detection m =
     m\<lparr>mon_pattern := pattern, mon_aggressionLevel := aggression, mon_detectionRange := detection\<rparr>"

definition SetPassiveBehavior :: "MonsterAIData \<Rightarrow> MonsterAIData" where
  "SetPassiveBehavior = with_behavior Passive (rnd32 (1 / 10)) (Fin 5)"

definition SetAggressiveBehavior :: "MonsterAIData \<Rightarrow> MonsterAIData" where
  "SetAggressiveBehavior = with_behavior Hostile (rnd32 (9 / 10)) (Fin 15)"

definition SetTerritorialBehavior :: "MonsterAIData \<Rightarrow> MonsterAIData" where
  "SetTerritorialBehavior = with_behavior Territorial (rnd32 (7 / 10)) (Fin 10)"

definition SetPackBehavior :: "MonsterAIData \<Rightarrow> MonsterAIData" where
  "SetPackBehavior = with_behavior Pack (rnd32 (8 / 10)) (Fin 12)"

definition CalculateThreatLevel :: "MonsterAIData \<Rightarrow> u32 \<Rightarrow> flt" where
  "CalculateThreatLevel m playerId = mul32 (mon_aggressionLevel m) (mon_attackPower m)"

definition CalculateEscapeChance :: "MonsterAIData \<Rightarrow> u32 list \<Rightarrow> flt" where
  "CalculateEscapeChance m threats =
     mul32 (mon_fearLevel m) (sub32 (Fin 1) (mul32 (f32_of_nat (length threats)) (rnd32 (1 / 10))))"

text \<open>The point at attack range before the target; a direction of no length is not scaled.\<close>

definition CalculateOptimalPosition :: "MonsterAIData \<Rightarrow> vec4 \<Rightarrow> vec4" where
  "CalculateOptimalPosition m target =
     (case (mon_position m, target) of ((px, py, pz, pw), (tx, ty, tz, tw)) \<Rightarrow>
        let x = sub32 tx px; y = sub32 ty py; z = sub32 tz pz; len = length3 x y z;
            scale = (\<lambda>c. if f_lt (Fin 0) len then mul32 (div32 c len) (mon_attackRange m) else c)
        in (sub32 tx (scale x), sub32 ty (scale y), sub32 tz (scale z), Fin 1))"

definition CreatePack :: "string \<Rightarrow> u32 list \<Rightarrow> MonsterGroup" where
  "CreatePack name members =
     MonsterGroup_new\<lparr>mg_name := name, mg_members := members, mg_groupPattern := Pack, mg_isActive := True,
       mg_leader := (case members of [] \<Rightarrow> 0 | m # _ \<Rightarrow> m)\<rparr>"

definition CreateTerritory :: "string \<Rightarrow> vec4 \<Rightarrow> flt \<Rightarrow> MonsterGroup" where
  "CreateTerritory name center radius =
     MonsterGroup_new\<lparr>mg_name := name, mg_groupCenter := center, mg_groupRadius := radius,
       mg_groupPattern := Territorial, mg_isActive := True\<rparr>"

definition ValidateMonsterData :: "MonsterAIData \<Rightarrow> bool" where
  "ValidateMonsterData m \<longleftrightarrow>
     mon_monsterName m \<noteq> [] \<and> f_lt (Fin 0) (mon_maxHealth m) \<and> f_le (Fin 0) (mon_attackPower m)"

definition ValidateGroupData :: "MonsterGroup \<Rightarrow> bool" where
  "ValidateGroupData g \<longleftrightarrow> mg_name g \<noteq> [] \<and> f_lt (Fin 0) (mg_groupRadius g)"

end
