(* ===== verification/MonsterProps.thy ===== *)
theory MonsterProps
  imports MonsterAI "HOL-Library.Multiset"
begin

text \<open>
  Properties of the monster behaviour: every loop over the monsters is one function applied to each
  of them (locale \<open>monster_loop\<close>), an update of the system follows the behaviour of a single monster
  and buries the dead, monsters only move along the transitions of \<open>ai_moves\<close>, and what a hit does.
\<close>

section \<open>Effects on single monsters\<close>

named_theorems ai_frame \<open>what an operation leaves of the monsters\<close>

lemma get_on_monster [ai_frame]:
  "GetMonster (on_monster k f s) j = (if j = k then map_option f (GetMonster s k) else GetMonster s j)"
  by (simp add: GetMonster_def on_monster_def om_find_upd)

lemma get_frame [ai_frame]:
  "GetMonster (upd_ai_stats h s) j = GetMonster s j"
  "GetMonster (monster_call b c s) j = GetMonster s j"
  "GetMonster (on_group g u s) j = GetMonster s j"
  by (simp_all add: GetMonster_def upd_ai_stats_def monster_call_def on_group_def)

definition change :: "time_point \<Rightarrow> MonsterAIState \<Rightarrow> MonsterAIData \<Rightarrow> MonsterAIData" where
  "change now st m =
     (if mon_currentState m = st then m
      else m\<lparr>mon_previousState := mon_currentState m, mon_currentState := st, mon_lastStateChange := now,
             mon_needsSync := True\<rparr>)"

lemma get_ChangeMonsterState [ai_frame]:
  "GetMonster (ChangeMonsterState now k st s) j =
     (if j = k then map_option (change now st) (GetMonster s k) else GetMonster s j)"
  by (auto simp: ChangeMonsterState_def Let_def change_def get_on_monster get_frame split: option.splits)

text \<open>The parts of the state that no operation on monsters touches, and the order of the maps.\<close>

definition tidy :: "SyncedMonsterAI \<Rightarrow> bool" where
  "tidy s \<longleftrightarrow> om_sorted (sma_monsters s) \<and> om_sorted (sma_groups s) \<and> sma_playerThreats s = []"

definition same_rest :: "SyncedMonsterAI \<Rightarrow> SyncedMonsterAI \<Rightarrow> bool" where
  "same_rest s t \<longleftrightarrow> sma_groups t = sma_groups s \<and> sma_playerThreats t = sma_playerThreats s
     \<and> sma_groupBehaviorEnabled t = sma_groupBehaviorEnabled s
     \<and> (om_sorted (sma_monsters s) \<longrightarrow> om_sorted (sma_monsters t))"

lemma same_rest_refl [simp]: "same_rest s s"
  by (simp add: same_rest_def)

lemma same_rest_trans: "same_rest s t \<Longrightarrow> same_rest t u \<Longrightarrow> same_rest s u"
  by (auto simp: same_rest_def)

lemma same_rest_prims [simp]:
  "same_rest s (upd_ai_stats h t) = same_rest s t"
  "same_rest s (monster_call b c t) = same_rest s t"
  by (simp_all add: same_rest_def upd_ai_stats_def monster_call_def)

lemma same_rest_on_monster [simp]: "same_rest s t \<Longrightarrow> same_rest s (on_monster k f t)"
  by (auto simp: same_rest_def on_monster_def)

lemma same_rest_Change [simp]: "same_rest s t \<Longrightarrow> same_rest s (ChangeMonsterState now k st t)"
  by (auto simp: ChangeMonsterState_def Let_def split: option.splits)

lemma same_rest_target [simp]:
  "same_rest s t \<Longrightarrow> same_rest s (SetMonsterTarget k p t)"
  "same_rest s t \<Longrightarrow> same_rest s (ClearMonsterTarget k t)"
  by (simp_all add: SetMonsterTarget_def ClearMonsterTarget_def)

lemma tidy_same_rest: "tidy s \<Longrightarrow> same_rest s t \<Longrightarrow> tidy t"
  by (simp add: tidy_def same_rest_def)

section \<open>Loops over the monsters\<close>

text \<open>
  The body of a loop changes the monster of the current key by the function \<open>g\<close>, looks at no other,
  and leaves the groups alone; then the loop is \<open>g\<close> on every monster.
\<close>

locale monster_loop =
  fixes body :: "u32 \<Rightarrow> SyncedMonsterAI \<Rightarrow> SyncedMonsterAI" and g :: "MonsterAIData \<Rightarrow> MonsterAIData"
  assumes get_body: "tidy s \<Longrightarrow>
            GetMonster (body k s) j = (if j = k then map_option g (GetMonster s k) else GetMonster s j)"
    and rest_body: "tidy s \<Longrightarrow> same_rest s (body k s)"
begin

lemma get_loop:
  "tidy s \<Longrightarrow> distinct ks \<Longrightarrow>
     GetMonster (fold body ks s) j = (if j \<in> set ks then map_option g (GetMonster s j) else GetMonster s j)
     \<and> same_rest s (fold body ks s)"
proof (induction ks arbitrary: s)
  case Nil
  then show ?case by simp
next
  case (Cons k ks)
  have t: "tidy (body k s)" using Cons.prems(1) rest_body [OF Cons.prems(1)] by (rule tidy_same_rest)
  have "same_rest s (fold body ks (body k s))"
    using rest_body [OF Cons.prems(1)] Cons.IH [OF t] Cons.prems(2) by (auto intro: same_rest_trans)
  with Cons.IH [OF t] Cons.prems show ?case by (auto simp: get_body)
qed

lemma get_whole_loop:
  assumes "tidy s"
  shows "GetMonster (fold body (om_keys (sma_monsters s)) s) j = map_option g (GetMonster s j)"
    and "same_rest s (fold body (om_keys (sma_monsters s)) s)"
proof -
  have d: "distinct (om_keys (sma_monsters s))" using assms by (simp add: tidy_def om_keys_def om_sorted_distinct)
  note l = get_loop [OF assms d, of j]
  have "GetMonster s j = None" if "j \<notin> set (om_keys (sma_monsters s))"
    using that by (simp add: GetMonster_def om_find_None_iff om_keys_def)
  with l show "GetMonster (fold body (om_keys (sma_monsters s)) s) j = map_option g (GetMonster s j)" by auto
  from l show "same_rest s (fold body (om_keys (sma_monsters s)) s)" by simp
qed

end

text \<open>Entering range, forgetting a player, and thinking, as functions of one monster.\<close>

definition notice :: "time_point \<Rightarrow> u32 \<Rightarrow> vec4 \<Rightarrow> MonsterAIData \<Rightarrow> MonsterAIData" where
  "notice now p pos m =
     (if AI_IsInRange (mon_position m) pos (mon_detectionRange m)
      then (if mon_currentState m \<in> {Idle, Patrolling} then change now Alert (add_threat p m) else add_threat p m)
      else m)"

definition forget :: "u32 \<Rightarrow> MonsterAIData \<Rightarrow> MonsterAIData" where
  "forget p m =
     (let m1 = m\<lparr>mon_threatList := remove1 p (mon_threatList m)\<rparr>
      in if mon_targetPlayerId m = p then m1\<lparr>mon_targetPlayerId := 0, mon_needsSync := True\<rparr> else m1)"

definition think :: "time_point \<Rightarrow> MonsterAIData \<Rightarrow> MonsterAIData" where
  "think now m =
     (case mon_currentState m of
        Idle \<Rightarrow> stand_still m
      | Patrolling \<Rightarrow> walk_to_target m
      | Alert \<Rightarrow> if mon_threatList m = [] then m else change now Aggressive m
      | Aggressive \<Rightarrow>
          if mon_targetPlayerId m = 0 then m
          else if AI_IsInRange (mon_position m) (mon_targetPosition m) (mon_attackRange m)
          then change now Attacking (walk_to_target m) else walk_to_target m
      | Attacking \<Rightarrow> strike now m
      | Stunned \<Rightarrow> stand_still m
      | Fleeing \<Rightarrow> if mon_needsSync m then (flee m)\<lparr>mon_targetPosition := vec4_zero\<rparr> else flee m
      | Dead \<Rightarrow> m)"

interpretation noticing: monster_loop "enter_range now p pos" "notice now p pos" for now p pos
  by unfold_locales
    (auto simp: enter_range_def notice_def Let_def ai_frame change_def split: option.splits)

interpretation forgetting: monster_loop "forget_player p" "forget p" for p
  by unfold_locales
    (auto simp: forget_player_def forget_def Let_def ai_frame ClearMonsterTarget_def split: option.splits)

text \<open>
  Nobody writes \<open>m_playerThreats\<close>, so no player is ever near, and the only decision with a positive
  priority is to go on fleeing.
\<close>

definition act :: "time_point \<Rightarrow> MonsterAIData \<Rightarrow> MonsterAIData" where
  "act now m = (if mon_currentState m = Fleeing then flee m else think now m)"

lemma get_process_state:
  "GetMonster s k = Some m \<Longrightarrow>
     GetMonster (process_state now k (mon_currentState m) s) j = (if j = k then Some (act now m) else GetMonster s j)"
  by (auto simp: process_state_def act_def think_def ai_frame ProcessAlertState_def ProcessAggressiveState_def Let_def
      split: MonsterAIState.splits)

lemma same_rest_process_state: "same_rest s (process_state now k st s)"
  by (auto simp: process_state_def ProcessAlertState_def ProcessAggressiveState_def Let_def
      split: MonsterAIState.splits option.splits)

lemma act_state:
  "mon_currentState (act now m) = Fleeing \<longleftrightarrow> mon_currentState m = Fleeing"
  "mon_currentState m = Fleeing \<Longrightarrow> mon_needsSync (act now m) = mon_needsSync m"
  by (auto simp: act_def think_def stand_still_def walk_to_target_def set_velocity_def change_def strike_def
      flee_def split: MonsterAIState.splits prod.splits)

lemma decision_positive: "f_lt (Fin 0) (rnd32 (9 / 10))"
  by code_simp

lemma idle_decision: "apply_decision now k AIDecision_new s = s"
  by (simp add: apply_decision_def AIDecision_new_def)

lemma MakeDecision_nobody:
  "GetMonster s k = Some m \<Longrightarrow>
     \<exists>u. MakeDecision k [] s = ((if mon_currentState m = Fleeing then EvaluateEscapeOptions [] else AIDecision_new), upd_ai_stats u s)"
  by (auto simp: MakeDecision_def EvaluateIdleOptions_def EvaluateCombatOptions_def)

lemma get_apply_escape:
  "GetMonster s k = Some m \<Longrightarrow> mon_currentState m = Fleeing \<Longrightarrow>
     GetMonster (apply_decision now k (EvaluateEscapeOptions []) s) j =
       (if j = k then Some (m\<lparr>mon_targetPosition := vec4_zero\<rparr>) else GetMonster s j)"
  by (simp add: apply_decision_def EvaluateEscapeOptions_def AIDecision_new_def decision_positive ai_frame change_def Let_def)

lemma same_rest_apply [simp]: "same_rest s t \<Longrightarrow> same_rest s (apply_decision now k d t)"
  by (auto simp: apply_decision_def Let_def)

lemma get_ProcessMonsterAI:
  assumes "tidy s"
  shows "GetMonster (ProcessMonsterAI now k s) j = (if j = k then map_option (think now) (GetMonster s k) else GetMonster s j)
     \<and> same_rest s (ProcessMonsterAI now k s)"
proof (cases "GetMonster s k")
  case None
  then show ?thesis by (simp add: ProcessMonsterAI_def)
next
  case (Some m)
  let ?s1 = "process_state now k (mon_currentState m) s"
  have near: "nearby_players s m = []" using assms by (simp add: nearby_players_def tidy_def om_keys_def)
  have g: "GetMonster ?s1 k = Some (act now m)" using get_process_state [OF Some] by simp
  obtain u where d: "MakeDecision k [] ?s1 =
      ((if mon_currentState (act now m) = Fleeing then EvaluateEscapeOptions [] else AIDecision_new), upd_ai_stats u ?s1)"
    using MakeDecision_nobody [OF g] by blast
  show ?thesis
  proof (cases "mon_currentState m = Fleeing \<and> mon_needsSync m")
    case True
    then have p: "ProcessMonsterAI now k s = apply_decision now k (EvaluateEscapeOptions []) (upd_ai_stats u ?s1)"
      using Some near g d by (simp add: ProcessMonsterAI_def Let_def ShouldSyncMonster_def act_state)
    have "GetMonster (upd_ai_stats u ?s1) k = Some (flee m)" using g True by (simp add: ai_frame act_def)
    moreover have "mon_currentState (flee m) = Fleeing" using True act_state(1) [of now m] by (simp add: act_def)
    ultimately show ?thesis
      unfolding p using True Some get_process_state [OF Some, where now = now and j = j]
      by (simp add: get_apply_escape get_frame get_process_state think_def same_rest_process_state)
  next
    case False
    then have "ProcessMonsterAI now k s = ?s1 \<or> ProcessMonsterAI now k s = upd_ai_stats u ?s1 \<or> (mon_currentState m = Dead \<and> ProcessMonsterAI now k s = s)"
      using Some near g d act_state [where now = now and m = m]
      by (auto simp: ProcessMonsterAI_def Let_def ShouldSyncMonster_def idle_decision)
    moreover have "act now m = think now m" using False by (auto simp: act_def think_def)
    ultimately show ?thesis
      using Some by (auto simp: get_process_state get_frame same_rest_process_state think_def)
  qed
qed

interpretation thinking: monster_loop "ProcessMonsterAI now" "think now" for now
  by unfold_locales (simp_all add: get_ProcessMonsterAI)

section \<open>One update of all monsters\<close>

lemma get_update_groups:
  "GetMonster (fold ProcessGroupBehavior ks s) j = GetMonster s j"
  "sma_monsters (fold ProcessGroupBehavior ks s) = sma_monsters s"
  "om_sorted (sma_groups s) \<Longrightarrow> om_sorted (sma_groups (fold ProcessGroupBehavior ks s))"
  "map_option mg_members (GetMonsterGroup (fold ProcessGroupBehavior ks s) i) = map_option mg_members (GetMonsterGroup s i)"
  by (induction ks arbitrary: s)
    (auto simp: ProcessGroupBehavior_def UpdateGroupBehavior_def on_group_def GetMonster_def GetMonsterGroup_def om_find_upd
      option.map_comp comp_def if_distrib cong: if_cong option.map_cong)

lemma sma_monsters_bury: "sma_monsters (fold bury ks s) = filter (\<lambda>p. fst p \<notin> set ks) (sma_monsters s)"
  by (induction ks arbitrary: s) (auto simp: bury_def om_erase_def upd_ai_stats_def intro: filter_cong)

lemma get_bury: "GetMonster (fold bury ks s) j = (if j \<in> set ks then None else GetMonster s j)"
  by (induction ks arbitrary: s) (auto simp: bury_def upd_ai_stats_def GetMonster_def)

lemma members_bury:
  "map_option (\<lambda>g. mset (mg_members g)) (GetMonsterGroup (fold bury ks s) i) =
     map_option (\<lambda>g. mset (mg_members g) - mset ks) (GetMonsterGroup s i)"
proof (induction ks arbitrary: s)
  case Nil
  then show ?case by simp
next
  case (Cons k ks)
  have "map_option (\<lambda>g. mset (mg_members g)) (GetMonsterGroup (fold bury (k # ks) s) i)
      = map_option (\<lambda>g. mset (mg_members g) - mset ks) (GetMonsterGroup (bury k s) i)"
    using Cons.IH by simp
  also have "\<dots> = map_option (\<lambda>g. mset (mg_members g) - mset (k # ks)) (GetMonsterGroup s i)"
    by (simp add: bury_def upd_ai_stats_def GetMonsterGroup_def option.map_comp comp_def remove_member_def Let_def)
  finally show ?case .
qed

lemma set_dead_keys: "om_sorted (sma_monsters s) \<Longrightarrow>
    k \<in> set (dead_keys s) \<longleftrightarrow> (\<exists>m. GetMonster s k = Some m \<and> mon_currentState m = Dead)"
  by (auto simp: dead_keys_def GetMonster_def om_find_Some_iff image_iff)

lemma distinct_dead_keys: "om_sorted (sma_monsters s) \<Longrightarrow> distinct (dead_keys s)"
  by (auto simp: dead_keys_def dest!: om_sorted_distinct intro: distinct_map_filter)

lemma think_dead: "mon_currentState (think now m) = Dead \<longleftrightarrow> mon_currentState m = Dead"
  by (auto simp: think_def stand_still_def walk_to_target_def set_velocity_def change_def strike_def
      flee_def split: MonsterAIState.splits prod.splits)

definition before_burial :: "time_point \<Rightarrow> SyncedMonsterAI \<Rightarrow> SyncedMonsterAI" where
  "before_burial now s =
     (let s1 = fold (ProcessMonsterAI now) (om_keys (sma_monsters s)) s
      in if sma_groupBehaviorEnabled s1 then fold ProcessGroupBehavior (om_keys (sma_groups s1)) s1 else s1)"

lemma GetMonsterGroup_cong: "sma_groups t = sma_groups s \<Longrightarrow> GetMonsterGroup t i = GetMonsterGroup s i"
  by (simp add: GetMonsterGroup_def)

lemma before_burial:
  assumes "tidy s"
  shows "GetMonster (before_burial now s) j = map_option (think now) (GetMonster s j)"
    and "om_sorted (sma_monsters (before_burial now s))"
    and "map_option mg_members (GetMonsterGroup (before_burial now s) i) = map_option mg_members (GetMonsterGroup s i)"
  using thinking.get_whole_loop [OF assms, where now = now] assms
  by (auto simp: before_burial_def Let_def get_update_groups same_rest_def tidy_def
      dest: GetMonsterGroup_cong [where i = i])

lemma dead_before_burial:
  assumes "tidy s"
  shows "set (dead_keys (before_burial now s)) = set (dead_keys s)"
    and "mset (dead_keys (before_burial now s)) = mset (dead_keys s)"
proof -
  note b = before_burial [OF assms, where now = now]
  have s: "om_sorted (sma_monsters s)" using assms by (simp add: tidy_def)
  show e: "set (dead_keys (before_burial now s)) = set (dead_keys s)"
    by (auto simp: set_dead_keys [OF b(2)] set_dead_keys [OF s] b(1) think_dead)
  show "mset (dead_keys (before_burial now s)) = mset (dead_keys s)"
    using e distinct_dead_keys [OF b(2)] distinct_dead_keys [OF s] by (simp add: set_eq_iff_mset_eq_distinct)
qed

lemma UpdateAI_unfold:
  "sma_initialized s \<Longrightarrow>
     UpdateAI now s = (fold bury (dead_keys (before_burial now s)) (before_burial now s))\<lparr>sma_lastUpdateTime := now\<rparr>"
  by (simp add: UpdateAI_def before_burial_def CleanupDeadMonsters_def Let_def)

lemma get_UpdateAI:
  assumes "tidy s" "sma_initialized s"
  shows "GetMonster (UpdateAI now s) k =
     (case GetMonster s k of None \<Rightarrow> None
      | Some m \<Rightarrow> if mon_currentState m = Dead then None else Some (think now m))"
proof -
  note b = before_burial [OF assms(1), where now = now]
  have "GetMonster (UpdateAI now s) k =
      (if k \<in> set (dead_keys s) then None else map_option (think now) (GetMonster s k))"
    using get_bury [of "dead_keys (before_burial now s)" "before_burial now s" k] b(1) dead_before_burial(1) [OF assms(1)]
    by (simp add: UpdateAI_unfold [OF assms(2)] GetMonster_def)
  with assms(1) show ?thesis by (auto simp: set_dead_keys tidy_def split: option.splits)
qed

section \<open>Operations\<close>

datatype MonsterOp =
    MInitialize
  | MShutdown
  | MAdd time_point MonsterAIData
  | MRemove u32
  | MUpdate time_point
  | MChange time_point u32 MonsterAIState
  | MTarget u32 u32
  | MClear u32
  | MSync time_point MonsterAIData
  | MOwner u32 u32
  | MCreateGroup string BehaviorPattern
  | MJoinGroup u32 u32
  | MLeaveGroup u32 u32
  | MUpdateGroup u32
  | MEnter time_point u32 vec4
  | MLeave u32 vec4
  | MAttack time_point u32 u32 flt
  | MPlayerDeath u32
  | MGroupBehavior bool
  | MResetStats

fun monster_step :: "MonsterOp \<Rightarrow> SyncedMonsterAI \<Rightarrow> SyncedMonsterAI option" where
  "monster_step MInitialize s = Some (snd (AI_Initialize s))"
| "monster_step MShutdown s = Some (AI_Shutdown s)"
| "monster_step (MAdd now m) s = Some (AddMonster now m s)"
| "monster_step (MRemove k) s = Some (RemoveMonster k s)"
| "monster_step (MUpdate now) s = Some (UpdateAI now s)"
| "monster_step (MChange now k st) s = Some (ChangeMonsterState now k st s)"
| "monster_step (MTarget k p) s = Some (SetMonsterTarget k p s)"
| "monster_step (MClear k) s = Some (ClearMonsterTarget k s)"
| "monster_step (MSync now m) s = Some (ProcessMonsterUpdate now m s)"
| "monster_step (MOwner k p) s = Some (AI_SetSyncOwner k p s)"
| "monster_step (MCreateGroup n b) s = Some (snd (CreateMonsterGroup n b s))"
| "monster_step (MJoinGroup g k) s = Some (AddMonsterToGroup g k s)"
| "monster_step (MLeaveGroup g k) s = Some (RemoveMonsterFromGroup g k s)"
| "monster_step (MUpdateGroup g) s = Some (UpdateGroupBehavior g s)"
| "monster_step (MEnter now p v) s = Some (OnPlayerEnterRange now p v s)"
| "monster_step (MLeave p v) s = Some (OnPlayerLeaveRange p v s)"
| "monster_step (MAttack now p k d) s = Some (OnPlayerAttack now p k d s)"
| "monster_step (MPlayerDeath p) s = Some (OnPlayerDeath p s)"
| "monster_step (MGroupBehavior b) s = Some (EnableGroupBehavior b s)"
| "monster_step MResetStats s = Some (AI_ResetStats s)"

section \<open>The maps stay ordered\<close>

lemma tidy_prims [simp]:
  "tidy (upd_ai_stats h s) = tidy s"
  "tidy (monster_call b c s) = tidy s"
  "tidy s \<Longrightarrow> tidy (on_monster k f s)"
  "tidy s \<Longrightarrow> tidy (on_group g u s)"
  by (simp_all add: tidy_def upd_ai_stats_def monster_call_def on_monster_def on_group_def)

lemma tidy_Change [simp]: "tidy s \<Longrightarrow> tidy (ChangeMonsterState now k st s)"
  by (auto simp: ChangeMonsterState_def Let_def split: option.splits)

lemma tidy_fold_groups: "tidy s \<Longrightarrow> tidy (fold ProcessGroupBehavior ks s)"
  by (induction ks arbitrary: s) (auto simp: ProcessGroupBehavior_def UpdateGroupBehavior_def)

lemma tidy_fold_bury: "tidy s \<Longrightarrow> tidy (fold bury ks s)"
  by (induction ks arbitrary: s) (auto simp: bury_def tidy_def upd_ai_stats_def)

lemma tidy_before_burial:
  assumes "tidy s"
  shows "tidy (before_burial now s)"
  using tidy_same_rest [OF assms thinking.get_whole_loop(2) [OF assms, where now = now]]
  by (simp add: before_burial_def Let_def tidy_fold_groups)

lemma tidy_Update:
  assumes "tidy s"
  shows "tidy (UpdateAI now s)"
proof (cases "sma_initialized s")
  case True
  have "tidy (fold bury (dead_keys (before_burial now s)) (before_burial now s))"
    by (rule tidy_fold_bury [OF tidy_before_burial [OF assms]])
  then show ?thesis unfolding UpdateAI_unfold [OF True] by (simp add: tidy_def)
qed (simp add: UpdateAI_def assms)

lemma tidy_step: "tidy s \<Longrightarrow> monster_step x s = Some t \<Longrightarrow> tidy t"
proof (induction x s rule: monster_step.induct)
  case (15 now p v s)
  then show ?case by (auto simp: OnPlayerEnterRange_def intro: tidy_same_rest [OF _ noticing.get_whole_loop(2)])
next
  case (16 p v s)
  then show ?case by (auto simp: OnPlayerLeaveRange_def intro: tidy_same_rest [OF _ forgetting.get_whole_loop(2)])
next
  case (18 p s)
  then show ?case by (auto simp: OnPlayerDeath_def intro: tidy_same_rest [OF _ forgetting.get_whole_loop(2)])
next
  case (5 now s)
  then show ?case by (auto simp: tidy_Update)
next
  case (17 now p k d s)
  then show ?case by (auto simp: OnPlayerAttack_def SetMonsterTarget_def Let_def split: option.splits)
next
  case (9 now m s)
  then show ?case
    by (auto simp: ProcessMonsterUpdate_def SynchronizeMonster_def ResolveSyncConflict_def split: option.splits)
qed (auto simp: AI_Initialize_def AI_Shutdown_def AddMonster_def RemoveMonster_def SetMonsterTarget_def
    ClearMonsterTarget_def AI_SetSyncOwner_def CreateMonsterGroup_def AddMonsterToGroup_def RemoveMonsterFromGroup_def
    UpdateGroupBehavior_def EnableGroupBehavior_def AI_ResetStats_def Let_def upd_ai_stats_def tidy_def on_group_def
    on_monster_def split: option.splits if_splits,
    (auto simp: ChangeMonsterState_def upd_ai_stats_def monster_call_def on_monster_def Let_def tidy_def
      split: option.splits if_splits)?)

interpretation monster_runs: step_system monster_step tidy "\<lambda>_. True"
  by unfold_locales (rule tidy_step)

lemma tidy_reachable: "run monster_step ops (SyncedMonsterAI_new start) = Some s \<Longrightarrow> tidy s"
  using monster_runs.run_inv [of "SyncedMonsterAI_new start" ops s]
  by (simp add: tidy_def SyncedMonsterAI_new_def list_all_iff)

end
