(* ===== verification/MonsterLife.thy ===== *)
theory MonsterLife
  imports MonsterProps
begin

text \<open>
  The life cycle of monsters as a transition relation, the refinement of an update by the behaviour
  of single monsters, and the outcome of a hit.
\<close>

section \<open>Transitions\<close>

inductive ai_moves :: "MonsterAIState \<Rightarrow> MonsterAIState \<Rightarrow> bool" where
  spot: "st = Idle \<or> st = Patrolling \<Longrightarrow> ai_moves st Alert"
| turn: "st = Idle \<or> st = Patrolling \<Longrightarrow> ai_moves st Aggressive"
| provoke: "ai_moves Alert Aggressive"
| engage: "ai_moves Aggressive Attacking"
| die: "st \<noteq> Dead \<Longrightarrow> ai_moves st Dead"

code_pred ai_moves .

inductive_cases from_Dead [elim]: "ai_moves Dead st"
inductive_cases from_Stunned [elim]: "ai_moves Stunned st"
inductive_cases from_Fleeing [elim]: "ai_moves Fleeing st"
inductive_simps to_Idle [simp]: "ai_moves st Idle"
inductive_simps to_Patrolling [simp]: "ai_moves st Patrolling"
inductive_simps to_Fleeing [simp]: "ai_moves st Fleeing"
inductive_simps to_Stunned [simp]: "ai_moves st Stunned"

text \<open>How far a monster has gone; a transition always goes further, so at most four can follow each other.\<close>

fun anger :: "MonsterAIState \<Rightarrow> nat" where
  "anger Idle = 0"
| "anger Patrolling = 0"
| "anger Alert = 1"
| "anger Aggressive = 2"
| "anger Attacking = 3"
| "anger Stunned = 3"
| "anger Fleeing = 3"
| "anger Dead = 4"

lemma ai_moves_anger: "ai_moves a b \<Longrightarrow> anger a < anger b"
  by (induction rule: ai_moves.induct) (auto, (case_tac st; simp))

lemma ai_moves_star_anger: "ai_moves\<^sup>*\<^sup>* a b \<Longrightarrow> a = b \<or> anger a < anger b"
  by (induction rule: rtranclp_induct) (auto dest: ai_moves_anger)

lemma star_from_Dead: "ai_moves\<^sup>*\<^sup>* Dead b \<Longrightarrow> b = Dead"
  by (induction rule: rtranclp_induct) auto

lemma star_from_helpless: "ai_moves\<^sup>*\<^sup>* a b \<Longrightarrow> a = Stunned \<or> a = Fleeing \<Longrightarrow> b = a \<or> b = Dead"
  by (induction rule: rtranclp_induct) auto

section \<open>Evolution of monsters\<close>

definition evolves :: "MonsterAIData \<Rightarrow> MonsterAIData \<Rightarrow> bool" where
  "evolves m m' \<longleftrightarrow> ai_moves\<^sup>*\<^sup>* (mon_currentState m) (mon_currentState m')
     \<and> mon_monsterId m' = mon_monsterId m \<and> mon_monsterName m' = mon_monsterName m
     \<and> mon_maxHealth m' = mon_maxHealth m \<and> mon_position m' = mon_position m"

lemma evolves_refl [simp]: "evolves m m"
  by (simp add: evolves_def)

lemma evolves_trans: "evolves a b \<Longrightarrow> evolves b c \<Longrightarrow> evolves a c"
  by (auto simp: evolves_def)

lemma evolves_change: "evolves a m \<Longrightarrow> ai_moves (mon_currentState m) st \<or> mon_currentState m = st \<Longrightarrow> evolves a (change now st m)"
  by (auto simp: evolves_def change_def)

lemma evolves_writes [simp]:
  "evolves a (m\<lparr>mon_targetPlayerId := p, mon_needsSync := b\<rparr>) = evolves a m"
  "evolves a (m\<lparr>mon_syncOwner := p, mon_needsSync := b\<rparr>) = evolves a m"
  "evolves a (m\<lparr>mon_threatList := l\<rparr>) = evolves a m"
  "evolves a (m\<lparr>mon_health := h\<rparr>) = evolves a m"
  "evolves a (m\<lparr>mon_targetPosition := v\<rparr>) = evolves a m"
  "evolves a (add_threat p m) = evolves a m"
  "evolves a (stand_still m) = evolves a m"
  "evolves a (walk_to_target m) = evolves a m"
  "evolves a (strike now m) = evolves a m"
  "evolves a (flee m) = evolves a m"
  by (auto simp: evolves_def add_threat_def stand_still_def walk_to_target_def set_velocity_def strike_def flee_def
      split: prod.splits)

lemma walk_state [simp]: "mon_currentState (walk_to_target m) = mon_currentState m"
  by (simp add: walk_to_target_def set_velocity_def split: prod.splits)

lemma evolves_think: "evolves m (think now m)"
  by (cases "mon_currentState m") (auto simp: think_def ai_moves.simps intro!: evolves_change)

lemma evolves_notice: "evolves m (notice now p pos m)"
  by (auto simp: notice_def add_threat_def intro!: evolves_change intro: ai_moves.spot)

lemma evolves_forget: "evolves m (forget p m)"
  by (simp add: forget_def Let_def)

definition hit :: "time_point \<Rightarrow> u32 \<Rightarrow> flt \<Rightarrow> MonsterAIData \<Rightarrow> MonsterAIData" where
  "hit now p d m =
     (let m1 = (wound p d m)\<lparr>mon_targetPlayerId := p, mon_needsSync := True\<rparr>;
          m2 = (if mon_currentState m = Idle \<or> mon_currentState m = Patrolling then change now Aggressive m1 else m1)
      in if f_le (mon_health m1) (Fin 0) then change now Dead m2 else m2)"

lemma get_OnPlayerAttack:
  "GetMonster (OnPlayerAttack now p k d s) j =
     (if j = k then map_option (hit now p d) (GetMonster s k) else GetMonster s j)"
  by (auto simp: OnPlayerAttack_def hit_def SetMonsterTarget_def Let_def ai_frame split: option.splits)

lemma evolves_hit: "evolves m (hit now p d m)"
  by (auto simp: hit_def Let_def wound_def intro!: evolves_change)
    (auto simp: ai_moves.simps add_threat_def change_def)

text \<open>Operations of play: everything but adding, synchronising and directly setting the state of monsters.\<close>

fun in_play :: "MonsterOp \<Rightarrow> bool" where
  "in_play (MAdd now m) = False"
| "in_play (MChange now k st) = False"
| "in_play (MSync now m) = False"
| "in_play x = True"

definition evolved :: "SyncedMonsterAI \<Rightarrow> SyncedMonsterAI \<Rightarrow> bool" where
  "evolved s t \<longleftrightarrow> (\<forall>k m'. GetMonster t k = Some m' \<longrightarrow> (\<exists>m. GetMonster s k = Some m \<and> evolves m m'))"

lemma evolved_refl [simp]: "evolved s s"
  by (simp add: evolved_def)

lemma evolved_trans: "evolved s t \<Longrightarrow> evolved t u \<Longrightarrow> evolved s u"
  unfolding evolved_def using evolves_trans by meson

lemma evolvedI:
  "(\<And>k. GetMonster t k = None \<or> (\<exists>f. GetMonster t k = map_option f (GetMonster s k) \<and> (\<forall>m. evolves m (f m)))) \<Longrightarrow> evolved s t"
  unfolding evolved_def by (metis map_option_eq_Some option.distinct(1))

lemma evolved_same: "(\<And>k. GetMonster t k = GetMonster s k) \<Longrightarrow> evolved s t"
  by (simp add: evolved_def)

lemma evolved_on_monster: "(\<And>m. evolves m (f m)) \<Longrightarrow> evolved s (on_monster k f s)"
  by (auto simp: evolved_def get_on_monster split: if_splits)

lemma evolved_step:
  assumes "tidy s" "in_play x" "monster_step x s = Some t"
  shows "evolved s t"
proof (cases x)
  case (MUpdate now)
  show ?thesis
  proof (cases "sma_initialized s")
    case True
    with MUpdate assms evolves_think show ?thesis
      by (fastforce simp: evolved_def get_UpdateAI split: option.splits if_splits)
  qed (use MUpdate assms in \<open>simp add: UpdateAI_def\<close>)
next
  case (MEnter now p v)
  with assms show ?thesis
    by (auto simp: evolves_notice evolved_def OnPlayerEnterRange_def noticing.get_whole_loop(1))
next
  case (MLeave p v)
  with assms show ?thesis
    by (auto simp: evolves_forget evolved_def OnPlayerLeaveRange_def forgetting.get_whole_loop(1))
next
  case (MPlayerDeath p)
  with assms show ?thesis
    by (auto simp: evolves_forget evolved_def OnPlayerDeath_def forgetting.get_whole_loop(1))
next
  case (MAttack now p k d)
  with assms show ?thesis by (auto simp: evolves_hit evolved_def get_OnPlayerAttack split: if_splits)
next
  case (MRemove k)
  with assms show ?thesis
    by (auto simp: RemoveMonster_def evolved_def GetMonster_def upd_ai_stats_def split: option.splits if_splits)
next
  case MShutdown
  with assms show ?thesis by (auto simp: AI_Shutdown_def evolved_def GetMonster_def split: if_splits)
next
  case (MTarget k p)
  with assms show ?thesis by (auto simp: SetMonsterTarget_def intro!: evolved_on_monster)
next
  case (MClear k)
  with assms show ?thesis by (auto simp: ClearMonsterTarget_def intro!: evolved_on_monster)
next
  case (MOwner k p)
  with assms show ?thesis by (auto simp: AI_SetSyncOwner_def intro!: evolved_on_monster)
qed (use assms in \<open>auto simp: AI_Initialize_def AddMonsterToGroup_def RemoveMonsterFromGroup_def UpdateGroupBehavior_def
      EnableGroupBehavior_def AI_ResetStats_def CreateMonsterGroup_def Let_def get_frame intro!: evolved_same\<close>,
    (use assms in \<open>auto simp: GetMonster_def\<close>)?)

section \<open>Properties\<close>

lemma evolved_run:
  assumes "tidy s" "list_all in_play ops" "run monster_step ops s = Some t"
  shows "evolved s t \<and> tidy t"
proof (rule run_invariant [of "\<lambda>u. evolved s u \<and> tidy u" s ops monster_step])
  show "evolved s s \<and> tidy s" using assms(1) by simp
  fix x u v
  assume "x \<in> set ops" "evolved s u \<and> tidy u" "monster_step x u = Some v"
  with assms(2) show "evolved s v \<and> tidy v"
    by (auto simp: list_all_iff intro: evolved_trans [OF _ evolved_step] tidy_step)
qed (rule assms(3))

text \<open>
  C26. From any reachable state, over any operations of play, a monster is one that was there before,
  with the same identity, place and maximal health, and its state has moved along the transitions
  only: towards alert, aggressive, attacking and dead, never back.  A dead monster stays dead, and a
  stunned or fleeing one stays as it is or dies.
\<close>

theorem monster_life_cycle:
  assumes "run monster_step before (SyncedMonsterAI_new start) = Some s"
    and "list_all in_play ops" "run monster_step ops s = Some t"
    and "GetMonster t k = Some m'"
  shows "\<exists>m. GetMonster s k = Some m \<and> evolves m m'
           \<and> (mon_currentState m' = mon_currentState m \<or> anger (mon_currentState m) < anger (mon_currentState m'))
           \<and> (mon_currentState m = Dead \<longrightarrow> mon_currentState m' = Dead)
           \<and> (mon_currentState m \<in> {Stunned, Fleeing} \<longrightarrow> mon_currentState m' \<in> {mon_currentState m, Dead})"
proof -
  have "evolved s t" using evolved_run [OF tidy_reachable [OF assms(1)] assms(2,3)] ..
  with assms(4) obtain m where m: "GetMonster s k = Some m" "evolves m m'" by (auto simp: evolved_def)
  then have "ai_moves\<^sup>*\<^sup>* (mon_currentState m) (mon_currentState m')" by (simp add: evolves_def)
  with m ai_moves_star_anger [OF this] show ?thesis
    by (auto dest: star_from_Dead star_from_helpless)
qed

definition wolf :: MonsterAIData where
  "wolf = CreateBeast ''wolf'' (Fin 0, Fin 0, Fin 0, Fin 1) (Fin 60) (Fin 8)"

theorem monster_life_cycle_witness:
  "let s = the (run monster_step [MInitialize, MAdd 0 wolf] (SyncedMonsterAI_new 0));
       t = the (run monster_step [MEnter 1 7 (Fin 3, Fin 0, Fin 0, Fin 1), MUpdate 2, MAttack 3 7 1 (Fin 25), MUpdate 4] s)
   in map_option mon_currentState (GetMonster s 1) = Some Idle
      \<and> map_option mon_currentState (GetMonster t 1) = Some Attacking
      \<and> ai_moves\<^sup>*\<^sup>* Idle Attacking"
proof -
  let ?s = "the (run monster_step [MInitialize, MAdd 0 wolf] (SyncedMonsterAI_new 0))"
  let ?ops = "[MEnter 1 7 (Fin 3, Fin 0, Fin 0, Fin 1), MUpdate 2, MAttack 3 7 1 (Fin 25), MUpdate 4]"
  let ?t = "the (run monster_step ?ops ?s)"
  have s: "run monster_step [MInitialize, MAdd 0 wolf] (SyncedMonsterAI_new 0) = Some ?s" by simp
  have t: "run monster_step ?ops ?s = Some ?t" by simp
  have "map_option mon_currentState (GetMonster ?s 1) = Some Idle" by code_simp
  moreover have "map_option mon_currentState (GetMonster ?t 1) = Some Attacking" by code_simp
  moreover from this obtain m' where "GetMonster ?t 1 = Some m'" "mon_currentState m' = Attacking" by auto
  ultimately show ?thesis
    using monster_life_cycle [OF s _ t, of 1 m'] by (auto simp: Let_def evolves_def)
qed

text \<open>
  C27. An update of the system refines the behaviour of a single monster: every living monster is
  replaced by \<open>think now\<close> of itself, every dead one is removed, nothing else appears, and each group
  loses one membership for each of the dead.
\<close>

theorem update_follows_behaviour:
  assumes "run monster_step before (SyncedMonsterAI_new start) = Some s" "sma_initialized s"
  shows "GetMonster (UpdateAI now s) k =
           (case GetMonster s k of None \<Rightarrow> None
            | Some m \<Rightarrow> if mon_currentState m = Dead then None else Some (think now m))
         \<and> map_option (\<lambda>g. mset (mg_members g)) (GetMonsterGroup (UpdateAI now s) i) =
             map_option (\<lambda>g. mset (mg_members g) - mset (dead_keys s)) (GetMonsterGroup s i)"
proof -
  have tidy: "tidy s" using assms(1) by (rule tidy_reachable)
  have "map_option (\<lambda>g. mset (mg_members g)) (GetMonsterGroup (UpdateAI now s) i)
      = map_option (\<lambda>g. mset (mg_members g) - mset (dead_keys s)) (GetMonsterGroup (before_burial now s) i)"
    using members_bury [of "dead_keys (before_burial now s)" "before_burial now s" i] dead_before_burial(2) [OF tidy]
    by (simp add: UpdateAI_unfold [OF assms(2)] GetMonsterGroup_def)
  also have "\<dots> = map_option (\<lambda>ms. mset ms - mset (dead_keys s)) (map_option mg_members (GetMonsterGroup (before_burial now s) i))"
    by (simp add: option.map_comp comp_def)
  also have "\<dots> = map_option (\<lambda>g. mset (mg_members g) - mset (dead_keys s)) (GetMonsterGroup s i)"
    by (simp add: before_burial(3) [OF tidy] option.map_comp comp_def)
  finally show ?thesis using get_UpdateAI [OF tidy assms(2)] by simp
qed

theorem update_follows_behaviour_witness:
  "let s = the (run monster_step [MInitialize, MAdd 0 wolf, MAdd 0 wolf, MCreateGroup ''pack'' Pack, MJoinGroup 1 1,
                 MJoinGroup 1 2, MAttack 1 7 1 (Fin 70)] (SyncedMonsterAI_new 0))
   in GetMonster (UpdateAI 5 s) 1 = None
      \<and> map_option (\<lambda>g. mset (mg_members g)) (GetMonsterGroup (UpdateAI 5 s) 1) = Some {#2#}"
proof -
  let ?s = "the (run monster_step [MInitialize, MAdd 0 wolf, MAdd 0 wolf, MCreateGroup ''pack'' Pack, MJoinGroup 1 1,
                 MJoinGroup 1 2, MAttack 1 7 1 (Fin 70)] (SyncedMonsterAI_new 0))"
  have s: "run monster_step [MInitialize, MAdd 0 wolf, MAdd 0 wolf, MCreateGroup ''pack'' Pack, MJoinGroup 1 1,
                 MJoinGroup 1 2, MAttack 1 7 1 (Fin 70)] (SyncedMonsterAI_new 0) = Some ?s" by simp
  have i: "sma_initialized ?s" by code_simp
  have "map_option mon_currentState (GetMonster ?s 1) = Some Dead" by code_simp
  moreover have "dead_keys ?s = [1]" by code_simp
  moreover have "map_option mg_members (GetMonsterGroup ?s 1) = Some [1, 2]" by code_simp
  ultimately show ?thesis
    using update_follows_behaviour [OF s i, where now = 5 and k = 1 and i = 1] by (auto simp: Let_def)
qed

lemma f_max_0: "f_le (Fin 0) (f_max (Fin 0) x)" "f_le (f_max (Fin 0) x) (Fin 0) \<longleftrightarrow> f_max (Fin 0) x = Fin 0"
  by (cases x; auto simp: f_max_def)+

text \<open>
  A hit lowers the health of its monster by the damage, never below zero; the monster is dead
  exactly when its health is zero (also after damage that is not a number) or it was dead before, and
  a calm monster that survives becomes aggressive.  The attacker is its target and one of its threats,
  and no other monster changes.
\<close>

lemma hit_outcome:
  assumes "GetMonster s k = Some m" "t = OnPlayerAttack now p k d s"
  shows "\<exists>m'. GetMonster t k = Some m'
     \<and> mon_health m' = f_max (Fin 0) (sub32 (mon_health m) d) \<and> f_le (Fin 0) (mon_health m')
     \<and> mon_currentState m' =
         (if mon_health m' = Fin 0 then Dead
          else if mon_currentState m \<in> {Idle, Patrolling} then Aggressive else mon_currentState m)
     \<and> mon_targetPlayerId m' = p \<and> set (mon_threatList m') = insert p (set (mon_threatList m)) \<and> mon_needsSync m'
     \<and> (\<forall>j. j \<noteq> k \<longrightarrow> GetMonster t j = GetMonster s j)"
proof (intro exI conjI)
  show "GetMonster t k = Some (hit now p d m)" using assms by (simp add: get_OnPlayerAttack)
  show h: "mon_health (hit now p d m) = f_max (Fin 0) (sub32 (mon_health m) d)"
    by (simp add: hit_def Let_def wound_def add_threat_def change_def)
  show "f_le (Fin 0) (mon_health (hit now p d m))" unfolding h by (rule f_max_0)
  show "mon_currentState (hit now p d m) = (if mon_health (hit now p d m) = Fin 0 then Dead
          else if mon_currentState m \<in> {Idle, Patrolling} then Aggressive else mon_currentState m)"
    unfolding h using f_max_0(2) [of "sub32 (mon_health m) d"]
    by (auto simp: hit_def Let_def wound_def add_threat_def change_def)
  show "mon_targetPlayerId (hit now p d m) = p" "mon_needsSync (hit now p d m)"
    "set (mon_threatList (hit now p d m)) = insert p (set (mon_threatList m))"
    by (auto simp: hit_def Let_def wound_def add_threat_def change_def)
  show "\<forall>j. j \<noteq> k \<longrightarrow> GetMonster t j = GetMonster s j" using assms(2) by (simp add: get_OnPlayerAttack)
qed

lemma hit_outcome_witness:
  "let s = the (run monster_step [MInitialize, MAdd 0 wolf] (SyncedMonsterAI_new 0));
       t = OnPlayerAttack 3 7 1 NaN s
   in map_option mon_currentState (GetMonster t 1) = Some Dead"
proof -
  let ?s = "the (run monster_step [MInitialize, MAdd 0 wolf] (SyncedMonsterAI_new 0))"
  have "map_option mon_health (GetMonster ?s 1) = Some (Fin 60)" by code_simp
  then obtain m where "GetMonster ?s 1 = Some m" "mon_health m = Fin 60" by auto
  with hit_outcome [OF this(1) refl, where now = 3 and p = 7 and d = NaN] show ?thesis
    by (auto simp: Let_def sub32_def f_neg_def add32_def f_max_def)
qed

text \<open>Joining a group twice leaves a membership behind when the monster dies.\<close>

lemma second_membership_survives:
  "mset (mg_members g) = {#k, k#} \<Longrightarrow> mset (mg_members (remove_member k g)) = {#k#}"
  by (simp add: remove_member_def Let_def)

end
