(* ===== verification/Batching.thy ===== *)
theory Batching
  imports Compression MessagePriority
begin

text \<open>
  \<open>SmartBatching.cpp\<close>: outgoing messages are collected and turned into batches by time, by size, by
  priority or by a mixture (\<open>SmartBatching\<close>); a batch is framed and compressed when that makes it
  shorter.  \<open>BatchProcessor\<close> and \<open>BatchUtils\<close> are in the theory \<open>BatchCodec\<close>.  The compression service
  is a singleton of the program; here it is a field of the state.  One call reads the clock once.
\<close>

section \<open>Data\<close>

datatype BatchType = IntervalBatch | SizeBatch | PriorityBatch | MixedBatch

record BatchConfig =
  bc_type :: BatchType
  bc_intervalMs :: flt
  bc_maxSize :: u64
  bc_maxMessages :: u64
  bc_enableCompression :: bool
  bc_enablePriorityGrouping :: bool
  bc_maxWaitTime :: flt
  bc_enableAdaptiveBatching :: bool
  bc_minIntervalMs :: flt
  bc_maxIntervalMs :: flt
  bc_congestionThreshold :: flt
  bc_adaptationSpeed :: flt

definition BatchConfig_new :: BatchConfig where
  "BatchConfig_new =
     \<lparr>bc_type = IntervalBatch, bc_intervalMs = Fin 100, bc_maxSize = 1024, bc_maxMessages = 50,
      bc_enableCompression = True, bc_enablePriorityGrouping = True, bc_maxWaitTime = Fin 500,
      bc_enableAdaptiveBatching = True, bc_minIntervalMs = Fin 16, bc_maxIntervalMs = Fin 200,
      bc_congestionThreshold = rnd32 (8 / 10), bc_adaptationSpeed = rnd32 (1 / 10)\<rparr>"

record BatchedMessage =
  bm_batchId :: u32
  bm_messages :: "PrioritizedMessage list"
  bm_timestamp :: time_point
  bm_totalSize :: u64
  bm_highestPriority :: MessagePriority
  bm_highestUrgency :: MessageUrgency
  bm_isCompressed :: bool

definition BatchedMessage_new :: BatchedMessage where
  "BatchedMessage_new =
     \<lparr>bm_batchId = 0, bm_messages = [], bm_timestamp = 0, bm_totalSize = 0,
      bm_highestPriority = Background, bm_highestUrgency = Batch, bm_isCompressed = False\<rparr>"

record BatchStats =
  bs_totalBatches :: u32
  bs_totalMessages :: u32
  bs_compressedBatches :: u32
  bs_droppedBatches :: u32
  bs_totalBytes :: u64
  bs_compressedBytes :: u64
  bs_averageBatchSize :: flt
  bs_averageBatchTime :: flt
  bs_compressionRatio :: flt
  bs_averageLatency :: flt

definition BatchStats_Reset :: BatchStats where
  "BatchStats_Reset =
     \<lparr>bs_totalBatches = 0, bs_totalMessages = 0, bs_compressedBatches = 0, bs_droppedBatches = 0,
      bs_totalBytes = 0, bs_compressedBytes = 0, bs_averageBatchSize = Fin 0, bs_averageBatchTime = Fin 0,
      bs_compressionRatio = Fin 0, bs_averageLatency = Fin 0\<rparr>"

datatype BatchCall = BatchReady BatchedMessage | BatchDropped BatchedMessage

record SmartBatching =
  sb_initialized :: bool
  sb_config :: BatchConfig
  sb_stats :: BatchStats
  sb_pendingMessages :: "PrioritizedMessage list"
  sb_readyBatches :: "BatchedMessage list"
  sb_lastBatchTime :: time_point
  sb_lastAdaptationTime :: time_point
  sb_accumulatedTime :: flt
  sb_currentInterval :: flt
  sb_networkCongestion :: flt
  sb_networkLatency :: flt
  sb_adaptiveBatchingEnabled :: bool
  sb_batchReadyCallback :: bool
  sb_batchDroppedCallback :: bool
  sb_nextBatchId :: u32
  sb_compression :: DataCompression
  sb_calls :: "BatchCall list"

definition SmartBatching_new :: "time_point \<Rightarrow> DataCompression \<Rightarrow> SmartBatching" where
  "SmartBatching_new now dc =
     \<lparr>sb_initialized = False, sb_config = BatchConfig_new, sb_stats = BatchStats_Reset,
      sb_pendingMessages = [], sb_readyBatches = [], sb_lastBatchTime = now, sb_lastAdaptationTime = now,
      sb_accumulatedTime = Fin 0, sb_currentInterval = Fin 100, sb_networkCongestion = Fin 0,
      sb_networkLatency = Fin 0, sb_adaptiveBatchingEnabled = True, sb_batchReadyCallback = False,
      sb_batchDroppedCallback = False, sb_nextBatchId = 1, sb_compression = dc, sb_calls = []\<rparr>"

definition batch_call :: "bool \<Rightarrow> BatchCall \<Rightarrow> SmartBatching \<Rightarrow> SmartBatching" where
  "batch_call installed c s = (if installed then s\<lparr>sb_calls := sb_calls s @ [c]\<rparr> else s)"

text \<open>The enumerations as keys of \<open>std::map\<close>.\<close>

lemma priority_code_inject [simp]: "priority_code p = priority_code q \<longleftrightarrow> p = q"
  by (cases p; cases q; simp)

lemma urgency_code_inject [simp]: "urgency_code p = urgency_code q \<longleftrightarrow> p = q"
  by (cases p; cases q; simp)

instantiation MessagePriority :: linorder
begin

definition less_eq_MessagePriority :: "MessagePriority \<Rightarrow> MessagePriority \<Rightarrow> bool" where
  "p \<le> q \<longleftrightarrow> priority_code p \<le> priority_code q"

definition less_MessagePriority :: "MessagePriority \<Rightarrow> MessagePriority \<Rightarrow> bool" where
  "p < q \<longleftrightarrow> priority_code p < priority_code q"

instance
  by standard (auto simp: less_eq_MessagePriority_def less_MessagePriority_def)

end

instantiation MessageUrgency :: linorder
begin

definition less_eq_MessageUrgency :: "MessageUrgency \<Rightarrow> MessageUrgency \<Rightarrow> bool" where
  "p \<le> q \<longleftrightarrow> urgency_code p \<le> urgency_code q"

definition less_MessageUrgency :: "MessageUrgency \<Rightarrow> MessageUrgency \<Rightarrow> bool" where
  "p < q \<longleftrightarrow> urgency_code p < urgency_code q"

instance
  by standard (auto simp: less_eq_MessageUrgency_def less_MessageUrgency_def)

end

section \<open>Making a batch\<close>

definition higher_priority :: "MessagePriority \<Rightarrow> MessagePriority \<Rightarrow> MessagePriority" where
  "higher_priority p q = (if priority_code p < priority_code q then p else q)"

definition higher_urgency :: "MessageUrgency \<Rightarrow> MessageUrgency \<Rightarrow> MessageUrgency" where
  "higher_urgency u v = (if urgency_code u < urgency_code v then u else v)"

definition total_size :: "PrioritizedMessage list \<Rightarrow> u64" where
  "total_size ms = fold (\<lambda>m n. n + data_size m) ms 0"

definition top_priority :: "PrioritizedMessage list \<Rightarrow> MessagePriority" where
  "top_priority ms = fold (\<lambda>m. higher_priority (pm_priority m)) ms Background"

definition top_urgency :: "PrioritizedMessage list \<Rightarrow> MessageUrgency" where
  "top_urgency ms = fold (\<lambda>m. higher_urgency (pm_urgency m)) ms Batch"

definition batch_data :: "PrioritizedMessage list \<Rightarrow> u8 list" where
  "batch_data ms = concat (map (\<lambda>m. le32 (of_nat (length (pm_data m))) @ pm_data m) ms)"

text \<open>The one message that stands for a compressed batch; \<open>MessageTypes::BatchMessage\<close> is 302.\<close>

definition compressed_message :: "PriorityTypes \<Rightarrow> BatchedMessage \<Rightarrow> u8 list \<Rightarrow> PrioritizedMessage" where
  "compressed_message T batch bytes =
     (PrioritizedMessage_new T)\<lparr>pm_messageId := bm_batchId batch, pm_type := 302, pm_data := bytes,
       pm_classification := MessageClassification_new\<lparr>mc_priority := bm_highestPriority batch,
         mc_urgency := bm_highestUrgency batch\<rparr>\<rparr>"

definition SB_CompressBatch :: "PriorityTypes \<Rightarrow> time_point \<Rightarrow> BatchedMessage \<Rightarrow> SmartBatching \<Rightarrow> BatchedMessage \<times> SmartBatching" where
  "SB_CompressBatch T now batch s =
     (if \<not> bc_enableCompression (sb_config s) then (batch, s)
      else
        let batchData = batch_data (bm_messages batch)
        in case Compress now now batchData LZ4 Balanced (sb_compression s) of (compressedData, dc) \<Rightarrow>
          (if length compressedData < length batchData
           then batch\<lparr>bm_messages := [compressed_message T batch compressedData], bm_isCompressed := True,
                      bm_totalSize := of_nat (length compressedData)\<rparr>
           else batch,
           s\<lparr>sb_compression := dc\<rparr>))"

definition f32_of_u64 :: "u64 \<Rightarrow> flt" where
  "f32_of_u64 w = rnd32 (of_int (uint w))"

definition UpdateStatistics :: "BatchedMessage \<Rightarrow> SmartBatching \<Rightarrow> SmartBatching" where
  "UpdateStatistics batch s =
     (let st = sb_stats s;
          st1 = st\<lparr>bs_totalBatches := bs_totalBatches st + 1,
            bs_totalMessages := bs_totalMessages st + of_nat (length (bm_messages batch)),
            bs_totalBytes := bs_totalBytes st + bm_totalSize batch\<rparr>;
          st2 = (if bm_isCompressed batch
                 then st1\<lparr>bs_compressedBatches := bs_compressedBatches st1 + 1,
                          bs_compressedBytes := bs_compressedBytes st1 + bm_totalSize batch\<rparr>
                 else st1);
          st3 = st2\<lparr>bs_averageBatchSize := div32 (f32_of_u64 (bs_totalBytes st2)) (f32_of_u32 (bs_totalBatches st2)),
            bs_averageBatchTime := sb_currentInterval s\<rparr>;
          st4 = (if 0 < bs_compressedBytes st3
                 then st3\<lparr>bs_compressionRatio := div32 (f32_of_u64 (bs_compressedBytes st3)) (f32_of_u64 (bs_totalBytes st3))\<rparr>
                 else st3)
      in s\<lparr>sb_stats := st4\<rparr>)"

definition CreateBatch :: "PriorityTypes \<Rightarrow> time_point \<Rightarrow> PrioritizedMessage list \<Rightarrow> SmartBatching \<Rightarrow> BatchedMessage \<times> SmartBatching" where
  "CreateBatch T now messages s =
     (let batch = \<lparr>bm_batchId = sb_nextBatchId s, bm_messages = messages, bm_timestamp = now,
            bm_totalSize = total_size messages, bm_highestPriority = top_priority messages,
            bm_highestUrgency = top_urgency messages, bm_isCompressed = False\<rparr>
      in case SB_CompressBatch T now batch (s\<lparr>sb_nextBatchId := sb_nextBatchId s + 1\<rparr>) of
           (batch1, s1) \<Rightarrow> (batch1, UpdateStatistics batch1 s1))"

text \<open>Creating a batch, queueing it and reporting it, which every strategy does.\<close>

definition emit :: "PriorityTypes \<Rightarrow> time_point \<Rightarrow> PrioritizedMessage list \<Rightarrow> SmartBatching \<Rightarrow> SmartBatching" where
  "emit T now messages s =
     (case CreateBatch T now messages s of
        (batch, s1) \<Rightarrow> batch_call (sb_batchReadyCallback s1) (BatchReady batch)
                        (s1\<lparr>sb_readyBatches := sb_readyBatches s1 @ [batch]\<rparr>))"

definition UpdateBatchMetadata :: "BatchedMessage \<Rightarrow> BatchedMessage" where
  "UpdateBatchMetadata batch =
     batch\<lparr>bm_totalSize := total_size (bm_messages batch), bm_highestPriority := top_priority (bm_messages batch),
           bm_highestUrgency := top_urgency (bm_messages batch)\<rparr>"

section \<open>Strategies\<close>

definition ProcessIntervalBatching :: "PriorityTypes \<Rightarrow> time_point \<Rightarrow> SmartBatching \<Rightarrow> SmartBatching" where
  "ProcessIntervalBatching T now s =
     (if f_le (sb_currentInterval s) (sb_accumulatedTime s) then
        (let s1 = (if sb_pendingMessages s = [] then s
                   else (emit T now (sb_pendingMessages s) s)\<lparr>sb_pendingMessages := []\<rparr>)
         in s1\<lparr>sb_accumulatedTime := Fin 0, sb_lastBatchTime := now\<rparr>)
      else s)"

text \<open>The longest prefix within the two limits, and what is left.\<close>

fun take_batch :: "u64 \<Rightarrow> u64 \<Rightarrow> u64 \<Rightarrow> PrioritizedMessage list \<Rightarrow> PrioritizedMessage list
    \<Rightarrow> PrioritizedMessage list \<times> PrioritizedMessage list" where
  "take_batch maxSize maxMessages currentSize batch [] = (batch, [])"
| "take_batch maxSize maxMessages currentSize batch (m # ms) =
     (if currentSize + data_size m \<le> maxSize \<and> length batch < unat maxMessages
      then take_batch maxSize maxMessages (currentSize + data_size m) (batch @ [m]) ms
      else (batch, m # ms))"

definition ProcessSizeBatching :: "PriorityTypes \<Rightarrow> time_point \<Rightarrow> SmartBatching \<Rightarrow> SmartBatching" where
  "ProcessSizeBatching T now s =
     (case take_batch (bc_maxSize (sb_config s)) (bc_maxMessages (sb_config s)) 0 [] (sb_pendingMessages s) of
        (batchMessages, rest) \<Rightarrow>
          let s1 = s\<lparr>sb_pendingMessages := rest\<rparr>
          in if batchMessages = [] then s1 else emit T now batchMessages s1)"

text \<open>\<open>groups[key(message)].push_back(message)\<close> for all messages; the groups in the order of the keys.\<close>

definition group_by :: "('a \<Rightarrow> 'k::linorder) \<Rightarrow> 'a list \<Rightarrow> 'a list list" where
  "group_by key xs = om_values (fold (\<lambda>x g. om_put (key x) (om_get [] g (key x) @ [x]) g) xs [])"

definition GroupByPriority :: "PrioritizedMessage list \<Rightarrow> PrioritizedMessage list list" where
  "GroupByPriority = group_by pm_priority"

definition GroupByUrgency :: "PrioritizedMessage list \<Rightarrow> PrioritizedMessage list list" where
  "GroupByUrgency = group_by pm_urgency"

definition GroupByType :: "PrioritizedMessage list \<Rightarrow> PrioritizedMessage list list" where
  "GroupByType = group_by pm_type"

definition ProcessPriorityBatching :: "PriorityTypes \<Rightarrow> time_point \<Rightarrow> SmartBatching \<Rightarrow> SmartBatching" where
  "ProcessPriorityBatching T now s =
     (if sb_pendingMessages s = [] then s
      else (fold (\<lambda>g s. if g = [] then s else emit T now g s) (GroupByPriority (sb_pendingMessages s)) s)
             \<lparr>sb_pendingMessages := []\<rparr>)"

text \<open>
  The sum of the data sizes as the code computes it: \<open>std::accumulate\<close> starts with the \<open>int\<close> \<open>0\<close>, so
  every partial sum is cut to 32 bits and extended with its sign again.
\<close>

definition accumulated_bytes :: "PrioritizedMessage list \<Rightarrow> u64" where
  "accumulated_bytes ms = scast (fold (\<lambda>m (n :: u32). ucast ((scast n :: u64) + data_size m)) ms 0)"

definition due_mixed :: "SmartBatching \<Rightarrow> bool" where
  "due_mixed s \<longleftrightarrow> f_le (sb_currentInterval s) (sb_accumulatedTime s)
     \<or> bc_maxSize (sb_config s) \<le> accumulated_bytes (sb_pendingMessages s)"

definition ProcessMixedBatching :: "PriorityTypes \<Rightarrow> time_point \<Rightarrow> SmartBatching \<Rightarrow> SmartBatching" where
  "ProcessMixedBatching T now s =
     (if due_mixed s then (ProcessSizeBatching T now s)\<lparr>sb_accumulatedTime := Fin 0\<rparr> else s)"

definition ShouldCreateBatch :: "SmartBatching \<Rightarrow> bool" where
  "ShouldCreateBatch s \<longleftrightarrow> sb_pendingMessages s \<noteq> [] \<and>
     (case bc_type (sb_config s) of
        IntervalBatch \<Rightarrow> f_le (sb_currentInterval s) (sb_accumulatedTime s)
      | SizeBatch \<Rightarrow> bc_maxSize (sb_config s) \<le> accumulated_bytes (sb_pendingMessages s)
      | PriorityBatch \<Rightarrow> True
      | MixedBatch \<Rightarrow> due_mixed s)"

definition batch_age :: "time_point \<Rightarrow> BatchedMessage \<Rightarrow> flt" where
  "batch_age now batch = mul32 (seconds32 (now - bm_timestamp batch)) (Fin 1000)"

definition IsBatchReady :: "time_point \<Rightarrow> BatchedMessage \<Rightarrow> SmartBatching \<Rightarrow> bool" where
  "IsBatchReady now batch s \<longleftrightarrow>
     f_le (bc_intervalMs (sb_config s)) (batch_age now batch) \<or> bc_maxSize (sb_config s) \<le> bm_totalSize batch"

definition drop_batch :: "BatchedMessage \<Rightarrow> SmartBatching \<Rightarrow> SmartBatching" where
  "drop_batch batch s =
     batch_call (sb_batchDroppedCallback s) (BatchDropped batch)
       (s\<lparr>sb_stats := (sb_stats s)\<lparr>bs_droppedBatches := bs_droppedBatches (sb_stats s) + 1\<rparr>\<rparr>)"

definition still_valid :: "time_point \<Rightarrow> SmartBatching \<Rightarrow> BatchedMessage \<Rightarrow> bool" where
  "still_valid now s batch \<longleftrightarrow> f_le (batch_age now batch) (bc_maxWaitTime (sb_config s))"

definition CleanupExpiredBatches :: "time_point \<Rightarrow> SmartBatching \<Rightarrow> SmartBatching" where
  "CleanupExpiredBatches now s =
     (fold drop_batch (filter (\<lambda>b. \<not> still_valid now s b) (sb_readyBatches s)) s)
       \<lparr>sb_readyBatches := filter (still_valid now s) (sb_readyBatches s)\<rparr>"

definition ProcessBatches :: "PriorityTypes \<Rightarrow> time_point \<Rightarrow> flt \<Rightarrow> SmartBatching \<Rightarrow> SmartBatching" where
  "ProcessBatches T now deltaTime s =
     (if \<not> sb_initialized s \<or> sb_pendingMessages s = [] then s
      else
        let s1 = s\<lparr>sb_accumulatedTime := add32 (sb_accumulatedTime s) deltaTime\<rparr>;
            s2 = (case bc_type (sb_config s1) of
                    IntervalBatch \<Rightarrow> ProcessIntervalBatching T now s1
                  | SizeBatch \<Rightarrow> ProcessSizeBatching T now s1
                  | PriorityBatch \<Rightarrow> ProcessPriorityBatching T now s1
                  | MixedBatch \<Rightarrow> ProcessMixedBatching T now s1)
        in CleanupExpiredBatches now s2)"

section \<open>Operations\<close>

definition SB_Initialize :: "BatchConfig \<Rightarrow> SmartBatching \<Rightarrow> bool \<times> SmartBatching" where
  "SB_Initialize config s =
     (if sb_initialized s then (True, s)
      else (True, s\<lparr>sb_config := config, sb_currentInterval := bc_intervalMs config, sb_initialized := True\<rparr>))"

definition SB_AddMessage :: "PriorityTypes \<Rightarrow> time_point \<Rightarrow> PrioritizedMessage \<Rightarrow> SmartBatching \<Rightarrow> SmartBatching" where
  "SB_AddMessage T now message s =
     (if \<not> sb_initialized s then s
      else let s1 = s\<lparr>sb_pendingMessages := sb_pendingMessages s @ [message]\<rparr>
           in if ShouldCreateBatch s1 then ProcessBatches T now (Fin 0) s1 else s1)"

definition GetReadyBatches :: "SmartBatching \<Rightarrow> BatchedMessage list \<times> SmartBatching" where
  "GetReadyBatches s = (sb_readyBatches s, s\<lparr>sb_readyBatches := []\<rparr>)"

definition ForceFlush :: "PriorityTypes \<Rightarrow> time_point \<Rightarrow> SmartBatching \<Rightarrow> SmartBatching" where
  "ForceFlush T now s =
     (if \<not> sb_initialized s \<or> sb_pendingMessages s = [] then s
      else
        (case CreateBatch T now (sb_pendingMessages s) s of
           (batch, s1) \<Rightarrow> batch_call (sb_batchReadyCallback s1) (BatchReady batch)
              (s1\<lparr>sb_readyBatches := sb_readyBatches s1 @ [batch], sb_pendingMessages := []\<rparr>)))"

definition ClearBatches :: "SmartBatching \<Rightarrow> SmartBatching" where
  "ClearBatches s = s\<lparr>sb_readyBatches := [], sb_pendingMessages := []\<rparr>"

definition SB_Shutdown :: "PriorityTypes \<Rightarrow> time_point \<Rightarrow> SmartBatching \<Rightarrow> SmartBatching" where
  "SB_Shutdown T now s =
     (if \<not> sb_initialized s then s
      else (ClearBatches (ForceFlush T now s))\<lparr>sb_pendingMessages := [], sb_initialized := False\<rparr>)"

definition GetPendingMessageCount :: "SmartBatching \<Rightarrow> nat" where
  "GetPendingMessageCount s = length (sb_pendingMessages s)"

definition GetPendingBatchCount :: "SmartBatching \<Rightarrow> nat" where
  "GetPendingBatchCount s = length (sb_readyBatches s)"

definition SB_SetConfig :: "BatchConfig \<Rightarrow> SmartBatching \<Rightarrow> SmartBatching" where
  "SB_SetConfig config s = s\<lparr>sb_config := config, sb_currentInterval := bc_intervalMs config\<rparr>"

definition SB_GetConfig :: "SmartBatching \<Rightarrow> BatchConfig" where
  "SB_GetConfig s = sb_config s"

definition SetBatchType :: "BatchType \<Rightarrow> SmartBatching \<Rightarrow> SmartBatching" where
  "SetBatchType ty s = s\<lparr>sb_config := (sb_config s)\<lparr>bc_type := ty\<rparr>\<rparr>"

definition SetInterval :: "flt \<Rightarrow> SmartBatching \<Rightarrow> SmartBatching" where
  "SetInterval intervalMs s =
     s\<lparr>sb_config := (sb_config s)\<lparr>bc_intervalMs := intervalMs\<rparr>, sb_currentInterval := intervalMs\<rparr>"

definition SetMaxSize :: "u64 \<Rightarrow> SmartBatching \<Rightarrow> SmartBatching" where
  "SetMaxSize maxSize s = s\<lparr>sb_config := (sb_config s)\<lparr>bc_maxSize := maxSize\<rparr>\<rparr>"

definition SetMaxMessages :: "u64 \<Rightarrow> SmartBatching \<Rightarrow> SmartBatching" where
  "SetMaxMessages maxMessages s = s\<lparr>sb_config := (sb_config s)\<lparr>bc_maxMessages := maxMessages\<rparr>\<rparr>"

definition EnableAdaptiveBatching :: "bool \<Rightarrow> SmartBatching \<Rightarrow> SmartBatching" where
  "EnableAdaptiveBatching enable s = s\<lparr>sb_adaptiveBatchingEnabled := enable\<rparr>"

section \<open>Adaptation\<close>

definition scale_interval :: "flt \<Rightarrow> SmartBatching \<Rightarrow> SmartBatching" where
  "scale_interval x s = s\<lparr>sb_currentInterval := mul32 (sb_currentInterval s) x\<rparr>"

definition AdjustIntervalBasedOnCongestion :: "flt \<Rightarrow> SmartBatching \<Rightarrow> SmartBatching" where
  "AdjustIntervalBasedOnCongestion congestionLevel s =
     (if f_lt (bc_congestionThreshold (sb_config s)) congestionLevel
      then scale_interval (add32 (Fin 1) (bc_adaptationSpeed (sb_config s))) s
      else scale_interval (sub32 (Fin 1) (bc_adaptationSpeed (sb_config s))) s)"

definition AdjustIntervalBasedOnLatency :: "flt \<Rightarrow> SmartBatching \<Rightarrow> SmartBatching" where
  "AdjustIntervalBasedOnLatency latency s =
     (let half = mul32 (bc_adaptationSpeed (sb_config s)) (rnd32 (1 / 2))
      in if f_lt (Fin 100) latency then scale_interval (add32 (Fin 1) half) s
         else if f_lt latency (Fin 20) then scale_interval (sub32 (Fin 1) half) s else s)"

definition CalculateOptimalInterval :: "SmartBatching \<Rightarrow> SmartBatching" where
  "CalculateOptimalInterval s =
     (let s1 = AdjustIntervalBasedOnLatency (sb_networkLatency s)
                 (AdjustIntervalBasedOnCongestion (sb_networkCongestion s) s)
      in s1\<lparr>sb_currentInterval := f_max (bc_minIntervalMs (sb_config s1))
              (f_min (bc_maxIntervalMs (sb_config s1)) (sb_currentInterval s1))\<rparr>)"

definition AdjustBatchingParameters :: "time_point \<Rightarrow> SmartBatching \<Rightarrow> SmartBatching" where
  "AdjustBatchingParameters now s =
     (if f_lt (seconds32 (now - sb_lastAdaptationTime s)) (Fin 1) then s
      else (CalculateOptimalInterval s)\<lparr>sb_lastAdaptationTime := now\<rparr>)"

definition UpdateNetworkConditions :: "time_point \<Rightarrow> flt \<Rightarrow> flt \<Rightarrow> SmartBatching \<Rightarrow> SmartBatching" where
  "UpdateNetworkConditions now congestionLevel latency s =
     (let s1 = s\<lparr>sb_networkCongestion := congestionLevel, sb_networkLatency := latency\<rparr>
      in if sb_adaptiveBatchingEnabled s1 then AdjustBatchingParameters now s1 else s1)"

definition SB_GetStats :: "SmartBatching \<Rightarrow> BatchStats" where
  "SB_GetStats s = sb_stats s"

definition SB_ResetStats :: "SmartBatching \<Rightarrow> SmartBatching" where
  "SB_ResetStats s = s\<lparr>sb_stats := BatchStats_Reset\<rparr>"

definition SetBatchReadyCallback :: "bool \<Rightarrow> SmartBatching \<Rightarrow> SmartBatching" where
  "SetBatchReadyCallback f s = s\<lparr>sb_batchReadyCallback := f\<rparr>"

definition SetBatchDroppedCallback :: "bool \<Rightarrow> SmartBatching \<Rightarrow> SmartBatching" where
  "SetBatchDroppedCallback f s = s\<lparr>sb_batchDroppedCallback := f\<rparr>"

end
