(* ===== verification/BatchCodec.thy ===== *)
theory BatchCodec
  imports Batching
begin

text \<open>
  The rest of \<open>SmartBatching.cpp\<close>: \<open>BatchProcessor\<close>, which puts the messages of a batch into bytes
  and back, removes duplicates and sorts, and the helper functions \<open>BatchUtils\<close>.  \<open>std::sort\<close> leaves
  the order of equals open, so a sort is a predicate on the argument and the result.
\<close>

section \<open>The processor\<close>

record BatchProcessor =
  bp_initialized :: bool
  bp_compressionEnabled :: bool
  bp_deduplicationEnabled :: bool
  bp_optimizationEnabled :: bool

definition BatchProcessor_new :: BatchProcessor where
  "BatchProcessor_new =
     \<lparr>bp_initialized = False, bp_compressionEnabled = True, bp_deduplicationEnabled = True,
      bp_optimizationEnabled = True\<rparr>"

definition BP_Initialize :: "BatchProcessor \<Rightarrow> bool \<times> BatchProcessor" where
  "BP_Initialize p = (if bp_initialized p then (True, p) else (True, p\<lparr>bp_initialized := True\<rparr>))"

definition BP_Shutdown :: "BatchProcessor \<Rightarrow> BatchProcessor" where
  "BP_Shutdown p = (if \<not> bp_initialized p then p else p\<lparr>bp_initialized := False\<rparr>)"

definition BP_SetCompressionEnabled :: "bool \<Rightarrow> BatchProcessor \<Rightarrow> BatchProcessor" where
  "BP_SetCompressionEnabled enabled p = p\<lparr>bp_compressionEnabled := enabled\<rparr>"

definition SetDeduplicationEnabled :: "bool \<Rightarrow> BatchProcessor \<Rightarrow> BatchProcessor" where
  "SetDeduplicationEnabled enabled p = p\<lparr>bp_deduplicationEnabled := enabled\<rparr>"

definition SetOptimizationEnabled :: "bool \<Rightarrow> BatchProcessor \<Rightarrow> BatchProcessor" where
  "SetOptimizationEnabled enabled p = p\<lparr>bp_optimizationEnabled := enabled\<rparr>"

section \<open>Messages as bytes\<close>

definition enc_message :: "PrioritizedMessage \<Rightarrow> u8 list" where
  "enc_message m = le32 (pm_messageId m) @ le32 (pm_type m) @ le32 (of_nat (length (pm_data m))) @ pm_data m"

definition SerializeMessages :: "PrioritizedMessage list \<Rightarrow> u8 list" where
  "SerializeMessages messages = le32 (of_nat (length messages)) @ concat (map enc_message messages)"

text \<open>What of a message goes over the wire; the rest has its default value after reading.\<close>

definition wire_view :: "PriorityTypes \<Rightarrow> PrioritizedMessage \<Rightarrow> PrioritizedMessage" where
  "wire_view T m =
     (PrioritizedMessage_new T)\<lparr>pm_messageId := pm_messageId m, pm_type := pm_type m, pm_data := pm_data m\<rparr>"

text \<open>One pass of the loop, on the bytes from the offset on; \<open>None\<close> is the \<open>break\<close>.\<close>

definition dec_message :: "PriorityTypes \<Rightarrow> u8 list \<Rightarrow> (PrioritizedMessage \<times> u8 list) option" where
  "dec_message T bs =
     (if length bs < 12 then None
      else
        let dataSize = unat (read_le32 (drop 8 bs)); rest = drop 12 bs
        in if length rest < dataSize then None
           else Some ((PrioritizedMessage_new T)\<lparr>pm_messageId := read_le32 bs, pm_type := read_le32 (drop 4 bs),
                        pm_data := take dataSize rest\<rparr>, drop dataSize rest))"

definition DeserializeMessages :: "PriorityTypes \<Rightarrow> u8 list \<Rightarrow> PrioritizedMessage list" where
  "DeserializeMessages T bytes =
     (if length bytes < 4 then []
      else parse_all (unat (read_le32 bytes)) (dec_message T) (drop 4 bytes))"

section \<open>Duplicates and order\<close>

definition AreMessagesSimilar :: "PrioritizedMessage \<Rightarrow> PrioritizedMessage \<Rightarrow> bool" where
  "AreMessagesSimilar a b \<longleftrightarrow>
     pm_type a = pm_type b \<and> length (pm_data a) = length (pm_data b) \<and> pm_data a = pm_data b"

definition MergeSimilarMessages :: "PrioritizedMessage \<Rightarrow> PrioritizedMessage \<Rightarrow> PrioritizedMessage" where
  "MergeSimilarMessages a b = a"

definition by_priority_and_type :: "PrioritizedMessage \<Rightarrow> PrioritizedMessage \<Rightarrow> bool" where
  "by_priority_and_type a b \<longleftrightarrow>
     (if pm_priority a \<noteq> pm_priority b then priority_code (pm_priority a) < priority_code (pm_priority b)
      else pm_type a < pm_type b)"

definition OptimizeBatch :: "BatchProcessor \<Rightarrow> PrioritizedMessage list \<Rightarrow> PrioritizedMessage list \<Rightarrow> bool" where
  "OptimizeBatch p messages result \<longleftrightarrow>
     (if bp_optimizationEnabled p then sorts_to by_priority_and_type messages result else result = messages)"

definition dedup_step :: "PrioritizedMessage \<Rightarrow> u32 list \<times> PrioritizedMessage list \<Rightarrow> u32 list \<times> PrioritizedMessage list" where
  "dedup_step m acc =
     (case acc of (seen, out) \<Rightarrow>
        if pm_messageId m \<in> set seen then (seen, out) else (pm_messageId m # seen, out @ [m]))"

definition DeduplicateMessages :: "BatchProcessor \<Rightarrow> PrioritizedMessage list \<Rightarrow> PrioritizedMessage list" where
  "DeduplicateMessages p messages =
     (if \<not> bp_deduplicationEnabled p then messages else snd (fold dedup_step messages ([], [])))"

text \<open>The inner loop: the first similar message absorbs the new one, otherwise it is appended.\<close>

fun absorb :: "PrioritizedMessage \<Rightarrow> PrioritizedMessage list \<Rightarrow> PrioritizedMessage list" where
  "absorb m [] = [m]"
| "absorb m (c # cs) = (if AreMessagesSimilar m c then MergeSimilarMessages c m # cs else c # absorb m cs)"

definition CompressSimilarMessages :: "BatchProcessor \<Rightarrow> PrioritizedMessage list \<Rightarrow> PrioritizedMessage list" where
  "CompressSimilarMessages p messages =
     (if \<not> bp_optimizationEnabled p then messages else fold absorb messages [])"

definition ProcessMovementBatch :: "BatchProcessor \<Rightarrow> PrioritizedMessage list \<Rightarrow> u8 list \<Rightarrow> bool" where
  "ProcessMovementBatch p messages bytes \<longleftrightarrow>
     (if bp_optimizationEnabled p
      then (\<exists>sorted_messages. OptimizeBatch p messages sorted_messages \<and> bytes = SerializeMessages sorted_messages)
      else bytes = SerializeMessages messages)"

definition ProcessCombatBatch :: "PrioritizedMessage list \<Rightarrow> u8 list" where
  "ProcessCombatBatch messages = SerializeMessages messages"

definition ProcessInventoryBatch :: "BatchProcessor \<Rightarrow> PrioritizedMessage list \<Rightarrow> u8 list" where
  "ProcessInventoryBatch p messages =
     SerializeMessages (if bp_deduplicationEnabled p then DeduplicateMessages p messages else messages)"

definition ProcessEffectBatch :: "BatchProcessor \<Rightarrow> PrioritizedMessage list \<Rightarrow> u8 list" where
  "ProcessEffectBatch p messages =
     SerializeMessages (if bp_optimizationEnabled p then CompressSimilarMessages p messages else messages)"

definition ProcessGenericBatch :: "PrioritizedMessage list \<Rightarrow> u8 list" where
  "ProcessGenericBatch messages = SerializeMessages messages"

section \<open>Utilities\<close>

definition CreateEmptyBatch :: "time_point \<Rightarrow> BatchedMessage" where
  "CreateEmptyBatch now =
     \<lparr>bm_batchId = 0, bm_messages = [], bm_timestamp = now, bm_totalSize = 0, bm_highestPriority = Background,
      bm_highestUrgency = Batch, bm_isCompressed = False\<rparr>"

definition CreateBatchFromMessages :: "time_point \<Rightarrow> PrioritizedMessage list \<Rightarrow> BatchedMessage" where
  "CreateBatchFromMessages now messages = UpdateBatchMetadata ((CreateEmptyBatch now)\<lparr>bm_messages := messages\<rparr>)"

definition CalculateBatchEfficiency :: "BatchedMessage \<Rightarrow> flt" where
  "CalculateBatchEfficiency batch =
     (if bm_messages batch = [] then Fin 0
      else mul32 (if bm_isCompressed batch then rnd32 (1 / 2) else Fin 1)
             (f_min (div32 (f32_of_nat (length (bm_messages batch))) (Fin 10)) (Fin 1)))"

definition CalculateBatchSize :: "BatchedMessage \<Rightarrow> u64" where
  "CalculateBatchSize batch = bm_totalSize batch"

definition by_priority_urgency_type :: "PrioritizedMessage \<Rightarrow> PrioritizedMessage \<Rightarrow> bool" where
  "by_priority_urgency_type a b \<longleftrightarrow>
     (if pm_priority a \<noteq> pm_priority b then priority_code (pm_priority a) < priority_code (pm_priority b)
      else if pm_urgency a \<noteq> pm_urgency b then urgency_code (pm_urgency a) < urgency_code (pm_urgency b)
      else pm_type a < pm_type b)"

definition SortMessagesForBatching :: "PrioritizedMessage list \<Rightarrow> PrioritizedMessage list \<Rightarrow> bool" where
  "SortMessagesForBatching = sorts_to by_priority_urgency_type"

definition FilterMessagesForBatching :: "PrioritizedMessage list \<Rightarrow> PrioritizedMessage list" where
  "FilterMessagesForBatching messages = filter (\<lambda>m. pm_urgency m \<noteq> Immediate) messages"

definition ValidateBatch :: "BatchedMessage \<Rightarrow> bool" where
  "ValidateBatch batch \<longleftrightarrow> bm_messages batch \<noteq> [] \<and> 0 < bm_totalSize batch"

definition IsBatchComplete :: "BatchedMessage \<Rightarrow> bool" where
  "IsBatchComplete batch \<longleftrightarrow> bm_messages batch \<noteq> []"

definition IsBatchExpired :: "time_point \<Rightarrow> BatchedMessage \<Rightarrow> flt \<Rightarrow> bool" where
  "IsBatchExpired now batch maxAge \<longleftrightarrow> f_lt maxAge (batch_age now batch)"

section \<open>The codec\<close>

definition on_wire :: "PriorityTypes \<Rightarrow> PrioritizedMessage \<Rightarrow> bool" where
  "on_wire T m \<longleftrightarrow> wire_view T m = m \<and> length (pm_data m) < 2 ^ 32"

lemma enc_wire_view [simp]: "enc_message (wire_view T m) = enc_message m" "wire_view T (wire_view T m) = wire_view T m"
  by (simp_all add: enc_message_def wire_view_def)

lemma drop_le32_8: "drop 8 (le32 a @ le32 b @ xs) = xs" "drop 12 (le32 a @ le32 b @ le32 c @ xs) = xs"
  by (simp_all add: le32_def)

lemma unat_length: "length xs < 2 ^ 32 \<Longrightarrow> unat (of_nat (length xs) :: u32) = length xs"
  by (simp add: unat_of_nat)

lemma dec_enc_message:
  assumes "length (pm_data m) < 2 ^ 32"
  shows "dec_message T (enc_message m @ rest) = Some (wire_view T m, rest)"
  using assms
  by (simp add: dec_message_def enc_message_def wire_view_def drop_le32_8 unat_length Let_def)

lemma length_enc_message [simp]: "length (enc_message m) = 12 + length (pm_data m)"
  by (simp add: enc_message_def)

interpretation wire: stream_codec enc_message "dec_message T" "on_wire T" for T
proof
  fix x rest assume "on_wire T x"
  then show "dec_message T (enc_message x @ rest) = Some (x, rest)" by (simp add: on_wire_def dec_enc_message)
  show "enc_message x \<noteq> []" using length_enc_message [of x] by (metis add_is_0 list.size(3) zero_neq_numeral)
qed

text \<open>A message cut off anywhere is not read at all.\<close>

lemma dec_cut_message:
  assumes "length (pm_data m) < 2 ^ 32" "k < length (enc_message m)"
  shows "dec_message T (take k (enc_message m)) = None"
proof (cases "k < 12")
  case False
  then have "take k (enc_message m) =
      le32 (pm_messageId m) @ le32 (pm_type m) @ le32 (of_nat (length (pm_data m))) @ take (k - 12) (pm_data m)"
    by (simp add: enc_message_def take_append)
  then show ?thesis using assms False by (simp add: dec_message_def drop_le32_8 unat_length Let_def)
qed (simp add: dec_message_def)

lemma parse_prefix:
  "\<forall>m \<in> set ms. length (pm_data m) < 2 ^ 32 \<Longrightarrow> length ms \<le> n \<Longrightarrow>
     \<exists>j. parse_all n (dec_message T) (take k (concat (map enc_message ms))) = map (wire_view T) (take j ms)
         \<and> (length (concat (map enc_message ms)) \<le> k \<longrightarrow> j = length ms)"
proof (induction ms arbitrary: n k)
  case Nil
  then show ?case by (cases n) auto
next
  case (Cons m ms)
  then obtain n' where n: "n = Suc n'" by (cases n) auto
  let ?rest = "concat (map enc_message ms)"
  show ?case
  proof (cases "k < length (enc_message m)")
    case True
    then have "dec_message T (take k (enc_message m @ ?rest)) = None" using Cons.prems by (simp add: dec_cut_message)
    then show ?thesis using True n by (intro exI [of _ 0]) auto
  next
    case False
    obtain j where j: "parse_all n' (dec_message T) (take (k - length (enc_message m)) ?rest) = map (wire_view T) (take j ms)"
      "length ?rest \<le> k - length (enc_message m) \<longrightarrow> j = length ms"
      using Cons.IH [of n' "k - length (enc_message m)"] Cons.prems n by auto
    have e: "take k (enc_message m @ ?rest) = enc_message m @ take (k - length (enc_message m)) ?rest"
      using False by simp
    have "enc_message m \<noteq> []" using length_enc_message [of m] by (metis add_is_0 list.size(3) zero_neq_numeral)
    then show ?thesis
      using j Cons.prems n False unfolding list.map concat.simps e
      by (intro exI [of _ "Suc j"]) (auto simp: dec_enc_message)
  qed
qed

end
