(* ===== verification/BatchProps.thy ===== *)
theory BatchProps
  imports BatchCodec
begin

text \<open>
  Properties of batching: messages survive the way into bytes and back, grouping equals filtering by
  key, a batch by size is the longest prefix within the limits, and with compression off no message
  is lost or duplicated between the queue, the batches waiting, those handed out and those dropped.
\<close>

section \<open>Messages on the wire\<close>

text \<open>
  What \<open>SerializeMessages\<close> writes, \<open>DeserializeMessages\<close> reads back: identifiers, types and data
  of all messages in order, the other members with their default values.  When the bytes are cut off
  anywhere behind the count, the messages read are a prefix of those written: nothing is made up and
  no byte outside the buffer is read.
\<close>

lemma wire_round_trip:
  assumes "\<forall>m \<in> set ms. length (pm_data m) < 2 ^ 32" "length ms < 2 ^ 32" "4 \<le> k"
  shows "DeserializeMessages T (SerializeMessages ms) = map (wire_view T) ms
     \<and> (\<exists>j. DeserializeMessages T (take k (SerializeMessages ms)) = map (wire_view T) (take j ms))"
proof -
  let ?body = "concat (map enc_message ms)"
  have r: "DeserializeMessages T (take i (SerializeMessages ms)) = parse_all (length ms) (dec_message T) (take (i - 4) ?body)"
    if "4 \<le> i" for i
  proof -
    have "take i (SerializeMessages ms) = le32 (of_nat (length ms)) @ take (i - 4) ?body"
      using that by (simp add: SerializeMessages_def)
    then show ?thesis by (simp add: DeserializeMessages_def unat_length [OF assms(2)])
  qed
  have l: "4 \<le> length (SerializeMessages ms)" by (simp add: SerializeMessages_def)
  obtain j where "parse_all (length ms) (dec_message T) (take (length (SerializeMessages ms) - 4) ?body) = map (wire_view T) (take j ms)"
    "length ?body \<le> length (SerializeMessages ms) - 4 \<longrightarrow> j = length ms"
    using parse_prefix [OF assms(1), where n = "length ms"] by blast
  with r [OF l] have "DeserializeMessages T (SerializeMessages ms) = map (wire_view T) ms"
    by (simp add: SerializeMessages_def)
  moreover have "\<exists>j. DeserializeMessages T (take k (SerializeMessages ms)) = map (wire_view T) (take j ms)"
    using r [OF assms(3)] parse_prefix [OF assms(1), where n = "length ms" and k = "k - 4" and T = T] by auto
  ultimately show ?thesis ..
qed

definition demo_types :: PriorityTypes where
  "demo_types = \<lparr>combatTypes = [14], movementTypes = [12], inventoryTypes = [], effectTypes = [], invalidType = 0\<rparr>"

definition demo_message :: "u32 \<Rightarrow> MessagePriority \<Rightarrow> u8 list \<Rightarrow> PrioritizedMessage" where
  "demo_message k p bytes =
     (PrioritizedMessage_new demo_types)\<lparr>pm_messageId := k, pm_type := 12, pm_data := bytes,
       pm_classification := MessageClassification_new\<lparr>mc_priority := p\<rparr>\<rparr>"

lemma wire_round_trip_witness:
  "map pm_data (DeserializeMessages demo_types (SerializeMessages [demo_message 1 Low [7, 8], demo_message 2 Critical []])) = [[7, 8], []]"
proof -
  let ?ms = "[demo_message 1 Low [7, 8], demo_message 2 Critical []]"
  have "\<forall>m \<in> set ?ms. length (pm_data m) < 2 ^ 32" "length ?ms < 2 ^ 32" by (simp_all add: demo_message_def)
  from wire_round_trip [OF this, of 4 demo_types] show ?thesis by (simp add: demo_message_def wire_view_def)
qed

section \<open>Groups\<close>

definition groups_of :: "('a \<Rightarrow> 'k::linorder) \<Rightarrow> 'a list \<Rightarrow> ('k, 'a list) omap" where
  "groups_of key xs = fold (\<lambda>x g. om_put (key x) (om_get [] g (key x) @ [x]) g) xs []"

lemma groups_of:
  "om_sorted (groups_of key xs)
   \<and> (\<forall>k. om_find (groups_of key xs) k = (if k \<in> key ` set xs then Some (filter (\<lambda>x. key x = k) xs) else None))"
proof (induction xs rule: rev_induct)
  case Nil
  then show ?case by (simp add: groups_of_def)
next
  case (snoc x xs)
  have s: "groups_of key (xs @ [x]) = om_put (key x) (om_get [] (groups_of key xs) (key x) @ [x]) (groups_of key xs)"
    by (simp add: groups_of_def)
  have "filter (\<lambda>y. key y = key x) xs = []" if "key x \<notin> key ` set xs"
    using that by (auto simp: filter_empty_conv) (metis imageI)
  with snoc show ?case unfolding s by (auto simp: om_get_def)
qed

text \<open>Grouping equals filtering by every key that occurs, in the order of the keys.\<close>

lemma group_by_filter:
  "group_by key xs = map (\<lambda>k. filter (\<lambda>x. key x = k) xs) (sorted_list_of_set (key ` set xs))"
proof -
  let ?g = "groups_of key xs"
  note g = groups_of [of key xs]
  have keys: "om_keys ?g = sorted_list_of_set (key ` set xs)"
  proof (rule sorted_list_of_set_unique [THEN iffD1, symmetric])
    have "set (om_keys ?g) = key ` set xs"
    proof -
      have "set (om_keys ?g) = {k. om_find ?g k \<noteq> None}" by (auto simp: om_keys_def om_find_None_iff)
      with g show ?thesis by auto
    qed
    then show "sorted_wrt (<) (om_keys ?g) \<and> set (om_keys ?g) = key ` set xs \<and> length (om_keys ?g) = card (key ` set xs)"
      using g om_sorted_distinct [of ?g] distinct_card [of "om_keys ?g"] by (auto simp: om_sorted_def om_keys_def)
  qed simp
  have "om_values ?g = map (\<lambda>k. the (om_find ?g k)) (om_keys ?g)"
    using g by (auto simp: om_values_def om_keys_def om_find_Some_iff [symmetric] intro!: map_cong) 
  also have "\<dots> = map (\<lambda>k. filter (\<lambda>x. key x = k) xs) (om_keys ?g)"
    unfolding keys using g by auto
  finally show ?thesis unfolding keys by (simp add: group_by_def groups_of_def)
qed

lemma mset_group_by: "mset (concat (group_by key xs)) = mset xs"
proof -
  have "mset (concat (map (\<lambda>k. filter (\<lambda>x. key x = k) xs) ks)) = mset (filter (\<lambda>x. key x \<in> set ks) xs)"
    if "distinct ks" for ks
    using that
  proof (induction ks)
    case (Cons k ks)
    have "mset (filter (\<lambda>x. key x \<in> set (k # ks)) xs)
        = mset (filter (\<lambda>x. key x = k) xs) + mset (filter (\<lambda>x. key x \<in> set ks) xs)"
      using Cons.prems by (induction xs) auto
    with Cons show ?case by simp
  qed simp
  from this [of "sorted_list_of_set (key ` set xs)"] show ?thesis by (simp add: group_by_filter)
qed

text \<open>
  \<open>GroupByPriority\<close>, \<open>GroupByUrgency\<close> and \<open>GroupByType\<close> return, for every key that occurs and in
  the order of the keys, the messages with that key in their original order.
\<close>

lemma groups_are_filters:
  "GroupByPriority ms = map (\<lambda>p. filter (\<lambda>m. pm_priority m = p) ms) (sorted_list_of_set (pm_priority ` set ms))
   \<and> GroupByUrgency ms = map (\<lambda>u. filter (\<lambda>m. pm_urgency m = u) ms) (sorted_list_of_set (pm_urgency ` set ms))
   \<and> GroupByType ms = map (\<lambda>t. filter (\<lambda>m. pm_type m = t) ms) (sorted_list_of_set (pm_type ` set ms))"
  by (simp add: GroupByPriority_def GroupByUrgency_def GroupByType_def group_by_filter)

section \<open>Batches by size\<close>

definition bytes_of :: "PrioritizedMessage list \<Rightarrow> nat" where
  "bytes_of ms = sum_list (map (\<lambda>m. length (pm_data m)) ms)"

lemma bytes_of_simps [simp]: "bytes_of [] = 0" "bytes_of (m # ms) = length (pm_data m) + bytes_of ms"
  by (simp_all add: bytes_of_def)

lemma take_batch_prefix:
  "unat cur + bytes_of ms < 2 ^ 64 \<Longrightarrow>
     \<exists>j \<le> length ms. take_batch M N cur acc ms = (acc @ take j ms, drop j ms)
       \<and> (0 < j \<longrightarrow> unat cur + bytes_of (take j ms) \<le> unat M \<and> length acc + j \<le> unat N)
       \<and> (j < length ms \<longrightarrow> unat M < unat cur + bytes_of (take (Suc j) ms) \<or> unat N \<le> length acc + j)"
proof (induction M N cur acc ms rule: take_batch.induct)
  case (1 M N cur acc)
  then show ?case by simp
next
  case (2 M N cur acc m ms)
  have u: "unat (cur + data_size m) = unat cur + length (pm_data m)"
    using "2.prems" by (simp add: data_size_def unat_add_no_wrap unat_of_nat)
  show ?case
  proof (cases "cur + data_size m \<le> M \<and> length acc < unat N")
    case True
    then obtain j where j: "j \<le> length ms"
      "take_batch M N (cur + data_size m) (acc @ [m]) ms = ((acc @ [m]) @ take j ms, drop j ms)"
      "0 < j \<longrightarrow> unat cur + length (pm_data m) + bytes_of (take j ms) \<le> unat M \<and> length acc + 1 + j \<le> unat N"
      "j < length ms \<longrightarrow> unat M < unat cur + length (pm_data m) + bytes_of (take (Suc j) ms) \<or> unat N \<le> length acc + 1 + j"
      using "2.IH" "2.prems" u by auto
    have "unat cur + length (pm_data m) \<le> unat M" using True u by (simp add: word_le_nat_alt)
    with j True show ?thesis by (intro exI [of _ "Suc j"]) (auto simp: add.assoc)
  next
    case False
    then show ?thesis using u by (intro exI [of _ 0]) (auto simp: word_le_nat_alt not_le)
  qed
qed

lemma CreateBatch_off:
  "\<not> bc_enableCompression (sb_config s) \<Longrightarrow>
     CreateBatch T now ms s =
       (let batch = \<lparr>bm_batchId = sb_nextBatchId s, bm_messages = ms, bm_timestamp = now,
              bm_totalSize = total_size ms, bm_highestPriority = top_priority ms,
              bm_highestUrgency = top_urgency ms, bm_isCompressed = False\<rparr>
        in (batch, UpdateStatistics batch (s\<lparr>sb_nextBatchId := sb_nextBatchId s + 1\<rparr>)))"
  by (simp add: CreateBatch_def SB_CompressBatch_def Let_def)

text \<open>What \<open>emit\<close> does with compression off.\<close>

lemma emit_off:
  assumes "\<not> bc_enableCompression (sb_config s)"
  shows "\<exists>b. bm_messages b = ms \<and> bm_isCompressed b = False \<and> bm_timestamp b = now
     \<and> sb_readyBatches (emit T now ms s) = sb_readyBatches s @ [b]
     \<and> sb_pendingMessages (emit T now ms s) = sb_pendingMessages s
     \<and> sb_config (emit T now ms s) = sb_config s
     \<and> sb_batchDroppedCallback (emit T now ms s) = sb_batchDroppedCallback s
     \<and> sb_initialized (emit T now ms s) = sb_initialized s
     \<and> (sb_calls (emit T now ms s) = sb_calls s \<or> sb_calls (emit T now ms s) = sb_calls s @ [BatchReady b])"
  by (simp add: emit_def CreateBatch_off [OF assms] Let_def batch_call_def UpdateStatistics_def)

text \<open>
  With compression off, batching by size puts the longest prefix of the waiting messages into
  one batch whose bytes stay within \<open>maxSize\<close> and whose number stays within \<open>maxMessages\<close>; the rest
  keeps waiting in order.  When already the first message is larger than \<open>maxSize\<close> nothing happens,
  however often the batches are processed.
\<close>

lemma size_batch_is_longest_prefix:
  assumes "\<not> bc_enableCompression (sb_config s)" "bytes_of (sb_pendingMessages s) < 2 ^ 64"
    and "t = ProcessSizeBatching T now s" "ps = sb_pendingMessages s"
    and "M = unat (bc_maxSize (sb_config s))" "N = unat (bc_maxMessages (sb_config s))"
  shows "\<exists>j \<le> length ps. sb_pendingMessages t = drop j ps
     \<and> bytes_of (take j ps) \<le> M \<and> j \<le> N
     \<and> (j < length ps \<longrightarrow> M < bytes_of (take (Suc j) ps) \<or> j = N)
     \<and> (if j = 0 then t = s
        else \<exists>b. sb_readyBatches t = sb_readyBatches s @ [b] \<and> bm_messages b = take j ps)"
proof -
  obtain j where j: "j \<le> length ps"
    "take_batch (bc_maxSize (sb_config s)) (bc_maxMessages (sb_config s)) 0 [] ps = (take j ps, drop j ps)"
    "0 < j \<longrightarrow> bytes_of (take j ps) \<le> M \<and> j \<le> N"
    "j < length ps \<longrightarrow> M < bytes_of (take (Suc j) ps) \<or> N \<le> j"
    using take_batch_prefix [of 0 ps "bc_maxSize (sb_config s)" "bc_maxMessages (sb_config s)" "[]"] assms(2,4)
    unfolding assms(5,6) by auto
  have t: "t = (if take j ps = [] then s\<lparr>sb_pendingMessages := drop j ps\<rparr>
      else emit T now (take j ps) (s\<lparr>sb_pendingMessages := drop j ps\<rparr>))"
    using j(2) assms(3,4) by (simp add: ProcessSizeBatching_def Let_def)
  show ?thesis
  proof (cases "take j ps = []")
    case True
    then have "j = 0 \<or> ps = []" by simp
    then have "t = s" "drop j ps = ps" using t True assms(4) by auto
    with j \<open>j = 0 \<or> ps = []\<close> assms(4) show ?thesis by (intro exI [of _ 0]) auto
  next
    case False
    then have pos: "0 < j" by auto
    obtain b where "bm_messages b = take j ps" "sb_readyBatches t = sb_readyBatches s @ [b]" "sb_pendingMessages t = drop j ps"
      using emit_off [of "s\<lparr>sb_pendingMessages := drop j ps\<rparr>" "take j ps" now T] assms(1) t False by auto
    with j pos show ?thesis by (intro exI [of _ j]) auto
  qed
qed

definition demo_batching :: "BatchType \<Rightarrow> SmartBatching" where
  "demo_batching ty =
     (SmartBatching_new 0 DataCompression_new)\<lparr>sb_initialized := True, sb_batchDroppedCallback := True,
        sb_config := BatchConfig_new\<lparr>bc_type := ty, bc_maxSize := 4, bc_enableCompression := False\<rparr>\<rparr>"

lemma size_batch_is_longest_prefix_witness:
  "let s = (demo_batching SizeBatch)\<lparr>sb_pendingMessages := [demo_message 1 Low [1, 2, 3], demo_message 2 Low [4, 5]]\<rparr>
   in map pm_messageId (sb_pendingMessages (ProcessSizeBatching demo_types 0 s)) = [2]"
proof -
  let ?s = "(demo_batching SizeBatch)\<lparr>sb_pendingMessages := [demo_message 1 Low [1, 2, 3], demo_message 2 Low [4, 5]]\<rparr>"
  have "\<not> bc_enableCompression (sb_config ?s)" "bytes_of (sb_pendingMessages ?s) < 2 ^ 64"
    by (simp_all add: demo_batching_def demo_message_def)
  note result = size_batch_is_longest_prefix [OF this refl refl refl refl, of demo_types 0]
  have c: "sb_pendingMessages ?s = [demo_message 1 Low [1, 2, 3], demo_message 2 Low [4, 5]]"
    "unat (bc_maxSize (sb_config ?s)) = 4" "unat (bc_maxMessages (sb_config ?s)) = 50"
    by (simp_all add: demo_batching_def BatchConfig_new_def)
  obtain j where j: "j \<le> 2" "sb_pendingMessages (ProcessSizeBatching demo_types 0 ?s) = drop j (sb_pendingMessages ?s)"
    "bytes_of (take j (sb_pendingMessages ?s)) \<le> 4"
    "j < 2 \<longrightarrow> 4 < bytes_of (take (Suc j) (sb_pendingMessages ?s)) \<or> j = 50"
    using result unfolding c by (elim exE conjE) (simp add: numeral_2_eq_2)
  have "j = 1"
    using j(1,3,4) unfolding c by (cases "j = 0"; cases "j = 2") (auto simp: demo_message_def)
  with j(2) c(1) show ?thesis by (simp add: Let_def demo_message_def)
qed

section \<open>Where the messages are\<close>

definition msgs_of :: "BatchedMessage list \<Rightarrow> PrioritizedMessage list" where
  "msgs_of bs = concat (map bm_messages bs)"

lemma msgs_of_simps [simp]:
  "msgs_of [] = []" "msgs_of (b # bs) = bm_messages b @ msgs_of bs" "msgs_of (bs @ cs) = msgs_of bs @ msgs_of cs"
  by (simp_all add: msgs_of_def)

fun dropped_in :: "BatchCall list \<Rightarrow> BatchedMessage list" where
  "dropped_in [] = []"
| "dropped_in (BatchDropped b # cs) = b # dropped_in cs"
| "dropped_in (BatchReady b # cs) = dropped_in cs"

lemma dropped_in_append [simp]: "dropped_in (cs @ ds) = dropped_in cs @ dropped_in ds"
  by (induction cs rule: dropped_in.induct) auto

text \<open>In batches: those waiting and those reported as dropped.\<close>

definition booked :: "SmartBatching \<Rightarrow> PrioritizedMessage multiset" where
  "booked s = mset (msgs_of (sb_readyBatches s)) + mset (msgs_of (dropped_in (sb_calls s)))"

definition accounted :: "SmartBatching \<Rightarrow> PrioritizedMessage multiset" where
  "accounted s = mset (sb_pendingMessages s) + booked s"

text \<open>Compression is off and dropped batches are reported.\<close>

definition plain_mode :: "SmartBatching \<Rightarrow> bool" where
  "plain_mode s \<longleftrightarrow> \<not> bc_enableCompression (sb_config s) \<and> sb_batchDroppedCallback s"

lemma booked_writes [simp]:
  "booked (s\<lparr>sb_pendingMessages := ps\<rparr>) = booked s"
  "booked (s\<lparr>sb_accumulatedTime := a\<rparr>) = booked s"
  "booked (s\<lparr>sb_accumulatedTime := a, sb_lastBatchTime := b\<rparr>) = booked s"
  "plain_mode (s\<lparr>sb_pendingMessages := ps\<rparr>) = plain_mode s"
  "plain_mode (s\<lparr>sb_accumulatedTime := a\<rparr>) = plain_mode s"
  "plain_mode (s\<lparr>sb_accumulatedTime := a, sb_lastBatchTime := b\<rparr>) = plain_mode s"
  by (simp_all add: booked_def plain_mode_def)

lemma emit_books:
  assumes "plain_mode s"
  shows "booked (emit T now ms s) = booked s + mset ms" "plain_mode (emit T now ms s)"
    "sb_pendingMessages (emit T now ms s) = sb_pendingMessages s"
  using emit_off [of s ms now T] assms by (auto simp: plain_mode_def booked_def)

lemma interval_books:
  assumes "plain_mode s"
  shows "accounted (ProcessIntervalBatching T now s) = accounted s \<and> plain_mode (ProcessIntervalBatching T now s)"
  using assms emit_books [OF assms] by (auto simp: ProcessIntervalBatching_def accounted_def Let_def)

lemma take_batch_split: "take_batch M N cur acc ms = (b, rest) \<Longrightarrow> acc @ ms = b @ rest"
  by (induction M N cur acc ms rule: take_batch.induct) (auto split: if_splits)

lemma size_books:
  assumes "plain_mode s"
  shows "accounted (ProcessSizeBatching T now s) = accounted s \<and> plain_mode (ProcessSizeBatching T now s)"
proof -
  obtain b rest where t: "take_batch (bc_maxSize (sb_config s)) (bc_maxMessages (sb_config s)) 0 [] (sb_pendingMessages s) = (b, rest)"
    by force
  then have "sb_pendingMessages s = b @ rest" using take_batch_split by fastforce
  with t emit_books [of "s\<lparr>sb_pendingMessages := rest\<rparr>" T now b] assms show ?thesis
    by (auto simp: ProcessSizeBatching_def accounted_def Let_def)
qed

lemma emit_groups_books:
  "plain_mode s \<Longrightarrow>
     booked (fold (\<lambda>g s. if g = [] then s else emit T now g s) gs s) = booked s + mset (concat gs)
     \<and> plain_mode (fold (\<lambda>g s. if g = [] then s else emit T now g s) gs s)"
  by (induction gs arbitrary: s) (auto simp: emit_books)

lemma priority_books:
  assumes "plain_mode s"
  shows "accounted (ProcessPriorityBatching T now s) = accounted s \<and> plain_mode (ProcessPriorityBatching T now s)"
  using emit_groups_books [OF assms, of T now "GroupByPriority (sb_pendingMessages s)"] assms mset_group_by [of pm_priority]
  by (auto simp: ProcessPriorityBatching_def accounted_def GroupByPriority_def)

lemma mixed_books:
  assumes "plain_mode s"
  shows "accounted (ProcessMixedBatching T now s) = accounted s \<and> plain_mode (ProcessMixedBatching T now s)"
  using size_books [OF assms] assms by (auto simp: ProcessMixedBatching_def accounted_def)

lemma msgs_partition: "mset (msgs_of (filter P bs)) + mset (msgs_of (filter (\<lambda>b. \<not> P b) bs)) = mset (msgs_of bs)"
  by (induction bs) auto

lemma drop_books:
  "plain_mode s \<Longrightarrow>
     sb_calls (fold drop_batch bs s) = sb_calls s @ map BatchDropped bs \<and> plain_mode (fold drop_batch bs s)
     \<and> sb_pendingMessages (fold drop_batch bs s) = sb_pendingMessages s"
  by (induction bs arbitrary: s) (auto simp: drop_batch_def batch_call_def plain_mode_def)

lemma dropped_in_map [simp]: "dropped_in (map BatchDropped bs) = bs"
  by (induction bs) auto

lemma cleanup_books:
  assumes "plain_mode s"
  shows "accounted (CleanupExpiredBatches now s) = accounted s \<and> plain_mode (CleanupExpiredBatches now s)"
  using drop_books [OF assms] msgs_partition [of "still_valid now s" "sb_readyBatches s"]
  by (auto simp: CleanupExpiredBatches_def accounted_def booked_def plain_mode_def)

lemma process_books:
  assumes "plain_mode s"
  shows "accounted (ProcessBatches T now dt s) = accounted s \<and> plain_mode (ProcessBatches T now dt s)"
proof -
  let ?s = "s\<lparr>sb_accumulatedTime := add32 (sb_accumulatedTime s) dt\<rparr>"
  have "plain_mode ?s" "accounted ?s = accounted s" using assms by (simp_all add: accounted_def)
  with interval_books size_books priority_books mixed_books cleanup_books assms show ?thesis
    by (simp add: ProcessBatches_def Let_def split: BatchType.split)
qed

lemma flush_books:
  assumes "plain_mode s"
  shows "accounted (ForceFlush T now s) = accounted s \<and> plain_mode (ForceFlush T now s)"
  using assms
  by (auto simp: ForceFlush_def plain_mode_def accounted_def booked_def CreateBatch_off Let_def batch_call_def UpdateStatistics_def)

lemma add_books:
  assumes "plain_mode s"
  shows "accounted (SB_AddMessage T now m s) = mset (if sb_initialized s then [m] else []) + accounted s
    \<and> plain_mode (SB_AddMessage T now m s)"
proof -
  let ?s = "s\<lparr>sb_pendingMessages := sb_pendingMessages s @ [m]\<rparr>"
  have "plain_mode ?s" "accounted ?s = add_mset m (accounted s)" using assms by (simp_all add: accounted_def)
  with process_books [of ?s] assms show ?thesis by (simp add: SB_AddMessage_def Let_def plain_mode_def)
qed

lemma adjust_books:
  assumes "plain_mode s"
  shows "accounted (AdjustBatchingParameters now s) = accounted s \<and> plain_mode (AdjustBatchingParameters now s)"
  using assms
  by (simp add: AdjustBatchingParameters_def CalculateOptimalInterval_def Let_def
      AdjustIntervalBasedOnLatency_def AdjustIntervalBasedOnCongestion_def scale_interval_def
      plain_mode_def accounted_def booked_def)

lemma adapt_books:
  assumes "plain_mode s"
  shows "accounted (UpdateNetworkConditions now c l s) = accounted s \<and> plain_mode (UpdateNetworkConditions now c l s)"
proof -
  let ?s = "s\<lparr>sb_networkCongestion := c, sb_networkLatency := l\<rparr>"
  have "plain_mode ?s" "accounted ?s = accounted s" using assms by (simp_all add: plain_mode_def accounted_def booked_def)
  with adjust_books [of ?s now] show ?thesis by (simp add: UpdateNetworkConditions_def Let_def)
qed

text \<open>The messages that clearing takes away: those waiting and those in ready batches.\<close>

definition held :: "SmartBatching \<Rightarrow> PrioritizedMessage list" where
  "held s = sb_pendingMessages s @ msgs_of (sb_readyBatches s)"

lemma clear_books:
  assumes "plain_mode s"
  shows "accounted (ClearBatches s) + mset (held s) = accounted s \<and> plain_mode (ClearBatches s)"
  using assms by (simp add: ClearBatches_def accounted_def booked_def held_def plain_mode_def)

text \<open>\<open>Shutdown\<close> flushes the waiting messages into a ready batch and then clears that too.\<close>

lemma flush_held:
  assumes "plain_mode s"
  shows "mset (held (ForceFlush T now s)) = mset (held s)"
  using assms
  by (auto simp: ForceFlush_def plain_mode_def held_def CreateBatch_off Let_def batch_call_def UpdateStatistics_def)

lemma shutdown_books:
  assumes "plain_mode s"
  shows "accounted (SB_Shutdown T now s) + mset (if sb_initialized s then held s else []) = accounted s
    \<and> plain_mode (SB_Shutdown T now s)"
proof -
  let ?f = "ForceFlush T now s"
  have f: "accounted ?f = accounted s" "plain_mode ?f" using flush_books [OF assms, of T now] by simp_all
  have c: "accounted (u\<lparr>sb_initialized := b\<rparr>) = accounted u" "plain_mode (u\<lparr>sb_initialized := b\<rparr>) = plain_mode u" for u b
    by (simp_all add: accounted_def booked_def plain_mode_def)
  have "(ClearBatches ?f)\<lparr>sb_pendingMessages := [], sb_initialized := False\<rparr> = (ClearBatches ?f)\<lparr>sb_initialized := False\<rparr>"
    by (simp add: ClearBatches_def)
  with clear_books [OF f(2)] f(1) flush_held [OF assms, of T now] assms show ?thesis
    by (simp add: SB_Shutdown_def c)
qed

section \<open>Operations\<close>

datatype BatchOp =
    BInitialize BatchConfig
  | BShutdown time_point
  | BAdd time_point PrioritizedMessage
  | BGet
  | BProcess time_point flt
  | BFlush time_point
  | BClear
  | BConfig BatchConfig
  | BType BatchType
  | BInterval flt
  | BMaxSize u64
  | BMaxMessages u64
  | BAdaptive bool
  | BNetwork time_point flt flt
  | BAdjust time_point
  | BResetStats
  | BReadyCallback bool
  | BDroppedCallback bool

text \<open>
  The state, the messages the system accepted (while it is not initialised \<open>AddMessage\<close> does nothing), the
  batches it has handed out, and the messages \<open>ClearBatches\<close> and \<open>Shutdown\<close> have taken away.
\<close>

type_synonym batch_ledger = "SmartBatching \<times> PrioritizedMessage list \<times> BatchedMessage list \<times> PrioritizedMessage list"

fun batch_step :: "PriorityTypes \<Rightarrow> BatchOp \<Rightarrow> batch_ledger \<Rightarrow> batch_ledger option" where
  "batch_step T (BInitialize c) (s, given, out, gone) = Some (snd (SB_Initialize c s), given, out, gone)"
| "batch_step T (BShutdown now) (s, given, out, gone) =
     Some (SB_Shutdown T now s, given, out, gone @ (if sb_initialized s then held s else []))"
| "batch_step T (BAdd now m) (s, given, out, gone) =
     Some (SB_AddMessage T now m s, given @ (if sb_initialized s then [m] else []), out, gone)"
| "batch_step T BGet (s, given, out, gone) = Some (snd (GetReadyBatches s), given, out @ fst (GetReadyBatches s), gone)"
| "batch_step T (BProcess now dt) (s, given, out, gone) = Some (ProcessBatches T now dt s, given, out, gone)"
| "batch_step T (BFlush now) (s, given, out, gone) = Some (ForceFlush T now s, given, out, gone)"
| "batch_step T BClear (s, given, out, gone) = Some (ClearBatches s, given, out, gone @ held s)"
| "batch_step T (BConfig c) (s, given, out, gone) = Some (SB_SetConfig c s, given, out, gone)"
| "batch_step T (BType ty) (s, given, out, gone) = Some (SetBatchType ty s, given, out, gone)"
| "batch_step T (BInterval i) (s, given, out, gone) = Some (SetInterval i s, given, out, gone)"
| "batch_step T (BMaxSize n) (s, given, out, gone) = Some (SetMaxSize n s, given, out, gone)"
| "batch_step T (BMaxMessages n) (s, given, out, gone) = Some (SetMaxMessages n s, given, out, gone)"
| "batch_step T (BAdaptive e) (s, given, out, gone) = Some (EnableAdaptiveBatching e s, given, out, gone)"
| "batch_step T (BNetwork now c l) (s, given, out, gone) = Some (UpdateNetworkConditions now c l s, given, out, gone)"
| "batch_step T (BAdjust now) (s, given, out, gone) = Some (AdjustBatchingParameters now s, given, out, gone)"
| "batch_step T BResetStats (s, given, out, gone) = Some (SB_ResetStats s, given, out, gone)"
| "batch_step T (BReadyCallback f) (s, given, out, gone) = Some (SetBatchReadyCallback f s, given, out, gone)"
| "batch_step T (BDroppedCallback f) (s, given, out, gone) = Some (SetBatchDroppedCallback f s, given, out, gone)"

text \<open>Operations that do not turn compression on and do not take away the callback for dropped batches.\<close>

fun accountable :: "BatchOp \<Rightarrow> bool" where
  "accountable (BInitialize c) = (\<not> bc_enableCompression c)"
| "accountable (BConfig c) = (\<not> bc_enableCompression c)"
| "accountable (BDroppedCallback f) = f"
| "accountable x = True"

fun keeps_messages :: "BatchOp \<Rightarrow> bool" where
  "keeps_messages (BShutdown now) = False"
| "keeps_messages BClear = False"
| "keeps_messages x = True"

definition ledger_ok :: "batch_ledger \<Rightarrow> bool" where
  "ledger_ok L \<longleftrightarrow> (case L of (s, given, out, gone) \<Rightarrow>
     plain_mode s \<and> mset given = accounted s + mset (msgs_of out) + mset gone)"

lemma settings_books:
  assumes "plain_mode s"
  shows "\<not> bc_enableCompression c \<Longrightarrow> accounted (snd (SB_Initialize c s)) = accounted s \<and> plain_mode (snd (SB_Initialize c s))"
    "\<not> bc_enableCompression c \<Longrightarrow> accounted (SB_SetConfig c s) = accounted s \<and> plain_mode (SB_SetConfig c s)"
    "accounted (SetBatchType ty s) = accounted s \<and> plain_mode (SetBatchType ty s)"
    "accounted (SetInterval i s) = accounted s \<and> plain_mode (SetInterval i s)"
    "accounted (SetMaxSize n s) = accounted s \<and> plain_mode (SetMaxSize n s)"
    "accounted (SetMaxMessages n s) = accounted s \<and> plain_mode (SetMaxMessages n s)"
    "accounted (EnableAdaptiveBatching e s) = accounted s \<and> plain_mode (EnableAdaptiveBatching e s)"
    "accounted (SB_ResetStats s) = accounted s \<and> plain_mode (SB_ResetStats s)"
    "accounted (SetBatchReadyCallback f s) = accounted s \<and> plain_mode (SetBatchReadyCallback f s)"
    "f \<Longrightarrow> accounted (SetBatchDroppedCallback f s) = accounted s \<and> plain_mode (SetBatchDroppedCallback f s)"
  using assms
  by (simp_all add: SB_Initialize_def SB_SetConfig_def SetBatchType_def SetInterval_def SetMaxSize_def SetMaxMessages_def
      EnableAdaptiveBatching_def SB_ResetStats_def SetBatchReadyCallback_def SetBatchDroppedCallback_def
      accounted_def booked_def plain_mode_def)

lemma get_books:
  assumes "plain_mode s"
  shows "accounted (snd (GetReadyBatches s)) + mset (msgs_of (fst (GetReadyBatches s))) = accounted s
    \<and> plain_mode (snd (GetReadyBatches s))"
  using assms by (simp add: GetReadyBatches_def accounted_def booked_def plain_mode_def)

lemma ledger_step:
  assumes "ledger_ok L" "accountable x" "batch_step T x L = Some L'"
  shows "ledger_ok L'"
proof -
  obtain s given out gone where L: "L = (s, given, out, gone)" by (cases L) auto
  have p: "plain_mode s" and b: "mset given = accounted s + mset (msgs_of out) + mset gone"
    using assms(1) by (simp_all add: L ledger_ok_def)
  note books = settings_books [OF p] adjust_books [OF p] adapt_books [OF p] add_books [OF p] process_books [OF p]
    flush_books [OF p]
  show ?thesis
  proof (cases x)
    case (BShutdown now)
    then show ?thesis using assms(3) b shutdown_books [OF p, of T now] by (auto simp: L ledger_ok_def ac_simps)
  next
    case BClear
    then show ?thesis using assms(3) b clear_books [OF p] by (auto simp: L ledger_ok_def ac_simps)
  next
    case BGet
    then show ?thesis using assms(3) b get_books [OF p] by (auto simp: L ledger_ok_def ac_simps)
  qed (use assms(2,3) b books in \<open>auto simp: L ledger_ok_def\<close>)
qed

interpretation batch_runs: step_system "batch_step T" ledger_ok accountable for T
  by unfold_locales (rule ledger_step)

interpretation kept_runs: step_system "batch_step T" "\<lambda>L. snd (snd (snd L)) = gone" keeps_messages for T gone
  by unfold_locales (erule keeps_messages.elims; auto)

text \<open>
  C28. With compression off and a callback for dropped batches installed, every message the system
  accepted is, after any operations of the interface that leave both of these so (all others are
  included, \<open>Shutdown\<close> and \<open>ClearBatches\<close> too), exactly once in one place: still waiting, in a
  batch that is ready, in a batch that was handed out, in a batch reported as dropped, or among what
  \<open>ClearBatches\<close> and \<open>Shutdown\<close> took away, which is the waiting messages and the ready batches at that
  moment; without these two operations nothing is taken away.
\<close>

theorem batching_loses_nothing:
  assumes "sb_pendingMessages s = []" "sb_readyBatches s = []" "sb_calls s = []"
    and "sb_batchDroppedCallback s" "\<not> bc_enableCompression (sb_config s)"
    and "list_all accountable ops" "run (batch_step T) ops (s, [], [], []) = Some (t, given, out, gone)"
  shows "mset given = mset (sb_pendingMessages t) + mset (msgs_of (sb_readyBatches t)) + mset (msgs_of out)
           + mset (msgs_of (dropped_in (sb_calls t))) + mset gone
    \<and> (list_all keeps_messages ops \<longrightarrow> gone = [])"
proof
  have "ledger_ok (s, [], [], [])" using assms by (simp add: ledger_ok_def plain_mode_def accounted_def booked_def)
  from batch_runs.run_inv [OF this assms(6,7)]
  show "mset given = mset (sb_pendingMessages t) + mset (msgs_of (sb_readyBatches t)) + mset (msgs_of out)
           + mset (msgs_of (dropped_in (sb_calls t))) + mset gone"
    by (simp add: ledger_ok_def accounted_def booked_def)
  show "list_all keeps_messages ops \<longrightarrow> gone = []"
    using kept_runs.run_inv [of "(s, [], [], [])" "[]" ops T "(t, given, out, gone)"] assms(7) by simp
qed

theorem batching_loses_nothing_witness:
  "let (t, given, out, gone) = the (run (batch_step demo_types)
        [BAdd 0 (demo_message 1 Low [1, 2, 3]), BAdd 1 (demo_message 2 Critical [4, 5]), BGet, BAdd 2 (demo_message 3 Low [6]),
         BShutdown 3] (demo_batching SizeBatch, [], [], []))
   in map pm_messageId given = [1, 2, 3] \<and> map pm_messageId (msgs_of out) = [1] \<and> map pm_messageId gone = [2, 3]
      \<and> mset given = mset (sb_pendingMessages t) + mset (msgs_of (sb_readyBatches t)) + mset (msgs_of out)
           + mset (msgs_of (dropped_in (sb_calls t))) + mset gone"
proof -
  let ?ops = "[BAdd 0 (demo_message 1 Low [1, 2, 3]), BAdd 1 (demo_message 2 Critical [4, 5]), BGet, BAdd 2 (demo_message 3 Low [6]),
     BShutdown 3]"
  let ?r = "the (run (batch_step demo_types) ?ops (demo_batching SizeBatch, [], [], []))"
  obtain t given out gone where r: "?r = (t, given, out, gone)" by (cases ?r) auto
  have run: "run (batch_step demo_types) ?ops (demo_batching SizeBatch, [], [], []) = Some (t, given, out, gone)"
    unfolding r [symmetric] by simp
  have "map pm_messageId (fst (snd ?r)) = [1, 2, 3]" "map pm_messageId (msgs_of (fst (snd (snd ?r)))) = [1]"
    "map pm_messageId (snd (snd (snd ?r))) = [2, 3]" by code_simp+
  moreover have "mset given = mset (sb_pendingMessages t) + mset (msgs_of (sb_readyBatches t)) + mset (msgs_of out)
           + mset (msgs_of (dropped_in (sb_calls t))) + mset gone"
    by (rule batching_loses_nothing [OF _ _ _ _ _ _ run, THEN conjunct1]) (simp_all add: demo_batching_def SmartBatching_new_def)
  ultimately show ?thesis unfolding r by simp
qed

end
