(* ===== verification/Config.thy ===== *)
theory Config
  imports Text "HOL-Library.Multiset"
begin

text \<open>
  \<open>utils/ConfigManager.cpp\<close>: settings as text, saved to and loaded from a file of \<open>key=value\<close> lines.
  The settings are an unordered map: \<open>SaveConfig\<close> takes the order in which the library iterates over
  it.  A file is its text, the file system a map from paths to files; whether a file can be created
  is an argument.
\<close>

section \<open>The model\<close>

record ConfigManager =
  cm_config :: "(string, string) omap"

definition newline :: char where
  "newline = CHR 0x0A"

definition SetDefaultValues :: "ConfigManager \<Rightarrow> ConfigManager" where
  "SetDefaultValues s =
     s\<lparr>cm_config := fold (\<lambda>(k, v). om_put k v)
        [(''server_name'', ''Witcher3-MP Server''), (''port'', ''60000''), (''max_connections'', ''100''),
         (''debug_mode'', ''false''), (''log_level'', ''INFO''), (''auto_save'', ''true''),
         (''save_interval'', ''300'')] (cm_config s)\<rparr>"

definition ConfigManager_new :: ConfigManager where
  "ConfigManager_new = SetDefaultValues \<lparr>cm_config = []\<rparr>"

text \<open>The single instance, created by its first user.\<close>

definition GetInstance :: "ConfigManager option \<Rightarrow> ConfigManager option" where
  "GetInstance s_instance = (case s_instance of None \<Rightarrow> Some ConfigManager_new | Some s \<Rightarrow> Some s)"

definition DestroyInstance :: "ConfigManager option \<Rightarrow> ConfigManager option" where
  "DestroyInstance s_instance = None"

definition GetConfigPath :: "string \<Rightarrow> string" where
  "GetConfigPath filename = ''config/'' @ filename"

definition parse_line :: "string \<Rightarrow> (string \<times> string) option" where
  "parse_line line =
     (if line = [] \<or> hd line = CHR ''#'' \<or> CHR ''='' \<notin> set line then None
      else Some (trim (takeWhile (\<lambda>c. c \<noteq> CHR ''='') line), trim (tl (dropWhile (\<lambda>c. c \<noteq> CHR ''='') line))))"

definition load_line :: "string \<Rightarrow> (string, string) omap \<Rightarrow> (string, string) omap" where
  "load_line line m = (case parse_line line of None \<Rightarrow> m | Some (key, v) \<Rightarrow> om_put key v m)"

definition LoadConfig :: "string \<Rightarrow> (string \<Rightarrow> string option) \<Rightarrow> ConfigManager \<Rightarrow> bool \<times> ConfigManager" where
  "LoadConfig filename files s =
     (case files (GetConfigPath filename) of
        None \<Rightarrow> (False, s)
      | Some text \<Rightarrow> (True, s\<lparr>cm_config := fold load_line (getlines newline text) (cm_config s)\<rparr>))"

definition config_lines :: "(string \<times> string) list \<Rightarrow> string list" where
  "config_lines order =
     [''# Witcher3-MP Server Configuration'', ''# Generated automatically'', []]
       @ map (\<lambda>(k, v). k @ ''='' @ v) order"

definition SaveConfig ::
    "(string \<times> string) list \<Rightarrow> bool \<Rightarrow> string \<Rightarrow> (string \<Rightarrow> string option) \<Rightarrow> ConfigManager
      \<Rightarrow> bool \<times> (string \<Rightarrow> string option)" where
  "SaveConfig order can_create filename files s =
     (if \<not> can_create then (False, files)
      else (True, files(GetConfigPath filename \<mapsto> concat (map (\<lambda>l. l @ [newline]) (config_lines order)))))"

definition PrintConfig :: "(string \<times> string) list \<Rightarrow> string list" where
  "PrintConfig order =
     [''=== Server Configuration ===''] @ map (\<lambda>(k, v). k @ '' = '' @ v) order @ [''============================'']"

definition SetValue :: "string \<Rightarrow> string \<Rightarrow> ConfigManager \<Rightarrow> ConfigManager" where
  "SetValue key v s = s\<lparr>cm_config := om_put key v (cm_config s)\<rparr>"

definition GetValue :: "ConfigManager \<Rightarrow> string \<Rightarrow> string \<Rightarrow> string" where
  "GetValue s key defaultValue = om_get defaultValue (cm_config s) key"

definition GetIntValue :: "ConfigManager \<Rightarrow> string \<Rightarrow> int \<Rightarrow> int" where
  "GetIntValue s key defaultValue =
     (let v = GetValue s key [] in if v = [] then defaultValue
      else (case stoi v of None \<Rightarrow> defaultValue | Some n \<Rightarrow> n))"

definition truthy :: "string \<Rightarrow> bool" where
  "truthy v \<longleftrightarrow> (let w = map tolower v in w = ''true'' \<or> w = ''1'' \<or> w = ''yes'')"

definition GetBoolValue :: "ConfigManager \<Rightarrow> string \<Rightarrow> bool \<Rightarrow> bool" where
  "GetBoolValue s key defaultValue =
     (let v = GetValue s key [] in if v = [] then defaultValue else truthy v)"

definition GetPort :: "ConfigManager \<Rightarrow> 16 word" where
  "GetPort s =
     (case om_find (cm_config s) ''port'' of
        None \<Rightarrow> 60000
      | Some v \<Rightarrow> (case stoi v of None \<Rightarrow> 60000 | Some n \<Rightarrow> word_of_int n))"

definition GetServerName :: "ConfigManager \<Rightarrow> string" where
  "GetServerName s = om_get ''Witcher3-MP Server'' (cm_config s) ''server_name''"

definition GetMaxConnections :: "ConfigManager \<Rightarrow> u32" where
  "GetMaxConnections s =
     (case om_find (cm_config s) ''max_connections'' of
        None \<Rightarrow> 100
      | Some v \<Rightarrow> (case stoi v of None \<Rightarrow> 100 | Some n \<Rightarrow> word_of_int n))"

definition GetDebugMode :: "ConfigManager \<Rightarrow> bool" where
  "GetDebugMode s = (case om_find (cm_config s) ''debug_mode'' of None \<Rightarrow> False | Some v \<Rightarrow> truthy v)"

definition ValidateConfig :: "ConfigManager \<Rightarrow> bool" where
  "ValidateConfig s \<longleftrightarrow>
     (let port = GetIntValue s ''port'' 0; maxConn = GetIntValue s ''max_connections'' 0
      in \<not> (port \<le> 0 \<or> 65535 < port) \<and> \<not> (maxConn \<le> 0 \<or> 1000 < maxConn))"

section \<open>Lines\<close>

text \<open>An entry that survives the file: no line break, no \<open>=\<close> in the key, no blanks at the ends, no comment.\<close>

definition clean_entry :: "string \<times> string \<Rightarrow> bool" where
  "clean_entry e \<longleftrightarrow> (case e of (k, v) \<Rightarrow>
     newline \<notin> set k \<and> newline \<notin> set v \<and> CHR ''='' \<notin> set k \<and> trimmed k \<and> trimmed v
     \<and> (k = [] \<or> hd k \<noteq> CHR ''#''))"

lemma load_clean_line:
  assumes "clean_entry (k, v)"
  shows "load_line (k @ ''='' @ v) m = om_put k v m"
proof -
  have eq: "CHR ''='' \<notin> set k" using assms by (simp add: clean_entry_def)
  have "hd (k @ ''='' @ v) \<noteq> CHR ''#''" using assms by (cases k) (auto simp: clean_entry_def)
  then have "parse_line (k @ ''='' @ v) = Some (trim k, trim v)"
    using takeWhile_until [OF eq, of v] dropWhile_until [OF eq, of v] by (simp add: parse_line_def)
  with assms show ?thesis by (simp add: load_line_def trim_id clean_entry_def)
qed

lemma load_clean_lines:
  "\<forall>e \<in> set es. clean_entry e \<Longrightarrow>
     fold load_line (map (\<lambda>(k, v). k @ ''='' @ v) es) m = fold (\<lambda>(k, v). om_put k v) es m"
  by (induction es arbitrary: m) (auto simp: load_clean_line [simplified])

lemma find_fold_put:
  "distinct (map fst es) \<Longrightarrow>
     om_find (fold (\<lambda>(k, v). om_put k v) es m) j = (case map_of es j of Some v \<Rightarrow> Some v | None \<Rightarrow> om_find m j)"
proof (induction es arbitrary: m)
  case (Cons e es)
  then show ?case by (cases e) (auto simp: map_of_eq_None_iff [THEN iffD2] split: option.split)
qed simp

lemma lines_of_config:
  assumes "\<forall>e \<in> set order. clean_entry e"
  shows "getlines newline (concat (map (\<lambda>l. l @ [newline]) (config_lines order))) = config_lines order"
  using assms
  by (intro getlines_concat) (auto simp: config_lines_def clean_entry_def newline_def)

text \<open>
  C29. What \<open>SaveConfig\<close> writes, in whatever order the map is iterated, \<open>LoadConfig\<close> reads back:
  afterwards every saved setting has its saved value, and the settings that were not saved keep
  theirs.  The entries must be free of line breaks and surrounding blanks, their keys free of \<open>=\<close> and
  of a \<open>#\<close> in front.
\<close>

theorem config_round_trip:
  assumes "om_sorted (cm_config s)" "mset order = mset (cm_config s)" "\<forall>e \<in> set (cm_config s). clean_entry e"
    and "SaveConfig order True filename files s = (True, files')"
  shows "\<exists>s'. LoadConfig filename files' t = (True, s')
     \<and> (\<forall>key. om_find (cm_config s') key =
          (case om_find (cm_config s) key of Some v \<Rightarrow> Some v | None \<Rightarrow> om_find (cm_config t) key))"
proof -
  have set: "set order = set (cm_config s)" using assms(2) by (rule mset_eq_setD)
  have "mset (map fst order) = mset (map fst (cm_config s))" using assms(2) by simp
  then have d: "distinct (map fst order)"
    using om_sorted_distinct [OF assms(1)] by (metis mset_eq_imp_distinct_iff)
  have clean: "\<forall>e \<in> set order. clean_entry e" using assms(3) set by simp
  have skip: "load_line ''# Witcher3-MP Server Configuration'' m = m" "load_line ''# Generated automatically'' m = m"
    "load_line [] m = m" for m
    by (simp_all add: load_line_def parse_line_def)
  have "map_of order key = om_find (cm_config s) key" for key
    using set d om_sorted_distinct [OF assms(1)] unfolding om_find_def
    by (metis map_of_inject_set)
  moreover have "LoadConfig filename files' t =
      (True, t\<lparr>cm_config := fold (\<lambda>(k, v). om_put k v) order (cm_config t)\<rparr>)"
    using assms(4) lines_of_config [OF clean] load_clean_lines [OF clean, of "cm_config t"]
    by (auto simp: SaveConfig_def LoadConfig_def config_lines_def skip)
  ultimately show ?thesis using find_fold_put [OF d, of "cm_config t"] by simp
qed

theorem config_round_trip_witness:
  "let s = SetValue ''port'' ''7777'' ConfigManager_new;
       files' = snd (SaveConfig (rev (cm_config s)) True ''server.cfg'' Map.empty s)
   in GetPort (snd (LoadConfig ''server.cfg'' files' ConfigManager_new)) = 7777"
proof -
  let ?s = "SetValue ''port'' ''7777'' ConfigManager_new"
  let ?f = "snd (SaveConfig (rev (cm_config ?s)) True ''server.cfg'' Map.empty ?s)"
  have "om_sorted (cm_config ?s)"
    by (simp add: SetValue_def ConfigManager_new_def SetDefaultValues_def del: om_put.simps)
  moreover have "mset (rev (cm_config ?s)) = mset (cm_config ?s)" by simp
  moreover have "\<forall>e \<in> set (cm_config ?s). clean_entry e" by code_simp
  moreover have "SaveConfig (rev (cm_config ?s)) True ''server.cfg'' Map.empty ?s = (True, ?f)"
    by (simp add: SaveConfig_def)
  ultimately obtain s' where "LoadConfig ''server.cfg'' ?f ConfigManager_new = (True, s')"
    "om_find (cm_config s') ''port'' = om_find (cm_config ?s) ''port''"
    using config_round_trip [of ?s "rev (cm_config ?s)" "''server.cfg''" Map.empty ?f ConfigManager_new]
    by (auto simp: SetValue_def)
  moreover have "stoi ''7777'' = Some 7777" by code_simp
  ultimately show ?thesis by (simp add: Let_def GetPort_def SetValue_def)
qed

text \<open>A validated configuration gives a usable port and number of connections.\<close>

lemma validated_config_usable:
  assumes "ValidateConfig s"
  shows "0 < GetPort s" "0 < GetMaxConnections s" "GetMaxConnections s \<le> 1000"
proof -
  obtain p v where p: "om_find (cm_config s) ''port'' = Some v" "stoi v = Some p" "0 < p" "p \<le> 65535"
    using assms by (auto simp: ValidateConfig_def GetIntValue_def GetValue_def om_get_def Let_def split: option.splits if_splits)
  then show "0 < GetPort s" by (simp add: GetPort_def word_less_def unsigned_of_int take_bit_int_eq_self)
  obtain n w where n: "om_find (cm_config s) ''max_connections'' = Some w" "stoi w = Some n" "0 < n" "n \<le> 1000"
    using assms by (auto simp: ValidateConfig_def GetIntValue_def GetValue_def om_get_def Let_def split: option.splits if_splits)
  then show "0 < GetMaxConnections s" "GetMaxConnections s \<le> 1000"
    by (simp_all add: GetMaxConnections_def word_less_def word_le_def unsigned_of_int take_bit_int_eq_self)
qed

end
