(* ===== verification/Discovery.thy ===== *)
theory Discovery
  imports Text
begin

text \<open>
  \<open>networking/LANDiscovery.cpp\<close>: the search for servers in the local network and the direct connection
  by address.  Sockets are the environment: the datagrams that arrive, the measured time to a server
  and the success of a socket call are arguments.  The search thread is a state of its
  \<open>std::thread\<close> object: none, running, or ended but not yet joined.
\<close>

section \<open>Servers\<close>

record ServerInfo =
  si_name :: string
  si_ip :: string
  si_port :: "16 word"
  si_playerCount :: u8
  si_maxPlayers :: u8
  si_ping :: u32
  si_isPasswordProtected :: bool

definition ServerInfo_new :: ServerInfo where
  "ServerInfo_new = \<lparr>si_name = [], si_ip = [], si_port = 0, si_playerCount = 0, si_maxPlayers = 0, si_ping = 0,
     si_isPasswordProtected = False\<rparr>"

definition response_tag :: string where
  "response_tag = ''WITCHER3_MP_SERVER_RESPONSE''"

definition bar :: char where
  "bar = CHR 0x7C"

text \<open>\<open>None\<close> is the result \<open>false\<close>; the object written so far is then thrown away by the caller.\<close>

definition ParseServerResponse :: "string \<Rightarrow> ServerInfo option" where
  "ParseServerResponse response =
     (if take (length response_tag) response \<noteq> response_tag then None
      else
        let tokens = getlines bar response
        in if length tokens < 6 then None
           else (case (stoi (tokens ! 2), stoi (tokens ! 3), stoi (tokens ! 4)) of
               (Some port, Some players, Some maxPlayers) \<Rightarrow>
                  Some (ServerInfo_new\<lparr>si_name := tokens ! 1, si_port := word_of_int port,
                    si_playerCount := word_of_int players, si_maxPlayers := word_of_int maxPlayers,
                    si_isPasswordProtected := (tokens ! 5 = ''true'')\<rparr>)
             | _ \<Rightarrow> None))"

section \<open>The search\<close>

datatype thread_state = NoThread | Running | Ended

datatype DiscoveryCall = ServerDiscovered ServerInfo | DiscoveryFinished

record LANDiscovery =
  ld_isDiscovering :: bool
  ld_shouldStop :: bool
  ld_discoveryThread :: thread_state
  ld_discoveredServers :: "ServerInfo list"
  ld_serverDiscoveredCallback :: bool
  ld_discoveryFinishedCallback :: bool
  ld_discoveryPort :: "16 word"
  ld_broadcastInterval :: u32
  ld_discoveryTimeout :: u32
  ld_discoverySocket :: bool
  ld_calls :: "DiscoveryCall list"

definition LANDiscovery_new :: LANDiscovery where
  "LANDiscovery_new =
     \<lparr>ld_isDiscovering = False, ld_shouldStop = False, ld_discoveryThread = NoThread, ld_discoveredServers = [],
      ld_serverDiscoveredCallback = False, ld_discoveryFinishedCallback = False, ld_discoveryPort = 60001,
      ld_broadcastInterval = 1000, ld_discoveryTimeout = 5000, ld_discoverySocket = False, ld_calls = []\<rparr>"

definition discovery_call :: "bool \<Rightarrow> DiscoveryCall \<Rightarrow> LANDiscovery \<Rightarrow> LANDiscovery" where
  "discovery_call installed c s = (if installed then s\<lparr>ld_calls := ld_calls s @ [c]\<rparr> else s)"

text \<open>The socket is created and set up, or one of the two calls fails.\<close>

definition LAN_Initialize :: "bool \<Rightarrow> bool \<Rightarrow> LANDiscovery \<Rightarrow> bool \<times> LANDiscovery" where
  "LAN_Initialize socket_ok option_ok s =
     (if \<not> socket_ok \<or> \<not> option_ok then (False, s\<lparr>ld_discoverySocket := False\<rparr>)
      else (True, s\<lparr>ld_discoverySocket := True\<rparr>))"

text \<open>
  Assigning a new thread to a \<open>std::thread\<close> that is still joinable ends the program: \<open>None\<close>.
\<close>

definition StartDiscovery :: "LANDiscovery \<Rightarrow> LANDiscovery option" where
  "StartDiscovery s =
     (if ld_isDiscovering s then Some s
      else
        let s1 = s\<lparr>ld_shouldStop := False, ld_isDiscovering := True, ld_discoveredServers := []\<rparr>
        in if ld_discoveryThread s1 \<noteq> NoThread then None else Some (s1\<lparr>ld_discoveryThread := Running\<rparr>))"

text \<open>Joining waits for the thread, whose last step clears \<open>m_isDiscovering\<close> again.\<close>

definition StopDiscovery :: "LANDiscovery \<Rightarrow> LANDiscovery" where
  "StopDiscovery s =
     (if \<not> ld_isDiscovering s then s
      else discovery_call (ld_discoveryFinishedCallback s) DiscoveryFinished
             (s\<lparr>ld_shouldStop := True, ld_isDiscovering := False, ld_discoveryThread := NoThread\<rparr>))"

definition LAN_Shutdown :: "LANDiscovery \<Rightarrow> LANDiscovery" where
  "LAN_Shutdown s = (StopDiscovery s)\<lparr>ld_discoverySocket := False\<rparr>"

text \<open>The destructor: shutting down, then destroying the thread object, which must not be joinable.\<close>

definition LAN_destroy :: "LANDiscovery \<Rightarrow> unit option" where
  "LAN_destroy s = (if ld_discoveryThread (LAN_Shutdown s) \<noteq> NoThread then None else Some ())"

definition RefreshServers :: "LANDiscovery \<Rightarrow> LANDiscovery option" where
  "RefreshServers s = StartDiscovery s"

definition GetDiscoveredServers :: "LANDiscovery \<Rightarrow> ServerInfo list" where
  "GetDiscoveredServers s = ld_discoveredServers s"

definition GetServerCount :: "LANDiscovery \<Rightarrow> nat" where
  "GetServerCount s = length (ld_discoveredServers s)"

definition SetServerDiscoveredCallback :: "bool \<Rightarrow> LANDiscovery \<Rightarrow> LANDiscovery" where
  "SetServerDiscoveredCallback f s = s\<lparr>ld_serverDiscoveredCallback := f\<rparr>"

definition SetDiscoveryFinishedCallback :: "bool \<Rightarrow> LANDiscovery \<Rightarrow> LANDiscovery" where
  "SetDiscoveryFinishedCallback f s = s\<lparr>ld_discoveryFinishedCallback := f\<rparr>"

text \<open>A datagram with its sender; the buffer holds 1023 bytes and the text ends at the first zero byte.\<close>

record datagram =
  dg_payload :: string
  dg_ip :: string
  dg_port :: "16 word"

definition response_text :: "string \<Rightarrow> string" where
  "response_text payload = takeWhile (\<lambda>c. c \<noteq> CHR 0x00) (take 1023 payload)"

definition add_server :: "ServerInfo \<Rightarrow> LANDiscovery \<Rightarrow> LANDiscovery" where
  "add_server info s =
     (if \<exists>server \<in> set (ld_discoveredServers s). si_ip server = si_ip info \<and> si_port server = si_port info then s
      else discovery_call (ld_serverDiscoveredCallback s) (ServerDiscovered info)
             (s\<lparr>ld_discoveredServers := ld_discoveredServers s @ [info]\<rparr>))"

definition receive :: "(string \<Rightarrow> 16 word \<Rightarrow> u32) \<Rightarrow> datagram \<Rightarrow> LANDiscovery \<Rightarrow> LANDiscovery" where
  "receive ping d s =
     (case ParseServerResponse (response_text (dg_payload d)) of
        None \<Rightarrow> s
      | Some info \<Rightarrow> add_server (info\<lparr>si_ip := dg_ip d, si_port := dg_port d, si_ping := ping (dg_ip d) (dg_port d)\<rparr>) s)"

text \<open>The loop ends at the timeout, the end of the list, or at an empty datagram.\<close>

definition ListenForResponses :: "(string \<Rightarrow> 16 word \<Rightarrow> u32) \<Rightarrow> datagram list \<Rightarrow> LANDiscovery \<Rightarrow> LANDiscovery" where
  "ListenForResponses ping ds s =
     (if \<not> ld_discoverySocket s then s
      else fold (receive ping) (takeWhile (\<lambda>d. dg_payload d \<noteq> []) ds) s)"

text \<open>The last step of the thread, when its time is over.\<close>

definition thread_ends :: "LANDiscovery \<Rightarrow> LANDiscovery" where
  "thread_ends s = s\<lparr>ld_discoveryThread := Ended, ld_isDiscovering := False\<rparr>"

text \<open>
  One round of the thread's loop, \<open>elapsed\<close> milliseconds after its start: the broadcast, the answers to
  it and the test of the time.
\<close>

definition DiscoveryThread_round ::
    "(string \<Rightarrow> 16 word \<Rightarrow> u32) \<Rightarrow> datagram list \<Rightarrow> int \<Rightarrow> LANDiscovery \<Rightarrow> LANDiscovery" where
  "DiscoveryThread_round ping ds elapsed s =
     (if ld_discoveryThread s \<noteq> Running then s
      else if ld_shouldStop s then thread_ends s
      else
        let s1 = ListenForResponses ping ds s
        in if uint (ld_discoveryTimeout s1) \<le> elapsed then thread_ends s1 else s1)"

text \<open>The time to connect, in milliseconds, as a 32-bit number; 999 when there is no socket or no answer.\<close>

definition CalculatePing :: "bool \<Rightarrow> bool \<Rightarrow> int \<Rightarrow> u32" where
  "CalculatePing socket_ok connect_ok millis =
     (if \<not> socket_ok then 999 else if \<not> connect_ok then 999 else word_of_int millis)"

section \<open>The direct connection\<close>

record IPConnection =
  ip_isConnected :: bool
  ip_shouldStop :: bool
  ip_connectionThread :: thread_state
  ip_serverIP :: string
  ip_serverPort :: "16 word"
  ip_username :: string
  ip_connectionSocket :: bool
  ip_connectionCallback :: bool
  ip_dataReceivedCallback :: bool
  ip_connectionTimeout :: u32
  ip_keepAliveInterval :: u32
  ip_calls :: "(bool \<times> string) list"

definition IPConnection_new :: IPConnection where
  "IPConnection_new =
     \<lparr>ip_isConnected = False, ip_shouldStop = False, ip_connectionThread = NoThread, ip_serverIP = [],
      ip_serverPort = 0, ip_username = [], ip_connectionSocket = False, ip_connectionCallback = False,
      ip_dataReceivedCallback = False, ip_connectionTimeout = 5000, ip_keepAliveInterval = 30000, ip_calls = []\<rparr>"

definition ip_call :: "bool \<Rightarrow> string \<Rightarrow> IPConnection \<Rightarrow> IPConnection" where
  "ip_call success message s = (if ip_connectionCallback s then s\<lparr>ip_calls := ip_calls s @ [(success, message)]\<rparr> else s)"

definition IP_Initialize :: "IPConnection \<Rightarrow> bool \<times> IPConnection" where
  "IP_Initialize s = (True, s)"

definition SendData :: "bool \<Rightarrow> string \<Rightarrow> IPConnection \<Rightarrow> bool" where
  "SendData send_ok bytes s \<longleftrightarrow> ip_isConnected s \<and> ip_connectionSocket s \<and> send_ok"

definition connection_request :: "IPConnection \<Rightarrow> string" where
  "connection_request s =
     ''WITCHER3_MP_CONNECT|'' @ ip_username s @ ''|'' @ dec_string (unat (ip_serverPort s))"

definition SendConnectionRequest :: "bool \<Rightarrow> IPConnection \<Rightarrow> bool" where
  "SendConnectionRequest send_ok s = SendData send_ok (connection_request s) s"

definition ConnectToServer ::
    "bool \<Rightarrow> bool \<Rightarrow> bool \<Rightarrow> string \<Rightarrow> 16 word \<Rightarrow> string \<Rightarrow> IPConnection \<Rightarrow> bool \<times> IPConnection" where
  "ConnectToServer socket_ok connect_ok send_ok ip port username s =
     (if ip_isConnected s then (False, s)
      else
        let s1 = s\<lparr>ip_serverIP := ip, ip_serverPort := port, ip_username := username, ip_shouldStop := False,
                   ip_connectionSocket := socket_ok\<rparr>
        in if \<not> socket_ok then (False, ip_call False ''Failed to create socket'' s1)
           else if \<not> connect_ok then (False, ip_call False ''Connection failed'' (s1\<lparr>ip_connectionSocket := False\<rparr>))
           else if \<not> SendConnectionRequest send_ok s1
             then (False, ip_call False ''Failed to send connection request'' (s1\<lparr>ip_connectionSocket := False\<rparr>))
           else (True, ip_call True ''Connected successfully''
                   (s1\<lparr>ip_connectionThread := Running, ip_isConnected := True\<rparr>)))"

definition IP_Disconnect :: "IPConnection \<Rightarrow> IPConnection" where
  "IP_Disconnect s =
     (if \<not> ip_isConnected s then s
      else s\<lparr>ip_shouldStop := True, ip_isConnected := False, ip_connectionSocket := False, ip_connectionThread := NoThread\<rparr>)"

definition IP_Shutdown :: "IPConnection \<Rightarrow> IPConnection" where
  "IP_Shutdown s = IP_Disconnect s"

text \<open>\<open>recv\<close> gives the bytes, nothing at the end of the stream (\<open>Some []\<close>), or an error (\<open>None\<close>).\<close>

definition ReceiveData :: "string option \<Rightarrow> IPConnection \<Rightarrow> string \<times> IPConnection" where
  "ReceiveData received s =
     (if \<not> ip_isConnected s \<or> \<not> ip_connectionSocket s then ([], s)
      else (case received of
          None \<Rightarrow> ([], s)
        | Some bytes \<Rightarrow> if bytes = [] then ([], IP_Disconnect s)
                       else (takeWhile (\<lambda>c. c \<noteq> CHR 0x00) (take 4095 bytes), s)))"

definition HandleServerResponse :: "string \<Rightarrow> bool" where
  "HandleServerResponse response \<longleftrightarrow> take (length ''WITCHER3_MP_CONNECT_OK'') response = ''WITCHER3_MP_CONNECT_OK''"

definition SetConnectionCallback :: "bool \<Rightarrow> IPConnection \<Rightarrow> IPConnection" where
  "SetConnectionCallback f s = s\<lparr>ip_connectionCallback := f\<rparr>"

definition SetDataReceivedCallback :: "bool \<Rightarrow> IPConnection \<Rightarrow> IPConnection" where
  "SetDataReceivedCallback f s = s\<lparr>ip_dataReceivedCallback := f\<rparr>"

end
