(* ===== verification/DiscoveryProps.thy ===== *)
theory DiscoveryProps
  imports Discovery
begin

text \<open>
  Properties of the server search and of the direct connection: what a well-formed answer is parsed
  to, the list of servers over every sequence of calls and rounds of the thread, the end of a search
  that ran into its timeout, and the fate of every attempt to connect.
\<close>

section \<open>Answers\<close>

definition server_response :: "string \<Rightarrow> nat \<Rightarrow> nat \<Rightarrow> nat \<Rightarrow> bool \<Rightarrow> string" where
  "server_response name port players maxPlayers locked =
     concat (map (\<lambda>t. t @ [bar])
       [response_tag, name, dec_string port, dec_string players, dec_string maxPlayers])
     @ (if locked then ''true'' else ''false'')"

lemma bar_not_digit: "bar \<notin> set (dec_string n)"
proof
  assume "bar \<in> set (dec_string n)"
  then have "is_digit bar" using dec_string_digits by blast
  then show "False" by (simp add: is_digit_def char_code_def bar_def)
qed

lemma response_tokens:
  assumes "bar \<notin> set name"
  shows "getlines bar (server_response name port players maxPlayers locked) =
     [response_tag, name, dec_string port, dec_string players, dec_string maxPlayers,
      if locked then ''true'' else ''false'']"
proof -
  have t: "bar \<notin> set response_tag" by (simp add: bar_def response_tag_def)
  have l: "getlines bar (if locked then ''true'' else ''false'') = [if locked then ''true'' else ''false'']"
    by (rule getlines_last) (simp_all add: bar_def)
  show ?thesis
    using assms t bar_not_digit by (simp add: server_response_def l)
qed

text \<open>A well-formed answer gives its five fields; a count is cut to eight bits.\<close>

lemma parse_server_response:
  assumes "bar \<notin> set name" "port < 2 ^ 31" "players < 2 ^ 31" "maxPlayers < 2 ^ 31"
  shows "ParseServerResponse (server_response name port players maxPlayers locked) =
     Some (ServerInfo_new\<lparr>si_name := name, si_port := of_nat port, si_playerCount := of_nat players,
       si_maxPlayers := of_nat maxPlayers, si_isPasswordProtected := locked\<rparr>)"
proof -
  have "take (length response_tag) (server_response name port players maxPlayers locked) = response_tag"
    by (simp add: server_response_def)
  then show ?thesis
    using assms by (simp add: ParseServerResponse_def response_tokens stoi_dec_string)
qed

section \<open>The search\<close>

datatype lan_op =
    LanInitialize bool bool
  | LanStart
  | LanStop
  | LanRefresh
  | LanShutdown
  | LanRound "datagram list" int
  | LanOnServer bool
  | LanOnFinished bool

fun lan_step :: "(string \<Rightarrow> 16 word \<Rightarrow> u32) \<Rightarrow> lan_op \<Rightarrow> LANDiscovery \<Rightarrow> LANDiscovery option" where
  "lan_step ping (LanInitialize a b) s = Some (snd (LAN_Initialize a b s))"
| "lan_step ping LanStart s = StartDiscovery s"
| "lan_step ping LanStop s = Some (StopDiscovery s)"
| "lan_step ping LanRefresh s = RefreshServers s"
| "lan_step ping LanShutdown s = Some (LAN_Shutdown s)"
| "lan_step ping (LanRound ds elapsed) s = Some (DiscoveryThread_round ping ds elapsed s)"
| "lan_step ping (LanOnServer f) s = Some (SetServerDiscoveredCallback f s)"
| "lan_step ping (LanOnFinished f) s = Some (SetDiscoveryFinishedCallback f s)"

definition server_key :: "ServerInfo \<Rightarrow> string \<times> 16 word" where
  "server_key i = (si_ip i, si_port i)"

definition lan_ok :: "(string \<Rightarrow> 16 word \<Rightarrow> u32) \<Rightarrow> LANDiscovery \<Rightarrow> bool" where
  "lan_ok ping s \<longleftrightarrow> (ld_isDiscovering s \<longleftrightarrow> ld_discoveryThread s = Running)
     \<and> (ld_discoveryThread s = Running \<longrightarrow> \<not> ld_shouldStop s)
     \<and> distinct (map server_key (ld_discoveredServers s))
     \<and> (\<forall>i \<in> set (ld_discoveredServers s). si_ping i = ping (si_ip i) (si_port i))"

lemma discovery_call_fields [simp]:
  "ld_isDiscovering (discovery_call b c s) = ld_isDiscovering s"
  "ld_shouldStop (discovery_call b c s) = ld_shouldStop s"
  "ld_discoveryThread (discovery_call b c s) = ld_discoveryThread s"
  "ld_discoveredServers (discovery_call b c s) = ld_discoveredServers s"
  "ld_discoveryTimeout (discovery_call b c s) = ld_discoveryTimeout s"
  by (simp_all add: discovery_call_def)

lemma receive_fields [simp]:
  "ld_isDiscovering (receive ping d s) = ld_isDiscovering s"
  "ld_shouldStop (receive ping d s) = ld_shouldStop s"
  "ld_discoveryThread (receive ping d s) = ld_discoveryThread s"
  "ld_discoveryTimeout (receive ping d s) = ld_discoveryTimeout s"
  by (simp_all add: receive_def add_server_def split: option.split)

lemma listen_fields [simp]:
  "ld_isDiscovering (ListenForResponses ping ds s) = ld_isDiscovering s"
  "ld_shouldStop (ListenForResponses ping ds s) = ld_shouldStop s"
  "ld_discoveryThread (ListenForResponses ping ds s) = ld_discoveryThread s"
  "ld_discoveryTimeout (ListenForResponses ping ds s) = ld_discoveryTimeout s"
proof -
  have f: "ld_isDiscovering (fold (receive ping) es s) = ld_isDiscovering s
      \<and> ld_shouldStop (fold (receive ping) es s) = ld_shouldStop s
      \<and> ld_discoveryThread (fold (receive ping) es s) = ld_discoveryThread s
      \<and> ld_discoveryTimeout (fold (receive ping) es s) = ld_discoveryTimeout s" for es
    by (induction es arbitrary: s) simp_all
  then show "ld_isDiscovering (ListenForResponses ping ds s) = ld_isDiscovering s"
    "ld_shouldStop (ListenForResponses ping ds s) = ld_shouldStop s"
    "ld_discoveryThread (ListenForResponses ping ds s) = ld_discoveryThread s"
    "ld_discoveryTimeout (ListenForResponses ping ds s) = ld_discoveryTimeout s"
    by (simp_all add: ListenForResponses_def)
qed

lemma lan_ok_receive: "lan_ok ping s \<Longrightarrow> lan_ok ping (receive ping d s)"
  by (auto simp: lan_ok_def receive_def add_server_def server_key_def split: option.split)

lemma lan_ok_listen:
  assumes "lan_ok ping s"
  shows "lan_ok ping (ListenForResponses ping ds s)"
proof -
  have "lan_ok ping (fold (receive ping) es s)" for es
    using assms by (induction es arbitrary: s) (simp_all add: lan_ok_receive)
  with assms show ?thesis by (simp add: ListenForResponses_def)
qed

lemma lan_ok_step: "lan_step ping x s = Some s' \<Longrightarrow> lan_ok ping s \<Longrightarrow> lan_ok ping s'"
proof (cases x)
  case (LanRound ds elapsed)
  assume a: "lan_step ping x s = Some s'" "lan_ok ping s"
  have "lan_ok ping (ListenForResponses ping ds s)" using a(2) by (rule lan_ok_listen)
  with a LanRound show ?thesis
    by (auto simp: DiscoveryThread_round_def thread_ends_def lan_ok_def Let_def split: if_splits)
qed (auto simp: lan_ok_def LAN_Initialize_def StartDiscovery_def RefreshServers_def StopDiscovery_def LAN_Shutdown_def
       SetServerDiscoveredCallback_def SetDiscoveryFinishedCallback_def Let_def split: if_splits)

interpretation lan_runs: step_system "lan_step ping" "lan_ok ping" "\<lambda>_. True" for ping
  by unfold_locales (rule lan_ok_step)

lemma lan_ok_run: "run (lan_step ping) xs s = Some s' \<Longrightarrow> lan_ok ping s \<Longrightarrow> lan_ok ping s'"
  using lan_runs.run_inv [of ping s xs s'] by (simp add: list_all_iff)

lemma lan_ok_new [simp]: "lan_ok ping LANDiscovery_new"
  by (simp add: lan_ok_def LANDiscovery_new_def)

text \<open>
  Whatever calls are made and whatever datagrams arrive, in any order: no address and port is listed
  twice, every listed server carries the time measured to its own address, and the object reports a
  running search exactly while its thread runs, which then has not been told to stop.
\<close>

lemma discovered_servers_distinct:
  assumes "run (lan_step ping) xs LANDiscovery_new = Some s"
  shows "distinct (map (\<lambda>i. (si_ip i, si_port i)) (GetDiscoveredServers s))
    \<and> (\<forall>i \<in> set (GetDiscoveredServers s). si_ping i = ping (si_ip i) (si_port i))
    \<and> (ld_isDiscovering s \<longleftrightarrow> ld_discoveryThread s = Running)
    \<and> (ld_discoveryThread s = Running \<longrightarrow> \<not> ld_shouldStop s)"
  using lan_ok_run [OF assms lan_ok_new]
  by (simp add: lan_ok_def GetDiscoveredServers_def server_key_def [abs_def])

definition answer_from :: "string \<Rightarrow> datagram" where
  "answer_from ip = \<lparr>dg_payload = server_response ''Kaer Morhen'' 60000 3 16 True, dg_ip = ip, dg_port = 60001\<rparr>"

lemma receive_answer_from:
  "receive ping (answer_from ip) s = add_server
     (\<lparr>si_name = ''Kaer Morhen'', si_ip = ip, si_port = 60001, si_playerCount = 3, si_maxPlayers = 16,
       si_ping = ping ip 60001, si_isPasswordProtected = True\<rparr>) s"
proof -
  let ?r = "server_response ''Kaer Morhen'' 60000 3 16 True"
  have "set ?r \<subseteq> set response_tag \<union> {bar} \<union> set ''Kaer Morhen'' \<union> set ''true''
      \<union> set (dec_string 60000) \<union> set (dec_string 3) \<union> set (dec_string 16)"
    by (auto simp: server_response_def)
  moreover have "CHR 0x00 \<notin> set (dec_string n)" for n
    using dec_string_digits [of n] by (auto simp: is_digit_def char_code_def)
  ultimately have z: "CHR 0x00 \<notin> set ?r" by (auto simp: response_tag_def bar_def)
  have "length (dec_string n) \<le> 5" if "n < 100000" for n
    using that by (simp add: dec_string.simps)
  then have "length (dec_string 60000) \<le> 5" "length (dec_string 3) \<le> 5" "length (dec_string 16) \<le> 5" by simp_all
  then have "length ?r \<le> 1023" by (simp add: server_response_def response_tag_def)
  with z have "response_text ?r = ?r" by (auto simp: response_text_def takeWhile_eq_all_conv)
  moreover have "bar \<notin> set ''Kaer Morhen''" by (simp add: bar_def)
  ultimately show ?thesis
    using parse_server_response [of "''Kaer Morhen''" 60000 3 16 True]
    by (simp add: receive_def answer_from_def ServerInfo_new_def)
qed

lemma discovered_servers_distinct_witness:
  "let s = the (run (lan_step (\<lambda>_ _. 20)) [LanInitialize True True, LanStart,
         LanRound [answer_from ''10.0.0.5'', answer_from ''10.0.0.6'', answer_from ''10.0.0.5''] 100] LANDiscovery_new)
   in map si_ip (GetDiscoveredServers s) = [''10.0.0.5'', ''10.0.0.6''] \<and> ld_isDiscovering s
    \<and> distinct (map (\<lambda>i. (si_ip i, si_port i)) (GetDiscoveredServers s))"
proof -
  let ?ds = "[answer_from ''10.0.0.5'', answer_from ''10.0.0.6'', answer_from ''10.0.0.5'']"
  let ?xs = "[LanInitialize True True, LanStart, LanRound ?ds 100]"
  let ?s = "the (run (lan_step (\<lambda>_ _. 20)) ?xs LANDiscovery_new)"
  have "takeWhile (\<lambda>d. dg_payload d \<noteq> []) ?ds = ?ds" by (simp add: answer_from_def server_response_def)
  then have "run (lan_step (\<lambda>_ _. 20)) ?xs LANDiscovery_new = Some ?s
      \<and> map si_ip (GetDiscoveredServers ?s) = [''10.0.0.5'', ''10.0.0.6''] \<and> ld_isDiscovering ?s"
    by (simp add: LAN_Initialize_def StartDiscovery_def LANDiscovery_new_def DiscoveryThread_round_def Let_def
        ListenForResponses_def receive_answer_from add_server_def discovery_call_def GetDiscoveredServers_def)
  with discovered_servers_distinct [of "\<lambda>_ _. 20" ?xs ?s] show ?thesis by (simp add: Let_def)
qed

section \<open>The end of a search\<close>

lemma ended_stays:
  assumes "lan_ok ping s" "ld_discoveryThread s = Ended" "run (lan_step ping) xs s = Some s'"
  shows "ld_discoveryThread s' = Ended \<and> lan_ok ping s' \<and> LanStart \<notin> set xs \<and> LanRefresh \<notin> set xs"
  using assms
proof (induction xs arbitrary: s)
  case (Cons x xs)
  then obtain t where t: "lan_step ping x s = Some t" "run (lan_step ping) xs t = Some s'" by (auto split: option.splits)
  have "ld_discoveryThread t = Ended \<and> x \<noteq> LanStart \<and> x \<noteq> LanRefresh"
    using t(1) Cons.prems(1,2)
    by (cases x) (auto simp: lan_ok_def LAN_Initialize_def StartDiscovery_def RefreshServers_def StopDiscovery_def
        LAN_Shutdown_def SetServerDiscoveredCallback_def SetDiscoveryFinishedCallback_def DiscoveryThread_round_def
        Let_def split: if_splits)
  moreover have "lan_ok ping t" using lan_ok_step [OF t(1) Cons.prems(1)] .
  ultimately show ?case using Cons.IH [of t] t(2) by auto
qed simp

text \<open>
  A search that reaches its timeout is the last one: the thread has ended and nothing joins it, so
  every later start or refresh ends the program, the stop call does nothing and reports nothing, and
  destroying the object ends the program.
\<close>

lemma timed_out_search_is_final:
  assumes "run (lan_step ping) xs LANDiscovery_new = Some s" "ld_isDiscovering s"
    and "uint (ld_discoveryTimeout s) \<le> elapsed"
  shows "let s' = DiscoveryThread_round ping ds elapsed s
         in \<not> ld_isDiscovering s' \<and> StopDiscovery s' = s'
          \<and> (LanStart \<in> set ys \<or> LanRefresh \<in> set ys \<longrightarrow> run (lan_step ping) ys s' = None)
          \<and> (\<forall>t. run (lan_step ping) ys s' = Some t \<longrightarrow> LAN_destroy t = None)"
proof -
  let ?s = "DiscoveryThread_round ping ds elapsed s"
  have "lan_ok ping s" using lan_ok_run [OF assms(1) lan_ok_new] .
  then have e: "ld_discoveryThread ?s = Ended" "\<not> ld_isDiscovering ?s" "lan_ok ping ?s"
    using assms(2,3) lan_ok_step [of ping "LanRound ds elapsed" s ?s]
    by (auto simp: lan_ok_def DiscoveryThread_round_def thread_ends_def Let_def)
  have "StopDiscovery t = t" if "lan_ok ping t" "ld_discoveryThread t = Ended" for t
    using that by (simp add: lan_ok_def StopDiscovery_def)
  then show ?thesis
    using e ended_stays [OF e(3,1), of ys]
    by (cases "run (lan_step ping) ys ?s") (auto simp: Let_def LAN_destroy_def LAN_Shutdown_def)
qed

lemma timed_out_search_is_final_witness:
  "\<exists>s. run (lan_step (\<lambda>_ _. 20)) [LanInitialize True True, LanStart] LANDiscovery_new = Some s
     \<and> run (lan_step (\<lambda>_ _. 20)) [LanStop, LanRefresh] (DiscoveryThread_round (\<lambda>_ _. 20) [answer_from ''10.0.0.5''] 5000 s) = None"
proof -
  let ?s = "LANDiscovery_new\<lparr>ld_discoverySocket := True, ld_isDiscovering := True, ld_discoveryThread := Running\<rparr>"
  have r: "run (lan_step (\<lambda>_ _. 20)) [LanInitialize True True, LanStart] LANDiscovery_new = Some ?s"
    by (simp add: LAN_Initialize_def StartDiscovery_def LANDiscovery_new_def Let_def)
  moreover have "ld_isDiscovering ?s" "uint (ld_discoveryTimeout ?s) \<le> 5000" by (simp_all add: LANDiscovery_new_def)
  ultimately show ?thesis
    using timed_out_search_is_final [OF r, of 5000 "[answer_from ''10.0.0.5'']" "[LanStop, LanRefresh]"]
    by (simp add: Let_def del: run.simps)
qed

section \<open>The direct connection\<close>

datatype ip_op =
    IpConnect bool bool bool string "16 word" string
  | IpDisconnect
  | IpShutdown
  | IpReceive "string option"
  | IpOnConnection bool
  | IpOnData bool

fun ip_step :: "ip_op \<Rightarrow> IPConnection \<Rightarrow> IPConnection" where
  "ip_step (IpConnect a b c ip port username) s = snd (ConnectToServer a b c ip port username s)"
| "ip_step IpDisconnect s = IP_Disconnect s"
| "ip_step IpShutdown s = IP_Shutdown s"
| "ip_step (IpReceive r) s = snd (ReceiveData r s)"
| "ip_step (IpOnConnection f) s = SetConnectionCallback f s"
| "ip_step (IpOnData f) s = SetDataReceivedCallback f s"

lemma ip_never_connected:
  assumes "\<not> ip_isConnected s"
  shows "\<not> ip_isConnected (ip_step x s)"
    and "\<forall>r \<in> set (ip_calls (ip_step x s)). r \<in> set (ip_calls s) \<or> \<not> fst r"
  using assms
  by (cases x; auto simp: ConnectToServer_def ip_call_def SendConnectionRequest_def SendData_def IP_Disconnect_def
      IP_Shutdown_def ReceiveData_def SetConnectionCallback_def SetDataReceivedCallback_def Let_def)+

text \<open>
  The request for a connection is sent by a function that first wants the connection to stand:
  whatever the sockets do, no attempt to connect succeeds, nothing is sent or received, and the
  callback only ever hears of failures.
\<close>

lemma connect_never_succeeds:
  "let s = fold ip_step xs IPConnection_new
   in \<not> ip_isConnected s \<and> \<not> fst (ConnectToServer a b c ip port username s)
    \<and> \<not> SendData d bytes s \<and> ReceiveData r s = ([], s)
    \<and> list_all (\<lambda>call. \<not> fst call) (ip_calls s)"
proof -
  have "\<not> ip_isConnected (fold ip_step xs s) \<and> (\<forall>call \<in> set (ip_calls (fold ip_step xs s)). \<not> fst call)"
    if "\<not> ip_isConnected s" "\<forall>call \<in> set (ip_calls s). \<not> fst call" for s
    using that
  proof (induction xs arbitrary: s)
    case (Cons x xs)
    have "\<forall>call \<in> set (ip_calls (ip_step x s)). \<not> fst call"
      using Cons.prems ip_never_connected(2) [of s x] by blast
    then show ?case using Cons.IH [of "ip_step x s"] ip_never_connected(1) [of s x] Cons.prems(1) by simp
  qed simp
  from this [of IPConnection_new] show ?thesis
    by (simp add: Let_def list_all_iff IPConnection_new_def ConnectToServer_def SendConnectionRequest_def SendData_def ReceiveData_def)
qed

end
