(* ===== verification/Movement.thy ===== *)
theory Movement
  imports Vectors
begin

text \<open>
  \<open>optimization/MovementPrediction.cpp\<close>: the client moves a player ahead of the server
  (\<open>MovementPrediction\<close>), corrects itself when the server's position for an input arrives, and keeps
  one such object for each player (\<open>MovementPredictionManager\<close>).  Arithmetic is \<open>float\<close>; the time a
  prediction took and the time of day are arguments.
\<close>

section \<open>Data\<close>

record MovementInput =
  mi_inputId :: u32
  mi_timestamp :: flt
  mi_position :: vec4
  mi_velocity :: vec4
  mi_acceleration :: vec4
  mi_rotation :: flt
  mi_isMoving :: bool
  mi_isRunning :: bool
  mi_isJumping :: bool
  mi_isCrouching :: bool

definition MovementInput_new :: MovementInput where
  "MovementInput_new =
     \<lparr>mi_inputId = 0, mi_timestamp = Fin 0, mi_position = vec4_zero, mi_velocity = vec4_zero,
      mi_acceleration = vec4_zero, mi_rotation = Fin 0, mi_isMoving = False, mi_isRunning = False,
      mi_isJumping = False, mi_isCrouching = False\<rparr>"

record PredictedState =
  ps_inputId :: u32
  ps_timestamp :: flt
  ps_position :: vec4
  ps_velocity :: vec4
  ps_acceleration :: vec4
  ps_rotation :: flt
  ps_isValid :: bool

definition PredictedState_new :: PredictedState where
  "PredictedState_new =
     \<lparr>ps_inputId = 0, ps_timestamp = Fin 0, ps_position = vec4_zero, ps_velocity = vec4_zero,
      ps_acceleration = vec4_zero, ps_rotation = Fin 0, ps_isValid = False\<rparr>"

record ReconciliationData =
  rd_inputId :: u32
  rd_timestamp :: flt
  rd_serverPosition :: vec4
  rd_clientPosition :: vec4
  rd_positionError :: flt
  rd_needsCorrection :: bool

definition ReconciliationData_new :: ReconciliationData where
  "ReconciliationData_new =
     \<lparr>rd_inputId = 0, rd_timestamp = Fin 0, rd_serverPosition = vec4_zero, rd_clientPosition = vec4_zero,
      rd_positionError = Fin 0, rd_needsCorrection = False\<rparr>"

record PredictionConfig =
  pc_maxPredictionTime :: flt
  pc_reconciliationThreshold :: flt
  pc_interpolationSpeed :: flt
  pc_maxInputHistory :: flt
  pc_maxPredictedStates :: u32
  pc_enableSmoothing :: bool
  pc_enableReconciliation :: bool
  pc_smoothingFactor :: flt

definition PredictionConfig_new :: PredictionConfig where
  "PredictionConfig_new =
     \<lparr>pc_maxPredictionTime = rnd32 (1 / 2), pc_reconciliationThreshold = rnd32 (1 / 10),
      pc_interpolationSpeed = Fin 10, pc_maxInputHistory = Fin 1, pc_maxPredictedStates = 64,
      pc_enableSmoothing = True, pc_enableReconciliation = True, pc_smoothingFactor = rnd32 (1 / 10)\<rparr>"

record PredictionStats =
  pt_totalPredictions :: u32
  pt_totalReconciliations :: u32
  pt_successfulPredictions :: u32
  pt_failedPredictions :: u32
  pt_averagePredictionError :: flt
  pt_maxPredictionError :: flt
  pt_totalPredictionTime :: flt

definition PredictionStats_Reset :: PredictionStats where
  "PredictionStats_Reset =
     \<lparr>pt_totalPredictions = 0, pt_totalReconciliations = 0, pt_successfulPredictions = 0,
      pt_failedPredictions = 0, pt_averagePredictionError = Fin 0, pt_maxPredictionError = Fin 0,
      pt_totalPredictionTime = Fin 0\<rparr>"

datatype MovementCall = PositionUpdate vec4 flt | Reconciled u32 vec4 vec4

record MovementPrediction =
  mp_initialized :: bool
  mp_config :: PredictionConfig
  mp_stats :: PredictionStats
  mp_currentPosition :: vec4
  mp_currentVelocity :: vec4
  mp_currentAcceleration :: vec4
  mp_currentRotation :: flt
  mp_inputHistory :: "MovementInput list"
  mp_inputMap :: "(u32, MovementInput) omap"
  mp_nextInputId :: u32
  mp_predictedStates :: "(u32, PredictedState) omap"
  mp_predictionQueue :: "u32 list"
  mp_reconciliationData :: "(u32, ReconciliationData) omap"
  mp_reconciliationQueue :: "u32 list"
  mp_positionUpdateCallback :: bool
  mp_reconciliationCallback :: bool
  mp_accumulatedTime :: flt
  mp_calls :: "MovementCall list"

definition MovementPrediction_new :: MovementPrediction where
  "MovementPrediction_new =
     \<lparr>mp_initialized = False, mp_config = PredictionConfig_new, mp_stats = PredictionStats_Reset,
      mp_currentPosition = (Fin 0, Fin 0, Fin 0, Fin 1), mp_currentVelocity = vec4_zero,
      mp_currentAcceleration = vec4_zero, mp_currentRotation = Fin 0, mp_inputHistory = [], mp_inputMap = [],
      mp_nextInputId = 1, mp_predictedStates = [], mp_predictionQueue = [], mp_reconciliationData = [],
      mp_reconciliationQueue = [], mp_positionUpdateCallback = False, mp_reconciliationCallback = False,
      mp_accumulatedTime = Fin 0, mp_calls = []\<rparr>"

definition movement_call :: "bool \<Rightarrow> MovementCall \<Rightarrow> MovementPrediction \<Rightarrow> MovementPrediction" where
  "movement_call installed c s = (if installed then s\<lparr>mp_calls := mp_calls s @ [c]\<rparr> else s)"

section \<open>Vector arithmetic\<close>

text \<open>\<open>v * t\<close> added to a position, component by component; the fourth component stays.\<close>

definition advance3 :: "vec4 \<Rightarrow> vec4 \<Rightarrow> flt \<Rightarrow> vec4" where
  "advance3 p v t =
     (case (p, v) of ((px, py, pz, pw), (vx, vy, vz, vw)) \<Rightarrow>
        (add32 px (mul32 vx t), add32 py (mul32 vy t), add32 pz (mul32 vz t), pw))"

definition moved :: "flt \<Rightarrow> flt \<Rightarrow> flt \<Rightarrow> flt" where
  "moved v a t = add32 (mul32 v t) (mul32 (mul32 (mul32 (rnd32 (1 / 2)) a) t) t)"

definition CalculateMovement :: "vec4 \<Rightarrow> vec4 \<Rightarrow> vec4 \<Rightarrow> flt \<Rightarrow> vec4" where
  "CalculateMovement position velocity acceleration deltaTime =
     (case (position, velocity, acceleration) of ((px, py, pz, pw), (vx, vy, vz, vw), (ax, ay, az, aw)) \<Rightarrow>
        (add32 px (moved vx ax deltaTime), add32 py (moved vy ay deltaTime), add32 pz (moved vz az deltaTime), pw))"

definition lerp :: "flt \<Rightarrow> flt \<Rightarrow> flt \<Rightarrow> flt" where
  "lerp a b t = add32 a (mul32 (sub32 b a) t)"

definition LerpPosition :: "vec4 \<Rightarrow> vec4 \<Rightarrow> flt \<Rightarrow> vec4" where
  "LerpPosition a b t =
     (case (a, b) of ((ax, ay, az, aw), (bx, by, bz, bw)) \<Rightarrow> (lerp ax bx t, lerp ay by t, lerp az bz t, Fin 1))"

text \<open>The shorter way round; both tests are made one after the other.\<close>

definition LerpRotation :: "flt \<Rightarrow> flt \<Rightarrow> flt \<Rightarrow> flt" where
  "LerpRotation a b t =
     (let d = sub32 b a;
          d1 = (if f_lt (Fin 180) d then sub32 d (Fin 360) else d);
          d2 = (if f_lt d1 (Fin (- 180)) then add32 d1 (Fin 360) else d1)
      in add32 a (mul32 d2 t))"

definition SmoothPosition :: "vec4 \<Rightarrow> vec4 \<Rightarrow> flt \<Rightarrow> vec4" where
  "SmoothPosition current target factor = LerpPosition current target factor"

definition SmoothRotation :: "flt \<Rightarrow> flt \<Rightarrow> flt \<Rightarrow> flt" where
  "SmoothRotation current target factor = LerpRotation current target factor"

definition SlerpPosition :: "vec4 \<Rightarrow> vec4 \<Rightarrow> flt \<Rightarrow> vec4" where
  "SlerpPosition a b t = LerpPosition a b t"

definition CalculateFriction :: "vec4 \<Rightarrow> flt \<Rightarrow> flt \<Rightarrow> vec4" where
  "CalculateFriction velocity friction deltaTime =
     (case velocity of (x, y, z, w) \<Rightarrow>
        (mul32 x (f_neg friction), mul32 y (f_neg friction), mul32 z (f_neg friction), w))"

definition CalculateGravity :: "vec4 \<Rightarrow> flt \<Rightarrow> flt \<Rightarrow> vec4" where
  "CalculateGravity velocity gravity deltaTime =
     (case velocity of (x, y, z, w) \<Rightarrow> (x, sub32 y (mul32 gravity deltaTime), z, w))"

definition PredictCollision :: "vec4 \<Rightarrow> vec4 \<Rightarrow> vec4 \<Rightarrow> flt \<Rightarrow> bool" where
  "PredictCollision position velocity target radius = f_le (distance3 target position) radius"

definition PredictCollisionPoint :: "vec4 \<Rightarrow> vec4 \<Rightarrow> vec4 \<Rightarrow> flt \<Rightarrow> vec4" where
  "PredictCollisionPoint position velocity target radius = target"

definition finite_flt :: "flt \<Rightarrow> bool" where
  "finite_flt a \<longleftrightarrow> (case a of Fin x \<Rightarrow> True | _ \<Rightarrow> False)"

definition finite3 :: "vec4 \<Rightarrow> bool" where
  "finite3 v \<longleftrightarrow> (case v of (x, y, z, w) \<Rightarrow> finite_flt x \<and> finite_flt y \<and> finite_flt z)"

definition ValidatePosition :: "vec4 \<Rightarrow> bool" where
  "ValidatePosition position = finite3 position"

definition ValidateVelocity :: "vec4 \<Rightarrow> bool" where
  "ValidateVelocity velocity = finite3 velocity"

definition ValidateMovementInput :: "MovementInput \<Rightarrow> bool" where
  "ValidateMovementInput input \<longleftrightarrow> ValidatePosition (mi_position input) \<and> ValidateVelocity (mi_velocity input)"

section \<open>Prediction\<close>

definition PredictPosition :: "vec4 \<Rightarrow> vec4 \<Rightarrow> vec4 \<Rightarrow> flt \<Rightarrow> vec4" where
  "PredictPosition currentPos velocity acceleration deltaTime =
     (case (currentPos, velocity, acceleration) of ((px, py, pz, pw), (vx, vy, vz, vw), (ax, ay, az, aw)) \<Rightarrow>
        (add32 px (moved vx ax deltaTime), add32 py (moved vy ay deltaTime), add32 pz (moved vz az deltaTime), pw))"

definition PredictVelocity :: "vec4 \<Rightarrow> vec4 \<Rightarrow> flt \<Rightarrow> vec4" where
  "PredictVelocity currentVel acceleration deltaTime = advance3 currentVel acceleration deltaTime"

definition PredictRotation :: "flt \<Rightarrow> flt \<Rightarrow> flt" where
  "PredictRotation currentRotation deltaTime = currentRotation"

definition InterpolatePosition :: "vec4 \<Rightarrow> vec4 \<Rightarrow> flt \<Rightarrow> vec4" where
  "InterpolatePosition a b factor =
     (case (a, b) of ((ax, ay, az, aw), (bx, by, bz, bw)) \<Rightarrow>
        (lerp ax bx factor, lerp ay by factor, lerp az bz factor, Fin 1))"

definition InterpolateRotation :: "flt \<Rightarrow> flt \<Rightarrow> flt \<Rightarrow> flt" where
  "InterpolateRotation a b factor =
     (let d = sub32 b a;
          d1 = (if f_lt (Fin 180) d then sub32 d (Fin 360) else d);
          d2 = (if f_lt d1 (Fin (- 180)) then add32 d1 (Fin 360) else d1)
      in add32 a (mul32 d2 factor))"

definition ClearInputs :: "MovementPrediction \<Rightarrow> MovementPrediction" where
  "ClearInputs s =
     s\<lparr>mp_inputHistory := [], mp_inputMap := [], mp_predictedStates := [], mp_reconciliationData := [],
       mp_predictionQueue := [], mp_reconciliationQueue := []\<rparr>"

definition MovPred_Initialize :: "PredictionConfig \<Rightarrow> MovementPrediction \<Rightarrow> bool \<times> MovementPrediction" where
  "MovPred_Initialize config s =
     (if mp_initialized s then (True, s) else (True, s\<lparr>mp_config := config, mp_initialized := True\<rparr>))"

definition MovPred_Shutdown :: "MovementPrediction \<Rightarrow> MovementPrediction" where
  "MovPred_Shutdown s =
     (if \<not> mp_initialized s then s
      else (ClearInputs s)\<lparr>mp_predictedStates := [], mp_reconciliationData := [], mp_predictionQueue := [],
             mp_reconciliationQueue := [], mp_initialized := False\<rparr>)"

text \<open>The time of day in seconds as a \<open>float\<close>: milliseconds are cast and divided.\<close>

definition day_seconds :: "time_point \<Rightarrow> flt" where
  "day_seconds now = div32 (rnd32 (of_int (now div 1000000))) (Fin 1000)"

definition CleanupOldInputs :: "time_point \<Rightarrow> MovementPrediction \<Rightarrow> MovementPrediction" where
  "CleanupOldInputs now s =
     s\<lparr>mp_inputMap := filter (\<lambda>(k, i).
         \<not> f_lt (pc_maxInputHistory (mp_config s)) (sub32 (day_seconds now) (mi_timestamp i))) (mp_inputMap s)\<rparr>"

definition CleanupOldStates :: "MovementPrediction \<Rightarrow> MovementPrediction" where
  "CleanupOldStates s =
     (let states = mp_predictedStates s; limit = unat (pc_maxPredictedStates (mp_config s))
      in if limit < length states then s\<lparr>mp_predictedStates := drop ((length states - limit + 1) div 2) states\<rparr> else s)"

definition AddInput :: "time_point \<Rightarrow> MovementInput \<Rightarrow> MovementPrediction \<Rightarrow> MovementPrediction" where
  "AddInput now input s =
     (if \<not> mp_initialized s \<or> \<not> ValidateMovementInput input then s
      else
        let (inputCopy, s1) =
              (if mi_inputId input = 0
               then (input\<lparr>mi_inputId := mp_nextInputId s\<rparr>, s\<lparr>mp_nextInputId := mp_nextInputId s + 1\<rparr>)
               else (input, s))
        in CleanupOldInputs now
             (s1\<lparr>mp_inputHistory := mp_inputHistory s1 @ [inputCopy],
                 mp_inputMap := om_put (mi_inputId inputCopy) inputCopy (mp_inputMap s1)\<rparr>))"

definition PredictMovement ::
    "flt \<Rightarrow> MovementInput \<Rightarrow> flt \<Rightarrow> MovementPrediction \<Rightarrow> PredictedState \<times> MovementPrediction" where
  "PredictMovement took input deltaTime s =
     (if \<not> mp_initialized s then (PredictedState_new, s)
      else
        let predictedState = PredictedState_new
              \<lparr>ps_inputId := mi_inputId input, ps_timestamp := mi_timestamp input,
               ps_position := PredictPosition (mp_currentPosition s) (mi_velocity input) (mi_acceleration input) deltaTime,
               ps_velocity := PredictVelocity (mi_velocity input) (mi_acceleration input) deltaTime,
               ps_rotation := PredictRotation (mi_rotation input) deltaTime, ps_isValid := True\<rparr>;
            st = mp_stats s
        in (predictedState,
            s\<lparr>mp_predictedStates := om_put (mi_inputId input) predictedState (mp_predictedStates s),
              mp_predictionQueue := mp_predictionQueue s @ [mi_inputId input],
              mp_stats := st\<lparr>pt_totalPredictionTime := add32 (pt_totalPredictionTime st) took,
                             pt_totalPredictions := pt_totalPredictions st + 1\<rparr>\<rparr>))"

fun PredictMovementSequence ::
    "flt \<Rightarrow> MovementInput list \<Rightarrow> flt \<Rightarrow> MovementPrediction \<Rightarrow> PredictedState list \<times> MovementPrediction" where
  "PredictMovementSequence took [] deltaTime s = ([], s)"
| "PredictMovementSequence took (i # inputs) deltaTime s =
     (case PredictMovement took i deltaTime s of (p, s1) \<Rightarrow>
       (case PredictMovementSequence took inputs deltaTime s1 of (ps, s2) \<Rightarrow> (p # ps, s2)))"

definition ProcessMovementInput :: "flt \<Rightarrow> flt \<Rightarrow> MovementInput \<Rightarrow> MovementPrediction \<Rightarrow> MovementPrediction" where
  "ProcessMovementInput took deltaTime input s =
     (let s1 = (if mi_isMoving input
                then s\<lparr>mp_currentVelocity := mi_velocity input, mp_currentAcceleration := mi_acceleration input\<rparr>
                else s);
          (predictedState, s2) = PredictMovement took input deltaTime (s1\<lparr>mp_currentRotation := mi_rotation input\<rparr>);
          s3 = s2\<lparr>mp_currentPosition := ps_position predictedState\<rparr>
      in movement_call (mp_positionUpdateCallback s3) (PositionUpdate (mp_currentPosition s3) (mi_timestamp input)) s3)"

definition UpdateCurrentState :: "flt \<Rightarrow> MovementPrediction \<Rightarrow> MovementPrediction" where
  "UpdateCurrentState deltaTime s =
     s\<lparr>mp_currentPosition := advance3 (mp_currentPosition s) (mp_currentVelocity s) deltaTime,
       mp_currentVelocity := advance3 (mp_currentVelocity s) (mp_currentAcceleration s) deltaTime\<rparr>"

section \<open>Reconciliation\<close>

definition CalculatePositionError :: "vec4 \<Rightarrow> vec4 \<Rightarrow> flt" where
  "CalculatePositionError predicted actual = distance3 predicted actual"

definition SmoothCorrection :: "vec4 \<Rightarrow> flt \<Rightarrow> MovementPrediction \<Rightarrow> MovementPrediction" where
  "SmoothCorrection targetPosition deltaTime s =
     s\<lparr>mp_currentPosition := InterpolatePosition (mp_currentPosition s) targetPosition
         (mul32 (pc_smoothingFactor (mp_config s)) deltaTime)\<rparr>"

definition PerformReconciliation :: "u32 \<Rightarrow> vec4 \<Rightarrow> MovementPrediction \<Rightarrow> MovementPrediction" where
  "PerformReconciliation inputId serverPosition s =
     (case om_find (mp_predictedStates s) inputId of
        None \<Rightarrow> s
      | Some predicted \<Rightarrow>
          let err = CalculatePositionError (ps_position predicted) serverPosition;
              s1 = (if f_lt (pc_reconciliationThreshold (mp_config s)) err then
                      (let s2 = (if pc_enableSmoothing (mp_config s)
                                 then SmoothCorrection serverPosition (rnd32 (16 / 1000)) s
                                 else s\<lparr>mp_currentPosition := serverPosition\<rparr>);
                           st = mp_stats s2
                       in movement_call (mp_reconciliationCallback s2)
                            (Reconciled inputId (ps_position predicted) serverPosition)
                            (s2\<lparr>mp_stats := st\<lparr>
                               pt_averagePredictionError := div32 (add32 (pt_averagePredictionError st) err) (Fin 2),
                               pt_maxPredictionError := f_max (pt_maxPredictionError st) err\<rparr>\<rparr>))
                    else s\<lparr>mp_stats := (mp_stats s)\<lparr>
                           pt_successfulPredictions := pt_successfulPredictions (mp_stats s) + 1\<rparr>\<rparr>)
          in s1\<lparr>mp_predictedStates := om_erase inputId (mp_predictedStates s1)\<rparr>)"

text \<open>One pass of the loop over the queue.\<close>

definition reconcile_next :: "u32 \<Rightarrow> MovementPrediction \<Rightarrow> MovementPrediction" where
  "reconcile_next inputId s =
     (case om_find (mp_reconciliationData s) inputId of
        None \<Rightarrow> s
      | Some d \<Rightarrow> PerformReconciliation inputId (rd_serverPosition d) s)"

definition ProcessInputs :: "flt \<Rightarrow> flt \<Rightarrow> MovementPrediction \<Rightarrow> MovementPrediction" where
  "ProcessInputs took deltaTime s =
     (if \<not> mp_initialized s then s
      else
        let s1 = s\<lparr>mp_accumulatedTime := add32 (mp_accumulatedTime s) deltaTime\<rparr>;
            s2 = fold (ProcessMovementInput took deltaTime) (mp_inputHistory s1) (s1\<lparr>mp_inputHistory := []\<rparr>);
            s3 = UpdateCurrentState deltaTime s2
        in fold reconcile_next (mp_reconciliationQueue s3) (s3\<lparr>mp_reconciliationQueue := []\<rparr>))"

definition ReconcileData :: "ReconciliationData \<Rightarrow> MovementPrediction \<Rightarrow> MovementPrediction" where
  "ReconcileData d s =
     (if \<not> mp_initialized s then s
      else s\<lparr>mp_reconciliationData := om_put (rd_inputId d) d (mp_reconciliationData s),
             mp_reconciliationQueue := mp_reconciliationQueue s @ [rd_inputId d],
             mp_stats := (mp_stats s)\<lparr>pt_totalReconciliations := pt_totalReconciliations (mp_stats s) + 1\<rparr>\<rparr>)"

definition ReconcileWithServer :: "u32 \<Rightarrow> vec4 \<Rightarrow> flt \<Rightarrow> MovementPrediction \<Rightarrow> MovementPrediction" where
  "ReconcileWithServer inputId serverPosition timestamp s =
     (if \<not> mp_initialized s then s
      else
        let d = ReconciliationData_new\<lparr>rd_inputId := inputId, rd_timestamp := timestamp,
                  rd_serverPosition := serverPosition\<rparr>
        in ReconcileData
             (case om_find (mp_predictedStates s) inputId of
                None \<Rightarrow> d
              | Some predicted \<Rightarrow>
                  let err = CalculatePositionError (ps_position predicted) serverPosition
                  in d\<lparr>rd_clientPosition := ps_position predicted, rd_positionError := err,
                       rd_needsCorrection := f_lt (pc_reconciliationThreshold (mp_config s)) err\<rparr>) s)"

definition NeedsReconciliation :: "u32 \<Rightarrow> MovementPrediction \<Rightarrow> bool" where
  "NeedsReconciliation inputId s \<longleftrightarrow>
     (case om_find (mp_reconciliationData s) inputId of None \<Rightarrow> False | Some d \<Rightarrow> rd_needsCorrection d)"

section \<open>Access\<close>

definition SetCurrentState :: "vec4 \<Rightarrow> vec4 \<Rightarrow> flt \<Rightarrow> MovementPrediction \<Rightarrow> MovementPrediction" where
  "SetCurrentState position velocity rotation s =
     s\<lparr>mp_currentPosition := position, mp_currentVelocity := velocity, mp_currentRotation := rotation\<rparr>"

definition GetCurrentPosition :: "MovementPrediction \<Rightarrow> vec4" where
  "GetCurrentPosition s = mp_currentPosition s"

definition GetCurrentVelocity :: "MovementPrediction \<Rightarrow> vec4" where
  "GetCurrentVelocity s = mp_currentVelocity s"

definition GetCurrentRotation :: "MovementPrediction \<Rightarrow> flt" where
  "GetCurrentRotation s = mp_currentRotation s"

definition GetPredictedPosition :: "flt \<Rightarrow> MovementPrediction \<Rightarrow> vec4" where
  "GetPredictedPosition timeAhead s = advance3 (mp_currentPosition s) (mp_currentVelocity s) timeAhead"

definition GetPredictedPosition_of :: "u32 \<Rightarrow> MovementPrediction \<Rightarrow> vec4" where
  "GetPredictedPosition_of inputId s =
     (case om_find (mp_predictedStates s) inputId of None \<Rightarrow> mp_currentPosition s | Some p \<Rightarrow> ps_position p)"

definition IsStatePredicted :: "u32 \<Rightarrow> MovementPrediction \<Rightarrow> bool" where
  "IsStatePredicted inputId s \<longleftrightarrow> om_find (mp_predictedStates s) inputId \<noteq> None"

definition MovPred_SetConfig :: "PredictionConfig \<Rightarrow> MovementPrediction \<Rightarrow> MovementPrediction" where
  "MovPred_SetConfig config s = s\<lparr>mp_config := config\<rparr>"

definition MovPred_GetConfig :: "MovementPrediction \<Rightarrow> PredictionConfig" where
  "MovPred_GetConfig s = mp_config s"

definition MovPred_GetStats :: "MovementPrediction \<Rightarrow> PredictionStats" where
  "MovPred_GetStats s = mp_stats s"

definition MovPred_ResetStats :: "MovementPrediction \<Rightarrow> MovementPrediction" where
  "MovPred_ResetStats s = s\<lparr>mp_stats := PredictionStats_Reset\<rparr>"

definition SetPositionUpdateCallback :: "bool \<Rightarrow> MovementPrediction \<Rightarrow> MovementPrediction" where
  "SetPositionUpdateCallback f s = s\<lparr>mp_positionUpdateCallback := f\<rparr>"

definition SetReconciliationCallback :: "bool \<Rightarrow> MovementPrediction \<Rightarrow> MovementPrediction" where
  "SetReconciliationCallback f s = s\<lparr>mp_reconciliationCallback := f\<rparr>"

section \<open>The manager\<close>

record MovementPredictionManager =
  mm_playerPredictions :: "(u32, MovementPrediction) omap"
  mm_globalConfig :: PredictionConfig

definition MovementPredictionManager_new :: MovementPredictionManager where
  "MovementPredictionManager_new = \<lparr>mm_playerPredictions = [], mm_globalConfig = PredictionConfig_new\<rparr>"

definition Mgr_HasPlayer :: "u32 \<Rightarrow> MovementPredictionManager \<Rightarrow> bool" where
  "Mgr_HasPlayer playerId m \<longleftrightarrow> om_find (mm_playerPredictions m) playerId \<noteq> None"

definition Mgr_AddPlayer :: "u32 \<Rightarrow> PredictionConfig \<Rightarrow> MovementPredictionManager \<Rightarrow> MovementPredictionManager" where
  "Mgr_AddPlayer playerId config m =
     (if Mgr_HasPlayer playerId m then m
      else m\<lparr>mm_playerPredictions :=
               om_put playerId (snd (MovPred_Initialize config MovementPrediction_new)) (mm_playerPredictions m)\<rparr>)"

definition Mgr_RemovePlayer :: "u32 \<Rightarrow> MovementPredictionManager \<Rightarrow> MovementPredictionManager" where
  "Mgr_RemovePlayer playerId m = m\<lparr>mm_playerPredictions := om_erase playerId (mm_playerPredictions m)\<rparr>"

definition AddPlayerInput :: "time_point \<Rightarrow> u32 \<Rightarrow> MovementInput \<Rightarrow> MovementPredictionManager \<Rightarrow> MovementPredictionManager" where
  "AddPlayerInput now playerId input m =
     m\<lparr>mm_playerPredictions := om_upd playerId (AddInput now input) (mm_playerPredictions m)\<rparr>"

definition ProcessAllInputs :: "flt \<Rightarrow> flt \<Rightarrow> MovementPredictionManager \<Rightarrow> MovementPredictionManager" where
  "ProcessAllInputs took deltaTime m =
     m\<lparr>mm_playerPredictions := om_map (\<lambda>_. ProcessInputs took deltaTime) (mm_playerPredictions m)\<rparr>"

definition GetPlayerPrediction :: "u32 \<Rightarrow> flt \<Rightarrow> MovementPredictionManager \<Rightarrow> PredictedState" where
  "GetPlayerPrediction playerId timeAhead m =
     (case om_find (mm_playerPredictions m) playerId of
        None \<Rightarrow> PredictedState_new
      | Some p \<Rightarrow> PredictedState_new\<lparr>ps_position := GetPredictedPosition timeAhead p, ps_isValid := True\<rparr>)"

definition GetAllPlayerPredictions :: "flt \<Rightarrow> MovementPredictionManager \<Rightarrow> PredictedState list" where
  "GetAllPlayerPredictions timeAhead m =
     map (\<lambda>k. GetPlayerPrediction k timeAhead m) (om_keys (mm_playerPredictions m))"

definition ReconcilePlayer :: "u32 \<Rightarrow> u32 \<Rightarrow> vec4 \<Rightarrow> MovementPredictionManager \<Rightarrow> MovementPredictionManager" where
  "ReconcilePlayer playerId inputId serverPosition m =
     m\<lparr>mm_playerPredictions :=
         om_upd playerId (ReconcileWithServer inputId serverPosition (Fin 0)) (mm_playerPredictions m)\<rparr>"

definition ReconcileAllPlayers :: "(u32, u32 \<times> vec4) omap \<Rightarrow> MovementPredictionManager \<Rightarrow> MovementPredictionManager" where
  "ReconcileAllPlayers reconciliationData m =
     fold (\<lambda>(playerId, inputId, serverPosition). ReconcilePlayer playerId inputId serverPosition) reconciliationData m"

definition SetPlayerConfig :: "u32 \<Rightarrow> PredictionConfig \<Rightarrow> MovementPredictionManager \<Rightarrow> MovementPredictionManager" where
  "SetPlayerConfig playerId config m =
     m\<lparr>mm_playerPredictions := om_upd playerId (MovPred_SetConfig config) (mm_playerPredictions m)\<rparr>"

definition SetGlobalConfig :: "PredictionConfig \<Rightarrow> MovementPredictionManager \<Rightarrow> MovementPredictionManager" where
  "SetGlobalConfig config m =
     m\<lparr>mm_globalConfig := config,
       mm_playerPredictions := om_map (\<lambda>_. MovPred_SetConfig config) (mm_playerPredictions m)\<rparr>"

definition GetAllStats :: "MovementPredictionManager \<Rightarrow> (u32, PredictionStats) omap" where
  "GetAllStats m = om_map (\<lambda>_. MovPred_GetStats) (mm_playerPredictions m)"

definition Mgr_GetPlayerStats :: "u32 \<Rightarrow> MovementPredictionManager \<Rightarrow> PredictionStats" where
  "Mgr_GetPlayerStats playerId m =
     (case om_find (mm_playerPredictions m) playerId of None \<Rightarrow> PredictionStats_Reset | Some p \<Rightarrow> MovPred_GetStats p)"

definition Mgr_Cleanup :: "MovementPredictionManager \<Rightarrow> MovementPredictionManager" where
  "Mgr_Cleanup m = m\<lparr>mm_playerPredictions := []\<rparr>"

definition ResetAllStats :: "MovementPredictionManager \<Rightarrow> MovementPredictionManager" where
  "ResetAllStats m = m\<lparr>mm_playerPredictions := om_map (\<lambda>_. MovPred_ResetStats) (mm_playerPredictions m)\<rparr>"

end
