(* ===== verification/MovementProps.thy ===== *)
theory MovementProps
  imports Movement
begin

text \<open>
  Properties of movement prediction: the invariant of one prediction object over all its operations,
  what the reconciliation loop settles, and the independence of the players of a manager.
\<close>

section \<open>The reconciliation loop\<close>

lemma movement_call_fields [simp]:
  "mp_initialized (movement_call b c s) = mp_initialized s"
  "mp_config (movement_call b c s) = mp_config s"
  "mp_stats (movement_call b c s) = mp_stats s"
  "mp_inputHistory (movement_call b c s) = mp_inputHistory s"
  "mp_inputMap (movement_call b c s) = mp_inputMap s"
  "mp_nextInputId (movement_call b c s) = mp_nextInputId s"
  "mp_predictedStates (movement_call b c s) = mp_predictedStates s"
  "mp_predictionQueue (movement_call b c s) = mp_predictionQueue s"
  "mp_reconciliationData (movement_call b c s) = mp_reconciliationData s"
  "mp_reconciliationQueue (movement_call b c s) = mp_reconciliationQueue s"
  "mp_positionUpdateCallback (movement_call b c s) = mp_positionUpdateCallback s"
  "mp_reconciliationCallback (movement_call b c s) = mp_reconciliationCallback s"
  "mp_currentPosition (movement_call b c s) = mp_currentPosition s"
  "mp_calls (movement_call b c s) = (if b then mp_calls s @ [c] else mp_calls s)"
  by (simp_all add: movement_call_def)

lemma SmoothCorrection_fields [simp]:
  "mp_initialized (SmoothCorrection p t s) = mp_initialized s"
  "mp_config (SmoothCorrection p t s) = mp_config s"
  "mp_stats (SmoothCorrection p t s) = mp_stats s"
  "mp_inputHistory (SmoothCorrection p t s) = mp_inputHistory s"
  "mp_inputMap (SmoothCorrection p t s) = mp_inputMap s"
  "mp_nextInputId (SmoothCorrection p t s) = mp_nextInputId s"
  "mp_predictedStates (SmoothCorrection p t s) = mp_predictedStates s"
  "mp_predictionQueue (SmoothCorrection p t s) = mp_predictionQueue s"
  "mp_reconciliationData (SmoothCorrection p t s) = mp_reconciliationData s"
  "mp_reconciliationQueue (SmoothCorrection p t s) = mp_reconciliationQueue s"
  "mp_reconciliationCallback (SmoothCorrection p t s) = mp_reconciliationCallback s"
  "mp_calls (SmoothCorrection p t s) = mp_calls s"
  by (simp_all add: SmoothCorrection_def)

lemma PerformReconciliation_fields [simp]:
  "mp_initialized (PerformReconciliation k p s) = mp_initialized s"
  "mp_config (PerformReconciliation k p s) = mp_config s"
  "mp_inputHistory (PerformReconciliation k p s) = mp_inputHistory s"
  "mp_inputMap (PerformReconciliation k p s) = mp_inputMap s"
  "mp_nextInputId (PerformReconciliation k p s) = mp_nextInputId s"
  "mp_predictionQueue (PerformReconciliation k p s) = mp_predictionQueue s"
  "mp_reconciliationData (PerformReconciliation k p s) = mp_reconciliationData s"
  "mp_reconciliationQueue (PerformReconciliation k p s) = mp_reconciliationQueue s"
  "mp_reconciliationCallback (PerformReconciliation k p s) = mp_reconciliationCallback s"
  by (simp_all add: PerformReconciliation_def Let_def split: option.split)

lemma om_erase_absent: "om_find m k = None \<Longrightarrow> om_erase k m = m"
  by (induction m) (auto simp: om_find_def om_erase_def split: if_splits)

lemma PerformReconciliation_states:
  "mp_predictedStates (PerformReconciliation k p s) = om_erase k (mp_predictedStates s)"
  by (auto simp: PerformReconciliation_def Let_def om_erase_absent split: option.split)

lemma reconcile_next_fields [simp]:
  "mp_initialized (reconcile_next k s) = mp_initialized s"
  "mp_config (reconcile_next k s) = mp_config s"
  "mp_inputHistory (reconcile_next k s) = mp_inputHistory s"
  "mp_inputMap (reconcile_next k s) = mp_inputMap s"
  "mp_nextInputId (reconcile_next k s) = mp_nextInputId s"
  "mp_predictionQueue (reconcile_next k s) = mp_predictionQueue s"
  "mp_reconciliationData (reconcile_next k s) = mp_reconciliationData s"
  "mp_reconciliationQueue (reconcile_next k s) = mp_reconciliationQueue s"
  "mp_reconciliationCallback (reconcile_next k s) = mp_reconciliationCallback s"
  by (simp_all add: reconcile_next_def split: option.split)

lemma reconcile_loop_fields [simp]:
  "mp_initialized (fold reconcile_next ks s) = mp_initialized s"
  "mp_config (fold reconcile_next ks s) = mp_config s"
  "mp_inputHistory (fold reconcile_next ks s) = mp_inputHistory s"
  "mp_inputMap (fold reconcile_next ks s) = mp_inputMap s"
  "mp_nextInputId (fold reconcile_next ks s) = mp_nextInputId s"
  "mp_predictionQueue (fold reconcile_next ks s) = mp_predictionQueue s"
  "mp_reconciliationData (fold reconcile_next ks s) = mp_reconciliationData s"
  "mp_reconciliationQueue (fold reconcile_next ks s) = mp_reconciliationQueue s"
  "mp_reconciliationCallback (fold reconcile_next ks s) = mp_reconciliationCallback s"
  by (induction ks arbitrary: s) simp_all

definition corrections :: "MovementCall list \<Rightarrow> MovementCall list" where
  "corrections cs = filter (\<lambda>c. case c of Reconciled k p q \<Rightarrow> True | PositionUpdate p t \<Rightarrow> False) cs"

lemma corrections_simps [simp]:
  "corrections [] = []" "corrections (cs @ ds) = corrections cs @ corrections ds"
  "corrections [Reconciled k p q] = [Reconciled k p q]" "corrections [PositionUpdate p t] = []"
  by (simp_all add: corrections_def)

text \<open>Predictions that wait, were right, or were corrected.\<close>

definition settled_or_waiting :: "MovementPrediction \<Rightarrow> u32" where
  "settled_or_waiting s =
     of_nat (length (mp_predictedStates s)) + pt_successfulPredictions (mp_stats s)
       + of_nat (length (corrections (mp_calls s)))"

lemma length_erase_present:
  assumes "om_sorted m" "om_find m k = Some v"
  shows "length m = Suc (length (om_erase k m))"
  using length_om_erase [OF assms(1), of k] assms(2) by (cases m) auto

lemma PerformReconciliation_books:
  assumes "om_sorted (mp_predictedStates s)" "mp_reconciliationCallback s"
  shows "settled_or_waiting (PerformReconciliation k p s) = settled_or_waiting s"
proof (cases "om_find (mp_predictedStates s) k")
  case (Some v)
  note l = length_erase_present [OF assms(1) Some]
  show ?thesis
    using assms(2) Some
    by (simp add: PerformReconciliation_def settled_or_waiting_def Let_def l)
qed (simp add: PerformReconciliation_def)

lemma reconcile_loop_books:
  "om_sorted (mp_predictedStates s) \<Longrightarrow> mp_reconciliationCallback s \<Longrightarrow>
     settled_or_waiting (fold reconcile_next ks s) = settled_or_waiting s
     \<and> om_sorted (mp_predictedStates (fold reconcile_next ks s))"
proof (induction ks arbitrary: s)
  case (Cons k ks)
  have "settled_or_waiting (reconcile_next k s) = settled_or_waiting s
      \<and> om_sorted (mp_predictedStates (reconcile_next k s))"
    using Cons.prems
    by (simp add: reconcile_next_def PerformReconciliation_books PerformReconciliation_states split: option.split)
  then show ?case using Cons.IH [of "reconcile_next k s"] Cons.prems(2) by simp
qed simp

lemma reconcile_loop_states:
  "\<forall>k \<in> set ks. om_find (mp_reconciliationData s) k \<noteq> None \<Longrightarrow>
     mp_predictedStates (fold reconcile_next ks s) = filter (\<lambda>e. fst e \<notin> set ks) (mp_predictedStates s)"
proof (induction ks arbitrary: s)
  case (Cons k ks)
  have "mp_predictedStates (reconcile_next k s) = om_erase k (mp_predictedStates s)"
    using Cons.prems by (auto simp: reconcile_next_def PerformReconciliation_states)
  then show ?case using Cons by (simp add: om_erase_def conj_commute cong: conj_cong)
qed simp

section \<open>The input loop\<close>

lemma PredictMovement_fields:
  assumes "mp_initialized s"
  shows "mp_predictedStates (snd (PredictMovement took i dt s)) =
       om_put (mi_inputId i) (fst (PredictMovement took i dt s)) (mp_predictedStates s)"
    and "ps_inputId (fst (PredictMovement took i dt s)) = mi_inputId i"
    and "ps_isValid (fst (PredictMovement took i dt s))"
    and "mp_predictionQueue (snd (PredictMovement took i dt s)) = mp_predictionQueue s @ [mi_inputId i]"
    and "pt_successfulPredictions (mp_stats (snd (PredictMovement took i dt s))) = pt_successfulPredictions (mp_stats s)"
  using assms by (simp_all add: PredictMovement_def Let_def)

lemma PredictMovement_frame [simp]:
  "mp_initialized (snd (PredictMovement took i dt s)) = mp_initialized s"
  "mp_config (snd (PredictMovement took i dt s)) = mp_config s"
  "mp_inputHistory (snd (PredictMovement took i dt s)) = mp_inputHistory s"
  "mp_inputMap (snd (PredictMovement took i dt s)) = mp_inputMap s"
  "mp_nextInputId (snd (PredictMovement took i dt s)) = mp_nextInputId s"
  "mp_reconciliationData (snd (PredictMovement took i dt s)) = mp_reconciliationData s"
  "mp_reconciliationQueue (snd (PredictMovement took i dt s)) = mp_reconciliationQueue s"
  "mp_reconciliationCallback (snd (PredictMovement took i dt s)) = mp_reconciliationCallback s"
  "mp_calls (snd (PredictMovement took i dt s)) = mp_calls s"
  by (simp_all add: PredictMovement_def Let_def)

text \<open>What an operation on a prediction leaves alone and what it does to the states and the queue.\<close>

lemma ProcessMovementInput_effect:
  "mp_initialized (ProcessMovementInput took dt i s) = mp_initialized s"
  "mp_inputHistory (ProcessMovementInput took dt i s) = mp_inputHistory s"
  "mp_inputMap (ProcessMovementInput took dt i s) = mp_inputMap s"
  "mp_reconciliationData (ProcessMovementInput took dt i s) = mp_reconciliationData s"
  "mp_reconciliationQueue (ProcessMovementInput took dt i s) = mp_reconciliationQueue s"
  "mp_reconciliationCallback (ProcessMovementInput took dt i s) = mp_reconciliationCallback s"
  "corrections (mp_calls (ProcessMovementInput took dt i s)) = corrections (mp_calls s)"
  by (simp_all add: ProcessMovementInput_def Let_def case_prod_beta)

lemma ProcessMovementInput_states:
  assumes "mp_initialized s"
  shows "\<exists>p. mp_predictedStates (ProcessMovementInput took dt i s) = om_put (mi_inputId i) p (mp_predictedStates s)
     \<and> ps_inputId p = mi_inputId i \<and> ps_isValid p"
    and "mp_predictionQueue (ProcessMovementInput took dt i s) = mp_predictionQueue s @ [mi_inputId i]"
    and "pt_successfulPredictions (mp_stats (ProcessMovementInput took dt i s)) = pt_successfulPredictions (mp_stats s)"
proof -
  define s1 where "s1 = (if mi_isMoving i
      then s\<lparr>mp_currentVelocity := mi_velocity i, mp_currentAcceleration := mi_acceleration i\<rparr> else s)
      \<lparr>mp_currentRotation := mi_rotation i\<rparr>"
  have s1: "mp_initialized s1" "mp_predictedStates s1 = mp_predictedStates s"
    "mp_predictionQueue s1 = mp_predictionQueue s" "mp_stats s1 = mp_stats s"
    using assms by (simp_all add: s1_def)
  have e: "mp_predictedStates (ProcessMovementInput took dt i s) = mp_predictedStates (snd (PredictMovement took i dt s1))"
    "mp_predictionQueue (ProcessMovementInput took dt i s) = mp_predictionQueue (snd (PredictMovement took i dt s1))"
    "mp_stats (ProcessMovementInput took dt i s) = mp_stats (snd (PredictMovement took i dt s1))"
    by (simp_all add: ProcessMovementInput_def Let_def s1_def case_prod_beta)
  show "\<exists>p. mp_predictedStates (ProcessMovementInput took dt i s) = om_put (mi_inputId i) p (mp_predictedStates s)
     \<and> ps_inputId p = mi_inputId i \<and> ps_isValid p"
    unfolding e using PredictMovement_fields [OF s1(1), of took i dt] s1 by auto
  show "mp_predictionQueue (ProcessMovementInput took dt i s) = mp_predictionQueue s @ [mi_inputId i]"
    "pt_successfulPredictions (mp_stats (ProcessMovementInput took dt i s)) = pt_successfulPredictions (mp_stats s)"
    unfolding e using PredictMovement_fields [OF s1(1), of took i dt] s1 by simp_all
qed

definition keys_of :: "('k, 'v) omap \<Rightarrow> 'k set" where
  "keys_of m = fst ` set m"

lemma keys_of_put [simp]: "keys_of (om_put k v m) = insert k (keys_of m)"
  using set_keys_put [of k v m] by (simp add: keys_of_def)

lemma card_keys_of: "om_sorted m \<Longrightarrow> card (keys_of m) = length m"
  using om_sorted_distinct [of m] distinct_card [of "map fst m"] by (simp add: keys_of_def)

text \<open>The invariant of a prediction object.\<close>

definition states_ok :: "MovementPrediction \<Rightarrow> bool" where
  "states_ok s \<longleftrightarrow> om_sorted (mp_predictedStates s)
     \<and> (\<forall>(k, p) \<in> set (mp_predictedStates s). ps_inputId p = k \<and> ps_isValid p)
     \<and> keys_of (mp_predictedStates s) \<subseteq> set (mp_predictionQueue s)"

definition inputs_ok :: "MovementPrediction \<Rightarrow> bool" where
  "inputs_ok s \<longleftrightarrow> om_sorted (mp_inputMap s)
     \<and> (\<forall>(k, i) \<in> set (mp_inputMap s). mi_inputId i = k \<and> ValidateMovementInput i)
     \<and> (\<forall>i \<in> set (mp_inputHistory s). ValidateMovementInput i)"

definition reconciliation_ok :: "MovementPrediction \<Rightarrow> bool" where
  "reconciliation_ok s \<longleftrightarrow> om_sorted (mp_reconciliationData s)
     \<and> (\<forall>(k, d) \<in> set (mp_reconciliationData s). rd_inputId d = k)
     \<and> set (mp_reconciliationQueue s) \<subseteq> keys_of (mp_reconciliationData s)"

definition prediction_ok :: "MovementPrediction \<Rightarrow> bool" where
  "prediction_ok s \<longleftrightarrow> states_ok s \<and> inputs_ok s \<and> reconciliation_ok s"

lemma states_ok_put:
  assumes "states_ok s" "ps_inputId p = k" "ps_isValid p"
    "mp_predictedStates t = om_put k p (mp_predictedStates s)" "mp_predictionQueue t = mp_predictionQueue s @ [k]"
  shows "states_ok t"
  using assms set_om_put [of k p "mp_predictedStates s"] unfolding states_ok_def by auto

lemma input_loop:
  assumes "mp_initialized s" "states_ok s"
  shows "states_ok (fold (ProcessMovementInput took dt) is s)
     \<and> keys_of (mp_predictedStates (fold (ProcessMovementInput took dt) is s))
         = keys_of (mp_predictedStates s) \<union> mi_inputId ` set is
     \<and> pt_successfulPredictions (mp_stats (fold (ProcessMovementInput took dt) is s)) = pt_successfulPredictions (mp_stats s)"
  using assms
proof (induction "is" arbitrary: s)
  case (Cons i "is")
  obtain p where p: "mp_predictedStates (ProcessMovementInput took dt i s) = om_put (mi_inputId i) p (mp_predictedStates s)"
    "ps_inputId p = mi_inputId i" "ps_isValid p"
    using ProcessMovementInput_states(1) [OF Cons.prems(1), of took dt i] by blast
  have "states_ok (ProcessMovementInput took dt i s)"
    by (rule states_ok_put [OF Cons.prems(2) p(2,3,1) ProcessMovementInput_states(2) [OF Cons.prems(1)]])
  then show ?case
    using Cons.IH [of "ProcessMovementInput took dt i s"] Cons.prems(1) p(1)
      ProcessMovementInput_states(3) [OF Cons.prems(1), of took dt i]
    by (simp add: ProcessMovementInput_effect insert_commute Un_commute)
qed simp

lemma input_loop_frame:
  "mp_initialized (fold (ProcessMovementInput took dt) is s) = mp_initialized s
   \<and> mp_inputHistory (fold (ProcessMovementInput took dt) is s) = mp_inputHistory s
   \<and> mp_inputMap (fold (ProcessMovementInput took dt) is s) = mp_inputMap s
   \<and> mp_reconciliationData (fold (ProcessMovementInput took dt) is s) = mp_reconciliationData s
   \<and> mp_reconciliationQueue (fold (ProcessMovementInput took dt) is s) = mp_reconciliationQueue s
   \<and> mp_reconciliationCallback (fold (ProcessMovementInput took dt) is s) = mp_reconciliationCallback s
   \<and> corrections (mp_calls (fold (ProcessMovementInput took dt) is s)) = corrections (mp_calls s)"
  by (induction "is" arbitrary: s) (simp_all add: ProcessMovementInput_effect)

lemma UpdateCurrentState_frame [simp]:
  "mp_initialized (UpdateCurrentState dt s) = mp_initialized s"
  "mp_inputHistory (UpdateCurrentState dt s) = mp_inputHistory s"
  "mp_inputMap (UpdateCurrentState dt s) = mp_inputMap s"
  "mp_predictedStates (UpdateCurrentState dt s) = mp_predictedStates s"
  "mp_predictionQueue (UpdateCurrentState dt s) = mp_predictionQueue s"
  "mp_reconciliationData (UpdateCurrentState dt s) = mp_reconciliationData s"
  "mp_reconciliationQueue (UpdateCurrentState dt s) = mp_reconciliationQueue s"
  "mp_reconciliationCallback (UpdateCurrentState dt s) = mp_reconciliationCallback s"
  "mp_stats (UpdateCurrentState dt s) = mp_stats s"
  "mp_calls (UpdateCurrentState dt s) = mp_calls s"
  by (simp_all add: UpdateCurrentState_def)

text \<open>The state between the two loops of \<open>ProcessInputs\<close>.\<close>

definition moved_state :: "flt \<Rightarrow> flt \<Rightarrow> MovementPrediction \<Rightarrow> MovementPrediction" where
  "moved_state took dt s =
     (UpdateCurrentState dt (fold (ProcessMovementInput took dt) (mp_inputHistory s)
        (s\<lparr>mp_accumulatedTime := add32 (mp_accumulatedTime s) dt, mp_inputHistory := []\<rparr>)))\<lparr>mp_reconciliationQueue := []\<rparr>"

lemma ProcessInputs_loops:
  "mp_initialized s \<Longrightarrow>
     ProcessInputs took dt s = fold reconcile_next (mp_reconciliationQueue s) (moved_state took dt s)"
  using input_loop_frame [of took dt "mp_inputHistory s"
      "s\<lparr>mp_accumulatedTime := add32 (mp_accumulatedTime s) dt, mp_inputHistory := []\<rparr>"]
  by (simp add: ProcessInputs_def moved_state_def Let_def)

lemma moved_state_facts:
  assumes "mp_initialized s" "states_ok s"
  shows "states_ok (moved_state took dt s)"
    "keys_of (mp_predictedStates (moved_state took dt s)) = keys_of (mp_predictedStates s) \<union> mi_inputId ` set (mp_inputHistory s)"
    "pt_successfulPredictions (mp_stats (moved_state took dt s)) = pt_successfulPredictions (mp_stats s)"
    "corrections (mp_calls (moved_state took dt s)) = corrections (mp_calls s)"
    "mp_inputHistory (moved_state took dt s) = []" "mp_inputMap (moved_state took dt s) = mp_inputMap s"
    "mp_reconciliationData (moved_state took dt s) = mp_reconciliationData s"
    "mp_reconciliationQueue (moved_state took dt s) = []"
    "mp_reconciliationCallback (moved_state took dt s) = mp_reconciliationCallback s"
proof -
  let ?s = "s\<lparr>mp_accumulatedTime := add32 (mp_accumulatedTime s) dt, mp_inputHistory := []\<rparr>"
  have ok: "mp_initialized ?s" "states_ok ?s" using assms by (simp_all add: states_ok_def)
  note l = input_loop [OF ok, of took dt "mp_inputHistory s"]
    and f = input_loop_frame [of took dt "mp_inputHistory s" ?s]
  have "states_ok (fold (ProcessMovementInput took dt) (mp_inputHistory s) ?s)" using l by blast
  then show "states_ok (moved_state took dt s)"
    unfolding moved_state_def states_ok_def by simp
  show "keys_of (mp_predictedStates (moved_state took dt s)) = keys_of (mp_predictedStates s) \<union> mi_inputId ` set (mp_inputHistory s)"
    "pt_successfulPredictions (mp_stats (moved_state took dt s)) = pt_successfulPredictions (mp_stats s)"
    "corrections (mp_calls (moved_state took dt s)) = corrections (mp_calls s)"
    "mp_inputHistory (moved_state took dt s) = []" "mp_inputMap (moved_state took dt s) = mp_inputMap s"
    "mp_reconciliationData (moved_state took dt s) = mp_reconciliationData s"
    "mp_reconciliationQueue (moved_state took dt s) = []"
    "mp_reconciliationCallback (moved_state took dt s) = mp_reconciliationCallback s"
    using l f by (simp_all add: moved_state_def)
qed

section \<open>All operations of a prediction\<close>

datatype movement_op =
    MvInitialize PredictionConfig
  | MvShutdown
  | MvInput time_point MovementInput
  | MvProcess flt flt
  | MvClear
  | MvPredict flt MovementInput flt
  | MvReconcile u32 vec4 flt
  | MvReconcileData ReconciliationData
  | MvSetState vec4 vec4 flt
  | MvConfig PredictionConfig
  | MvResetStats
  | MvCleanupStates
  | MvOnPosition bool
  | MvOnReconcile bool

fun movement_step :: "movement_op \<Rightarrow> MovementPrediction \<Rightarrow> MovementPrediction" where
  "movement_step (MvInitialize c) s = snd (MovPred_Initialize c s)"
| "movement_step MvShutdown s = MovPred_Shutdown s"
| "movement_step (MvInput now i) s = AddInput now i s"
| "movement_step (MvProcess took dt) s = ProcessInputs took dt s"
| "movement_step MvClear s = ClearInputs s"
| "movement_step (MvPredict took i dt) s = snd (PredictMovement took i dt s)"
| "movement_step (MvReconcile k p t) s = ReconcileWithServer k p t s"
| "movement_step (MvReconcileData d) s = ReconcileData d s"
| "movement_step (MvSetState p v r) s = SetCurrentState p v r s"
| "movement_step (MvConfig c) s = MovPred_SetConfig c s"
| "movement_step MvResetStats s = MovPred_ResetStats s"
| "movement_step MvCleanupStates s = CleanupOldStates s"
| "movement_step (MvOnPosition f) s = SetPositionUpdateCallback f s"
| "movement_step (MvOnReconcile f) s = SetReconciliationCallback f s"

lemma prediction_ok_ProcessInputs:
  assumes "prediction_ok s"
  shows "prediction_ok (ProcessInputs took dt s)"
proof (cases "mp_initialized s")
  case True
  have ok: "states_ok s" "inputs_ok s" "reconciliation_ok s" using assms by (simp_all add: prediction_ok_def)
  note m = moved_state_facts [OF True ok(1), of took dt]
  have "\<forall>k \<in> set (mp_reconciliationQueue s). om_find (mp_reconciliationData (moved_state took dt s)) k \<noteq> None"
    using ok(3) m(7) by (auto simp: reconciliation_ok_def om_find_None_iff keys_of_def)
  note st = reconcile_loop_states [OF this]
  have "states_ok (ProcessInputs took dt s)"
    using m(1) unfolding ProcessInputs_loops [OF True] states_ok_def st
    by (auto simp: om_sorted_filter keys_of_def)
  moreover have "inputs_ok (ProcessInputs took dt s)" "reconciliation_ok (ProcessInputs took dt s)"
    using ok m(5-8) by (simp_all add: ProcessInputs_loops [OF True] inputs_ok_def reconciliation_ok_def)
  ultimately show ?thesis by (simp add: prediction_ok_def)
qed (use assms in \<open>simp add: ProcessInputs_def\<close>)

lemma prediction_ok_AddInput: "prediction_ok s \<Longrightarrow> prediction_ok (AddInput now i s)"
proof -
  have keep: "prediction_ok (CleanupOldInputs now
      (s\<lparr>mp_nextInputId := n, mp_inputHistory := mp_inputHistory s @ [j], mp_inputMap := om_put (mi_inputId j) j (mp_inputMap s)\<rparr>))"
    if "prediction_ok s" "ValidateMovementInput j" for j n
    using that set_om_put [of "mi_inputId j" j "mp_inputMap s"]
    by (auto simp: prediction_ok_def inputs_ok_def CleanupOldInputs_def om_sorted_filter states_ok_def reconciliation_ok_def)
  have v: "ValidateMovementInput (i\<lparr>mi_inputId := k\<rparr>) = ValidateMovementInput i" for k
    by (simp add: ValidateMovementInput_def)
  assume ok: "prediction_ok s"
  show ?thesis
    using keep [OF ok, of "i\<lparr>mi_inputId := mp_nextInputId s\<rparr>" "mp_nextInputId s + 1"] keep [OF ok, of i "mp_nextInputId s"] ok
    by (auto simp: AddInput_def v)
qed

lemma prediction_ok_ReconcileData: "prediction_ok s \<Longrightarrow> prediction_ok (ReconcileData d s)"
  using set_om_put [of "rd_inputId d" d "mp_reconciliationData s"]
  by (auto simp: ReconcileData_def prediction_ok_def states_ok_def inputs_ok_def reconciliation_ok_def)

lemma prediction_ok_ReconcileWithServer: "prediction_ok s \<Longrightarrow> prediction_ok (ReconcileWithServer k p t s)"
  by (simp add: ReconcileWithServer_def prediction_ok_ReconcileData Let_def)

lemma prediction_ok_Predict: "prediction_ok s \<Longrightarrow> prediction_ok (snd (PredictMovement took i dt s))"
proof (cases "mp_initialized s")
  case True
  assume ok: "prediction_ok s"
  have "states_ok (snd (PredictMovement took i dt s))"
    by (rule states_ok_put [OF _ PredictMovement_fields(2,3,1,4) [OF True]]) (use ok in \<open>simp add: prediction_ok_def\<close>)
  with ok show ?thesis by (simp add: prediction_ok_def inputs_ok_def reconciliation_ok_def)
qed (simp add: PredictMovement_def)

lemma prediction_ok_CleanupOldStates:
  assumes "prediction_ok s"
  shows "prediction_ok (CleanupOldStates s)"
proof -
  have "states_ok (s\<lparr>mp_predictedStates := drop n (mp_predictedStates s)\<rparr>)" for n
    using assms sorted_wrt_drop [of "(<)" "map fst (mp_predictedStates s)" n] set_drop_subset [of n "mp_predictedStates s"]
    unfolding prediction_ok_def states_ok_def om_sorted_def keys_of_def by (auto simp: drop_map)
  with assms show ?thesis
    by (auto simp: CleanupOldStates_def prediction_ok_def inputs_ok_def reconciliation_ok_def Let_def)
qed

lemma prediction_ok_step: "prediction_ok s \<Longrightarrow> prediction_ok (movement_step x s)"
  by (cases x)
    (auto simp: prediction_ok_ProcessInputs prediction_ok_AddInput prediction_ok_ReconcileData
      prediction_ok_ReconcileWithServer prediction_ok_Predict prediction_ok_CleanupOldStates,
     auto simp: MovPred_Initialize_def MovPred_Shutdown_def ClearInputs_def SetCurrentState_def MovPred_SetConfig_def
      MovPred_ResetStats_def SetPositionUpdateCallback_def SetReconciliationCallback_def
      prediction_ok_def states_ok_def inputs_ok_def reconciliation_ok_def keys_of_def)

lemma prediction_ok_run: "prediction_ok s \<Longrightarrow> prediction_ok (fold movement_step xs s)"
  by (induction xs arbitrary: s) (simp_all add: prediction_ok_step)

lemma prediction_ok_new: "prediction_ok MovementPrediction_new"
  by (simp add: prediction_ok_def states_ok_def inputs_ok_def reconciliation_ok_def MovementPrediction_new_def keys_of_def)

text \<open>
  After any operations: processing the inputs leaves no input and no reconciliation waiting, keeps
  predictions for exactly the inputs that were predicted before or now and were not reconciled, and
  settles each of the others once, as correct or as corrected (and then reported).  The data of a
  reconciliation stay: an input that needed a correction still needs it afterwards.
\<close>

lemma reconciliation_settles:
  assumes "s = fold movement_step xs MovementPrediction_new" "mp_initialized s" "mp_reconciliationCallback s"
    and "t = ProcessInputs took dt s"
    and "predicted = fst ` set (mp_predictedStates s) \<union> mi_inputId ` set (mp_inputHistory s)"
  shows "mp_inputHistory t = [] \<and> mp_reconciliationQueue t = []
     \<and> fst ` set (mp_predictedStates t) = predicted - set (mp_reconciliationQueue s)
     \<and> pt_successfulPredictions (mp_stats t) + of_nat (length (corrections (mp_calls t)))
        = pt_successfulPredictions (mp_stats s) + of_nat (length (corrections (mp_calls s)))
          + of_nat (card (predicted \<inter> set (mp_reconciliationQueue s)))
     \<and> NeedsReconciliation k t = NeedsReconciliation k s"
proof -
  have ok: "states_ok s" "reconciliation_ok s"
    using prediction_ok_run [OF prediction_ok_new, of xs] assms(1) by (simp_all add: prediction_ok_def)
  let ?m = "moved_state took dt s" and ?q = "mp_reconciliationQueue s"
  note m = moved_state_facts [OF assms(2) ok(1), of took dt]
  have t: "t = fold reconcile_next ?q ?m" using ProcessInputs_loops [OF assms(2)] assms(4) by simp
  have "\<forall>k \<in> set ?q. om_find (mp_reconciliationData ?m) k \<noteq> None"
    using ok(2) m(7) by (auto simp: reconciliation_ok_def om_find_None_iff keys_of_def)
  note st = reconcile_loop_states [OF this]
  have pred: "keys_of (mp_predictedStates ?m) = predicted" using m(2) assms(5) by (simp add: keys_of_def)
  have sorted: "om_sorted (mp_predictedStates ?m)" "om_sorted (mp_predictedStates t)"
    using m(1) om_sorted_filter [of "mp_predictedStates ?m"] unfolding t st by (auto simp: states_ok_def)
  have keys: "keys_of (mp_predictedStates t) = predicted - set ?q"
    using pred unfolding t st by (auto simp: keys_of_def)
  have books: "of_nat (card (predicted - set ?q)) + pt_successfulPredictions (mp_stats t) + of_nat (length (corrections (mp_calls t)))
      = of_nat (card predicted) + pt_successfulPredictions (mp_stats s) + (of_nat (length (corrections (mp_calls s))) :: u32)"
    using reconcile_loop_books [of ?m ?q] sorted(1) m(3,4,9) assms(3) card_keys_of [OF sorted(1)] card_keys_of [OF sorted(2)]
      keys pred unfolding settled_or_waiting_def t by simp
  have "finite predicted" using assms(5) by simp
  then have "card predicted = card (predicted - set ?q) + card (predicted \<inter> set ?q)"
    by (metis Diff_Diff_Int Diff_subset add.commute card_Diff_subset card_mono finite_Diff le_add_diff_inverse2)
  then have "(of_nat (card predicted) :: u32) = of_nat (card (predicted - set ?q)) + of_nat (card (predicted \<inter> set ?q))"
    by (metis of_nat_add)
  with books have "pt_successfulPredictions (mp_stats t) + of_nat (length (corrections (mp_calls t)))
        = pt_successfulPredictions (mp_stats s) + of_nat (length (corrections (mp_calls s)))
          + of_nat (card (predicted \<inter> set ?q))"
    by (simp add: algebra_simps)
  with keys m(5,7,8) show ?thesis by (simp add: t keys_of_def NeedsReconciliation_def)
qed

definition demo_input :: MovementInput where
  "demo_input = MovementInput_new\<lparr>mi_inputId := 7, mi_velocity := (Fin 1, Fin 0, Fin 0, Fin 0), mi_isMoving := True\<rparr>"

lemma reconciliation_settles_witness:
  "let s = fold movement_step [MvInitialize PredictionConfig_new, MvOnReconcile True, MvInput 0 demo_input,
             MvReconcile 7 (Fin 9, Fin 0, Fin 0, Fin 0) (Fin 0)] MovementPrediction_new;
       t = ProcessInputs (Fin 0) (Fin 1) s
   in mp_predictedStates t = [] \<and> pt_successfulPredictions (mp_stats t) + of_nat (length (corrections (mp_calls t))) = 1"
proof -
  let ?xs = "[MvInitialize PredictionConfig_new, MvOnReconcile True, MvInput 0 demo_input,
             MvReconcile 7 (Fin 9, Fin 0, Fin 0, Fin 0) (Fin 0)]"
  let ?s = "fold movement_step ?xs MovementPrediction_new"
  have s: "mp_initialized ?s" "mp_reconciliationCallback ?s" "mp_predictedStates ?s = []" "mp_calls ?s = []"
    "map mi_inputId (mp_inputHistory ?s) = [7]" "mp_reconciliationQueue ?s = [7]" "pt_successfulPredictions (mp_stats ?s) = 0"
    by code_simp+
  have "mi_inputId ` set (mp_inputHistory ?s) = {7}" using s(5) by (metis list.set(1,2) list.set_map)
  with reconciliation_settles [OF refl s(1,2) refl refl, of "Fin 0" "Fin 1"] s(3,4,6,7)
  show ?thesis by (simp add: Let_def)
qed

section \<open>Many players\<close>

datatype manager_op =
    MgAdd u32 PredictionConfig
  | MgRemove u32
  | MgInput time_point u32 MovementInput
  | MgProcess flt flt
  | MgReconcile u32 u32 vec4
  | MgReconcileAll "(u32, u32 \<times> vec4) omap"
  | MgConfig u32 PredictionConfig
  | MgGlobal PredictionConfig
  | MgResetStats
  | MgCleanup

fun manager_step :: "manager_op \<Rightarrow> MovementPredictionManager \<Rightarrow> MovementPredictionManager" where
  "manager_step (MgAdd k c) m = Mgr_AddPlayer k c m"
| "manager_step (MgRemove k) m = Mgr_RemovePlayer k m"
| "manager_step (MgInput now k i) m = AddPlayerInput now k i m"
| "manager_step (MgProcess took dt) m = ProcessAllInputs took dt m"
| "manager_step (MgReconcile k i p) m = ReconcilePlayer k i p m"
| "manager_step (MgReconcileAll rs) m = ReconcileAllPlayers rs m"
| "manager_step (MgConfig k c) m = SetPlayerConfig k c m"
| "manager_step (MgGlobal c) m = SetGlobalConfig c m"
| "manager_step MgResetStats m = ResetAllStats m"
| "manager_step MgCleanup m = Mgr_Cleanup m"

text \<open>One player alone: absent, or a prediction object.\<close>

fun player_step :: "u32 \<Rightarrow> manager_op \<Rightarrow> MovementPrediction option \<Rightarrow> MovementPrediction option" where
  "player_step p (MgAdd k c) x =
     (if k = p \<and> x = None then Some (movement_step (MvInitialize c) MovementPrediction_new) else x)"
| "player_step p (MgRemove k) x = (if k = p then None else x)"
| "player_step p (MgInput now k i) x = (if k = p then map_option (movement_step (MvInput now i)) x else x)"
| "player_step p (MgProcess took dt) x = map_option (movement_step (MvProcess took dt)) x"
| "player_step p (MgReconcile k i v) x = (if k = p then map_option (movement_step (MvReconcile i v (Fin 0))) x else x)"
| "player_step p (MgReconcileAll rs) x =
     (case om_find rs p of None \<Rightarrow> x | Some (i, v) \<Rightarrow> map_option (movement_step (MvReconcile i v (Fin 0))) x)"
| "player_step p (MgConfig k c) x = (if k = p then map_option (movement_step (MvConfig c)) x else x)"
| "player_step p (MgGlobal c) x = map_option (movement_step (MvConfig c)) x"
| "player_step p MgResetStats x = map_option (movement_step MvResetStats) x"
| "player_step p MgCleanup x = None"

fun manager_op_ok :: "manager_op \<Rightarrow> bool" where
  "manager_op_ok (MgReconcileAll rs) = om_sorted rs"
| "manager_op_ok x = True"

text \<open>The operations that name a player or all players.\<close>

fun concerns :: "u32 \<Rightarrow> manager_op \<Rightarrow> bool" where
  "concerns p (MgAdd k c) = (k = p)"
| "concerns p (MgRemove k) = (k = p)"
| "concerns p (MgInput now k i) = (k = p)"
| "concerns p (MgReconcile k i v) = (k = p)"
| "concerns p (MgReconcileAll rs) = (om_find rs p \<noteq> None)"
| "concerns p (MgConfig k c) = (k = p)"
| "concerns p x = True"

lemma movement_step_eta:
  "movement_step (MvInput now i) = AddInput now i"
  "movement_step (MvProcess took dt) = ProcessInputs took dt"
  "movement_step (MvReconcile k v u) = ReconcileWithServer k v u"
  "movement_step (MvConfig c) = MovPred_SetConfig c"
  "movement_step MvResetStats = MovPred_ResetStats"
  by (simp_all add: fun_eq_iff)

lemma find_ReconcileAll:
  "distinct (map fst rs) \<Longrightarrow>
     om_find (mm_playerPredictions (ReconcileAllPlayers rs m)) p = player_step p (MgReconcileAll rs) (om_find (mm_playerPredictions m) p)"
proof (induction rs arbitrary: m)
  case (Cons r rs)
  obtain k i v where r: "r = (k, i, v)" by (metis prod_cases3)
  let ?m = "ReconcilePlayer k i v m"
  have step: "om_find (mm_playerPredictions ?m) p
      = player_step p (MgReconcile k i v) (om_find (mm_playerPredictions m) p)"
    by (simp add: ReconcilePlayer_def om_find_upd movement_step_eta)
  have "ReconcileAllPlayers (r # rs) m = ReconcileAllPlayers rs ?m" by (simp add: ReconcileAllPlayers_def r)
  moreover have "om_find rs p = None" if "k = p"
    using Cons.prems that r by (auto simp: om_find_None_iff image_iff)
  ultimately show ?case using Cons.IH [of ?m] Cons.prems step r by (auto simp: om_find_def split: option.split)
qed (simp add: ReconcileAllPlayers_def)

lemma manager_step_player:
  "manager_op_ok x \<Longrightarrow>
     om_find (mm_playerPredictions (manager_step x m)) p = player_step p x (om_find (mm_playerPredictions m) p)"
proof (cases x)
  case (MgReconcileAll rs)
  assume "manager_op_ok x"
  then show ?thesis using MgReconcileAll find_ReconcileAll [OF om_sorted_distinct, of rs m p] by simp
qed (auto simp: Mgr_AddPlayer_def Mgr_HasPlayer_def Mgr_RemovePlayer_def AddPlayerInput_def ProcessAllInputs_def
       ReconcilePlayer_def SetPlayerConfig_def SetGlobalConfig_def ResetAllStats_def Mgr_Cleanup_def om_find_upd movement_step_eta)

lemma player_step_other: "\<not> concerns p x \<Longrightarrow> player_step p x y = y"
  by (cases x) (auto split: option.split)

text \<open>
  The players of a manager are independent: the prediction object of a player is what the
  operations that name this player or all players make of it, each acting as the operation of the
  single object; operations on other players, in between, have no effect on it.
\<close>

lemma players_are_independent:
  assumes "list_all manager_op_ok xs"
  shows "om_find (mm_playerPredictions (fold manager_step xs MovementPredictionManager_new)) p
       = fold (player_step p) (filter (concerns p) xs) None
     \<and> GetPlayerPrediction p dt (fold manager_step xs MovementPredictionManager_new)
       = GetPlayerPrediction p dt (fold manager_step (filter (concerns p) xs) MovementPredictionManager_new)"
proof -
  have run: "om_find (mm_playerPredictions (fold manager_step ys m)) p = fold (player_step p) ys (om_find (mm_playerPredictions m) p)"
    if "list_all manager_op_ok ys" for ys m
    using that by (induction ys arbitrary: m) (simp_all add: manager_step_player)
  have drop_others: "fold (player_step p) ys y = fold (player_step p) (filter (concerns p) ys) y" for ys y
    by (induction ys arbitrary: y) (simp_all add: player_step_other)
  have "list_all manager_op_ok (filter (concerns p) xs)" using assms by (auto simp: list_all_iff)
  then show ?thesis
    using run [OF assms, of MovementPredictionManager_new] run [of "filter (concerns p) xs" MovementPredictionManager_new]
      drop_others [of xs None]
    by (simp add: GetPlayerPrediction_def MovementPredictionManager_new_def)
qed

lemma players_are_independent_witness:
  "let c = PredictionConfig_new; new = MovementPredictionManager_new in
   om_find (mm_playerPredictions (fold manager_step [MgAdd 1 c, MgAdd 2 c, MgInput 0 2 demo_input, MgRemove 2] new)) 1
     = om_find (mm_playerPredictions (fold manager_step [MgAdd 1 c] new)) 1"
proof -
  let ?c = "PredictionConfig_new"
  have "list_all manager_op_ok [MgAdd 1 ?c, MgAdd 2 ?c, MgInput 0 2 demo_input, MgRemove 2]"
    "list_all manager_op_ok [MgAdd 1 ?c]" by simp_all
  then show ?thesis
    using players_are_independent [of "[MgAdd 1 ?c, MgAdd 2 ?c, MgInput 0 2 demo_input, MgRemove 2]" 1]
      players_are_independent [of "[MgAdd 1 ?c]" 1]
    by (simp add: Let_def del: fold_simps)
qed

end
