(* ===== verification/Protocol.thy ===== *)
theory Protocol
  imports BatchCodec Movement
begin

text \<open>
  \<open>optimization/OptimizedNetworkProtocol.cpp\<close>: the protocol that composes compression, batching, the
  traffic manager and movement prediction: messages become packets with a header and a checksum,
  packets are tracked until they are acknowledged or lost, and a received packet is checked and taken
  apart.  \<open>std::sort\<close> is an argument \<open>srt\<close>, a function from a list to a sorted one.  The compression
  object inside the batching component is an argument of \<open>NP_Initialize\<close>.  One call reads the clock
  once.
\<close>

unbundle bit_operations_syntax

section \<open>Packets\<close>

type_synonym u16 = "16 word"

definition PROTOCOL_VERSION :: u32 where
  "PROTOCOL_VERSION = 1"

definition MAX_PACKET_SIZE :: nat where
  "MAX_PACKET_SIZE = 1048576"

definition MAX_MESSAGES_PER_PACKET :: nat where
  "MAX_MESSAGES_PER_PACKET = 100"

datatype PacketType = DataPacket | Acknowledgment | Heartbeat | CompressionPacket | BatchPacket | Control

fun packet_type_byte :: "PacketType \<Rightarrow> u8" where
  "packet_type_byte DataPacket = 0"
| "packet_type_byte Acknowledgment = 1"
| "packet_type_byte Heartbeat = 2"
| "packet_type_byte CompressionPacket = 3"
| "packet_type_byte BatchPacket = 4"
| "packet_type_byte Control = 5"

text \<open>The member \<open>type\<close> is kept as its byte: a received packet may carry any.\<close>

record PacketHeader =
  ph_magic :: u32
  ph_version :: u32
  ph_packetId :: u32
  ph_sequenceNumber :: u32
  ph_timestamp :: u32
  ph_type :: u8
  ph_flags :: u16
  ph_dataSize :: u32
  ph_checksum :: u32

definition PacketHeader_new :: PacketHeader where
  "PacketHeader_new =
     \<lparr>ph_magic = 0xDEADBEEF, ph_version = PROTOCOL_VERSION, ph_packetId = 0, ph_sequenceNumber = 0,
      ph_timestamp = 0, ph_type = packet_type_byte DataPacket, ph_flags = 0, ph_dataSize = 0, ph_checksum = 0\<rparr>"

definition flag_Compressed :: u16 where "flag_Compressed = 1"
definition flag_Fragmented :: u16 where "flag_Fragmented = 16"
definition flag_LastFragment :: u16 where "flag_LastFragment = 32"
definition flag_Batch :: u16 where "flag_Batch = 256"

record NetworkPacket =
  pk_header :: PacketHeader
  pk_data :: "u8 list"
  pk_sendTime :: time_point
  pk_ackTime :: time_point
  pk_retryCount :: u32
  pk_isAcknowledged :: bool

definition NetworkPacket_new :: NetworkPacket where
  "NetworkPacket_new =
     \<lparr>pk_header = PacketHeader_new, pk_data = [], pk_sendTime = 0, pk_ackTime = 0, pk_retryCount = 0,
      pk_isAcknowledged = False\<rparr>"

text \<open>Every product is computed in 64 bits and added to a sum of 32 bits: the sum modulo \<open>2 ^ 32\<close>.\<close>

definition NP_CalculateChecksum :: "u8 list \<Rightarrow> u32" where
  "NP_CalculateChecksum data = fold (\<lambda>(i, b) c. c + ucast b * of_nat (i + 1)) (enumerate 0 data) 0"

definition NP_VerifyChecksum :: "NetworkPacket \<Rightarrow> bool" where
  "NP_VerifyChecksum packet \<longleftrightarrow> NP_CalculateChecksum (pk_data packet) = ph_checksum (pk_header packet)"

definition size_matches :: "NetworkPacket \<Rightarrow> bool" where
  "size_matches packet \<longleftrightarrow> unat (ph_dataSize (pk_header packet)) = length (pk_data packet)"

definition ValidatePacket :: "NetworkPacket \<Rightarrow> bool" where
  "ValidatePacket packet \<longleftrightarrow>
     ph_magic (pk_header packet) = 0xDEADBEEF \<and> ph_version (pk_header packet) = PROTOCOL_VERSION
     \<and> size_matches packet \<and> NP_VerifyChecksum packet"

definition IsValidPacket :: "NetworkPacket \<Rightarrow> bool" where
  "IsValidPacket packet \<longleftrightarrow>
     ph_magic (pk_header packet) = 0xDEADBEEF \<and> ph_version (pk_header packet) = PROTOCOL_VERSION \<and> size_matches packet"

definition with_flag :: "u16 \<Rightarrow> NetworkPacket \<Rightarrow> NetworkPacket" where
  "with_flag f packet =
     packet\<lparr>pk_header := (pk_header packet)\<lparr>ph_flags := ph_flags (pk_header packet) OR f\<rparr>\<rparr>"

definition set_size :: "NetworkPacket \<Rightarrow> NetworkPacket" where
  "set_size packet = packet\<lparr>pk_header := (pk_header packet)\<lparr>ph_dataSize := of_nat (length (pk_data packet))\<rparr>\<rparr>"

definition set_checksum :: "NetworkPacket \<Rightarrow> NetworkPacket" where
  "set_checksum packet =
     packet\<lparr>pk_header := (pk_header packet)\<lparr>ph_checksum := NP_CalculateChecksum (pk_data packet)\<rparr>\<rparr>"

subsection \<open>Bytes\<close>

text \<open>
  The object representation of the header: 32 bytes, with one byte of padding, of any value, between
  the type and the flags.
\<close>

definition le16 :: "u16 \<Rightarrow> u8 list" where
  "le16 w = [ucast w, ucast (drop_bit 8 w)]"

definition read_le16 :: "u8 list \<Rightarrow> u16" where
  "read_le16 bs = ucast (bs ! 0) OR push_bit 8 (ucast (bs ! 1))"

definition header_wire :: "u8 \<Rightarrow> PacketHeader \<Rightarrow> u8 list" where
  "header_wire pad h =
     le32 (ph_magic h) @ le32 (ph_version h) @ le32 (ph_packetId h) @ le32 (ph_sequenceNumber h)
       @ le32 (ph_timestamp h) @ [ph_type h, pad] @ le16 (ph_flags h) @ le32 (ph_dataSize h) @ le32 (ph_checksum h)"

definition read_header :: "u8 list \<Rightarrow> PacketHeader" where
  "read_header bs =
     \<lparr>ph_magic = read_le32 bs, ph_version = read_le32 (drop 4 bs), ph_packetId = read_le32 (drop 8 bs),
      ph_sequenceNumber = read_le32 (drop 12 bs), ph_timestamp = read_le32 (drop 16 bs), ph_type = bs ! 20,
      ph_flags = read_le16 (drop 22 bs), ph_dataSize = read_le32 (drop 24 bs), ph_checksum = read_le32 (drop 28 bs)\<rparr>"

definition SerializePacket :: "u8 \<Rightarrow> NetworkPacket \<Rightarrow> u8 list" where
  "SerializePacket pad packet = header_wire pad (pk_header packet) @ pk_data packet"

definition DeserializePacket :: "u8 list \<Rightarrow> NetworkPacket" where
  "DeserializePacket bytes =
     (if length bytes < 32 then NetworkPacket_new
      else
        let packet = NetworkPacket_new\<lparr>pk_header := read_header bytes\<rparr>;
            n = unat (ph_dataSize (pk_header packet))
        in if 32 + n \<le> length bytes then packet\<lparr>pk_data := take n (drop 32 bytes)\<rparr> else packet)"

definition CreateDataPacket :: "u8 list \<Rightarrow> u32 \<Rightarrow> NetworkPacket" where
  "CreateDataPacket bytes packetId =
     NetworkPacket_new\<lparr>pk_data := bytes, pk_header := PacketHeader_new\<lparr>ph_packetId := packetId,
       ph_type := packet_type_byte DataPacket, ph_dataSize := of_nat (length bytes), ph_checksum := 0\<rparr>\<rparr>"

definition CreateAckPacket :: "u32 \<Rightarrow> u32 \<Rightarrow> NetworkPacket" where
  "CreateAckPacket ackedPacketId packetId =
     NetworkPacket_new\<lparr>pk_data := le32 ackedPacketId, pk_header := PacketHeader_new\<lparr>ph_packetId := packetId,
       ph_type := packet_type_byte Acknowledgment, ph_dataSize := 4, ph_checksum := 0\<rparr>\<rparr>"

definition CreateHeartbeatPacket :: "u32 \<Rightarrow> NetworkPacket" where
  "CreateHeartbeatPacket packetId =
     NetworkPacket_new\<lparr>pk_header := PacketHeader_new\<lparr>ph_packetId := packetId,
       ph_type := packet_type_byte Heartbeat, ph_dataSize := 0, ph_checksum := 0\<rparr>\<rparr>"

definition packet_age :: "time_point \<Rightarrow> NetworkPacket \<Rightarrow> flt" where
  "packet_age now packet = mul32 (seconds32 (now - pk_sendTime packet)) (Fin 1000)"

definition IsPacketExpired :: "time_point \<Rightarrow> NetworkPacket \<Rightarrow> flt \<Rightarrow> bool" where
  "IsPacketExpired now packet maxAge \<longleftrightarrow> f_lt maxAge (packet_age now packet)"

text \<open>The two branches of \<open>OptimizePacketSize\<close> and the four of \<open>OptimizePacket\<close> hold only comments.\<close>

definition OptimizePacketSize :: "NetworkPacket \<Rightarrow> NetworkPacket" where
  "OptimizePacketSize packet = packet"

definition by_sequence :: "NetworkPacket \<Rightarrow> NetworkPacket \<Rightarrow> bool" where
  "by_sequence a b \<longleftrightarrow> ph_sequenceNumber (pk_header a) < ph_sequenceNumber (pk_header b)"

definition OptimizePacketOrder :: "NetworkPacket list \<Rightarrow> NetworkPacket list \<Rightarrow> bool" where
  "OptimizePacketOrder = sorts_to by_sequence"

subsection \<open>Fragments\<close>

definition fragment_size :: nat where
  "fragment_size = MAX_PACKET_SIZE - 32"

definition fragment_count :: "nat \<Rightarrow> nat" where
  "fragment_count n = (n + fragment_size - 1) div fragment_size"

definition nth_fragment :: "NetworkPacket \<Rightarrow> nat \<Rightarrow> NetworkPacket" where
  "nth_fragment packet i =
     (let fragment = with_flag flag_Fragmented packet;
          fragment1 = (if i = fragment_count (length (pk_data packet)) - 1 then with_flag flag_LastFragment fragment else fragment);
          start = i * fragment_size;
          stop = min (start + fragment_size) (length (pk_data packet))
      in set_checksum (set_size (fragment1\<lparr>pk_data := take (stop - start) (drop start (pk_data packet))\<rparr>)))"

definition FragmentPacket :: "NetworkPacket \<Rightarrow> NetworkPacket list" where
  "FragmentPacket packet =
     (if length (pk_data packet) \<le> MAX_PACKET_SIZE then [packet]
      else map (nth_fragment packet) [0 ..< fragment_count (length (pk_data packet))])"

definition without_fragment_flags :: "u16 \<Rightarrow> u16" where
  "without_fragment_flags f = f AND NOT flag_Fragmented AND NOT flag_LastFragment"

definition DefragmentPacket :: "(NetworkPacket list \<Rightarrow> NetworkPacket list) \<Rightarrow> NetworkPacket list \<Rightarrow> NetworkPacket" where
  "DefragmentPacket srt fragments =
     (if fragments = [] then NetworkPacket_new
      else
        let sortedFragments = srt fragments; first = hd sortedFragments;
            combined = first\<lparr>pk_header := (pk_header first)\<lparr>ph_flags := without_fragment_flags (ph_flags (pk_header first))\<rparr>,
                             pk_data := concat (map pk_data sortedFragments)\<rparr>
        in set_checksum (set_size combined))"

section \<open>The protocol\<close>

record NetworkStats =
  ns_packetsSent :: u32
  ns_packetsReceived :: u32
  ns_packetsLost :: u32
  ns_packetsRetransmitted :: u32
  ns_bytesSent :: u32
  ns_bytesReceived :: u32
  ns_averageLatency :: flt
  ns_maxLatency :: flt
  ns_packetLossRate :: flt
  ns_throughput :: flt
  ns_compressionRatio :: u32
  ns_batchEfficiency :: u32

definition NetworkStats_Reset :: NetworkStats where
  "NetworkStats_Reset =
     \<lparr>ns_packetsSent = 0, ns_packetsReceived = 0, ns_packetsLost = 0, ns_packetsRetransmitted = 0,
      ns_bytesSent = 0, ns_bytesReceived = 0, ns_averageLatency = Fin 0, ns_maxLatency = Fin 0,
      ns_packetLossRate = Fin 0, ns_throughput = Fin 0, ns_compressionRatio = 0, ns_batchEfficiency = 0\<rparr>"

datatype ProtocolCall = MessageReceived PrioritizedMessage | PacketSent NetworkPacket | PacketLost u32

text \<open>The components are behind pointers that are null before the initialisation.\<close>

record OptimizedNetworkProtocol =
  nw_initialized :: bool
  nw_stats :: NetworkStats
  nw_compression :: "DataCompression option"
  nw_batching :: "SmartBatching option"
  nw_trafficManager :: "NetworkTrafficManager option"
  nw_predictionManager :: "MovementPredictionManager option"
  nw_sendQueue :: "NetworkPacket list"
  nw_pendingPackets :: "(u32, NetworkPacket) omap"
  nw_fragments :: "(u32, NetworkPacket list) omap"
  nw_nextPacketId :: u32
  nw_nextSequenceNumber :: u32
  nw_compressionEnabled :: bool
  nw_batchingEnabled :: bool
  nw_predictionEnabled :: bool
  nw_priorityEnabled :: bool
  nw_compressionLevel :: CompressionLevel
  nw_batchConfig :: BatchConfig
  nw_predictionConfig :: PredictionConfig
  nw_currentLatency :: flt
  nw_currentPacketLoss :: flt
  nw_currentBandwidth :: flt
  nw_messageReceivedCallback :: bool
  nw_packetSentCallback :: bool
  nw_packetLostCallback :: bool
  nw_calls :: "ProtocolCall list"

definition OptimizedNetworkProtocol_new :: OptimizedNetworkProtocol where
  "OptimizedNetworkProtocol_new =
     \<lparr>nw_initialized = False, nw_stats = NetworkStats_Reset, nw_compression = None, nw_batching = None,
      nw_trafficManager = None, nw_predictionManager = None, nw_sendQueue = [], nw_pendingPackets = [],
      nw_fragments = [], nw_nextPacketId = 1, nw_nextSequenceNumber = 1, nw_compressionEnabled = True,
      nw_batchingEnabled = True, nw_predictionEnabled = True, nw_priorityEnabled = True,
      nw_compressionLevel = Balanced, nw_batchConfig = BatchConfig_new, nw_predictionConfig = PredictionConfig_new,
      nw_currentLatency = Fin 0, nw_currentPacketLoss = Fin 0, nw_currentBandwidth = Fin 0,
      nw_messageReceivedCallback = False, nw_packetSentCallback = False, nw_packetLostCallback = False,
      nw_calls = []\<rparr>"

definition protocol_call :: "bool \<Rightarrow> ProtocolCall \<Rightarrow> OptimizedNetworkProtocol \<Rightarrow> OptimizedNetworkProtocol" where
  "protocol_call installed c s = (if installed then s\<lparr>nw_calls := nw_calls s @ [c]\<rparr> else s)"

text \<open>The three components are new and their initialisations succeed.\<close>

definition NP_Initialize ::
    "PriorityTypes \<Rightarrow> time_point \<Rightarrow> DataCompression \<Rightarrow> OptimizedNetworkProtocol \<Rightarrow> bool \<times> OptimizedNetworkProtocol" where
  "NP_Initialize T now shared s =
     (if nw_initialized s then (True, s)
      else
        let (ok1, compression) = DC_Initialize DataCompression_new;
            s1 = s\<lparr>nw_compression := Some compression\<rparr>
        in if \<not> ok1 then (False, s1)
           else
             let (ok2, batching) = SB_Initialize BatchConfig_new (SmartBatching_new now shared);
                 s2 = s1\<lparr>nw_batching := Some batching\<rparr>
             in if \<not> ok2 then (False, s2)
                else
                  let (ok3, traffic) = Traffic_Initialize T (NetworkTrafficManager_new now);
                      s3 = s2\<lparr>nw_trafficManager := Some traffic\<rparr>
                  in if \<not> ok3 then (False, s3)
                     else (True, s3\<lparr>nw_predictionManager := Some MovementPredictionManager_new, nw_initialized := True\<rparr>))"

definition NP_Shutdown :: "PriorityTypes \<Rightarrow> time_point \<Rightarrow> OptimizedNetworkProtocol \<Rightarrow> OptimizedNetworkProtocol" where
  "NP_Shutdown T now s =
     (if \<not> nw_initialized s then s
      else s\<lparr>nw_sendQueue := [], nw_pendingPackets := [], nw_fragments := [],
             nw_compression := map_option DC_Shutdown (nw_compression s),
             nw_batching := map_option (SB_Shutdown T now) (nw_batching s),
             nw_trafficManager := map_option Traffic_Shutdown (nw_trafficManager s),
             nw_initialized := False\<rparr>)"

definition NP_SendMessage :: "time_point \<Rightarrow> PrioritizedMessage \<Rightarrow> OptimizedNetworkProtocol \<Rightarrow> OptimizedNetworkProtocol" where
  "NP_SendMessage now message s =
     (if \<not> nw_initialized s then s
      else s\<lparr>nw_trafficManager := map_option (ProcessMessage now message) (nw_trafficManager s)\<rparr>)"

definition NP_SendMessages :: "time_point \<Rightarrow> PrioritizedMessage list \<Rightarrow> OptimizedNetworkProtocol \<Rightarrow> OptimizedNetworkProtocol" where
  "NP_SendMessages now messages s =
     (if \<not> nw_initialized s \<or> messages = [] then s else fold (NP_SendMessage now) messages s)"

subsection \<open>Receiving\<close>

text \<open>\<open>None\<close>: the decompression reads outside its buffer.\<close>

definition message_bytes ::
    "time_point \<Rightarrow> NetworkPacket \<Rightarrow> OptimizedNetworkProtocol \<Rightarrow> (u8 list \<times> OptimizedNetworkProtocol) option" where
  "message_bytes now packet s =
     (case nw_compression s of
        Some dc \<Rightarrow>
          if ph_flags (pk_header packet) AND flag_Compressed \<noteq> 0 then
            (case Decompress now now (pk_data packet) LZ4 dc of
               None \<Rightarrow> None
             | Some (bytes, dc1) \<Rightarrow> Some (bytes, s\<lparr>nw_compression := Some dc1\<rparr>))
          else Some (pk_data packet, s)
      | None \<Rightarrow> Some (pk_data packet, s))"

definition ExtractMessages ::
    "PriorityTypes \<Rightarrow> time_point \<Rightarrow> NetworkPacket \<Rightarrow> OptimizedNetworkProtocol
      \<Rightarrow> (PrioritizedMessage list \<times> OptimizedNetworkProtocol) option" where
  "ExtractMessages T now packet s =
     (if pk_data packet = [] then Some ([], s)
      else (case message_bytes now packet s of
          None \<Rightarrow> None
        | Some (bytes, s1) \<Rightarrow> Some (parse_all (length bytes) (dec_message T) bytes, s1)))"

definition ProcessReceivedPacket ::
    "PriorityTypes \<Rightarrow> time_point \<Rightarrow> NetworkPacket \<Rightarrow> OptimizedNetworkProtocol
      \<Rightarrow> (PrioritizedMessage list \<times> OptimizedNetworkProtocol) option" where
  "ProcessReceivedPacket T now packet s =
     (if \<not> nw_initialized s then Some ([], s)
      else if \<not> ValidatePacket packet then Some ([], s)
      else
        let st = nw_stats s;
            s1 = s\<lparr>nw_stats := st\<lparr>ns_packetsReceived := ns_packetsReceived st + 1,
                                   ns_bytesReceived := ns_bytesReceived st + of_nat (length (pk_data packet))\<rparr>\<rparr>
        in (case ExtractMessages T now packet s1 of
             None \<Rightarrow> None
           | Some (messages, s2) \<Rightarrow>
               Some (messages, fold (\<lambda>m. protocol_call (nw_messageReceivedCallback s2) (MessageReceived m)) messages s2)))"

subsection \<open>Sending\<close>

definition CreatePacket ::
    "time_point \<Rightarrow> PrioritizedMessage list \<Rightarrow> OptimizedNetworkProtocol \<Rightarrow> NetworkPacket \<times> OptimizedNetworkProtocol" where
  "CreatePacket now messages s =
     (let packet = NetworkPacket_new\<lparr>pk_header := PacketHeader_new\<lparr>
            ph_packetId := nw_nextPacketId s, ph_sequenceNumber := nw_nextSequenceNumber s,
            ph_timestamp := word_of_int (now div 1000000), ph_type := packet_type_byte DataPacket\<rparr>\<rparr>;
          s1 = s\<lparr>nw_nextPacketId := nw_nextPacketId s + 1, nw_nextSequenceNumber := nw_nextSequenceNumber s + 1\<rparr>;
          messageData = concat (map enc_message messages);
          (packet1, s2) =
            (case nw_compression s1 of
               Some dc \<Rightarrow>
                 if nw_compressionEnabled s1 then
                   (case Compress now now messageData LZ4 (nw_compressionLevel s1) dc of (compressedData, dc1) \<Rightarrow>
                      (if length compressedData < length messageData
                       then with_flag flag_Compressed (packet\<lparr>pk_data := compressedData\<rparr>)
                       else packet\<lparr>pk_data := messageData\<rparr>,
                       s1\<lparr>nw_compression := Some dc1\<rparr>))
                 else (packet\<lparr>pk_data := messageData\<rparr>, s1)
             | None \<Rightarrow> (packet\<lparr>pk_data := messageData\<rparr>, s1))
      in (set_checksum (set_size packet1), s2))"

fun create_each ::
    "time_point \<Rightarrow> u16 \<Rightarrow> PrioritizedMessage list list \<Rightarrow> OptimizedNetworkProtocol \<Rightarrow> NetworkPacket list \<times> OptimizedNetworkProtocol" where
  "create_each now f [] s = ([], s)"
| "create_each now f (ms # mss) s =
     (case CreatePacket now ms s of (packet, s1) \<Rightarrow>
       (case create_each now f mss s1 of (packets, s2) \<Rightarrow> (with_flag f packet # packets, s2)))"

definition by_priority_urgency :: "PrioritizedMessage \<Rightarrow> PrioritizedMessage \<Rightarrow> bool" where
  "by_priority_urgency a b \<longleftrightarrow>
     (if pm_priority a \<noteq> pm_priority b then priority_code (pm_priority a) < priority_code (pm_priority b)
      else urgency_code (pm_urgency a) < urgency_code (pm_urgency b))"

definition PrioritizeMessages ::
    "(PrioritizedMessage list \<Rightarrow> PrioritizedMessage list) \<Rightarrow> PrioritizedMessage list \<Rightarrow> OptimizedNetworkProtocol
      \<Rightarrow> PrioritizedMessage list" where
  "PrioritizeMessages srt messages s = (if \<not> nw_priorityEnabled s then messages else srt messages)"

definition CreatePackets ::
    "PriorityTypes \<Rightarrow> (PrioritizedMessage list \<Rightarrow> PrioritizedMessage list) \<Rightarrow> time_point \<Rightarrow> PrioritizedMessage list
      \<Rightarrow> OptimizedNetworkProtocol \<Rightarrow> NetworkPacket list \<times> OptimizedNetworkProtocol" where
  "CreatePackets T srt now messages s =
     (if messages = [] then ([], s)
      else
        let processedMessages = (if nw_priorityEnabled s then PrioritizeMessages srt messages s else messages)
        in (case (if nw_batchingEnabled s then nw_batching s else None) of
             Some sb \<Rightarrow>
               (case GetReadyBatches (fold (SB_AddMessage T now) processedMessages sb) of (batches, sb1) \<Rightarrow>
                  create_each now flag_Batch (filter (\<lambda>ms. ms \<noteq> []) (map bm_messages batches)) (s\<lparr>nw_batching := Some sb1\<rparr>))
           | None \<Rightarrow> create_each now 0 (map (\<lambda>m. [m]) processedMessages) s))"

definition count_packet :: "NetworkPacket \<Rightarrow> NetworkStats \<Rightarrow> NetworkStats" where
  "count_packet packet st =
     st\<lparr>ns_packetsSent := ns_packetsSent st + 1, ns_bytesSent := ns_bytesSent st + of_nat (length (pk_data packet))\<rparr>"

definition track_packet :: "NetworkPacket \<Rightarrow> OptimizedNetworkProtocol \<Rightarrow> OptimizedNetworkProtocol" where
  "track_packet packet s =
     s\<lparr>nw_sendQueue := nw_sendQueue s @ [packet],
       nw_pendingPackets := om_put (ph_packetId (pk_header packet)) packet (nw_pendingPackets s)\<rparr>"

definition GetPacketsToSend ::
    "PriorityTypes \<Rightarrow> (PrioritizedMessage list \<Rightarrow> PrioritizedMessage list) \<Rightarrow> time_point
      \<Rightarrow> OptimizedNetworkProtocol \<Rightarrow> NetworkPacket list \<times> OptimizedNetworkProtocol" where
  "GetPacketsToSend T srt now s =
     (if \<not> nw_initialized s then ([], s)
      else (case nw_trafficManager s of
          None \<Rightarrow> ([], s)
        | Some tm \<Rightarrow>
            (case GetMessagesToSend now MAX_MESSAGES_PER_PACKET tm of (messages, tm1) \<Rightarrow>
               let s1 = s\<lparr>nw_trafficManager := Some tm1\<rparr>
               in if messages = [] then ([], s1)
                  else (case CreatePackets T srt now messages s1 of (packets, s2) \<Rightarrow>
                    let s3 = fold track_packet packets s2
                    in (packets, s3\<lparr>nw_stats := fold count_packet packets (nw_stats s3)\<rparr>)))))"

definition MarkPacketSent :: "time_point \<Rightarrow> u32 \<Rightarrow> OptimizedNetworkProtocol \<Rightarrow> OptimizedNetworkProtocol" where
  "MarkPacketSent now packetId s =
     (case om_find (nw_pendingPackets s) packetId of
        None \<Rightarrow> s
      | Some p \<Rightarrow>
          let p1 = p\<lparr>pk_sendTime := now\<rparr>
          in protocol_call (nw_packetSentCallback s) (PacketSent p1)
               (s\<lparr>nw_pendingPackets := om_put packetId p1 (nw_pendingPackets s)\<rparr>))"

definition MarkPacketAcknowledged :: "time_point \<Rightarrow> u32 \<Rightarrow> OptimizedNetworkProtocol \<Rightarrow> OptimizedNetworkProtocol" where
  "MarkPacketAcknowledged now packetId s =
     (case om_find (nw_pendingPackets s) packetId of
        None \<Rightarrow> s
      | Some p \<Rightarrow>
          let latency = mul32 (seconds32 (now - pk_sendTime p)) (Fin 1000); st = nw_stats s
          in s\<lparr>nw_stats := st\<lparr>ns_averageLatency := div32 (add32 (ns_averageLatency st) latency) (Fin 2),
                                 ns_maxLatency := f_max (ns_maxLatency st) latency\<rparr>,
               nw_pendingPackets := om_erase packetId (nw_pendingPackets s)\<rparr>)"

definition MarkPacketLost :: "u32 \<Rightarrow> OptimizedNetworkProtocol \<Rightarrow> OptimizedNetworkProtocol" where
  "MarkPacketLost packetId s =
     (case om_find (nw_pendingPackets s) packetId of
        None \<Rightarrow> s
      | Some p \<Rightarrow>
          let st = (nw_stats s)\<lparr>ns_packetsLost := ns_packetsLost (nw_stats s) + 1\<rparr>;
              s1 = s\<lparr>nw_stats := st\<lparr>ns_packetLossRate :=
                       div32 (f32_of_u32 (ns_packetsLost st)) (f32_of_u32 (ns_packetsSent st))\<rparr>\<rparr>;
              s2 = protocol_call (nw_packetLostCallback s1) (PacketLost packetId) s1
          in s2\<lparr>nw_pendingPackets := om_erase packetId (nw_pendingPackets s2)\<rparr>)"

subsection \<open>Retransmission\<close>

definition retransmit_due :: "time_point \<Rightarrow> NetworkPacket \<Rightarrow> bool" where
  "retransmit_due now packet \<longleftrightarrow> f_lt (Fin 1000) (packet_age now packet) \<and> \<not> pk_isAcknowledged packet"

definition HandleRetransmission :: "time_point \<Rightarrow> OptimizedNetworkProtocol \<Rightarrow> OptimizedNetworkProtocol" where
  "HandleRetransmission now s =
     (let due = filter (\<lambda>(k, p). retransmit_due now p) (nw_pendingPackets s)
      in s\<lparr>nw_sendQueue := nw_sendQueue s @ map snd due,
           nw_stats := (nw_stats s)\<lparr>ns_packetsRetransmitted := ns_packetsRetransmitted (nw_stats s) + of_nat (length due)\<rparr>,
           nw_pendingPackets := filter (\<lambda>(k, p). \<not> retransmit_due now p) (nw_pendingPackets s)\<rparr>)"

definition ScheduleRetransmission :: "NetworkPacket \<Rightarrow> OptimizedNetworkProtocol \<Rightarrow> OptimizedNetworkProtocol" where
  "ScheduleRetransmission packet s = s"

definition CancelRetransmission :: "u32 \<Rightarrow> OptimizedNetworkProtocol \<Rightarrow> OptimizedNetworkProtocol" where
  "CancelRetransmission packetId s = s\<lparr>nw_pendingPackets := om_erase packetId (nw_pendingPackets s)\<rparr>"

section \<open>Configuration\<close>

definition NP_EnableCompression :: "bool \<Rightarrow> OptimizedNetworkProtocol \<Rightarrow> OptimizedNetworkProtocol" where
  "NP_EnableCompression enable s = s\<lparr>nw_compressionEnabled := enable\<rparr>"

definition EnableBatching :: "bool \<Rightarrow> OptimizedNetworkProtocol \<Rightarrow> OptimizedNetworkProtocol" where
  "EnableBatching enable s = s\<lparr>nw_batchingEnabled := enable\<rparr>"

definition EnablePrediction :: "bool \<Rightarrow> OptimizedNetworkProtocol \<Rightarrow> OptimizedNetworkProtocol" where
  "EnablePrediction enable s = s\<lparr>nw_predictionEnabled := enable\<rparr>"

definition EnablePrioritySystem :: "bool \<Rightarrow> OptimizedNetworkProtocol \<Rightarrow> OptimizedNetworkProtocol" where
  "EnablePrioritySystem enable s = s\<lparr>nw_priorityEnabled := enable\<rparr>"

definition NP_SetCompressionLevel :: "CompressionLevel \<Rightarrow> OptimizedNetworkProtocol \<Rightarrow> OptimizedNetworkProtocol" where
  "NP_SetCompressionLevel level s =
     s\<lparr>nw_compressionLevel := level, nw_compression := map_option (SetDefaultLevel level) (nw_compression s)\<rparr>"

definition SetBatchConfig :: "BatchConfig \<Rightarrow> OptimizedNetworkProtocol \<Rightarrow> OptimizedNetworkProtocol" where
  "SetBatchConfig config s =
     s\<lparr>nw_batchConfig := config, nw_batching := map_option (SB_SetConfig config) (nw_batching s)\<rparr>"

definition SetPriorityConfig ::
    "(u32, MessageClassification) omap \<Rightarrow> OptimizedNetworkProtocol \<Rightarrow> OptimizedNetworkProtocol" where
  "SetPriorityConfig classifications s =
     s\<lparr>nw_trafficManager := map_option (Traffic_SetConfig classifications) (nw_trafficManager s)\<rparr>"

definition SetPredictionConfig :: "PredictionConfig \<Rightarrow> OptimizedNetworkProtocol \<Rightarrow> OptimizedNetworkProtocol" where
  "SetPredictionConfig config s =
     s\<lparr>nw_predictionConfig := config, nw_predictionManager := map_option (SetGlobalConfig config) (nw_predictionManager s)\<rparr>"

definition NP_UpdateNetworkConditions ::
    "time_point \<Rightarrow> flt \<Rightarrow> flt \<Rightarrow> flt \<Rightarrow> OptimizedNetworkProtocol \<Rightarrow> OptimizedNetworkProtocol" where
  "NP_UpdateNetworkConditions now latency packetLoss bandwidth s =
     s\<lparr>nw_currentLatency := latency, nw_currentPacketLoss := packetLoss, nw_currentBandwidth := bandwidth,
       nw_batching := map_option (UpdateNetworkConditions now packetLoss latency) (nw_batching s)\<rparr>"

definition OptimizeForLatency :: "OptimizedNetworkProtocol \<Rightarrow> OptimizedNetworkProtocol" where
  "OptimizeForLatency s =
     NP_EnableCompression False
       (SetBatchConfig ((nw_batchConfig s)\<lparr>bc_intervalMs := Fin 16, bc_maxWaitTime := Fin 50\<rparr>) s)"

definition OptimizeForThroughput :: "OptimizedNetworkProtocol \<Rightarrow> OptimizedNetworkProtocol" where
  "OptimizeForThroughput s =
     NP_SetCompressionLevel CompressionLevel.High (NP_EnableCompression True
       (SetBatchConfig ((nw_batchConfig s)\<lparr>bc_intervalMs := Fin 100, bc_maxSize := 8192, bc_maxMessages := 100\<rparr>) s))"

definition OptimizeForReliability :: "OptimizedNetworkProtocol \<Rightarrow> OptimizedNetworkProtocol" where
  "OptimizeForReliability s =
     NP_SetCompressionLevel Maximum (EnablePrioritySystem True (EnableBatching True (NP_EnableCompression True s)))"

definition NP_GetStats :: "OptimizedNetworkProtocol \<Rightarrow> NetworkStats" where
  "NP_GetStats s = nw_stats s"

definition NP_ResetStats :: "OptimizedNetworkProtocol \<Rightarrow> OptimizedNetworkProtocol" where
  "NP_ResetStats s = s\<lparr>nw_stats := NetworkStats_Reset\<rparr>"

definition SetMessageReceivedCallback :: "bool \<Rightarrow> OptimizedNetworkProtocol \<Rightarrow> OptimizedNetworkProtocol" where
  "SetMessageReceivedCallback f s = s\<lparr>nw_messageReceivedCallback := f\<rparr>"

definition SetPacketSentCallback :: "bool \<Rightarrow> OptimizedNetworkProtocol \<Rightarrow> OptimizedNetworkProtocol" where
  "SetPacketSentCallback f s = s\<lparr>nw_packetSentCallback := f\<rparr>"

definition SetPacketLostCallback :: "bool \<Rightarrow> OptimizedNetworkProtocol \<Rightarrow> OptimizedNetworkProtocol" where
  "SetPacketLostCallback f s = s\<lparr>nw_packetLostCallback := f\<rparr>"

definition OptimizePacket :: "NetworkPacket \<Rightarrow> OptimizedNetworkProtocol \<Rightarrow> NetworkPacket" where
  "OptimizePacket packet s = packet"

definition BatchMessages ::
    "PrioritizedMessage list \<Rightarrow> PrioritizedMessage list \<Rightarrow> OptimizedNetworkProtocol \<Rightarrow> bool" where
  "BatchMessages messages result s \<longleftrightarrow>
     (if \<not> nw_batchingEnabled s \<or> nw_batching s = None then result = messages
      else sorts_to (\<lambda>a b. priority_code (pm_priority a) < priority_code (pm_priority b)) messages result)"

text \<open>The checksum of the packet stays as it was.\<close>

definition CompressPacket :: "time_point \<Rightarrow> NetworkPacket \<Rightarrow> OptimizedNetworkProtocol \<Rightarrow> NetworkPacket \<times> OptimizedNetworkProtocol" where
  "CompressPacket now packet s =
     (case nw_compression s of
        None \<Rightarrow> (packet, s)
      | Some dc \<Rightarrow>
          if \<not> nw_compressionEnabled s then (packet, s)
          else (case Compress now now (pk_data packet) LZ4 (nw_compressionLevel s) dc of (compressedData, dc1) \<Rightarrow>
            (if length compressedData < length (pk_data packet)
             then with_flag flag_Compressed (set_size (packet\<lparr>pk_data := compressedData\<rparr>))
             else packet,
             s\<lparr>nw_compression := Some dc1\<rparr>)))"

end
