(* ===== verification/ProtocolProps.thy ===== *)
theory ProtocolProps
  imports Protocol BatchProps CompressionProps
begin

text \<open>
  Properties of the protocol: packets on the wire, what the receiver makes of them with and without
  compression, fragments, the numbering and tracking of packets, and what the default configuration
  ever sends.
\<close>

section \<open>Headers and packets as bytes\<close>

lemma read_le16_append [simp]: "read_le16 (le16 w @ rest) = w"
proof (rule bit_word_eqI)
  fix n assume "n < LENGTH(16)"
  then show "bit (read_le16 (le16 w @ rest)) n = bit w n"
    by (cases "8 \<le> n") (auto simp: read_le16_def le16_def bit_simps)
qed

lemma length_le16 [simp]: "length (le16 w) = 2"
  by (simp add: le16_def)

lemma length_header_wire [simp]: "length (header_wire pad h) = 32"
  by (simp add: header_wire_def)

lemma drop_many_le32:
  "drop 8 (le32 a @ le32 b @ xs) = xs" "drop 12 (le32 a @ le32 b @ le32 c @ xs) = xs"
  "drop 16 (le32 a @ le32 b @ le32 c @ le32 d @ xs) = xs"
  "drop 22 (le32 a @ le32 b @ le32 c @ le32 d @ le32 e @ y # z # xs) = xs"
  "drop 24 (le32 a @ le32 b @ le32 c @ le32 d @ le32 e @ y # z # le16 f @ xs) = xs"
  "drop 28 (le32 a @ le32 b @ le32 c @ le32 d @ le32 e @ y # z # le16 f @ le32 g @ xs) = xs"
  "(le32 a @ le32 b @ le32 c @ le32 d @ le32 e @ y # xs) ! 20 = y"
  by (simp_all add: le32_def le16_def)

lemma read_header_wire [simp]: "read_header (header_wire pad h @ rest) = h"
  by (cases h) (simp add: read_header_def header_wire_def drop_many_le32)

interpretation packet_header: codec "header_wire pad" "\<lambda>bs. Some (read_header bs)" "\<lambda>h. True" for pad
proof
  fix h show "Some (read_header (header_wire pad h)) = Some h" using read_header_wire [of pad h "[]"] by simp
qed

lemma DeserializePacket_SerializePacket:
  assumes "size_matches packet"
  shows "DeserializePacket (SerializePacket pad packet)
     = NetworkPacket_new\<lparr>pk_header := pk_header packet, pk_data := pk_data packet\<rparr>"
  using assms by (simp add: DeserializePacket_def SerializePacket_def size_matches_def Let_def)

section \<open>One packet\<close>

definition compressed_packet :: "NetworkPacket \<Rightarrow> bool" where
  "compressed_packet packet \<longleftrightarrow> ph_flags (pk_header packet) AND flag_Compressed \<noteq> 0"

lemma packet_edits [simp]:
  "pk_data (set_checksum p) = pk_data p" "pk_data (set_size p) = pk_data p" "pk_data (with_flag f p) = pk_data p"
  "ph_packetId (pk_header (set_checksum p)) = ph_packetId (pk_header p)"
  "ph_packetId (pk_header (set_size p)) = ph_packetId (pk_header p)"
  "ph_packetId (pk_header (with_flag f p)) = ph_packetId (pk_header p)"
  "ph_sequenceNumber (pk_header (set_checksum p)) = ph_sequenceNumber (pk_header p)"
  "ph_sequenceNumber (pk_header (set_size p)) = ph_sequenceNumber (pk_header p)"
  "ph_sequenceNumber (pk_header (with_flag f p)) = ph_sequenceNumber (pk_header p)"
  "ph_flags (pk_header (set_checksum p)) = ph_flags (pk_header p)"
  "ph_flags (pk_header (set_size p)) = ph_flags (pk_header p)"
  "ph_flags (pk_header (with_flag f p)) = ph_flags (pk_header p) OR f"
  by (simp_all add: set_checksum_def set_size_def with_flag_def)

lemma ValidatePacket_with_flag [simp]: "ValidatePacket (with_flag f p) = ValidatePacket p"
  by (simp add: ValidatePacket_def with_flag_def size_matches_def NP_VerifyChecksum_def)

lemma ValidatePacket_finished:
  assumes "ph_magic (pk_header p) = 0xDEADBEEF" "ph_version (pk_header p) = PROTOCOL_VERSION" "length (pk_data p) < 2 ^ 32"
  shows "ValidatePacket (set_checksum (set_size p))"
  using assms
  by (simp add: ValidatePacket_def set_checksum_def set_size_def size_matches_def NP_VerifyChecksum_def unat_of_nat)

text \<open>What a packet made of some messages carries, and what it does to the numbers.\<close>

lemma CreatePacket_facts:
  assumes "CreatePacket now ms s = (p, t)"
  shows "compressed_packet p \<or> pk_data p = concat (map enc_message ms)"
    and "length (concat (map enc_message ms)) < 2 ^ 32 \<Longrightarrow> ValidatePacket p"
    and "ph_packetId (pk_header p) = nw_nextPacketId s" "ph_sequenceNumber (pk_header p) = nw_nextSequenceNumber s"
    and "nw_nextPacketId t = nw_nextPacketId s + 1" "nw_nextSequenceNumber t = nw_nextSequenceNumber s + 1"
    and "nw_sendQueue t = nw_sendQueue s" "nw_pendingPackets t = nw_pendingPackets s"
    and "nw_batching t = nw_batching s" "nw_trafficManager t = nw_trafficManager s" "nw_initialized t = nw_initialized s"
    and "nw_stats t = nw_stats s" "nw_compressionEnabled t = nw_compressionEnabled s"
    and "nw_compression t = None \<longleftrightarrow> nw_compression s = None"
  using assms
  by (auto simp: CreatePacket_def Let_def compressed_packet_def flag_Compressed_def with_flag_def
      PacketHeader_new_def NetworkPacket_new_def intro!: ValidatePacket_finished split: option.splits if_splits prod.splits)

section \<open>What the receiver makes of a packet\<close>

definition short_messages :: "PrioritizedMessage list \<Rightarrow> bool" where
  "short_messages ms \<longleftrightarrow> (\<forall>m \<in> set ms. length (pm_data m) < 2 ^ 32)"

lemma length_encoded: "length ms \<le> length (concat (map enc_message ms))"
  by (induction ms) simp_all

lemma parse_encoded:
  assumes "short_messages ms" "length ms \<le> n"
  shows "parse_all n (dec_message T) (concat (map enc_message ms)) = map (wire_view T) ms"
proof -
  have "concat (map enc_message (map (wire_view T) ms)) = concat (map enc_message ms)" by (simp add: comp_def)
  moreover have "\<forall>x \<in> set (map (wire_view T) ms). on_wire T x"
    using assms(1) by (auto simp: on_wire_def short_messages_def wire_view_def)
  ultimately show ?thesis
    using wire.parse_all_enc [of "map (wire_view T) ms" T n] assms(2) by simp
qed

lemma protocol_call_fields [simp]:
  "nw_initialized (protocol_call b c s) = nw_initialized s"
  "nw_compression (protocol_call b c s) = nw_compression s"
  "nw_sendQueue (protocol_call b c s) = nw_sendQueue s"
  "nw_pendingPackets (protocol_call b c s) = nw_pendingPackets s"
  "nw_nextPacketId (protocol_call b c s) = nw_nextPacketId s"
  "nw_nextSequenceNumber (protocol_call b c s) = nw_nextSequenceNumber s"
  "nw_batching (protocol_call b c s) = nw_batching s"
  "nw_batchingEnabled (protocol_call b c s) = nw_batchingEnabled s"
  "nw_batchConfig (protocol_call b c s) = nw_batchConfig s"
  "nw_trafficManager (protocol_call b c s) = nw_trafficManager s"
  by (simp_all add: protocol_call_def)

lemma protocol_calls_fields [simp]:
  "nw_initialized (fold (\<lambda>m. protocol_call b (f m)) ms s) = nw_initialized s"
  "nw_compression (fold (\<lambda>m. protocol_call b (f m)) ms s) = nw_compression s"
  "nw_sendQueue (fold (\<lambda>m. protocol_call b (f m)) ms s) = nw_sendQueue s"
  "nw_pendingPackets (fold (\<lambda>m. protocol_call b (f m)) ms s) = nw_pendingPackets s"
  "nw_nextPacketId (fold (\<lambda>m. protocol_call b (f m)) ms s) = nw_nextPacketId s"
  "nw_nextSequenceNumber (fold (\<lambda>m. protocol_call b (f m)) ms s) = nw_nextSequenceNumber s"
  "nw_batching (fold (\<lambda>m. protocol_call b (f m)) ms s) = nw_batching s"
  "nw_batchingEnabled (fold (\<lambda>m. protocol_call b (f m)) ms s) = nw_batchingEnabled s"
  "nw_batchConfig (fold (\<lambda>m. protocol_call b (f m)) ms s) = nw_batchConfig s"
  by (induction ms arbitrary: s) simp_all

lemma receive_plain:
  assumes "ValidatePacket p" "\<not> compressed_packet p" "pk_data p = concat (map enc_message ms)" "short_messages ms"
    and "nw_initialized r"
  shows "\<exists>r1. ProcessReceivedPacket T now p r = Some (map (wire_view T) ms, r1) \<and> nw_initialized r1"
proof -
  have bytes: "message_bytes now p s = Some (pk_data p, s)" for s
    using assms(2) by (simp add: message_bytes_def compressed_packet_def split: option.split)
  have "ms = []" if "pk_data p = []"
    using that assms(3) length_encoded [of ms] by (metis le_zero_eq length_0_conv)
  then have "ExtractMessages T now p s = Some (map (wire_view T) ms, s)" for s
    using parse_encoded [OF assms(4), of "length (pk_data p)" T] length_encoded [of ms]
    by (auto simp: ExtractMessages_def bytes assms(3))
  with assms(1,5) show ?thesis by (simp add: ProcessReceivedPacket_def Let_def)
qed

text \<open>Packets arriving one after another, as bytes.\<close>

fun receive_all ::
    "PriorityTypes \<Rightarrow> time_point \<Rightarrow> u8 list list \<Rightarrow> OptimizedNetworkProtocol
      \<Rightarrow> (PrioritizedMessage list \<times> OptimizedNetworkProtocol) option" where
  "receive_all T now [] r = Some ([], r)"
| "receive_all T now (b # bs) r =
     (case ProcessReceivedPacket T now (DeserializePacket b) r of
        None \<Rightarrow> None
      | Some (ms, r1) \<Rightarrow>
         (case receive_all T now bs r1 of None \<Rightarrow> None | Some (ns, r2) \<Rightarrow> Some (ms @ ns, r2)))"

text \<open>A packet over the wire: the numbers, the flags and the data arrive, and it is accepted.\<close>

lemma wire_packet:
  assumes "ValidatePacket p"
  shows "ValidatePacket (DeserializePacket (SerializePacket pad p))"
    and "compressed_packet (DeserializePacket (SerializePacket pad p)) = compressed_packet p"
    and "pk_data (DeserializePacket (SerializePacket pad p)) = pk_data p"
  using assms
  by (simp_all add: DeserializePacket_SerializePacket ValidatePacket_def compressed_packet_def size_matches_def
      NP_VerifyChecksum_def)

lemma flag_kept: "(x OR f) AND c = 0 \<Longrightarrow> x AND c = 0" for x :: u16
  by (auto simp: bit_eq_iff bit_simps)

text \<open>Packets that are not compressed: every message arrives, in order.\<close>

lemma receive_created:
  assumes "create_each now f mss s = (ps, t)" "\<forall>ms \<in> set mss. short_messages ms \<and> length (concat (map enc_message ms)) < 2 ^ 32"
    and "list_all (\<lambda>p. \<not> compressed_packet p) ps" "nw_initialized r"
  shows "\<exists>r1. receive_all T now' (map (SerializePacket pad) ps) r = Some (map (wire_view T) (concat mss), r1)"
  using assms
proof (induction mss arbitrary: s ps r)
  case (Cons ms mss)
  obtain p s1 where p: "CreatePacket now ms s = (p, s1)" by fastforce
  obtain qs where qs: "create_each now f mss s1 = (qs, t)" "ps = with_flag f p # qs"
    using Cons.prems(1) p by (auto split: prod.splits)
  have plain_packet: "\<not> compressed_packet (with_flag f p)" using Cons.prems(3) qs(2) by simp
  then have "\<not> compressed_packet p" by (auto simp: compressed_packet_def dest: flag_kept)
  then have body: "pk_data (with_flag f p) = concat (map enc_message ms)" using CreatePacket_facts(1) [OF p] by simp
  have ok: "ValidatePacket (with_flag f p)" using CreatePacket_facts(2) [OF p] Cons.prems(2) by simp
  obtain r1 where r1: "ProcessReceivedPacket T now' (DeserializePacket (SerializePacket pad (with_flag f p))) r
      = Some (map (wire_view T) ms, r1)" "nw_initialized r1"
    using receive_plain [of "DeserializePacket (SerializePacket pad (with_flag f p))" ms r T now']
      wire_packet [OF ok, of pad] plain_packet body Cons.prems(2,4) by auto
  obtain r2 where "receive_all T now' (map (SerializePacket pad) qs) r1 = Some (map (wire_view T) (concat mss), r2)"
    using Cons.IH [OF qs(1) _ _ r1(2)] Cons.prems(2,3) qs(2) by auto
  with r1 qs(2) show ?case by simp
qed simp

lemma create_each_flags:
  assumes "create_each now f mss s = (ps, t)" "\<not> nw_compressionEnabled s \<or> nw_compression s = None"
  shows "length ps = length mss \<and> (\<forall>p \<in> set ps. ph_flags (pk_header p) = f)"
  using assms
proof (induction mss arbitrary: s ps)
  case (Cons ms mss)
  obtain p s1 where p: "CreatePacket now ms s = (p, s1)" by fastforce
  have "ph_flags (pk_header p) = 0"
    using p Cons.prems(2) by (auto simp: CreatePacket_def Let_def NetworkPacket_new_def PacketHeader_new_def split: option.splits)
  moreover have "\<not> nw_compressionEnabled s1 \<or> nw_compression s1 = None"
    using CreatePacket_facts(13,14) [OF p] Cons.prems(2) by auto
  ultimately show ?case using Cons p by (fastforce split: prod.splits)
qed simp

text \<open>
  With batching and compression off, everything the traffic manager hands out arrives: each message
  in a packet of its own, all packets accepted, the messages in the order of priority and urgency (or
  in the order of the traffic manager, when the priority system is off), whatever the padding bytes
  are and whatever the receiver did before.
\<close>

lemma unbatched_messages_arrive:
  assumes "nw_initialized s" "nw_trafficManager s = Some tm" "\<not> nw_batchingEnabled s" "\<not> nw_compressionEnabled s"
    and "ms = fst (GetMessagesToSend now 100 tm)" "GetPacketsToSend T srt now s = (ps, t)"
    and "\<And>xs. sorts_to by_priority_urgency xs (srt xs)"
    and "\<forall>m \<in> set ms. length (pm_data m) < 2 ^ 32 - 12" "nw_initialized r"
  shows "\<exists>out r1. receive_all T now' (map (SerializePacket pad) ps) r = Some (map (wire_view T) out, r1)
     \<and> length ps = length ms
     \<and> (if nw_priorityEnabled s then sorts_to by_priority_urgency ms out else out = ms)"
proof (cases "ms = []")
  case True
  obtain tm1 where "GetMessagesToSend now 100 tm = ([], tm1)" using assms(5) True by (metis prod.collapse)
  then have "ps = []" using assms(1,2,6) by (simp add: GetPacketsToSend_def MAX_MESSAGES_PER_PACKET_def)
  moreover have "sorts_to by_priority_urgency [] []" by (simp add: sorts_to_def)
  ultimately show ?thesis using True by (intro exI [of _ "[]"]) simp
next
  case False
  obtain tm1 where g: "GetMessagesToSend now 100 tm = (ms, tm1)" using assms(5) by (metis prod.collapse)
  define out where "out = (if nw_priorityEnabled s then srt ms else ms)"
  let ?s = "s\<lparr>nw_trafficManager := Some tm1\<rparr>"
  have c: "CreatePackets T srt now ms ?s = create_each now 0 (map (\<lambda>m. [m]) out) ?s"
    using False assms(3) by (simp add: CreatePackets_def PrioritizeMessages_def out_def)
  obtain u where u: "create_each now 0 (map (\<lambda>m. [m]) out) ?s = (ps, u)"
    using assms(1,2,6) g c False
    by (cases "create_each now 0 (map (\<lambda>m. [m]) out) ?s")
      (simp add: GetPacketsToSend_def MAX_MESSAGES_PER_PACKET_def Let_def)
  have "mset out = mset ms" using assms(7) [of ms] by (simp add: out_def sorts_to_def)
  then have set_out: "set out = set ms" and len: "length out = length ms"
    by (rule mset_eq_setD, metis size_mset)
  have "length ps = length out \<and> (\<forall>p \<in> set ps. ph_flags (pk_header p) = 0)"
    using create_each_flags [OF u] assms(4) by simp
  then have ps: "length ps = length out" "list_all (\<lambda>p. \<not> compressed_packet p) ps"
    by (auto simp: list_all_iff compressed_packet_def)
  have "\<forall>ms \<in> set (map (\<lambda>m. [m]) out). short_messages ms \<and> length (concat (map enc_message ms)) < 2 ^ 32"
    using assms(8) set_out by (auto simp: short_messages_def)
  from receive_created [OF u this ps(2) assms(9), of T now' pad] obtain r1
    where "receive_all T now' (map (SerializePacket pad) ps) r = Some (map (wire_view T) out, r1)" by auto
  then show ?thesis
    using ps(1) len assms(7) [of ms] by (intro exI [of _ out] exI [of _ r1]) (simp add: out_def)
qed

definition demo_sort :: "PrioritizedMessage list \<Rightarrow> PrioritizedMessage list" where
  "demo_sort = sort_key (\<lambda>m. 5 * priority_code (pm_priority m) + urgency_code (pm_urgency m))"

lemma demo_sort: "sorts_to by_priority_urgency xs (demo_sort xs)"
proof -
  have u: "urgency_code v < 5" for v by (cases v) simp_all
  have "\<not> by_priority_urgency b a"
    if "5 * priority_code (pm_priority a) + urgency_code (pm_urgency a)
          \<le> 5 * priority_code (pm_priority b) + urgency_code (pm_urgency b)" for a b
    using that u [of "pm_urgency a"] u [of "pm_urgency b"] by (auto simp: by_priority_urgency_def)
  moreover have "sorted_wrt (\<lambda>a b. 5 * priority_code (pm_priority a) + urgency_code (pm_urgency a)
          \<le> 5 * priority_code (pm_priority b) + urgency_code (pm_urgency b)) (demo_sort xs)"
    using sorted_sort_key [of "\<lambda>m. 5 * priority_code (pm_priority m) + urgency_code (pm_urgency m)" xs]
    by (simp add: demo_sort_def sorted_map)
  ultimately have "sorted_wrt (\<lambda>a b. \<not> by_priority_urgency b a) (demo_sort xs)"
    by (auto intro: sorted_wrt_mono_rel [rotated])
  then show ?thesis by (simp add: sorts_to_def demo_sort_def)
qed

definition demo_sender :: OptimizedNetworkProtocol where
  "demo_sender =
     NP_SendMessage 0 (demo_message 7 Low [5, 6])
       (EnableBatching False (NP_EnableCompression False
         (snd (NP_Initialize demo_types 0 DataCompression_new OptimizedNetworkProtocol_new))))"

lemma unbatched_messages_arrive_witness:
  "map_option (map pm_data \<circ> fst) (receive_all demo_types 0
     (map (SerializePacket 9) (fst (GetPacketsToSend demo_types demo_sort 0 demo_sender))) demo_sender) = Some [[5, 6]]"
proof -
  let ?tm = "the (nw_trafficManager demo_sender)"
  let ?ms = "fst (GetMessagesToSend 0 100 ?tm)"
  have s: "nw_initialized demo_sender" "nw_trafficManager demo_sender = Some ?tm" "\<not> nw_batchingEnabled demo_sender"
    "\<not> nw_compressionEnabled demo_sender"
    by (simp_all add: demo_sender_def NP_SendMessage_def EnableBatching_def NP_EnableCompression_def NP_Initialize_def
        DC_Initialize_def SB_Initialize_def SmartBatching_new_def Traffic_Initialize_def NetworkTrafficManager_new_def
        OptimizedNetworkProtocol_new_def Let_def)
  have "map pm_data ?ms = [[5, 6]]" by code_simp
  then obtain m where m: "?ms = [m]" "pm_data m = [5, 6]" by (auto simp: map_eq_Cons_conv)
  obtain ps t where g: "GetPacketsToSend demo_types demo_sort 0 demo_sender = (ps, t)" by fastforce
  have "\<forall>m \<in> set ?ms. length (pm_data m) < 2 ^ 32 - 12" using m by simp
  from unbatched_messages_arrive [OF s refl g demo_sort this s(1), where now' = 0 and pad = 9]
  obtain out r1 where r: "receive_all demo_types 0 (map (SerializePacket 9) ps) demo_sender
        = Some (map (wire_view demo_types) out, r1)"
    "if nw_priorityEnabled demo_sender then sorts_to by_priority_urgency ?ms out else out = ?ms" by blast
  have "mset out = mset [m]" using r(2) unfolding m(1) by (auto simp: sorts_to_def split: if_splits)
  then have "out = [m]" by simp
  with r(1) g m(2) show ?thesis by (simp add: wire_view_def)
qed

section \<open>Compressed packets\<close>

lemma hd_parsed:
  "parse_all n (dec_message T) bs \<noteq> [] \<Longrightarrow> pm_messageId (hd (parse_all n (dec_message T) bs)) = read_le32 bs"
  by (cases n) (auto simp: dec_message_def Let_def split: option.splits if_splits)

text \<open>
  A packet that was really compressed (plain bytes, less than 64 KB) passes every check of the
  receiver and is taken apart two bytes too late: the number of its first message is shifted by 16
  bits.  Unless the messages had the number 0, the receiver does not get what was sent.
\<close>

lemma compressed_packets_are_misread:
  assumes "CreatePacket now (m # ms) s = (p, t)" "nw_compression s = Some dc" "dc_initialized dc" "compressed_packet p"
    and "plain (concat (map enc_message (m # ms)))" "length (concat (map enc_message (m # ms))) < 65536"
    and "nw_initialized r" "nw_compression r = Some dc'" "dc_initialized dc'"
  shows "\<exists>out r1. ProcessReceivedPacket T now' p r = Some (out, r1)
     \<and> (out \<noteq> [] \<longrightarrow> pm_messageId (hd out) = push_bit 16 (pm_messageId m))
     \<and> (pm_messageId m \<noteq> 0 \<longrightarrow> out \<noteq> map (wire_view T) (m # ms))"
proof -
  let ?bytes = "concat (map enc_message (m # ms))" and ?l = "nw_compressionLevel s"
  have p: "pk_data p = fst (Compress now now ?bytes LZ4 ?l dc)" "length (pk_data p) < length ?bytes"
    "ph_magic (pk_header p) = 0xDEADBEEF" "ph_version (pk_header p) = PROTOCOL_VERSION"
    using assms(1,2,4)
    by (auto simp: CreatePacket_def Let_def compressed_packet_def NetworkPacket_new_def PacketHeader_new_def
        set_checksum_def set_size_def with_flag_def split: prod.splits if_splits)
  have "compresses LZ4 ?l ?bytes dc"
    using p(2) Compress_raw [of LZ4 ?l ?bytes dc now now] unfolding p(1) by fastforce
  from Decompress_compressed [OF this _ assms(5,6,9), of now' now' now now LZ4]
  obtain dc1 where d: "Decompress now' now' (pk_data p) LZ4 dc' = Some (0 # 0 # ?bytes, dc1)"
    unfolding p(1) [symmetric] by auto
  have valid: "ValidatePacket p" using CreatePacket_facts(2) [OF assms(1)] assms(6) by simp
  have "pk_data p \<noteq> []" using d by (auto simp: Decompress_def)
  then have "ExtractMessages T now' p q = Some (parse_all (length (0 # 0 # ?bytes)) (dec_message T) (0 # 0 # ?bytes), q\<lparr>nw_compression := Some dc1\<rparr>)"
    if "nw_compression q = Some dc'" for q
    using that d assms(4) by (simp add: ExtractMessages_def message_bytes_def compressed_packet_def)
  then obtain r1 where r1: "ProcessReceivedPacket T now' p r = Some (parse_all (length (0 # 0 # ?bytes)) (dec_message T) (0 # 0 # ?bytes), r1)"
    using valid assms(7,8) by (simp add: ProcessReceivedPacket_def Let_def)
  have "read_le32 (0 # 0 # le32 w @ rest) = push_bit 16 w" for w rest
  proof (rule bit_word_eqI)
    fix n assume "n < LENGTH(32)"
    moreover have "8 + (n - 24) = n - 16" if "24 \<le> n" using that by arith
    ultimately show "bit (read_le32 (0 # 0 # le32 w @ rest)) n = bit (push_bit 16 w) n"
      by (cases "24 \<le> n") (auto simp: read_le32_def le32_def bit_simps)
  qed
  then have "read_le32 (0 # 0 # ?bytes) = push_bit 16 (pm_messageId m)" by (simp add: enc_message_def)
  then have hd_out: "pm_messageId (hd out) = push_bit 16 (pm_messageId m)"
    if "out = parse_all (length (0 # 0 # ?bytes)) (dec_message T) (0 # 0 # ?bytes)" "out \<noteq> []" for out
    using that hd_parsed [of "length (0 # 0 # ?bytes)" T "0 # 0 # ?bytes"] by simp
  have "w = 0" if "push_bit 16 w = w" for w :: u32
  proof -
    have "push_bit 16 (push_bit 16 w) = 0" by (rule bit_word_eqI) (simp add: bit_simps)
    with that show "w = 0" by simp
  qed
  then have shifted: "out \<noteq> map (wire_view T) (m # ms)"
    if "out \<noteq> [] \<longrightarrow> pm_messageId (hd out) = push_bit 16 (pm_messageId m)" "pm_messageId m \<noteq> 0" for out
    using that by (auto simp: wire_view_def)
  let ?out = "parse_all (length (0 # 0 # ?bytes)) (dec_message T) (0 # 0 # ?bytes)"
  have "?out \<noteq> [] \<longrightarrow> pm_messageId (hd ?out) = push_bit 16 (pm_messageId m)" using hd_out [OF refl] by blast
  with shifted [OF this] r1 show ?thesis by blast
qed

lemma compressed_packets_are_misread_witness:
  "let s = NP_EnableCompression True demo_sender; m = demo_message 7 Low (replicate 64 5)
   in ValidatePacket (fst (CreatePacket 0 [m] s))
    \<and> map_option fst (ProcessReceivedPacket demo_types 0 (fst (CreatePacket 0 [m] s)) s) \<noteq> Some (map (wire_view demo_types) [m])"
proof -
  let ?s = "NP_EnableCompression True demo_sender" and ?m = "demo_message 7 Low (replicate 64 5)"
  let ?dc = "snd (DC_Initialize DataCompression_new)"
  obtain p t where p: "CreatePacket 0 [?m] ?s = (p, t)" by fastforce
  have dc: "nw_compression ?s = Some ?dc" "dc_initialized ?dc" "nw_initialized ?s"
    by (simp_all add: demo_sender_def NP_SendMessage_def EnableBatching_def NP_EnableCompression_def NP_Initialize_def
        DC_Initialize_def SB_Initialize_def SmartBatching_new_def Traffic_Initialize_def NetworkTrafficManager_new_def
        OptimizedNetworkProtocol_new_def Let_def)
  have "length (fst (Compress 0 0 (concat (map enc_message [?m])) LZ4 Balanced ?dc)) < length (concat (map enc_message [?m]))"
    by code_simp
  moreover have "nw_compressionLevel ?s = Balanced" "nw_compressionEnabled ?s"
    by (simp_all add: demo_sender_def NP_SendMessage_def EnableBatching_def NP_EnableCompression_def NP_Initialize_def
        DC_Initialize_def SB_Initialize_def SmartBatching_new_def Traffic_Initialize_def NetworkTrafficManager_new_def
        OptimizedNetworkProtocol_new_def Let_def)
  ultimately have "compressed_packet p"
    using p dc(1)
    by (auto simp: CreatePacket_def Let_def compressed_packet_def with_flag_def set_checksum_def set_size_def
        NetworkPacket_new_def PacketHeader_new_def flag_Compressed_def case_prod_beta split: if_splits)
  moreover have "plain (concat (map enc_message [?m]))" by code_simp
  moreover have "length (concat (map enc_message [?m])) < 65536" by (simp add: demo_message_def)
  moreover have "pm_messageId ?m \<noteq> 0" by (simp add: demo_message_def)
  ultimately obtain out r1 where "ProcessReceivedPacket demo_types 0 p ?s = Some (out, r1)" "out \<noteq> map (wire_view demo_types) [?m]"
    using compressed_packets_are_misread [OF p dc(1,2) _ _ _ dc(3,1,2), of demo_types 0] by blast
  moreover have "ValidatePacket p" using CreatePacket_facts(2) [OF p] by (simp add: demo_message_def)
  ultimately show ?thesis using p by (simp add: Let_def)
qed

section \<open>Fragments\<close>

lemma fragment_bounds:
  assumes "i < fragment_count n"
  shows "i * fragment_size < n" "i + 1 < fragment_count n \<Longrightarrow> i * fragment_size + fragment_size \<le> n"
    "i + 1 = fragment_count n \<Longrightarrow> n \<le> i * fragment_size + fragment_size"
proof -
  have f: "0 < fragment_size" by (simp add: fragment_size_def MAX_PACKET_SIZE_def)
  have "(i + 1) * fragment_size \<le> n + fragment_size - 1"
    using assms f unfolding fragment_count_def by (metis Suc_eq_plus1 Suc_leI less_eq_div_iff_mult_less_eq)
  then show "i * fragment_size < n" using f by (simp add: algebra_simps)
  show "i * fragment_size + fragment_size \<le> n" if "i + 1 < fragment_count n"
  proof -
    have "(i + 2) * fragment_size \<le> n + fragment_size - 1"
      using that f unfolding fragment_count_def by (metis Suc_leI add_2_eq_Suc' add.commute less_eq_div_iff_mult_less_eq plus_1_eq_Suc Suc_eq_plus1)
    then show ?thesis using f by (simp add: algebra_simps)
  qed
  show "n \<le> i * fragment_size + fragment_size" if "i + 1 = fragment_count n"
  proof -
    have "n + fragment_size - 1 < (i + 2) * fragment_size"
      using that f unfolding fragment_count_def by (metis Suc_eq_plus1 add_2_eq_Suc' div_less_iff_less_mult lessI)
    then show ?thesis using f by (simp add: algebra_simps)
  qed
qed

lemma nth_fragment_data: "pk_data (nth_fragment p i) = take fragment_size (drop (i * fragment_size) (pk_data p))"
  by (simp add: nth_fragment_def Let_def min_def)

lemma chunks_concat:
  "concat (map (\<lambda>i. take k (drop (i * k) xs)) [0 ..< n]) = take (n * k) xs"
proof (induction n)
  case (Suc n)
  have "take (k + n * k) xs = take (n * k) xs @ take k (drop (n * k) xs)" by (metis add.commute take_add)
  with Suc show ?case by simp
qed simp

lemma fragments_concat:
  assumes "MAX_PACKET_SIZE < length (pk_data p)"
  shows "concat (map pk_data (FragmentPacket p)) = pk_data p"
proof -
  let ?n = "length (pk_data p)"
  have "0 < fragment_count ?n"
    using assms by (simp add: fragment_count_def fragment_size_def MAX_PACKET_SIZE_def div_greater_zero_iff)
  then obtain m where m: "fragment_count ?n = Suc m" by (cases "fragment_count ?n") auto
  have "?n \<le> m * fragment_size + fragment_size" using fragment_bounds(3) [of m ?n] m by simp
  then have "?n \<le> fragment_count ?n * fragment_size" unfolding m by simp
  then show ?thesis
    using assms chunks_concat [of fragment_size "pk_data p" "fragment_count ?n"]
    by (simp add: FragmentPacket_def comp_def nth_fragment_data)
qed

lemma fragment_header:
  "ph_sequenceNumber (pk_header (nth_fragment p i)) = ph_sequenceNumber (pk_header p)"
  "ph_magic (pk_header (nth_fragment p i)) = ph_magic (pk_header p)"
  "ph_version (pk_header (nth_fragment p i)) = ph_version (pk_header p)"
  by (simp_all add: nth_fragment_def Let_def set_checksum_def set_size_def with_flag_def)

lemma fragment_valid:
  assumes "ph_magic (pk_header p) = 0xDEADBEEF" "ph_version (pk_header p) = PROTOCOL_VERSION"
  shows "ValidatePacket (nth_fragment p i)"
proof -
  have "length (pk_data (nth_fragment p i)) < 2 ^ 32"
    unfolding nth_fragment_data by (simp add: fragment_size_def MAX_PACKET_SIZE_def min_def)
  then show ?thesis
    using assms unfolding nth_fragment_def Let_def by (intro ValidatePacket_finished) (auto simp: with_flag_def)
qed

text \<open>
  C30. A packet over one megabyte is cut into packets that the receiver accepts, of at most a megabyte
  with their header, all full but the last; put together again in their order they give the data,
  the number and the flags back.  But all fragments carry the number of the packet, and the sort that
  should order them orders by that number: any order of the fragments is a result it may have.
\<close>

theorem fragments_reassemble:
  assumes "MAX_PACKET_SIZE < length (pk_data p)" "fs = FragmentPacket p"
    and "ph_magic (pk_header p) = 0xDEADBEEF" "ph_version (pk_header p) = PROTOCOL_VERSION"
  shows "list_all ValidatePacket fs
     \<and> list_all (\<lambda>f. length (pk_data f) + 32 \<le> MAX_PACKET_SIZE) fs
     \<and> list_all (\<lambda>f. length (pk_data f) + 32 = MAX_PACKET_SIZE) (butlast fs)
     \<and> (srt fs = fs \<longrightarrow> DefragmentPacket srt fs = set_checksum (set_size (p\<lparr>pk_header := (pk_header p)
            \<lparr>ph_flags := without_fragment_flags (ph_flags (pk_header p))\<rparr>\<rparr>)))
     \<and> (mset ps = mset fs \<longrightarrow> OptimizePacketOrder fs ps)"
proof -
  let ?n = "length (pk_data p)"
  have fs: "fs = map (nth_fragment p) [0 ..< fragment_count ?n]" using assms(1,2) by (simp add: FragmentPacket_def)
  have nonempty: "fs \<noteq> []" using fragments_concat [OF assms(1)] assms(1,2) by auto
  have size: "32 \<le> MAX_PACKET_SIZE" "fragment_size + 32 = MAX_PACKET_SIZE" by (simp_all add: fragment_size_def MAX_PACKET_SIZE_def)
  have full: "length (pk_data (nth_fragment p i)) = fragment_size" if "i + 1 < fragment_count ?n" for i
    using fragment_bounds(2) [of i ?n] that by (simp add: nth_fragment_data)
  have "butlast fs = map (nth_fragment p) [0 ..< fragment_count ?n - 1]" unfolding fs by (cases "fragment_count ?n") simp_all
  then have "list_all (\<lambda>f. length (pk_data f) + 32 = MAX_PACKET_SIZE) (butlast fs)"
    using full size by (auto simp: list_all_iff)
  moreover have "list_all ValidatePacket fs" using fragment_valid [OF assms(3,4)] by (simp add: fs list_all_iff)
  moreover have "list_all (\<lambda>f. length (pk_data f) + 32 \<le> MAX_PACKET_SIZE) fs"
    using size by (auto simp: fs list_all_iff nth_fragment_data)
  moreover have "DefragmentPacket srt fs = set_checksum (set_size (p\<lparr>pk_header := (pk_header p)
            \<lparr>ph_flags := without_fragment_flags (ph_flags (pk_header p))\<rparr>\<rparr>))" if "srt fs = fs"
  proof -
    have "hd fs = nth_fragment p 0" using nonempty unfolding fs by (simp add: hd_map upt_conv_Cons)
    moreover have "without_fragment_flags (f OR flag_Fragmented) = without_fragment_flags f"
      "without_fragment_flags (f OR flag_LastFragment) = without_fragment_flags f" for f
      by (auto simp: without_fragment_flags_def bit_eq_iff bit_simps)
    ultimately show ?thesis
      using that nonempty fragments_concat [OF assms(1)] assms(2)
      by (simp add: DefragmentPacket_def nth_fragment_def Let_def set_checksum_def set_size_def with_flag_def)
  qed
  moreover have "OptimizePacketOrder fs ps" if "mset ps = mset fs"
  proof -
    have "set ps = set fs" using that by (rule mset_eq_setD)
    then have "\<forall>f \<in> set ps. ph_sequenceNumber (pk_header f) = ph_sequenceNumber (pk_header p)"
      by (auto simp: fs fragment_header)
    then have "sorted_wrt (\<lambda>a b. \<not> by_sequence b a) ps" by (induction ps) (auto simp: by_sequence_def)
    with that show ?thesis by (simp add: OptimizePacketOrder_def sorts_to_def)
  qed
  ultimately show ?thesis by blast
qed

theorem fragments_reassemble_witness:
  "let p = NetworkPacket_new\<lparr>pk_data := replicate 2000000 7\<rparr>
   in pk_data (DefragmentPacket id (FragmentPacket p)) = pk_data p \<and> list_all ValidatePacket (FragmentPacket p)"
proof -
  let ?p = "NetworkPacket_new\<lparr>pk_data := replicate 2000000 7\<rparr>"
  have "MAX_PACKET_SIZE < length (pk_data ?p)" "ph_magic (pk_header ?p) = 0xDEADBEEF"
    "ph_version (pk_header ?p) = PROTOCOL_VERSION"
    by (simp_all add: MAX_PACKET_SIZE_def NetworkPacket_new_def PacketHeader_new_def)
  then show ?thesis using fragments_reassemble [of ?p "FragmentPacket ?p" id] by (simp add: Let_def)
qed

text \<open>An acknowledgement is only accepted for packet 0, whose number is never given out.\<close>

lemma acknowledgement_rejected: "ValidatePacket (CreateAckPacket k n) \<longleftrightarrow> k = 0"
proof -
  have c: "NP_CalculateChecksum (le32 k)
      = ucast (ucast k :: u8) + ucast (ucast (drop_bit 8 k) :: u8) * 2 + ucast (ucast (drop_bit 16 k) :: u8) * 3
        + ucast (ucast (drop_bit 24 k) :: u8) * 4"
    by (simp add: NP_CalculateChecksum_def le32_def)
  let ?a = "ucast k :: u8" and ?b = "ucast (drop_bit 8 k) :: u8" and ?c = "ucast (drop_bit 16 k) :: u8" and ?d = "ucast (drop_bit 24 k) :: u8"
  have lt: "unat x < 256" for x :: u8
  proof -
    have "unat x < 2 ^ LENGTH(8)" by (rule unsigned_less)
    then show ?thesis by simp
  qed
  have u: "unat (ucast x :: u32) = unat x" for x :: u8
    using lt [of x] by (simp add: unsigned_ucast_eq take_bit_nat_eq_self)
  have "unat (NP_CalculateChecksum (le32 k)) = unat ?a + unat ?b * 2 + unat ?c * 3 + unat ?d * 4"
    unfolding c using lt [of ?a] lt [of ?b] lt [of ?c] lt [of ?d] by (simp add: unat_word_ariths u)
  then have "NP_CalculateChecksum (le32 k) = 0 \<longleftrightarrow> le32 k = [0, 0, 0, 0]"
    by (auto simp: le32_def unat_eq_zero unat_gt_0)
  also have "\<dots> \<longleftrightarrow> k = 0"
  proof
    assume "le32 k = [0, 0, 0, 0]"
    then have "le32 k = le32 0" by (simp add: le32_def)
    then show "k = 0" by (metis read_le32_le32)
  qed (simp add: le32_def)
  finally show ?thesis
    by (simp add: ValidatePacket_def CreateAckPacket_def NetworkPacket_new_def PacketHeader_new_def size_matches_def
        NP_VerifyChecksum_def)
qed

end
