(* ===== verification/ProtocolRuns.thy ===== *)
theory ProtocolRuns
  imports ProtocolProps
begin

text \<open>
  The protocol over sequences of its operations: the numbers of packets and the record of pending
  packets, and what the default configuration ever sends.
\<close>

section \<open>All operations\<close>

datatype protocol_op =
    PoInitialize time_point DataCompression
  | PoShutdown time_point
  | PoSend time_point PrioritizedMessage
  | PoSendAll time_point "PrioritizedMessage list"
  | PoReceive time_point NetworkPacket
  | PoGetPackets time_point
  | PoSent time_point u32
  | PoAcknowledged time_point u32
  | PoLost u32
  | PoCompression bool
  | PoBatching bool
  | PoPrediction bool
  | PoPriority bool
  | PoLevel CompressionLevel
  | PoBatchConfig BatchConfig
  | PoPriorityConfig "(u32, MessageClassification) omap"
  | PoPredictionConfig PredictionConfig
  | PoConditions time_point flt flt flt
  | PoLatency
  | PoThroughput
  | PoReliability
  | PoResetStats
  | PoOnReceived bool
  | PoOnSent bool
  | PoOnLost bool

fun protocol_step ::
    "PriorityTypes \<Rightarrow> (PrioritizedMessage list \<Rightarrow> PrioritizedMessage list) \<Rightarrow> protocol_op
      \<Rightarrow> OptimizedNetworkProtocol \<Rightarrow> OptimizedNetworkProtocol option" where
  "protocol_step T srt (PoInitialize now dc) s = Some (snd (NP_Initialize T now dc s))"
| "protocol_step T srt (PoShutdown now) s = Some (NP_Shutdown T now s)"
| "protocol_step T srt (PoSend now m) s = Some (NP_SendMessage now m s)"
| "protocol_step T srt (PoSendAll now ms) s = Some (NP_SendMessages now ms s)"
| "protocol_step T srt (PoReceive now p) s = map_option snd (ProcessReceivedPacket T now p s)"
| "protocol_step T srt (PoGetPackets now) s = Some (snd (GetPacketsToSend T srt now s))"
| "protocol_step T srt (PoSent now k) s = Some (MarkPacketSent now k s)"
| "protocol_step T srt (PoAcknowledged now k) s = Some (MarkPacketAcknowledged now k s)"
| "protocol_step T srt (PoLost k) s = Some (MarkPacketLost k s)"
| "protocol_step T srt (PoCompression b) s = Some (NP_EnableCompression b s)"
| "protocol_step T srt (PoBatching b) s = Some (EnableBatching b s)"
| "protocol_step T srt (PoPrediction b) s = Some (EnablePrediction b s)"
| "protocol_step T srt (PoPriority b) s = Some (EnablePrioritySystem b s)"
| "protocol_step T srt (PoLevel l) s = Some (NP_SetCompressionLevel l s)"
| "protocol_step T srt (PoBatchConfig c) s = Some (SetBatchConfig c s)"
| "protocol_step T srt (PoPriorityConfig cs) s = Some (SetPriorityConfig cs s)"
| "protocol_step T srt (PoPredictionConfig c) s = Some (SetPredictionConfig c s)"
| "protocol_step T srt (PoConditions now l p b) s = Some (NP_UpdateNetworkConditions now l p b s)"
| "protocol_step T srt PoLatency s = Some (OptimizeForLatency s)"
| "protocol_step T srt PoThroughput s = Some (OptimizeForThroughput s)"
| "protocol_step T srt PoReliability s = Some (OptimizeForReliability s)"
| "protocol_step T srt PoResetStats s = Some (NP_ResetStats s)"
| "protocol_step T srt (PoOnReceived b) s = Some (SetMessageReceivedCallback b s)"
| "protocol_step T srt (PoOnSent b) s = Some (SetPacketSentCallback b s)"
| "protocol_step T srt (PoOnLost b) s = Some (SetPacketLostCallback b s)"

lemmas configuration_defs =
  NP_EnableCompression_def EnableBatching_def EnablePrediction_def EnablePrioritySystem_def
  NP_SetCompressionLevel_def SetBatchConfig_def SetPriorityConfig_def SetPredictionConfig_def
  NP_UpdateNetworkConditions_def OptimizeForLatency_def OptimizeForThroughput_def OptimizeForReliability_def
  NP_ResetStats_def SetMessageReceivedCallback_def SetPacketSentCallback_def SetPacketLostCallback_def

lemma receive_frame:
  assumes "ProcessReceivedPacket T now p s = Some (ms, t)"
  shows "nw_sendQueue t = nw_sendQueue s \<and> nw_pendingPackets t = nw_pendingPackets s
     \<and> nw_nextPacketId t = nw_nextPacketId s \<and> nw_nextSequenceNumber t = nw_nextSequenceNumber s
     \<and> nw_batching t = nw_batching s \<and> nw_batchingEnabled t = nw_batchingEnabled s
     \<and> nw_batchConfig t = nw_batchConfig s \<and> nw_initialized t = nw_initialized s"
  using assms
  by (auto simp: ProcessReceivedPacket_def ExtractMessages_def message_bytes_def Let_def split: if_splits option.splits)

lemma send_frame:
  "nw_sendQueue (NP_SendMessage now m s) = nw_sendQueue s \<and> nw_pendingPackets (NP_SendMessage now m s) = nw_pendingPackets s
   \<and> nw_nextPacketId (NP_SendMessage now m s) = nw_nextPacketId s
   \<and> nw_nextSequenceNumber (NP_SendMessage now m s) = nw_nextSequenceNumber s
   \<and> nw_batching (NP_SendMessage now m s) = nw_batching s \<and> nw_batchingEnabled (NP_SendMessage now m s) = nw_batchingEnabled s
   \<and> nw_batchConfig (NP_SendMessage now m s) = nw_batchConfig s \<and> nw_initialized (NP_SendMessage now m s) = nw_initialized s"
  by (simp add: NP_SendMessage_def)

lemma send_all_frame:
  "nw_sendQueue (NP_SendMessages now ms s) = nw_sendQueue s \<and> nw_pendingPackets (NP_SendMessages now ms s) = nw_pendingPackets s
   \<and> nw_nextPacketId (NP_SendMessages now ms s) = nw_nextPacketId s
   \<and> nw_nextSequenceNumber (NP_SendMessages now ms s) = nw_nextSequenceNumber s
   \<and> nw_batching (NP_SendMessages now ms s) = nw_batching s \<and> nw_batchingEnabled (NP_SendMessages now ms s) = nw_batchingEnabled s
   \<and> nw_batchConfig (NP_SendMessages now ms s) = nw_batchConfig s \<and> nw_initialized (NP_SendMessages now ms s) = nw_initialized s"
proof -
  have "nw_sendQueue (fold (NP_SendMessage now) ms s) = nw_sendQueue s
    \<and> nw_pendingPackets (fold (NP_SendMessage now) ms s) = nw_pendingPackets s
    \<and> nw_nextPacketId (fold (NP_SendMessage now) ms s) = nw_nextPacketId s
    \<and> nw_nextSequenceNumber (fold (NP_SendMessage now) ms s) = nw_nextSequenceNumber s
    \<and> nw_batching (fold (NP_SendMessage now) ms s) = nw_batching s
    \<and> nw_batchingEnabled (fold (NP_SendMessage now) ms s) = nw_batchingEnabled s
    \<and> nw_batchConfig (fold (NP_SendMessage now) ms s) = nw_batchConfig s
    \<and> nw_initialized (fold (NP_SendMessage now) ms s) = nw_initialized s"
    by (induction ms arbitrary: s) (simp_all add: send_frame)
  then show ?thesis by (simp add: NP_SendMessages_def)
qed

section \<open>Numbers and tracking\<close>

definition packet_ids :: "OptimizedNetworkProtocol \<Rightarrow> u32 list" where
  "packet_ids s = map (\<lambda>p. ph_packetId (pk_header p)) (nw_sendQueue s)"

text \<open>The numbers in the queue are consecutive, and the next one follows.\<close>

definition numbered :: "OptimizedNetworkProtocol \<Rightarrow> bool" where
  "numbered s \<longleftrightarrow>
     (\<exists>a. packet_ids s = map of_nat [a ..< a + length (nw_sendQueue s)] \<and> nw_nextPacketId s = of_nat (a + length (nw_sendQueue s)))
     \<and> nw_nextSequenceNumber s = nw_nextPacketId s
     \<and> (\<forall>p \<in> set (nw_sendQueue s). ph_sequenceNumber (pk_header p) = ph_packetId (pk_header p))
     \<and> om_sorted (nw_pendingPackets s)
     \<and> (\<forall>(k, p) \<in> set (nw_pendingPackets s). ph_packetId (pk_header p) = k \<and> ph_sequenceNumber (pk_header p) = k
          \<and> k \<in> set (packet_ids s))"

lemma create_each_ids:
  "create_each now f mss s = (ps, t) \<Longrightarrow> nw_nextSequenceNumber s = nw_nextPacketId s \<Longrightarrow>
     map (\<lambda>p. ph_packetId (pk_header p)) ps = map (\<lambda>i. nw_nextPacketId s + of_nat i) [0 ..< length ps]
     \<and> (\<forall>p \<in> set ps. ph_sequenceNumber (pk_header p) = ph_packetId (pk_header p))
     \<and> nw_nextPacketId t = nw_nextPacketId s + of_nat (length ps) \<and> nw_nextSequenceNumber t = nw_nextPacketId t
     \<and> nw_sendQueue t = nw_sendQueue s \<and> nw_pendingPackets t = nw_pendingPackets s"
proof (induction mss arbitrary: s ps)
  case (Cons ms mss)
  obtain p s1 where p: "CreatePacket now ms s = (p, s1)" by fastforce
  obtain qs where qs: "create_each now f mss s1 = (qs, t)" "ps = with_flag f p # qs"
    using Cons.prems(1) p by (auto split: prod.splits)
  note facts = CreatePacket_facts(3-8) [OF p]
  have seq: "nw_nextSequenceNumber s1 = nw_nextPacketId s1" using facts Cons.prems(2) by simp
  have "[0 ..< Suc (length qs)] = 0 # map Suc [0 ..< length qs]" unfolding map_Suc_upt by (rule upt_conv_Cons) simp
  then have "[0 ..< length ps] = 0 # map Suc [0 ..< length qs]" using qs(2) by simp
  then show ?case
    using Cons.IH [OF qs(1) seq] facts Cons.prems(2) qs(2) by (simp add: comp_def algebra_simps)
qed simp

lemma track_packets:
  "nw_sendQueue (fold track_packet ps s) = nw_sendQueue s @ ps
   \<and> nw_nextPacketId (fold track_packet ps s) = nw_nextPacketId s
   \<and> nw_nextSequenceNumber (fold track_packet ps s) = nw_nextSequenceNumber s
   \<and> nw_batching (fold track_packet ps s) = nw_batching s
   \<and> (om_sorted (nw_pendingPackets s) \<longrightarrow> om_sorted (nw_pendingPackets (fold track_packet ps s)))
   \<and> set (nw_pendingPackets (fold track_packet ps s)) \<subseteq> set (nw_pendingPackets s) \<union> (\<lambda>p. (ph_packetId (pk_header p), p)) ` set ps"
proof (induction ps arbitrary: s)
  case (Cons p ps)
  have "set (nw_pendingPackets (track_packet p s)) \<subseteq> insert (ph_packetId (pk_header p), p) (set (nw_pendingPackets s))"
    unfolding track_packet_def using set_om_put [of "ph_packetId (pk_header p)" p "nw_pendingPackets s"] by simp
  then show ?case using Cons [of "track_packet p s"] by (auto simp: track_packet_def)
qed simp

lemma CreatePackets_ids:
  assumes "CreatePackets T srt now ms s = (ps, t)" "nw_nextSequenceNumber s = nw_nextPacketId s"
  shows "map (\<lambda>p. ph_packetId (pk_header p)) ps = map (\<lambda>i. nw_nextPacketId s + of_nat i) [0 ..< length ps]
     \<and> (\<forall>p \<in> set ps. ph_sequenceNumber (pk_header p) = ph_packetId (pk_header p))
     \<and> nw_nextPacketId t = nw_nextPacketId s + of_nat (length ps) \<and> nw_nextSequenceNumber t = nw_nextPacketId t
     \<and> nw_sendQueue t = nw_sendQueue s \<and> nw_pendingPackets t = nw_pendingPackets s"
proof (cases "ms = []")
  case False
  obtain f mss s1 where c: "create_each now f mss s1 = (ps, t)"
    and s1: "nw_nextPacketId s1 = nw_nextPacketId s" "nw_nextSequenceNumber s1 = nw_nextSequenceNumber s"
      "nw_sendQueue s1 = nw_sendQueue s" "nw_pendingPackets s1 = nw_pendingPackets s"
  proof (cases "if nw_batchingEnabled s then nw_batching s else None")
    case None
    then show thesis using that [of 0 _ s] assms(1) False by (auto simp: CreatePackets_def Let_def)
  next
    case (Some sb)
    let ?sb = "fold (SB_AddMessage T now) (if nw_priorityEnabled s then PrioritizeMessages srt ms s else ms) sb"
    have "create_each now flag_Batch (filter (\<lambda>ms. ms \<noteq> []) (map bm_messages (fst (GetReadyBatches ?sb))))
        (s\<lparr>nw_batching := Some (snd (GetReadyBatches ?sb))\<rparr>) = (ps, t)"
      using Some assms(1) False by (simp add: CreatePackets_def Let_def case_prod_beta)
    then show thesis using that by simp
  qed
  from create_each_ids [OF c] s1 assms(2) show ?thesis by simp
qed (use assms in \<open>simp add: CreatePackets_def\<close>)

lemma consecutive_append:
  "map of_nat [a ..< a + n] @ map (\<lambda>i. of_nat (a + n) + of_nat i) [0 ..< k] = map (of_nat :: nat \<Rightarrow> u32) [a ..< a + (n + k)]"
proof -
  have "[a + n ..< a + n + k] = map (\<lambda>i. i + (a + n)) [0 ..< k]" by (simp add: map_add_upt add.commute)
  then have "map (\<lambda>i. of_nat (a + n) + of_nat i) [0 ..< k] = map (of_nat :: nat \<Rightarrow> u32) [a + n ..< a + n + k]"
    by (simp add: add.commute)
  then show ?thesis by (metis add.assoc le_add1 map_append upt_add_eq_append)
qed

lemma numbered_GetPackets:
  assumes "numbered s"
  shows "numbered (snd (GetPacketsToSend T srt now s))
     \<and> nw_sendQueue (snd (GetPacketsToSend T srt now s)) = nw_sendQueue s @ fst (GetPacketsToSend T srt now s)"
proof (cases "nw_initialized s \<and> (\<exists>tm. nw_trafficManager s = Some tm \<and> fst (GetMessagesToSend now MAX_MESSAGES_PER_PACKET tm) \<noteq> [])")
  case False
  then show ?thesis
    using assms by (auto simp: GetPacketsToSend_def Let_def numbered_def packet_ids_def split: option.split prod.split)
next
  case True
  then obtain tm ms tm1 where tm: "nw_initialized s" "nw_trafficManager s = Some tm"
    "GetMessagesToSend now MAX_MESSAGES_PER_PACKET tm = (ms, tm1)" "ms \<noteq> []" by (metis prod.collapse)
  let ?s = "s\<lparr>nw_trafficManager := Some tm1\<rparr>"
  obtain ps t where c: "CreatePackets T srt now ms ?s = (ps, t)" by fastforce
  let ?t = "fold track_packet ps t"
  have g: "GetPacketsToSend T srt now s = (ps, ?t\<lparr>nw_stats := fold count_packet ps (nw_stats ?t)\<rparr>)"
    using tm c by (simp add: GetPacketsToSend_def Let_def)
  obtain a where a: "packet_ids s = map of_nat [a ..< a + length (nw_sendQueue s)]"
    "nw_nextPacketId s = of_nat (a + length (nw_sendQueue s))"
    using assms by (auto simp: numbered_def)
  have seq: "nw_nextSequenceNumber ?s = nw_nextPacketId ?s" using assms by (simp add: numbered_def)
  note ids = CreatePackets_ids [OF c seq] and tr = track_packets [of ps t]
  have queue: "nw_sendQueue ?t = nw_sendQueue s @ ps" using ids tr by simp
  have all: "packet_ids ?t = map of_nat [a ..< a + (length (nw_sendQueue s) + length ps)]"
  proof -
    have "packet_ids ?t = packet_ids s @ map (\<lambda>p. ph_packetId (pk_header p)) ps" using queue by (simp add: packet_ids_def)
    then show ?thesis using a ids consecutive_append [of a "length (nw_sendQueue s)" "length ps"] by simp
  qed
  have next_id: "nw_nextPacketId ?t = of_nat (a + (length (nw_sendQueue s) + length ps))"
    using tr ids a(2) by (simp add: add.assoc)
  have ex: "\<exists>b. packet_ids ?t = map of_nat [b ..< b + length (nw_sendQueue ?t)] \<and> nw_nextPacketId ?t = of_nat (b + length (nw_sendQueue ?t))"
    using all next_id queue by (intro exI [of _ a]) simp
  have "(\<forall>p \<in> set (nw_sendQueue ?t). ph_sequenceNumber (pk_header p) = ph_packetId (pk_header p))"
    using assms ids queue by (auto simp: numbered_def)
  moreover have "nw_nextSequenceNumber ?t = nw_nextPacketId ?t" using tr ids by simp
  moreover have "om_sorted (nw_pendingPackets ?t)" using tr ids assms by (simp add: numbered_def)
  moreover have "\<forall>(k, p) \<in> set (nw_pendingPackets ?t). ph_packetId (pk_header p) = k \<and> ph_sequenceNumber (pk_header p) = k
          \<and> k \<in> set (packet_ids ?t)"
  proof -
    have "set (nw_pendingPackets ?t) \<subseteq> set (nw_pendingPackets s) \<union> (\<lambda>p. (ph_packetId (pk_header p), p)) ` set ps"
      using tr ids by simp
    moreover have "set (packet_ids s) \<subseteq> set (packet_ids ?t)" "\<forall>p \<in> set ps. ph_packetId (pk_header p) \<in> set (packet_ids ?t)"
      using queue by (auto simp: packet_ids_def)
    moreover have "\<forall>(k, p) \<in> set (nw_pendingPackets s). ph_packetId (pk_header p) = k \<and> ph_sequenceNumber (pk_header p) = k
          \<and> k \<in> set (packet_ids s)"
      using assms by (simp add: numbered_def)
    moreover have "\<forall>p \<in> set ps. ph_sequenceNumber (pk_header p) = ph_packetId (pk_header p)" using ids by simp
    ultimately show ?thesis by (auto dest!: subsetD [where A = "set (nw_pendingPackets ?t)"])
  qed
  ultimately have "numbered ?t" using ex by (simp add: numbered_def)
  then show ?thesis using queue unfolding g by (simp add: numbered_def packet_ids_def)
qed

lemma numbered_frame:
  assumes "numbered s" "nw_sendQueue t = nw_sendQueue s" "nw_pendingPackets t = nw_pendingPackets s"
    "nw_nextPacketId t = nw_nextPacketId s" "nw_nextSequenceNumber t = nw_nextSequenceNumber s"
  shows "numbered t"
  using assms by (simp add: numbered_def packet_ids_def)

lemma numbered_erase:
  assumes "numbered s" "nw_sendQueue t = nw_sendQueue s" "nw_pendingPackets t = om_erase k (nw_pendingPackets s)"
    "nw_nextPacketId t = nw_nextPacketId s" "nw_nextSequenceNumber t = nw_nextSequenceNumber s"
  shows "numbered t"
  using assms by (auto simp: numbered_def packet_ids_def om_erase_def om_sorted_filter)

lemma numbered_sent: "numbered s \<Longrightarrow> numbered (MarkPacketSent now k s)"
proof (cases "om_find (nw_pendingPackets s) k")
  case (Some p)
  assume n: "numbered s"
  then have "(k, p) \<in> set (nw_pendingPackets s)" using Some by (simp add: numbered_def om_find_Some_iff)
  with n have "ph_packetId (pk_header p) = k \<and> ph_sequenceNumber (pk_header p) = k \<and> k \<in> set (packet_ids s)"
    by (auto simp: numbered_def)
  then show ?thesis
    using n Some set_om_put [of k "p\<lparr>pk_sendTime := now\<rparr>" "nw_pendingPackets s"]
    by (auto simp: MarkPacketSent_def Let_def numbered_def packet_ids_def)
qed (simp add: MarkPacketSent_def)

lemma numbered_step:
  assumes "protocol_step T srt x s = Some t" "numbered s"
  shows "numbered t"
proof (cases x)
  case (PoReceive now p)
  then obtain ms where "ProcessReceivedPacket T now p s = Some (ms, t)" using assms(1) by auto
  from receive_frame [OF this] numbered_frame [OF assms(2), of t] show ?thesis by simp
next
  case (PoSend now m)
  with assms send_frame [of now m s] numbered_frame [OF assms(2), of t] show ?thesis by simp
next
  case (PoSendAll now ms)
  with assms send_all_frame [of now ms s] numbered_frame [OF assms(2), of t] show ?thesis by simp
next
  case (PoGetPackets now)
  with assms numbered_GetPackets [OF assms(2), of T srt now] show ?thesis by simp
next
  case (PoSent now k)
  then show ?thesis using numbered_sent [OF assms(2), of now k] assms(1) by simp
next
  case (PoAcknowledged now k)
  with assms numbered_erase [OF assms(2), of t k] show ?thesis
    by (auto simp: MarkPacketAcknowledged_def Let_def split: option.splits)
next
  case (PoLost k)
  with assms numbered_erase [OF assms(2), of t k] show ?thesis
    by (auto simp: MarkPacketLost_def Let_def split: option.splits)
next
  case (PoShutdown now)
  then show ?thesis
  proof (cases "nw_initialized s")
    case True
    then show ?thesis
      using assms PoShutdown
      by (auto simp: NP_Shutdown_def numbered_def packet_ids_def intro: exI [of _ "unat (nw_nextPacketId s)"])
  qed (use assms in \<open>simp add: NP_Shutdown_def\<close>)
next
  case (PoInitialize now dc)
  with assms numbered_frame [OF assms(2), of t] show ?thesis
    by (auto simp: NP_Initialize_def Let_def DC_Initialize_def SB_Initialize_def SmartBatching_new_def
        Traffic_Initialize_def NetworkTrafficManager_new_def split: if_splits)
qed (use assms numbered_frame [OF assms(2), of t] in \<open>auto simp: configuration_defs\<close>)

interpretation protocol_numbers: step_system "protocol_step T srt" numbered "\<lambda>_. True" for T srt
  by unfold_locales (rule numbered_step)

lemma sendQueue_grows:
  assumes "protocol_step T srt x s = Some t" "numbered s" "\<forall>now. x \<noteq> PoShutdown now"
  shows "\<exists>ps. nw_sendQueue t = nw_sendQueue s @ ps"
proof (cases x)
  case (PoReceive now p)
  then obtain ms where "ProcessReceivedPacket T now p s = Some (ms, t)" using assms(1) by auto
  from receive_frame [OF this] show ?thesis by simp
next
  case (PoGetPackets now)
  with assms(1) numbered_GetPackets [OF assms(2), of T srt now] show ?thesis by auto
next
  case (PoInitialize now dc)
  with assms(1) show ?thesis
    by (auto simp: NP_Initialize_def Let_def DC_Initialize_def SB_Initialize_def SmartBatching_new_def
        Traffic_Initialize_def NetworkTrafficManager_new_def split: if_splits)
qed (use assms in \<open>auto simp: configuration_defs send_frame send_all_frame MarkPacketSent_def MarkPacketAcknowledged_def
       MarkPacketLost_def Let_def split: option.split\<close>)

lemma numbered_new: "numbered OptimizedNetworkProtocol_new"
  by (auto simp: numbered_def packet_ids_def OptimizedNetworkProtocol_new_def intro: exI [of _ 1])

text \<open>
  C31. Packets and their numbers, after any operations: the packets ever queued carry consecutive
  numbers, different ones while there are fewer than \<open>2 ^ 32\<close>; every pending packet is filed under its
  own number and is one of the queued ones.  Only a shutdown takes packets out of the queue.
\<close>

theorem packets_numbered_and_tracked:
  assumes "run (protocol_step T srt) xs OptimizedNetworkProtocol_new = Some s"
  shows "(\<exists>a. packet_ids s = map of_nat [a ..< a + length (nw_sendQueue s)])
     \<and> (length (nw_sendQueue s) < 2 ^ 32 \<longrightarrow> distinct (packet_ids s))
     \<and> (\<forall>k p. om_find (nw_pendingPackets s) k = Some p \<longrightarrow> ph_packetId (pk_header p) = k \<and> k \<in> set (packet_ids s))
     \<and> (\<forall>x t. protocol_step T srt x s = Some t \<longrightarrow> (\<forall>now. x \<noteq> PoShutdown now)
          \<longrightarrow> (\<exists>ps. nw_sendQueue t = nw_sendQueue s @ ps))"
proof -
  have n: "numbered s"
    using protocol_numbers.run_inv [OF numbered_new, of xs T srt s] assms by (simp add: list_all_iff)
  then obtain a where a: "packet_ids s = map of_nat [a ..< a + length (nw_sendQueue s)]" by (auto simp: numbered_def)
  have "distinct (packet_ids s)" if l: "length (nw_sendQueue s) < 2 ^ 32"
  proof -
    have "i = j" if "i \<le> j" "a \<le> i" "j < a + length (nw_sendQueue s)" "(of_nat i :: u32) = of_nat j" for i j
    proof -
      have "(of_nat (j - i) :: u32) = 0" using that by (simp add: of_nat_diff)
      then have "2 ^ 32 dvd j - i" by (simp add: word_of_nat_eq_0_iff)
      moreover have "j - i < 2 ^ 32" using that l by simp
      ultimately show ?thesis using that(1) by (metis diff_is_0_eq dvd_imp_le le_antisym not_le neq0_conv)
    qed
    then have "inj_on (of_nat :: nat \<Rightarrow> u32) {a ..< a + length (nw_sendQueue s)}"
      by (intro inj_onI) (metis atLeastLessThan_iff nat_le_linear)
    then show ?thesis unfolding a by (simp add: distinct_map)
  qed
  moreover have "\<forall>k p. om_find (nw_pendingPackets s) k = Some p \<longrightarrow> ph_packetId (pk_header p) = k \<and> k \<in> set (packet_ids s)"
    using n by (auto simp: numbered_def om_find_Some_iff)
  moreover have "\<forall>x t. protocol_step T srt x s = Some t \<longrightarrow> (\<forall>now. x \<noteq> PoShutdown now)
          \<longrightarrow> (\<exists>ps. nw_sendQueue t = nw_sendQueue s @ ps)"
    using sendQueue_grows n by blast
  ultimately show ?thesis using a by blast
qed

theorem packets_numbered_and_tracked_witness:
  "map_option packet_ids (run (protocol_step demo_types demo_sort)
     [PoInitialize 0 DataCompression_new, PoBatching False, PoSend 0 (demo_message 7 Low [1]),
      PoSend 0 (demo_message 8 Low [2]), PoGetPackets 0] OptimizedNetworkProtocol_new) = Some [1, 2]"
proof -
  let ?xs = "[PoInitialize 0 DataCompression_new, PoBatching False, PoSend 0 (demo_message 7 Low [1]),
      PoSend 0 (demo_message 8 Low [2]), PoGetPackets 0]"
  have r: "map_option (\<lambda>s. (length (nw_sendQueue s), map fst (nw_pendingPackets s)))
      (run (protocol_step demo_types demo_sort) ?xs OptimizedNetworkProtocol_new) = Some (2, [1, 2])"
    by code_simp
  then obtain s where s: "run (protocol_step demo_types demo_sort) ?xs OptimizedNetworkProtocol_new = Some s"
    "length (nw_sendQueue s) = 2" "map fst (nw_pendingPackets s) = [1, 2]" by (auto simp del: run.simps)
  note c = packets_numbered_and_tracked [OF s(1)]
  obtain a where a: "packet_ids s = map of_nat [a ..< a + 2]" using c s(2) by auto
  have "k \<in> set (packet_ids s)" if "k = 1 \<or> k = 2" for k
  proof -
    have "k \<in> set (map fst (nw_pendingPackets s))" unfolding s(3) using that by auto
    then obtain p where "om_find (nw_pendingPackets s) k = Some p" by (metis om_find_None_iff not_None_eq list.set_map)
    with c show ?thesis by blast
  qed
  then have "1 \<in> set (packet_ids s)" "2 \<in> set (packet_ids s)" by blast+
  moreover have "packet_ids s = [of_nat a, of_nat a + 1]" using a by (simp add: upt_rec)
  ultimately have "packet_ids s = [1, 2]" by auto
  with s(1) show ?thesis by (simp del: run.simps)
qed

section \<open>The default configuration\<close>

definition quiet_batching :: "SmartBatching \<Rightarrow> bool" where
  "quiet_batching sb \<longleftrightarrow> bc_type (sb_config sb) = IntervalBatch \<and> bc_minIntervalMs (sb_config sb) = Fin 16
     \<and> f_lt (Fin 0) (sb_currentInterval sb) \<and> sb_accumulatedTime sb = Fin 0 \<and> sb_readyBatches sb = []"

definition quiet :: "OptimizedNetworkProtocol \<Rightarrow> bool" where
  "quiet s \<longleftrightarrow> nw_batchingEnabled s \<and> (nw_initialized s \<longrightarrow> nw_batching s \<noteq> None)
     \<and> (\<forall>sb. nw_batching s = Some sb \<longrightarrow> quiet_batching sb)
     \<and> bc_type (nw_batchConfig s) = IntervalBatch \<and> bc_minIntervalMs (nw_batchConfig s) = Fin 16
     \<and> f_lt (Fin 0) (bc_intervalMs (nw_batchConfig s))
     \<and> nw_sendQueue s = [] \<and> nw_pendingPackets s = []"

text \<open>Everything but switching batching off or configuring it otherwise.\<close>

fun default_op :: "protocol_op \<Rightarrow> bool" where
  "default_op (PoBatching b) = b"
| "default_op (PoBatchConfig c) = False"
| "default_op x = True"

lemma f_lt_le: "f_lt (Fin 0) a \<Longrightarrow> \<not> f_le a (Fin 0)"
  by (cases a) auto

lemma quiet_AddMessage:
  assumes "quiet_batching sb"
  shows "quiet_batching (SB_AddMessage T now m sb)"
  using assms f_lt_le [of "sb_currentInterval sb"]
  by (simp add: quiet_batching_def SB_AddMessage_def ShouldCreateBatch_def Let_def)

lemma quiet_AddMessages: "quiet_batching sb \<Longrightarrow> quiet_batching (fold (SB_AddMessage T now) ms sb)"
  by (induction ms arbitrary: sb) (simp_all add: quiet_AddMessage)

lemma clamped_positive: "f_lt (Fin 0) (f_max (Fin 16) x)"
  by (cases x) (auto simp: f_max_def)

lemma quiet_conditions: "quiet_batching sb \<Longrightarrow> quiet_batching (UpdateNetworkConditions now a b sb)"
  by (auto simp: quiet_batching_def UpdateNetworkConditions_def AdjustBatchingParameters_def CalculateOptimalInterval_def
      AdjustIntervalBasedOnLatency_def AdjustIntervalBasedOnCongestion_def scale_interval_def Let_def clamped_positive)

lemma quiet_shutdown:
  assumes "quiet_batching sb"
  shows "quiet_batching (SB_Shutdown T now sb)"
proof -
  have flush: "sb_config (ForceFlush T now s) = sb_config s \<and> sb_currentInterval (ForceFlush T now s) = sb_currentInterval s
      \<and> sb_accumulatedTime (ForceFlush T now s) = sb_accumulatedTime s" for s
    by (simp add: ForceFlush_def CreateBatch_def SB_CompressBatch_def UpdateStatistics_def batch_call_def Let_def case_prod_beta)
  with assms show ?thesis by (simp add: quiet_batching_def SB_Shutdown_def ClearBatches_def)
qed

lemma quiet_GetPackets:
  assumes "quiet s"
  shows "fst (GetPacketsToSend T srt now s) = [] \<and> quiet (snd (GetPacketsToSend T srt now s))"
proof (cases "nw_initialized s")
  case True
  then obtain sb where sb: "nw_batching s = Some sb" "quiet_batching sb" using assms by (auto simp: quiet_def)
  have "fst (CreatePackets T srt now ms (s\<lparr>nw_trafficManager := v\<rparr>)) = []
      \<and> quiet (snd (CreatePackets T srt now ms (s\<lparr>nw_trafficManager := v\<rparr>)))" for ms v
  proof -
    have r: "sb_readyBatches (fold (SB_AddMessage T now) ns sb) = []" for ns
      using quiet_AddMessages [OF sb(2), of T now ns] by (simp add: quiet_batching_def)
    have q: "quiet_batching ((fold (SB_AddMessage T now) ns sb)\<lparr>sb_readyBatches := []\<rparr>)" for ns
      using quiet_AddMessages [OF sb(2), of T now ns] by (simp add: quiet_batching_def)
    show ?thesis
      using assms sb q by (simp add: CreatePackets_def GetReadyBatches_def Let_def r quiet_def)
  qed
  then show ?thesis
    using True assms
    by (auto simp: GetPacketsToSend_def Let_def quiet_def case_prod_beta split: option.split)
qed (use assms in \<open>simp add: GetPacketsToSend_def\<close>)

lemma quiet_config:
  assumes "quiet s" "bc_type c = IntervalBatch" "bc_minIntervalMs c = Fin 16" "f_lt (Fin 0) (bc_intervalMs c)"
  shows "quiet (SetBatchConfig c s)"
  using assms by (auto simp: quiet_def SetBatchConfig_def SB_SetConfig_def quiet_batching_def)

lemma quiet_step:
  assumes "protocol_step T srt x s = Some t" "quiet s" "default_op x"
  shows "quiet t"
proof (cases x)
  case (PoReceive now p)
  then obtain ms where "ProcessReceivedPacket T now p s = Some (ms, t)" using assms(1) by auto
  from receive_frame [OF this] assms(2) show ?thesis by (simp add: quiet_def)
next
  case (PoSend now m)
  with assms send_frame [of now m s] show ?thesis by (auto simp: quiet_def)
next
  case (PoSendAll now ms)
  with assms send_all_frame [of now ms s] show ?thesis by (auto simp: quiet_def)
next
  case (PoGetPackets now)
  then show ?thesis using quiet_GetPackets [OF assms(2), of T srt now] assms(1) by simp
next
  case (PoInitialize now dc)
  with assms show ?thesis
    by (auto simp: NP_Initialize_def DC_Initialize_def SB_Initialize_def SmartBatching_new_def Traffic_Initialize_def
        NetworkTrafficManager_new_def quiet_def quiet_batching_def BatchConfig_new_def Let_def split: if_splits)
next
  case (PoShutdown now)
  with assms show ?thesis by (auto simp: NP_Shutdown_def quiet_def quiet_shutdown split: if_splits)
next
  case (PoConditions now l p b)
  with assms show ?thesis by (auto simp: NP_UpdateNetworkConditions_def quiet_def quiet_conditions)
next
  case PoLatency
  have "quiet (SetBatchConfig ((nw_batchConfig s)\<lparr>bc_intervalMs := Fin 16, bc_maxWaitTime := Fin 50\<rparr>) s)"
    by (rule quiet_config [OF assms(2)]) (use assms(2) in \<open>simp_all add: quiet_def\<close>)
  with PoLatency assms(1) show ?thesis by (auto simp: OptimizeForLatency_def NP_EnableCompression_def quiet_def)
next
  case PoThroughput
  have "quiet (SetBatchConfig ((nw_batchConfig s)\<lparr>bc_intervalMs := Fin 100, bc_maxSize := 8192, bc_maxMessages := 100\<rparr>) s)"
    by (rule quiet_config [OF assms(2)]) (use assms(2) in \<open>simp_all add: quiet_def\<close>)
  with PoThroughput assms(1) show ?thesis
    by (auto simp: OptimizeForThroughput_def NP_EnableCompression_def NP_SetCompressionLevel_def quiet_def)
qed (use assms in \<open>auto simp: configuration_defs MarkPacketSent_def MarkPacketAcknowledged_def MarkPacketLost_def quiet_def\<close>)

interpretation quiet_runs: step_system "protocol_step T srt" quiet default_op for T srt
  by unfold_locales (rule quiet_step)

text \<open>
  As it comes, the protocol sends nothing: batches are formed by the time that has passed, and the
  protocol never tells its batching component that time passes.  Whatever is sent, received or tuned
  (for latency, throughput or reliability), short of switching batching off or configuring another
  kind of batch, no packet is ever made, and the messages stay with the batching component.
\<close>

lemma default_protocol_sends_nothing:
  assumes "run (protocol_step T srt) xs OptimizedNetworkProtocol_new = Some s" "list_all default_op xs"
  shows "fst (GetPacketsToSend T srt now s) = [] \<and> nw_sendQueue s = [] \<and> nw_pendingPackets s = []"
proof -
  have "quiet OptimizedNetworkProtocol_new" by (simp add: quiet_def OptimizedNetworkProtocol_new_def BatchConfig_new_def)
  from quiet_runs.run_inv [OF this assms(2,1)] have "quiet s" .
  then show ?thesis using quiet_GetPackets [of s T srt now] by (simp add: quiet_def)
qed

lemma default_protocol_sends_nothing_witness:
  "map_option (\<lambda>s. fst (GetPacketsToSend demo_types demo_sort 1000000000 s)) (run (protocol_step demo_types demo_sort)
     [PoInitialize 0 DataCompression_new, PoLatency, PoSend 0 (demo_message 7 Low [1]), PoGetPackets 0]
     OptimizedNetworkProtocol_new) = Some []"
proof -
  let ?xs = "[PoInitialize 0 DataCompression_new, PoLatency, PoSend 0 (demo_message 7 Low [1]), PoGetPackets 0]"
  obtain s where s: "run (protocol_step demo_types demo_sort) ?xs OptimizedNetworkProtocol_new = Some s"
    by (simp only: run.simps protocol_step.simps option.case option.inject)
  have "list_all default_op ?xs" by simp
  from default_protocol_sends_nothing [OF s this] s show ?thesis by (simp del: run.simps)
qed

end
