(* ===== verification/Client.thy ===== *)
theory Client
  imports Server Floats
begin

text \<open>
  The client: \<open>client_interface\<close> (\<open>include/networking/net_client.h\<close>) and \<open>Witcher3MPClient\<close>
  (\<open>src/networking/net_client.cpp\<close>), with the thread that runs the asio context.

  Two threads share the state.  The caller's operations are one definition each; what they hand to
  the context is posted, and the thread takes one completed or posted handler at a time
  (\<open>CtxEvent\<close>), between the operations and inside those that wait for it.  Of the context the code
  uses documented behaviour: \<open>run\<close> returns, and leaves the context stopped, when no work is left;
  \<open>stop\<close> makes it return; on a stopped context it returns at once, until a \<open>restart\<close>, which the code
  never calls.  A thread object that is still joinable may not be assigned to, and an exception in
  a handler leaves the thread: both end the program (\<open>None\<close>).

  The object representation of a \<open>std::string\<close> (\<open>operator <<\<close> copies it, pointer included) is the
  parameter \<open>repr\<close>, and whether 32 bytes copied over a string make a string that can be read and
  destroyed is \<open>live\<close>; the optimizer, whose instance no code provides, is \<open>optimize\<close>.
\<close>

section \<open>State\<close>

text \<open>The attempt to connect: pending, successful or refused.  A refused socket stays open.\<close>

datatype phase = Connecting | Established | Refused

record ClientLink = Connection +
  ln_phase :: phase

datatype handler = PostSend nat message | PostClose nat

record Client =
  cl_objects :: "ClientLink list"
  cl_connection :: "nat option"
  cl_posted :: "handler list"
  cl_stopped :: bool
  cl_running :: bool
  cl_joinable :: bool
  cl_in :: "message list"
  cl_connected :: bool
  cl_ping :: flt
  cl_packetLoss :: flt
  cl_compressionEnabled :: bool
  cl_connectionStartTime :: time_point
  cl_lastPingTime :: time_point
  cl_bytesSent :: u64
  cl_bytesReceived :: u64
  cl_packetsSent :: u64
  cl_packetsReceived :: u64

definition Client_new :: Client where
  "Client_new = \<lparr>cl_objects = [], cl_connection = None, cl_posted = [], cl_stopped = False,
     cl_running = False, cl_joinable = False, cl_in = [], cl_connected = False, cl_ping = Fin 0,
     cl_packetLoss = Fin 0, cl_compressionEnabled = True, cl_connectionStartTime = 0, cl_lastPingTime = 0,
     cl_bytesSent = 0, cl_bytesReceived = 0, cl_packetsSent = 0, cl_packetsReceived = 0\<rparr>"

definition ClientLink_new :: "bool \<Rightarrow> ClientLink" where
  "ClientLink_new b = Connection.extend (connection_new b) \<lparr>ln_phase = Connecting\<rparr>"

definition on_link :: "nat \<Rightarrow> (ClientLink \<Rightarrow> ClientLink) \<Rightarrow> Client \<Rightarrow> Client" where
  "on_link k f c = (if k < length (cl_objects c) then c\<lparr>cl_objects := (cl_objects c)[k := f (cl_objects c ! k)]\<rparr> else c)"

section \<open>The context thread\<close>

text \<open>A failed write closes the socket; the close is seen by both directions.\<close>

definition link_wrote :: "bool \<Rightarrow> ClientLink \<Rightarrow> ClientLink" where
  "link_wrote ok l =
     (let tx = write_done ok (co_tx l) in l\<lparr>co_tx := tx, co_open := (co_open l \<and> tx_open tx)\<rparr>)"

definition run_handler :: "handler \<Rightarrow> Client \<Rightarrow> Client" where
  "run_handler h c =
     (case h of
        PostSend k msg \<Rightarrow> on_link k (\<lambda>l. l\<lparr>co_tx := Send msg (co_tx l)\<rparr>) c
      | PostClose k \<Rightarrow> on_link k (\<lambda>l. l\<lparr>co_open := False\<rparr>) c)"

text \<open>
  The handler of a read that delivered its bytes: what it puts on the queue goes to the client.
\<close>

definition rx_next :: "u8 list \<Rightarrow> reader \<Rightarrow> reader option" where
  "rx_next bytes rx = (if rx_pending rx = ReadingHeader then header_read bytes rx else Some (body_read bytes rx))"

definition link_read :: "nat \<Rightarrow> u8 list \<Rightarrow> Client \<Rightarrow> Client option" where
  "link_read k bytes c =
     (case rx_next bytes (co_rx (cl_objects c ! k)) of
        None \<Rightarrow> None
      | Some rx' \<Rightarrow>
          Some (on_link k (\<lambda>l. l\<lparr>co_rx := rx'\<lparr>rx_in := []\<rparr>\<rparr>) (c\<lparr>cl_in := cl_in c @ rx_in rx'\<rparr>)))"

datatype CtxEvent =
    EvConnected nat bool
  | EvPosted
  | EvWritten nat bool
  | EvRead nat "u8 list"
  | EvReadFailed nat
  | EvReturn

text \<open>Work that keeps \<open>run\<close> from returning.\<close>

definition link_busy :: "ClientLink \<Rightarrow> bool" where
  "link_busy l \<longleftrightarrow> ln_phase l = Connecting \<or> tx_pending (co_tx l) \<noteq> NoWrite \<or> rx_pending (co_rx l) \<noteq> NoRead"

definition has_work :: "Client \<Rightarrow> bool" where
  "has_work c \<longleftrightarrow> cl_posted c \<noteq> [] \<or> list_ex link_busy (cl_objects c)"

definition bytes_wanted :: "ClientLink \<Rightarrow> nat" where
  "bytes_wanted l =
     (case rx_pending (co_rx l) of
        NoRead \<Rightarrow> 0 | ReadingHeader \<Rightarrow> 8 | ReadingBody \<Rightarrow> length (ms_body (rx_temporary (co_rx l))))"

text \<open>Which events can happen: operations complete with success only on an established open socket.\<close>

definition event_possible :: "Client \<Rightarrow> CtxEvent \<Rightarrow> bool" where
  "event_possible c e =
     (let usable = (\<lambda>k. ln_phase (cl_objects c ! k) = Established \<and> co_open (cl_objects c ! k))
      in case e of
        EvConnected k ok \<Rightarrow> k < length (cl_objects c) \<and> ln_phase (cl_objects c ! k) = Connecting
          \<and> (ok \<longrightarrow> co_open (cl_objects c ! k))
      | EvPosted \<Rightarrow> cl_posted c \<noteq> []
      | EvWritten k ok \<Rightarrow> k < length (cl_objects c) \<and> tx_pending (co_tx (cl_objects c ! k)) \<noteq> NoWrite
          \<and> (ok \<longrightarrow> usable k)
      | EvRead k bytes \<Rightarrow> k < length (cl_objects c) \<and> rx_pending (co_rx (cl_objects c ! k)) \<noteq> NoRead
          \<and> usable k \<and> length bytes = bytes_wanted (cl_objects c ! k)
      | EvReadFailed k \<Rightarrow> k < length (cl_objects c) \<and> rx_pending (co_rx (cl_objects c ! k)) \<noteq> NoRead
      | EvReturn \<Rightarrow> \<not> has_work c)"

definition handle_event :: "CtxEvent \<Rightarrow> Client \<Rightarrow> Client option" where
  "handle_event e c =
     (case e of
        EvConnected k ok \<Rightarrow>
          Some (on_link k (\<lambda>l. if ok then l\<lparr>ln_phase := Established, co_rx := ReadHeader (co_rx l)\<rparr>
                               else l\<lparr>ln_phase := Refused\<rparr>) c)
      | EvPosted \<Rightarrow> Some (run_handler (hd (cl_posted c)) (c\<lparr>cl_posted := tl (cl_posted c)\<rparr>))
      | EvWritten k ok \<Rightarrow> Some (on_link k (link_wrote ok) c)
      | EvRead k bytes \<Rightarrow> link_read k bytes c
      | EvReadFailed k \<Rightarrow>
          Some (on_link k (\<lambda>l. l\<lparr>co_open := False, co_rx := (co_rx l)\<lparr>rx_pending := NoRead\<rparr>\<rparr>) c)
      | EvReturn \<Rightarrow> Some (c\<lparr>cl_running := False, cl_stopped := True\<rparr>))"

text \<open>Without the thread inside \<open>run\<close>, and on a stopped context, nothing happens.\<close>

definition ctx_step :: "CtxEvent \<Rightarrow> Client \<Rightarrow> Client option" where
  "ctx_step e c =
     (if cl_running c \<and> \<not> cl_stopped c \<and> event_possible c e then handle_event e c else Some c)"

definition ctx_run :: "CtxEvent list \<Rightarrow> Client \<Rightarrow> Client option" where
  "ctx_run es c = run ctx_step es c"

section \<open>client\_interface\<close>

definition CI_IsConnected :: "Client \<Rightarrow> bool" where
  "CI_IsConnected c =
     (case cl_connection c of None \<Rightarrow> False
      | Some k \<Rightarrow> k < length (cl_objects c) \<and> co_open (cl_objects c ! k))"

definition post :: "handler \<Rightarrow> Client \<Rightarrow> Client" where
  "post h c = c\<lparr>cl_posted := cl_posted c @ [h]\<rparr>"

definition MessageServer :: "message \<Rightarrow> Client \<Rightarrow> Client" where
  "MessageServer msg c = (if CI_IsConnected c then post (PostSend (the (cl_connection c)) msg) c else c)"

text \<open>
  \<open>resolved\<close> is \<open>None\<close> when the resolver throws, otherwise whether the socket is open once the
  attempt is under way.  The new connection object is stored before the thread is started.
\<close>

definition CI_Connect :: "bool option \<Rightarrow> Client \<Rightarrow> (bool \<times> Client) option" where
  "CI_Connect resolved c =
     (case resolved of
        None \<Rightarrow> Some (False, c)
      | Some b \<Rightarrow>
          if cl_joinable c then None
          else Some (True, c\<lparr>cl_objects := cl_objects c @ [ClientLink_new b],
                             cl_connection := Some (length (cl_objects c)),
                             cl_joinable := True, cl_running := \<not> cl_stopped c\<rparr>))"

text \<open>
  \<open>turns\<close> are the handlers the thread still runs before \<open>stop\<close>.  The pointer is released, not
  reset: the object stays allocated.
\<close>

definition CI_Disconnect :: "CtxEvent list \<Rightarrow> Client \<Rightarrow> Client option" where
  "CI_Disconnect turns c =
     (let c1 = (if CI_IsConnected c then post (PostClose (the (cl_connection c))) c else c)
      in map_option (\<lambda>c2. c2\<lparr>cl_stopped := True, cl_running := False, cl_joinable := False, cl_connection := None\<rparr>)
           (ctx_run turns c1))"

section \<open>Witcher3MPClient\<close>

definition CL_IsConnected :: "Client \<Rightarrow> bool" where
  "CL_IsConnected c \<longleftrightarrow> cl_connected c \<and> CI_IsConnected c"

definition count_sent :: "Client \<Rightarrow> Client" where
  "count_sent c = c\<lparr>cl_packetsSent := cl_packetsSent c + 1\<rparr>"

definition typed :: "u32 \<Rightarrow> message" where
  "typed ident = message_new\<lparr>ms_id := ident\<rparr>"

definition clientVersion :: "u8 list" where
  "clientVersion = map (of_nat \<circ> (of_char :: char \<Rightarrow> nat)) ''Witcher3-MP-1.0.0''"

definition SendConnectionRequest :: "(u8 list \<Rightarrow> u8 list) \<Rightarrow> Client \<Rightarrow> Client" where
  "SendConnectionRequest repr c = count_sent (MessageServer (push_data (repr clientVersion) (typed 1)) c)"

definition SendDisconnectMessage :: "Client \<Rightarrow> Client" where
  "SendDisconnectMessage c = count_sent (MessageServer (typed 2) c)"

definition CL_Connect ::
    "(u8 list \<Rightarrow> u8 list) \<Rightarrow> bool option \<Rightarrow> CtxEvent list \<Rightarrow> time_point \<Rightarrow> Client \<Rightarrow> (bool \<times> Client) option" where
  "CL_Connect repr resolved turns now c =
     (case CI_Connect resolved c of
        None \<Rightarrow> None
      | Some (False, c1) \<Rightarrow> Some (False, c1)
      | Some (True, c1) \<Rightarrow>
          map_option (\<lambda>c2. (True, SendConnectionRequest repr (c2\<lparr>cl_connected := True, cl_connectionStartTime := now\<rparr>)))
            (ctx_run turns c1))"

definition CL_Disconnect :: "CtxEvent list \<Rightarrow> Client \<Rightarrow> Client option" where
  "CL_Disconnect turns c =
     (if cl_connected c then
        map_option (\<lambda>c1. c1\<lparr>cl_connected := False\<rparr>) (CI_Disconnect turns (SendDisconnectMessage c))
      else Some c)"

subsection \<open>Sending\<close>

text \<open>The message carries no player data: \<open>playerData\<close> is only measured for the log.\<close>

definition SendPlayerData :: "(message \<Rightarrow> message) \<Rightarrow> u8 list \<Rightarrow> Client \<Rightarrow> Client" where
  "SendPlayerData optimize playerData c =
     (if \<not> CL_IsConnected c then c
      else let msg = typed 200
        in MessageServer (if cl_compressionEnabled c then optimize msg else msg) c)"

definition CL_SendPositionUpdate :: "u32 \<Rightarrow> u32 \<Rightarrow> u32 \<Rightarrow> u32 \<Rightarrow> Client \<Rightarrow> Client" where
  "CL_SendPositionUpdate x y z w c =
     (if \<not> CL_IsConnected c then c else MessageServer (SendPositionUpdate x y z w) c)"

definition SendChatMessage :: "(u8 list \<Rightarrow> u8 list) \<Rightarrow> u8 list \<Rightarrow> Client \<Rightarrow> Client" where
  "SendChatMessage repr text c =
     (if \<not> CL_IsConnected c then c
      else let truncatedMessage = take 100 text
        in MessageServer (push_data (repr truncatedMessage) (typed 214)) c)"

definition SendCombatAction ::
    "(u8 list \<Rightarrow> u8 list) \<Rightarrow> u32 \<Rightarrow> u32 \<Rightarrow> u8 list \<Rightarrow> Client \<Rightarrow> Client" where
  "SendCombatAction repr targetId damage actionType c =
     (if \<not> CL_IsConnected c then c
      else MessageServer (push_data (repr actionType) (push_u32 damage (push_u32 targetId (typed 14)))) c)"

text \<open>Milliseconds of a duration in nanoseconds; the cast truncates towards zero.\<close>

definition duration_ms :: "int \<Rightarrow> int" where
  "duration_ms d = (if 0 \<le> d then d div 1000000 else - ((- d) div 1000000))"

definition SendPingIfNeeded :: "time_point \<Rightarrow> Client \<Rightarrow> Client" where
  "SendPingIfNeeded now c =
     (if 1000 \<le> duration_ms (now - cl_lastPingTime c) then
        (let msg = push_data (le64 (of_int (duration_ms now))) (typed 3)
         in count_sent ((MessageServer msg c)\<lparr>cl_lastPingTime := now\<rparr>))
      else c)"

subsection \<open>Receiving\<close>

definition ProcessPong :: "time_point \<Rightarrow> Client \<Rightarrow> Client" where
  "ProcessPong now c = c\<lparr>cl_ping := rnd32 (of_int (duration_ms (now - cl_lastPingTime c)))\<rparr>"

text \<open>
  The handlers that only log return nothing; \<open>None\<close> is reading more than the message holds, or
  copying bytes over a string.
\<close>

definition ProcessChatMessage :: "(u8 list \<Rightarrow> bool) \<Rightarrow> message \<Rightarrow> unit option" where
  "ProcessChatMessage live msg =
     (case pull_data 32 msg of None \<Rightarrow> None | Some (bs, m) \<Rightarrow> if live bs then Some () else None)"

definition ProcessHitNPC :: "message \<Rightarrow> unit option" where
  "ProcessHitNPC msg = map_option (\<lambda>_. ()) (pull_u32 msg)"

definition ProcessMessage :: "(u8 list \<Rightarrow> bool) \<Rightarrow> time_point \<Rightarrow> message \<Rightarrow> Client \<Rightarrow> Client option" where
  "ProcessMessage live now msg c =
     (if ms_id msg = 4 then Some (ProcessPong now c)
      else if ms_id msg = 202 then Some c
      else if ms_id msg = 206 then map_option (\<lambda>_. c) (ProcessPositionUpdate msg)
      else if ms_id msg = 213 then map_option (\<lambda>_. c) (ProcessChatMessage live msg)
      else if ms_id msg = 209 then map_option (\<lambda>_. c) (ProcessHitNPC msg)
      else if ms_id msg = 210 then Some c
      else if ms_id msg = 300 then Some (c\<lparr>cl_compressionEnabled := True\<rparr>)
      else if ms_id msg = 301 then Some (c\<lparr>cl_compressionEnabled := False\<rparr>)
      else Some c)"

definition process_next :: "(u8 list \<Rightarrow> bool) \<Rightarrow> time_point \<Rightarrow> message \<Rightarrow> Client \<Rightarrow> Client option" where
  "process_next live now msg c =
     map_option (\<lambda>c1. c1\<lparr>cl_packetsReceived := cl_packetsReceived c1 + 1\<rparr>)
       (ProcessMessage live now msg (c\<lparr>cl_in := tl (cl_in c)\<rparr>))"

definition ProcessIncomingMessages :: "(u8 list \<Rightarrow> bool) \<Rightarrow> time_point \<Rightarrow> Client \<Rightarrow> Client option" where
  "ProcessIncomingMessages live now c = run (process_next live now) (cl_in c) c"

definition UpdateNetworkStats :: "Client \<Rightarrow> Client" where
  "UpdateNetworkStats c =
     (if 0 < cl_packetsSent c then
        c\<lparr>cl_packetLoss := mul32 (sub32 (Fin 1)
            (div32 (f32_of_nat (unat (cl_packetsReceived c))) (f32_of_nat (unat (cl_packetsSent c))))) (Fin 100)\<rparr>
      else c)"

definition CL_Update :: "(u8 list \<Rightarrow> bool) \<Rightarrow> time_point \<Rightarrow> Client \<Rightarrow> Client option" where
  "CL_Update live now c =
     (if \<not> CL_IsConnected c then Some c
      else map_option (\<lambda>c1. UpdateNetworkStats (SendPingIfNeeded now c1)) (ProcessIncomingMessages live now c))"

subsection \<open>Statistics and switches\<close>

definition GetPing :: "Client \<Rightarrow> flt" where "GetPing c = cl_ping c"
definition GetPacketLoss :: "Client \<Rightarrow> flt" where "GetPacketLoss c = cl_packetLoss c"
definition GetBytesSent :: "Client \<Rightarrow> u64" where "GetBytesSent c = cl_bytesSent c"
definition GetBytesReceived :: "Client \<Rightarrow> u64" where "GetBytesReceived c = cl_bytesReceived c"
definition GetPacketsSent :: "Client \<Rightarrow> u64" where "GetPacketsSent c = cl_packetsSent c"
definition GetPacketsReceived :: "Client \<Rightarrow> u64" where "GetPacketsReceived c = cl_packetsReceived c"

definition CL_SetCompressionEnabled :: "bool \<Rightarrow> Client \<Rightarrow> Client" where
  "CL_SetCompressionEnabled enabled c = c\<lparr>cl_compressionEnabled := enabled\<rparr>"

definition CL_IsCompressionEnabled :: "Client \<Rightarrow> bool" where
  "CL_IsCompressionEnabled c = cl_compressionEnabled c"

section \<open>Operations\<close>

datatype ClientOp =
    ClConnect "bool option" "CtxEvent list" time_point
  | ClDisconnect "CtxEvent list"
  | ClUpdate time_point
  | ClSendPlayerData "u8 list"
  | ClSendPosition u32 u32 u32 u32
  | ClSendChat "u8 list"
  | ClSendCombat u32 u32 "u8 list"
  | ClSetCompression bool
  | ClContext CtxEvent

record ClientEnv =
  env_repr :: "u8 list \<Rightarrow> u8 list"
  env_live :: "u8 list \<Rightarrow> bool"
  env_optimize :: "message \<Rightarrow> message"

fun client_step :: "ClientEnv \<Rightarrow> ClientOp \<Rightarrow> Client \<Rightarrow> Client option" where
  "client_step env (ClConnect resolved turns now) c = map_option snd (CL_Connect (env_repr env) resolved turns now c)"
| "client_step env (ClDisconnect turns) c = CL_Disconnect turns c"
| "client_step env (ClUpdate now) c = CL_Update (env_live env) now c"
| "client_step env (ClSendPlayerData d) c = Some (SendPlayerData (env_optimize env) d c)"
| "client_step env (ClSendPosition x y z w) c = Some (CL_SendPositionUpdate x y z w c)"
| "client_step env (ClSendChat t) c = Some (SendChatMessage (env_repr env) t c)"
| "client_step env (ClSendCombat t d a) c = Some (SendCombatAction (env_repr env) t d a c)"
| "client_step env (ClSetCompression b) c = Some (CL_SetCompressionEnabled b c)"
| "client_step env (ClContext e) c = ctx_step e c"

end
