(* ===== verification/ClientProps.thy ===== *)
theory ClientProps
  imports Client NetworkProps
begin

text \<open>
  What the client guarantees, and what its use of the context keeps it from doing: it receives at
  most one message in its life, a second connection is silent, pings keep their distance, and an
  update is defined exactly when the messages received are long enough.
\<close>

section \<open>Frames\<close>

lemma on_link_simps [simp]:
  "cl_connection (on_link k f c) = cl_connection c" "cl_posted (on_link k f c) = cl_posted c"
  "cl_stopped (on_link k f c) = cl_stopped c" "cl_running (on_link k f c) = cl_running c"
  "cl_joinable (on_link k f c) = cl_joinable c" "cl_in (on_link k f c) = cl_in c"
  "cl_connected (on_link k f c) = cl_connected c" "cl_lastPingTime (on_link k f c) = cl_lastPingTime c"
  "cl_packetsSent (on_link k f c) = cl_packetsSent c" "cl_packetsReceived (on_link k f c) = cl_packetsReceived c"
  "length (cl_objects (on_link k f c)) = length (cl_objects c)"
  by (simp_all add: on_link_def)

lemma objects_on_link: "k < length (cl_objects c) \<Longrightarrow> cl_objects (on_link k f c) = (cl_objects c)[k := f (cl_objects c ! k)]"
  by (simp add: on_link_def)

text \<open>What the caller's operations leave alone: everything the thread owns, except what is posted.\<close>

definition caller_view :: "Client \<Rightarrow> ClientLink list \<times> nat option \<times> bool \<times> bool \<times> bool \<times> bool" where
  "caller_view c = (cl_objects c, cl_connection c, cl_stopped c, cl_running c, cl_joinable c, cl_connected c)"

lemma caller_view_simps:
  "caller_view c' = caller_view c \<longleftrightarrow>
     cl_objects c' = cl_objects c \<and> cl_connection c' = cl_connection c \<and> cl_stopped c' = cl_stopped c
     \<and> cl_running c' = cl_running c \<and> cl_joinable c' = cl_joinable c \<and> cl_connected c' = cl_connected c"
  by (auto simp: caller_view_def)

lemma MessageServer_frame [simp]:
  "caller_view (MessageServer m c) = caller_view c" "cl_in (MessageServer m c) = cl_in c"
  "cl_packetsReceived (MessageServer m c) = cl_packetsReceived c"
  "cl_packetsSent (MessageServer m c) = cl_packetsSent c" "cl_lastPingTime (MessageServer m c) = cl_lastPingTime c"
  by (simp_all add: MessageServer_def post_def caller_view_def)

lemma count_sent_frame [simp]:
  "caller_view (count_sent c) = caller_view c" "cl_in (count_sent c) = cl_in c"
  "cl_packetsReceived (count_sent c) = cl_packetsReceived c" "cl_lastPingTime (count_sent c) = cl_lastPingTime c"
  "cl_packetsSent (count_sent c) = cl_packetsSent c + 1"
  by (simp_all add: count_sent_def caller_view_def)

text \<open>The operations that only send.\<close>

definition only_sends :: "Client \<Rightarrow> Client \<Rightarrow> bool" where
  "only_sends c c' \<longleftrightarrow> caller_view c' = caller_view c \<and> cl_in c' = cl_in c
     \<and> cl_packetsReceived c' = cl_packetsReceived c \<and> cl_packetsSent c' = cl_packetsSent c
     \<and> cl_lastPingTime c' = cl_lastPingTime c"

lemma only_sends [simp]:
  "only_sends c (SendPlayerData optimize d c)" "only_sends c (CL_SendPositionUpdate x y z w c)"
  "only_sends c (SendChatMessage repr t c)" "only_sends c (SendCombatAction repr i w a c)"
  "only_sends c (CL_SetCompressionEnabled b c)"
  by (simp_all add: only_sends_def SendPlayerData_def CL_SendPositionUpdate_def SendChatMessage_def
      SendCombatAction_def CL_SetCompressionEnabled_def Let_def)
     (simp add: caller_view_def)

section \<open>Processing messages\<close>

definition message_ok :: "(u8 list \<Rightarrow> bool) \<Rightarrow> message \<Rightarrow> bool" where
  "message_ok live m \<longleftrightarrow>
     (ms_id m = 206 \<longrightarrow> 16 \<le> length (ms_body m))
     \<and> (ms_id m = 209 \<longrightarrow> 4 \<le> length (ms_body m))
     \<and> (ms_id m = 213 \<longrightarrow> 32 \<le> length (ms_body m) \<and> live (drop (length (ms_body m) - 32) (ms_body m)))"

lemma pull_u32_Some: "(\<exists>w m'. pull_u32 m = Some (w, m')) \<longleftrightarrow> \<not> length (ms_body m) < 4"
  by (simp add: pull_u32_def pull_data_def Let_def)

lemma pull_u32_None: "pull_u32 m = None \<longleftrightarrow> length (ms_body m) < 4"
  by (auto simp: pull_u32_def pull_data_def Let_def)

lemma pull_u32_length: "pull_u32 m = Some (w, m') \<Longrightarrow> 4 \<le> length (ms_body m) \<and> length (ms_body m') = length (ms_body m) - 4"
  by (auto simp: pull_u32_def pull_data_def Let_def split: if_splits)

lemma ProcessPositionUpdate_None: "ProcessPositionUpdate m = None \<longleftrightarrow> length (ms_body m) < 16"
  unfolding ProcessPositionUpdate_def
  by (auto split: option.splits simp: pull_u32_None dest!: pull_u32_length)

lemma ProcessMessage_None: "ProcessMessage live now m c = None \<longleftrightarrow> \<not> message_ok live m"
  by (auto simp: ProcessMessage_def message_ok_def ProcessPositionUpdate_None ProcessHitNPC_def pull_u32_None pull_u32_Some
      ProcessChatMessage_def pull_data_def Let_def split: option.splits)

lemma ProcessMessage_frame:
  "ProcessMessage live now m c = Some c' \<Longrightarrow> only_sends c c'"
  by (auto simp: ProcessMessage_def ProcessPong_def only_sends_def caller_view_def split: if_splits)

lemma process_loop:
  "(case run (process_next live now) (cl_in c) c of
      None \<Rightarrow> \<not> list_all (message_ok live) (cl_in c)
    | Some c' \<Rightarrow> list_all (message_ok live) (cl_in c) \<and> cl_in c' = [] \<and> caller_view c' = caller_view c
        \<and> cl_packetsReceived c' = cl_packetsReceived c + of_nat (length (cl_in c))
        \<and> cl_packetsSent c' = cl_packetsSent c \<and> cl_lastPingTime c' = cl_lastPingTime c)"
proof (induction "cl_in c" arbitrary: c)
  case Nil
  then show ?case by (simp add: Nil [symmetric])
next
  case (Cons m ms)
  then have q: "cl_in c = m # ms" by simp
  show ?case
  proof (cases "ProcessMessage live now m (c\<lparr>cl_in := ms\<rparr>)")
    case None
    then have "\<not> message_ok live m" using ProcessMessage_None by blast
    with None show ?thesis by (simp add: q process_next_def)
  next
    case (Some c1)
    define c2 where "c2 = c1\<lparr>cl_packetsReceived := cl_packetsReceived c1 + 1\<rparr>"
    have f: "only_sends (c\<lparr>cl_in := ms\<rparr>) c1" by (rule ProcessMessage_frame [OF Some])
    then have "cl_in c2 = ms" by (simp add: c2_def only_sends_def)
    moreover have "process_next live now m c = Some c2"
      using Some by (simp add: q process_next_def c2_def)
    moreover have "message_ok live m" using Some ProcessMessage_None by (metis option.discI)
    moreover note Cons.hyps(1) [of c2]
    ultimately show ?thesis
      using f by (auto simp: q only_sends_def c2_def caller_view_def split: option.splits)
  qed
qed

text \<open>
  An update of a connected client is defined exactly when no message in the queue is shorter
  than what its handler reads (16 bytes for a position, 4 for a hit, 32 for a chat message, whose
  bytes must moreover be a usable string object of this very process); the client does not check
  any length.  A defined update takes every message.
\<close>

lemma update_trusts_the_server:
  "case CL_Update live now c of
     None \<Rightarrow> CL_IsConnected c \<and> \<not> list_all (message_ok live) (cl_in c)
   | Some c' \<Rightarrow> if CL_IsConnected c
       then list_all (message_ok live) (cl_in c) \<and> cl_in c' = []
         \<and> cl_packetsReceived c' = cl_packetsReceived c + of_nat (length (cl_in c))
       else c' = c"
  using process_loop [where live = live and now = now and c = c]
  by (auto simp: CL_Update_def ProcessIncomingMessages_def UpdateNetworkStats_def SendPingIfNeeded_def Let_def
      split: option.splits)

section \<open>At most one message\<close>

text \<open>Messages seen, and connections that can still deliver one.\<close>

definition seen :: "Client \<Rightarrow> nat" where
  "seen c = unat (cl_packetsReceived c) + length (cl_in c)"

definition reading :: "ClientLink \<Rightarrow> bool" where
  "reading l \<longleftrightarrow> ln_phase l = Connecting \<or> rx_pending (co_rx l) \<noteq> NoRead"

definition budget :: "Client \<Rightarrow> nat" where
  "budget c = length (filter reading (cl_objects c))"

definition single_ok :: "Client \<Rightarrow> bool" where
  "single_ok c \<longleftrightarrow> list_all (\<lambda>l. rx_in (co_rx l) = []) (cl_objects c)
     \<and> seen c \<le> 1 \<and> (cl_stopped c \<or> seen c + budget c \<le> 1)
     \<and> (cl_stopped c \<or> cl_joinable c \<or> cl_objects c = [] \<and> seen c = 0)"

lemma filter_update_length:
  "k < length xs \<Longrightarrow> length (filter P (xs[k := y])) + (if P (xs ! k) then 1 else 0)
     = length (filter P xs) + (if P y then 1 else 0)"
proof (induction xs arbitrary: k)
  case (Cons x xs)
  then show ?case by (cases k) auto
qed simp

lemma budget_on_link:
  "k < length (cl_objects c) \<Longrightarrow>
     budget (on_link k f c) + (if reading (cl_objects c ! k) then 1 else 0)
       = budget c + (if reading (f (cl_objects c ! k)) then 1 else 0)"
  unfolding budget_def by (simp add: objects_on_link filter_update_length)

text \<open>A handler on a link that delivers nothing and starts no read but the first.\<close>

lemma on_link_single:
  assumes "single_ok c"
    "k < length (cl_objects c) \<Longrightarrow> rx_in (co_rx (f (cl_objects c ! k))) = rx_in (co_rx (cl_objects c ! k))"
    "k < length (cl_objects c) \<Longrightarrow> reading (f (cl_objects c ! k)) \<Longrightarrow> reading (cl_objects c ! k)"
  shows "single_ok (on_link k f c)"
proof (cases "k < length (cl_objects c)")
  case True
  then have "budget (on_link k f c) \<le> budget c"
    using budget_on_link [OF True, of f] assms(3) by (auto split: if_splits)
  moreover have "list_all (\<lambda>l. rx_in (co_rx l) = []) (cl_objects (on_link k f c))"
    using assms(1,2) True by (auto simp: single_ok_def objects_on_link list_all_length nth_list_update)
  moreover have "cl_objects c \<noteq> []" using True by auto
  ultimately show ?thesis using assms(1) by (auto simp: single_ok_def seen_def)
qed (simp add: on_link_def assms(1))

text \<open>A completed read: it asks for the body, or it delivers the message and asks for nothing.\<close>

lemma rx_next_cases:
  "rx_next bytes rx = Some rx' \<Longrightarrow> rx_in rx = [] \<Longrightarrow>
     rx_in rx' = [] \<or> (length (rx_in rx') = 1 \<and> rx_pending rx' = NoRead)"
  by (auto simp: rx_next_def header_read_def body_read_def AddToIncomingMessageQueue_def ReadBody_def tq_push_back_def
      Let_def split: if_splits)

lemma link_read_single:
  assumes "single_ok c" "\<not> cl_stopped c" "k < length (cl_objects c)"
    "rx_pending (co_rx (cl_objects c ! k)) \<noteq> NoRead" "ln_phase (cl_objects c ! k) = Established"
    "link_read k bytes c = Some c'"
  shows "single_ok c'"
proof -
  let ?l = "cl_objects c ! k"
  have empty: "rx_in (co_rx ?l) = []" using assms(1,3) by (simp add: single_ok_def list_all_length)
  obtain rx' where rx: "rx_next bytes (co_rx ?l) = Some rx'"
    and c': "c' = on_link k (\<lambda>l. l\<lparr>co_rx := rx'\<lparr>rx_in := []\<rparr>\<rparr>) (c\<lparr>cl_in := cl_in c @ rx_in rx'\<rparr>)"
    using assms(6) by (auto simp: link_read_def split: option.splits)
  have "reading ?l" using assms(4) by (simp add: reading_def)
  moreover have "budget (c\<lparr>cl_in := cl_in c @ rx_in rx'\<rparr>) = budget c" by (simp add: budget_def)
  ultimately have b: "budget c' + 1 = budget c + (if rx_pending rx' \<noteq> NoRead then 1 else 0)"
    using budget_on_link [of k "c\<lparr>cl_in := cl_in c @ rx_in rx'\<rparr>" "\<lambda>l. l\<lparr>co_rx := rx'\<lparr>rx_in := []\<rparr>\<rparr>"] assms(3,5)
    unfolding c' by (simp add: reading_def)
  have s: "seen c' = seen c + length (rx_in rx')" by (simp add: c' seen_def)
  have o: "list_all (\<lambda>l. rx_in (co_rx l) = []) (cl_objects c')"
    using assms(1,3) by (auto simp: c' single_ok_def objects_on_link list_all_length nth_list_update)
  have "cl_objects c \<noteq> []" "seen c + budget c \<le> 1" "cl_joinable c"
    using assms(1-3) by (auto simp: single_ok_def)
  moreover have "cl_stopped c' = cl_stopped c" "cl_joinable c' = cl_joinable c" by (simp_all add: c')
  ultimately show ?thesis
    using rx_next_cases [OF rx empty] b s o by (auto simp: single_ok_def split: if_splits)
qed

lemma write_done_frame: "co_rx (link_wrote ok l) = co_rx l \<and> ln_phase (link_wrote ok l) = ln_phase l"
  by (simp add: link_wrote_def Let_def)

lemma handle_event_single:
  assumes "single_ok c" "\<not> cl_stopped c" "event_possible c e" "handle_event e c = Some c'"
  shows "single_ok c'"
proof (cases e)
  case (EvConnected k ok)
  then show ?thesis
    using assms by (auto simp: handle_event_def event_possible_def reading_def ReadHeader_def intro!: on_link_single)
next
  case EvPosted
  then have "c' = run_handler (hd (cl_posted c)) (c\<lparr>cl_posted := tl (cl_posted c)\<rparr>)"
    using assms(4) by (simp add: handle_event_def)
  moreover have "single_ok (c\<lparr>cl_posted := tl (cl_posted c)\<rparr>)"
    using assms(1) by (simp add: single_ok_def seen_def budget_def)
  ultimately show ?thesis
    by (cases "hd (cl_posted c)") (auto simp: run_handler_def reading_def intro!: on_link_single)
next
  case (EvWritten k ok)
  then show ?thesis
    using assms by (auto simp: handle_event_def event_possible_def reading_def write_done_frame intro!: on_link_single)
next
  case (EvRead k bytes)
  then show ?thesis
    using assms by (auto simp: handle_event_def event_possible_def Let_def elim!: link_read_single)
next
  case (EvReadFailed k)
  then show ?thesis
    using assms by (auto simp: handle_event_def event_possible_def reading_def intro!: on_link_single)
next
  case EvReturn
  then show ?thesis
    using assms by (auto simp: handle_event_def single_ok_def seen_def)
qed

lemma ctx_step_single: "single_ok c \<Longrightarrow> ctx_step e c = Some c' \<Longrightarrow> single_ok c'"
  by (auto simp: ctx_step_def handle_event_single split: if_splits)

lemma ctx_run_single: "single_ok c \<Longrightarrow> ctx_run es c = Some c' \<Longrightarrow> single_ok c'"
  unfolding ctx_run_def by (erule run_invariant) (auto dest: ctx_step_single)

lemma single_ok_view: "single_ok c \<Longrightarrow> caller_view c' = caller_view c \<Longrightarrow> seen c' = seen c \<Longrightarrow> single_ok c'"
  by (simp add: single_ok_def budget_def caller_view_simps)

lemma single_ok_sends: "single_ok c \<Longrightarrow> only_sends c c' \<Longrightarrow> single_ok c'"
  by (erule single_ok_view) (simp_all add: only_sends_def seen_def)

lemma SendPingIfNeeded_frame:
  "caller_view (SendPingIfNeeded now c) = caller_view c" "cl_in (SendPingIfNeeded now c) = cl_in c"
  "cl_packetsReceived (SendPingIfNeeded now c) = cl_packetsReceived c"
  by (simp_all add: SendPingIfNeeded_def Let_def caller_view_def count_sent_def MessageServer_def post_def)

lemma UpdateNetworkStats_frame: "only_sends c (UpdateNetworkStats c)"
  by (simp add: UpdateNetworkStats_def only_sends_def caller_view_def)

lemma CL_Update_frame:
  assumes "CL_Update live now c = Some c'"
  shows "caller_view c' = caller_view c
     \<and> (cl_in c' = cl_in c \<and> cl_packetsReceived c' = cl_packetsReceived c
        \<or> cl_in c' = [] \<and> cl_packetsReceived c' = cl_packetsReceived c + of_nat (length (cl_in c)))"
proof (cases "CL_IsConnected c")
  case True
  then obtain c1 where c1: "run (process_next live now) (cl_in c) c = Some c1"
      and c': "c' = UpdateNetworkStats (SendPingIfNeeded now c1)"
    using assms by (auto simp: CL_Update_def ProcessIncomingMessages_def)
  have "only_sends (SendPingIfNeeded now c1) c'" unfolding c' by (rule UpdateNetworkStats_frame)
  then show ?thesis
    using process_loop [where live = live and now = now and c = c] c1
    by (simp add: only_sends_def SendPingIfNeeded_frame)
qed (use assms in \<open>simp add: CL_Update_def\<close>)

lemma CL_Update_single:
  assumes "single_ok c" "CL_Update live now c = Some c'"
  shows "single_ok c'"
proof -
  have "unat (cl_packetsReceived c) + length (cl_in c) \<le> 1" using assms(1) by (simp add: single_ok_def seen_def)
  then have "unat (cl_packetsReceived c + of_nat (length (cl_in c))) = unat (cl_packetsReceived c) + length (cl_in c)"
    by (simp add: unat_word_ariths unat_of_nat)
  then show ?thesis using CL_Update_frame [OF assms(2)] single_ok_view [OF assms(1)] by (auto simp: seen_def)
qed

lemma CI_Connect_single:
  "single_ok c \<Longrightarrow> CI_Connect resolved c = Some (b, c') \<Longrightarrow> single_ok c'"
  by (auto simp: CI_Connect_def single_ok_def seen_def budget_def ClientLink_new_def connection_new_def
      reader_new_def reading_def Connection.defs split: option.splits if_splits)

lemma CL_Connect_single:
  assumes "single_ok c" "CL_Connect repr resolved turns now c = Some (b, c')"
  shows "single_ok c'"
proof -
  obtain d c1 where c1: "CI_Connect resolved c = Some (d, c1)" "single_ok c1"
    using assms CI_Connect_single by (fastforce simp: CL_Connect_def split: option.splits)
  show ?thesis
  proof (cases d)
    case True
    then obtain c2 where c2: "ctx_run turns c1 = Some c2"
        "c' = SendConnectionRequest repr (c2\<lparr>cl_connected := True, cl_connectionStartTime := now\<rparr>)"
      using assms(2) c1 by (auto simp: CL_Connect_def split: option.splits)
    have "single_ok (c2\<lparr>cl_connected := True, cl_connectionStartTime := now\<rparr>)"
      using ctx_run_single [OF c1(2) c2(1)] by (simp add: single_ok_def seen_def budget_def)
    then show ?thesis
      unfolding c2(2) SendConnectionRequest_def by (rule single_ok_view) (simp_all add: seen_def)
  qed (use assms(2) c1 in \<open>auto simp: CL_Connect_def\<close>)
qed

lemma CI_Disconnect_single:
  assumes "single_ok c" "CI_Disconnect turns c = Some c'"
  shows "single_ok c'"
proof -
  define d where "d = (if CI_IsConnected c then post (PostClose (the (cl_connection c))) c else c)"
  have "single_ok d" using assms(1) by (simp add: d_def post_def single_ok_def seen_def budget_def)
  moreover obtain c2 where "ctx_run turns d = Some c2"
      "c' = c2\<lparr>cl_stopped := True, cl_running := False, cl_joinable := False, cl_connection := None\<rparr>"
    using assms(2) unfolding CI_Disconnect_def Let_def d_def [symmetric] by auto
  ultimately show ?thesis using ctx_run_single [of d turns c2] by (simp add: single_ok_def seen_def)
qed

lemma SendDisconnectMessage_frame:
  "caller_view (SendDisconnectMessage c) = caller_view c" "seen (SendDisconnectMessage c) = seen c"
  by (simp_all add: SendDisconnectMessage_def seen_def)

lemma CL_Disconnect_single:
  assumes "single_ok c" "CL_Disconnect turns c = Some c'"
  shows "single_ok c'"
proof (cases "cl_connected c")
  case True
  then obtain c1 where "CI_Disconnect turns (SendDisconnectMessage c) = Some c1" "c' = c1\<lparr>cl_connected := False\<rparr>"
    using assms(2) by (auto simp: CL_Disconnect_def)
  moreover have "single_ok (SendDisconnectMessage c)"
    using assms(1) by (rule single_ok_view) (simp_all add: SendDisconnectMessage_frame)
  ultimately have "single_ok c1" using CI_Disconnect_single by blast
  with \<open>c' = _\<close> show ?thesis by (simp add: single_ok_def seen_def budget_def)
qed (use assms in \<open>simp add: CL_Disconnect_def\<close>)

lemma client_step_single:
  assumes "single_ok c" "client_step env op c = Some c'"
  shows "single_ok c'"
proof (cases op)
  case (ClConnect resolved turns now)
  then show ?thesis using assms by (auto dest: CL_Connect_single)
next
  case (ClDisconnect turns)
  then show ?thesis using assms by (auto dest: CL_Disconnect_single)
next
  case (ClUpdate now)
  then show ?thesis using assms by (auto dest: CL_Update_single)
next
  case (ClContext e)
  then show ?thesis using assms by (auto dest: ctx_step_single)
qed (use assms single_ok_sends in auto)

interpretation single: step_system "client_step env" single_ok "\<lambda>op. True" for env
  by unfold_locales (rule client_step_single)

text \<open>
  C32. However often it connects and whatever the servers send, a client receives at most one
  message in its life: nothing asks for another header after a message, and the context does
  not run again.
\<close>

theorem client_receives_at_most_one_message:
  assumes "run (client_step env) ops Client_new = Some c"
  shows "unat (cl_packetsReceived c) + length (cl_in c) \<le> 1"
proof -
  have "single_ok Client_new" by (simp add: single_ok_def Client_new_def seen_def budget_def)
  then have "single_ok c" by (rule single.run_inv [OF _ _ assms]) (simp add: list_all_iff)
  then show ?thesis by (simp add: single_ok_def seen_def)
qed

text \<open>
  The witness: a connection, the empty message of a server (a pong), and the update that takes it.
\<close>

definition plain_env :: ClientEnv where
  "plain_env = \<lparr>env_repr = (\<lambda>bs. replicate 32 0), env_live = (\<lambda>bs. False), env_optimize = (\<lambda>m. m)\<rparr>"

definition first_session :: "ClientOp list" where
  "first_session = [ClConnect (Some True) [] 5, ClContext (EvConnected 0 True),
     ClContext (EvRead 0 [4, 0, 0, 0, 0, 0, 0, 0]), ClUpdate 7]"

theorem client_receives_at_most_one_message_witness:
  "\<exists>c. run (client_step plain_env) first_session Client_new = Some c \<and> cl_packetsReceived c = 1
     \<and> unat (cl_packetsReceived c) + length (cl_in c) \<le> 1"
proof -
  have "map_option cl_packetsReceived (run (client_step plain_env) first_session Client_new) = Some 1" by code_simp
  then obtain c where "run (client_step plain_env) first_session Client_new = Some c" "cl_packetsReceived c = 1" by auto
  then show ?thesis using client_receives_at_most_one_message by blast
qed

section \<open>No second connection\<close>

text \<open>A connection on which nothing was ever written or read.\<close>

definition silent :: "ClientLink \<Rightarrow> bool" where
  "silent l \<longleftrightarrow> tx_queue (co_tx l) = [] \<and> tx_wire (co_tx l) = [] \<and> rx_pending (co_rx l) = NoRead"

definition muted :: "Client \<Rightarrow> Client \<Rightarrow> bool" where
  "muted c0 c \<longleftrightarrow> cl_stopped c
     \<and> (\<exists>new. cl_objects c = cl_objects c0 @ new \<and> list_all silent new)
     \<and> (\<exists>n. cl_in c = drop n (cl_in c0))"

lemma muted_refl: "cl_stopped c \<Longrightarrow> muted c c"
  by (auto simp: muted_def intro: exI [of _ 0])

lemma muted_view:
  "muted c0 c \<Longrightarrow> caller_view c' = caller_view c \<Longrightarrow> cl_in c' = cl_in c \<or> cl_in c' = [] \<Longrightarrow> muted c0 c'"
  by (auto simp: muted_def caller_view_simps intro: exI [of _ "length (cl_in c0)"])

lemma muted_sends: "muted c0 c \<Longrightarrow> only_sends c c' \<Longrightarrow> muted c0 c'"
  by (erule muted_view) (simp_all add: only_sends_def)

lemma ctx_run_stopped: "cl_stopped c \<Longrightarrow> ctx_run es c = Some c"
  unfolding ctx_run_def by (induction es) (simp_all add: ctx_step_def)

lemma muted_connect:
  assumes "muted c0 c" "CL_Connect repr resolved turns now c = Some (b, c')"
  shows "muted c0 c'"
proof -
  have st: "cl_stopped c" using assms(1) by (simp add: muted_def)
  show ?thesis
  proof (cases "resolved = None")
    case False
    define c1 where "c1 = c\<lparr>cl_objects := cl_objects c @ [ClientLink_new (the resolved)],
        cl_connection := Some (length (cl_objects c)), cl_joinable := True, cl_running := \<not> cl_stopped c,
        cl_connected := True, cl_connectionStartTime := now\<rparr>"
    have "c' = SendConnectionRequest repr c1"
      using assms(2) False st
      by (auto simp: CL_Connect_def CI_Connect_def c1_def ctx_run_stopped split: if_splits)
    moreover have "silent (ClientLink_new b)" for b
      by (simp add: silent_def ClientLink_new_def connection_new_def writer_new_def reader_new_def Connection.defs)
    then have "muted c0 c1" using assms(1) by (auto simp: muted_def c1_def)
    ultimately show ?thesis by (auto simp: SendConnectionRequest_def intro: muted_view)
  qed (use assms in \<open>auto simp: CL_Connect_def CI_Connect_def\<close>)
qed

lemma CI_Disconnect_stopped:
  "cl_stopped c \<Longrightarrow> CI_Disconnect turns c = Some c' \<Longrightarrow>
     cl_objects c' = cl_objects c \<and> cl_in c' = cl_in c \<and> cl_stopped c'"
  by (auto simp: CI_Disconnect_def Let_def post_def ctx_run_stopped split: if_splits)

lemma muted_disconnect:
  assumes "muted c0 c" "CL_Disconnect turns c = Some c'"
  shows "muted c0 c'"
proof (cases "cl_connected c")
  case True
  let ?d = "SendDisconnectMessage c"
  obtain c1 where "CI_Disconnect turns ?d = Some c1" "c' = c1\<lparr>cl_connected := False\<rparr>"
    using assms(2) True by (auto simp: CL_Disconnect_def)
  moreover have "muted c0 ?d"
    using assms(1) by (rule muted_view) (simp_all add: SendDisconnectMessage_def)
  moreover have "cl_stopped ?d" using calculation(3) by (simp add: muted_def)
  ultimately show ?thesis using CI_Disconnect_stopped [of ?d turns c1] by (auto simp: muted_def)
qed (use assms in \<open>simp add: CL_Disconnect_def\<close>)

lemma muted_step:
  assumes "muted c0 c" "client_step env op c = Some c'"
  shows "muted c0 c'"
proof (cases op)
  case (ClConnect resolved turns now)
  then show ?thesis using assms by (auto dest: muted_connect)
next
  case (ClDisconnect turns)
  then show ?thesis using assms by (auto dest: muted_disconnect)
next
  case (ClUpdate now)
  then have "CL_Update (env_live env) now c = Some c'" using assms(2) by simp
  note CL_Update_frame [OF this]
  then show ?thesis by (intro muted_view [OF assms(1)]) auto
next
  case (ClContext e)
  then show ?thesis using assms by (auto simp: ctx_step_def muted_def)
qed (use assms muted_sends in auto)

interpretation mute: step_system "client_step env" "muted c0" "\<lambda>op. True" for env c0
  by unfold_locales (rule muted_step)

text \<open>
  After a disconnect the client is mute for ever: a new connection is reported as
  successful, and the client as connected, but whatever is done afterwards no byte is written
  on any connection, old or new, no header is waited for, and no message arrives, because the
  context was stopped and is never restarted.
\<close>

lemma reconnected_client_is_mute:
  assumes "cl_connected c0" "CL_Disconnect turns c0 = Some c" "run (client_step env) ops c = Some c'"
  shows "(\<exists>d. CL_Connect (env_repr env) (Some True) turns' now c = Some (True, d) \<and> CL_IsConnected d)
     \<and> (\<exists>new. cl_objects c' = cl_objects c @ new \<and> list_all silent new)
     \<and> (\<exists>n. cl_in c' = drop n (cl_in c))"
proof -
  have c: "cl_stopped c" "\<not> cl_joinable c"
    using assms(1,2) by (auto simp: CL_Disconnect_def CI_Disconnect_def Let_def)
  then have "\<exists>d. CL_Connect (env_repr env) (Some True) turns' now c = Some (True, d) \<and> CL_IsConnected d"
    by (simp add: CL_Connect_def CI_Connect_def ctx_run_stopped CL_IsConnected_def CI_IsConnected_def
        SendConnectionRequest_def count_sent_def MessageServer_def post_def ClientLink_new_def connection_new_def
        Connection.defs)
  moreover have "muted c c'" by (rule mute.run_inv [OF muted_refl [OF c(1)] _ assms(3)]) (simp add: list_all_iff)
  ultimately show ?thesis by (simp add: muted_def)
qed

lemma reconnected_client_is_mute_witness:
  "\<exists>c c'. CL_Disconnect [] (the (run (client_step plain_env) first_session Client_new)) = Some c
     \<and> run (client_step plain_env) [ClConnect (Some True) [] 9, ClContext (EvConnected 1 True), ClSendPosition 1 2 3 4] c = Some c'
     \<and> (\<exists>new. cl_objects c' = cl_objects c @ new \<and> list_all silent new)"
proof -
  let ?c0 = "the (run (client_step plain_env) first_session Client_new)"
  let ?ops = "[ClConnect (Some True) [] 9, ClContext (EvConnected 1 True), ClSendPosition 1 2 3 4]"
  have "cl_connected ?c0" by code_simp
  moreover have "CL_Disconnect [] ?c0 \<noteq> None" by code_simp
  moreover have "run (client_step plain_env) ?ops (the (CL_Disconnect [] ?c0)) \<noteq> None" by code_simp
  ultimately show ?thesis
    using reconnected_client_is_mute [of ?c0 "[]" "the (CL_Disconnect [] ?c0)" plain_env ?ops] by (metis option.collapse)
qed

section \<open>Pings\<close>

text \<open>So many pings were sent since a state, one second apart.\<close>

definition spaced :: "Client \<Rightarrow> Client \<Rightarrow> bool" where
  "spaced c0 c \<longleftrightarrow> (\<exists>n. cl_packetsSent c = cl_packetsSent c0 + of_nat n
     \<and> int n * 1000000000 \<le> cl_lastPingTime c - cl_lastPingTime c0)"

definition no_connecting :: "ClientOp \<Rightarrow> bool" where
  "no_connecting op = (case op of ClConnect _ _ _ \<Rightarrow> False | ClDisconnect _ \<Rightarrow> False | _ \<Rightarrow> True)"

lemma spaced_same:
  "spaced c0 c \<Longrightarrow> cl_packetsSent c' = cl_packetsSent c \<Longrightarrow> cl_lastPingTime c' = cl_lastPingTime c \<Longrightarrow> spaced c0 c'"
  by (simp add: spaced_def)

lemma spaced_sends: "spaced c0 c \<Longrightarrow> only_sends c c' \<Longrightarrow> spaced c0 c'"
  by (erule spaced_same) (simp_all add: only_sends_def)

lemma duration_ms_second: "1000 \<le> duration_ms d \<Longrightarrow> 1000000000 \<le> d"
  by (auto simp: duration_ms_def split: if_splits)

lemma spaced_ping:
  assumes "spaced c0 c"
  shows "spaced c0 (SendPingIfNeeded now c)"
proof (cases "1000 \<le> duration_ms (now - cl_lastPingTime c)")
  case True
  then have "1000000000 \<le> now - cl_lastPingTime c" by (rule duration_ms_second)
  moreover obtain n where n: "cl_packetsSent c = cl_packetsSent c0 + of_nat n"
      "int n * 1000000000 \<le> cl_lastPingTime c - cl_lastPingTime c0"
    using assms by (auto simp: spaced_def)
  ultimately show ?thesis
    using True unfolding spaced_def
    by (intro exI [of _ "Suc n"]) (simp add: SendPingIfNeeded_def Let_def count_sent_def MessageServer_def post_def)
next
  case False
  then show ?thesis using assms by (simp add: SendPingIfNeeded_def)
qed

lemma spaced_update:
  assumes "spaced c0 c" "CL_Update live now c = Some c'"
  shows "spaced c0 c'"
proof (cases "CL_IsConnected c")
  case True
  then obtain c1 where c1: "run (process_next live now) (cl_in c) c = Some c1"
      and c': "c' = UpdateNetworkStats (SendPingIfNeeded now c1)"
    using assms(2) by (auto simp: CL_Update_def ProcessIncomingMessages_def)
  have "spaced c0 c1"
    using process_loop [where live = live and now = now and c = c] c1 spaced_same [OF assms(1), of c1] by simp
  then have "spaced c0 (SendPingIfNeeded now c1)" by (rule spaced_ping)
  then show ?thesis
    using UpdateNetworkStats_frame [of "SendPingIfNeeded now c1"] unfolding c' by (auto simp: only_sends_def intro: spaced_same)
qed (use assms in \<open>simp add: CL_Update_def\<close>)

lemma run_handler_counters:
  "cl_packetsSent (run_handler h c) = cl_packetsSent c \<and> cl_lastPingTime (run_handler h c) = cl_lastPingTime c"
  by (simp add: run_handler_def split: handler.split)

lemma handle_event_counters:
  "handle_event e c = Some c' \<Longrightarrow> cl_packetsSent c' = cl_packetsSent c \<and> cl_lastPingTime c' = cl_lastPingTime c"
  by (cases e) (auto simp: handle_event_def run_handler_counters link_read_def split: option.splits)

lemma ctx_step_counters:
  "ctx_step e c = Some c' \<Longrightarrow> cl_packetsSent c' = cl_packetsSent c \<and> cl_lastPingTime c' = cl_lastPingTime c"
  by (auto simp: ctx_step_def dest: handle_event_counters split: if_splits)

lemma spaced_step:
  assumes "spaced c0 c" "no_connecting op" "client_step env op c = Some c'"
  shows "spaced c0 c'"
proof (cases op)
  case (ClUpdate now)
  then show ?thesis using assms by (auto dest: spaced_update)
next
  case (ClContext e)
  then show ?thesis using assms by (auto dest: ctx_step_counters intro: spaced_same)
qed (use assms spaced_sends in \<open>auto simp: no_connecting_def\<close>)

interpretation pings: step_system "client_step env" "spaced c0" no_connecting for env c0
  by unfold_locales (rule spaced_step)

text \<open>
  Pings are rate limited: between connecting and disconnecting, whatever the order of
  updates, sends and events and whatever the clock shows, the packets counted as sent are the
  pings, and \<open>n\<close> of them move the time of the last ping by at least \<open>n\<close> seconds.
\<close>

lemma pings_keep_their_distance:
  assumes "list_all no_connecting ops" "run (client_step env) ops c = Some c'"
  shows "\<exists>n. cl_packetsSent c' = cl_packetsSent c + of_nat n
     \<and> int n * 1000000000 \<le> cl_lastPingTime c' - cl_lastPingTime c"
proof -
  have "spaced c c" by (simp add: spaced_def exI [of _ 0])
  then have "spaced c c'" using assms by (rule pings.run_inv)
  then show ?thesis by (simp add: spaced_def)
qed

lemma pings_keep_their_distance_witness:
  "\<exists>c c'. run (client_step plain_env) [ClConnect (Some True) [] 5] Client_new = Some c
     \<and> run (client_step plain_env) [ClUpdate 2000000000, ClUpdate 2500000000, ClUpdate 3000000000] c = Some c'
     \<and> cl_packetsSent c = 1 \<and> cl_packetsSent c' = 3
     \<and> (\<exists>n. cl_packetsSent c' = cl_packetsSent c + of_nat n
            \<and> int n * 1000000000 \<le> cl_lastPingTime c' - cl_lastPingTime c)"
proof -
  let ?c = "the (run (client_step plain_env) [ClConnect (Some True) [] 5] Client_new)"
  let ?ops = "[ClUpdate 2000000000, ClUpdate 2500000000, ClUpdate 3000000000]"
  have "run (client_step plain_env) [ClConnect (Some True) [] 5] Client_new \<noteq> None" "cl_packetsSent ?c = 1"
    by code_simp+
  moreover have "run (client_step plain_env) ?ops ?c \<noteq> None"
    "cl_packetsSent (the (run (client_step plain_env) ?ops ?c)) = 3" by code_simp+
  moreover have "list_all no_connecting ?ops" by (simp add: no_connecting_def)
  ultimately show ?thesis using pings_keep_their_distance [of ?ops plain_env ?c] by (metis option.collapse)
qed

section \<open>Further facts\<close>

text \<open>A refused connection counts as connected: the socket of the attempt stays open.\<close>

lemma refused_counts_as_connected:
  "map_option CL_IsConnected (run (client_step plain_env)
     [ClConnect (Some True) [] 5, ClContext (EvConnected 0 False)] Client_new) = Some True"
  by code_simp

text \<open>Connecting twice without a disconnect ends the program.\<close>

lemma connecting_twice_ends_the_program:
  "run (client_step env) [ClConnect (Some b) [] t, ClConnect (Some b') es t'] Client_new = None"
  by (simp add: CL_Connect_def CI_Connect_def ctx_run_def Client_new_def SendConnectionRequest_def count_sent_def
      MessageServer_def post_def)

text \<open>What is sent as player data does not depend on the player data.\<close>

lemma player_data_not_sent: "SendPlayerData optimize d c = SendPlayerData optimize d' c"
  by (simp add: SendPlayerData_def)

text \<open>
  More packets received than sent make the packet loss negative.
\<close>

lemma packet_loss_negative:
  "cl_packetLoss (UpdateNetworkStats (Client_new\<lparr>cl_packetsSent := 1, cl_packetsReceived := 2\<rparr>)) = Fin (- 100)"
  by code_simp

end
