(* ===== verification/Interpolation.thy ===== *)
theory Interpolation
  imports Movement Sorts
begin

text \<open>
  \<open>optimization/PositionInterpolation.cpp\<close>: the snapshots of the players' positions, the
  interpolation between them in five ways, smoothing, extrapolation and the adaptation to the
  network, with the formulas of \<open>InterpolationUtils\<close>.  Arithmetic is \<open>float\<close>, and so are times:
  a time point is compared as seconds since the epoch in \<open>float\<close> (\<open>seconds32\<close>).

  \<open>std::sort\<close> is the parameter \<open>srt\<close>.  The clock is read at the start, for the target time and at
  the end of an interpolation: three arguments.
\<close>

section \<open>InterpolationUtils\<close>

definition IU_Lerp1 :: "flt \<Rightarrow> flt \<Rightarrow> flt \<Rightarrow> flt" where
  "IU_Lerp1 a b t = add32 a (mul32 (sub32 b a) t)"

text \<open>A formula on floats for the first three components; the fourth becomes one.\<close>

definition lift4 :: "(flt \<Rightarrow> flt \<Rightarrow> flt \<Rightarrow> flt \<Rightarrow> flt) \<Rightarrow> vec4 \<Rightarrow> vec4 \<Rightarrow> vec4 \<Rightarrow> vec4 \<Rightarrow> vec4" where
  "lift4 f p0 p1 p2 p3 =
     (case (p0, p1, p2, p3) of ((x0, y0, z0, w0), (x1, y1, z1, w1), (x2, y2, z2, w2), (x3, y3, z3, w3)) \<Rightarrow>
        (f x0 x1 x2 x3, f y0 y1 y2 y3, f z0 z1 z2 z3, Fin 1))"

definition IU_Lerp :: "vec4 \<Rightarrow> vec4 \<Rightarrow> flt \<Rightarrow> vec4" where
  "IU_Lerp a b t =
     (case (a, b) of ((ax, ay, az, aw), (bx, by, bz, bw)) \<Rightarrow>
        (IU_Lerp1 ax bx t, IU_Lerp1 ay by t, IU_Lerp1 az bz t, Fin 1))"

definition IU_Slerp :: "vec4 \<Rightarrow> vec4 \<Rightarrow> flt \<Rightarrow> vec4" where
  "IU_Slerp a b t = IU_Lerp a b t"

definition cubic1 :: "flt \<Rightarrow> flt \<Rightarrow> flt \<Rightarrow> flt \<Rightarrow> flt \<Rightarrow> flt" where
  "cubic1 t p0 p1 p2 p3 =
     (let t2 = mul32 t t; t3 = mul32 t2 t
      in mul32 (Fin (1 / 2))
           (add32
             (add32
               (add32 (mul32 (Fin 2) p1) (mul32 (add32 (f_neg p0) p2) t))
               (mul32 (sub32 (add32 (sub32 (mul32 (Fin 2) p0) (mul32 (Fin 5) p1)) (mul32 (Fin 4) p2)) p3) t2))
             (mul32 (add32 (sub32 (add32 (f_neg p0) (mul32 (Fin 3) p1)) (mul32 (Fin 3) p2)) p3) t3)))"

definition CubicInterpolate1 :: "flt \<Rightarrow> flt \<Rightarrow> flt \<Rightarrow> flt \<Rightarrow> flt \<Rightarrow> flt" where
  "CubicInterpolate1 p0 p1 p2 p3 t = cubic1 t p0 p1 p2 p3"

definition CubicInterpolate :: "vec4 \<Rightarrow> vec4 \<Rightarrow> vec4 \<Rightarrow> vec4 \<Rightarrow> flt \<Rightarrow> vec4" where
  "CubicInterpolate p0 p1 p2 p3 t = lift4 (cubic1 t) p0 p1 p2 p3"

definition CatmullRomInterpolate1 :: "flt \<Rightarrow> flt \<Rightarrow> flt \<Rightarrow> flt \<Rightarrow> flt \<Rightarrow> flt" where
  "CatmullRomInterpolate1 p0 p1 p2 p3 t = cubic1 t p0 p1 p2 p3"

definition CatmullRomInterpolate :: "vec4 \<Rightarrow> vec4 \<Rightarrow> vec4 \<Rightarrow> vec4 \<Rightarrow> flt \<Rightarrow> vec4" where
  "CatmullRomInterpolate p0 p1 p2 p3 t = lift4 (cubic1 t) p0 p1 p2 p3"

definition hermite1 :: "flt \<Rightarrow> flt \<Rightarrow> flt \<Rightarrow> flt \<Rightarrow> flt \<Rightarrow> flt" where
  "hermite1 t p0 p1 m0 m1 =
     (let t2 = mul32 t t; t3 = mul32 t2 t
      in add32
           (add32
             (add32
               (mul32 (add32 (sub32 (mul32 (Fin 2) t3) (mul32 (Fin 3) t2)) (Fin 1)) p0)
               (mul32 (add32 (sub32 t3 (mul32 (Fin 2) t2)) t) m0))
             (mul32 (add32 (mul32 (Fin (- 2)) t3) (mul32 (Fin 3) t2)) p1))
           (mul32 (sub32 t3 t2) m1))"

definition HermiteInterpolate1 :: "flt \<Rightarrow> flt \<Rightarrow> flt \<Rightarrow> flt \<Rightarrow> flt \<Rightarrow> flt" where
  "HermiteInterpolate1 p0 p1 t0 t1 t = hermite1 t p0 p1 t0 t1"

definition HermiteInterpolate :: "vec4 \<Rightarrow> vec4 \<Rightarrow> vec4 \<Rightarrow> vec4 \<Rightarrow> flt \<Rightarrow> vec4" where
  "HermiteInterpolate p0 p1 t0 t1 t = lift4 (hermite1 t) p0 p1 t0 t1"

definition bezier1 :: "flt \<Rightarrow> flt \<Rightarrow> flt \<Rightarrow> flt \<Rightarrow> flt \<Rightarrow> flt" where
  "bezier1 t p0 p1 p2 p3 =
     (let u = sub32 (Fin 1) t; tt = mul32 t t; uu = mul32 u u; uuu = mul32 uu u; ttt = mul32 tt t
      in add32
           (add32
             (add32 (mul32 uuu p0) (mul32 (mul32 (mul32 (Fin 3) uu) t) p1))
             (mul32 (mul32 (mul32 (Fin 3) u) tt) p2))
           (mul32 ttt p3))"

definition BezierInterpolate1 :: "flt \<Rightarrow> flt \<Rightarrow> flt \<Rightarrow> flt \<Rightarrow> flt \<Rightarrow> flt" where
  "BezierInterpolate1 p0 p1 p2 p3 t = bezier1 t p0 p1 p2 p3"

definition BezierInterpolate :: "vec4 \<Rightarrow> vec4 \<Rightarrow> vec4 \<Rightarrow> vec4 \<Rightarrow> flt \<Rightarrow> vec4" where
  "BezierInterpolate p0 p1 p2 p3 t = lift4 (bezier1 t) p0 p1 p2 p3"

definition IU_Clamp :: "flt \<Rightarrow> flt \<Rightarrow> flt \<Rightarrow> flt" where
  "IU_Clamp v lo hi = f_max lo (f_min hi v)"

definition SmoothStep :: "flt \<Rightarrow> flt \<Rightarrow> flt \<Rightarrow> flt" where
  "SmoothStep edge0 edge1 x =
     (let t = IU_Clamp (div32 (sub32 x edge0) (sub32 edge1 edge0)) (Fin 0) (Fin 1)
      in mul32 (mul32 t t) (sub32 (Fin 3) (mul32 (Fin 2) t)))"

definition SmootherStep :: "flt \<Rightarrow> flt \<Rightarrow> flt \<Rightarrow> flt" where
  "SmootherStep edge0 edge1 x =
     (let t = IU_Clamp (div32 (sub32 x edge0) (sub32 edge1 edge0)) (Fin 0) (Fin 1)
      in mul32 (mul32 (mul32 t t) t)
           (add32 (mul32 t (sub32 (mul32 t (Fin 6)) (Fin 15))) (Fin 10)))"

definition IU_Distance :: "vec4 \<Rightarrow> vec4 \<Rightarrow> flt" where
  "IU_Distance a b = distance3 a b"

text \<open>
  The two loops of \<open>AngleDifference\<close>.  They need not end: a step of 360 can round away, so not
  returning is \<open>None\<close>.
\<close>

partial_function (option) angle_down :: "flt \<Rightarrow> flt option" where
  [code]: "angle_down diff = (if f_lt (Fin 180) diff then angle_down (sub32 diff (Fin 360)) else Some diff)"

partial_function (option) angle_up :: "flt \<Rightarrow> flt option" where
  [code]: "angle_up diff = (if f_lt diff (Fin (- 180)) then angle_up (add32 diff (Fin 360)) else Some diff)"

definition AngleDifference :: "flt \<Rightarrow> flt \<Rightarrow> flt option" where
  "AngleDifference a b = Option.bind (angle_down (sub32 b a)) angle_up"

definition IU_Normalize :: "vec4 \<Rightarrow> vec4" where
  "IU_Normalize v =
     (case v of (x, y, z, w) \<Rightarrow>
        let len = length3 x y z
        in if f_lt (Fin 0) len then (div32 x len, div32 y len, div32 z len, Fin 1) else v)"

definition CalculateJitter :: "vec4 \<Rightarrow> vec4 \<Rightarrow> flt" where
  "CalculateJitter current previous = IU_Distance current previous"

definition IsJitter :: "vec4 \<Rightarrow> vec4 \<Rightarrow> flt \<Rightarrow> bool" where
  "IsJitter current previous threshold \<longleftrightarrow> f_lt threshold (CalculateJitter current previous)"

definition CompensatePosition :: "vec4 \<Rightarrow> vec4 \<Rightarrow> flt \<Rightarrow> vec4" where
  "CompensatePosition position velocity lagTime =
     (case (position, velocity) of ((px, py, pz, pw), (vx, vy, vz, vw)) \<Rightarrow>
        (add32 px (mul32 vx lagTime), add32 py (mul32 vy lagTime), add32 pz (mul32 vz lagTime), pw))"

definition CompensateRotation :: "flt \<Rightarrow> flt \<Rightarrow> flt \<Rightarrow> flt" where
  "CompensateRotation rotation angularVelocity lagTime = add32 rotation (mul32 angularVelocity lagTime)"

section \<open>Data\<close>

datatype InterpolationType = Linear | Cubic | Hermite | CatmullRom | Bezier

record InterpolationConfig =
  ic_type :: InterpolationType
  ic_duration :: flt
  ic_smoothing :: flt
  ic_enableExtrapolation :: bool
  ic_extrapolationTime :: flt
  ic_enableLagCompensation :: bool
  ic_lagCompensationTime :: flt
  ic_enableJitterReduction :: bool
  ic_jitterThreshold :: flt
  ic_enableAdaptiveInterpolation :: bool

definition InterpolationConfig_new :: InterpolationConfig where
  "InterpolationConfig_new =
     \<lparr>ic_type = Cubic, ic_duration = rnd32 (1 / 10), ic_smoothing = rnd32 (1 / 10),
      ic_enableExtrapolation = True, ic_extrapolationTime = rnd32 (1 / 5), ic_enableLagCompensation = True,
      ic_lagCompensationTime = rnd32 (1 / 10), ic_enableJitterReduction = True,
      ic_jitterThreshold = rnd32 (1 / 100), ic_enableAdaptiveInterpolation = True\<rparr>"

record PositionSnapshot =
  sn_playerId :: u32
  sn_position :: vec4
  sn_velocity :: vec4
  sn_acceleration :: vec4
  sn_rotation :: flt
  sn_timestamp :: time_point
  sn_sequenceNumber :: u32
  sn_isValid :: bool

definition PositionSnapshot_new :: PositionSnapshot where
  "PositionSnapshot_new =
     \<lparr>sn_playerId = 0, sn_position = vec4_zero, sn_velocity = vec4_zero, sn_acceleration = vec4_zero,
      sn_rotation = Fin 0, sn_timestamp = 0, sn_sequenceNumber = 0, sn_isValid = False\<rparr>"

record InterpolatedPosition =
  ip_position :: vec4
  ip_velocity :: vec4
  ip_acceleration :: vec4
  ip_rotation :: flt
  ip_confidence :: flt
  ip_isExtrapolated :: bool
  ip_isJitterCorrected :: bool

definition InterpolatedPosition_new :: InterpolatedPosition where
  "InterpolatedPosition_new =
     \<lparr>ip_position = vec4_zero, ip_velocity = vec4_zero, ip_acceleration = vec4_zero, ip_rotation = Fin 0,
      ip_confidence = Fin 1, ip_isExtrapolated = False, ip_isJitterCorrected = False\<rparr>"

record InterpolationStats =
  is_totalInterpolations :: u32
  is_extrapolations :: u32
  is_jitterCorrections :: u32
  is_lagCompensations :: u32
  is_averageInterpolationTime :: flt
  is_maxInterpolationTime :: flt
  is_averageJitter :: flt
  is_maxJitter :: flt
  is_averageLag :: flt
  is_maxLag :: flt

definition InterpolationStats_Reset :: InterpolationStats where
  "InterpolationStats_Reset =
     \<lparr>is_totalInterpolations = 0, is_extrapolations = 0, is_jitterCorrections = 0, is_lagCompensations = 0,
      is_averageInterpolationTime = Fin 0, is_maxInterpolationTime = Fin 0, is_averageJitter = Fin 0,
      is_maxJitter = Fin 0, is_averageLag = Fin 0, is_maxLag = Fin 0\<rparr>"

datatype InterpolationCall = PositionUpdated u32 InterpolatedPosition | JitterDetected u32 flt

record PositionInterpolation =
  pi_initialized :: bool
  pi_config :: InterpolationConfig
  pi_stats :: InterpolationStats
  pi_playerSnapshots :: "(u32, PositionSnapshot list) omap"
  pi_currentPositions :: "(u32, InterpolatedPosition) omap"
  pi_currentLatency :: flt
  pi_currentPacketLoss :: flt
  pi_currentJitter :: flt
  pi_lastUpdateTime :: time_point
  pi_lastCleanupTime :: time_point
  pi_positionUpdatedCallback :: bool
  pi_jitterDetectedCallback :: bool
  pi_calls :: "InterpolationCall list"

definition PositionInterpolation_new :: "time_point \<Rightarrow> PositionInterpolation" where
  "PositionInterpolation_new now =
     \<lparr>pi_initialized = False, pi_config = InterpolationConfig_new, pi_stats = InterpolationStats_Reset,
      pi_playerSnapshots = [], pi_currentPositions = [], pi_currentLatency = Fin 0,
      pi_currentPacketLoss = Fin 0, pi_currentJitter = Fin 0, pi_lastUpdateTime = now, pi_lastCleanupTime = now,
      pi_positionUpdatedCallback = False, pi_jitterDetectedCallback = False, pi_calls = []\<rparr>"

section \<open>Snapshots\<close>

definition PI_Initialize :: "InterpolationConfig \<Rightarrow> PositionInterpolation \<Rightarrow> bool \<times> PositionInterpolation" where
  "PI_Initialize config s =
     (if pi_initialized s then (True, s) else (True, s\<lparr>pi_config := config, pi_initialized := True\<rparr>))"

definition PI_Shutdown :: "PositionInterpolation \<Rightarrow> PositionInterpolation" where
  "PI_Shutdown s =
     (if \<not> pi_initialized s then s
      else s\<lparr>pi_playerSnapshots := [], pi_currentPositions := [], pi_initialized := False\<rparr>)"

definition sn_time :: "PositionSnapshot \<Rightarrow> flt" where
  "sn_time snapshot = seconds32 (sn_timestamp snapshot)"

definition GetSnapshotsForPlayer :: "u32 \<Rightarrow> PositionInterpolation \<Rightarrow> PositionSnapshot list" where
  "GetSnapshotsForPlayer playerId s = om_get [] (pi_playerSnapshots s) playerId"

definition CleanupOldSnapshots :: "time_point \<Rightarrow> PositionInterpolation \<Rightarrow> PositionInterpolation" where
  "CleanupOldSnapshots now s =
     (let cutoffTime = sub32 (seconds32 now) (mul32 (ic_duration (pi_config s)) (Fin 2))
      in s\<lparr>pi_playerSnapshots := om_map (\<lambda>k. filter (\<lambda>sn. \<not> f_lt (sn_time sn) cutoffTime)) (pi_playerSnapshots s)\<rparr>)"

definition earlier :: "PositionSnapshot \<Rightarrow> PositionSnapshot \<Rightarrow> bool" where
  "earlier a b \<longleftrightarrow> sn_timestamp a < sn_timestamp b"

definition AddPositionSnapshot ::
    "(PositionSnapshot list \<Rightarrow> PositionSnapshot list) \<Rightarrow> time_point \<Rightarrow> PositionSnapshot
      \<Rightarrow> PositionInterpolation \<Rightarrow> PositionInterpolation" where
  "AddPositionSnapshot srt now snapshot s =
     (if \<not> pi_initialized s \<or> \<not> sn_isValid snapshot then s
      else let history = GetSnapshotsForPlayer (sn_playerId snapshot) s @ [snapshot]
        in CleanupOldSnapshots now
             (s\<lparr>pi_playerSnapshots := om_put (sn_playerId snapshot) (srt history) (pi_playerSnapshots s)\<rparr>))"

text \<open>The overload with single values stamps the snapshot with one reading of the clock, \<open>t\<close>.\<close>

definition AddPositionSnapshot_of ::
    "(PositionSnapshot list \<Rightarrow> PositionSnapshot list) \<Rightarrow> time_point \<Rightarrow> time_point \<Rightarrow> u32 \<Rightarrow> vec4 \<Rightarrow> vec4
      \<Rightarrow> flt \<Rightarrow> u32 \<Rightarrow> PositionInterpolation \<Rightarrow> PositionInterpolation" where
  "AddPositionSnapshot_of srt t now playerId position velocity rotation sequenceNumber s =
     AddPositionSnapshot srt now
       (PositionSnapshot_new\<lparr>sn_playerId := playerId, sn_position := position, sn_velocity := velocity,
          sn_rotation := rotation, sn_sequenceNumber := sequenceNumber, sn_timestamp := t, sn_isValid := True\<rparr>) s"

definition HasPositionData :: "u32 \<Rightarrow> PositionInterpolation \<Rightarrow> bool" where
  "HasPositionData playerId s \<longleftrightarrow>
     (case om_find (pi_playerSnapshots s) playerId of None \<Rightarrow> False | Some l \<Rightarrow> l \<noteq> [])"

definition CleanupPlayerData :: "u32 \<Rightarrow> PositionInterpolation \<Rightarrow> PositionInterpolation" where
  "CleanupPlayerData playerId s =
     s\<lparr>pi_playerSnapshots := om_erase playerId (pi_playerSnapshots s),
       pi_currentPositions := om_erase playerId (pi_currentPositions s)\<rparr>"

section \<open>Interpolation\<close>

text \<open>The first snapshot that is not later than the time; the snapshot nearest to it.\<close>

definition FindSnapshotAtTime :: "PositionSnapshot list \<Rightarrow> flt \<Rightarrow> PositionSnapshot" where
  "FindSnapshotAtTime snapshots time =
     (case find (\<lambda>sn. f_le (sn_time sn) time) snapshots of None \<Rightarrow> PositionSnapshot_new | Some sn \<Rightarrow> sn)"

definition nearer :: "flt \<Rightarrow> PositionSnapshot \<Rightarrow> PositionSnapshot \<times> flt \<Rightarrow> PositionSnapshot \<times> flt" where
  "nearer time sn best =
     (let diff = f_abs (sub32 (sn_time sn) time) in if f_lt diff (snd best) then (sn, diff) else best)"

definition FindNearestSnapshot :: "PositionSnapshot list \<Rightarrow> flt \<Rightarrow> PositionSnapshot" where
  "FindNearestSnapshot snapshots time =
     (if snapshots = [] then PositionSnapshot_new
      else fst (fold (nearer time) snapshots
                  (hd snapshots, f_abs (sub32 (sn_time (hd snapshots)) time))))"

definition InterpolateLinear :: "PositionSnapshot list \<Rightarrow> flt \<Rightarrow> InterpolatedPosition" where
  "InterpolateLinear snapshots time =
     (if length snapshots < 2 then InterpolatedPosition_new
      else
        let before = FindSnapshotAtTime snapshots time; after = FindNearestSnapshot snapshots time
        in if \<not> sn_isValid before \<or> \<not> sn_isValid after then InterpolatedPosition_new
           else
             let timeDiff = seconds32 (sn_timestamp after - sn_timestamp before)
             in if f_le timeDiff (Fin 0) then InterpolatedPosition_new
                else
                  let t = IU_Clamp (div32 (sub32 time (sn_time before)) timeDiff) (Fin 0) (Fin 1)
                  in InterpolatedPosition_new
                       \<lparr>ip_position := IU_Lerp (sn_position before) (sn_position after) t,
                        ip_velocity := IU_Lerp (sn_velocity before) (sn_velocity after) t,
                        ip_rotation := IU_Lerp1 (sn_rotation before) (sn_rotation after) t,
                        ip_confidence := sub32 (Fin 1) (mul32 (f_abs (sub32 t (Fin (1 / 2)))) (Fin 2))\<rparr>)"

text \<open>The four snapshots of \<open>InterpolateCubic\<close> are never assigned.\<close>

definition InterpolateCubic :: "PositionSnapshot list \<Rightarrow> flt \<Rightarrow> InterpolatedPosition" where
  "InterpolateCubic snapshots time =
     (if length snapshots < 4 then InterpolateLinear snapshots time
      else
        let p0 = PositionSnapshot_new; p1 = PositionSnapshot_new; p2 = PositionSnapshot_new; p3 = PositionSnapshot_new
        in InterpolatedPosition_new
             \<lparr>ip_position := CubicInterpolate (sn_position p0) (sn_position p1) (sn_position p2) (sn_position p3) (Fin (1 / 2)),
              ip_velocity := CubicInterpolate (sn_velocity p0) (sn_velocity p1) (sn_velocity p2) (sn_velocity p3) (Fin (1 / 2)),
              ip_rotation := CubicInterpolate1 (sn_rotation p0) (sn_rotation p1) (sn_rotation p2) (sn_rotation p3) (Fin (1 / 2)),
              ip_confidence := rnd32 (4 / 5)\<rparr>)"

definition InterpolateHermite :: "PositionSnapshot list \<Rightarrow> flt \<Rightarrow> InterpolatedPosition" where
  "InterpolateHermite snapshots time =
     (if length snapshots < 2 then InterpolatedPosition_new
      else
        let p0 = snapshots ! 0; p1 = snapshots ! 1
        in InterpolatedPosition_new
             \<lparr>ip_position := HermiteInterpolate (sn_position p0) (sn_position p1) (sn_velocity p0) (sn_velocity p1) (Fin (1 / 2)),
              ip_velocity := IU_Lerp (sn_velocity p0) (sn_velocity p1) (Fin (1 / 2)),
              ip_rotation := HermiteInterpolate1 (sn_rotation p0) (sn_rotation p1) (Fin 0) (Fin 0) (Fin (1 / 2)),
              ip_confidence := rnd32 (9 / 10)\<rparr>)"

definition InterpolateCatmullRom :: "PositionSnapshot list \<Rightarrow> flt \<Rightarrow> InterpolatedPosition" where
  "InterpolateCatmullRom snapshots time =
     (if length snapshots < 4 then InterpolateLinear snapshots time
      else
        let p0 = snapshots ! 0; p1 = snapshots ! 1; p2 = snapshots ! 2; p3 = snapshots ! 3
        in InterpolatedPosition_new
             \<lparr>ip_position := CatmullRomInterpolate (sn_position p0) (sn_position p1) (sn_position p2) (sn_position p3) (Fin (1 / 2)),
              ip_velocity := IU_Lerp (sn_velocity p1) (sn_velocity p2) (Fin (1 / 2)),
              ip_rotation := CatmullRomInterpolate1 (sn_rotation p0) (sn_rotation p1) (sn_rotation p2) (sn_rotation p3) (Fin (1 / 2)),
              ip_confidence := rnd32 (17 / 20)\<rparr>)"

definition InterpolateBezier :: "PositionSnapshot list \<Rightarrow> flt \<Rightarrow> InterpolatedPosition" where
  "InterpolateBezier snapshots time =
     (if length snapshots < 4 then InterpolateLinear snapshots time
      else
        let p0 = snapshots ! 0; p1 = snapshots ! 1; p2 = snapshots ! 2; p3 = snapshots ! 3
        in InterpolatedPosition_new
             \<lparr>ip_position := BezierInterpolate (sn_position p0) (sn_position p1) (sn_position p2) (sn_position p3) (Fin (1 / 2)),
              ip_velocity := IU_Lerp (sn_velocity p1) (sn_velocity p2) (Fin (1 / 2)),
              ip_rotation := BezierInterpolate1 (sn_rotation p0) (sn_rotation p1) (sn_rotation p2) (sn_rotation p3) (Fin (1 / 2)),
              ip_confidence := rnd32 (4 / 5)\<rparr>)"

definition interpolate_by :: "InterpolationType \<Rightarrow> PositionSnapshot list \<Rightarrow> flt \<Rightarrow> InterpolatedPosition" where
  "interpolate_by type snapshots time =
     (case type of
        Linear \<Rightarrow> InterpolateLinear snapshots time
      | Cubic \<Rightarrow> InterpolateCubic snapshots time
      | Hermite \<Rightarrow> InterpolateHermite snapshots time
      | CatmullRom \<Rightarrow> InterpolateCatmullRom snapshots time
      | Bezier \<Rightarrow> InterpolateBezier snapshots time)"

definition smooth :: "flt \<Rightarrow> InterpolatedPosition option \<Rightarrow> InterpolatedPosition \<Rightarrow> InterpolatedPosition" where
  "smooth smoothing current result =
     (if f_lt (Fin 0) smoothing then
        (case current of
           None \<Rightarrow> result
         | Some c \<Rightarrow> result\<lparr>ip_position := IU_Lerp (ip_position c) (ip_position result) smoothing,
                           ip_velocity := IU_Lerp (ip_velocity c) (ip_velocity result) smoothing,
                           ip_rotation := IU_Lerp1 (ip_rotation c) (ip_rotation result) smoothing\<rparr>)
      else result)"

definition count_interpolation :: "flt \<Rightarrow> InterpolationStats \<Rightarrow> InterpolationStats" where
  "count_interpolation interpolationTime st =
     st\<lparr>is_totalInterpolations := is_totalInterpolations st + 1,
        is_averageInterpolationTime := div32 (add32 (is_averageInterpolationTime st) interpolationTime) (Fin 2),
        is_maxInterpolationTime := f_max (is_maxInterpolationTime st) interpolationTime\<rparr>"

definition pi_call :: "bool \<Rightarrow> InterpolationCall \<Rightarrow> PositionInterpolation \<Rightarrow> PositionInterpolation" where
  "pi_call installed c s = (if installed then s\<lparr>pi_calls := pi_calls s @ [c]\<rparr> else s)"

type_synonym clock = "time_point \<times> time_point \<times> time_point"

definition PI_InterpolatePosition ::
    "clock \<Rightarrow> u32 \<Rightarrow> flt \<Rightarrow> PositionInterpolation \<Rightarrow> InterpolatedPosition \<times> PositionInterpolation" where
  "PI_InterpolatePosition clk playerId timeOffset s =
     (case clk of (startTime, now, endTime) \<Rightarrow>
        let snapshots = GetSnapshotsForPlayer playerId s
        in if \<not> pi_initialized s \<or> snapshots = [] then (InterpolatedPosition_new, s)
           else
             let targetTime = sub32 (seconds32 now) timeOffset;
                 result = smooth (ic_smoothing (pi_config s)) (om_find (pi_currentPositions s) playerId)
                            (interpolate_by (ic_type (pi_config s)) snapshots targetTime);
                 s1 = s\<lparr>pi_currentPositions := om_put playerId result (pi_currentPositions s),
                        pi_stats := count_interpolation (mul32 (seconds32 (endTime - startTime)) (Fin 1000)) (pi_stats s)\<rparr>
             in (result, pi_call (pi_positionUpdatedCallback s) (PositionUpdated playerId result) s1))"

text \<open>The loop over the players, in the order of the map; the clock goes on.\<close>

fun interpolate_each ::
    "(u32 \<Rightarrow> clock) \<Rightarrow> flt \<Rightarrow> u32 list \<Rightarrow> PositionInterpolation \<Rightarrow> InterpolatedPosition list \<times> PositionInterpolation" where
  "interpolate_each clk timeOffset [] s = ([], s)"
| "interpolate_each clk timeOffset (k # ks) s =
     (let (position, s1) = PI_InterpolatePosition (clk k) k timeOffset s;
          (rest, s2) = interpolate_each clk timeOffset ks s1
      in (if f_lt (Fin 0) (ip_confidence position) then position # rest else rest, s2))"

definition InterpolateAllPositions ::
    "(u32 \<Rightarrow> clock) \<Rightarrow> flt \<Rightarrow> PositionInterpolation \<Rightarrow> InterpolatedPosition list \<times> PositionInterpolation" where
  "InterpolateAllPositions clk timeOffset s = interpolate_each clk timeOffset (map fst (pi_playerSnapshots s)) s"

definition ExtrapolatePosition ::
    "u32 \<Rightarrow> flt \<Rightarrow> PositionInterpolation \<Rightarrow> InterpolatedPosition \<times> PositionInterpolation" where
  "ExtrapolatePosition playerId timeOffset s =
     (let snapshots = GetSnapshotsForPlayer playerId s
      in if \<not> pi_initialized s \<or> \<not> ic_enableExtrapolation (pi_config s) \<or> length snapshots < 2
         then (InterpolatedPosition_new, s)
         else
           let lst = last snapshots; secondLast = snapshots ! (length snapshots - 2);
               timeDiff = seconds32 (sn_timestamp lst - sn_timestamp secondLast);
               factor = f_min (div32 timeOffset timeDiff) (div32 (ic_extrapolationTime (pi_config s)) timeDiff)
           in (InterpolatedPosition_new
                 \<lparr>ip_position := IU_Lerp (sn_position lst) (IU_Lerp (sn_position lst) (sn_position lst) factor) factor,
                  ip_velocity := sn_velocity lst,
                  ip_rotation := IU_Lerp1 (sn_rotation lst) (sn_rotation lst) factor,
                  ip_confidence := f_max (Fin 0) (sub32 (Fin 1) factor),
                  ip_isExtrapolated := True\<rparr>,
               s\<lparr>pi_stats := (pi_stats s)\<lparr>is_extrapolations := is_extrapolations (pi_stats s) + 1\<rparr>\<rparr>))"

section \<open>Queries, configuration, network\<close>

definition PI_GetCurrentPosition :: "u32 \<Rightarrow> PositionInterpolation \<Rightarrow> vec4" where
  "PI_GetCurrentPosition playerId s =
     (case om_find (pi_currentPositions s) playerId of
        Some c \<Rightarrow> ip_position c | None \<Rightarrow> (Fin 0, Fin 0, Fin 0, Fin 1))"

definition PI_GetCurrentVelocity :: "u32 \<Rightarrow> PositionInterpolation \<Rightarrow> vec4" where
  "PI_GetCurrentVelocity playerId s =
     (case om_find (pi_currentPositions s) playerId of Some c \<Rightarrow> ip_velocity c | None \<Rightarrow> vec4_zero)"

definition PI_GetCurrentRotation :: "u32 \<Rightarrow> PositionInterpolation \<Rightarrow> flt" where
  "PI_GetCurrentRotation playerId s =
     (case om_find (pi_currentPositions s) playerId of Some c \<Rightarrow> ip_rotation c | None \<Rightarrow> Fin 0)"

definition on_config :: "(InterpolationConfig \<Rightarrow> InterpolationConfig) \<Rightarrow> PositionInterpolation \<Rightarrow> PositionInterpolation" where
  "on_config f s = s\<lparr>pi_config := f (pi_config s)\<rparr>"

definition PI_SetConfig :: "InterpolationConfig \<Rightarrow> PositionInterpolation \<Rightarrow> PositionInterpolation" where
  "PI_SetConfig config s = s\<lparr>pi_config := config\<rparr>"

definition PI_GetConfig :: "PositionInterpolation \<Rightarrow> InterpolationConfig" where
  "PI_GetConfig s = pi_config s"

definition SetInterpolationType :: "InterpolationType \<Rightarrow> PositionInterpolation \<Rightarrow> PositionInterpolation" where
  "SetInterpolationType type = on_config (ic_type_update (\<lambda>_. type))"

definition SetDuration :: "flt \<Rightarrow> PositionInterpolation \<Rightarrow> PositionInterpolation" where
  "SetDuration duration = on_config (ic_duration_update (\<lambda>_. duration))"

definition SetSmoothing :: "flt \<Rightarrow> PositionInterpolation \<Rightarrow> PositionInterpolation" where
  "SetSmoothing smoothing = on_config (ic_smoothing_update (\<lambda>_. IU_Clamp smoothing (Fin 0) (Fin 1)))"

text \<open>The literals \<open>0.05f\<close>, \<open>1.1f\<close> and so on are the nearest floats.\<close>

definition adapt_duration :: "flt \<Rightarrow> flt \<Rightarrow> flt" where
  "adapt_duration latency duration =
     (if f_lt (Fin 100) latency then f_min (rnd32 (1 / 5)) (mul32 duration (rnd32 (11 / 10)))
      else if f_lt latency (Fin 20) then f_max (rnd32 (1 / 20)) (mul32 duration (rnd32 (9 / 10)))
      else duration)"

definition adapt_smoothing :: "flt \<Rightarrow> flt \<Rightarrow> flt" where
  "adapt_smoothing jitter smoothing =
     (if f_lt (rnd32 (1 / 100)) jitter then f_min (Fin (1 / 2)) (mul32 smoothing (rnd32 (6 / 5)))
      else if f_lt jitter (rnd32 (1 / 1000)) then f_max (rnd32 (1 / 100)) (mul32 smoothing (rnd32 (4 / 5)))
      else smoothing)"

definition AdaptToNetworkConditions :: "PositionInterpolation \<Rightarrow> PositionInterpolation" where
  "AdaptToNetworkConditions s =
     on_config (\<lambda>c. c\<lparr>ic_duration := adapt_duration (pi_currentLatency s) (ic_duration c),
                      ic_smoothing := adapt_smoothing (pi_currentJitter s) (ic_smoothing c)\<rparr>) s"

definition PI_UpdateNetworkConditions :: "flt \<Rightarrow> flt \<Rightarrow> flt \<Rightarrow> PositionInterpolation \<Rightarrow> PositionInterpolation" where
  "PI_UpdateNetworkConditions latency packetLoss jitter s =
     (let s1 = s\<lparr>pi_currentLatency := latency, pi_currentPacketLoss := packetLoss, pi_currentJitter := jitter\<rparr>
      in if ic_enableAdaptiveInterpolation (pi_config s1) then AdaptToNetworkConditions s1 else s1)"

definition PI_GetStats :: "PositionInterpolation \<Rightarrow> InterpolationStats" where
  "PI_GetStats s = pi_stats s"

definition PI_ResetStats :: "PositionInterpolation \<Rightarrow> PositionInterpolation" where
  "PI_ResetStats s = s\<lparr>pi_stats := InterpolationStats_Reset\<rparr>"

definition SetPositionUpdatedCallback :: "bool \<Rightarrow> PositionInterpolation \<Rightarrow> PositionInterpolation" where
  "SetPositionUpdatedCallback b s = s\<lparr>pi_positionUpdatedCallback := b\<rparr>"

definition SetJitterDetectedCallback :: "bool \<Rightarrow> PositionInterpolation \<Rightarrow> PositionInterpolation" where
  "SetJitterDetectedCallback b s = s\<lparr>pi_jitterDetectedCallback := b\<rparr>"

section \<open>Corrections\<close>

text \<open>No code calls these; they are declared \<open>const\<close>, and the statistics they change are part of the result.\<close>

definition DetectJitter :: "PositionSnapshot \<Rightarrow> PositionSnapshot \<Rightarrow> PositionInterpolation \<Rightarrow> bool" where
  "DetectJitter current previous s \<longleftrightarrow>
     ic_enableJitterReduction (pi_config s)
     \<and> f_lt (ic_jitterThreshold (pi_config s)) (CalculateJitter (sn_position current) (sn_position previous))"

definition CorrectJitter ::
    "PositionSnapshot \<Rightarrow> PositionSnapshot \<Rightarrow> PositionInterpolation \<Rightarrow> PositionSnapshot \<times> PositionInterpolation" where
  "CorrectJitter snapshot previous s =
     (let jitter = CalculateJitter (sn_position snapshot) (sn_position previous); st = pi_stats s;
          st1 = st\<lparr>is_jitterCorrections := is_jitterCorrections st + 1,
                   is_averageJitter := div32 (add32 (is_averageJitter st) jitter) (Fin 2),
                   is_maxJitter := f_max (is_maxJitter st) jitter\<rparr>
      in (snapshot\<lparr>sn_position := IU_Lerp (sn_position previous) (sn_position snapshot) (Fin (1 / 2))\<rparr>,
          pi_call (pi_jitterDetectedCallback s) (JitterDetected (sn_playerId snapshot) jitter) (s\<lparr>pi_stats := st1\<rparr>)))"

definition CompensateForLag ::
    "PositionSnapshot \<Rightarrow> flt \<Rightarrow> PositionInterpolation \<Rightarrow> PositionSnapshot \<times> PositionInterpolation" where
  "CompensateForLag snapshot lagTime s =
     (if \<not> ic_enableLagCompensation (pi_config s) then (snapshot, s)
      else let st = pi_stats s; lag = mul32 lagTime (Fin 1000)
        in (snapshot\<lparr>sn_position := CompensatePosition (sn_position snapshot) (sn_velocity snapshot) lagTime,
                     sn_rotation := CompensateRotation (sn_rotation snapshot) (Fin 0) lagTime\<rparr>,
            s\<lparr>pi_stats := st\<lparr>is_lagCompensations := is_lagCompensations st + 1,
                             is_averageLag := div32 (add32 (is_averageLag st) lag) (Fin 2),
                             is_maxLag := f_max (is_maxLag st) lag\<rparr>\<rparr>))"

definition ExtrapolateFromSnapshots :: "PositionSnapshot list \<Rightarrow> flt \<Rightarrow> PositionSnapshot" where
  "ExtrapolateFromSnapshots snapshots time =
     (if length snapshots < 2 then PositionSnapshot_new
      else let lst = last snapshots; extrapolationTime = sub32 time (sn_time lst)
        in lst\<lparr>sn_position := CompensatePosition (sn_position lst) (sn_velocity lst) extrapolationTime,
               sn_rotation := CompensateRotation (sn_rotation lst) (Fin 0) extrapolationTime\<rparr>)"

section \<open>Operations\<close>

datatype InterpolationOp =
    IpInitialize InterpolationConfig
  | IpShutdown
  | IpAdd time_point PositionSnapshot
  | IpAddOf time_point time_point u32 vec4 vec4 flt u32
  | IpInterpolate clock u32 flt
  | IpInterpolateAll "u32 \<Rightarrow> clock" flt
  | IpExtrapolate u32 flt
  | IpSetConfig InterpolationConfig
  | IpSetType InterpolationType
  | IpSetDuration flt
  | IpSetSmoothing flt
  | IpNetwork flt flt flt
  | IpResetStats
  | IpCleanupPlayer u32

fun interpolation_step ::
    "(PositionSnapshot list \<Rightarrow> PositionSnapshot list) \<Rightarrow> InterpolationOp \<Rightarrow> PositionInterpolation \<Rightarrow> PositionInterpolation option" where
  "interpolation_step srt (IpInitialize c) s = Some (snd (PI_Initialize c s))"
| "interpolation_step srt IpShutdown s = Some (PI_Shutdown s)"
| "interpolation_step srt (IpAdd now sn) s = Some (AddPositionSnapshot srt now sn s)"
| "interpolation_step srt (IpAddOf t now k p v r n) s = Some (AddPositionSnapshot_of srt t now k p v r n s)"
| "interpolation_step srt (IpInterpolate clk k off) s = Some (snd (PI_InterpolatePosition clk k off s))"
| "interpolation_step srt (IpInterpolateAll clk off) s = Some (snd (InterpolateAllPositions clk off s))"
| "interpolation_step srt (IpExtrapolate k off) s = Some (snd (ExtrapolatePosition k off s))"
| "interpolation_step srt (IpSetConfig c) s = Some (PI_SetConfig c s)"
| "interpolation_step srt (IpSetType t) s = Some (SetInterpolationType t s)"
| "interpolation_step srt (IpSetDuration d) s = Some (SetDuration d s)"
| "interpolation_step srt (IpSetSmoothing x) s = Some (SetSmoothing x s)"
| "interpolation_step srt (IpNetwork l p j) s = Some (PI_UpdateNetworkConditions l p j s)"
| "interpolation_step srt IpResetStats s = Some (PI_ResetStats s)"
| "interpolation_step srt (IpCleanupPlayer k) s = Some (CleanupPlayerData k s)"

end
