(* ===== verification/InterpolationProps.thy ===== *)
theory InterpolationProps
  imports Interpolation
begin

text \<open>
  What the interpolation guarantees: when the difference of two angles is found, what the reachable
  histories look like, and that the default interpolation does not use them.
\<close>

section \<open>Angles\<close>

lemma sub32_Fin: "sub32 (Fin a) (Fin b) = rnd32 (a - b)"
  by (simp add: sub32_def add32_def f_neg_def)

lemma add32_Fin: "add32 (Fin a) (Fin b) = rnd32 (a + b)"
  by (simp add: add32_def)

lemma rnd32_between:
  assumes "of_int m \<le> q" "q \<le> of_int n" "\<bar>m\<bar> \<le> 2 ^ 24" "\<bar>n\<bar> \<le> 2 ^ 24"
  shows "\<exists>r. rnd32 q = Fin r \<and> of_int m \<le> r \<and> r \<le> of_int n"
proof -
  let ?r = "round_fin 24 (-126) q"
  have m: "round_fin 24 (-126) (of_int m) = of_int m" and n: "round_fin 24 (-126) (of_int n) = of_int n"
    using assms(3,4) by (simp_all add: round_fin_of_int)
  have r: "of_int m \<le> ?r" "?r \<le> of_int n"
    using round_fin_mono [OF assms(1), of 24 "-126"] round_fin_mono [OF assms(2), of 24 "-126"] m n by simp_all
  have "- (2 ^ 24) \<le> m" "n \<le> 2 ^ 24" using assms(3,4) by auto
  then have "of_int (- (2 ^ 24)) \<le> (of_int m :: rat)" "(of_int n :: rat) \<le> of_int (2 ^ 24)"
    by (simp_all only: of_int_le_iff)
  with r have "\<bar>?r\<bar> < 2 ^ 128" by simp
  then have "rnd32 q = Fin ?r" by (rule rnd32_Fin)
  with r show ?thesis by blast
qed

text \<open>A step down from above 180 takes the ceiling down by 360 and stays above -180.\<close>

lemma step_down:
  assumes "180 < q" "q \<le> 2 ^ 24"
  shows "\<exists>r. sub32 (Fin q) (Fin 360) = Fin r \<and> - 180 \<le> r \<and> r \<le> 2 ^ 24 \<and> \<lceil>r\<rceil> \<le> \<lceil>q\<rceil> - 360"
proof -
  have c: "\<lceil>q\<rceil> \<le> 2 ^ 24" using assms(2) by (simp add: ceiling_le_iff)
  have "180 < \<lceil>q\<rceil>" using assms(1) by (simp add: less_ceiling_iff)
  then have "\<bar>\<lceil>q\<rceil> - 360\<bar> \<le> 2 ^ 24" using c by linarith
  moreover have "q - 360 \<le> of_int (\<lceil>q\<rceil> - 360)" by simp
  ultimately obtain r where r: "rnd32 (q - 360) = Fin r" "of_int (- 180) \<le> r" "r \<le> of_int (\<lceil>q\<rceil> - 360)"
    using rnd32_between [of "- 180" "q - 360" "\<lceil>q\<rceil> - 360"] assms(1) by auto
  have "of_int (\<lceil>q\<rceil> - 360) \<le> (of_int (2 ^ 24) :: rat)" using c by (simp only: of_int_le_iff)
  from order_trans [OF r(3) this] have "r \<le> 2 ^ 24" by simp
  with r show ?thesis by (simp add: sub32_Fin ceiling_le_iff)
qed

lemma step_up:
  assumes "q < - 180" "- (2 ^ 24) \<le> q"
  shows "\<exists>r. add32 (Fin q) (Fin 360) = Fin r \<and> r \<le> 180 \<and> - (2 ^ 24) \<le> r \<and> \<lfloor>q\<rfloor> + 360 \<le> \<lfloor>r\<rfloor>"
proof -
  have c: "- (2 ^ 24) \<le> \<lfloor>q\<rfloor>" using assms(2) by (simp add: le_floor_iff)
  have "\<lfloor>q\<rfloor> < - 180" using assms(1) by (simp add: floor_less_iff)
  then have "\<bar>\<lfloor>q\<rfloor> + 360\<bar> \<le> 2 ^ 24" using c by linarith
  moreover have "of_int (\<lfloor>q\<rfloor> + 360) \<le> q + 360" by simp
  ultimately obtain r where r: "rnd32 (q + 360) = Fin r" "of_int (\<lfloor>q\<rfloor> + 360) \<le> r" "r \<le> of_int 180"
    using rnd32_between [of "\<lfloor>q\<rfloor> + 360" "q + 360" 180] assms(1) by auto
  have "(of_int (- (2 ^ 24)) :: rat) \<le> of_int (\<lfloor>q\<rfloor> + 360)" using c by (simp only: of_int_le_iff)
  then have "- (2 ^ 24) \<le> r" using r(2) by simp
  with r show ?thesis by (simp add: add32_Fin le_floor_iff)
qed

lemma angle_down_returns:
  "- 180 \<le> q \<Longrightarrow> q \<le> 2 ^ 24 \<Longrightarrow> \<exists>r. angle_down (Fin q) = Some (Fin r) \<and> - 180 \<le> r \<and> r \<le> 180"
proof (induction "nat (\<lceil>q\<rceil> + 180)" arbitrary: q rule: less_induct)
  case less
  show ?case
  proof (cases "180 < q")
    case True
    then obtain r where r: "sub32 (Fin q) (Fin 360) = Fin r" "- 180 \<le> r" "r \<le> 2 ^ 24" "\<lceil>r\<rceil> \<le> \<lceil>q\<rceil> - 360"
      using step_down less.prems by blast
    moreover have "0 \<le> \<lceil>q\<rceil>" using True by (simp add: zero_le_ceiling)
    then have "nat (\<lceil>r\<rceil> + 180) < nat (\<lceil>q\<rceil> + 180)" using r(4) by linarith
    note less.hyps [OF this r(2,3)]
    ultimately obtain r' where "angle_down (Fin r) = Some (Fin r') \<and> - 180 \<le> r' \<and> r' \<le> 180"
      by auto
    then show ?thesis using True r(1) by (subst angle_down.simps) simp
  next
    case False
    then show ?thesis using less.prems by (subst angle_down.simps) simp
  qed
qed

lemma angle_up_returns:
  "q \<le> 180 \<Longrightarrow> - (2 ^ 24) \<le> q \<Longrightarrow> \<exists>r. angle_up (Fin q) = Some (Fin r) \<and> - 180 \<le> r \<and> r \<le> 180"
proof (induction "nat (180 - \<lfloor>q\<rfloor>)" arbitrary: q rule: less_induct)
  case less
  show ?case
  proof (cases "q < - 180")
    case True
    then obtain r where r: "add32 (Fin q) (Fin 360) = Fin r" "r \<le> 180" "- (2 ^ 24) \<le> r" "\<lfloor>q\<rfloor> + 360 \<le> \<lfloor>r\<rfloor>"
      using step_up less.prems by blast
    moreover have "\<lfloor>q\<rfloor> \<le> 0" using True by (simp add: floor_le_iff)
    then have "nat (180 - \<lfloor>r\<rfloor>) < nat (180 - \<lfloor>q\<rfloor>)" using r(4) by linarith
    note less.hyps [OF this r(2,3)]
    ultimately obtain r' where "angle_up (Fin r) = Some (Fin r') \<and> - 180 \<le> r' \<and> r' \<le> 180"
      by auto
    then show ?thesis using True r(1) by (subst angle_up.simps) simp
  next
    case False
    then show ?thesis using less.prems by (subst angle_up.simps) simp
  qed
qed

text \<open>A difference that a step leaves unchanged is stepped for ever.\<close>

lemma angle_down_stuck: "f_lt (Fin 180) d \<Longrightarrow> sub32 d (Fin 360) = d \<Longrightarrow> angle_down d = None"
proof (rule ccontr)
  assume d: "f_lt (Fin 180) d" "sub32 d (Fin 360) = d" and "angle_down d \<noteq> None"
  then obtain r where "angle_down d = Some r" by auto
  then have "d \<noteq> d" using d by (rule_tac angle_down.raw_induct [of "\<lambda>x y. x \<noteq> d"]) (auto split: if_splits)
  then show False by simp
qed

lemma angle_up_stuck: "f_lt d (Fin (- 180)) \<Longrightarrow> add32 d (Fin 360) = d \<Longrightarrow> angle_up d = None"
proof (rule ccontr)
  assume d: "f_lt d (Fin (- 180))" "add32 d (Fin 360) = d" and "angle_up d \<noteq> None"
  then obtain r where "angle_up d = Some r" by auto
  then have "d \<noteq> d" using d by (rule_tac angle_up.raw_induct [of "\<lambda>x y. x \<noteq> d"]) (auto split: if_splits)
  then show False by simp
qed

text \<open>
  C33. The difference of two angles is found, and lies between -180 and 180, whenever the rounded
  difference of the arguments is at most \<open>2 ^ 24\<close> in size; the loops do not end when a step of
  360 rounds away or the difference is infinite.
\<close>

theorem angle_difference_returns:
  defines "d \<equiv> (\<lambda>a b. sub32 b a)"
  shows "(\<forall>q. d a b = Fin q \<and> \<bar>q\<bar> \<le> 2 ^ 24 \<longrightarrow>
        (\<exists>r. AngleDifference a b = Some (Fin r) \<and> - 180 \<le> r \<and> r \<le> 180))
     \<and> (f_lt (Fin 180) (d a b) \<and> sub32 (d a b) (Fin 360) = d a b \<longrightarrow> AngleDifference a b = None)
     \<and> (f_lt (d a b) (Fin (- 180)) \<and> add32 (d a b) (Fin 360) = d a b \<longrightarrow> AngleDifference a b = None)"
proof (intro conjI allI impI)
  fix q assume q: "d a b = Fin q \<and> \<bar>q\<bar> \<le> 2 ^ 24"
  show "\<exists>r. AngleDifference a b = Some (Fin r) \<and> - 180 \<le> r \<and> r \<le> 180"
  proof (cases "- 180 \<le> q")
    case True
    then obtain r where r: "angle_down (Fin q) = Some (Fin r)" "- 180 \<le> r" "r \<le> 180"
      using angle_down_returns [of q] q by (auto simp: abs_le_iff)
    then have "angle_up (Fin r) = Some (Fin r)" by (subst angle_up.simps) simp
    with r q show ?thesis by (simp add: AngleDifference_def d_def)
  next
    case False
    then have "angle_down (Fin q) = Some (Fin q)" by (subst angle_down.simps) simp
    moreover have "- (2 ^ 24) \<le> q" using q by (simp add: abs_le_iff)
    then obtain r where "angle_up (Fin q) = Some (Fin r)" "- 180 \<le> r" "r \<le> 180"
      using angle_up_returns [of q] False by auto
    ultimately show ?thesis using q by (simp add: AngleDifference_def d_def)
  qed
next
  assume "f_lt (Fin 180) (d a b) \<and> sub32 (d a b) (Fin 360) = d a b"
  then show "AngleDifference a b = None" by (simp add: AngleDifference_def d_def angle_down_stuck)
next
  assume h: "f_lt (d a b) (Fin (- 180)) \<and> add32 (d a b) (Fin 360) = d a b"
  then have "angle_up (d a b) = None" by (simp add: angle_up_stuck)
  moreover have "angle_down (d a b) = Some (d a b)"
    using h by (subst angle_down.simps) (cases "d a b"; auto)
  ultimately show "AngleDifference a b = None" by (simp add: AngleDifference_def d_def)
qed

theorem angle_difference_returns_witness:
  "(\<exists>r. AngleDifference (Fin 10) (Fin 350) = Some (Fin r) \<and> - 180 \<le> r \<and> r \<le> 180)
     \<and> AngleDifference (Fin 0) (Fin (2 ^ 34)) = None"
proof -
  have "sub32 (Fin 350) (Fin 10) = Fin 340" by code_simp
  moreover have "sub32 (Fin (2 ^ 34)) (Fin 0) = Fin (2 ^ 34)" "sub32 (Fin (2 ^ 34)) (Fin 360) = Fin (2 ^ 34)" by code_simp+
  ultimately show ?thesis
    using angle_difference_returns [where a = "Fin 10" and b = "Fin 350"]
      angle_difference_returns [where a = "Fin 0" and b = "Fin (2 ^ 34)"] by simp
qed

section \<open>The histories\<close>

text \<open>
  A history belongs to its player, holds valid snapshots and is ordered by time; without
  initialisation there is none.
\<close>

definition history_ok :: "u32 \<Rightarrow> PositionSnapshot list \<Rightarrow> bool" where
  "history_ok k l \<longleftrightarrow> list_all (\<lambda>sn. sn_playerId sn = k \<and> sn_isValid sn) l \<and> sorted_wrt (\<lambda>a b. \<not> earlier b a) l"

definition histories_ok :: "PositionInterpolation \<Rightarrow> bool" where
  "histories_ok s \<longleftrightarrow> om_sorted (pi_playerSnapshots s)
     \<and> (\<forall>(k, l) \<in> set (pi_playerSnapshots s). history_ok k l)
     \<and> (pi_initialized s \<or> pi_playerSnapshots s = [])"

lemma histories_ok_same:
  "histories_ok s \<Longrightarrow> pi_playerSnapshots t = pi_playerSnapshots s \<Longrightarrow> pi_initialized t = pi_initialized s \<Longrightarrow>
     histories_ok t"
  by (simp add: histories_ok_def)

lemma history_ok_filter: "history_ok k l \<Longrightarrow> history_ok k (filter P l)"
  by (auto simp: history_ok_def list_all_iff sorted_wrt_filter)

lemma history_ok_get: "histories_ok s \<Longrightarrow> history_ok k (GetSnapshotsForPlayer k s)"
  by (auto simp: histories_ok_def GetSnapshotsForPlayer_def om_get_def om_find_Some_iff history_ok_def split: option.splits)

lemma history_ok_sort:
  assumes "sorter earlier srt" "list_all (\<lambda>sn. sn_playerId sn = k \<and> sn_isValid sn) l"
  shows "history_ok k (srt l)"
  using assms sorter_set [OF assms(1), of l] sorter_sorted [OF assms(1), of l] by (simp add: history_ok_def list_all_iff)

lemma histories_ok_cleanup: "histories_ok s \<Longrightarrow> histories_ok (CleanupOldSnapshots now s)"
  by (simp add: histories_ok_def CleanupOldSnapshots_def Let_def) (auto simp: om_map_def history_ok_filter)

lemma histories_ok_put:
  "histories_ok s \<Longrightarrow> pi_initialized s \<Longrightarrow> history_ok k l \<Longrightarrow>
     histories_ok (s\<lparr>pi_playerSnapshots := om_put k l (pi_playerSnapshots s)\<rparr>)"
  using set_om_put [of k l "pi_playerSnapshots s"] by (fastforce simp: histories_ok_def)

lemma histories_ok_add:
  assumes "sorter earlier srt" "histories_ok s"
  shows "histories_ok (AddPositionSnapshot srt now sn s)"
proof (cases "pi_initialized s \<and> sn_isValid sn")
  case True
  let ?k = "sn_playerId sn"
  have "history_ok ?k (srt (GetSnapshotsForPlayer ?k s @ [sn]))"
    using history_ok_get [OF assms(2), of ?k] True by (intro history_ok_sort [OF assms(1)]) (simp add: history_ok_def)
  then show ?thesis
    using True assms(2) by (simp add: AddPositionSnapshot_def histories_ok_cleanup histories_ok_put)
qed (use assms(2) in \<open>auto simp: AddPositionSnapshot_def\<close>)

lemma interpolate_frame:
  "pi_playerSnapshots (snd (PI_InterpolatePosition clk k off s)) = pi_playerSnapshots s"
  "pi_initialized (snd (PI_InterpolatePosition clk k off s)) = pi_initialized s"
  by (simp_all add: PI_InterpolatePosition_def Let_def pi_call_def split: prod.split)

lemma interpolate_each_frame:
  "pi_playerSnapshots (snd (interpolate_each clk off ks s)) = pi_playerSnapshots s
     \<and> pi_initialized (snd (interpolate_each clk off ks s)) = pi_initialized s"
proof (induction ks arbitrary: s)
  case (Cons k ks)
  then show ?case
    using interpolate_frame [of "clk k" k off s] by (simp add: Let_def case_prod_unfold)
qed simp

lemma histories_ok_erase: "histories_ok s \<Longrightarrow> histories_ok (CleanupPlayerData k s)"
  by (auto simp: histories_ok_def CleanupPlayerData_def om_sorted_erase) (auto simp: om_erase_def)

lemma interpolation_step_ok:
  assumes "sorter earlier srt" "histories_ok s" "interpolation_step srt op s = Some t"
  shows "histories_ok t"
proof (cases op)
  case (IpInitialize c)
  then show ?thesis using assms by (auto simp: PI_Initialize_def histories_ok_def split: if_splits)
next
  case IpShutdown
  then show ?thesis using assms by (auto simp: PI_Shutdown_def histories_ok_def om_sorted_def split: if_splits)
next
  case (IpInterpolate clk k off)
  then have "t = snd (PI_InterpolatePosition clk k off s)" using assms(3) by simp
  then show ?thesis by (intro histories_ok_same [OF assms(2)]) (simp_all add: interpolate_frame)
next
  case (IpInterpolateAll clk off)
  then have "t = snd (interpolate_each clk off (map fst (pi_playerSnapshots s)) s)"
    using assms(3) by (simp add: InterpolateAllPositions_def)
  then show ?thesis by (intro histories_ok_same [OF assms(2)]) (simp_all add: interpolate_each_frame)
next
  case (IpExtrapolate k off)
  then have "t = snd (ExtrapolatePosition k off s)" using assms(3) by simp
  then show ?thesis by (intro histories_ok_same [OF assms(2)]) (simp_all add: ExtrapolatePosition_def Let_def)
next
  case (IpNetwork l p j)
  then have "t = PI_UpdateNetworkConditions l p j s" using assms(3) by simp
  then show ?thesis
    by (intro histories_ok_same [OF assms(2)])
       (simp_all add: PI_UpdateNetworkConditions_def AdaptToNetworkConditions_def on_config_def Let_def)
qed (use assms in \<open>auto simp: histories_ok_add histories_ok_erase AddPositionSnapshot_of_def PI_SetConfig_def on_config_def
      SetInterpolationType_def SetDuration_def SetSmoothing_def PI_ResetStats_def
      intro: histories_ok_same [OF assms(2)]\<close>)

interpretation histories: step_system "interpolation_step srt" histories_ok "\<lambda>op. sorter earlier srt" for srt
  by unfold_locales (blast intro: interpolation_step_ok)

text \<open>
  After any operations, with any implementation of \<open>std::sort\<close>, the history of a player
  holds valid snapshots of that player only, in the order of time, and there is none without
  initialisation.
\<close>

lemma histories_in_order:
  assumes "sorter earlier srt" "run (interpolation_step srt) ops (PositionInterpolation_new t0) = Some s"
  shows "list_all (\<lambda>sn. sn_playerId sn = k \<and> sn_isValid sn) (GetSnapshotsForPlayer k s)
     \<and> sorted_wrt (\<lambda>a b. \<not> earlier b a) (GetSnapshotsForPlayer k s)
     \<and> (pi_initialized s \<or> \<not> HasPositionData k s)"
proof -
  have "histories_ok (PositionInterpolation_new t0)"
    by (simp add: histories_ok_def PositionInterpolation_new_def om_sorted_def)
  then have "histories_ok s"
    by (rule histories.run_inv [OF _ _ assms(2)]) (simp add: list_all_iff assms(1))
  then show ?thesis
    using history_ok_get [of s k] by (auto simp: history_ok_def histories_ok_def HasPositionData_def)
qed

definition demo_sort :: "PositionSnapshot list \<Rightarrow> PositionSnapshot list" where
  "demo_sort xs = foldr (insort_key sn_timestamp) xs []"

lemma demo_sort_sorts: "sorter earlier demo_sort"
  unfolding demo_sort_def [abs_def] earlier_def [abs_def] sort_key_def [symmetric] by (rule sorter_sort_key)

text \<open>Two snapshots 50 ms apart, one and a half thousand million seconds into the epoch, the later one first.\<close>

definition demo_ops :: "InterpolationOp list" where
  "demo_ops = [IpInitialize InterpolationConfig_new,
     IpAddOf 1600000000050000000 1600000000060000000 7 (Fin 2, Fin 0, Fin 0, Fin 1) vec4_zero (Fin 0) 2,
     IpAddOf 1600000000000000000 1600000000060000000 7 (Fin 1, Fin 0, Fin 0, Fin 1) vec4_zero (Fin 0) 1]"

lemma demo_run:
  "map_option (\<lambda>s. map sn_sequenceNumber (GetSnapshotsForPlayer 7 s))
     (run (interpolation_step demo_sort) demo_ops (PositionInterpolation_new 0)) = Some [1, 2]"
  by code_simp

lemma histories_in_order_witness:
  "\<exists>s. run (interpolation_step demo_sort) demo_ops (PositionInterpolation_new 0) = Some s
     \<and> map sn_sequenceNumber (GetSnapshotsForPlayer 7 s) = [1, 2]
     \<and> sorted_wrt (\<lambda>a b. \<not> earlier b a) (GetSnapshotsForPlayer 7 s)"
proof -
  obtain s where s: "run (interpolation_step demo_sort) demo_ops (PositionInterpolation_new 0) = Some s"
      "map sn_sequenceNumber (GetSnapshotsForPlayer 7 s) = [1, 2]" using demo_run by auto
  then show ?thesis using histories_in_order [OF demo_sort_sorts s(1), of 7] by (intro exI [of _ s]) simp
qed

section \<open>What the default interpolation does\<close>

text \<open>A step of the default interpolation with four snapshots: the origin, or a step towards it.\<close>

lemma rnd32_0 [simp]: "rnd32 0 = Fin 0"
  by (simp add: rnd32_def round_flt_def)

lemma cubic_of_zeros:
  "CubicInterpolate vec4_zero vec4_zero vec4_zero vec4_zero (Fin (1 / 2)) = (Fin 0, Fin 0, Fin 0, Fin 1)"
  by code_simp

lemma InterpolateCubic_origin:
  "4 \<le> length l \<Longrightarrow> ip_position (InterpolateCubic l time) = (Fin 0, Fin 0, Fin 0, Fin 1)"
  by (simp add: InterpolateCubic_def Let_def cubic_of_zeros PositionSnapshot_new_def)

text \<open>Snapshots whose times are one \<open>float\<close>: the nearest one is the first one.\<close>

lemma nearest_of_equals:
  "list_all (\<lambda>sn. sn_time sn = sn_time (hd l)) l \<Longrightarrow> l \<noteq> [] \<Longrightarrow> FindNearestSnapshot l time = hd l"
proof -
  assume a: "list_all (\<lambda>sn. sn_time sn = sn_time (hd l)) l" "l \<noteq> []"
  let ?b = "(hd l, f_abs (sub32 (sn_time (hd l)) time))"
  have "fold (nearer time) xs ?b = ?b" if "list_all (\<lambda>sn. sn_time sn = sn_time (hd l)) xs" for xs
    using that
  proof (induction xs)
    case (Cons x xs)
    have "\<not> f_lt y y" for y by (cases y) auto
    then show ?case using Cons by (simp add: nearer_def)
  qed simp
  with a show ?thesis by (simp add: FindNearestSnapshot_def)
qed

lemma linear_of_equals:
  assumes "list_all (\<lambda>sn. sn_time sn = sn_time (hd l)) l"
  shows "InterpolateLinear l time = InterpolatedPosition_new"
proof (cases "length l < 2")
  case False
  then obtain x xs where l: "l = x # xs" by (cases l) auto
  have "FindSnapshotAtTime l time = (if f_le (sn_time x) time then x else PositionSnapshot_new)"
    using assms unfolding l by (induction xs) (auto simp: FindSnapshotAtTime_def find_None_iff split: option.splits)
  moreover have "FindNearestSnapshot l time = x" using nearest_of_equals [OF assms] l by simp
  moreover have "seconds32 0 = Fin 0" by (simp add: seconds32_def div32_def)
  ultimately show ?thesis using False by (simp add: InterpolateLinear_def Let_def PositionSnapshot_new_def)
qed (simp add: InterpolateLinear_def)

text \<open>
  In the default configuration the snapshots do not matter.  With four or more of them the
  position is the origin, or the step of the smoothing from the previous position towards the
  origin; with fewer, or with linear interpolation, and time points that are one \<open>float\<close> (at
  present all within about two minutes), it is the default position, the origin again.
\<close>

lemma interpolation_ignores_the_snapshots:
  fixes s k
  defines "l \<equiv> GetSnapshotsForPlayer k s"
  assumes "pi_initialized s"
    "ic_type (pi_config s) = Cubic \<and> (4 \<le> length l \<or> list_all (\<lambda>sn. sn_time sn = sn_time (hd l)) l)
     \<or> ic_type (pi_config s) = Linear \<and> list_all (\<lambda>sn. sn_time sn = sn_time (hd l)) l"
  defines "target \<equiv> \<lambda>p. \<exists>w. p = (Fin 0, Fin 0, Fin 0, w)"
  shows "case om_find (pi_currentPositions s) k of
      None \<Rightarrow> target (ip_position (fst (PI_InterpolatePosition clk k off s)))
    | Some c \<Rightarrow> if l = [] \<or> \<not> f_lt (Fin 0) (ic_smoothing (pi_config s))
        then target (ip_position (fst (PI_InterpolatePosition clk k off s)))
        else ip_position (fst (PI_InterpolatePosition clk k off s))
               = IU_Lerp (ip_position c) (Fin 0, Fin 0, Fin 0, Fin 0) (ic_smoothing (pi_config s))"
proof (cases "l = []")
  case True
  then show ?thesis
    by (auto simp: PI_InterpolatePosition_def l_def target_def InterpolatedPosition_new_def vec4_zero_def split: option.splits prod.splits)
next
  case False
  have "target (ip_position (interpolate_by (ic_type (pi_config s)) l time))" for time
    using assms(3) linear_of_equals [of l time] InterpolateCubic_origin [of l time]
    by (cases "length l < 4")
       (auto simp: interpolate_by_def target_def InterpolatedPosition_new_def vec4_zero_def InterpolateCubic_def [of l])
  moreover have "IU_Lerp a (Fin 0, Fin 0, Fin 0, w) t = IU_Lerp a (Fin 0, Fin 0, Fin 0, Fin 0) t" for a w t
    by (cases a) (simp add: IU_Lerp_def)
  ultimately have "IU_Lerp a (ip_position (interpolate_by (ic_type (pi_config s)) l time)) t
      = IU_Lerp a (Fin 0, Fin 0, Fin 0, Fin 0) t" "target (ip_position (interpolate_by (ic_type (pi_config s)) l time))"
    for a t time unfolding target_def by metis+
  then show ?thesis
    using False assms(2)
    by (cases clk) (auto simp: PI_InterpolatePosition_def Let_def l_def smooth_def split: option.splits)
qed

lemma interpolation_ignores_the_snapshots_witness:
  "ip_position (fst (PI_InterpolatePosition (0, 1, 2) 7 (Fin 0)
     ((PositionInterpolation_new 0)\<lparr>pi_initialized := True,
        pi_playerSnapshots := [(7, replicate 4 (PositionSnapshot_new\<lparr>sn_position := (Fin 5, Fin 6, Fin 7, Fin 1)\<rparr>))]\<rparr>)))
   \<in> {(Fin 0, Fin 0, Fin 0, w) | w. True}"
  using interpolation_ignores_the_snapshots [of "(PositionInterpolation_new 0)\<lparr>pi_initialized := True,
      pi_playerSnapshots := [(7, replicate 4 (PositionSnapshot_new\<lparr>sn_position := (Fin 5, Fin 6, Fin 7, Fin 1)\<rparr>))]\<rparr>"
      7 "(0, 1, 2)" "Fin 0"]
  by (simp add: PositionInterpolation_new_def InterpolationConfig_new_def GetSnapshotsForPlayer_def om_get_def om_find_def)

text \<open>
  Extrapolation interpolates between the last position and itself: the player stays where it was
  (the components are floats, the factor is finite).
\<close>

lemma lerp_same: "rnd32 a = Fin a \<Longrightarrow> IU_Lerp1 (Fin a) (Fin a) (Fin t) = Fin a"
  by (simp add: IU_Lerp1_def sub32_Fin mul32_def mul_gen_def add32_Fin)

lemma extrapolation_stays_put:
  assumes "rnd32 x = Fin x" "rnd32 y = Fin y" "rnd32 z = Fin z"
  shows "IU_Lerp (Fin x, Fin y, Fin z, w) (IU_Lerp (Fin x, Fin y, Fin z, w) (Fin x, Fin y, Fin z, w) (Fin t)) (Fin t)
     = (Fin x, Fin y, Fin z, Fin 1)"
  using assms by (simp add: IU_Lerp_def lerp_same)

end
