(* ===== verification/Optimizer.thy ===== *)
theory Optimizer
  imports Compression Networking
begin

text \<open>
  The network optimizers, which put the compression service under whole messages:
  \<open>NetworkOptimizer\<close> (\<open>src/optimization/NetworkOptimizer.cpp\<close>) compresses the body of a
  message, \<open>NetworkOptimizerImpl\<close> its serialised form, and \<open>DynamicNetworkOptimizer\<close> has two
  schemes of its own, between which it chooses by an analysis of the bytes.  Both read the clock
  around the call of the service (the times \<open>t0\<close>, \<open>t1\<close>) and use the service's single instance,
  the state \<open>s\<close>.

  Left out are the functions that name enumerators or types no header declares:
  \<open>NetworkOptimizer::SmartCompress\<close> and the statistics of the dynamic optimizer.
\<close>

section \<open>NetworkOptimizer\<close>

definition chosen_algorithm :: "u8 list \<Rightarrow> CompressionAlgorithm \<times> CompressionLevel" where
  "chosen_algorithm data =
     (if length data < 1024 then (LZ4, Fast)
      else if length data < 10240 then (LZ4, Balanced)
      else (LZ4HC, CompressionLevel.High))"

definition ApplyCompression :: "int \<Rightarrow> int \<Rightarrow> u8 list \<Rightarrow> DataCompression \<Rightarrow> u8 list \<times> DataCompression" where
  "ApplyCompression t0 t1 data s =
     (if data = [] then (data, s)
      else let (algorithm, level) = chosen_algorithm data in Compress t0 t1 data algorithm level s)"

definition ApplyDecompression ::
    "int \<Rightarrow> int \<Rightarrow> u8 list \<Rightarrow> DataCompression \<Rightarrow> (u8 list \<times> DataCompression) option" where
  "ApplyDecompression t0 t1 data s =
     (if data = [] then Some (data, s)
      else let algorithm = (if 8 \<le> length data then cast_algorithm (data ! 0) else LZ4)
        in Decompress t0 t1 data algorithm s)"

text \<open>A message with a new body; the size field is the length as a 32-bit number.\<close>

definition with_body :: "u8 list \<Rightarrow> message \<Rightarrow> message" where
  "with_body bs msg = msg\<lparr>ms_body := bs, ms_size := of_nat (length bs)\<rparr>"

definition CompressMessage :: "int \<Rightarrow> int \<Rightarrow> message \<Rightarrow> DataCompression \<Rightarrow> message \<times> DataCompression" where
  "CompressMessage t0 t1 originalMessage s =
     (let (bs, s1) = ApplyCompression t0 t1 (ms_body originalMessage) s
      in (with_body bs originalMessage, s1))"

definition DecompressMessage ::
    "int \<Rightarrow> int \<Rightarrow> message \<Rightarrow> DataCompression \<Rightarrow> (message \<times> DataCompression) option" where
  "DecompressMessage t0 t1 compressedMessage s =
     map_option (\<lambda>(bs, s1). (with_body bs compressedMessage, s1))
       (ApplyDecompression t0 t1 (ms_body compressedMessage) s)"

text \<open>Batches: every message is one packet, its header in front of its body.\<close>

definition message_packet :: "message \<Rightarrow> u8 list" where
  "message_packet msg = header_bytes msg @ ms_body msg"

definition packet_message :: "u8 list \<Rightarrow> message" where
  "packet_message packet =
     \<lparr>ms_id = read_le32 packet, ms_size = read_le32 (drop 4 packet), ms_body = drop 8 packet\<rparr>"

definition NO_CompressBatch ::
    "int \<Rightarrow> int \<Rightarrow> message list \<Rightarrow> DataCompression \<Rightarrow> u8 list \<times> DataCompression" where
  "NO_CompressBatch t0 t1 messages s =
     (if messages = [] then ([], s) else CompressBatch t0 t1 (map message_packet messages) s)"

definition NO_DecompressBatch ::
    "int \<Rightarrow> int \<Rightarrow> u8 list \<Rightarrow> DataCompression \<Rightarrow> (message list \<times> DataCompression) option" where
  "NO_DecompressBatch t0 t1 compressedBatch s =
     (if compressedBatch = [] then Some ([], s)
      else map_option (\<lambda>(packets, s1). (map packet_message (filter (\<lambda>p. \<not> length p < 8) packets), s1))
             (DecompressBatch t0 t1 compressedBatch s))"

section \<open>NetworkOptimizerImpl\<close>

text \<open>The identifier and the size are written byte by byte, least significant first.\<close>

definition SerializeMessage :: "message \<Rightarrow> u8 list" where
  "SerializeMessage msg =
     [ucast (ms_id msg), ucast (drop_bit 8 (ms_id msg)), ucast (drop_bit 16 (ms_id msg)), ucast (drop_bit 24 (ms_id msg)),
      ucast (ms_size msg), ucast (drop_bit 8 (ms_size msg)), ucast (drop_bit 16 (ms_size msg)), ucast (drop_bit 24 (ms_size msg))]
     @ ms_body msg"

text \<open>The message at an offset and the offset behind it; \<open>None\<close> is the result \<open>false\<close>.\<close>

definition DeserializeMessage :: "u8 list \<Rightarrow> nat \<Rightarrow> (message \<times> nat) option" where
  "DeserializeMessage data offset =
     (if length data < offset + 8 then None
      else let ident = read_le32 (drop offset data); size = read_le32 (drop (offset + 4) data); body = offset + 8
        in if length data < body + unat size then None
           else Some (\<lparr>ms_id = ident, ms_size = size, ms_body = take (unat size) (drop body data)\<rparr>, body + unat size))"

text \<open>The loop of \<open>DecompressBatch\<close>: it stops at the end of the data or at the first failure.\<close>

function deserialize_from :: "u8 list \<Rightarrow> nat \<Rightarrow> message list" where
  "deserialize_from data offset =
     (if offset < length data then
        (case DeserializeMessage data offset of
           None \<Rightarrow> [] | Some (msg, offset') \<Rightarrow> msg # deserialize_from data offset')
      else [])"
  by pat_completeness auto
termination
  by (relation "measure (\<lambda>(data, offset). length data - offset)")
     (auto simp: DeserializeMessage_def Let_def split: if_splits)

declare deserialize_from.simps [simp del]

text \<open>A fresh message with the identifier of another.\<close>

definition message_of :: "u32 \<Rightarrow> u8 list \<Rightarrow> message" where
  "message_of ident bs = \<lparr>ms_id = ident, ms_size = of_nat (length bs), ms_body = bs\<rparr>"

definition Impl_CompressMessage ::
    "bool \<Rightarrow> int \<Rightarrow> int \<Rightarrow> message \<Rightarrow> DataCompression \<Rightarrow> message \<times> DataCompression" where
  "Impl_CompressMessage m_compressionEnabled t0 t1 originalMessage s =
     (if \<not> m_compressionEnabled then (originalMessage, s)
      else let (bs, s1) = Compress t0 t1 (SerializeMessage originalMessage) LZ4 Balanced s
        in (message_of (ms_id originalMessage) bs, s1))"

text \<open>The decompressed bytes become the body; they are not deserialised.\<close>

definition Impl_DecompressMessage ::
    "bool \<Rightarrow> int \<Rightarrow> int \<Rightarrow> message \<Rightarrow> DataCompression \<Rightarrow> (message \<times> DataCompression) option" where
  "Impl_DecompressMessage m_compressionEnabled t0 t1 compressedMessage s =
     (if \<not> m_compressionEnabled then Some (compressedMessage, s)
      else map_option (\<lambda>(bs, s1). (message_of (ms_id compressedMessage) bs, s1))
             (Decompress t0 t1 (ms_body compressedMessage) LZ4 s))"

definition Impl_CompressBatch ::
    "int \<Rightarrow> int \<Rightarrow> message list \<Rightarrow> DataCompression \<Rightarrow> u8 list \<times> DataCompression" where
  "Impl_CompressBatch t0 t1 messages s =
     (if messages = [] then ([], s)
      else Compress t0 t1 (concat (map SerializeMessage messages)) LZ4 CompressionLevel.High s)"

definition Impl_DecompressBatch ::
    "int \<Rightarrow> int \<Rightarrow> u8 list \<Rightarrow> DataCompression \<Rightarrow> (message list \<times> DataCompression) option" where
  "Impl_DecompressBatch t0 t1 compressedBatch s =
     (if compressedBatch = [] then Some ([], s)
      else map_option (\<lambda>(bs, s1). (deserialize_from bs 0, s1)) (Decompress t0 t1 compressedBatch LZ4 s))"

text \<open>The placeholder enumeration has the values 0, 1 and 2 for connect, disconnect and message.\<close>

definition Impl_SmartCompress ::
    "int \<Rightarrow> int \<Rightarrow> u8 list \<Rightarrow> u32 \<Rightarrow> DataCompression \<Rightarrow> u8 list \<times> DataCompression" where
  "Impl_SmartCompress t0 t1 data messageType s =
     (if data = [] then (data, s)
      else if messageType = 0 \<or> messageType = 1 then Compress t0 t1 data LZ4 Fast s
      else Compress t0 t1 data LZ4 Balanced s)"

section \<open>DynamicNetworkOptimizer\<close>

text \<open>Its two schemes are, loop for loop, those of the compression service.\<close>

definition CompressRLE :: "u8 list \<Rightarrow> u8 list" where
  "CompressRLE data = CompressZlib data"

definition DecompressRLE :: "u8 list \<Rightarrow> u8 list" where
  "DecompressRLE data = DecompressZlib data"

definition CompressLZ77 :: "u8 list \<Rightarrow> u8 list" where
  "CompressLZ77 data = lz_encode data 0"

definition DecompressLZ77 :: "u8 list \<Rightarrow> u8 list option" where
  "DecompressLZ77 data = lz_decode [] data"

text \<open>
  The analysis of a non-empty vector: entropy and repetition.  \<open>log2f\<close> belongs to the C library
  and is a parameter.
\<close>

definition byte_count :: "u8 list \<Rightarrow> nat \<Rightarrow> nat" where
  "byte_count data b = length (filter (\<lambda>x. unat x = b) data)"

definition entropy_term :: "(flt \<Rightarrow> flt) \<Rightarrow> u8 list \<Rightarrow> nat \<Rightarrow> flt \<Rightarrow> flt" where
  "entropy_term log2f data b entropy =
     (if 0 < byte_count data b then
        let probability = div32 (f32_of_nat (byte_count data b)) (f32_of_nat (length data))
        in sub32 entropy (mul32 probability (log2f probability))
      else entropy)"

definition AnalyzeData :: "(flt \<Rightarrow> flt) \<Rightarrow> u8 list \<Rightarrow> flt \<times> flt" where
  "AnalyzeData log2f data =
     (let entropy = fold (entropy_term log2f data) [0 ..< 256] (Fin 0);
          repetitions = length (filter (\<lambda>i. data ! i = data ! (i - 1)) [1 ..< length data])
      in (div32 entropy (Fin 8), div32 (f32_of_nat repetitions) (f32_of_nat (length data))))"

text \<open>
  The detection loops run to \<open>data.size() - 2\<close> and \<open>data.size() - 1\<close> as unsigned numbers: on a
  single byte the first loop reads past the end (\<open>None\<close>).
\<close>

definition IsRLECompressed :: "u8 list \<Rightarrow> bool option" where
  "IsRLECompressed data =
     (if length data < 2 then None
      else Some (list_ex (\<lambda>i. data ! i = 0xFF \<and> 3 < data ! (i + 1)) [0 ..< length data - 2]))"

definition IsLZ77Compressed :: "u8 list \<Rightarrow> bool option" where
  "IsLZ77Compressed data =
     (if data = [] then None else Some (list_ex (\<lambda>i. bit (data ! i) 7) [0 ..< length data - 1]))"

definition ApplyDynamicCompression ::
    "(flt \<Rightarrow> flt) \<Rightarrow> int \<Rightarrow> int \<Rightarrow> u8 list \<Rightarrow> DataCompression \<Rightarrow> u8 list \<times> DataCompression" where
  "ApplyDynamicCompression log2f t0 t1 data s =
     (if data = [] then (data, s)
      else let (entropy, repetition) = AnalyzeData log2f data
        in if f_lt entropy (Fin (1 / 2)) then (CompressRLE data, s)
           else if f_lt (rnd32 (3 / 10)) repetition then (CompressLZ77 data, s)
           else Compress t0 t1 data LZ4 Balanced s)"

definition ApplyDynamicDecompression ::
    "int \<Rightarrow> int \<Rightarrow> u8 list \<Rightarrow> DataCompression \<Rightarrow> (u8 list \<times> DataCompression) option" where
  "ApplyDynamicDecompression t0 t1 data s =
     (if data = [] then Some (data, s)
      else case IsRLECompressed data of
        None \<Rightarrow> None
      | Some True \<Rightarrow> Some (DecompressRLE data, s)
      | Some False \<Rightarrow>
          (case IsLZ77Compressed data of
             None \<Rightarrow> None
           | Some True \<Rightarrow> map_option (\<lambda>bs. (bs, s)) (DecompressLZ77 data)
           | Some False \<Rightarrow> Decompress t0 t1 data LZ4 s))"

end
