(* ===== verification/OptimizerProps.thy ===== *)
theory OptimizerProps
  imports Optimizer CompressionProps
begin

text \<open>
  What the optimizers guarantee: the serialised form of a list of messages parses back into the
  list, and the way through the compression service is the identity exactly where the service
  hands the bytes through.  The same for the two schemes of the dynamic optimizer and their
  detection.
\<close>

section \<open>Serialised messages\<close>

definition sized :: "message \<Rightarrow> bool" where
  "sized m \<longleftrightarrow> ms_size m = of_nat (length (ms_body m)) \<and> length (ms_body m) < 2 ^ 32"

text \<open>The reference parser: one message off the front.\<close>

definition parse_message :: "u8 list \<Rightarrow> (message \<times> u8 list) option" where
  "parse_message bs =
     (if length bs < 8 then None
      else let n = unat (read_le32 (drop 4 bs)); rest = drop 8 bs
        in if length rest < n then None
           else Some (\<lparr>ms_id = read_le32 bs, ms_size = read_le32 (drop 4 bs), ms_body = take n rest\<rparr>, drop n rest))"

lemma SerializeMessage_le32: "SerializeMessage m = le32 (ms_id m) @ le32 (ms_size m) @ ms_body m"
  by (simp add: SerializeMessage_def le32_def)

lemma length_SerializeMessage [simp]: "length (SerializeMessage m) = 8 + length (ms_body m)"
  by (simp add: SerializeMessage_def)

lemma parse_SerializeMessage: "sized m \<Longrightarrow> parse_message (SerializeMessage m @ rest) = Some (m, rest)"
  by (simp add: parse_message_def sized_def SerializeMessage_le32 Let_def unat_of_nat take_bit_nat_eq_self
      flip: add_2_eq_Suc')

interpretation serialized: stream_codec SerializeMessage parse_message sized
  by unfold_locales (simp_all add: parse_SerializeMessage, simp add: SerializeMessage_def)

text \<open>The loop over offsets is the parser on the bytes that are left.\<close>

lemma DeserializeMessage_parse:
  "offset \<le> length data \<Longrightarrow>
     DeserializeMessage data offset
       = map_option (\<lambda>(m, rest). (m, length data - length rest)) (parse_message (drop offset data))"
  by (auto simp: DeserializeMessage_def parse_message_def Let_def add.commute)

lemma parse_message_rest:
  "parse_message (drop offset data) = Some (m, rest) \<Longrightarrow>
     rest = drop (length data - length rest) data \<and> length rest < length data - offset"
  by (auto simp: parse_message_def Let_def add.commute split: if_splits)

lemma deserialize_parse_all:
  "offset \<le> length data \<Longrightarrow> length data - offset \<le> n \<Longrightarrow>
     deserialize_from data offset = parse_all n parse_message (drop offset data)"
proof (induction n arbitrary: offset)
  case 0
  then show ?case by (simp add: deserialize_from.simps)
next
  case (Suc n)
  show ?case
  proof (cases "parse_message (drop offset data)")
    case None
    then show ?thesis
      using Suc.prems by (subst deserialize_from.simps) (simp add: DeserializeMessage_parse)
  next
    case (Some p)
    then obtain m rest where p: "parse_message (drop offset data) = Some (m, rest)" by (cases p) auto
    note r = parse_message_rest [OF this]
    have "deserialize_from data (length data - length rest)
        = parse_all n parse_message (drop (length data - length rest) data)"
      using r Suc.prems by (intro Suc.IH) auto
    moreover have "offset < length data" using r by linarith
    ultimately show ?thesis
      using p r by (subst deserialize_from.simps) (simp add: DeserializeMessage_parse)
  qed
qed

lemma length_serialized: "length ms \<le> length (concat (map SerializeMessage ms))"
  by (induction ms) simp_all

lemma deserialize_serialized:
  "\<forall>m \<in> set ms. sized m \<Longrightarrow> deserialize_from (concat (map SerializeMessage ms)) 0 = ms"
  using deserialize_parse_all [of 0 "concat (map SerializeMessage ms)" "length (concat (map SerializeMessage ms))"]
    serialized.parse_all_enc [of ms] length_serialized [of ms]
  by simp

section \<open>Batches through the compression service\<close>

lemma first_serialized:
  "ms \<noteq> [] \<Longrightarrow> concat (map SerializeMessage ms) ! 0 = ucast (ms_id (hd ms))"
  by (cases ms) (simp_all add: SerializeMessage_def)

lemma Decompress_raw:
  "\<not> dc_initialized s \<or> 10 \<le> length bs \<and> bs ! 0 \<notin> {1, 2, 3} \<Longrightarrow>
     map_option fst (Decompress t0 t1 bs a s) = Some bs"
  by (auto simp: Decompress_def cast_algorithm_def)

text \<open>Two zero bytes in front shift the identifier of the first message.\<close>

lemma shifted_identifier:
  "parse_message (0 # 0 # bs) = Some (m, rest) \<Longrightarrow> 4 \<le> length bs \<Longrightarrow> ms_id m = push_bit 16 (read_le32 bs)"
  by (auto simp: parse_message_def Let_def read_le32_def bit_simps split: if_splits intro!: bit_word_eqI)

lemma push_bit_fixed: "(w :: u32) = push_bit 16 w \<Longrightarrow> w = 0"
proof -
  assume w: "w = push_bit 16 w"
  then have "w = push_bit 16 (push_bit 16 w)" by simp
  then have "w = push_bit 32 w" by (simp only: push_bit_push_bit) simp
  moreover have "push_bit 32 w = 0" by (rule bit_word_eqI) (auto simp: bit_simps)
  ultimately show "w = 0" by (rule trans)
qed

lemma shifted_batch:
  assumes "ms \<noteq> []" "ms_id (hd ms) \<noteq> 0"
  shows "deserialize_from (0 # 0 # concat (map SerializeMessage ms)) 0 \<noteq> ms"
proof
  let ?bs = "concat (map SerializeMessage ms)"
  assume eq: "deserialize_from (0 # 0 # ?bs) 0 = ms"
  obtain m ms' where ms: "ms = m # ms'" using assms(1) by (cases ms) auto
  have "deserialize_from (0 # 0 # ?bs) 0 = parse_all (Suc (Suc (length ?bs))) parse_message (0 # 0 # ?bs)"
    using deserialize_parse_all [of 0 "0 # 0 # ?bs" "Suc (Suc (length ?bs))"] by simp
  then have "parse_all (Suc (Suc (length ?bs))) parse_message (0 # 0 # ?bs) = m # ms'"
    by (rule trans [OF sym trans [OF eq ms]])
  then obtain rest where "parse_message (0 # 0 # ?bs) = Some (m, rest)"
    by (cases "parse_message (0 # 0 # ?bs)") auto
  then have "ms_id m = push_bit 16 (read_le32 ?bs)"
    by (rule shifted_identifier) (simp add: ms)
  moreover have "read_le32 ?bs = ms_id m" by (simp add: ms SerializeMessage_le32)
  ultimately show False using push_bit_fixed assms(2) ms by auto
qed

text \<open>
  Batches of messages: the serialised form of any list of messages with true sizes parses
  back into the list, and the batch comes back from the optimizer whenever the compression
  service hands the bytes through (it is not initialised, or the batch is below its limit, has
  at least ten bytes and does not start with 1, 2 or 3).  A batch of a single empty message is
  undefined behaviour to unpack, and a batch of plain bytes that is really compressed never
  comes back: two stray zero bytes shift every header.
\<close>

lemma message_batches_come_back:
  assumes "\<forall>m \<in> set ms. sized m" "ms \<noteq> []"
  defines "bytes \<equiv> concat (map SerializeMessage ms)"
  shows "deserialize_from bytes 0 = ms
     \<and> (\<not> dc_initialized s
          \<or> length bytes < unat (dc_minCompressionSize s) \<and> 10 \<le> length bytes \<and> bytes ! 0 \<notin> {1, 2, 3}
        \<longrightarrow> map_option fst (Impl_DecompressBatch t2 t3 (fst (Impl_CompressBatch t0 t1 ms s)) s) = Some ms)
     \<and> (dc_initialized s \<and> 8 < unat (dc_minCompressionSize s) \<and> length bytes = 8
        \<longrightarrow> Impl_DecompressBatch t2 t3 (fst (Impl_CompressBatch t0 t1 ms s)) s = None)
     \<and> (compresses LZ4 CompressionLevel.High bytes s \<and> plain bytes \<and> length bytes < 65536 \<and> ms_id (hd ms) \<noteq> 0
        \<longrightarrow> (\<exists>ms'. map_option fst (Impl_DecompressBatch t2 t3 (fst (Impl_CompressBatch t0 t1 ms s)) s) = Some ms'
                  \<and> ms' \<noteq> ms))"
proof (intro conjI impI)
  have ne: "bytes \<noteq> []" using assms(2) by (cases ms) (auto simp: bytes_def SerializeMessage_def)
  have batch: "fst (Impl_CompressBatch t0 t1 ms s) = fst (Compress t0 t1 bytes LZ4 CompressionLevel.High s)"
    using assms(2) by (simp add: Impl_CompressBatch_def bytes_def)
  show parsed: "deserialize_from bytes 0 = ms" unfolding bytes_def by (rule deserialize_serialized [OF assms(1)])
  { assume h: "\<not> dc_initialized s
        \<or> length bytes < unat (dc_minCompressionSize s) \<and> 10 \<le> length bytes \<and> bytes ! 0 \<notin> {1, 2, 3}"
    then have "fst (Compress t0 t1 bytes LZ4 CompressionLevel.High s) = bytes"
      by (intro Compress_raw) (auto simp: compresses_def IsCompressible_def)
    moreover have "map_option fst (Decompress t2 t3 bytes LZ4 s) = Some bytes"
      using h by (intro Decompress_raw) auto
    ultimately show "map_option fst (Impl_DecompressBatch t2 t3 (fst (Impl_CompressBatch t0 t1 ms s)) s) = Some ms"
      using ne parsed by (auto simp: batch Impl_DecompressBatch_def) }
  { assume h: "dc_initialized s \<and> 8 < unat (dc_minCompressionSize s) \<and> length bytes = 8"
    then have "fst (Compress t0 t1 bytes LZ4 CompressionLevel.High s) = bytes"
      by (intro Compress_raw) (auto simp: compresses_def IsCompressible_def)
    then show "Impl_DecompressBatch t2 t3 (fst (Impl_CompressBatch t0 t1 ms s)) s = None"
      using h ne by (simp add: batch Impl_DecompressBatch_def Decompress_def) }
  { assume h: "compresses LZ4 CompressionLevel.High bytes s \<and> plain bytes \<and> length bytes < 65536 \<and> ms_id (hd ms) \<noteq> 0"
    then have "map_option fst (Decompress t2 t3 (fst (Compress t0 t1 bytes LZ4 CompressionLevel.High s)) LZ4 s)
        = Some (0 # 0 # bytes)"
      by (intro Decompress_compressed) (auto simp: compresses_def)
    moreover have "deserialize_from (0 # 0 # bytes) 0 \<noteq> ms"
      unfolding bytes_def using assms(2) h by (intro shifted_batch) auto
    moreover have "fst (Compress t0 t1 bytes LZ4 CompressionLevel.High s) \<noteq> []"
      using h by (simp add: Compress_compresses header_def)
    ultimately show "\<exists>ms'. map_option fst (Impl_DecompressBatch t2 t3 (fst (Impl_CompressBatch t0 t1 ms s)) s) = Some ms'
        \<and> ms' \<noteq> ms"
      by (auto simp: batch Impl_DecompressBatch_def) }
qed

lemma message_batches_come_back_witness:
  "map_option fst (Impl_DecompressBatch 0 0 (fst (Impl_CompressBatch 0 0
       [\<lparr>ms_id = 201, ms_size = 2, ms_body = [5, 6]\<rparr>, \<lparr>ms_id = 4, ms_size = 0, ms_body = []\<rparr>] service)) service)
     = Some [\<lparr>ms_id = 201, ms_size = 2, ms_body = [5, 6]\<rparr>, \<lparr>ms_id = 4, ms_size = 0, ms_body = []\<rparr>]
   \<and> Impl_DecompressBatch 0 0 (fst (Impl_CompressBatch 0 0 [message_new] service)) service = None"
proof -
  have "unat (dc_minCompressionSize service) = 64" "dc_initialized service" by code_simp+
  then show ?thesis
    using message_batches_come_back
        [of "[\<lparr>ms_id = 201, ms_size = 2, ms_body = [5, 6]\<rparr>, \<lparr>ms_id = 4, ms_size = 0, ms_body = []\<rparr>]" service 0 0 0 0]
      message_batches_come_back [of "[message_new]" service 0 0 0 0]
    by (simp add: sized_def SerializeMessage_def message_new_def)
qed

section \<open>The schemes of the dynamic optimizer\<close>

text \<open>Plain bytes are not taken for either scheme, and a run that was really encoded is recognised.\<close>

lemma plain_nth: "plain d \<Longrightarrow> i < length d \<Longrightarrow> d ! i \<noteq> 0xFF \<and> \<not> bit (d ! i) 7"
  using nth_mem [of i d] plain_no_escape [of d] plain_literals [of d "d ! i"] by auto

lemma plain_not_detected:
  assumes "plain d" "2 \<le> length d"
  shows "IsRLECompressed d = Some False" "IsLZ77Compressed d = Some False"
proof -
  have "d ! i \<noteq> 0xFF" "\<not> bit (d ! i) 7" if "i < length d" for i
    using plain_nth [OF assms(1) that] by auto
  with assms(2) show "IsRLECompressed d = Some False" "IsLZ77Compressed d = Some False"
    by (auto simp: IsRLECompressed_def IsLZ77Compressed_def list_ex_iff)
qed

lemma detected_at:
  "i + 2 < length d \<Longrightarrow> d ! i = 0xFF \<Longrightarrow> 3 < d ! (i + 1) \<Longrightarrow> IsRLECompressed d = Some True"
  by (auto simp: IsRLECompressed_def list_ex_iff)

lemma shift_detected: "IsRLECompressed d = Some True \<Longrightarrow> IsRLECompressed (p @ d) = Some True"
proof -
  assume "IsRLECompressed d = Some True"
  then obtain i where "i < length d - 2" "d ! i = 0xFF" "3 < d ! (i + 1)"
    by (auto simp: IsRLECompressed_def list_ex_iff split: if_splits)
  then show ?thesis by (intro detected_at [of "length p + i"]) (simp_all add: nth_append)
qed

lemma CompressRLE_detected: "CompressRLE d = d \<or> IsRLECompressed (CompressRLE d) = Some True"
  unfolding CompressRLE_def
proof (induction d rule: CompressZlib.induct)
  case (2 c bs)
  let ?m = "run_length c bs 1"
  let ?d = "drop ?m (c # bs)"
  have IH: "CompressZlib ?d = ?d \<or> IsRLECompressed (CompressZlib ?d) = Some True" by (intro "2.IH") simp
  show ?case
  proof (cases "3 < ?m")
    case True
    have "?m \<le> 255" using run_length_spec [of c bs 1] by simp
    with True have "(3 :: u8) < of_nat ?m" by (simp add: word_less_nat_alt unat_of_nat)
    with True show ?thesis
      by (intro disjI2 detected_at [of 0]) (simp_all add: Let_def)
  next
    case False
    then have "CompressZlib (c # bs) = replicate ?m c @ CompressZlib ?d" by (simp add: Let_def)
    with IH show ?thesis using run_length_split [of c bs] shift_detected by metis
  qed
qed simp

text \<open>
  Plain data whose entropy calls for run lengths and which has a run to encode come back; data of
  one byte are undefined behaviour to unpack.
\<close>

lemma dynamic_run_lengths_return:
  assumes "plain d" "f_lt (fst (AnalyzeData log2f d)) (Fin (1 / 2))" "CompressRLE d \<noteq> d"
  shows "map_option fst (ApplyDynamicDecompression t2 t3 (fst (ApplyDynamicCompression log2f t0 t1 d s)) s) = Some d"
proof -
  have "d \<noteq> []" using assms(3) by (auto simp: CompressRLE_def)
  then have "fst (ApplyDynamicCompression log2f t0 t1 d s) = CompressRLE d"
    using assms(2) by (cases "AnalyzeData log2f d") (simp add: ApplyDynamicCompression_def)
  moreover have "IsRLECompressed (CompressRLE d) = Some True" using CompressRLE_detected assms(3) by blast
  moreover have "DecompressRLE (CompressRLE d) = d"
    using assms(1) by (simp add: DecompressRLE_def CompressRLE_def DecompressZlib_CompressZlib plain_no_escape)
  moreover have "CompressRLE d \<noteq> []" using calculation(2) by (auto simp: IsRLECompressed_def)
  ultimately show ?thesis by (simp add: ApplyDynamicDecompression_def)
qed

lemma single_byte_undefined: "ApplyDynamicDecompression t0 t1 [b] s = None"
  by (simp add: ApplyDynamicDecompression_def IsRLECompressed_def)

end
