(* ===== verification/Spec2Isabelle.thy ===== *)
theory Spec2Isabelle
  imports EconomyCases CombatSystemProps AssetProps ModInterface GameProps ProgressionProps QuestSync QuestGroups CompressionProps
    ServerProps SaveProps MessagePriorityProps StoryProps ExplorationProps
    MonsterLife BatchProps Config DiscoveryProps MovementProps ProtocolRuns ClientProps InterpolationProps
    OptimizerProps
begin

text \<open>
  Verification of the game systems and the networking of a multiplayer mod for The Witcher 3.

  The program.  A C++ server and client (\<open>src/src\<close>, \<open>src/include\<close>) keep the state that several
  players share.  Each game system is a class with maps keyed by 32-bit ids, operations that return
  \<open>bool\<close>, callbacks to the caller and counters: the economy (items, purses, merchants, barter), the
  progression (experience, levels, skills, achievements, groups), the cooperative quests, the story
  sessions and the save files.  Below them sit the messages and their thread-safe queue, the
  connection with its asynchronous reads and writes, the server that accepts and messages clients,
  the compression of packets, and the priority queue of outgoing messages.  The systems do not call
  each other except through data: saves hold player and world data, story sessions and saves reuse
  the types of the quests and the economy, the server owns connections, the connection owns the
  message queue.  Above them are the game server program, whose players and monsters live between
  the handlers of the server, the game client, and the integration: the bridges to the game scripts
  and to the modding tool, the asset loader and the combat system, which start one another and the
  combat optimiser.

  Foundations.
    \<^item> \<open>Prelude\<close>: 32- and 64-bit words, \<open>std::map\<close> as a key-sorted association list (\<open>om_put\<close>,
      \<open>om_find\<close>, \<open>om_erase\<close>) with its contract \<open>ordered_map\<close>, the add/get/remove interface
      \<open>registry\<close>, decimal strings, and the locales \<open>step_system\<close>, \<open>safe_system\<close>,
      \<open>counted_system\<close> that lift invariants of single operations to every sequence of operations.
    \<^item> \<open>Vectors\<close>: positions, distances and directions in \<open>float\<close>.
    \<^item> \<open>Floats\<close>: IEEE single and double arithmetic by rounding rationals, with its code equations and
      the monotonicity and exactness lemmas the price and level theorems use.
    \<^item> \<open>Bytes\<close>: little-endian encodings.  The locale \<open>codec\<close> of the prelude states the law that decoding
      gives back what was encoded; it is interpreted on these encodings, on the two compression
      schemes, on delta updates and on save files, and \<open>stream_codec\<close> on the frames of a batch.
    \<^item> \<open>HeapQueue\<close>: \<open>std::priority_queue\<close> as the binary heap of the library, with the contract
      \<open>ranked_queue\<close> for comparators that respect a rank without being weak orders.

  Components, each a model theory followed by lemma and property theories.
    \<^item> \<open>Economy\<close>, \<open>Trading\<close> (\<open>game/GlobalEconomy.cpp\<close>); \<open>EconomyLib\<close> (frame and map lemmas, the
      invariant \<open>economy_ok\<close>), \<open>EconomyProps\<close> (conservation of gold, refinement of a ledger),
      \<open>EconomyCases\<close> (errors, weights, prices, casts).
    \<^item> \<open>Progression\<close>, \<open>ProgressionGroups\<close> (\<open>game/SharedProgression.cpp\<close>); \<open>ProgressionLib\<close> (termination
      and exactness of the level loop), \<open>ProgressionProps\<close>.
    \<^item> \<open>Quests\<close>, \<open>QuestEvents\<close> (\<open>game/CooperativeQuests.cpp\<close>); \<open>QuestLib\<close>; \<open>QuestProps\<close> (life cycle and
      bounds), \<open>QuestSync\<close> (synchronisation, liveness), \<open>QuestGroups\<close> (groups and membership lists).
    \<^item> \<open>Compression\<close> (\<open>optimization/DataCompression.cpp\<close>); \<open>CompressionLib\<close> (the two schemes),
      \<open>CompressionProps\<close> (headers, delta updates, batches).
    \<^item> \<open>Networking\<close> (\<open>networking/net_message.h\<close>, \<open>net_tsqueue.h\<close>, \<open>net_connection.h\<close>, the position
      messages) and \<open>NetworkProps\<close>; \<open>Server\<close> (\<open>net_server.h\<close>,
      \<open>net_server.cpp\<close>) and \<open>ServerProps\<close>.
    \<^item> \<open>SaveSystem\<close> (\<open>game/SharedSaveSystem.cpp\<close>) and \<open>SaveProps\<close> (what comes back from a file, what the
      checksum sees).
    \<^item> \<open>MessagePriority\<close> (\<open>optimization/MessagePrioritySystem.cpp\<close>) and \<open>MessagePriorityProps\<close> (the queue as
      a \<open>ranked_queue\<close>, the books of the traffic manager).
    \<^item> \<open>SharedStory\<close> (\<open>game/SharedStoryMode.cpp\<close>) and \<open>StoryProps\<close>, whose locale \<open>session_law\<close> is the
      interface between the operations and a law on sessions; it is interpreted on well-formedness
      and on the growth of decisions.
    \<^item> \<open>Exploration\<close> (\<open>game/ExplorationMode.cpp\<close>) and \<open>ExplorationProps\<close> (the invariant of sessions and
      contracts, what locking a fast travel point does, symmetric distances).
    \<^item> \<open>MonsterAI\<close> (\<open>game/SyncedMonsterAI.cpp\<close>); \<open>MonsterProps\<close> (its locale \<open>monster_loop\<close> turns a loop over
      the monsters into one function applied to each) and \<open>MonsterLife\<close> (the transitions \<open>ai_moves\<close>, an
      update as the behaviour \<open>think\<close> of single monsters, the outcome of a hit).
    \<^item> \<open>Batching\<close> and \<open>BatchCodec\<close> (\<open>optimization/SmartBatching.cpp\<close>); \<open>BatchProps\<close> (where every message
      is, the round trip over the wire, groups, batches by size).
    \<^item> \<open>Movement\<close> (\<open>optimization/MovementPrediction.cpp\<close>) and \<open>MovementProps\<close> (what a reconciliation
      settles, the independence of the players of a manager).
    \<^item> \<open>Protocol\<close> (\<open>optimization/OptimizedNetworkProtocol.cpp\<close>), which puts compression, batching, the
      traffic manager and prediction together; \<open>ProtocolProps\<close> (from the messages of the sender to those
      of the receiver, fragments) and \<open>ProtocolRuns\<close> (numbers and tracking of packets, what the default
      configuration sends).
    \<^item> \<open>Config\<close> (\<open>utils/ConfigManager.cpp\<close>: a saved configuration is loaded again) and \<open>Discovery\<close>
      (\<open>networking/LANDiscovery.cpp\<close>) with \<open>DiscoveryProps\<close> (the listed servers, the end of a search);
      both rest on \<open>Text\<close> (lines, trimming, numbers in text).

  The client, the game server program and the integration.

    \<^item> \<open>Client\<close> (\<open>networking/net_client.h\<close>, \<open>net_client.cpp\<close>): a client over its connection, with the thread
      that runs its context; \<open>ClientProps\<close> (how many messages a client can receive, when an update is
      defined).
    \<^item> \<open>Optimizer\<close> (\<open>optimization/NetworkOptimizer.cpp\<close>, \<open>NetworkOptimizerImpl.cpp\<close>,
      \<open>DynamicNetworkOptimizer.cpp\<close>): messages and batches through the compression service, and two schemes
      with markers; \<open>OptimizerProps\<close> (which of them come back).
    \<^item> \<open>Interpolation\<close> (\<open>optimization/PositionInterpolation.cpp\<close>) on \<open>Sorts\<close>, the contract of
      \<open>std::sort\<close>; \<open>InterpolationProps\<close> (when the loops over angles end, the order of the snapshots).
    \<^item> \<open>Wire\<close>: positions, \<open>float\<close> and \<open>bool\<close> as bytes of a message.  \<open>GameServer\<close> (\<open>core/Main.cpp\<close>,
      \<open>game/Entities\<close>) composes them with \<open>Server\<close> and \<open>ResourceNames\<close> (\<open>database/ResourceNames.cpp\<close>): the
      handlers, the console command, one round of the main loop; \<open>GameProps\<close> (health, who hears a chat
      message, what a disconnect does).  Messages to a client that is gone notice the disconnect,
      which messages the others: the fuel is one more than the number of players, as every disconnect
      that is noticed takes a player out of the list.
    \<^item> \<open>Combat\<close> (\<open>optimization/CombatOptimizer.cpp\<close>) and \<open>CombatProps\<close> (the order of execution, the lock).
    \<^item> \<open>ScriptBridge\<close> (\<open>integration/WitcherScriptBridge.cpp\<close>), \<open>Redkit\<close> (\<open>integration/REDkitBridge.cpp\<close>),
      \<open>ModInterface\<close> (\<open>integration/TW3ModInterface.cpp\<close>): the bridges; what the engine and the tool answer
      is simulated by the code itself.  \<open>Crc\<close> (the checksum of \<open>integration/AssetLoader.cpp\<close> as a linear
      injection of its register) and \<open>Assets\<close> (the rest of it, over \<open>Compression\<close> and the bridges);
      \<open>AssetProps\<close> (what a loaded script serves, the table of assets, changes the checksum notices, saved
      files).
    \<^item> \<open>CombatSystem\<close> (\<open>integration/CombatSystemIntegration.cpp\<close>), over \<open>Combat\<close> and the bridges;
      \<open>CombatSystemProps\<close> (how inputs are decoded, and that none gets through).

  Conventions.  A class is a record, a pointer into a map is its key, an operation takes the state and
  returns it with its result, and one operation reads the clock once, as its argument \<open>now\<close>.  A
  callback is a flag (installed or not) and a log of calls.  Undefined behaviour (a cast out of
  range, a read outside a buffer, a null pointer that is followed, an entry of a map that is read after it
  was erased, a string read out of bytes from the network, a mutex that its owner locks again) is \<open>None\<close>.  A subsystem has a datatype of its operations and a step
  function, and theorems about sequences quantify over lists of operations.  Memory and vectors are
  unbounded, log output is left out, and one thread runs the operations, except in \<open>wait_step\<close>, where
  the interleaving of two threads is the subject, and where the code has a thread of its own: the
  search for servers, the context of the client and the processing of combat actions run in rounds
  between the calls of the other thread.

  Fuel and bounds.  Loops are structural recursion or have a measure (the level loop, the heap, the
  loops that empty a queue); fuel is used where the data give the bound, such as the length of the
  input for \<open>parse_all\<close>, which every frame shortens.  Theorems that exclude wrap-around of the id
  counters say so (fewer than \<open>2 ^ 32\<close> ids); amounts wrap in the definitions as in the code.

  Outside the model.  asio, files and sockets are parameters with their documented behaviour: the
  file system is a map from names to bytes, and an asynchronous write or read completes by running its
  handler on the complete data.  Message types that no header declares are a parameter (\<open>PriorityTypes\<close>).  The
  disk of the asset loader has files and directories, and what is not in the repository for the
  bridges (the Lua library, scripts on the disk, the pipe) is an argument.

  Not modelled: the second priority and batching classes (their base class is not declared), what
  needs the JSON library or prints floating point numbers as text, logging and the consoles, the
  version checks, the other executables (stubs that print and wait), the vendored network
  library, and the scripts in other languages; see the component list of the manifest.
\<close>

end
